(* ===== verification/Prelude.thy ===== *)
theory Prelude
  imports Main "HOL-Library.Word"
begin

text \<open>
  Shared vocabulary of the development: the widths of the machine integers the sources use,
  the bit-set reading of the action words every reducer returns, and the lemma collections the
  component theories extend.

  Conventions used in every theory.  A C++ or C structure is a record whose fields carry a short
  prefix (two structures often use the same field name); an \<open>enum class\<close> is a datatype whose
  constructors carry the enumeration's name; an unscoped flag enumeration is a family of
  \<^typ>\<open>32 word\<close> abbreviations; \<open>uint8_t\<close> to \<open>uint64_t\<close> are words of that width, so that an
  addition wraps exactly where the code's does.  A parameter of pointer type stands for the object
  it points to: an operation takes the object and returns the updated one.  The guards against a
  null pointer, which only return the default value, are therefore not branches of the models.
\<close>

unbundle bit_operations_syntax

type_synonym u8 = "8 word"
type_synonym u16 = "16 word"
type_synonym u32 = "32 word"
type_synonym u64 = "64 word"
type_synonym bytes = "u8 list"

named_theorems flag_simps \<open>bit tests on action words\<close>
named_theorems state_defs \<open>handler definitions a state-machine proof unfolds\<close>

text \<open>
  Masks distribute over unions of flags.  With the flag constants being powers of two, the
  simplifier decides every bit test on a concrete union from these equations.
\<close>

lemma flag_or [flag_simps]:
  fixes a b f :: "'a::len word"
  shows "(a OR b) AND f = (a AND f) OR (b AND f)"
  by (rule bit_word_eqI) (auto simp: bit_simps)

lemma flag_or_eq_0 [flag_simps]:
  fixes a b :: "'a::len word"
  shows "a OR b = 0 \<longleftrightarrow> a = 0 \<and> b = 0"
  by (auto simp: bit_eq_iff bit_simps)

lemma flag_clear [flag_simps]:
  fixes a f g :: "'a::len word"
  assumes "f AND g = 0"
  shows "(a AND NOT f) AND g = a AND g"
  using assms by (auto simp: bit_eq_iff bit_simps)

lemma flag_clear_same [flag_simps]:
  fixes a f :: "'a::len word"
  shows "(a AND NOT f) AND f = 0"
  by (rule bit_word_eqI) (auto simp: bit_simps)

lemma unat_add_no_wrap:
  fixes a b :: "'a::len word"
  assumes "unat a + unat b < 2 ^ LENGTH('a)"
  shows "unat (a + b) = unat a + unat b"
  using assms by (simp add: unat_word_ariths)

lemma unat_less_neq_max:
  fixes a :: "'a::len word"
  assumes "a \<noteq> - 1"
  shows "unat (a + 1) = Suc (unat a)"
proof -
  have "a + 1 \<noteq> 0"
    using assms by (metis add_eq_0_iff2)
  then have "unat (a + 1 - 1) = unat (a + 1) - 1" and "unat (a + 1) \<noteq> 0"
    using unat_minus_one [of "a + 1"] unat_eq_0 [of "a + 1"] by blast+
  then show ?thesis by simp
qed

lemma plus_1_eq_0_iff [simp]:
  fixes a :: "'a::len word"
  shows "a + 1 = 0 \<longleftrightarrow> a = - 1"
  by (metis add_eq_0_iff2)

lemma less_imp_unat_Suc:
  fixes a b :: "'a::len word"
  assumes "a < b"
  shows "unat (a + 1) = Suc (unat a)"
proof (rule unat_less_neq_max)
  show "a \<noteq> - 1" using assms by (metis not_less word_order.extremum)
qed

lemma less_imp_succ_le:
  fixes a b :: "'a::len word"
  assumes "a < b"
  shows "a + 1 \<le> b"
  using assms less_imp_unat_Suc [OF assms]
  by (simp add: word_le_nat_alt word_less_nat_alt)

lemma less_imp_succ_neq_0:
  fixes a b :: "'a::len word"
  assumes "a < b"
  shows "a \<noteq> - 1"
  using assms by (metis not_less word_order.extremum)

lemma unat_lt_u64: "unat (v :: u64) < 2 ^ 64"
  using unsigned_less [of v] by simp

lemma unat_max_u64: "unat (- 1 :: u64) = 2 ^ 64 - 1"
  by (simp add: unsigned_minus_1_eq_mask mask_eq_exp_minus_1)

lemma ucast_down_up [simp]:
  "ucast (ucast (v :: u8) :: u16) = v"
  "ucast (ucast (v :: u8) :: u32) = v"
  "ucast (ucast (v :: u8) :: u64) = v"
  "ucast (ucast (w :: u16) :: u32) = w"
  by (auto intro!: bit_word_eqI simp: bit_simps)

end
