(* ===== verification/Generation.thy ===== *)
theory Generation
  imports Prelude
begin

text \<open>
  ACL generations and authorization epochs: the 64-bit counters every gate of the agent compares
  to decide whether a decision is stale.  \<open>IsNewerGeneration\<close> is copied verbatim into
  \<open>avrcp_absolute_volume_state.cpp\<close>, \<open>avrcp_passthrough_state.cpp\<close> and
  \<open>v1_hfp_switch_state.cpp\<close>; one definition models all three copies.  \<open>NextNonzero\<close> is the
  counter step of the pass-through gate, written inline by the volume gate and the lifecycle.
\<close>

definition NextNonzero :: "u64 \<Rightarrow> u64" where
  "NextNonzero value = (if value = - 1 then 1 else value + 1)"

definition IsNewerGeneration :: "u64 \<Rightarrow> u64 \<Rightarrow> bool" where
  "IsNewerGeneration candidate current =
     (if candidate = 0 then False
      else if current = 0 then True
      else let distance = candidate - current in distance \<noteq> 0 \<and> distance < 2 ^ 63)"

lemma NextNonzero_nonzero [simp]: "NextNonzero v \<noteq> 0"
  by (simp add: NextNonzero_def)

lemma NextNonzero_neq [simp]: "NextNonzero v \<noteq> v"
  by (simp add: NextNonzero_def)

text \<open>The contract the generation guards rely on: zero is "no generation", the first generation
  replaces it, and two generations are never each newer than the other.\<close>

locale generation_order =
  fixes newer :: "'g \<Rightarrow> 'g \<Rightarrow> bool"
    and none :: 'g
  assumes none_never_newer: "\<not> newer none g"
    and first_newer: "g \<noteq> none \<Longrightarrow> newer g none"
    and newer_asym: "newer g h \<Longrightarrow> \<not> newer h g"
begin

lemma newer_irrefl: "\<not> newer g g"
  using newer_asym by blast

lemma newer_differs: "newer g h \<Longrightarrow> g \<noteq> h"
  using newer_irrefl by blast

lemma newer_not_none: "newer g h \<Longrightarrow> g \<noteq> none"
  using none_never_newer by blast

lemma replaced_stays_stale: "newer g h \<Longrightarrow> \<not> newer h g \<and> g \<noteq> h \<and> g \<noteq> none"
  using newer_asym newer_differs newer_not_none by blast

end

lemma unat_negate:
  fixes d :: "'a::len word"
  assumes "d \<noteq> 0"
  shows "unat (- d) = 2 ^ LENGTH('a) - unat d"
proof -
  have "unat (0 - d) = 2 ^ LENGTH('a) - unat d"
    using assms unat_sub_if_size [of 0 d] by (simp add: word_size unat_eq_0)
  then show ?thesis by simp
qed

lemma IsNewerGeneration_asym:
  assumes "IsNewerGeneration g h"
  shows "\<not> IsNewerGeneration h g"
proof (cases "g = 0 \<or> h = 0")
  case True
  then show ?thesis using assms by (auto simp: IsNewerGeneration_def)
next
  case False
  then have d: "g - h \<noteq> 0" "g - h < 2 ^ 63"
    using assms by (auto simp: IsNewerGeneration_def Let_def split: if_splits)
  have "unat (h - g) = 2 ^ 64 - unat (g - h)"
    using unat_negate [OF d(1)] by simp
  moreover have "unat (g - h) < 2 ^ 63"
    using d(2) by (simp add: word_less_nat_alt)
  ultimately have "\<not> h - g < 2 ^ 63"
    by (simp add: word_less_nat_alt)
  then show ?thesis using False by (simp add: IsNewerGeneration_def Let_def)
qed

interpretation acl: generation_order IsNewerGeneration 0
proof unfold_locales
  show "\<not> IsNewerGeneration 0 g" for g by (simp add: IsNewerGeneration_def)
  show "IsNewerGeneration g 0" if "g \<noteq> 0" for g using that by (simp add: IsNewerGeneration_def)
  show "\<not> IsNewerGeneration h g" if "IsNewerGeneration g h" for g h
    using that by (rule IsNewerGeneration_asym)
qed

lemma NextNonzero_newer: "v \<noteq> 0 \<Longrightarrow> IsNewerGeneration (NextNonzero v) v"
  by (auto simp: IsNewerGeneration_def NextNonzero_def Let_def)


section \<open>Revocable decisions\<close>

text \<open>The epoch counter runs through the nonzero values, so it does not come back to a value before
  \<open>2 ^ 64 - 1\<close> steps.\<close>

lemma unat_NextNonzero:
  assumes "v \<noteq> 0"
  shows "unat (NextNonzero v) - 1 = Suc (unat v - 1) mod (2 ^ 64 - 1)"
proof (cases "v = - 1")
  case True
  then show ?thesis by (simp add: NextNonzero_def unat_max_u64)
next
  case False
  have "unat (v + 1) = Suc (unat v)" using False by (rule unat_less_neq_max)
  moreover have "unat (v + 1) < 2 ^ 64" using unat_lt_u64 [of "v + 1"] by simp
  moreover have "0 < unat v" using assms by (simp add: unat_gt_0)
  ultimately show ?thesis using False by (simp add: NextNonzero_def)
qed

lemma unat_NextNonzero_iterate:
  assumes "v \<noteq> 0"
  shows "(NextNonzero ^^ k) v \<noteq> 0 \<and>
     unat ((NextNonzero ^^ k) v) - 1 = (unat v - 1 + k) mod (2 ^ 64 - 1)"
proof (induction k)
  case 0
  have "0 < unat v" "unat v < 2 ^ 64"
    using assms unat_lt_u64 [of v] by (simp_all add: unat_gt_0)
  then show ?case using assms by simp
next
  case (Suc k)
  then show ?case
    using unat_NextNonzero [of "(NextNonzero ^^ k) v"] by (simp add: mod_Suc_eq)
qed

lemma NextNonzero_no_return:
  assumes "0 < k" "k < 2 ^ 64 - 1"
  shows "(NextNonzero ^^ k) v \<noteq> v"
proof (cases "v = 0")
  case True
  then show ?thesis using assms(1) by (cases k) simp_all
next
  case False
  have "(unat v - 1 + k) mod (2 ^ 64 - 1) \<noteq> unat v - 1"
  proof
    assume eq: "(unat v - 1 + k) mod (2 ^ 64 - 1) = unat v - 1"
    have "unat v < 2 ^ 64" "0 < unat v"
      using unat_lt_u64 [of v] False by (simp_all add: unat_gt_0)
    then have "(unat v - 1) mod (2 ^ 64 - 1) = unat v - 1" by simp
    then have "(unat v - 1 + k) mod (2 ^ 64 - 1) = (unat v - 1) mod (2 ^ 64 - 1)"
      using eq by simp
    then have "(2 ^ 64 - 1) dvd k"
      by (metis add_diff_cancel_left' le_add1 mod_eq_dvd_iff_nat)
    then show False using assms by (auto dest: dvd_imp_le)
  qed
  then show ?thesis using unat_NextNonzero_iterate [OF False, of k] by auto
qed

text \<open>The contract of a gate that authorizes decisions: an operation either revokes, advancing the
  epoch, or leaves the epoch alone, and a decision is current only under the epoch it is stamped
  with.  A decision made before a revocation is then never executed after it.\<close>

locale revocable_gate =
  fixes step :: "'g \<Rightarrow> 'op \<Rightarrow> 'g"
    and epoch :: "'g \<Rightarrow> u64"
    and revokes :: "'g \<Rightarrow> 'op \<Rightarrow> bool"
    and current :: "'g \<Rightarrow> 'd \<Rightarrow> bool"
    and stamp :: "'d \<Rightarrow> u64"
  assumes epoch_step:
      "epoch (step g op) = (if revokes g op then NextNonzero (epoch g) else epoch g)"
    and current_stamp: "current g d \<Longrightarrow> stamp d = epoch g"
begin

fun revocations :: "'g \<Rightarrow> 'op list \<Rightarrow> nat" where
  "revocations g [] = 0"
| "revocations g (op # ops) = (if revokes g op then 1 else 0) + revocations (step g op) ops"

lemma revocations_le: "revocations g ops \<le> length ops"
  by (induction ops arbitrary: g) (auto intro: le_SucI)

lemma epoch_run:
  "epoch (foldl step g ops) = (NextNonzero ^^ revocations g ops) (epoch g)"
  by (induction ops arbitrary: g) (simp_all add: epoch_step funpow_swap1)

lemma revocations_append:
  "revocations g (xs @ ys) = revocations g xs + revocations (foldl step g xs) ys"
  by (induction xs arbitrary: g) simp_all

lemma revoked_stays_stale:
  assumes "stamp d = epoch g"
    and "revokes (foldl step g xs) op"
    and "length (xs @ op # ys) < 2 ^ 64 - 1"
  shows "\<not> current (foldl step g (xs @ op # ys)) d"
proof -
  let ?n = "revocations g (xs @ op # ys)"
  have "0 < ?n" using assms(2) by (simp add: revocations_append)
  moreover have "?n < 2 ^ 64 - 1"
    using revocations_le [of g "xs @ op # ys"] assms(3) by linarith
  ultimately have "epoch (foldl step g (xs @ op # ys)) \<noteq> epoch g"
    unfolding epoch_run by (rule NextNonzero_no_return)
  then show ?thesis using current_stamp assms(1) by metis
qed

end

end
