(* ===== verification/Lifecycle.thy ===== *)
theory Lifecycle
  imports Generation
begin

text \<open>
  The presence lifecycle of the agent, \<open>agent/v1_lifecycle.h\<close> and \<open>agent/v1_lifecycle.cpp\<close>: one
  reducer from a state and an event to the next state and a set of actions.  Each handler of the
  \<open>switch\<close> is a definition \<open>on_<Event>\<close>; \<open>ReduceV1Lifecycle\<close> dispatches to them as the
  \<open>switch\<close> does.  The invariant \<open>lifecycle_inv\<close> says how the four sub-states of the record agree;
  the properties bound the transport opens of a generation and describe the HFP suspension.
\<close>

section \<open>State, events and actions\<close>

datatype V1PhysicalPresence = PhysicalPresence_Absent | PhysicalPresence_Present

datatype V1RenderDemand = RenderDemand_Idle | RenderDemand_Running

datatype V1EngineLease = EngineLease_Absent | EngineLease_Starting | EngineLease_Ready

datatype V1MediaSession =
    MediaSession_Stopped | MediaSession_Opening | MediaSession_Streaming
  | MediaSession_Stopping | MediaSession_Faulted

datatype V1LifecycleEvent =
    AclConnected | AclDisconnected | RenderStarted | RenderStopped | HfpSuspendLdac
  | HfpResumeLdac | EngineReady | EngineExited | TransportOpenSuppressed | MediaStarted
  | MediaStopped | TransportRetryableFailure | TransportRetryDue | MediaFailed
  | WatcherLeaseExpired

abbreviation "V1ActionNone \<equiv> (0 :: u32)"
abbreviation "V1ActionPublishEndpointPresent \<equiv> (1 :: u32)"
abbreviation "V1ActionPublishEndpointAbsent \<equiv> (2 :: u32)"
abbreviation "V1ActionStartEngine \<equiv> (4 :: u32)"
abbreviation "V1ActionStopEngine \<equiv> (8 :: u32)"
abbreviation "V1ActionOpenTransport \<equiv> (16 :: u32)"
abbreviation "V1ActionGracefulStopTransport \<equiv> (32 :: u32)"
abbreviation "V1ActionCancelTransport \<equiv> (64 :: u32)"
abbreviation "V1ActionFailMute \<equiv> (128 :: u32)"
abbreviation "V1ActionScheduleTransportRetry \<equiv> (256 :: u32)"

abbreviation "kV1MaximumTransportOpenAttempts \<equiv> (3 :: u32)"
abbreviation "kV1MaximumPcmTransportOpenAttempts \<equiv> (4 :: u32)"

record V1LifecycleState =
  physical_presence :: V1PhysicalPresence
  render_demand :: V1RenderDemand
  engine_lease :: V1EngineLease
  media_session :: V1MediaSession
  lc_generation :: u64
  open_attempts :: u32
  maximum_open_attempts :: u32
  tolerate_pretransport_render_gaps :: bool
  allow_multiple_media_sessions :: bool
  hfp_suspended :: bool
  completed_media_sessions :: u32

definition V1LifecycleState_default :: V1LifecycleState where
  "V1LifecycleState_default =
     \<lparr>physical_presence = PhysicalPresence_Absent, render_demand = RenderDemand_Idle,
      engine_lease = EngineLease_Absent, media_session = MediaSession_Stopped,
      lc_generation = 0, open_attempts = 0,
      maximum_open_attempts = kV1MaximumTransportOpenAttempts,
      tolerate_pretransport_render_gaps = False, allow_multiple_media_sessions = False,
      hfp_suspended = False, completed_media_sessions = 0\<rparr>"

definition HasV1LifecycleAction :: "u32 \<Rightarrow> u32 \<Rightarrow> bool" where
  "HasV1LifecycleAction actions action \<longleftrightarrow> actions AND action \<noteq> 0"

definition GetV1TransportRetryDelayMs :: "u32 \<Rightarrow> u32" where
  "GetV1TransportRetryDelayMs completed =
     (if completed = 1 then 15000 else if completed = 2 then 30000
      else if completed = 3 then 45000 else 0)"

definition GetV1PcmTransportRetryDelayMs :: "u32 \<Rightarrow> u32" where
  "GetV1PcmTransportRetryDelayMs completed =
     (if completed = 1 then 1000 else if completed = 2 then 2000
      else if completed = 3 then 4000 else 0)"

section \<open>Handlers\<close>

definition transport_busy :: "V1MediaSession \<Rightarrow> bool" where
  "transport_busy m \<longleftrightarrow>
     m = MediaSession_Opening \<or> m = MediaSession_Streaming \<or> m = MediaSession_Stopping"

definition DisconnectActions :: "V1LifecycleState \<Rightarrow> u32" where
  "DisconnectActions s =
     (V1ActionFailMute OR V1ActionPublishEndpointAbsent)
     OR (if transport_busy (media_session s) then V1ActionCancelTransport else 0)
     OR (if engine_lease s \<noteq> EngineLease_Absent then V1ActionStopEngine else 0)"

definition ResetDisconnectedState :: "V1LifecycleState \<Rightarrow> V1LifecycleState" where
  "ResetDisconnectedState s =
     s\<lparr>physical_presence := PhysicalPresence_Absent, render_demand := RenderDemand_Idle,
       engine_lease := EngineLease_Absent, media_session := MediaSession_Stopped,
       open_attempts := 0, completed_media_sessions := 0, hfp_suspended := False\<rparr>"

definition on_AclConnected :: "V1LifecycleState \<Rightarrow> V1LifecycleState \<times> u32" where
  "on_AclConnected s =
     (if physical_presence s = PhysicalPresence_Present then (s, V1ActionNone)
      else (s\<lparr>physical_presence := PhysicalPresence_Present, render_demand := RenderDemand_Idle,
              engine_lease := EngineLease_Absent, media_session := MediaSession_Stopped,
              open_attempts := 0, completed_media_sessions := 0, hfp_suspended := False,
              lc_generation := (if lc_generation s = - 1 then 1 else lc_generation s + 1)\<rparr>,
            V1ActionPublishEndpointPresent))"

definition on_AclDisconnected :: "V1LifecycleState \<Rightarrow> V1LifecycleState \<times> u32" where
  "on_AclDisconnected s = (ResetDisconnectedState s, DisconnectActions s)"

definition on_RenderStarted :: "V1LifecycleState \<Rightarrow> V1LifecycleState \<times> u32" where
  "on_RenderStarted s =
     (let fresh_render_edge = (render_demand s = RenderDemand_Idle);
          s1 = s\<lparr>render_demand := RenderDemand_Running\<rparr>
      in if hfp_suspended s1 then (s1, V1ActionNone)
         else
           let s2 = (if fresh_render_edge \<and> allow_multiple_media_sessions s1 \<and>
                        physical_presence s1 = PhysicalPresence_Present \<and>
                        engine_lease s1 = EngineLease_Absent \<and>
                        media_session s1 = MediaSession_Stopped \<and> open_attempts s1 \<noteq> 0
                     then s1\<lparr>open_attempts := 0\<rparr> else s1)
           in if physical_presence s2 = PhysicalPresence_Present \<and>
                 engine_lease s2 = EngineLease_Absent \<and> open_attempts s2 = 0
              then (s2\<lparr>engine_lease := EngineLease_Starting\<rparr>, V1ActionStartEngine)
              else (s2, V1ActionNone))"

definition on_RenderStopped :: "V1LifecycleState \<Rightarrow> V1LifecycleState \<times> u32" where
  "on_RenderStopped s =
     (let s1 = s\<lparr>render_demand := RenderDemand_Idle\<rparr>
      in if tolerate_pretransport_render_gaps s1 \<and>
            media_session s1 \<noteq> MediaSession_Streaming \<and>
            media_session s1 \<noteq> MediaSession_Stopping \<and>
            media_session s1 \<noteq> MediaSession_Faulted \<and> engine_lease s1 \<noteq> EngineLease_Absent
         then (s1, V1ActionNone)
         else
           let (s2, a) =
                 (if media_session s1 = MediaSession_Opening \<or>
                     media_session s1 = MediaSession_Streaming
                  then (s1\<lparr>media_session := MediaSession_Stopping\<rparr>,
                        if physical_presence s1 = PhysicalPresence_Present
                        then V1ActionGracefulStopTransport else V1ActionCancelTransport)
                  else if media_session s1 = MediaSession_Faulted \<and>
                          \<not> allow_multiple_media_sessions s1
                  then (s1\<lparr>media_session := MediaSession_Stopped\<rparr>, V1ActionNone)
                  else (s1, V1ActionNone))
           in (s2, a OR (if engine_lease s2 \<noteq> EngineLease_Absent then V1ActionStopEngine else 0)))"

definition on_HfpSuspendLdac :: "V1LifecycleState \<Rightarrow> V1LifecycleState \<times> u32" where
  "on_HfpSuspendLdac s =
     (let s1 = s\<lparr>hfp_suspended := True\<rparr>;
          (s2, a) =
            (if transport_busy (media_session s1)
             then ((if media_session s1 \<noteq> MediaSession_Stopping
                    then s1\<lparr>media_session := MediaSession_Stopping\<rparr> else s1),
                   if physical_presence s1 = PhysicalPresence_Present
                   then V1ActionGracefulStopTransport else V1ActionCancelTransport)
             else (s1, V1ActionNone))
      in (s2, a OR (if engine_lease s2 \<noteq> EngineLease_Absent then V1ActionStopEngine else 0)))"

definition on_HfpResumeLdac :: "V1LifecycleState \<Rightarrow> V1LifecycleState \<times> u32" where
  "on_HfpResumeLdac s =
     (if \<not> hfp_suspended s then (s, V1ActionNone)
      else
        let s1 = s\<lparr>hfp_suspended := False\<rparr>
        in if physical_presence s1 = PhysicalPresence_Present \<and>
              render_demand s1 = RenderDemand_Running \<and>
              engine_lease s1 = EngineLease_Absent \<and> media_session s1 = MediaSession_Stopped
           then (s1\<lparr>open_attempts := 0, engine_lease := EngineLease_Starting\<rparr>,
                 V1ActionStartEngine)
           else (s1, V1ActionNone))"

definition on_EngineReady :: "V1LifecycleState \<Rightarrow> V1LifecycleState \<times> u32" where
  "on_EngineReady s =
     (if engine_lease s = EngineLease_Ready \<and> open_attempts s \<noteq> 0 then (s, V1ActionNone)
      else if physical_presence s \<noteq> PhysicalPresence_Present \<or> hfp_suspended s \<or>
              (render_demand s \<noteq> RenderDemand_Running \<and>
               \<not> tolerate_pretransport_render_gaps s) \<or>
              engine_lease s \<noteq> EngineLease_Starting \<or>
              open_attempts s \<ge> maximum_open_attempts s
      then (s\<lparr>engine_lease := EngineLease_Absent\<rparr>, V1ActionStopEngine)
      else (s\<lparr>engine_lease := EngineLease_Ready, media_session := MediaSession_Opening,
              open_attempts := open_attempts s + 1\<rparr>,
            V1ActionOpenTransport))"

definition on_EngineExited :: "V1LifecycleState \<Rightarrow> V1LifecycleState \<times> u32" where
  "on_EngineExited s =
     (let (s1, a) = (if transport_busy (media_session s)
                     then (s\<lparr>media_session := MediaSession_Faulted\<rparr>,
                           V1ActionFailMute OR V1ActionCancelTransport)
                     else (s, V1ActionNone))
      in (s1\<lparr>engine_lease := EngineLease_Absent\<rparr>, a))"

definition on_TransportOpenSuppressed :: "V1LifecycleState \<Rightarrow> V1LifecycleState \<times> u32" where
  "on_TransportOpenSuppressed s =
     ((if media_session s = MediaSession_Opening
       then s\<lparr>media_session := MediaSession_Stopped\<rparr> else s), V1ActionNone)"

definition on_MediaStarted :: "V1LifecycleState \<Rightarrow> V1LifecycleState \<times> u32" where
  "on_MediaStarted s =
     ((if physical_presence s = PhysicalPresence_Present \<and> \<not> hfp_suspended s \<and>
          render_demand s = RenderDemand_Running \<and> engine_lease s = EngineLease_Ready \<and>
          media_session s = MediaSession_Opening
       then s\<lparr>media_session := MediaSession_Streaming\<rparr> else s), V1ActionNone)"

definition on_MediaStopped :: "V1LifecycleState \<Rightarrow> V1LifecycleState \<times> u32" where
  "on_MediaStopped s =
     (let s1 = (if allow_multiple_media_sessions s \<and>
                   (media_session s = MediaSession_Streaming \<or>
                    media_session s = MediaSession_Stopping) \<and>
                   completed_media_sessions s \<noteq> - 1
                then s\<lparr>completed_media_sessions := completed_media_sessions s + 1\<rparr> else s)
      in (s1\<lparr>media_session := MediaSession_Stopped, engine_lease := EngineLease_Absent\<rparr>,
          V1ActionNone))"

definition on_TransportRetryableFailure :: "V1LifecycleState \<Rightarrow> V1LifecycleState \<times> u32" where
  "on_TransportRetryableFailure s =
     (let actions = V1ActionFailMute OR V1ActionCancelTransport OR V1ActionStopEngine;
          s1 = s\<lparr>engine_lease := EngineLease_Absent\<rparr>
      in if physical_presence s1 = PhysicalPresence_Present \<and>
            render_demand s1 = RenderDemand_Running \<and>
            media_session s1 = MediaSession_Opening \<and>
            open_attempts s1 < maximum_open_attempts s1
         then (s1\<lparr>media_session := MediaSession_Stopped\<rparr>,
               actions OR V1ActionScheduleTransportRetry)
         else (s1\<lparr>media_session := MediaSession_Faulted\<rparr>, actions))"

definition on_TransportRetryDue :: "V1LifecycleState \<Rightarrow> V1LifecycleState \<times> u32" where
  "on_TransportRetryDue s =
     (if physical_presence s = PhysicalPresence_Present \<and>
         render_demand s = RenderDemand_Running \<and> engine_lease s = EngineLease_Absent \<and>
         media_session s = MediaSession_Stopped \<and> open_attempts s \<noteq> 0 \<and>
         open_attempts s < maximum_open_attempts s
      then (s\<lparr>engine_lease := EngineLease_Starting\<rparr>, V1ActionStartEngine)
      else (s, V1ActionNone))"

definition on_MediaFailed :: "V1LifecycleState \<Rightarrow> V1LifecycleState \<times> u32" where
  "on_MediaFailed s =
     (s\<lparr>engine_lease := EngineLease_Absent, media_session := MediaSession_Faulted\<rparr>,
      V1ActionFailMute
      OR (if media_session s \<noteq> MediaSession_Stopped then V1ActionCancelTransport else 0)
      OR (if engine_lease s \<noteq> EngineLease_Absent then V1ActionStopEngine else 0))"

fun ReduceV1Lifecycle :: "V1LifecycleState \<Rightarrow> V1LifecycleEvent \<Rightarrow> V1LifecycleState \<times> u32" where
  "ReduceV1Lifecycle s AclConnected = on_AclConnected s"
| "ReduceV1Lifecycle s AclDisconnected = on_AclDisconnected s"
| "ReduceV1Lifecycle s WatcherLeaseExpired = on_AclDisconnected s"
| "ReduceV1Lifecycle s RenderStarted = on_RenderStarted s"
| "ReduceV1Lifecycle s RenderStopped = on_RenderStopped s"
| "ReduceV1Lifecycle s HfpSuspendLdac = on_HfpSuspendLdac s"
| "ReduceV1Lifecycle s HfpResumeLdac = on_HfpResumeLdac s"
| "ReduceV1Lifecycle s EngineReady = on_EngineReady s"
| "ReduceV1Lifecycle s EngineExited = on_EngineExited s"
| "ReduceV1Lifecycle s TransportOpenSuppressed = on_TransportOpenSuppressed s"
| "ReduceV1Lifecycle s MediaStarted = on_MediaStarted s"
| "ReduceV1Lifecycle s MediaStopped = on_MediaStopped s"
| "ReduceV1Lifecycle s TransportRetryableFailure = on_TransportRetryableFailure s"
| "ReduceV1Lifecycle s TransportRetryDue = on_TransportRetryDue s"
| "ReduceV1Lifecycle s MediaFailed = on_MediaFailed s"

lemmas lifecycle_handlers =
  on_AclConnected_def on_AclDisconnected_def on_RenderStarted_def on_RenderStopped_def
  on_HfpSuspendLdac_def on_HfpResumeLdac_def on_EngineReady_def on_EngineExited_def
  on_TransportOpenSuppressed_def on_MediaStarted_def on_MediaStopped_def
  on_TransportRetryableFailure_def on_TransportRetryDue_def on_MediaFailed_def
  ResetDisconnectedState_def DisconnectActions_def

declare lifecycle_handlers [state_defs]

text \<open>A history of events, keeping the state before each event and the actions it returned.\<close>

fun lifecycle_run :: "V1LifecycleState \<Rightarrow> V1LifecycleEvent list \<Rightarrow> V1LifecycleState \<times> u32 list" where
  "lifecycle_run s [] = (s, [])"
| "lifecycle_run s (e # es) =
     (let (s1, a) = ReduceV1Lifecycle s e; (s2, as) = lifecycle_run s1 es in (s2, a # as))"

section \<open>The invariant of the record\<close>

definition lifecycle_inv :: "V1LifecycleState \<Rightarrow> bool" where
  "lifecycle_inv s \<longleftrightarrow>
     (transport_busy (media_session s) \<longrightarrow> engine_lease s = EngineLease_Ready) \<and>
     (engine_lease s = EngineLease_Ready \<longrightarrow> open_attempts s \<noteq> 0) \<and>
     (engine_lease s \<noteq> EngineLease_Absent \<longrightarrow> physical_presence s = PhysicalPresence_Present) \<and>
     (physical_presence s = PhysicalPresence_Absent \<longrightarrow> open_attempts s = 0) \<and>
     open_attempts s \<le> maximum_open_attempts s"

lemma transport_busy_simps [simp]:
  "\<not> transport_busy MediaSession_Stopped" "\<not> transport_busy MediaSession_Faulted"
  "transport_busy MediaSession_Opening" "transport_busy MediaSession_Streaming"
  "transport_busy MediaSession_Stopping"
  by (simp_all add: transport_busy_def)

lemma lifecycle_step_inv:
  assumes "lifecycle_inv s"
  shows "lifecycle_inv (fst (ReduceV1Lifecycle s e))"
  using assms
  by (cases e)
    (auto simp: lifecycle_inv_def state_defs Let_def not_le less_imp_succ_neq_0 less_imp_succ_le
      split: if_splits)

lemma lifecycle_run_inv: "lifecycle_inv s \<Longrightarrow> lifecycle_inv (fst (lifecycle_run s es))"
proof (induction es arbitrary: s)
  case Nil
  then show ?case by simp
next
  case (Cons e es)
  then show ?case
    using lifecycle_step_inv [of s e] by (simp add: case_prod_beta Let_def)
qed

text \<open>The configuration fields are never written, the generation only by a connection.\<close>

lemma lifecycle_step_config [simp]:
  "maximum_open_attempts (fst (ReduceV1Lifecycle s e)) = maximum_open_attempts s"
  "allow_multiple_media_sessions (fst (ReduceV1Lifecycle s e)) = allow_multiple_media_sessions s"
  "tolerate_pretransport_render_gaps (fst (ReduceV1Lifecycle s e)) =
     tolerate_pretransport_render_gaps s"
  by (cases e; auto simp: state_defs Let_def split: if_splits)+

lemma lifecycle_step_generation:
  "lc_generation (fst (ReduceV1Lifecycle s e)) =
     (if e = AclConnected \<and> physical_presence s = PhysicalPresence_Absent
      then NextNonzero (lc_generation s) else lc_generation s)"
  by (cases e; cases "physical_presence s")
    (auto simp: state_defs Let_def NextNonzero_def split: if_splits)

text \<open>Which event can return which action.\<close>

lemma opens_iff:
  "HasV1LifecycleAction (snd (ReduceV1Lifecycle s e)) V1ActionOpenTransport \<longleftrightarrow>
     e = EngineReady \<and> physical_presence s = PhysicalPresence_Present \<and> \<not> hfp_suspended s \<and>
     (render_demand s = RenderDemand_Running \<or> tolerate_pretransport_render_gaps s) \<and>
     engine_lease s = EngineLease_Starting \<and> open_attempts s < maximum_open_attempts s"
  by (cases e)
    (auto simp: HasV1LifecycleAction_def state_defs Let_def flag_simps not_le split: if_splits)

lemma starts_engine_iff:
  "HasV1LifecycleAction (snd (ReduceV1Lifecycle s e)) V1ActionStartEngine \<longleftrightarrow>
     physical_presence s = PhysicalPresence_Present \<and> engine_lease s = EngineLease_Absent \<and>
     (e = RenderStarted \<and> \<not> hfp_suspended s \<and>
        (open_attempts s = 0 \<or>
         render_demand s = RenderDemand_Idle \<and> allow_multiple_media_sessions s \<and>
         media_session s = MediaSession_Stopped) \<or>
      e = HfpResumeLdac \<and> hfp_suspended s \<and> render_demand s = RenderDemand_Running \<and>
        media_session s = MediaSession_Stopped \<or>
      e = TransportRetryDue \<and> render_demand s = RenderDemand_Running \<and>
        media_session s = MediaSession_Stopped \<and> open_attempts s \<noteq> 0 \<and>
        open_attempts s < maximum_open_attempts s)"
  by (cases e)
    (auto simp: HasV1LifecycleAction_def state_defs Let_def flag_simps split: if_splits)

section \<open>Properties\<close>

definition configured :: "u32 \<Rightarrow> bool \<Rightarrow> bool \<Rightarrow> V1LifecycleState" where
  "configured maximum tolerate multiple =
     V1LifecycleState_default
       \<lparr>maximum_open_attempts := maximum, tolerate_pretransport_render_gaps := tolerate,
        allow_multiple_media_sessions := multiple\<rparr>"

lemma configured_inv: "lifecycle_inv (configured maximum tolerate multiple)"
  by (simp add: configured_def V1LifecycleState_default_def lifecycle_inv_def)

text \<open>C1: whatever the configuration and whatever the order in which the watcher, the renderer,
  the HFP monitor, the engine and the transport report, the record never becomes inconsistent: a
  busy transport has a ready engine, a leased engine has a present headset and a counted open
  attempt, an absent headset has no attempts, and the attempts never exceed the maximum.\<close>

theorem lifecycle_always_consistent:
  "lifecycle_inv (fst (lifecycle_run (configured maximum tolerate multiple) es))"
  by (rule lifecycle_run_inv [OF configured_inv])

definition opens :: "u32 list \<Rightarrow> nat" where
  "opens as = length (filter (\<lambda>a. HasV1LifecycleAction a V1ActionOpenTransport) as)"

lemma opens_simps [simp]:
  "opens [] = 0"
  "opens (a # as) =
     (if HasV1LifecycleAction a V1ActionOpenTransport then Suc (opens as) else opens as)"
  by (simp_all add: opens_def)

definition open_budget :: "V1LifecycleState \<Rightarrow> nat" where
  "open_budget s =
     (if physical_presence s = PhysicalPresence_Present
      then unat (maximum_open_attempts s) - unat (open_attempts s) else 0)"

lemma presence_only_by_connect:
  "physical_presence (fst (ReduceV1Lifecycle s e)) = PhysicalPresence_Present \<Longrightarrow>
     e = AclConnected \<or> physical_presence s = PhysicalPresence_Present"
  by (cases e) (auto simp: state_defs Let_def split: if_splits)

lemma attempts_monotone:
  assumes "e \<noteq> AclConnected" "e \<noteq> HfpResumeLdac" "\<not> allow_multiple_media_sessions s"
    and "physical_presence (fst (ReduceV1Lifecycle s e)) = PhysicalPresence_Present"
  shows "open_attempts (fst (ReduceV1Lifecycle s e)) =
     (if HasV1LifecycleAction (snd (ReduceV1Lifecycle s e)) V1ActionOpenTransport
      then open_attempts s + 1 else open_attempts s)"
  using assms unfolding opens_iff
  by (cases e) (auto simp: state_defs Let_def not_le split: if_splits)

lemma open_budget_step:
  assumes "e \<noteq> AclConnected" "e \<noteq> HfpResumeLdac" "\<not> allow_multiple_media_sessions s"
  shows "open_budget (fst (ReduceV1Lifecycle s e)) +
     (if HasV1LifecycleAction (snd (ReduceV1Lifecycle s e)) V1ActionOpenTransport then 1 else 0)
     \<le> open_budget s"
proof (cases "HasV1LifecycleAction (snd (ReduceV1Lifecycle s e)) V1ActionOpenTransport")
  case True
  then have present: "physical_presence s = PhysicalPresence_Present"
    and less: "open_attempts s < maximum_open_attempts s"
    by (auto simp: opens_iff)
  have "open_budget (fst (ReduceV1Lifecycle s e)) \<le>
      unat (maximum_open_attempts s) - Suc (unat (open_attempts s))"
    using attempts_monotone [OF assms] True less_imp_unat_Suc [OF less]
    by (simp add: open_budget_def)
  moreover have "unat (open_attempts s) < unat (maximum_open_attempts s)"
    using less by (simp add: word_less_nat_alt)
  ultimately show ?thesis using True present by (simp add: open_budget_def)
next
  case False
  then show ?thesis
    using attempts_monotone [OF assms] presence_only_by_connect [of s e] assms(1)
    by (auto simp: open_budget_def)
qed

text \<open>The two events that grant fresh attempts: a new connection and a hands-free resume.\<close>

definition grants_attempts :: "V1LifecycleEvent \<Rightarrow> bool" where
  "grants_attempts e \<longleftrightarrow> e = AclConnected \<or> e = HfpResumeLdac"

definition attempt_grants :: "V1LifecycleEvent list \<Rightarrow> nat" where
  "attempt_grants es = length (filter grants_attempts es)"

lemma open_budget_max: "open_budget s \<le> unat (maximum_open_attempts s)"
  by (simp add: open_budget_def)

lemma open_budget_any_step:
  assumes "\<not> allow_multiple_media_sessions s"
  shows "open_budget (fst (ReduceV1Lifecycle s e)) +
     (if HasV1LifecycleAction (snd (ReduceV1Lifecycle s e)) V1ActionOpenTransport then 1 else 0)
     \<le> open_budget s + (if grants_attempts e then unat (maximum_open_attempts s) else 0)"
proof (cases "grants_attempts e")
  case True
  then have "\<not> HasV1LifecycleAction (snd (ReduceV1Lifecycle s e)) V1ActionOpenTransport"
    by (auto simp: opens_iff grants_attempts_def)
  then show ?thesis
    using True open_budget_max [of "fst (ReduceV1Lifecycle s e)"] by simp
next
  case False
  then show ?thesis
    using open_budget_step [OF _ _ assms, of e] by (simp add: grants_attempts_def)
qed

text \<open>C2: opening attempts are bounded.  In the single-session configuration, over any history, the
  number of \<open>OpenTransport\<close> actions returned is at most what the attempts already counted leave, and
  \<open>maximum_open_attempts\<close> more for every event that grants fresh attempts: a new connection, and a
  hands-free resume within a connection.  So an ACL generation without a hands-free resume opens the
  transport at most \<open>maximum_open_attempts\<close> times, and each resume allows as many again.\<close>

theorem opens_bounded_per_generation:
  assumes "\<not> allow_multiple_media_sessions s"
  shows "opens (snd (lifecycle_run s es)) \<le>
    open_budget s + attempt_grants es * unat (maximum_open_attempts s)"
  using assms
proof (induction es arbitrary: s)
  case Nil
  then show ?case by simp
next
  case (Cons e es)
  define s1 where "s1 = fst (ReduceV1Lifecycle s e)"
  have "opens (snd (lifecycle_run s1 es)) \<le>
      open_budget s1 + attempt_grants es * unat (maximum_open_attempts s)"
    using Cons.IH [of s1] Cons.prems by (simp add: s1_def)
  moreover have "open_budget s1 +
      (if HasV1LifecycleAction (snd (ReduceV1Lifecycle s e)) V1ActionOpenTransport then 1 else 0)
      \<le> open_budget s + (if grants_attempts e then unat (maximum_open_attempts s) else 0)"
    using open_budget_any_step [OF Cons.prems] by (simp only: s1_def)
  ultimately show ?case
    by (simp add: s1_def attempt_grants_def case_prod_beta Let_def split: if_splits)
qed

definition connected_state :: V1LifecycleState where
  "connected_state =
     fst (lifecycle_run (configured 3 False False) [AclConnected, RenderStarted])"

definition retry_history :: "V1LifecycleEvent list" where
  "retry_history =
     [EngineReady, TransportRetryableFailure, TransportRetryDue, EngineReady,
      TransportRetryableFailure, TransportRetryDue, EngineReady, TransportRetryableFailure,
      TransportRetryDue, EngineReady, RenderStopped, RenderStarted, EngineReady]"

lemma retry_history_opens: "opens (snd (lifecycle_run connected_state retry_history)) = 3"
  by code_simp

text \<open>A headset that keeps refusing is tried exactly three times: the bound is reached.  After a
  hands-free call it is tried again, within the same connection.\<close>

definition call_and_retry :: "V1LifecycleEvent list" where
  "call_and_retry = retry_history @
     [HfpSuspendLdac, RenderStopped, RenderStarted, HfpResumeLdac, EngineReady]"

theorem opens_bounded_per_generation_witness:
  "opens (snd (lifecycle_run connected_state retry_history)) = open_budget connected_state \<and>
   opens (snd (lifecycle_run connected_state call_and_retry)) = 4 \<and>
   opens (snd (lifecycle_run connected_state call_and_retry)) \<le> open_budget connected_state + 3"
proof -
  have "\<not> allow_multiple_media_sessions connected_state" by code_simp
  from opens_bounded_per_generation [OF this, of call_and_retry]
  have "opens (snd (lifecycle_run connected_state call_and_retry)) \<le>
      open_budget connected_state +
      attempt_grants call_and_retry * unat (maximum_open_attempts connected_state)" .
  moreover have "attempt_grants call_and_retry * unat (maximum_open_attempts connected_state) = 3"
    by code_simp
  moreover have "opens (snd (lifecycle_run connected_state call_and_retry)) = 4" by code_simp
  moreover have "open_budget connected_state = 3" by code_simp
  ultimately show ?thesis
    using retry_history_opens by simp
qed

text \<open>While the LDAC path is suspended or the headset is gone, nothing but an HFP resume or a new
  connection ends that condition.\<close>

definition held_back :: "V1LifecycleState \<Rightarrow> bool" where
  "held_back s \<longleftrightarrow> hfp_suspended s \<or> physical_presence s = PhysicalPresence_Absent"

lemma held_back_step:
  assumes "held_back s" "e \<noteq> AclConnected" "e \<noteq> HfpResumeLdac"
  shows "held_back (fst (ReduceV1Lifecycle s e)) \<and>
     \<not> HasV1LifecycleAction (snd (ReduceV1Lifecycle s e)) V1ActionOpenTransport \<and>
     (media_session (fst (ReduceV1Lifecycle s e)) = MediaSession_Streaming \<longrightarrow>
        media_session s = MediaSession_Streaming)"
  using assms unfolding opens_iff held_back_def
  by (cases e) (auto simp: state_defs Let_def split: if_splits)

text \<open>C3: an HFP suspension holds.  From a suspended state, over any history without an HFP
  resume and without a new connection, the transport is never opened and no media session starts
  streaming, whatever the renderer, the engine and the retry timer report.\<close>

theorem hfp_suspension_holds:
  assumes "hfp_suspended s" "AclConnected \<notin> set es" "HfpResumeLdac \<notin> set es"
  shows "opens (snd (lifecycle_run s es)) = 0 \<and>
     (media_session (fst (lifecycle_run s es)) = MediaSession_Streaming \<longrightarrow>
        media_session s = MediaSession_Streaming)"
proof -
  have "opens (snd (lifecycle_run s es)) = 0 \<and>
     (media_session (fst (lifecycle_run s es)) = MediaSession_Streaming \<longrightarrow>
        media_session s = MediaSession_Streaming)" if "held_back s" for s
    using that assms(2,3)
  proof (induction es arbitrary: s)
    case Nil
    then show ?case by simp
  next
    case (Cons e es)
    have step: "held_back (fst (ReduceV1Lifecycle s e)) \<and>
        \<not> HasV1LifecycleAction (snd (ReduceV1Lifecycle s e)) V1ActionOpenTransport \<and>
        (media_session (fst (ReduceV1Lifecycle s e)) = MediaSession_Streaming \<longrightarrow>
           media_session s = MediaSession_Streaming)"
      using Cons.prems by (intro held_back_step) auto
    then show ?case
      using Cons.IH [of "fst (ReduceV1Lifecycle s e)"] Cons.prems
      by (auto simp: case_prod_beta Let_def)
  qed
  then show ?thesis using assms(1) by (auto simp: held_back_def)
qed

definition suspended_state :: V1LifecycleState where
  "suspended_state =
     fst (lifecycle_run (configured 3 False False)
       [AclConnected, RenderStarted, EngineReady, TransportRetryableFailure, HfpSuspendLdac])"

theorem hfp_suspension_holds_witness:
  "opens (snd (lifecycle_run suspended_state [TransportRetryDue, EngineReady, RenderStarted])) = 0"
proof -
  have "hfp_suspended suspended_state" by code_simp
  then show ?thesis
    using hfp_suspension_holds
      [of suspended_state "[TransportRetryDue, EngineReady, RenderStarted]"] by simp
qed

text \<open>Which events start the engine during a suspension.  The render edge respects the
  suspension, but the retry timer does not look at it: while suspended, the engine is started by
  an HFP resume, and also by a retry that falls due, and the \<open>EngineReady\<close> that follows such a
  start only stops the engine again.\<close>

theorem suspended_engine_starts:
  assumes "hfp_suspended s"
  shows "(HasV1LifecycleAction (snd (ReduceV1Lifecycle s e)) V1ActionStartEngine \<longleftrightarrow>
       physical_presence s = PhysicalPresence_Present \<and> engine_lease s = EngineLease_Absent \<and>
       render_demand s = RenderDemand_Running \<and> media_session s = MediaSession_Stopped \<and>
       (e = HfpResumeLdac \<or>
        e = TransportRetryDue \<and> open_attempts s \<noteq> 0 \<and>
          open_attempts s < maximum_open_attempts s)) \<and>
     (e = TransportRetryDue \<and> HasV1LifecycleAction (snd (ReduceV1Lifecycle s e)) V1ActionStartEngine
       \<longrightarrow> snd (ReduceV1Lifecycle (fst (ReduceV1Lifecycle s e)) EngineReady) = V1ActionStopEngine)"
proof -
  have "snd (ReduceV1Lifecycle (fst (ReduceV1Lifecycle s TransportRetryDue)) EngineReady) =
      V1ActionStopEngine"
    if "HasV1LifecycleAction (snd (ReduceV1Lifecycle s TransportRetryDue)) V1ActionStartEngine"
    using that assms unfolding starts_engine_iff
    by (auto simp: state_defs Let_def)
  then show ?thesis using assms unfolding starts_engine_iff by blast
qed

theorem suspended_engine_starts_witness:
  "HasV1LifecycleAction (snd (ReduceV1Lifecycle suspended_state TransportRetryDue))
     V1ActionStartEngine"
proof -
  have h: "hfp_suspended suspended_state" by code_simp
  have "physical_presence suspended_state = PhysicalPresence_Present"
    "engine_lease suspended_state = EngineLease_Absent"
    "render_demand suspended_state = RenderDemand_Running"
    "media_session suspended_state = MediaSession_Stopped"
    "open_attempts suspended_state \<noteq> 0"
    "open_attempts suspended_state < maximum_open_attempts suspended_state"
    by code_simp+
  then show ?thesis using suspended_engine_starts [OF h, of TransportRetryDue] by simp
qed

text \<open>Losing the headset, by a disconnection or by an expired watcher lease, always converges:
  from every consistent state the record becomes the idle record of the same generation, the
  output is muted and the endpoint withdrawn, the transport is cancelled exactly when it was busy
  and the engine stopped exactly when it was leased, and nothing is opened or started.\<close>

theorem disconnect_converges:
  assumes "e = AclDisconnected \<or> e = WatcherLeaseExpired"
  shows "fst (ReduceV1Lifecycle s e) =
      (configured (maximum_open_attempts s) (tolerate_pretransport_render_gaps s)
        (allow_multiple_media_sessions s))\<lparr>lc_generation := lc_generation s\<rparr> \<and>
    snd (ReduceV1Lifecycle s e) =
      (V1ActionFailMute OR V1ActionPublishEndpointAbsent
       OR (if transport_busy (media_session s) then V1ActionCancelTransport else 0)
       OR (if engine_lease s \<noteq> EngineLease_Absent then V1ActionStopEngine else 0)) \<and>
    (\<forall>e'. snd (ReduceV1Lifecycle (fst (ReduceV1Lifecycle s e)) e') AND
       (V1ActionOpenTransport OR V1ActionStartEngine) = 0)"
proof (intro conjI allI)
  show idle: "fst (ReduceV1Lifecycle s e) =
      (configured (maximum_open_attempts s) (tolerate_pretransport_render_gaps s)
        (allow_multiple_media_sessions s))\<lparr>lc_generation := lc_generation s\<rparr>"
    using assms
    by (auto simp: on_AclDisconnected_def ResetDisconnectedState_def configured_def
        V1LifecycleState_default_def)
  show "snd (ReduceV1Lifecycle s e) =
      (V1ActionFailMute OR V1ActionPublishEndpointAbsent
       OR (if transport_busy (media_session s) then V1ActionCancelTransport else 0)
       OR (if engine_lease s \<noteq> EngineLease_Absent then V1ActionStopEngine else 0))"
    using assms by (auto simp: on_AclDisconnected_def DisconnectActions_def)
  fix e'
  have "physical_presence (fst (ReduceV1Lifecycle s e)) = PhysicalPresence_Absent"
    using assms by (auto simp: on_AclDisconnected_def ResetDisconnectedState_def)
  then have "\<not> HasV1LifecycleAction (snd (ReduceV1Lifecycle (fst (ReduceV1Lifecycle s e)) e'))
        V1ActionOpenTransport"
    and "\<not> HasV1LifecycleAction (snd (ReduceV1Lifecycle (fst (ReduceV1Lifecycle s e)) e'))
        V1ActionStartEngine"
    unfolding opens_iff starts_engine_iff by auto
  then show "snd (ReduceV1Lifecycle (fst (ReduceV1Lifecycle s e)) e') AND
       (V1ActionOpenTransport OR V1ActionStartEngine) = 0"
    unfolding HasV1LifecycleAction_def
    by (metis (no_types) and.commute flag_or flag_or_eq_0 not_not)
qed

theorem disconnect_converges_witness:
  "fst (ReduceV1Lifecycle connected_state AclDisconnected) =
     (configured 3 False False)\<lparr>lc_generation := 1\<rparr>"
proof -
  have "maximum_open_attempts connected_state = 3"
    "\<not> tolerate_pretransport_render_gaps connected_state"
    "\<not> allow_multiple_media_sessions connected_state" "lc_generation connected_state = 1"
    by code_simp+
  then show ?thesis using disconnect_converges [of AclDisconnected connected_state] by simp
qed

end
