(* ===== verification/Hfp_Switch.thy ===== *)
theory Hfp_Switch
  imports Lifecycle
begin

text \<open>
  The hands-free switch: \<open>agent/v1_hfp_switch_state.cpp\<close> (the reducer that decides when the LDAC
  path yields to an open microphone and when it may come back),
  \<open>agent/v1_hfp_shadow_state.cpp\<close> (the coordinator that feeds it from the capture monitor,
  failing closed) and \<open>agent/v1_hfp_lifecycle_adapter.cpp\<close> (the translation of its decisions to
  lifecycle events).  The C++ class keeps its members private; the record \<open>V1HfpSwitchState\<close> is
  those members, and \<open>HfpStep\<close> is \<open>V1HfpSwitchState::Step\<close>.
\<close>

section \<open>State, inputs and decisions\<close>

datatype V1HfpSwitchPhase =
    HfpPhase_Disconnected | HfpPhase_LdacAvailable | HfpPhase_WaitingForLdacStop
  | HfpPhase_HfpActive | HfpPhase_ReleaseDelay

abbreviation "kV1HfpReleaseStabilityMs \<equiv> (2000 :: u64)"

record V1HfpSwitchInput =
  hi_generation :: u64
  hi_now_ms :: u64
  hi_physical_connected :: bool
  hi_capture_active :: bool
  hi_ldac_path_active :: bool
  hi_render_demand :: bool

abbreviation "V1HfpActionNone \<equiv> (0 :: u32)"
abbreviation "V1HfpActionStopLdac \<equiv> (1 :: u32)"
abbreviation "V1HfpActionEnterHfpOutput \<equiv> (2 :: u32)"
abbreviation "V1HfpActionExitHfpOutput \<equiv> (4 :: u32)"
abbreviation "V1HfpActionResumeLdac \<equiv> (8 :: u32)"

record V1HfpSwitchDecision =
  hd_actions :: u32
  hd_phase :: V1HfpSwitchPhase
  hd_generation :: u64
  hd_release_deadline_ms :: u64
  hd_stale :: bool

record V1HfpSwitchState =
  hs_phase :: V1HfpSwitchPhase
  hs_generation :: u64
  hs_release_deadline_ms :: u64
  hs_output_active :: bool

definition V1HfpSwitchState_default :: V1HfpSwitchState where
  "V1HfpSwitchState_default =
     \<lparr>hs_phase = HfpPhase_Disconnected, hs_generation = 0, hs_release_deadline_ms = 0,
      hs_output_active = False\<rparr>"

section \<open>The reducer\<close>

definition HfpSnapshot :: "V1HfpSwitchState \<Rightarrow> u32 \<Rightarrow> bool \<Rightarrow> V1HfpSwitchDecision" where
  "HfpSnapshot s actions stale =
     \<lparr>hd_actions = actions, hd_phase = hs_phase s, hd_generation = hs_generation s,
      hd_release_deadline_ms = hs_release_deadline_ms s, hd_stale = stale\<rparr>"

definition HfpResetDisconnected :: "V1HfpSwitchState \<Rightarrow> V1HfpSwitchState" where
  "HfpResetDisconnected s =
     s\<lparr>hs_phase := HfpPhase_Disconnected, hs_release_deadline_ms := 0, hs_output_active := False\<rparr>"

definition hfp_stale_input :: "V1HfpSwitchState \<Rightarrow> V1HfpSwitchInput \<Rightarrow> bool" where
  "hfp_stale_input s i \<longleftrightarrow>
     hi_generation i = 0 \<or>
     hs_generation s \<noteq> 0 \<and> hi_generation i \<noteq> hs_generation s \<and>
       \<not> IsNewerGeneration (hi_generation i) (hs_generation s)"

text \<open>Adopting a new generation: the state and the actions accumulated so far.\<close>

definition hfp_adopt_generation ::
  "V1HfpSwitchState \<Rightarrow> V1HfpSwitchInput \<Rightarrow> V1HfpSwitchState \<times> u32" where
  "hfp_adopt_generation s i =
     (if hi_generation i \<noteq> hs_generation s
      then let actions = (if hs_output_active s then V1HfpActionExitHfpOutput else V1HfpActionNone);
               s1 = HfpResetDisconnected (s\<lparr>hs_generation := hi_generation i\<rparr>)
           in ((if hi_physical_connected i
                then s1\<lparr>hs_phase := HfpPhase_LdacAvailable\<rparr> else s1), actions)
      else (s, V1HfpActionNone))"

text \<open>The part of \<open>Step\<close> below the connection check, for an open microphone.\<close>

definition hfp_capture_step ::
  "V1HfpSwitchState \<Rightarrow> V1HfpSwitchInput \<Rightarrow> u32 \<Rightarrow> V1HfpSwitchState \<times> u32" where
  "hfp_capture_step s i actions =
     (let s1 = s\<lparr>hs_release_deadline_ms := 0\<rparr>
      in if hi_ldac_path_active i
         then (s1\<lparr>hs_phase := HfpPhase_WaitingForLdacStop\<rparr>,
               if hs_phase s1 \<noteq> HfpPhase_WaitingForLdacStop
               then actions OR V1HfpActionStopLdac else actions)
         else (s1\<lparr>hs_output_active := True, hs_phase := HfpPhase_HfpActive\<rparr>,
               if \<not> hs_output_active s1
               then actions OR V1HfpActionEnterHfpOutput else actions))"

text \<open>The part below it for a closed microphone.\<close>

definition hfp_idle_step ::
  "V1HfpSwitchState \<Rightarrow> V1HfpSwitchInput \<Rightarrow> u32 \<Rightarrow> V1HfpSwitchState \<times> u32" where
  "hfp_idle_step s i actions =
     (if hs_phase s = HfpPhase_WaitingForLdacStop
      then if hi_ldac_path_active i then (s, actions)
           else (s\<lparr>hs_phase := HfpPhase_ReleaseDelay,
                   hs_release_deadline_ms := hi_now_ms i + kV1HfpReleaseStabilityMs\<rparr>, actions)
      else if hs_phase s = HfpPhase_HfpActive
      then (s\<lparr>hs_phase := HfpPhase_ReleaseDelay,
              hs_release_deadline_ms := hi_now_ms i + kV1HfpReleaseStabilityMs\<rparr>, actions)
      else if hs_phase s = HfpPhase_ReleaseDelay \<and> hi_now_ms i \<ge> hs_release_deadline_ms s
      then (s\<lparr>hs_output_active := False, hs_phase := HfpPhase_LdacAvailable,
              hs_release_deadline_ms := 0\<rparr>,
            actions
            OR (if hs_output_active s then V1HfpActionExitHfpOutput else 0)
            OR (if hi_render_demand i \<and> \<not> hi_ldac_path_active i
                then V1HfpActionResumeLdac else 0))
      else (s, actions))"

definition HfpStep ::
  "V1HfpSwitchState \<Rightarrow> V1HfpSwitchInput \<Rightarrow> V1HfpSwitchState \<times> V1HfpSwitchDecision" where
  "HfpStep s i =
     (if hfp_stale_input s i then (s, HfpSnapshot s V1HfpActionNone True)
      else
        let (s1, a1) = hfp_adopt_generation s i
        in if \<not> hi_physical_connected i
           then let a2 = (if hs_output_active s1 then a1 OR V1HfpActionExitHfpOutput else a1);
                    s2 = HfpResetDisconnected s1
                in (s2, HfpSnapshot s2 a2 False)
           else
             let s2 = (if hs_phase s1 = HfpPhase_Disconnected
                       then s1\<lparr>hs_phase := HfpPhase_LdacAvailable\<rparr> else s1);
                 (s3, a3) = (if hi_capture_active i then hfp_capture_step s2 i a1
                             else hfp_idle_step s2 i a1)
             in (s3, HfpSnapshot s3 a3 False))"

definition HasV1HfpSwitchAction :: "V1HfpSwitchDecision \<Rightarrow> u32 \<Rightarrow> bool" where
  "HasV1HfpSwitchAction d action \<longleftrightarrow> hd_actions d AND action \<noteq> 0"

lemmas hfp_step_defs =
  HfpStep_def hfp_adopt_generation_def hfp_capture_step_def hfp_idle_step_def
  HfpSnapshot_def HfpResetDisconnected_def

declare hfp_step_defs [state_defs]

fun hfp_run ::
  "V1HfpSwitchState \<Rightarrow> V1HfpSwitchInput list \<Rightarrow> V1HfpSwitchState \<times> V1HfpSwitchDecision list" where
  "hfp_run s [] = (s, [])"
| "hfp_run s (i # is) =
     (let (s1, d) = HfpStep s i; (s2, ds) = hfp_run s1 is in (s2, d # ds))"

section \<open>The lifecycle adapter and the shadow coordinator\<close>

datatype V1HfpLifecycleCommand =
  HfpCommand_None | HfpCommand_SuspendLdac | HfpCommand_ResumeLdac

record V1HfpLifecyclePlan =
  plan_proposed_command :: V1HfpLifecycleCommand
  plan_command :: V1HfpLifecycleCommand
  plan_shadow_only :: bool
  plan_stale :: bool
  plan_invalid :: bool
  plan_enter_hfp_output_requested :: bool
  plan_exit_hfp_output_requested :: bool

definition PlanV1HfpLifecycle :: "V1HfpSwitchDecision \<Rightarrow> u64 \<Rightarrow> bool \<Rightarrow> V1HfpLifecyclePlan" where
  "PlanV1HfpLifecycle d current_generation transport_switch_enabled =
     (let plan = \<lparr>plan_proposed_command = HfpCommand_None, plan_command = HfpCommand_None,
            plan_shadow_only = True, plan_stale = False, plan_invalid = False,
            plan_enter_hfp_output_requested = HasV1HfpSwitchAction d V1HfpActionEnterHfpOutput,
            plan_exit_hfp_output_requested = HasV1HfpSwitchAction d V1HfpActionExitHfpOutput\<rparr>
      in if hd_stale d \<or> hd_generation d = 0 \<or> hd_generation d \<noteq> current_generation
         then plan\<lparr>plan_stale := True\<rparr>
         else
           let stop = HasV1HfpSwitchAction d V1HfpActionStopLdac;
               resume = HasV1HfpSwitchAction d V1HfpActionResumeLdac
           in if stop \<and> resume then plan\<lparr>plan_invalid := True\<rparr>
              else
                let plan1 = (if stop
                             then plan\<lparr>plan_proposed_command := HfpCommand_SuspendLdac\<rparr>
                             else if resume
                             then plan\<lparr>plan_proposed_command := HfpCommand_ResumeLdac\<rparr>
                             else plan)
                in if \<not> transport_switch_enabled then plan1
                   else plan1\<lparr>plan_shadow_only := False,
                              plan_command := plan_proposed_command plan1\<rparr>)"

fun V1HfpLifecycleEventForCommand :: "V1HfpLifecycleCommand \<Rightarrow> V1LifecycleEvent" where
  "V1HfpLifecycleEventForCommand HfpCommand_SuspendLdac = HfpSuspendLdac"
| "V1HfpLifecycleEventForCommand HfpCommand_ResumeLdac = HfpResumeLdac"
| "V1HfpLifecycleEventForCommand HfpCommand_None = HfpResumeLdac"

text \<open>Of the capture monitor's snapshot the coordinator reads three fields.\<close>

record V1HfpCaptureSnapshot =
  cap_endpoint_matched :: bool
  cap_capture_active :: bool
  cap_sequence :: u64

record V1HfpShadowInput =
  si_capture :: V1HfpCaptureSnapshot
  si_generation :: u64
  si_now_ms :: u64
  si_monitor_ready :: bool
  si_physical_connected :: bool
  si_ldac_path_active :: bool
  si_render_demand :: bool

record V1HfpShadowDecision =
  sd_switch_decision :: V1HfpSwitchDecision
  sd_snapshot_changed :: bool
  sd_monitor_ready :: bool
  sd_endpoint_matched :: bool
  sd_capture_active :: bool
  sd_capture_sequence :: u64

record V1HfpShadowState =
  sh_switch :: V1HfpSwitchState
  sh_capture_sequence :: u64

definition HfpShadowStep ::
  "V1HfpShadowState \<Rightarrow> V1HfpShadowInput \<Rightarrow> V1HfpShadowState \<times> V1HfpShadowDecision" where
  "HfpShadowStep s i =
     (let sequence = cap_sequence (si_capture i);
          endpoint_matched = (si_monitor_ready i \<and> cap_endpoint_matched (si_capture i));
          capture = (endpoint_matched \<and> cap_capture_active (si_capture i));
          (sw, d) = HfpStep (sh_switch s)
            \<lparr>hi_generation = si_generation i, hi_now_ms = si_now_ms i,
             hi_physical_connected = si_physical_connected i, hi_capture_active = capture,
             hi_ldac_path_active = si_ldac_path_active i,
             hi_render_demand = si_render_demand i\<rparr>
      in (\<lparr>sh_switch = sw, sh_capture_sequence = sequence\<rparr>,
          \<lparr>sd_switch_decision = d,
           sd_snapshot_changed = (sequence \<noteq> sh_capture_sequence s),
           sd_monitor_ready = si_monitor_ready i, sd_endpoint_matched = endpoint_matched,
           sd_capture_active = capture, sd_capture_sequence = sequence\<rparr>))"

section \<open>One step\<close>

lemma hfp_stale_step:
  "hfp_stale_input s i \<Longrightarrow> HfpStep s i = (s, HfpSnapshot s V1HfpActionNone True)"
  by (simp add: HfpStep_def)

lemma hfp_step_generation:
  "\<not> hfp_stale_input s i \<Longrightarrow> hs_generation (fst (HfpStep s i)) = hi_generation i"
  by (auto simp: state_defs Let_def split: if_splits)

lemma hfp_stop_iff:
  "HasV1HfpSwitchAction (snd (HfpStep s i)) V1HfpActionStopLdac \<longleftrightarrow>
     \<not> hfp_stale_input s i \<and> hi_physical_connected i \<and> hi_capture_active i \<and>
     hi_ldac_path_active i \<and>
     (hi_generation i \<noteq> hs_generation s \<or> hs_phase s \<noteq> HfpPhase_WaitingForLdacStop)"
  by (auto simp: HasV1HfpSwitchAction_def state_defs Let_def flag_simps split: if_splits)

lemma hfp_resume_iff:
  "HasV1HfpSwitchAction (snd (HfpStep s i)) V1HfpActionResumeLdac \<longleftrightarrow>
     \<not> hfp_stale_input s i \<and> hi_physical_connected i \<and> \<not> hi_capture_active i \<and>
     hi_generation i = hs_generation s \<and> hs_phase s = HfpPhase_ReleaseDelay \<and>
     hs_release_deadline_ms s \<le> hi_now_ms i \<and> hi_render_demand i \<and> \<not> hi_ldac_path_active i"
  by (auto simp: HasV1HfpSwitchAction_def state_defs Let_def flag_simps split: if_splits)

lemma hfp_enter_iff:
  "HasV1HfpSwitchAction (snd (HfpStep s i)) V1HfpActionEnterHfpOutput \<longleftrightarrow>
     \<not> hfp_stale_input s i \<and> hi_physical_connected i \<and> hi_capture_active i \<and>
     \<not> hi_ldac_path_active i \<and> (hi_generation i \<noteq> hs_generation s \<or> \<not> hs_output_active s)"
  by (auto simp: HasV1HfpSwitchAction_def state_defs Let_def flag_simps split: if_splits)

section \<open>Properties\<close>

text \<open>Ownership of the hands-free output is exact.  After a step the output is active exactly
  if the step's actions say so: entered, or neither entered nor left and active before.  The output
  is left only when it was active, and entered only when it was inactive or has just been left in
  the same step, so a caller that executes the actions never enters or leaves it twice.\<close>

theorem hfp_output_follows_actions:
  "let d = snd (HfpStep s i);
       entered = HasV1HfpSwitchAction d V1HfpActionEnterHfpOutput;
       left = HasV1HfpSwitchAction d V1HfpActionExitHfpOutput
   in (hs_output_active (fst (HfpStep s i)) \<longleftrightarrow> entered \<or> hs_output_active s \<and> \<not> left) \<and>
      \<not> (left \<and> \<not> hs_output_active s) \<and>
      \<not> (entered \<and> \<not> (\<not> hs_output_active s \<or> left))"
  by (auto simp: HasV1HfpSwitchAction_def state_defs Let_def flag_simps split: if_splits)

theorem hfp_output_follows_actions_witness:
  "hs_output_active (fst (HfpStep V1HfpSwitchState_default
     \<lparr>hi_generation = 1, hi_now_ms = 0, hi_physical_connected = True, hi_capture_active = True,
      hi_ldac_path_active = False, hi_render_demand = True\<rparr>))"
  using hfp_output_follows_actions [of V1HfpSwitchState_default
     "\<lparr>hi_generation = 1, hi_now_ms = 0, hi_physical_connected = True, hi_capture_active = True,
      hi_ldac_path_active = False, hi_render_demand = True\<rparr>"]
  unfolding Let_def hfp_enter_iff
  by (simp add: V1HfpSwitchState_default_def hfp_stale_input_def)

text \<open>The adapter's contradiction branch is dead.  Whatever the switch decides from whatever
  state and input, the plan made of it is never \<open>invalid\<close>, so a decision never asks to stop and
  to resume the LDAC path at once; and a plan that reaches the lifecycle suspends exactly on a
  stop request and resumes exactly on a resume request.\<close>

theorem hfp_plan_never_invalid:
  "\<not> plan_invalid (PlanV1HfpLifecycle (snd (HfpStep s i)) g enabled) \<and>
   (plan_command (PlanV1HfpLifecycle (snd (HfpStep s i)) g enabled) = HfpCommand_SuspendLdac \<longleftrightarrow>
      enabled \<and> \<not> plan_stale (PlanV1HfpLifecycle (snd (HfpStep s i)) g enabled) \<and>
      HasV1HfpSwitchAction (snd (HfpStep s i)) V1HfpActionStopLdac) \<and>
   (plan_command (PlanV1HfpLifecycle (snd (HfpStep s i)) g enabled) = HfpCommand_ResumeLdac \<longleftrightarrow>
      enabled \<and> \<not> plan_stale (PlanV1HfpLifecycle (snd (HfpStep s i)) g enabled) \<and>
      HasV1HfpSwitchAction (snd (HfpStep s i)) V1HfpActionResumeLdac)"
proof -
  have "\<not> (HasV1HfpSwitchAction (snd (HfpStep s i)) V1HfpActionStopLdac \<and>
      HasV1HfpSwitchAction (snd (HfpStep s i)) V1HfpActionResumeLdac)"
    unfolding hfp_stop_iff hfp_resume_iff by auto
  then show ?thesis by (auto simp: PlanV1HfpLifecycle_def Let_def)
qed

text \<open>When the release delay is running, the microphone has been closed since it was armed.\<close>

definition same_generation :: "u64 \<Rightarrow> V1HfpSwitchInput list \<Rightarrow> bool" where
  "same_generation g is \<longleftrightarrow> g \<noteq> 0 \<and> (\<forall>i \<in> set is. hi_generation i = g)"

definition armed_and_quiet :: "V1HfpSwitchState \<Rightarrow> V1HfpSwitchInput list \<Rightarrow> bool" where
  "armed_and_quiet s is \<longleftrightarrow>
     (\<exists>earlier i later. is = earlier @ i # later \<and>
        hs_release_deadline_ms s = hi_now_ms i + kV1HfpReleaseStabilityMs \<and>
        (\<forall>j \<in> set (i # later). hi_physical_connected j \<and> \<not> hi_capture_active j))"

lemma hfp_run_snoc:
  "fst (hfp_run s (is @ [i])) = fst (HfpStep (fst (hfp_run s is)) i)"
  by (induction "is" arbitrary: s) (simp_all add: case_prod_beta Let_def)

lemma same_generation_not_stale:
  "same_generation g is \<Longrightarrow> i \<in> set is \<Longrightarrow> hs_generation s = g \<Longrightarrow> \<not> hfp_stale_input s i"
  by (auto simp: same_generation_def hfp_stale_input_def)

lemma hfp_step_release_delay:
  assumes "\<not> hfp_stale_input s i" "hs_phase (fst (HfpStep s i)) = HfpPhase_ReleaseDelay"
  shows "hi_physical_connected i \<and> \<not> hi_capture_active i \<and>
     (hs_release_deadline_ms (fst (HfpStep s i)) = hi_now_ms i + kV1HfpReleaseStabilityMs \<or>
      hs_phase s = HfpPhase_ReleaseDelay \<and>
      hs_release_deadline_ms (fst (HfpStep s i)) = hs_release_deadline_ms s)"
  using assms by (auto simp: state_defs Let_def split: if_splits)

lemma hfp_run_armed:
  assumes "same_generation g is" "hs_generation s = g" "hs_phase s \<noteq> HfpPhase_ReleaseDelay"
  shows "hs_generation (fst (hfp_run s is)) = g \<and>
    (hs_phase (fst (hfp_run s is)) = HfpPhase_ReleaseDelay \<longrightarrow>
       armed_and_quiet (fst (hfp_run s is)) is)"
  using assms
proof (induction "is" rule: rev_induct)
  case Nil
  then show ?case by simp
next
  case (snoc i "is")
  define t where "t = fst (hfp_run s is)"
  have IH: "hs_generation t = g"
    "hs_phase t = HfpPhase_ReleaseDelay \<longrightarrow> armed_and_quiet t is"
    using snoc unfolding t_def by (simp_all add: same_generation_def)
  have fresh: "\<not> hfp_stale_input t i"
    using same_generation_not_stale [OF snoc.prems(1), of i] IH(1) by simp
  have "hs_generation (fst (HfpStep t i)) = g"
    using hfp_step_generation [OF fresh] snoc.prems(1) by (simp add: same_generation_def)
  moreover have "armed_and_quiet (fst (HfpStep t i)) (is @ [i])"
    if "hs_phase (fst (HfpStep t i)) = HfpPhase_ReleaseDelay"
  proof -
    note step = hfp_step_release_delay [OF fresh that]
    show ?thesis
    proof (cases "hs_release_deadline_ms (fst (HfpStep t i)) =
        hi_now_ms i + kV1HfpReleaseStabilityMs")
      case True
      then have "is @ [i] = is @ i # [] \<and>
          hs_release_deadline_ms (fst (HfpStep t i)) = hi_now_ms i + kV1HfpReleaseStabilityMs \<and>
          (\<forall>j \<in> set (i # []). hi_physical_connected j \<and> \<not> hi_capture_active j)"
        using step by simp
      then show ?thesis unfolding armed_and_quiet_def by blast
    next
      case False
      then have "armed_and_quiet t is"
        and same: "hs_release_deadline_ms (fst (HfpStep t i)) = hs_release_deadline_ms t"
        using step IH(2) by auto
      then obtain earlier j later where
        split: "is = earlier @ j # later"
        and dl: "hs_release_deadline_ms t = hi_now_ms j + kV1HfpReleaseStabilityMs"
        and quiet: "\<forall>k \<in> set (j # later). hi_physical_connected k \<and> \<not> hi_capture_active k"
        unfolding armed_and_quiet_def by blast
      have "is @ [i] = earlier @ j # (later @ [i]) \<and>
          hs_release_deadline_ms (fst (HfpStep t i)) = hi_now_ms j + kV1HfpReleaseStabilityMs \<and>
          (\<forall>k \<in> set (j # (later @ [i])). hi_physical_connected k \<and> \<not> hi_capture_active k)"
        using split dl quiet same step by auto
      then show ?thesis unfolding armed_and_quiet_def by blast
    qed
  qed
  ultimately show ?case by (simp add: hfp_run_snoc t_def)
qed

text \<open>C4: the LDAC path comes back only after a stable release.  Within one ACL generation, if
  the input that follows a history makes the switch ask for a resume, then some earlier input
  armed the release delay, the microphone was closed and the headset connected in every input from
  that one on, and at least two seconds lie between the two (the clock not wrapping).\<close>

theorem hfp_resume_after_stable_release:
  assumes "same_generation g (is @ [i])" "hs_generation s = g"
    and "hs_phase s \<noteq> HfpPhase_ReleaseDelay"
    and "\<forall>j \<in> set is. unat (hi_now_ms j) + 2000 < 2 ^ 64"
    and "HasV1HfpSwitchAction (snd (HfpStep (fst (hfp_run s is)) i)) V1HfpActionResumeLdac"
  shows "\<exists>earlier j later. is = earlier @ j # later \<and>
     unat (hi_now_ms j) + 2000 \<le> unat (hi_now_ms i) \<and>
     (\<forall>k \<in> set (j # later @ [i]). hi_physical_connected k \<and> \<not> hi_capture_active k)"
proof -
  define t where "t = fst (hfp_run s is)"
  have resume: "hi_physical_connected i" "\<not> hi_capture_active i"
    "hs_phase t = HfpPhase_ReleaseDelay" "hs_release_deadline_ms t \<le> hi_now_ms i"
    using assms(5) unfolding t_def hfp_resume_iff by auto
  have "same_generation g is" using assms(1) by (simp add: same_generation_def)
  then have "armed_and_quiet t is"
    using hfp_run_armed [of g "is" s] assms(2,3) resume(3) unfolding t_def by blast
  then obtain earlier j later where
    split: "is = earlier @ j # later"
    and dl: "hs_release_deadline_ms t = hi_now_ms j + kV1HfpReleaseStabilityMs"
    and quiet: "\<forall>k \<in> set (j # later). hi_physical_connected k \<and> \<not> hi_capture_active k"
    unfolding armed_and_quiet_def by blast
  have "unat (hi_now_ms j) + 2000 < 2 ^ 64" using assms(4) split by simp
  then have "unat (hi_now_ms j + kV1HfpReleaseStabilityMs) = unat (hi_now_ms j) + 2000"
    using unat_add_no_wrap [of "hi_now_ms j" "2000"] by simp
  then have "unat (hi_now_ms j) + 2000 \<le> unat (hi_now_ms i)"
    using resume(4) dl by (simp add: word_le_nat_alt)
  then show ?thesis using split quiet resume(1,2) by auto
qed

definition hfp_input :: "u64 \<Rightarrow> bool \<Rightarrow> bool \<Rightarrow> bool \<Rightarrow> V1HfpSwitchInput" where
  "hfp_input now capture ldac demand =
     \<lparr>hi_generation = 1, hi_now_ms = now, hi_physical_connected = True,
      hi_capture_active = capture, hi_ldac_path_active = ldac, hi_render_demand = demand\<rparr>"

definition hfp_start :: V1HfpSwitchState where
  "hfp_start = fst (HfpStep V1HfpSwitchState_default (hfp_input 0 False False False))"

definition call_history :: "V1HfpSwitchInput list" where
  "call_history =
     [hfp_input 100 True True True, hfp_input 200 True False True,
      hfp_input 5000 False False True]"

theorem hfp_resume_after_stable_release_witness:
  "\<exists>earlier j later. call_history = earlier @ j # later \<and>
     unat (hi_now_ms j) + 2000 \<le> unat (hi_now_ms (hfp_input 7000 False False True)) \<and>
     (\<forall>k \<in> set (j # later @ [hfp_input 7000 False False True]).
        hi_physical_connected k \<and> \<not> hi_capture_active k)"
proof (rule hfp_resume_after_stable_release [where s = hfp_start and g = 1])
  show "same_generation 1 (call_history @ [hfp_input 7000 False False True])"
    by (simp add: same_generation_def call_history_def hfp_input_def)
  show "\<forall>j \<in> set call_history. unat (hi_now_ms j) + 2000 < 2 ^ 64"
    by (simp add: call_history_def hfp_input_def)
qed code_simp+

end
