(* ===== verification/Endpoint_Selectors.thy ===== *)
theory Endpoint_Selectors
  imports Prelude
begin

text \<open>
  The three endpoint selectors of the agent: \<open>agent/v1_hfp_capture_monitor.cpp\<close> (microphone),
  \<open>agent/v1_hfp_render_endpoint_selector.cpp\<close> (hands-free output) and
  \<open>agent/v1_native_ldac_volume_endpoint_selector.cpp\<close> (the endpoint whose volume is synchronised).
  Each counts, in 32-bit counters, the candidates that carry the expected name and those whose
  container also identifies the headset.  The locale \<open>endpoint_selector\<close> is their common contract:
  the only accepted situation is one named candidate that is trusted.
\<close>

section \<open>The counting loop\<close>

fun endpoint_counts :: "('c \<Rightarrow> bool) \<Rightarrow> ('c \<Rightarrow> bool) \<Rightarrow> 'c list \<Rightarrow> u32 \<Rightarrow> u32 \<Rightarrow> u32 \<times> u32" where
  "endpoint_counts is_named is_trusted [] named matched = (named, matched)"
| "endpoint_counts is_named is_trusted (c # cs) named matched =
     (if \<not> is_named c then endpoint_counts is_named is_trusted cs named matched
      else endpoint_counts is_named is_trusted cs (named + 1)
             (if is_trusted c then matched + 1 else matched))"

lemma endpoint_counts_eq:
  "endpoint_counts P T cs n m =
     (n + of_nat (length (filter P cs)), m + of_nat (length (filter (\<lambda>c. P c \<and> T c) cs)))"
  by (induction cs arbitrary: n m) simp_all

section \<open>The three selectors\<close>

datatype V1HfpCaptureEndpointIdentity =
  CaptureEndpoint_Absent | CaptureEndpoint_Untrusted | CaptureEndpoint_Matched
  | CaptureEndpoint_Ambiguous

record V1HfpCaptureEndpointCandidate =
  cc_active :: bool
  cc_xm5_name :: bool
  cc_container_readable :: bool
  cc_container_matches :: bool

definition capture_named :: "V1HfpCaptureEndpointCandidate \<Rightarrow> bool" where
  "capture_named c \<longleftrightarrow> \<not> (\<not> cc_active c \<or> \<not> cc_xm5_name c)"

definition capture_trusted :: "V1HfpCaptureEndpointCandidate \<Rightarrow> bool" where
  "capture_trusted c \<longleftrightarrow> cc_container_readable c \<and> cc_container_matches c"

definition EvaluateV1HfpCaptureEndpointIdentity ::
  "V1HfpCaptureEndpointCandidate list \<Rightarrow> V1HfpCaptureEndpointIdentity" where
  "EvaluateV1HfpCaptureEndpointIdentity candidates =
     (let (named, matched) = endpoint_counts capture_named capture_trusted candidates 0 0
      in if matched = 1 \<and> named = 1 then CaptureEndpoint_Matched
         else if matched > 1 \<or> named > 1 then CaptureEndpoint_Ambiguous
         else if named = 0 then CaptureEndpoint_Absent else CaptureEndpoint_Untrusted)"

datatype V1HfpRenderEndpointIdentity =
  RenderEndpoint_Absent | RenderEndpoint_Untrusted | RenderEndpoint_Matched
  | RenderEndpoint_Ambiguous

record V1HfpRenderEndpointCandidate =
  rc_active :: bool
  rc_xm5_name :: bool
  rc_native_ldac_name :: bool
  rc_container_readable :: bool
  rc_container_matches :: bool

definition render_named :: "V1HfpRenderEndpointCandidate \<Rightarrow> bool" where
  "render_named c \<longleftrightarrow> \<not> (\<not> rc_active c \<or> \<not> rc_xm5_name c \<or> rc_native_ldac_name c)"

definition render_trusted :: "V1HfpRenderEndpointCandidate \<Rightarrow> bool" where
  "render_trusted c \<longleftrightarrow> rc_container_readable c \<and> rc_container_matches c"

definition EvaluateV1HfpRenderEndpointIdentity ::
  "V1HfpRenderEndpointCandidate list \<Rightarrow> V1HfpRenderEndpointIdentity" where
  "EvaluateV1HfpRenderEndpointIdentity candidates =
     (let (named, matched) = endpoint_counts render_named render_trusted candidates 0 0
      in if matched = 1 \<and> named = 1 then RenderEndpoint_Matched
         else if matched > 1 \<or> named > 1 then RenderEndpoint_Ambiguous
         else if named = 0 then RenderEndpoint_Absent else RenderEndpoint_Untrusted)"

record V1HfpRenderEndpointSnapshot =
  rs_identity :: V1HfpRenderEndpointIdentity
  rs_endpoint_present :: bool
  rs_endpoint_matched :: bool
  rs_output_bridge_ready :: bool
  rs_sequence :: u64

definition BuildV1HfpRenderEndpointSnapshot ::
  "V1HfpRenderEndpointIdentity \<Rightarrow> u64 \<Rightarrow> V1HfpRenderEndpointSnapshot" where
  "BuildV1HfpRenderEndpointSnapshot identity sequence =
     (let matched = (identity = RenderEndpoint_Matched)
      in \<lparr>rs_identity = identity, rs_endpoint_present = (identity \<noteq> RenderEndpoint_Absent),
          rs_endpoint_matched = matched, rs_output_bridge_ready = matched,
          rs_sequence = sequence\<rparr>)"

datatype V1NativeLdacVolumeEndpointIdentity =
  VolumeEndpoint_Absent | VolumeEndpoint_Untrusted | VolumeEndpoint_Matched
  | VolumeEndpoint_Ambiguous

record V1NativeLdacVolumeEndpointCandidate =
  vc_active :: bool
  vc_native_ldac_name :: bool
  vc_container_readable :: bool
  vc_container_matches :: bool

definition volume_named :: "V1NativeLdacVolumeEndpointCandidate \<Rightarrow> bool" where
  "volume_named c \<longleftrightarrow> \<not> (\<not> vc_active c \<or> \<not> vc_native_ldac_name c)"

definition volume_trusted :: "V1NativeLdacVolumeEndpointCandidate \<Rightarrow> bool" where
  "volume_trusted c \<longleftrightarrow> vc_container_readable c \<and> vc_container_matches c"

definition EvaluateV1NativeLdacVolumeEndpointIdentity ::
  "V1NativeLdacVolumeEndpointCandidate list \<Rightarrow> V1NativeLdacVolumeEndpointIdentity" where
  "EvaluateV1NativeLdacVolumeEndpointIdentity candidates =
     (let (named, matched) = endpoint_counts volume_named volume_trusted candidates 0 0
      in if named = 1 \<and> matched = 1 then VolumeEndpoint_Matched
         else if named > 1 \<or> matched > 1 then VolumeEndpoint_Ambiguous
         else if named = 0 then VolumeEndpoint_Absent else VolumeEndpoint_Untrusted)"

section \<open>The contract\<close>

locale endpoint_selector =
  fixes named trusted :: "'c \<Rightarrow> bool"
    and select :: "'c list \<Rightarrow> 'i"
    and absent untrusted matched ambiguous :: 'i
  assumes outcomes: "distinct [absent, untrusted, matched, ambiguous]"
    and select_spec: "length cs < 2 ^ 32 \<Longrightarrow>
      select cs =
        (case filter named cs of
           [] \<Rightarrow> absent
         | [c] \<Rightarrow> if trusted c then matched else untrusted
         | _ \<Rightarrow> ambiguous)"
begin

lemma matched_iff:
  assumes "length cs < 2 ^ 32"
  shows "select cs = matched \<longleftrightarrow> (\<exists>c. filter named cs = [c] \<and> trusted c)"
  using outcomes select_spec [OF assms] by (auto split: list.splits)

lemma second_endpoint_rejected:
  assumes "length (c # cs) < 2 ^ 32" "named c" "\<exists>d \<in> set cs. named d"
  shows "select (c # cs) = ambiguous"
proof -
  have "filter named cs \<noteq> []" using assms(3) by (simp add: filter_empty_conv)
  then show ?thesis
    using select_spec [OF assms(1)] assms(2) by (auto split: list.splits)
qed

end

lemma of_nat_u32_gt_1:
  assumes "n < 2 ^ 32"
  shows "(1 :: u32) < of_nat n \<longleftrightarrow> 1 < n"
  using assms by (simp add: word_less_nat_alt unat_of_nat take_bit_nat_eq_self_iff)

text \<open>The classification the three selectors share, in terms of the two list lengths.\<close>

lemma classify_counts:
  fixes cs :: "'c list"
  assumes "length cs < 2 ^ 32"
  shows "(let (named, matched) = endpoint_counts P T cs 0 0
      in if matched = 1 \<and> named = 1 then M
         else if matched > 1 \<or> named > 1 then A
         else if named = 0 then Z else U) =
    (case filter P cs of [] \<Rightarrow> Z | [c] \<Rightarrow> if T c then M else U | _ \<Rightarrow> A)"
proof -
  have PT: "filter (\<lambda>c. P c \<and> T c) cs = filter T (filter P cs)"
    by (simp add: conj_commute)
  have len: "length (filter P cs) < 2 ^ 32"
    using assms length_filter_le [of P cs] by linarith
  show ?thesis
  proof (cases "filter P cs")
    case Nil
    then show ?thesis unfolding endpoint_counts_eq PT by simp
  next
    case (Cons c ds)
    show ?thesis
    proof (cases ds)
      case Nil
      then show ?thesis using Cons unfolding endpoint_counts_eq PT by simp
    next
      case (Cons d es)
      with \<open>filter P cs = c # ds\<close> have fs: "filter P cs = c # d # es" by simp
      define k :: u32 where "k = of_nat (length (filter P cs))"
      have "1 < k"
        unfolding k_def of_nat_u32_gt_1 [OF len] using fs by simp
      moreover from this have "k \<noteq> 1" "k \<noteq> 0" by auto
      moreover have "endpoint_counts P T cs 0 0 = (k, of_nat (length (filter T (filter P cs))))"
        unfolding endpoint_counts_eq PT k_def by simp
      ultimately show ?thesis by (simp add: fs)
    qed
  qed
qed

interpretation capture: endpoint_selector capture_named capture_trusted
  EvaluateV1HfpCaptureEndpointIdentity CaptureEndpoint_Absent CaptureEndpoint_Untrusted
  CaptureEndpoint_Matched CaptureEndpoint_Ambiguous
  by unfold_locales (simp_all add: EvaluateV1HfpCaptureEndpointIdentity_def classify_counts)

interpretation render: endpoint_selector render_named render_trusted
  EvaluateV1HfpRenderEndpointIdentity RenderEndpoint_Absent RenderEndpoint_Untrusted
  RenderEndpoint_Matched RenderEndpoint_Ambiguous
  by unfold_locales (simp_all add: EvaluateV1HfpRenderEndpointIdentity_def classify_counts)

lemma volume_selector_swapped:
  "EvaluateV1NativeLdacVolumeEndpointIdentity cs =
     (let (named, matched) = endpoint_counts volume_named volume_trusted cs 0 0
      in if matched = 1 \<and> named = 1 then VolumeEndpoint_Matched
         else if matched > 1 \<or> named > 1 then VolumeEndpoint_Ambiguous
         else if named = 0 then VolumeEndpoint_Absent else VolumeEndpoint_Untrusted)"
  by (auto simp: EvaluateV1NativeLdacVolumeEndpointIdentity_def Let_def case_prod_beta)

interpretation volume: endpoint_selector volume_named volume_trusted
  EvaluateV1NativeLdacVolumeEndpointIdentity VolumeEndpoint_Absent VolumeEndpoint_Untrusted
  VolumeEndpoint_Matched VolumeEndpoint_Ambiguous
  by unfold_locales (simp_all add: volume_selector_swapped classify_counts)

section \<open>Properties\<close>

text \<open>No selector accepts an uncertain identity.  As long as the number of candidates fits the
  32-bit counters, each of the three selectors answers \<open>Matched\<close> exactly when one active candidate
  carries the expected name and that candidate's container was read and is the headset's; a second
  candidate of the same name, trusted or not, makes the answer \<open>Ambiguous\<close>.\<close>

theorem selectors_fail_closed:
  assumes "length cs < 2 ^ 32" "length rs < 2 ^ 32" "length vs < 2 ^ 32"
  shows "(EvaluateV1HfpCaptureEndpointIdentity cs = CaptureEndpoint_Matched \<longleftrightarrow>
       (\<exists>c. filter capture_named cs = [c] \<and> capture_trusted c)) \<and>
     (rs_output_bridge_ready
        (BuildV1HfpRenderEndpointSnapshot (EvaluateV1HfpRenderEndpointIdentity rs) q) \<longleftrightarrow>
       (\<exists>c. filter render_named rs = [c] \<and> render_trusted c)) \<and>
     (EvaluateV1NativeLdacVolumeEndpointIdentity vs = VolumeEndpoint_Matched \<longleftrightarrow>
       (\<exists>c. filter volume_named vs = [c] \<and> volume_trusted c))"
  using capture.matched_iff [OF assms(1)] render.matched_iff [OF assms(2)]
    volume.matched_iff [OF assms(3)]
  by (simp add: BuildV1HfpRenderEndpointSnapshot_def Let_def)

theorem selectors_fail_closed_witness:
  "EvaluateV1HfpCaptureEndpointIdentity
     [\<lparr>cc_active = True, cc_xm5_name = True, cc_container_readable = True,
       cc_container_matches = True\<rparr>] = CaptureEndpoint_Matched"
  using selectors_fail_closed
    [of "[\<lparr>cc_active = True, cc_xm5_name = True, cc_container_readable = True,
           cc_container_matches = True\<rparr>]" "[]" "[]" 0]
  by (simp add: capture_named_def capture_trusted_def)

end
