(* ===== verification/Hfp_Coordination.thy ===== *)
theory Hfp_Coordination
  imports Hfp_Switch
begin

text \<open>
  How the presence agent runs the hands-free switch against the lifecycle:
  \<open>ReconcileHfpShadow\<close> and the poll that executes its plan in \<open>agent/v1_presence_agent.cpp\<close>.
  The agent's \<open>TrialState\<close> is restricted to the fields these two touch.  Executing the actions
  the lifecycle returns (starting and stopping processes) is outside the model: the poll returns
  them.  An agent history interleaves polls with the other lifecycle events.
\<close>

section \<open>The poll\<close>

record TrialState =
  tr_lifecycle :: V1LifecycleState
  tr_daily_mode :: bool
  tr_capture_sequence :: u64
  tr_capture_monitor_ready :: bool
  tr_capture_matched :: bool
  tr_capture_active :: bool
  tr_capture_samples :: u32
  tr_shadow_stop_requests :: u32
  tr_shadow_enter_requests :: u32
  tr_shadow_exit_requests :: u32
  tr_shadow_resume_requests :: u32
  tr_suspend_plans :: u32
  tr_resume_plans :: u32
  tr_output_enter_plans :: u32
  tr_output_exit_plans :: u32
  tr_stale_plans :: u32
  tr_invalid_plans :: u32
  tr_executions :: u32

definition bump :: "bool \<Rightarrow> u32 \<Rightarrow> u32" where
  "bump b n = (if b then n + 1 else n)"

definition ldac_path_active :: "V1LifecycleState \<Rightarrow> bool" where
  "ldac_path_active l \<longleftrightarrow>
     engine_lease l \<noteq> EngineLease_Absent \<or> media_session l = MediaSession_Opening \<or>
     media_session l = MediaSession_Streaming \<or> media_session l = MediaSession_Stopping"

definition shadow_input ::
  "V1LifecycleState \<Rightarrow> V1HfpCaptureSnapshot \<Rightarrow> bool \<Rightarrow> u64 \<Rightarrow> V1HfpShadowInput" where
  "shadow_input l capture ready now =
     \<lparr>si_capture = capture, si_generation = lc_generation l, si_now_ms = now,
      si_monitor_ready = ready,
      si_physical_connected = (physical_presence l = PhysicalPresence_Present),
      si_ldac_path_active = ldac_path_active l,
      si_render_demand = (render_demand l = RenderDemand_Running)\<rparr>"

definition default_plan :: V1HfpLifecyclePlan where
  "default_plan =
     \<lparr>plan_proposed_command = HfpCommand_None, plan_command = HfpCommand_None,
      plan_shadow_only = True, plan_stale = False, plan_invalid = False,
      plan_enter_hfp_output_requested = False, plan_exit_hfp_output_requested = False\<rparr>"

text \<open>The result carries the coordinator, the agent's state, the plan and the \<open>state changed\<close>
  flag.\<close>

definition ReconcileHfpShadow ::
  "V1HfpCaptureSnapshot \<Rightarrow> bool \<Rightarrow> V1HfpShadowState \<Rightarrow> TrialState \<Rightarrow> u64 \<Rightarrow> bool \<Rightarrow>
   V1HfpShadowState \<times> TrialState \<times> V1HfpLifecyclePlan \<times> bool" where
  "ReconcileHfpShadow capture ready sh tr now enabled =
     (if \<not> tr_daily_mode tr then (sh, tr, default_plan, False)
      else
        let (sh1, shadow) = HfpShadowStep sh (shadow_input (tr_lifecycle tr) capture ready now);
            d = sd_switch_decision shadow;
            plan = PlanV1HfpLifecycle d (lc_generation (tr_lifecycle tr)) enabled;
            tr1 = tr\<lparr>tr_capture_sequence := sd_capture_sequence shadow,
              tr_capture_monitor_ready := sd_monitor_ready shadow,
              tr_capture_matched := sd_endpoint_matched shadow,
              tr_capture_active := sd_capture_active shadow,
              tr_capture_samples := tr_capture_samples tr + 1,
              tr_shadow_stop_requests :=
                bump (HasV1HfpSwitchAction d V1HfpActionStopLdac) (tr_shadow_stop_requests tr),
              tr_shadow_enter_requests :=
                bump (HasV1HfpSwitchAction d V1HfpActionEnterHfpOutput)
                  (tr_shadow_enter_requests tr),
              tr_shadow_exit_requests :=
                bump (HasV1HfpSwitchAction d V1HfpActionExitHfpOutput)
                  (tr_shadow_exit_requests tr),
              tr_shadow_resume_requests :=
                bump (HasV1HfpSwitchAction d V1HfpActionResumeLdac)
                  (tr_shadow_resume_requests tr),
              tr_output_enter_plans :=
                bump (plan_enter_hfp_output_requested plan) (tr_output_enter_plans tr),
              tr_output_exit_plans :=
                bump (plan_exit_hfp_output_requested plan) (tr_output_exit_plans tr),
              tr_stale_plans := bump (plan_stale plan) (tr_stale_plans tr),
              tr_invalid_plans := bump (plan_invalid plan) (tr_invalid_plans tr),
              tr_suspend_plans :=
                bump (plan_proposed_command plan = HfpCommand_SuspendLdac) (tr_suspend_plans tr),
              tr_resume_plans :=
                bump (plan_proposed_command plan = HfpCommand_ResumeLdac) (tr_resume_plans tr)\<rparr>
        in (sh1, tr1, plan, sd_snapshot_changed shadow \<or> hd_actions d \<noteq> V1HfpActionNone))"

text \<open>The poll executes the plan by one lifecycle event and returns that event's actions; the
  execution counter is bumped when the engine host carried the actions out, which the model
  takes to succeed.\<close>

definition hfp_poll ::
  "bool \<Rightarrow> V1HfpCaptureSnapshot \<Rightarrow> bool \<Rightarrow> u64 \<Rightarrow> V1HfpShadowState \<times> TrialState \<Rightarrow>
   (V1HfpShadowState \<times> TrialState) \<times> u32" where
  "hfp_poll enabled capture ready now agent =
     (let (sh1, tr1, plan, _) = ReconcileHfpShadow capture ready (fst agent) (snd agent) now enabled
      in if enabled \<and> \<not> plan_shadow_only plan \<and> \<not> plan_stale plan \<and> \<not> plan_invalid plan \<and>
            plan_command plan \<noteq> HfpCommand_None
         then
           let (l, actions) =
             ReduceV1Lifecycle (tr_lifecycle tr1)
               (V1HfpLifecycleEventForCommand (plan_command plan))
           in ((sh1, tr1\<lparr>tr_lifecycle := l, tr_executions := tr_executions tr1 + 1\<rparr>), actions)
         else ((sh1, tr1), V1ActionNone))"

datatype agent_event = Reported V1LifecycleEvent | Polled V1HfpCaptureSnapshot bool u64

fun agent_step ::
  "bool \<Rightarrow> V1HfpShadowState \<times> TrialState \<Rightarrow> agent_event \<Rightarrow>
   (V1HfpShadowState \<times> TrialState) \<times> u32" where
  "agent_step enabled (sh, tr) (Reported e) =
     (let (l, actions) = ReduceV1Lifecycle (tr_lifecycle tr) e
      in ((sh, tr\<lparr>tr_lifecycle := l\<rparr>), actions))"
| "agent_step enabled (sh, tr) (Polled capture ready now) =
     hfp_poll enabled capture ready now (sh, tr)"

fun agent_run ::
  "bool \<Rightarrow> V1HfpShadowState \<times> TrialState \<Rightarrow> agent_event list \<Rightarrow>
   (V1HfpShadowState \<times> TrialState) \<times> u32 list" where
  "agent_run enabled a [] = (a, [])"
| "agent_run enabled a (e # es) =
     (let (a1, x) = agent_step enabled a e; (a2, xs) = agent_run enabled a1 es in (a2, x # xs))"

section \<open>What a poll does to the lifecycle\<close>

definition capture_open :: "V1HfpCaptureSnapshot \<Rightarrow> bool \<Rightarrow> bool" where
  "capture_open capture ready \<longleftrightarrow>
     (ready \<and> cap_endpoint_matched capture) \<and> cap_capture_active capture"

definition poll_input ::
  "V1LifecycleState \<Rightarrow> V1HfpCaptureSnapshot \<Rightarrow> bool \<Rightarrow> u64 \<Rightarrow> V1HfpSwitchInput" where
  "poll_input l capture ready now =
     \<lparr>hi_generation = lc_generation l, hi_now_ms = now,
      hi_physical_connected = (physical_presence l = PhysicalPresence_Present),
      hi_capture_active = capture_open capture ready,
      hi_ldac_path_active = ldac_path_active l,
      hi_render_demand = (render_demand l = RenderDemand_Running)\<rparr>"

lemma shadow_step_switch:
  "HfpShadowStep sh (shadow_input l capture ready now) =
     (let (sw, d) = HfpStep (sh_switch sh) (poll_input l capture ready now)
      in (\<lparr>sh_switch = sw, sh_capture_sequence = cap_sequence capture\<rparr>,
          \<lparr>sd_switch_decision = d,
           sd_snapshot_changed = (cap_sequence capture \<noteq> sh_capture_sequence sh),
           sd_monitor_ready = ready,
           sd_endpoint_matched = (ready \<and> cap_endpoint_matched capture),
           sd_capture_active = capture_open capture ready,
           sd_capture_sequence = cap_sequence capture\<rparr>))"
  by (simp add: HfpShadowStep_def shadow_input_def poll_input_def capture_open_def Let_def)

lemma poll_switch:
  "tr_daily_mode tr \<Longrightarrow>
     sh_switch (fst (fst (hfp_poll enabled capture ready now (sh, tr)))) =
       fst (HfpStep (sh_switch sh) (poll_input (tr_lifecycle tr) capture ready now))"
  by (simp add: hfp_poll_def ReconcileHfpShadow_def shadow_step_switch Let_def case_prod_beta)

lemma poll_daily_mode:
  "tr_daily_mode (snd (fst (hfp_poll enabled capture ready now (sh, tr)))) = tr_daily_mode tr"
  by (simp add: hfp_poll_def ReconcileHfpShadow_def shadow_step_switch Let_def case_prod_beta)

definition poll_command ::
  "V1HfpShadowState \<Rightarrow> TrialState \<Rightarrow> V1HfpCaptureSnapshot \<Rightarrow> bool \<Rightarrow> u64 \<Rightarrow>
   V1HfpLifecycleCommand" where
  "poll_command sh tr capture ready now =
     plan_command (PlanV1HfpLifecycle
       (snd (HfpStep (sh_switch sh) (poll_input (tr_lifecycle tr) capture ready now)))
       (lc_generation (tr_lifecycle tr)) True)"

lemma plan_enabled_shadow_only:
  "plan_command (PlanV1HfpLifecycle d g True) \<noteq> HfpCommand_None \<Longrightarrow>
     \<not> plan_shadow_only (PlanV1HfpLifecycle d g True) \<and>
     \<not> plan_stale (PlanV1HfpLifecycle d g True) \<and> \<not> plan_invalid (PlanV1HfpLifecycle d g True)"
  by (auto simp: PlanV1HfpLifecycle_def Let_def split: if_splits)

lemma poll_lifecycle:
  assumes "tr_daily_mode tr"
  shows "tr_lifecycle (snd (fst (hfp_poll True capture ready now (sh, tr)))) =
      (if poll_command sh tr capture ready now = HfpCommand_None then tr_lifecycle tr
       else fst (ReduceV1Lifecycle (tr_lifecycle tr)
              (V1HfpLifecycleEventForCommand (poll_command sh tr capture ready now))))"
    and "snd (hfp_poll True capture ready now (sh, tr)) =
      (if poll_command sh tr capture ready now = HfpCommand_None then V1ActionNone
       else snd (ReduceV1Lifecycle (tr_lifecycle tr)
              (V1HfpLifecycleEventForCommand (poll_command sh tr capture ready now))))"
  using assms plan_enabled_shadow_only
    [of "snd (HfpStep (sh_switch sh) (poll_input (tr_lifecycle tr) capture ready now))"
        "lc_generation (tr_lifecycle tr)"]
  by (auto simp: hfp_poll_def ReconcileHfpShadow_def shadow_step_switch poll_command_def
      Let_def case_prod_beta)


lemma poll_command_iff:
  "poll_command sh tr capture ready now = HfpCommand_SuspendLdac \<longleftrightarrow>
     (let i = poll_input (tr_lifecycle tr) capture ready now; d = snd (HfpStep (sh_switch sh) i)
      in HasV1HfpSwitchAction d V1HfpActionStopLdac \<and> \<not> hd_stale d \<and> hd_generation d \<noteq> 0 \<and>
         hd_generation d = lc_generation (tr_lifecycle tr))"
  "poll_command sh tr capture ready now = HfpCommand_ResumeLdac \<longleftrightarrow>
     (let i = poll_input (tr_lifecycle tr) capture ready now; d = snd (HfpStep (sh_switch sh) i)
      in HasV1HfpSwitchAction d V1HfpActionResumeLdac \<and> \<not> hd_stale d \<and> hd_generation d \<noteq> 0 \<and>
         hd_generation d = lc_generation (tr_lifecycle tr))"
  by (auto simp: poll_command_def PlanV1HfpLifecycle_def hfp_stop_iff hfp_resume_iff Let_def)

section \<open>An open microphone silences the LDAC path\<close>

text \<open>The lifecycle while the switch waits for the LDAC path to stop.\<close>

definition yielding :: "V1LifecycleState \<Rightarrow> bool" where
  "yielding l \<longleftrightarrow> held_back l \<and> media_session l \<noteq> MediaSession_Opening \<and>
     media_session l \<noteq> MediaSession_Streaming"

lemma yielding_step:
  assumes "yielding l" "e \<noteq> AclConnected" "e \<noteq> HfpResumeLdac"
  shows "yielding (fst (ReduceV1Lifecycle l e))"
  using assms unfolding yielding_def held_back_def
  by (cases e) (auto simp: state_defs Let_def split: if_splits)

lemma suspend_yields: "yielding (fst (ReduceV1Lifecycle l HfpSuspendLdac))"
  by (auto simp: yielding_def held_back_def state_defs transport_busy_def Let_def
      split: if_splits)

text \<open>
  The state of an agent whose switch is the only source of hands-free events, after at most \<open>n\<close> events.
  The switch has not seen a later generation than the lifecycle's; a switch that has seen the current one and waits
  for the LDAC path to stop has made the lifecycle yield; and a suspension is one of the current connection,
  which the switch has seen.
\<close>

definition agent_inv :: "nat \<Rightarrow> V1HfpShadowState \<times> TrialState \<Rightarrow> bool" where
  "agent_inv n a \<longleftrightarrow>
     (let sw = sh_switch (fst a); l = tr_lifecycle (snd a)
      in tr_daily_mode (snd a) \<and> unat (lc_generation l) \<le> n \<and>
         unat (hs_generation sw) \<le> unat (lc_generation l) \<and>
         (physical_presence l = PhysicalPresence_Present \<longrightarrow> lc_generation l \<noteq> 0) \<and>
         (hs_generation sw = lc_generation l \<longrightarrow> hs_phase sw = HfpPhase_WaitingForLdacStop \<longrightarrow>
            yielding l) \<and>
         (hfp_suspended l \<longrightarrow> physical_presence l = PhysicalPresence_Present \<and>
            hs_generation sw = lc_generation l))"

lemma generation_only_by_connect:
  "e \<noteq> AclConnected \<Longrightarrow> lc_generation (fst (ReduceV1Lifecycle l e)) = lc_generation l"
  by (cases e) (auto simp: state_defs Let_def split: if_splits)

lemma newer_by_count:
  assumes "unat h \<le> unat g" "unat g < 2 ^ 63" "g \<noteq> h" "g \<noteq> 0"
  shows "IsNewerGeneration g h"
proof -
  have "unat (g - h) = unat g - unat h"
    using assms(1) by (simp add: unat_sub word_le_nat_alt)
  then have "g - h < 2 ^ 63"
    using assms(2) by (simp add: word_less_nat_alt)
  then show ?thesis
    using assms(3,4) by (simp add: IsNewerGeneration_def Let_def)
qed

lemma agent_inv_fresh:
  assumes "agent_inv n (sh, tr)" "n < 2 ^ 63" "lc_generation (tr_lifecycle tr) \<noteq> 0"
  shows "\<not> hfp_stale_input (sh_switch sh) (poll_input (tr_lifecycle tr) capture ready now)"
proof -
  have "unat (hs_generation (sh_switch sh)) \<le> unat (lc_generation (tr_lifecycle tr))"
    "unat (lc_generation (tr_lifecycle tr)) < 2 ^ 63"
    using assms(1,2) by (simp_all add: agent_inv_def Let_def)
  then show ?thesis
    using newer_by_count assms(3) by (auto simp: hfp_stale_input_def poll_input_def)
qed

lemma decision_of_fresh_step:
  assumes "\<not> hfp_stale_input s i"
  shows "hd_stale (snd (HfpStep s i)) = False"
    and "hd_generation (snd (HfpStep s i)) = hi_generation i"
  using assms by (auto simp: state_defs Let_def split: if_splits)

lemma waiting_after_step:
  assumes "\<not> hfp_stale_input s i"
    and "hs_phase (fst (HfpStep s i)) = HfpPhase_WaitingForLdacStop"
  shows "HasV1HfpSwitchAction (snd (HfpStep s i)) V1HfpActionStopLdac \<or>
     (hs_phase s = HfpPhase_WaitingForLdacStop \<and> hs_generation s = hi_generation i \<and>
      \<not> HasV1HfpSwitchAction (snd (HfpStep s i)) V1HfpActionResumeLdac)"
  using assms unfolding hfp_stop_iff hfp_resume_iff
  by (auto simp: state_defs Let_def split: if_splits)

lemma suspended_only_by_switch:
  "e \<noteq> HfpSuspendLdac \<Longrightarrow> hfp_suspended (fst (ReduceV1Lifecycle l e)) \<Longrightarrow>
     hfp_suspended l \<and> physical_presence (fst (ReduceV1Lifecycle l e)) = physical_presence l \<and>
     lc_generation (fst (ReduceV1Lifecycle l e)) = lc_generation l"
  by (cases e) (auto simp: state_defs Let_def split: if_splits)

lemma switch_events_keep_presence:
  "e \<in> {HfpSuspendLdac, HfpResumeLdac} \<Longrightarrow>
     physical_presence (fst (ReduceV1Lifecycle l e)) = physical_presence l"
  by (auto simp: state_defs Let_def split: if_splits)

lemma poll_command_event:
  "V1HfpLifecycleEventForCommand c \<in> {HfpSuspendLdac, HfpResumeLdac}"
  by (cases c) simp_all

text \<open>A poll of an agent that has not been connected yet does nothing.\<close>

lemma poll_unconnected:
  assumes "tr_daily_mode tr" "lc_generation (tr_lifecycle tr) = 0"
  shows "sh_switch (fst (fst (hfp_poll True capture ready now (sh, tr)))) = sh_switch sh"
    and "tr_lifecycle (snd (fst (hfp_poll True capture ready now (sh, tr)))) = tr_lifecycle tr"
proof -
  have stale: "hfp_stale_input (sh_switch sh) (poll_input (tr_lifecycle tr) capture ready now)"
    using assms(2) by (simp add: hfp_stale_input_def poll_input_def)
  have "poll_command sh tr capture ready now = HfpCommand_None"
    by (simp add: poll_command_def hfp_stale_step [OF stale] PlanV1HfpLifecycle_def HfpSnapshot_def Let_def)
  then show "sh_switch (fst (fst (hfp_poll True capture ready now (sh, tr)))) = sh_switch sh"
    and "tr_lifecycle (snd (fst (hfp_poll True capture ready now (sh, tr)))) = tr_lifecycle tr"
    using hfp_stale_step [OF stale] by (simp_all add: poll_switch poll_lifecycle(1) assms(1))
qed

lemma poll_keeps_inv:
  assumes inv: "agent_inv n (sh, tr)" and n: "n < 2 ^ 63"
  shows "agent_inv n (fst (hfp_poll True capture ready now (sh, tr)))"
proof -
  let ?l = "tr_lifecycle tr" and ?i = "poll_input (tr_lifecycle tr) capture ready now"
  let ?c = "poll_command sh tr capture ready now"
  let ?a = "fst (hfp_poll True capture ready now (sh, tr))"
  have daily: "tr_daily_mode tr"
    using inv by (simp add: agent_inv_def Let_def)
  show ?thesis
  proof (cases "lc_generation ?l = 0")
    case True
    then show ?thesis
      using inv poll_unconnected [OF daily True]
      by (simp add: agent_inv_def Let_def poll_daily_mode)
  next
    case False
    note fresh = agent_inv_fresh [OF inv n False, of capture ready now]
    have i_gen: "hi_generation ?i = lc_generation ?l" by (simp add: poll_input_def)
    have event: "V1HfpLifecycleEventForCommand ?c \<noteq> AclConnected" by (cases ?c) simp_all
    have same: "lc_generation (tr_lifecycle (snd ?a)) = lc_generation ?l"
      "physical_presence (tr_lifecycle (snd ?a)) = physical_presence ?l"
      using generation_only_by_connect [OF event] switch_events_keep_presence [OF poll_command_event]
      by (simp_all add: poll_lifecycle(1) [OF daily])
    have "yielding (tr_lifecycle (snd ?a))"
      if w: "hs_phase (fst (HfpStep (sh_switch sh) ?i)) = HfpPhase_WaitingForLdacStop"
    proof (cases "HasV1HfpSwitchAction (snd (HfpStep (sh_switch sh) ?i)) V1HfpActionStopLdac")
      case True
      then have "?c = HfpCommand_SuspendLdac"
        using decision_of_fresh_step [OF fresh] False i_gen by (simp add: poll_command_iff Let_def)
      then show ?thesis using suspend_yields by (simp add: poll_lifecycle(1) [OF daily])
    next
      case False
      then have "hs_phase (sh_switch sh) = HfpPhase_WaitingForLdacStop"
        and "hs_generation (sh_switch sh) = lc_generation ?l"
        and "?c \<noteq> HfpCommand_SuspendLdac" and "?c \<noteq> HfpCommand_ResumeLdac"
        using waiting_after_step [OF fresh w] i_gen by (simp_all add: poll_command_iff Let_def)
      moreover from this have "?c = HfpCommand_None" by (cases ?c) simp_all
      ultimately show ?thesis using inv
        by (simp add: poll_lifecycle(1) [OF daily] agent_inv_def Let_def)
    qed
    moreover have "physical_presence ?l = PhysicalPresence_Present"
      if "hfp_suspended (tr_lifecycle (snd ?a))"
    proof (cases "?c = HfpCommand_SuspendLdac")
      case True
      then have "hi_physical_connected ?i"
        by (simp add: poll_command_iff hfp_stop_iff Let_def)
      then show ?thesis by (simp add: poll_input_def split: if_splits)
    next
      case False
      then have "V1HfpLifecycleEventForCommand ?c \<noteq> HfpSuspendLdac" by (cases ?c) simp_all
      then have "hfp_suspended ?l"
        using that suspended_only_by_switch by (auto simp: poll_lifecycle(1) [OF daily] split: if_splits)
      then show ?thesis using inv by (simp add: agent_inv_def Let_def)
    qed
    ultimately show ?thesis
      using daily False same hfp_step_generation [OF fresh] i_gen inv
      by (simp add: agent_inv_def Let_def poll_switch [OF daily] poll_daily_mode)
  qed
qed

text \<open>The switch is the only source of hands-free events: they are made from its plans only.\<close>

definition switch_driven :: "agent_event list \<Rightarrow> bool" where
  "switch_driven es \<longleftrightarrow>
     Reported HfpSuspendLdac \<notin> set es \<and> Reported HfpResumeLdac \<notin> set es"

lemma connect_step:
  "fst (ReduceV1Lifecycle l AclConnected) = l \<or>
   lc_generation (fst (ReduceV1Lifecycle l AclConnected)) = NextNonzero (lc_generation l) \<and>
   \<not> hfp_suspended (fst (ReduceV1Lifecycle l AclConnected))"
  by (auto simp: on_AclConnected_def NextNonzero_def)

lemma unat_next_generation: "unat g < 2 ^ 63 \<Longrightarrow> unat (NextNonzero g) = Suc (unat g)" for g :: u64
proof -
  assume "unat g < 2 ^ 63"
  then have "g \<noteq> - 1" by (auto simp: unat_max_u64)
  then show ?thesis
    using unat_less_neq_max [of g] by (simp add: NextNonzero_def)
qed

lemma reported_keeps_inv:
  assumes "agent_inv n (sh, tr)" "n < 2 ^ 63" "e \<noteq> HfpSuspendLdac" "e \<noteq> HfpResumeLdac"
  shows "agent_inv (Suc n) (fst (agent_step True (sh, tr) (Reported e)))"
proof -
  let ?l = "tr_lifecycle tr" and ?l' = "fst (ReduceV1Lifecycle (tr_lifecycle tr) e)"
  have inv: "unat (lc_generation ?l) \<le> n" "unat (hs_generation (sh_switch sh)) \<le> unat (lc_generation ?l)"
    using assms(1) by (simp_all add: agent_inv_def Let_def)
  show ?thesis
  proof (cases "e = AclConnected")
    case False
    have "physical_presence ?l' = PhysicalPresence_Present \<Longrightarrow> physical_presence ?l = PhysicalPresence_Present"
      using presence_only_by_connect [of ?l e] False by blast
    moreover have "lc_generation ?l' = lc_generation ?l"
      using generation_only_by_connect [OF False] .
    ultimately show ?thesis
      using assms yielding_step [OF _ False assms(4), of ?l] suspended_only_by_switch [OF assms(3), of ?l]
      by (auto simp: agent_inv_def Let_def case_prod_beta)
  next
    case True
    from connect_step [of ?l] show ?thesis
    proof
      assume "fst (ReduceV1Lifecycle ?l AclConnected) = ?l"
      then show ?thesis
        using assms(1) True by (auto simp: agent_inv_def Let_def case_prod_beta)
    next
      assume connected: "lc_generation (fst (ReduceV1Lifecycle ?l AclConnected)) = NextNonzero (lc_generation ?l) \<and>
        \<not> hfp_suspended (fst (ReduceV1Lifecycle ?l AclConnected))"
      have next': "unat (NextNonzero (lc_generation ?l)) = Suc (unat (lc_generation ?l))"
        using inv(1) assms(2) by (intro unat_next_generation) simp
      then have "hs_generation (sh_switch sh) \<noteq> NextNonzero (lc_generation ?l)"
        using inv(2) by auto
      then show ?thesis
        using assms(1) True connected next' inv
        by (auto simp: agent_inv_def Let_def case_prod_beta simp del: ReduceV1Lifecycle.simps)
    qed
  qed
qed

lemma agent_inv_mono: "agent_inv n a \<Longrightarrow> n \<le> m \<Longrightarrow> agent_inv m a"
  by (auto simp: agent_inv_def Let_def)

lemma agent_step_inv:
  assumes "agent_inv n a" "n < 2 ^ 63" "switch_driven [e]"
  shows "agent_inv (Suc n) (fst (agent_step True a e))"
proof (cases a)
  case (Pair sh tr)
  then show ?thesis
    using assms reported_keeps_inv [of n sh tr]
      poll_keeps_inv [of n sh tr, THEN agent_inv_mono, of "Suc n"]
    by (cases e) (auto simp: switch_driven_def simp del: agent_step.simps(1))
qed

lemma agent_run_inv:
  "agent_inv n a \<Longrightarrow> n + length es < 2 ^ 63 \<Longrightarrow> switch_driven es \<Longrightarrow>
     agent_inv (n + length es) (fst (agent_run True a es))"
proof (induction es arbitrary: n a)
  case Nil
  then show ?case by simp
next
  case (Cons e es)
  then have "agent_inv (Suc n) (fst (agent_step True a e))"
    by (intro agent_step_inv) (simp_all add: switch_driven_def)
  then show ?case
    using Cons.IH [of "Suc n" "fst (agent_step True a e)"] Cons.prems(2,3)
    by (simp add: Let_def case_prod_beta switch_driven_def)
qed

lemma open_microphone_poll:
  assumes inv: "agent_inv n (sh, tr)" "n < 2 ^ 63" and "capture_open capture ready"
    and present: "physical_presence (tr_lifecycle tr) = PhysicalPresence_Present"
  shows "media_session (tr_lifecycle (snd (fst (hfp_poll True capture ready now (sh, tr)))))
     \<notin> {MediaSession_Opening, MediaSession_Streaming}"
proof -
  let ?l = "tr_lifecycle tr" and ?i = "poll_input (tr_lifecycle tr) capture ready now"
  let ?c = "poll_command sh tr capture ready now"
  let ?a = "fst (hfp_poll True capture ready now (sh, tr))"
  have daily: "tr_daily_mode tr" and gen: "lc_generation ?l \<noteq> 0"
    using inv(1) present by (simp_all add: agent_inv_def Let_def)
  note fresh = agent_inv_fresh [OF inv gen, of capture ready now]
  have i: "hi_physical_connected ?i" "hi_capture_active ?i"
      "hi_ldac_path_active ?i = ldac_path_active ?l" "hi_generation ?i = lc_generation ?l"
    using assms by (simp_all add: poll_input_def)
  show ?thesis
  proof (cases "ldac_path_active ?l")
    case True
    then have "hs_phase (fst (HfpStep (sh_switch sh) ?i)) = HfpPhase_WaitingForLdacStop"
      using fresh i by (auto simp: state_defs Let_def)
    moreover have "V1HfpLifecycleEventForCommand ?c \<noteq> AclConnected" by (cases ?c) simp_all
    then have "lc_generation (tr_lifecycle (snd ?a)) = lc_generation ?l"
      using generation_only_by_connect by (simp add: poll_lifecycle(1) [OF daily])
    ultimately have "yielding (tr_lifecycle (snd ?a))"
      using poll_keeps_inv [OF inv, of capture ready now] hfp_step_generation [OF fresh] i(4)
      by (simp add: agent_inv_def Let_def poll_switch [OF daily])
    then show ?thesis by (simp add: yielding_def)
  next
    case False
    then have "?c \<noteq> HfpCommand_SuspendLdac" "?c \<noteq> HfpCommand_ResumeLdac"
      using i by (auto simp: poll_command_iff hfp_stop_iff hfp_resume_iff Let_def)
    then have "?c = HfpCommand_None" by (cases ?c) simp_all
    then show ?thesis using False
      by (auto simp: poll_lifecycle(1) [OF daily] ldac_path_active_def)
  qed
qed

text \<open>The agent at its start, in daily mode.\<close>

definition daily_agent :: "V1LifecycleState \<Rightarrow> V1HfpShadowState \<times> TrialState" where
  "daily_agent l =
     (\<lparr>sh_switch = V1HfpSwitchState_default, sh_capture_sequence = 0\<rparr>,
      \<lparr>tr_lifecycle = l, tr_daily_mode = True, tr_capture_sequence = 0,
       tr_capture_monitor_ready = False, tr_capture_matched = False, tr_capture_active = False,
       tr_capture_samples = 0, tr_shadow_stop_requests = 0, tr_shadow_enter_requests = 0,
       tr_shadow_exit_requests = 0, tr_shadow_resume_requests = 0, tr_suspend_plans = 0,
       tr_resume_plans = 0, tr_output_enter_plans = 0, tr_output_exit_plans = 0,
       tr_stale_plans = 0, tr_invalid_plans = 0, tr_executions = 0\<rparr>)"

lemma daily_agent_inv: "agent_inv 0 (daily_agent (configured maximum tolerate multiple))"
  by (simp add: agent_inv_def daily_agent_def configured_def V1LifecycleState_default_def
      V1HfpSwitchState_default_def Let_def)

text \<open>C5: an open microphone silences the LDAC path.  In daily mode with the transport switch enabled
  (it is off by default), from the start of the agent and after any history of polls and reported events,
  over any number of connections, a poll that finds the headset connected and its microphone open
  leaves the lifecycle neither opening nor streaming, however the events and the polls were interleaved
  before.  The hands-free events come from the switch only, as in the agent, and the history is shorter than
  the cycle of the generations.\<close>

theorem open_microphone_silences_ldac:
  assumes "a = fst (agent_run True (daily_agent (configured maximum tolerate multiple)) es)"
    and "switch_driven es" "length es < 2 ^ 63" "capture_open capture ready"
    and "physical_presence (tr_lifecycle (snd a)) = PhysicalPresence_Present"
  shows "media_session (tr_lifecycle (snd (fst (hfp_poll True capture ready now a))))
    \<notin> {MediaSession_Opening, MediaSession_Streaming}"
  using open_microphone_poll [of "length es" "fst a" "snd a"]
    agent_run_inv [OF daily_agent_inv, of es maximum tolerate multiple] assms
  by simp

abbreviation mic :: "bool \<Rightarrow> V1HfpCaptureSnapshot" where
  "mic active \<equiv> \<lparr>cap_endpoint_matched = True, cap_capture_active = active, cap_sequence = 1\<rparr>"

definition playing :: "agent_event list" where
  "playing =
     [Reported AclConnected, Polled (mic False) True 0, Reported RenderStarted,
      Reported EngineReady, Reported MediaStarted, Polled (mic False) True 500]"

text \<open>A call in a first connection, which is then lost, and playback in a second one that the switch has
  not seen yet when the microphone opens again.\<close>

definition playing_again :: "agent_event list" where
  "playing_again = playing @
     [Polled (mic True) True 900, Reported AclDisconnected, Reported AclConnected,
      Reported RenderStarted, Reported EngineReady, Reported MediaStarted]"

theorem open_microphone_silences_ldac_witness:
  "let a = fst (agent_run True (daily_agent (configured 4 True True)) playing_again)
   in media_session (tr_lifecycle (snd a)) = MediaSession_Streaming \<and>
      media_session (tr_lifecycle (snd (fst (hfp_poll True (mic True) True 9000 a))))
        \<notin> {MediaSession_Opening, MediaSession_Streaming}"
proof -
  let ?a = "fst (agent_run True (daily_agent (configured 4 True True)) playing_again)"
  have "media_session (tr_lifecycle (snd ?a)) = MediaSession_Streaming"
    by code_simp
  moreover have "media_session (tr_lifecycle (snd (fst (hfp_poll True (mic True) True 9000 ?a))))
      \<notin> {MediaSession_Opening, MediaSession_Streaming}"
  proof (rule open_microphone_silences_ldac [OF refl])
    show "switch_driven playing_again" "length playing_again < 2 ^ 63"
      by (simp_all add: switch_driven_def playing_again_def playing_def)
  qed code_simp+
  ultimately show ?thesis
    unfolding Let_def by blast
qed

section \<open>A release without render demand\<close>

text \<open>The switch considers the LDAC path available again, but the lifecycle is still suspended.\<close>

definition stranded :: "V1HfpShadowState \<times> TrialState \<Rightarrow> bool" where
  "stranded a \<longleftrightarrow>
     (let sw = sh_switch (fst a); l = tr_lifecycle (snd a)
      in tr_daily_mode (snd a) \<and> lc_generation l \<noteq> 0 \<and> hs_generation sw = lc_generation l \<and>
         hs_phase sw = HfpPhase_LdacAvailable \<and> hfp_suspended l \<and>
         physical_presence l = PhysicalPresence_Present)"

definition closed_microphone :: "agent_event list \<Rightarrow> bool" where
  "closed_microphone es \<longleftrightarrow>
     (\<forall>capture ready now. Polled capture ready now \<in> set es \<longrightarrow> \<not> capture_open capture ready)"

definition stays_connected :: "agent_event list \<Rightarrow> bool" where
  "stays_connected es \<longleftrightarrow>
     Reported AclDisconnected \<notin> set es \<and> Reported WatcherLeaseExpired \<notin> set es \<and>
     Reported HfpResumeLdac \<notin> set es"

lemma stranded_lifecycle_step:
  assumes "hfp_suspended l" "physical_presence l = PhysicalPresence_Present"
    and "e \<noteq> AclDisconnected" "e \<noteq> WatcherLeaseExpired" "e \<noteq> HfpResumeLdac"
  shows "hfp_suspended (fst (ReduceV1Lifecycle l e)) \<and>
     physical_presence (fst (ReduceV1Lifecycle l e)) = PhysicalPresence_Present \<and>
     lc_generation (fst (ReduceV1Lifecycle l e)) = lc_generation l \<and>
     \<not> HasV1LifecycleAction (snd (ReduceV1Lifecycle l e)) V1ActionOpenTransport"
  using assms unfolding opens_iff
  by (cases e) (auto simp: state_defs Let_def split: if_splits)

lemma available_step:
  assumes "\<not> hfp_stale_input s i" "hi_generation i = hs_generation s"
    and "hs_phase s = HfpPhase_LdacAvailable"
    and "hi_physical_connected i" "\<not> hi_capture_active i"
  shows "fst (HfpStep s i) = s" "hd_actions (snd (HfpStep s i)) = V1HfpActionNone"
  using assms by (auto simp: state_defs Let_def split: if_splits)

lemma stranded_poll:
  assumes "stranded (sh, tr)" "\<not> capture_open capture ready"
  shows "stranded (fst (hfp_poll True capture ready now (sh, tr))) \<and>
     snd (hfp_poll True capture ready now (sh, tr)) = V1ActionNone"
proof -
  let ?l = "tr_lifecycle tr" and ?i = "poll_input (tr_lifecycle tr) capture ready now"
  have daily: "tr_daily_mode tr" using assms(1) by (simp add: stranded_def Let_def)
  have "\<not> hfp_stale_input (sh_switch sh) ?i" "hi_generation ?i = hs_generation (sh_switch sh)"
    "hs_phase (sh_switch sh) = HfpPhase_LdacAvailable"
    "hi_physical_connected ?i" "\<not> hi_capture_active ?i"
    using assms by (auto simp: stranded_def hfp_stale_input_def poll_input_def Let_def)
  note quiet = available_step [OF this]
  have "poll_command sh tr capture ready now = HfpCommand_None"
    using quiet(2)
    by (auto simp: poll_command_def PlanV1HfpLifecycle_def HasV1HfpSwitchAction_def Let_def)
  then show ?thesis using assms(1) quiet(1)
    by (simp add: stranded_def Let_def poll_switch [OF daily] poll_daily_mode
        poll_lifecycle [OF daily])
qed

lemma stranded_step:
  assumes "stranded a" "closed_microphone (e # es)" "stays_connected (e # es)"
  shows "stranded (fst (agent_step True a e)) \<and>
     \<not> HasV1LifecycleAction (snd (agent_step True a e)) V1ActionOpenTransport"
proof (cases a)
  case (Pair sh tr)
  show ?thesis
  proof (cases e)
    case (Reported r)
    then show ?thesis
      using assms stranded_lifecycle_step [of "tr_lifecycle tr" r]
      by (auto simp: Pair stranded_def stays_connected_def Let_def case_prod_beta)
  next
    case (Polled capture ready now)
    then have "\<not> capture_open capture ready"
      using assms(2) by (auto simp: closed_microphone_def)
    then show ?thesis using assms(1) Polled stranded_poll [of sh tr capture ready now]
      by (simp add: Pair HasV1LifecycleAction_def)
  qed
qed

lemma stranded_run:
  "stranded a \<Longrightarrow> closed_microphone es \<Longrightarrow> stays_connected es \<Longrightarrow>
     stranded (fst (agent_run True a es)) \<and> opens (snd (agent_run True a es)) = 0"
proof (induction es arbitrary: a)
  case Nil
  then show ?case by simp
next
  case (Cons e es)
  have "closed_microphone es" "stays_connected es"
    using Cons.prems by (auto simp: closed_microphone_def stays_connected_def)
  then show ?case
    using Cons.IH [of "fst (agent_step True a e)"] stranded_step [OF Cons.prems]
    by (simp add: Let_def case_prod_beta)
qed

text \<open>The poll that ends the release delay of a suspension while nothing is rendered.\<close>

definition release_expires :: "V1HfpShadowState \<times> TrialState \<Rightarrow> u64 \<Rightarrow> bool" where
  "release_expires a now \<longleftrightarrow>
     hfp_suspended (tr_lifecycle (snd a)) \<and> hs_phase (sh_switch (fst a)) = HfpPhase_ReleaseDelay \<and>
     hs_release_deadline_ms (sh_switch (fst a)) \<le> now"

lemma idle_release:
  assumes "\<not> hfp_stale_input s i" "hi_generation i = hs_generation s"
    and "hs_phase s = HfpPhase_ReleaseDelay" "hs_release_deadline_ms s \<le> hi_now_ms i"
    and "hi_physical_connected i" "\<not> hi_capture_active i"
  shows "hs_phase (fst (HfpStep s i)) = HfpPhase_LdacAvailable"
  using assms by (auto simp: state_defs Let_def split: if_splits)

lemma idle_release_strands:
  assumes inv: "agent_inv n (sh, tr)" "n < 2 ^ 63" and expires: "release_expires (sh, tr) now"
    and "render_demand (tr_lifecycle tr) = RenderDemand_Idle" "\<not> capture_open capture ready"
  shows "stranded (fst (hfp_poll True capture ready now (sh, tr)))"
proof -
  let ?l = "tr_lifecycle tr" and ?i = "poll_input (tr_lifecycle tr) capture ready now"
  have l: "tr_daily_mode tr" "hfp_suspended ?l" "physical_presence ?l = PhysicalPresence_Present"
    "lc_generation ?l \<noteq> 0" "hs_generation (sh_switch sh) = lc_generation ?l"
    using inv(1) expires by (simp_all add: agent_inv_def release_expires_def Let_def)
  note fresh = agent_inv_fresh [OF inv l(4), of capture ready now]
  have "hi_generation ?i = hs_generation (sh_switch sh)" "hi_physical_connected ?i" "\<not> hi_capture_active ?i"
    "hs_release_deadline_ms (sh_switch sh) \<le> hi_now_ms ?i" "\<not> hi_render_demand ?i"
    using assms l by (simp_all add: poll_input_def release_expires_def)
  moreover from this have "poll_command sh tr capture ready now \<noteq> HfpCommand_SuspendLdac"
    "poll_command sh tr capture ready now \<noteq> HfpCommand_ResumeLdac"
    by (auto simp: poll_command_iff hfp_stop_iff hfp_resume_iff Let_def)
  then have "poll_command sh tr capture ready now = HfpCommand_None"
    by (cases "poll_command sh tr capture ready now") simp_all
  ultimately show ?thesis
    using l expires idle_release [OF fresh] hfp_step_generation [OF fresh]
    by (simp add: stranded_def release_expires_def Let_def poll_switch poll_lifecycle(1) poll_daily_mode)
qed


definition call_while_playing :: "agent_event list" where
  "call_while_playing = playing @
     [Polled (mic True) True 1000, Reported RenderStopped, Reported MediaStopped,
      Reported EngineExited, Polled (mic True) True 1250, Polled (mic False) True 5000]"

definition music_again :: "agent_event list" where
  "music_again =
     [Reported RenderStarted, Polled (mic False) True 9000, Reported RenderStopped,
      Reported RenderStarted, Polled (mic False) True 20000]"


end
