(* ===== verification/Absolute_Volume.thy ===== *)
theory Absolute_Volume
  imports Generation
begin

text \<open>
  Absolute volume: \<open>agent/avrcp_absolute_volume_state.cpp\<close>.  The reducer keeps the headset's
  volume following the Windows endpoint, which is the only authority; the gate around it lets a
  decision out only in \<open>Synchronize\<close> mode, under an owner lease, for the current ACL generation.
  The theory proves the percent scale's round trip, the reducer's convergence invariant, what a
  remote change does, and that no decision survives a revocation of the gate.
\<close>

section \<open>State and decisions\<close>

datatype AvrcpAbsoluteVolumeSupport =
  VolumeSupport_Unknown | VolumeSupport_Unsupported | VolumeSupport_Supported

datatype AvrcpXm5VolumeEvent = Xm5Event_CommandResponse | Xm5Event_RemoteNotification

record AvrcpWindowsVolume =
  wv_percent :: u8
  wv_muted :: bool

definition AvrcpWindowsVolume_default :: AvrcpWindowsVolume where
  "AvrcpWindowsVolume_default = \<lparr>wv_percent = 0, wv_muted = True\<rparr>"

abbreviation "AvrcpVolumeActionNone \<equiv> (0 :: u32)"
abbreviation "AvrcpVolumeActionSetWindowsEndpoint \<equiv> (1 :: u32)"
abbreviation "AvrcpVolumeActionSendXm5AbsoluteVolume \<equiv> (2 :: u32)"

record AvrcpAbsoluteVolumeDecision =
  vd_actions :: u32
  vd_windows_volume :: AvrcpWindowsVolume
  vd_xm5_absolute_volume :: u8

definition AvrcpAbsoluteVolumeDecision_default :: AvrcpAbsoluteVolumeDecision where
  "AvrcpAbsoluteVolumeDecision_default =
     \<lparr>vd_actions = AvrcpVolumeActionNone, vd_windows_volume = AvrcpWindowsVolume_default,
      vd_xm5_absolute_volume = 0\<rparr>"

record AvrcpAbsoluteVolumeState =
  av_generation :: u64
  av_session_active :: bool
  av_support :: AvrcpAbsoluteVolumeSupport
  av_windows_volume_known :: bool
  av_windows_volume :: AvrcpWindowsVolume
  av_first_session_sync_complete :: bool
  av_outbound_echo_pending :: bool
  av_last_xm5_volume_sent :: u8
  av_inbound_volume_seen :: bool
  av_last_xm5_volume_received :: u8
  av_windows_update_pending :: bool
  av_pending_xm5_volume :: u8

definition AvrcpAbsoluteVolumeState_default :: AvrcpAbsoluteVolumeState where
  "AvrcpAbsoluteVolumeState_default =
     \<lparr>av_generation = 0, av_session_active = False, av_support = VolumeSupport_Unknown,
      av_windows_volume_known = False, av_windows_volume = AvrcpWindowsVolume_default,
      av_first_session_sync_complete = False, av_outbound_echo_pending = False,
      av_last_xm5_volume_sent = 0, av_inbound_volume_seen = False,
      av_last_xm5_volume_received = 0, av_windows_update_pending = False,
      av_pending_xm5_volume = 0\<rparr>"

section \<open>The scale\<close>

definition WindowsPercentToXm5AbsoluteVolume :: "u32 \<Rightarrow> u8" where
  "WindowsPercentToXm5AbsoluteVolume windows_percent =
     (let bounded = min windows_percent 100 in ucast ((bounded * 127 + 50) div 100))"

definition Xm5AbsoluteVolumeToWindowsPercent :: "u32 \<Rightarrow> u8" where
  "Xm5AbsoluteVolumeToWindowsPercent xm5_absolute_volume =
     (let bounded = min xm5_absolute_volume 127 in ucast ((bounded * 100 + 63) div 127))"

definition ClampWindowsVolume :: "AvrcpWindowsVolume \<Rightarrow> AvrcpWindowsVolume" where
  "ClampWindowsVolume volume =
     volume\<lparr>wv_percent := ucast (min (ucast (wv_percent volume) :: u32) 100)\<rparr>"

definition ProjectWindowsVolumeToXm5 :: "AvrcpWindowsVolume \<Rightarrow> u8" where
  "ProjectWindowsVolumeToXm5 volume =
     (if wv_muted volume \<or> wv_percent volume = 0 then 0
      else WindowsPercentToXm5AbsoluteVolume (ucast (wv_percent volume)))"

section \<open>The reducer\<close>

definition IsCurrentSession :: "AvrcpAbsoluteVolumeState \<Rightarrow> u64 \<Rightarrow> bool" where
  "IsCurrentSession s generation \<longleftrightarrow>
     generation \<noteq> 0 \<and> av_session_active s \<and> generation = av_generation s"

definition SendAuthoritativeWindowsVolume ::
  "AvrcpAbsoluteVolumeState \<Rightarrow> AvrcpAbsoluteVolumeState \<times> AvrcpAbsoluteVolumeDecision" where
  "SendAuthoritativeWindowsVolume s =
     (if \<not> av_windows_volume_known s \<or> av_support s \<noteq> VolumeSupport_Supported
      then (s, AvrcpAbsoluteVolumeDecision_default)
      else
        let projected = ProjectWindowsVolumeToXm5 (av_windows_volume s)
        in (s\<lparr>av_first_session_sync_complete := True, av_outbound_echo_pending := True,
              av_last_xm5_volume_sent := projected\<rparr>,
            AvrcpAbsoluteVolumeDecision_default
              \<lparr>vd_actions := AvrcpVolumeActionSendXm5AbsoluteVolume,
               vd_xm5_absolute_volume := projected\<rparr>))"

definition HasAvrcpAbsoluteVolumeAction :: "AvrcpAbsoluteVolumeDecision \<Rightarrow> u32 \<Rightarrow> bool" where
  "HasAvrcpAbsoluteVolumeAction d action \<longleftrightarrow> vd_actions d AND action \<noteq> 0"

definition BeginAvrcpAbsoluteVolumeSession ::
  "AvrcpAbsoluteVolumeState \<Rightarrow> u64 \<Rightarrow> AvrcpAbsoluteVolumeSupport \<Rightarrow> AvrcpWindowsVolume \<Rightarrow>
   AvrcpAbsoluteVolumeState \<times> AvrcpAbsoluteVolumeDecision" where
  "BeginAvrcpAbsoluteVolumeSession s generation support observed =
     (if \<not> IsNewerGeneration generation (av_generation s)
      then (s, AvrcpAbsoluteVolumeDecision_default)
      else SendAuthoritativeWindowsVolume
        (AvrcpAbsoluteVolumeState_default
          \<lparr>av_generation := generation, av_session_active := True, av_support := support,
           av_windows_volume_known := True,
           av_windows_volume := ClampWindowsVolume observed\<rparr>))"

definition SetAvrcpAbsoluteVolumeSupport ::
  "AvrcpAbsoluteVolumeState \<Rightarrow> u64 \<Rightarrow> AvrcpAbsoluteVolumeSupport \<Rightarrow>
   AvrcpAbsoluteVolumeState \<times> AvrcpAbsoluteVolumeDecision" where
  "SetAvrcpAbsoluteVolumeSupport s generation support =
     (if \<not> IsCurrentSession s generation then (s, AvrcpAbsoluteVolumeDecision_default)
      else
        let s1 = s\<lparr>av_support := support\<rparr>
        in if support \<noteq> VolumeSupport_Supported
           then (s1\<lparr>av_first_session_sync_complete := False, av_outbound_echo_pending := False,
                    av_windows_update_pending := False\<rparr>, AvrcpAbsoluteVolumeDecision_default)
           else if \<not> av_first_session_sync_complete s1 then SendAuthoritativeWindowsVolume s1
           else (s1, AvrcpAbsoluteVolumeDecision_default))"

definition ObserveWindowsEndpointVolume ::
  "AvrcpAbsoluteVolumeState \<Rightarrow> u64 \<Rightarrow> AvrcpWindowsVolume \<Rightarrow>
   AvrcpAbsoluteVolumeState \<times> AvrcpAbsoluteVolumeDecision" where
  "ObserveWindowsEndpointVolume s generation observed =
     (if \<not> IsCurrentSession s generation then (s, AvrcpAbsoluteVolumeDecision_default)
      else
        let s1 = s\<lparr>av_windows_volume_known := True,
                   av_windows_volume := ClampWindowsVolume observed\<rparr>;
            projected = ProjectWindowsVolumeToXm5 (av_windows_volume s1)
        in if av_windows_update_pending s1
           then
             let is_expected_callback = (projected = av_pending_xm5_volume s1);
                 s2 = s1\<lparr>av_windows_update_pending := False\<rparr>
             in if is_expected_callback
                then (s2\<lparr>av_last_xm5_volume_sent := projected,
                         av_outbound_echo_pending := False\<rparr>,
                      AvrcpAbsoluteVolumeDecision_default)
                else SendAuthoritativeWindowsVolume s2
           else if av_support s1 \<noteq> VolumeSupport_Supported
           then (s1, AvrcpAbsoluteVolumeDecision_default)
           else if av_first_session_sync_complete s1 \<and> av_last_xm5_volume_sent s1 = projected
           then (s1, AvrcpAbsoluteVolumeDecision_default)
           else SendAuthoritativeWindowsVolume s1)"

definition ObserveXm5AbsoluteVolume ::
  "AvrcpAbsoluteVolumeState \<Rightarrow> u64 \<Rightarrow> u32 \<Rightarrow> AvrcpXm5VolumeEvent \<Rightarrow>
   AvrcpAbsoluteVolumeState \<times> AvrcpAbsoluteVolumeDecision" where
  "ObserveXm5AbsoluteVolume s generation xm5_absolute_volume event =
     (if \<not> IsCurrentSession s generation \<or> av_support s \<noteq> VolumeSupport_Supported \<or>
         xm5_absolute_volume > 127
      then (s, AvrcpAbsoluteVolumeDecision_default)
      else
        let value = ucast xm5_absolute_volume :: u8
        in if event = Xm5Event_CommandResponse
           then ((if av_outbound_echo_pending s \<and> value = av_last_xm5_volume_sent s
                  then s\<lparr>av_outbound_echo_pending := False\<rparr> else s),
                 AvrcpAbsoluteVolumeDecision_default)
           else if av_inbound_volume_seen s \<and> value = av_last_xm5_volume_received s
           then (s, AvrcpAbsoluteVolumeDecision_default)
           else
             let s1 = s\<lparr>av_inbound_volume_seen := True, av_last_xm5_volume_received := value,
                        av_outbound_echo_pending := False\<rparr>
             in if av_windows_volume_known s1 \<and>
                   ProjectWindowsVolumeToXm5 (av_windows_volume s1) = value
                then (s1, AvrcpAbsoluteVolumeDecision_default)
                else (s1\<lparr>av_windows_update_pending := True, av_pending_xm5_volume := value\<rparr>,
                      AvrcpAbsoluteVolumeDecision_default
                        \<lparr>vd_actions := AvrcpVolumeActionSetWindowsEndpoint,
                         vd_windows_volume :=
                           \<lparr>wv_percent = Xm5AbsoluteVolumeToWindowsPercent (ucast value),
                            wv_muted = (value = 0)\<rparr>\<rparr>))"

definition EndAvrcpAbsoluteVolumeSession ::
  "AvrcpAbsoluteVolumeState \<Rightarrow> u64 \<Rightarrow> AvrcpAbsoluteVolumeState" where
  "EndAvrcpAbsoluteVolumeSession s generation =
     (if \<not> IsCurrentSession s generation then s
      else s\<lparr>av_session_active := False, av_support := VolumeSupport_Unknown,
             av_outbound_echo_pending := False, av_windows_update_pending := False,
             av_inbound_volume_seen := False\<rparr>)"

section \<open>The gate\<close>

datatype AvrcpAbsoluteVolumeGateMode = VolumeGate_ObserveOnly | VolumeGate_Synchronize

record AvrcpAbsoluteVolumeGateDecision =
  vg_volume :: AvrcpAbsoluteVolumeDecision
  vg_acl_generation :: u64
  vg_owner_lease :: u64
  vg_authorization_epoch :: u64

definition AvrcpAbsoluteVolumeGateDecision_default :: AvrcpAbsoluteVolumeGateDecision where
  "AvrcpAbsoluteVolumeGateDecision_default =
     \<lparr>vg_volume = AvrcpAbsoluteVolumeDecision_default, vg_acl_generation = 0,
      vg_owner_lease = 0, vg_authorization_epoch = 0\<rparr>"

record AvrcpAbsoluteVolumeGateState =
  ag_acl_generation :: u64
  ag_acl_generation_current :: bool
  ag_owner_lease :: u64
  ag_authorization_epoch :: u64
  ag_mode :: AvrcpAbsoluteVolumeGateMode
  ag_observed_support :: AvrcpAbsoluteVolumeSupport
  ag_windows_volume_observed :: bool
  ag_last_windows_volume :: AvrcpWindowsVolume
  ag_xm5_volume_observed :: bool
  ag_last_xm5_volume :: u8
  ag_last_xm5_event :: AvrcpXm5VolumeEvent
  ag_reducer :: AvrcpAbsoluteVolumeState

definition AvrcpAbsoluteVolumeGateState_default :: AvrcpAbsoluteVolumeGateState where
  "AvrcpAbsoluteVolumeGateState_default =
     \<lparr>ag_acl_generation = 0, ag_acl_generation_current = False, ag_owner_lease = 0,
      ag_authorization_epoch = 0, ag_mode = VolumeGate_ObserveOnly,
      ag_observed_support = VolumeSupport_Unknown, ag_windows_volume_observed = False,
      ag_last_windows_volume = AvrcpWindowsVolume_default, ag_xm5_volume_observed = False,
      ag_last_xm5_volume = 0, ag_last_xm5_event = Xm5Event_RemoteNotification,
      ag_reducer = AvrcpAbsoluteVolumeState_default\<rparr>"

definition IsCurrentAclGeneration :: "AvrcpAbsoluteVolumeGateState \<Rightarrow> u64 \<Rightarrow> bool" where
  "IsCurrentAclGeneration g acl_generation \<longleftrightarrow>
     acl_generation \<noteq> 0 \<and> ag_acl_generation_current g \<and> ag_acl_generation g = acl_generation"

definition GateCanSynchronize :: "AvrcpAbsoluteVolumeGateState \<Rightarrow> bool" where
  "GateCanSynchronize g \<longleftrightarrow>
     ag_acl_generation_current g \<and> ag_acl_generation g \<noteq> 0 \<and> ag_owner_lease g \<noteq> 0 \<and>
     ag_mode g = VolumeGate_Synchronize \<and> ag_observed_support g = VolumeSupport_Supported \<and>
     ag_windows_volume_observed g"

definition ResetGateReducer :: "AvrcpAbsoluteVolumeGateState \<Rightarrow> AvrcpAbsoluteVolumeGateState" where
  "ResetGateReducer g = g\<lparr>ag_reducer := AvrcpAbsoluteVolumeState_default\<rparr>"

definition InvalidateGateAuthorization ::
  "AvrcpAbsoluteVolumeGateState \<Rightarrow> AvrcpAbsoluteVolumeGateState" where
  "InvalidateGateAuthorization g =
     ResetGateReducer
       (if ag_authorization_epoch g = - 1 then g\<lparr>ag_authorization_epoch := 1\<rparr>
        else g\<lparr>ag_authorization_epoch := ag_authorization_epoch g + 1\<rparr>)"

definition AuthorizeGateDecision ::
  "AvrcpAbsoluteVolumeGateState \<Rightarrow> AvrcpAbsoluteVolumeDecision \<Rightarrow> AvrcpAbsoluteVolumeGateDecision"
where
  "AuthorizeGateDecision g volume =
     (if \<not> GateCanSynchronize g \<or> vd_actions volume = 0
      then AvrcpAbsoluteVolumeGateDecision_default
      else \<lparr>vg_volume = volume, vg_acl_generation = ag_acl_generation g,
            vg_owner_lease = ag_owner_lease g,
            vg_authorization_epoch = ag_authorization_epoch g\<rparr>)"

definition ActivateGateIfAuthorized ::
  "AvrcpAbsoluteVolumeGateState \<Rightarrow>
   AvrcpAbsoluteVolumeGateState \<times> AvrcpAbsoluteVolumeGateDecision" where
  "ActivateGateIfAuthorized g =
     (if \<not> GateCanSynchronize g \<or> av_session_active (ag_reducer g)
      then (g, AvrcpAbsoluteVolumeGateDecision_default)
      else
        let g1 = ResetGateReducer g;
            (r, d) = BeginAvrcpAbsoluteVolumeSession (ag_reducer g1) (ag_acl_generation g1)
              VolumeSupport_Supported (ag_last_windows_volume g1);
            g2 = g1\<lparr>ag_reducer := r\<rparr>
        in (g2, AuthorizeGateDecision g2 d))"

definition BeginAvrcpAbsoluteVolumeAclGeneration ::
  "AvrcpAbsoluteVolumeGateState \<Rightarrow> u64 \<Rightarrow>
   AvrcpAbsoluteVolumeGateState \<times> AvrcpAbsoluteVolumeGateDecision" where
  "BeginAvrcpAbsoluteVolumeAclGeneration g acl_generation =
     (if \<not> IsNewerGeneration acl_generation (ag_acl_generation g)
      then (g, AvrcpAbsoluteVolumeGateDecision_default)
      else
        let g1 = InvalidateGateAuthorization
              (AvrcpAbsoluteVolumeGateState_default
                \<lparr>ag_authorization_epoch := ag_authorization_epoch g\<rparr>)
        in (g1\<lparr>ag_acl_generation := acl_generation, ag_acl_generation_current := True\<rparr>,
            AvrcpAbsoluteVolumeGateDecision_default))"

definition SetAvrcpAbsoluteVolumeGateMode ::
  "AvrcpAbsoluteVolumeGateState \<Rightarrow> u64 \<Rightarrow> AvrcpAbsoluteVolumeGateMode \<Rightarrow>
   AvrcpAbsoluteVolumeGateState \<times> AvrcpAbsoluteVolumeGateDecision" where
  "SetAvrcpAbsoluteVolumeGateMode g acl_generation mode =
     (if \<not> IsCurrentAclGeneration g acl_generation
      then (g, AvrcpAbsoluteVolumeGateDecision_default)
      else
        let g1 = g\<lparr>ag_mode := mode\<rparr>
        in if mode \<noteq> VolumeGate_Synchronize
           then (InvalidateGateAuthorization g1, AvrcpAbsoluteVolumeGateDecision_default)
           else ActivateGateIfAuthorized g1)"

definition AcquireAvrcpAbsoluteVolumeOwnerLease ::
  "AvrcpAbsoluteVolumeGateState \<Rightarrow> u64 \<Rightarrow> u64 \<Rightarrow>
   AvrcpAbsoluteVolumeGateState \<times> AvrcpAbsoluteVolumeGateDecision" where
  "AcquireAvrcpAbsoluteVolumeOwnerLease g acl_generation owner_lease =
     (if owner_lease = 0 \<or> \<not> IsCurrentAclGeneration g acl_generation \<or>
         (ag_owner_lease g \<noteq> 0 \<and> ag_owner_lease g \<noteq> owner_lease)
      then (g, AvrcpAbsoluteVolumeGateDecision_default)
      else ActivateGateIfAuthorized (g\<lparr>ag_owner_lease := owner_lease\<rparr>))"

definition RevokeAvrcpAbsoluteVolumeOwnerLease ::
  "AvrcpAbsoluteVolumeGateState \<Rightarrow> u64 \<Rightarrow> u64 \<Rightarrow>
   AvrcpAbsoluteVolumeGateState \<times> AvrcpAbsoluteVolumeGateDecision" where
  "RevokeAvrcpAbsoluteVolumeOwnerLease g acl_generation owner_lease =
     (if owner_lease = 0 \<or> \<not> IsCurrentAclGeneration g acl_generation \<or>
         ag_owner_lease g \<noteq> owner_lease
      then (g, AvrcpAbsoluteVolumeGateDecision_default)
      else (InvalidateGateAuthorization (g\<lparr>ag_owner_lease := 0\<rparr>),
            AvrcpAbsoluteVolumeGateDecision_default))"

definition ObserveAvrcpAbsoluteVolumeCapability ::
  "AvrcpAbsoluteVolumeGateState \<Rightarrow> u64 \<Rightarrow> AvrcpAbsoluteVolumeSupport \<Rightarrow>
   AvrcpAbsoluteVolumeGateState \<times> AvrcpAbsoluteVolumeGateDecision" where
  "ObserveAvrcpAbsoluteVolumeCapability g acl_generation support =
     (if \<not> IsCurrentAclGeneration g acl_generation
      then (g, AvrcpAbsoluteVolumeGateDecision_default)
      else
        let g1 = g\<lparr>ag_observed_support := support\<rparr>
        in if support \<noteq> VolumeSupport_Supported
           then (InvalidateGateAuthorization g1, AvrcpAbsoluteVolumeGateDecision_default)
           else ActivateGateIfAuthorized g1)"

definition ObserveWindowsEndpointVolumeThroughGate ::
  "AvrcpAbsoluteVolumeGateState \<Rightarrow> u64 \<Rightarrow> AvrcpWindowsVolume \<Rightarrow>
   AvrcpAbsoluteVolumeGateState \<times> AvrcpAbsoluteVolumeGateDecision" where
  "ObserveWindowsEndpointVolumeThroughGate g acl_generation observed =
     (if \<not> IsCurrentAclGeneration g acl_generation
      then (g, AvrcpAbsoluteVolumeGateDecision_default)
      else
        let g1 = g\<lparr>ag_windows_volume_observed := True,
                   ag_last_windows_volume := ClampWindowsVolume observed\<rparr>
        in if \<not> GateCanSynchronize g1 then (g1, AvrcpAbsoluteVolumeGateDecision_default)
           else if \<not> av_session_active (ag_reducer g1) then ActivateGateIfAuthorized g1
           else
             let (r, d) = ObserveWindowsEndpointVolume (ag_reducer g1) acl_generation
                   (ag_last_windows_volume g1);
                 g2 = g1\<lparr>ag_reducer := r\<rparr>
             in (g2, AuthorizeGateDecision g2 d))"

definition ObserveXm5AbsoluteVolumeThroughGate ::
  "AvrcpAbsoluteVolumeGateState \<Rightarrow> u64 \<Rightarrow> u32 \<Rightarrow> AvrcpXm5VolumeEvent \<Rightarrow>
   AvrcpAbsoluteVolumeGateState \<times> AvrcpAbsoluteVolumeGateDecision" where
  "ObserveXm5AbsoluteVolumeThroughGate g acl_generation xm5_absolute_volume event =
     (if xm5_absolute_volume > 127 \<or> \<not> IsCurrentAclGeneration g acl_generation
      then (g, AvrcpAbsoluteVolumeGateDecision_default)
      else
        let g1 = g\<lparr>ag_xm5_volume_observed := True,
                   ag_last_xm5_volume := ucast xm5_absolute_volume,
                   ag_last_xm5_event := event\<rparr>
        in if \<not> GateCanSynchronize g1 \<or> \<not> av_session_active (ag_reducer g1)
           then (g1, AvrcpAbsoluteVolumeGateDecision_default)
           else
             let (r, d) = ObserveXm5AbsoluteVolume (ag_reducer g1) acl_generation
                   xm5_absolute_volume event;
                 g2 = g1\<lparr>ag_reducer := r\<rparr>
             in (g2, AuthorizeGateDecision g2 d))"

definition EndAvrcpAbsoluteVolumeAclGeneration ::
  "AvrcpAbsoluteVolumeGateState \<Rightarrow> u64 \<Rightarrow>
   AvrcpAbsoluteVolumeGateState \<times> AvrcpAbsoluteVolumeGateDecision" where
  "EndAvrcpAbsoluteVolumeAclGeneration g acl_generation =
     (if \<not> IsCurrentAclGeneration g acl_generation
      then (g, AvrcpAbsoluteVolumeGateDecision_default)
      else (InvalidateGateAuthorization
              (g\<lparr>ag_acl_generation_current := False, ag_owner_lease := 0,
                 ag_mode := VolumeGate_ObserveOnly,
                 ag_observed_support := VolumeSupport_Unknown\<rparr>),
            AvrcpAbsoluteVolumeGateDecision_default))"

definition IsAvrcpAbsoluteVolumeGateDecisionCurrent ::
  "AvrcpAbsoluteVolumeGateState \<Rightarrow> AvrcpAbsoluteVolumeGateDecision \<Rightarrow> bool" where
  "IsAvrcpAbsoluteVolumeGateDecisionCurrent g d \<longleftrightarrow>
     vd_actions (vg_volume d) \<noteq> 0 \<and> GateCanSynchronize g \<and> av_session_active (ag_reducer g) \<and>
     vg_acl_generation d = ag_acl_generation g \<and> vg_owner_lease d = ag_owner_lease g \<and>
     vg_authorization_epoch d = ag_authorization_epoch g"

definition HasAvrcpAbsoluteVolumeGateAction ::
  "AvrcpAbsoluteVolumeGateDecision \<Rightarrow> u32 \<Rightarrow> bool" where
  "HasAvrcpAbsoluteVolumeGateAction d action \<longleftrightarrow> HasAvrcpAbsoluteVolumeAction (vg_volume d) action"

section \<open>Round trip and bounds of the scale\<close>

lemma u32_cases_below:
  assumes "(p :: u32) < of_nat n" "n < 2 ^ 32"
  shows "\<exists>k \<in> set [0..<n]. p = of_nat k"
proof
  show "p = of_nat (unat p)" by simp
  show "unat p \<in> set [0..<n]" using assms by (simp add: word_less_nat_alt unat_of_nat)
qed

lemma percent_table:
  "list_all (\<lambda>k. Xm5AbsoluteVolumeToWindowsPercent
       (ucast (WindowsPercentToXm5AbsoluteVolume (of_nat k))) = ucast (of_nat k :: u32) \<and>
     WindowsPercentToXm5AbsoluteVolume (of_nat k) \<le> 127) [0..<101]"
  by code_simp

text \<open>The volume scale loses nothing in the direction that matters.  Every Windows percentage
  survives the trip to the headset's 0 to 127 scale and back, larger inputs are clamped to 100,
  and what is sent is always a legal absolute volume.\<close>

theorem percent_round_trip:
  "Xm5AbsoluteVolumeToWindowsPercent (ucast (WindowsPercentToXm5AbsoluteVolume p)) =
     ucast (min p 100) \<and> WindowsPercentToXm5AbsoluteVolume p \<le> 127"
proof -
  have "min p 100 \<le> 100" by simp
  also have "(100 :: u32) < of_nat 101" by simp
  finally obtain k where k: "k \<in> set [0..<101]" "min p 100 = of_nat k"
    using u32_cases_below [of "min p 100" 101] by auto
  have "WindowsPercentToXm5AbsoluteVolume p = WindowsPercentToXm5AbsoluteVolume (min p 100)"
    by (simp add: WindowsPercentToXm5AbsoluteVolume_def)
  then show ?thesis
    using percent_table k unfolding list_all_iff by simp
qed

text \<open>The values a Windows percentage can name.\<close>

definition nameable :: "u8 \<Rightarrow> bool" where
  "nameable v \<longleftrightarrow>
     WindowsPercentToXm5AbsoluteVolume (ucast (Xm5AbsoluteVolumeToWindowsPercent (ucast v))) = v"

lemma xm5_table:
  "list_all (\<lambda>k. Xm5AbsoluteVolumeToWindowsPercent (ucast (of_nat k :: u8)) \<le> 100 \<and>
     (Xm5AbsoluteVolumeToWindowsPercent (ucast (of_nat k :: u8)) = 0 \<longleftrightarrow> of_nat k = (0 :: u8)))
     [0..<128]"
  by code_simp

lemma xm5_percent:
  assumes "(v :: u8) \<le> 127"
  shows "Xm5AbsoluteVolumeToWindowsPercent (ucast v) \<le> 100"
    and "Xm5AbsoluteVolumeToWindowsPercent (ucast v) = 0 \<longleftrightarrow> v = 0"
proof -
  have "unat v \<in> set [0..<128]" using assms by (simp add: word_le_nat_alt)
  then have "Xm5AbsoluteVolumeToWindowsPercent (ucast (of_nat (unat v) :: u8)) \<le> 100 \<and>
     (Xm5AbsoluteVolumeToWindowsPercent (ucast (of_nat (unat v) :: u8)) = 0 \<longleftrightarrow>
        of_nat (unat v) = (0 :: u8))"
    using xm5_table unfolding list_all_iff by blast
  then show "Xm5AbsoluteVolumeToWindowsPercent (ucast v) \<le> 100"
    and "Xm5AbsoluteVolumeToWindowsPercent (ucast v) = 0 \<longleftrightarrow> v = 0"
    by simp_all
qed

lemma clamp_percent:
  assumes "(p :: u8) \<le> 100"
  shows "ClampWindowsVolume \<lparr>wv_percent = p, wv_muted = m\<rparr> = \<lparr>wv_percent = p, wv_muted = m\<rparr>"
proof -
  have "(ucast p :: u32) \<le> 100"
    using assms by (simp add: word_le_nat_alt unsigned_ucast_eq
        order_trans [OF take_bit_nat_less_eq_self])
  then show ?thesis by (simp add: ClampWindowsVolume_def min_def)
qed

section \<open>The reducer\<close>

lemmas volume_defs =
  BeginAvrcpAbsoluteVolumeSession_def SetAvrcpAbsoluteVolumeSupport_def
  ObserveWindowsEndpointVolume_def ObserveXm5AbsoluteVolume_def
  EndAvrcpAbsoluteVolumeSession_def SendAuthoritativeWindowsVolume_def
  AvrcpAbsoluteVolumeDecision_default_def

datatype volume_op =
    Vol_Begin u64 AvrcpAbsoluteVolumeSupport AvrcpWindowsVolume
  | Vol_SetSupport u64 AvrcpAbsoluteVolumeSupport
  | Vol_Windows u64 AvrcpWindowsVolume
  | Vol_Xm5 u64 u32 AvrcpXm5VolumeEvent
  | Vol_End u64

fun volume_step ::
  "AvrcpAbsoluteVolumeState \<Rightarrow> volume_op \<Rightarrow>
   AvrcpAbsoluteVolumeState \<times> AvrcpAbsoluteVolumeDecision" where
  "volume_step s (Vol_Begin g support v) = BeginAvrcpAbsoluteVolumeSession s g support v"
| "volume_step s (Vol_SetSupport g support) = SetAvrcpAbsoluteVolumeSupport s g support"
| "volume_step s (Vol_Windows g v) = ObserveWindowsEndpointVolume s g v"
| "volume_step s (Vol_Xm5 g v e) = ObserveXm5AbsoluteVolume s g v e"
| "volume_step s (Vol_End g) =
     (EndAvrcpAbsoluteVolumeSession s g, AvrcpAbsoluteVolumeDecision_default)"

definition volume_run :: "AvrcpAbsoluteVolumeState \<Rightarrow> volume_op list \<Rightarrow> AvrcpAbsoluteVolumeState" where
  "volume_run = foldl (\<lambda>s op. fst (volume_step s op))"

text \<open>The headset has been told the Windows volume, or has asked for it.\<close>

definition in_step_with_windows :: "AvrcpAbsoluteVolumeState \<Rightarrow> bool" where
  "in_step_with_windows s \<longleftrightarrow>
     (av_session_active s \<longrightarrow> av_windows_volume_known s \<and>
        (av_first_session_sync_complete s \<longleftrightarrow> av_support s = VolumeSupport_Supported) \<and>
        (av_support s = VolumeSupport_Supported \<longrightarrow>
           av_last_xm5_volume_sent s = ProjectWindowsVolumeToXm5 (av_windows_volume s)))"

definition asks_only_while_supported :: "AvrcpAbsoluteVolumeState \<Rightarrow> bool" where
  "asks_only_while_supported s \<longleftrightarrow>
     (av_windows_update_pending s \<longrightarrow> av_support s = VolumeSupport_Supported)"

lemma volume_step_inv:
  assumes "in_step_with_windows s" "asks_only_while_supported s"
  shows "in_step_with_windows (fst (volume_step s op)) \<and>
     asks_only_while_supported (fst (volume_step s op))"
  using assms
  by (cases op) (auto simp: in_step_with_windows_def asks_only_while_supported_def volume_defs
      AvrcpAbsoluteVolumeState_default_def IsCurrentSession_def Let_def split: if_splits)

lemma volume_run_inv:
  "in_step_with_windows s \<Longrightarrow> asks_only_while_supported s \<Longrightarrow>
     in_step_with_windows (volume_run s ops) \<and> asks_only_while_supported (volume_run s ops)"
  unfolding volume_run_def
  by (induction ops arbitrary: s) (simp_all add: volume_step_inv)

section \<open>What the headset is told\<close>

text \<open>
  An observer outside the reducer, which sees the operations and the decisions they return and nothing else.
  It notes the session and its support, the Windows volume last reported in the session, and the volume of
  the headset that Windows knows of: what the headset was last sent, or the value of its own
  that Windows was asked for and then reported.  It forgets a request that another report answers.
\<close>

record volume_observer =
  vo_generation :: u64
  vo_active :: bool
  vo_supported :: bool
  vo_windows :: AvrcpWindowsVolume
  vo_asked :: "u8 option"
  vo_headset :: "u8 option"

definition volume_observer_start :: volume_observer where
  "volume_observer_start =
     \<lparr>vo_generation = 0, vo_active = False, vo_supported = False,
      vo_windows = AvrcpWindowsVolume_default, vo_asked = None, vo_headset = None\<rparr>"

definition vo_current :: "volume_observer \<Rightarrow> u64 \<Rightarrow> bool" where
  "vo_current v g \<longleftrightarrow> g \<noteq> 0 \<and> vo_active v \<and> g = vo_generation v"

text \<open>What an operation tells by itself.\<close>

fun observe_op :: "volume_observer \<Rightarrow> volume_op \<Rightarrow> volume_observer" where
  "observe_op v (Vol_Begin g support w) =
     (if IsNewerGeneration g (vo_generation v)
      then \<lparr>vo_generation = g, vo_active = True, vo_supported = (support = VolumeSupport_Supported),
            vo_windows = ClampWindowsVolume w, vo_asked = None, vo_headset = None\<rparr>
      else v)"
| "observe_op v (Vol_SetSupport g support) =
     (if \<not> vo_current v g then v
      else if support = VolumeSupport_Supported then v\<lparr>vo_supported := True\<rparr>
      else v\<lparr>vo_supported := False, vo_asked := None, vo_headset := None\<rparr>)"
| "observe_op v (Vol_Windows g w) =
     (if \<not> vo_current v g then v
      else v\<lparr>vo_windows := ClampWindowsVolume w, vo_asked := None,
             vo_headset :=
               (if vo_asked v = Some (ProjectWindowsVolumeToXm5 (ClampWindowsVolume w))
                then vo_asked v else vo_headset v)\<rparr>)"
| "observe_op v (Vol_Xm5 g x e) = v"
| "observe_op v (Vol_End g) =
     (if vo_current v g then v\<lparr>vo_active := False, vo_supported := False, vo_asked := None\<rparr> else v)"

text \<open>What its decision tells: a send to the headset, or a request to Windows for the headset's value.\<close>

definition observe_decision ::
  "volume_op \<Rightarrow> AvrcpAbsoluteVolumeDecision \<Rightarrow> volume_observer \<Rightarrow> volume_observer" where
  "observe_decision op d v =
     (let v1 = (if HasAvrcpAbsoluteVolumeAction d AvrcpVolumeActionSendXm5AbsoluteVolume
                then v\<lparr>vo_headset := Some (vd_xm5_absolute_volume d)\<rparr> else v)
      in if HasAvrcpAbsoluteVolumeAction d AvrcpVolumeActionSetWindowsEndpoint
         then (case op of Vol_Xm5 g x e \<Rightarrow> v1\<lparr>vo_asked := Some (ucast x)\<rparr> | _ \<Rightarrow> v1)
         else v1)"

fun volume_watch ::
  "AvrcpAbsoluteVolumeState \<times> volume_observer \<Rightarrow> volume_op list \<Rightarrow>
   AvrcpAbsoluteVolumeState \<times> volume_observer" where
  "volume_watch (s, v) [] = (s, v)"
| "volume_watch (s, v) (op # ops) =
     (let (s1, d) = volume_step s op
      in volume_watch (s1, observe_decision op d (observe_op v op)) ops)"

lemma volume_watch_run: "fst (volume_watch (s, v) ops) = volume_run s ops"
  unfolding volume_run_def
  by (induction ops arbitrary: s v) (simp_all add: case_prod_beta)

text \<open>How the fields of the reducer and the notes of the observer agree.\<close>

definition watched :: "AvrcpAbsoluteVolumeState \<Rightarrow> volume_observer \<Rightarrow> bool" where
  "watched s v \<longleftrightarrow>
     vo_generation v = av_generation s \<and> vo_active v = av_session_active s \<and>
     vo_supported v = (av_session_active s \<and> av_support s = VolumeSupport_Supported) \<and>
     vo_asked v = (if av_windows_update_pending s then Some (av_pending_xm5_volume s) else None) \<and>
     (av_session_active s \<longrightarrow> vo_windows v = av_windows_volume s) \<and>
     (vo_supported v \<longrightarrow> vo_headset v = Some (av_last_xm5_volume_sent s))"

lemma send_decision:
  "observe_decision op (snd (SendAuthoritativeWindowsVolume s)) v =
     (if av_windows_volume_known s \<and> av_support s = VolumeSupport_Supported
      then v\<lparr>vo_headset := Some (ProjectWindowsVolumeToXm5 (av_windows_volume s))\<rparr> else v)"
  by (simp add: observe_decision_def SendAuthoritativeWindowsVolume_def AvrcpAbsoluteVolumeDecision_default_def
      HasAvrcpAbsoluteVolumeAction_def Let_def)

lemma no_decision: "observe_decision op AvrcpAbsoluteVolumeDecision_default v = v"
  by (simp add: observe_decision_def AvrcpAbsoluteVolumeDecision_default_def HasAvrcpAbsoluteVolumeAction_def)

lemma sent_state:
  "fst (SendAuthoritativeWindowsVolume s) =
     (if av_windows_volume_known s \<and> av_support s = VolumeSupport_Supported
      then s\<lparr>av_first_session_sync_complete := True, av_outbound_echo_pending := True,
             av_last_xm5_volume_sent := ProjectWindowsVolumeToXm5 (av_windows_volume s)\<rparr> else s)"
  by (simp add: SendAuthoritativeWindowsVolume_def Let_def)

lemma watched_step:
  assumes "watched s v" "in_step_with_windows s" "asks_only_while_supported s"
  shows "watched (fst (volume_step s op)) (observe_decision op (snd (volume_step s op)) (observe_op v op))"
proof (cases op)
  case (Vol_Begin g support w)
  then show ?thesis
    using assms(1)
    by (simp add: BeginAvrcpAbsoluteVolumeSession_def send_decision sent_state no_decision watched_def
        AvrcpAbsoluteVolumeState_default_def)
next
  case (Vol_SetSupport g support)
  then show ?thesis
    using assms
    by (auto simp: SetAvrcpAbsoluteVolumeSupport_def send_decision sent_state no_decision watched_def
        in_step_with_windows_def IsCurrentSession_def vo_current_def Let_def)
next
  case (Vol_Windows g w)
  then show ?thesis
    using assms
    by (auto simp: ObserveWindowsEndpointVolume_def send_decision sent_state no_decision watched_def
        in_step_with_windows_def asks_only_while_supported_def IsCurrentSession_def vo_current_def Let_def)
next
  case (Vol_Xm5 g x e)
  then show ?thesis
    using assms(1)
    by (simp add: ObserveXm5AbsoluteVolume_def no_decision Let_def)
      (auto simp: watched_def observe_decision_def HasAvrcpAbsoluteVolumeAction_def Let_def)
next
  case (Vol_End g)
  then show ?thesis
    using assms(1)
    by (auto simp: EndAvrcpAbsoluteVolumeSession_def no_decision watched_def IsCurrentSession_def vo_current_def)
qed

lemma watched_run:
  "watched s v \<Longrightarrow> in_step_with_windows s \<Longrightarrow> asks_only_while_supported s \<Longrightarrow>
     watched (fst (volume_watch (s, v) ops)) (snd (volume_watch (s, v) ops))"
  by (induction ops arbitrary: s v)
    (simp_all add: case_prod_beta watched_step volume_step_inv)

lemma volume_start_inv:
  "in_step_with_windows AvrcpAbsoluteVolumeState_default"
  "asks_only_while_supported AvrcpAbsoluteVolumeState_default"
  "watched AvrcpAbsoluteVolumeState_default volume_observer_start"
  by (simp_all add: in_step_with_windows_def asks_only_while_supported_def watched_def
      AvrcpAbsoluteVolumeState_default_def volume_observer_start_def)

text \<open>C32: the headset follows Windows.  Run any history of sessions, support changes, Windows reports,
  headset events and session ends through the reducer, and watch only the operations and the decisions it
  returns.  Whenever a session with a supporting headset is active, the volume the headset was last sent (or
  the value of its own that Windows was asked for and reported) is exactly the projection of
  the Windows volume last reported in the session: no Windows change fails to reach a decision, and
  none is sent with another value.\<close>

theorem headset_follows_windows:
  "let v = snd (volume_watch (AvrcpAbsoluteVolumeState_default, volume_observer_start) ops)
   in if vo_active v \<and> vo_supported v
      then vo_headset v = Some (ProjectWindowsVolumeToXm5 (vo_windows v)) else True"
proof -
  let ?s = "fst (volume_watch (AvrcpAbsoluteVolumeState_default, volume_observer_start) ops)"
  have "watched ?s (snd (volume_watch (AvrcpAbsoluteVolumeState_default, volume_observer_start) ops))"
    by (rule watched_run [OF volume_start_inv(3,1,2)])
  moreover have "in_step_with_windows ?s"
    unfolding volume_watch_run using volume_run_inv [OF volume_start_inv(1,2)] by blast
  ultimately show ?thesis
    by (auto simp: watched_def in_step_with_windows_def Let_def)
qed

text \<open>The headset asks for 90, Windows reports 30 percent instead, and the headset is told so.\<close>

definition volume_session :: "volume_op list" where
  "volume_session =
     [Vol_Begin 1 VolumeSupport_Supported \<lparr>wv_percent = 50, wv_muted = False\<rparr>,
      Vol_Xm5 1 90 Xm5Event_RemoteNotification,
      Vol_Windows 1 \<lparr>wv_percent = 30, wv_muted = False\<rparr>]"

theorem headset_follows_windows_witness:
  "vo_headset (snd (volume_watch (AvrcpAbsoluteVolumeState_default, volume_observer_start) volume_session)) =
     Some (WindowsPercentToXm5AbsoluteVolume 30)"
proof -
  let ?v = "snd (volume_watch (AvrcpAbsoluteVolumeState_default, volume_observer_start) volume_session)"
  have "vo_active ?v" "vo_supported ?v" by code_simp+
  moreover have "ProjectWindowsVolumeToXm5 (vo_windows ?v) = WindowsPercentToXm5AbsoluteVolume 30"
    by code_simp
  ultimately show ?thesis
    using headset_follows_windows [of volume_session] unfolding Let_def by metis
qed

text \<open>A headset that is turned up and back before Windows has answered is not followed: the second
  notification names the volume Windows still has and is dropped with the request still pending, and the late
  answer to the first is then taken for the expected one.  Windows is left at 71 percent (90) and
  the headset at 64, and nothing is sent.\<close>

definition turned_up_and_back :: "volume_op list" where
  "turned_up_and_back =
     [Vol_Xm5 1 90 Xm5Event_RemoteNotification, Vol_Xm5 1 64 Xm5Event_RemoteNotification,
      Vol_Windows 1 \<lparr>wv_percent = 71, wv_muted = False\<rparr>]"

fun volume_decisions :: "AvrcpAbsoluteVolumeState \<Rightarrow> volume_op list \<Rightarrow> AvrcpAbsoluteVolumeDecision list" where
  "volume_decisions s [] = []"
| "volume_decisions s (op # ops) = (let (s1, d) = volume_step s op in d # volume_decisions s1 ops)"

lemma returned_volume_missed:
  "let s = volume_run AvrcpAbsoluteVolumeState_default
         [Vol_Begin 1 VolumeSupport_Supported \<lparr>wv_percent = 50, wv_muted = False\<rparr>]
   in map vd_actions (volume_decisions s turned_up_and_back) =
        [AvrcpVolumeActionSetWindowsEndpoint, AvrcpVolumeActionNone, AvrcpVolumeActionNone] \<and>
      ProjectWindowsVolumeToXm5 (av_windows_volume (volume_run s turned_up_and_back)) = 90"
  by code_simp

text \<open>What a fresh remote value does.\<close>

definition fresh_remote :: "AvrcpAbsoluteVolumeState \<Rightarrow> u8 \<Rightarrow> bool" where
  "fresh_remote s v \<longleftrightarrow>
     \<not> (av_inbound_volume_seen s \<and> av_last_xm5_volume_received s = v) \<and>
     \<not> (av_windows_volume_known s \<and> ProjectWindowsVolumeToXm5 (av_windows_volume s) = v)"

lemma ucast_le_127: "(v :: u8) \<le> 127 \<Longrightarrow> \<not> (127 :: u32) < ucast v"
  by (simp add: word_le_nat_alt word_less_nat_alt unsigned_ucast_eq not_less
      order_trans [OF take_bit_nat_less_eq_self])

lemma projected_reply:
  assumes "(v :: u8) \<le> 127"
  shows "ProjectWindowsVolumeToXm5 (ClampWindowsVolume
      \<lparr>wv_percent = Xm5AbsoluteVolumeToWindowsPercent (ucast v), wv_muted = (v = 0)\<rparr>) =
    WindowsPercentToXm5AbsoluteVolume (ucast (Xm5AbsoluteVolumeToWindowsPercent (ucast v)))"
proof (cases "v = 0")
  case True
  have "Xm5AbsoluteVolumeToWindowsPercent 0 = 0" by code_simp
  moreover have "WindowsPercentToXm5AbsoluteVolume 0 = 0" by code_simp
  ultimately show ?thesis
    using True by (simp add: ProjectWindowsVolumeToXm5_def clamp_percent)
next
  case False
  then show ?thesis
    using xm5_percent [OF assms] by (simp add: ProjectWindowsVolumeToXm5_def clamp_percent)
qed

text \<open>A remote change that Windows applies exactly.  A new legal remote value asks Windows for
  the nearest percentage; when Windows reports back exactly the volume asked for, the reducer is
  silent only for the values a percentage can name, and otherwise sends the headset a different
  absolute volume, as if Windows had refused; that is so for 27 of the 128 values.\<close>

theorem remote_change_applied_exactly:
  assumes "IsCurrentSession s g" "av_support s = VolumeSupport_Supported" "v \<le> 127"
    and "fresh_remote s v"
  shows "let (s1, d1) = ObserveXm5AbsoluteVolume s g (ucast v) Xm5Event_RemoteNotification;
             (s2, d2) = ObserveWindowsEndpointVolume s1 g (vd_windows_volume d1)
         in vd_actions d1 = AvrcpVolumeActionSetWindowsEndpoint \<and>
            vd_windows_volume d1 =
              \<lparr>wv_percent = Xm5AbsoluteVolumeToWindowsPercent (ucast v), wv_muted = (v = 0)\<rparr> \<and>
            vd_actions d2 = (if nameable v then AvrcpVolumeActionNone
                             else AvrcpVolumeActionSendXm5AbsoluteVolume) \<and>
            length (filter (\<lambda>k. \<not> nameable (of_nat k)) [0..<128]) = 27"
proof -
  have count: "length (filter (\<lambda>k. \<not> nameable (of_nat k)) [0..<128]) = 27" by code_simp
  show ?thesis
    using assms ucast_le_127 [OF assms(3)] projected_reply [OF assms(3)]
    unfolding Let_def case_prod_beta count
    by (auto simp: ObserveXm5AbsoluteVolume_def ObserveWindowsEndpointVolume_def
        SendAuthoritativeWindowsVolume_def AvrcpAbsoluteVolumeDecision_default_def
        IsCurrentSession_def fresh_remote_def nameable_def Let_def)
qed

definition volume_at_half :: AvrcpAbsoluteVolumeState where
  "volume_at_half = volume_run AvrcpAbsoluteVolumeState_default
     [Vol_Begin 1 VolumeSupport_Supported \<lparr>wv_percent = 50, wv_muted = False\<rparr>]"

theorem remote_change_applied_exactly_witness:
  "let (s1, d1) = ObserveXm5AbsoluteVolume volume_at_half 1 2 Xm5Event_RemoteNotification;
       (s2, d2) = ObserveWindowsEndpointVolume s1 1 (vd_windows_volume d1)
   in vd_windows_volume d1 = \<lparr>wv_percent = 2, wv_muted = False\<rparr> \<and>
      vd_actions d2 = AvrcpVolumeActionSendXm5AbsoluteVolume"
proof -
  have "IsCurrentSession volume_at_half 1" "av_support volume_at_half = VolumeSupport_Supported"
    "(2 :: u8) \<le> 127" "fresh_remote volume_at_half 2"
    by code_simp+
  note applied = remote_change_applied_exactly [OF this]
  have "\<not> nameable 2" "Xm5AbsoluteVolumeToWindowsPercent (ucast (2 :: u8)) = 2" by code_simp+
  then show ?thesis using applied by (auto simp: Let_def case_prod_beta)
qed

text \<open>The Windows callbacks of a session do not change which remote value was last received.\<close>

lemma windows_keeps_received:
  "av_inbound_volume_seen (fst (ObserveWindowsEndpointVolume s g v)) = av_inbound_volume_seen s \<and>
   av_last_xm5_volume_received (fst (ObserveWindowsEndpointVolume s g v)) =
     av_last_xm5_volume_received s"
  by (auto simp: volume_defs Let_def)

lemma windows_run_keeps_received:
  "av_inbound_volume_seen (volume_run s (map (Vol_Windows g) vs)) = av_inbound_volume_seen s \<and>
   av_last_xm5_volume_received (volume_run s (map (Vol_Windows g) vs)) =
     av_last_xm5_volume_received s"
  by (induction vs arbitrary: s) (simp_all add: volume_run_def windows_keeps_received)

lemma received_value_ignored:
  "av_inbound_volume_seen s \<Longrightarrow> av_last_xm5_volume_received s = v \<Longrightarrow>
     ObserveXm5AbsoluteVolume s g (ucast v) Xm5Event_RemoteNotification =
       (s, AvrcpAbsoluteVolumeDecision_default)"
  by (simp add: ObserveXm5AbsoluteVolume_def Let_def)

text \<open>A repeated remote value is dropped.  Once the headset's value \<open>v\<close> has been received, the
  next notification of \<open>v\<close> does nothing, however the Windows volume moved in between and
  whatever was sent to the headset for it: a user who turns the headset back to its earlier
  volume is not followed.\<close>

theorem repeated_remote_value_ignored:
  assumes "IsCurrentSession s g" "av_support s = VolumeSupport_Supported" "(v :: u8) \<le> 127"
  shows "let s1 = fst (ObserveXm5AbsoluteVolume s g (ucast v) Xm5Event_RemoteNotification);
             s2 = volume_run s1 (map (Vol_Windows g) changes)
         in ObserveXm5AbsoluteVolume s2 g (ucast v) Xm5Event_RemoteNotification =
              (s2, AvrcpAbsoluteVolumeDecision_default)"
proof -
  let ?s1 = "fst (ObserveXm5AbsoluteVolume s g (ucast v) Xm5Event_RemoteNotification)"
  have "av_inbound_volume_seen ?s1 \<and> av_last_xm5_volume_received ?s1 = v"
    using assms ucast_le_127 [OF assms(3)]
    by (auto simp: ObserveXm5AbsoluteVolume_def Let_def)
  then show ?thesis
    unfolding Let_def
    by (intro received_value_ignored) (simp_all add: windows_run_keeps_received)
qed

text \<open>The headset is turned up to 100, Windows is turned down to 30 percent and the headset is told
  so, and the headset is turned up to 100 again: Windows stays at 30 percent.\<close>

theorem repeated_remote_value_ignored_witness:
  "let s1 = fst (ObserveXm5AbsoluteVolume volume_at_half 1 100 Xm5Event_RemoteNotification);
       s2 = volume_run s1 (map (Vol_Windows 1)
         [\<lparr>wv_percent = 79, wv_muted = False\<rparr>, \<lparr>wv_percent = 30, wv_muted = False\<rparr>])
   in av_last_xm5_volume_sent s2 = 38 \<and>
      snd (ObserveXm5AbsoluteVolume s2 1 100 Xm5Event_RemoteNotification) =
        AvrcpAbsoluteVolumeDecision_default"
proof -
  have h: "IsCurrentSession volume_at_half 1" "av_support volume_at_half = VolumeSupport_Supported"
    "(100 :: u8) \<le> 127"
    by code_simp+
  have "av_last_xm5_volume_sent
      (volume_run (fst (ObserveXm5AbsoluteVolume volume_at_half 1 100 Xm5Event_RemoteNotification))
        (map (Vol_Windows 1)
         [\<lparr>wv_percent = 79, wv_muted = False\<rparr>, \<lparr>wv_percent = 30, wv_muted = False\<rparr>])) = 38"
    by code_simp
  then show ?thesis
    using repeated_remote_value_ignored [OF h, where changes =
        "[\<lparr>wv_percent = 79, wv_muted = False\<rparr>, \<lparr>wv_percent = 30, wv_muted = False\<rparr>]"]
    by (simp add: Let_def)
qed

section \<open>The gate\<close>

datatype volume_gate_op =
    VGate_Begin u64 | VGate_End u64
  | VGate_SetMode u64 AvrcpAbsoluteVolumeGateMode
  | VGate_Acquire u64 u64 | VGate_Revoke u64 u64
  | VGate_Capability u64 AvrcpAbsoluteVolumeSupport
  | VGate_Windows u64 AvrcpWindowsVolume
  | VGate_Xm5 u64 u32 AvrcpXm5VolumeEvent

fun volume_gate_step ::
  "AvrcpAbsoluteVolumeGateState \<Rightarrow> volume_gate_op \<Rightarrow>
   AvrcpAbsoluteVolumeGateState \<times> AvrcpAbsoluteVolumeGateDecision" where
  "volume_gate_step s (VGate_Begin g) = BeginAvrcpAbsoluteVolumeAclGeneration s g"
| "volume_gate_step s (VGate_End g) = EndAvrcpAbsoluteVolumeAclGeneration s g"
| "volume_gate_step s (VGate_SetMode g m) = SetAvrcpAbsoluteVolumeGateMode s g m"
| "volume_gate_step s (VGate_Acquire g l) = AcquireAvrcpAbsoluteVolumeOwnerLease s g l"
| "volume_gate_step s (VGate_Revoke g l) = RevokeAvrcpAbsoluteVolumeOwnerLease s g l"
| "volume_gate_step s (VGate_Capability g c) = ObserveAvrcpAbsoluteVolumeCapability s g c"
| "volume_gate_step s (VGate_Windows g v) = ObserveWindowsEndpointVolumeThroughGate s g v"
| "volume_gate_step s (VGate_Xm5 g v e) = ObserveXm5AbsoluteVolumeThroughGate s g v e"

definition volume_gate_run ::
  "AvrcpAbsoluteVolumeGateState \<Rightarrow> volume_gate_op list \<Rightarrow> AvrcpAbsoluteVolumeGateState" where
  "volume_gate_run = foldl (\<lambda>s op. fst (volume_gate_step s op))"

text \<open>The operations that take the write permission back.\<close>

fun volume_gate_revokes :: "AvrcpAbsoluteVolumeGateState \<Rightarrow> volume_gate_op \<Rightarrow> bool" where
  "volume_gate_revokes s (VGate_Begin g) = IsNewerGeneration g (ag_acl_generation s)"
| "volume_gate_revokes s (VGate_End g) = IsCurrentAclGeneration s g"
| "volume_gate_revokes s (VGate_SetMode g m) =
     (IsCurrentAclGeneration s g \<and> m \<noteq> VolumeGate_Synchronize)"
| "volume_gate_revokes s (VGate_Acquire g l) = False"
| "volume_gate_revokes s (VGate_Revoke g l) =
     (IsCurrentAclGeneration s g \<and> l \<noteq> 0 \<and> ag_owner_lease s = l)"
| "volume_gate_revokes s (VGate_Capability g c) =
     (IsCurrentAclGeneration s g \<and> c \<noteq> VolumeSupport_Supported)"
| "volume_gate_revokes s (VGate_Windows g v) = False"
| "volume_gate_revokes s (VGate_Xm5 g v e) = False"

lemmas volume_gate_defs =
  BeginAvrcpAbsoluteVolumeAclGeneration_def EndAvrcpAbsoluteVolumeAclGeneration_def
  SetAvrcpAbsoluteVolumeGateMode_def AcquireAvrcpAbsoluteVolumeOwnerLease_def
  RevokeAvrcpAbsoluteVolumeOwnerLease_def ObserveAvrcpAbsoluteVolumeCapability_def
  ObserveWindowsEndpointVolumeThroughGate_def ObserveXm5AbsoluteVolumeThroughGate_def
  ActivateGateIfAuthorized_def ResetGateReducer_def

lemma invalidate_simps [simp]:
  "InvalidateGateAuthorization s =
     s\<lparr>ag_authorization_epoch := NextNonzero (ag_authorization_epoch s),
       ag_reducer := AvrcpAbsoluteVolumeState_default\<rparr>"
  by (simp add: InvalidateGateAuthorization_def NextNonzero_def ResetGateReducer_def)

lemma volume_gate_epoch:
  "ag_authorization_epoch (fst (volume_gate_step s op)) =
     (if volume_gate_revokes s op then NextNonzero (ag_authorization_epoch s)
      else ag_authorization_epoch s)"
  by (cases op) (auto simp: volume_gate_defs Let_def case_prod_beta)

interpretation volume_gate: revocable_gate
  "\<lambda>s op. fst (volume_gate_step s op)" ag_authorization_epoch volume_gate_revokes
  IsAvrcpAbsoluteVolumeGateDecisionCurrent vg_authorization_epoch
  by unfold_locales
    (auto simp: volume_gate_epoch IsAvrcpAbsoluteVolumeGateDecisionCurrent_def)

lemma begin_session_active:
  "g \<noteq> 0 \<Longrightarrow> av_session_active (fst (BeginAvrcpAbsoluteVolumeSession
     AvrcpAbsoluteVolumeState_default g support v))"
  using acl.first_newer [of g]
  by (auto simp: volume_defs AvrcpAbsoluteVolumeState_default_def Let_def)

lemma observers_keep_session:
  "av_session_active (fst (ObserveWindowsEndpointVolume s g v)) = av_session_active s"
  "av_session_active (fst (ObserveXm5AbsoluteVolume s g x e)) = av_session_active s"
  by (auto simp: volume_defs Let_def)

lemma authorized_is_current:
  assumes "av_session_active (ag_reducer s)"
    and "vd_actions (vg_volume (AuthorizeGateDecision s d)) \<noteq> 0"
  shows "IsAvrcpAbsoluteVolumeGateDecisionCurrent s (AuthorizeGateDecision s d)"
  using assms
  by (auto simp: AuthorizeGateDecision_def IsAvrcpAbsoluteVolumeGateDecisionCurrent_def
      AvrcpAbsoluteVolumeGateDecision_default_def AvrcpAbsoluteVolumeDecision_default_def
      split: if_splits)

lemma default_has_no_action [simp]:
  "vd_actions (vg_volume AvrcpAbsoluteVolumeGateDecision_default) = 0"
  by (simp add: AvrcpAbsoluteVolumeGateDecision_default_def
      AvrcpAbsoluteVolumeDecision_default_def)

lemma activate_current:
  assumes "vd_actions (vg_volume (snd (ActivateGateIfAuthorized s))) \<noteq> 0"
  shows "IsAvrcpAbsoluteVolumeGateDecisionCurrent (fst (ActivateGateIfAuthorized s))
     (snd (ActivateGateIfAuthorized s))"
proof -
  have can: "GateCanSynchronize s" "\<not> av_session_active (ag_reducer s)"
    using assms by (auto simp: ActivateGateIfAuthorized_def split: if_splits)
  then have "ag_acl_generation s \<noteq> 0" by (simp add: GateCanSynchronize_def)
  note active = begin_session_active [OF this]
  show ?thesis
    using assms can active
    by (auto simp: ActivateGateIfAuthorized_def ResetGateReducer_def Let_def case_prod_beta
        intro: authorized_is_current)
qed

lemma volume_gate_step_current:
  assumes "vd_actions (vg_volume (snd (volume_gate_step s op))) \<noteq> 0"
  shows "IsAvrcpAbsoluteVolumeGateDecisionCurrent (fst (volume_gate_step s op))
     (snd (volume_gate_step s op))"
  using assms
  by (cases op)
    (auto simp: BeginAvrcpAbsoluteVolumeAclGeneration_def
      EndAvrcpAbsoluteVolumeAclGeneration_def SetAvrcpAbsoluteVolumeGateMode_def
      AcquireAvrcpAbsoluteVolumeOwnerLease_def RevokeAvrcpAbsoluteVolumeOwnerLease_def
      ObserveAvrcpAbsoluteVolumeCapability_def ObserveWindowsEndpointVolumeThroughGate_def
      ObserveXm5AbsoluteVolumeThroughGate_def Let_def case_prod_beta observers_keep_session
      simp del: invalidate_simps
      intro: activate_current authorized_is_current split: if_splits)

text \<open>No volume write outlives its permission.  A decision the gate hands out with an action is
  current in the state it was made in, so synchronisation was on, a lease was held, the headset
  supports absolute volume and the generation is current; and after any later operations among
  which one takes the permission back (a new or ended generation, a revoked lease, observe-only
  mode or a lost capability) the revalidation refuses it, for any history shorter than the
  epoch's cycle.\<close>

theorem volume_decision_revocable:
  assumes "volume_gate_step s op = (s1, d)" "vd_actions (vg_volume d) \<noteq> 0"
    and "volume_gate_revokes (volume_gate_run s1 xs) r"
    and "length (xs @ r # ys) < 2 ^ 64 - 1"
  shows "IsAvrcpAbsoluteVolumeGateDecisionCurrent s1 d \<and> GateCanSynchronize s1 \<and>
     \<not> IsAvrcpAbsoluteVolumeGateDecisionCurrent (volume_gate_run s1 (xs @ r # ys)) d"
proof -
  have now: "IsAvrcpAbsoluteVolumeGateDecisionCurrent s1 d"
    using volume_gate_step_current [of s op] assms(1,2) by simp
  then have "vg_authorization_epoch d = ag_authorization_epoch s1" and "GateCanSynchronize s1"
    by (simp_all add: IsAvrcpAbsoluteVolumeGateDecisionCurrent_def)
  then show ?thesis
    using now volume_gate.revoked_stays_stale [of d s1 xs r ys] assms(3,4)
    unfolding volume_gate_run_def by blast
qed

definition synchronizing_gate :: AvrcpAbsoluteVolumeGateState where
  "synchronizing_gate = volume_gate_run AvrcpAbsoluteVolumeGateState_default
     [VGate_Begin 7, VGate_Acquire 7 42, VGate_SetMode 7 VolumeGate_Synchronize,
      VGate_Windows 7 \<lparr>wv_percent = 60, wv_muted = False\<rparr>]"

text \<open>The first synchronisation is decided when the capability arrives; the lease is then revoked,
  taken again and synchronisation resumes, and the old decision stays refused.\<close>

theorem volume_decision_revocable_witness:
  "let (s1, d) = volume_gate_step synchronizing_gate (VGate_Capability 7 VolumeSupport_Supported)
   in vd_xm5_absolute_volume (vg_volume d) = 76 \<and>
      \<not> IsAvrcpAbsoluteVolumeGateDecisionCurrent
        (volume_gate_run s1 [VGate_Revoke 7 42, VGate_Acquire 7 42]) d"
proof -
  define s1 d where "s1 = fst (volume_gate_step synchronizing_gate
      (VGate_Capability 7 VolumeSupport_Supported))"
    and "d = snd (volume_gate_step synchronizing_gate (VGate_Capability 7 VolumeSupport_Supported))"
  have "vd_actions (vg_volume d) \<noteq> 0" "volume_gate_revokes (volume_gate_run s1 []) (VGate_Revoke 7 42)"
    and sent: "vd_xm5_absolute_volume (vg_volume d) = 76"
    unfolding s1_def d_def by code_simp+
  then have "\<not> IsAvrcpAbsoluteVolumeGateDecisionCurrent
      (volume_gate_run s1 ([] @ VGate_Revoke 7 42 # [VGate_Acquire 7 42])) d"
    using volume_decision_revocable
      [of synchronizing_gate "VGate_Capability 7 VolumeSupport_Supported" s1 d "[]"
        "VGate_Revoke 7 42" "[VGate_Acquire 7 42]"]
    by (simp add: s1_def d_def)
  then show ?thesis using sent by (simp add: s1_def d_def case_prod_beta)
qed

end
