(* ===== verification/Pass_Through.thy ===== *)
theory Pass_Through
  imports Generation
begin

text \<open>
  The headset's media keys: \<open>agent/avrcp_passthrough_state.cpp\<close>.  A parser for AV/C PASS THROUGH
  command frames, and a gate that turns a fresh key press into one media action under an owner
  lease of the current ACL generation.  The theory shows which frames are commands, that a held
  key acts once, and that a decision dies with a revocation or with the next accepted press.
\<close>

section \<open>Events and frames\<close>

datatype AvrcpPassThroughOperation =
    PassThrough_Unknown | PassThrough_VolumeUp | PassThrough_VolumeDown | PassThrough_Mute
  | PassThrough_Play | PassThrough_Stop | PassThrough_Pause | PassThrough_Forward
  | PassThrough_Backward

datatype AvrcpPassThroughKeyState = Key_Pressed | Key_Released

record AvrcpPassThroughEvent =
  pe_operation :: AvrcpPassThroughOperation
  pe_key_state :: AvrcpPassThroughKeyState
  pe_operation_id :: u8
  pe_operation_data_length :: u8

abbreviation "AvrcpPassThroughActionNone \<equiv> (0 :: u32)"
abbreviation "AvrcpPassThroughActionStepVolumeUp \<equiv> (1 :: u32)"
abbreviation "AvrcpPassThroughActionStepVolumeDown \<equiv> (2 :: u32)"
abbreviation "AvrcpPassThroughActionToggleMute \<equiv> (4 :: u32)"
abbreviation "AvrcpPassThroughActionPlay \<equiv> (8 :: u32)"
abbreviation "AvrcpPassThroughActionStop \<equiv> (16 :: u32)"
abbreviation "AvrcpPassThroughActionPause \<equiv> (32 :: u32)"
abbreviation "AvrcpPassThroughActionNextTrack \<equiv> (64 :: u32)"
abbreviation "AvrcpPassThroughActionPreviousTrack \<equiv> (128 :: u32)"

definition DecodeOperation :: "u8 \<Rightarrow> AvrcpPassThroughOperation" where
  "DecodeOperation operation_id =
     (if operation_id = 0x41 then PassThrough_VolumeUp
      else if operation_id = 0x42 then PassThrough_VolumeDown
      else if operation_id = 0x43 then PassThrough_Mute
      else if operation_id = 0x44 then PassThrough_Play
      else if operation_id = 0x45 then PassThrough_Stop
      else if operation_id = 0x46 then PassThrough_Pause
      else if operation_id = 0x4B then PassThrough_Forward
      else if operation_id = 0x4C then PassThrough_Backward
      else PassThrough_Unknown)"

fun ActionForOperation :: "AvrcpPassThroughOperation \<Rightarrow> u32" where
  "ActionForOperation PassThrough_VolumeUp = AvrcpPassThroughActionStepVolumeUp"
| "ActionForOperation PassThrough_VolumeDown = AvrcpPassThroughActionStepVolumeDown"
| "ActionForOperation PassThrough_Mute = AvrcpPassThroughActionToggleMute"
| "ActionForOperation PassThrough_Play = AvrcpPassThroughActionPlay"
| "ActionForOperation PassThrough_Stop = AvrcpPassThroughActionStop"
| "ActionForOperation PassThrough_Pause = AvrcpPassThroughActionPause"
| "ActionForOperation PassThrough_Forward = AvrcpPassThroughActionNextTrack"
| "ActionForOperation PassThrough_Backward = AvrcpPassThroughActionPreviousTrack"
| "ActionForOperation PassThrough_Unknown = AvrcpPassThroughActionNone"

text \<open>The parser returns the event it writes to its out-parameter, or \<open>None\<close> for \<open>false\<close>.\<close>

definition ParseAvrcpPassThroughCommand :: "bytes \<Rightarrow> AvrcpPassThroughEvent option" where
  "ParseAvrcpPassThroughCommand frame =
     (if length frame < 5 \<or> frame ! 0 \<noteq> 0x00 \<or> frame ! 1 \<noteq> 0x48 \<or> frame ! 2 \<noteq> 0x7C \<or>
         length frame \<noteq> 5 + unat (frame ! 4)
      then None
      else
        let state_and_operation = frame ! 3;
            operation_id = state_and_operation AND 0x7F
        in Some \<lparr>pe_operation = DecodeOperation operation_id,
                 pe_key_state =
                   (if state_and_operation AND 0x80 = 0 then Key_Pressed else Key_Released),
                 pe_operation_id = operation_id,
                 pe_operation_data_length = frame ! 4\<rparr>)"

definition MakeAvrcpPassThroughEvent :: "u8 \<Rightarrow> bool \<Rightarrow> AvrcpPassThroughEvent" where
  "MakeAvrcpPassThroughEvent operation_id released =
     \<lparr>pe_operation = DecodeOperation operation_id,
      pe_key_state = (if released then Key_Released else Key_Pressed),
      pe_operation_id = operation_id, pe_operation_data_length = 0\<rparr>"

section \<open>The gate\<close>

datatype AvrcpPassThroughGateMode =
  PassGate_ObserveOnly | PassGate_RouteToCurrentMediaSession

record AvrcpPassThroughDecision =
  pd_actions :: u32
  pd_acl_generation :: u64
  pd_owner_lease :: u64
  pd_authorization_epoch :: u64
  pd_accepted_event_sequence :: u64
  pd_event_observed :: bool
  pd_duplicate_press :: bool
  pd_matching_release :: bool

definition AvrcpPassThroughDecision_default :: AvrcpPassThroughDecision where
  "AvrcpPassThroughDecision_default =
     \<lparr>pd_actions = AvrcpPassThroughActionNone, pd_acl_generation = 0, pd_owner_lease = 0,
      pd_authorization_epoch = 0, pd_accepted_event_sequence = 0, pd_event_observed = False,
      pd_duplicate_press = False, pd_matching_release = False\<rparr>"

record AvrcpPassThroughGateState =
  pg_acl_generation :: u64
  pg_acl_generation_current :: bool
  pg_owner_lease :: u64
  pg_authorization_epoch :: u64
  pg_observed_event_count :: u64
  pg_accepted_event_sequence :: u64
  pg_mode :: AvrcpPassThroughGateMode
  pg_held_operation_valid :: bool
  pg_held_operation :: AvrcpPassThroughOperation

definition AvrcpPassThroughGateState_default :: AvrcpPassThroughGateState where
  "AvrcpPassThroughGateState_default =
     \<lparr>pg_acl_generation = 0, pg_acl_generation_current = False, pg_owner_lease = 0,
      pg_authorization_epoch = 0, pg_observed_event_count = 0, pg_accepted_event_sequence = 0,
      pg_mode = PassGate_ObserveOnly, pg_held_operation_valid = False,
      pg_held_operation = PassThrough_Unknown\<rparr>"

definition PassIsCurrentGeneration :: "AvrcpPassThroughGateState \<Rightarrow> u64 \<Rightarrow> bool" where
  "PassIsCurrentGeneration s generation \<longleftrightarrow>
     generation \<noteq> 0 \<and> pg_acl_generation_current s \<and> pg_acl_generation s = generation"

definition ResetHeldOperation :: "AvrcpPassThroughGateState \<Rightarrow> AvrcpPassThroughGateState" where
  "ResetHeldOperation s =
     s\<lparr>pg_held_operation_valid := False, pg_held_operation := PassThrough_Unknown\<rparr>"

definition PassSnapshot :: "AvrcpPassThroughGateState \<Rightarrow> AvrcpPassThroughDecision" where
  "PassSnapshot s =
     AvrcpPassThroughDecision_default
       \<lparr>pd_acl_generation := pg_acl_generation s, pd_owner_lease := pg_owner_lease s,
        pd_authorization_epoch := pg_authorization_epoch s,
        pd_accepted_event_sequence := pg_accepted_event_sequence s\<rparr>"

definition BeginAvrcpPassThroughAclGeneration ::
  "AvrcpPassThroughGateState \<Rightarrow> u64 \<Rightarrow> AvrcpPassThroughGateState \<times> AvrcpPassThroughDecision" where
  "BeginAvrcpPassThroughAclGeneration s acl_generation =
     (if \<not> IsNewerGeneration acl_generation (pg_acl_generation s)
      then (s, AvrcpPassThroughDecision_default)
      else
        let s1 = ResetHeldOperation
              (s\<lparr>pg_acl_generation := acl_generation, pg_acl_generation_current := True,
                 pg_owner_lease := 0,
                 pg_authorization_epoch := NextNonzero (pg_authorization_epoch s),
                 pg_observed_event_count := 0, pg_accepted_event_sequence := 0,
                 pg_mode := PassGate_ObserveOnly\<rparr>)
        in (s1, PassSnapshot s1))"

definition EndAvrcpPassThroughAclGeneration ::
  "AvrcpPassThroughGateState \<Rightarrow> u64 \<Rightarrow> AvrcpPassThroughGateState \<times> AvrcpPassThroughDecision" where
  "EndAvrcpPassThroughAclGeneration s acl_generation =
     (if \<not> PassIsCurrentGeneration s acl_generation then (s, AvrcpPassThroughDecision_default)
      else
        let s1 = ResetHeldOperation
              (s\<lparr>pg_acl_generation_current := False, pg_owner_lease := 0,
                 pg_authorization_epoch := NextNonzero (pg_authorization_epoch s),
                 pg_mode := PassGate_ObserveOnly\<rparr>)
        in (s1, PassSnapshot s1))"

definition SetAvrcpPassThroughGateMode ::
  "AvrcpPassThroughGateState \<Rightarrow> u64 \<Rightarrow> AvrcpPassThroughGateMode \<Rightarrow>
   AvrcpPassThroughGateState \<times> AvrcpPassThroughDecision" where
  "SetAvrcpPassThroughGateMode s acl_generation mode =
     (if \<not> PassIsCurrentGeneration s acl_generation then (s, AvrcpPassThroughDecision_default)
      else
        let s1 = (if pg_mode s \<noteq> mode
                  then ResetHeldOperation
                    (s\<lparr>pg_mode := mode,
                       pg_authorization_epoch := NextNonzero (pg_authorization_epoch s)\<rparr>)
                  else s)
        in (s1, PassSnapshot s1))"

definition AcquireAvrcpPassThroughOwnerLease ::
  "AvrcpPassThroughGateState \<Rightarrow> u64 \<Rightarrow> u64 \<Rightarrow>
   AvrcpPassThroughGateState \<times> AvrcpPassThroughDecision" where
  "AcquireAvrcpPassThroughOwnerLease s acl_generation owner_lease =
     (if \<not> PassIsCurrentGeneration s acl_generation \<or> owner_lease = 0 \<or>
         (pg_owner_lease s \<noteq> 0 \<and> pg_owner_lease s \<noteq> owner_lease)
      then (s, AvrcpPassThroughDecision_default)
      else
        let s1 = (if pg_owner_lease s = 0
                  then ResetHeldOperation
                    (s\<lparr>pg_owner_lease := owner_lease,
                       pg_authorization_epoch := NextNonzero (pg_authorization_epoch s)\<rparr>)
                  else s)
        in (s1, PassSnapshot s1))"

definition RevokeAvrcpPassThroughOwnerLease ::
  "AvrcpPassThroughGateState \<Rightarrow> u64 \<Rightarrow> u64 \<Rightarrow>
   AvrcpPassThroughGateState \<times> AvrcpPassThroughDecision" where
  "RevokeAvrcpPassThroughOwnerLease s acl_generation owner_lease =
     (if \<not> PassIsCurrentGeneration s acl_generation \<or> owner_lease = 0 \<or>
         pg_owner_lease s \<noteq> owner_lease
      then (s, AvrcpPassThroughDecision_default)
      else
        let s1 = ResetHeldOperation
              (s\<lparr>pg_owner_lease := 0,
                 pg_authorization_epoch := NextNonzero (pg_authorization_epoch s)\<rparr>)
        in (s1, PassSnapshot s1))"

definition ObserveAvrcpPassThroughEvent ::
  "AvrcpPassThroughGateState \<Rightarrow> u64 \<Rightarrow> AvrcpPassThroughEvent \<Rightarrow>
   AvrcpPassThroughGateState \<times> AvrcpPassThroughDecision" where
  "ObserveAvrcpPassThroughEvent s acl_generation event =
     (if \<not> PassIsCurrentGeneration s acl_generation then (s, AvrcpPassThroughDecision_default)
      else
        let s1 = s\<lparr>pg_observed_event_count := pg_observed_event_count s + 1\<rparr>;
            decision = (PassSnapshot s1)\<lparr>pd_event_observed := True\<rparr>
        in if pe_operation event = PassThrough_Unknown then (s1, decision)
           else if pe_key_state event = Key_Released
           then if pg_held_operation_valid s1 \<and> pg_held_operation s1 = pe_operation event
                then (ResetHeldOperation s1, decision\<lparr>pd_matching_release := True\<rparr>)
                else (s1, decision)
           else if pg_held_operation_valid s1 \<and> pg_held_operation s1 = pe_operation event
           then (s1, decision\<lparr>pd_duplicate_press := True\<rparr>)
           else
             let s2 = s1\<lparr>pg_held_operation_valid := True,
                         pg_held_operation := pe_operation event\<rparr>
             in if pg_mode s2 \<noteq> PassGate_RouteToCurrentMediaSession \<or> pg_owner_lease s2 = 0
                then (s2, decision)
                else
                  let action = ActionForOperation (pe_operation event)
                  in if action = AvrcpPassThroughActionNone then (s2, decision)
                     else
                       let s3 = s2\<lparr>pg_accepted_event_sequence :=
                             NextNonzero (pg_accepted_event_sequence s2)\<rparr>
                       in (s3, (PassSnapshot s3)
                             \<lparr>pd_event_observed := True, pd_actions := action\<rparr>))"

definition IsAvrcpPassThroughDecisionCurrent ::
  "AvrcpPassThroughGateState \<Rightarrow> AvrcpPassThroughDecision \<Rightarrow> bool" where
  "IsAvrcpPassThroughDecisionCurrent s d \<longleftrightarrow>
     pd_actions d \<noteq> AvrcpPassThroughActionNone \<and> pg_acl_generation_current s \<and>
     pg_mode s = PassGate_RouteToCurrentMediaSession \<and> pg_owner_lease s \<noteq> 0 \<and>
     pd_acl_generation d = pg_acl_generation s \<and> pd_owner_lease d = pg_owner_lease s \<and>
     pd_authorization_epoch d = pg_authorization_epoch s \<and>
     pd_accepted_event_sequence d = pg_accepted_event_sequence s"

definition HasAvrcpPassThroughAction :: "AvrcpPassThroughDecision \<Rightarrow> u32 \<Rightarrow> bool" where
  "HasAvrcpPassThroughAction d action \<longleftrightarrow> pd_actions d AND action \<noteq> 0"

section \<open>Frames\<close>

definition pass_through_frame :: "u8 \<Rightarrow> bool \<Rightarrow> bytes \<Rightarrow> bytes" where
  "pass_through_frame operation_id released operands =
     [0x00, 0x48, 0x7C, operation_id OR (if released then 0x80 else 0),
      of_nat (length operands)] @ operands"

lemma operation_mask:
  assumes "(operation_id :: u8) < 0x80"
  shows "operation_id AND 0x7F = operation_id" and "operation_id AND 0x80 = 0"
proof -
  have "unat (take_bit 7 operation_id) = unat operation_id"
    using assms by (simp add: unsigned_take_bit_eq take_bit_nat_eq_self word_less_nat_alt)
  then have "take_bit 7 operation_id = operation_id" by (simp only: unsigned_word_eqI)
  then show low: "operation_id AND 0x7F = operation_id"
    by (simp add: take_bit_eq_mask mask_eq_exp_minus_1)
  have "operation_id AND 0x80 = (operation_id AND 0x7F) AND 0x80" using low by simp
  also have "\<dots> = operation_id AND (0x7F AND 0x80)" by (simp add: and.assoc)
  finally show "operation_id AND 0x80 = 0" by simp
qed

lemma frame_accepted_iff:
  "ParseAvrcpPassThroughCommand frame \<noteq> None \<longleftrightarrow>
     5 \<le> length frame \<and> take 3 frame = [0x00, 0x48, 0x7C] \<and>
     length frame = 5 + unat (frame ! 4)"
proof (cases "5 \<le> length frame")
  case True
  then obtain a b c rest where "frame = a # b # c # rest"
    by (metis Suc_le_length_iff numeral_eq_Suc pred_numeral_simps(3) eval_nat_numeral(2))
  then show ?thesis using True by (auto simp: ParseAvrcpPassThroughCommand_def Let_def)
qed (simp add: ParseAvrcpPassThroughCommand_def)

text \<open>C33: a frame becomes a key event exactly if it is a complete AV/C CONTROL command to the panel
  with the PASS THROUGH opcode, no byte more and no byte less; responses are never commands.  A
  frame built for an operation, a key state and operands parses to exactly that event, and without
  operands to the event the observer builds itself.\<close>

theorem pass_through_frames:
  assumes "operation_id < 0x80" "length operands < 256"
  shows "ParseAvrcpPassThroughCommand (pass_through_frame operation_id released operands) =
      Some ((MakeAvrcpPassThroughEvent operation_id released)
        \<lparr>pe_operation_data_length := of_nat (length operands)\<rparr>) \<and>
    (ParseAvrcpPassThroughCommand frame \<noteq> None \<longleftrightarrow>
       5 \<le> length frame \<and> take 3 frame = [0x00, 0x48, 0x7C] \<and>
       length frame = 5 + unat (frame ! 4))"
proof
  show "ParseAvrcpPassThroughCommand frame \<noteq> None \<longleftrightarrow>
       5 \<le> length frame \<and> take 3 frame = [0x00, 0x48, 0x7C] \<and>
       length frame = 5 + unat (frame ! 4)"
    by (rule frame_accepted_iff)
  have "unat (of_nat (length operands) :: u8) = length operands"
    using assms(2) by (simp add: unat_of_nat)
  then show "ParseAvrcpPassThroughCommand (pass_through_frame operation_id released operands) =
      Some ((MakeAvrcpPassThroughEvent operation_id released)
        \<lparr>pe_operation_data_length := of_nat (length operands)\<rparr>)"
    using operation_mask [OF assms(1)]
    by (simp add: ParseAvrcpPassThroughCommand_def pass_through_frame_def
        MakeAvrcpPassThroughEvent_def flag_or Let_def)
qed

theorem pass_through_frames_witness:
  "ParseAvrcpPassThroughCommand [0x00, 0x48, 0x7C, 0xC4, 0x00] =
     Some (MakeAvrcpPassThroughEvent 0x44 True) \<and>
   ParseAvrcpPassThroughCommand [0x09, 0x48, 0x7C, 0x44, 0x00] = None"
proof
  have "pass_through_frame 0x44 True [] = [0x00, 0x48, 0x7C, 0xC4, 0x00]" by code_simp
  moreover have "(MakeAvrcpPassThroughEvent 0x44 True)\<lparr>pe_operation_data_length := 0\<rparr> =
      MakeAvrcpPassThroughEvent 0x44 True" by code_simp
  ultimately show "ParseAvrcpPassThroughCommand [0x00, 0x48, 0x7C, 0xC4, 0x00] =
     Some (MakeAvrcpPassThroughEvent 0x44 True)"
    using pass_through_frames [where operation_id = "0x44" and operands = "[]" and released = True]
    by simp
  show "ParseAvrcpPassThroughCommand [0x09, 0x48, 0x7C, 0x44, 0x00] = None"
    using pass_through_frames [where operation_id = "0" and operands = "[]"
        and frame = "[0x09, 0x48, 0x7C, 0x44, 0x00]"]
    by simp
qed

section \<open>Presses\<close>

lemma observe_held_press:
  assumes "pg_held_operation_valid s" "pg_held_operation s = k" "pg_acl_generation_current s"
    and "pe_operation e = k \<longrightarrow> pe_key_state e = Key_Pressed"
    and "pe_operation e \<noteq> k \<longrightarrow> pe_key_state e = Key_Released"
  shows "let (s1, d) = ObserveAvrcpPassThroughEvent s g e
     in pg_held_operation_valid s1 \<and> pg_held_operation s1 = k \<and> pg_acl_generation_current s1 \<and>
        pd_actions d = AvrcpPassThroughActionNone"
  using assms
  by (auto simp: ObserveAvrcpPassThroughEvent_def PassSnapshot_def ResetHeldOperation_def
      AvrcpPassThroughDecision_default_def Let_def)

fun observe_all ::
  "AvrcpPassThroughGateState \<Rightarrow> u64 \<Rightarrow> AvrcpPassThroughEvent list \<Rightarrow>
   AvrcpPassThroughGateState \<times> AvrcpPassThroughDecision list" where
  "observe_all s g [] = (s, [])"
| "observe_all s g (e # es) =
     (let (s1, d) = ObserveAvrcpPassThroughEvent s g e; (s2, ds) = observe_all s1 g es
      in (s2, d # ds))"

lemma observe_all_held:
  assumes "pg_held_operation_valid s" "pg_held_operation s = k" "pg_acl_generation_current s"
    and "\<forall>e \<in> set es. (pe_key_state e = Key_Pressed \<longleftrightarrow> pe_operation e = k)"
  shows "pg_held_operation_valid (fst (observe_all s g es)) \<and>
     pg_held_operation (fst (observe_all s g es)) = k \<and>
     (\<forall>d \<in> set (snd (observe_all s g es)). pd_actions d = AvrcpPassThroughActionNone)"
  using assms
proof (induction es arbitrary: s)
  case Nil
  then show ?case by simp
next
  case (Cons e es)
  have "pe_operation e = k \<longrightarrow> pe_key_state e = Key_Pressed"
    "pe_operation e \<noteq> k \<longrightarrow> pe_key_state e = Key_Released"
    using Cons.prems(4) by (auto intro: AvrcpPassThroughKeyState.exhaust)
  note step = observe_held_press [OF Cons.prems(1-3) this, of g, unfolded Let_def case_prod_beta]
  have "\<forall>e \<in> set es. (pe_key_state e = Key_Pressed \<longleftrightarrow> pe_operation e = k)"
    using Cons.prems(4) by simp
  then show ?case
    using step Cons.IH [of "fst (ObserveAvrcpPassThroughEvent s g e)"]
    by (simp add: case_prod_beta Let_def)
qed

lemma known_action: "ActionForOperation k = AvrcpPassThroughActionNone \<longleftrightarrow> k = PassThrough_Unknown"
  by (cases k) simp_all

text \<open>Observing an event never touches the permission.\<close>

definition same_permission ::
  "AvrcpPassThroughGateState \<Rightarrow> AvrcpPassThroughGateState \<Rightarrow> bool" where
  "same_permission s t \<longleftrightarrow>
     pg_acl_generation t = pg_acl_generation s \<and>
     pg_acl_generation_current t = pg_acl_generation_current s \<and> pg_mode t = pg_mode s \<and>
     pg_owner_lease t = pg_owner_lease s \<and>
     pg_authorization_epoch t = pg_authorization_epoch s"

lemma observe_same_permission:
  "same_permission s (fst (ObserveAvrcpPassThroughEvent s g e))"
  by (auto simp: same_permission_def ObserveAvrcpPassThroughEvent_def ResetHeldOperation_def
      Let_def)

lemma observe_all_same_permission: "same_permission s (fst (observe_all s g es))"
proof (induction es arbitrary: s)
  case Nil
  then show ?case by (simp add: same_permission_def)
next
  case (Cons e es)
  then show ?case
    using observe_same_permission [of s g e] Cons [of "fst (ObserveAvrcpPassThroughEvent s g e)"]
    by (simp add: same_permission_def case_prod_beta Let_def)
qed

definition routes :: "AvrcpPassThroughGateState \<Rightarrow> u64 \<Rightarrow> bool" where
  "routes s g \<longleftrightarrow> PassIsCurrentGeneration s g \<and>
     pg_mode s = PassGate_RouteToCurrentMediaSession \<and> pg_owner_lease s \<noteq> 0"

lemma routes_same_permission: "same_permission s t \<Longrightarrow> routes s g = routes t g"
  by (auto simp: routes_def same_permission_def PassIsCurrentGeneration_def)

text \<open>Exactly a new press of a known key of a routing gate acts.\<close>

lemma observe_acts_iff:
  "pd_actions (snd (ObserveAvrcpPassThroughEvent s g e)) =
     (if routes s g \<and> pe_key_state e = Key_Pressed \<and>
         \<not> (pg_held_operation_valid s \<and> pg_held_operation s = pe_operation e)
      then ActionForOperation (pe_operation e) else AvrcpPassThroughActionNone)"
  by (cases "pe_key_state e")
    (auto simp: routes_def ObserveAvrcpPassThroughEvent_def PassSnapshot_def
      ResetHeldOperation_def AvrcpPassThroughDecision_default_def Let_def known_action)

lemma observe_acting:
  assumes "pd_actions (snd (ObserveAvrcpPassThroughEvent s g e)) \<noteq> AvrcpPassThroughActionNone"
  shows "routes s g" "pe_key_state e \<noteq> Key_Released" "pe_operation e \<noteq> PassThrough_Unknown"
    "\<not> (pg_held_operation_valid s \<and> pg_held_operation s = pe_operation e)"
  using assms unfolding observe_acts_iff by (auto simp: known_action split: if_splits)

lemma observe_acting_holds:
  assumes "pd_actions (snd (ObserveAvrcpPassThroughEvent s g e)) \<noteq> AvrcpPassThroughActionNone"
  shows "pg_held_operation_valid (fst (ObserveAvrcpPassThroughEvent s g e))"
    and "pg_held_operation (fst (ObserveAvrcpPassThroughEvent s g e)) = pe_operation e"
    and "pg_acl_generation_current (fst (ObserveAvrcpPassThroughEvent s g e))"
  using observe_acting [OF assms]
  by (auto simp: known_action routes_def PassIsCurrentGeneration_def
      ObserveAvrcpPassThroughEvent_def Let_def)

text \<open>A held key acts once.  A press that the gate turns into an action has exactly the action
  of its key; from then on, as long as the key is not released and no other key is pressed, the
  repeated presses the headset sends and the releases of other keys cause no further action; the
  release is recognised as matching, and the next press acts again.\<close>

theorem held_key_acts_once:
  assumes "ObserveAvrcpPassThroughEvent s g e = (s1, d)"
    and "pd_actions d \<noteq> AvrcpPassThroughActionNone"
    and "\<forall>e' \<in> set es. (pe_key_state e' = Key_Pressed \<longleftrightarrow> pe_operation e' = pe_operation e)"
    and "pe_operation r = pe_operation e" "pe_key_state r = Key_Released"
  shows "let s2 = fst (observe_all s1 g es); (s3, dr) = ObserveAvrcpPassThroughEvent s2 g r
     in pd_actions d = ActionForOperation (pe_operation e) \<and>
        (\<forall>d' \<in> set (snd (observe_all s1 g es)). pd_actions d' = AvrcpPassThroughActionNone) \<and>
        pd_matching_release dr \<and>
        pd_actions (snd (ObserveAvrcpPassThroughEvent s3 g e)) = pd_actions d"
proof -
  let ?s2 = "fst (observe_all s1 g es)"
  let ?s3 = "fst (ObserveAvrcpPassThroughEvent ?s2 g r)"
  have d: "d = snd (ObserveAvrcpPassThroughEvent s g e)"
    and s1: "s1 = fst (ObserveAvrcpPassThroughEvent s g e)" using assms(1) by simp_all
  have pressed: "routes s g" "pe_key_state e \<noteq> Key_Released"
    "pe_operation e \<noteq> PassThrough_Unknown"
    "\<not> (pg_held_operation_valid s \<and> pg_held_operation s = pe_operation e)"
    using observe_acting [of s g e] assms(2) unfolding d by blast+
  have key: "pe_key_state e = Key_Pressed" using pressed(2) by (cases "pe_key_state e") simp_all
  have acts: "routes s g" "pe_key_state e = Key_Pressed"
    "pd_actions d = ActionForOperation (pe_operation e)" "pe_operation e \<noteq> PassThrough_Unknown"
    using pressed key by (simp_all add: d observe_acts_iff)
  have press: "pg_held_operation_valid s1" "pg_held_operation s1 = pe_operation e"
    "pg_acl_generation_current s1"
    using observe_acting_holds [of s g e] assms(2) unfolding s1 d by blast+
  note held = observe_all_held [OF press assms(3), of g]
  have "routes s1 g" using acts(1) routes_same_permission [OF observe_same_permission] s1 by simp
  then have still2: "routes ?s2 g"
    using routes_same_permission [OF observe_all_same_permission] by simp
  then have still: "routes ?s2 g" "routes ?s3 g"
    using routes_same_permission [OF observe_same_permission] by simp_all
  then have "pd_matching_release (snd (ObserveAvrcpPassThroughEvent ?s2 g r)) \<and>
      \<not> pg_held_operation_valid ?s3"
    using held acts(4) assms(4,5)
    by (simp add: ObserveAvrcpPassThroughEvent_def PassSnapshot_def ResetHeldOperation_def
        AvrcpPassThroughDecision_default_def routes_def Let_def)
  then show ?thesis
    using held acts still(2) by (simp add: Let_def case_prod_beta observe_acts_iff)
qed

definition routing_gate :: AvrcpPassThroughGateState where
  "routing_gate =
     (let s1 = fst (BeginAvrcpPassThroughAclGeneration AvrcpPassThroughGateState_default 5);
          s2 = fst (AcquireAvrcpPassThroughOwnerLease s1 5 9)
      in fst (SetAvrcpPassThroughGateMode s2 5 PassGate_RouteToCurrentMediaSession))"

abbreviation play :: "bool \<Rightarrow> AvrcpPassThroughEvent" where
  "play released \<equiv> MakeAvrcpPassThroughEvent 0x44 released"

theorem held_key_acts_once_witness:
  "let (s1, d) = ObserveAvrcpPassThroughEvent routing_gate 5 (play False);
       s2 = fst (observe_all s1 5 [play False, MakeAvrcpPassThroughEvent 0x46 True])
   in pd_actions d = AvrcpPassThroughActionPlay \<and>
      pd_matching_release (snd (ObserveAvrcpPassThroughEvent s2 5 (play True)))"
proof -
  define s1 d where "s1 = fst (ObserveAvrcpPassThroughEvent routing_gate 5 (play False))"
    and "d = snd (ObserveAvrcpPassThroughEvent routing_gate 5 (play False))"
  have step: "ObserveAvrcpPassThroughEvent routing_gate 5 (play False) = (s1, d)"
    by (simp add: s1_def d_def)
  have act: "pd_actions d = AvrcpPassThroughActionPlay" unfolding d_def by code_simp
  have keys: "\<forall>e' \<in> set [play False, MakeAvrcpPassThroughEvent 0x46 True].
      (pe_key_state e' = Key_Pressed \<longleftrightarrow> pe_operation e' = pe_operation (play False))"
    "pe_operation (play True) = pe_operation (play False)" "pe_key_state (play True) = Key_Released"
    by (simp_all add: MakeAvrcpPassThroughEvent_def DecodeOperation_def)
  have "pd_actions d \<noteq> AvrcpPassThroughActionNone" using act by simp
  then show ?thesis
    using held_key_acts_once [OF step _ keys] act by (simp add: step Let_def case_prod_beta)
qed

section \<open>Revocation\<close>

datatype pass_gate_op =
    PGate_Begin u64 | PGate_End u64 | PGate_SetMode u64 AvrcpPassThroughGateMode
  | PGate_Acquire u64 u64 | PGate_Revoke u64 u64 | PGate_Observe u64 AvrcpPassThroughEvent

fun pass_gate_step ::
  "AvrcpPassThroughGateState \<Rightarrow> pass_gate_op \<Rightarrow>
   AvrcpPassThroughGateState \<times> AvrcpPassThroughDecision" where
  "pass_gate_step s (PGate_Begin g) = BeginAvrcpPassThroughAclGeneration s g"
| "pass_gate_step s (PGate_End g) = EndAvrcpPassThroughAclGeneration s g"
| "pass_gate_step s (PGate_SetMode g m) = SetAvrcpPassThroughGateMode s g m"
| "pass_gate_step s (PGate_Acquire g l) = AcquireAvrcpPassThroughOwnerLease s g l"
| "pass_gate_step s (PGate_Revoke g l) = RevokeAvrcpPassThroughOwnerLease s g l"
| "pass_gate_step s (PGate_Observe g e) = ObserveAvrcpPassThroughEvent s g e"

definition pass_gate_run ::
  "AvrcpPassThroughGateState \<Rightarrow> pass_gate_op list \<Rightarrow> AvrcpPassThroughGateState" where
  "pass_gate_run = foldl (\<lambda>s op. fst (pass_gate_step s op))"

text \<open>The operations that change the permission: each advances the epoch.\<close>

fun pass_gate_revokes :: "AvrcpPassThroughGateState \<Rightarrow> pass_gate_op \<Rightarrow> bool" where
  "pass_gate_revokes s (PGate_Begin g) = IsNewerGeneration g (pg_acl_generation s)"
| "pass_gate_revokes s (PGate_End g) = PassIsCurrentGeneration s g"
| "pass_gate_revokes s (PGate_SetMode g m) = (PassIsCurrentGeneration s g \<and> pg_mode s \<noteq> m)"
| "pass_gate_revokes s (PGate_Acquire g l) =
     (PassIsCurrentGeneration s g \<and> l \<noteq> 0 \<and> pg_owner_lease s = 0)"
| "pass_gate_revokes s (PGate_Revoke g l) =
     (PassIsCurrentGeneration s g \<and> l \<noteq> 0 \<and> pg_owner_lease s = l)"
| "pass_gate_revokes s (PGate_Observe g e) = False"

lemma pass_gate_epoch:
  "pg_authorization_epoch (fst (pass_gate_step s op)) =
     (if pass_gate_revokes s op then NextNonzero (pg_authorization_epoch s)
      else pg_authorization_epoch s)"
  by (cases op)
    (auto simp: BeginAvrcpPassThroughAclGeneration_def EndAvrcpPassThroughAclGeneration_def
      SetAvrcpPassThroughGateMode_def AcquireAvrcpPassThroughOwnerLease_def
      RevokeAvrcpPassThroughOwnerLease_def ObserveAvrcpPassThroughEvent_def
      ResetHeldOperation_def Let_def)

interpretation pass_gate: revocable_gate
  "\<lambda>s op. fst (pass_gate_step s op)" pg_authorization_epoch pass_gate_revokes
  IsAvrcpPassThroughDecisionCurrent pd_authorization_epoch
  by unfold_locales (auto simp: pass_gate_epoch IsAvrcpPassThroughDecisionCurrent_def)

lemma observe_current:
  assumes "pd_actions (snd (ObserveAvrcpPassThroughEvent s g e)) \<noteq> AvrcpPassThroughActionNone"
  shows "IsAvrcpPassThroughDecisionCurrent (fst (ObserveAvrcpPassThroughEvent s g e))
     (snd (ObserveAvrcpPassThroughEvent s g e))"
  using observe_acting [OF assms]
  by (auto simp: known_action routes_def IsAvrcpPassThroughDecisionCurrent_def ObserveAvrcpPassThroughEvent_def
      PassIsCurrentGeneration_def PassSnapshot_def ResetHeldOperation_def
      AvrcpPassThroughDecision_default_def Let_def)

lemma accepted_advances:
  assumes "pd_actions (snd (ObserveAvrcpPassThroughEvent s g e)) \<noteq> AvrcpPassThroughActionNone"
  shows "pg_accepted_event_sequence (fst (ObserveAvrcpPassThroughEvent s g e)) =
     NextNonzero (pg_accepted_event_sequence s)"
  using observe_acting [OF assms]
  by (auto simp: known_action routes_def ObserveAvrcpPassThroughEvent_def PassSnapshot_def ResetHeldOperation_def
      AvrcpPassThroughDecision_default_def Let_def)

text \<open>No key press is executed late.  A decision with an action is current when it is made; after
  any later operations among which one changes the permission (generation, mode or lease) it is
  refused; and the press accepted next makes it stale as well, so of the queued decisions only
  the newest can still be executed.\<close>

theorem pass_through_decision_revocable:
  assumes "ObserveAvrcpPassThroughEvent s g e = (s1, d)"
    and "pd_actions d \<noteq> AvrcpPassThroughActionNone"
    and "pass_gate_revokes (pass_gate_run s1 xs) r" "length (xs @ r # ys) < 2 ^ 64 - 1"
    and "ObserveAvrcpPassThroughEvent s1 g e' = (s2, d')"
    and "pd_actions d' \<noteq> AvrcpPassThroughActionNone"
  shows "IsAvrcpPassThroughDecisionCurrent s1 d \<and>
     \<not> IsAvrcpPassThroughDecisionCurrent (pass_gate_run s1 (xs @ r # ys)) d \<and>
     IsAvrcpPassThroughDecisionCurrent s2 d' \<and> \<not> IsAvrcpPassThroughDecisionCurrent s2 d"
proof -
  have now: "IsAvrcpPassThroughDecisionCurrent s1 d"
    using observe_current [of s g e] assms(1,2) by simp
  have next_one: "IsAvrcpPassThroughDecisionCurrent s2 d'"
    using observe_current [of s1 g e'] assms(5,6) by simp
  have "pg_accepted_event_sequence s2 = NextNonzero (pg_accepted_event_sequence s1)"
    using accepted_advances [of s1 g e'] assms(5,6) by simp
  then have "\<not> IsAvrcpPassThroughDecisionCurrent s2 d"
    using now NextNonzero_neq [of "pg_accepted_event_sequence s1"]
    unfolding IsAvrcpPassThroughDecisionCurrent_def by metis
  moreover have "pd_authorization_epoch d = pg_authorization_epoch s1"
    using now by (simp add: IsAvrcpPassThroughDecisionCurrent_def)
  then have "\<not> IsAvrcpPassThroughDecisionCurrent (pass_gate_run s1 (xs @ r # ys)) d"
    using pass_gate.revoked_stays_stale [of d s1 xs r ys] assms(3,4)
    unfolding pass_gate_run_def by blast
  ultimately show ?thesis using now next_one by blast
qed

theorem pass_through_decision_revocable_witness:
  "let (s1, d) = ObserveAvrcpPassThroughEvent routing_gate 5 (play False)
   in \<not> IsAvrcpPassThroughDecisionCurrent
        (pass_gate_run s1 [PGate_Revoke 5 9, PGate_Acquire 5 9]) d"
proof -
  define s1 d where "s1 = fst (ObserveAvrcpPassThroughEvent routing_gate 5 (play False))"
    and "d = snd (ObserveAvrcpPassThroughEvent routing_gate 5 (play False))"
  define s2 d' where "s2 = fst (ObserveAvrcpPassThroughEvent s1 5 (MakeAvrcpPassThroughEvent 0x46 False))"
    and "d' = snd (ObserveAvrcpPassThroughEvent s1 5 (MakeAvrcpPassThroughEvent 0x46 False))"
  have "pd_actions d \<noteq> AvrcpPassThroughActionNone" "pd_actions d' \<noteq> AvrcpPassThroughActionNone"
    "pass_gate_revokes (pass_gate_run s1 []) (PGate_Revoke 5 9)"
    unfolding d_def d'_def s1_def by code_simp+
  then have "\<not> IsAvrcpPassThroughDecisionCurrent
      (pass_gate_run s1 ([] @ PGate_Revoke 5 9 # [PGate_Acquire 5 9])) d"
    using pass_through_decision_revocable
      [where s = routing_gate and g = 5 and e = "play False" and ?s1.0 = s1 and d = d
        and xs = "[]" and r = "PGate_Revoke 5 9" and ys = "[PGate_Acquire 5 9]"
        and e' = "MakeAvrcpPassThroughEvent 0x46 False" and ?s2.0 = s2 and d' = d']
    by (simp add: s1_def d_def s2_def d'_def)
  then show ?thesis by (simp add: s1_def d_def case_prod_beta)
qed

end
