(* ===== verification/Action_Mapper.thy ===== *)
theory Action_Mapper
  imports Absolute_Volume Pass_Through
begin

text \<open>
  The AVRCP control mapper: \<open>agent/v1_media_session_eligibility.cpp\<close> (which media actions the
  current Windows session allows) and \<open>agent/v1_avrcp_action_mapper.cpp\<close>, which puts the two gates
  of \<open>Absolute_Volume\<close> and \<open>Pass_Through\<close> behind one generation, one owner lease and one control
  mode and translates their decisions to Windows actions.  The theory proves that the mapper and
  its gates never disagree, that every action is authorized and eligible, that the playback status
  is notified exactly once per change, and what happens to the first volume push.
\<close>

section \<open>Media session eligibility\<close>

datatype V1MediaSessionPlayback =
  Playback_Absent | Playback_Stopped | Playback_Playing | Playback_Paused

datatype V1MediaSessionObservedPlayback =
  Observed_Changing | Observed_Stopped | Observed_Playing | Observed_Paused | Observed_Closed

record V1MediaSessionSnapshot =
  ms_acl_generation :: u64
  ms_playback :: V1MediaSessionPlayback
  ms_play_enabled :: bool
  ms_pause_enabled :: bool
  ms_next_enabled :: bool
  ms_previous_enabled :: bool

record V1MediaSessionEligibility =
  el_session_present :: bool
  el_play_eligible :: bool
  el_pause_eligible :: bool
  el_next_eligible :: bool
  el_previous_eligible :: bool
  el_acl_generation :: u64

definition V1MediaSessionEligibility_default :: V1MediaSessionEligibility where
  "V1MediaSessionEligibility_default =
     \<lparr>el_session_present = False, el_play_eligible = False, el_pause_eligible = False,
      el_next_eligible = False, el_previous_eligible = False, el_acl_generation = 0\<rparr>"

definition EvaluateV1MediaSessionEligibility ::
  "V1MediaSessionSnapshot \<Rightarrow> V1MediaSessionEligibility" where
  "EvaluateV1MediaSessionEligibility snapshot =
     (let result = V1MediaSessionEligibility_default
            \<lparr>el_acl_generation := ms_acl_generation snapshot\<rparr>
      in if ms_acl_generation snapshot = 0 \<or> ms_playback snapshot = Playback_Absent \<or>
            ms_playback snapshot = Playback_Stopped
         then result
         else result
           \<lparr>el_session_present := True,
            el_play_eligible :=
              (ms_playback snapshot = Playback_Paused \<and> ms_play_enabled snapshot),
            el_pause_eligible :=
              (ms_playback snapshot = Playback_Playing \<and> ms_pause_enabled snapshot),
            el_next_eligible := ms_next_enabled snapshot,
            el_previous_eligible := ms_previous_enabled snapshot\<rparr>)"

fun NormalizeV1MediaSessionPlayback ::
  "V1MediaSessionObservedPlayback \<Rightarrow> V1MediaSessionPlayback \<Rightarrow> bool \<Rightarrow> V1MediaSessionPlayback" where
  "NormalizeV1MediaSessionPlayback Observed_Playing previous same_session = Playback_Playing"
| "NormalizeV1MediaSessionPlayback Observed_Paused previous same_session = Playback_Paused"
| "NormalizeV1MediaSessionPlayback Observed_Changing previous same_session =
     (if same_session \<and> (previous = Playback_Playing \<or> previous = Playback_Paused)
      then previous else Playback_Stopped)"
| "NormalizeV1MediaSessionPlayback Observed_Stopped previous same_session = Playback_Stopped"
| "NormalizeV1MediaSessionPlayback Observed_Closed previous same_session = Playback_Stopped"

section \<open>The mapper's state\<close>

datatype V1AvrcpPlaybackState = Avrcp_Stopped | Avrcp_Playing | Avrcp_Paused

abbreviation "V1AvrcpActionNone \<equiv> (0 :: u32)"
abbreviation "V1AvrcpActionSetWindowsVolume \<equiv> (1 :: u32)"
abbreviation "V1AvrcpActionStepVolumeUp \<equiv> (2 :: u32)"
abbreviation "V1AvrcpActionStepVolumeDown \<equiv> (4 :: u32)"
abbreviation "V1AvrcpActionToggleMute \<equiv> (8 :: u32)"
abbreviation "V1AvrcpActionMediaPlay \<equiv> (16 :: u32)"
abbreviation "V1AvrcpActionMediaPause \<equiv> (32 :: u32)"
abbreviation "V1AvrcpActionMediaPlayPause \<equiv> (64 :: u32)"
abbreviation "V1AvrcpActionMediaStop \<equiv> (128 :: u32)"
abbreviation "V1AvrcpActionMediaNextTrack \<equiv> (256 :: u32)"
abbreviation "V1AvrcpActionMediaPreviousTrack \<equiv> (512 :: u32)"
abbreviation "V1AvrcpActionSendXm5Volume \<equiv> (1024 :: u32)"
abbreviation "V1AvrcpActionNotifyPlaybackStatus \<equiv> (2048 :: u32)"

record V1AvrcpActionSet =
  as_actions :: u32
  as_acl_generation :: u64
  as_authorized_current :: bool
  as_event_observed :: bool
  as_windows_volume :: AvrcpWindowsVolume
  as_xm5_absolute_volume :: u8
  as_playback_after :: V1AvrcpPlaybackState
  as_playback_changed :: bool

definition V1AvrcpActionSet_default :: V1AvrcpActionSet where
  "V1AvrcpActionSet_default =
     \<lparr>as_actions = V1AvrcpActionNone, as_acl_generation = 0, as_authorized_current = False,
      as_event_observed = False, as_windows_volume = AvrcpWindowsVolume_default,
      as_xm5_absolute_volume = 0, as_playback_after = Avrcp_Stopped,
      as_playback_changed = False\<rparr>"

record V1AvrcpControlMapperState =
  am_acl_generation :: u64
  am_acl_generation_current :: bool
  am_owner_lease :: u64
  am_volume_sync_enabled :: bool
  am_media_routing_enabled :: bool
  am_media_eligibility :: V1MediaSessionEligibility
  am_headset_preferred :: bool
  am_xm5_volume_seen :: bool
  am_playback :: V1AvrcpPlaybackState
  am_pc_playback :: V1AvrcpPlaybackState
  am_pc_playback_valid :: bool
  am_playback_status_sync_required :: bool
  am_last_playback_status :: V1AvrcpPlaybackState
  am_playback_status_valid :: bool
  am_pass_through :: AvrcpPassThroughGateState
  am_absolute_volume :: AvrcpAbsoluteVolumeGateState

definition V1AvrcpControlMapperState_default :: V1AvrcpControlMapperState where
  "V1AvrcpControlMapperState_default =
     \<lparr>am_acl_generation = 0, am_acl_generation_current = False, am_owner_lease = 0,
      am_volume_sync_enabled = False, am_media_routing_enabled = False,
      am_media_eligibility = V1MediaSessionEligibility_default, am_headset_preferred = False,
      am_xm5_volume_seen = False, am_playback = Avrcp_Stopped, am_pc_playback = Avrcp_Stopped,
      am_pc_playback_valid = False, am_playback_status_sync_required = False,
      am_last_playback_status = Avrcp_Stopped, am_playback_status_valid = False,
      am_pass_through = AvrcpPassThroughGateState_default,
      am_absolute_volume = AvrcpAbsoluteVolumeGateState_default\<rparr>"

section \<open>Merging decisions\<close>

definition V1AvrcpHasAction :: "V1AvrcpActionSet \<Rightarrow> u32 \<Rightarrow> bool" where
  "V1AvrcpHasAction actions action \<longleftrightarrow> as_actions actions AND action \<noteq> 0"

definition MapperIsCurrentGeneration :: "V1AvrcpControlMapperState \<Rightarrow> u64 \<Rightarrow> bool" where
  "MapperIsCurrentGeneration s generation \<longleftrightarrow>
     generation \<noteq> 0 \<and> am_acl_generation_current s \<and> am_acl_generation s = generation"

definition MapperSnapshot :: "V1AvrcpControlMapperState \<Rightarrow> V1AvrcpActionSet" where
  "MapperSnapshot s =
     V1AvrcpActionSet_default
       \<lparr>as_acl_generation := am_acl_generation s,
        as_authorized_current := (am_acl_generation_current s \<and> am_owner_lease s \<noteq> 0)\<rparr>"

definition add_action :: "u32 \<Rightarrow> V1AvrcpActionSet \<Rightarrow> V1AvrcpActionSet" where
  "add_action action a = a\<lparr>as_actions := as_actions a OR action\<rparr>"

definition change_playback :: "u32 \<Rightarrow> V1AvrcpPlaybackState \<Rightarrow> V1AvrcpActionSet \<Rightarrow> V1AvrcpActionSet"
where
  "change_playback action after a =
     (add_action action a)\<lparr>as_playback_after := after, as_playback_changed := True\<rparr>"

definition MergePassThroughActions ::
  "V1MediaSessionEligibility \<Rightarrow> V1AvrcpActionSet \<Rightarrow> AvrcpPassThroughDecision \<Rightarrow> V1AvrcpActionSet"
where
  "MergePassThroughActions el a d =
     (let a1 = a\<lparr>as_event_observed := (as_event_observed a \<or> pd_event_observed d)\<rparr>;
          a2 = (if HasAvrcpPassThroughAction d AvrcpPassThroughActionStepVolumeUp
                then add_action V1AvrcpActionStepVolumeUp a1 else a1);
          a3 = (if HasAvrcpPassThroughAction d AvrcpPassThroughActionStepVolumeDown
                then add_action V1AvrcpActionStepVolumeDown a2 else a2);
          a4 = (if HasAvrcpPassThroughAction d AvrcpPassThroughActionToggleMute
                then add_action V1AvrcpActionToggleMute a3 else a3);
          play_requested = HasAvrcpPassThroughAction d AvrcpPassThroughActionPlay;
          pause_requested = HasAvrcpPassThroughAction d AvrcpPassThroughActionPause;
          a5 = (if el_pause_eligible el \<and> play_requested
                then change_playback V1AvrcpActionMediaPlayPause Avrcp_Paused a4
                else if el_play_eligible el \<and> play_requested
                then change_playback V1AvrcpActionMediaPlay Avrcp_Playing a4 else a4);
          a6 = (if el_play_eligible el \<and> pause_requested
                then change_playback V1AvrcpActionMediaPlayPause Avrcp_Playing a5
                else if el_pause_eligible el \<and> pause_requested
                then change_playback V1AvrcpActionMediaPause Avrcp_Paused a5 else a5);
          a7 = (if el_session_present el \<and>
                   HasAvrcpPassThroughAction d AvrcpPassThroughActionStop
                then change_playback V1AvrcpActionMediaStop Avrcp_Stopped a6 else a6);
          a8 = (if el_next_eligible el \<and>
                   HasAvrcpPassThroughAction d AvrcpPassThroughActionNextTrack
                then add_action V1AvrcpActionMediaNextTrack a7 else a7)
      in if el_previous_eligible el \<and>
            HasAvrcpPassThroughAction d AvrcpPassThroughActionPreviousTrack
         then add_action V1AvrcpActionMediaPreviousTrack a8 else a8)"

definition UpdatePlaybackState ::
  "V1AvrcpControlMapperState \<Rightarrow> V1AvrcpActionSet \<Rightarrow> V1AvrcpControlMapperState" where
  "UpdatePlaybackState s a =
     (if as_playback_changed a
      then
        let s1 = s\<lparr>am_playback := as_playback_after a\<rparr>
        in if V1AvrcpHasAction a V1AvrcpActionNotifyPlaybackStatus
           then s1\<lparr>am_last_playback_status := as_playback_after a,
                   am_playback_status_valid := True\<rparr>
           else s1
      else if V1AvrcpHasAction a V1AvrcpActionMediaPlay then s\<lparr>am_playback := Avrcp_Playing\<rparr>
      else if V1AvrcpHasAction a V1AvrcpActionMediaPause then s\<lparr>am_playback := Avrcp_Paused\<rparr>
      else if V1AvrcpHasAction a V1AvrcpActionMediaStop then s\<lparr>am_playback := Avrcp_Stopped\<rparr>
      else s)"

definition FilterHeadsetPreferredPush ::
  "V1AvrcpControlMapperState \<Rightarrow> V1AvrcpActionSet \<Rightarrow> V1AvrcpActionSet" where
  "FilterHeadsetPreferredPush s a =
     (if \<not> am_headset_preferred s \<or> am_xm5_volume_seen s then a
      else a\<lparr>as_actions := as_actions a AND NOT V1AvrcpActionSendXm5Volume\<rparr>)"

definition MergeVolumeActions ::
  "V1AvrcpActionSet \<Rightarrow> AvrcpAbsoluteVolumeGateDecision \<Rightarrow> V1AvrcpActionSet" where
  "MergeVolumeActions a d =
     (let a1 = (if HasAvrcpAbsoluteVolumeGateAction d AvrcpVolumeActionSetWindowsEndpoint
                then (add_action V1AvrcpActionSetWindowsVolume a)
                       \<lparr>as_windows_volume := vd_windows_volume (vg_volume d)\<rparr>
                else a)
      in if HasAvrcpAbsoluteVolumeGateAction d AvrcpVolumeActionSendXm5AbsoluteVolume
         then (add_action V1AvrcpActionSendXm5Volume a1)
                \<lparr>as_xm5_absolute_volume := vd_xm5_absolute_volume (vg_volume d)\<rparr>
         else a1)"

section \<open>Operations\<close>

definition reset_playback :: "V1AvrcpControlMapperState \<Rightarrow> V1AvrcpControlMapperState" where
  "reset_playback s =
     s\<lparr>am_owner_lease := 0, am_volume_sync_enabled := False, am_media_routing_enabled := False,
       am_media_eligibility := V1MediaSessionEligibility_default, am_xm5_volume_seen := False,
       am_playback := Avrcp_Stopped, am_pc_playback := Avrcp_Stopped,
       am_pc_playback_valid := False, am_playback_status_sync_required := False,
       am_last_playback_status := Avrcp_Stopped, am_playback_status_valid := False\<rparr>"

definition V1AvrcpBeginAclGeneration ::
  "V1AvrcpControlMapperState \<Rightarrow> u64 \<Rightarrow> V1AvrcpControlMapperState \<times> V1AvrcpActionSet" where
  "V1AvrcpBeginAclGeneration s g =
     (let s1 = s\<lparr>am_pass_through :=
              fst (BeginAvrcpPassThroughAclGeneration (am_pass_through s) g),
            am_absolute_volume :=
              fst (BeginAvrcpAbsoluteVolumeAclGeneration (am_absolute_volume s) g)\<rparr>
      in if pg_acl_generation (am_pass_through s1) \<noteq> g \<or>
            \<not> pg_acl_generation_current (am_pass_through s1) \<or>
            ag_acl_generation (am_absolute_volume s1) \<noteq> g \<or>
            \<not> ag_acl_generation_current (am_absolute_volume s1)
         then (s1, V1AvrcpActionSet_default)
         else
           let s2 = reset_playback
                 (s1\<lparr>am_acl_generation := g, am_acl_generation_current := True\<rparr>)
           in (s2, MapperSnapshot s2))"

definition V1AvrcpEndAclGeneration ::
  "V1AvrcpControlMapperState \<Rightarrow> u64 \<Rightarrow> V1AvrcpControlMapperState \<times> V1AvrcpActionSet" where
  "V1AvrcpEndAclGeneration s g =
     (if \<not> MapperIsCurrentGeneration s g then (s, V1AvrcpActionSet_default)
      else
        let s1 = reset_playback
              (s\<lparr>am_pass_through :=
                   fst (EndAvrcpPassThroughAclGeneration (am_pass_through s) g),
                 am_absolute_volume :=
                   fst (EndAvrcpAbsoluteVolumeAclGeneration (am_absolute_volume s) g),
                 am_acl_generation_current := False\<rparr>)
        in (s1, MapperSnapshot s1))"

definition V1AvrcpSetControlMode ::
  "V1AvrcpControlMapperState \<Rightarrow> u64 \<Rightarrow> bool \<Rightarrow> bool \<Rightarrow>
   V1AvrcpControlMapperState \<times> V1AvrcpActionSet" where
  "V1AvrcpSetControlMode s g volume_sync media_routing =
     (if \<not> MapperIsCurrentGeneration s g then (s, V1AvrcpActionSet_default)
      else
        let enabling_media_routing = (\<not> am_media_routing_enabled s \<and> media_routing);
            s1 = s\<lparr>am_pass_through := fst (SetAvrcpPassThroughGateMode (am_pass_through s) g
                     (if media_routing then PassGate_RouteToCurrentMediaSession
                      else PassGate_ObserveOnly)),
                   am_absolute_volume := fst (SetAvrcpAbsoluteVolumeGateMode
                     (am_absolute_volume s) g
                     (if volume_sync then VolumeGate_Synchronize else VolumeGate_ObserveOnly)),
                   am_volume_sync_enabled := volume_sync,
                   am_media_routing_enabled := media_routing\<rparr>;
            s2 = (if enabling_media_routing
                  then s1\<lparr>am_playback_status_sync_required := True\<rparr> else s1)
        in (s2, MapperSnapshot s2))"

definition V1AvrcpAcquireOwnerLease ::
  "V1AvrcpControlMapperState \<Rightarrow> u64 \<Rightarrow> u64 \<Rightarrow> V1AvrcpControlMapperState \<times> V1AvrcpActionSet" where
  "V1AvrcpAcquireOwnerLease s g owner_lease =
     (if \<not> MapperIsCurrentGeneration s g \<or> owner_lease = 0 then (s, V1AvrcpActionSet_default)
      else
        let s1 = s\<lparr>am_pass_through :=
                     fst (AcquireAvrcpPassThroughOwnerLease (am_pass_through s) g owner_lease),
                   am_absolute_volume :=
                     fst (AcquireAvrcpAbsoluteVolumeOwnerLease (am_absolute_volume s) g
                       owner_lease)\<rparr>
        in if pg_owner_lease (am_pass_through s1) \<noteq> owner_lease \<or>
              ag_owner_lease (am_absolute_volume s1) \<noteq> owner_lease
           then (s1, V1AvrcpActionSet_default)
           else
             let s2 = s1\<lparr>am_owner_lease := owner_lease,
                         am_playback_status_sync_required := True\<rparr>
             in (s2, MapperSnapshot s2))"

definition playback_of_snapshot :: "V1MediaSessionSnapshot \<Rightarrow> V1AvrcpPlaybackState" where
  "playback_of_snapshot snapshot =
     (if ms_playback snapshot = Playback_Playing then Avrcp_Playing
      else if ms_playback snapshot = Playback_Paused then Avrcp_Paused else Avrcp_Stopped)"

definition V1AvrcpSetMediaSessionSnapshot ::
  "V1AvrcpControlMapperState \<Rightarrow> V1MediaSessionSnapshot \<Rightarrow>
   V1AvrcpControlMapperState \<times> V1AvrcpActionSet" where
  "V1AvrcpSetMediaSessionSnapshot s snapshot =
     (if \<not> MapperIsCurrentGeneration s (ms_acl_generation snapshot)
      then (s, V1AvrcpActionSet_default)
      else
        let next_playback = playback_of_snapshot snapshot;
            pc_playback_changed =
              (\<not> am_pc_playback_valid s \<or> am_pc_playback s \<noteq> next_playback);
            s1 = s\<lparr>am_media_eligibility := EvaluateV1MediaSessionEligibility snapshot,
                   am_pc_playback := next_playback, am_pc_playback_valid := True,
                   am_playback := next_playback\<rparr>;
            authorized_media_route = (am_media_routing_enabled s1 \<and> am_owner_lease s1 \<noteq> 0);
            status_needs_sync =
              (authorized_media_route \<and>
               (am_playback_status_sync_required s1 \<or> pc_playback_changed \<or>
                \<not> am_playback_status_valid s1 \<or> am_last_playback_status s1 \<noteq> next_playback))
        in if status_needs_sync
           then (s1\<lparr>am_last_playback_status := next_playback, am_playback_status_valid := True,
                    am_playback_status_sync_required := False\<rparr>,
                 change_playback V1AvrcpActionNotifyPlaybackStatus next_playback
                   (MapperSnapshot s1))
           else (s1, MapperSnapshot s1))"

definition V1AvrcpRevokeOwnerLease ::
  "V1AvrcpControlMapperState \<Rightarrow> u64 \<Rightarrow> u64 \<Rightarrow> V1AvrcpControlMapperState \<times> V1AvrcpActionSet" where
  "V1AvrcpRevokeOwnerLease s g owner_lease =
     (if \<not> MapperIsCurrentGeneration s g \<or> owner_lease = 0 \<or> am_owner_lease s \<noteq> owner_lease
      then (s, V1AvrcpActionSet_default)
      else
        let s1 = s\<lparr>am_pass_through :=
                     fst (RevokeAvrcpPassThroughOwnerLease (am_pass_through s) g owner_lease),
                   am_absolute_volume :=
                     fst (RevokeAvrcpAbsoluteVolumeOwnerLease (am_absolute_volume s) g
                       owner_lease),
                   am_owner_lease := 0\<rparr>
        in (s1, MapperSnapshot s1))"

definition V1AvrcpObserveVolumeCapability ::
  "V1AvrcpControlMapperState \<Rightarrow> u64 \<Rightarrow> bool \<Rightarrow> V1AvrcpControlMapperState \<times> V1AvrcpActionSet" where
  "V1AvrcpObserveVolumeCapability s g supported =
     (if \<not> MapperIsCurrentGeneration s g then (s, V1AvrcpActionSet_default)
      else
        let (v, d) = ObserveAvrcpAbsoluteVolumeCapability (am_absolute_volume s) g
              (if supported then VolumeSupport_Supported else VolumeSupport_Unsupported);
            s1 = s\<lparr>am_absolute_volume := v\<rparr>
        in (s1, FilterHeadsetPreferredPush s1 (MergeVolumeActions (MapperSnapshot s1) d)))"

definition V1AvrcpObserveWindowsVolume ::
  "V1AvrcpControlMapperState \<Rightarrow> u64 \<Rightarrow> AvrcpWindowsVolume \<Rightarrow>
   V1AvrcpControlMapperState \<times> V1AvrcpActionSet" where
  "V1AvrcpObserveWindowsVolume s g observed =
     (if \<not> MapperIsCurrentGeneration s g then (s, V1AvrcpActionSet_default)
      else
        let (v, d) = ObserveWindowsEndpointVolumeThroughGate (am_absolute_volume s) g observed;
            s1 = s\<lparr>am_absolute_volume := v\<rparr>
        in (s1, FilterHeadsetPreferredPush s1 (MergeVolumeActions (MapperSnapshot s1) d)))"

text \<open>The first value of a headset-preferred generation is adopted: the reducer is told it was
  sent, and Windows is set to it if the gate did not already ask for that.\<close>

definition adopt_headset_volume ::
  "V1AvrcpControlMapperState \<Rightarrow> u8 \<Rightarrow> V1AvrcpActionSet \<Rightarrow>
   V1AvrcpControlMapperState \<times> V1AvrcpActionSet" where
  "adopt_headset_volume s absolute_volume a =
     (let s1 = s\<lparr>am_xm5_volume_seen := True\<rparr>;
          a1 = FilterHeadsetPreferredPush s1 a;
          v = am_absolute_volume s1;
          r = (ag_reducer v)\<lparr>av_last_xm5_volume_sent := absolute_volume AND 0x7F,
                              av_outbound_echo_pending := False\<rparr>;
          s2 = s1\<lparr>am_absolute_volume := v\<lparr>ag_reducer := r\<rparr>\<rparr>
      in if am_owner_lease s2 \<noteq> 0 \<and>
            ag_mode (am_absolute_volume s2) = VolumeGate_Synchronize \<and>
            \<not> V1AvrcpHasAction a1 V1AvrcpActionSetWindowsVolume
         then
           let percent = Xm5AbsoluteVolumeToWindowsPercent (ucast absolute_volume);
               muted = (absolute_volume = 0);
               matches_last =
                 (ag_windows_volume_observed (am_absolute_volume s2) \<and>
                  wv_percent (ag_last_windows_volume (am_absolute_volume s2)) = percent \<and>
                  wv_muted (ag_last_windows_volume (am_absolute_volume s2)) = muted)
           in (s2, if \<not> matches_last
                   then (add_action V1AvrcpActionSetWindowsVolume a1)
                          \<lparr>as_windows_volume := \<lparr>wv_percent = percent, wv_muted = muted\<rparr>\<rparr>
                   else a1)
         else (s2, a1))"

definition V1AvrcpObserveXm5AbsoluteVolume ::
  "V1AvrcpControlMapperState \<Rightarrow> u64 \<Rightarrow> u8 \<Rightarrow> AvrcpXm5VolumeEvent \<Rightarrow>
   V1AvrcpControlMapperState \<times> V1AvrcpActionSet" where
  "V1AvrcpObserveXm5AbsoluteVolume s g absolute_volume event =
     (if \<not> MapperIsCurrentGeneration s g then (s, V1AvrcpActionSet_default)
      else
        let (v, d) = ObserveXm5AbsoluteVolumeThroughGate (am_absolute_volume s) g
              (ucast absolute_volume) event;
            s1 = s\<lparr>am_absolute_volume := v\<rparr>;
            a = MergeVolumeActions (MapperSnapshot s1) d
        in if am_headset_preferred s1 \<and> \<not> am_xm5_volume_seen s1
           then adopt_headset_volume s1 absolute_volume a
           else (s1, a))"

definition V1AvrcpObservePassThrough ::
  "V1AvrcpControlMapperState \<Rightarrow> u64 \<Rightarrow> u8 \<Rightarrow> bool \<Rightarrow>
   V1AvrcpControlMapperState \<times> V1AvrcpActionSet" where
  "V1AvrcpObservePassThrough s g operation_id released =
     (if \<not> MapperIsCurrentGeneration s g then (s, V1AvrcpActionSet_default)
      else
        let (p, d) = ObserveAvrcpPassThroughEvent (am_pass_through s) g
              (MakeAvrcpPassThroughEvent operation_id released);
            s1 = s\<lparr>am_pass_through := p\<rparr>;
            a = MergePassThroughActions (am_media_eligibility s1) (MapperSnapshot s1) d
        in (UpdatePlaybackState s1 a, a))"

fun V1AvrcpPlaybackStateName :: "V1AvrcpPlaybackState \<Rightarrow> string" where
  "V1AvrcpPlaybackStateName Avrcp_Stopped = ''stopped''"
| "V1AvrcpPlaybackStateName Avrcp_Playing = ''playing''"
| "V1AvrcpPlaybackStateName Avrcp_Paused = ''paused''"

section \<open>The mapper agrees with its gates\<close>

datatype mapper_op =
    Map_Begin u64 | Map_End u64 | Map_SetMode u64 bool bool | Map_Acquire u64 u64
  | Map_Media V1MediaSessionSnapshot | Map_Revoke u64 u64 | Map_Capability u64 bool
  | Map_Windows u64 AvrcpWindowsVolume | Map_Xm5 u64 u8 AvrcpXm5VolumeEvent
  | Map_PassThrough u64 u8 bool

fun mapper_step ::
  "V1AvrcpControlMapperState \<Rightarrow> mapper_op \<Rightarrow> V1AvrcpControlMapperState \<times> V1AvrcpActionSet" where
  "mapper_step s (Map_Begin g) = V1AvrcpBeginAclGeneration s g"
| "mapper_step s (Map_End g) = V1AvrcpEndAclGeneration s g"
| "mapper_step s (Map_SetMode g sync routing) = V1AvrcpSetControlMode s g sync routing"
| "mapper_step s (Map_Acquire g l) = V1AvrcpAcquireOwnerLease s g l"
| "mapper_step s (Map_Media m) = V1AvrcpSetMediaSessionSnapshot s m"
| "mapper_step s (Map_Revoke g l) = V1AvrcpRevokeOwnerLease s g l"
| "mapper_step s (Map_Capability g c) = V1AvrcpObserveVolumeCapability s g c"
| "mapper_step s (Map_Windows g v) = V1AvrcpObserveWindowsVolume s g v"
| "mapper_step s (Map_Xm5 g v e) = V1AvrcpObserveXm5AbsoluteVolume s g v e"
| "mapper_step s (Map_PassThrough g i r) = V1AvrcpObservePassThrough s g i r"

definition mapper_inv :: "V1AvrcpControlMapperState \<Rightarrow> bool" where
  "mapper_inv s \<longleftrightarrow>
     (let p = am_pass_through s; v = am_absolute_volume s
      in pg_acl_generation p = am_acl_generation s \<and> ag_acl_generation v = am_acl_generation s \<and>
         pg_acl_generation_current p = am_acl_generation_current s \<and>
         ag_acl_generation_current v = am_acl_generation_current s \<and>
         pg_owner_lease p = am_owner_lease s \<and> ag_owner_lease v = am_owner_lease s \<and>
         (pg_mode p = PassGate_RouteToCurrentMediaSession \<longleftrightarrow> am_media_routing_enabled s) \<and>
         (ag_mode v = VolumeGate_Synchronize \<longleftrightarrow> am_volume_sync_enabled s) \<and>
         (\<not> am_acl_generation_current s \<longrightarrow> am_owner_lease s = 0) \<and>
         (am_acl_generation_current s \<longrightarrow> am_acl_generation s \<noteq> 0))"

text \<open>The hosts begin a generation only when none is current or the current one has another
  number.\<close>

fun begins_fresh :: "V1AvrcpControlMapperState \<Rightarrow> mapper_op \<Rightarrow> bool" where
  "begins_fresh s (Map_Begin g) = (\<not> am_acl_generation_current s \<or> g \<noteq> am_acl_generation s)"
| "begins_fresh s op = True"

lemma volume_gate_fields:
  "ag_acl_generation (fst (ActivateGateIfAuthorized v)) = ag_acl_generation v"
  "ag_acl_generation_current (fst (ActivateGateIfAuthorized v)) = ag_acl_generation_current v"
  "ag_owner_lease (fst (ActivateGateIfAuthorized v)) = ag_owner_lease v"
  "ag_mode (fst (ActivateGateIfAuthorized v)) = ag_mode v"
  by (simp_all add: ActivateGateIfAuthorized_def ResetGateReducer_def Let_def case_prod_beta)

lemma volume_observers_fields:
  "ag_acl_generation (fst (ObserveWindowsEndpointVolumeThroughGate v g w)) = ag_acl_generation v"
  "ag_acl_generation_current (fst (ObserveWindowsEndpointVolumeThroughGate v g w)) =
     ag_acl_generation_current v"
  "ag_owner_lease (fst (ObserveWindowsEndpointVolumeThroughGate v g w)) = ag_owner_lease v"
  "ag_mode (fst (ObserveWindowsEndpointVolumeThroughGate v g w)) = ag_mode v"
  "ag_acl_generation (fst (ObserveXm5AbsoluteVolumeThroughGate v g x e)) = ag_acl_generation v"
  "ag_acl_generation_current (fst (ObserveXm5AbsoluteVolumeThroughGate v g x e)) =
     ag_acl_generation_current v"
  "ag_owner_lease (fst (ObserveXm5AbsoluteVolumeThroughGate v g x e)) = ag_owner_lease v"
  "ag_mode (fst (ObserveXm5AbsoluteVolumeThroughGate v g x e)) = ag_mode v"
  "ag_acl_generation (fst (ObserveAvrcpAbsoluteVolumeCapability v g c)) = ag_acl_generation v"
  "ag_acl_generation_current (fst (ObserveAvrcpAbsoluteVolumeCapability v g c)) =
     ag_acl_generation_current v"
  "ag_owner_lease (fst (ObserveAvrcpAbsoluteVolumeCapability v g c)) = ag_owner_lease v"
  "ag_mode (fst (ObserveAvrcpAbsoluteVolumeCapability v g c)) = ag_mode v"
  by (simp_all add: ObserveWindowsEndpointVolumeThroughGate_def
      ObserveXm5AbsoluteVolumeThroughGate_def ObserveAvrcpAbsoluteVolumeCapability_def
      Let_def case_prod_beta volume_gate_fields)

lemma observe_pass_fields:
  "pg_acl_generation (fst (ObserveAvrcpPassThroughEvent p g e)) = pg_acl_generation p"
  "pg_acl_generation_current (fst (ObserveAvrcpPassThroughEvent p g e)) =
     pg_acl_generation_current p"
  "pg_owner_lease (fst (ObserveAvrcpPassThroughEvent p g e)) = pg_owner_lease p"
  "pg_mode (fst (ObserveAvrcpPassThroughEvent p g e)) = pg_mode p"
  using observe_same_permission [of p g e] by (simp_all add: same_permission_def)

lemma update_playback_fields [simp]:
  "am_acl_generation (UpdatePlaybackState s a) = am_acl_generation s"
  "am_acl_generation_current (UpdatePlaybackState s a) = am_acl_generation_current s"
  "am_owner_lease (UpdatePlaybackState s a) = am_owner_lease s"
  "am_media_routing_enabled (UpdatePlaybackState s a) = am_media_routing_enabled s"
  "am_volume_sync_enabled (UpdatePlaybackState s a) = am_volume_sync_enabled s"
  "am_pass_through (UpdatePlaybackState s a) = am_pass_through s"
  "am_absolute_volume (UpdatePlaybackState s a) = am_absolute_volume s"
  by (simp_all add: UpdatePlaybackState_def Let_def)

lemma mapper_begin_inv:
  assumes "mapper_inv s" "\<not> am_acl_generation_current s \<or> g \<noteq> am_acl_generation s"
  shows "mapper_inv (fst (V1AvrcpBeginAclGeneration s g))"
proof (cases "IsNewerGeneration g (am_acl_generation s)")
  case True
  then show ?thesis using assms acl.newer_not_none [OF True]
    by (simp add: V1AvrcpBeginAclGeneration_def BeginAvrcpPassThroughAclGeneration_def
        BeginAvrcpAbsoluteVolumeAclGeneration_def ResetHeldOperation_def reset_playback_def
        AvrcpAbsoluteVolumeGateState_default_def mapper_inv_def Let_def)
next
  case False
  then show ?thesis using assms
    by (auto simp: V1AvrcpBeginAclGeneration_def BeginAvrcpPassThroughAclGeneration_def
        BeginAvrcpAbsoluteVolumeAclGeneration_def mapper_inv_def Let_def)
qed

lemma mapper_end_inv:
  "mapper_inv s \<Longrightarrow> mapper_inv (fst (V1AvrcpEndAclGeneration s g))"
  by (simp add: V1AvrcpEndAclGeneration_def EndAvrcpPassThroughAclGeneration_def
      EndAvrcpAbsoluteVolumeAclGeneration_def ResetHeldOperation_def reset_playback_def
      MapperIsCurrentGeneration_def PassIsCurrentGeneration_def IsCurrentAclGeneration_def
      mapper_inv_def Let_def)

lemma mapper_mode_inv:
  "mapper_inv s \<Longrightarrow> mapper_inv (fst (V1AvrcpSetControlMode s g sync routing))"
  by (simp add: V1AvrcpSetControlMode_def SetAvrcpPassThroughGateMode_def
      SetAvrcpAbsoluteVolumeGateMode_def ResetHeldOperation_def volume_gate_fields
      MapperIsCurrentGeneration_def PassIsCurrentGeneration_def IsCurrentAclGeneration_def
      mapper_inv_def Let_def)

lemma mapper_lease_inv:
  assumes "mapper_inv s"
  shows "mapper_inv (fst (V1AvrcpAcquireOwnerLease s g l))"
    and "mapper_inv (fst (V1AvrcpRevokeOwnerLease s g l))"
  using assms
  by (auto simp: V1AvrcpAcquireOwnerLease_def V1AvrcpRevokeOwnerLease_def
      AcquireAvrcpPassThroughOwnerLease_def AcquireAvrcpAbsoluteVolumeOwnerLease_def
      RevokeAvrcpPassThroughOwnerLease_def RevokeAvrcpAbsoluteVolumeOwnerLease_def
      ResetHeldOperation_def volume_gate_fields MapperIsCurrentGeneration_def
      PassIsCurrentGeneration_def IsCurrentAclGeneration_def mapper_inv_def Let_def)

lemma mapper_observe_inv:
  assumes "mapper_inv s"
  shows "mapper_inv (fst (V1AvrcpSetMediaSessionSnapshot s m))"
    and "mapper_inv (fst (V1AvrcpObserveVolumeCapability s g c))"
    and "mapper_inv (fst (V1AvrcpObserveWindowsVolume s g w))"
    and "mapper_inv (fst (V1AvrcpObserveXm5AbsoluteVolume s g x e))"
    and "mapper_inv (fst (V1AvrcpObservePassThrough s g i r))"
  using assms
  by (simp_all add: V1AvrcpSetMediaSessionSnapshot_def V1AvrcpObserveVolumeCapability_def
      V1AvrcpObserveWindowsVolume_def V1AvrcpObserveXm5AbsoluteVolume_def
      V1AvrcpObservePassThrough_def adopt_headset_volume_def volume_observers_fields
      observe_pass_fields mapper_inv_def Let_def case_prod_beta)

lemma mapper_step_inv:
  "mapper_inv s \<Longrightarrow> begins_fresh s op \<Longrightarrow> mapper_inv (fst (mapper_step s op))"
  by (cases op)
    (simp_all add: mapper_begin_inv mapper_end_inv mapper_mode_inv mapper_lease_inv
      mapper_observe_inv)

lemma mapper_inv_default: "mapper_inv V1AvrcpControlMapperState_default"
  by (simp add: mapper_inv_def V1AvrcpControlMapperState_default_def
      AvrcpPassThroughGateState_default_def AvrcpAbsoluteVolumeGateState_default_def)

text \<open>The states the hosts can reach.\<close>

inductive mapper_reachable :: "V1AvrcpControlMapperState \<Rightarrow> bool" where
  initial: "mapper_reachable V1AvrcpControlMapperState_default"
| configure: "mapper_reachable s \<Longrightarrow>
    mapper_reachable (s\<lparr>am_headset_preferred := h, am_xm5_volume_seen := x\<rparr>)"
| operate: "mapper_reachable s \<Longrightarrow> begins_fresh s op \<Longrightarrow> mapper_reachable (fst (mapper_step s op))"

lemma mapper_reachable_inv: "mapper_reachable s \<Longrightarrow> mapper_inv s"
proof (induction rule: mapper_reachable.induct)
  case initial
  then show ?case by (rule mapper_inv_default)
next
  case (configure s h x)
  then show ?case by (simp add: mapper_inv_def)
next
  case (operate s op)
  then show ?case by (simp add: mapper_step_inv)
qed

section \<open>Actions of one step\<close>

lemma merged_actions:
  "as_actions (if b then add_action x a else a) = as_actions a OR (if b then x else 0)"
  "as_actions (if b then change_playback x p a else if c then change_playback y q a else a) =
     as_actions a OR (if b then x else if c then y else 0)"
  "as_actions (if b then change_playback x p a else a) = as_actions a OR (if b then x else 0)"
  by (simp_all add: add_action_def change_playback_def)

lemma merge_pass_actions:
  "as_actions (MergePassThroughActions el a d) =
     as_actions a
     OR (if HasAvrcpPassThroughAction d AvrcpPassThroughActionStepVolumeUp
         then V1AvrcpActionStepVolumeUp else 0)
     OR (if HasAvrcpPassThroughAction d AvrcpPassThroughActionStepVolumeDown
         then V1AvrcpActionStepVolumeDown else 0)
     OR (if HasAvrcpPassThroughAction d AvrcpPassThroughActionToggleMute
         then V1AvrcpActionToggleMute else 0)
     OR (if el_pause_eligible el \<and> HasAvrcpPassThroughAction d AvrcpPassThroughActionPlay
         then V1AvrcpActionMediaPlayPause
         else if el_play_eligible el \<and> HasAvrcpPassThroughAction d AvrcpPassThroughActionPlay
         then V1AvrcpActionMediaPlay else 0)
     OR (if el_play_eligible el \<and> HasAvrcpPassThroughAction d AvrcpPassThroughActionPause
         then V1AvrcpActionMediaPlayPause
         else if el_pause_eligible el \<and> HasAvrcpPassThroughAction d AvrcpPassThroughActionPause
         then V1AvrcpActionMediaPause else 0)
     OR (if el_session_present el \<and> HasAvrcpPassThroughAction d AvrcpPassThroughActionStop
         then V1AvrcpActionMediaStop else 0)
     OR (if el_next_eligible el \<and> HasAvrcpPassThroughAction d AvrcpPassThroughActionNextTrack
         then V1AvrcpActionMediaNextTrack else 0)
     OR (if el_previous_eligible el \<and>
            HasAvrcpPassThroughAction d AvrcpPassThroughActionPreviousTrack
         then V1AvrcpActionMediaPreviousTrack else 0)"
  unfolding MergePassThroughActions_def Let_def merged_actions by (simp add: or.assoc)

lemma snapshot_no_actions [simp]:
  "as_actions (MapperSnapshot s) = 0"
  "as_actions V1AvrcpActionSet_default = 0"
  by (simp_all add: MapperSnapshot_def V1AvrcpActionSet_default_def)

text \<open>The eligible meaning of a key, given the session: what the mapper makes of one operation.\<close>

definition eligible_action ::
  "V1MediaSessionEligibility \<Rightarrow> AvrcpPassThroughOperation \<Rightarrow> u32" where
  "eligible_action el k =
     (case k of
        PassThrough_VolumeUp \<Rightarrow> V1AvrcpActionStepVolumeUp
      | PassThrough_VolumeDown \<Rightarrow> V1AvrcpActionStepVolumeDown
      | PassThrough_Mute \<Rightarrow> V1AvrcpActionToggleMute
      | PassThrough_Play \<Rightarrow>
          (if el_pause_eligible el then V1AvrcpActionMediaPlayPause
           else if el_play_eligible el then V1AvrcpActionMediaPlay else 0)
      | PassThrough_Pause \<Rightarrow>
          (if el_play_eligible el then V1AvrcpActionMediaPlayPause
           else if el_pause_eligible el then V1AvrcpActionMediaPause else 0)
      | PassThrough_Stop \<Rightarrow> (if el_session_present el then V1AvrcpActionMediaStop else 0)
      | PassThrough_Forward \<Rightarrow> (if el_next_eligible el then V1AvrcpActionMediaNextTrack else 0)
      | PassThrough_Backward \<Rightarrow>
          (if el_previous_eligible el then V1AvrcpActionMediaPreviousTrack else 0)
      | PassThrough_Unknown \<Rightarrow> 0)"

lemma merge_one_key:
  assumes "pd_actions d = ActionForOperation k" "as_actions a = 0"
  shows "as_actions (MergePassThroughActions el a d) = eligible_action el k"
  using assms unfolding merge_pass_actions HasAvrcpPassThroughAction_def
  by (cases k) (simp_all add: eligible_action_def)

lemma merge_no_key:
  assumes "pd_actions d = AvrcpPassThroughActionNone" "as_actions a = 0"
  shows "as_actions (MergePassThroughActions el a d) = 0"
  using assms unfolding merge_pass_actions HasAvrcpPassThroughAction_def by simp

definition mapper_routes :: "V1AvrcpControlMapperState \<Rightarrow> u64 \<Rightarrow> bool" where
  "mapper_routes s g \<longleftrightarrow>
     MapperIsCurrentGeneration s g \<and> am_media_routing_enabled s \<and> am_owner_lease s \<noteq> 0"

lemma mapper_routes_gate:
  "mapper_inv s \<Longrightarrow> routes (am_pass_through s) g = mapper_routes s g"
  by (auto simp: mapper_inv_def routes_def mapper_routes_def MapperIsCurrentGeneration_def
      PassIsCurrentGeneration_def Let_def)

lemma press_action:
  assumes "mapper_inv s" "MapperIsCurrentGeneration s g"
  shows "as_actions (snd (V1AvrcpObservePassThrough s g i r)) =
     (if mapper_routes s g \<and> \<not> r \<and>
         \<not> (pg_held_operation_valid (am_pass_through s) \<and>
            pg_held_operation (am_pass_through s) = DecodeOperation i)
      then eligible_action (am_media_eligibility s) (DecodeOperation i) else 0)"
proof -
  let ?e = "MakeAvrcpPassThroughEvent i r" and ?p = "am_pass_through s"
  have gate: "routes ?p g = mapper_routes s g"
    using assms(1) by (rule mapper_routes_gate)
  have event: "pe_operation ?e = DecodeOperation i" "(pe_key_state ?e = Key_Pressed) = (\<not> r)"
    by (simp_all add: MakeAvrcpPassThroughEvent_def)
  show ?thesis
  proof (cases "mapper_routes s g \<and> \<not> r \<and>
      \<not> (pg_held_operation_valid ?p \<and> pg_held_operation ?p = DecodeOperation i)")
    case True
    then have "pd_actions (snd (ObserveAvrcpPassThroughEvent ?p g ?e)) =
        ActionForOperation (DecodeOperation i)"
      using gate event by (simp add: observe_acts_iff)
    then show ?thesis
      using True assms(2) unfolding V1AvrcpObservePassThrough_def Let_def case_prod_beta
      by (simp add: merge_one_key)
  next
    case False
    then have "pd_actions (snd (ObserveAvrcpPassThroughEvent ?p g ?e)) =
        AvrcpPassThroughActionNone"
      using gate event by (auto simp: observe_acts_iff)
    then show ?thesis
      using False assms(2) unfolding V1AvrcpObservePassThrough_def Let_def case_prod_beta
      by (auto simp: merge_no_key)
  qed
qed

text \<open>A key press does what the Windows session allows.  In every reachable state, a key event
  of the current generation becomes exactly one action, the eligible meaning of the key, if media
  routing is on, a lease is held, the key is pressed and not already held, and nothing otherwise;
  \<open>PLAY\<close> while the session plays pauses it and \<open>PAUSE\<close> while it is paused plays it; and an
  ineligible key does nothing.\<close>

theorem key_press_action:
  assumes "mapper_reachable s" "MapperIsCurrentGeneration s g"
  shows "as_actions (snd (V1AvrcpObservePassThrough s g i r)) =
     (if mapper_routes s g \<and> \<not> r \<and>
         \<not> (pg_held_operation_valid (am_pass_through s) \<and>
            pg_held_operation (am_pass_through s) = DecodeOperation i)
      then eligible_action (am_media_eligibility s) (DecodeOperation i) else 0)"
  using assms mapper_reachable_inv by (blast intro: press_action)

definition mapper_run :: "V1AvrcpControlMapperState \<Rightarrow> mapper_op list \<Rightarrow> V1AvrcpControlMapperState"
where
  "mapper_run = foldl (\<lambda>s op. fst (mapper_step s op))"

fun all_begin_fresh :: "V1AvrcpControlMapperState \<Rightarrow> mapper_op list \<Rightarrow> bool" where
  "all_begin_fresh s [] = True"
| "all_begin_fresh s (op # ops) =
     (begins_fresh s op \<and> all_begin_fresh (fst (mapper_step s op)) ops)"

lemma mapper_run_reachable:
  "mapper_reachable s \<Longrightarrow> all_begin_fresh s ops \<Longrightarrow> mapper_reachable (mapper_run s ops)"
  unfolding mapper_run_def
  by (induction ops arbitrary: s) (simp_all add: mapper_reachable.operate)

definition playing_session :: "u64 \<Rightarrow> V1MediaSessionPlayback \<Rightarrow> V1MediaSessionSnapshot" where
  "playing_session g playback =
     \<lparr>ms_acl_generation = g, ms_playback = playback, ms_play_enabled = True,
      ms_pause_enabled = True, ms_next_enabled = True, ms_previous_enabled = True\<rparr>"

definition controlled_mapper :: V1AvrcpControlMapperState where
  "controlled_mapper = mapper_run V1AvrcpControlMapperState_default
     [Map_Begin 3, Map_SetMode 3 True True, Map_Acquire 3 11,
      Map_Windows 3 \<lparr>wv_percent = 50, wv_muted = False\<rparr>,
      Map_Media (playing_session 3 Playback_Playing)]"

lemma controlled_mapper_reachable: "mapper_reachable controlled_mapper"
  unfolding controlled_mapper_def
  by (rule mapper_run_reachable [OF mapper_reachable.initial]) code_simp

theorem key_press_action_witness:
  "as_actions (snd (V1AvrcpObservePassThrough controlled_mapper 3 0x44 False)) =
     V1AvrcpActionMediaPlayPause"
proof -
  have current: "MapperIsCurrentGeneration controlled_mapper 3" by code_simp
  have "mapper_routes controlled_mapper 3"
    "\<not> pg_held_operation_valid (am_pass_through controlled_mapper)"
    "eligible_action (am_media_eligibility controlled_mapper) (DecodeOperation 0x44) =
       V1AvrcpActionMediaPlayPause"
    by code_simp+
  then show ?thesis
    using key_press_action [OF controlled_mapper_reachable current] by simp
qed

text \<open>The playback status is notified exactly once per change.  In every reachable state a
  snapshot of the Windows session is turned into a status notification exactly if media routing is
  authorized and the headset was not told this playback before; the notification carries the
  session's playback; and the same snapshot again is silent.\<close>

theorem playback_status_notified_once:
  assumes "MapperIsCurrentGeneration s (ms_acl_generation m)"
  shows "let (s1, a1) = V1AvrcpSetMediaSessionSnapshot s m;
             notified = V1AvrcpHasAction a1 V1AvrcpActionNotifyPlaybackStatus;
             authorized = am_media_routing_enabled s \<and> am_owner_lease s \<noteq> 0
         in (notified \<longleftrightarrow> authorized \<and>
               (am_playback_status_sync_required s \<or> \<not> am_pc_playback_valid s \<or>
                am_pc_playback s \<noteq> playback_of_snapshot m \<or> \<not> am_playback_status_valid s \<or>
                am_last_playback_status s \<noteq> playback_of_snapshot m)) \<and>
            (notified \<longrightarrow> as_playback_after a1 = playback_of_snapshot m) \<and>
            (authorized \<longrightarrow> am_last_playback_status s1 = playback_of_snapshot m) \<and>
            (authorized \<longrightarrow>
              as_actions (snd (V1AvrcpSetMediaSessionSnapshot s1 m)) = V1AvrcpActionNone)"
  using assms
  by (auto simp: V1AvrcpSetMediaSessionSnapshot_def MapperIsCurrentGeneration_def
      V1AvrcpHasAction_def change_playback_def add_action_def Let_def)

theorem playback_status_notified_once_witness:
  "let (s1, a1) = V1AvrcpSetMediaSessionSnapshot controlled_mapper
         (playing_session 3 Playback_Paused)
   in V1AvrcpHasAction a1 V1AvrcpActionNotifyPlaybackStatus \<and>
      as_actions (snd (V1AvrcpSetMediaSessionSnapshot s1 (playing_session 3 Playback_Paused))) =
        V1AvrcpActionNone"
proof -
  have h: "MapperIsCurrentGeneration controlled_mapper
      (ms_acl_generation (playing_session 3 Playback_Paused))" by code_simp
  have "am_media_routing_enabled controlled_mapper" "am_owner_lease controlled_mapper \<noteq> 0"
    "am_pc_playback controlled_mapper \<noteq> playback_of_snapshot (playing_session 3 Playback_Paused)"
    by code_simp+
  then show ?thesis
    using playback_status_notified_once [OF h] by (simp add: Let_def case_prod_beta)
qed

section \<open>Volume actions\<close>

definition volume_actions :: u32 where
  "volume_actions = V1AvrcpActionSetWindowsVolume OR V1AvrcpActionSendXm5Volume"

lemma merge_volume_actions:
  "as_actions (MergeVolumeActions a d) =
     as_actions a
     OR (if HasAvrcpAbsoluteVolumeGateAction d AvrcpVolumeActionSetWindowsEndpoint
         then V1AvrcpActionSetWindowsVolume else 0)
     OR (if HasAvrcpAbsoluteVolumeGateAction d AvrcpVolumeActionSendXm5AbsoluteVolume
         then V1AvrcpActionSendXm5Volume else 0)"
  by (simp add: MergeVolumeActions_def add_action_def Let_def or.assoc)

lemma merge_no_volume:
  "vd_actions (vg_volume d) = 0 \<Longrightarrow> as_actions (MergeVolumeActions a d) = as_actions a"
  by (simp add: merge_volume_actions HasAvrcpAbsoluteVolumeGateAction_def
      HasAvrcpAbsoluteVolumeAction_def)

lemma filter_push_none: "as_actions a = 0 \<Longrightarrow> as_actions (FilterHeadsetPreferredPush s a) = 0"
  by (simp add: FilterHeadsetPreferredPush_def)

lemma authorization_kept [simp]:
  "as_authorized_current (MergeVolumeActions a d) = as_authorized_current a"
  "as_authorized_current (FilterHeadsetPreferredPush s a) = as_authorized_current a"
  "as_authorized_current (add_action x a) = as_authorized_current a"
  "as_authorized_current (change_playback x p a) = as_authorized_current a"
  "as_authorized_current (MergePassThroughActions el a d') = as_authorized_current a"
  by (simp_all add: MergeVolumeActions_def FilterHeadsetPreferredPush_def add_action_def
      change_playback_def MergePassThroughActions_def Let_def)

lemma volume_gate_authorizes:
  assumes "vd_actions (vg_volume (snd (volume_gate_step v op))) \<noteq> 0"
  shows "ag_acl_generation_current (fst (volume_gate_step v op))"
    and "ag_owner_lease (fst (volume_gate_step v op)) \<noteq> 0"
    and "ag_mode (fst (volume_gate_step v op)) = VolumeGate_Synchronize"
  using volume_gate_step_current [OF assms]
  by (simp_all add: IsAvrcpAbsoluteVolumeGateDecisionCurrent_def GateCanSynchronize_def)

text \<open>The authority a nonempty action set needs in the state it comes from.\<close>

definition authorized :: "V1AvrcpControlMapperState \<Rightarrow> V1AvrcpActionSet \<Rightarrow> bool" where
  "authorized s a \<longleftrightarrow>
     (as_actions a \<noteq> 0 \<longrightarrow>
        am_acl_generation_current s \<and> am_owner_lease s \<noteq> 0 \<and> as_authorized_current a \<and>
        (am_volume_sync_enabled s \<or> am_media_routing_enabled s)) \<and>
     (as_actions a AND volume_actions \<noteq> 0 \<longrightarrow> am_volume_sync_enabled s)"

lemma authorizedI:
  assumes "as_actions a \<noteq> 0 \<Longrightarrow> am_acl_generation_current s \<and> am_owner_lease s \<noteq> 0 \<and>
      am_volume_sync_enabled s"
    and "as_authorized_current a = (am_acl_generation_current s \<and> am_owner_lease s \<noteq> 0)"
  shows "authorized s a"
  using assms unfolding authorized_def by fastforce

lemma snapshot_authorization [simp]:
  "as_authorized_current (MapperSnapshot s) = (am_acl_generation_current s \<and> am_owner_lease s \<noteq> 0)"
  by (simp add: MapperSnapshot_def)

lemma authorized_empty: "as_actions a = 0 \<Longrightarrow> authorized s a"
  by (simp add: authorized_def)

lemma authorized_capability:
  assumes "mapper_inv s"
  shows "authorized s (snd (V1AvrcpObserveVolumeCapability s g c))"
proof (cases "MapperIsCurrentGeneration s g")
  case True
  let ?c = "if c then VolumeSupport_Supported else VolumeSupport_Unsupported"
  let ?r = "ObserveAvrcpAbsoluteVolumeCapability (am_absolute_volume s) g ?c"
  show ?thesis
  proof (rule authorizedI)
    assume "as_actions (snd (V1AvrcpObserveVolumeCapability s g c)) \<noteq> 0"
    then have "vd_actions (vg_volume (snd ?r)) \<noteq> 0"
      using True by (auto simp: V1AvrcpObserveVolumeCapability_def Let_def case_prod_beta
          merge_no_volume filter_push_none)
    then show "am_acl_generation_current s \<and> am_owner_lease s \<noteq> 0 \<and> am_volume_sync_enabled s"
      using volume_gate_authorizes [of "am_absolute_volume s" "VGate_Capability g ?c"] assms
      by (simp add: volume_observers_fields mapper_inv_def Let_def)
  qed (use True in \<open>simp add: V1AvrcpObserveVolumeCapability_def Let_def case_prod_beta\<close>)
qed (simp add: V1AvrcpObserveVolumeCapability_def authorized_empty)

lemma authorized_windows:
  assumes "mapper_inv s"
  shows "authorized s (snd (V1AvrcpObserveWindowsVolume s g w))"
proof (cases "MapperIsCurrentGeneration s g")
  case True
  let ?r = "ObserveWindowsEndpointVolumeThroughGate (am_absolute_volume s) g w"
  show ?thesis
  proof (rule authorizedI)
    assume "as_actions (snd (V1AvrcpObserveWindowsVolume s g w)) \<noteq> 0"
    then have "vd_actions (vg_volume (snd ?r)) \<noteq> 0"
      using True by (auto simp: V1AvrcpObserveWindowsVolume_def Let_def case_prod_beta
          merge_no_volume filter_push_none)
    then show "am_acl_generation_current s \<and> am_owner_lease s \<noteq> 0 \<and> am_volume_sync_enabled s"
      using volume_gate_authorizes [of "am_absolute_volume s" "VGate_Windows g w"] assms
      by (simp add: volume_observers_fields mapper_inv_def Let_def)
  qed (use True in \<open>simp add: V1AvrcpObserveWindowsVolume_def Let_def case_prod_beta\<close>)
qed (simp add: V1AvrcpObserveWindowsVolume_def authorized_empty)

lemma adopt_actions:
  "as_actions (snd (adopt_headset_volume s x a)) \<noteq> 0 \<Longrightarrow>
     as_actions a \<noteq> 0 \<or> am_owner_lease s \<noteq> 0 \<and>
       ag_mode (am_absolute_volume s) = VolumeGate_Synchronize"
  by (auto simp: adopt_headset_volume_def FilterHeadsetPreferredPush_def Let_def
      split: if_splits)

lemma adopt_authorization [simp]:
  "as_authorized_current (snd (adopt_headset_volume s x a)) = as_authorized_current a"
  by (simp add: adopt_headset_volume_def Let_def)

lemma authorized_xm5:
  assumes "mapper_inv s"
  shows "authorized s (snd (V1AvrcpObserveXm5AbsoluteVolume s g x e))"
proof (cases "MapperIsCurrentGeneration s g")
  case True
  let ?r = "ObserveXm5AbsoluteVolumeThroughGate (am_absolute_volume s) g (ucast x) e"
  have current: "am_acl_generation_current s" using True by (simp add: MapperIsCurrentGeneration_def)
  have gate: "am_owner_lease s \<noteq> 0 \<and> am_volume_sync_enabled s"
    if "vd_actions (vg_volume (snd ?r)) \<noteq> 0"
    using that volume_gate_authorizes [of "am_absolute_volume s" "VGate_Xm5 g (ucast x) e"] assms
    by (simp add: volume_observers_fields mapper_inv_def Let_def)
  have mode: "(ag_mode (fst ?r) = VolumeGate_Synchronize) = am_volume_sync_enabled s"
    using assms by (simp add: volume_observers_fields mapper_inv_def Let_def)
  show ?thesis
  proof (rule authorizedI)
    assume "as_actions (snd (V1AvrcpObserveXm5AbsoluteVolume s g x e)) \<noteq> 0"
    then have "vd_actions (vg_volume (snd ?r)) \<noteq> 0 \<or>
        am_owner_lease s \<noteq> 0 \<and> ag_mode (fst ?r) = VolumeGate_Synchronize"
      using True by (auto simp: V1AvrcpObserveXm5AbsoluteVolume_def Let_def case_prod_beta
          merge_no_volume dest: adopt_actions split: if_splits)
    then show "am_acl_generation_current s \<and> am_owner_lease s \<noteq> 0 \<and> am_volume_sync_enabled s"
      using gate mode current by blast
  qed (use True in \<open>simp add: V1AvrcpObserveXm5AbsoluteVolume_def Let_def case_prod_beta\<close>)
qed (simp add: V1AvrcpObserveXm5AbsoluteVolume_def authorized_empty)

lemma authorized_route:
  assumes "am_acl_generation_current s" "am_owner_lease s \<noteq> 0" "am_media_routing_enabled s"
    and "as_authorized_current a" "as_actions a AND volume_actions = 0"
  shows "authorized s a"
  using assms by (simp add: authorized_def and.commute)

lemma eligible_not_volume: "eligible_action el k AND volume_actions = 0"
  by (cases k) (simp_all add: eligible_action_def volume_actions_def)

lemma authorized_pass:
  assumes "mapper_inv s"
  shows "authorized s (snd (V1AvrcpObservePassThrough s g i r))"
proof (cases "MapperIsCurrentGeneration s g")
  case True
  have auth: "as_authorized_current (snd (V1AvrcpObservePassThrough s g i r)) =
      (am_acl_generation_current s \<and> am_owner_lease s \<noteq> 0)"
    using True by (simp add: V1AvrcpObservePassThrough_def Let_def case_prod_beta)
  show ?thesis
  proof (cases "mapper_routes s g")
    case routes: True
    then have *: "am_acl_generation_current s" "am_owner_lease s \<noteq> 0" "am_media_routing_enabled s"
      by (simp_all add: mapper_routes_def MapperIsCurrentGeneration_def)
    show ?thesis
      using auth * press_action [OF assms True, of i r]
      by (intro authorized_route) (auto simp: eligible_not_volume)
  next
    case False
    then show ?thesis using press_action [OF assms True, of i r]
      by (intro authorized_empty) simp
  qed
qed (simp add: V1AvrcpObservePassThrough_def authorized_empty)

lemma authorized_media: "authorized s (snd (V1AvrcpSetMediaSessionSnapshot s m))"
  by (auto simp: V1AvrcpSetMediaSessionSnapshot_def authorized_def change_playback_def
      add_action_def volume_actions_def MapperIsCurrentGeneration_def Let_def)

text \<open>No action without authority.  In every reachable state, whatever the operation, a nonempty
  action set is returned only while the generation is current and a lease is held, is marked
  authorized, and comes with volume synchronisation or media routing switched on; and it writes a
  volume, to Windows or to the headset, only with volume synchronisation on.\<close>

theorem mapper_actions_authorized:
  assumes "mapper_reachable s"
  shows "authorized s (snd (mapper_step s op))"
proof -
  note inv = mapper_reachable_inv [OF assms]
  show ?thesis
    by (cases op)
      (simp_all add: authorized_media authorized_capability [OF inv] authorized_windows [OF inv]
        authorized_xm5 [OF inv] authorized_pass [OF inv] authorized_empty
        V1AvrcpBeginAclGeneration_def V1AvrcpEndAclGeneration_def V1AvrcpSetControlMode_def
        V1AvrcpAcquireOwnerLease_def V1AvrcpRevokeOwnerLease_def Let_def)
qed

theorem mapper_actions_authorized_witness:
  "as_actions (snd (mapper_step controlled_mapper (Map_Capability 3 True))) \<noteq> 0 \<and>
   authorized controlled_mapper (snd (mapper_step controlled_mapper (Map_Capability 3 True)))"
proof
  show "as_actions (snd (mapper_step controlled_mapper (Map_Capability 3 True))) \<noteq> 0"
    by code_simp
qed (rule mapper_actions_authorized [OF controlled_mapper_reachable])

section \<open>Who speaks first\<close>

lemma filter_push_clears:
  "am_headset_preferred s \<Longrightarrow> \<not> am_xm5_volume_seen s \<Longrightarrow>
     as_actions (FilterHeadsetPreferredPush s a) AND V1AvrcpActionSendXm5Volume = 0"
  by (simp add: FilterHeadsetPreferredPush_def and.assoc)

lemma xm5_gate_decision:
  assumes "vd_actions (vg_volume (snd (ObserveXm5AbsoluteVolumeThroughGate v g x e))) \<noteq> 0"
  shows "vd_actions (vg_volume (snd (ObserveXm5AbsoluteVolumeThroughGate v g x e))) =
      AvrcpVolumeActionSetWindowsEndpoint"
    and "vd_windows_volume (vg_volume (snd (ObserveXm5AbsoluteVolumeThroughGate v g x e))) =
      \<lparr>wv_percent = Xm5AbsoluteVolumeToWindowsPercent (ucast (ucast x :: u8)),
       wv_muted = ((ucast x :: u8) = 0)\<rparr>"
  using assms
  by (auto simp: ObserveXm5AbsoluteVolumeThroughGate_def ObserveXm5AbsoluteVolume_def
      AuthorizeGateDecision_def AvrcpAbsoluteVolumeDecision_default_def Let_def case_prod_beta
      split: if_splits)

text \<open>The headset's first volume wins.  In a headset-preferred generation no value is pushed to
  the headset before its own volume has been seen; when the first one arrives, under an owner
  lease with synchronisation on, Windows is asked for exactly that volume unless it already has
  it, nothing is sent to the headset, and the reducer records the value as the one it has.\<close>

theorem headset_volume_adopted:
  assumes "am_headset_preferred s" "\<not> am_xm5_volume_seen s" "MapperIsCurrentGeneration s g"
    and "mapper_reachable s" "am_owner_lease s \<noteq> 0" "am_volume_sync_enabled s" "x \<le> 127"
  shows "\<not> V1AvrcpHasAction (snd (V1AvrcpObserveWindowsVolume s g w)) V1AvrcpActionSendXm5Volume \<and>
    \<not> V1AvrcpHasAction (snd (V1AvrcpObserveVolumeCapability s g c)) V1AvrcpActionSendXm5Volume \<and>
    (let (s1, a) = V1AvrcpObserveXm5AbsoluteVolume s g x e;
         wanted = \<lparr>wv_percent = Xm5AbsoluteVolumeToWindowsPercent (ucast x), wv_muted = (x = 0)\<rparr>;
         v = am_absolute_volume s
     in am_xm5_volume_seen s1 \<and>
        \<not> V1AvrcpHasAction a V1AvrcpActionSendXm5Volume \<and>
        (V1AvrcpHasAction a V1AvrcpActionSetWindowsVolume \<longrightarrow> as_windows_volume a = wanted) \<and>
        (V1AvrcpHasAction a V1AvrcpActionSetWindowsVolume \<or>
         ag_windows_volume_observed v \<and> ag_last_windows_volume v = wanted) \<and>
        av_last_xm5_volume_sent (ag_reducer (am_absolute_volume s1)) = x AND 0x7F)"
proof -
  have push: "\<not> V1AvrcpHasAction (snd (V1AvrcpObserveWindowsVolume s g w)) V1AvrcpActionSendXm5Volume"
    "\<not> V1AvrcpHasAction (snd (V1AvrcpObserveVolumeCapability s g c)) V1AvrcpActionSendXm5Volume"
    using assms(1-3)
    by (simp_all add: V1AvrcpObserveWindowsVolume_def V1AvrcpObserveVolumeCapability_def
        filter_push_clears V1AvrcpHasAction_def Let_def case_prod_beta)
  let ?v = "am_absolute_volume s"
  let ?r = "ObserveXm5AbsoluteVolumeThroughGate ?v g (ucast x) e"
  let ?a = "MergeVolumeActions (MapperSnapshot (s\<lparr>am_absolute_volume := fst ?r\<rparr>)) (snd ?r)"
  let ?wanted = "\<lparr>wv_percent = Xm5AbsoluteVolumeToWindowsPercent (ucast x), wv_muted = (x = 0)\<rparr>"
  have mode: "ag_mode (fst ?r) = VolumeGate_Synchronize"
    using mapper_reachable_inv [OF assms(4)] assms(6)
    by (simp add: volume_observers_fields mapper_inv_def Let_def)
  have seen: "ag_windows_volume_observed (fst ?r) = ag_windows_volume_observed ?v"
    "ag_last_windows_volume (fst ?r) = ag_last_windows_volume ?v"
    by (simp_all add: ObserveXm5AbsoluteVolumeThroughGate_def Let_def case_prod_beta)
  have gate: "as_actions ?a = V1AvrcpActionSetWindowsVolume \<and> as_windows_volume ?a = ?wanted \<or>
      as_actions ?a = 0"
    using xm5_gate_decision [of ?v g "ucast x" e] ucast_le_127 [OF assms(7)]
    by (cases "vd_actions (vg_volume (snd ?r)) = 0")
      (auto simp: merge_no_volume MergeVolumeActions_def HasAvrcpAbsoluteVolumeGateAction_def
        HasAvrcpAbsoluteVolumeAction_def add_action_def Let_def)
  have step: "V1AvrcpObserveXm5AbsoluteVolume s g x e =
      adopt_headset_volume (s\<lparr>am_absolute_volume := fst ?r\<rparr>) x ?a"
    using assms(1-3) by (simp add: V1AvrcpObserveXm5AbsoluteVolume_def Let_def case_prod_beta)
  have "let (s1, a) = adopt_headset_volume (s\<lparr>am_absolute_volume := fst ?r\<rparr>) x ?a
     in am_xm5_volume_seen s1 \<and>
        \<not> V1AvrcpHasAction a V1AvrcpActionSendXm5Volume \<and>
        (V1AvrcpHasAction a V1AvrcpActionSetWindowsVolume \<longrightarrow> as_windows_volume a = ?wanted) \<and>
        (V1AvrcpHasAction a V1AvrcpActionSetWindowsVolume \<or>
         ag_windows_volume_observed ?v \<and> ag_last_windows_volume ?v = ?wanted) \<and>
        av_last_xm5_volume_sent (ag_reducer (am_absolute_volume s1)) = x AND 0x7F"
    using gate mode seen assms(5)
    unfolding adopt_headset_volume_def FilterHeadsetPreferredPush_def V1AvrcpHasAction_def
      add_action_def Let_def
    by (elim disjE) (auto simp: AvrcpWindowsVolume.equality)
  then show ?thesis using push unfolding step Let_def by blast
qed

definition headset_first_mapper :: V1AvrcpControlMapperState where
  "headset_first_mapper =
     fst (mapper_step (controlled_mapper\<lparr>am_headset_preferred := True, am_xm5_volume_seen := False\<rparr>)
       (Map_Capability 3 True))"

theorem headset_volume_adopted_witness:
  "V1AvrcpHasAction (snd (V1AvrcpObserveXm5AbsoluteVolume headset_first_mapper 3 100
       Xm5Event_CommandResponse)) V1AvrcpActionSetWindowsVolume"
proof -
  have "mapper_reachable headset_first_mapper"
    unfolding headset_first_mapper_def
    by (rule mapper_reachable.operate, rule mapper_reachable.configure,
        rule controlled_mapper_reachable, simp)
  moreover have "am_headset_preferred headset_first_mapper"
    "\<not> am_xm5_volume_seen headset_first_mapper" "MapperIsCurrentGeneration headset_first_mapper 3"
    "am_owner_lease headset_first_mapper \<noteq> 0" "am_volume_sync_enabled headset_first_mapper"
    "(100 :: u8) \<le> 127"
    by code_simp+
  moreover have "ag_last_windows_volume (am_absolute_volume headset_first_mapper) \<noteq>
     \<lparr>wv_percent = Xm5AbsoluteVolumeToWindowsPercent (ucast (100 :: u8)),
      wv_muted = ((100 :: u8) = 0)\<rparr>"
    by code_simp
  ultimately show ?thesis
    using headset_volume_adopted [of headset_first_mapper 3 100]
    by (auto simp: Let_def case_prod_beta)
qed

text \<open>A gate that only waits for a lease.\<close>

definition only_lease_missing :: "V1AvrcpControlMapperState \<Rightarrow> u64 \<Rightarrow> bool" where
  "only_lease_missing s g \<longleftrightarrow>
     MapperIsCurrentGeneration s g \<and> am_owner_lease s = 0 \<and> am_volume_sync_enabled s \<and>
     ag_observed_support (am_absolute_volume s) = VolumeSupport_Supported \<and>
     ag_windows_volume_observed (am_absolute_volume s) \<and>
     \<not> av_session_active (ag_reducer (am_absolute_volume s)) \<and>
     ag_last_windows_volume (am_absolute_volume s) =
       ClampWindowsVolume (ag_last_windows_volume (am_absolute_volume s))"

text \<open>The first push of a regained lease is lost.  When only the lease is missing, as in the
  second media session of a generation, acquiring it makes the gate decide to send the Windows
  volume to the headset; the mapper returns no action for it, yet the reducer records the volume
  as sent, and the same Windows volume observed next is therefore not sent either.\<close>

theorem regained_lease_push_lost:
  assumes "mapper_reachable s" "only_lease_missing s g" "l \<noteq> 0"
  shows "let w = ag_last_windows_volume (am_absolute_volume s);
             d = snd (AcquireAvrcpAbsoluteVolumeOwnerLease (am_absolute_volume s) g l);
             (s1, a1) = V1AvrcpAcquireOwnerLease s g l;
             (s2, a2) = V1AvrcpObserveWindowsVolume s1 g w
         in vd_actions (vg_volume d) = AvrcpVolumeActionSendXm5AbsoluteVolume \<and>
            vd_xm5_absolute_volume (vg_volume d) = ProjectWindowsVolumeToXm5 w \<and>
            as_actions a1 = V1AvrcpActionNone \<and>
            av_last_xm5_volume_sent (ag_reducer (am_absolute_volume s1)) =
              ProjectWindowsVolumeToXm5 w \<and>
            as_actions a2 = V1AvrcpActionNone"
proof -
  define v w v1 where "v = am_absolute_volume s" and "w = ag_last_windows_volume v"
    and "v1 = fst (AcquireAvrcpAbsoluteVolumeOwnerLease v g l)"
  have s: "g \<noteq> 0" "ag_acl_generation v = g" "ag_acl_generation_current v" "ag_owner_lease v = 0"
    "ag_mode v = VolumeGate_Synchronize" "ag_observed_support v = VolumeSupport_Supported"
    "ag_windows_volume_observed v" "\<not> av_session_active (ag_reducer v)" "ClampWindowsVolume w = w"
    using mapper_reachable_inv [OF assms(1)] assms(2)
    by (simp_all add: only_lease_missing_def mapper_inv_def MapperIsCurrentGeneration_def Let_def
        v_def w_def)
  have acquired: "vd_actions (vg_volume (snd (AcquireAvrcpAbsoluteVolumeOwnerLease v g l))) =
       AvrcpVolumeActionSendXm5AbsoluteVolume"
    "vd_xm5_absolute_volume (vg_volume (snd (AcquireAvrcpAbsoluteVolumeOwnerLease v g l))) =
       ProjectWindowsVolumeToXm5 w"
    "ag_acl_generation v1 = g" "ag_acl_generation_current v1" "ag_owner_lease v1 = l"
    "av_session_active (ag_reducer v1)" "av_generation (ag_reducer v1) = g"
    "av_first_session_sync_complete (ag_reducer v1)" "\<not> av_windows_update_pending (ag_reducer v1)"
    "av_last_xm5_volume_sent (ag_reducer v1) = ProjectWindowsVolumeToXm5 w"
    using s assms(3) acl.first_newer [of g]
    by (simp_all add: v1_def AcquireAvrcpAbsoluteVolumeOwnerLease_def IsCurrentAclGeneration_def
        ActivateGateIfAuthorized_def GateCanSynchronize_def ResetGateReducer_def
        AuthorizeGateDecision_def BeginAvrcpAbsoluteVolumeSession_def
        SendAuthoritativeWindowsVolume_def AvrcpAbsoluteVolumeState_default_def
        AvrcpAbsoluteVolumeDecision_default_def Let_def case_prod_beta flip: w_def)
  have pass: "pg_owner_lease (fst (AcquireAvrcpPassThroughOwnerLease (am_pass_through s) g l)) = l"
    using mapper_reachable_inv [OF assms(1)] assms(2,3)
    by (simp add: AcquireAvrcpPassThroughOwnerLease_def PassIsCurrentGeneration_def
        ResetHeldOperation_def only_lease_missing_def MapperIsCurrentGeneration_def
        mapper_inv_def Let_def)
  let ?s1 = "fst (V1AvrcpAcquireOwnerLease s g l)"
  have mapper: "as_actions (snd (V1AvrcpAcquireOwnerLease s g l)) = V1AvrcpActionNone"
    "am_absolute_volume ?s1 = v1" "MapperIsCurrentGeneration ?s1 g"
    using assms(2,3) pass acquired(5)
    by (simp_all add: V1AvrcpAcquireOwnerLease_def only_lease_missing_def v1_def v_def
        MapperIsCurrentGeneration_def Let_def)
  have quiet: "vd_actions (vg_volume (snd (ObserveWindowsEndpointVolumeThroughGate v1 g w))) = 0"
    using acquired s(1,9)
    by (simp add: ObserveWindowsEndpointVolumeThroughGate_def ObserveWindowsEndpointVolume_def
        IsCurrentSession_def IsCurrentAclGeneration_def AuthorizeGateDecision_def
        AvrcpAbsoluteVolumeDecision_default_def Let_def case_prod_beta)
  have "as_actions (snd (V1AvrcpObserveWindowsVolume ?s1 g w)) = V1AvrcpActionNone"
    using mapper(2,3) quiet
    by (simp add: V1AvrcpObserveWindowsVolume_def Let_def case_prod_beta merge_no_volume
        filter_push_none)
  then show ?thesis
    using acquired mapper(1,2) by (simp add: Let_def case_prod_beta v_def w_def)
qed

text \<open>A second media session on the same connection: the first push is decided at 50 percent, the
  lease is revoked and taken again, and the headset is never told.\<close>

definition second_session_mapper :: V1AvrcpControlMapperState where
  "second_session_mapper =
     mapper_run controlled_mapper [Map_Capability 3 True, Map_Revoke 3 11]"

theorem regained_lease_push_lost_witness:
  "let s1 = fst (V1AvrcpAcquireOwnerLease second_session_mapper 3 12)
   in av_last_xm5_volume_sent (ag_reducer (am_absolute_volume s1)) = 64 \<and>
      as_actions (snd (V1AvrcpObserveWindowsVolume s1 3 \<lparr>wv_percent = 50, wv_muted = False\<rparr>)) =
        V1AvrcpActionNone"
proof -
  have "mapper_reachable second_session_mapper"
    unfolding second_session_mapper_def
    by (rule mapper_run_reachable [OF controlled_mapper_reachable]) code_simp
  moreover have "only_lease_missing second_session_mapper 3" "(12 :: u64) \<noteq> 0" by code_simp+
  moreover have "ag_last_windows_volume (am_absolute_volume second_session_mapper) =
      \<lparr>wv_percent = 50, wv_muted = False\<rparr>"
    "ProjectWindowsVolumeToXm5 \<lparr>wv_percent = 50, wv_muted = False\<rparr> = 64"
    by code_simp+
  ultimately show ?thesis
    using regained_lease_push_lost [of second_session_mapper 3 12]
    by (auto simp: Let_def case_prod_beta)
qed

end
