(* ===== verification/Text_Matching.thy ===== *)
theory Text_Matching
  imports Prelude
begin

text \<open>
  The part of the C++ standard library the log parsers of the agent use: \<open>std::getline\<close> over a
  text, \<open>std::regex_search\<close> for patterns that are sequences of literals and captured runs of a
  character class, and \<open>strtoul\<close>/\<open>strtoull\<close> (saturating, with the 32-bit \<open>unsigned long\<close> of
  Windows).  In every pattern of the sources a run is followed by a character outside its class,
  so that the greedy match of the run is the only one and no backtracking is needed.
\<close>

section \<open>Lines\<close>

fun split_lines :: "string \<Rightarrow> string \<Rightarrow> string list" where
  "split_lines acc [] = (if acc = [] then [] else [rev acc])"
| "split_lines acc (c # cs) =
     (if c = CHR 0x0A then rev acc # split_lines [] cs else split_lines (c # acc) cs)"

definition getlines :: "string \<Rightarrow> string list" where
  "getlines text = split_lines [] text"

section \<open>Patterns\<close>

type_synonym char_class = "char \<Rightarrow> bool"

definition in_range :: "char \<Rightarrow> char \<Rightarrow> char \<Rightarrow> bool" where
  "in_range lo hi c \<longleftrightarrow> of_char lo \<le> (of_char c :: int) \<and> (of_char c :: int) \<le> of_char hi"

definition digit :: char_class where "digit c \<longleftrightarrow> in_range CHR ''0'' CHR ''9'' c"

definition hex_digit :: char_class where
  "hex_digit c \<longleftrightarrow> digit c \<or> in_range CHR ''A'' CHR ''F'' c \<or> in_range CHR ''a'' CHR ''f'' c"

definition lower_or_dash :: char_class where
  "lower_or_dash c \<longleftrightarrow> in_range CHR ''a'' CHR ''z'' c \<or> c = CHR ''-''"

definition word_or_dash :: char_class where
  "word_or_dash c \<longleftrightarrow>
     in_range CHR ''A'' CHR ''Z'' c \<or> in_range CHR ''a'' CHR ''z'' c \<or> digit c \<or> c = CHR ''-''"

definition binary_digit :: char_class where
  "binary_digit c \<longleftrightarrow> c = CHR ''0'' \<or> c = CHR ''1''"

datatype piece = Lit string | Run char_class | Skip char_class | One char_class

fun strip_literal :: "string \<Rightarrow> string \<Rightarrow> string option" where
  "strip_literal [] s = Some s"
| "strip_literal (p # ps) [] = None"
| "strip_literal (p # ps) (c # cs) = (if p = c then strip_literal ps cs else None)"

fun match_at :: "piece list \<Rightarrow> string \<Rightarrow> string list option" where
  "match_at [] s = Some []"
| "match_at (Lit l # ps) s = (case strip_literal l s of None \<Rightarrow> None | Some rest \<Rightarrow> match_at ps rest)"
| "match_at (Run cls # ps) s =
     (if takeWhile cls s = [] then None
      else map_option (\<lambda>cs. takeWhile cls s # cs) (match_at ps (dropWhile cls s)))"
| "match_at (Skip cls # ps) s =
     (if takeWhile cls s = [] then None else match_at ps (dropWhile cls s))"
| "match_at (One cls # ps) s =
     (case s of [] \<Rightarrow> None
      | c # rest \<Rightarrow> if cls c then map_option (\<lambda>cs. [c] # cs) (match_at ps rest) else None)"

fun search :: "piece list \<Rightarrow> string \<Rightarrow> string list option" where
  "search ps [] = match_at ps []"
| "search ps (c # cs) = (case match_at ps (c # cs) of Some m \<Rightarrow> Some m | None \<Rightarrow> search ps cs)"

section \<open>Numbers\<close>

definition digit_value :: "char \<Rightarrow> int" where
  "digit_value c =
     (if digit c then of_char c - 48
      else if in_range CHR ''A'' CHR ''F'' c then of_char c - 55 else of_char c - 87)"

definition number :: "int \<Rightarrow> string \<Rightarrow> int" where
  "number base s = foldl (\<lambda>n c. base * n + digit_value c) 0 s"

definition strtoul16 :: "string \<Rightarrow> u32" where
  "strtoul16 s = of_int (min (number 16 s) (2 ^ 32 - 1))"

definition strtoul10 :: "string \<Rightarrow> u32" where
  "strtoul10 s = of_int (min (number 10 s) (2 ^ 32 - 1))"

definition strtoull10 :: "string \<Rightarrow> u64" where
  "strtoull10 s = of_int (min (number 10 s) (2 ^ 64 - 1))"

lemma strip_literal_append [simp]: "strip_literal l (l @ s) = Some s"
  by (induction l) simp_all

end
