(* ===== verification/Action_Executor.thy ===== *)
theory Action_Executor
  imports Action_Mapper Text_Matching
begin

text \<open>
  The executor around the control mapper: \<open>agent/v1_avrcp_action_executor.cpp\<close>.  Observed events
  are fed to the mapper, authorized actions go to a sink, and an applied Windows volume is read
  back and fed to the mapper again.  The sink is the interface \<open>V1AvrcpActionSink\<close>: a parameter of
  the model, two functions over a state of its own.  Two parsers turn log lines into events for
  the replay tools.  The theory proves that the mutual feeding ends after one round, that only
  authorized actions reach the sink, and that a replay counts every line exactly once.
\<close>

section \<open>Sink, events and counters\<close>

record 'w V1AvrcpActionSink =
  sink_Handle :: "'w \<Rightarrow> V1AvrcpActionSet \<Rightarrow> bool \<times> 'w"
  sink_QueryWindowsVolume :: "'w \<Rightarrow> AvrcpWindowsVolume option \<times> 'w"

record V1AvrcpReplayOptions =
  opt_acl_generation :: u64
  opt_owner_lease :: u64
  opt_volume_sync :: bool
  opt_media_routing :: bool
  opt_headset_preferred :: bool
  opt_initial_windows_volume :: AvrcpWindowsVolume
  opt_media_session :: V1MediaSessionSnapshot

record V1AvrcpReplayStats =
  st_lines :: u64
  st_recognized_events :: u64
  st_ignored_lines :: u64
  st_action_sets :: u64
  st_sink_accepted :: u64
  st_generation_ended :: u64
  st_errors :: u64

definition V1AvrcpReplayStats_default :: V1AvrcpReplayStats where
  "V1AvrcpReplayStats_default =
     \<lparr>st_lines = 0, st_recognized_events = 0, st_ignored_lines = 0, st_action_sets = 0,
      st_sink_accepted = 0, st_generation_ended = 0, st_errors = 0\<rparr>"

datatype V1AvrcpObservedKind =
    Kind_GenerationStarted | Kind_GenerationEnded | Kind_VolumeCapability | Kind_AbsoluteVolume
  | Kind_PassThrough | Kind_SetAbsoluteVolumeCommand

record V1AvrcpObservedEvent =
  oe_kind :: V1AvrcpObservedKind
  oe_generation :: u64
  oe_flags :: u32
  oe_value :: u32
  oe_volume_event :: AvrcpXm5VolumeEvent

definition V1AvrcpObservedEvent_default :: V1AvrcpObservedEvent where
  "V1AvrcpObservedEvent_default =
     \<lparr>oe_kind = Kind_GenerationStarted, oe_generation = 0, oe_flags = 0, oe_value = 0,
      oe_volume_event = Xm5Event_RemoteNotification\<rparr>"

definition V1AvrcpVirtualKeyForAction :: "u32 \<Rightarrow> u16" where
  "V1AvrcpVirtualKeyForAction action =
     (if action = V1AvrcpActionStepVolumeUp then 0xAF
      else if action = V1AvrcpActionStepVolumeDown then 0xAE
      else if action = V1AvrcpActionToggleMute then 0xAD
      else if action = V1AvrcpActionMediaPlay \<or> action = V1AvrcpActionMediaPause \<or>
              action = V1AvrcpActionMediaPlayPause then 0xB3
      else if action = V1AvrcpActionMediaStop then 0xB2
      else if action = V1AvrcpActionMediaNextTrack then 0xB0
      else if action = V1AvrcpActionMediaPreviousTrack then 0xB1
      else 0)"

section \<open>Dispatch\<close>

text \<open>A Windows observation never asks for another Windows change: what ends the recursion.\<close>

lemma windows_gate_sends_only:
  "vd_actions (vg_volume (snd (ObserveWindowsEndpointVolumeThroughGate v g w))) AND
     AvrcpVolumeActionSetWindowsEndpoint = 0"
  by (auto simp: ObserveWindowsEndpointVolumeThroughGate_def ObserveWindowsEndpointVolume_def
      ActivateGateIfAuthorized_def BeginAvrcpAbsoluteVolumeSession_def
      SendAuthoritativeWindowsVolume_def AuthorizeGateDecision_def
      AvrcpAbsoluteVolumeDecision_default_def Let_def case_prod_beta)

lemma windows_feedback_sends_only:
  "\<not> V1AvrcpHasAction (snd (V1AvrcpObserveWindowsVolume s g w)) V1AvrcpActionSetWindowsVolume"
  using windows_gate_sends_only [of "am_absolute_volume s" g w]
  by (auto simp: V1AvrcpObserveWindowsVolume_def V1AvrcpHasAction_def merge_volume_actions
      HasAvrcpAbsoluteVolumeGateAction_def HasAvrcpAbsoluteVolumeAction_def
      FilterHeadsetPreferredPush_def flag_or and.assoc Let_def case_prod_beta)

text \<open>The mapper, the sink's state and the counters are threaded through the calls.\<close>

function V1AvrcpDispatchAuthorizedActions ::
  "'w V1AvrcpActionSink \<Rightarrow> V1AvrcpActionSet \<Rightarrow>
   V1AvrcpControlMapperState \<times> 'w \<times> V1AvrcpReplayStats \<Rightarrow>
   V1AvrcpControlMapperState \<times> 'w \<times> V1AvrcpReplayStats" where
  "V1AvrcpDispatchAuthorizedActions sink actions (mapper, w, stats) =
     (if as_actions actions = V1AvrcpActionNone \<or> \<not> as_authorized_current actions
      then (mapper, w, stats)
      else
        let stats1 = stats\<lparr>st_action_sets := st_action_sets stats + 1\<rparr>;
            (handled, w1) = sink_Handle sink w actions
        in if \<not> handled then (mapper, w1, stats1)
           else
             let stats2 = stats1\<lparr>st_sink_accepted := st_sink_accepted stats1 + 1\<rparr>
             in if V1AvrcpHasAction actions V1AvrcpActionSetWindowsVolume
                then
                  (case sink_QueryWindowsVolume sink w1 of
                     (Some readback, w2) \<Rightarrow>
                       V1AvrcpDispatchAuthorizedActions sink
                         (snd (V1AvrcpObserveWindowsVolume mapper (am_acl_generation mapper)
                           readback))
                         (fst (V1AvrcpObserveWindowsVolume mapper (am_acl_generation mapper)
                           readback), w2, stats2)
                   | (None, w2) \<Rightarrow> (mapper, w2, stats2))
                else (mapper, w1, stats2))"
  by pat_completeness auto
termination
  by (relation "measure (\<lambda>(sink, actions, s).
      if V1AvrcpHasAction actions V1AvrcpActionSetWindowsVolume then 1 else 0)")
    (auto simp: windows_feedback_sends_only)

declare V1AvrcpDispatchAuthorizedActions.simps [simp del]

section \<open>Feeding events\<close>

definition count_error :: "V1AvrcpReplayStats \<Rightarrow> V1AvrcpReplayStats" where
  "count_error stats = stats\<lparr>st_errors := st_errors stats + 1\<rparr>"

definition count_recognized :: "V1AvrcpReplayStats \<Rightarrow> V1AvrcpReplayStats" where
  "count_recognized stats = stats\<lparr>st_recognized_events := st_recognized_events stats + 1\<rparr>"

definition count_ignored :: "V1AvrcpReplayStats \<Rightarrow> V1AvrcpReplayStats" where
  "count_ignored stats = stats\<lparr>st_ignored_lines := st_ignored_lines stats + 1\<rparr>"

definition start_generation ::
  "V1AvrcpReplayOptions \<Rightarrow> V1AvrcpControlMapperState \<Rightarrow> u64 \<Rightarrow>
   (V1AvrcpControlMapperState \<times> V1AvrcpActionSet) option" where
  "start_generation options mapper generation =
     (let (m1, begun) = V1AvrcpBeginAclGeneration mapper generation
      in if as_acl_generation begun = 0 then None
         else
           let m2 = fst (V1AvrcpSetControlMode m1 generation (opt_volume_sync options)
                 (opt_media_routing options));
               m3 = fst (V1AvrcpAcquireOwnerLease m2 generation (opt_owner_lease options));
               m4 = m3\<lparr>am_headset_preferred := opt_headset_preferred options,
                       am_xm5_volume_seen := False\<rparr>;
               m5 = fst (V1AvrcpObserveWindowsVolume m4 generation
                 (opt_initial_windows_volume options))
           in Some (V1AvrcpSetMediaSessionSnapshot m5
                ((opt_media_session options)\<lparr>ms_acl_generation := generation\<rparr>)))"

text \<open>A failed start leaves the mapper as \<open>V1AvrcpBeginAclGeneration\<close> left it.\<close>

definition V1AvrcpFeedEvent ::
  "'w V1AvrcpActionSink \<Rightarrow> V1AvrcpReplayOptions \<Rightarrow> V1AvrcpObservedEvent \<Rightarrow>
   V1AvrcpControlMapperState \<times> 'w \<times> V1AvrcpReplayStats \<Rightarrow>
   bool \<times> (V1AvrcpControlMapperState \<times> 'w \<times> V1AvrcpReplayStats)" where
  "V1AvrcpFeedEvent sink options event s =
     (let (mapper, w, stats) = s; g = oe_generation event
      in if g = 0 then (False, mapper, w, count_error stats)
         else if oe_kind event = Kind_GenerationStarted
         then if am_acl_generation_current mapper then (False, mapper, w, count_error stats)
              else (case start_generation options mapper g of
                  None \<Rightarrow> (False, fst (V1AvrcpBeginAclGeneration mapper g), w, count_error stats)
                | Some (m1, actions) \<Rightarrow>
                    (let (m2, w2, stats2) =
                         V1AvrcpDispatchAuthorizedActions sink actions (m1, w, stats)
                     in (True, m2, w2, count_recognized stats2)))
         else if oe_kind event = Kind_GenerationEnded
         then if \<not> am_acl_generation_current mapper then (False, mapper, w, count_error stats)
              else (True, fst (V1AvrcpEndAclGeneration mapper g), w,
                    (count_recognized stats)
                      \<lparr>st_generation_ended := st_generation_ended stats + 1\<rparr>)
         else if \<not> am_acl_generation_current mapper
         then (True, mapper, w, count_ignored stats)
         else if g \<noteq> am_acl_generation mapper then (True, mapper, w, count_error stats)
         else
           let (m1, actions) =
                 (if oe_kind event = Kind_VolumeCapability
                  then V1AvrcpObserveVolumeCapability mapper g (oe_value event \<noteq> 0)
                  else if oe_kind event = Kind_AbsoluteVolume
                  then V1AvrcpObserveXm5AbsoluteVolume mapper g (ucast (oe_value event AND 0x7F))
                    (oe_volume_event event)
                  else if oe_kind event = Kind_PassThrough
                  then V1AvrcpObservePassThrough mapper g (ucast (oe_value event AND 0x7F))
                    (oe_flags event AND 0x02 \<noteq> 0)
                  else V1AvrcpObserveXm5AbsoluteVolume mapper g (ucast (oe_value event AND 0x7F))
                    Xm5Event_RemoteNotification);
               s2 = V1AvrcpDispatchAuthorizedActions sink actions
                 (m1, w, count_recognized stats)
           in (True, s2))"

section \<open>Log lines\<close>

definition ParseEventLine :: "string \<Rightarrow> V1AvrcpObservedEvent option" where
  "ParseEventLine line =
     (case search [Lit ''type='', Run word_or_dash] line of
        Some [type] \<Rightarrow>
          (case search [Lit ''generation='', Run digit] line of
             Some [generation] \<Rightarrow>
               (case search [Lit ''flags=0x'', Run hex_digit] line of
                  Some [flags_text] \<Rightarrow>
                    (case search [Lit ''value=0x'', Run hex_digit] line of
                       Some [value_text] \<Rightarrow>
                         (let flags = strtoul16 flags_text;
                              event = V1AvrcpObservedEvent_default
                                \<lparr>oe_generation := strtoull10 generation, oe_flags := flags,
                                 oe_value := strtoul16 value_text\<rparr>
                          in if type = ''transport-generation-started''
                             then Some (event\<lparr>oe_kind := Kind_GenerationStarted\<rparr>)
                             else if type = ''transport-generation-ended''
                             then Some (event\<lparr>oe_kind := Kind_GenerationEnded\<rparr>)
                             else if type = ''volume-capability''
                             then Some (event\<lparr>oe_kind := Kind_VolumeCapability\<rparr>)
                             else if type = ''absolute-volume''
                             then Some (event\<lparr>oe_kind := Kind_AbsoluteVolume,
                               oe_volume_event := (if flags AND 0x10 \<noteq> 0
                                 then Xm5Event_RemoteNotification
                                 else Xm5Event_CommandResponse)\<rparr>)
                             else if type = ''pass-through''
                             then Some (event\<lparr>oe_kind := Kind_PassThrough\<rparr>)
                             else if type = ''vendor-command''
                             then (case search [Lit ''pdu=0x'', Run hex_digit,
                                     Lit '' params=0x'', Run hex_digit] line of
                                 Some [pdu, params0] \<Rightarrow>
                                   if strtoul16 pdu \<noteq> 0x50 then None
                                   else Some (event\<lparr>oe_kind := Kind_SetAbsoluteVolumeCommand,
                                     oe_value := strtoul16 params0 AND 0x7F\<rparr>)
                               | _ \<Rightarrow> None)
                             else None)
                     | _ \<Rightarrow> None)
                | _ \<Rightarrow> None)
           | _ \<Rightarrow> None)
      | _ \<Rightarrow> None)"

definition parse_filter_capability :: "V1AvrcpObservedEvent \<Rightarrow> string \<Rightarrow> V1AvrcpObservedEvent option"
where
  "parse_filter_capability event line =
     (case search [Lit ''supported='', One binary_digit] line of
        Some [supported] \<Rightarrow>
          Some (event\<lparr>oe_kind := Kind_VolumeCapability,
                      oe_value := (if supported = ''1'' then 1 else 0)\<rparr>)
      | _ \<Rightarrow> None)"

definition parse_filter_volume :: "V1AvrcpObservedEvent \<Rightarrow> string \<Rightarrow> V1AvrcpObservedEvent option"
where
  "parse_filter_volume event line =
     (case search [Lit ''volume='', Run digit, Lit '' response=0x'', Run hex_digit] line of
        Some [volume_text, response] \<Rightarrow>
          (let volume = strtoul10 volume_text
           in if volume > 127 then None
              else Some (event\<lparr>oe_kind := Kind_AbsoluteVolume, oe_value := volume,
                     oe_volume_event := (if strtoul16 response = 0x0D
                       then Xm5Event_RemoteNotification else Xm5Event_CommandResponse)\<rparr>))
      | _ \<Rightarrow> None)"

definition parse_filter_pass_through ::
  "V1AvrcpObservedEvent \<Rightarrow> string \<Rightarrow> V1AvrcpObservedEvent option" where
  "parse_filter_pass_through event line =
     (case search [Lit ''operation=0x'', Run hex_digit, Lit '' released='', One binary_digit,
             Lit '' response=0x'', Run hex_digit] line of
        Some [operation_text, released, response] \<Rightarrow>
          (let operation = strtoul16 operation_text
           in if operation > 0x7F \<or> strtoul16 response \<noteq> 0 then None
              else Some (event\<lparr>oe_kind := Kind_PassThrough, oe_value := operation,
                     oe_flags := (if released = ''1'' then 0x02 else 0)\<rparr>))
      | _ \<Rightarrow> None)"

definition ParseFilterDecodedLine :: "u64 \<Rightarrow> string \<Rightarrow> V1AvrcpObservedEvent option" where
  "ParseFilterDecodedLine generation line =
     (case search [Lit ''decoded sequence='', Skip digit, Lit '' kind='', Run lower_or_dash] line of
        Some [kind] \<Rightarrow>
          (let event = V1AvrcpObservedEvent_default\<lparr>oe_generation := generation\<rparr>
           in if kind = ''volume-capability'' then parse_filter_capability event line
              else if kind = ''volume-changed'' then parse_filter_volume event line
              else if kind = ''pass-through'' then parse_filter_pass_through event line
              else None)
      | _ \<Rightarrow> None)"

section \<open>Replays\<close>

text \<open>The loop over the lines; \<open>False\<close> is the early return.\<close>

fun replay_lines ::
  "(string \<Rightarrow> V1AvrcpObservedEvent option) \<Rightarrow> 'w V1AvrcpActionSink \<Rightarrow> V1AvrcpReplayOptions \<Rightarrow>
   string list \<Rightarrow> V1AvrcpControlMapperState \<times> 'w \<times> V1AvrcpReplayStats \<Rightarrow>
   bool \<times> (V1AvrcpControlMapperState \<times> 'w \<times> V1AvrcpReplayStats)" where
  "replay_lines parse sink options [] s = (True, s)"
| "replay_lines parse sink options (line # rest) (mapper, w, stats) =
     (let stats1 = stats\<lparr>st_lines := st_lines stats + 1\<rparr>
      in case parse line of
           None \<Rightarrow> replay_lines parse sink options rest (mapper, w, count_ignored stats1)
         | Some event \<Rightarrow>
             (let (ok, s2) = V1AvrcpFeedEvent sink options event (mapper, w, stats1)
              in if \<not> ok then (False, s2) else replay_lines parse sink options rest s2))"

definition end_if_current ::
  "'w V1AvrcpActionSink \<Rightarrow> V1AvrcpReplayOptions \<Rightarrow>
   V1AvrcpControlMapperState \<times> 'w \<times> V1AvrcpReplayStats \<Rightarrow>
   V1AvrcpControlMapperState \<times> 'w \<times> V1AvrcpReplayStats" where
  "end_if_current sink options s =
     (if am_acl_generation_current (fst s)
      then snd (V1AvrcpFeedEvent sink options
             (V1AvrcpObservedEvent_default
               \<lparr>oe_kind := Kind_GenerationEnded, oe_generation := am_acl_generation (fst s)\<rparr>) s)
      else s)"

definition V1AvrcpRunReplay ::
  "string \<Rightarrow> V1AvrcpReplayOptions \<Rightarrow> 'w V1AvrcpActionSink \<Rightarrow> 'w \<Rightarrow>
   bool \<times> (V1AvrcpControlMapperState \<times> 'w \<times> V1AvrcpReplayStats)" where
  "V1AvrcpRunReplay log_text options sink w =
     (let (ok, s) = replay_lines ParseEventLine sink options (getlines log_text)
            (V1AvrcpControlMapperState_default, w, V1AvrcpReplayStats_default)
      in if \<not> ok then (False, s) else (True, end_if_current sink options s))"

definition V1AvrcpRunFilterReplay ::
  "string \<Rightarrow> V1AvrcpReplayOptions \<Rightarrow> 'w V1AvrcpActionSink \<Rightarrow> 'w \<Rightarrow>
   bool \<times> (V1AvrcpControlMapperState \<times> 'w \<times> V1AvrcpReplayStats)" where
  "V1AvrcpRunFilterReplay log_text options sink w =
     (if opt_acl_generation options = 0
      then (False, V1AvrcpControlMapperState_default, w, count_error V1AvrcpReplayStats_default)
      else
        let (ok, s) = V1AvrcpFeedEvent sink options
              (V1AvrcpObservedEvent_default
                \<lparr>oe_kind := Kind_GenerationStarted,
                 oe_generation := opt_acl_generation options\<rparr>)
              (V1AvrcpControlMapperState_default, w, V1AvrcpReplayStats_default)
        in if \<not> ok then (False, s)
           else
             let (ok1, s1) = replay_lines (ParseFilterDecodedLine (opt_acl_generation options))
                   sink options (getlines log_text) s
             in if \<not> ok1 then (False, s1) else (True, end_if_current sink options s1))"

section \<open>Dispatch is bounded\<close>

text \<open>A sink that also records the action sets it is given.\<close>

definition recording ::
  "'w V1AvrcpActionSink \<Rightarrow> ('w \<times> V1AvrcpActionSet list) V1AvrcpActionSink" where
  "recording sink =
     \<lparr>sink_Handle = (\<lambda>(w, log) a. let (ok, w1) = sink_Handle sink w a in (ok, w1, log @ [a])),
      sink_QueryWindowsVolume =
        (\<lambda>(w, log). let (v, w1) = sink_QueryWindowsVolume sink w in (v, w1, log))\<rparr>"

definition silent :: "V1AvrcpActionSet \<Rightarrow> bool" where
  "silent a \<longleftrightarrow> as_actions a = V1AvrcpActionNone \<or> \<not> as_authorized_current a"

lemma dispatch_silent:
  "silent a \<Longrightarrow> V1AvrcpDispatchAuthorizedActions sink a s = s"
  by (cases s) (auto simp: V1AvrcpDispatchAuthorizedActions.simps silent_def)

lemma dispatch_send_only:
  assumes "\<not> silent a" "\<not> V1AvrcpHasAction a V1AvrcpActionSetWindowsVolume"
  shows "\<exists>m w stats. V1AvrcpDispatchAuthorizedActions (recording sink) a (mapper, (w0, log), stats0) =
     (m, (w, log @ [a]), stats)"
  using assms
  by (auto simp: V1AvrcpDispatchAuthorizedActions.simps silent_def recording_def Let_def
      split: prod.splits)

lemma dispatch_logs:
  "\<exists>calls. snd (fst (snd (V1AvrcpDispatchAuthorizedActions (recording sink) a
       (mapper, (w0, log), stats0)))) = log @ calls \<and>
     (calls = [] \<or> \<not> silent a \<and>
       (calls = [a] \<or> (\<exists>b. calls = [a, b] \<and> \<not> silent b \<and>
          \<not> V1AvrcpHasAction b V1AvrcpActionSetWindowsVolume)))"
proof (cases "silent a \<or> \<not> V1AvrcpHasAction a V1AvrcpActionSetWindowsVolume")
  case True
  then show ?thesis
    using dispatch_silent [of a "recording sink"] dispatch_send_only [of a sink mapper w0 log stats0]
    by (cases "silent a") auto
next
  case False
  then have noisy: "as_actions a \<noteq> V1AvrcpActionNone" "as_authorized_current a"
    "V1AvrcpHasAction a V1AvrcpActionSetWindowsVolume" "\<not> silent a"
    by (auto simp: silent_def)
  obtain ok w1 where handle: "sink_Handle sink w0 a = (ok, w1)" by fastforce
  obtain v w2 where query: "sink_QueryWindowsVolume sink w1 = (v, w2)" by fastforce
  show ?thesis
  proof (cases "ok \<and> v \<noteq> None")
    case False
    then show ?thesis using noisy handle query
      by (subst V1AvrcpDispatchAuthorizedActions.simps) (auto simp: recording_def Let_def)
  next
    case True
    then obtain readback where v: "v = Some readback" and ok by blast
    define f where "f = V1AvrcpObserveWindowsVolume mapper (am_acl_generation mapper) readback"
    define stats1 where "stats1 = (stats0\<lparr>st_action_sets := st_action_sets stats0 + 1\<rparr>)
        \<lparr>st_sink_accepted := st_sink_accepted stats0 + 1\<rparr>"
    have step: "V1AvrcpDispatchAuthorizedActions (recording sink) a (mapper, (w0, log), stats0) =
        V1AvrcpDispatchAuthorizedActions (recording sink) (snd f) (fst f, (w2, log @ [a]), stats1)"
      using noisy handle query v \<open>ok\<close>
      by (subst V1AvrcpDispatchAuthorizedActions.simps)
        (simp add: recording_def Let_def f_def stats1_def)
    have send: "\<not> V1AvrcpHasAction (snd f) V1AvrcpActionSetWindowsVolume"
      unfolding f_def by (rule windows_feedback_sends_only)
    show ?thesis
    proof (cases "silent (snd f)")
      case True
      then have "snd (fst (snd (V1AvrcpDispatchAuthorizedActions (recording sink) a
          (mapper, (w0, log), stats0)))) = log @ [a]"
        unfolding step by (simp add: dispatch_silent)
      then show ?thesis using noisy(4) by blast
    next
      case False
      obtain m w stats where "V1AvrcpDispatchAuthorizedActions (recording sink) (snd f)
          (fst f, (w2, log @ [a]), stats1) = (m, (w, (log @ [a]) @ [snd f]), stats)"
        using dispatch_send_only [OF False send, of sink "fst f" w2 "log @ [a]" stats1] by blast
      then have "snd (fst (snd (V1AvrcpDispatchAuthorizedActions (recording sink) a
          (mapper, (w0, log), stats0)))) = log @ [a, snd f]"
        unfolding step by simp
      then show ?thesis using noisy(4) False send by blast
    qed
  qed
qed

text \<open>Dispatching is bounded and authorized.  Whatever the sink does and whatever volume it
  reads back, one dispatch reaches the sink at most twice: with the given action set, and with the
  feedback of an applied Windows volume, which never asks for another Windows change; and nothing
  empty or unauthorized reaches it.\<close>

theorem dispatch_at_most_twice:
  "\<exists>calls. snd (fst (snd (V1AvrcpDispatchAuthorizedActions (recording sink) a
       (mapper, (w, []), stats)))) = calls \<and>
     length calls \<le> 2 \<and> (\<exists>rest. calls = take (length calls) (a # rest)) \<and>
     filter silent calls = [] \<and>
     filter (\<lambda>c. V1AvrcpHasAction c V1AvrcpActionSetWindowsVolume) (tl calls) = []"
proof -
  obtain calls where calls: "snd (fst (snd (V1AvrcpDispatchAuthorizedActions (recording sink) a
       (mapper, (w, []), stats)))) = calls"
    and shape: "calls = [] \<or> \<not> silent a \<and>
       (calls = [a] \<or> (\<exists>b. calls = [a, b] \<and> \<not> silent b \<and>
          \<not> V1AvrcpHasAction b V1AvrcpActionSetWindowsVolume))"
    using dispatch_logs [of sink a mapper w "[]" stats] by auto
  have "length calls \<le> 2 \<and> (\<exists>rest. calls = take (length calls) (a # rest)) \<and>
     filter silent calls = [] \<and>
     filter (\<lambda>c. V1AvrcpHasAction c V1AvrcpActionSetWindowsVolume) (tl calls) = []"
    using shape
  proof (elim disjE conjE exE)
    fix b assume "calls = [a, b]" "\<not> silent a" "\<not> silent b"
      "\<not> V1AvrcpHasAction b V1AvrcpActionSetWindowsVolume"
    then show ?thesis by (auto simp: silent_def intro: exI [of _ "[b]"])
  qed (auto simp: silent_def)
  then show ?thesis using calls by blast
qed

section \<open>Every line is counted once\<close>

definition accounted :: "V1AvrcpReplayStats \<Rightarrow> u64" where
  "accounted stats = st_recognized_events stats + st_ignored_lines stats + st_errors stats"

lemma dispatch_counts:
  "st_lines (snd (snd (V1AvrcpDispatchAuthorizedActions sink a s))) = st_lines (snd (snd s)) \<and>
   accounted (snd (snd (V1AvrcpDispatchAuthorizedActions sink a s))) = accounted (snd (snd s))"
proof (induction sink a s rule: V1AvrcpDispatchAuthorizedActions.induct)
  case (1 sink actions mapper w stats)
  show ?case
  proof (cases "silent actions")
    case True
    then show ?thesis by (simp add: dispatch_silent)
  next
    case False
    then show ?thesis using 1
      by (subst (1 2) V1AvrcpDispatchAuthorizedActions.simps)
        (auto simp: silent_def accounted_def Let_def split: prod.splits option.splits)
  qed
qed

lemma count_simps [simp]:
  "accounted (count_error stats) = accounted stats + 1"
  "accounted (count_recognized stats) = accounted stats + 1"
  "accounted (count_ignored stats) = accounted stats + 1"
  "st_lines (count_error stats) = st_lines stats"
  "st_lines (count_recognized stats) = st_lines stats"
  "st_lines (count_ignored stats) = st_lines stats"
  by (simp_all add: count_error_def count_recognized_def count_ignored_def accounted_def)

lemma feed_counts:
  "st_lines (snd (snd (snd (V1AvrcpFeedEvent sink options e s)))) = st_lines (snd (snd s)) \<and>
   accounted (snd (snd (snd (V1AvrcpFeedEvent sink options e s)))) = accounted (snd (snd s)) + 1"
proof -
  obtain m w stats where s: "s = (m, w, stats)" using prod_cases3 by blast
  have d: "st_lines (snd (snd (V1AvrcpDispatchAuthorizedActions sink a (m', w', stats')))) =
        st_lines stats'"
    "accounted (snd (snd (V1AvrcpDispatchAuthorizedActions sink a (m', w', stats')))) =
        accounted stats'" for a m' w' stats'
    using dispatch_counts [of sink a "(m', w', stats')"] by simp_all
  have ended: "accounted (x\<lparr>st_generation_ended := y\<rparr>) = accounted x" for x y
    by (simp add: accounted_def)
  show ?thesis
    unfolding s V1AvrcpFeedEvent_def Let_def prod.case
    by (simp add: d ended case_prod_beta split: option.split)
qed

lemma replay_counts:
  "accounted (snd (snd (snd (replay_lines parse sink options ls s)))) + st_lines (snd (snd s)) =
     st_lines (snd (snd (snd (replay_lines parse sink options ls s)))) + accounted (snd (snd s)) \<and>
   (fst (replay_lines parse sink options ls s) \<longrightarrow>
      st_lines (snd (snd (snd (replay_lines parse sink options ls s)))) =
        st_lines (snd (snd s)) + of_nat (length ls))"
proof (induction parse sink options ls s rule: replay_lines.induct)
  case (1 parse sink options s)
  then show ?case by simp
next
  case (2 parse sink options line rest mapper w stats)
  let ?stats1 = "stats\<lparr>st_lines := st_lines stats + 1\<rparr>"
  have acc: "accounted ?stats1 = accounted stats" by (simp add: accounted_def)
  show ?case
  proof (cases "parse line")
    case None
    then show ?thesis using 2(1) [OF refl None] acc by (simp add: algebra_simps)
  next
    case (Some e)
    obtain ok s2 where f: "V1AvrcpFeedEvent sink options e (mapper, w, ?stats1) = (ok, s2)"
      by (rule prod.exhaust)
    note counts = feed_counts [of sink options e "(mapper, w, ?stats1)", unfolded f]
    show ?thesis
    proof (cases ok)
      case False
      then show ?thesis using Some f counts acc by simp
    next
      case True
      then have "ok = True" by simp
      with f have "(True, s2) = V1AvrcpFeedEvent sink options e (mapper, w, ?stats1)" by simp
      note rest = 2(2) [OF refl Some this [symmetric, THEN sym] refl]
      show ?thesis using True Some f counts acc rest by (simp add: algebra_simps)
    qed
  qed
qed

section \<open>The executor drives the mapper\<close>

lemma dispatch_reachable:
  "mapper_reachable (fst s) \<Longrightarrow>
     mapper_reachable (fst (V1AvrcpDispatchAuthorizedActions sink a s))"
proof (induction sink a s rule: V1AvrcpDispatchAuthorizedActions.induct)
  case (1 sink actions mapper w stats)
  have fed: "mapper_reachable (fst (V1AvrcpObserveWindowsVolume mapper g v))" for g v
    using mapper_reachable.operate [of mapper "Map_Windows g v"] 1(2) by simp
  show ?case
  proof (cases "silent actions")
    case True
    then show ?thesis using 1(2) by (simp add: dispatch_silent)
  next
    case False
    then show ?thesis using 1 fed
      by (subst V1AvrcpDispatchAuthorizedActions.simps)
        (auto simp: silent_def Let_def split: prod.splits option.splits)
  qed
qed

lemma start_reachable:
  assumes "mapper_reachable m" "\<not> am_acl_generation_current m"
    and "start_generation options m g = Some (m1, a)"
  shows "mapper_reachable m1"
proof -
  have op: "mapper_reachable (fst (mapper_step m' op))"
    if "mapper_reachable m'" "begins_fresh m' op" for m' op
    using that by (rule mapper_reachable.operate)
  have "mapper_reachable (fst (V1AvrcpBeginAclGeneration m g))"
    using op [of m "Map_Begin g"] assms by simp
  then have "mapper_reachable (fst (V1AvrcpSetControlMode
      (fst (V1AvrcpBeginAclGeneration m g)) g (opt_volume_sync options)
      (opt_media_routing options)))" (is "mapper_reachable ?m2")
    using op [of _ "Map_SetMode g (opt_volume_sync options) (opt_media_routing options)"] by simp
  then have "mapper_reachable (fst (V1AvrcpAcquireOwnerLease ?m2 g (opt_owner_lease options)))"
    (is "mapper_reachable ?m3")
    using op [of _ "Map_Acquire g (opt_owner_lease options)"] by simp
  then have "mapper_reachable (?m3\<lparr>am_headset_preferred := opt_headset_preferred options,
      am_xm5_volume_seen := False\<rparr>)" (is "mapper_reachable ?m4")
    by (rule mapper_reachable.configure)
  then have "mapper_reachable (fst (V1AvrcpObserveWindowsVolume ?m4 g
      (opt_initial_windows_volume options)))" (is "mapper_reachable ?m5")
    using op [of _ "Map_Windows g (opt_initial_windows_volume options)"] by simp
  then have "mapper_reachable (fst (V1AvrcpSetMediaSessionSnapshot ?m5
      ((opt_media_session options)\<lparr>ms_acl_generation := g\<rparr>)))"
    using op [of _ "Map_Media ((opt_media_session options)\<lparr>ms_acl_generation := g\<rparr>)"] by simp
  then show ?thesis
    using assms(3) by (auto simp: start_generation_def Let_def case_prod_beta split: if_splits)
qed

lemma observe_reachable:
  assumes "mapper_reachable m"
  shows "mapper_reachable (fst (V1AvrcpObserveVolumeCapability m g c))"
    and "mapper_reachable (fst (V1AvrcpObserveXm5AbsoluteVolume m g x e))"
    and "mapper_reachable (fst (V1AvrcpObservePassThrough m g i r))"
    and "mapper_reachable (fst (V1AvrcpEndAclGeneration m g))"
    and "\<not> am_acl_generation_current m \<Longrightarrow> mapper_reachable (fst (V1AvrcpBeginAclGeneration m g))"
  using mapper_reachable.operate [OF assms, of "Map_Capability g c"]
    mapper_reachable.operate [OF assms, of "Map_Xm5 g x e"]
    mapper_reachable.operate [OF assms, of "Map_PassThrough g i r"]
    mapper_reachable.operate [OF assms, of "Map_End g"]
    mapper_reachable.operate [OF assms, of "Map_Begin g"]
  by simp_all

lemma feed_reachable:
  assumes "mapper_reachable (fst s)"
  shows "mapper_reachable (fst (snd (V1AvrcpFeedEvent sink options e s)))"
proof -
  obtain m w stats where s: "s = (m, w, stats)" by (rule prod_cases3)
  have m: "mapper_reachable m" using assms s by simp
  have d: "mapper_reachable (fst (V1AvrcpDispatchAuthorizedActions sink a (m', x)))"
    if "mapper_reachable m'" for a m' x
    using dispatch_reachable [of "(m', x)"] that by simp
  show ?thesis
    unfolding s V1AvrcpFeedEvent_def Let_def prod.case
    by (auto simp: m d observe_reachable case_prod_beta
        intro: d [OF start_reachable [OF m]] split: option.split)
qed

lemma replay_reachable:
  "mapper_reachable (fst s) \<Longrightarrow>
     mapper_reachable (fst (snd (replay_lines parse sink options ls s)))"
proof (induction parse sink options ls s rule: replay_lines.induct)
  case (1 parse sink options s)
  then show ?case by simp
next
  case (2 parse sink options line rest mapper w stats)
  let ?stats1 = "stats\<lparr>st_lines := st_lines stats + 1\<rparr>"
  show ?case
  proof (cases "parse line")
    case None
    then show ?thesis using 2(1) [OF refl None] 2(3) by simp
  next
    case (Some e)
    obtain ok s2 where f: "V1AvrcpFeedEvent sink options e (mapper, w, ?stats1) = (ok, s2)"
      by (rule prod.exhaust)
    have s2: "mapper_reachable (fst s2)"
      using feed_reachable [of "(mapper, w, ?stats1)" sink options e] 2(3) f by simp
    then show ?thesis using Some f 2(2) [OF refl Some f [symmetric]] by auto
  qed
qed

lemma end_if_current_ends:
  assumes "mapper_reachable (fst s)"
  shows "\<not> am_acl_generation_current (fst (end_if_current sink options s))"
    and "accounted (snd (snd (end_if_current sink options s))) =
      accounted (snd (snd s)) + (if am_acl_generation_current (fst s) then 1 else 0)"
    and "st_lines (snd (snd (end_if_current sink options s))) = st_lines (snd (snd s))"
  using mapper_reachable_inv [OF assms]
    feed_counts [of sink options "V1AvrcpObservedEvent_default
      \<lparr>oe_kind := Kind_GenerationEnded, oe_generation := am_acl_generation (fst s)\<rparr>" s]
  by (auto simp: end_if_current_def V1AvrcpFeedEvent_def V1AvrcpObservedEvent_default_def
      V1AvrcpEndAclGeneration_def MapperIsCurrentGeneration_def reset_playback_def
      mapper_inv_def Let_def case_prod_beta)

text \<open>A replay ends cleanly and loses no line.  Replaying any text, with any options and sink:
  the lines up to the end or to the fatal event are each counted exactly once, as recognized,
  ignored or in error; a replay that does not fail has read every line, leaves no generation
  current, and accounts for one more event exactly if the log ended within a generation; and the
  mapper is only ever driven through states its authority properties cover.\<close>

theorem replay_counts_every_line:
  "let init = (V1AvrcpControlMapperState_default, w, V1AvrcpReplayStats_default);
       (ok, m, w1, stats) = replay_lines ParseEventLine sink options (getlines text) init;
       (ok', m', w2, stats') = V1AvrcpRunReplay text options sink w
   in ok' = ok \<and> accounted stats = st_lines stats \<and> mapper_reachable m \<and>
      (if ok
       then \<not> am_acl_generation_current m' \<and>
            st_lines stats' = of_nat (length (getlines text)) \<and>
            accounted stats' =
              st_lines stats' + (if am_acl_generation_current m then 1 else 0)
       else m' = m \<and> stats' = stats)"
proof -
  let ?init = "(V1AvrcpControlMapperState_default, w, V1AvrcpReplayStats_default)"
  obtain ok m w1 stats where
    r: "replay_lines ParseEventLine sink options (getlines text) ?init = (ok, m, w1, stats)"
    by (rule prod_cases4)
  note counts = replay_counts [of ParseEventLine sink options "getlines text" ?init, unfolded r]
  have reach: "mapper_reachable m"
    using replay_reachable [of ?init ParseEventLine sink options "getlines text"]
      mapper_reachable.initial r by simp
  have zero: "accounted V1AvrcpReplayStats_default = 0" "st_lines V1AvrcpReplayStats_default = 0"
    by (simp_all add: accounted_def V1AvrcpReplayStats_default_def)
  note ends = end_if_current_ends [of "(m, w1, stats)" sink options, simplified, OF reach]
  show ?thesis
    using counts zero reach ends
    by (cases ok) (simp_all add: V1AvrcpRunReplay_def r Let_def case_prod_beta)
qed

section \<open>The filter trace\<close>

lemma and_7F_u32:
  assumes "(v :: u32) \<le> 0x7F"
  shows "v AND 0x7F = v"
proof -
  have "unat (take_bit 7 v) = unat v"
    using assms by (simp add: unsigned_take_bit_eq take_bit_nat_eq_self word_le_nat_alt)
  then have "take_bit 7 v = v" by (simp only: unsigned_word_eqI)
  then show ?thesis by (simp add: take_bit_eq_mask mask_eq_exp_minus_1)
qed

definition filter_event :: "u64 \<Rightarrow> V1AvrcpObservedEvent \<Rightarrow> bool" where
  "filter_event g e \<longleftrightarrow>
     oe_generation e = g \<and>
     oe_kind e \<in> {Kind_VolumeCapability, Kind_AbsoluteVolume, Kind_PassThrough} \<and>
     oe_value e \<le> 0x7F \<and> (oe_flags e = 0x02 \<or> oe_flags e = 0)"

lemma filter_kinds:
  assumes "oe_generation e0 = g" "oe_flags e0 = 0"
  shows "parse_filter_capability e0 line = Some e \<Longrightarrow> filter_event g e"
    and "parse_filter_volume e0 line = Some e \<Longrightarrow> filter_event g e"
    and "parse_filter_pass_through e0 line = Some e \<Longrightarrow> filter_event g e"
  using assms
  by (auto simp: parse_filter_capability_def parse_filter_volume_def
      parse_filter_pass_through_def filter_event_def Let_def not_less
      split: option.splits list.splits if_splits)

lemma filter_line:
  assumes "ParseFilterDecodedLine g line = Some e"
  shows "filter_event g e"
proof -
  let ?e0 = "V1AvrcpObservedEvent_default\<lparr>oe_generation := g\<rparr>"
  have e0: "oe_generation ?e0 = g" "oe_flags ?e0 = 0"
    by (simp_all add: V1AvrcpObservedEvent_default_def)
  have "parse_filter_capability ?e0 line = Some e \<or> parse_filter_volume ?e0 line = Some e \<or>
      parse_filter_pass_through ?e0 line = Some e"
    using assms
    by (auto simp: ParseFilterDecodedLine_def Let_def split: option.splits list.splits if_splits)
  then show ?thesis using filter_kinds [OF e0] by blast
qed

text \<open>What a filter trace can cause.  A parsed line is a capability, an absolute volume or a key
  event of the given generation and nothing else, with a legal absolute volume or operation that
  the executor's seven-bit mask does not change; so a trace can neither start or end a generation
  nor alias an illegal value to a legal one.\<close>

theorem filter_trace_events:
  assumes "ParseFilterDecodedLine g line = Some e"
  shows "oe_generation e = g \<and>
     oe_kind e \<in> {Kind_VolumeCapability, Kind_AbsoluteVolume, Kind_PassThrough} \<and>
     oe_value e \<le> 0x7F \<and> oe_value e AND 0x7F = oe_value e \<and>
     (oe_flags e = 0x02 \<or> oe_flags e = 0)"
  using filter_line [OF assms] and_7F_u32 by (auto simp: filter_event_def)

definition play_line :: string where
  "play_line =
     ''decoded sequence=12 kind=pass-through operation=0x44 released=1 response=0x00''"

definition echo_line :: string where
  "echo_line =
     ''decoded sequence=13 kind=pass-through operation=0x44 released=1 response=0x09''"

theorem filter_trace_events_witness:
  "ParseFilterDecodedLine 1 echo_line = None \<and>
   (\<exists>e. ParseFilterDecodedLine 1 play_line = Some e \<and> oe_value e = 0x44 \<and> oe_generation e = 1)"
proof
  show "ParseFilterDecodedLine 1 echo_line = None" by code_simp
  have "map_option oe_value (ParseFilterDecodedLine 1 play_line) = Some 0x44" by code_simp
  then obtain e where e: "ParseFilterDecodedLine 1 play_line = Some e" "oe_value e = 0x44"
    by (auto simp: map_option_case split: option.splits)
  then show "\<exists>e. ParseFilterDecodedLine 1 play_line = Some e \<and> oe_value e = 0x44 \<and>
      oe_generation e = 1"
    using filter_trace_events [OF e(1)] by blast
qed

end
