(* ===== verification/Trackers.thy ===== *)
theory Trackers
  imports Action_Mapper
begin

text \<open>
  The agent's small observers: the render demand debouncer
  (\<open>agent/v1_render_demand_tracker.cpp\<close>), the gate that delays a transport open until rendering has
  been stable (\<open>agent/v1_transport_open_stability.cpp\<close>), the delayed play fallback
  (\<open>agent/v1_avrcp_bootstrap_play.cpp\<close>), the media control vocabulary
  (\<open>agent/xm5_media_control_event.cpp\<close>) and the ACL event filter (\<open>agent/xm5_acl_event.cpp\<close>).
  Each is a step function on a record; the properties describe what a whole history of
  observations leads to.
\<close>

section \<open>Render demand\<close>

datatype V1RenderDemandTransition = Demand_None | Demand_Started | Demand_Stopped

record V1RenderDemandTracker =
  rt_stable_running :: bool
  rt_candidate_running :: bool
  rt_candidate_samples :: u32

definition ResetV1RenderDemandTracker :: "V1RenderDemandTracker \<Rightarrow> V1RenderDemandTracker" where
  "ResetV1RenderDemandTracker t =
     \<lparr>rt_stable_running = False, rt_candidate_running = False, rt_candidate_samples = 0\<rparr>"

definition ObserveV1RenderDemand ::
  "V1RenderDemandTracker \<Rightarrow> bool \<Rightarrow> V1RenderDemandTracker \<times> V1RenderDemandTransition" where
  "ObserveV1RenderDemand t stream_active =
     (if stream_active = rt_stable_running t
      then (t\<lparr>rt_candidate_running := stream_active, rt_candidate_samples := 0\<rparr>, Demand_None)
      else if rt_candidate_samples t = 0 \<or> rt_candidate_running t \<noteq> stream_active
      then (t\<lparr>rt_candidate_running := stream_active, rt_candidate_samples := 1\<rparr>, Demand_None)
      else
        let t1 = t\<lparr>rt_candidate_samples := rt_candidate_samples t + 1\<rparr>
        in if rt_candidate_samples t1 < 2 then (t1, Demand_None)
           else (t1\<lparr>rt_stable_running := stream_active, rt_candidate_samples := 0\<rparr>,
                 if stream_active then Demand_Started else Demand_Stopped))"

fun demand_run ::
  "V1RenderDemandTracker \<Rightarrow> bool list \<Rightarrow> V1RenderDemandTracker \<times> V1RenderDemandTransition list"
where
  "demand_run t [] = (t, [])"
| "demand_run t (x # xs) =
     (let (t1, d) = ObserveV1RenderDemand t x; (t2, ds) = demand_run t1 xs in (t2, d # ds))"

text \<open>The specification reads the samples backwards: the demand is the value of the latest two equal
  neighbours, and idle before there are any.\<close>

fun settled :: "bool list \<Rightarrow> bool" where
  "settled (x # y # older) = (if x = y then x else settled (y # older))"
| "settled _ = False"

definition tracker_matches :: "V1RenderDemandTracker \<Rightarrow> bool list \<Rightarrow> bool" where
  "tracker_matches t newest_first \<longleftrightarrow>
     rt_stable_running t = settled newest_first \<and>
     (case newest_first of
        [] \<Rightarrow> rt_candidate_samples t = 0
      | x # _ \<Rightarrow> if x = rt_stable_running t then rt_candidate_samples t = 0
          else rt_candidate_samples t = 1 \<and> rt_candidate_running t = x)"

lemma tracker_matches_step:
  "tracker_matches t xs \<Longrightarrow> tracker_matches (fst (ObserveV1RenderDemand t x)) (x # xs)"
  by (cases xs)
    (auto simp: tracker_matches_def ObserveV1RenderDemand_def Let_def split: if_splits)

lemma demand_run_snoc:
  "demand_run t (xs @ [x]) =
     (let (t1, ds) = demand_run t xs; (t2, d) = ObserveV1RenderDemand t1 x in (t2, ds @ [d]))"
  by (induction xs arbitrary: t) (simp_all add: Let_def case_prod_beta)

lemma demand_run_matches:
  "tracker_matches (fst (demand_run (ResetV1RenderDemandTracker t) xs)) (rev xs)"
proof (induction xs rule: rev_induct)
  case Nil
  then show ?case by (simp add: tracker_matches_def ResetV1RenderDemandTracker_def)
next
  case (snoc x xs)
  then show ?case
    using tracker_matches_step by (simp add: demand_run_snoc Let_def case_prod_beta)
qed

text \<open>C34: render demand is debounced.  After any samples the stable value is that of the latest two
  equal neighbouring samples, so a single deviating sample never changes it; and a transition is
  reported by a sample exactly if that sample changes the stable value, in its direction.\<close>

theorem render_demand_debounced:
  "let start = ResetV1RenderDemandTracker t;
       (t1, ds) = demand_run start (xs @ [x])
   in rt_stable_running t1 = settled (x # rev xs) \<and>
      last ds =
        (if settled (x # rev xs) = settled (rev xs) then Demand_None
         else if x then Demand_Started else Demand_Stopped)"
proof -
  let ?t0 = "fst (demand_run (ResetV1RenderDemandTracker t) xs)"
  have before: "tracker_matches ?t0 (rev xs)" by (rule demand_run_matches)
  then have "tracker_matches (fst (ObserveV1RenderDemand ?t0 x)) (x # rev xs)"
    by (rule tracker_matches_step)
  moreover have "snd (ObserveV1RenderDemand ?t0 x) =
      (if settled (x # rev xs) = settled (rev xs) then Demand_None
       else if x then Demand_Started else Demand_Stopped)"
    using before
    by (cases "rev xs")
      (auto simp: tracker_matches_def ObserveV1RenderDemand_def Let_def split: if_splits)
  ultimately show ?thesis
    by (simp add: demand_run_snoc Let_def case_prod_beta tracker_matches_def)
qed

section \<open>Stability before an open\<close>

datatype V1TransportOpenStabilityObservation =
  Stability_None | Stability_Reset | Stability_Ready | Stability_Cancelled

record V1TransportOpenStabilityGate =
  og_required_ms :: u32
  og_acl_generation :: u64
  og_render_epoch :: u64
  og_running_since_ms :: u64
  og_pending :: bool
  og_observing_running :: bool

definition stability_gate :: "u32 \<Rightarrow> V1TransportOpenStabilityGate" where
  "stability_gate required =
     \<lparr>og_required_ms = required, og_acl_generation = 0, og_render_epoch = 0,
      og_running_since_ms = 0, og_pending = False, og_observing_running = False\<rparr>"

definition CancelV1TransportOpenStability ::
  "V1TransportOpenStabilityGate \<Rightarrow> V1TransportOpenStabilityGate" where
  "CancelV1TransportOpenStability g = stability_gate (og_required_ms g)"

definition ArmV1TransportOpenStability ::
  "u32 \<Rightarrow> u64 \<Rightarrow> bool \<Rightarrow> u64 \<Rightarrow> u64 \<Rightarrow> V1TransportOpenStabilityGate" where
  "ArmV1TransportOpenStability required acl_generation render_running render_epoch now =
     (let g = (stability_gate required)\<lparr>og_acl_generation := acl_generation, og_pending := True\<rparr>
      in if render_running
         then g\<lparr>og_render_epoch := render_epoch, og_running_since_ms := now,
                og_observing_running := True\<rparr>
         else g)"

record stability_sample =
  ss_acl_generation :: u64
  ss_render_running :: bool
  ss_render_epoch :: u64
  ss_now_ms :: u64

definition ObserveV1TransportOpenStability ::
  "V1TransportOpenStabilityGate \<Rightarrow> stability_sample \<Rightarrow>
   V1TransportOpenStabilityGate \<times> V1TransportOpenStabilityObservation" where
  "ObserveV1TransportOpenStability g s =
     (if \<not> og_pending g then (g, Stability_None)
      else if ss_acl_generation s \<noteq> og_acl_generation g
      then (CancelV1TransportOpenStability g, Stability_Cancelled)
      else if \<not> ss_render_running s
      then if \<not> og_observing_running g then (g, Stability_None)
           else (g\<lparr>og_observing_running := False, og_render_epoch := 0,
                   og_running_since_ms := 0\<rparr>, Stability_Reset)
      else if \<not> og_observing_running g
      then (g\<lparr>og_observing_running := True, og_render_epoch := ss_render_epoch s,
              og_running_since_ms := ss_now_ms s\<rparr>, Stability_None)
      else if ss_render_epoch s \<noteq> og_render_epoch g \<or> ss_now_ms s < og_running_since_ms g
      then (g\<lparr>og_render_epoch := ss_render_epoch s, og_running_since_ms := ss_now_ms s\<rparr>,
            Stability_Reset)
      else if ss_now_ms s - og_running_since_ms g < ucast (og_required_ms g)
      then (g, Stability_None)
      else (g\<lparr>og_pending := False, og_observing_running := False\<rparr>, Stability_Ready))"

definition stability_run ::
  "V1TransportOpenStabilityGate \<Rightarrow> stability_sample list \<Rightarrow> V1TransportOpenStabilityGate" where
  "stability_run = foldl (\<lambda>g s. fst (ObserveV1TransportOpenStability g s))"

definition running_in :: "u64 \<Rightarrow> u64 \<Rightarrow> u64 \<Rightarrow> stability_sample list \<Rightarrow> bool" where
  "running_in g epoch since ss \<longleftrightarrow>
     (\<forall>s \<in> set ss. ss_acl_generation s = g \<and> ss_render_running s \<and> ss_render_epoch s = epoch \<and>
        since \<le> ss_now_ms s)"

text \<open>Why a gate believes rendering has been running since a time: the sample that started it, or
  the arming itself, followed only by running samples of its epoch.\<close>

definition stability_evidence ::
  "stability_sample \<Rightarrow> V1TransportOpenStabilityGate \<Rightarrow> stability_sample list \<Rightarrow> bool" where
  "stability_evidence armed g ss \<longleftrightarrow>
     (\<exists>earlier first later. armed # ss = earlier @ first # later \<and> ss_render_running first \<and>
        ss_acl_generation first = og_acl_generation g \<and>
        ss_render_epoch first = og_render_epoch g \<and> ss_now_ms first = og_running_since_ms g \<and>
        running_in (og_acl_generation g) (og_render_epoch g) (og_running_since_ms g) later)"

definition arm_with :: "u32 \<Rightarrow> stability_sample \<Rightarrow> V1TransportOpenStabilityGate" where
  "arm_with required s =
     ArmV1TransportOpenStability required (ss_acl_generation s) (ss_render_running s)
       (ss_render_epoch s) (ss_now_ms s)"

lemma stability_evidence_extend:
  assumes "stability_evidence armed g ss" "og_acl_generation h = og_acl_generation g"
    and "og_render_epoch h = og_render_epoch g" "og_running_since_ms h = og_running_since_ms g"
    and "ss_acl_generation s = og_acl_generation g" "ss_render_running s"
    and "ss_render_epoch s = og_render_epoch g" "og_running_since_ms g \<le> ss_now_ms s"
  shows "stability_evidence armed h (ss @ [s])"
proof -
  obtain earlier first later where e: "armed # ss = earlier @ first # later"
    "ss_render_running first" "ss_acl_generation first = og_acl_generation g"
    "ss_render_epoch first = og_render_epoch g" "ss_now_ms first = og_running_since_ms g"
    "running_in (og_acl_generation g) (og_render_epoch g) (og_running_since_ms g) later"
    using assms(1) unfolding stability_evidence_def by blast
  have "armed # ss @ [s] = earlier @ first # (later @ [s])" using e(1) by simp
  moreover have "running_in (og_acl_generation g) (og_render_epoch g) (og_running_since_ms g)
      (later @ [s])"
    using e(6) assms(5-8) by (simp add: running_in_def)
  ultimately show ?thesis
    using e(2-5) assms(2-4) unfolding stability_evidence_def by metis
qed

lemma stability_evidence_start:
  assumes "ss_render_running s" "og_acl_generation h = ss_acl_generation s"
    and "og_render_epoch h = ss_render_epoch s" "og_running_since_ms h = ss_now_ms s"
  shows "stability_evidence armed h (ss @ [s])"
proof -
  have "armed # ss @ [s] = (armed # ss) @ s # []" by simp
  moreover have "running_in a b c []" for a b c by (simp add: running_in_def)
  ultimately show ?thesis
    using assms unfolding stability_evidence_def by (metis (no_types))
qed

lemma stability_run_evidence:
  assumes "g = stability_run (arm_with required armed) ss" "og_pending g"
  shows "og_required_ms g = required \<and> og_acl_generation g = ss_acl_generation armed \<and>
    (og_observing_running g \<longrightarrow> stability_evidence armed g ss)"
  using assms
proof (induction ss arbitrary: g rule: rev_induct)
  case Nil
  have "armed # [] = [] @ armed # []" by simp
  then show ?case using Nil
    by (fastforce simp: stability_run_def arm_with_def ArmV1TransportOpenStability_def
        stability_gate_def stability_evidence_def running_in_def Let_def split: if_splits)
next
  case (snoc s ss)
  define h where "h = stability_run (arm_with required armed) ss"
  have g: "g = fst (ObserveV1TransportOpenStability h s)"
    using snoc.prems(1) by (simp add: h_def stability_run_def)
  have pending: "og_pending h" and same: "ss_acl_generation s = og_acl_generation h"
    using snoc.prems(2) g
    by (auto simp: ObserveV1TransportOpenStability_def CancelV1TransportOpenStability_def
        stability_gate_def split: if_splits)
  note IH = snoc.IH [OF h_def pending]
  have fields: "og_required_ms g = og_required_ms h" "og_acl_generation g = og_acl_generation h"
    using snoc.prems(2) g
    by (auto simp: ObserveV1TransportOpenStability_def CancelV1TransportOpenStability_def
        stability_gate_def split: if_splits)
  have "stability_evidence armed g (ss @ [s])" if obs: "og_observing_running g"
  proof (cases "og_observing_running h \<and> ss_render_epoch s = og_render_epoch h \<and>
      \<not> ss_now_ms s < og_running_since_ms h")
    case True
    then have keep: "og_render_epoch g = og_render_epoch h"
      "og_running_since_ms g = og_running_since_ms h" "ss_render_running s"
      using obs g pending same
      by (auto simp: ObserveV1TransportOpenStability_def split: if_splits)
    show ?thesis
      using IH True keep fields same
      by (intro stability_evidence_extend [of armed h ss]) auto
  next
    case False
    then have "ss_render_running s" "og_render_epoch g = ss_render_epoch s"
      "og_running_since_ms g = ss_now_ms s"
      using obs g pending same
      by (auto simp: ObserveV1TransportOpenStability_def split: if_splits)
    then show ?thesis using fields same by (intro stability_evidence_start) auto
  qed
  then show ?case using IH fields by simp
qed

text \<open>The transport is opened only after stable rendering.  When an armed gate reports \<open>Ready\<close>,
  some sample (possibly the arming) saw rendering run in the generation it was armed for, at least
  the required time lies between that sample and this one, and every sample in between saw
  rendering run in the same epoch: no gap and no restarted stream in the interval.\<close>

theorem open_after_stable_rendering:
  assumes "snd (ObserveV1TransportOpenStability (stability_run (arm_with required armed) ss) s) =
      Stability_Ready"
  shows "\<exists>earlier first later. armed # ss = earlier @ first # later \<and>
    unat (ss_now_ms first) + unat required \<le> unat (ss_now_ms s) \<and>
    running_in (ss_acl_generation armed) (ss_render_epoch first) (ss_now_ms first)
      (first # later @ [s])"
proof -
  define g where "g = stability_run (arm_with required armed) ss"
  have ready: "og_pending g" "ss_acl_generation s = og_acl_generation g" "ss_render_running s"
    "og_observing_running g" "ss_render_epoch s = og_render_epoch g"
    "\<not> ss_now_ms s < og_running_since_ms g"
    "\<not> ss_now_ms s - og_running_since_ms g < ucast (og_required_ms g)"
    using assms unfolding g_def [symmetric]
    by (auto simp: ObserveV1TransportOpenStability_def split: if_splits)
  note run = stability_run_evidence [OF g_def ready(1)]
  then obtain earlier first later where e: "armed # ss = earlier @ first # later"
    "ss_render_running first" "ss_acl_generation first = og_acl_generation g"
    "ss_render_epoch first = og_render_epoch g" "ss_now_ms first = og_running_since_ms g"
    "running_in (og_acl_generation g) (og_render_epoch g) (og_running_since_ms g) later"
    using ready(4) unfolding stability_evidence_def by blast
  have le: "og_running_since_ms g \<le> ss_now_ms s" using ready(6) by simp
  have "unat (ss_now_ms s - og_running_since_ms g) =
      unat (ss_now_ms s) - unat (og_running_since_ms g)"
    using le by (simp add: unat_sub)
  moreover have "unat (ucast required :: u64) = unat required"
    by (simp add: unsigned_ucast_eq take_bit_nat_eq_self order_less_le_trans [OF unsigned_less])
  moreover have "unat (og_running_since_ms g) \<le> unat (ss_now_ms s)"
    using le by (simp add: word_le_nat_alt)
  ultimately have "unat (ss_now_ms first) + unat required \<le> unat (ss_now_ms s)"
    using ready(7) run e(5) by (simp add: word_less_nat_alt)
  moreover have "running_in (ss_acl_generation armed) (ss_render_epoch first) (ss_now_ms first)
      (first # later @ [s])"
    using e run ready le by (simp add: running_in_def)
  ultimately show ?thesis using e(1) by blast
qed

definition render_sample :: "bool \<Rightarrow> u64 \<Rightarrow> u64 \<Rightarrow> stability_sample" where
  "render_sample running epoch now =
     \<lparr>ss_acl_generation = 1, ss_render_running = running, ss_render_epoch = epoch,
      ss_now_ms = now\<rparr>"

theorem open_after_stable_rendering_witness:
  "\<exists>earlier first later.
     render_sample True 4 1000 # [render_sample False 4 1500, render_sample True 5 1600] =
       earlier @ first # later \<and>
     unat (ss_now_ms first) + unat (2000 :: u32) \<le> unat (ss_now_ms (render_sample True 5 3600)) \<and>
     running_in 1 (ss_render_epoch first) (ss_now_ms first)
       (first # later @ [render_sample True 5 3600])"
proof -
  have "snd (ObserveV1TransportOpenStability (stability_run
      (arm_with 2000 (render_sample True 4 1000))
      [render_sample False 4 1500, render_sample True 5 1600]) (render_sample True 5 3600)) =
      Stability_Ready"
    by code_simp
  from open_after_stable_rendering [OF this] show ?thesis by (simp add: render_sample_def)
qed

section \<open>The delayed play fallback\<close>

abbreviation "kV1AvrcpBootstrapPlayDelayMs \<equiv> (200 :: u64)"

datatype V1AvrcpBootstrapPlayDecision =
  Bootstrap_None | Bootstrap_Scheduled | Bootstrap_MicrosoftHandled | Bootstrap_Cancelled
  | Bootstrap_InjectPlay

record V1AvrcpBootstrapPlayState =
  bp_pending :: bool
  bp_acl_generation :: u64
  bp_deadline_ms :: u64
  bp_scheduled_count :: u64
  bp_microsoft_handled_count :: u64
  bp_fallback_injected_count :: u64
  bp_cancelled_count :: u64

definition V1AvrcpBootstrapPlayState_default :: V1AvrcpBootstrapPlayState where
  "V1AvrcpBootstrapPlayState_default =
     \<lparr>bp_pending = False, bp_acl_generation = 0, bp_deadline_ms = 0, bp_scheduled_count = 0,
      bp_microsoft_handled_count = 0, bp_fallback_injected_count = 0, bp_cancelled_count = 0\<rparr>"

definition ResetV1AvrcpBootstrapPlay ::
  "V1AvrcpBootstrapPlayState \<Rightarrow> u64 \<Rightarrow> V1AvrcpBootstrapPlayState" where
  "ResetV1AvrcpBootstrapPlay s acl_generation =
     s\<lparr>bp_pending := False, bp_acl_generation := acl_generation, bp_deadline_ms := 0\<rparr>"

definition ObserveV1AvrcpBootstrapPlayGesture ::
  "V1AvrcpBootstrapPlayState \<Rightarrow> V1MediaSessionSnapshot \<Rightarrow> bool \<Rightarrow> u64 \<Rightarrow>
   V1AvrcpBootstrapPlayState \<times> V1AvrcpBootstrapPlayDecision" where
  "ObserveV1AvrcpBootstrapPlayGesture s media play_like_press now =
     (if \<not> play_like_press \<or> ms_acl_generation media = 0 \<or>
         ms_acl_generation media \<noteq> bp_acl_generation s \<or>
         ms_playback media \<noteq> Playback_Paused \<or> \<not> ms_play_enabled media
      then (s, Bootstrap_None)
      else if bp_pending s then (s, Bootstrap_None)
      else (s\<lparr>bp_pending := True, bp_deadline_ms := now + kV1AvrcpBootstrapPlayDelayMs,
              bp_scheduled_count := bp_scheduled_count s + 1\<rparr>, Bootstrap_Scheduled))"

definition ReconcileV1AvrcpBootstrapPlay ::
  "V1AvrcpBootstrapPlayState \<Rightarrow> V1MediaSessionSnapshot \<Rightarrow> u64 \<Rightarrow>
   V1AvrcpBootstrapPlayState \<times> V1AvrcpBootstrapPlayDecision" where
  "ReconcileV1AvrcpBootstrapPlay s media now =
     (if \<not> bp_pending s then (s, Bootstrap_None)
      else if ms_acl_generation media \<noteq> bp_acl_generation s
      then (s\<lparr>bp_pending := False, bp_deadline_ms := 0,
              bp_cancelled_count := bp_cancelled_count s + 1\<rparr>, Bootstrap_Cancelled)
      else if ms_playback media = Playback_Playing
      then (s\<lparr>bp_pending := False, bp_deadline_ms := 0,
              bp_microsoft_handled_count := bp_microsoft_handled_count s + 1\<rparr>,
            Bootstrap_MicrosoftHandled)
      else if ms_playback media \<noteq> Playback_Paused \<or> \<not> ms_play_enabled media
      then (s\<lparr>bp_pending := False, bp_deadline_ms := 0,
              bp_cancelled_count := bp_cancelled_count s + 1\<rparr>, Bootstrap_Cancelled)
      else if now < bp_deadline_ms s then (s, Bootstrap_None)
      else (s\<lparr>bp_pending := False, bp_deadline_ms := 0,
              bp_fallback_injected_count := bp_fallback_injected_count s + 1\<rparr>,
            Bootstrap_InjectPlay))"

datatype bootstrap_op =
    Gesture V1MediaSessionSnapshot bool u64
  | Reconcile V1MediaSessionSnapshot u64

fun bootstrap_step ::
  "V1AvrcpBootstrapPlayState \<Rightarrow> bootstrap_op \<Rightarrow>
   V1AvrcpBootstrapPlayState \<times> V1AvrcpBootstrapPlayDecision" where
  "bootstrap_step s (Gesture m press now) = ObserveV1AvrcpBootstrapPlayGesture s m press now"
| "bootstrap_step s (Reconcile m now) = ReconcileV1AvrcpBootstrapPlay s m now"

definition bootstrap_run :: "V1AvrcpBootstrapPlayState \<Rightarrow> bootstrap_op list \<Rightarrow> V1AvrcpBootstrapPlayState"
where
  "bootstrap_run = foldl (\<lambda>s op. fst (bootstrap_step s op))"

definition gestures_balanced :: "V1AvrcpBootstrapPlayState \<Rightarrow> bool" where
  "gestures_balanced s \<longleftrightarrow>
     bp_scheduled_count s =
       bp_microsoft_handled_count s + bp_fallback_injected_count s + bp_cancelled_count s +
       (if bp_pending s then 1 else 0)"

definition armed_by_gesture :: "u64 \<Rightarrow> V1AvrcpBootstrapPlayState \<Rightarrow> bootstrap_op list \<Rightarrow> bool" where
  "armed_by_gesture g s ops \<longleftrightarrow>
     (\<exists>m t. Gesture m True t \<in> set ops \<and> ms_acl_generation m = g \<and>
        ms_playback m = Playback_Paused \<and> ms_play_enabled m \<and>
        bp_deadline_ms s = t + kV1AvrcpBootstrapPlayDelayMs)"

lemma bootstrap_step_balanced:
  "gestures_balanced s \<Longrightarrow> gestures_balanced (fst (bootstrap_step s op))"
  by (cases op)
    (auto simp: gestures_balanced_def ObserveV1AvrcpBootstrapPlayGesture_def
      ReconcileV1AvrcpBootstrapPlay_def)

lemma bootstrap_step_generation:
  "bp_acl_generation (fst (bootstrap_step s op)) = bp_acl_generation s"
  by (cases op)
    (simp_all add: ObserveV1AvrcpBootstrapPlayGesture_def ReconcileV1AvrcpBootstrapPlay_def)

lemma bootstrap_step_pending:
  assumes "bp_pending (fst (bootstrap_step s op))"
  shows "(bp_pending s \<and> bp_deadline_ms (fst (bootstrap_step s op)) = bp_deadline_ms s) \<or>
     (\<exists>m t. op = Gesture m True t \<and> ms_acl_generation m = bp_acl_generation s \<and>
        ms_playback m = Playback_Paused \<and> ms_play_enabled m \<and>
        bp_deadline_ms (fst (bootstrap_step s op)) = t + kV1AvrcpBootstrapPlayDelayMs)"
  using assms
  by (cases op)
    (auto simp: ObserveV1AvrcpBootstrapPlayGesture_def ReconcileV1AvrcpBootstrapPlay_def
      split: if_splits)

lemma bootstrap_run_inv:
  assumes "\<not> bp_pending s" "gestures_balanced s"
  shows "gestures_balanced (bootstrap_run s ops) \<and>
     bp_acl_generation (bootstrap_run s ops) = bp_acl_generation s \<and>
     (bp_pending (bootstrap_run s ops) \<longrightarrow>
        armed_by_gesture (bp_acl_generation s) (bootstrap_run s ops) ops)"
proof (induction ops rule: rev_induct)
  case Nil
  then show ?case using assms by (simp add: bootstrap_run_def)
next
  case (snoc op ops)
  let ?t = "bootstrap_run s ops"
  have run: "bootstrap_run s (ops @ [op]) = fst (bootstrap_step ?t op)"
    by (simp add: bootstrap_run_def)
  have "armed_by_gesture (bp_acl_generation s) (fst (bootstrap_step ?t op)) (ops @ [op])"
    if "bp_pending (fst (bootstrap_step ?t op))"
    using bootstrap_step_pending [OF that] snoc
  proof (elim disjE conjE exE)
    assume "bp_pending ?t" "bp_deadline_ms (fst (bootstrap_step ?t op)) = bp_deadline_ms ?t"
    then show ?thesis using snoc unfolding armed_by_gesture_def by auto
  next
    fix m t
    assume "op = Gesture m True t" "ms_acl_generation m = bp_acl_generation ?t"
      "ms_playback m = Playback_Paused" "ms_play_enabled m"
      "bp_deadline_ms (fst (bootstrap_step ?t op)) = t + kV1AvrcpBootstrapPlayDelayMs"
    then show ?thesis using snoc unfolding armed_by_gesture_def by auto
  qed
  then show ?case
    using snoc bootstrap_step_balanced bootstrap_step_generation by (simp add: run)
qed

text \<open>Every accepted gesture has one outcome.  After a reset, over any gestures and
  reconciliations, the scheduled gestures are exactly those the other side handled, those injected,
  those cancelled and the one still pending; and a play key is injected only while the session of
  the same generation is still paused, at least the delay after a play-like press that saw it
  paused (the clock not wrapping).\<close>

theorem bootstrap_play_accounted:
  assumes "s = bootstrap_run (ResetV1AvrcpBootstrapPlay V1AvrcpBootstrapPlayState_default g) ops"
    and "\<forall>m press t. Gesture m press t \<in> set ops \<longrightarrow> unat t + 200 < 2 ^ 64"
  shows "bp_scheduled_count s =
      bp_microsoft_handled_count s + bp_fallback_injected_count s + bp_cancelled_count s +
      (if bp_pending s then 1 else 0) \<and>
    (snd (ReconcileV1AvrcpBootstrapPlay s media now) = Bootstrap_InjectPlay \<longrightarrow>
       ms_acl_generation media = g \<and> ms_playback media = Playback_Paused \<and>
       (\<exists>m t. Gesture m True t \<in> set ops \<and> ms_acl_generation m = g \<and>
          ms_playback m = Playback_Paused \<and> unat t + 200 \<le> unat now))"
proof -
  let ?s0 = "ResetV1AvrcpBootstrapPlay V1AvrcpBootstrapPlayState_default g"
  have "\<not> bp_pending ?s0" "gestures_balanced ?s0" "bp_acl_generation ?s0 = g"
    by (simp_all add: ResetV1AvrcpBootstrapPlay_def gestures_balanced_def
        V1AvrcpBootstrapPlayState_default_def)
  note inv = bootstrap_run_inv [OF this(1,2), of ops, folded assms(1), unfolded this(3)]
  have "ms_acl_generation media = g \<and> ms_playback media = Playback_Paused \<and>
       (\<exists>m t. Gesture m True t \<in> set ops \<and> ms_acl_generation m = g \<and>
          ms_playback m = Playback_Paused \<and> unat t + 200 \<le> unat now)"
    if inject: "snd (ReconcileV1AvrcpBootstrapPlay s media now) = Bootstrap_InjectPlay"
  proof -
    have due: "bp_pending s" "ms_acl_generation media = bp_acl_generation s"
      "ms_playback media = Playback_Paused" "bp_deadline_ms s \<le> now"
      using inject by (auto simp: ReconcileV1AvrcpBootstrapPlay_def split: if_splits)
    then obtain m t where mt: "Gesture m True t \<in> set ops" "ms_acl_generation m = g"
      "ms_playback m = Playback_Paused" "bp_deadline_ms s = t + 200"
      using inv unfolding armed_by_gesture_def by auto
    have "unat (t + 200) = unat t + 200"
      using assms(2) mt(1) unat_add_no_wrap [of t 200] by fastforce
    then have "unat t + 200 \<le> unat now"
      using due(4) mt(4) by (simp add: word_le_nat_alt)
    then show ?thesis using mt due inv by auto
  qed
  then show ?thesis using inv by (simp add: gestures_balanced_def)
qed

theorem bootstrap_play_accounted_witness:
  "let s = bootstrap_run (ResetV1AvrcpBootstrapPlay V1AvrcpBootstrapPlayState_default 3)
         [Gesture (playing_session 3 Playback_Paused) True 1000]
   in snd (ReconcileV1AvrcpBootstrapPlay s (playing_session 3 Playback_Paused) 1200) =
        Bootstrap_InjectPlay \<and>
      bp_scheduled_count s = bp_microsoft_handled_count s + bp_fallback_injected_count s +
        bp_cancelled_count s + 1"
proof -
  let ?ops = "[Gesture (playing_session 3 Playback_Paused) True 1000]"
  let ?s = "bootstrap_run (ResetV1AvrcpBootstrapPlay V1AvrcpBootstrapPlayState_default 3) ?ops"
  have "snd (ReconcileV1AvrcpBootstrapPlay ?s (playing_session 3 Playback_Paused) 1200) =
      Bootstrap_InjectPlay" "bp_pending ?s"
    by code_simp+
  moreover have "\<forall>m press t. Gesture m press t \<in> set ?ops \<longrightarrow> unat t + 200 < 2 ^ 64" by simp
  note conjunct1 [OF bootstrap_play_accounted [OF refl this]]
  ultimately show ?thesis unfolding Let_def by simp
qed

section \<open>The media control vocabulary\<close>

datatype Xm5MediaControl =
    Control_Unknown | Control_VolumeUp | Control_VolumeDown | Control_Mute | Control_PlayPause
  | Control_Play | Control_Pause | Control_Stop | Control_NextTrack | Control_PreviousTrack

definition Xm5MediaControlFromVirtualKey :: "u16 \<Rightarrow> Xm5MediaControl" where
  "Xm5MediaControlFromVirtualKey key =
     (if key = 0xAF then Control_VolumeUp
      else if key = 0xAE then Control_VolumeDown
      else if key = 0xAD then Control_Mute
      else if key = 0xB3 then Control_PlayPause
      else if key = 0xB2 then Control_Stop
      else if key = 0xB0 then Control_NextTrack
      else if key = 0xB1 then Control_PreviousTrack
      else Control_Unknown)"

definition Xm5MediaControlFromAppCommand :: "u16 \<Rightarrow> Xm5MediaControl" where
  "Xm5MediaControlFromAppCommand app_command =
     (if app_command = 10 then Control_VolumeUp
      else if app_command = 9 then Control_VolumeDown
      else if app_command = 8 then Control_Mute
      else if app_command = 14 then Control_PlayPause
      else if app_command = 46 then Control_Play
      else if app_command = 47 then Control_Pause
      else if app_command = 13 then Control_Stop
      else if app_command = 11 then Control_NextTrack
      else if app_command = 12 then Control_PreviousTrack
      else Control_Unknown)"

definition Xm5MediaControlFromConsumerUsage :: "u16 \<Rightarrow> Xm5MediaControl" where
  "Xm5MediaControlFromConsumerUsage usage =
     (if usage = 0x00E9 then Control_VolumeUp
      else if usage = 0x00EA then Control_VolumeDown
      else if usage = 0x00E2 then Control_Mute
      else if usage = 0x00CD then Control_PlayPause
      else if usage = 0x00B7 then Control_Stop
      else if usage = 0x00B5 then Control_NextTrack
      else if usage = 0x00B6 then Control_PreviousTrack
      else Control_Unknown)"

fun Xm5MediaControlVirtualKey :: "Xm5MediaControl \<Rightarrow> u16" where
  "Xm5MediaControlVirtualKey Control_VolumeUp = 0xAF"
| "Xm5MediaControlVirtualKey Control_VolumeDown = 0xAE"
| "Xm5MediaControlVirtualKey Control_Mute = 0xAD"
| "Xm5MediaControlVirtualKey Control_PlayPause = 0xB3"
| "Xm5MediaControlVirtualKey Control_Stop = 0xB2"
| "Xm5MediaControlVirtualKey Control_NextTrack = 0xB0"
| "Xm5MediaControlVirtualKey Control_PreviousTrack = 0xB1"
| "Xm5MediaControlVirtualKey _ = 0"

fun Xm5MediaControlName :: "Xm5MediaControl \<Rightarrow> string" where
  "Xm5MediaControlName Control_VolumeUp = ''volume-up''"
| "Xm5MediaControlName Control_VolumeDown = ''volume-down''"
| "Xm5MediaControlName Control_Mute = ''mute''"
| "Xm5MediaControlName Control_PlayPause = ''play-pause''"
| "Xm5MediaControlName Control_Play = ''play''"
| "Xm5MediaControlName Control_Pause = ''pause''"
| "Xm5MediaControlName Control_Stop = ''stop''"
| "Xm5MediaControlName Control_NextTrack = ''next-track''"
| "Xm5MediaControlName Control_PreviousTrack = ''previous-track''"
| "Xm5MediaControlName Control_Unknown = ''unknown''"

text \<open>The key mapping and its inverse.  Translating a control to its virtual key and back gives
  the same control for every control but \<open>Play\<close> and \<open>Pause\<close>, which have no key of their own and
  come back unknown; every key that is understood comes back from its control; and the names of
  different controls differ.\<close>

theorem media_control_keys:
  "Xm5MediaControlFromVirtualKey (Xm5MediaControlVirtualKey c) =
     (if c = Control_Play \<or> c = Control_Pause then Control_Unknown else c) \<and>
   Xm5MediaControlVirtualKey (Xm5MediaControlFromVirtualKey key) =
     (if Xm5MediaControlFromVirtualKey key = Control_Unknown then 0 else key) \<and>
   (Xm5MediaControlName c = Xm5MediaControlName c' \<longleftrightarrow> c = c')"
proof (intro conjI)
  show "Xm5MediaControlFromVirtualKey (Xm5MediaControlVirtualKey c) =
     (if c = Control_Play \<or> c = Control_Pause then Control_Unknown else c)"
    by (cases c) (simp_all add: Xm5MediaControlFromVirtualKey_def)
  show "Xm5MediaControlVirtualKey (Xm5MediaControlFromVirtualKey key) =
     (if Xm5MediaControlFromVirtualKey key = Control_Unknown then 0 else key)"
    by (simp add: Xm5MediaControlFromVirtualKey_def)
  show "Xm5MediaControlName c = Xm5MediaControlName c' \<longleftrightarrow> c = c'"
    by (cases c; cases c') simp_all
qed

section \<open>ACL events\<close>

datatype Xm5AclEvent = Acl_None | Acl_Connected | Acl_Disconnected

text \<open>The notification as the parser reads it: the broadcast header, of which the event identifier
  is only compared with the Bluetooth HCI event, and the event copied out of its data.  The
  Windows constants and the structure's minimal size are parameters.\<close>

record BTH_HCI_EVENT_INFO =
  hci_bthAddress :: u64
  hci_connectionType :: u8
  hci_connected :: u8

record 'guid DEV_BROADCAST_HANDLE =
  dbch_devicetype :: u32
  dbch_size :: u32
  dbch_eventguid :: 'guid
  dbch_data :: BTH_HCI_EVENT_INFO

record 'guid windows_constants =
  win_DBT_CUSTOMEVENT :: u64
  win_DBT_DEVTYP_HANDLE :: u32
  win_GUID_BLUETOOTH_HCI_EVENT :: 'guid
  win_HCI_CONNECTION_TYPE_ACL :: u8
  win_required_size :: u32

definition ParseXm5AclDeviceChange ::
  "'guid windows_constants \<Rightarrow> u64 \<Rightarrow> u64 \<Rightarrow> 'guid DEV_BROADCAST_HANDLE option \<Rightarrow> Xm5AclEvent" where
  "ParseXm5AclDeviceChange win target_address event_type event_data =
     (case event_data of
        None \<Rightarrow> Acl_None
      | Some broadcast \<Rightarrow>
          if target_address = 0 \<or> event_type \<noteq> win_DBT_CUSTOMEVENT win then Acl_None
          else if dbch_devicetype broadcast \<noteq> win_DBT_DEVTYP_HANDLE win \<or>
                  dbch_size broadcast < win_required_size win \<or>
                  dbch_eventguid broadcast \<noteq> win_GUID_BLUETOOTH_HCI_EVENT win
          then Acl_None
          else
            let event_info = dbch_data broadcast
            in if hci_bthAddress event_info \<noteq> target_address \<or>
                  hci_connectionType event_info \<noteq> win_HCI_CONNECTION_TYPE_ACL win
               then Acl_None
               else if hci_connected event_info \<noteq> 0 then Acl_Connected else Acl_Disconnected)"

end
