(* ===== verification/Handoff.thy ===== *)
theory Handoff
  imports Prelude
begin

text \<open>
  The hand-over of the AVRCP driver between Microsoft's and the observer:
  \<open>agent/v1_avrcp_handoff_state.cpp\<close>, the state machine that budgets the device restarts of a media
  session, and \<open>HandoffSessionRunner::RunHandoff\<close> of \<open>agent/v1_avrcp_handoff_host.cpp\<close>, the loop
  that drives it.  The device operations of the runner (staging a driver package, waiting for a
  binding, restarting the device, restoring Microsoft's driver, signalling the daily host) are
  parameters: functions over an environment that succeed or fail.
\<close>

section \<open>The state machine\<close>

datatype V1AvrcpHandoffPhase =
  Handoff_MicrosoftHeld | Handoff_HandoffPending | Handoff_ObserverActive | Handoff_RestorePending

record V1AvrcpHandoffInput =
  hin_media_streaming :: bool
  hin_handoff_restart_done :: bool
  hin_handoff_restart_failed :: bool
  hin_observer_open_accepted :: bool
  hin_observer_open_failed :: bool
  hin_restore_restart_done :: bool
  hin_restore_restart_failed :: bool

record V1AvrcpHandoffTransition =
  ht_next :: V1AvrcpHandoffPhase
  ht_request_stage_observer :: bool
  ht_request_handoff_restart :: bool
  ht_notify_daily_active :: bool
  ht_request_restore_restart :: bool
  ht_mark_degraded :: bool
  ht_changed :: bool

record V1AvrcpHandoffState =
  ho_phase :: V1AvrcpHandoffPhase
  ho_degraded :: bool
  ho_handoff_restart_used :: bool
  ho_restore_restart_used :: bool

definition V1AvrcpHandoffState_default :: V1AvrcpHandoffState where
  "V1AvrcpHandoffState_default =
     \<lparr>ho_phase = Handoff_MicrosoftHeld, ho_degraded = False, ho_handoff_restart_used = False,
      ho_restore_restart_used = False\<rparr>"

definition unchanged_transition :: "V1AvrcpHandoffPhase \<Rightarrow> V1AvrcpHandoffTransition" where
  "unchanged_transition phase =
     \<lparr>ht_next = phase, ht_request_stage_observer = False, ht_request_handoff_restart = False,
      ht_notify_daily_active = False, ht_request_restore_restart = False,
      ht_mark_degraded = False, ht_changed = False\<rparr>"

definition move :: "V1AvrcpHandoffPhase \<Rightarrow> V1AvrcpHandoffTransition" where
  "move phase = (unchanged_transition phase)\<lparr>ht_changed := True\<rparr>"

definition HandoffStep ::
  "V1AvrcpHandoffState \<Rightarrow> V1AvrcpHandoffInput \<Rightarrow> V1AvrcpHandoffState \<times> V1AvrcpHandoffTransition"
where
  "HandoffStep s i =
     (case ho_phase s of
        Handoff_MicrosoftHeld \<Rightarrow>
          if hin_media_streaming i
          then (s\<lparr>ho_phase := Handoff_HandoffPending\<rparr>,
                (move Handoff_HandoffPending)\<lparr>ht_request_stage_observer := True\<rparr>)
          else (s, unchanged_transition (ho_phase s))
      | Handoff_HandoffPending \<Rightarrow>
          if \<not> ho_handoff_restart_used s \<and> hin_handoff_restart_done i
          then (s\<lparr>ho_handoff_restart_used := True, ho_phase := Handoff_ObserverActive\<rparr>,
                (move Handoff_ObserverActive)\<lparr>ht_notify_daily_active := True\<rparr>)
          else if \<not> ho_handoff_restart_used s \<and> hin_handoff_restart_failed i
          then (s\<lparr>ho_handoff_restart_used := True, ho_phase := Handoff_RestorePending\<rparr>,
                (move Handoff_RestorePending)\<lparr>ht_request_restore_restart := True\<rparr>)
          else (s, unchanged_transition (ho_phase s))
      | Handoff_ObserverActive \<Rightarrow>
          if \<not> hin_media_streaming i \<or> hin_observer_open_failed i
          then (s\<lparr>ho_phase := Handoff_RestorePending\<rparr>,
                (move Handoff_RestorePending)\<lparr>ht_request_restore_restart := True\<rparr>)
          else (s, unchanged_transition (ho_phase s))
      | Handoff_RestorePending \<Rightarrow>
          if \<not> ho_restore_restart_used s \<and> hin_restore_restart_done i
          then (s\<lparr>ho_restore_restart_used := True, ho_phase := Handoff_MicrosoftHeld\<rparr>,
                move Handoff_MicrosoftHeld)
          else if \<not> ho_restore_restart_used s \<and> hin_restore_restart_failed i
          then (s\<lparr>ho_restore_restart_used := True, ho_degraded := True,
                  ho_phase := Handoff_MicrosoftHeld\<rparr>,
                (move Handoff_MicrosoftHeld)\<lparr>ht_mark_degraded := True\<rparr>)
          else (s, unchanged_transition (ho_phase s)))"

fun handoff_run ::
  "V1AvrcpHandoffState \<Rightarrow> V1AvrcpHandoffInput list \<Rightarrow>
   V1AvrcpHandoffState \<times> V1AvrcpHandoffTransition list" where
  "handoff_run s [] = (s, [])"
| "handoff_run s (i # is) =
     (let (s1, t) = HandoffStep s i; (s2, ts) = handoff_run s1 is in (s2, t # ts))"

section \<open>Budgets\<close>

text \<open>How far the machine can still move: every change spends part of it.\<close>

definition handoff_rank :: "V1AvrcpHandoffState \<Rightarrow> nat" where
  "handoff_rank s =
     (if ho_handoff_restart_used s then 0 else 4) + (if ho_restore_restart_used s then 0 else 4) +
     (case ho_phase s of
        Handoff_HandoffPending \<Rightarrow> 0 | Handoff_MicrosoftHeld \<Rightarrow> 1
      | Handoff_RestorePending \<Rightarrow> 2 | Handoff_ObserverActive \<Rightarrow> 3)"

lemma handoff_step_rank:
  "ht_changed (snd (HandoffStep s i)) \<Longrightarrow> handoff_rank (fst (HandoffStep s i)) < handoff_rank s"
proof -
  have "ht_changed (snd (HandoffStep s i)) \<longrightarrow>
      handoff_rank (fst (HandoffStep s i)) < handoff_rank s"
    by (cases "ho_phase s")
      (simp_all add: HandoffStep_def handoff_rank_def move_def unchanged_transition_def
        split: if_split)
  then show "ht_changed (snd (HandoffStep s i)) \<Longrightarrow>
      handoff_rank (fst (HandoffStep s i)) < handoff_rank s" by blast
qed

definition restores_left :: "V1AvrcpHandoffState \<Rightarrow> nat" where
  "restores_left s =
     (if \<not> ho_handoff_restart_used s \<or> ho_phase s = Handoff_ObserverActive then 1 else 0)"

definition stages_left :: "V1AvrcpHandoffState \<Rightarrow> nat" where
  "stages_left s =
     (if ho_phase s = Handoff_MicrosoftHeld then 1 else 0) +
     (if ho_restore_restart_used s then 0 else 1)"

definition handoff_sane :: "V1AvrcpHandoffState \<Rightarrow> bool" where
  "handoff_sane s \<longleftrightarrow>
     (ho_phase s = Handoff_ObserverActive \<or> ho_phase s = Handoff_RestorePending \<longrightarrow>
        ho_handoff_restart_used s) \<and>
     (ho_degraded s \<longrightarrow> ho_restore_restart_used s)"

lemma handoff_step_sane: "handoff_sane s \<Longrightarrow> handoff_sane (fst (HandoffStep s i))"
  by (auto simp: HandoffStep_def handoff_sane_def split: V1AvrcpHandoffPhase.splits if_splits)

definition occurrences :: "('a \<Rightarrow> bool) \<Rightarrow> 'a list \<Rightarrow> nat" where
  "occurrences P xs = length (filter P xs)"

lemma occurrences_simps [simp]:
  "occurrences P [] = 0" "occurrences P (x # xs) = (if P x then 1 else 0) + occurrences P xs"
  by (simp_all add: occurrences_def)

lemma handoff_step_budget:
  assumes "handoff_sane s"
  shows "(if ht_request_restore_restart (snd (HandoffStep s i)) then 1 else 0) +
      restores_left (fst (HandoffStep s i)) \<le> restores_left s"
    and "(if ht_request_stage_observer (snd (HandoffStep s i)) then 1 else 0) +
      stages_left (fst (HandoffStep s i)) \<le> stages_left s"
    and "(if ht_changed (snd (HandoffStep s i)) then 1 else 0) +
      handoff_rank (fst (HandoffStep s i)) \<le> handoff_rank s"
  using assms
  by (cases "ho_phase s";
      simp add: HandoffStep_def handoff_sane_def restores_left_def stages_left_def
        handoff_rank_def move_def unchanged_transition_def split: if_split)+

lemma handoff_run_budget:
  assumes "handoff_sane s"
  shows "occurrences ht_request_restore_restart (snd (handoff_run s is)) +
      restores_left (fst (handoff_run s is)) \<le> restores_left s \<and>
    occurrences ht_request_stage_observer (snd (handoff_run s is)) +
      stages_left (fst (handoff_run s is)) \<le> stages_left s \<and>
    occurrences ht_changed (snd (handoff_run s is)) + handoff_rank (fst (handoff_run s is))
      \<le> handoff_rank s"
  using assms
proof (induction "is" arbitrary: s)
  case Nil
  then show ?case by simp
next
  case (Cons i "is")
  show ?case
    using Cons.IH [OF handoff_step_sane [OF Cons.prems, of i]]
      handoff_step_budget [OF Cons.prems, of i]
    by (simp add: Let_def case_prod_beta)
qed

lemma handoff_pending_stays:
  assumes "ho_phase s = Handoff_HandoffPending" "ho_handoff_restart_used s"
  shows "fst (handoff_run s is) = s \<and> occurrences ht_changed (snd (handoff_run s is)) = 0"
proof -
  have "HandoffStep s i = (s, unchanged_transition Handoff_HandoffPending)" for i
    using assms by (simp add: HandoffStep_def)
  then show ?thesis
    by (induction "is") (simp_all add: unchanged_transition_def Let_def case_prod_beta)
qed

text \<open>The restart budget of a session.  Over any inputs, a session asks for at most one restore
  and for at most two stagings of the observer, changes at most nine times, and is degraded only
  after its restore was used; but the second staging is a dead end: from \<open>HandoffPending\<close> with the
  hand-over restart already used, no input whatsoever moves the machine again.\<close>

theorem handoff_budget:
  assumes "(s, ts) = handoff_run V1AvrcpHandoffState_default is"
  shows "occurrences ht_request_restore_restart ts \<le> 1 \<and> occurrences ht_request_stage_observer ts \<le> 2 \<and>
    occurrences ht_changed ts \<le> 9 \<and> (ho_degraded s \<longrightarrow> ho_restore_restart_used s) \<and>
    (ho_phase s = Handoff_HandoffPending \<and> ho_handoff_restart_used s \<longrightarrow>
       fst (handoff_run s later) = s \<and> occurrences ht_changed (snd (handoff_run s later)) = 0)"
proof -
  let ?s0 = V1AvrcpHandoffState_default
  have sane: "handoff_sane ?s0" by (simp add: handoff_sane_def V1AvrcpHandoffState_default_def)
  have run: "s = fst (handoff_run ?s0 is)" "ts = snd (handoff_run ?s0 is)"
    using assms by (metis fst_conv, metis snd_conv)
  have "handoff_sane (fst (handoff_run t is))" if "handoff_sane t" for t
    using that
    by (induction "is" arbitrary: t) (simp_all add: handoff_step_sane Let_def case_prod_beta)
  then have "handoff_sane s" using sane run by simp
  moreover have "restores_left ?s0 = 1" "stages_left ?s0 = 2" "handoff_rank ?s0 = 9"
    by (simp_all add: restores_left_def stages_left_def handoff_rank_def
        V1AvrcpHandoffState_default_def)
  ultimately show ?thesis
    using handoff_run_budget [OF sane, of "is"] handoff_pending_stays [of s later] run
    by (auto simp: handoff_sane_def)
qed

theorem handoff_budget_witness:
  "let i = \<lparr>hin_media_streaming = True, hin_handoff_restart_done = False,
         hin_handoff_restart_failed = True, hin_observer_open_accepted = False,
         hin_observer_open_failed = False, hin_restore_restart_done = True,
         hin_restore_restart_failed = False\<rparr>;
       (s, ts) = handoff_run V1AvrcpHandoffState_default [i, i, i, i, i]
   in occurrences ht_request_stage_observer ts = 2 \<and> occurrences ht_request_restore_restart ts \<le> 1 \<and>
      ho_phase s = Handoff_HandoffPending \<and> ho_handoff_restart_used s"
proof -
  define i where "i = \<lparr>hin_media_streaming = True, hin_handoff_restart_done = False,
         hin_handoff_restart_failed = True, hin_observer_open_accepted = False,
         hin_observer_open_failed = False, hin_restore_restart_done = True,
         hin_restore_restart_failed = False\<rparr>"
  let ?r = "handoff_run V1AvrcpHandoffState_default [i, i, i, i, i]"
  have "occurrences ht_request_stage_observer (snd ?r) = 2"
    "ho_phase (fst ?r) = Handoff_HandoffPending" "ho_handoff_restart_used (fst ?r)"
    unfolding i_def by code_simp+
  then show ?thesis
    using handoff_budget [of "fst ?r" "snd ?r" "[i, i, i, i, i]"]
    by (simp add: Let_def case_prod_beta flip: i_def)
qed

section \<open>The session runner\<close>

record 'w handoff_environment =
  env_StageObserver :: "'w \<Rightarrow> bool \<times> 'w"
  env_WaitForBinding :: "'w \<Rightarrow> bool \<times> 'w"
  env_RestartDevice :: "'w \<Rightarrow> bool \<times> 'w"
  env_RestoreMicrosoft :: "'w \<Rightarrow> bool \<times> 'w"
  env_ClearResidentInf :: "'w \<Rightarrow> 'w"
  env_SignalHandoffCompleted :: "'w \<Rightarrow> bool \<times> 'w"
  env_SignalRestoreCompleted :: "bool \<Rightarrow> 'w \<Rightarrow> bool \<times> 'w"

text \<open>Staging the observer: the package, its binding, and one restart if it does not bind.\<close>

definition stage_and_bind :: "'w handoff_environment \<Rightarrow> 'w \<Rightarrow> bool \<times> 'w" where
  "stage_and_bind env w =
     (let (staged, w1) = env_StageObserver env w
      in if \<not> staged then (False, w1)
         else
           let (bound, w2) = env_WaitForBinding env w1
           in if bound then (True, w2)
              else
                let (restarted, w3) = env_RestartDevice env w2
                in if \<not> restarted then (False, w3) else env_WaitForBinding env w3)"

text \<open>The body of one iteration after a changed step: \<open>None\<close> goes round the loop, \<open>Some b\<close> returns.\<close>

definition handle_transition ::
  "'w handoff_environment \<Rightarrow> V1AvrcpHandoffTransition \<Rightarrow> V1AvrcpHandoffInput \<times> 'w \<Rightarrow>
   bool option \<times> V1AvrcpHandoffInput \<times> 'w" where
  "handle_transition env t iw =
     (let (i, w) = iw;
          (ok1, i1, w1) =
            (if ht_request_stage_observer t
             then let (staged, w1) = stage_and_bind env w
                  in if staged then (True, i\<lparr>hin_handoff_restart_done := True\<rparr>, w1)
                     else (False, i\<lparr>hin_handoff_restart_failed := True\<rparr>, w1)
             else (True, i, w))
      in if \<not> ok1 then (None, i1, w1)
         else
           let (ok2, i2, w2) =
                 (if ht_request_restore_restart t
                  then let (restored, w2) = env_RestoreMicrosoft env w1
                       in if restored
                          then (True, i1\<lparr>hin_restore_restart_done := True\<rparr>,
                                env_ClearResidentInf env w2)
                          else (False, i1\<lparr>hin_restore_restart_failed := True\<rparr>, w2)
                  else (True, i1, w1))
           in if \<not> ok2 then (None, i2, w2)
              else if ht_notify_daily_active t
              then let (signalled, w3) = env_SignalHandoffCompleted env w2
                   in if signalled then (None, i2, w3)
                      else
                        let (restored, w4) = env_RestoreMicrosoft env w3
                        in if \<not> restored then (Some False, i2, w4)
                           else (Some False, i2, env_ClearResidentInf env w4)
              else (None, i2, w2))"

function handoff_loop ::
  "'w handoff_environment \<Rightarrow> V1AvrcpHandoffState \<Rightarrow> V1AvrcpHandoffInput \<Rightarrow> 'w \<Rightarrow>
   bool option \<times> V1AvrcpHandoffState \<times> 'w" where
  "handoff_loop env s i w =
     (let t = snd (HandoffStep s i)
      in if \<not> ht_changed t then (None, fst (HandoffStep s i), w)
         else (case handle_transition env t (i, w) of
             (Some b, i1, w1) \<Rightarrow> (Some b, fst (HandoffStep s i), w1)
           | (None, i1, w1) \<Rightarrow> handoff_loop env (fst (HandoffStep s i)) i1 w1))"
  by pat_completeness auto
termination
  by (relation "measure (\<lambda>(env, s, i, w). handoff_rank s)") (auto simp: handoff_step_rank)

declare handoff_loop.simps [simp del]

definition RunHandoff ::
  "'w handoff_environment \<Rightarrow> 'w \<Rightarrow> bool \<times> V1AvrcpHandoffState \<times> 'w" where
  "RunHandoff env w =
     (let input = \<lparr>hin_media_streaming = True, hin_handoff_restart_done = False,
            hin_handoff_restart_failed = False, hin_observer_open_accepted = False,
            hin_observer_open_failed = False, hin_restore_restart_done = False,
            hin_restore_restart_failed = False\<rparr>;
          (returned, s, w1) = handoff_loop env V1AvrcpHandoffState_default input w
      in case returned of
           Some b \<Rightarrow> (b, s, w1)
         | None \<Rightarrow>
             if ho_phase s = Handoff_MicrosoftHeld \<and> ho_restore_restart_used s
             then let (signalled, w2) = env_SignalRestoreCompleted env (ho_degraded s) w1
                  in if \<not> signalled then (False, s, w2) else (True, s, w2)
             else (True, s, w1))"

text \<open>The runner's loop in closed form.\<close>

definition session_state :: "V1AvrcpHandoffPhase \<Rightarrow> bool \<Rightarrow> bool \<Rightarrow> V1AvrcpHandoffState" where
  "session_state phase degraded restored =
     \<lparr>ho_phase = phase, ho_degraded = degraded, ho_handoff_restart_used = True,
      ho_restore_restart_used = restored\<rparr>"

definition restore_effect :: "'w handoff_environment \<Rightarrow> 'w \<Rightarrow> bool \<times> 'w" where
  "restore_effect env w =
     (let (restored, w1) = env_RestoreMicrosoft env w
      in (restored, if restored then env_ClearResidentInf env w1 else w1))"

lemmas handoff_step_simps =
  HandoffStep_def move_def unchanged_transition_def handle_transition_def
  V1AvrcpHandoffState_default_def session_state_def

lemma run_handoff_staged:
  assumes "stage_and_bind env w = (True, w1)"
  shows "RunHandoff env w =
     (let (signalled, w2) = env_SignalHandoffCompleted env w1
      in if signalled then (True, session_state Handoff_ObserverActive False False, w2)
         else (False, session_state Handoff_ObserverActive False False,
               snd (restore_effect env w2)))"
proof -
  obtain signalled w2 where signal: "env_SignalHandoffCompleted env w1 = (signalled, w2)"
    by (rule prod.exhaust)
  obtain restored w3 where restore: "env_RestoreMicrosoft env w2 = (restored, w3)"
    by (rule prod.exhaust)
  show ?thesis
    unfolding RunHandoff_def Let_def
    by (cases signalled; cases restored)
      (simp_all add: handoff_loop.simps handoff_step_simps assms signal restore
        restore_effect_def Let_def)
qed

lemma run_handoff_not_staged:
  assumes "stage_and_bind env w = (False, w1)"
  shows "RunHandoff env w =
     (let (restored, w2) = restore_effect env w1
      in (True, session_state Handoff_HandoffPending (\<not> restored) True,
          snd (stage_and_bind env w2)))"
proof -
  obtain restored w2 where restore: "env_RestoreMicrosoft env w1 = (restored, w2)"
    by (rule prod.exhaust)
  define w3 where "w3 = (if restored then env_ClearResidentInf env w2 else w2)"
  obtain staged w4 where stage: "stage_and_bind env w3 = (staged, w4)" by (rule prod.exhaust)
  show ?thesis
    using stage unfolding RunHandoff_def Let_def w3_def
    by (cases restored; cases staged)
      (simp_all add: handoff_loop.simps handoff_step_simps assms restore restore_effect_def
        Let_def)
qed

text \<open>C40: every way a hand-over session can go.  For every environment the runner terminates, and its
  effects are exactly these.  If the observer is staged and bound, the daily host is told; the
  session then stays with the observer, or, if the signal fails, Microsoft's driver is restored and
  the session fails.  If staging fails, Microsoft's driver is restored, and then the observer is
  staged a second time; the session reports success in \<open>HandoffPending\<close>, whatever that second
  staging did, without restoring again and without ever signalling the restore.\<close>

theorem handoff_session_outcomes:
  "RunHandoff env w =
     (let (staged, w1) = stage_and_bind env w
      in if staged
         then let (signalled, w2) = env_SignalHandoffCompleted env w1
              in if signalled then (True, session_state Handoff_ObserverActive False False, w2)
                 else (False, session_state Handoff_ObserverActive False False,
                       snd (restore_effect env w2))
         else let (restored, w2) = restore_effect env w1
              in (True, session_state Handoff_HandoffPending (\<not> restored) True,
                  snd (stage_and_bind env w2)))"
  using run_handoff_staged [of env w] run_handoff_not_staged [of env w]
  by (cases "stage_and_bind env w") (auto simp: Let_def)

end
