(* ===== verification/Ldac_Codec.thy ===== *)
theory Ldac_Codec
  imports Prelude
begin

text \<open>
  The LDAC codec element of AVDTP and the media packet: \<open>protocol/src/ldac_codec.c\<close> (building and
  parsing the vendor codec information, searching it among service capabilities, choosing a
  configuration) and \<open>protocol/src/rtp_ldac.c\<close>.

  A byte pointer with its size is a list of bytes.  An out parameter is an argument with its value
  before the call and a result with its value after it, since the parsers write it before they
  know whether they succeed.
\<close>

section \<open>Data\<close>

abbreviation (input) "LDAC_VENDOR_ID \<equiv> (0x0000012D :: u32)"
abbreviation (input) "LDAC_CODEC_ID \<equiv> (0x00AA :: u16)"
abbreviation (input) "LDAC_SF_44100 \<equiv> (0x20 :: u8)"
abbreviation (input) "LDAC_SF_48000 \<equiv> (0x10 :: u8)"
abbreviation (input) "LDAC_SF_88200 \<equiv> (0x08 :: u8)"
abbreviation (input) "LDAC_SF_96000 \<equiv> (0x04 :: u8)"
abbreviation (input) "LDAC_SF_ALL \<equiv> (0x3C :: u8)"
abbreviation (input) "LDAC_CM_STEREO \<equiv> (0x01 :: u8)"
abbreviation (input) "LDAC_CM_DUAL \<equiv> (0x02 :: u8)"
abbreviation (input) "LDAC_CM_MONO \<equiv> (0x04 :: u8)"
abbreviation (input) "LDAC_CM_ALL \<equiv> (0x07 :: u8)"
abbreviation (input) "AVDTP_SERVICE_MEDIA_TRANSPORT \<equiv> (0x01 :: u8)"
abbreviation (input) "AVDTP_SERVICE_MEDIA_CODEC \<equiv> (0x07 :: u8)"
abbreviation (input) "AVDTP_MEDIA_TYPE_AUDIO \<equiv> (0x00 :: u8)"
abbreviation (input) "AVDTP_CODEC_VENDOR \<equiv> (0xFF :: u8)"

record ldac_capabilities =
  lc_sample_rates :: u8
  lc_channel_modes :: u8

record ldac_configuration =
  lf_sample_rate :: u8
  lf_channel_mode :: u8

definition ldac_capabilities_zero :: ldac_capabilities where
  "ldac_capabilities_zero = \<lparr>lc_sample_rates = 0, lc_channel_modes = 0\<rparr>"

definition ldac_configuration_zero :: ldac_configuration where
  "ldac_configuration_zero = \<lparr>lf_sample_rate = 0, lf_channel_mode = 0\<rparr>"

datatype ldac_codec_status =
  LDAC_CODEC_OK | LDAC_CODEC_INVALID_ARGUMENT | LDAC_CODEC_TRUNCATED | LDAC_CODEC_NOT_FOUND
| LDAC_CODEC_UNSUPPORTED | LDAC_CODEC_NO_SPACE

section \<open>Operations\<close>

definition choose_sample_rate :: "u8 \<Rightarrow> u32 \<Rightarrow> u8" where
  "choose_sample_rate rates preferred_hz =
     (let preferred =
        (if preferred_hz = 44100 then LDAC_SF_44100
         else if preferred_hz = 48000 then LDAC_SF_48000
         else if preferred_hz = 88200 then LDAC_SF_88200
         else if preferred_hz = 96000 then LDAC_SF_96000
         else 0)
      in if preferred \<noteq> 0 \<and> rates AND preferred \<noteq> 0 then preferred
         else if rates AND LDAC_SF_96000 \<noteq> 0 then LDAC_SF_96000
         else if rates AND LDAC_SF_88200 \<noteq> 0 then LDAC_SF_88200
         else if rates AND LDAC_SF_48000 \<noteq> 0 then LDAC_SF_48000
         else if rates AND LDAC_SF_44100 \<noteq> 0 then LDAC_SF_44100
         else 0)"

definition choose_channel_mode :: "u8 \<Rightarrow> u8" where
  "choose_channel_mode modes =
     (if modes AND LDAC_CM_STEREO \<noteq> 0 then LDAC_CM_STEREO
      else if modes AND LDAC_CM_DUAL \<noteq> 0 then LDAC_CM_DUAL
      else if modes AND LDAC_CM_MONO \<noteq> 0 then LDAC_CM_MONO
      else 0)"

definition ldac_build_codec_info :: "u8 \<Rightarrow> u8 \<Rightarrow> bytes" where
  "ldac_build_codec_info sample_rates channel_modes =
     [0x2D, 0x01, 0x00, 0x00, 0xAA, 0x00, sample_rates, channel_modes]"

definition ldac_parse_codec_info ::
  "bytes \<Rightarrow> ldac_capabilities \<Rightarrow> ldac_codec_status \<times> ldac_capabilities" where
  "ldac_parse_codec_info info out =
     (if length info < 8 then (LDAC_CODEC_TRUNCATED, out)
      else
        let vendor_id = (ucast (info ! 0) :: u32) OR push_bit 8 (ucast (info ! 1)) OR
              push_bit 16 (ucast (info ! 2)) OR push_bit 24 (ucast (info ! 3));
            codec_id = (ucast (info ! 4) :: u16) OR push_bit 8 (ucast (info ! 5))
        in if vendor_id \<noteq> LDAC_VENDOR_ID \<or> codec_id \<noteq> LDAC_CODEC_ID
           then (LDAC_CODEC_NOT_FOUND, out)
           else
             let out1 = \<lparr>lc_sample_rates = info ! 6 AND LDAC_SF_ALL,
                         lc_channel_modes = info ! 7 AND LDAC_CM_ALL\<rparr>
             in if lc_sample_rates out1 = 0 \<or> lc_channel_modes out1 = 0
                then (LDAC_CODEC_UNSUPPORTED, out1)
                else (LDAC_CODEC_OK, out1))"

text \<open>
  The loop over the offset is a recursion on the bytes that are left.
\<close>

fun ldac_find_in_service_capabilities ::
  "bytes \<Rightarrow> ldac_capabilities \<Rightarrow> ldac_codec_status \<times> ldac_capabilities" where
  "ldac_find_in_service_capabilities [] out = (LDAC_CODEC_NOT_FOUND, out)"
| "ldac_find_in_service_capabilities [category] out = (LDAC_CODEC_TRUNCATED, out)"
| "ldac_find_in_service_capabilities (category # item_size # rest) out =
     (let n = unat item_size
      in if n > length rest then (LDAC_CODEC_TRUNCATED, out)
         else
           let item = take n rest
           in if category = AVDTP_SERVICE_MEDIA_CODEC \<and> n \<ge> 2 \<and>
                 drop_bit 4 (item ! 0) = AVDTP_MEDIA_TYPE_AUDIO \<and>
                 item ! 1 = AVDTP_CODEC_VENDOR \<and> n \<ge> 2 + 8
              then
                let (status, out1) = ldac_parse_codec_info (drop 2 item) out
                in if status = LDAC_CODEC_OK \<or> status = LDAC_CODEC_UNSUPPORTED
                   then (status, out1)
                   else ldac_find_in_service_capabilities (drop n rest) out1
              else ldac_find_in_service_capabilities (drop n rest) out)"

definition ldac_choose_configuration ::
  "ldac_capabilities \<Rightarrow> ldac_capabilities \<Rightarrow> u32 \<Rightarrow> ldac_codec_status \<times> ldac_configuration" where
  "ldac_choose_configuration local remote preferred_hz =
     (let rates = lc_sample_rates local AND lc_sample_rates remote AND LDAC_SF_ALL;
          modes = lc_channel_modes local AND lc_channel_modes remote AND LDAC_CM_ALL;
          out = \<lparr>lf_sample_rate = choose_sample_rate rates preferred_hz,
                 lf_channel_mode = choose_channel_mode modes\<rparr>
      in if lf_sample_rate out = 0 \<or> lf_channel_mode out = 0
         then (LDAC_CODEC_UNSUPPORTED, ldac_configuration_zero)
         else (LDAC_CODEC_OK, out))"

text \<open>The size zero the C function returns on an error is the empty list.\<close>

definition ldac_build_set_configuration_payload ::
  "nat \<Rightarrow> u8 \<Rightarrow> u8 \<Rightarrow> ldac_configuration \<Rightarrow> bytes" where
  "ldac_build_set_configuration_payload out_size remote_seid local_seid configuration =
     (let rate = lf_sample_rate configuration; mode = lf_channel_mode configuration
      in if out_size < 16 \<or> remote_seid = 0 \<or> remote_seid > 0x3F \<or>
            local_seid = 0 \<or> local_seid > 0x3F \<or>
            rate = 0 \<or> rate AND LDAC_SF_ALL \<noteq> rate \<or> rate AND (rate - 1) \<noteq> 0 \<or>
            mode = 0 \<or> mode AND LDAC_CM_ALL \<noteq> mode \<or> mode AND (mode - 1) \<noteq> 0
         then []
         else [push_bit 2 remote_seid, push_bit 2 local_seid,
               AVDTP_SERVICE_MEDIA_TRANSPORT, 0, AVDTP_SERVICE_MEDIA_CODEC, 2 + 8,
               push_bit 4 AVDTP_MEDIA_TYPE_AUDIO, AVDTP_CODEC_VENDOR] @
              ldac_build_codec_info rate mode)"

definition ldac_sample_rate_to_hz :: "u8 \<Rightarrow> u32" where
  "ldac_sample_rate_to_hz b =
     (if b = LDAC_SF_44100 then 44100 else if b = LDAC_SF_48000 then 48000
      else if b = LDAC_SF_88200 then 88200 else if b = LDAC_SF_96000 then 96000 else 0)"

section \<open>Media packets\<close>

datatype ldac_rtp_status =
  LDAC_RTP_OK | LDAC_RTP_INVALID_ARGUMENT | LDAC_RTP_NO_SPACE | LDAC_RTP_MTU_EXCEEDED

abbreviation (input) "LDAC_RTP_OVERHEAD \<equiv> (13 :: nat)"

definition write_u16_be :: "u16 \<Rightarrow> bytes" where
  "write_u16_be v = [ucast (drop_bit 8 v), ucast v]"

definition write_u32_be :: "u32 \<Rightarrow> bytes" where
  "write_u32_be v =
     [ucast (drop_bit 24 v), ucast (drop_bit 16 v), ucast (drop_bit 8 v), ucast v]"

definition ldac_rtp_build_unfragmented ::
  "nat \<Rightarrow> nat \<Rightarrow> u16 \<Rightarrow> u32 \<Rightarrow> u32 \<Rightarrow> u8 \<Rightarrow> bytes \<Rightarrow> ldac_rtp_status \<times> bytes" where
  "ldac_rtp_build_unfragmented out_size l2cap_mtu sequence_number timestamp ssrc frame_count
     encoded_frames =
     (if encoded_frames = [] \<or> frame_count = 0 \<or> frame_count > 31
      then (LDAC_RTP_INVALID_ARGUMENT, [])
      else if int (length encoded_frames) > 2 ^ 64 - 1 - int LDAC_RTP_OVERHEAD
      then (LDAC_RTP_INVALID_ARGUMENT, [])
      else
        let required = LDAC_RTP_OVERHEAD + length encoded_frames
        in if required > l2cap_mtu then (LDAC_RTP_MTU_EXCEEDED, [])
           else if required > out_size then (LDAC_RTP_NO_SPACE, [])
           else (LDAC_RTP_OK,
                 [0x80, 96] @ write_u16_be sequence_number @ write_u32_be timestamp @
                 write_u32_be ssrc @ [frame_count] @ encoded_frames))"

section \<open>The chosen configuration is legal and common\<close>

text \<open>Exactly one of the legal sample rates and one of the legal channel modes.\<close>

definition legal_configuration :: "ldac_configuration \<Rightarrow> bool" where
  "legal_configuration c \<longleftrightarrow>
     lf_sample_rate c \<in> {LDAC_SF_44100, LDAC_SF_48000, LDAC_SF_88200, LDAC_SF_96000} \<and>
     lf_channel_mode c \<in> {LDAC_CM_STEREO, LDAC_CM_DUAL, LDAC_CM_MONO}"

text \<open>A configuration both sides can do.\<close>

definition supported_by :: "ldac_configuration \<Rightarrow> ldac_capabilities \<Rightarrow> bool" where
  "supported_by c caps \<longleftrightarrow>
     lf_sample_rate c AND lc_sample_rates caps \<noteq> 0 \<and>
     lf_channel_mode c AND lc_channel_modes caps \<noteq> 0"

lemma choose_sample_rate_range:
  "choose_sample_rate r p \<in> {0, LDAC_SF_44100, LDAC_SF_48000, LDAC_SF_88200, LDAC_SF_96000}"
  by (simp add: choose_sample_rate_def Let_def)

lemma choose_channel_mode_range:
  "choose_channel_mode m \<in> {0, LDAC_CM_STEREO, LDAC_CM_DUAL, LDAC_CM_MONO}"
  by (simp add: choose_channel_mode_def)

lemma choose_sample_rate_common:
  "choose_sample_rate r p \<noteq> 0 \<Longrightarrow> r AND choose_sample_rate r p \<noteq> 0"
  by (auto simp: choose_sample_rate_def Let_def split: if_splits)

lemma choose_channel_mode_common:
  "choose_channel_mode m \<noteq> 0 \<Longrightarrow> m AND choose_channel_mode m \<noteq> 0"
  by (auto simp: choose_channel_mode_def split: if_splits)

lemma and_3_nonzero:
  fixes a b m f :: "'a::len word"
  assumes "(a AND b AND m) AND f \<noteq> 0"
  shows "f AND a \<noteq> 0" and "f AND b \<noteq> 0"
  using assms by (auto simp: bit_eq_iff bit_simps)

lemma choose_configuration_ok:
  assumes "ldac_choose_configuration local remote p = (LDAC_CODEC_OK, c)"
  shows "legal_configuration c" and "supported_by c local" and "supported_by c remote"
proof -
  let ?r = "lc_sample_rates local AND lc_sample_rates remote AND LDAC_SF_ALL"
  let ?m = "lc_channel_modes local AND lc_channel_modes remote AND LDAC_CM_ALL"
  have c: "lf_sample_rate c = choose_sample_rate ?r p" "lf_channel_mode c = choose_channel_mode ?m"
      "choose_sample_rate ?r p \<noteq> 0" "choose_channel_mode ?m \<noteq> 0"
    using assms by (auto simp: ldac_choose_configuration_def Let_def split: if_splits)
  then show "legal_configuration c"
    using choose_sample_rate_range [of ?r p] choose_channel_mode_range [of ?m]
    by (simp add: legal_configuration_def)
  have "?r AND lf_sample_rate c \<noteq> 0" "?m AND lf_channel_mode c \<noteq> 0"
    using c choose_sample_rate_common [of ?r p] choose_channel_mode_common [of ?m] by simp_all
  from and_3_nonzero [OF this(1)] and_3_nonzero [OF this(2)]
  show "supported_by c local" "supported_by c remote" by (simp_all add: supported_by_def)
qed

lemma seid_shift:
  fixes s :: u8
  assumes "s \<le> 0x3F"
  shows "drop_bit 2 (push_bit 2 s) = s"
proof -
  have "\<not> bit s n" if "n \<ge> 6" "n < 8" for n
  proof -
    have "s = take_bit 6 s"
      using assms by (simp add: take_bit_eq_mod word_le_nat_alt mod_word_self
          word_unat_eq_iff unat_mod)
    then show ?thesis using that by (metis bit_take_bit_iff not_le)
  qed
  then show ?thesis
    by (intro bit_word_eqI) (auto simp: bit_simps, meson not_less)
qed

section \<open>Service capabilities\<close>

definition service_item :: "u8 \<times> bytes \<Rightarrow> bytes" where
  "service_item = (\<lambda>(category, item). category # of_nat (length item) # item)"

text \<open>The items the search stops at: an audio vendor codec element with the LDAC identifiers.\<close>

definition ldac_item :: "u8 \<times> bytes \<Rightarrow> bool" where
  "ldac_item = (\<lambda>(category, item).
     category = AVDTP_SERVICE_MEDIA_CODEC \<and> length item \<ge> 10 \<and>
     drop_bit 4 (item ! 0) = AVDTP_MEDIA_TYPE_AUDIO \<and> item ! 1 = AVDTP_CODEC_VENDOR \<and>
     fst (ldac_parse_codec_info (drop 2 item) ldac_capabilities_zero) \<noteq> LDAC_CODEC_NOT_FOUND)"

lemma parse_codec_info_not_found:
  assumes "length info \<ge> 8"
  shows "fst (ldac_parse_codec_info info out) = fst (ldac_parse_codec_info info out')"
    and "fst (ldac_parse_codec_info info out) \<noteq> LDAC_CODEC_NOT_FOUND \<Longrightarrow>
      fst (ldac_parse_codec_info info out) = LDAC_CODEC_OK \<or>
      fst (ldac_parse_codec_info info out) = LDAC_CODEC_UNSUPPORTED"
    and "fst (ldac_parse_codec_info info out) = LDAC_CODEC_NOT_FOUND \<Longrightarrow>
      snd (ldac_parse_codec_info info out) = out"
  using assms unfolding ldac_parse_codec_info_def Let_def by (auto split: if_splits)

lemma find_skips:
  assumes "length item \<le> 255" and "\<not> ldac_item (category, item)"
  shows "ldac_find_in_service_capabilities (service_item (category, item) @ rest) out =
    ldac_find_in_service_capabilities rest out"
proof -
  have n: "unat (of_nat (length item) :: u8) = length item"
    using assms(1) by (simp add: unat_of_nat)
  show ?thesis
  proof (cases "category = AVDTP_SERVICE_MEDIA_CODEC \<and> length item \<ge> 10 \<and>
      drop_bit 4 (item ! 0) = AVDTP_MEDIA_TYPE_AUDIO \<and> item ! 1 = AVDTP_CODEC_VENDOR")
    case True
    then have l: "length (drop 2 item) \<ge> 8" by auto
    have "fst (ldac_parse_codec_info (drop 2 item) out) = LDAC_CODEC_NOT_FOUND"
      using True assms(2) parse_codec_info_not_found(1) [OF l, of out ldac_capabilities_zero]
      by (simp add: ldac_item_def)
    moreover from this have "snd (ldac_parse_codec_info (drop 2 item) out) = out"
      using parse_codec_info_not_found(3) [OF l] by blast
    ultimately have "ldac_parse_codec_info (drop 2 item) out = (LDAC_CODEC_NOT_FOUND, out)"
      by (simp add: prod_eq_iff)
    then show ?thesis using True n by (simp add: service_item_def Let_def nth_append)
  next
    case False
    show ?thesis
    proof (cases "length item \<ge> 2")
      case True
      then show ?thesis using False n by (auto simp: service_item_def Let_def nth_append)
    qed (use n in \<open>simp add: service_item_def Let_def\<close>)
  qed
qed

lemma find_skips_all:
  assumes "\<forall>i \<in> set items. \<not> ldac_item i \<and> length (snd i) \<le> 255"
  shows "ldac_find_in_service_capabilities (concat (map service_item items) @ rest) out =
    ldac_find_in_service_capabilities rest out"
  using assms
proof (induction items)
  case (Cons i items)
  then show ?case using find_skips [of "snd i" "fst i"] by simp
qed simp

lemma legal_configuration_masks:
  assumes "legal_configuration c"
  shows "lf_sample_rate c AND LDAC_SF_ALL = lf_sample_rate c"
    and "lf_sample_rate c AND (lf_sample_rate c - 1) = 0"
    and "lf_channel_mode c AND LDAC_CM_ALL = lf_channel_mode c"
    and "lf_channel_mode c AND (lf_channel_mode c - 1) = 0"
    and "lf_sample_rate c \<noteq> 0" and "lf_channel_mode c \<noteq> 0"
  using assms by (auto simp: legal_configuration_def)

lemma find_built_info:
  assumes "legal_configuration c"
  shows "ldac_find_in_service_capabilities
      ([AVDTP_SERVICE_MEDIA_TRANSPORT, 0, AVDTP_SERVICE_MEDIA_CODEC, 2 + 8,
        push_bit 4 AVDTP_MEDIA_TYPE_AUDIO, AVDTP_CODEC_VENDOR] @
       ldac_build_codec_info (lf_sample_rate c) (lf_channel_mode c) @ rest) out =
    (LDAC_CODEC_OK, \<lparr>lc_sample_rates = lf_sample_rate c, lc_channel_modes = lf_channel_mode c\<rparr>)"
  using legal_configuration_masks [OF assms]
  by (simp add: ldac_build_codec_info_def ldac_parse_codec_info_def Let_def)

text \<open>C35: the configuration sent is the one chosen, and it is one both sides announced.  If a
  configuration is chosen, it is one legal sample rate and one legal channel mode, supported by
  both sides, and the preferred rate if both support it; and the bytes built from it for two legal
  endpoint identifiers carry these identifiers, and a codec element that the search finds behind
  any other service capabilities, with exactly the chosen configuration.\<close>

theorem configuration_round_trip:
  assumes "ldac_choose_configuration local remote preferred = (LDAC_CODEC_OK, c)"
    and "0 < remote_seid" and "remote_seid \<le> 0x3F" and "0 < local_seid" and "local_seid \<le> 0x3F"
    and "out_size \<ge> 16"
    and "\<forall>i \<in> set others. \<not> ldac_item i \<and> length (snd i) \<le> 255"
  shows "let payload = ldac_build_set_configuration_payload out_size remote_seid local_seid c
     in legal_configuration c \<and> supported_by c local \<and> supported_by c remote \<and>
        length payload = 16 \<and>
        drop_bit 2 (payload ! 0) = remote_seid \<and> drop_bit 2 (payload ! 1) = local_seid \<and>
        ldac_find_in_service_capabilities
          (concat (map service_item others) @ drop 2 payload @ rest) out =
          (LDAC_CODEC_OK,
           \<lparr>lc_sample_rates = lf_sample_rate c, lc_channel_modes = lf_channel_mode c\<rparr>)"
proof -
  note c = choose_configuration_ok [OF assms(1)]
  have "ldac_build_set_configuration_payload out_size remote_seid local_seid c =
      [push_bit 2 remote_seid, push_bit 2 local_seid,
       AVDTP_SERVICE_MEDIA_TRANSPORT, 0, AVDTP_SERVICE_MEDIA_CODEC, 2 + 8,
       push_bit 4 AVDTP_MEDIA_TYPE_AUDIO, AVDTP_CODEC_VENDOR] @
      ldac_build_codec_info (lf_sample_rate c) (lf_channel_mode c)"
    using legal_configuration_masks [OF c(1)] assms(2-6)
    by (auto simp: ldac_build_set_configuration_payload_def Let_def)
  then show ?thesis
    using c seid_shift [OF assms(3)] seid_shift [OF assms(5)] find_skips_all [OF assms(7)]
      find_built_info [OF c(1)]
    by (simp add: Let_def ldac_build_codec_info_def)
qed

theorem configuration_round_trip_witness:
  "let payload = ldac_build_set_configuration_payload 16 5 1
       \<lparr>lf_sample_rate = LDAC_SF_96000, lf_channel_mode = LDAC_CM_STEREO\<rparr>
   in length payload = 16 \<and>
      ldac_find_in_service_capabilities ([4, 1, 9] @ drop 2 payload) ldac_capabilities_zero =
        (LDAC_CODEC_OK, \<lparr>lc_sample_rates = LDAC_SF_96000, lc_channel_modes = LDAC_CM_STEREO\<rparr>)"
proof -
  have "ldac_choose_configuration \<lparr>lc_sample_rates = LDAC_SF_ALL, lc_channel_modes = LDAC_CM_STEREO\<rparr>
      \<lparr>lc_sample_rates = LDAC_SF_96000 OR LDAC_SF_48000, lc_channel_modes = LDAC_CM_ALL\<rparr> 96000 =
      (LDAC_CODEC_OK, \<lparr>lf_sample_rate = LDAC_SF_96000, lf_channel_mode = LDAC_CM_STEREO\<rparr>)"
    by (simp add: ldac_choose_configuration_def choose_sample_rate_def choose_channel_mode_def)
  from configuration_round_trip [OF this, of 5 1 16 "[(4, [9])]" "[]" ldac_capabilities_zero]
  show ?thesis by (simp add: ldac_item_def service_item_def Let_def)
qed

end
