(* ===== verification/Avdtp.thy ===== *)
theory Avdtp
  imports Ldac_Codec
begin

text \<open>
  The AVDTP signalling of the source side, \<open>protocol/src/avdtp.c\<close>: the packet header, the writer of
  single packets, and the state machine \<open>avdtp_source\<close> that negotiates, opens, starts, suspends and
  closes a stream.  The transport sessions drive this machine.

  An operation of the machine returns the updated machine and the action.  The fixed packet buffer
  of an action is the list of its valid bytes; the array of remote endpoint identifiers keeps the
  stale entries behind the collected ones, as the C array does.
\<close>

section \<open>Packets\<close>

abbreviation (input) "AVDTP_SIGNAL_DISCOVER \<equiv> (0x01 :: u8)"
abbreviation (input) "AVDTP_SIGNAL_GET_CAPABILITIES \<equiv> (0x02 :: u8)"
abbreviation (input) "AVDTP_SIGNAL_SET_CONFIGURATION \<equiv> (0x03 :: u8)"
abbreviation (input) "AVDTP_SIGNAL_OPEN \<equiv> (0x06 :: u8)"
abbreviation (input) "AVDTP_SIGNAL_START \<equiv> (0x07 :: u8)"
abbreviation (input) "AVDTP_SIGNAL_CLOSE \<equiv> (0x08 :: u8)"
abbreviation (input) "AVDTP_SIGNAL_SUSPEND \<equiv> (0x09 :: u8)"
abbreviation (input) "AVDTP_SIGNAL_GET_ALL_CAPABILITIES \<equiv> (0x0C :: u8)"
abbreviation (input) "AVDTP_MAX_SIGNALING_PACKET \<equiv> (64 :: nat)"
abbreviation (input) "AVDTP_MAX_REMOTE_SEIDS \<equiv> (63 :: nat)"

datatype avdtp_packet_type =
  AVDTP_PACKET_SINGLE | AVDTP_PACKET_START | AVDTP_PACKET_CONTINUE | AVDTP_PACKET_END

datatype avdtp_message_type =
  AVDTP_MESSAGE_COMMAND | AVDTP_MESSAGE_GENERAL_REJECT | AVDTP_MESSAGE_ACCEPT | AVDTP_MESSAGE_REJECT

record avdtp_header =
  ah_transaction_label :: u8
  ah_packet_type :: avdtp_packet_type
  ah_message_type :: avdtp_message_type
  ah_packet_count :: u8
  ah_signal_id :: u8
  ah_payload_offset :: nat

definition avdtp_header_zero :: avdtp_header where
  "avdtp_header_zero =
     \<lparr>ah_transaction_label = 0, ah_packet_type = AVDTP_PACKET_SINGLE,
      ah_message_type = AVDTP_MESSAGE_COMMAND, ah_packet_count = 0, ah_signal_id = 0,
      ah_payload_offset = 0\<rparr>"

datatype avdtp_status =
  AVDTP_OK | AVDTP_INVALID_ARGUMENT | AVDTP_TRUNCATED | AVDTP_UNSUPPORTED_FRAGMENT
| AVDTP_PROTOCOL_ERROR | AVDTP_NO_SPACE

text \<open>The conversions between the two-bit codes and the enumerations.\<close>

definition packet_type_of :: "u8 \<Rightarrow> avdtp_packet_type" where
  "packet_type_of c =
     (if c = 0 then AVDTP_PACKET_SINGLE else if c = 1 then AVDTP_PACKET_START
      else if c = 2 then AVDTP_PACKET_CONTINUE else AVDTP_PACKET_END)"

definition message_type_of :: "u8 \<Rightarrow> avdtp_message_type" where
  "message_type_of c =
     (if c = 0 then AVDTP_MESSAGE_COMMAND else if c = 1 then AVDTP_MESSAGE_GENERAL_REJECT
      else if c = 2 then AVDTP_MESSAGE_ACCEPT else AVDTP_MESSAGE_REJECT)"

fun message_code :: "avdtp_message_type \<Rightarrow> u8" where
  "message_code AVDTP_MESSAGE_COMMAND = 0"
| "message_code AVDTP_MESSAGE_GENERAL_REJECT = 1"
| "message_code AVDTP_MESSAGE_ACCEPT = 2"
| "message_code AVDTP_MESSAGE_REJECT = 3"

text \<open>
  The header is written before the length is checked against its kind, so the result has a header
  also when the status is an error; an empty packet leaves the caller's header as it was.
\<close>

definition avdtp_parse_header :: "bytes \<Rightarrow> avdtp_header \<Rightarrow> avdtp_status \<times> avdtp_header" where
  "avdtp_parse_header packet out =
     (if length packet < 1 then (AVDTP_TRUNCATED, out)
      else
        let first = packet ! 0;
            h = avdtp_header_zero
              \<lparr>ah_transaction_label := drop_bit 4 first,
               ah_packet_type := packet_type_of (drop_bit 2 first AND 0x03),
               ah_message_type := message_type_of (first AND 0x03)\<rparr>
        in case ah_packet_type h of
             AVDTP_PACKET_SINGLE \<Rightarrow>
               if length packet < 2 then (AVDTP_TRUNCATED, h)
               else (AVDTP_OK, h\<lparr>ah_signal_id := packet ! 1 AND 0x3F, ah_payload_offset := 2\<rparr>)
           | AVDTP_PACKET_START \<Rightarrow>
               if length packet < 3 then (AVDTP_TRUNCATED, h)
               else (AVDTP_OK, h\<lparr>ah_packet_count := packet ! 1,
                                 ah_signal_id := packet ! 2 AND 0x3F, ah_payload_offset := 3\<rparr>)
           | AVDTP_PACKET_CONTINUE \<Rightarrow> (AVDTP_OK, h\<lparr>ah_payload_offset := 1\<rparr>)
           | AVDTP_PACKET_END \<Rightarrow> (AVDTP_OK, h\<lparr>ah_payload_offset := 1\<rparr>))"

text \<open>The size zero the writer returns on an error is the empty list.\<close>

definition avdtp_write_single ::
  "nat \<Rightarrow> u8 \<Rightarrow> avdtp_message_type \<Rightarrow> u8 \<Rightarrow> bytes \<Rightarrow> bytes" where
  "avdtp_write_single out_size transaction_label message_type signal_id payload =
     (if transaction_label > 0x0F \<or> signal_id = 0 \<or> signal_id > 0x3F \<or>
         int (length payload) > 2 ^ 64 - 1 - 2
      then []
      else if out_size < 2 + length payload then []
      else [push_bit 4 transaction_label OR (message_code message_type AND 0x03), signal_id] @ payload)"

section \<open>The state machine of the source\<close>

datatype avdtp_source_state =
  AVDTP_SOURCE_IDLE | AVDTP_SOURCE_DISCOVER_SENT | AVDTP_SOURCE_CAPABILITIES_SENT
| AVDTP_SOURCE_CONFIGURATION_SENT | AVDTP_SOURCE_OPEN_SENT
| AVDTP_SOURCE_WAITING_FOR_MEDIA_CHANNEL | AVDTP_SOURCE_OPEN | AVDTP_SOURCE_START_SENT
| AVDTP_SOURCE_STREAMING | AVDTP_SOURCE_SUSPEND_SENT | AVDTP_SOURCE_CLOSE_SENT
| AVDTP_SOURCE_CLOSED | AVDTP_SOURCE_FAILED

datatype avdtp_action_kind =
  AVDTP_ACTION_NONE | AVDTP_ACTION_SEND_SIGNALING | AVDTP_ACTION_OPEN_MEDIA_CHANNEL
| AVDTP_ACTION_SESSION_OPEN | AVDTP_ACTION_STREAM_READY | AVDTP_ACTION_STREAM_SUSPENDED
| AVDTP_ACTION_SESSION_CLOSED | AVDTP_ACTION_ERROR

record avdtp_action =
  aa_kind :: avdtp_action_kind
  aa_packet :: bytes
  aa_error_code :: int

record avdtp_source =
  as_state :: avdtp_source_state
  as_local_capabilities :: ldac_capabilities
  as_remote_capabilities :: ldac_capabilities
  as_configuration :: ldac_configuration
  as_preferred_sample_rate_hz :: u32
  as_local_seid :: u8
  as_remote_seid :: u8
  as_remote_seids :: bytes
  as_remote_seid_count :: u8
  as_remote_seid_index :: u8
  as_next_transaction_label :: u8
  as_pending_transaction_label :: u8
  as_pending_signal_id :: u8
  as_used_legacy_capabilities :: u8

abbreviation (input) "AVDTP_SOURCE_ERROR_BAD_PACKET \<equiv> (0x100 :: int)"
abbreviation (input) "AVDTP_SOURCE_ERROR_UNEXPECTED_RESPONSE \<equiv> (0x101 :: int)"
abbreviation (input) "AVDTP_SOURCE_ERROR_NO_AUDIO_SINK \<equiv> (0x102 :: int)"
abbreviation (input) "AVDTP_SOURCE_ERROR_LDAC_NOT_SUPPORTED \<equiv> (0x103 :: int)"
abbreviation (input) "AVDTP_SOURCE_ERROR_NO_COMMON_CONFIGURATION \<equiv> (0x104 :: int)"
abbreviation (input) "AVDTP_SOURCE_ERROR_MEDIA_CHANNEL_STATE \<equiv> (0x105 :: int)"

definition make_action :: "avdtp_action_kind \<Rightarrow> avdtp_action" where
  "make_action kind = \<lparr>aa_kind = kind, aa_packet = [], aa_error_code = 0\<rparr>"

definition source_fail :: "avdtp_source \<Rightarrow> int \<Rightarrow> avdtp_source \<times> avdtp_action" where
  "source_fail source code =
     (source\<lparr>as_state := AVDTP_SOURCE_FAILED\<rparr>,
      (make_action AVDTP_ACTION_ERROR)\<lparr>aa_error_code := code\<rparr>)"

definition send_command :: "avdtp_source \<Rightarrow> u8 \<Rightarrow> bytes \<Rightarrow> avdtp_source \<times> avdtp_action" where
  "send_command source signal_id payload =
     (let label = as_next_transaction_label source;
          source1 = source\<lparr>as_next_transaction_label := (label + 1) AND 0x0F,
                           as_pending_transaction_label := label,
                           as_pending_signal_id := signal_id\<rparr>;
          packet = avdtp_write_single AVDTP_MAX_SIGNALING_PACKET label AVDTP_MESSAGE_COMMAND
                     signal_id payload
      in if packet = [] then source_fail source1 AVDTP_SOURCE_ERROR_BAD_PACKET
         else (source1, (make_action AVDTP_ACTION_SEND_SIGNALING)\<lparr>aa_packet := packet\<rparr>))"

text \<open>The endpoints a discovery response offers: two bytes each, of which the free audio sinks count.\<close>

fun audio_sinks :: "bytes \<Rightarrow> bytes" where
  "audio_sinks (b0 # b1 # rest) =
     (if drop_bit 2 b0 \<noteq> 0 \<and> drop_bit 1 b0 AND 0x01 = 0 \<and>
         drop_bit 4 b1 = AVDTP_MEDIA_TYPE_AUDIO \<and> drop_bit 3 b1 AND 0x01 = 1
      then drop_bit 2 b0 # audio_sinks rest
      else audio_sinks rest)"
| "audio_sinks _ = []"

definition collect_audio_sinks :: "bytes \<Rightarrow> nat \<Rightarrow> bytes" where
  "collect_audio_sinks payload capacity =
     (if length payload mod 2 \<noteq> 0 then [] else take capacity (audio_sinks payload))"

definition query_current_sink :: "avdtp_source \<Rightarrow> avdtp_source \<times> avdtp_action" where
  "query_current_sink source =
     send_command (source\<lparr>as_state := AVDTP_SOURCE_CAPABILITIES_SENT,
                          as_used_legacy_capabilities := 0\<rparr>)
       AVDTP_SIGNAL_GET_ALL_CAPABILITIES [push_bit 2 (as_remote_seid source)]"

definition query_next_sink :: "avdtp_source \<Rightarrow> avdtp_source \<times> avdtp_action" where
  "query_next_sink source =
     (if unat (as_remote_seid_index source) + 1 \<ge> unat (as_remote_seid_count source)
      then source_fail source AVDTP_SOURCE_ERROR_LDAC_NOT_SUPPORTED
      else
        let index = as_remote_seid_index source + 1
        in query_current_sink
             (source\<lparr>as_remote_seid_index := index,
                     as_remote_seid := as_remote_seids source ! unat index\<rparr>))"

definition avdtp_source_init :: "ldac_capabilities \<Rightarrow> u8 \<Rightarrow> u32 \<Rightarrow> avdtp_source" where
  "avdtp_source_init local_capabilities local_seid preferred_sample_rate_hz =
     \<lparr>as_state = AVDTP_SOURCE_IDLE,
      as_local_capabilities =
        \<lparr>lc_sample_rates = lc_sample_rates local_capabilities AND LDAC_SF_ALL,
         lc_channel_modes = lc_channel_modes local_capabilities AND LDAC_CM_ALL\<rparr>,
      as_remote_capabilities = ldac_capabilities_zero,
      as_configuration = ldac_configuration_zero,
      as_preferred_sample_rate_hz = preferred_sample_rate_hz,
      as_local_seid = local_seid, as_remote_seid = 0,
      as_remote_seids = replicate AVDTP_MAX_REMOTE_SEIDS 0,
      as_remote_seid_count = 0, as_remote_seid_index = 0,
      as_next_transaction_label = 0, as_pending_transaction_label = 0,
      as_pending_signal_id = 0, as_used_legacy_capabilities = 0\<rparr>"

definition avdtp_source_begin :: "avdtp_source \<Rightarrow> avdtp_source \<times> avdtp_action" where
  "avdtp_source_begin source =
     (if as_state source \<noteq> AVDTP_SOURCE_IDLE \<or> as_local_seid source = 0 \<or>
         as_local_seid source > 0x3F \<or>
         lc_sample_rates (as_local_capabilities source) = 0 \<or>
         lc_channel_modes (as_local_capabilities source) = 0
      then source_fail source AVDTP_SOURCE_ERROR_UNEXPECTED_RESPONSE
      else send_command (source\<lparr>as_state := AVDTP_SOURCE_DISCOVER_SENT\<rparr>)
             AVDTP_SIGNAL_DISCOVER [])"

definition handle_reject ::
  "avdtp_source \<Rightarrow> avdtp_message_type \<Rightarrow> bytes \<Rightarrow> avdtp_source \<times> avdtp_action" where
  "handle_reject source message_type payload =
     (if as_state source = AVDTP_SOURCE_CAPABILITIES_SENT \<and>
         as_pending_signal_id source = AVDTP_SIGNAL_GET_ALL_CAPABILITIES \<and>
         as_used_legacy_capabilities source = 0
      then send_command (source\<lparr>as_used_legacy_capabilities := 1\<rparr>)
             AVDTP_SIGNAL_GET_CAPABILITIES [push_bit 2 (as_remote_seid source)]
      else if as_state source = AVDTP_SOURCE_CAPABILITIES_SENT then query_next_sink source
      else if message_type = AVDTP_MESSAGE_REJECT \<and> length payload \<noteq> 0
      then source_fail source (uint (last payload))
      else source_fail source AVDTP_SOURCE_ERROR_UNEXPECTED_RESPONSE)"

text \<open>The accepted responses, by the state: the \<open>switch\<close> of \<open>avdtp_source_handle_signaling\<close>.\<close>

definition discovered :: "avdtp_source \<Rightarrow> bytes \<Rightarrow> avdtp_source \<times> avdtp_action" where
  "discovered source payload =
     (let sinks = collect_audio_sinks payload AVDTP_MAX_REMOTE_SEIDS;
          source1 = source\<lparr>as_remote_seids := sinks @ drop (length sinks) (as_remote_seids source)\<rparr>
      in if sinks = [] then source_fail source1 AVDTP_SOURCE_ERROR_NO_AUDIO_SINK
         else query_current_sink
                (source1\<lparr>as_remote_seid_count := of_nat (length sinks),
                         as_remote_seid_index := 0,
                         as_remote_seid := as_remote_seids source1 ! 0\<rparr>))"

definition capabilities_received :: "avdtp_source \<Rightarrow> bytes \<Rightarrow> avdtp_source \<times> avdtp_action" where
  "capabilities_received source payload =
     (let (codec_status, remote) =
            ldac_find_in_service_capabilities payload (as_remote_capabilities source);
          source1 = source\<lparr>as_remote_capabilities := remote\<rparr>
      in if codec_status = LDAC_CODEC_NOT_FOUND then query_next_sink source1
         else if codec_status \<noteq> LDAC_CODEC_OK
         then source_fail source1 AVDTP_SOURCE_ERROR_BAD_PACKET
         else
           let (choice, configuration) =
                 ldac_choose_configuration (as_local_capabilities source1)
                   (as_remote_capabilities source1) (as_preferred_sample_rate_hz source1);
               source2 = source1\<lparr>as_configuration := configuration\<rparr>
           in if choice \<noteq> LDAC_CODEC_OK
              then source_fail source2 AVDTP_SOURCE_ERROR_NO_COMMON_CONFIGURATION
              else
                let payload2 = ldac_build_set_configuration_payload 16 (as_remote_seid source2)
                      (as_local_seid source2) (as_configuration source2)
                in if payload2 = [] then source_fail source2 AVDTP_SOURCE_ERROR_BAD_PACKET
                   else send_command (source2\<lparr>as_state := AVDTP_SOURCE_CONFIGURATION_SENT\<rparr>)
                          AVDTP_SIGNAL_SET_CONFIGURATION payload2)"

definition accepted_response :: "avdtp_source \<Rightarrow> bytes \<Rightarrow> avdtp_source \<times> avdtp_action" where
  "accepted_response source payload =
     (case as_state source of
        AVDTP_SOURCE_DISCOVER_SENT \<Rightarrow> discovered source payload
      | AVDTP_SOURCE_CAPABILITIES_SENT \<Rightarrow> capabilities_received source payload
      | AVDTP_SOURCE_CONFIGURATION_SENT \<Rightarrow>
          send_command (source\<lparr>as_state := AVDTP_SOURCE_OPEN_SENT\<rparr>)
            AVDTP_SIGNAL_OPEN [push_bit 2 (as_remote_seid source)]
      | AVDTP_SOURCE_OPEN_SENT \<Rightarrow>
          (source\<lparr>as_state := AVDTP_SOURCE_WAITING_FOR_MEDIA_CHANNEL\<rparr>,
           make_action AVDTP_ACTION_OPEN_MEDIA_CHANNEL)
      | AVDTP_SOURCE_START_SENT \<Rightarrow>
          (source\<lparr>as_state := AVDTP_SOURCE_STREAMING\<rparr>, make_action AVDTP_ACTION_STREAM_READY)
      | AVDTP_SOURCE_SUSPEND_SENT \<Rightarrow>
          (source\<lparr>as_state := AVDTP_SOURCE_OPEN\<rparr>, make_action AVDTP_ACTION_STREAM_SUSPENDED)
      | AVDTP_SOURCE_CLOSE_SENT \<Rightarrow>
          (source\<lparr>as_state := AVDTP_SOURCE_CLOSED\<rparr>, make_action AVDTP_ACTION_SESSION_CLOSED)
      | _ \<Rightarrow> source_fail source AVDTP_SOURCE_ERROR_UNEXPECTED_RESPONSE)"

definition avdtp_source_handle_signaling ::
  "avdtp_source \<Rightarrow> bytes \<Rightarrow> avdtp_source \<times> avdtp_action" where
  "avdtp_source_handle_signaling source packet =
     (if as_state source = AVDTP_SOURCE_FAILED \<or> as_state source = AVDTP_SOURCE_IDLE \<or>
         as_state source = AVDTP_SOURCE_STREAMING
      then source_fail source AVDTP_SOURCE_ERROR_UNEXPECTED_RESPONSE
      else
        let (status, header) = avdtp_parse_header packet avdtp_header_zero
        in if status \<noteq> AVDTP_OK \<or> ah_packet_type header \<noteq> AVDTP_PACKET_SINGLE \<or>
              ah_payload_offset header > length packet
           then source_fail source AVDTP_SOURCE_ERROR_BAD_PACKET
           else if ah_transaction_label header \<noteq> as_pending_transaction_label source \<or>
              ah_signal_id header \<noteq> as_pending_signal_id source \<or>
              ah_message_type header = AVDTP_MESSAGE_COMMAND
           then source_fail source AVDTP_SOURCE_ERROR_UNEXPECTED_RESPONSE
           else
             let payload = drop (ah_payload_offset header) packet
             in if ah_message_type header = AVDTP_MESSAGE_REJECT \<or>
                   ah_message_type header = AVDTP_MESSAGE_GENERAL_REJECT
                then handle_reject source (ah_message_type header) payload
                else if ah_message_type header \<noteq> AVDTP_MESSAGE_ACCEPT
                then source_fail source AVDTP_SOURCE_ERROR_UNEXPECTED_RESPONSE
                else accepted_response source payload)"

definition avdtp_source_media_channel_opened :: "avdtp_source \<Rightarrow> avdtp_source \<times> avdtp_action" where
  "avdtp_source_media_channel_opened source =
     (if as_state source \<noteq> AVDTP_SOURCE_WAITING_FOR_MEDIA_CHANNEL
      then source_fail source AVDTP_SOURCE_ERROR_MEDIA_CHANNEL_STATE
      else (source\<lparr>as_state := AVDTP_SOURCE_OPEN\<rparr>, make_action AVDTP_ACTION_SESSION_OPEN))"

definition avdtp_source_start :: "avdtp_source \<Rightarrow> avdtp_source \<times> avdtp_action" where
  "avdtp_source_start source =
     (if as_state source \<noteq> AVDTP_SOURCE_OPEN
      then source_fail source AVDTP_SOURCE_ERROR_UNEXPECTED_RESPONSE
      else send_command (source\<lparr>as_state := AVDTP_SOURCE_START_SENT\<rparr>)
             AVDTP_SIGNAL_START [push_bit 2 (as_remote_seid source)])"

definition avdtp_source_suspend :: "avdtp_source \<Rightarrow> avdtp_source \<times> avdtp_action" where
  "avdtp_source_suspend source =
     (if as_state source \<noteq> AVDTP_SOURCE_STREAMING
      then source_fail source AVDTP_SOURCE_ERROR_UNEXPECTED_RESPONSE
      else send_command (source\<lparr>as_state := AVDTP_SOURCE_SUSPEND_SENT\<rparr>)
             AVDTP_SIGNAL_SUSPEND [push_bit 2 (as_remote_seid source)])"

definition avdtp_source_close :: "avdtp_source \<Rightarrow> avdtp_source \<times> avdtp_action" where
  "avdtp_source_close source =
     (if as_state source \<noteq> AVDTP_SOURCE_OPEN
      then source_fail source AVDTP_SOURCE_ERROR_UNEXPECTED_RESPONSE
      else send_command (source\<lparr>as_state := AVDTP_SOURCE_CLOSE_SENT\<rparr>)
             AVDTP_SIGNAL_CLOSE [push_bit 2 (as_remote_seid source)])"

section \<open>What every reachable machine satisfies\<close>

definition legal_seid :: "u8 \<Rightarrow> bool" where
  "legal_seid s \<longleftrightarrow> s \<noteq> 0 \<and> s \<le> 0x3F"

definition negotiated :: "avdtp_source_state \<Rightarrow> bool" where
  "negotiated st \<longleftrightarrow>
     st \<notin> {AVDTP_SOURCE_IDLE, AVDTP_SOURCE_FAILED, AVDTP_SOURCE_DISCOVER_SENT,
            AVDTP_SOURCE_CAPABILITIES_SENT}"

definition configured :: "avdtp_source \<Rightarrow> bool" where
  "configured s \<longleftrightarrow>
     legal_seid (as_remote_seid s) \<and> legal_configuration (as_configuration s) \<and>
     supported_by (as_configuration s) (as_local_capabilities s) \<and>
     supported_by (as_configuration s) (as_remote_capabilities s)"

definition querying :: "avdtp_source \<Rightarrow> bool" where
  "querying s \<longleftrightarrow>
     legal_seid (as_remote_seid s) \<and> as_remote_seid_count s \<le> 63 \<and>
     as_remote_seid_index s < as_remote_seid_count s \<and>
     (\<forall>i < unat (as_remote_seid_count s). legal_seid (as_remote_seids s ! i))"

definition source_inv :: "avdtp_source \<Rightarrow> bool" where
  "source_inv s \<longleftrightarrow>
     as_next_transaction_label s \<le> 15 \<and>
     (as_state s \<noteq> AVDTP_SOURCE_IDLE \<and> as_state s \<noteq> AVDTP_SOURCE_FAILED \<longrightarrow>
        legal_seid (as_local_seid s)) \<and>
     (as_state s = AVDTP_SOURCE_CAPABILITIES_SENT \<longrightarrow> querying s) \<and>
     (negotiated (as_state s) \<longrightarrow> configured s)"

lemma and_15_le [simp]: "(w AND 15 :: u8) \<le> 15"
  by (simp add: word_and_le1)

lemma send_command_sends:
  assumes "as_next_transaction_label s \<le> 15" "legal_seid signal" "length payload \<le> 62"
  shows "send_command s signal payload =
    (s\<lparr>as_next_transaction_label := (as_next_transaction_label s + 1) AND 0x0F,
       as_pending_transaction_label := as_next_transaction_label s,
       as_pending_signal_id := signal\<rparr>,
     (make_action AVDTP_ACTION_SEND_SIGNALING)
       \<lparr>aa_packet := [push_bit 4 (as_next_transaction_label s), signal] @ payload\<rparr>)"
  using assms by (auto simp: send_command_def avdtp_write_single_def legal_seid_def Let_def not_less)

lemma send_command_inv:
  assumes "as_next_transaction_label s \<le> 15" "legal_seid (as_local_seid s)"
    and "as_state s = AVDTP_SOURCE_CAPABILITIES_SENT \<longrightarrow> querying s"
    and "negotiated (as_state s) \<longrightarrow> configured s"
  shows "source_inv (fst (send_command s signal payload))"
  using assms
  by (auto simp: send_command_def source_fail_def source_inv_def querying_def configured_def
      negotiated_def Let_def)

lemma source_fail_inv [simp]:
  "as_next_transaction_label s \<le> 15 \<Longrightarrow> source_inv (fst (source_fail s e))"
  by (simp add: source_fail_def source_inv_def negotiated_def)

lemma audio_sinks_legal: "s \<in> set (audio_sinks payload) \<Longrightarrow> legal_seid s"
proof (induction payload rule: audio_sinks.induct)
  case (1 b0 b1 rest)
  have "drop_bit 2 b0 \<le> 0x3F"
  proof -
    have "unat b0 < 256" using unsigned_less [of b0] by simp
    then have "unat b0 div 4 \<le> 63" by simp
    then show ?thesis by (simp add: word_le_nat_alt unat_div drop_bit_eq_div)
  qed
  then show ?case using 1 by (auto simp: legal_seid_def split: if_splits)
qed auto

lemma collected_sinks:
  assumes "s \<in> set (collect_audio_sinks payload n)"
  shows "legal_seid s"
  using assms audio_sinks_legal
  by (auto simp: collect_audio_sinks_def dest: in_set_takeD split: if_splits)

lemma collected_length: "length (collect_audio_sinks payload n) \<le> n"
  by (simp add: collect_audio_sinks_def)

lemma query_current_inv:
  assumes "as_next_transaction_label s \<le> 15" "legal_seid (as_local_seid s)" "querying s"
  shows "source_inv (fst (query_current_sink s))"
  unfolding query_current_sink_def
  by (rule send_command_inv) (use assms in \<open>simp_all add: querying_def negotiated_def\<close>)

lemma query_next_inv:
  assumes "as_next_transaction_label s \<le> 15" "legal_seid (as_local_seid s)" "querying s"
  shows "source_inv (fst (query_next_sink s))"
proof (cases "unat (as_remote_seid_index s) + 1 \<ge> unat (as_remote_seid_count s)")
  case True
  then show ?thesis using assms by (simp add: query_next_sink_def)
next
  case False
  then have index: "unat (as_remote_seid_index s + 1) = unat (as_remote_seid_index s) + 1"
    using assms(3) less_imp_unat_Suc [of "as_remote_seid_index s" "as_remote_seid_count s"]
    by (simp add: querying_def)
  show ?thesis
    using False assms index unfolding query_next_sink_def
    by (auto intro!: query_current_inv simp: querying_def Let_def word_less_nat_alt)
qed

lemma discovered_inv:
  assumes "as_next_transaction_label s \<le> 15" "legal_seid (as_local_seid s)"
  shows "source_inv (fst (discovered s payload))"
proof -
  let ?c = "collect_audio_sinks payload AVDTP_MAX_REMOTE_SEIDS"
  have n: "length ?c \<le> 63" by (rule collected_length)
  then have "unat (of_nat (length ?c) :: u8) = length ?c" by (simp add: unat_of_nat)
  moreover have "legal_seid (?c ! i)" if "i < length ?c" for i
    using that collected_sinks by (meson nth_mem)
  ultimately show ?thesis
    using assms n unfolding discovered_def Let_def
    by (auto intro!: query_current_inv
        simp: querying_def word_less_nat_alt word_le_nat_alt nth_append)
qed

lemma capabilities_received_inv:
  assumes "as_next_transaction_label s \<le> 15" "legal_seid (as_local_seid s)" "querying s"
  shows "source_inv (fst (capabilities_received s payload))"
proof -
  obtain st remote where find:
    "ldac_find_in_service_capabilities payload (as_remote_capabilities s) = (st, remote)"
    by (rule prod.exhaust)
  obtain choice conf where choose:
    "ldac_choose_configuration (as_local_capabilities s) remote (as_preferred_sample_rate_hz s) =
      (choice, conf)"
    by (rule prod.exhaust)
  show ?thesis
  proof (cases "st = LDAC_CODEC_OK \<and> choice = LDAC_CODEC_OK")
    case True
    then have "legal_configuration conf" "supported_by conf (as_local_capabilities s)"
      "supported_by conf remote"
      using choose_configuration_ok choose by auto
    then show ?thesis
      using True assms find choose unfolding capabilities_received_def
      by (auto intro!: send_command_inv simp: Let_def configured_def querying_def)
  next
    case False
    then show ?thesis
      using assms find choose unfolding capabilities_received_def
      by (auto intro!: query_next_inv simp: Let_def querying_def)
  qed
qed

lemma source_inv_simps:
  assumes "source_inv s"
  shows "as_next_transaction_label s \<le> 15"
    and "as_state s \<noteq> AVDTP_SOURCE_IDLE \<Longrightarrow> as_state s \<noteq> AVDTP_SOURCE_FAILED \<Longrightarrow>
      legal_seid (as_local_seid s)"
    and "as_state s = AVDTP_SOURCE_CAPABILITIES_SENT \<Longrightarrow> querying s"
    and "negotiated (as_state s) \<Longrightarrow> configured s"
  using assms by (simp_all add: source_inv_def)

lemma handle_reject_inv:
  assumes "source_inv s" "as_state s \<noteq> AVDTP_SOURCE_IDLE" "as_state s \<noteq> AVDTP_SOURCE_FAILED"
  shows "source_inv (fst (handle_reject s mt payload))"
  using source_inv_simps [OF assms(1)] assms(2,3) unfolding handle_reject_def
  by (auto intro!: send_command_inv query_next_inv simp: querying_def negotiated_def)

lemma negotiated_state_inv:
  assumes "source_inv s" "negotiated (as_state s)" "negotiated st"
  shows "source_inv (s\<lparr>as_state := st\<rparr>)"
  using source_inv_simps [OF assms(1)] assms
  by (auto simp: source_inv_def configured_def negotiated_def)

lemma negotiated_send_inv:
  assumes "source_inv s" "negotiated (as_state s)" "negotiated st"
  shows "source_inv (fst (send_command (s\<lparr>as_state := st\<rparr>) signal payload))"
  using source_inv_simps [OF assms(1)] assms
  by (intro send_command_inv) (auto simp: configured_def negotiated_def)

lemma accepted_response_inv:
  assumes "source_inv s" "as_state s \<noteq> AVDTP_SOURCE_IDLE" "as_state s \<noteq> AVDTP_SOURCE_FAILED"
  shows "source_inv (fst (accepted_response s payload))"
proof (cases "as_state s = AVDTP_SOURCE_DISCOVER_SENT \<or>
    as_state s = AVDTP_SOURCE_CAPABILITIES_SENT")
  case True
  then show ?thesis
    using source_inv_simps [OF assms(1)] assms(2,3) unfolding accepted_response_def
    by (auto intro!: discovered_inv capabilities_received_inv)
next
  case False
  then have "negotiated (as_state s)" using assms(2,3) by (simp add: negotiated_def)
  then show ?thesis
    using False source_inv_simps(1) [OF assms(1)] assms unfolding accepted_response_def
    by (cases "as_state s")
      (simp_all add: negotiated_send_inv negotiated_state_inv negotiated_def)
qed

lemma handle_signaling_inv:
  assumes "source_inv s"
  shows "source_inv (fst (avdtp_source_handle_signaling s packet))"
  using assms handle_reject_inv [OF assms] accepted_response_inv [OF assms]
    source_inv_simps(1) [OF assms]
  unfolding avdtp_source_handle_signaling_def by (auto simp: Let_def case_prod_beta)

lemma init_inv: "source_inv (avdtp_source_init caps seid hz)"
  by (simp add: avdtp_source_init_def source_inv_def negotiated_def)

lemma begin_inv:
  assumes "source_inv s"
  shows "source_inv (fst (avdtp_source_begin s))"
  using source_inv_simps(1) [OF assms] unfolding avdtp_source_begin_def
  by (auto intro!: send_command_inv simp: legal_seid_def negotiated_def not_less)

lemma operations_inv:
  assumes "source_inv s"
  shows "source_inv (fst (avdtp_source_media_channel_opened s))"
    and "source_inv (fst (avdtp_source_start s))"
    and "source_inv (fst (avdtp_source_suspend s))"
    and "source_inv (fst (avdtp_source_close s))"
  using assms source_inv_simps(1) [OF assms]
  by (auto simp: avdtp_source_media_channel_opened_def
      avdtp_source_start_def avdtp_source_suspend_def avdtp_source_close_def negotiated_def
      intro!: negotiated_send_inv negotiated_state_inv)

text \<open>The machines the operations can produce.\<close>

inductive source_reachable :: "avdtp_source \<Rightarrow> bool" where
  reachable_init: "source_reachable (avdtp_source_init caps seid hz)"
| reachable_begin: "source_reachable s \<Longrightarrow> source_reachable (fst (avdtp_source_begin s))"
| reachable_response:
    "source_reachable s \<Longrightarrow> source_reachable (fst (avdtp_source_handle_signaling s packet))"
| reachable_opened: "source_reachable s \<Longrightarrow> source_reachable (fst (avdtp_source_media_channel_opened s))"
| reachable_start: "source_reachable s \<Longrightarrow> source_reachable (fst (avdtp_source_start s))"
| reachable_suspend: "source_reachable s \<Longrightarrow> source_reachable (fst (avdtp_source_suspend s))"
| reachable_close: "source_reachable s \<Longrightarrow> source_reachable (fst (avdtp_source_close s))"

lemma reachable_source_inv: "source_reachable s \<Longrightarrow> source_inv s"
  by (induction rule: source_reachable.induct)
    (simp_all add: init_inv begin_inv operations_inv handle_signaling_inv)

section \<open>Every exchange makes progress\<close>

text \<open>
  The number of responses the machine can still ask for, the pending one included, before it
  stops sending.
\<close>

definition exchanges_left :: "avdtp_source \<Rightarrow> nat" where
  "exchanges_left s =
     (if as_state s = AVDTP_SOURCE_DISCOVER_SENT then 129
      else if as_state s = AVDTP_SOURCE_CAPABILITIES_SENT then
          2 + (if as_used_legacy_capabilities s = 0 then 2 else 1) +
          2 * (unat (as_remote_seid_count s) - Suc (unat (as_remote_seid_index s)))
      else if as_state s = AVDTP_SOURCE_CONFIGURATION_SENT then 2
      else if as_state s = AVDTP_SOURCE_OPEN_SENT then 1
      else 0)"

definition sends :: "avdtp_source \<times> avdtp_action \<Rightarrow> bool" where
  "sends sa \<longleftrightarrow> aa_kind (snd sa) = AVDTP_ACTION_SEND_SIGNALING"

lemma fail_not_sends [simp]: "\<not> sends (source_fail s e)"
  by (simp add: sends_def source_fail_def make_action_def)

lemma send_command_fields [simp]:
  "as_used_legacy_capabilities (fst (send_command s signal payload)) = as_used_legacy_capabilities s"
  "as_remote_seid_count (fst (send_command s signal payload)) = as_remote_seid_count s"
  "as_remote_seid_index (fst (send_command s signal payload)) = as_remote_seid_index s"
  "as_remote_seid (fst (send_command s signal payload)) = as_remote_seid s"
  "as_local_capabilities (fst (send_command s signal payload)) = as_local_capabilities s"
  "sends (send_command s signal payload) \<Longrightarrow>
    as_state (fst (send_command s signal payload)) = as_state s"
  by (auto simp: send_command_def sends_def source_fail_def make_action_def Let_def
      split: if_splits)

lemma send_command_rank:
  "sends (send_command s signal payload) \<Longrightarrow>
    exchanges_left (fst (send_command s signal payload)) = exchanges_left s"
  by (auto simp: send_command_def sends_def source_fail_def make_action_def exchanges_left_def
      Let_def split: if_splits)

lemma query_next_rank:
  assumes "sends (query_next_sink s)" "as_state s = AVDTP_SOURCE_CAPABILITIES_SENT"
  shows "exchanges_left (fst (query_next_sink s)) < exchanges_left s"
proof -
  have left: "unat (as_remote_seid_index s) + 1 < unat (as_remote_seid_count s)"
    using assms(1) by (auto simp: query_next_sink_def split: if_splits)
  then have "as_remote_seid_index s < as_remote_seid_count s"
    by (simp add: word_less_nat_alt)
  then have "unat (as_remote_seid_index s + 1) = Suc (unat (as_remote_seid_index s))"
    by (rule less_imp_unat_Suc)
  then show ?thesis
    using left assms unfolding query_next_sink_def query_current_sink_def Let_def
    by (simp add: exchanges_left_def, arith)
qed

lemma discovered_rank:
  assumes "sends (discovered s payload)" "as_state s = AVDTP_SOURCE_DISCOVER_SENT"
  shows "exchanges_left (fst (discovered s payload)) < exchanges_left s"
proof -
  let ?c = "collect_audio_sinks payload AVDTP_MAX_REMOTE_SEIDS"
  have n: "length ?c \<le> 63" by (rule collected_length)
  then have "unat (of_nat (length ?c) :: u8) = length ?c" by (simp add: unat_of_nat)
  then show ?thesis
    using assms n unfolding discovered_def query_current_sink_def Let_def
    by (auto simp: exchanges_left_def split: if_splits)
qed

lemma capabilities_rank:
  assumes "sends (capabilities_received s payload)" "as_state s = AVDTP_SOURCE_CAPABILITIES_SENT"
  shows "exchanges_left (fst (capabilities_received s payload)) < exchanges_left s"
proof -
  obtain st remote where find:
    "ldac_find_in_service_capabilities payload (as_remote_capabilities s) = (st, remote)"
    by (rule prod.exhaust)
  have "exchanges_left (s\<lparr>as_remote_capabilities := remote\<rparr>) = exchanges_left s"
    by (simp add: exchanges_left_def)
  then have next_sink: "exchanges_left (fst (query_next_sink (s\<lparr>as_remote_capabilities := remote\<rparr>)))
      < exchanges_left s" if "sends (query_next_sink (s\<lparr>as_remote_capabilities := remote\<rparr>))"
    using query_next_rank [OF that] assms(2) by simp
  show ?thesis
    using assms find next_sink unfolding capabilities_received_def
    by (auto simp: Let_def case_prod_beta split: if_splits) (auto simp: exchanges_left_def)
qed

lemma handle_signaling_progress:
  assumes "sends (avdtp_source_handle_signaling s packet)"
  shows "exchanges_left (fst (avdtp_source_handle_signaling s packet)) < exchanges_left s"
proof -
  have reject: "exchanges_left (fst (handle_reject s mt p)) < exchanges_left s"
    if sends: "sends (handle_reject s mt p)" for mt p
  proof (cases "as_state s = AVDTP_SOURCE_CAPABILITIES_SENT")
    case True
    then show ?thesis
    proof (cases "as_pending_signal_id s = AVDTP_SIGNAL_GET_ALL_CAPABILITIES \<and>
        as_used_legacy_capabilities s = 0")
      case legacy: True
      then show ?thesis using True sends by (simp add: handle_reject_def exchanges_left_def)
    next
      case False
      then have "handle_reject s mt p = query_next_sink s" using True by (auto simp: handle_reject_def)
      then show ?thesis using query_next_rank [of s] True sends by simp
    qed
  next
    case False
    then show ?thesis using sends by (simp add: handle_reject_def split: if_splits)
  qed
  have accept: "exchanges_left (fst (accepted_response s p)) < exchanges_left s"
    if sends: "sends (accepted_response s p)" for p
  proof (cases "as_state s")
    case AVDTP_SOURCE_CONFIGURATION_SENT
    then show ?thesis using sends by (simp add: accepted_response_def exchanges_left_def)
  qed (use sends discovered_rank [of s p] capabilities_rank [of s p] in
      \<open>simp_all add: accepted_response_def sends_def make_action_def\<close>,
      simp_all add: source_fail_def make_action_def)
  show ?thesis
    using assms reject accept unfolding avdtp_source_handle_signaling_def
    by (auto simp: Let_def case_prod_beta split: if_splits)
qed

section \<open>The negotiation\<close>

text \<open>Running the machine on the responses of a peer, as the sessions do, with the packets it sends.\<close>

fun negotiation ::
  "avdtp_source \<times> avdtp_action \<Rightarrow> bytes list \<Rightarrow> bytes list \<times> avdtp_source \<times> avdtp_action" where
  "negotiation sa [] = ([], sa)"
| "negotiation (s, a) (r # rs) =
     (if aa_kind a = AVDTP_ACTION_SEND_SIGNALING
      then let (packets, sa) = negotiation (avdtp_source_handle_signaling s r) rs
           in (aa_packet a # packets, sa)
      else ([], s, a))"

text \<open>The command a machine has just sent with the label it used.\<close>

definition sent_from :: "u8 \<Rightarrow> avdtp_source \<times> avdtp_action \<Rightarrow> bool" where
  "sent_from label sa \<longleftrightarrow>
     length (aa_packet (snd sa)) \<ge> 2 \<and> aa_packet (snd sa) ! 0 = push_bit 4 label \<and>
     as_next_transaction_label (fst sa) = (label + 1) AND 0x0F"

lemma send_command_sent:
  assumes "sends (send_command s signal payload)"
  shows "sent_from (as_next_transaction_label s) (send_command s signal payload)"
    and "aa_packet (snd (send_command s signal payload)) =
      [push_bit 4 (as_next_transaction_label s), signal] @ payload"
  using assms
  by (auto simp: send_command_def sends_def source_fail_def make_action_def sent_from_def
      avdtp_write_single_def Let_def split: if_splits)

lemmas sending_defs = query_next_sink_def query_current_sink_def Let_def

lemma query_next_sends:
  assumes "sends (query_next_sink s)"
  shows "sent_from (as_next_transaction_label s) (query_next_sink s)"
    and "as_state (fst (query_next_sink s)) = AVDTP_SOURCE_CAPABILITIES_SENT"
    and "aa_packet (snd (query_next_sink s)) ! 1 = AVDTP_SIGNAL_GET_ALL_CAPABILITIES"
  using assms send_command_sent unfolding sending_defs by (auto split: if_splits) fastforce+

text \<open>The three ways a response makes the machine send again.\<close>

definition asks_capabilities :: "avdtp_source \<Rightarrow> avdtp_source \<times> avdtp_action \<Rightarrow> bool" where
  "asks_capabilities s sa \<longleftrightarrow>
     (as_state s = AVDTP_SOURCE_DISCOVER_SENT \<and>
        aa_packet (snd sa) ! 1 = AVDTP_SIGNAL_GET_ALL_CAPABILITIES \<or>
      as_state s = AVDTP_SOURCE_CAPABILITIES_SENT \<and>
        aa_packet (snd sa) ! 1 \<in> {AVDTP_SIGNAL_GET_ALL_CAPABILITIES, AVDTP_SIGNAL_GET_CAPABILITIES}) \<and>
     as_state (fst sa) = AVDTP_SOURCE_CAPABILITIES_SENT"

definition sets_configuration :: "avdtp_source \<Rightarrow> avdtp_source \<times> avdtp_action \<Rightarrow> bool" where
  "sets_configuration s sa \<longleftrightarrow>
     as_state s = AVDTP_SOURCE_CAPABILITIES_SENT \<and>
     as_state (fst sa) = AVDTP_SOURCE_CONFIGURATION_SENT \<and>
     tl (aa_packet (snd sa)) = AVDTP_SIGNAL_SET_CONFIGURATION #
       ldac_build_set_configuration_payload 16 (as_remote_seid (fst sa)) (as_local_seid (fst sa))
         (as_configuration (fst sa))"

definition opens_stream :: "avdtp_source \<Rightarrow> avdtp_source \<times> avdtp_action \<Rightarrow> bool" where
  "opens_stream s sa \<longleftrightarrow>
     as_state s = AVDTP_SOURCE_CONFIGURATION_SENT \<and>
     as_state (fst sa) = AVDTP_SOURCE_OPEN_SENT \<and>
     aa_packet (snd sa) ! 1 = AVDTP_SIGNAL_OPEN \<and>
     as_remote_seid (fst sa) = as_remote_seid s \<and> as_local_seid (fst sa) = as_local_seid s \<and>
     as_configuration (fst sa) = as_configuration s"

lemma send_command_fields2 [simp]:
  "as_local_seid (fst (send_command s signal payload)) = as_local_seid s"
  "as_configuration (fst (send_command s signal payload)) = as_configuration s"
  by (auto simp: send_command_def source_fail_def Let_def)

lemma query_next_label [simp]:
  "as_next_transaction_label (s\<lparr>as_remote_capabilities := r\<rparr>) = as_next_transaction_label s"
  by simp

lemma discovered_sends:
  assumes "sends (discovered s p)" "as_state s = AVDTP_SOURCE_DISCOVER_SENT"
  shows "sent_from (as_next_transaction_label s) (discovered s p)"
    and "asks_capabilities s (discovered s p)"
  using assms send_command_sent unfolding discovered_def sending_defs asks_capabilities_def
  by (auto split: if_splits) fastforce+

lemma capabilities_sends:
  assumes "sends (capabilities_received s p)" "as_state s = AVDTP_SOURCE_CAPABILITIES_SENT"
  shows "sent_from (as_next_transaction_label s) (capabilities_received s p) \<and>
    (asks_capabilities s (capabilities_received s p) \<or>
     sets_configuration s (capabilities_received s p))"
proof -
  obtain st remote where find:
    "ldac_find_in_service_capabilities p (as_remote_capabilities s) = (st, remote)"
    by (rule prod.exhaust)
  obtain choice conf where choose:
    "ldac_choose_configuration (as_local_capabilities s) remote (as_preferred_sample_rate_hz s) =
      (choice, conf)"
    by (rule prod.exhaust)
  let ?s = "s\<lparr>as_remote_capabilities := remote\<rparr>"
  consider "capabilities_received s p = query_next_sink ?s"
    | "capabilities_received s p = send_command
         (?s\<lparr>as_configuration := conf, as_state := AVDTP_SOURCE_CONFIGURATION_SENT\<rparr>)
         AVDTP_SIGNAL_SET_CONFIGURATION
         (ldac_build_set_configuration_payload 16 (as_remote_seid s) (as_local_seid s) conf)"
    using assms(1) find choose unfolding capabilities_received_def
    by (auto simp: Let_def split: if_splits)
  then show ?thesis
  proof cases
    case 1
    then show ?thesis
      using query_next_sends [of ?s] assms by (simp add: asks_capabilities_def)
  next
    case 2
    then show ?thesis
      using send_command_sent assms
      by (fastforce simp: sets_configuration_def)
  qed
qed

lemma reject_sends:
  assumes "sends (handle_reject s mt p)"
  shows "sent_from (as_next_transaction_label s) (handle_reject s mt p) \<and>
    asks_capabilities s (handle_reject s mt p)"
proof -
  let ?s = "s\<lparr>as_used_legacy_capabilities := 1\<rparr>"
  consider "handle_reject s mt p = query_next_sink s"
    | "handle_reject s mt p = send_command ?s AVDTP_SIGNAL_GET_CAPABILITIES
         [push_bit 2 (as_remote_seid s)]"
    using assms by (auto simp: handle_reject_def split: if_splits)
  moreover have "as_state s = AVDTP_SOURCE_CAPABILITIES_SENT"
    using assms by (auto simp: handle_reject_def split: if_splits)
  ultimately show ?thesis
  proof cases
    case 1
    then show ?thesis
      using query_next_sends [of s] assms \<open>as_state s = _\<close> by (simp add: asks_capabilities_def)
  next
    case 2
    then show ?thesis
      using send_command_sent [of ?s AVDTP_SIGNAL_GET_CAPABILITIES] assms \<open>as_state s = _\<close>
      by (simp add: asks_capabilities_def)
  qed
qed

lemma accepted_sends:
  assumes "sends (accepted_response s p)"
  shows "sent_from (as_next_transaction_label s) (accepted_response s p) \<and>
    (asks_capabilities s (accepted_response s p) \<or> sets_configuration s (accepted_response s p) \<or>
     opens_stream s (accepted_response s p))"
proof (cases "as_state s")
  case AVDTP_SOURCE_CONFIGURATION_SENT
  let ?s = "s\<lparr>as_state := AVDTP_SOURCE_OPEN_SENT\<rparr>"
  show ?thesis
    using send_command_sent [of ?s AVDTP_SIGNAL_OPEN] assms AVDTP_SOURCE_CONFIGURATION_SENT
    by (simp add: accepted_response_def opens_stream_def)
qed (use assms discovered_sends [of s p] capabilities_sends [of s p] in
      \<open>simp_all add: accepted_response_def sends_def make_action_def\<close>,
      auto simp: source_fail_def make_action_def)

lemma handle_sends:
  assumes "sends (avdtp_source_handle_signaling s r)"
  shows "sent_from (as_next_transaction_label s) (avdtp_source_handle_signaling s r) \<and>
    (asks_capabilities s (avdtp_source_handle_signaling s r) \<or>
     sets_configuration s (avdtp_source_handle_signaling s r) \<or>
     opens_stream s (avdtp_source_handle_signaling s r))"
  using assms reject_sends accepted_sends unfolding avdtp_source_handle_signaling_def
  by (auto simp: Let_def case_prod_beta split: if_splits)


lemma send_command_kind [simp]:
  "aa_kind (snd (send_command s signal payload)) \<in> {AVDTP_ACTION_SEND_SIGNALING, AVDTP_ACTION_ERROR}"
  by (simp add: send_command_def source_fail_def make_action_def Let_def)

lemma source_fail_kind [simp]: "aa_kind (snd (source_fail s e)) = AVDTP_ACTION_ERROR"
  by (simp add: source_fail_def make_action_def)

lemma negotiating_kinds:
  "aa_kind (snd (query_next_sink s)) \<in> {AVDTP_ACTION_SEND_SIGNALING, AVDTP_ACTION_ERROR}"
  "aa_kind (snd (discovered s p)) \<in> {AVDTP_ACTION_SEND_SIGNALING, AVDTP_ACTION_ERROR}"
  "aa_kind (snd (handle_reject s mt p)) \<in> {AVDTP_ACTION_SEND_SIGNALING, AVDTP_ACTION_ERROR}"
  using send_command_kind
  by (auto simp: query_next_sink_def query_current_sink_def discovered_def handle_reject_def Let_def)

lemma capabilities_kind:
  "aa_kind (snd (capabilities_received s p)) \<in> {AVDTP_ACTION_SEND_SIGNALING, AVDTP_ACTION_ERROR}"
  using send_command_kind negotiating_kinds(1)
  by (auto simp: capabilities_received_def Let_def case_prod_beta)

text \<open>What a response can lead to, by the state that waits for it.\<close>

lemma handle_outcome:
  assumes "aa_kind (snd (avdtp_source_handle_signaling s r)) \<notin>
      {AVDTP_ACTION_SEND_SIGNALING, AVDTP_ACTION_ERROR}"
  shows "avdtp_source_handle_signaling s r =
      (if as_state s = AVDTP_SOURCE_OPEN_SENT
       then (s\<lparr>as_state := AVDTP_SOURCE_WAITING_FOR_MEDIA_CHANNEL\<rparr>,
             make_action AVDTP_ACTION_OPEN_MEDIA_CHANNEL)
       else if as_state s = AVDTP_SOURCE_START_SENT
       then (s\<lparr>as_state := AVDTP_SOURCE_STREAMING\<rparr>, make_action AVDTP_ACTION_STREAM_READY)
       else if as_state s = AVDTP_SOURCE_SUSPEND_SENT
       then (s\<lparr>as_state := AVDTP_SOURCE_OPEN\<rparr>, make_action AVDTP_ACTION_STREAM_SUSPENDED)
       else (s\<lparr>as_state := AVDTP_SOURCE_CLOSED\<rparr>, make_action AVDTP_ACTION_SESSION_CLOSED))"
    and "as_state s \<in> {AVDTP_SOURCE_OPEN_SENT, AVDTP_SOURCE_START_SENT, AVDTP_SOURCE_SUSPEND_SENT,
      AVDTP_SOURCE_CLOSE_SENT}"
proof -
  let ?h = "avdtp_source_handle_signaling s r"
  obtain payload where h: "?h = accepted_response s payload"
    using assms negotiating_kinds(3) unfolding avdtp_source_handle_signaling_def
    by (auto simp: Let_def case_prod_beta split: if_splits)
  have "as_state s \<in> {AVDTP_SOURCE_OPEN_SENT, AVDTP_SOURCE_START_SENT, AVDTP_SOURCE_SUSPEND_SENT,
      AVDTP_SOURCE_CLOSE_SENT}"
    using assms h negotiating_kinds(2) capabilities_kind
      send_command_kind [of "s\<lparr>as_state := AVDTP_SOURCE_OPEN_SENT\<rparr>" AVDTP_SIGNAL_OPEN
        "[push_bit 2 (as_remote_seid s)]"]
    by (cases "as_state s") (auto simp: accepted_response_def)
  then show "as_state s \<in> {AVDTP_SOURCE_OPEN_SENT, AVDTP_SOURCE_START_SENT,
      AVDTP_SOURCE_SUSPEND_SENT, AVDTP_SOURCE_CLOSE_SENT}"
    and "?h = (if as_state s = AVDTP_SOURCE_OPEN_SENT
       then (s\<lparr>as_state := AVDTP_SOURCE_WAITING_FOR_MEDIA_CHANNEL\<rparr>,
             make_action AVDTP_ACTION_OPEN_MEDIA_CHANNEL)
       else if as_state s = AVDTP_SOURCE_START_SENT
       then (s\<lparr>as_state := AVDTP_SOURCE_STREAMING\<rparr>, make_action AVDTP_ACTION_STREAM_READY)
       else if as_state s = AVDTP_SOURCE_SUSPEND_SENT
       then (s\<lparr>as_state := AVDTP_SOURCE_OPEN\<rparr>, make_action AVDTP_ACTION_STREAM_SUSPENDED)
       else (s\<lparr>as_state := AVDTP_SOURCE_CLOSED\<rparr>, make_action AVDTP_ACTION_SESSION_CLOSED))"
    by (auto simp: h accepted_response_def)
qed

lemma handle_sends_left:
  assumes "sends (avdtp_source_handle_signaling s r)"
  shows "0 < exchanges_left (fst (avdtp_source_handle_signaling s r))"
  using handle_sends [OF assms]
  by (auto simp: asks_capabilities_def sets_configuration_def opens_stream_def exchanges_left_def)

lemma negotiation_stops: "\<not> sends sa \<Longrightarrow> negotiation sa rs = ([], sa)"
  by (cases sa; cases rs) (simp_all add: sends_def)

lemma negotiation_bounded:
  assumes "negotiation sa rs = (packets, s', a')"
    and "sends sa \<Longrightarrow> 0 < exchanges_left (fst sa)"
  shows "length packets \<le> exchanges_left (fst sa)"
  using assms
proof (induction rs arbitrary: sa packets)
  case (Cons r rs)
  show ?case
  proof (cases "sends sa")
    case True
    let ?h = "avdtp_source_handle_signaling (fst sa) r"
    obtain ps s1 a1 where rest: "negotiation ?h rs = (ps, s1, a1)"
      by (metis prod_cases3)
    have "length ps < exchanges_left (fst sa)"
    proof (cases "sends ?h")
      case sent: True
      have "s1 = s'" "a1 = a'" using Cons.prems(1) True rest by (cases sa; simp add: sends_def)+
      then have "length ps \<le> exchanges_left (fst ?h)"
        using Cons.IH [of ?h ps] rest handle_sends_left [OF sent] by simp
      then show ?thesis using handle_signaling_progress [OF sent] by simp
    next
      case False
      then have "ps = []" using rest negotiation_stops [of ?h rs] by simp
      then show ?thesis using Cons.prems(2) True by simp
    qed
    then show ?thesis using Cons.prems(1) True rest by (cases sa) (auto simp: sends_def)
  qed (use Cons.prems(1) negotiation_stops [of sa "r # rs"] in simp)
qed simp

lemma negotiation_step:
  assumes "negotiation sa rs = (packets, s', a')" "sends sa" "\<not> sends (s', a')"
  obtains r rs' packets' where "packets = aa_packet (snd sa) # packets'"
    "negotiation (avdtp_source_handle_signaling (fst sa) r) rs' = (packets', s', a')"
proof (cases rs)
  case Nil
  then show ?thesis using assms by auto
next
  case (Cons r rs')
  obtain ps s1 a1 where "negotiation (avdtp_source_handle_signaling (fst sa) r) rs' = (ps, s1, a1)"
    by (metis prod_cases3)
  then show ?thesis using assms Cons that by (cases sa) (auto simp: sends_def)
qed

text \<open>A negotiation that ends with the media channel to be opened, from its end backwards.\<close>

lemma completed_step:
  assumes media: "aa_kind a' = AVDTP_ACTION_OPEN_MEDIA_CHANNEL"
    and run: "negotiation sa rs = (packets, s', a')" "sends sa"
  obtains r rs' packets' where "packets = aa_packet (snd sa) # packets'"
    "negotiation (avdtp_source_handle_signaling (fst sa) r) rs' = (packets', s', a')"
    "sends (avdtp_source_handle_signaling (fst sa) r) \<or>
     packets' = [] \<and> as_state (fst sa) = AVDTP_SOURCE_OPEN_SENT \<and>
     s' = (fst sa)\<lparr>as_state := AVDTP_SOURCE_WAITING_FOR_MEDIA_CHANNEL\<rparr>"
proof -
  have "\<not> sends (s', a')" using media by (simp add: sends_def)
  from negotiation_step [OF run this] obtain r rs' packets' where
    r: "packets = aa_packet (snd sa) # packets'"
      "negotiation (avdtp_source_handle_signaling (fst sa) r) rs' = (packets', s', a')"
    by metis
  have "packets' = [] \<and> as_state (fst sa) = AVDTP_SOURCE_OPEN_SENT \<and>
     s' = (fst sa)\<lparr>as_state := AVDTP_SOURCE_WAITING_FOR_MEDIA_CHANNEL\<rparr>"
    if "\<not> sends (avdtp_source_handle_signaling (fst sa) r)"
  proof -
    have e: "packets' = []" "avdtp_source_handle_signaling (fst sa) r = (s', a')"
      using r(2) negotiation_stops [OF that] by simp_all
    then show ?thesis
      using handle_outcome [of "fst sa" r] media
      by (auto simp: make_action_def split: if_splits)
  qed
  then show ?thesis using r that by blast
qed

lemma completed_from_open_sent:
  assumes media: "aa_kind a' = AVDTP_ACTION_OPEN_MEDIA_CHANNEL"
    and run: "negotiation sa rs = (packets, s', a')" "sends sa"
    and state: "as_state (fst sa) = AVDTP_SOURCE_OPEN_SENT"
  shows "packets = [aa_packet (snd sa)] \<and>
    s' = (fst sa)\<lparr>as_state := AVDTP_SOURCE_WAITING_FOR_MEDIA_CHANNEL\<rparr>"
  using media run
proof (rule completed_step)
  fix r rs' packets'
  assume "packets = aa_packet (snd sa) # packets'"
    and "sends (avdtp_source_handle_signaling (fst sa) r) \<or>
     packets' = [] \<and> as_state (fst sa) = AVDTP_SOURCE_OPEN_SENT \<and>
     s' = (fst sa)\<lparr>as_state := AVDTP_SOURCE_WAITING_FOR_MEDIA_CHANNEL\<rparr>"
  then show ?thesis
    using handle_sends [of "fst sa" r] state
    by (auto simp: asks_capabilities_def sets_configuration_def opens_stream_def)
qed

lemma completed_from_configuration_sent:
  assumes media: "aa_kind a' = AVDTP_ACTION_OPEN_MEDIA_CHANNEL"
    and run: "negotiation sa rs = (packets, s', a')" "sends sa"
    and state: "as_state (fst sa) = AVDTP_SOURCE_CONFIGURATION_SENT"
  shows "\<exists>packet. packets = [aa_packet (snd sa), packet] \<and> packet ! 1 = AVDTP_SIGNAL_OPEN \<and>
    as_remote_seid s' = as_remote_seid (fst sa) \<and> as_local_seid s' = as_local_seid (fst sa) \<and>
    as_configuration s' = as_configuration (fst sa)"
  using media run
proof (rule completed_step)
  fix r rs' packets'
  let ?h = "avdtp_source_handle_signaling (fst sa) r"
  assume p: "packets = aa_packet (snd sa) # packets'" "negotiation ?h rs' = (packets', s', a')"
    and "sends ?h \<or> packets' = [] \<and> as_state (fst sa) = AVDTP_SOURCE_OPEN_SENT \<and>
     s' = (fst sa)\<lparr>as_state := AVDTP_SOURCE_WAITING_FOR_MEDIA_CHANNEL\<rparr>"
  then have sends: "sends ?h" using state by auto
  then have "opens_stream (fst sa) ?h"
    using handle_sends [of "fst sa" r] state
    by (auto simp: asks_capabilities_def sets_configuration_def)
  then show ?thesis using completed_from_open_sent [OF media p(2) sends] p(1) by (auto simp: opens_stream_def)
qed

lemma completed_from_capabilities_sent:
  assumes media: "aa_kind a' = AVDTP_ACTION_OPEN_MEDIA_CHANNEL"
    and run: "negotiation sa rs = (packets, s', a')" "sends sa"
    and state: "as_state (fst sa) = AVDTP_SOURCE_CAPABILITIES_SENT"
  shows "\<exists>queries set_packet open_packet.
    packets = aa_packet (snd sa) # queries @ [set_packet, open_packet] \<and>
    (\<lambda>p. p ! 1) ` set queries \<subseteq> {AVDTP_SIGNAL_GET_ALL_CAPABILITIES, AVDTP_SIGNAL_GET_CAPABILITIES} \<and>
    tl set_packet = AVDTP_SIGNAL_SET_CONFIGURATION #
      ldac_build_set_configuration_payload 16 (as_remote_seid s') (as_local_seid s')
        (as_configuration s') \<and>
    open_packet ! 1 = AVDTP_SIGNAL_OPEN"
  using run state
proof (induction packets arbitrary: sa rs)
  case Nil
  from completed_step [OF media Nil(1,2)] show ?case by blast
next
  case (Cons p packets)
  from media Cons.prems(1,2) show ?case
  proof (rule completed_step)
    fix r rs' packets'
    let ?h = "avdtp_source_handle_signaling (fst sa) r"
    assume p: "p # packets = aa_packet (snd sa) # packets'"
        "negotiation ?h rs' = (packets', s', a')"
      and "sends ?h \<or> packets' = [] \<and> as_state (fst sa) = AVDTP_SOURCE_OPEN_SENT \<and>
       s' = (fst sa)\<lparr>as_state := AVDTP_SOURCE_WAITING_FOR_MEDIA_CHANNEL\<rparr>"
    then have sends: "sends ?h" using Cons.prems(3) by auto
    then consider "asks_capabilities (fst sa) ?h" | "sets_configuration (fst sa) ?h"
      using handle_sends [of "fst sa" r] Cons.prems(3) by (auto simp: opens_stream_def)
    then show ?thesis
    proof cases
      case 1
      then obtain queries set_packet open_packet where
        "packets = aa_packet (snd ?h) # queries @ [set_packet, open_packet]"
        "(\<lambda>p. p ! 1) ` set queries \<subseteq>
          {AVDTP_SIGNAL_GET_ALL_CAPABILITIES, AVDTP_SIGNAL_GET_CAPABILITIES}"
        "tl set_packet = AVDTP_SIGNAL_SET_CONFIGURATION #
          ldac_build_set_configuration_payload 16 (as_remote_seid s') (as_local_seid s')
            (as_configuration s')"
        "open_packet ! 1 = AVDTP_SIGNAL_OPEN"
        using Cons.IH [of ?h rs'] p sends by (auto simp: asks_capabilities_def)
      then show ?thesis
        using 1 p by (intro exI [of _ "aa_packet (snd ?h) # queries"] exI)
          (auto simp: asks_capabilities_def)
    next
      case 2
      then obtain packet where "packets' = [aa_packet (snd ?h), packet]"
          "packet ! 1 = AVDTP_SIGNAL_OPEN" "as_remote_seid s' = as_remote_seid (fst ?h)"
          "as_local_seid s' = as_local_seid (fst ?h)" "as_configuration s' = as_configuration (fst ?h)"
        using completed_from_configuration_sent [OF media p(2) sends]
        by (auto simp: sets_configuration_def)
      then have "p # packets = aa_packet (snd sa) # [] @ [aa_packet (snd ?h), packet] \<and>
          (\<lambda>p. p ! 1) ` set [] \<subseteq> {AVDTP_SIGNAL_GET_ALL_CAPABILITIES, AVDTP_SIGNAL_GET_CAPABILITIES} \<and>
          tl (aa_packet (snd ?h)) = AVDTP_SIGNAL_SET_CONFIGURATION #
            ldac_build_set_configuration_payload 16 (as_remote_seid s') (as_local_seid s')
              (as_configuration s') \<and> packet ! 1 = AVDTP_SIGNAL_OPEN"
        using 2 p(1) by (simp add: sets_configuration_def)
      then show ?thesis by blast
    qed
  qed
qed

lemma completed_from_discover_sent:
  assumes media: "aa_kind a' = AVDTP_ACTION_OPEN_MEDIA_CHANNEL"
    and run: "negotiation sa rs = (packets, s', a')" "sends sa"
    and state: "as_state (fst sa) = AVDTP_SOURCE_DISCOVER_SENT"
  shows "\<exists>query queries set_packet open_packet.
    packets = aa_packet (snd sa) # query # queries @ [set_packet, open_packet] \<and>
    query ! 1 = AVDTP_SIGNAL_GET_ALL_CAPABILITIES \<and>
    (\<lambda>p. p ! 1) ` set queries \<subseteq> {AVDTP_SIGNAL_GET_ALL_CAPABILITIES, AVDTP_SIGNAL_GET_CAPABILITIES} \<and>
    tl set_packet = AVDTP_SIGNAL_SET_CONFIGURATION #
      ldac_build_set_configuration_payload 16 (as_remote_seid s') (as_local_seid s')
        (as_configuration s') \<and>
    open_packet ! 1 = AVDTP_SIGNAL_OPEN"
  using media run
proof (rule completed_step)
  fix r rs' packets'
  let ?h = "avdtp_source_handle_signaling (fst sa) r"
  assume p: "packets = aa_packet (snd sa) # packets'" "negotiation ?h rs' = (packets', s', a')"
    and "sends ?h \<or> packets' = [] \<and> as_state (fst sa) = AVDTP_SOURCE_OPEN_SENT \<and>
     s' = (fst sa)\<lparr>as_state := AVDTP_SOURCE_WAITING_FOR_MEDIA_CHANNEL\<rparr>"
  then have sends: "sends ?h" using state by auto
  then have ask: "asks_capabilities (fst sa) ?h"
    using handle_sends [of "fst sa" r] state
    by (auto simp: opens_stream_def sets_configuration_def)
  then show ?thesis
    using completed_from_capabilities_sent [OF media p(2) sends] p(1) state
    by (auto simp: asks_capabilities_def)
qed

lemma handle_local [simp]:
  "as_local_capabilities (fst (avdtp_source_handle_signaling s r)) = as_local_capabilities s"
  "as_local_seid (fst (avdtp_source_handle_signaling s r)) = as_local_seid s"
proof -
  have next_sink: "as_local_capabilities (fst (query_next_sink s)) = as_local_capabilities s"
    "as_local_seid (fst (query_next_sink s)) = as_local_seid s" for s
    by (simp_all add: query_next_sink_def query_current_sink_def source_fail_def Let_def)
  have capabilities: "as_local_capabilities (fst (capabilities_received s p)) = as_local_capabilities s"
    "as_local_seid (fst (capabilities_received s p)) = as_local_seid s" for p
    by (simp_all add: capabilities_received_def next_sink source_fail_def Let_def case_prod_beta)
  have discovered: "as_local_capabilities (fst (discovered s p)) = as_local_capabilities s"
    "as_local_seid (fst (discovered s p)) = as_local_seid s" for p
    by (simp_all add: discovered_def query_current_sink_def source_fail_def Let_def)
  have accepted: "as_local_capabilities (fst (accepted_response s p)) = as_local_capabilities s"
    "as_local_seid (fst (accepted_response s p)) = as_local_seid s" for p
    by (cases "as_state s"; simp add: accepted_response_def capabilities discovered source_fail_def)+
  have reject: "as_local_capabilities (fst (handle_reject s mt p)) = as_local_capabilities s"
    "as_local_seid (fst (handle_reject s mt p)) = as_local_seid s" for mt p
    by (simp_all add: handle_reject_def next_sink source_fail_def)
  show "as_local_capabilities (fst (avdtp_source_handle_signaling s r)) = as_local_capabilities s"
    "as_local_seid (fst (avdtp_source_handle_signaling s r)) = as_local_seid s"
    by (simp_all add: avdtp_source_handle_signaling_def accepted reject source_fail_def Let_def
        case_prod_beta)
qed

lemma negotiation_preserves:
  assumes "negotiation sa rs = (packets, s', a')" "source_inv (fst sa)"
  shows "source_inv s' \<and> as_local_capabilities s' = as_local_capabilities (fst sa) \<and>
    as_local_seid s' = as_local_seid (fst sa)"
  using assms
proof (induction sa rs arbitrary: packets rule: negotiation.induct)
  case (2 s a r rs)
  obtain ps s1 a1 where "negotiation (avdtp_source_handle_signaling s r) rs = (ps, s1, a1)"
    by (metis prod_cases3)
  then show ?case using 2 handle_signaling_inv [of s r] by (auto split: if_splits)
qed auto

text \<open>The transaction label \<open>i\<close> commands after \<open>l\<close>: a four-bit counter.\<close>

definition label_after :: "u8 \<Rightarrow> nat \<Rightarrow> u8" where
  "label_after l i = (l + of_nat i) AND 0x0F"

lemma mask_15: "(x :: u8) AND 0x0F = take_bit 4 x"
  by (simp add: take_bit_eq_mask mask_eq_exp_minus_1)

lemma label_after_0: "l AND 0x0F = l \<Longrightarrow> label_after l 0 = l"
  by (simp add: label_after_def)

lemma label_after_Suc: "label_after ((l + 1) AND 0x0F) i = label_after l (Suc i)"
proof -
  have "take_bit 4 (take_bit 4 x + y) = take_bit 4 (x + y)" for x y :: u8
    by (simp add: word_unat_eq_iff unsigned_take_bit_eq unat_word_ariths take_bit_eq_mod
        mod_mod_cancel mod_simps)
  then show ?thesis by (simp add: label_after_def mask_15 add.assoc)
qed

lemma negotiation_labels:
  assumes "negotiation sa rs = (packets, s', a')" "sent_from l sa" "l AND 0x0F = l"
  shows "map (\<lambda>p. p ! 0) packets =
    map (\<lambda>i. push_bit 4 (label_after l i)) [0..<length packets]"
  using assms
proof (induction rs arbitrary: sa packets l)
  case (Cons r rs)
  show ?case
  proof (cases "sends sa")
    case True
    let ?h = "avdtp_source_handle_signaling (fst sa) r"
    obtain ps s1 a1 where rest: "negotiation ?h rs = (ps, s1, a1)"
      by (metis prod_cases3)
    have packets: "packets = aa_packet (snd sa) # ps" and same: "s1 = s'" "a1 = a'"
      using Cons.prems(1) True rest by (cases sa; simp add: sends_def)+
    let ?l = "(l + 1) AND 0x0F"
    have labels: "map (\<lambda>p. p ! 0) ps =
      map (\<lambda>i. push_bit 4 (label_after ?l i)) [0..<length ps]"
    proof (cases "sends ?h")
      case sent: True
      have "as_next_transaction_label (fst sa) = ?l"
        using Cons.prems(2) by (simp add: sent_from_def)
      then have "sent_from ?l ?h" using handle_sends [OF sent] by simp
      then show ?thesis
        using Cons.IH [of ?h ps ?l] rest same by (simp add: and.assoc)
    next
      case False
      then show ?thesis using rest negotiation_stops [of ?h rs] by simp
    qed
    have "[0..<length packets] = 0 # map Suc [0..<length ps]"
      by (simp add: packets upt_conv_Cons map_Suc_upt del: upt_Suc)
    then show ?thesis
      using labels Cons.prems(2) label_after_0 [OF Cons.prems(3)]
      by (simp add: packets sent_from_def label_after_Suc del: upt_Suc)
  qed (use Cons.prems(1) negotiation_stops [of sa "r # rs"] in simp)
qed simp

lemma begin_sends:
  fixes caps seid hz
  defines "sa \<equiv> avdtp_source_begin (avdtp_source_init caps seid hz)"
  assumes "sends sa"
  shows "sent_from 0 sa" and "tl (aa_packet (snd sa)) = [AVDTP_SIGNAL_DISCOVER]"
    and "as_state (fst sa) = AVDTP_SOURCE_DISCOVER_SENT"
proof -
  define s where "s = (avdtp_source_init caps seid hz)\<lparr>as_state := AVDTP_SOURCE_DISCOVER_SENT\<rparr>"
  have sa: "sa = send_command s AVDTP_SIGNAL_DISCOVER []"
    using assms by (auto simp: avdtp_source_begin_def s_def split: if_splits)
  have "as_next_transaction_label s = 0" "as_state s = AVDTP_SOURCE_DISCOVER_SENT"
    by (simp_all add: s_def avdtp_source_init_def)
  then show "sent_from 0 sa" "tl (aa_packet (snd sa)) = [AVDTP_SIGNAL_DISCOVER]"
      "as_state (fst sa) = AVDTP_SOURCE_DISCOVER_SENT"
    using assms(2) send_command_sent [of s AVDTP_SIGNAL_DISCOVER "[]"] by (simp_all add: sa)
qed

lemma begin_local:
  "as_local_capabilities (fst (avdtp_source_begin s)) = as_local_capabilities s"
  "as_local_seid (fst (avdtp_source_begin s)) = as_local_seid s"
  by (simp_all add: avdtp_source_begin_def source_fail_def)

lemma supported_by_masked:
  "supported_by c \<lparr>lc_sample_rates = lc_sample_rates caps AND m,
      lc_channel_modes = lc_channel_modes caps AND n\<rparr> \<Longrightarrow> supported_by c caps"
  by (auto simp: supported_by_def bit_eq_iff bit_simps)

lemma completed_configured:
  assumes "negotiation (avdtp_source_begin (avdtp_source_init caps seid hz)) rs = (packets, s, a)"
    and "as_state s = AVDTP_SOURCE_WAITING_FOR_MEDIA_CHANNEL"
  shows "legal_seid (as_remote_seid s) \<and> legal_configuration (as_configuration s) \<and>
    supported_by (as_configuration s) caps \<and>
    supported_by (as_configuration s) (as_remote_capabilities s) \<and> as_local_seid s = seid"
proof -
  note p = negotiation_preserves [OF assms(1) begin_inv [OF init_inv]]
  then have "configured s" using source_inv_simps(4) [of s] assms(2) by (simp add: negotiated_def)
  moreover have "as_local_capabilities s =
      \<lparr>lc_sample_rates = lc_sample_rates caps AND LDAC_SF_ALL,
       lc_channel_modes = lc_channel_modes caps AND LDAC_CM_ALL\<rparr>" "as_local_seid s = seid"
    using p by (simp_all add: begin_local avdtp_source_init_def)
  ultimately show ?thesis
    using supported_by_masked [of "as_configuration s" caps LDAC_SF_ALL LDAC_CM_ALL] by (simp add: configured_def)
qed

text \<open>The action that asks for the media channel comes with the state that waits for it.\<close>

definition media_consistent :: "avdtp_source \<times> avdtp_action \<Rightarrow> bool" where
  "media_consistent sa \<longleftrightarrow>
     aa_kind (snd sa) \<noteq> AVDTP_ACTION_OPEN_MEDIA_CHANNEL \<or>
     as_state (fst sa) = AVDTP_SOURCE_WAITING_FOR_MEDIA_CHANNEL"

lemma handle_media_consistent: "media_consistent (avdtp_source_handle_signaling s r)"
  using handle_outcome [of s r]
  by (auto simp: media_consistent_def make_action_def split: if_splits)

lemma begin_kind:
  "aa_kind (snd (avdtp_source_begin s)) \<in> {AVDTP_ACTION_SEND_SIGNALING, AVDTP_ACTION_ERROR}"
  using send_command_kind [of "s\<lparr>as_state := AVDTP_SOURCE_DISCOVER_SENT\<rparr>" AVDTP_SIGNAL_DISCOVER "[]"]
  by (simp add: avdtp_source_begin_def)

lemma begin_media_consistent: "media_consistent (avdtp_source_begin s)"
  using begin_kind [of s] by (auto simp: media_consistent_def)

lemma negotiation_media_consistent:
  assumes "negotiation sa rs = (packets, s', a')" "media_consistent sa"
  shows "media_consistent (s', a')"
  using assms
proof (induction sa rs arbitrary: packets rule: negotiation.induct)
  case (2 s a r rs)
  obtain ps s1 a1 where "negotiation (avdtp_source_handle_signaling s r) rs = (ps, s1, a1)"
    by (metis prod_cases3)
  then show ?case using 2 handle_media_consistent by (auto split: if_splits)
qed auto

text \<open>C36: what a negotiation does on the wire, whatever the peer answers.  It ends after at most
  129 commands, labelled by a four-bit counter.  If it ends by asking for the media channel, it has
  sent exactly a discovery, one or more capability queries, the configuration and the open, in this
  order; the configuration is one legal rate and mode that both sides announced, and it was sent,
  with the two endpoint identifiers, as the machine holds it.\<close>

theorem negotiation_outcome:
  assumes "negotiation (avdtp_source_begin (avdtp_source_init caps seid hz)) responses =
      (packets, s, a)"
  shows "length packets \<le> 129 \<and>
    map (\<lambda>p. p ! 0) packets = map (\<lambda>i. push_bit 4 (label_after 0 i)) [0..<length packets] \<and>
    (aa_kind a = AVDTP_ACTION_OPEN_MEDIA_CHANNEL \<longrightarrow>
       (\<exists>discover query queries set_packet open_packet.
          packets = discover # query # queries @ [set_packet, open_packet] \<and>
          tl discover = [AVDTP_SIGNAL_DISCOVER] \<and>
          query ! 1 = AVDTP_SIGNAL_GET_ALL_CAPABILITIES \<and>
          (\<lambda>p. p ! 1) ` set queries \<subseteq>
            {AVDTP_SIGNAL_GET_ALL_CAPABILITIES, AVDTP_SIGNAL_GET_CAPABILITIES} \<and>
          tl set_packet = AVDTP_SIGNAL_SET_CONFIGURATION #
            ldac_build_set_configuration_payload 16 (as_remote_seid s) seid (as_configuration s) \<and>
          open_packet ! 1 = AVDTP_SIGNAL_OPEN) \<and>
       legal_configuration (as_configuration s) \<and> supported_by (as_configuration s) caps \<and>
       supported_by (as_configuration s) (as_remote_capabilities s))"
proof (cases "sends (avdtp_source_begin (avdtp_source_init caps seid hz))")
  case True
  note first = begin_sends [OF True]
  then have "length packets \<le> 129"
    using negotiation_bounded [OF assms] by (simp add: exchanges_left_def)
  moreover have "map (\<lambda>p. p ! 0) packets = map (\<lambda>i. push_bit 4 (label_after 0 i)) [0..<length packets]"
    using negotiation_labels [OF assms first(1)] by simp
  moreover have "as_state s = AVDTP_SOURCE_WAITING_FOR_MEDIA_CHANNEL"
    if "aa_kind a = AVDTP_ACTION_OPEN_MEDIA_CHANNEL"
    using negotiation_media_consistent [OF assms begin_media_consistent] that
    by (simp add: media_consistent_def)
  ultimately show ?thesis
    using completed_from_discover_sent [OF _ assms True first(3)] completed_configured [OF assms]
      first(2) by auto
next
  case False
  then have "packets = []" "aa_kind a \<noteq> AVDTP_ACTION_OPEN_MEDIA_CHANNEL"
    using assms negotiation_stops begin_kind [of "avdtp_source_init caps seid hz"] by auto
  then show ?thesis by simp
qed

text \<open>A peer with one LDAC sink that accepts everything.\<close>

definition accepting_peer :: "bytes list" where
  "accepting_peer =
     [[0x02, 0x01, 0x0C, 0x08],
      [0x12, 0x0C, 0x01, 0x00, 0x07, 0x0A, 0x00, 0xFF, 0x2D, 0x01, 0x00, 0x00, 0xAA, 0x00, 0x3C, 0x07],
      [0x22, 0x03], [0x32, 0x06]]"

theorem negotiation_outcome_witness:
  "aa_kind (snd (snd (negotiation (avdtp_source_begin (avdtp_source_init
      \<lparr>lc_sample_rates = LDAC_SF_ALL, lc_channel_modes = LDAC_CM_STEREO\<rparr> 1 96000)) accepting_peer)))
    = AVDTP_ACTION_OPEN_MEDIA_CHANNEL \<and>
   legal_configuration (as_configuration (fst (snd (negotiation (avdtp_source_begin
      (avdtp_source_init \<lparr>lc_sample_rates = LDAC_SF_ALL, lc_channel_modes = LDAC_CM_STEREO\<rparr> 1 96000))
      accepting_peer))))"
proof -
  let ?n = "negotiation (avdtp_source_begin (avdtp_source_init
      \<lparr>lc_sample_rates = LDAC_SF_ALL, lc_channel_modes = LDAC_CM_STEREO\<rparr> 1 96000)) accepting_peer"
  have "aa_kind (snd (snd ?n)) = AVDTP_ACTION_OPEN_MEDIA_CHANNEL" by code_simp
  moreover have "?n = (fst ?n, fst (snd ?n), snd (snd ?n))" by simp
  ultimately show ?thesis using negotiation_outcome [of _ _ _ accepting_peer] by blast
qed

end
