(* ===== verification/Transport_Discovery.thy ===== *)
theory Transport_Discovery
  imports Avdtp
begin

text \<open>
  One discovery session over the AVDTP signalling channel: \<open>agent/v1_transport_session.cpp\<close>.

  The backend is the abstract class \<open>V1TransportDiscoveryBackend\<close>: a record of functions on the
  state \<open>'w\<close> of the environment, one per virtual method, each returning what the method returns
  and writes through its pointers, and the next state.  The response buffer is the list of the
  bytes the backend reports as received.  The cancel probe reads and may change the environment
  too; a null probe is \<^const>\<open>None\<close>.  Every return after a successful open goes through \<open>Finish\<close>,
  so the model runs the part between them and finishes its result.
\<close>

section \<open>Interface and data\<close>

record V1TransportOpenDiagnostics =
  od_query_attempts :: u32
  od_query_error :: u32
  od_query_bytes :: u32
  od_sequence :: u32
  od_operation :: u32
  od_io_status :: int
  od_brb_status :: int
  od_bluetooth_status :: u32
  od_remote_bluetooth_address :: u64
  od_channel_flags :: u32
  od_flags :: u32
  od_psm :: u16
  od_response :: u16
  od_response_status :: u16
  od_available :: bool
  od_remote_response_valid :: bool

definition V1TransportOpenDiagnostics_default :: V1TransportOpenDiagnostics where
  "V1TransportOpenDiagnostics_default =
     \<lparr>od_query_attempts = 0, od_query_error = 0, od_query_bytes = 0, od_sequence = 0,
      od_operation = 0, od_io_status = 0, od_brb_status = 0, od_bluetooth_status = 0,
      od_remote_bluetooth_address = 0, od_channel_flags = 0, od_flags = 0, od_psm = 0,
      od_response = 0, od_response_status = 0, od_available = False,
      od_remote_response_valid = False\<rparr>"

text \<open>
  \<open>be_OpenSignaling\<close> takes the timeout and gives success and the error; \<open>be_ExchangeSignaling\<close>
  takes the request, the capacity of the response and the timeout.
\<close>

record 'w V1TransportDiscoveryBackend =
  be_OpenSignaling :: "u32 \<Rightarrow> 'w \<Rightarrow> (bool \<times> u32) \<times> 'w"
  be_GetLastOpenDiagnostics :: "'w \<Rightarrow> V1TransportOpenDiagnostics"
  be_ExchangeSignaling :: "bytes \<Rightarrow> nat \<Rightarrow> u32 \<Rightarrow> 'w \<Rightarrow> (bool \<times> bytes \<times> u32) \<times> 'w"
  be_CloseSignaling :: "'w \<Rightarrow> (bool \<times> u32) \<times> 'w"

type_synonym 'w V1TransportCancelProbe = "('w \<Rightarrow> bool \<times> 'w) option"

datatype V1TransportDiscoveryDisposition =
  Discovery_Succeeded | Discovery_Cancelled | Discovery_InvalidConfiguration
| Discovery_BackendFailure | Discovery_ProtocolFailure | Discovery_CleanupFailure

datatype V1TransportDiscoveryStage =
  DiscoveryStage_None | DiscoveryStage_OpenSignaling | DiscoveryStage_Discover
| DiscoveryStage_GetCapabilities | DiscoveryStage_CloseSignaling

datatype V1TransportDiscoveryProtocolError =
  DiscoveryError_None | DiscoveryError_InvalidResponse | DiscoveryError_RemoteRejected
| DiscoveryError_NoAudioSink | DiscoveryError_LdacNotSupported | DiscoveryError_NoCommonConfiguration

record V1TransportDiscoveryOptions =
  do_open_timeout_ms :: u32
  do_exchange_timeout_ms :: u32
  do_preferred_sample_rate_hz :: u32
  do_local_capabilities :: ldac_capabilities

record V1TransportDiscoveryResult =
  dr_disposition :: V1TransportDiscoveryDisposition
  dr_primary_disposition :: V1TransportDiscoveryDisposition
  dr_stage :: V1TransportDiscoveryStage
  dr_protocol_error :: V1TransportDiscoveryProtocolError
  dr_backend_error :: u32
  dr_cleanup_error :: u32
  dr_remote_reject_error :: u8
  dr_remote_seid :: u8
  dr_remote_capabilities :: ldac_capabilities
  dr_configuration :: ldac_configuration
  dr_open_attempts :: u32
  dr_signaling_exchanges :: u32
  dr_sink_candidates :: u32
  dr_legacy_capability_fallbacks :: u32
  dr_signaling_opened :: bool
  dr_close_attempted :: bool
  dr_close_succeeded :: bool

definition V1TransportDiscoveryOptions_default :: V1TransportDiscoveryOptions where
  "V1TransportDiscoveryOptions_default =
     \<lparr>do_open_timeout_ms = 10000, do_exchange_timeout_ms = 5000,
      do_preferred_sample_rate_hz = 96000,
      do_local_capabilities = \<lparr>lc_sample_rates = LDAC_SF_ALL, lc_channel_modes = LDAC_CM_STEREO\<rparr>\<rparr>"

definition V1TransportDiscoveryResult_default :: V1TransportDiscoveryResult where
  "V1TransportDiscoveryResult_default =
     \<lparr>dr_disposition = Discovery_InvalidConfiguration,
      dr_primary_disposition = Discovery_InvalidConfiguration, dr_stage = DiscoveryStage_None,
      dr_protocol_error = DiscoveryError_None, dr_backend_error = 0, dr_cleanup_error = 0,
      dr_remote_reject_error = 0, dr_remote_seid = 0,
      dr_remote_capabilities = ldac_capabilities_zero, dr_configuration = ldac_configuration_zero,
      dr_open_attempts = 0, dr_signaling_exchanges = 0, dr_sink_candidates = 0,
      dr_legacy_capability_fallbacks = 0, dr_signaling_opened = False, dr_close_attempted = False,
      dr_close_succeeded = False\<rparr>"

abbreviation (input) "kMaximumSignalingResponse \<equiv> (4096 :: nat)"
abbreviation (input) "kMaximumTimeoutMs \<equiv> (30000 :: u32)"

section \<open>The session\<close>

record ParsedResponse =
  pr_message_type :: avdtp_message_type
  pr_payload :: bytes
  pr_reject_error :: u8

definition IsCancelled :: "'w V1TransportCancelProbe \<Rightarrow> 'w \<Rightarrow> bool \<times> 'w" where
  "IsCancelled probe w = (case probe of None \<Rightarrow> (False, w) | Some p \<Rightarrow> p w)"

definition DiscoveryOptionsAreValid :: "V1TransportDiscoveryOptions \<Rightarrow> bool" where
  "DiscoveryOptionsAreValid options \<longleftrightarrow>
     do_open_timeout_ms options \<noteq> 0 \<and> do_open_timeout_ms options \<le> kMaximumTimeoutMs \<and>
     do_exchange_timeout_ms options \<noteq> 0 \<and> do_exchange_timeout_ms options \<le> kMaximumTimeoutMs \<and>
     lc_sample_rates (do_local_capabilities options) AND LDAC_SF_ALL \<noteq> 0 \<and>
     lc_channel_modes (do_local_capabilities options) AND LDAC_CM_ALL \<noteq> 0"

definition ParseResponse :: "bytes \<Rightarrow> u8 \<Rightarrow> u8 \<Rightarrow> ParsedResponse option" where
  "ParseResponse response expected_label expected_signal =
     (let (status, header) = avdtp_parse_header response avdtp_header_zero
      in if status \<noteq> AVDTP_OK \<or> ah_packet_type header \<noteq> AVDTP_PACKET_SINGLE \<or>
            ah_payload_offset header > length response \<or>
            ah_transaction_label header \<noteq> expected_label \<or>
            ah_signal_id header \<noteq> expected_signal \<or>
            ah_message_type header = AVDTP_MESSAGE_COMMAND
         then None
         else
           let payload = drop (ah_payload_offset header) response
           in Some \<lparr>pr_message_type = ah_message_type header, pr_payload = payload,
                    pr_reject_error =
                      (if (ah_message_type header = AVDTP_MESSAGE_REJECT \<or>
                           ah_message_type header = AVDTP_MESSAGE_GENERAL_REJECT) \<and>
                          length payload \<noteq> 0
                       then payload ! (length payload - 1) else 0)\<rparr>)"

text \<open>The loop of \<open>CollectAudioSinks\<close>: two bytes per turn, with the identifiers stored so far.\<close>

fun collect_turns :: "bytes \<Rightarrow> bytes \<Rightarrow> nat \<Rightarrow> bytes" where
  "collect_turns (b0 # b1 # rest) seids capacity =
     (let candidate = drop_bit 2 b0; in_use = drop_bit 1 b0 AND 0x01;
          media_type = drop_bit 4 b1; endpoint_type = drop_bit 3 b1 AND 0x01
      in if candidate \<noteq> 0 \<and> in_use = 0 \<and> media_type = AVDTP_MEDIA_TYPE_AUDIO \<and>
            endpoint_type = 1 \<and> length seids < capacity
         then collect_turns rest (seids @ [candidate]) capacity
         else collect_turns rest seids capacity)"
| "collect_turns _ seids capacity = seids"

definition CollectAudioSinks :: "bytes \<Rightarrow> nat \<Rightarrow> bytes" where
  "CollectAudioSinks payload seid_capacity =
     (if length payload mod 2 \<noteq> 0 then [] else collect_turns payload [] seid_capacity)"

definition DiscoverySetPrimary ::
  "V1TransportDiscoveryResult \<Rightarrow> V1TransportDiscoveryDisposition \<Rightarrow> V1TransportDiscoveryStage \<Rightarrow>
   V1TransportDiscoveryResult" where
  "DiscoverySetPrimary result disposition stage =
     result\<lparr>dr_primary_disposition := disposition, dr_disposition := disposition,
            dr_stage := stage\<rparr>"

definition DiscoveryFinish ::
  "('w, 'z) V1TransportDiscoveryBackend_scheme \<Rightarrow> V1TransportDiscoveryResult \<Rightarrow> 'w \<Rightarrow>
   V1TransportDiscoveryResult \<times> 'w" where
  "DiscoveryFinish backend result w =
     (if \<not> dr_signaling_opened result then (result, w)
      else
        let ((ok, close_error), w1) = be_CloseSignaling backend w;
            result1 = result\<lparr>dr_close_attempted := True, dr_close_succeeded := ok,
                             dr_cleanup_error := close_error\<rparr>
        in if ok then (result1, w1)
           else (result1\<lparr>dr_disposition := Discovery_CleanupFailure,
                         dr_stage := DiscoveryStage_CloseSignaling\<rparr>, w1))"

text \<open>
  One request with its response.  The result is the response, if it is one, with the next label
  and the result record.
\<close>

definition DiscoveryExchange ::
  "('w, 'z) V1TransportDiscoveryBackend_scheme \<Rightarrow> V1TransportDiscoveryOptions \<Rightarrow>
   'w V1TransportCancelProbe \<Rightarrow> u8 \<Rightarrow> u8 \<Rightarrow> bytes \<Rightarrow> V1TransportDiscoveryResult \<Rightarrow> 'w \<Rightarrow>
   ParsedResponse option \<times> u8 \<times> V1TransportDiscoveryResult \<times> 'w" where
  "DiscoveryExchange backend options probe label signal payload result w =
     (let next_label = (label + 1) AND 0x0F;
          request = avdtp_write_single AVDTP_MAX_SIGNALING_PACKET label AVDTP_MESSAGE_COMMAND
                      signal payload
      in if request = []
         then (None, next_label,
               DiscoverySetPrimary (result\<lparr>dr_protocol_error := DiscoveryError_InvalidResponse\<rparr>)
                 Discovery_ProtocolFailure (dr_stage result), w)
         else
           let result1 = result\<lparr>dr_signaling_exchanges := dr_signaling_exchanges result + 1\<rparr>;
               ((ok, response, backend_error), w1) =
                 be_ExchangeSignaling backend request kMaximumSignalingResponse
                   (do_exchange_timeout_ms options) w
           in if \<not> ok then
                let (cancelled, w2) = IsCancelled probe w1
                in (None, next_label,
                    DiscoverySetPrimary (result1\<lparr>dr_backend_error := backend_error\<rparr>)
                      (if cancelled then Discovery_Cancelled else Discovery_BackendFailure)
                      (dr_stage result1), w2)
              else
                (case ParseResponse response label signal of
                   None \<Rightarrow>
                     (None, next_label,
                      DiscoverySetPrimary
                        (result1\<lparr>dr_protocol_error := DiscoveryError_InvalidResponse\<rparr>)
                        Discovery_ProtocolFailure (dr_stage result1), w1)
                 | Some parsed \<Rightarrow> (Some parsed, next_label, result1, w1)))"

text \<open>An accepted capability response decides the session, or the next sink is asked (\<^const>\<open>None\<close>).\<close>

definition judge_capabilities ::
  "V1TransportDiscoveryOptions \<Rightarrow> u8 \<Rightarrow> bytes \<Rightarrow> V1TransportDiscoveryResult \<Rightarrow>
   V1TransportDiscoveryResult option" where
  "judge_capabilities options seid payload result =
     (let (capability_status, remote) =
            ldac_find_in_service_capabilities payload ldac_capabilities_zero
      in if capability_status = LDAC_CODEC_NOT_FOUND then None
         else if capability_status \<noteq> LDAC_CODEC_OK
         then Some (DiscoverySetPrimary (result\<lparr>dr_protocol_error := DiscoveryError_InvalidResponse\<rparr>)
                Discovery_ProtocolFailure DiscoveryStage_GetCapabilities)
         else
           let (choice, configuration) =
                 ldac_choose_configuration (do_local_capabilities options) remote
                   (do_preferred_sample_rate_hz options)
           in if choice \<noteq> LDAC_CODEC_OK
              then Some (DiscoverySetPrimary
                     (result\<lparr>dr_protocol_error := DiscoveryError_NoCommonConfiguration\<rparr>)
                     Discovery_ProtocolFailure DiscoveryStage_GetCapabilities)
              else Some (DiscoverySetPrimary
                     (result\<lparr>dr_remote_seid := seid, dr_remote_capabilities := remote,
                             dr_configuration := configuration,
                             dr_protocol_error := DiscoveryError_None\<rparr>)
                     Discovery_Succeeded DiscoveryStage_GetCapabilities))"

text \<open>
  The capability query of one sink, with \<open>GET_CAPABILITIES\<close> as the fallback for a rejected
  \<open>GET_ALL_CAPABILITIES\<close>.  Without a response the session is over.
\<close>

definition query_capabilities ::
  "('w, 'z) V1TransportDiscoveryBackend_scheme \<Rightarrow> V1TransportDiscoveryOptions \<Rightarrow>
   'w V1TransportCancelProbe \<Rightarrow> u8 \<Rightarrow> u8 \<Rightarrow> V1TransportDiscoveryResult \<Rightarrow> 'w \<Rightarrow>
   ParsedResponse option \<times> u8 \<times> V1TransportDiscoveryResult \<times> 'w" where
  "query_capabilities backend options probe seid label result w =
     (let seid_payload = [push_bit 2 seid];
          (parsed, label1, result1, w1) =
            DiscoveryExchange backend options probe label AVDTP_SIGNAL_GET_ALL_CAPABILITIES
              seid_payload result w
      in case parsed of
           None \<Rightarrow> (None, label1, result1, w1)
         | Some p \<Rightarrow>
             if pr_message_type p = AVDTP_MESSAGE_ACCEPT then (Some p, label1, result1, w1)
             else
               let result2 = result1\<lparr>dr_legacy_capability_fallbacks :=
                     dr_legacy_capability_fallbacks result1 + 1\<rparr>;
                   (cancelled, w2) = IsCancelled probe w1
               in if cancelled
                  then (None, label1,
                        DiscoverySetPrimary result2 Discovery_Cancelled
                          DiscoveryStage_GetCapabilities, w2)
                  else DiscoveryExchange backend options probe label1
                         AVDTP_SIGNAL_GET_CAPABILITIES seid_payload result2 w2)"

text \<open>One turn of the loop over the sinks; the first component says that the session is over.\<close>

definition query_sink ::
  "('w, 'z) V1TransportDiscoveryBackend_scheme \<Rightarrow> V1TransportDiscoveryOptions \<Rightarrow>
   'w V1TransportCancelProbe \<Rightarrow> u8 \<Rightarrow> u8 \<Rightarrow> V1TransportDiscoveryResult \<Rightarrow> 'w \<Rightarrow>
   bool \<times> u8 \<times> V1TransportDiscoveryResult \<times> 'w" where
  "query_sink backend options probe seid label result w =
     (let (cancelled, w1) = IsCancelled probe w
      in if cancelled
         then (True, label,
               DiscoverySetPrimary result Discovery_Cancelled DiscoveryStage_GetCapabilities, w1)
         else
           let (parsed, label1, result1, w2) =
                 query_capabilities backend options probe seid label result w1
           in case parsed of
                None \<Rightarrow> (True, label1, result1, w2)
              | Some p \<Rightarrow>
                  if pr_message_type p \<noteq> AVDTP_MESSAGE_ACCEPT
                  then (False, label1, result1\<lparr>dr_remote_reject_error := pr_reject_error p\<rparr>, w2)
                  else (case judge_capabilities options seid (pr_payload p) result1 of
                          Some result2 \<Rightarrow> (True, label1, result2, w2)
                        | None \<Rightarrow> (False, label1, result1, w2)))"

fun query_sinks ::
  "('w, 'z) V1TransportDiscoveryBackend_scheme \<Rightarrow> V1TransportDiscoveryOptions \<Rightarrow>
   'w V1TransportCancelProbe \<Rightarrow> bytes \<Rightarrow> u8 \<Rightarrow> V1TransportDiscoveryResult \<Rightarrow> 'w \<Rightarrow>
   V1TransportDiscoveryResult \<times> 'w" where
  "query_sinks backend options probe [] label result w =
     (DiscoverySetPrimary (result\<lparr>dr_protocol_error := DiscoveryError_LdacNotSupported\<rparr>)
        Discovery_ProtocolFailure DiscoveryStage_GetCapabilities, w)"
| "query_sinks backend options probe (seid # seids) label result w =
     (let (over, label1, result1, w1) = query_sink backend options probe seid label result w
      in if over then (result1, w1)
         else query_sinks backend options probe seids label1 result1 w1)"

text \<open>The part between a successful open and \<open>Finish\<close>.\<close>

definition discover_and_query ::
  "('w, 'z) V1TransportDiscoveryBackend_scheme \<Rightarrow> V1TransportDiscoveryOptions \<Rightarrow>
   'w V1TransportCancelProbe \<Rightarrow> V1TransportDiscoveryResult \<Rightarrow> 'w \<Rightarrow>
   V1TransportDiscoveryResult \<times> 'w" where
  "discover_and_query backend options probe result w =
     (let (cancelled, w1) = IsCancelled probe w
      in if cancelled
         then (DiscoverySetPrimary result Discovery_Cancelled DiscoveryStage_Discover, w1)
         else
           let (parsed, label, result1, w2) =
                 DiscoveryExchange backend options probe 0 AVDTP_SIGNAL_DISCOVER []
                   (result\<lparr>dr_stage := DiscoveryStage_Discover\<rparr>) w1
           in case parsed of None \<Rightarrow> (result1, w2) | Some p \<Rightarrow>
             if pr_message_type p \<noteq> AVDTP_MESSAGE_ACCEPT
             then (DiscoverySetPrimary
                     (result1\<lparr>dr_protocol_error := DiscoveryError_RemoteRejected,
                              dr_remote_reject_error := pr_reject_error p\<rparr>)
                     Discovery_ProtocolFailure DiscoveryStage_Discover, w2)
             else
               let sink_seids = CollectAudioSinks (pr_payload p) AVDTP_MAX_REMOTE_SEIDS;
                   result2 = result1\<lparr>dr_sink_candidates := of_nat (length sink_seids)\<rparr>
               in if sink_seids = []
                  then (DiscoverySetPrimary
                          (result2\<lparr>dr_protocol_error := DiscoveryError_NoAudioSink\<rparr>)
                          Discovery_ProtocolFailure DiscoveryStage_Discover, w2)
                  else query_sinks backend options probe sink_seids label
                         (result2\<lparr>dr_stage := DiscoveryStage_GetCapabilities\<rparr>) w2)"

definition RunV1TransportDiscoveryOnce ::
  "('w, 'z) V1TransportDiscoveryBackend_scheme \<Rightarrow> V1TransportDiscoveryOptions \<Rightarrow>
   'w V1TransportCancelProbe \<Rightarrow> 'w \<Rightarrow> V1TransportDiscoveryResult \<times> 'w" where
  "RunV1TransportDiscoveryOnce backend options probe w =
     (let result = V1TransportDiscoveryResult_default
      in if \<not> DiscoveryOptionsAreValid options then (result, w)
         else
           let (cancelled, w1) = IsCancelled probe w
           in if cancelled
              then (DiscoverySetPrimary result Discovery_Cancelled DiscoveryStage_OpenSignaling, w1)
              else
                let result1 = result\<lparr>dr_stage := DiscoveryStage_OpenSignaling, dr_open_attempts := 1\<rparr>;
                    ((ok, backend_error), w2) =
                      be_OpenSignaling backend (do_open_timeout_ms options) w1
                in if \<not> ok then
                     let (cancelled2, w3) = IsCancelled probe w2
                     in (DiscoverySetPrimary (result1\<lparr>dr_backend_error := backend_error\<rparr>)
                           (if cancelled2 then Discovery_Cancelled else Discovery_BackendFailure)
                           DiscoveryStage_OpenSignaling, w3)
                   else
                     let (result2, w3) =
                       discover_and_query backend options probe
                         (result1\<lparr>dr_signaling_opened := True\<rparr>) w2
                     in DiscoveryFinish backend result2 w3)"

section \<open>The sinks are the ones the source machine collects\<close>

lemma collect_turns_take:
  "length seids \<le> n \<Longrightarrow> collect_turns p seids n = seids @ take (n - length seids) (audio_sinks p)"
proof (induction p seids n rule: collect_turns.induct)
  case (1 b0 b1 rest seids n)
  then show ?case
    by (cases "length seids < n") (auto simp: Let_def Suc_diff_Suc [symmetric] take_Cons')
qed auto

lemma CollectAudioSinks_source: "CollectAudioSinks = collect_audio_sinks"
  by (intro ext) (simp add: CollectAudioSinks_def collect_audio_sinks_def collect_turns_take)

section \<open>Recording the calls of a session\<close>

datatype transport_call =
  Call_Open | Call_Exchange bytes | Call_OpenMedia | Call_WriteMedia bytes | Call_Close

definition logged_probe ::
  "'w V1TransportCancelProbe \<Rightarrow> ('w \<times> transport_call list) V1TransportCancelProbe" where
  "logged_probe = map_option (\<lambda>p (w, log). let (c, w1) = p w in (c, w1, log))"

definition logged_discovery ::
  "('w, 'z) V1TransportDiscoveryBackend_scheme \<Rightarrow>
   ('w \<times> transport_call list) V1TransportDiscoveryBackend" where
  "logged_discovery b =
     \<lparr>be_OpenSignaling =
        (\<lambda>t (w, log). let (r, w1) = be_OpenSignaling b t w in (r, w1, log @ [Call_Open])),
      be_GetLastOpenDiagnostics = (\<lambda>(w, log). be_GetLastOpenDiagnostics b w),
      be_ExchangeSignaling =
        (\<lambda>p n t (w, log).
           let (r, w1) = be_ExchangeSignaling b p n t w in (r, w1, log @ [Call_Exchange p])),
      be_CloseSignaling =
        (\<lambda>(w, log). let (r, w1) = be_CloseSignaling b w in (r, w1, log @ [Call_Close]))\<rparr>"

lemma logged_probe_log [simp]: "snd (snd (IsCancelled (logged_probe p) (w, log))) = log"
  by (cases p) (auto simp: IsCancelled_def logged_probe_def Let_def case_prod_beta)

text \<open>The commands in a part of a log carry consecutive labels.\<close>

definition labelled_from :: "u8 \<Rightarrow> bytes list \<Rightarrow> bool" where
  "labelled_from l requests \<longleftrightarrow>
     map (\<lambda>p. p ! 0) requests = map (\<lambda>i. push_bit 4 (label_after l i)) [0..<length requests]"

lemma label_after_le: "label_after l i \<le> 15"
  by (simp add: label_after_def)

lemma unat_label_after: "unat (label_after l i) = (unat l + i) mod 16"
proof -
  have "unat (label_after l i) = ((unat l + i mod 256) mod 256) mod 16"
    by (simp add: label_after_def mask_15 unsigned_take_bit_eq take_bit_eq_mod unat_word_ariths
        unat_of_nat)
  also have "\<dots> = (unat l + i) mod 16"
    by (simp add: mod_mod_cancel mod_add_right_eq)
  finally show ?thesis .
qed

lemma label_after_add: "label_after (label_after l i) j = label_after l (i + j)"
  by (simp only: word_unat_eq_iff unat_label_after mod_add_left_eq add.assoc)

lemma label_after_none: "l \<le> 15 \<Longrightarrow> label_after l 0 = l"
  by (simp add: word_unat_eq_iff unat_label_after word_le_nat_alt)

lemma labelled_append:
  assumes "labelled_from l xs" "labelled_from (label_after l (length xs)) ys"
  shows "labelled_from l (xs @ ys)"
proof -
  have "[0..<length xs + length ys] =
      [0..<length xs] @ map (\<lambda>i. length xs + i) [0..<length ys]"
    using map_add_upt [of "length xs" "length ys"]
    by (simp only: upt_add_eq_append [OF le0] add.commute [of "length ys"] add.commute [of _ "length xs"])
  then show ?thesis
    using assms by (simp add: labelled_from_def label_after_add)
qed

text \<open>What a stretch of exchanges does to the result, the log and the label.\<close>

definition frame :: "V1TransportDiscoveryResult \<Rightarrow> V1TransportDiscoveryResult \<Rightarrow> bool" where
  "frame r r' \<longleftrightarrow>
     dr_signaling_opened r' = dr_signaling_opened r \<and> dr_open_attempts r' = dr_open_attempts r \<and>
     dr_close_attempted r' = dr_close_attempted r \<and> dr_close_succeeded r' = dr_close_succeeded r"

definition exchanged ::
  "nat \<Rightarrow> u8 \<Rightarrow> u8 \<Rightarrow> V1TransportDiscoveryResult \<times> transport_call list \<Rightarrow>
   V1TransportDiscoveryResult \<times> transport_call list \<Rightarrow> bool" where
  "exchanged n l l' before later \<longleftrightarrow>
     (\<exists>requests. snd later = snd before @ map Call_Exchange requests \<and> length requests \<le> n \<and>
        labelled_from l requests \<and> l' = label_after l (length requests) \<and>
        dr_signaling_exchanges (fst later) =
          dr_signaling_exchanges (fst before) + of_nat (length requests)) \<and>
     frame (fst before) (fst later)"

lemma exchanged_refl:
  assumes "frame r r'" "dr_signaling_exchanges r' = dr_signaling_exchanges r" "l \<le> 15"
  shows "exchanged n l l (r, log) (r', log)"
proof -
  have "label_after l 0 = l" using assms(3) by (rule label_after_none)
  then show ?thesis
    unfolding exchanged_def using assms by (auto intro!: exI [of _ "[]"] simp: labelled_from_def)
qed

lemma exchanged_trans:
  assumes "exchanged n l l' a b" "exchanged m l' l'' b c" "n + m \<le> k"
  shows "exchanged k l l'' a c"
proof -
  obtain xs ys where "snd b = snd a @ map Call_Exchange xs" "length xs \<le> n" "labelled_from l xs"
      "l' = label_after l (length xs)"
      "dr_signaling_exchanges (fst b) = dr_signaling_exchanges (fst a) + of_nat (length xs)"
    "snd c = snd b @ map Call_Exchange ys" "length ys \<le> m" "labelled_from l' ys"
      "l'' = label_after l' (length ys)"
      "dr_signaling_exchanges (fst c) = dr_signaling_exchanges (fst b) + of_nat (length ys)"
    using assms(1,2) unfolding exchanged_def by blast
  then show ?thesis
    using assms labelled_append [of l xs ys] unfolding exchanged_def
    by (intro conjI exI [of _ "xs @ ys"]) (auto simp: label_after_add frame_def)
qed

lemma exchanged_frame:
  assumes "exchanged n l l' (r, log) (r1, log1)" "frame r1 r2"
    "dr_signaling_exchanges r2 = dr_signaling_exchanges r1"
  shows "exchanged n l l' (r, log) (r2, log1)"
  using assms by (auto simp: exchanged_def frame_def)

section \<open>The calls of a discovery session\<close>

lemma logged_cancelled [simp]:
  "IsCancelled (logged_probe p) (w, log) = (let (c, w1) = IsCancelled p w in (c, w1, log))"
  by (cases p) (auto simp: IsCancelled_def logged_probe_def)

lemma logged_calls [simp]:
  "be_OpenSignaling (logged_discovery b) t (w, log) =
    (fst (be_OpenSignaling b t w), snd (be_OpenSignaling b t w), log @ [Call_Open])"
  "be_CloseSignaling (logged_discovery b) (w, log) =
    (fst (be_CloseSignaling b w), snd (be_CloseSignaling b w), log @ [Call_Close])"
  by (simp_all add: logged_discovery_def case_prod_beta Let_def)

lemma write_command:
  assumes "l \<le> 15" "legal_seid signal" "length payload \<le> 62"
  shows "avdtp_write_single 64 l AVDTP_MESSAGE_COMMAND signal payload =
    [push_bit 4 l, signal] @ payload"
  using assms by (auto simp: avdtp_write_single_def legal_seid_def not_less)

lemma labelled_single: "l \<le> 15 \<Longrightarrow> labelled_from l [push_bit 4 l # rest]"
  by (simp add: labelled_from_def label_after_none)

lemma frame_primary [simp]:
  "frame r (DiscoverySetPrimary r' d st) = frame r r'"
  "dr_signaling_exchanges (DiscoverySetPrimary r' d st) = dr_signaling_exchanges r'"
  by (simp_all add: frame_def DiscoverySetPrimary_def)

lemma frame_refl [simp]: "frame r r"
  by (simp add: frame_def)

lemma exchange_exchanged:
  assumes "l \<le> 15" "legal_seid signal" "length payload \<le> 62"
    and "DiscoveryExchange (logged_discovery b) options (logged_probe p) l signal payload r (w, log) =
      (parsed, l', r', w', log')"
  shows "exchanged 1 l l' (r, log) (r', log') \<and> l' \<le> 15"
proof -
  let ?request = "[push_bit 4 l, signal] @ payload"
  have l': "l' = label_after l 1"
    using assms by (auto simp: DiscoveryExchange_def write_command Let_def label_after_def
        split: prod.splits if_splits option.splits)
  have "log' = log @ [Call_Exchange ?request]" "frame r r'"
      "dr_signaling_exchanges r' = dr_signaling_exchanges r + 1"
    using assms
    by (auto simp: DiscoveryExchange_def write_command logged_discovery_def Let_def frame_def
        DiscoverySetPrimary_def split: prod.splits if_splits option.splits)
  then have "exchanged 1 l l' (r, log) (r', log')"
    using l' labelled_single [OF assms(1)] unfolding exchanged_def
    by (intro conjI exI [of _ "[?request]"]) auto
  then show ?thesis using l' label_after_le by simp
qed

lemma judge_frame:
  "judge_capabilities options seid payload r = Some r' \<Longrightarrow>
    frame r r' \<and> dr_signaling_exchanges r' = dr_signaling_exchanges r"
  by (auto simp: judge_capabilities_def frame_def DiscoverySetPrimary_def Let_def
      split: prod.splits if_splits)

lemma query_capabilities_exchanged:
  assumes "l \<le> 15"
    and "query_capabilities (logged_discovery b) options (logged_probe p) seid l r (w, log) =
      (parsed, l', r', w', log')"
  shows "exchanged 2 l l' (r, log) (r', log') \<and> l' \<le> 15"
proof -
  let ?b = "logged_discovery b" and ?p = "logged_probe p"
  obtain parsed1 l1 r1 w1 log1 where e1: "DiscoveryExchange ?b options ?p l
      AVDTP_SIGNAL_GET_ALL_CAPABILITIES [push_bit 2 seid] r (w, log) = (parsed1, l1, r1, w1, log1)"
    by (metis prod_cases5)
  have x1: "exchanged 1 l l1 (r, log) (r1, log1)" "l1 \<le> 15"
    using exchange_exchanged [OF assms(1) _ _ e1] by (simp_all add: legal_seid_def)
  let ?r2 = "r1\<lparr>dr_legacy_capability_fallbacks := dr_legacy_capability_fallbacks r1 + 1\<rparr>"
  have same: "exchanged 1 l l1 (r, log) (r', log1)"
    if "frame r1 r'" "dr_signaling_exchanges r' = dr_signaling_exchanges r1"
    using exchanged_frame [OF x1(1) that] .
  have "(l' = l1 \<and> log' = log1 \<and> frame r1 r' \<and>
      dr_signaling_exchanges r' = dr_signaling_exchanges r1) \<or>
    (\<exists>w2. DiscoveryExchange ?b options ?p l1 AVDTP_SIGNAL_GET_CAPABILITIES [push_bit 2 seid] ?r2
       (w2, log1) = (parsed, l', r', w', log'))"
    using assms(2) e1
    by (auto simp: query_capabilities_def Let_def frame_def DiscoverySetPrimary_def
        split: option.splits if_splits prod.splits)
  then show ?thesis
  proof
    assume "l' = l1 \<and> log' = log1 \<and> frame r1 r' \<and>
      dr_signaling_exchanges r' = dr_signaling_exchanges r1"
    then show ?thesis using same x1(2) by (auto simp: exchanged_def)
  next
    assume "\<exists>w2. DiscoveryExchange ?b options ?p l1 AVDTP_SIGNAL_GET_CAPABILITIES [push_bit 2 seid]
      ?r2 (w2, log1) = (parsed, l', r', w', log')"
    then obtain w2 where "DiscoveryExchange ?b options ?p l1 AVDTP_SIGNAL_GET_CAPABILITIES
        [push_bit 2 seid] ?r2 (w2, log1) = (parsed, l', r', w', log')" ..
    from exchange_exchanged [OF x1(2) _ _ this]
    have "exchanged 1 l1 l' (?r2, log1) (r', log')" "l' \<le> 15" by (simp_all add: legal_seid_def)
    moreover have "exchanged 1 l l1 (r, log) (?r2, log1)"
      by (rule exchanged_frame [OF x1(1)]) (simp_all add: frame_def)
    ultimately show ?thesis using exchanged_trans [of 1 l l1 _ _ 1] by fastforce
  qed
qed

lemma query_sink_exchanged:
  assumes "l \<le> 15"
    and "query_sink (logged_discovery b) options (logged_probe p) seid l r (w, log) =
      (over, l', r', w', log')"
  shows "exchanged 2 l l' (r, log) (r', log') \<and> l' \<le> 15"
proof -
  obtain c w1 where c: "IsCancelled p w = (c, w1)" by (rule prod.exhaust)
  obtain parsed l1 r1 w2 log1 where q: "query_capabilities (logged_discovery b) options
      (logged_probe p) seid l r (w1, log) = (parsed, l1, r1, w2, log1)"
    by (metis prod_cases5)
  note x = query_capabilities_exchanged [OF assms(1) q]
  show ?thesis
  proof (cases c)
    case True
    then have "l' = l" "log' = log" "frame r r'"
        "dr_signaling_exchanges r' = dr_signaling_exchanges r"
      using assms(2) c by (auto simp: query_sink_def)
    then show ?thesis using exchanged_refl assms(1) by blast
  next
    case False
    then have "l' = l1" "log' = log1" "frame r1 r'"
        "dr_signaling_exchanges r' = dr_signaling_exchanges r1"
      using assms(2) c q
      by (auto simp: query_sink_def frame_def [of _ "_\<lparr>dr_remote_reject_error := _\<rparr>"]
          dest: judge_frame split: option.splits if_splits)
    then show ?thesis using exchanged_frame x by blast
  qed
qed

lemma query_sinks_exchanged:
  assumes "l \<le> 15"
    and "query_sinks (logged_discovery b) options (logged_probe p) seids l r (w, log) = (r', w', log')"
  shows "\<exists>l'. exchanged (2 * length seids) l l' (r, log) (r', log')"
  using assms
proof (induction seids arbitrary: l r w log)
  case Nil
  then show ?case
    by (auto intro!: exI [of _ l] exchanged_refl simp: frame_def DiscoverySetPrimary_def)
next
  case (Cons seid seids)
  obtain over l1 r1 w1 log1 where q: "query_sink (logged_discovery b) options (logged_probe p) seid l r
      (w, log) = (over, l1, r1, w1, log1)"
    by (metis prod_cases5)
  note x = query_sink_exchanged [OF Cons.prems(1) q]
  show ?case
  proof (cases over)
    case True
    then have "r' = r1" "log' = log1" using Cons.prems(2) q by auto
    then show ?thesis using x by (auto simp: exchanged_def)
  next
    case False
    then have "query_sinks (logged_discovery b) options (logged_probe p) seids l1 r1 (w1, log1) =
        (r', w', log')"
      using Cons.prems(2) q by simp
    then obtain l' where "exchanged (2 * length seids) l1 l' (r1, log1) (r', log')"
      using Cons.IH x by blast
    then have "exchanged (2 * length (seid # seids)) l l' (r, log) (r', log')"
      by (rule exchanged_trans [OF conjunct1 [OF x]]) simp
    then show ?thesis by blast
  qed
qed

lemma discover_exchanged:
  assumes "discover_and_query (logged_discovery b) options (logged_probe p) r (w, log) = (r', w', log')"
  shows "\<exists>l'. exchanged 127 0 l' (r, log) (r', log')"
proof -
  let ?b = "logged_discovery b" and ?p = "logged_probe p"
  let ?r0 = "r\<lparr>dr_stage := DiscoveryStage_Discover\<rparr>"
  obtain c w1 where c: "IsCancelled p w = (c, w1)" by (rule prod.exhaust)
  obtain parsed l1 r1 w2 log1 where e: "DiscoveryExchange ?b options ?p 0 AVDTP_SIGNAL_DISCOVER []
      ?r0 (w1, log) = (parsed, l1, r1, w2, log1)"
    by (metis prod_cases5)
  have "exchanged 1 0 l1 (?r0, log) (r1, log1)" and l1: "l1 \<le> 15"
    using exchange_exchanged [OF _ _ _ e] by (simp_all add: legal_seid_def)
  then have x: "exchanged 1 0 l1 (r, log) (r1, log1)" by (simp add: exchanged_def frame_def)
  have ends: ?thesis if "log' = log1" "frame r1 r'"
    "dr_signaling_exchanges r' = dr_signaling_exchanges r1"
  proof -
    have "exchanged 1 0 l1 (r, log) (r', log')"
      using exchanged_frame [OF x that(2,3)] that(1) by simp
    then have "exchanged 127 0 l1 (r, log) (r', log')" by (fastforce simp: exchanged_def)
    then show ?thesis ..
  qed
  consider (cancelled) "log' = log" "frame r r'" "dr_signaling_exchanges r' = dr_signaling_exchanges r"
    | (ended) "log' = log1" "frame r1 r'" "dr_signaling_exchanges r' = dr_signaling_exchanges r1"
    | (queried) payload r2 where "frame r1 r2" "dr_signaling_exchanges r2 = dr_signaling_exchanges r1"
      "query_sinks ?b options ?p (CollectAudioSinks payload AVDTP_MAX_REMOTE_SEIDS) l1 r2 (w2, log1)
         = (r', w', log')"
  proof (cases "c \<or> parsed = None")
    case True
    then show ?thesis
      using assms c e that(1,2)
      by (auto simp: discover_and_query_def Let_def split: if_splits)
  next
    case False
    then obtain q where q: "parsed = Some q" "\<not> c" by auto
    let ?sinks = "CollectAudioSinks (pr_payload q) AVDTP_MAX_REMOTE_SEIDS"
    let ?r2 = "r1\<lparr>dr_sink_candidates := of_nat (length ?sinks),
        dr_stage := DiscoveryStage_GetCapabilities\<rparr>"
    show ?thesis
    proof (cases "pr_message_type q \<noteq> AVDTP_MESSAGE_ACCEPT \<or> ?sinks = []")
      case True
      then show ?thesis
        using assms c e q that(2)
        by (auto simp: discover_and_query_def Let_def DiscoverySetPrimary_def frame_def
            split: if_splits)
    next
      case False
      then show ?thesis
        using assms c e q that(3) [of ?r2 "pr_payload q"]
        by (auto simp: discover_and_query_def Let_def frame_def)
    qed
  qed
  then show ?thesis
  proof cases
    case cancelled
    then show ?thesis using exchanged_refl [of r r' 0 127 log] by (intro exI) auto
  next
    case ended
    then show ?thesis by (rule ends)
  next
    case queried
    from query_sinks_exchanged [OF l1 queried(3)] obtain l' where
      "exchanged (2 * length (CollectAudioSinks payload AVDTP_MAX_REMOTE_SEIDS)) l1 l'
        (r2, log1) (r', log')" ..
    then have "exchanged 127 0 l' (r, log) (r', log')"
      using exchanged_trans [OF exchanged_frame [OF x queried(1,2)], of _ l' _ 127]
        collected_length [of payload AVDTP_MAX_REMOTE_SEIDS]
      by (simp add: CollectAudioSinks_source)
    then show ?thesis ..
  qed
qed

text \<open>C37: the channel of a discovery is bracketed.  Whatever the backend does and whenever the session
  is cancelled: an invalid option or an early cancellation makes no call; a failed open is the
  only call; after a successful open come at most 127 exchanges, counted in the result, each with
  a command whose label follows the previous one's, and then exactly one close.\<close>

theorem discovery_session_bracketed:
  "let (r, w', log) = RunV1TransportDiscoveryOnce (logged_discovery backend) options
         (logged_probe probe) (w, [])
   in \<exists>requests.
        log = (if dr_open_attempts r = 0 then []
               else if dr_signaling_opened r
               then [Call_Open] @ map Call_Exchange requests @ [Call_Close] else [Call_Open]) \<and>
        length requests \<le> 127 \<and> dr_signaling_exchanges r = of_nat (length requests) \<and>
        map (\<lambda>p. p ! 0) requests = map (\<lambda>i. push_bit 4 (label_after 0 i)) [0..<length requests] \<and>
        dr_close_attempted r = dr_signaling_opened r"
proof -
  let ?b = "logged_discovery backend" and ?p = "logged_probe probe"
  obtain r w' log where run: "RunV1TransportDiscoveryOnce ?b options ?p (w, []) = (r, w', log)"
    by (metis prod_cases3)
  have start: "dr_signaling_exchanges V1TransportDiscoveryResult_default = 0"
    "dr_open_attempts V1TransportDiscoveryResult_default = 0"
    "\<not> dr_signaling_opened V1TransportDiscoveryResult_default"
    "\<not> dr_close_attempted V1TransportDiscoveryResult_default"
    by (simp_all add: V1TransportDiscoveryResult_default_def)
  let ?r1 = "V1TransportDiscoveryResult_default\<lparr>dr_stage := DiscoveryStage_OpenSignaling,
      dr_open_attempts := 1, dr_signaling_opened := True\<rparr>"
  consider (silent) "log = []" "dr_open_attempts r = 0" "\<not> dr_signaling_opened r"
      "\<not> dr_close_attempted r" "dr_signaling_exchanges r = 0"
    | (refused) "log = [Call_Open]" "dr_open_attempts r = 1" "\<not> dr_signaling_opened r"
      "\<not> dr_close_attempted r" "dr_signaling_exchanges r = 0"
    | (opened) w2 r2 w3 log2 where "discover_and_query ?b options ?p ?r1 (w2, [Call_Open]) =
        (r2, w3, log2)" "DiscoveryFinish ?b r2 (w3, log2) = (r, w', log)"
  proof (cases "DiscoveryOptionsAreValid options \<and> \<not> fst (IsCancelled probe w) \<and>
      fst (fst (be_OpenSignaling backend (do_open_timeout_ms options) (snd (IsCancelled probe w))))")
    case True
    let ?w2 = "snd (be_OpenSignaling backend (do_open_timeout_ms options) (snd (IsCancelled probe w)))"
    obtain r2 w3 log2 where d: "discover_and_query ?b options ?p ?r1 (?w2, [Call_Open]) =
        (r2, w3, log2)"
      by (metis prod_cases3)
    then show ?thesis
      using run True that(3) [OF d]
      by (simp add: RunV1TransportDiscoveryOnce_def Let_def case_prod_beta)
  next
    case False
    then show ?thesis
      using run start that(1,2)
      by (auto simp: RunV1TransportDiscoveryOnce_def Let_def case_prod_beta DiscoverySetPrimary_def
          split: if_splits)
  qed
  then have "\<exists>requests.
        log = (if dr_open_attempts r = 0 then []
               else if dr_signaling_opened r
               then [Call_Open] @ map Call_Exchange requests @ [Call_Close] else [Call_Open]) \<and>
        length requests \<le> 127 \<and> dr_signaling_exchanges r = of_nat (length requests) \<and>
        labelled_from 0 requests \<and> dr_close_attempted r = dr_signaling_opened r"
  proof cases
    case opened
    from discover_exchanged [OF opened(1)] obtain requests where x:
      "log2 = [Call_Open] @ map Call_Exchange requests" "length requests \<le> 127"
      "labelled_from 0 requests" "dr_signaling_exchanges r2 = of_nat (length requests)"
      "dr_open_attempts r2 = 1" "dr_signaling_opened r2"
      using start by (auto simp: exchanged_def frame_def)
    then show ?thesis
      using opened(2)
      by (auto simp: DiscoveryFinish_def Let_def case_prod_beta
          split: if_splits intro!: exI [of _ requests])
  qed (auto intro!: exI [of _ "[]"] simp: labelled_from_def)
  then show ?thesis by (simp add: run labelled_from_def)
qed

section \<open>The verdict of a discovery session\<close>

definition undecided :: "V1TransportDiscoveryResult \<Rightarrow> bool" where
  "undecided r \<longleftrightarrow>
     dr_primary_disposition r \<noteq> Discovery_Succeeded \<and>
     dr_disposition r = dr_primary_disposition r \<and> dr_remote_seid r = 0 \<and>
     dr_configuration r = ldac_configuration_zero \<and> dr_remote_capabilities r = ldac_capabilities_zero"

definition decided :: "V1TransportDiscoveryOptions \<Rightarrow> V1TransportDiscoveryResult \<Rightarrow> bool" where
  "decided options r \<longleftrightarrow>
     dr_primary_disposition r = Discovery_Succeeded \<and>
     dr_disposition r = dr_primary_disposition r \<and> legal_seid (dr_remote_seid r) \<and>
     dr_protocol_error r = DiscoveryError_None \<and>
     ldac_choose_configuration (do_local_capabilities options) (dr_remote_capabilities r)
       (do_preferred_sample_rate_hz options) = (LDAC_CODEC_OK, dr_configuration r)"

lemma undecided_primary [simp]:
  "d \<noteq> Discovery_Succeeded \<Longrightarrow> undecided r \<Longrightarrow> undecided (DiscoverySetPrimary r d st)"
  by (simp add: undecided_def DiscoverySetPrimary_def)

lemma undecided_updates [simp]:
  "undecided (r\<lparr>dr_protocol_error := e\<rparr>) = undecided r"
  "undecided (r\<lparr>dr_backend_error := x\<rparr>) = undecided r"
  "undecided (r\<lparr>dr_signaling_exchanges := x\<rparr>) = undecided r"
  "undecided (r\<lparr>dr_legacy_capability_fallbacks := x\<rparr>) = undecided r"
  "undecided (r\<lparr>dr_remote_reject_error := y\<rparr>) = undecided r"
  "undecided (r\<lparr>dr_stage := st\<rparr>) = undecided r"
  "undecided (r\<lparr>dr_sink_candidates := x\<rparr>) = undecided r"
  "undecided (r\<lparr>dr_open_attempts := x\<rparr>) = undecided r"
  "undecided (r\<lparr>dr_signaling_opened := b\<rparr>) = undecided r"
  by (simp_all add: undecided_def)

lemma exchange_undecided [simp]:
  "undecided r \<Longrightarrow> undecided (fst (snd (snd (DiscoveryExchange b options p l signal payload r w))))"
  by (auto simp: DiscoveryExchange_def Let_def split: prod.splits option.splits)

lemma query_capabilities_undecided [simp]:
  "undecided r \<Longrightarrow> undecided (fst (snd (snd (query_capabilities b options p seid l r w))))"
  by (auto simp: query_capabilities_def Let_def case_prod_beta split: option.splits)

lemma judge_verdict:
  assumes "undecided r" "legal_seid seid" "judge_capabilities options seid payload r = Some r'"
  shows "undecided r' \<or> decided options r'"
  using assms
  by (auto simp: judge_capabilities_def decided_def Let_def DiscoverySetPrimary_def
      split: prod.splits if_splits) (simp_all add: undecided_def)

lemma query_sink_verdict:
  assumes "undecided r" "legal_seid seid"
    and "query_sink b options p seid l r w = (over, l', r', w')"
  shows "undecided r' \<or> over \<and> decided options r'"
proof -
  obtain parsed l1 r1 w2 where q:
    "query_capabilities b options p seid l r (snd (IsCancelled p w)) = (parsed, l1, r1, w2)"
    by (metis prod_cases4)
  then have "undecided r1"
    using query_capabilities_undecided [OF assms(1), of b options p seid l "snd (IsCancelled p w)"]
    by simp
  then show ?thesis
    using assms q judge_verdict [of r1 seid options]
    by (auto simp: query_sink_def Let_def case_prod_beta split: if_splits option.splits)
qed

lemma query_sinks_verdict:
  assumes "undecided r" "\<forall>seid \<in> set seids. legal_seid seid"
    and "query_sinks b options p seids l r w = (r', w')"
  shows "undecided r' \<or> decided options r'"
  using assms
proof (induction seids arbitrary: l r w)
  case (Cons seid seids)
  obtain over l1 r1 w1 where q: "query_sink b options p seid l r w = (over, l1, r1, w1)"
    by (metis prod_cases4)
  show ?case
    using query_sink_verdict [OF Cons.prems(1) _ q] Cons.prems(2,3) Cons.IH [of r1 l1 w1] q
    by (cases over) auto
qed auto

lemma discover_verdict:
  assumes "undecided r" "discover_and_query b options p r w = (r', w')"
  shows "undecided r' \<or> decided options r'"
proof -
  have sinks: "\<forall>seid \<in> set (CollectAudioSinks payload n). legal_seid seid" for payload n
    using collected_sinks by (simp add: CollectAudioSinks_source)
  define e where "e = DiscoveryExchange b options p 0 AVDTP_SIGNAL_DISCOVER []
    (r\<lparr>dr_stage := DiscoveryStage_Discover\<rparr>) (snd (IsCancelled p w))"
  have "undecided (fst (snd (snd e)))" using assms(1) by (simp add: e_def)
  then show ?thesis
    using assms unfolding discover_and_query_def Let_def case_prod_beta e_def [symmetric]
    by (auto split: if_splits option.splits dest!: query_sinks_verdict [OF _ sinks, rotated])
qed

lemma finish_disposition:
  assumes "DiscoveryFinish b r w = (r', w')" "undecided r \<or> decided options r"
  shows "dr_primary_disposition r' = dr_primary_disposition r"
    and "dr_remote_seid r' = dr_remote_seid r" and "dr_configuration r' = dr_configuration r"
    and "dr_remote_capabilities r' = dr_remote_capabilities r"
    and "dr_protocol_error r' = dr_protocol_error r"
    and "dr_disposition r' = (if dr_signaling_opened r' \<and> \<not> dr_close_succeeded r'
      then Discovery_CleanupFailure else dr_primary_disposition r')"
  using assms
  by (auto simp: DiscoveryFinish_def undecided_def decided_def Let_def case_prod_beta
      split: if_splits)

lemma run_verdict:
  assumes "RunV1TransportDiscoveryOnce b options p w = (r, w')"
  shows "\<exists>r2. (undecided r2 \<or> decided options r2) \<and>
    (r2 = r \<and> \<not> dr_signaling_opened r \<or> (\<exists>w2. DiscoveryFinish b r2 w2 = (r, w')))"
proof -
  let ?r0 = "V1TransportDiscoveryResult_default"
  let ?r1 = "?r0\<lparr>dr_stage := DiscoveryStage_OpenSignaling, dr_open_attempts := 1,
    dr_signaling_opened := True\<rparr>"
  have start: "undecided ?r0" "\<not> dr_signaling_opened ?r0"
    by (simp_all add: undecided_def V1TransportDiscoveryResult_default_def)
  define open1 where "open1 = be_OpenSignaling b (do_open_timeout_ms options) (snd (IsCancelled p w))"
  define body where "body = discover_and_query b options p ?r1 (snd open1)"
  have "undecided (fst body) \<or> decided options (fst body)"
    using discover_verdict [of ?r1 b options p "snd open1" "fst body" "snd body"] start
    by (simp add: body_def)
  then have body: ?thesis if "DiscoveryFinish b (fst body) (snd body) = (r, w')"
    using that by blast
  have early: ?thesis if "undecided r" "\<not> dr_signaling_opened r" using that by blast
  show ?thesis
  proof (cases "DiscoveryOptionsAreValid options \<and> \<not> fst (IsCancelled p w) \<and> fst (fst open1)")
    case True
    then show ?thesis
      using assms body unfolding RunV1TransportDiscoveryOnce_def Let_def case_prod_beta
      by (simp add: open1_def body_def)
  next
    case False
    have "undecided r \<and> \<not> dr_signaling_opened r"
      using assms start False
      unfolding RunV1TransportDiscoveryOnce_def Let_def case_prod_beta open1_def [symmetric]
      by (auto simp: DiscoverySetPrimary_def undecided_def split: if_splits)
    then show ?thesis using early by blast
  qed
qed

text \<open>What a discovery reports.  In every session, the primary disposition is success exactly if
  an endpoint is reported; then the endpoint is legal, the reported configuration is the one chosen
  for the local and the reported remote capabilities, it is legal and both sides support it, and
  no protocol error is reported.  The final disposition is the primary one, unless the channel was
  opened and its close failed.\<close>

theorem discovery_reports_common_configuration:
  "let (r, w') = RunV1TransportDiscoveryOnce backend options probe w
   in (dr_primary_disposition r = Discovery_Succeeded \<longleftrightarrow> dr_remote_seid r \<noteq> 0) \<and>
      (if dr_remote_seid r = 0
       then dr_configuration r = ldac_configuration_zero
       else dr_remote_seid r \<le> 0x3F \<and> dr_protocol_error r = DiscoveryError_None \<and>
            ldac_choose_configuration (do_local_capabilities options) (dr_remote_capabilities r)
              (do_preferred_sample_rate_hz options) = (LDAC_CODEC_OK, dr_configuration r) \<and>
            legal_configuration (dr_configuration r) \<and>
            supported_by (dr_configuration r) (do_local_capabilities options) \<and>
            supported_by (dr_configuration r) (dr_remote_capabilities r)) \<and>
      dr_disposition r =
        (if dr_signaling_opened r \<and> \<not> dr_close_succeeded r then Discovery_CleanupFailure
         else dr_primary_disposition r)"
proof -
  obtain r w' where run: "RunV1TransportDiscoveryOnce backend options probe w = (r, w')"
    by (rule prod.exhaust)
  from run_verdict [OF this] obtain r2 where v: "undecided r2 \<or> decided options r2"
    and final: "r2 = r \<and> \<not> dr_signaling_opened r \<or>
      (\<exists>w2. DiscoveryFinish backend r2 w2 = (r, w'))"
    by blast
  have common: "legal_configuration c \<and> supported_by c x \<and> supported_by c y"
    if "ldac_choose_configuration x y hz = (LDAC_CODEC_OK, c)" for x y hz c
    using choose_configuration_ok [OF that] by blast
  have "dr_primary_disposition r = dr_primary_disposition r2 \<and>
      dr_remote_seid r = dr_remote_seid r2 \<and> dr_configuration r = dr_configuration r2 \<and>
      dr_remote_capabilities r = dr_remote_capabilities r2 \<and>
      dr_protocol_error r = dr_protocol_error r2 \<and>
      dr_disposition r = (if dr_signaling_opened r \<and> \<not> dr_close_succeeded r
        then Discovery_CleanupFailure else dr_primary_disposition r)"
    using final
  proof
    assume "\<exists>w2. DiscoveryFinish backend r2 w2 = (r, w')"
    then show ?thesis using finish_disposition [OF _ v] by metis
  qed (use v in \<open>auto simp: undecided_def decided_def\<close>)
  then show ?thesis
    using v common unfolding run undecided_def decided_def legal_seid_def by auto
qed

end
