(* ===== verification/Transport_Configuration.thy ===== *)
theory Transport_Configuration
  imports Transport_Discovery
begin

text \<open>
  One configuration session: \<open>agent/v1_transport_configuration_session.cpp\<close>.  It opens the
  signalling channel, lets the source machine of \<^theory_text>\<open>Avdtp\<close> negotiate, opens the media
  channel, closes the stream again and closes the channel.

  The class \<open>V1TransportConfigurationBackend\<close> derives from the discovery backend and adds
  \<open>OpenMedia\<close>; the record extends that of the discovery backend in the same way.  The negotiation
  loop has no bound in the code; it ends because every exchange lowers \<^const>\<open>exchanges_left\<close>.
\<close>

section \<open>Interface and data\<close>

text \<open>
  \<open>be_OpenMedia\<close> takes the timeout and the preferred unit size and gives success, the incoming and
  the outgoing unit size, and the error.
\<close>

record 'w V1TransportConfigurationBackend = "'w V1TransportDiscoveryBackend" +
  be_OpenMedia :: "u32 \<Rightarrow> u16 \<Rightarrow> 'w \<Rightarrow> (bool \<times> u16 \<times> u16 \<times> u32) \<times> 'w"

datatype V1TransportConfigurationDisposition =
  Configuration_Succeeded | Configuration_Cancelled | Configuration_InvalidConfiguration
| Configuration_BackendFailure | Configuration_ProtocolFailure | Configuration_CleanupFailure

datatype V1TransportConfigurationStage =
  ConfigurationStage_None | ConfigurationStage_OpenSignaling
| ConfigurationStage_DiscoverCapabilities | ConfigurationStage_SetConfiguration
| ConfigurationStage_AvdtpOpen | ConfigurationStage_OpenMedia | ConfigurationStage_AvdtpClose
| ConfigurationStage_CloseChannels

record V1TransportConfigurationOptions =
  co_open_timeout_ms :: u32
  co_exchange_timeout_ms :: u32
  co_media_open_timeout_ms :: u32
  co_preferred_media_mtu :: u16
  co_local_seid :: u8
  co_preferred_sample_rate_hz :: u32
  co_local_capabilities :: ldac_capabilities

record V1TransportConfigurationResult =
  cr_disposition :: V1TransportConfigurationDisposition
  cr_primary_disposition :: V1TransportConfigurationDisposition
  cr_stage :: V1TransportConfigurationStage
  cr_backend_error :: u32
  cr_cleanup_error :: u32
  cr_protocol_error :: int
  cr_remote_seid :: u8
  cr_configuration :: ldac_configuration
  cr_open_attempts :: u32
  cr_signaling_exchanges :: u32
  cr_incoming_mtu :: u16
  cr_outgoing_mtu :: u16
  cr_signaling_opened :: bool
  cr_set_configuration_accepted :: bool
  cr_avdtp_open_accepted :: bool
  cr_media_opened :: bool
  cr_avdtp_close_accepted :: bool
  cr_close_attempted :: bool
  cr_close_succeeded :: bool

definition V1TransportConfigurationOptions_default :: V1TransportConfigurationOptions where
  "V1TransportConfigurationOptions_default =
     \<lparr>co_open_timeout_ms = 10000, co_exchange_timeout_ms = 5000, co_media_open_timeout_ms = 10000,
      co_preferred_media_mtu = 1000, co_local_seid = 1, co_preferred_sample_rate_hz = 96000,
      co_local_capabilities = \<lparr>lc_sample_rates = LDAC_SF_ALL, lc_channel_modes = LDAC_CM_STEREO\<rparr>\<rparr>"

definition V1TransportConfigurationResult_default :: V1TransportConfigurationResult where
  "V1TransportConfigurationResult_default =
     \<lparr>cr_disposition = Configuration_InvalidConfiguration,
      cr_primary_disposition = Configuration_InvalidConfiguration,
      cr_stage = ConfigurationStage_None, cr_backend_error = 0, cr_cleanup_error = 0,
      cr_protocol_error = 0, cr_remote_seid = 0, cr_configuration = ldac_configuration_zero,
      cr_open_attempts = 0, cr_signaling_exchanges = 0, cr_incoming_mtu = 0, cr_outgoing_mtu = 0,
      cr_signaling_opened = False, cr_set_configuration_accepted = False,
      cr_avdtp_open_accepted = False, cr_media_opened = False, cr_avdtp_close_accepted = False,
      cr_close_attempted = False, cr_close_succeeded = False\<rparr>"

section \<open>The session\<close>

definition ConfigurationOptionsAreValid :: "V1TransportConfigurationOptions \<Rightarrow> bool" where
  "ConfigurationOptionsAreValid options \<longleftrightarrow>
     co_open_timeout_ms options \<noteq> 0 \<and> co_open_timeout_ms options \<le> kMaximumTimeoutMs \<and>
     co_exchange_timeout_ms options \<noteq> 0 \<and> co_exchange_timeout_ms options \<le> kMaximumTimeoutMs \<and>
     co_media_open_timeout_ms options \<noteq> 0 \<and> co_media_open_timeout_ms options \<le> kMaximumTimeoutMs \<and>
     co_preferred_media_mtu options \<noteq> 0 \<and>
     co_local_seid options \<noteq> 0 \<and> co_local_seid options \<le> 0x3F \<and>
     lc_sample_rates (co_local_capabilities options) AND LDAC_SF_ALL \<noteq> 0 \<and>
     lc_channel_modes (co_local_capabilities options) AND LDAC_CM_ALL \<noteq> 0"

definition ConfigurationSetPrimary ::
  "V1TransportConfigurationResult \<Rightarrow> V1TransportConfigurationDisposition \<Rightarrow>
   V1TransportConfigurationStage \<Rightarrow> V1TransportConfigurationResult" where
  "ConfigurationSetPrimary result disposition stage =
     result\<lparr>cr_primary_disposition := disposition, cr_disposition := disposition,
            cr_stage := stage\<rparr>"

definition ConfigurationFinish ::
  "('w, 'z) V1TransportConfigurationBackend_scheme \<Rightarrow> V1TransportConfigurationResult \<Rightarrow> 'w \<Rightarrow>
   V1TransportConfigurationResult \<times> 'w" where
  "ConfigurationFinish backend result w =
     (if \<not> cr_signaling_opened result then (result, w)
      else
        let ((ok, close_error), w1) = be_CloseSignaling backend w;
            result1 = result\<lparr>cr_close_attempted := True, cr_close_succeeded := ok,
                             cr_cleanup_error := close_error\<rparr>
        in if ok then (result1, w1)
           else (result1\<lparr>cr_disposition := Configuration_CleanupFailure,
                         cr_stage := ConfigurationStage_CloseChannels\<rparr>, w1))"

definition StageForSignal :: "u8 \<Rightarrow> V1TransportConfigurationStage" where
  "StageForSignal signal =
     (if signal = AVDTP_SIGNAL_DISCOVER \<or> signal = AVDTP_SIGNAL_GET_CAPABILITIES \<or>
         signal = AVDTP_SIGNAL_GET_ALL_CAPABILITIES then ConfigurationStage_DiscoverCapabilities
      else if signal = AVDTP_SIGNAL_SET_CONFIGURATION then ConfigurationStage_SetConfiguration
      else if signal = AVDTP_SIGNAL_OPEN then ConfigurationStage_AvdtpOpen
      else if signal = AVDTP_SIGNAL_CLOSE then ConfigurationStage_AvdtpClose
      else ConfigurationStage_None)"

text \<open>The flags an accepted response sets.\<close>

definition note_accepted ::
  "u8 \<Rightarrow> avdtp_action_kind \<Rightarrow> V1TransportConfigurationResult \<Rightarrow> V1TransportConfigurationResult" where
  "note_accepted signal kind result =
     (if signal = AVDTP_SIGNAL_SET_CONFIGURATION \<and> kind \<noteq> AVDTP_ACTION_ERROR
      then result\<lparr>cr_set_configuration_accepted := True\<rparr>
      else if signal = AVDTP_SIGNAL_OPEN \<and> kind \<noteq> AVDTP_ACTION_ERROR
      then result\<lparr>cr_avdtp_open_accepted := True\<rparr>
      else if signal = AVDTP_SIGNAL_CLOSE \<and> kind = AVDTP_ACTION_SESSION_CLOSED
      then result\<lparr>cr_avdtp_close_accepted := True\<rparr>
      else result)"

text \<open>The result is the next action, if there is one, with the machine and the result record.\<close>

definition ExchangeAction ::
  "('w, 'z) V1TransportConfigurationBackend_scheme \<Rightarrow> V1TransportConfigurationOptions \<Rightarrow>
   'w V1TransportCancelProbe \<Rightarrow> avdtp_source \<Rightarrow> avdtp_action \<Rightarrow> V1TransportConfigurationResult \<Rightarrow>
   'w \<Rightarrow> avdtp_action option \<times> avdtp_source \<times> V1TransportConfigurationResult \<times> 'w" where
  "ExchangeAction backend options probe source action result w =
     (let (status, header) = avdtp_parse_header (aa_packet action) avdtp_header_zero
      in if aa_kind action \<noteq> AVDTP_ACTION_SEND_SIGNALING \<or> status \<noteq> AVDTP_OK
         then (None, source,
               ConfigurationSetPrimary (result\<lparr>cr_protocol_error := AVDTP_SOURCE_ERROR_BAD_PACKET\<rparr>)
                 Configuration_ProtocolFailure (cr_stage result), w)
         else
           let result1 = result\<lparr>cr_stage := StageForSignal (ah_signal_id header)\<rparr>;
               (cancelled, w1) = IsCancelled probe w
           in if cancelled
              then (None, source,
                    ConfigurationSetPrimary result1 Configuration_Cancelled (cr_stage result1), w1)
              else
                let result2 = result1\<lparr>cr_signaling_exchanges := cr_signaling_exchanges result1 + 1\<rparr>;
                    ((ok, response, backend_error), w2) =
                      be_ExchangeSignaling backend (aa_packet action) kMaximumSignalingResponse
                        (co_exchange_timeout_ms options) w1
                in if \<not> ok then
                     let (cancelled2, w3) = IsCancelled probe w2
                     in (None, source,
                         ConfigurationSetPrimary (result2\<lparr>cr_backend_error := backend_error\<rparr>)
                           (if cancelled2 then Configuration_Cancelled
                            else Configuration_BackendFailure) (cr_stage result2), w3)
                   else
                     let (source1, next_action) = avdtp_source_handle_signaling source response;
                         result3 = note_accepted (ah_signal_id header) (aa_kind next_action) result2
                     in if aa_kind next_action = AVDTP_ACTION_ERROR
                        then (None, source1,
                              ConfigurationSetPrimary
                                (result3\<lparr>cr_protocol_error := aa_error_code next_action\<rparr>)
                                Configuration_ProtocolFailure (cr_stage result3), w2)
                        else (Some next_action, source1, result3, w2))"

lemma exchange_action_handles:
  assumes "ExchangeAction backend options probe source action result w =
      (Some next_action, source1, result1, w1)"
  shows "\<exists>response. avdtp_source_handle_signaling source response = (source1, next_action)"
  using assms unfolding ExchangeAction_def Let_def
  by (auto split: prod.splits if_splits)

text \<open>The measure of the negotiation loop.\<close>

definition loop_measure :: "avdtp_source \<Rightarrow> avdtp_action \<Rightarrow> nat" where
  "loop_measure source action =
     (if aa_kind action = AVDTP_ACTION_SEND_SIGNALING then Suc (exchanges_left source) else 0)"

lemma loop_measure_decreases:
  assumes "avdtp_source_handle_signaling source response = (source1, next_action)"
    and "aa_kind action = AVDTP_ACTION_SEND_SIGNALING"
  shows "loop_measure source1 next_action < loop_measure source action"
  using assms handle_signaling_progress [of source response]
  by (auto simp: loop_measure_def sends_def)

function negotiate_configuration ::
  "('w, 'z) V1TransportConfigurationBackend_scheme \<Rightarrow> V1TransportConfigurationOptions \<Rightarrow>
   'w V1TransportCancelProbe \<Rightarrow> avdtp_source \<Rightarrow> avdtp_action \<Rightarrow> V1TransportConfigurationResult \<Rightarrow>
   'w \<Rightarrow> avdtp_action option \<times> avdtp_source \<times> V1TransportConfigurationResult \<times> 'w" where
  "negotiate_configuration backend options probe source action result w =
     (if aa_kind action \<noteq> AVDTP_ACTION_SEND_SIGNALING then (Some action, source, result, w)
      else
        case ExchangeAction backend options probe source action result w of
          (None, source1, result1, w1) \<Rightarrow> (None, source1, result1, w1)
        | (Some next_action, source1, result1, w1) \<Rightarrow>
            negotiate_configuration backend options probe source1 next_action result1 w1)"
  by pat_completeness auto

termination
  by (relation "measure (\<lambda>(backend, options, probe, source, action, result, w).
      loop_measure source action)")
    (auto dest!: exchange_action_handles [OF sym] intro: loop_measure_decreases)

declare negotiate_configuration.simps [simp del]

text \<open>After the media channel: open the session, close the stream, and judge the answer.\<close>

definition close_stream ::
  "('w, 'z) V1TransportConfigurationBackend_scheme \<Rightarrow> V1TransportConfigurationOptions \<Rightarrow>
   'w V1TransportCancelProbe \<Rightarrow> avdtp_source \<Rightarrow> V1TransportConfigurationResult \<Rightarrow> 'w \<Rightarrow>
   V1TransportConfigurationResult \<times> 'w" where
  "close_stream backend options probe source result w =
     (let (source1, action) = avdtp_source_media_channel_opened source
      in if aa_kind action \<noteq> AVDTP_ACTION_SESSION_OPEN
         then (ConfigurationSetPrimary (result\<lparr>cr_protocol_error := aa_error_code action\<rparr>)
                 Configuration_ProtocolFailure ConfigurationStage_OpenMedia, w)
         else
           let (source2, close_action) = avdtp_source_close source1;
               (closed, source3, result1, w1) =
                 ExchangeAction backend options probe source2 close_action result w
           in case closed of
                None \<Rightarrow> (result1, w1)
              | Some a \<Rightarrow>
                  if aa_kind a \<noteq> AVDTP_ACTION_SESSION_CLOSED
                  then (ConfigurationSetPrimary
                          (result1\<lparr>cr_protocol_error :=
                             (if aa_kind a = AVDTP_ACTION_ERROR then aa_error_code a
                              else AVDTP_SOURCE_ERROR_UNEXPECTED_RESPONSE)\<rparr>)
                          Configuration_ProtocolFailure ConfigurationStage_AvdtpClose, w1)
                  else (ConfigurationSetPrimary result1 Configuration_Succeeded
                          ConfigurationStage_AvdtpClose, w1))"

definition open_media ::
  "('w, 'z) V1TransportConfigurationBackend_scheme \<Rightarrow> V1TransportConfigurationOptions \<Rightarrow>
   'w V1TransportCancelProbe \<Rightarrow> avdtp_source \<Rightarrow> V1TransportConfigurationResult \<Rightarrow> 'w \<Rightarrow>
   V1TransportConfigurationResult \<times> 'w" where
  "open_media backend options probe source result w =
     (let result1 = result\<lparr>cr_remote_seid := as_remote_seid source,
                           cr_configuration := as_configuration source\<rparr>;
          (cancelled, w1) = IsCancelled probe w
      in if cancelled
         then (ConfigurationSetPrimary result1 Configuration_Cancelled ConfigurationStage_OpenMedia, w1)
         else
           let ((ok, incoming, outgoing, backend_error), w2) =
                 be_OpenMedia backend (co_media_open_timeout_ms options)
                   (co_preferred_media_mtu options) w1;
               result2 = result1\<lparr>cr_stage := ConfigurationStage_OpenMedia,
                                 cr_incoming_mtu := incoming, cr_outgoing_mtu := outgoing\<rparr>
           in if \<not> ok
              then (ConfigurationSetPrimary (result2\<lparr>cr_backend_error := backend_error\<rparr>)
                      Configuration_BackendFailure ConfigurationStage_OpenMedia, w2)
              else close_stream backend options probe source
                     (result2\<lparr>cr_media_opened := True\<rparr>) w2)"

text \<open>The part between a successful open and \<open>Finish\<close>.\<close>

definition configure_stream ::
  "('w, 'z) V1TransportConfigurationBackend_scheme \<Rightarrow> V1TransportConfigurationOptions \<Rightarrow>
   'w V1TransportCancelProbe \<Rightarrow> V1TransportConfigurationResult \<Rightarrow> 'w \<Rightarrow>
   V1TransportConfigurationResult \<times> 'w" where
  "configure_stream backend options probe result w =
     (let (source, action) = avdtp_source_begin
            (avdtp_source_init (co_local_capabilities options) (co_local_seid options)
               (co_preferred_sample_rate_hz options));
          (negotiated_action, source1, result1, w1) =
            negotiate_configuration backend options probe source action result w
      in case negotiated_action of
           None \<Rightarrow> (result1, w1)
         | Some a \<Rightarrow>
             if aa_kind a \<noteq> AVDTP_ACTION_OPEN_MEDIA_CHANNEL
             then (ConfigurationSetPrimary
                     (result1\<lparr>cr_protocol_error :=
                        (if aa_kind a = AVDTP_ACTION_ERROR then aa_error_code a
                         else AVDTP_SOURCE_ERROR_UNEXPECTED_RESPONSE)\<rparr>)
                     Configuration_ProtocolFailure (cr_stage result1), w1)
             else open_media backend options probe source1 result1 w1)"

definition RunV1TransportConfigurationOnce ::
  "('w, 'z) V1TransportConfigurationBackend_scheme \<Rightarrow> V1TransportConfigurationOptions \<Rightarrow>
   'w V1TransportCancelProbe \<Rightarrow> 'w \<Rightarrow> V1TransportConfigurationResult \<times> 'w" where
  "RunV1TransportConfigurationOnce backend options probe w =
     (let result = V1TransportConfigurationResult_default
      in if \<not> ConfigurationOptionsAreValid options then (result, w)
         else
           let (cancelled, w1) = IsCancelled probe w
           in if cancelled
              then (ConfigurationSetPrimary result Configuration_Cancelled
                      ConfigurationStage_OpenSignaling, w1)
              else
                let result1 = result\<lparr>cr_stage := ConfigurationStage_OpenSignaling,
                                     cr_open_attempts := 1\<rparr>;
                    ((ok, backend_error), w2) =
                      be_OpenSignaling backend (co_open_timeout_ms options) w1
                in if \<not> ok then
                     let (cancelled2, w3) = IsCancelled probe w2
                     in (ConfigurationSetPrimary (result1\<lparr>cr_backend_error := backend_error\<rparr>)
                           (if cancelled2 then Configuration_Cancelled
                            else Configuration_BackendFailure)
                           ConfigurationStage_OpenSignaling, w3)
                   else
                     let (result2, w3) =
                       configure_stream backend options probe
                         (result1\<lparr>cr_signaling_opened := True\<rparr>) w2
                     in ConfigurationFinish backend result2 w3)"

section \<open>One exchange of a session\<close>

text \<open>What any command of the source machine looks like to the parser.\<close>

definition command_packet :: "bytes \<Rightarrow> bool" where
  "command_packet packet \<longleftrightarrow>
     length packet \<ge> 2 \<and> (\<exists>l. packet ! 0 = push_bit 4 l) \<and> packet ! 1 \<le> 0x3F"

lemma mask_3F: "(sig :: u8) \<le> 0x3F \<Longrightarrow> sig AND 0x3F = sig"
proof -
  assume "sig \<le> 0x3F"
  have "sig AND 0x3F = take_bit 6 sig" by (simp add: take_bit_eq_mask mask_eq_exp_minus_1)
  also have "\<dots> = sig"
    using \<open>sig \<le> 0x3F\<close>
    by (simp add: take_bit_eq_mod word_le_nat_alt mod_word_self word_unat_eq_iff unat_mod)
  finally show ?thesis .
qed

lemma parse_command:
  assumes "command_packet packet"
  shows "\<exists>header. avdtp_parse_header packet h0 = (AVDTP_OK, header) \<and> ah_signal_id header = packet ! 1"
proof -
  obtain l where l: "packet ! 0 = push_bit 4 l" using assms by (auto simp: command_packet_def)
  have "x AND 3 = take_bit 2 x" for x :: u8
    by (simp add: take_bit_eq_mask mask_eq_exp_minus_1)
  then have "drop_bit 2 (push_bit 4 l) AND 3 = 0" "push_bit 4 l AND 3 = 0" for l :: u8
    by (auto intro!: bit_word_eqI simp: bit_simps simp del: take_bit_drop_bit)
  then show ?thesis
    using assms l mask_3F [of "packet ! 1"]
    by (cases packet) (auto simp: avdtp_parse_header_def Let_def packet_type_of_def command_packet_def)
qed

definition logged_configuration ::
  "('w, 'z) V1TransportConfigurationBackend_scheme \<Rightarrow>
   ('w \<times> transport_call list) V1TransportConfigurationBackend" where
  "logged_configuration b =
     \<lparr>be_OpenSignaling = be_OpenSignaling (logged_discovery b),
      be_GetLastOpenDiagnostics = be_GetLastOpenDiagnostics (logged_discovery b),
      be_ExchangeSignaling = be_ExchangeSignaling (logged_discovery b),
      be_CloseSignaling = be_CloseSignaling (logged_discovery b),
      be_OpenMedia =
        (\<lambda>t mtu (w, log). let (r, w1) = be_OpenMedia b t mtu w in (r, w1, log @ [Call_OpenMedia]))\<rparr>"

lemma logged_configuration_calls [simp]:
  "be_OpenSignaling (logged_configuration b) t (w, log) =
    (fst (be_OpenSignaling b t w), snd (be_OpenSignaling b t w), log @ [Call_Open])"
  "be_ExchangeSignaling (logged_configuration b) q n t (w, log) =
    (fst (be_ExchangeSignaling b q n t w), snd (be_ExchangeSignaling b q n t w),
     log @ [Call_Exchange q])"
  "be_CloseSignaling (logged_configuration b) (w, log) =
    (fst (be_CloseSignaling b w), snd (be_CloseSignaling b w), log @ [Call_Close])"
  "be_OpenMedia (logged_configuration b) t mtu (w, log) =
    (fst (be_OpenMedia b t mtu w), snd (be_OpenMedia b t mtu w), log @ [Call_OpenMedia])"
  by (simp_all add: logged_configuration_def logged_discovery_def case_prod_beta Let_def)

text \<open>What the exchanges leave alone, and what a failed one reports.\<close>

definition cframe :: "V1TransportConfigurationResult \<Rightarrow> V1TransportConfigurationResult \<Rightarrow> bool" where
  "cframe r r' \<longleftrightarrow>
     cr_signaling_opened r' = cr_signaling_opened r \<and> cr_open_attempts r' = cr_open_attempts r \<and>
     cr_close_attempted r' = cr_close_attempted r \<and> cr_media_opened r' = cr_media_opened r \<and>
     cr_remote_seid r' = cr_remote_seid r \<and> cr_configuration r' = cr_configuration r"

definition failed :: "V1TransportConfigurationResult \<Rightarrow> bool" where
  "failed r \<longleftrightarrow>
     cr_primary_disposition r \<noteq> Configuration_Succeeded \<and> cr_disposition r = cr_primary_disposition r"

lemma cframe_refl [simp]: "cframe r r"
  by (simp add: cframe_def)

lemma cframe_updates [simp]:
  "cframe r (r'\<lparr>cr_stage := st\<rparr>) = cframe r r'"
  "cframe r (r'\<lparr>cr_signaling_exchanges := n\<rparr>) = cframe r r'"
  "cframe r (r'\<lparr>cr_backend_error := n\<rparr>) = cframe r r'"
  "cframe r (r'\<lparr>cr_protocol_error := e\<rparr>) = cframe r r'"
  by (simp_all add: cframe_def)

lemma cframe_trans: "cframe a b \<Longrightarrow> cframe b c \<Longrightarrow> cframe a c"
  by (simp add: cframe_def)

lemma note_accepted_frame [simp]:
  "cframe r (note_accepted sig k r') = cframe r r'"
  "cr_signaling_exchanges (note_accepted sig k r') = cr_signaling_exchanges r'"
  "failed (note_accepted sig k r') = failed r'"
  by (simp_all add: note_accepted_def cframe_def failed_def)

lemma primary_frame [simp]:
  "cframe r (ConfigurationSetPrimary r' d st) = cframe r r'"
  "cr_signaling_exchanges (ConfigurationSetPrimary r' d st) = cr_signaling_exchanges r'"
  "failed (ConfigurationSetPrimary r' d st) \<longleftrightarrow> d \<noteq> Configuration_Succeeded"
  by (simp_all add: ConfigurationSetPrimary_def cframe_def failed_def)

text \<open>The three outcomes of an exchange: cancelled before it, failed in it, answered.\<close>

lemma exchange_action_logged:
  assumes "ExchangeAction (logged_configuration b) options (logged_probe p) s a r (w, log) =
      (q, s', r', w', log')"
    and "aa_kind a = AVDTP_ACTION_SEND_SIGNALING" "command_packet (aa_packet a)"
  obtains (cancelled) "q = None" "log' = log" "cframe r r'" "failed r'"
      "cr_signaling_exchanges r' = cr_signaling_exchanges r"
    | (failed_exchange) "q = None" "log' = log @ [Call_Exchange (aa_packet a)]" "cframe r r'"
      "failed r'" "cr_signaling_exchanges r' = cr_signaling_exchanges r + 1"
    | (answered) response next_action where "q = Some next_action"
      "log' = log @ [Call_Exchange (aa_packet a)]"
      "avdtp_source_handle_signaling s response = (s', next_action)"
      "aa_kind next_action \<noteq> AVDTP_ACTION_ERROR"
      "r' = note_accepted (aa_packet a ! 1) (aa_kind next_action)
         (r\<lparr>cr_stage := StageForSignal (aa_packet a ! 1),
            cr_signaling_exchanges := cr_signaling_exchanges r + 1\<rparr>)"
proof -
  obtain header where h: "avdtp_parse_header (aa_packet a) avdtp_header_zero = (AVDTP_OK, header)"
      "ah_signal_id header = aa_packet a ! 1"
    using parse_command [OF assms(3)] by blast
  define c where "c = IsCancelled p w"
  define e where "e = be_ExchangeSignaling b (aa_packet a) kMaximumSignalingResponse
    (co_exchange_timeout_ms options) (snd c)"
  define n where "n = avdtp_source_handle_signaling s (fst (snd (fst e)))"
  note run = assms(1) [unfolded ExchangeAction_def h Let_def]
  show ?thesis
  proof (cases "fst c")
    case True
    then show ?thesis
      using run assms(2) cancelled by (auto simp: c_def case_prod_beta)
  next
    case not_cancelled: False
    show ?thesis
    proof (cases "fst (fst e) \<and> aa_kind (snd n) \<noteq> AVDTP_ACTION_ERROR")
      case True
      then show ?thesis
        using run assms(2) h(2) not_cancelled answered [of "snd n" "fst (snd (fst e))"]
        by (auto simp: c_def e_def n_def case_prod_beta)
    next
      case False
      then show ?thesis
        using run assms(2) not_cancelled failed_exchange
        by (auto simp: c_def e_def n_def case_prod_beta split: if_splits)
    qed
  qed
qed

section \<open>The negotiation loop refines the negotiation\<close>

text \<open>The command that is pending in a state of the negotiation.\<close>

definition pending_signal :: "avdtp_source_state \<Rightarrow> u8 set" where
  "pending_signal st =
     (if st = AVDTP_SOURCE_DISCOVER_SENT then {AVDTP_SIGNAL_DISCOVER}
      else if st = AVDTP_SOURCE_CAPABILITIES_SENT
      then {AVDTP_SIGNAL_GET_ALL_CAPABILITIES, AVDTP_SIGNAL_GET_CAPABILITIES}
      else if st = AVDTP_SOURCE_CONFIGURATION_SENT then {AVDTP_SIGNAL_SET_CONFIGURATION}
      else if st = AVDTP_SOURCE_OPEN_SENT then {AVDTP_SIGNAL_OPEN} else {})"

definition in_step :: "avdtp_source \<times> avdtp_action \<Rightarrow> bool" where
  "in_step sa \<longleftrightarrow>
     (sends sa \<longrightarrow> command_packet (aa_packet (snd sa)) \<and>
        aa_packet (snd sa) ! 1 \<in> pending_signal (as_state (fst sa)))"

lemma sent_command_packet:
  "sent_from l sa \<Longrightarrow> aa_packet (snd sa) ! 1 \<le> 0x3F \<Longrightarrow> command_packet (aa_packet (snd sa))"
  by (auto simp: sent_from_def command_packet_def)

lemma tl_second: "tl p = x # rest \<Longrightarrow> p ! 1 = x"
  by (cases p) auto

lemma handle_in_step: "in_step (avdtp_source_handle_signaling s r)"
  using handle_sends [of s r]
  by (auto simp: in_step_def asks_capabilities_def sets_configuration_def opens_stream_def
      pending_signal_def dest!: tl_second intro!: sent_command_packet)

lemma begin_in_step: "in_step (avdtp_source_begin (avdtp_source_init caps seid hz))"
  using begin_sends [of caps seid hz]
  by (auto simp: in_step_def pending_signal_def dest!: tl_second intro!: sent_command_packet)

lemma in_step_left: "in_step (s, a) \<Longrightarrow> sends (s, a) \<Longrightarrow> 0 < exchanges_left s"
  by (auto simp: in_step_def pending_signal_def exchanges_left_def split: if_splits)

text \<open>What the result record knows in a state of the negotiation.\<close>

definition flags_match :: "avdtp_source \<Rightarrow> V1TransportConfigurationResult \<Rightarrow> bool" where
  "flags_match s r \<longleftrightarrow>
     (as_state s \<in> {AVDTP_SOURCE_OPEN_SENT, AVDTP_SOURCE_WAITING_FOR_MEDIA_CHANNEL} \<longrightarrow>
        cr_set_configuration_accepted r) \<and>
     (as_state s = AVDTP_SOURCE_WAITING_FOR_MEDIA_CHANNEL \<longrightarrow> cr_avdtp_open_accepted r)"

lemma flags_match_step:
  assumes "avdtp_source_handle_signaling s response = (s', a')" "in_step (s, a)" "sends (s, a)"
    and "flags_match s r" "aa_kind a' \<noteq> AVDTP_ACTION_ERROR"
    and "cr_set_configuration_accepted r1 = cr_set_configuration_accepted r"
    and "cr_avdtp_open_accepted r1 = cr_avdtp_open_accepted r"
  shows "flags_match s' (note_accepted (aa_packet a ! 1) (aa_kind a') r1)"
proof (cases "sends (s', a')")
  case True
  then have "sends (avdtp_source_handle_signaling s response)" using assms(1) by simp
  from handle_sends [OF this] show ?thesis
    using assms
    by (auto simp: asks_capabilities_def sets_configuration_def opens_stream_def flags_match_def
        in_step_def pending_signal_def note_accepted_def)
next
  case False
  then have kind: "aa_kind (snd (avdtp_source_handle_signaling s response)) \<notin>
      {AVDTP_ACTION_SEND_SIGNALING, AVDTP_ACTION_ERROR}"
    using assms(1,5) by (simp add: sends_def)
  show ?thesis
    using handle_outcome [OF kind] assms
    by (auto simp: flags_match_def in_step_def pending_signal_def note_accepted_def
        split: if_splits)
qed

lemma negotiate_logged:
  assumes "negotiate_configuration (logged_configuration b) options (logged_probe p) s a r (w, log) =
      (q, s', r', w', log')"
    and "in_step (s, a)" "flags_match s r"
  shows "\<exists>packets. log' = log @ map Call_Exchange packets \<and>
      cr_signaling_exchanges r' = cr_signaling_exchanges r + of_nat (length packets) \<and>
      cframe r r' \<and> length packets \<le> (if sends (s, a) then exchanges_left s else 0) \<and>
      (case q of None \<Rightarrow> failed r'
       | Some a' \<Rightarrow> flags_match s' r' \<and> (\<exists>responses. negotiation (s, a) responses = (packets, s', a')))"
  using assms
proof (induction "loop_measure s a" arbitrary: s a r w log rule: less_induct)
  case less
  let ?b = "logged_configuration b" and ?p = "logged_probe p"
  show ?case
  proof (cases "sends (s, a)")
    case False
    then have "negotiation (s, a) [] = ([], s, a)" "q = Some a" "s' = s" "r' = r" "log' = log"
      using less.prems(1) by (auto simp: negotiate_configuration.simps [of ?b] sends_def)
    then show ?thesis using less.prems(3) False by (intro exI [of _ "[]"]) (auto intro: exI [of _ "[]"])
  next
    case True
    then have kind: "aa_kind a = AVDTP_ACTION_SEND_SIGNALING" by (simp add: sends_def)
    have packet: "command_packet (aa_packet a)" using less.prems(2) True by (simp add: in_step_def)
    have left: "0 < exchanges_left s" using in_step_left less.prems(2) True .
    obtain q1 s1 r1 w1 log1 where e: "ExchangeAction ?b options ?p s a r (w, log) =
        (q1, s1, r1, w1, log1)"
      by (metis prod_cases5)
    from e kind packet show ?thesis
    proof (cases rule: exchange_action_logged)
      case cancelled
      then show ?thesis
        using less.prems(1) kind e
        by (intro exI [of _ "[]"]) (simp add: negotiate_configuration.simps [of ?b])
    next
      case failed_exchange
      then show ?thesis
        using less.prems(1) kind e left True
        by (intro exI [of _ "[aa_packet a]"]) (simp add: negotiate_configuration.simps [of ?b])
    next
      case (answered response next_action)
      have next_run: "negotiate_configuration ?b options ?p s1 next_action r1 (w1, log1) =
          (q, s', r', w', log')"
        using less.prems(1) kind e answered(1)
        by (simp add: negotiate_configuration.simps [of ?b options ?p s a])
      have "in_step (s1, next_action)" using handle_in_step [of s response] answered(3) by simp
      moreover have "flags_match s1 r1"
        using flags_match_step [OF answered(3) less.prems(2) True less.prems(3) answered(4)]
          answered(5) by simp
      ultimately obtain packets where rest: "log' = log1 @ map Call_Exchange packets"
        "cr_signaling_exchanges r' = cr_signaling_exchanges r1 + of_nat (length packets)"
        "cframe r1 r'"
        "length packets \<le> (if sends (s1, next_action) then exchanges_left s1 else 0)"
        "case q of None \<Rightarrow> failed r'
         | Some a' \<Rightarrow> flags_match s' r' \<and>
             (\<exists>responses. negotiation (s1, next_action) responses = (packets, s', a'))"
        using less.hyps [OF loop_measure_decreases [OF answered(3) kind] next_run] by blast
      have "\<exists>responses. negotiation (s, a) responses = (aa_packet a # packets, s', a')"
        if "\<exists>responses. negotiation (s1, next_action) responses = (packets, s', a')" for a'
      proof -
        from that obtain responses where
          "negotiation (s1, next_action) responses = (packets, s', a')" ..
        then have "negotiation (s, a) (response # responses) = (aa_packet a # packets, s', a')"
          using kind answered(3) by simp
        then show ?thesis ..
      qed
      then have refined: "case q of None \<Rightarrow> failed r'
         | Some a' \<Rightarrow> flags_match s' r' \<and>
             (\<exists>responses. negotiation (s, a) responses = (aa_packet a # packets, s', a'))"
        using rest(5) by (cases q) simp_all
      have "length (aa_packet a # packets) \<le> exchanges_left s"
        using rest(4) left handle_signaling_progress [of s response] answered(3)
        by (auto split: if_splits)
      then show ?thesis
        using rest refined answered(2,5) True
        by (intro exI [of _ "aa_packet a # packets"]) (auto simp: cframe_def note_accepted_def)
    qed
  qed
qed

section \<open>Opening the media channel and closing the stream\<close>

definition succeeded :: "V1TransportConfigurationResult \<Rightarrow> bool" where
  "succeeded r \<longleftrightarrow>
     cr_primary_disposition r = Configuration_Succeeded \<and>
     cr_disposition r = cr_primary_disposition r \<and> cr_set_configuration_accepted r \<and>
     cr_avdtp_open_accepted r \<and> cr_media_opened r \<and> cr_avdtp_close_accepted r"

text \<open>The close command of an open machine, and what can answer it.\<close>

lemma close_sends:
  assumes "source_inv s" "as_state s = AVDTP_SOURCE_OPEN"
    and "avdtp_source_close s = (s', a)"
  shows "sends (s', a)" "command_packet (aa_packet a)" "aa_packet a ! 1 = AVDTP_SIGNAL_CLOSE"
    "as_state s' = AVDTP_SOURCE_CLOSE_SENT"
proof -
  let ?s = "s\<lparr>as_state := AVDTP_SOURCE_CLOSE_SENT\<rparr>"
  have e: "send_command ?s AVDTP_SIGNAL_CLOSE [push_bit 2 (as_remote_seid s)] = (s', a)"
    using assms by (simp add: avdtp_source_close_def)
  note sent = send_command_sends [of ?s AVDTP_SIGNAL_CLOSE "[push_bit 2 (as_remote_seid s)]"]
  show "sends (s', a)" "command_packet (aa_packet a)" "aa_packet a ! 1 = AVDTP_SIGNAL_CLOSE"
    "as_state s' = AVDTP_SOURCE_CLOSE_SENT"
    using sent source_inv_simps(1) [OF assms(1)] e
    by (auto simp: legal_seid_def sends_def make_action_def command_packet_def)
qed

lemma close_answered:
  assumes "avdtp_source_handle_signaling s response = (s', a)"
    and "as_state s = AVDTP_SOURCE_CLOSE_SENT" "aa_kind a \<noteq> AVDTP_ACTION_ERROR"
  shows "aa_kind a = AVDTP_ACTION_SESSION_CLOSED"
proof -
  have "\<not> sends (avdtp_source_handle_signaling s response)"
    using handle_sends [of s response] assms(2)
    by (auto simp: asks_capabilities_def sets_configuration_def opens_stream_def)
  then show ?thesis
    using handle_outcome [of s response] assms by (auto simp: sends_def make_action_def)
qed

lemma close_stream_logged:
  assumes "close_stream (logged_configuration b) options (logged_probe p) s r (w, log) = (r', w', log')"
    and "source_inv s" "as_state s = AVDTP_SOURCE_WAITING_FOR_MEDIA_CHANNEL"
    and "flags_match s r" "cr_media_opened r"
  shows "\<exists>sent. log' = log @ map Call_Exchange sent \<and> length sent \<le> 1 \<and>
    cr_signaling_exchanges r' = cr_signaling_exchanges r + of_nat (length sent) \<and> cframe r r' \<and>
    (if failed r' then True
     else succeeded r' \<and> (\<exists>packet. sent = [packet] \<and> packet ! 1 = AVDTP_SIGNAL_CLOSE))"
proof -
  let ?s1 = "s\<lparr>as_state := AVDTP_SOURCE_OPEN\<rparr>"
  have opened: "avdtp_source_media_channel_opened s = (?s1, make_action AVDTP_ACTION_SESSION_OPEN)"
    using assms(3) by (simp add: avdtp_source_media_channel_opened_def)
  then have inv: "source_inv ?s1" using operations_inv(1) [OF assms(2)] by simp
  obtain s2 a where close: "avdtp_source_close ?s1 = (s2, a)" by (rule prod.exhaust)
  note a = close_sends [OF inv _ close, simplified]
  obtain q s3 r1 w1 log1 where e: "ExchangeAction (logged_configuration b) options (logged_probe p)
      s2 a r (w, log) = (q, s3, r1, w1, log1)"
    by (metis prod_cases5)
  note run = assms(1) [unfolded close_stream_def, simplified opened close Let_def prod.case]
  have "aa_kind a = AVDTP_ACTION_SEND_SIGNALING" using a(1) by (simp add: sends_def)
  from e this a(2) show ?thesis
  proof (cases rule: exchange_action_logged)
    case cancelled
    then show ?thesis using run e by (intro exI [of _ "[]"]) (simp add: make_action_def)
  next
    case failed_exchange
    then show ?thesis using run e by (intro exI [of _ "[aa_packet a]"]) (simp add: make_action_def)
  next
    case (answered response next_action)
    then have kind: "aa_kind next_action = AVDTP_ACTION_SESSION_CLOSED"
      using close_answered a(4) by blast
    then have "r' = ConfigurationSetPrimary r1 Configuration_Succeeded ConfigurationStage_AvdtpClose"
        "log' = log1"
      using run e answered(1) by (simp_all add: make_action_def)
    then show ?thesis
      using answered(2,5) kind a(3) assms(3-5)
      by (intro exI [of _ "[aa_packet a]"])
        (auto simp: succeeded_def note_accepted_def flags_match_def ConfigurationSetPrimary_def
          cframe_def)
  qed
qed

definition base_frame :: "V1TransportConfigurationResult \<Rightarrow> V1TransportConfigurationResult \<Rightarrow> bool" where
  "base_frame r r' \<longleftrightarrow>
     cr_signaling_opened r' = cr_signaling_opened r \<and> cr_open_attempts r' = cr_open_attempts r \<and>
     cr_close_attempted r' = cr_close_attempted r"

lemma cframe_base: "cframe r r' \<Longrightarrow> base_frame r r'"
  by (simp add: cframe_def base_frame_def)

lemma base_frame_trans: "base_frame a b \<Longrightarrow> base_frame b c \<Longrightarrow> base_frame a c"
  by (simp add: base_frame_def)

lemma open_media_logged:
  assumes "open_media (logged_configuration b) options (logged_probe p) s r (w, log) = (r', w', log')"
    and "source_inv s" "as_state s = AVDTP_SOURCE_WAITING_FOR_MEDIA_CHANNEL" "flags_match s r"
  shows "\<exists>media sent. log' = log @ media @ map Call_Exchange sent \<and>
    media \<in> {[], [Call_OpenMedia]} \<and> length sent \<le> length media \<and>
    cr_signaling_exchanges r' = cr_signaling_exchanges r + of_nat (length sent) \<and> base_frame r r' \<and>
    (if failed r' then True
     else succeeded r' \<and> media = [Call_OpenMedia] \<and>
       (\<exists>packet. sent = [packet] \<and> packet ! 1 = AVDTP_SIGNAL_CLOSE) \<and>
       cr_remote_seid r' = as_remote_seid s \<and> cr_configuration r' = as_configuration s)"
proof -
  let ?b = "logged_configuration b"
  define c where "c = IsCancelled p w"
  define m where "m = be_OpenMedia b (co_media_open_timeout_ms options)
    (co_preferred_media_mtu options) (snd c)"
  note run = assms(1) [unfolded open_media_def Let_def]
  let ?r2 = "r\<lparr>cr_remote_seid := as_remote_seid s, cr_configuration := as_configuration s,
    cr_stage := ConfigurationStage_OpenMedia, cr_incoming_mtu := fst (snd (fst m)),
    cr_outgoing_mtu := fst (snd (snd (fst m))), cr_media_opened := True\<rparr>"
  consider (cancelled) "log' = log" "failed r'" "base_frame r r'"
      "cr_signaling_exchanges r' = cr_signaling_exchanges r"
    | (refused) "log' = log @ [Call_OpenMedia]" "failed r'" "base_frame r r'"
      "cr_signaling_exchanges r' = cr_signaling_exchanges r"
    | (opened) "close_stream ?b options (logged_probe p) s ?r2 (snd m, log @ [Call_OpenMedia]) =
        (r', w', log')"
    using run
    by (cases "fst c"; cases "fst (fst m)")
      (auto simp: c_def m_def case_prod_beta base_frame_def ConfigurationSetPrimary_def failed_def)
  then show ?thesis
  proof cases
    case opened
    have "flags_match s ?r2" using assms(4) by (simp add: flags_match_def)
    from close_stream_logged [OF opened assms(2,3) this] obtain sent where
      "log' = log @ [Call_OpenMedia] @ map Call_Exchange sent" "length sent \<le> 1"
      "cr_signaling_exchanges r' = cr_signaling_exchanges r + of_nat (length sent)" "cframe ?r2 r'"
      "if failed r' then True
       else succeeded r' \<and> (\<exists>packet. sent = [packet] \<and> packet ! 1 = AVDTP_SIGNAL_CLOSE)"
      by auto
    then show ?thesis
      by (intro exI [of _ "[Call_OpenMedia]"] exI [of _ sent])
        (auto simp: cframe_def base_frame_def split: if_splits)
  next
    case refused
    then show ?thesis by (intro exI [of _ "[Call_OpenMedia]"] exI [of _ "[]"]) auto
  qed (auto intro: exI [of _ "[]"])
qed

lemma configure_logged:
  assumes "configure_stream (logged_configuration b) options (logged_probe p) r (w, log) =
      (r', w', log')"
  shows "\<exists>first media sent. log' = log @ map Call_Exchange first @ media @ map Call_Exchange sent \<and>
    media \<in> {[], [Call_OpenMedia]} \<and> length first \<le> 129 \<and> length sent \<le> length media \<and>
    cr_signaling_exchanges r' =
      cr_signaling_exchanges r + of_nat (length first) + of_nat (length sent) \<and>
    base_frame r r' \<and>
    (if failed r' then True
     else succeeded r' \<and> media = [Call_OpenMedia] \<and>
       (\<exists>packet. sent = [packet] \<and> packet ! 1 = AVDTP_SIGNAL_CLOSE) \<and>
       (\<exists>responses s a. negotiation (avdtp_source_begin (avdtp_source_init
            (co_local_capabilities options) (co_local_seid options)
            (co_preferred_sample_rate_hz options))) responses = (first, s, a) \<and>
          aa_kind a = AVDTP_ACTION_OPEN_MEDIA_CHANNEL \<and>
          cr_remote_seid r' = as_remote_seid s \<and> cr_configuration r' = as_configuration s))"
proof -
  let ?b = "logged_configuration b" and ?p = "logged_probe p"
  let ?init = "avdtp_source_init (co_local_capabilities options) (co_local_seid options)
    (co_preferred_sample_rate_hz options)"
  obtain s0 a0 where start: "avdtp_source_begin ?init = (s0, a0)" by (rule prod.exhaust)
  obtain q s1 r1 w1 log1 where n: "negotiate_configuration ?b options ?p s0 a0 r (w, log) =
      (q, s1, r1, w1, log1)"
    by (metis prod_cases5)
  have step: "in_step (s0, a0)" using begin_in_step [of _ _ _] start by metis
  have flags: "flags_match s0 r"
    using start
    by (auto simp: flags_match_def avdtp_source_begin_def send_command_def source_fail_def Let_def
        avdtp_source_init_def split: if_splits)
  from negotiate_logged [OF n step flags] obtain packets where packets:
    "log1 = log @ map Call_Exchange packets"
    "cr_signaling_exchanges r1 = cr_signaling_exchanges r + of_nat (length packets)" "cframe r r1"
    "length packets \<le> (if sends (s0, a0) then exchanges_left s0 else 0)"
    "case q of None \<Rightarrow> failed r1
     | Some a' \<Rightarrow> flags_match s1 r1 \<and> (\<exists>responses. negotiation (s0, a0) responses = (packets, s1, a'))"
    by blast
  have "length packets \<le> 129"
    using packets(4) begin_sends [of "co_local_capabilities options" "co_local_seid options"
        "co_preferred_sample_rate_hz options"] start
    by (auto simp: exchanges_left_def split: if_splits)
  note run = assms [unfolded configure_stream_def Let_def, simplified start prod.case n]
  show ?thesis
  proof (cases q)
    case None
    then have "r' = r1" "log' = log1" using run by auto
    then show ?thesis
      using packets None \<open>length packets \<le> 129\<close> cframe_base
      by (intro exI [of _ packets] exI [of _ "[]"]) auto
  next
    case (Some a)
    then obtain responses where neg: "negotiation (s0, a0) responses = (packets, s1, a)"
        "flags_match s1 r1"
      using packets(5) by auto
    show ?thesis
    proof (cases "aa_kind a = AVDTP_ACTION_OPEN_MEDIA_CHANNEL")
      case False
      then have "failed r'" "log' = log1" "base_frame r1 r'"
          "cr_signaling_exchanges r' = cr_signaling_exchanges r1"
        using run Some
        by (auto simp: failed_def ConfigurationSetPrimary_def base_frame_def)
      then show ?thesis
        using packets \<open>length packets \<le> 129\<close> cframe_base [of r r1] base_frame_trans [of r r1 r']
        by (intro exI [of _ packets] exI [of _ "[]"]) auto
    next
      case True
      have wait: "as_state s1 = AVDTP_SOURCE_WAITING_FOR_MEDIA_CHANNEL"
        using negotiation_media_consistent [OF neg(1)] begin_media_consistent [of ?init] start True
        by (simp add: media_consistent_def)
      have inv: "source_inv s1"
        using negotiation_preserves [OF neg(1)] begin_inv [OF init_inv] start by (metis fst_conv)
      have media: "open_media ?b options ?p s1 r1 (w1, log1) = (r', w', log')"
        using run Some True by simp
      from open_media_logged [OF media inv wait neg(2)] obtain media sent where
        "log' = log1 @ media @ map Call_Exchange sent" "media \<in> {[], [Call_OpenMedia]}"
        "length sent \<le> length media"
        "cr_signaling_exchanges r' = cr_signaling_exchanges r1 + of_nat (length sent)"
        "base_frame r1 r'"
        "if failed r' then True
         else succeeded r' \<and> media = [Call_OpenMedia] \<and>
           (\<exists>packet. sent = [packet] \<and> packet ! 1 = AVDTP_SIGNAL_CLOSE) \<and>
           cr_remote_seid r' = as_remote_seid s1 \<and> cr_configuration r' = as_configuration s1"
        by blast
      then show ?thesis
        using packets neg(1) True start \<open>length packets \<le> 129\<close> cframe_base [of r r1]
          base_frame_trans [of r r1 r']
        by (intro exI [of _ packets] exI [of _ media] exI [of _ sent]) (auto split: if_splits)
    qed
  qed
qed

section \<open>The whole session\<close>

lemma run_configuration_logged:
  assumes "RunV1TransportConfigurationOnce (logged_configuration b) options (logged_probe p) (w, []) =
      (r, w', log)"
  obtains (silent) "log = []" "cr_open_attempts r = 0" "\<not> cr_signaling_opened r"
      "\<not> cr_close_attempted r" "cr_signaling_exchanges r = 0" "failed r"
    | (refused) "log = [Call_Open]" "cr_open_attempts r = 1" "\<not> cr_signaling_opened r"
      "\<not> cr_close_attempted r" "cr_signaling_exchanges r = 0" "failed r"
    | (opened) w2 r2 w3 log2 where
      "configure_stream (logged_configuration b) options (logged_probe p)
         (V1TransportConfigurationResult_default
            \<lparr>cr_stage := ConfigurationStage_OpenSignaling, cr_open_attempts := 1,
             cr_signaling_opened := True\<rparr>) (w2, [Call_Open]) = (r2, w3, log2)"
      "ConfigurationFinish (logged_configuration b) r2 (w3, log2) = (r, w', log)"
proof -
  let ?b = "logged_configuration b"
  let ?r0 = "V1TransportConfigurationResult_default"
  let ?r1 = "?r0\<lparr>cr_stage := ConfigurationStage_OpenSignaling, cr_open_attempts := 1,
    cr_signaling_opened := True\<rparr>"
  have start: "cr_signaling_exchanges ?r0 = 0" "cr_open_attempts ?r0 = 0"
      "\<not> cr_signaling_opened ?r0" "\<not> cr_close_attempted ?r0" "failed ?r0"
    by (simp_all add: V1TransportConfigurationResult_default_def failed_def)
  show ?thesis
  proof (cases "ConfigurationOptionsAreValid options \<and> \<not> fst (IsCancelled p w) \<and>
      fst (fst (be_OpenSignaling b (co_open_timeout_ms options) (snd (IsCancelled p w))))")
    case True
    let ?w2 = "snd (be_OpenSignaling b (co_open_timeout_ms options) (snd (IsCancelled p w)))"
    obtain r2 w3 log2 where c: "configure_stream ?b options (logged_probe p) ?r1 (?w2, [Call_Open]) =
        (r2, w3, log2)"
      by (metis prod_cases3)
    then show ?thesis
      using assms True opened [OF c]
      by (simp add: RunV1TransportConfigurationOnce_def Let_def case_prod_beta)
  next
    case False
    then show ?thesis
      using assms start silent refused
      by (auto simp: RunV1TransportConfigurationOnce_def Let_def case_prod_beta
          ConfigurationSetPrimary_def failed_def split: if_splits)
  qed
qed

lemma finish_configuration:
  assumes "ConfigurationFinish (logged_configuration b) r2 (w3, log2) = (r, w', log)"
    and "cr_signaling_opened r2"
  shows "log = log2 @ [Call_Close]" "cr_signaling_opened r" "cr_close_attempted r"
    "cr_signaling_exchanges r = cr_signaling_exchanges r2" "cr_open_attempts r = cr_open_attempts r2"
    "cr_remote_seid r = cr_remote_seid r2" "cr_configuration r = cr_configuration r2"
    "cr_primary_disposition r = cr_primary_disposition r2"
    "cr_set_configuration_accepted r = cr_set_configuration_accepted r2"
    "cr_avdtp_open_accepted r = cr_avdtp_open_accepted r2"
    "cr_media_opened r = cr_media_opened r2" "cr_avdtp_close_accepted r = cr_avdtp_close_accepted r2"
    "cr_disposition r = (if cr_close_succeeded r then cr_disposition r2
       else Configuration_CleanupFailure)"
  using assms
  by (auto simp: ConfigurationFinish_def Let_def case_prod_beta split: if_splits)

text \<open>The channels of a configuration session are bracketed.  Whatever the backend does and
  whenever the session is cancelled: invalid options or an early cancellation make no call; a
  failed open is the only call; after a successful open come at most 129 negotiation exchanges, at
  most one opening of the media channel and after it at most one more exchange, all counted in the
  result, and then exactly one close.\<close>

theorem configuration_session_bracketed:
  "let (r, w', log) = RunV1TransportConfigurationOnce (logged_configuration backend) options
         (logged_probe probe) (w, [])
   in \<exists>first media sent.
        log = (if cr_open_attempts r = 0 then []
               else if cr_signaling_opened r
               then [Call_Open] @ map Call_Exchange first @ media @ map Call_Exchange sent @ [Call_Close]
               else [Call_Open]) \<and>
        media \<in> {[], [Call_OpenMedia]} \<and> length first \<le> 129 \<and> length sent \<le> length media \<and>
        cr_signaling_exchanges r = of_nat (length first + length sent) \<and>
        cr_close_attempted r = cr_signaling_opened r"
proof -
  obtain r w' log where run: "RunV1TransportConfigurationOnce (logged_configuration backend) options
      (logged_probe probe) (w, []) = (r, w', log)"
    by (metis prod_cases3)
  then have "\<exists>first media sent.
        log = (if cr_open_attempts r = 0 then []
               else if cr_signaling_opened r
               then [Call_Open] @ map Call_Exchange first @ media @ map Call_Exchange sent @ [Call_Close]
               else [Call_Open]) \<and>
        media \<in> {[], [Call_OpenMedia]} \<and> length first \<le> 129 \<and> length sent \<le> length media \<and>
        cr_signaling_exchanges r = of_nat (length first + length sent) \<and>
        cr_close_attempted r = cr_signaling_opened r"
  proof (cases rule: run_configuration_logged)
    case (opened w2 r2 w3 log2)
    from configure_logged [OF opened(1)] obtain first media sent where
      "log2 = [Call_Open] @ map Call_Exchange first @ media @ map Call_Exchange sent"
      "media \<in> {[], [Call_OpenMedia]}" "length first \<le> 129" "length sent \<le> length media"
      "cr_signaling_exchanges r2 = of_nat (length first) + of_nat (length sent)"
      "cr_signaling_opened r2" "cr_open_attempts r2 = 1"
      by (auto simp: base_frame_def V1TransportConfigurationResult_default_def)
    then show ?thesis
      using finish_configuration [OF opened(2)]
      by (intro exI [of _ first] exI [of _ media] exI [of _ sent]) simp
  qed (auto intro!: exI [of _ "[]"])
  then show ?thesis by (simp add: run)
qed

lemma configuration_success:
  assumes "RunV1TransportConfigurationOnce (logged_configuration b) options (logged_probe p) (w, []) =
      (r, w', log)"
    and "cr_primary_disposition r = Configuration_Succeeded"
  shows "\<exists>responses packets close_packet s a.
    negotiation (avdtp_source_begin (avdtp_source_init (co_local_capabilities options)
      (co_local_seid options) (co_preferred_sample_rate_hz options))) responses = (packets, s, a) \<and>
    aa_kind a = AVDTP_ACTION_OPEN_MEDIA_CHANNEL \<and>
    log = [Call_Open] @ map Call_Exchange packets @
      [Call_OpenMedia, Call_Exchange close_packet, Call_Close] \<and>
    close_packet ! 1 = AVDTP_SIGNAL_CLOSE \<and>
    cr_remote_seid r = as_remote_seid s \<and> cr_configuration r = as_configuration s \<and>
    cr_set_configuration_accepted r \<and> cr_avdtp_open_accepted r \<and> cr_media_opened r \<and>
    cr_avdtp_close_accepted r \<and>
    cr_disposition r = (if cr_close_succeeded r then Configuration_Succeeded
      else Configuration_CleanupFailure)"
  using assms(1)
proof (cases rule: run_configuration_logged)
  case (opened w2 r2 w3 log2)
  from configure_logged [OF opened(1)] obtain first media sent where c:
    "log2 = [Call_Open] @ map Call_Exchange first @ media @ map Call_Exchange sent"
    "cr_signaling_opened r2"
    "if failed r2 then True
     else succeeded r2 \<and> media = [Call_OpenMedia] \<and>
       (\<exists>packet. sent = [packet] \<and> packet ! 1 = AVDTP_SIGNAL_CLOSE) \<and>
       (\<exists>responses s a. negotiation (avdtp_source_begin (avdtp_source_init
            (co_local_capabilities options) (co_local_seid options)
            (co_preferred_sample_rate_hz options))) responses = (first, s, a) \<and>
          aa_kind a = AVDTP_ACTION_OPEN_MEDIA_CHANNEL \<and>
          cr_remote_seid r2 = as_remote_seid s \<and> cr_configuration r2 = as_configuration s)"
    by (auto simp: base_frame_def V1TransportConfigurationResult_default_def)
  note f = finish_configuration [OF opened(2) c(2)]
  have "\<not> failed r2" using assms(2) f(8) by (simp add: failed_def)
  then show ?thesis using c f by (auto simp: succeeded_def) blast
qed (use assms(2) in \<open>auto simp: failed_def\<close>)

text \<open>C38: a successful configuration session refines the negotiation.  If the primary disposition is
  success, the calls of the session are the open of the channel, the packets of a negotiation of
  the source machine that ends by asking for the media channel, that opening, the close of the
  stream and the close of the channel, in this order; the result reports the endpoint and the
  configuration of that machine, a legal configuration both sides support, and every acceptance;
  only a failing close of the channel takes the success away.\<close>

theorem configuration_success_refines_negotiation:
  assumes "RunV1TransportConfigurationOnce (logged_configuration b) options (logged_probe p) (w, []) =
      (r, w', log)"
    and "cr_primary_disposition r = Configuration_Succeeded"
  shows "\<exists>responses packets close_packet s a.
    negotiation (avdtp_source_begin (avdtp_source_init (co_local_capabilities options)
      (co_local_seid options) (co_preferred_sample_rate_hz options))) responses = (packets, s, a) \<and>
    aa_kind a = AVDTP_ACTION_OPEN_MEDIA_CHANNEL \<and>
    log = [Call_Open] @ map Call_Exchange packets @
      [Call_OpenMedia, Call_Exchange close_packet, Call_Close] \<and>
    close_packet ! 1 = AVDTP_SIGNAL_CLOSE \<and>
    cr_remote_seid r = as_remote_seid s \<and> cr_configuration r = as_configuration s \<and>
    legal_configuration (cr_configuration r) \<and>
    supported_by (cr_configuration r) (co_local_capabilities options) \<and>
    supported_by (cr_configuration r) (as_remote_capabilities s) \<and>
    cr_set_configuration_accepted r \<and> cr_avdtp_open_accepted r \<and> cr_media_opened r \<and>
    cr_avdtp_close_accepted r \<and>
    cr_disposition r = (if cr_close_succeeded r then Configuration_Succeeded
      else Configuration_CleanupFailure)"
proof -
  from configuration_success [OF assms] obtain responses packets close_packet s a where
    c: "negotiation (avdtp_source_begin (avdtp_source_init (co_local_capabilities options)
      (co_local_seid options) (co_preferred_sample_rate_hz options))) responses = (packets, s, a)"
    "aa_kind a = AVDTP_ACTION_OPEN_MEDIA_CHANNEL" and rest:
    "log = [Call_Open] @ map Call_Exchange packets @
      [Call_OpenMedia, Call_Exchange close_packet, Call_Close]"
    "close_packet ! 1 = AVDTP_SIGNAL_CLOSE"
    "cr_remote_seid r = as_remote_seid s" "cr_configuration r = as_configuration s"
    "cr_set_configuration_accepted r" "cr_avdtp_open_accepted r" "cr_media_opened r"
    "cr_avdtp_close_accepted r"
    "cr_disposition r = (if cr_close_succeeded r then Configuration_Succeeded
      else Configuration_CleanupFailure)"
    by blast
  have "as_state s = AVDTP_SOURCE_WAITING_FOR_MEDIA_CHANNEL"
    using negotiation_media_consistent [OF c(1) begin_media_consistent] c(2)
    by (simp add: media_consistent_def)
  from completed_configured [OF c(1) this] show ?thesis
    using c rest by (intro exI [of _ responses] exI [of _ packets] exI [of _ close_packet]
        exI [of _ s] exI [of _ a]) simp
qed

text \<open>A backend that answers from a script, and the answers of a headset to a whole session.\<close>

definition scripted_backend :: "(bytes list) V1TransportConfigurationBackend" where
  "scripted_backend =
     \<lparr>be_OpenSignaling = (\<lambda>t w. ((True, 0), w)),
      be_GetLastOpenDiagnostics = (\<lambda>w. V1TransportOpenDiagnostics_default),
      be_ExchangeSignaling =
        (\<lambda>request n t w. case w of [] \<Rightarrow> ((False, [], 5), []) | r # rs \<Rightarrow> ((True, r, 0), rs)),
      be_CloseSignaling = (\<lambda>w. ((True, 0), w)),
      be_OpenMedia = (\<lambda>t mtu w. ((True, 672, mtu, 0), w))\<rparr>"

lemma scripted_session:
  "cr_primary_disposition (fst (RunV1TransportConfigurationOnce
     (logged_configuration scripted_backend) V1TransportConfigurationOptions_default
     (logged_probe None) (accepting_peer @ [[0x42, 0x08]], []))) = Configuration_Succeeded"
  by code_simp

theorem configuration_success_refines_negotiation_witness:
  "legal_configuration (cr_configuration (fst (RunV1TransportConfigurationOnce
     (logged_configuration scripted_backend) V1TransportConfigurationOptions_default
     (logged_probe None) (accepting_peer @ [[0x42, 0x08]], []))))"
proof -
  let ?run = "RunV1TransportConfigurationOnce
     (logged_configuration scripted_backend) V1TransportConfigurationOptions_default
     (logged_probe None) (accepting_peer @ [[0x42, 0x08]], [])"
  have "?run = (fst ?run, fst (snd ?run), snd (snd ?run))" by simp
  from configuration_success_refines_negotiation [OF this scripted_session]
  show ?thesis by blast
qed

end
