(* ===== verification/Ldac_Encoder.thy ===== *)
theory Ldac_Encoder
  imports Prelude
begin

text \<open>
  The wrapper around the LDAC library, \<open>engine/src/ldac_encoder.c\<close>: an encoder object with its
  handle, created and destroyed, its quality, and one call of the encoder.

  The library itself (\<open>ldacBT.h\<close>) is not part of the repository: its calls are the fields of a record
  that every operation takes, over a world of their own; \<open>calloc\<close>, which may fail, is another field.
  A handle is a value, a null handle is \<^const>\<open>None\<close>.  Samples are of any type: the only arithmetic on
  them is the mean of the two channels, the field \<open>bt_mean\<close>.  Enumerations are integers, because the
  operations check the range of what they are given.
\<close>

type_synonym ldac_encoder_quality = int
type_synonym ldac_encoder_channel_mode = int

abbreviation (input) "LDAC_ENCODER_QUALITY_HQ \<equiv> (0 :: ldac_encoder_quality)"
abbreviation (input) "LDAC_ENCODER_QUALITY_SQ \<equiv> (1 :: ldac_encoder_quality)"
abbreviation (input) "LDAC_ENCODER_QUALITY_MQ \<equiv> (2 :: ldac_encoder_quality)"
abbreviation (input) "LDAC_ENCODER_CHANNEL_STEREO \<equiv> (1 :: ldac_encoder_channel_mode)"
abbreviation (input) "LDAC_ENCODER_CHANNEL_DUAL \<equiv> (2 :: ldac_encoder_channel_mode)"
abbreviation (input) "LDAC_ENCODER_CHANNEL_MONO \<equiv> (4 :: ldac_encoder_channel_mode)"

abbreviation (input) "LDAC_ENCODER_PCM_FRAMES_PER_CALL \<equiv> (128 :: nat)"
abbreviation (input) "LDAC_ENCODER_STEREO_CHANNELS \<equiv> (2 :: nat)"
abbreviation (input) "LDAC_ENCODER_MAX_OUTPUT_BYTES \<equiv> (1024 :: nat)"
abbreviation (input) "LDAC_ENCODER_MIN_PAYLOAD_MTU \<equiv> (679 :: nat)"
abbreviation (input) "ENCODER_INT_MAX \<equiv> (2147483647 :: int)"

type_synonym ldac_encoder_status = int

abbreviation (input) "LDAC_ENCODER_OK \<equiv> (0 :: ldac_encoder_status)"
abbreviation (input) "LDAC_ENCODER_INVALID_ARGUMENT \<equiv> (-1 :: ldac_encoder_status)"
abbreviation (input) "LDAC_ENCODER_NO_MEMORY \<equiv> (-2 :: ldac_encoder_status)"
abbreviation (input) "LDAC_ENCODER_INITIALIZATION_FAILED \<equiv> (-3 :: ldac_encoder_status)"
abbreviation (input) "LDAC_ENCODER_ENCODING_FAILED \<equiv> (-4 :: ldac_encoder_status)"
abbreviation (input) "LDAC_ENCODER_NO_SPACE \<equiv> (-5 :: ldac_encoder_status)"
abbreviation (input) "LDAC_ENCODER_INVALID_OUTPUT \<equiv> (-6 :: ldac_encoder_status)"
abbreviation (input) "LDAC_ENCODER_CONFIGURATION_FAILED \<equiv> (-7 :: ldac_encoder_status)"

record ('h, 'f, 'w) ldacBT =
  bt_calloc :: "'w \<Rightarrow> bool \<times> 'w"
  bt_get_handle :: "'w \<Rightarrow> 'h option \<times> 'w"
  bt_init_handle_encode :: "'h \<Rightarrow> int \<Rightarrow> int \<Rightarrow> int \<Rightarrow> int \<Rightarrow> 'w \<Rightarrow> int \<times> 'w"
  bt_get_error_code :: "'h \<Rightarrow> 'w \<Rightarrow> int \<times> 'w"
  bt_free_handle :: "'h \<Rightarrow> 'w \<Rightarrow> 'w"
  bt_set_eqmid :: "'h \<Rightarrow> int \<Rightarrow> 'w \<Rightarrow> int \<times> 'w"
  bt_encode :: "'h \<Rightarrow> 'f list \<Rightarrow> 'w \<Rightarrow> (int \<times> int \<times> bytes \<times> int \<times> int) \<times> 'w"
  bt_mean :: "'f \<Rightarrow> 'f \<Rightarrow> 'f"

record 'h ldac_encoder =
  en_handle :: 'h
  en_encoded_payload_mtu :: nat
  en_quality :: ldac_encoder_quality
  en_channel_mode :: ldac_encoder_channel_mode
  en_sample_rate_hz :: nat
  en_last_error :: int

section \<open>Creation and destruction\<close>

definition supported_sample_rate :: "nat \<Rightarrow> bool" where
  "supported_sample_rate sample_rate_hz \<longleftrightarrow>
     sample_rate_hz = 44100 \<or> sample_rate_hz = 48000 \<or> sample_rate_hz = 88200 \<or> sample_rate_hz = 96000"

definition supported_quality :: "ldac_encoder_quality \<Rightarrow> bool" where
  "supported_quality quality \<longleftrightarrow>
     quality = LDAC_ENCODER_QUALITY_HQ \<or> quality = LDAC_ENCODER_QUALITY_SQ \<or>
     quality = LDAC_ENCODER_QUALITY_MQ"

definition supported_channel_mode :: "ldac_encoder_channel_mode \<Rightarrow> bool" where
  "supported_channel_mode channel_mode \<longleftrightarrow>
     channel_mode = LDAC_ENCODER_CHANNEL_STEREO \<or> channel_mode = LDAC_ENCODER_CHANNEL_DUAL \<or>
     channel_mode = LDAC_ENCODER_CHANNEL_MONO"

definition ldac_encoder_create_with_channel_mode ::
  "('h, 'f, 'w) ldacBT \<Rightarrow> nat \<Rightarrow> ldac_encoder_quality \<Rightarrow> nat \<Rightarrow> ldac_encoder_channel_mode \<Rightarrow> 'w \<Rightarrow>
   ldac_encoder_status \<times> 'h ldac_encoder option \<times> 'w" where
  "ldac_encoder_create_with_channel_mode bt encoded_payload_mtu quality sample_rate_hz channel_mode w =
     (if encoded_payload_mtu < LDAC_ENCODER_MIN_PAYLOAD_MTU \<or>
         int encoded_payload_mtu > ENCODER_INT_MAX \<or> \<not> supported_quality quality \<or>
         \<not> supported_sample_rate sample_rate_hz \<or> \<not> supported_channel_mode channel_mode
      then (LDAC_ENCODER_INVALID_ARGUMENT, None, w)
      else
        case bt_calloc bt w of
          (False, w1) \<Rightarrow> (LDAC_ENCODER_NO_MEMORY, None, w1)
        | (True, w1) \<Rightarrow>
            (case bt_get_handle bt w1 of
               (None, w2) \<Rightarrow> (LDAC_ENCODER_NO_MEMORY, None, w2)
             | (Some handle, w2) \<Rightarrow>
                 let (result, w3) =
                       bt_init_handle_encode bt handle (int encoded_payload_mtu) quality channel_mode
                         (int sample_rate_hz) w2
                 in if result \<noteq> 0
                    then let (last_error, w4) = bt_get_error_code bt handle w3
                         in (LDAC_ENCODER_INITIALIZATION_FAILED, None, bt_free_handle bt handle w4)
                    else (LDAC_ENCODER_OK,
                          Some \<lparr>en_handle = handle, en_encoded_payload_mtu = encoded_payload_mtu,
                                en_quality = quality, en_channel_mode = channel_mode,
                                en_sample_rate_hz = sample_rate_hz, en_last_error = 0\<rparr>, w3)))"

definition ldac_encoder_create ::
  "('h, 'f, 'w) ldacBT \<Rightarrow> nat \<Rightarrow> ldac_encoder_quality \<Rightarrow> nat \<Rightarrow> 'w \<Rightarrow>
   ldac_encoder_status \<times> 'h ldac_encoder option \<times> 'w" where
  "ldac_encoder_create bt encoded_payload_mtu quality sample_rate_hz w =
     ldac_encoder_create_with_channel_mode bt encoded_payload_mtu quality sample_rate_hz
       LDAC_ENCODER_CHANNEL_STEREO w"

definition ldac_encoder_destroy :: "('h, 'f, 'w) ldacBT \<Rightarrow> 'h ldac_encoder \<Rightarrow> 'w \<Rightarrow> 'w" where
  "ldac_encoder_destroy bt encoder w = bt_free_handle bt (en_handle encoder) w"

definition ldac_encoder_set_quality ::
  "('h, 'f, 'w) ldacBT \<Rightarrow> 'h ldac_encoder \<Rightarrow> ldac_encoder_quality \<Rightarrow> 'w \<Rightarrow>
   ldac_encoder_status \<times> 'h ldac_encoder \<times> 'w" where
  "ldac_encoder_set_quality bt encoder quality w =
     (if \<not> supported_quality quality then (LDAC_ENCODER_INVALID_ARGUMENT, encoder, w)
      else
        let (result, w1) = bt_set_eqmid bt (en_handle encoder) quality w
        in if result \<noteq> 0
           then let (last_error, w2) = bt_get_error_code bt (en_handle encoder) w1
                in (LDAC_ENCODER_CONFIGURATION_FAILED, encoder\<lparr>en_last_error := last_error\<rparr>, w2)
           else (LDAC_ENCODER_OK, encoder\<lparr>en_quality := quality\<rparr>, w1))"

section \<open>Encoding\<close>

text \<open>The mean of the two channels of every frame.\<close>

definition mono_samples :: "('h, 'f, 'w) ldacBT \<Rightarrow> 'f list \<Rightarrow> 'f list" where
  "mono_samples bt interleaved_stereo_pcm =
     map (\<lambda>index. bt_mean bt (interleaved_stereo_pcm ! (index * 2)) (interleaved_stereo_pcm ! (index * 2 + 1)))
       [0..<LDAC_ENCODER_PCM_FRAMES_PER_CALL]"

text \<open>
  One call.  The answer holds the encoded bytes and the number of transport frames; both are empty
  unless the status is \<^const>\<open>LDAC_ENCODER_OK\<close>.
\<close>

definition ldac_encoder_encode_f32 ::
  "('h, 'f, 'w) ldacBT \<Rightarrow> 'h ldac_encoder \<Rightarrow> 'f list \<Rightarrow> nat \<Rightarrow> nat \<Rightarrow> 'w \<Rightarrow>
   ldac_encoder_status \<times> (bytes \<times> u8) \<times> 'h ldac_encoder \<times> 'w" where
  "ldac_encoder_encode_f32 bt encoder interleaved_stereo_pcm pcm_frames encoded_capacity w =
     (if pcm_frames \<noteq> LDAC_ENCODER_PCM_FRAMES_PER_CALL
      then (LDAC_ENCODER_INVALID_ARGUMENT, ([], 0), encoder, w)
      else if encoded_capacity < LDAC_ENCODER_MAX_OUTPUT_BYTES
      then (LDAC_ENCODER_NO_SPACE, ([], 0), encoder, w)
      else
        let mono = (en_channel_mode encoder = LDAC_ENCODER_CHANNEL_MONO);
            pcm = (if mono then mono_samples bt interleaved_stereo_pcm else interleaved_stereo_pcm);
            expected_pcm_bytes =
              int (LDAC_ENCODER_PCM_FRAMES_PER_CALL * (if mono then 1 else 2) * 4);
            ((result, pcmUsed, encoded, streamSize, frameCount), w1) =
              bt_encode bt (en_handle encoder) pcm w
        in if result \<noteq> 0
           then let (last_error, w2) = bt_get_error_code bt (en_handle encoder) w1
                in (LDAC_ENCODER_ENCODING_FAILED, ([], 0), encoder\<lparr>en_last_error := last_error\<rparr>, w2)
           else if pcmUsed \<noteq> expected_pcm_bytes \<or> streamSize < 0 \<or>
                   nat streamSize > encoded_capacity \<or>
                   nat streamSize > en_encoded_payload_mtu encoder \<or>
                   frameCount < 0 \<or> frameCount > 31 \<or> (streamSize = 0) \<noteq> (frameCount = 0)
           then (LDAC_ENCODER_INVALID_OUTPUT, ([], 0), encoder, w1)
           else (LDAC_ENCODER_OK, (take (nat streamSize) encoded, of_int frameCount), encoder, w1))"

definition ldac_encoder_samples_per_transport_frame :: "'h ldac_encoder \<Rightarrow> nat" where
  "ldac_encoder_samples_per_transport_frame encoder =
     (if en_sample_rate_hz encoder \<ge> 88200 then 256 else 128)"

definition ldac_encoder_nominal_bitrate_kbps :: "'h ldac_encoder \<Rightarrow> nat" where
  "ldac_encoder_nominal_bitrate_kbps encoder =
     (let x441_family = (en_sample_rate_hz encoder = 44100 \<or> en_sample_rate_hz encoder = 88200);
          bitrate =
            (if en_quality encoder = LDAC_ENCODER_QUALITY_HQ
             then Some (if x441_family then 909 else 990)
             else if en_quality encoder = LDAC_ENCODER_QUALITY_SQ
             then Some (if x441_family then 606 else 660)
             else if en_quality encoder = LDAC_ENCODER_QUALITY_MQ
             then Some (if x441_family then 303 else 330)
             else None)
      in case bitrate of
           None \<Rightarrow> 0
         | Some bitrate \<Rightarrow>
             if en_channel_mode encoder = LDAC_ENCODER_CHANNEL_MONO then bitrate div 2 else bitrate)"

section \<open>Lemmas\<close>

text \<open>An encoder that came out of the operations holds supported values.\<close>

definition encoder_ok :: "'h ldac_encoder \<Rightarrow> bool" where
  "encoder_ok encoder \<longleftrightarrow>
     679 \<le> en_encoded_payload_mtu encoder \<and> int (en_encoded_payload_mtu encoder) \<le> ENCODER_INT_MAX \<and>
     supported_quality (en_quality encoder) \<and> supported_sample_rate (en_sample_rate_hz encoder) \<and>
     supported_channel_mode (en_channel_mode encoder)"

lemma create_ok:
  "ldac_encoder_create_with_channel_mode bt mtu quality rate mode w = (status, Some encoder, w') \<Longrightarrow>
     status = LDAC_ENCODER_OK \<and> encoder_ok encoder"
  by (auto simp: ldac_encoder_create_with_channel_mode_def encoder_ok_def Let_def
      split: if_splits prod.splits bool.splits option.splits)

lemma set_quality_ok:
  "encoder_ok encoder \<Longrightarrow> encoder_ok (fst (snd (ldac_encoder_set_quality bt encoder quality w)))"
  by (auto simp: ldac_encoder_set_quality_def encoder_ok_def case_prod_beta Let_def)

lemma encode_keeps_settings:
  "ldac_encoder_encode_f32 bt encoder pcm n capacity w = (status, answer, encoder', w') \<Longrightarrow>
     encoder' = encoder\<lparr>en_last_error := en_last_error encoder'\<rparr>"
  by (auto simp: ldac_encoder_encode_f32_def case_prod_beta Let_def split: if_splits)

text \<open>The calls of the library, recorded in the world.\<close>

datatype 'h bt_call = Bt_Got "'h option" | Bt_Init 'h | Bt_Freed 'h

definition logged_bt ::
  "('h, 'f, 'w) ldacBT \<Rightarrow> ('h, 'f, 'w \<times> 'h bt_call list) ldacBT" where
  "logged_bt bt =
     \<lparr>bt_calloc = (\<lambda>(w, log). let (r, w') = bt_calloc bt w in (r, w', log)),
      bt_get_handle = (\<lambda>(w, log). let (h, w') = bt_get_handle bt w in (h, w', log @ [Bt_Got h])),
      bt_init_handle_encode = (\<lambda>h mtu q mode rate (w, log).
        let (r, w') = bt_init_handle_encode bt h mtu q mode rate w in (r, w', log @ [Bt_Init h])),
      bt_get_error_code = (\<lambda>h (w, log). let (r, w') = bt_get_error_code bt h w in (r, w', log)),
      bt_free_handle = (\<lambda>h (w, log). (bt_free_handle bt h w, log @ [Bt_Freed h])),
      bt_set_eqmid = (\<lambda>h q (w, log). let (r, w') = bt_set_eqmid bt h q w in (r, w', log)),
      bt_encode = (\<lambda>h pcm (w, log). let (r, w') = bt_encode bt h pcm w in (r, w', log)),
      bt_mean = bt_mean bt\<rparr>"

section \<open>Properties\<close>

text \<open>C13: No handle of the library is leaked or freed twice: whatever the library answers, a creation
  that fails has freed the handle it got, if it got one, and one that succeeds keeps it for the
  encoder; destroying the encoder frees exactly that handle.\<close>

lemma encoder_handles_balanced:
  "let (status, created, w', log) =
         ldac_encoder_create_with_channel_mode (logged_bt bt) mtu quality rate mode (w, [])
   in case created of
        None \<Rightarrow> status \<noteq> LDAC_ENCODER_OK \<and>
          (log = [] \<or> log = [Bt_Got None] \<or> (\<exists>h. log = [Bt_Got (Some h), Bt_Init h, Bt_Freed h]))
      | Some encoder \<Rightarrow> status = LDAC_ENCODER_OK \<and>
          log = [Bt_Got (Some (en_handle encoder)), Bt_Init (en_handle encoder)] \<and>
          snd (ldac_encoder_destroy (logged_bt bt) encoder (w', log)) =
            log @ [Bt_Freed (en_handle encoder)]"
  by (auto simp: ldac_encoder_create_with_channel_mode_def ldac_encoder_destroy_def logged_bt_def
      Let_def split: prod.splits bool.splits option.splits)

text \<open>The output of an encoder call fits: with a library of any behaviour, a call that succeeds
  returns no more bytes than the payload MTU and the buffer hold, at most 31 transport frames, which
  the four bits and the fragment flags of the media header can count, and bytes exactly when it
  returns frames (if the library returned the bytes it announced); any other status returns nothing.\<close>

lemma encoded_output_fits:
  "let (status, (encoded, frames), encoder', w') = ldac_encoder_encode_f32 bt encoder pcm n capacity w;
       (result, used, buffer, size, count) =
         fst (bt_encode bt (en_handle encoder)
           (if en_channel_mode encoder = LDAC_ENCODER_CHANNEL_MONO then mono_samples bt pcm else pcm) w)
   in if status = LDAC_ENCODER_OK
      then n = 128 \<and> encoded = take (nat size) buffer \<and>
           length encoded \<le> en_encoded_payload_mtu encoder \<and> length encoded \<le> capacity \<and>
           frames \<le> 31 \<and> (size = 0) = (frames = 0) \<and> encoder' = encoder
      else encoded = [] \<and> frames = 0"
proof -
  have count: "(of_int c :: u8) \<le> 31 \<and> ((of_int c :: u8) = 0) = (c = 0)" if "0 \<le> c" "c \<le> 31" for c
  proof -
    have "c \<in> set [0..31]" using that by simp
    then show ?thesis by (auto simp: upto_rec1)
  qed
  show ?thesis
    using count
    by (auto simp: ldac_encoder_encode_f32_def Let_def case_prod_beta split: if_splits)
qed

end
