(* ===== verification/Transport_Silence.thy ===== *)
theory Transport_Silence
  imports Transport_Configuration Ldac_Encoder
begin

text \<open>
  One burst of silence: \<open>agent/v1_transport_silence_session.cpp\<close>.  It negotiates like the
  configuration session, starts the stream, writes up to four RTP packets of encoded silence,
  suspends and closes the stream and closes the channel.

  The LDAC encoder (\<open>ldac_encoder_*\<close>, the wrapper of \<^theory_text>\<open>Ldac_Encoder\<close>) is a
  parameter here: a record of functions on its state, which is created once and destroyed on every
  path out of the loop.  Its samples are of an arbitrary type with the value a default-initialised
  sample has.
\<close>

section \<open>Interface and data\<close>

record V1TransportMediaWriteDiagnostics =
  mw_query_attempts :: u32
  mw_query_error :: u32
  mw_query_bytes :: u32
  mw_sequence :: u32
  mw_operation :: u32
  mw_io_status :: int
  mw_brb_status :: int
  mw_bluetooth_status :: u32
  mw_requested_bytes :: u32
  mw_brb_buffer_size :: u32
  mw_remaining_bytes :: u32
  mw_transfer_flags :: u32
  mw_available :: bool

definition V1TransportMediaWriteDiagnostics_default :: V1TransportMediaWriteDiagnostics where
  "V1TransportMediaWriteDiagnostics_default =
     \<lparr>mw_query_attempts = 0, mw_query_error = 0, mw_query_bytes = 0, mw_sequence = 0,
      mw_operation = 0, mw_io_status = 0, mw_brb_status = 0, mw_bluetooth_status = 0,
      mw_requested_bytes = 0, mw_brb_buffer_size = 0, mw_remaining_bytes = 0,
      mw_transfer_flags = 0, mw_available = False\<rparr>"

datatype V1TransportSignalingReadDisposition =
  Read_NoPacket | Read_Packet | Read_TimedOut | Read_Failure

text \<open>The methods for the peer's commands belong to the interface; this session does not call them.\<close>

record 'w V1TransportSilenceBackend = "'w V1TransportConfigurationBackend" +
  be_WriteMedia :: "bytes \<Rightarrow> u32 \<Rightarrow> 'w \<Rightarrow> (bool \<times> u32) \<times> 'w"
  be_GetLastMediaWriteDiagnostics :: "'w \<Rightarrow> (bool \<times> V1TransportMediaWriteDiagnostics) \<times> 'w"
  be_BeginPeerSignalingRead :: "u32 \<Rightarrow> 'w \<Rightarrow> (bool \<times> u32) \<times> 'w"
  be_PollPeerSignalingRead ::
    "nat \<Rightarrow> 'w \<Rightarrow> (V1TransportSignalingReadDisposition \<times> bytes \<times> u32) \<times> 'w"
  be_SendPeerSignalingResponse :: "bytes \<Rightarrow> u32 \<Rightarrow> 'w \<Rightarrow> (bool \<times> u32) \<times> 'w"
  be_CancelPeerSignalingRead :: "'w \<Rightarrow> (bool \<times> u32) \<times> 'w"

text \<open>
  Creation takes the unit size of the payload, the sample rate and the channel mode, at the high
  quality; encoding takes the samples of one call and the capacity of the output and gives
  success, the encoded bytes and the number of frames in them.
\<close>

record ('s, 'e) ldac_encoder_api =
  enc_zero_sample :: 's
  enc_create :: "nat \<Rightarrow> u32 \<Rightarrow> ldac_encoder_channel_mode \<Rightarrow> 'e option"
  enc_samples_per_transport_frame :: "'e \<Rightarrow> u32"
  enc_encode_f32 :: "'s list \<Rightarrow> nat \<Rightarrow> 'e \<Rightarrow> (bool \<times> bytes \<times> u8) \<times> 'e"

text \<open>
  The wrapper of \<^theory_text>\<open>Ldac_Encoder\<close> as such a record; its state is an encoder object with the
  world of the library, in which it was created.
\<close>

definition wrapped_encoder ::
  "('h, 'f, 'v) ldacBT \<Rightarrow> 'f \<Rightarrow> 'v \<Rightarrow> ('f, 'h ldac_encoder \<times> 'v) ldac_encoder_api" where
  "wrapped_encoder bt zero v =
     \<lparr>enc_zero_sample = zero,
      enc_create = (\<lambda>mtu rate mode.
        case ldac_encoder_create_with_channel_mode bt mtu LDAC_ENCODER_QUALITY_HQ (unat rate) mode v of
          (status, Some encoder, v1) \<Rightarrow> Some (encoder, v1)
        | (status, None, v1) \<Rightarrow> None),
      enc_samples_per_transport_frame =
        (\<lambda>(encoder, v). of_nat (ldac_encoder_samples_per_transport_frame encoder)),
      enc_encode_f32 = (\<lambda>pcm capacity (encoder, v).
        let (status, (encoded, frames), encoder1, v1) =
              ldac_encoder_encode_f32 bt encoder pcm LDAC_ENCODER_PCM_FRAMES_PER_CALL capacity v
        in ((status = LDAC_ENCODER_OK, encoded, frames), encoder1, v1))\<rparr>"

datatype V1TransportSilenceStage =
  SilenceStage_None | SilenceStage_OpenSignaling | SilenceStage_Negotiate | SilenceStage_OpenMedia
| SilenceStage_Start | SilenceStage_WriteSilence | SilenceStage_Suspend | SilenceStage_Close
| SilenceStage_CloseChannels | SilenceStage_PreparePcm | SilenceStage_ReleasePcm
| SilenceStage_WritePcm

record V1TransportSilenceOptions =
  so_open_timeout_ms :: u32
  so_exchange_timeout_ms :: u32
  so_media_timeout_ms :: u32
  so_preferred_media_mtu :: u16
  so_packet_limit :: u32
  so_preferred_sample_rate_hz :: u32

definition V1TransportSilenceOptions_default :: V1TransportSilenceOptions where
  "V1TransportSilenceOptions_default =
     \<lparr>so_open_timeout_ms = 10000, so_exchange_timeout_ms = 5000, so_media_timeout_ms = 5000,
      so_preferred_media_mtu = 1000, so_packet_limit = 4, so_preferred_sample_rate_hz = 96000\<rparr>"

record V1TransportSilenceResult =
  sr_disposition :: V1TransportConfigurationDisposition
  sr_primary_disposition :: V1TransportConfigurationDisposition
  sr_stage :: V1TransportSilenceStage
  sr_backend_error :: u32
  sr_cleanup_error :: u32
  sr_protocol_error :: int
  sr_remote_seid :: u8
  sr_configuration :: ldac_configuration
  sr_open_attempts :: u32
  sr_signaling_exchanges :: u32
  sr_peer_signaling_commands_received :: u32
  sr_peer_discover_commands_accepted :: u32
  sr_peer_capability_commands_accepted :: u32
  sr_peer_configuration_commands_rejected :: u32
  sr_peer_close_commands_accepted :: u32
  sr_peer_signaling_read_timeouts :: u32
  sr_last_signaling_response_size :: u32
  sr_last_signaling_tx_transaction_label :: u8
  sr_last_signaling_tx_message_type :: u8
  sr_last_signaling_tx_signal_id :: u8
  sr_last_signaling_rx_transaction_label :: u8
  sr_last_signaling_rx_message_type :: u8
  sr_last_signaling_rx_signal_id :: u8
  sr_incoming_mtu :: u16
  sr_outgoing_mtu :: u16
  sr_media_packets_written :: u32
  sr_media_bytes_written :: u32
  sr_open_diagnostics :: V1TransportOpenDiagnostics
  sr_media_write_diagnostics :: V1TransportMediaWriteDiagnostics
  sr_signaling_opened :: bool
  sr_last_signaling_tx_header_available :: bool
  sr_last_signaling_rx_header_available :: bool
  sr_set_configuration_accepted :: bool
  sr_avdtp_open_accepted :: bool
  sr_media_opened :: bool
  sr_avdtp_start_accepted :: bool
  sr_avdtp_suspend_accepted :: bool
  sr_avdtp_close_accepted :: bool
  sr_ended_by_peer_close :: bool
  sr_remote_stream_cleanup_required :: bool
  sr_close_attempted :: bool
  sr_close_succeeded :: bool

definition V1TransportSilenceResult_default :: V1TransportSilenceResult where
  "V1TransportSilenceResult_default =
     \<lparr>sr_disposition = Configuration_InvalidConfiguration,
      sr_primary_disposition = Configuration_InvalidConfiguration, sr_stage = SilenceStage_None,
      sr_backend_error = 0, sr_cleanup_error = 0, sr_protocol_error = 0, sr_remote_seid = 0,
      sr_configuration = ldac_configuration_zero, sr_open_attempts = 0,
      sr_signaling_exchanges = 0, sr_peer_signaling_commands_received = 0,
      sr_peer_discover_commands_accepted = 0, sr_peer_capability_commands_accepted = 0,
      sr_peer_configuration_commands_rejected = 0, sr_peer_close_commands_accepted = 0,
      sr_peer_signaling_read_timeouts = 0, sr_last_signaling_response_size = 0,
      sr_last_signaling_tx_transaction_label = 0, sr_last_signaling_tx_message_type = 0,
      sr_last_signaling_tx_signal_id = 0, sr_last_signaling_rx_transaction_label = 0,
      sr_last_signaling_rx_message_type = 0, sr_last_signaling_rx_signal_id = 0,
      sr_incoming_mtu = 0, sr_outgoing_mtu = 0, sr_media_packets_written = 0,
      sr_media_bytes_written = 0, sr_open_diagnostics = V1TransportOpenDiagnostics_default,
      sr_media_write_diagnostics = V1TransportMediaWriteDiagnostics_default,
      sr_signaling_opened = False, sr_last_signaling_tx_header_available = False,
      sr_last_signaling_rx_header_available = False, sr_set_configuration_accepted = False,
      sr_avdtp_open_accepted = False, sr_media_opened = False, sr_avdtp_start_accepted = False,
      sr_avdtp_suspend_accepted = False, sr_avdtp_close_accepted = False,
      sr_ended_by_peer_close = False, sr_remote_stream_cleanup_required = False,
      sr_close_attempted = False, sr_close_succeeded = False\<rparr>"

section \<open>The session\<close>

definition SetFailure ::
  "V1TransportSilenceResult \<Rightarrow> V1TransportConfigurationDisposition \<Rightarrow> V1TransportSilenceStage \<Rightarrow>
   V1TransportSilenceResult" where
  "SetFailure result disposition stage =
     result\<lparr>sr_primary_disposition := disposition, sr_disposition := disposition,
            sr_stage := stage\<rparr>"

definition SilenceFinish ::
  "('w, 'z) V1TransportSilenceBackend_scheme \<Rightarrow> V1TransportSilenceResult \<Rightarrow> 'w \<Rightarrow>
   V1TransportSilenceResult \<times> 'w" where
  "SilenceFinish backend result w =
     (if \<not> sr_signaling_opened result then (result, w)
      else
        let ((ok, error), w1) = be_CloseSignaling backend w;
            result1 = result\<lparr>sr_close_attempted := True, sr_close_succeeded := ok,
                             sr_cleanup_error := error\<rparr>
        in if ok then (result1, w1)
           else (result1\<lparr>sr_disposition := Configuration_CleanupFailure,
                         sr_stage := SilenceStage_CloseChannels\<rparr>, w1))"

text \<open>
  The probe is asked again for the disposition of a refused exchange, and it is not asked before
  if the action is not a command.
\<close>

definition SilenceExchange ::
  "('w, 'z) V1TransportSilenceBackend_scheme \<Rightarrow> V1TransportSilenceOptions \<Rightarrow>
   'w V1TransportCancelProbe \<Rightarrow> avdtp_source \<Rightarrow> avdtp_action \<Rightarrow> V1TransportSilenceStage \<Rightarrow>
   V1TransportSilenceResult \<Rightarrow> 'w \<Rightarrow>
   avdtp_action option \<times> avdtp_source \<times> V1TransportSilenceResult \<times> 'w" where
  "SilenceExchange backend options probe source action stage result w =
     (let (refused, w1) =
            (if aa_kind action \<noteq> AVDTP_ACTION_SEND_SIGNALING then (True, w) else IsCancelled probe w)
      in if refused then
           let (cancelled, w2) = IsCancelled probe w1
           in (None, source,
               SetFailure result
                 (if cancelled then Configuration_Cancelled else Configuration_ProtocolFailure)
                 stage, w2)
         else
           let result1 = result\<lparr>sr_stage := stage,
                 sr_signaling_exchanges := sr_signaling_exchanges result + 1\<rparr>;
               ((ok, response, error), w2) =
                 be_ExchangeSignaling backend (aa_packet action) kMaximumSignalingResponse
                   (so_exchange_timeout_ms options) w1
           in if \<not> ok then
                let (cancelled, w3) = IsCancelled probe w2
                in (None, source,
                    SetFailure (result1\<lparr>sr_backend_error := error\<rparr>)
                      (if cancelled then Configuration_Cancelled else Configuration_BackendFailure)
                      stage, w3)
              else
                let (source1, next_action) = avdtp_source_handle_signaling source response
                in if aa_kind next_action = AVDTP_ACTION_ERROR
                   then (None, source1,
                         SetFailure (result1\<lparr>sr_protocol_error := aa_error_code next_action\<rparr>)
                           Configuration_ProtocolFailure stage, w2)
                   else (Some next_action, source1, result1, w2))"

text \<open>
  The encoding loop: \<open>samples\<close> is the constant \<open>samples_per_frame\<close>, \<open>calls\<close> is the number of encoder calls left of the 32.  The first component
  is false if the loop returned from the function, true if it ended.
\<close>

fun zero_packets ::
  "('s, 'e) ldac_encoder_api \<Rightarrow> ('w, 'z) V1TransportSilenceBackend_scheme \<Rightarrow>
   V1TransportSilenceOptions \<Rightarrow> 'w V1TransportCancelProbe \<Rightarrow> u32 \<Rightarrow> nat \<Rightarrow> 'e \<Rightarrow> u16 \<Rightarrow>
   u32 \<Rightarrow> V1TransportSilenceResult \<Rightarrow> 'w \<Rightarrow> bool \<times> V1TransportSilenceResult \<times> 'w" where
  "zero_packets api backend options probe samples 0 encoder sequence timestamp result w = (True, result, w)"
| "zero_packets api backend options probe samples (Suc calls) encoder sequence timestamp result w =
     (if \<not> sr_media_packets_written result < so_packet_limit options then (True, result, w)
      else
        let (cancelled, w1) = IsCancelled probe w
        in if cancelled then (False, result, w1)
           else
             let pcm = replicate (LDAC_ENCODER_PCM_FRAMES_PER_CALL * LDAC_ENCODER_STEREO_CHANNELS)
                   (enc_zero_sample api);
                 ((ok, encoded, frame_count), encoder1) =
                   enc_encode_f32 api pcm LDAC_ENCODER_MAX_OUTPUT_BYTES encoder
             in if \<not> ok then
                  (False, result\<lparr>sr_protocol_error := LDAC_ENCODER_ENCODING_FAILED\<rparr>, w1)
                else if encoded = []
                then zero_packets api backend options probe samples calls encoder1 sequence timestamp
                       result w1
                else
                  let (status, packet) =
                    ldac_rtp_build_unfragmented 4096 (unat (sr_outgoing_mtu result)) sequence
                      timestamp 0x56315A30 frame_count encoded
                  in if status \<noteq> LDAC_RTP_OK then
                       (False, result\<lparr>sr_protocol_error := AVDTP_SOURCE_ERROR_BAD_PACKET\<rparr>, w1)
                     else
                       let ((written, error), w2) =
                         be_WriteMedia backend packet (so_media_timeout_ms options) w1
                       in if \<not> written then (False, result\<lparr>sr_backend_error := error\<rparr>, w2)
                          else zero_packets api backend options probe samples calls encoder1 (sequence + 1)
                            (timestamp + ucast frame_count * samples)
                            (result\<lparr>sr_media_packets_written := sr_media_packets_written result + 1,
                                    sr_media_bytes_written :=
                                      sr_media_bytes_written result + of_nat (length packet)\<rparr>) w2)"

definition encoder_mode :: "u8 \<Rightarrow> ldac_encoder_channel_mode" where
  "encoder_mode channel_mode =
     (if channel_mode = LDAC_CM_STEREO then LDAC_ENCODER_CHANNEL_STEREO
      else if channel_mode = LDAC_CM_DUAL then LDAC_ENCODER_CHANNEL_DUAL
      else LDAC_ENCODER_CHANNEL_MONO)"

definition SendZeroPackets ::
  "('s, 'e) ldac_encoder_api \<Rightarrow> ('w, 'z) V1TransportSilenceBackend_scheme \<Rightarrow>
   V1TransportSilenceOptions \<Rightarrow> 'w V1TransportCancelProbe \<Rightarrow> V1TransportSilenceResult \<Rightarrow> 'w \<Rightarrow>
   bool \<times> V1TransportSilenceResult \<times> 'w" where
  "SendZeroPackets api backend options probe result w =
     (if unat (sr_outgoing_mtu result) \<le> LDAC_RTP_OVERHEAD
      then (False, result\<lparr>sr_protocol_error := AVDTP_SOURCE_ERROR_BAD_PACKET\<rparr>, w)
      else
        case enc_create api (unat (sr_outgoing_mtu result) - LDAC_RTP_OVERHEAD)
               (ldac_sample_rate_to_hz (lf_sample_rate (sr_configuration result)))
               (encoder_mode (lf_channel_mode (sr_configuration result))) of
          None \<Rightarrow> (False, result\<lparr>sr_protocol_error := LDAC_ENCODER_INITIALIZATION_FAILED\<rparr>, w)
        | Some encoder \<Rightarrow>
            let (ended, result1, w1) =
                  zero_packets api backend options probe (enc_samples_per_transport_frame api encoder)
                    32 encoder 0 0 result w
            in if \<not> ended then (False, result1, w1)
               else
                 let complete = sr_media_packets_written result1 = so_packet_limit options;
                     result2 = (if \<not> complete \<and> sr_protocol_error result1 = 0
                       then result1\<lparr>sr_protocol_error := LDAC_ENCODER_INVALID_OUTPUT\<rparr> else result1)
                 in (complete, result2, w1))"

definition IsV1RemoteNoResourcesDiagnostic :: "V1TransportOpenDiagnostics \<Rightarrow> bool" where
  "IsV1RemoteNoResourcesDiagnostic diagnostics \<longleftrightarrow>
     od_available diagnostics \<and> od_remote_response_valid diagnostics \<and>
     od_operation diagnostics = 1 \<and> od_psm diagnostics = 0x0019 \<and>
     od_remote_bluetooth_address diagnostics \<noteq> 0 \<and>
     od_channel_flags diagnostics = 0x00060000 \<and> od_response diagnostics = 4 \<and>
     od_response_status diagnostics = 0"

definition IsV1StrictlyRetryableRemoteNoResources :: "V1TransportSilenceResult \<Rightarrow> bool" where
  "IsV1StrictlyRetryableRemoteNoResources result \<longleftrightarrow>
     sr_disposition result = Configuration_BackendFailure \<and>
     sr_primary_disposition result = Configuration_BackendFailure \<and>
     sr_stage result = SilenceStage_OpenSignaling \<and> sr_backend_error result = 71 \<and>
     sr_open_attempts result = 1 \<and> sr_signaling_exchanges result = 0 \<and>
     \<not> sr_signaling_opened result \<and> IsV1RemoteNoResourcesDiagnostic (sr_open_diagnostics result)"

text \<open>The negotiation loop; it ends for the reason the one of the configuration session ends.\<close>

definition negotiation_stage :: "u8 \<Rightarrow> V1TransportSilenceStage" where
  "negotiation_stage signal =
     (if signal = AVDTP_SIGNAL_START then SilenceStage_Start
      else if signal = AVDTP_SIGNAL_SUSPEND then SilenceStage_Suspend
      else if signal = AVDTP_SIGNAL_CLOSE then SilenceStage_Close
      else SilenceStage_Negotiate)"

definition note_negotiated :: "u8 \<Rightarrow> V1TransportSilenceResult \<Rightarrow> V1TransportSilenceResult" where
  "note_negotiated signal result =
     (let result1 = (if signal = AVDTP_SIGNAL_SET_CONFIGURATION
                     then result\<lparr>sr_set_configuration_accepted := True\<rparr> else result)
      in if signal = AVDTP_SIGNAL_OPEN then result1\<lparr>sr_avdtp_open_accepted := True\<rparr> else result1)"

lemma silence_exchange_handles:
  assumes "SilenceExchange backend options probe source action stage result w =
      (Some next_action, source1, result1, w1)"
  shows "\<exists>response. avdtp_source_handle_signaling source response = (source1, next_action)"
  using assms unfolding SilenceExchange_def Let_def
  by (auto split: prod.splits if_splits)

function negotiate_silence ::
  "('w, 'z) V1TransportSilenceBackend_scheme \<Rightarrow> V1TransportSilenceOptions \<Rightarrow>
   'w V1TransportCancelProbe \<Rightarrow> avdtp_source \<Rightarrow> avdtp_action \<Rightarrow> V1TransportSilenceResult \<Rightarrow>
   'w \<Rightarrow> avdtp_action option \<times> avdtp_source \<times> V1TransportSilenceResult \<times> 'w" where
  "negotiate_silence backend options probe source action result w =
     (if aa_kind action \<noteq> AVDTP_ACTION_SEND_SIGNALING then (Some action, source, result, w)
      else
        let (status, header) = avdtp_parse_header (aa_packet action) avdtp_header_zero
        in if status \<noteq> AVDTP_OK
           then (None, source,
                 SetFailure result Configuration_ProtocolFailure SilenceStage_Negotiate, w)
           else
             case SilenceExchange backend options probe source action
                    (negotiation_stage (ah_signal_id header)) result w of
               (None, source1, result1, w1) \<Rightarrow> (None, source1, result1, w1)
             | (Some next_action, source1, result1, w1) \<Rightarrow>
                 negotiate_silence backend options probe source1 next_action
                   (note_negotiated (ah_signal_id header) result1) w1)"
  by pat_completeness auto

termination
  by (relation "measure (\<lambda>(backend, options, probe, source, action, result, w).
      loop_measure source action)")
    (auto dest!: silence_exchange_handles [OF sym] intro: loop_measure_decreases)

declare negotiate_silence.simps [simp del]

text \<open>
  One command of the opened stream and the action its acceptance has to bring.  The first component
  says whether it did; \<open>accepted\<close> is what the code records before it looks at the action.
\<close>

definition stream_command ::
  "('w, 'z) V1TransportSilenceBackend_scheme \<Rightarrow> V1TransportSilenceOptions \<Rightarrow>
   'w V1TransportCancelProbe \<Rightarrow> avdtp_source \<times> avdtp_action \<Rightarrow> V1TransportSilenceStage \<Rightarrow>
   avdtp_action_kind \<Rightarrow> (V1TransportSilenceResult \<Rightarrow> V1TransportSilenceResult) \<Rightarrow>
   V1TransportSilenceResult \<Rightarrow> 'w \<Rightarrow>
   bool \<times> avdtp_source \<times> V1TransportSilenceResult \<times> 'w" where
  "stream_command backend options probe command stage expected accepted result w =
     (case SilenceExchange backend options probe (fst command) (snd command) stage result w of
        (None, source1, result1, w1) \<Rightarrow> (False, source1, result1, w1)
      | (Some next_action, source1, result1, w1) \<Rightarrow>
          let result2 = accepted result1
          in if aa_kind next_action \<noteq> expected
             then (False, source1,
                   SetFailure
                     (result2\<lparr>sr_protocol_error := AVDTP_SOURCE_ERROR_UNEXPECTED_RESPONSE\<rparr>)
                     Configuration_ProtocolFailure stage, w1)
             else (True, source1, result2, w1))"

definition suspend_and_close ::
  "('w, 'z) V1TransportSilenceBackend_scheme \<Rightarrow> V1TransportSilenceOptions \<Rightarrow>
   'w V1TransportCancelProbe \<Rightarrow> avdtp_source \<Rightarrow> V1TransportSilenceResult \<Rightarrow> 'w \<Rightarrow>
   V1TransportSilenceResult \<times> 'w" where
  "suspend_and_close backend options probe source result w =
     (let (suspended, source1, result1, w1) =
            stream_command backend options probe (avdtp_source_suspend source) SilenceStage_Suspend
              AVDTP_ACTION_STREAM_SUSPENDED (\<lambda>r. r) result w
      in if \<not> suspended then (result1, w1)
         else
           let result2 = result1\<lparr>sr_avdtp_suspend_accepted := True,
                                 sr_remote_stream_cleanup_required := False\<rparr>;
               (closed, source2, result3, w2) =
                 stream_command backend options probe (avdtp_source_close source1) SilenceStage_Close
                   AVDTP_ACTION_SESSION_CLOSED (\<lambda>r. r) result2 w1
           in if \<not> closed then (result3, w2)
              else (result3\<lparr>sr_avdtp_close_accepted := True,
                            sr_primary_disposition := Configuration_Succeeded,
                            sr_disposition := Configuration_Succeeded\<rparr>, w2))"

definition start_and_write ::
  "('s, 'e) ldac_encoder_api \<Rightarrow> ('w, 'z) V1TransportSilenceBackend_scheme \<Rightarrow>
   V1TransportSilenceOptions \<Rightarrow> 'w V1TransportCancelProbe \<Rightarrow> avdtp_source \<Rightarrow>
   V1TransportSilenceResult \<Rightarrow> 'w \<Rightarrow> V1TransportSilenceResult \<times> 'w" where
  "start_and_write api backend options probe source result w =
     (let (started, source1, result1, w1) =
            stream_command backend options probe (avdtp_source_start source) SilenceStage_Start
              AVDTP_ACTION_STREAM_READY
              (\<lambda>r. r\<lparr>sr_remote_stream_cleanup_required := True\<rparr>) result w
      in if \<not> started then (result1, w1)
         else
           let result2 = result1\<lparr>sr_avdtp_start_accepted := True,
                                 sr_stage := SilenceStage_WriteSilence\<rparr>;
               (sent, result3, w2) = SendZeroPackets api backend options probe result2 w1
           in if \<not> sent then
                let (cancelled, w3) = IsCancelled probe w2
                in (SetFailure result3
                      (if cancelled then Configuration_Cancelled
                       else if sr_backend_error result3 \<noteq> 0 then Configuration_BackendFailure
                       else Configuration_ProtocolFailure) (sr_stage result3), w3)
              else suspend_and_close backend options probe source1 result3 w2)"

definition open_media_and_stream ::
  "('s, 'e) ldac_encoder_api \<Rightarrow> ('w, 'z) V1TransportSilenceBackend_scheme \<Rightarrow>
   V1TransportSilenceOptions \<Rightarrow> 'w V1TransportCancelProbe \<Rightarrow> avdtp_source \<Rightarrow>
   V1TransportSilenceResult \<Rightarrow> 'w \<Rightarrow> V1TransportSilenceResult \<times> 'w" where
  "open_media_and_stream api backend options probe source result w =
     (let ((ok, incoming, outgoing, error), w1) =
            be_OpenMedia backend (so_media_timeout_ms options) (so_preferred_media_mtu options) w;
          result1 = result\<lparr>sr_remote_seid := as_remote_seid source,
                           sr_configuration := as_configuration source,
                           sr_stage := SilenceStage_OpenMedia,
                           sr_incoming_mtu := incoming, sr_outgoing_mtu := outgoing\<rparr>
      in if \<not> ok
         then (SetFailure (result1\<lparr>sr_backend_error := error\<rparr>) Configuration_BackendFailure
                 (sr_stage result1), w1)
         else
           let result2 = result1\<lparr>sr_media_opened := True\<rparr>
           in if incoming = 0 \<or> unat outgoing \<le> LDAC_RTP_OVERHEAD \<or>
                 unat outgoing - LDAC_RTP_OVERHEAD < LDAC_ENCODER_MIN_PAYLOAD_MTU
              then (SetFailure (result2\<lparr>sr_protocol_error := AVDTP_SOURCE_ERROR_BAD_PACKET\<rparr>)
                      Configuration_ProtocolFailure (sr_stage result2), w1)
              else
                let (source1, opened) = avdtp_source_media_channel_opened source
                in if aa_kind opened \<noteq> AVDTP_ACTION_SESSION_OPEN
                   then (SetFailure result2 Configuration_ProtocolFailure (sr_stage result2), w1)
                   else start_and_write api backend options probe source1 result2 w1)"

text \<open>The part between a successful open and \<open>Finish\<close>.\<close>

definition silence_body ::
  "('s, 'e) ldac_encoder_api \<Rightarrow> ('w, 'z) V1TransportSilenceBackend_scheme \<Rightarrow>
   V1TransportSilenceOptions \<Rightarrow> 'w V1TransportCancelProbe \<Rightarrow> V1TransportSilenceResult \<Rightarrow> 'w \<Rightarrow>
   V1TransportSilenceResult \<times> 'w" where
  "silence_body api backend options probe result w =
     (let (source, action) = avdtp_source_begin
            (avdtp_source_init \<lparr>lc_sample_rates = LDAC_SF_ALL, lc_channel_modes = LDAC_CM_STEREO\<rparr> 1
               (so_preferred_sample_rate_hz options));
          (negotiated_action, source1, result1, w1) =
            negotiate_silence backend options probe source action result w
      in case negotiated_action of
           None \<Rightarrow> (result1, w1)
         | Some a \<Rightarrow>
             if aa_kind a \<noteq> AVDTP_ACTION_OPEN_MEDIA_CHANNEL
             then (SetFailure result1 Configuration_ProtocolFailure SilenceStage_Negotiate, w1)
             else open_media_and_stream api backend options probe source1 result1 w1)"

definition SilenceOptionsAreValid :: "V1TransportSilenceOptions \<Rightarrow> bool" where
  "SilenceOptionsAreValid options \<longleftrightarrow>
     \<not> (so_open_timeout_ms options = 0 \<or> so_open_timeout_ms options > kMaximumTimeoutMs \<or>
        so_exchange_timeout_ms options = 0 \<or> so_exchange_timeout_ms options > kMaximumTimeoutMs \<or>
        so_media_timeout_ms options = 0 \<or> so_media_timeout_ms options > kMaximumTimeoutMs \<or>
        so_preferred_media_mtu options = 0 \<or>
        so_packet_limit options = 0 \<or> so_packet_limit options > 4)"

definition RunV1TransportSilenceBurstOnce ::
  "('s, 'e) ldac_encoder_api \<Rightarrow> ('w, 'z) V1TransportSilenceBackend_scheme \<Rightarrow>
   V1TransportSilenceOptions \<Rightarrow> 'w V1TransportCancelProbe \<Rightarrow> 'w \<Rightarrow>
   V1TransportSilenceResult \<times> 'w" where
  "RunV1TransportSilenceBurstOnce api backend options probe w =
     (let result = V1TransportSilenceResult_default
      in if \<not> SilenceOptionsAreValid options then (result, w)
         else
           let (cancelled, w1) = IsCancelled probe w
           in if cancelled
              then (SetFailure result Configuration_Cancelled SilenceStage_OpenSignaling, w1)
              else
                let result1 = result\<lparr>sr_stage := SilenceStage_OpenSignaling,
                                     sr_open_attempts := 1\<rparr>;
                    ((ok, error), w2) = be_OpenSignaling backend (so_open_timeout_ms options) w1
                in if \<not> ok
                   then (SetFailure
                           (result1\<lparr>sr_backend_error := error,
                                    sr_open_diagnostics := be_GetLastOpenDiagnostics backend w2\<rparr>)
                           Configuration_BackendFailure SilenceStage_OpenSignaling, w2)
                   else
                     let (result2, w3) = silence_body api backend options probe
                           (result1\<lparr>sr_signaling_opened := True\<rparr>) w2
                     in SilenceFinish backend result2 w3)"

section \<open>The calls of a session\<close>

definition logged_silence ::
  "('w, 'z) V1TransportSilenceBackend_scheme \<Rightarrow>
   ('w \<times> transport_call list) V1TransportSilenceBackend" where
  "logged_silence b =
     \<lparr>be_OpenSignaling = be_OpenSignaling (logged_discovery b),
      be_GetLastOpenDiagnostics = be_GetLastOpenDiagnostics (logged_discovery b),
      be_ExchangeSignaling = be_ExchangeSignaling (logged_discovery b),
      be_CloseSignaling = be_CloseSignaling (logged_discovery b),
      be_OpenMedia =
        (\<lambda>t mtu (w, log). let (r, w1) = be_OpenMedia b t mtu w in (r, w1, log @ [Call_OpenMedia])),
      be_WriteMedia =
        (\<lambda>p t (w, log). let (r, w1) = be_WriteMedia b p t w in (r, w1, log @ [Call_WriteMedia p])),
      be_GetLastMediaWriteDiagnostics =
        (\<lambda>(w, log). let (r, w1) = be_GetLastMediaWriteDiagnostics b w in (r, w1, log)),
      be_BeginPeerSignalingRead =
        (\<lambda>t (w, log). let (r, w1) = be_BeginPeerSignalingRead b t w in (r, w1, log)),
      be_PollPeerSignalingRead =
        (\<lambda>n (w, log). let (r, w1) = be_PollPeerSignalingRead b n w in (r, w1, log)),
      be_SendPeerSignalingResponse =
        (\<lambda>p t (w, log). let (r, w1) = be_SendPeerSignalingResponse b p t w in (r, w1, log)),
      be_CancelPeerSignalingRead =
        (\<lambda>(w, log). let (r, w1) = be_CancelPeerSignalingRead b w in (r, w1, log))\<rparr>"

lemma logged_silence_calls [simp]:
  "be_OpenSignaling (logged_silence b) t (w, log) =
    (fst (be_OpenSignaling b t w), snd (be_OpenSignaling b t w), log @ [Call_Open])"
  "be_ExchangeSignaling (logged_silence b) q n t (w, log) =
    (fst (be_ExchangeSignaling b q n t w), snd (be_ExchangeSignaling b q n t w),
     log @ [Call_Exchange q])"
  "be_CloseSignaling (logged_silence b) (w, log) =
    (fst (be_CloseSignaling b w), snd (be_CloseSignaling b w), log @ [Call_Close])"
  "be_OpenMedia (logged_silence b) t mtu (w, log) =
    (fst (be_OpenMedia b t mtu w), snd (be_OpenMedia b t mtu w), log @ [Call_OpenMedia])"
  "be_WriteMedia (logged_silence b) q t (w, log) =
    (fst (be_WriteMedia b q t w), snd (be_WriteMedia b q t w), log @ [Call_WriteMedia q])"
  by (simp_all add: logged_silence_def logged_discovery_def case_prod_beta Let_def)

text \<open>The media packets among the calls, and the calls between the open and the close.\<close>

fun writes :: "transport_call list \<Rightarrow> bytes list" where
  "writes [] = []"
| "writes (Call_WriteMedia p # cs) = p # writes cs"
| "writes (_ # cs) = writes cs"

lemma writes_append [simp]: "writes (xs @ ys) = writes xs @ writes ys"
  by (induction xs rule: writes.induct) auto

lemma writes_media [simp]: "writes (map Call_WriteMedia ps) = ps"
  by (induction ps) auto

definition inner :: "transport_call list \<Rightarrow> bool" where
  "inner cs \<longleftrightarrow> Call_Open \<notin> set cs \<and> Call_Close \<notin> set cs"

text \<open>Consecutive RTP packets of the LDAC stream that fit the channel.\<close>

fun rtp_run :: "u16 \<Rightarrow> u16 \<Rightarrow> bytes list \<Rightarrow> bool" where
  "rtp_run mtu sequence [] = True"
| "rtp_run mtu sequence (p # ps) \<longleftrightarrow>
     take 4 p = [0x80, 96] @ write_u16_be sequence \<and> length p \<le> unat mtu \<and>
     rtp_run mtu (sequence + 1) ps"

lemma built_packet:
  assumes "ldac_rtp_build_unfragmented out_size mtu sequence timestamp ssrc frames encoded =
      (LDAC_RTP_OK, packet)"
  shows "take 4 packet = [0x80, 96] @ write_u16_be sequence" "length packet \<le> mtu"
    "length packet \<le> out_size" "drop 13 packet = encoded" "packet ! 12 = frames"
  using assms
  by (auto simp: ldac_rtp_build_unfragmented_def write_u16_be_def write_u32_be_def Let_def
      split: if_splits)

definition sfailed :: "V1TransportSilenceResult \<Rightarrow> bool" where
  "sfailed r \<longleftrightarrow> sr_primary_disposition r \<noteq> Configuration_Succeeded"

text \<open>What the signalling steps leave alone.\<close>

definition sframe :: "V1TransportSilenceResult \<Rightarrow> V1TransportSilenceResult \<Rightarrow> bool" where
  "sframe r r' \<longleftrightarrow>
     sr_signaling_opened r' = sr_signaling_opened r \<and> sr_open_attempts r' = sr_open_attempts r \<and>
     sr_close_attempted r' = sr_close_attempted r \<and> sr_outgoing_mtu r' = sr_outgoing_mtu r \<and>
     sr_media_packets_written r' = sr_media_packets_written r \<and>
     sr_avdtp_start_accepted r' = sr_avdtp_start_accepted r \<and>
     sr_media_opened r' = sr_media_opened r"

lemma sframe_refl [simp]: "sframe r r"
  by (simp add: sframe_def)

lemma sframe_trans: "sframe a b \<Longrightarrow> sframe b c \<Longrightarrow> sframe a c"
  by (simp add: sframe_def)

lemma sframe_updates [simp]:
  "sframe r (SetFailure r' d st) = sframe r r'"
  "sframe r (r'\<lparr>sr_stage := st\<rparr>) = sframe r r'"
  "sframe r (r'\<lparr>sr_signaling_exchanges := n\<rparr>) = sframe r r'"
  "sframe r (r'\<lparr>sr_backend_error := n\<rparr>) = sframe r r'"
  "sframe r (r'\<lparr>sr_protocol_error := e\<rparr>) = sframe r r'"
  "sframe r (note_negotiated sig r') = sframe r r'"
  "sframe r (r'\<lparr>sr_remote_stream_cleanup_required := b\<rparr>) = sframe r r'"
  "sframe r (r'\<lparr>sr_avdtp_suspend_accepted := b\<rparr>) = sframe r r'"
  by (simp_all add: sframe_def SetFailure_def note_negotiated_def Let_def)

lemma sfailed_updates [simp]:
  "sfailed (SetFailure r d st) \<longleftrightarrow> d \<noteq> Configuration_Succeeded"
  by (simp add: sfailed_def SetFailure_def)

lemma silence_exchange_logged:
  assumes "SilenceExchange (logged_silence b) options (logged_probe p) s a stage r (w, log) =
      (q, s', r', w', log')"
  shows "sframe r r' \<and> (log' = log \<or> log' = log @ [Call_Exchange (aa_packet a)]) \<and>
    (q = None \<longrightarrow> sfailed r')"
  using assms
  by (auto simp: SilenceExchange_def Let_def case_prod_beta split: if_splits)

definition quiet :: "transport_call list \<Rightarrow> transport_call list \<Rightarrow> bool" where
  "quiet log log' \<longleftrightarrow> (\<exists>cs. log' = log @ cs \<and> inner cs \<and> writes cs = [])"

lemma quiet_refl [simp]: "quiet log log"
  by (simp add: quiet_def inner_def)

lemma quiet_exchange [simp]: "quiet log (log @ [Call_Exchange q])"
  by (simp add: quiet_def inner_def)

lemma quiet_trans: "quiet a b \<Longrightarrow> quiet b c \<Longrightarrow> quiet a c"
  by (fastforce simp: quiet_def inner_def)

lemma negotiate_silence_logged:
  assumes "negotiate_silence (logged_silence b) options (logged_probe p) s a r (w, log) =
      (q, s', r', w', log')"
  shows "sframe r r' \<and> quiet log log' \<and> (q = None \<longrightarrow> sfailed r')"
  using assms
proof (induction "loop_measure s a" arbitrary: s a r w log rule: less_induct)
  case less
  let ?b = "logged_silence b" and ?p = "logged_probe p"
  obtain status header where h: "avdtp_parse_header (aa_packet a) avdtp_header_zero = (status, header)"
    by (rule prod.exhaust)
  show ?case
  proof (cases "aa_kind a = AVDTP_ACTION_SEND_SIGNALING \<and> status = AVDTP_OK")
    case False
    then show ?thesis
      using less.prems h by (auto simp: negotiate_silence.simps [of ?b] split: if_splits)
  next
    case True
    obtain q1 s1 r1 w1 log1 where e: "SilenceExchange ?b options ?p s a
        (negotiation_stage (ah_signal_id header)) r (w, log) = (q1, s1, r1, w1, log1)"
      by (metis prod_cases5)
    note x = silence_exchange_logged [OF e]
    show ?thesis
    proof (cases q1)
      case None
      then show ?thesis
        using less.prems h True e x by (auto simp: negotiate_silence.simps [of ?b])
    next
      case (Some next_action)
      have run: "negotiate_silence ?b options ?p s1 next_action
          (note_negotiated (ah_signal_id header) r1) (w1, log1) = (q, s', r', w', log')"
        using less.prems h True e Some by (simp add: negotiate_silence.simps [of ?b options ?p s a])
      obtain response where "avdtp_source_handle_signaling s response = (s1, next_action)"
        using silence_exchange_handles [OF e [unfolded Some]] by blast
      then have "loop_measure s1 next_action < loop_measure s a"
        using loop_measure_decreases True by blast
      from less.hyps [OF this run] show ?thesis
        using x sframe_trans [of r "note_negotiated (ah_signal_id header) r1" r']
          quiet_trans [of log log1 log'] by auto
    qed
  qed
qed

text \<open>The media loop.\<close>

lemma zero_packets_logged:
  assumes "zero_packets api (logged_silence b) options (logged_probe p) samples calls e sequence
      timestamp r (w, log) = (ended, r', w', log')"
  shows "\<exists>ps. log' = log @ map Call_WriteMedia ps \<and> rtp_run (sr_outgoing_mtu r) sequence ps \<and>
    length ps \<le> unat (so_packet_limit options) - unat (sr_media_packets_written r) \<and>
    unat (sr_media_packets_written r') \<le> unat (sr_media_packets_written r) + length ps \<and>
    (ended \<longrightarrow> unat (sr_media_packets_written r') = unat (sr_media_packets_written r) + length ps) \<and>
    sr_signaling_opened r' = sr_signaling_opened r \<and> sr_open_attempts r' = sr_open_attempts r \<and>
    sr_close_attempted r' = sr_close_attempted r \<and> sr_outgoing_mtu r' = sr_outgoing_mtu r \<and>
    sr_avdtp_start_accepted r' = sr_avdtp_start_accepted r \<and> sr_media_opened r' = sr_media_opened r \<and>
    sr_primary_disposition r' = sr_primary_disposition r"
  using assms
proof (induction calls arbitrary: e sequence timestamp r w log)
  case 0
  then show ?case by (intro exI [of _ "[]"]) auto
next
  case (Suc calls)
  let ?b = "logged_silence b" and ?p = "logged_probe p"
  define c where "c = IsCancelled p w"
  define pcm where "pcm = replicate (LDAC_ENCODER_PCM_FRAMES_PER_CALL * LDAC_ENCODER_STEREO_CHANNELS)
    (enc_zero_sample api)"
  define x where "x = enc_encode_f32 api pcm LDAC_ENCODER_MAX_OUTPUT_BYTES e"
  define rtp where "rtp = ldac_rtp_build_unfragmented 4096 (unat (sr_outgoing_mtu r)) sequence
    timestamp 0x56315A30 (snd (snd (fst x))) (fst (snd (fst x)))"
  define m where "m = be_WriteMedia b (snd rtp) (so_media_timeout_ms options) (snd c)"
  define r2 where "r2 = r\<lparr>sr_media_packets_written := sr_media_packets_written r + 1,
    sr_media_bytes_written := sr_media_bytes_written r + of_nat (length (snd rtp))\<rparr>"
  note run = Suc.prems [simplified zero_packets.simps logged_cancelled logged_silence_calls Let_def
      case_prod_beta fst_conv snd_conv, folded c_def pcm_def, folded x_def, folded rtp_def,
      folded m_def, folded r2_def]
  have packet: "take 4 (snd rtp) = [0x80, 96] @ write_u16_be sequence"
      "length (snd rtp) \<le> unat (sr_outgoing_mtu r)" if "fst rtp = LDAC_RTP_OK"
  proof -
    have "ldac_rtp_build_unfragmented 4096 (unat (sr_outgoing_mtu r)) sequence timestamp 0x56315A30
        (snd (snd (fst x))) (fst (snd (fst x))) = (LDAC_RTP_OK, snd rtp)"
      using that by (simp add: rtp_def [symmetric] prod_eq_iff)
    from built_packet [OF this] show "take 4 (snd rtp) = [0x80, 96] @ write_u16_be sequence"
      "length (snd rtp) \<le> unat (sr_outgoing_mtu r)" by simp_all
  qed
  consider (stopped) "log' = log" "r' = r \<or> (\<exists>err. r' = r\<lparr>sr_protocol_error := err\<rparr>)"
    | (skipped) "zero_packets api ?b options ?p samples calls (snd x) sequence timestamp r (snd c, log) =
        (ended, r', w', log')"
    | (write_failed) err where "sr_media_packets_written r < so_packet_limit options"
      "fst rtp = LDAC_RTP_OK" "log' = log @ [Call_WriteMedia (snd rtp)]" "\<not> ended"
      "r' = r\<lparr>sr_backend_error := err\<rparr>"
    | (written) ts where "sr_media_packets_written r < so_packet_limit options"
      "fst rtp = LDAC_RTP_OK"
      "zero_packets api ?b options ?p samples calls (snd x) (sequence + 1) ts r2
         (snd m, log @ [Call_WriteMedia (snd rtp)]) = (ended, r', w', log')"
    using run by (auto split: if_splits)
  then show ?case
  proof cases
    case stopped
    then show ?thesis by (intro exI [of _ "[]"]) auto
  next
    case skipped
    then show ?thesis by (rule Suc.IH)
  next
    case write_failed
    have "unat (sr_media_packets_written r) < unat (so_packet_limit options)"
      using write_failed(1) by (simp add: word_less_nat_alt)
    then show ?thesis
      using write_failed packet by (intro exI [of _ "[snd rtp]"]) auto
  next
    case written
    have less: "unat (sr_media_packets_written r) < unat (so_packet_limit options)"
      using written(1) by (simp add: word_less_nat_alt)
    have suc: "unat (sr_media_packets_written r2) = Suc (unat (sr_media_packets_written r))"
      using less_imp_unat_Suc [OF written(1)] by (simp add: r2_def)
    from Suc.IH [OF written(3)] obtain ps where "log' = log @ map Call_WriteMedia (snd rtp # ps)"
      "rtp_run (sr_outgoing_mtu r2) (sequence + 1) ps"
      "length ps \<le> unat (so_packet_limit options) - unat (sr_media_packets_written r2)"
      "unat (sr_media_packets_written r') \<le> unat (sr_media_packets_written r2) + length ps"
      "ended \<longrightarrow> unat (sr_media_packets_written r') = unat (sr_media_packets_written r2) + length ps"
      "sr_signaling_opened r' = sr_signaling_opened r2" "sr_open_attempts r' = sr_open_attempts r2"
      "sr_close_attempted r' = sr_close_attempted r2" "sr_outgoing_mtu r' = sr_outgoing_mtu r2"
      "sr_avdtp_start_accepted r' = sr_avdtp_start_accepted r2"
      "sr_media_opened r' = sr_media_opened r2"
      "sr_primary_disposition r' = sr_primary_disposition r2"
      by auto
    then show ?thesis
      using packet [OF written(2)] less suc
      by (intro exI [of _ "snd rtp # ps"]) (auto simp: r2_def)
  qed
qed

lemma stream_command_logged:
  assumes "stream_command (logged_silence b) options (logged_probe p) command stage expected accepted
      r (w, log) = (ok, s', r', w', log')"
    and "\<And>x. sframe r x \<Longrightarrow> sframe r (accepted x)"
  shows "quiet log log' \<and> sframe r r' \<and> (\<not> ok \<longrightarrow> sfailed r')"
proof -
  obtain q s1 r1 w1 log1 where e: "SilenceExchange (logged_silence b) options (logged_probe p)
      (fst command) (snd command) stage r (w, log) = (q, s1, r1, w1, log1)"
    by (metis prod_cases5)
  show ?thesis
    using silence_exchange_logged [OF e] assms e
    by (auto simp: stream_command_def Let_def split: option.splits if_splits)
qed

text \<open>What a session has done to the stream when it ends.\<close>

definition media_outcome :: "u32 \<Rightarrow> transport_call list \<Rightarrow> V1TransportSilenceResult \<Rightarrow> bool" where
  "media_outcome limit cs r \<longleftrightarrow>
     inner cs \<and> rtp_run (sr_outgoing_mtu r) 0 (writes cs) \<and> length (writes cs) \<le> unat limit \<and>
     unat (sr_media_packets_written r) \<le> length (writes cs) \<and>
     (writes cs \<noteq> [] \<longrightarrow> sr_avdtp_start_accepted r) \<and>
     (\<not> sfailed r \<longrightarrow> sr_media_packets_written r = limit \<and> length (writes cs) = unat limit \<and>
        sr_avdtp_start_accepted r \<and> sr_avdtp_suspend_accepted r \<and> sr_avdtp_close_accepted r \<and>
        \<not> sr_remote_stream_cleanup_required r)"

definition sbase :: "V1TransportSilenceResult \<Rightarrow> V1TransportSilenceResult \<Rightarrow> bool" where
  "sbase r r' \<longleftrightarrow>
     sr_signaling_opened r' = sr_signaling_opened r \<and> sr_open_attempts r' = sr_open_attempts r \<and>
     sr_close_attempted r' = sr_close_attempted r"

lemma sframe_base: "sframe r r' \<Longrightarrow> sbase r r'"
  by (simp add: sframe_def sbase_def)

lemma sbase_trans: "sbase a b \<Longrightarrow> sbase b c \<Longrightarrow> sbase a c"
  by (simp add: sbase_def)

text \<open>A session that has written nothing and failed.\<close>

lemma media_outcome_quiet:
  assumes "quiet log log'" "sframe r r'" "sr_media_packets_written r = 0" "sfailed r'"
  shows "\<exists>cs. log' = log @ cs \<and> media_outcome limit cs r' \<and> sbase r r'"
  using assms sframe_base [OF assms(2)]
  by (auto simp: quiet_def media_outcome_def sframe_def)

lemma suspend_and_close_logged:
  assumes "suspend_and_close (logged_silence b) options (logged_probe p) s r (w, log) = (r', w', log')"
  shows "quiet log log' \<and> sframe r r' \<and>
    (\<not> sfailed r' \<longrightarrow> sr_avdtp_suspend_accepted r' \<and> sr_avdtp_close_accepted r' \<and>
       \<not> sr_remote_stream_cleanup_required r')"
proof -
  let ?b = "logged_silence b" and ?p = "logged_probe p"
  obtain ok1 s1 r1 w1 log1 where e1: "stream_command ?b options ?p (avdtp_source_suspend s)
      SilenceStage_Suspend AVDTP_ACTION_STREAM_SUSPENDED (\<lambda>r. r) r (w, log) = (ok1, s1, r1, w1, log1)"
    by (metis prod_cases5)
  note x1 = stream_command_logged [OF e1, simplified]
  note run = assms [unfolded suspend_and_close_def Let_def, simplified e1 prod.case]
  show ?thesis
  proof (cases ok1)
    case False
    then show ?thesis using run x1 by auto
  next
    case True
    let ?r2 = "r1\<lparr>sr_avdtp_suspend_accepted := True, sr_remote_stream_cleanup_required := False\<rparr>"
    obtain ok2 s2 r3 w2 log2 where e2: "stream_command ?b options ?p (avdtp_source_close s1)
        SilenceStage_Close AVDTP_ACTION_SESSION_CLOSED (\<lambda>r. r) ?r2 (w1, log1) = (ok2, s2, r3, w2, log2)"
      by (metis prod_cases5)
    note x2 = stream_command_logged [OF e2, simplified]
    have kept: "sr_avdtp_suspend_accepted r3 \<and> \<not> sr_remote_stream_cleanup_required r3"
      using e2 by (auto simp: stream_command_def SilenceExchange_def SetFailure_def Let_def
          split: option.splits if_splits prod.splits)
    have "quiet log log2" using x1 x2 quiet_trans by blast
    moreover have "sframe r r3" using x1 x2 sframe_trans [of r ?r2 r3] by simp
    moreover have "log' = log2" using run True e2 by (auto split: if_splits)
    moreover have "if ok2 then r' = r3\<lparr>sr_avdtp_close_accepted := True,
        sr_primary_disposition := Configuration_Succeeded,
        sr_disposition := Configuration_Succeeded\<rparr> else r' = r3"
      using run True e2 by (auto split: if_splits)
    ultimately show ?thesis
      using kept x2 by (cases ok2) (auto simp: sframe_def)
  qed
qed

lemma send_zero_packets_logged:
  assumes "SendZeroPackets api (logged_silence b) options (logged_probe p) r (w, log) =
      (ok, r', w', log')"
    and "sr_media_packets_written r = 0"
  shows "\<exists>ps. log' = log @ map Call_WriteMedia ps \<and> rtp_run (sr_outgoing_mtu r) 0 ps \<and>
    length ps \<le> unat (so_packet_limit options) \<and>
    unat (sr_media_packets_written r') \<le> length ps \<and>
    (ok \<longrightarrow> sr_media_packets_written r' = so_packet_limit options \<and>
       length ps = unat (so_packet_limit options)) \<and>
    sbase r r' \<and> sr_outgoing_mtu r' = sr_outgoing_mtu r \<and>
    sr_avdtp_start_accepted r' = sr_avdtp_start_accepted r"
proof (cases "unat (sr_outgoing_mtu r) \<le> LDAC_RTP_OVERHEAD \<or>
    enc_create api (unat (sr_outgoing_mtu r) - LDAC_RTP_OVERHEAD)
      (ldac_sample_rate_to_hz (lf_sample_rate (sr_configuration r)))
      (encoder_mode (lf_channel_mode (sr_configuration r))) = None")
  case True
  then show ?thesis
    using assms by (intro exI [of _ "[]"]) (auto simp: SendZeroPackets_def sbase_def split: if_splits)
next
  case False
  then obtain e where e: "enc_create api (unat (sr_outgoing_mtu r) - LDAC_RTP_OVERHEAD)
      (ldac_sample_rate_to_hz (lf_sample_rate (sr_configuration r)))
      (encoder_mode (lf_channel_mode (sr_configuration r))) = Some e"
    by auto
  obtain ended r1 w1 log1 where z: "zero_packets api (logged_silence b) options (logged_probe p)
      (enc_samples_per_transport_frame api e) 32 e 0 0 r (w, log) = (ended, r1, w1, log1)"
    by (metis prod_cases4)
  from zero_packets_logged [OF z] obtain ps where ps: "log1 = log @ map Call_WriteMedia ps"
    "rtp_run (sr_outgoing_mtu r) 0 ps" "length ps \<le> unat (so_packet_limit options)"
    "unat (sr_media_packets_written r1) \<le> length ps"
    "ended \<longrightarrow> unat (sr_media_packets_written r1) = length ps"
    "sbase r r1" "sr_outgoing_mtu r1 = sr_outgoing_mtu r"
    "sr_avdtp_start_accepted r1 = sr_avdtp_start_accepted r"
    using assms(2) by (auto simp: sbase_def)
  have "log' = log1 \<and> sbase r1 r' \<and> sr_outgoing_mtu r' = sr_outgoing_mtu r1 \<and>
      sr_avdtp_start_accepted r' = sr_avdtp_start_accepted r1 \<and>
      sr_media_packets_written r' = sr_media_packets_written r1 \<and>
      (ok \<longrightarrow> ended \<and> sr_media_packets_written r1 = so_packet_limit options)"
    using assms(1) e z False by (auto simp: SendZeroPackets_def Let_def sbase_def split: if_splits)
  then show ?thesis
    using ps sbase_trans [of r r1 r'] by (intro exI [of _ ps]) auto
qed


lemma start_and_write_logged:
  assumes "start_and_write api (logged_silence b) options (logged_probe p) s r (w, log) = (r', w', log')"
    and "sr_media_packets_written r = 0"
  shows "\<exists>cs. log' = log @ cs \<and> media_outcome (so_packet_limit options) cs r' \<and> sbase r r'"
proof -
  let ?b = "logged_silence b" and ?p = "logged_probe p"
  obtain ok s1 r1 w1 log1 where e1: "stream_command ?b options ?p (avdtp_source_start s)
      SilenceStage_Start AVDTP_ACTION_STREAM_READY (\<lambda>r. r\<lparr>sr_remote_stream_cleanup_required := True\<rparr>)
      r (w, log) = (ok, s1, r1, w1, log1)"
    by (metis prod_cases5)
  note x1 = stream_command_logged [OF e1, simplified]
  let ?r2 = "r1\<lparr>sr_avdtp_start_accepted := True, sr_stage := SilenceStage_WriteSilence\<rparr>"
  obtain sent r3 w2 log2 where e2: "SendZeroPackets api ?b options ?p ?r2 (w1, log1) =
      (sent, r3, w2, log2)"
    by (metis prod_cases4)
  note run = assms(1) [unfolded start_and_write_def Let_def, simplified e1 prod.case,
      unfolded e2 prod.case]
  show ?thesis
  proof (cases ok)
    case False
    then show ?thesis
      using run x1 assms(2) media_outcome_quiet [of log log1 r r1] by auto
  next
    case True
    have "sr_media_packets_written ?r2 = 0" using x1 assms(2) by (simp add: sframe_def)
    from send_zero_packets_logged [OF e2 this] obtain ps where ps:
      "log2 = log1 @ map Call_WriteMedia ps" "rtp_run (sr_outgoing_mtu r3) 0 ps"
      "length ps \<le> unat (so_packet_limit options)" "unat (sr_media_packets_written r3) \<le> length ps"
      "sent \<longrightarrow> sr_media_packets_written r3 = so_packet_limit options \<and>
         length ps = unat (so_packet_limit options)"
      "sbase ?r2 r3" "sr_avdtp_start_accepted r3"
      by auto
    obtain pre where pre: "log1 = log @ pre" "inner pre" "writes pre = []"
      using x1 by (auto simp: quiet_def)
    have base: "sbase r r3"
      using x1 sframe_base [of r r1] ps(6) by (auto simp: sbase_def)
    have media: "inner (map Call_WriteMedia ps)" by (auto simp: inner_def)
    show ?thesis
    proof (cases sent)
      case False
      then have "log' = log2 \<and> (\<exists>d st. r' = SetFailure r3 d st \<and> d \<noteq> Configuration_Succeeded)"
        using run True by (auto simp: case_prod_beta split: if_splits)
      then show ?thesis
        using ps pre base media
        by (intro exI [of _ "pre @ map Call_WriteMedia ps"])
          (auto simp: media_outcome_def inner_def SetFailure_def sfailed_def sbase_def)
    next
      case sent: True
      have "suspend_and_close ?b options ?p s1 r3 (w2, log2) = (r', w', log')"
        using run True sent by simp
      note c = suspend_and_close_logged [OF this]
      then obtain post where "log' = log2 @ post" "inner post" "writes post = []"
        by (auto simp: quiet_def)
      then show ?thesis
        using ps pre base media sent c
        by (intro exI [of _ "pre @ map Call_WriteMedia ps @ post"])
          (auto simp: media_outcome_def inner_def sframe_def sbase_def)
    qed
  qed
qed

lemma open_media_and_stream_logged:
  assumes "open_media_and_stream api (logged_silence b) options (logged_probe p) s r (w, log) =
      (r', w', log')"
    and "sr_media_packets_written r = 0"
  shows "\<exists>cs. log' = log @ cs \<and> media_outcome (so_packet_limit options) cs r' \<and> sbase r r'"
proof -
  define m where "m = be_OpenMedia b (so_media_timeout_ms options) (so_preferred_media_mtu options) w"
  define r2 where "r2 = r\<lparr>sr_remote_seid := as_remote_seid s, sr_configuration := as_configuration s,
    sr_stage := SilenceStage_OpenMedia, sr_incoming_mtu := fst (snd (fst m)),
    sr_outgoing_mtu := fst (snd (snd (fst m))), sr_media_opened := True\<rparr>"
  have r2: "sbase r r2" "sr_media_packets_written r2 = 0"
    using assms(2) by (simp_all add: r2_def sbase_def)
  consider (stopped) "log' = log @ [Call_OpenMedia]" "sfailed r'" "sbase r r'"
      "sr_media_packets_written r' = 0"
    | (started) "start_and_write api (logged_silence b) options (logged_probe p)
        (fst (avdtp_source_media_channel_opened s)) r2 (snd m, log @ [Call_OpenMedia]) = (r', w', log')"
    using assms
    by (auto simp: open_media_and_stream_def Let_def case_prod_beta m_def [symmetric] sbase_def
        SetFailure_def sfailed_def r2_def split: if_splits)
  then show ?thesis
  proof cases
    case stopped
    then show ?thesis
      by (intro exI [of _ "[Call_OpenMedia]"]) (auto simp: media_outcome_def inner_def)
  next
    case started
    from start_and_write_logged [OF started r2(2)] obtain cs where
      "log' = log @ [Call_OpenMedia] @ cs" "media_outcome (so_packet_limit options) cs r'"
      "sbase r2 r'"
      by auto
    then show ?thesis
      using r2(1) sbase_trans
      by (intro exI [of _ "[Call_OpenMedia] @ cs"]) (auto simp: media_outcome_def inner_def)
  qed
qed

lemma silence_body_logged:
  assumes "silence_body api (logged_silence b) options (logged_probe p) r (w, log) = (r', w', log')"
    and "sr_media_packets_written r = 0"
  shows "\<exists>cs. log' = log @ cs \<and> media_outcome (so_packet_limit options) cs r' \<and> sbase r r'"
proof -
  let ?b = "logged_silence b" and ?p = "logged_probe p"
  obtain source action where initial: "avdtp_source_begin (avdtp_source_init
      \<lparr>lc_sample_rates = LDAC_SF_ALL, lc_channel_modes = LDAC_CM_STEREO\<rparr> 1
      (so_preferred_sample_rate_hz options)) = (source, action)"
    by (rule prod.exhaust)
  obtain q s1 r1 w1 log1 where e: "negotiate_silence ?b options ?p source action r (w, log) =
      (q, s1, r1, w1, log1)"
    by (metis prod_cases5)
  note x = negotiate_silence_logged [OF e]
  note run = assms(1) [unfolded silence_body_def Let_def, simplified initial prod.case,
      simplified e prod.case]
  have no_packets: "sr_media_packets_written r1 = 0" using x assms(2) by (simp add: sframe_def)
  show ?thesis
  proof (cases "\<exists>a. q = Some a \<and> aa_kind a = AVDTP_ACTION_OPEN_MEDIA_CHANNEL")
    case False
    then have "log' = log1 \<and> sframe r r' \<and> sfailed r'"
      using run x by (auto split: option.splits if_splits)
    then show ?thesis using x assms(2) media_outcome_quiet by blast
  next
    case True
    then have "open_media_and_stream api ?b options ?p s1 r1 (w1, log1) = (r', w', log')"
      using run by auto
    from open_media_and_stream_logged [OF this no_packets] obtain cs where
      "log' = log1 @ cs" "media_outcome (so_packet_limit options) cs r'" "sbase r1 r'"
      by blast
    moreover obtain pre where "log1 = log @ pre" "inner pre" "writes pre = []"
      using x by (auto simp: quiet_def)
    moreover have "sbase r r'"
      using x sframe_base \<open>sbase r1 r'\<close> sbase_trans by blast
    ultimately show ?thesis
      by (intro exI [of _ "pre @ cs"]) (auto simp: media_outcome_def inner_def)
  qed
qed

section \<open>The whole session\<close>

definition silence_outcome ::
  "u32 \<Rightarrow> V1TransportSilenceResult \<Rightarrow> transport_call list \<Rightarrow> transport_call list \<Rightarrow> bool" where
  "silence_outcome limit r log calls \<longleftrightarrow>
     log = (if sr_open_attempts r = 0 then []
            else if sr_signaling_opened r then [Call_Open] @ calls @ [Call_Close] else [Call_Open]) \<and>
     sr_close_attempted r = sr_signaling_opened r \<and> media_outcome limit calls r"

lemma finish_silence:
  assumes "SilenceFinish (logged_silence b) r2 (w3, log2) = (r, w', log)"
    and "sr_signaling_opened r2"
  shows "log = log2 @ [Call_Close]" "sr_signaling_opened r" "sr_close_attempted r"
    "sr_open_attempts r = sr_open_attempts r2" "media_outcome limit cs r = media_outcome limit cs r2"
  using assms
  by (auto simp: SilenceFinish_def Let_def case_prod_beta media_outcome_def sfailed_def
      split: if_splits)

lemma run_silence_logged:
  assumes "RunV1TransportSilenceBurstOnce api (logged_silence b) options (logged_probe p) (w, []) =
      (r, w', log)"
  shows "\<exists>calls. silence_outcome (so_packet_limit options) r log calls"
proof -
  let ?b = "logged_silence b" and ?c = "IsCancelled p w"
  let ?r1 = "V1TransportSilenceResult_default
    \<lparr>sr_stage := SilenceStage_OpenSignaling, sr_open_attempts := 1, sr_signaling_opened := True\<rparr>"
  show ?thesis
  proof (cases "SilenceOptionsAreValid options \<and> \<not> fst ?c \<and>
      fst (fst (be_OpenSignaling b (so_open_timeout_ms options) (snd ?c)))")
    case False
    then show ?thesis
      using assms
      by (intro exI [of _ "[]"])
        (auto simp: RunV1TransportSilenceBurstOnce_def Let_def case_prod_beta silence_outcome_def
          media_outcome_def inner_def sfailed_def SetFailure_def V1TransportSilenceResult_default_def
          split: if_splits)
  next
    case True
    let ?w2 = "snd (be_OpenSignaling b (so_open_timeout_ms options) (snd ?c))"
    obtain r2 w3 log2 where body: "silence_body api ?b options (logged_probe p) ?r1 (?w2, [Call_Open]) =
        (r2, w3, log2)"
      by (metis prod_cases3)
    have "sr_media_packets_written ?r1 = 0" by (simp add: V1TransportSilenceResult_default_def)
    from silence_body_logged [OF body this] obtain cs where cs: "log2 = [Call_Open] @ cs"
      "media_outcome (so_packet_limit options) cs r2" "sr_signaling_opened r2" "sr_open_attempts r2 = 1"
      by (auto simp: sbase_def)
    have "SilenceFinish ?b r2 (w3, log2) = (r, w', log)"
      using assms True body by (simp add: RunV1TransportSilenceBurstOnce_def Let_def case_prod_beta)
    from finish_silence [OF this cs(3)] cs show ?thesis
      by (intro exI [of _ cs]) (simp add: silence_outcome_def)
  qed
qed

text \<open>C39: a burst of silence is bracketed, bounded and conformant.  Whatever the backend and the
  encoder do and whenever the session is cancelled: nothing but the attempt to open is done unless
  it succeeds, and then exactly one close ends the session.  The media packets between them are at
  most as many as the options allow, each fits the outgoing unit of the media channel and they
  carry consecutive RTP sequence numbers from 0; none is written unless the peer accepted the start
  of the stream.  The primary disposition is success only if exactly the requested number of
  packets was written and the peer accepted start, suspend and close.\<close>

theorem silence_session_media:
  "let (r, w', log) = RunV1TransportSilenceBurstOnce api (logged_silence backend) options
         (logged_probe probe) (w, [])
   in \<exists>calls.
        log = (if sr_open_attempts r = 0 then []
               else if sr_signaling_opened r then [Call_Open] @ calls @ [Call_Close]
               else [Call_Open]) \<and>
        Call_Open \<notin> set calls \<and> Call_Close \<notin> set calls \<and>
        sr_close_attempted r = sr_signaling_opened r \<and>
        rtp_run (sr_outgoing_mtu r) 0 (writes calls) \<and>
        length (writes calls) \<le> unat (so_packet_limit options) \<and>
        unat (sr_media_packets_written r) \<le> length (writes calls) \<and>
        (if sr_avdtp_start_accepted r then True else writes calls = []) \<and>
        (if sr_primary_disposition r = Configuration_Succeeded
         then length (writes calls) = unat (so_packet_limit options) \<and>
              sr_media_packets_written r = so_packet_limit options \<and>
              sr_avdtp_start_accepted r \<and> sr_avdtp_suspend_accepted r \<and>
              sr_avdtp_close_accepted r \<and> \<not> sr_remote_stream_cleanup_required r
         else True)"
proof -
  obtain r w' log where run: "RunV1TransportSilenceBurstOnce api (logged_silence backend) options
      (logged_probe probe) (w, []) = (r, w', log)"
    by (metis prod_cases3)
  from run_silence_logged [OF run] obtain calls where
    "silence_outcome (so_packet_limit options) r log calls" by blast
  then show ?thesis
    by (auto simp: run silence_outcome_def media_outcome_def inner_def sfailed_def intro!: exI [of _ calls])
qed

end
