(* ===== verification/Pdo_Session.thy ===== *)
theory Pdo_Session
  imports Prelude
begin

text \<open>
  The session of the direct-PDO driver: \<open>direct-pdo/src/nativeldac_direct_pdo_contract.c\<close>, which
  plans one transport action at a time from the intent of the audio stack, and
  \<open>direct-pdo/src/nativeldac_direct_pdo_dispatch_contract.c\<close>, which hands the planned action to the
  one worker that may execute it.  The dispatcher owns the session; the worker takes an action,
  executes it and reports the outcome.

  \<open>unsigned long\<close> has 32 bits on Windows.  The range checks of parameters of an enumeration type
  hold for every value of the datatype and are no branches of the model.
\<close>

section \<open>The session\<close>

datatype NLD_DIRECT_PDO_KS_INTENT =
  NldDirectPdoKsStopped | NldDirectPdoKsAcquired | NldDirectPdoKsRunning

datatype NLD_DIRECT_PDO_TRANSPORT_STATE =
  NldDirectPdoTransportOffline | NldDirectPdoTransportClosed | NldDirectPdoTransportOpen
| NldDirectPdoTransportStreaming | NldDirectPdoTransportFaulted

datatype NLD_DIRECT_PDO_ACTION =
  NldDirectPdoActionNone | NldDirectPdoActionOpen | NldDirectPdoActionStart
| NldDirectPdoActionSuspend | NldDirectPdoActionClose | NldDirectPdoActionCancelAndClose

record NLD_DIRECT_PDO_SESSION =
  ps_KsIntent :: NLD_DIRECT_PDO_KS_INTENT
  ps_TransportState :: NLD_DIRECT_PDO_TRANSPORT_STATE
  ps_PendingAction :: NLD_DIRECT_PDO_ACTION
  ps_Generation :: u32
  ps_PnpStarted :: bool
  ps_RecoveryRequired :: bool

text \<open>The step of a generation counter that skips zero, a function of its own in several sources.\<close>

definition NextGeneration :: "u32 \<Rightarrow> u32" where
  "NextGeneration generation =
     (let next_value = generation + 1 in if next_value = 0 then 1 else next_value)"

lemma NextGeneration_nonzero [simp]: "NextGeneration g \<noteq> 0"
  by (simp add: NextGeneration_def Let_def)

lemma NextGeneration_neq [simp]: "NextGeneration g \<noteq> g" "g \<noteq> NextGeneration g"
  by (auto simp: NextGeneration_def Let_def)

definition NldDirectPdoPlan ::
  "NLD_DIRECT_PDO_SESSION \<Rightarrow> NLD_DIRECT_PDO_SESSION \<times> NLD_DIRECT_PDO_ACTION" where
  "NldDirectPdoPlan s =
     (if ps_PendingAction s \<noteq> NldDirectPdoActionNone \<or>
         ps_TransportState s = NldDirectPdoTransportFaulted
      then (s, NldDirectPdoActionNone)
      else
        let action =
              (if \<not> ps_PnpStarted s
               then if ps_TransportState s \<noteq> NldDirectPdoTransportOffline
                    then NldDirectPdoActionCancelAndClose else NldDirectPdoActionNone
               else if ps_KsIntent s = NldDirectPdoKsRunning
               then if ps_TransportState s = NldDirectPdoTransportClosed
                    then NldDirectPdoActionOpen
                    else if ps_TransportState s = NldDirectPdoTransportOpen
                    then NldDirectPdoActionStart else NldDirectPdoActionNone
               else if ps_KsIntent s = NldDirectPdoKsAcquired
               then if ps_TransportState s = NldDirectPdoTransportClosed
                    then NldDirectPdoActionOpen
                    else if ps_TransportState s = NldDirectPdoTransportStreaming
                    then NldDirectPdoActionSuspend else NldDirectPdoActionNone
               else if ps_TransportState s = NldDirectPdoTransportStreaming
                    then NldDirectPdoActionSuspend
                    else if ps_TransportState s = NldDirectPdoTransportOpen
                    then NldDirectPdoActionClose else NldDirectPdoActionNone)
        in (s\<lparr>ps_PendingAction := action\<rparr>, action))"

definition NldDirectPdoInitialize :: NLD_DIRECT_PDO_SESSION where
  "NldDirectPdoInitialize =
     \<lparr>ps_KsIntent = NldDirectPdoKsStopped, ps_TransportState = NldDirectPdoTransportOffline,
      ps_PendingAction = NldDirectPdoActionNone, ps_Generation = 0, ps_PnpStarted = False,
      ps_RecoveryRequired = False\<rparr>"

definition NldDirectPdoOnPnpStart ::
  "NLD_DIRECT_PDO_SESSION \<Rightarrow> NLD_DIRECT_PDO_SESSION \<times> NLD_DIRECT_PDO_ACTION" where
  "NldDirectPdoOnPnpStart s =
     (if ps_PnpStarted s then (s, NldDirectPdoActionNone)
      else NldDirectPdoPlan
             (s\<lparr>ps_PnpStarted := True, ps_KsIntent := NldDirectPdoKsStopped,
                ps_TransportState := NldDirectPdoTransportClosed,
                ps_PendingAction := NldDirectPdoActionNone, ps_RecoveryRequired := False,
                ps_Generation := ps_Generation s + 1\<rparr>))"

definition NldDirectPdoOnPnpStop ::
  "NLD_DIRECT_PDO_SESSION \<Rightarrow> NLD_DIRECT_PDO_SESSION \<times> NLD_DIRECT_PDO_ACTION" where
  "NldDirectPdoOnPnpStop s =
     (let s1 = s\<lparr>ps_PnpStarted := False, ps_KsIntent := NldDirectPdoKsStopped,
                 ps_RecoveryRequired := False\<rparr>
      in if ps_TransportState s1 = NldDirectPdoTransportOffline
         then (s1\<lparr>ps_PendingAction := NldDirectPdoActionNone\<rparr>, NldDirectPdoActionNone)
         else if ps_TransportState s1 = NldDirectPdoTransportClosed \<and>
                 ps_PendingAction s1 = NldDirectPdoActionNone
         then (s1\<lparr>ps_TransportState := NldDirectPdoTransportOffline\<rparr>, NldDirectPdoActionNone)
         else (s1\<lparr>ps_PendingAction := NldDirectPdoActionCancelAndClose\<rparr>,
               NldDirectPdoActionCancelAndClose))"

definition NldDirectPdoSetKsIntent ::
  "NLD_DIRECT_PDO_SESSION \<Rightarrow> NLD_DIRECT_PDO_KS_INTENT \<Rightarrow>
   NLD_DIRECT_PDO_SESSION \<times> NLD_DIRECT_PDO_ACTION" where
  "NldDirectPdoSetKsIntent s intent = NldDirectPdoPlan (s\<lparr>ps_KsIntent := intent\<rparr>)"

definition NldDirectPdoOnTransportLost ::
  "NLD_DIRECT_PDO_SESSION \<Rightarrow> NLD_DIRECT_PDO_SESSION \<times> NLD_DIRECT_PDO_ACTION" where
  "NldDirectPdoOnTransportLost s =
     (if \<not> ps_PnpStarted s \<or> ps_TransportState s = NldDirectPdoTransportOffline
      then (s, NldDirectPdoActionNone)
      else if ps_RecoveryRequired s then (s, ps_PendingAction s)
      else
        let s1 = s\<lparr>ps_RecoveryRequired := True,
                   ps_Generation := NextGeneration (ps_Generation s)\<rparr>
        in if (ps_TransportState s1 = NldDirectPdoTransportClosed \<or>
               ps_TransportState s1 = NldDirectPdoTransportFaulted) \<and>
              ps_PendingAction s1 = NldDirectPdoActionNone
           then (s1\<lparr>ps_TransportState := NldDirectPdoTransportFaulted,
                    ps_PendingAction := NldDirectPdoActionNone\<rparr>, NldDirectPdoActionNone)
           else (s1\<lparr>ps_PendingAction := NldDirectPdoActionCancelAndClose\<rparr>,
                 NldDirectPdoActionCancelAndClose))"

text \<open>The transport state a successful action leads to; \<open>None\<close> is the \<open>default\<close> of the switch.\<close>

fun action_target :: "bool \<Rightarrow> NLD_DIRECT_PDO_ACTION \<Rightarrow> NLD_DIRECT_PDO_TRANSPORT_STATE option" where
  "action_target pnp_started NldDirectPdoActionOpen = Some NldDirectPdoTransportOpen"
| "action_target pnp_started NldDirectPdoActionStart = Some NldDirectPdoTransportStreaming"
| "action_target pnp_started NldDirectPdoActionSuspend = Some NldDirectPdoTransportOpen"
| "action_target pnp_started NldDirectPdoActionClose = Some NldDirectPdoTransportClosed"
| "action_target pnp_started NldDirectPdoActionCancelAndClose =
     Some (if pnp_started then NldDirectPdoTransportClosed else NldDirectPdoTransportOffline)"
| "action_target pnp_started NldDirectPdoActionNone = None"

definition NldDirectPdoCompleteAction ::
  "NLD_DIRECT_PDO_SESSION \<Rightarrow> NLD_DIRECT_PDO_ACTION \<Rightarrow> bool \<Rightarrow>
   NLD_DIRECT_PDO_SESSION \<times> NLD_DIRECT_PDO_ACTION" where
  "NldDirectPdoCompleteAction s action succeeded =
     (if action = NldDirectPdoActionNone \<or> action \<noteq> ps_PendingAction s
      then (s, NldDirectPdoActionNone)
      else
        let s1 = s\<lparr>ps_PendingAction := NldDirectPdoActionNone\<rparr>
        in if action = NldDirectPdoActionCancelAndClose \<and> ps_RecoveryRequired s1
           then (s1\<lparr>ps_TransportState := NldDirectPdoTransportFaulted\<rparr>, NldDirectPdoActionNone)
           else if \<not> succeeded
           then (s1\<lparr>ps_TransportState :=
                      (if action = NldDirectPdoActionCancelAndClose \<and> \<not> ps_PnpStarted s1
                       then NldDirectPdoTransportOffline else NldDirectPdoTransportFaulted)\<rparr>,
                 NldDirectPdoActionNone)
           else case action_target (ps_PnpStarted s1) action of
                  Some target \<Rightarrow> NldDirectPdoPlan (s1\<lparr>ps_TransportState := target\<rparr>)
                | None \<Rightarrow> (s1\<lparr>ps_TransportState := NldDirectPdoTransportFaulted\<rparr>,
                           NldDirectPdoActionNone))"

definition NldDirectPdoRetry ::
  "NLD_DIRECT_PDO_SESSION \<Rightarrow> NLD_DIRECT_PDO_SESSION \<times> NLD_DIRECT_PDO_ACTION" where
  "NldDirectPdoRetry s =
     (if \<not> ps_PnpStarted s \<or> ps_PendingAction s \<noteq> NldDirectPdoActionNone \<or>
         ps_TransportState s \<noteq> NldDirectPdoTransportFaulted \<or>
         ps_KsIntent s \<noteq> NldDirectPdoKsStopped
      then (s, NldDirectPdoActionNone)
      else NldDirectPdoPlan
             (s\<lparr>ps_TransportState := NldDirectPdoTransportClosed, ps_RecoveryRequired := False,
                ps_Generation := ps_Generation s + 1\<rparr>))"

definition NldDirectPdoIsConsistent :: "NLD_DIRECT_PDO_SESSION \<Rightarrow> bool" where
  "NldDirectPdoIsConsistent s \<longleftrightarrow>
     \<not> (\<not> ps_PnpStarted s \<and> ps_TransportState s \<noteq> NldDirectPdoTransportOffline \<and>
        ps_PendingAction s \<noteq> NldDirectPdoActionCancelAndClose) \<and>
     \<not> (ps_TransportState s = NldDirectPdoTransportOffline \<and> ps_PnpStarted s) \<and>
     \<not> (ps_RecoveryRequired s \<and> ps_TransportState s \<noteq> NldDirectPdoTransportFaulted \<and>
        ps_PendingAction s \<noteq> NldDirectPdoActionCancelAndClose)"

definition NldDirectPdoShouldPublishEndpoint ::
  "bool \<Rightarrow> bool \<Rightarrow> NLD_DIRECT_PDO_TRANSPORT_STATE \<Rightarrow> bool \<Rightarrow> bool" where
  "NldDirectPdoShouldPublishEndpoint dispatcher_started stop_requested transport_state
     fault_is_remote_disconnect \<longleftrightarrow>
     dispatcher_started \<and> \<not> stop_requested \<and>
     transport_state \<noteq> NldDirectPdoTransportOffline \<and>
     (transport_state \<noteq> NldDirectPdoTransportFaulted \<or> \<not> fault_is_remote_disconnect)"

section \<open>The dispatcher\<close>

datatype NLD_DIRECT_PDO_DISPATCH_COMMAND =
  NldDirectPdoDispatchNone | NldDirectPdoDispatchQueueWorker | NldDirectPdoDispatchCancelActive

record NLD_DIRECT_PDO_DISPATCH_OWNER =
  do_Session :: NLD_DIRECT_PDO_SESSION
  do_ActiveAction :: NLD_DIRECT_PDO_ACTION
  do_ActiveGeneration :: u32
  do_WorkerOwned :: bool
  do_StopRequested :: bool

definition NldDirectPdoDispatchOwnWorker ::
  "NLD_DIRECT_PDO_DISPATCH_OWNER \<Rightarrow> NLD_DIRECT_PDO_ACTION \<Rightarrow>
   NLD_DIRECT_PDO_DISPATCH_OWNER \<times> NLD_DIRECT_PDO_DISPATCH_COMMAND" where
  "NldDirectPdoDispatchOwnWorker d action =
     (if action = NldDirectPdoActionNone \<or> do_WorkerOwned d then (d, NldDirectPdoDispatchNone)
      else (d\<lparr>do_WorkerOwned := True\<rparr>, NldDirectPdoDispatchQueueWorker))"

definition NldDirectPdoDispatchInitialize :: NLD_DIRECT_PDO_DISPATCH_OWNER where
  "NldDirectPdoDispatchInitialize =
     \<lparr>do_Session = NldDirectPdoInitialize, do_ActiveAction = NldDirectPdoActionNone,
      do_ActiveGeneration = 0, do_WorkerOwned = False, do_StopRequested = False\<rparr>"

definition NldDirectPdoDispatchOnPnpStart ::
  "NLD_DIRECT_PDO_DISPATCH_OWNER \<Rightarrow>
   NLD_DIRECT_PDO_DISPATCH_OWNER \<times> NLD_DIRECT_PDO_DISPATCH_COMMAND" where
  "NldDirectPdoDispatchOnPnpStart d =
     (if do_WorkerOwned d \<or> do_ActiveAction d \<noteq> NldDirectPdoActionNone
      then (d, NldDirectPdoDispatchNone)
      else
        let (session, action) = NldDirectPdoOnPnpStart (do_Session d)
        in NldDirectPdoDispatchOwnWorker
             (d\<lparr>do_StopRequested := False, do_Session := session\<rparr>) action)"

definition NldDirectPdoDispatchOnPnpStop ::
  "NLD_DIRECT_PDO_DISPATCH_OWNER \<Rightarrow>
   NLD_DIRECT_PDO_DISPATCH_OWNER \<times> NLD_DIRECT_PDO_DISPATCH_COMMAND" where
  "NldDirectPdoDispatchOnPnpStop d =
     (let (session, action) = NldDirectPdoOnPnpStop (do_Session d);
          d1 = d\<lparr>do_Session := session, do_StopRequested := True\<rparr>
      in if do_ActiveAction d1 \<noteq> NldDirectPdoActionNone
         then (d1, NldDirectPdoDispatchCancelActive)
         else NldDirectPdoDispatchOwnWorker d1 action)"

definition NldDirectPdoDispatchSetKsIntent ::
  "NLD_DIRECT_PDO_DISPATCH_OWNER \<Rightarrow> NLD_DIRECT_PDO_KS_INTENT \<Rightarrow>
   NLD_DIRECT_PDO_DISPATCH_OWNER \<times> NLD_DIRECT_PDO_DISPATCH_COMMAND" where
  "NldDirectPdoDispatchSetKsIntent d intent =
     (if do_StopRequested d then (d, NldDirectPdoDispatchNone)
      else
        let (session, action) = NldDirectPdoSetKsIntent (do_Session d) intent
        in NldDirectPdoDispatchOwnWorker (d\<lparr>do_Session := session\<rparr>) action)"

definition NldDirectPdoDispatchOnTransportLost ::
  "NLD_DIRECT_PDO_DISPATCH_OWNER \<Rightarrow>
   NLD_DIRECT_PDO_DISPATCH_OWNER \<times> NLD_DIRECT_PDO_DISPATCH_COMMAND" where
  "NldDirectPdoDispatchOnTransportLost d =
     (if do_StopRequested d then (d, NldDirectPdoDispatchNone)
      else
        let (session, action) = NldDirectPdoOnTransportLost (do_Session d);
            d1 = d\<lparr>do_Session := session\<rparr>
        in if do_ActiveAction d1 \<noteq> NldDirectPdoActionNone
           then (d1, if action = NldDirectPdoActionCancelAndClose
                     then NldDirectPdoDispatchCancelActive else NldDirectPdoDispatchNone)
           else NldDirectPdoDispatchOwnWorker d1 action)"

definition NldDirectPdoDispatchRetry ::
  "NLD_DIRECT_PDO_DISPATCH_OWNER \<Rightarrow>
   NLD_DIRECT_PDO_DISPATCH_OWNER \<times> NLD_DIRECT_PDO_DISPATCH_COMMAND" where
  "NldDirectPdoDispatchRetry d =
     (if do_StopRequested d \<or> do_WorkerOwned d \<or> do_ActiveAction d \<noteq> NldDirectPdoActionNone
      then (d, NldDirectPdoDispatchNone)
      else
        let (session, action) = NldDirectPdoRetry (do_Session d)
        in NldDirectPdoDispatchOwnWorker (d\<lparr>do_Session := session\<rparr>) action)"

definition NldDirectPdoDispatchTakeAction ::
  "NLD_DIRECT_PDO_DISPATCH_OWNER \<Rightarrow>
   NLD_DIRECT_PDO_DISPATCH_OWNER \<times> NLD_DIRECT_PDO_ACTION \<times> u32" where
  "NldDirectPdoDispatchTakeAction d =
     (if \<not> do_WorkerOwned d \<or> do_ActiveAction d \<noteq> NldDirectPdoActionNone
      then (d, NldDirectPdoActionNone, 0)
      else
        let action = ps_PendingAction (do_Session d)
        in if action = NldDirectPdoActionNone
           then (d\<lparr>do_WorkerOwned := False\<rparr>, NldDirectPdoActionNone, 0)
           else
             let d1 = d\<lparr>do_ActiveAction := action,
                        do_ActiveGeneration := ps_Generation (do_Session d)\<rparr>
             in (d1, action, do_ActiveGeneration d1))"

definition NldDirectPdoDispatchCompleteAction ::
  "NLD_DIRECT_PDO_DISPATCH_OWNER \<Rightarrow> u32 \<Rightarrow> NLD_DIRECT_PDO_ACTION \<Rightarrow> bool \<Rightarrow>
   NLD_DIRECT_PDO_DISPATCH_OWNER \<times> bool" where
  "NldDirectPdoDispatchCompleteAction d generation action succeeded =
     (if action = NldDirectPdoActionNone \<or> action \<noteq> do_ActiveAction d \<or>
         generation \<noteq> do_ActiveGeneration d
      then (d, False)
      else
        let d1 = d\<lparr>do_ActiveAction := NldDirectPdoActionNone, do_ActiveGeneration := 0\<rparr>
        in if (do_StopRequested d1 \<or> ps_RecoveryRequired (do_Session d1)) \<and>
              ps_PendingAction (do_Session d1) = NldDirectPdoActionCancelAndClose \<and>
              action \<noteq> NldDirectPdoActionCancelAndClose
           then (d1, True)
           else
             let (session, planned) = NldDirectPdoCompleteAction (do_Session d1) action succeeded
             in (d1\<lparr>do_Session := session\<rparr>, True))"

definition NldDirectPdoDispatchIsConsistent :: "NLD_DIRECT_PDO_DISPATCH_OWNER \<Rightarrow> bool" where
  "NldDirectPdoDispatchIsConsistent d \<longleftrightarrow>
     NldDirectPdoIsConsistent (do_Session d) \<and>
     (do_ActiveAction d = NldDirectPdoActionNone) = (do_ActiveGeneration d = 0) \<and>
     \<not> (do_ActiveAction d \<noteq> NldDirectPdoActionNone \<and> \<not> do_WorkerOwned d) \<and>
     \<not> (\<not> do_WorkerOwned d \<and> ps_PendingAction (do_Session d) \<noteq> NldDirectPdoActionNone) \<and>
     \<not> (do_StopRequested d \<and> ps_PnpStarted (do_Session d))"

section \<open>The worker\<close>

text \<open>
  The loop of \<open>NldDirectPdoDispatcherWorker\<close>: take an action, execute it, report the outcome, until
  no action is planned.  Executing is \<open>exec\<close>, a function on an environment.  No other event comes
  between the steps of this loop; the invariant below covers the interleaved histories.  The loop
  ends because every completed action leaves fewer actions to plan.
\<close>

definition actions_after ::
  "bool \<Rightarrow> NLD_DIRECT_PDO_KS_INTENT \<Rightarrow> NLD_DIRECT_PDO_TRANSPORT_STATE \<Rightarrow> nat" where
  "actions_after started intent t =
     (if \<not> started then if t = NldDirectPdoTransportOffline then 0 else 1
      else case intent of
        NldDirectPdoKsRunning \<Rightarrow>
          (if t = NldDirectPdoTransportClosed then 2
           else if t = NldDirectPdoTransportOpen then 1 else 0)
      | NldDirectPdoKsAcquired \<Rightarrow>
          (if t = NldDirectPdoTransportClosed \<or> t = NldDirectPdoTransportStreaming then 1 else 0)
      | NldDirectPdoKsStopped \<Rightarrow>
          (if t = NldDirectPdoTransportStreaming then 2
           else if t = NldDirectPdoTransportOpen then 1 else 0))"

definition actions_left :: "NLD_DIRECT_PDO_SESSION \<Rightarrow> nat" where
  "actions_left s =
     (case action_target (ps_PnpStarted s) (ps_PendingAction s) of
        None \<Rightarrow> 0 | Some t \<Rightarrow> Suc (actions_after (ps_PnpStarted s) (ps_KsIntent s) t))"

lemma actions_left_le: "actions_left s \<le> 3"
  by (cases "ps_KsIntent s"; cases "ps_PendingAction s")
    (auto simp: actions_left_def actions_after_def)

lemma plan_actions_left:
  "ps_PendingAction s = NldDirectPdoActionNone \<Longrightarrow>
   actions_left (fst (NldDirectPdoPlan s)) \<le> actions_after (ps_PnpStarted s) (ps_KsIntent s) (ps_TransportState s)"
  by (cases "ps_KsIntent s"; cases "ps_TransportState s")
    (auto simp: NldDirectPdoPlan_def actions_left_def actions_after_def Let_def)

lemma complete_actions_left:
  assumes "ps_PendingAction s \<noteq> NldDirectPdoActionNone"
  shows "actions_left (fst (NldDirectPdoCompleteAction s (ps_PendingAction s) ok)) < actions_left s"
proof -
  obtain t where t: "action_target (ps_PnpStarted s) (ps_PendingAction s) = Some t"
    using assms by (cases "ps_PendingAction s") auto
  let ?s = "s\<lparr>ps_PendingAction := NldDirectPdoActionNone, ps_TransportState := t\<rparr>"
  have "actions_left (fst (NldDirectPdoPlan ?s)) \<le> actions_after (ps_PnpStarted s) (ps_KsIntent s) t"
    using plan_actions_left [of ?s] by simp
  moreover have "actions_left s = Suc (actions_after (ps_PnpStarted s) (ps_KsIntent s) t)"
    using t by (simp add: actions_left_def)
  moreover have "actions_left (x\<lparr>ps_TransportState := st\<rparr>) = 0"
    if "ps_PendingAction x = NldDirectPdoActionNone" for x st
    using that by (simp add: actions_left_def)
  ultimately show ?thesis
    using assms t by (simp add: NldDirectPdoCompleteAction_def Let_def)
qed

lemma taken_action:
  assumes "NldDirectPdoDispatchTakeAction d = (d1, action, generation)"
    and "action \<noteq> NldDirectPdoActionNone"
  shows "do_WorkerOwned d" "do_ActiveAction d = NldDirectPdoActionNone"
    "action = ps_PendingAction (do_Session d)"
    "d1 = d\<lparr>do_ActiveAction := action, do_ActiveGeneration := generation\<rparr>"
  using assms by (auto simp: NldDirectPdoDispatchTakeAction_def Let_def split: if_splits)

lemma completed_taken:
  assumes "NldDirectPdoDispatchTakeAction d = (d1, action, generation)"
    and "action \<noteq> NldDirectPdoActionNone"
  shows "NldDirectPdoDispatchCompleteAction d1 generation action ok =
    (d\<lparr>do_ActiveAction := NldDirectPdoActionNone, do_ActiveGeneration := 0,
       do_Session := fst (NldDirectPdoCompleteAction (do_Session d) action ok)\<rparr>, True)"
  using assms(2) taken_action [OF assms]
  by (auto simp: NldDirectPdoDispatchCompleteAction_def Let_def case_prod_beta)

function worker_loop ::
  "(NLD_DIRECT_PDO_ACTION \<Rightarrow> 'w \<Rightarrow> bool \<times> 'w) \<Rightarrow> NLD_DIRECT_PDO_DISPATCH_OWNER \<Rightarrow> 'w \<Rightarrow>
   NLD_DIRECT_PDO_DISPATCH_OWNER \<times> 'w \<times> NLD_DIRECT_PDO_ACTION list" where
  "worker_loop exec d w =
     (let (d1, action, generation) = NldDirectPdoDispatchTakeAction d
      in if action = NldDirectPdoActionNone then (d1, w, [])
         else
           let (succeeded, w1) = exec action w;
               (d2, accepted) =
                 NldDirectPdoDispatchCompleteAction d1 generation action succeeded;
               (d3, w2, actions) = worker_loop exec d2 w1
           in (d3, w2, action # actions))"
  by pat_completeness auto

termination
proof (relation "measure (\<lambda>(exec, d, w). actions_left (do_Session d))", goal_cases)
  case (2 exec d w r d1 q action generation e succeeded w1 c d2 accepted)
  then have "action \<noteq> NldDirectPdoActionNone"
    "NldDirectPdoDispatchTakeAction d = (d1, action, generation)"
    "(d2, accepted) = NldDirectPdoDispatchCompleteAction d1 generation action succeeded"
    by (auto simp: prod_eq_iff)
  then show ?case
    using completed_taken [of d d1 action generation succeeded]
      taken_action [of d d1 action generation] complete_actions_left by simp
qed simp

declare worker_loop.simps [simp del]

section \<open>Reachable states\<close>

datatype dispatch_event =
  Event_PnpStart | Event_PnpStop | Event_KsIntent NLD_DIRECT_PDO_KS_INTENT | Event_TransportLost
| Event_Retry | Event_TakeAction | Event_Complete u32 NLD_DIRECT_PDO_ACTION bool

fun dispatch_step ::
  "NLD_DIRECT_PDO_DISPATCH_OWNER \<Rightarrow> dispatch_event \<Rightarrow> NLD_DIRECT_PDO_DISPATCH_OWNER" where
  "dispatch_step d Event_PnpStart = fst (NldDirectPdoDispatchOnPnpStart d)"
| "dispatch_step d Event_PnpStop = fst (NldDirectPdoDispatchOnPnpStop d)"
| "dispatch_step d (Event_KsIntent intent) = fst (NldDirectPdoDispatchSetKsIntent d intent)"
| "dispatch_step d Event_TransportLost = fst (NldDirectPdoDispatchOnTransportLost d)"
| "dispatch_step d Event_Retry = fst (NldDirectPdoDispatchRetry d)"
| "dispatch_step d Event_TakeAction = fst (NldDirectPdoDispatchTakeAction d)"
| "dispatch_step d (Event_Complete generation action succeeded) =
     fst (NldDirectPdoDispatchCompleteAction d generation action succeeded)"

text \<open>The states reached after \<open>n\<close> events, in any order.\<close>

inductive dispatch_reachable :: "nat \<Rightarrow> NLD_DIRECT_PDO_DISPATCH_OWNER \<Rightarrow> bool" where
  start: "dispatch_reachable 0 NldDirectPdoDispatchInitialize"
| step: "dispatch_reachable n d \<Longrightarrow> dispatch_reachable (Suc n) (dispatch_step d e)"

definition session_inv :: "NLD_DIRECT_PDO_SESSION \<Rightarrow> bool" where
  "session_inv s \<longleftrightarrow>
     NldDirectPdoIsConsistent s \<and> (ps_RecoveryRequired s \<longrightarrow> ps_PnpStarted s) \<and>
     (ps_TransportState s = NldDirectPdoTransportOffline \<longrightarrow>
        ps_PendingAction s = NldDirectPdoActionNone) \<and>
     (ps_TransportState s = NldDirectPdoTransportFaulted \<longrightarrow>
        ps_PendingAction s \<in> {NldDirectPdoActionNone, NldDirectPdoActionCancelAndClose})"

definition dispatch_inv :: "NLD_DIRECT_PDO_DISPATCH_OWNER \<Rightarrow> bool" where
  "dispatch_inv d \<longleftrightarrow>
     session_inv (do_Session d) \<and>
     (do_ActiveAction d \<noteq> NldDirectPdoActionNone \<longrightarrow> do_WorkerOwned d \<and>
        ps_PendingAction (do_Session d) \<in> {do_ActiveAction d, NldDirectPdoActionCancelAndClose}) \<and>
     (ps_PendingAction (do_Session d) \<noteq> NldDirectPdoActionNone \<longrightarrow> do_WorkerOwned d) \<and>
     (do_StopRequested d \<longrightarrow> \<not> ps_PnpStarted (do_Session d))"

lemmas session_defs = NldDirectPdoIsConsistent_def session_inv_def

lemma plan_inv:
  "session_inv s \<Longrightarrow> session_inv (fst (NldDirectPdoPlan s))"
  by (cases "ps_TransportState s"; cases "ps_KsIntent s")
    (auto simp: session_defs NldDirectPdoPlan_def)

lemma pending_plan:
  "ps_PendingAction (fst (NldDirectPdoPlan s)) \<noteq> NldDirectPdoActionNone \<longleftrightarrow>
   ps_PendingAction s \<noteq> NldDirectPdoActionNone \<or> snd (NldDirectPdoPlan s) \<noteq> NldDirectPdoActionNone"
  "ps_PendingAction s \<noteq> NldDirectPdoActionNone \<Longrightarrow> fst (NldDirectPdoPlan s) = s"
  "ps_PnpStarted (fst (NldDirectPdoPlan s)) = ps_PnpStarted s"
  "ps_Generation (fst (NldDirectPdoPlan s)) = ps_Generation s"
  "ps_TransportState (fst (NldDirectPdoPlan s)) = ps_TransportState s"
  "ps_RecoveryRequired (fst (NldDirectPdoPlan s)) = ps_RecoveryRequired s"
  "ps_KsIntent (fst (NldDirectPdoPlan s)) = ps_KsIntent s"
  by (auto simp: NldDirectPdoPlan_def Let_def)

lemma session_invI:
  "\<lbrakk>ps_PnpStarted s; ps_PendingAction s = NldDirectPdoActionNone; \<not> ps_RecoveryRequired s;
    ps_TransportState s \<noteq> NldDirectPdoTransportOffline\<rbrakk> \<Longrightarrow> session_inv s"
  "\<lbrakk>\<not> ps_PnpStarted s; ps_PendingAction s = NldDirectPdoActionNone; \<not> ps_RecoveryRequired s;
    ps_TransportState s = NldDirectPdoTransportOffline\<rbrakk> \<Longrightarrow> session_inv s"
  "\<lbrakk>ps_PnpStarted s; ps_PendingAction s = NldDirectPdoActionNone;
    ps_TransportState s = NldDirectPdoTransportFaulted\<rbrakk> \<Longrightarrow> session_inv s"
  by (simp_all add: session_defs)

lemma session_invD:
  assumes "session_inv s"
  shows "ps_RecoveryRequired s \<Longrightarrow> ps_PnpStarted s"
    "\<not> ps_PnpStarted s \<Longrightarrow> ps_PendingAction s = NldDirectPdoActionCancelAndClose \<or>
       (ps_PendingAction s = NldDirectPdoActionNone \<and>
        ps_TransportState s = NldDirectPdoTransportOffline)"
    "\<lbrakk>ps_RecoveryRequired s; ps_PendingAction s \<noteq> NldDirectPdoActionCancelAndClose\<rbrakk> \<Longrightarrow>
       ps_TransportState s = NldDirectPdoTransportFaulted \<and>
       ps_PendingAction s = NldDirectPdoActionNone"
  using assms by (cases "ps_TransportState s"; auto simp: session_defs)+

lemma start_inv: "session_inv s \<Longrightarrow> session_inv (fst (NldDirectPdoOnPnpStart s))"
  by (simp add: NldDirectPdoOnPnpStart_def plan_inv session_invI(1))

lemma stop_inv: "session_inv s \<Longrightarrow> session_inv (fst (NldDirectPdoOnPnpStop s))"
  by (auto simp: session_defs NldDirectPdoOnPnpStop_def Let_def)

lemma ks_inv: "session_inv s \<Longrightarrow> session_inv (fst (NldDirectPdoSetKsIntent s intent))"
  unfolding NldDirectPdoSetKsIntent_def by (rule plan_inv) (simp add: session_defs)

lemma lost_inv: "session_inv s \<Longrightarrow> session_inv (fst (NldDirectPdoOnTransportLost s))"
  by (auto simp: session_defs NldDirectPdoOnTransportLost_def Let_def)

lemma retry_inv: "session_inv s \<Longrightarrow> session_inv (fst (NldDirectPdoRetry s))"
  by (simp add: NldDirectPdoRetry_def plan_inv session_invI(1))

lemma complete_inv:
  assumes "session_inv s"
  shows "session_inv (fst (NldDirectPdoCompleteAction s action ok))"
proof (cases "action = NldDirectPdoActionNone \<or> action \<noteq> ps_PendingAction s")
  case True
  then show ?thesis using assms by (simp add: NldDirectPdoCompleteAction_def)
next
  case False
  then obtain t where t: "action_target (ps_PnpStarted s) action = Some t"
    by (cases action) auto
  have running: "ps_PnpStarted s \<or> action = NldDirectPdoActionCancelAndClose"
    using session_invD(2) [OF assms] False by auto
  have lost: "ps_RecoveryRequired s \<Longrightarrow>
      ps_PnpStarted s \<and> action = NldDirectPdoActionCancelAndClose"
    using session_invD(1,3) [OF assms] False by auto
  show ?thesis
  proof (cases "ps_RecoveryRequired s \<or> \<not> ok")
    case True
    then show ?thesis
      using False running lost session_invI(2,3)
      by (auto simp: NldDirectPdoCompleteAction_def Let_def)
  next
    case success: False
    have "session_inv (s\<lparr>ps_PendingAction := NldDirectPdoActionNone, ps_TransportState := t\<rparr>)"
    proof (cases "ps_PnpStarted s")
      case True
      then show ?thesis
        using success t by (intro session_invI(1)) (cases action; auto)+
    next
      case stopped: False
      then show ?thesis
        using success t running by (intro session_invI(2)) auto
    qed
    then show ?thesis
      using False success t plan_inv by (auto simp: NldDirectPdoCompleteAction_def Let_def)
  qed
qed

lemma own_worker_inv:
  assumes "session_inv (do_Session d)" "do_StopRequested d \<longrightarrow> \<not> ps_PnpStarted (do_Session d)"
    and "do_ActiveAction d \<noteq> NldDirectPdoActionNone \<longrightarrow> do_WorkerOwned d \<and>
      ps_PendingAction (do_Session d) \<in> {do_ActiveAction d, NldDirectPdoActionCancelAndClose}"
    and "ps_PendingAction (do_Session d) \<noteq> NldDirectPdoActionNone \<longrightarrow>
      do_WorkerOwned d \<or> action \<noteq> NldDirectPdoActionNone"
  shows "dispatch_inv (fst (NldDirectPdoDispatchOwnWorker d action))"
  using assms by (auto simp: dispatch_inv_def NldDirectPdoDispatchOwnWorker_def)

lemma dispatch_invD:
  assumes "dispatch_inv d"
  shows "session_inv (do_Session d)"
    "do_ActiveAction d \<noteq> NldDirectPdoActionNone \<Longrightarrow> do_WorkerOwned d"
    "do_ActiveAction d \<noteq> NldDirectPdoActionNone \<Longrightarrow>
       ps_PendingAction (do_Session d) \<in> {do_ActiveAction d, NldDirectPdoActionCancelAndClose}"
    "ps_PendingAction (do_Session d) \<noteq> NldDirectPdoActionNone \<Longrightarrow> do_WorkerOwned d"
    "do_StopRequested d \<Longrightarrow> \<not> ps_PnpStarted (do_Session d)"
  using assms by (auto simp: dispatch_inv_def)

lemma planned_dispatch_inv:
  assumes "dispatch_inv d" "session_inv (fst (NldDirectPdoPlan s))"
    and "ps_PendingAction s = ps_PendingAction (do_Session d) \<or>
      \<not> do_WorkerOwned d \<and> ps_PendingAction s = NldDirectPdoActionNone"
    and "do_Session d1 = fst (NldDirectPdoPlan s)" "\<not> do_StopRequested d1"
    and "do_WorkerOwned d1 = do_WorkerOwned d" "do_ActiveAction d1 = do_ActiveAction d"
  shows "dispatch_inv (fst (NldDirectPdoDispatchOwnWorker d1 (snd (NldDirectPdoPlan s))))"
proof (rule own_worker_inv)
  show "session_inv (do_Session d1)" using assms(2,4) by simp
  show "do_StopRequested d1 \<longrightarrow> \<not> ps_PnpStarted (do_Session d1)" using assms(5) by simp
  show "ps_PendingAction (do_Session d1) \<noteq> NldDirectPdoActionNone \<longrightarrow>
      do_WorkerOwned d1 \<or> snd (NldDirectPdoPlan s) \<noteq> NldDirectPdoActionNone"
    using assms pending_plan(1) [of s] dispatch_invD(4) [OF assms(1)] by auto
  show "do_ActiveAction d1 \<noteq> NldDirectPdoActionNone \<longrightarrow> do_WorkerOwned d1 \<and>
      ps_PendingAction (do_Session d1) \<in> {do_ActiveAction d1, NldDirectPdoActionCancelAndClose}"
    using assms dispatch_invD(2,3) [OF assms(1)] pending_plan(2) [of s] by auto
qed

lemma dispatch_start_inv:
  assumes "dispatch_inv d"
  shows "dispatch_inv (fst (NldDirectPdoDispatchOnPnpStart d))"
proof (cases "ps_PnpStarted (do_Session d)")
  case True
  then show ?thesis
    using assms by (auto simp: NldDirectPdoDispatchOnPnpStart_def NldDirectPdoOnPnpStart_def
        NldDirectPdoDispatchOwnWorker_def dispatch_inv_def)
next
  case False
  then show ?thesis
    using assms start_inv [OF dispatch_invD(1) [OF assms]]
    by (auto simp: NldDirectPdoDispatchOnPnpStart_def NldDirectPdoOnPnpStart_def case_prod_beta
        intro!: planned_dispatch_inv)
qed

lemma dispatch_stop_inv:
  assumes "dispatch_inv d"
  shows "dispatch_inv (fst (NldDirectPdoDispatchOnPnpStop d))"
proof -
  let ?s = "do_Session d" and ?r = "NldDirectPdoOnPnpStop (do_Session d)"
  have "session_inv (fst ?r)" using stop_inv dispatch_invD(1) [OF assms] by blast
  moreover have "\<not> ps_PnpStarted (fst ?r)"
    by (simp add: NldDirectPdoOnPnpStop_def Let_def)
  moreover have "ps_PendingAction (fst ?r) = snd ?r"
    by (simp add: NldDirectPdoOnPnpStop_def Let_def)
  moreover have "ps_PendingAction (fst ?r) = NldDirectPdoActionCancelAndClose"
    if "do_ActiveAction d \<noteq> NldDirectPdoActionNone"
    using dispatch_invD(1,3) [OF assms] that
    by (auto simp: NldDirectPdoOnPnpStop_def Let_def session_inv_def)
  ultimately show ?thesis
    using dispatch_invD(2) [OF assms]
    by (auto simp: NldDirectPdoDispatchOnPnpStop_def NldDirectPdoDispatchOwnWorker_def Let_def
        case_prod_beta dispatch_inv_def)
qed

lemma dispatch_ks_inv:
  assumes "dispatch_inv d"
  shows "dispatch_inv (fst (NldDirectPdoDispatchSetKsIntent d intent))"
  using assms ks_inv [OF dispatch_invD(1) [OF assms]]
  by (auto simp: NldDirectPdoDispatchSetKsIntent_def NldDirectPdoSetKsIntent_def case_prod_beta
      intro!: planned_dispatch_inv)

lemma dispatch_lost_inv:
  assumes "dispatch_inv d"
  shows "dispatch_inv (fst (NldDirectPdoDispatchOnTransportLost d))"
proof -
  let ?s = "do_Session d" and ?r = "NldDirectPdoOnTransportLost (do_Session d)"
  have "session_inv (fst ?r)" using lost_inv dispatch_invD(1) [OF assms] by blast
  moreover have "ps_PendingAction (fst ?r) = ps_PendingAction ?s \<or>
      ps_PendingAction (fst ?r) = NldDirectPdoActionCancelAndClose \<and>
      snd ?r = NldDirectPdoActionCancelAndClose"
    by (auto simp: NldDirectPdoOnTransportLost_def Let_def)
  ultimately show ?thesis
    using assms dispatch_invD(2,3,4) [OF assms]
    by (auto simp: NldDirectPdoDispatchOnTransportLost_def NldDirectPdoDispatchOwnWorker_def Let_def
        case_prod_beta dispatch_inv_def)
qed

lemma dispatch_retry_inv:
  assumes "dispatch_inv d"
  shows "dispatch_inv (fst (NldDirectPdoDispatchRetry d))"
proof (cases "fst (NldDirectPdoRetry (do_Session d)) = do_Session d \<and>
    snd (NldDirectPdoRetry (do_Session d)) = NldDirectPdoActionNone")
  case True
  then show ?thesis
    using assms by (auto simp: NldDirectPdoDispatchRetry_def NldDirectPdoDispatchOwnWorker_def
        case_prod_beta)
next
  case False
  then show ?thesis
    using assms retry_inv [OF dispatch_invD(1) [OF assms]]
    by (auto simp: NldDirectPdoDispatchRetry_def NldDirectPdoRetry_def case_prod_beta
        split: if_splits intro!: planned_dispatch_inv)
qed

lemma dispatch_complete_inv:
  assumes "dispatch_inv d"
  shows "dispatch_inv (fst (NldDirectPdoDispatchCompleteAction d generation action ok))"
proof -
  let ?s' = "fst (NldDirectPdoCompleteAction (do_Session d) action ok)"
  have "session_inv ?s'" using complete_inv dispatch_invD(1) [OF assms] by blast
  moreover have "ps_PnpStarted ?s' = ps_PnpStarted (do_Session d)"
    by (auto simp: NldDirectPdoCompleteAction_def Let_def pending_plan split: option.split)
  ultimately show ?thesis
    using assms dispatch_invD [OF assms]
    by (auto simp: NldDirectPdoDispatchCompleteAction_def Let_def case_prod_beta dispatch_inv_def)
qed

lemma dispatch_take_inv:
  "dispatch_inv d \<Longrightarrow> dispatch_inv (fst (NldDirectPdoDispatchTakeAction d))"
  by (simp add: NldDirectPdoDispatchTakeAction_def dispatch_inv_def Let_def)

lemma dispatch_step_inv: "dispatch_inv d \<Longrightarrow> dispatch_inv (dispatch_step d e)"
  by (cases e)
    (simp_all add: dispatch_start_inv dispatch_stop_inv dispatch_ks_inv dispatch_lost_inv
      dispatch_retry_inv dispatch_complete_inv dispatch_take_inv)

lemma initial_inv: "dispatch_inv NldDirectPdoDispatchInitialize"
  by (simp add: dispatch_inv_def session_defs NldDirectPdoDispatchInitialize_def
      NldDirectPdoInitialize_def)

lemma reachable_inv: "dispatch_reachable n d \<Longrightarrow> dispatch_inv d"
  by (induction rule: dispatch_reachable.induct) (simp_all add: initial_inv dispatch_step_inv)


text \<open>Without a wrap of the generation counter the zero of an idle dispatcher is never used.\<close>

definition generation_inv :: "nat \<Rightarrow> NLD_DIRECT_PDO_DISPATCH_OWNER \<Rightarrow> bool" where
  "generation_inv n d \<longleftrightarrow>
     unat (ps_Generation (do_Session d)) \<le> n \<and>
     (ps_TransportState (do_Session d) \<noteq> NldDirectPdoTransportOffline \<longrightarrow>
        ps_Generation (do_Session d) \<noteq> 0) \<and>
     (do_ActiveAction d = NldDirectPdoActionNone) = (do_ActiveGeneration d = 0)"

definition bumped :: "NLD_DIRECT_PDO_SESSION \<Rightarrow> NLD_DIRECT_PDO_SESSION \<Rightarrow> bool" where
  "bumped s s' \<longleftrightarrow>
     (ps_Generation s' = ps_Generation s + 1 \<or> ps_Generation s' = ps_Generation s \<and>
        (ps_TransportState s = NldDirectPdoTransportOffline \<longrightarrow>
         ps_TransportState s' = NldDirectPdoTransportOffline))"

lemma session_bumped:
  "bumped s (fst (NldDirectPdoOnPnpStart s))"
  "bumped s (fst (NldDirectPdoOnPnpStop s))"
  "bumped s (fst (NldDirectPdoSetKsIntent s intent))"
  "ps_Generation s \<noteq> - 1 \<Longrightarrow> bumped s (fst (NldDirectPdoOnTransportLost s))"
  "bumped s (fst (NldDirectPdoRetry s))"
  by (auto simp: bumped_def NldDirectPdoOnPnpStart_def NldDirectPdoOnPnpStop_def
      NldDirectPdoSetKsIntent_def NldDirectPdoOnTransportLost_def NldDirectPdoRetry_def
      NextGeneration_def Let_def pending_plan)

lemma complete_bumped:
  assumes "session_inv s"
  shows "bumped s (fst (NldDirectPdoCompleteAction s action ok))"
  using assms
  by (auto simp: bumped_def NldDirectPdoCompleteAction_def session_inv_def Let_def pending_plan
      split: option.split)

lemma bumped_refl [simp]: "bumped s s"
  by (simp add: bumped_def)

lemma dispatch_bumped:
  assumes "dispatch_inv d" "ps_Generation (do_Session d) \<noteq> - 1"
  shows "bumped (do_Session d) (do_Session (dispatch_step d e))"
  using session_bumped [of "do_Session d"] assms(2) complete_bumped [OF dispatch_invD(1) [OF assms(1)]]
  by (cases e)
    (auto simp: NldDirectPdoDispatchOnPnpStart_def NldDirectPdoDispatchOnPnpStop_def
      NldDirectPdoDispatchSetKsIntent_def NldDirectPdoDispatchOnTransportLost_def
      NldDirectPdoDispatchRetry_def NldDirectPdoDispatchTakeAction_def
      NldDirectPdoDispatchCompleteAction_def NldDirectPdoDispatchOwnWorker_def Let_def case_prod_beta)


lemma bumped_generation:
  assumes "bumped s s'" "unat (ps_Generation s) \<le> n" "n < 2 ^ 32 - 1"
    and "ps_TransportState s \<noteq> NldDirectPdoTransportOffline \<longrightarrow> ps_Generation s \<noteq> 0"
  shows "unat (ps_Generation s') \<le> Suc n"
    "ps_TransportState s' \<noteq> NldDirectPdoTransportOffline \<longrightarrow> ps_Generation s' \<noteq> 0"
proof -
  have "ps_Generation s \<noteq> - 1"
    using assms(2,3) by (auto simp: unsigned_minus_1_eq_mask mask_eq_exp_minus_1)
  then have "unat (ps_Generation s + 1) = Suc (unat (ps_Generation s))"
    by (rule unat_less_neq_max)
  moreover from this have "ps_Generation s + 1 \<noteq> 0" by (metis unat_0 nat.distinct(1))
  ultimately show "unat (ps_Generation s') \<le> Suc n"
    "ps_TransportState s' \<noteq> NldDirectPdoTransportOffline \<longrightarrow> ps_Generation s' \<noteq> 0"
    using assms by (auto simp: bumped_def)
qed

lemma active_generation_step:
  assumes "dispatch_inv d" "generation_inv n d"
  shows "(do_ActiveAction (dispatch_step d e) = NldDirectPdoActionNone) =
    (do_ActiveGeneration (dispatch_step d e) = 0)"
proof (cases "e = Event_TakeAction")
  case True
  then show ?thesis
    using assms by (auto simp: NldDirectPdoDispatchTakeAction_def generation_inv_def
        dispatch_inv_def session_inv_def Let_def)
next
  case False
  then show ?thesis
    using assms(2)
    by (cases e)
      (auto simp: NldDirectPdoDispatchOnPnpStart_def NldDirectPdoDispatchOnPnpStop_def
        NldDirectPdoDispatchSetKsIntent_def NldDirectPdoDispatchOnTransportLost_def
        NldDirectPdoDispatchRetry_def NldDirectPdoDispatchCompleteAction_def
        NldDirectPdoDispatchOwnWorker_def Let_def case_prod_beta generation_inv_def)
qed

lemma reachable_generation:
  "dispatch_reachable n d \<Longrightarrow> n < 2 ^ 32 \<Longrightarrow> generation_inv n d"
proof (induction rule: dispatch_reachable.induct)
  case start
  show ?case
    by (simp add: generation_inv_def NldDirectPdoDispatchInitialize_def NldDirectPdoInitialize_def)
next
  case (step n d e)
  have inv: "dispatch_inv d" using reachable_inv step.hyps by blast
  have gen: "generation_inv n d" using step by simp
  have bound: "n < 2 ^ 32 - 1" using step.prems by simp
  have "ps_Generation (do_Session d) \<noteq> - 1"
    using gen bound
    by (auto simp: generation_inv_def unsigned_minus_1_eq_mask mask_eq_exp_minus_1)
  then have "bumped (do_Session d) (do_Session (dispatch_step d e))"
    using dispatch_bumped inv by blast
  then show ?case
    using bumped_generation [OF _ _ bound] gen active_generation_step [OF inv gen]
    by (auto simp: generation_inv_def)
qed

section \<open>Properties\<close>

text \<open>C14: the dispatcher keeps its own consistency predicate.  Whatever the order of the events of
  the device, the audio stack, the transport and the worker, and whatever the worker reports, the
  predicate \<open>NldDirectPdoDispatchIsConsistent\<close> of the code holds after every history of fewer
  than 2^32 events, that is until the generation counter can wrap.\<close>

theorem dispatcher_consistent:
  assumes "dispatch_reachable n d" and "n < 2 ^ 32"
  shows "NldDirectPdoDispatchIsConsistent d"
  using reachable_inv [OF assms(1)] reachable_generation [OF assms]
  by (auto simp: NldDirectPdoDispatchIsConsistent_def dispatch_inv_def session_inv_def
      generation_inv_def)

lemma reachable_start: "dispatch_reachable 1 (fst (NldDirectPdoDispatchOnPnpStart
    NldDirectPdoDispatchInitialize))"
  using dispatch_reachable.step [OF dispatch_reachable.start, of Event_PnpStart] by simp

theorem dispatcher_consistent_witness:
  "NldDirectPdoDispatchIsConsistent
     (fst (NldDirectPdoDispatchOnPnpStart NldDirectPdoDispatchInitialize))"
  by (rule dispatcher_consistent [OF reachable_start]) simp

lemma worker_loop_idle:
  "ps_PendingAction (do_Session d) = NldDirectPdoActionNone \<or> \<not> do_WorkerOwned d \<Longrightarrow>
   do_ActiveAction d = NldDirectPdoActionNone \<Longrightarrow>
   worker_loop exec d w = (d\<lparr>do_WorkerOwned := False\<rparr>, w, [])"
  by (subst worker_loop.simps) (cases d; auto simp: NldDirectPdoDispatchTakeAction_def Let_def)

lemma worker_loop_action:
  assumes "do_WorkerOwned d" "do_ActiveAction d = NldDirectPdoActionNone"
    and "ps_PendingAction (do_Session d) = action" "action \<noteq> NldDirectPdoActionNone"
  shows "worker_loop exec d w =
    (let (d3, w2, actions) =
       worker_loop exec
         (d\<lparr>do_ActiveGeneration := 0, do_Session := fst (NldDirectPdoCompleteAction (do_Session d)
             action (fst (exec action w)))\<rparr>) (snd (exec action w))
     in (d3, w2, action # actions))"
proof -
  obtain d1 generation where t: "NldDirectPdoDispatchTakeAction d = (d1, action, generation)"
    using assms by (auto simp: NldDirectPdoDispatchTakeAction_def Let_def)
  have "d\<lparr>do_ActiveAction := NldDirectPdoActionNone, do_ActiveGeneration := 0, do_Session := s\<rparr> =
      d\<lparr>do_ActiveGeneration := 0, do_Session := s\<rparr>" for s
    using assms(2) by (cases d) simp
  then show ?thesis
    using assms(4) t completed_taken [OF t assms(4)]
    by (subst worker_loop.simps) (simp add: Let_def case_prod_beta)
qed

text \<open>A stopped dispatcher whose worker has nothing to do but to cancel and close.\<close>

definition stopping :: "NLD_DIRECT_PDO_DISPATCH_OWNER \<Rightarrow> bool" where
  "stopping d \<longleftrightarrow>
     \<not> ps_PnpStarted (do_Session d) \<and> \<not> ps_RecoveryRequired (do_Session d) \<and>
     do_ActiveAction d = NldDirectPdoActionNone \<and>
     (ps_PendingAction (do_Session d) = NldDirectPdoActionCancelAndClose \<and> do_WorkerOwned d \<or>
      ps_PendingAction (do_Session d) = NldDirectPdoActionNone \<and>
      ps_TransportState (do_Session d) = NldDirectPdoTransportOffline)"

lemma cancelled_session:
  assumes "\<not> ps_PnpStarted s" "\<not> ps_RecoveryRequired s"
    and "ps_PendingAction s = NldDirectPdoActionCancelAndClose"
  shows "fst (NldDirectPdoCompleteAction s NldDirectPdoActionCancelAndClose ok) =
    s\<lparr>ps_PendingAction := NldDirectPdoActionNone, ps_TransportState := NldDirectPdoTransportOffline\<rparr>"
  using assms by (simp add: NldDirectPdoCompleteAction_def NldDirectPdoPlan_def Let_def)

lemma stopping_drains:
  assumes "stopping d" "worker_loop exec d w = (d', w', actions)"
  shows "ps_TransportState (do_Session d') = NldDirectPdoTransportOffline \<and>
    ps_PendingAction (do_Session d') = NldDirectPdoActionNone \<and>
    do_ActiveAction d' = NldDirectPdoActionNone \<and> \<not> do_WorkerOwned d' \<and>
    actions \<in> {[], [NldDirectPdoActionCancelAndClose]}"
proof (cases "ps_PendingAction (do_Session d) = NldDirectPdoActionNone")
  case True
  then show ?thesis using assms by (auto simp: stopping_def worker_loop_idle)
next
  case False
  then show ?thesis
    using assms
    by (auto simp: stopping_def worker_loop_action cancelled_session worker_loop_idle)
qed

lemma stop_leaves_stopping:
  assumes "dispatch_inv d" "d1 = fst (NldDirectPdoDispatchOnPnpStop d)"
  shows "stopping (fst (NldDirectPdoDispatchCompleteAction d1 (do_ActiveGeneration d1)
    (do_ActiveAction d1) ok))"
proof -
  let ?s = "fst (NldDirectPdoOnPnpStop (do_Session d))"
  have inv: "dispatch_inv d1" using assms dispatch_stop_inv by simp
  have s: "\<not> ps_PnpStarted ?s" "\<not> ps_RecoveryRequired ?s"
    by (simp_all add: NldDirectPdoOnPnpStop_def Let_def)
  have d1: "do_Session d1 = ?s" "do_StopRequested d1"
    using assms(2) by (auto simp: NldDirectPdoDispatchOnPnpStop_def
        NldDirectPdoDispatchOwnWorker_def Let_def case_prod_beta)
  have pending: "ps_PendingAction ?s = NldDirectPdoActionCancelAndClose \<or>
      ps_PendingAction ?s = NldDirectPdoActionNone \<and>
      ps_TransportState ?s = NldDirectPdoTransportOffline"
    using session_invD(2) [OF dispatch_invD(1) [OF inv]] s d1 by auto
  then show ?thesis
    using dispatch_invD(2-4) [OF inv] s d1 cancelled_session [OF s]
    by (cases "do_ActiveAction d1 = NldDirectPdoActionNone")
      (auto simp: NldDirectPdoDispatchCompleteAction_def stopping_def Let_def case_prod_beta)
qed

text \<open>C15: a stop of the device drains the driver.  In every reachable state, whatever the worker is
  doing and however its action and the closing end, after the stop the worker runs at most one
  more action, to cancel and close, and leaves the transport offline with nothing planned, nothing
  active and no worker.\<close>

theorem stop_drains:
  assumes "dispatch_reachable n d"
  shows "let d1 = fst (NldDirectPdoDispatchOnPnpStop d);
             d2 = fst (NldDirectPdoDispatchCompleteAction d1 (do_ActiveGeneration d1)
                        (do_ActiveAction d1) ok);
             (d3, w', actions) = worker_loop exec d2 w
         in ps_TransportState (do_Session d3) = NldDirectPdoTransportOffline \<and>
            ps_PendingAction (do_Session d3) = NldDirectPdoActionNone \<and>
            do_ActiveAction d3 = NldDirectPdoActionNone \<and> \<not> do_WorkerOwned d3 \<and>
            actions \<in> {[], [NldDirectPdoActionCancelAndClose]}"
proof -
  let ?d1 = "fst (NldDirectPdoDispatchOnPnpStop d)"
  let ?d2 = "fst (NldDirectPdoDispatchCompleteAction ?d1 (do_ActiveGeneration ?d1)
    (do_ActiveAction ?d1) ok)"
  obtain d3 w' actions where run: "worker_loop exec ?d2 w = (d3, w', actions)"
    by (metis prod_cases3)
  from stopping_drains [OF stop_leaves_stopping [OF reachable_inv [OF assms] refl] run]
  show ?thesis by (simp add: run)
qed

theorem stop_drains_witness:
  "let d1 = fst (NldDirectPdoDispatchOnPnpStop
              (fst (NldDirectPdoDispatchOnPnpStart NldDirectPdoDispatchInitialize)));
       d2 = fst (NldDirectPdoDispatchCompleteAction d1 (do_ActiveGeneration d1)
                  (do_ActiveAction d1) True);
       (d3, w', actions) = worker_loop (\<lambda>a w. (True, a # w)) d2 []
   in ps_TransportState (do_Session d3) = NldDirectPdoTransportOffline \<and>
      ps_PendingAction (do_Session d3) = NldDirectPdoActionNone \<and>
      do_ActiveAction d3 = NldDirectPdoActionNone \<and> \<not> do_WorkerOwned d3 \<and>
      actions \<in> {[], [NldDirectPdoActionCancelAndClose]}"
  by (rule stop_drains [OF reachable_start])

text \<open>The state each intent asks for.\<close>

fun intended_state :: "NLD_DIRECT_PDO_KS_INTENT \<Rightarrow> NLD_DIRECT_PDO_TRANSPORT_STATE" where
  "intended_state NldDirectPdoKsStopped = NldDirectPdoTransportClosed"
| "intended_state NldDirectPdoKsAcquired = NldDirectPdoTransportOpen"
| "intended_state NldDirectPdoKsRunning = NldDirectPdoTransportStreaming"

definition working :: "NLD_DIRECT_PDO_KS_INTENT \<Rightarrow> NLD_DIRECT_PDO_DISPATCH_OWNER \<Rightarrow> bool" where
  "working intent d \<longleftrightarrow>
     ps_PnpStarted (do_Session d) \<and> \<not> ps_RecoveryRequired (do_Session d) \<and>
     ps_KsIntent (do_Session d) = intent \<and> do_ActiveAction d = NldDirectPdoActionNone \<and>
     (ps_PendingAction (do_Session d) = NldDirectPdoActionNone \<longrightarrow>
        ps_TransportState (do_Session d) = intended_state intent) \<and>
     (ps_PendingAction (do_Session d) \<noteq> NldDirectPdoActionNone \<longrightarrow> do_WorkerOwned d)"

lemma plan_settles:
  assumes "ps_PnpStarted s" "ps_TransportState s \<noteq> NldDirectPdoTransportOffline"
    and "ps_TransportState s \<noteq> NldDirectPdoTransportFaulted"
    and "ps_PendingAction (fst (NldDirectPdoPlan s)) = NldDirectPdoActionNone"
  shows "ps_TransportState s = intended_state (ps_KsIntent s)"
  using assms
  by (cases "ps_TransportState s"; cases "ps_KsIntent s")
    (auto simp: NldDirectPdoPlan_def Let_def split: if_splits)

lemma working_step:
  assumes "working intent d" "ps_PendingAction (do_Session d) = action"
    "action \<noteq> NldDirectPdoActionNone"
  shows "working intent (d\<lparr>do_ActiveGeneration := 0,
    do_Session := fst (NldDirectPdoCompleteAction (do_Session d) action True)\<rparr>)"
proof -
  let ?s = "do_Session d"
  obtain t where t: "action_target True action = Some t" using assms(3) by (cases action) auto
  let ?s1 = "?s\<lparr>ps_PendingAction := NldDirectPdoActionNone, ps_TransportState := t\<rparr>"
  have "t \<noteq> NldDirectPdoTransportOffline \<and> t \<noteq> NldDirectPdoTransportFaulted"
    using t by (cases action) auto
  then have "ps_PendingAction (fst (NldDirectPdoPlan ?s1)) = NldDirectPdoActionNone \<Longrightarrow>
      t = intended_state intent"
    using assms(1) plan_settles [of ?s1] by (simp add: working_def)
  moreover have "fst (NldDirectPdoCompleteAction ?s action True) = fst (NldDirectPdoPlan ?s1)"
    using assms t by (simp add: NldDirectPdoCompleteAction_def working_def Let_def)
  ultimately show ?thesis
    using assms by (auto simp: working_def pending_plan)
qed

lemma working_converges:
  assumes "working intent d"
    and "worker_loop (\<lambda>a w. (True, f a w)) d w = (d', w', actions)"
  shows "ps_TransportState (do_Session d') = intended_state intent \<and> \<not> do_WorkerOwned d' \<and>
    ps_PendingAction (do_Session d') = NldDirectPdoActionNone \<and>
    length actions \<le> actions_left (do_Session d)"
  using assms
proof (induction "actions_left (do_Session d)" arbitrary: d w actions rule: less_induct)
  case less
  show ?case
  proof (cases "ps_PendingAction (do_Session d) = NldDirectPdoActionNone")
    case True
    then show ?thesis using less.prems by (auto simp: working_def worker_loop_idle)
  next
    case False
    let ?a = "ps_PendingAction (do_Session d)"
    let ?d = "d\<lparr>do_ActiveGeneration := 0,
      do_Session := fst (NldDirectPdoCompleteAction (do_Session d) ?a True)\<rparr>"
    have decrease: "actions_left (do_Session ?d) < actions_left (do_Session d)"
      using complete_actions_left [OF False] by simp
    obtain rest where "worker_loop (\<lambda>a w. (True, f a w)) ?d (f ?a w) = (d', w', rest)"
      "actions = ?a # rest"
      using less.prems False by (auto simp: worker_loop_action working_def Let_def split: prod.splits)
    with less.hyps [OF decrease working_step [OF less.prems(1) refl False]]
    show ?thesis using decrease by fastforce
  qed
qed

text \<open>C16: the transport follows the intent of the audio stack.  In every reachable state of a started
  device whose transport is neither lost nor faulted and whose worker is between two actions, a
  new intent makes the worker run at most three actions, and if they succeed the transport is then
  closed, open or streaming as the intent asks, with nothing left to do.\<close>

theorem intent_reached:
  assumes "dispatch_reachable n d" and "ps_PnpStarted (do_Session d)"
    and "\<not> ps_RecoveryRequired (do_Session d)"
    and "ps_TransportState (do_Session d) \<noteq> NldDirectPdoTransportFaulted"
    and "do_ActiveAction d = NldDirectPdoActionNone"
  shows "let (d', w', actions) = worker_loop (\<lambda>a w. (True, f a w))
               (fst (NldDirectPdoDispatchSetKsIntent d intent)) w
         in ps_TransportState (do_Session d') = intended_state intent \<and> \<not> do_WorkerOwned d' \<and>
            ps_PendingAction (do_Session d') = NldDirectPdoActionNone \<and> length actions \<le> 3"
proof -
  let ?d = "fst (NldDirectPdoDispatchSetKsIntent d intent)"
  let ?s = "do_Session d\<lparr>ps_KsIntent := intent\<rparr>"
  have inv: "dispatch_inv d" using assms(1) by (rule reachable_inv)
  have "dispatch_inv ?d" using dispatch_ks_inv [OF inv] .
  have session: "do_Session ?d = fst (NldDirectPdoPlan ?s)" "do_ActiveAction ?d = do_ActiveAction d"
    using assms(2) dispatch_invD(5) [OF inv]
    by (auto simp: NldDirectPdoDispatchSetKsIntent_def NldDirectPdoSetKsIntent_def
        NldDirectPdoDispatchOwnWorker_def case_prod_beta)
  have "ps_TransportState (do_Session d) \<noteq> NldDirectPdoTransportOffline"
    using dispatch_invD(1) [OF inv] assms(2) by (simp add: session_defs)
  then have "working intent ?d"
    using assms session plan_settles [of ?s] dispatch_invD(4) [OF \<open>dispatch_inv ?d\<close>]
    by (auto simp: working_def pending_plan)
  moreover obtain d' w' actions where
    run: "worker_loop (\<lambda>a w. (True, f a w)) ?d w = (d', w', actions)"
    by (metis prod_cases3)
  ultimately have "ps_TransportState (do_Session d') = intended_state intent \<and>
      \<not> do_WorkerOwned d' \<and> ps_PendingAction (do_Session d') = NldDirectPdoActionNone \<and>
      length actions \<le> actions_left (do_Session ?d)"
    by (rule working_converges)
  then show ?thesis using actions_left_le [of "do_Session ?d"] by (simp add: run)
qed

theorem intent_reached_witness:
  "let (d', w', actions) = worker_loop (\<lambda>a w. (True, ()))
         (fst (NldDirectPdoDispatchSetKsIntent
            (fst (NldDirectPdoDispatchOnPnpStart NldDirectPdoDispatchInitialize))
            NldDirectPdoKsRunning)) ()
   in ps_TransportState (do_Session d') = intended_state NldDirectPdoKsRunning \<and>
      \<not> do_WorkerOwned d' \<and> ps_PendingAction (do_Session d') = NldDirectPdoActionNone \<and>
      length actions \<le> 3"
  by (rule intent_reached [OF reachable_start]) code_simp+

end
