(* ===== verification/Ledger.thy ===== *)
theory Ledger
  imports Prelude
begin

text \<open>
  Ledgers: what a component that acquires and gives back resources owes.  The locale
  \<open>resource_ledger\<close> is interpreted on the ownership contracts of the driver, on the channel arbiter
  and on the writes of the AVRCP observer.
\<close>

text \<open>The sum of a quantity over the steps of a history.\<close>

fun total :: "('s \<Rightarrow> 'e \<Rightarrow> 's) \<Rightarrow> ('s \<Rightarrow> 'e \<Rightarrow> nat) \<Rightarrow> 's \<Rightarrow> 'e list \<Rightarrow> nat" where
  "total step f s [] = 0"
| "total step f s (e # es) = f s e + total step f (step s e) es"

locale resource_ledger =
  fixes step :: "'s \<Rightarrow> 'e \<Rightarrow> 's"
    and acquired released :: "'s \<Rightarrow> 'e \<Rightarrow> nat"
    and held :: "'s \<Rightarrow> nat"
    and sound :: "'s \<Rightarrow> bool"
  assumes sound_step: "sound s \<Longrightarrow> sound (step s e)"
    and step_balance: "sound s \<Longrightarrow> held s + acquired s e = released s e + held (step s e)"
begin

lemma sound_run: "sound s \<Longrightarrow> sound (foldl step s es)"
  by (induction es arbitrary: s) (simp_all add: sound_step)

lemma run_balance:
  "sound s \<Longrightarrow>
   held s + total step acquired s es = total step released s es + held (foldl step s es)"
proof (induction es arbitrary: s)
  case (Cons e es)
  have "held s + acquired s e = released s e + held (step s e)"
    using Cons.prems by (rule step_balance)
  moreover have "held (step s e) + total step acquired (step s e) es =
      total step released (step s e) es + held (foldl step (step s e) es)"
    using Cons.IH sound_step Cons.prems by blast
  ultimately show ?case by simp
qed simp

end

end
