(* ===== verification/Bth_Contracts.thy ===== *)
theory Bth_Contracts
  imports Pdo_Session Ledger
begin

text \<open>
  The ownership contracts of the direct-PDO driver towards the Bluetooth port driver, each a record
  and operations that tell the driver what to do with a resource:
  \<open>direct-pdo/src/nativeldac_bth_owner_contract.c\<close> (the reference to the profile interface),
  \<open>nativeldac_bth_address_contract.c\<close> (the discovery of the two device addresses),
  \<open>nativeldac_bth_signaling_contract.c\<close> (an L2CAP channel),
  \<open>nativeldac_bth_transfer_contract.c\<close> (the transfers of a channel) and
  \<open>nativeldac_bth_indication_contract.c\<close> (the context of the indication callback).

  The locale \<open>resource_ledger\<close> of the theory \<open>Ledger\<close> is what all of them owe: over every history,
  what was acquired is what was given back and what is held.
\<close>

section \<open>The profile interface\<close>

datatype NLD_BTH_OWNER_STATE =
  NldBthOwnerOffline | NldBthOwnerQuerying | NldBthOwnerReady | NldBthOwnerFaulted

datatype NLD_BTH_OWNER_ACTION =
  NldBthOwnerActionNone | NldBthOwnerActionQuery | NldBthOwnerActionDereference

record NLD_BTH_INTERFACE_OWNER =
  io_State :: NLD_BTH_OWNER_STATE
  io_Generation :: u32
  io_PnpStarted :: bool
  io_QueryPending :: bool
  io_ReferenceHeld :: bool

definition NldBthOwnerInitialize :: NLD_BTH_INTERFACE_OWNER where
  "NldBthOwnerInitialize =
     \<lparr>io_State = NldBthOwnerOffline, io_Generation = 0, io_PnpStarted = False,
      io_QueryPending = False, io_ReferenceHeld = False\<rparr>"

definition NldBthOwnerOnPnpStart ::
  "NLD_BTH_INTERFACE_OWNER \<Rightarrow> NLD_BTH_INTERFACE_OWNER \<times> NLD_BTH_OWNER_ACTION" where
  "NldBthOwnerOnPnpStart owner =
     (if io_PnpStarted owner then (owner, NldBthOwnerActionNone)
      else (owner\<lparr>io_PnpStarted := True, io_State := NldBthOwnerQuerying,
                  io_QueryPending := True, io_ReferenceHeld := False,
                  io_Generation := io_Generation owner + 1\<rparr>, NldBthOwnerActionQuery))"

definition NldBthOwnerOnQueryComplete ::
  "NLD_BTH_INTERFACE_OWNER \<Rightarrow> u32 \<Rightarrow> bool \<Rightarrow> bool \<Rightarrow>
   NLD_BTH_INTERFACE_OWNER \<times> NLD_BTH_OWNER_ACTION" where
  "NldBthOwnerOnQueryComplete owner generation succeeded interface_referenced =
     (let give_back = (if interface_referenced then NldBthOwnerActionDereference
                       else NldBthOwnerActionNone)
      in if generation \<noteq> io_Generation owner \<or> \<not> io_QueryPending owner then (owner, give_back)
         else
           let owner1 = owner\<lparr>io_QueryPending := False\<rparr>
           in if \<not> io_PnpStarted owner1
              then (owner1\<lparr>io_State := NldBthOwnerOffline, io_ReferenceHeld := False\<rparr>, give_back)
              else if succeeded \<and> interface_referenced
              then (owner1\<lparr>io_State := NldBthOwnerReady, io_ReferenceHeld := True\<rparr>,
                    NldBthOwnerActionNone)
              else (owner1\<lparr>io_State := NldBthOwnerFaulted, io_ReferenceHeld := False\<rparr>, give_back))"

definition NldBthOwnerOnPnpStop ::
  "NLD_BTH_INTERFACE_OWNER \<Rightarrow> NLD_BTH_INTERFACE_OWNER \<times> NLD_BTH_OWNER_ACTION" where
  "NldBthOwnerOnPnpStop owner =
     (let release_reference = io_ReferenceHeld owner
      in (owner\<lparr>io_PnpStarted := False, io_State := NldBthOwnerOffline,
                io_ReferenceHeld := False\<rparr>,
          if release_reference then NldBthOwnerActionDereference else NldBthOwnerActionNone))"

definition NldBthOwnerRetry ::
  "NLD_BTH_INTERFACE_OWNER \<Rightarrow> NLD_BTH_INTERFACE_OWNER \<times> NLD_BTH_OWNER_ACTION" where
  "NldBthOwnerRetry owner =
     (if \<not> io_PnpStarted owner \<or> io_QueryPending owner \<or> io_ReferenceHeld owner \<or>
         io_State owner \<noteq> NldBthOwnerFaulted
      then (owner, NldBthOwnerActionNone)
      else (owner\<lparr>io_State := NldBthOwnerQuerying, io_QueryPending := True,
                  io_Generation := io_Generation owner + 1\<rparr>, NldBthOwnerActionQuery))"

definition NldBthOwnerIsConsistent :: "NLD_BTH_INTERFACE_OWNER \<Rightarrow> bool" where
  "NldBthOwnerIsConsistent owner \<longleftrightarrow>
     \<not> (io_QueryPending owner \<and> io_State owner \<noteq> NldBthOwnerQuerying \<and> io_PnpStarted owner) \<and>
     io_ReferenceHeld owner = (io_State owner = NldBthOwnerReady) \<and>
     \<not> (io_ReferenceHeld owner \<and> \<not> io_PnpStarted owner) \<and>
     \<not> (io_State owner = NldBthOwnerReady \<and> io_QueryPending owner) \<and>
     \<not> (io_State owner = NldBthOwnerFaulted \<and> \<not> io_PnpStarted owner)"

section \<open>The device addresses\<close>

datatype NLD_BTH_ADDRESS_STATE =
  NldBthAddressOffline | NldBthAddressRemotePending | NldBthAddressLocalPending
| NldBthAddressReady | NldBthAddressFaulted

datatype NLD_BTH_ADDRESS_ACTION =
  NldBthAddressActionNone | NldBthAddressActionQueryRemote | NldBthAddressActionQueryLocal

record NLD_BTH_ADDRESS_DISCOVERY =
  ad_State :: NLD_BTH_ADDRESS_STATE
  ad_Generation :: u32
  ad_PnpStarted :: bool

definition NldBthAddressInitialize :: NLD_BTH_ADDRESS_DISCOVERY where
  "NldBthAddressInitialize =
     \<lparr>ad_State = NldBthAddressOffline, ad_Generation = 0, ad_PnpStarted = False\<rparr>"

definition NldBthAddressOnPnpStart ::
  "NLD_BTH_ADDRESS_DISCOVERY \<Rightarrow> NLD_BTH_ADDRESS_DISCOVERY \<times> NLD_BTH_ADDRESS_ACTION" where
  "NldBthAddressOnPnpStart discovery =
     (if ad_PnpStarted discovery then (discovery, NldBthAddressActionNone)
      else (discovery\<lparr>ad_PnpStarted := True, ad_State := NldBthAddressRemotePending,
                      ad_Generation := ad_Generation discovery + 1\<rparr>,
            NldBthAddressActionQueryRemote))"

definition NldBthAddressOnRemoteComplete ::
  "NLD_BTH_ADDRESS_DISCOVERY \<Rightarrow> u32 \<Rightarrow> bool \<Rightarrow>
   NLD_BTH_ADDRESS_DISCOVERY \<times> NLD_BTH_ADDRESS_ACTION" where
  "NldBthAddressOnRemoteComplete discovery generation succeeded =
     (if generation \<noteq> ad_Generation discovery \<or> \<not> ad_PnpStarted discovery \<or>
         ad_State discovery \<noteq> NldBthAddressRemotePending
      then (discovery, NldBthAddressActionNone)
      else if \<not> succeeded
      then (discovery\<lparr>ad_State := NldBthAddressFaulted\<rparr>, NldBthAddressActionNone)
      else (discovery\<lparr>ad_State := NldBthAddressLocalPending\<rparr>, NldBthAddressActionQueryLocal))"

definition NldBthAddressOnLocalComplete ::
  "NLD_BTH_ADDRESS_DISCOVERY \<Rightarrow> u32 \<Rightarrow> bool \<Rightarrow>
   NLD_BTH_ADDRESS_DISCOVERY \<times> NLD_BTH_ADDRESS_ACTION" where
  "NldBthAddressOnLocalComplete discovery generation succeeded =
     (if generation \<noteq> ad_Generation discovery \<or> \<not> ad_PnpStarted discovery \<or>
         ad_State discovery \<noteq> NldBthAddressLocalPending
      then (discovery, NldBthAddressActionNone)
      else (discovery\<lparr>ad_State := (if succeeded then NldBthAddressReady
                                   else NldBthAddressFaulted)\<rparr>, NldBthAddressActionNone))"

definition NldBthAddressOnPnpStop :: "NLD_BTH_ADDRESS_DISCOVERY \<Rightarrow> NLD_BTH_ADDRESS_DISCOVERY" where
  "NldBthAddressOnPnpStop discovery =
     (let discovery1 =
            (if ad_PnpStarted discovery \<or> ad_State discovery \<noteq> NldBthAddressOffline
             then discovery\<lparr>ad_Generation := ad_Generation discovery + 1\<rparr> else discovery)
      in discovery1\<lparr>ad_PnpStarted := False, ad_State := NldBthAddressOffline\<rparr>)"

definition NldBthAddressIsConsistent :: "NLD_BTH_ADDRESS_DISCOVERY \<Rightarrow> bool" where
  "NldBthAddressIsConsistent discovery \<longleftrightarrow>
     ad_PnpStarted discovery = (ad_State discovery \<noteq> NldBthAddressOffline)"

section \<open>A channel\<close>

datatype NLD_BTH_SIGNALING_STATE =
  NldBthSignalingOffline | NldBthSignalingClosed | NldBthSignalingOpening
| NldBthSignalingChannelOpen | NldBthSignalingClosing | NldBthSignalingFaulted

datatype NLD_BTH_SIGNALING_ACTION =
  NldBthSignalingActionNone | NldBthSignalingActionSubmitOpen
| NldBthSignalingActionCancelOpen | NldBthSignalingActionSubmitClose

record NLD_BTH_SIGNALING_OWNER =
  so_State :: NLD_BTH_SIGNALING_STATE
  so_Generation :: u32
  so_PnpStarted :: bool
  so_OpenPending :: bool
  so_ChannelHeld :: bool
  so_CloseRequested :: bool
  so_TargetOffline :: bool

definition NldBthSignalingOwnerResetRequestFlags ::
  "NLD_BTH_SIGNALING_OWNER \<Rightarrow> NLD_BTH_SIGNALING_OWNER" where
  "NldBthSignalingOwnerResetRequestFlags owner =
     owner\<lparr>so_OpenPending := False, so_ChannelHeld := False, so_CloseRequested := False,
           so_TargetOffline := False\<rparr>"

definition NldBthSignalingOwnerInitialize :: NLD_BTH_SIGNALING_OWNER where
  "NldBthSignalingOwnerInitialize =
     \<lparr>so_State = NldBthSignalingOffline, so_Generation = 0, so_PnpStarted = False,
      so_OpenPending = False, so_ChannelHeld = False, so_CloseRequested = False,
      so_TargetOffline = False\<rparr>"

definition NldBthSignalingOwnerOnPnpStart ::
  "NLD_BTH_SIGNALING_OWNER \<Rightarrow> NLD_BTH_SIGNALING_OWNER \<times> NLD_BTH_SIGNALING_ACTION" where
  "NldBthSignalingOwnerOnPnpStart owner =
     (if so_PnpStarted owner \<or> so_State owner \<noteq> NldBthSignalingOffline
      then (owner, NldBthSignalingActionNone)
      else
        let owner1 = NldBthSignalingOwnerResetRequestFlags
              (owner\<lparr>so_PnpStarted := True, so_State := NldBthSignalingClosed\<rparr>)
        in (owner1\<lparr>so_Generation := so_Generation owner1 + 1\<rparr>, NldBthSignalingActionNone))"

definition NldBthSignalingOwnerRequestOpen ::
  "NLD_BTH_SIGNALING_OWNER \<Rightarrow> NLD_BTH_SIGNALING_OWNER \<times> NLD_BTH_SIGNALING_ACTION" where
  "NldBthSignalingOwnerRequestOpen owner =
     (if \<not> so_PnpStarted owner \<or> so_State owner \<noteq> NldBthSignalingClosed \<or>
         so_OpenPending owner \<or> so_ChannelHeld owner
      then (owner, NldBthSignalingActionNone)
      else (owner\<lparr>so_State := NldBthSignalingOpening, so_OpenPending := True,
                  so_CloseRequested := False, so_TargetOffline := False\<rparr>,
            NldBthSignalingActionSubmitOpen))"

definition NldBthSignalingOwnerRequestClose ::
  "NLD_BTH_SIGNALING_OWNER \<Rightarrow> bool \<Rightarrow> NLD_BTH_SIGNALING_OWNER \<times> NLD_BTH_SIGNALING_ACTION" where
  "NldBthSignalingOwnerRequestClose owner target_offline =
     (let owner0 = owner\<lparr>so_CloseRequested := True\<rparr>;
          owner1 = (if target_offline then owner0\<lparr>so_TargetOffline := True, so_PnpStarted := False\<rparr>
                    else owner0)
      in if so_State owner1 = NldBthSignalingOpening \<and> so_OpenPending owner1
         then (owner1, NldBthSignalingActionCancelOpen)
         else if so_State owner1 = NldBthSignalingChannelOpen \<and> so_ChannelHeld owner1
         then (owner1\<lparr>so_State := NldBthSignalingClosing\<rparr>, NldBthSignalingActionSubmitClose)
         else if so_State owner1 = NldBthSignalingClosed \<or>
                 so_State owner1 = NldBthSignalingFaulted \<or>
                 so_State owner1 = NldBthSignalingOffline
         then (owner1\<lparr>so_State := (if so_TargetOffline owner1 then NldBthSignalingOffline
                                   else NldBthSignalingClosed),
                      so_OpenPending := False, so_ChannelHeld := False,
                      so_CloseRequested := False, so_TargetOffline := False\<rparr>,
               NldBthSignalingActionNone)
         else (owner1, NldBthSignalingActionNone))"

definition NldBthSignalingOwnerOnRemoteDisconnect ::
  "NLD_BTH_SIGNALING_OWNER \<Rightarrow> u32 \<Rightarrow> NLD_BTH_SIGNALING_OWNER \<times> bool" where
  "NldBthSignalingOwnerOnRemoteDisconnect owner generation =
     (if generation \<noteq> so_Generation owner \<or> \<not> so_PnpStarted owner \<or>
         so_State owner \<noteq> NldBthSignalingChannelOpen \<or> \<not> so_ChannelHeld owner
      then (owner, False)
      else (owner\<lparr>so_State := NldBthSignalingFaulted, so_OpenPending := False,
                  so_ChannelHeld := False, so_CloseRequested := False, so_TargetOffline := False,
                  so_Generation := NextGeneration (so_Generation owner)\<rparr>, True))"

definition NldBthSignalingOwnerOnOpenComplete ::
  "NLD_BTH_SIGNALING_OWNER \<Rightarrow> u32 \<Rightarrow> bool \<Rightarrow> bool \<Rightarrow>
   NLD_BTH_SIGNALING_OWNER \<times> NLD_BTH_SIGNALING_ACTION" where
  "NldBthSignalingOwnerOnOpenComplete owner generation succeeded channel_acquired =
     (if generation \<noteq> so_Generation owner \<or> \<not> so_OpenPending owner \<or>
         so_State owner \<noteq> NldBthSignalingOpening
      then (owner, if channel_acquired then NldBthSignalingActionSubmitClose
                   else NldBthSignalingActionNone)
      else
        let owner1 = owner\<lparr>so_OpenPending := False\<rparr>
        in if succeeded \<and> channel_acquired
           then
             let owner2 = owner1\<lparr>so_ChannelHeld := True\<rparr>
             in if so_CloseRequested owner2 \<or> so_TargetOffline owner2 \<or> \<not> so_PnpStarted owner2
                then (owner2\<lparr>so_State := NldBthSignalingClosing\<rparr>,
                      NldBthSignalingActionSubmitClose)
                else (owner2\<lparr>so_State := NldBthSignalingChannelOpen\<rparr>, NldBthSignalingActionNone)
           else
             (owner1\<lparr>so_ChannelHeld := False,
                     so_State :=
                       (if so_TargetOffline owner1 \<or> \<not> so_PnpStarted owner1
                        then NldBthSignalingOffline
                        else if so_CloseRequested owner1 then NldBthSignalingClosed
                        else NldBthSignalingFaulted),
                     so_CloseRequested := False, so_TargetOffline := False\<rparr>,
              NldBthSignalingActionNone))"

definition NldBthSignalingOwnerOnCloseComplete ::
  "NLD_BTH_SIGNALING_OWNER \<Rightarrow> bool \<Rightarrow> NLD_BTH_SIGNALING_OWNER" where
  "NldBthSignalingOwnerOnCloseComplete owner succeeded =
     (if so_State owner \<noteq> NldBthSignalingClosing then owner
      else
        let target_offline = (so_TargetOffline owner \<or> \<not> so_PnpStarted owner)
        in owner\<lparr>so_OpenPending := False, so_ChannelHeld := False, so_CloseRequested := False,
                 so_TargetOffline := False,
                 so_State := (if target_offline then NldBthSignalingOffline
                              else if succeeded then NldBthSignalingClosed
                              else NldBthSignalingFaulted)\<rparr>)"

definition NldBthSignalingOwnerIsConsistent :: "NLD_BTH_SIGNALING_OWNER \<Rightarrow> bool" where
  "NldBthSignalingOwnerIsConsistent owner \<longleftrightarrow>
     so_OpenPending owner = (so_State owner = NldBthSignalingOpening) \<and>
     so_ChannelHeld owner = (so_State owner = NldBthSignalingChannelOpen \<or>
                             so_State owner = NldBthSignalingClosing) \<and>
     \<not> (\<not> so_PnpStarted owner \<and> so_State owner \<noteq> NldBthSignalingOffline \<and>
        \<not> so_TargetOffline owner) \<and>
     \<not> (so_State owner = NldBthSignalingOffline \<and> so_PnpStarted owner)"

section \<open>The transfers of a channel\<close>

datatype NLD_BTH_TRANSFER_DIRECTION = NldBthTransferRead | NldBthTransferWrite

datatype NLD_BTH_TRANSFER_RESULT =
  NldBthTransferOk | NldBthTransferInvalidArgument | NldBthTransferDisconnected
| NldBthTransferBusy | NldBthTransferStale | NldBthTransferDrained

abbreviation (input) "NLD_BTH_TRANSFER_CANCEL_NONE \<equiv> (0 :: u32)"
abbreviation (input) "NLD_BTH_TRANSFER_CANCEL_READ \<equiv> (1 :: u32)"
abbreviation (input) "NLD_BTH_TRANSFER_CANCEL_WRITE \<equiv> (2 :: u32)"

record NLD_BTH_TRANSFER_OWNER =
  to_ChannelGeneration :: u32
  to_NextRequestGeneration :: u32
  to_ReadGeneration :: u32
  to_WriteGeneration :: u32
  to_ChannelOpen :: bool
  to_Closing :: bool
  to_ReadPending :: bool
  to_WritePending :: bool
  to_RemoteDisconnected :: bool

definition NldBthTransferInitialize :: NLD_BTH_TRANSFER_OWNER where
  "NldBthTransferInitialize =
     \<lparr>to_ChannelGeneration = 0, to_NextRequestGeneration = 0, to_ReadGeneration = 0,
      to_WriteGeneration = 0, to_ChannelOpen = False, to_Closing = False,
      to_ReadPending = False, to_WritePending = False, to_RemoteDisconnected = False\<rparr>"

definition NldBthTransferOpenChannel ::
  "NLD_BTH_TRANSFER_OWNER \<Rightarrow> NLD_BTH_TRANSFER_OWNER \<times> u32" where
  "NldBthTransferOpenChannel owner =
     (if to_ChannelOpen owner \<or> to_Closing owner \<or> to_ReadPending owner \<or> to_WritePending owner
      then (owner, 0)
      else
        let owner1 = owner\<lparr>to_ChannelGeneration := NextGeneration (to_ChannelGeneration owner),
                           to_ChannelOpen := True, to_RemoteDisconnected := False\<rparr>
        in (owner1, to_ChannelGeneration owner1))"

text \<open>The result, the channel generation and the request generation.\<close>

definition NldBthTransferBegin ::
  "NLD_BTH_TRANSFER_OWNER \<Rightarrow> NLD_BTH_TRANSFER_DIRECTION \<Rightarrow>
   NLD_BTH_TRANSFER_OWNER \<times> NLD_BTH_TRANSFER_RESULT \<times> u32 \<times> u32" where
  "NldBthTransferBegin owner direction =
     (if \<not> to_ChannelOpen owner \<or> to_Closing owner then (owner, NldBthTransferDisconnected, 0, 0)
      else if direction = NldBthTransferRead \<and> to_ReadPending owner \<or>
              direction = NldBthTransferWrite \<and> to_WritePending owner
      then (owner, NldBthTransferBusy, 0, 0)
      else
        let generation = NextGeneration (to_NextRequestGeneration owner);
            owner1 = owner\<lparr>to_NextRequestGeneration := generation\<rparr>;
            owner2 = (if direction = NldBthTransferRead
                      then owner1\<lparr>to_ReadPending := True, to_ReadGeneration := generation\<rparr>
                      else owner1\<lparr>to_WritePending := True, to_WriteGeneration := generation\<rparr>)
        in (owner2, NldBthTransferOk, to_ChannelGeneration owner2, generation))"

definition NldBthTransferRequestClose ::
  "NLD_BTH_TRANSFER_OWNER \<Rightarrow> bool \<Rightarrow> NLD_BTH_TRANSFER_OWNER \<times> u32" where
  "NldBthTransferRequestClose owner remote_disconnect =
     (let owner1 = owner\<lparr>to_ChannelOpen := False, to_Closing := True\<rparr>;
          owner2 = (if remote_disconnect then owner1\<lparr>to_RemoteDisconnected := True\<rparr> else owner1)
      in (owner2,
          (if to_ReadPending owner2 then NLD_BTH_TRANSFER_CANCEL_READ
           else NLD_BTH_TRANSFER_CANCEL_NONE) OR
          (if to_WritePending owner2 then NLD_BTH_TRANSFER_CANCEL_WRITE
           else NLD_BTH_TRANSFER_CANCEL_NONE)))"

text \<open>The pending flag and the generation of a direction, read and cleared.\<close>

definition transfer_pending :: "NLD_BTH_TRANSFER_DIRECTION \<Rightarrow> NLD_BTH_TRANSFER_OWNER \<Rightarrow> bool" where
  "transfer_pending direction owner =
     (case direction of NldBthTransferRead \<Rightarrow> to_ReadPending owner
      | NldBthTransferWrite \<Rightarrow> to_WritePending owner)"

definition transfer_generation :: "NLD_BTH_TRANSFER_DIRECTION \<Rightarrow> NLD_BTH_TRANSFER_OWNER \<Rightarrow> u32" where
  "transfer_generation direction owner =
     (case direction of NldBthTransferRead \<Rightarrow> to_ReadGeneration owner
      | NldBthTransferWrite \<Rightarrow> to_WriteGeneration owner)"

definition clear_transfer ::
  "NLD_BTH_TRANSFER_DIRECTION \<Rightarrow> NLD_BTH_TRANSFER_OWNER \<Rightarrow> NLD_BTH_TRANSFER_OWNER" where
  "clear_transfer direction owner =
     (case direction of
        NldBthTransferRead \<Rightarrow> owner\<lparr>to_ReadPending := False, to_ReadGeneration := 0\<rparr>
      | NldBthTransferWrite \<Rightarrow> owner\<lparr>to_WritePending := False, to_WriteGeneration := 0\<rparr>)"

definition NldBthTransferComplete ::
  "NLD_BTH_TRANSFER_OWNER \<Rightarrow> NLD_BTH_TRANSFER_DIRECTION \<Rightarrow> u32 \<Rightarrow> u32 \<Rightarrow>
   NLD_BTH_TRANSFER_OWNER \<times> NLD_BTH_TRANSFER_RESULT" where
  "NldBthTransferComplete owner direction channel_generation request_generation =
     (if channel_generation \<noteq> to_ChannelGeneration owner then (owner, NldBthTransferStale)
      else if \<not> transfer_pending direction owner \<or>
              request_generation \<noteq> transfer_generation direction owner
      then (owner, NldBthTransferStale)
      else
        let owner1 = clear_transfer direction owner
        in (owner1,
            if to_Closing owner1 \<and> \<not> to_ReadPending owner1 \<and> \<not> to_WritePending owner1
            then NldBthTransferDrained else NldBthTransferOk))"

definition NldBthTransferFinishClose ::
  "NLD_BTH_TRANSFER_OWNER \<Rightarrow> NLD_BTH_TRANSFER_OWNER \<times> NLD_BTH_TRANSFER_RESULT" where
  "NldBthTransferFinishClose owner =
     (if \<not> to_Closing owner \<or> to_ReadPending owner \<or> to_WritePending owner
      then (owner, NldBthTransferBusy)
      else (owner\<lparr>to_Closing := False\<rparr>, NldBthTransferOk))"

definition NldBthTransferIsConsistent :: "NLD_BTH_TRANSFER_OWNER \<Rightarrow> bool" where
  "NldBthTransferIsConsistent owner \<longleftrightarrow>
     \<not> (to_ChannelOpen owner \<and> to_Closing owner) \<and>
     to_ReadPending owner = (to_ReadGeneration owner \<noteq> 0) \<and>
     to_WritePending owner = (to_WriteGeneration owner \<noteq> 0) \<and>
     \<not> ((to_ReadPending owner \<or> to_WritePending owner) \<and> to_ChannelGeneration owner = 0) \<and>
     \<not> (to_RemoteDisconnected owner \<and> to_ChannelOpen owner)"

section \<open>The context of the indication callback\<close>

datatype NLD_BTH_INDICATION_RESULT =
  NldBthIndicationIgnored | NldBthIndicationAccepted | NldBthIndicationReleaseOwner
| NldBthIndicationFreeContext

record NLD_BTH_INDICATION_OWNER =
  no_Generation :: u32
  no_BthReferenceCount :: u32
  no_OwnerReferenceHeld :: bool
  no_Armed :: bool
  no_TeardownRequested :: bool
  no_RemoteDisconnected :: bool

definition NldBthIndicationMaybeFree :: "NLD_BTH_INDICATION_OWNER \<Rightarrow> NLD_BTH_INDICATION_RESULT" where
  "NldBthIndicationMaybeFree owner =
     (if \<not> no_OwnerReferenceHeld owner \<and> no_BthReferenceCount owner = 0
      then NldBthIndicationFreeContext else NldBthIndicationAccepted)"

definition NldBthIndicationInitialize :: NLD_BTH_INDICATION_OWNER where
  "NldBthIndicationInitialize =
     \<lparr>no_Generation = 0, no_BthReferenceCount = 0, no_OwnerReferenceHeld = False,
      no_Armed = False, no_TeardownRequested = False, no_RemoteDisconnected = False\<rparr>"

definition NldBthIndicationArm ::
  "NLD_BTH_INDICATION_OWNER \<Rightarrow> NLD_BTH_INDICATION_OWNER \<times> u32" where
  "NldBthIndicationArm owner =
     (if no_OwnerReferenceHeld owner \<or> no_Armed owner \<or> no_BthReferenceCount owner \<noteq> 0
      then (owner, 0)
      else
        let owner1 = owner\<lparr>no_Generation := NextGeneration (no_Generation owner),
                           no_OwnerReferenceHeld := True, no_Armed := True,
                           no_TeardownRequested := False, no_RemoteDisconnected := False\<rparr>
        in (owner1, no_Generation owner1))"

definition NldBthIndicationAddReference ::
  "NLD_BTH_INDICATION_OWNER \<Rightarrow> u32 \<Rightarrow> NLD_BTH_INDICATION_OWNER \<times> NLD_BTH_INDICATION_RESULT" where
  "NldBthIndicationAddReference owner generation =
     (if generation \<noteq> no_Generation owner \<or> \<not> no_Armed owner \<or> no_TeardownRequested owner \<or>
         \<not> no_OwnerReferenceHeld owner
      then (owner, NldBthIndicationIgnored)
      else (owner\<lparr>no_BthReferenceCount := no_BthReferenceCount owner + 1\<rparr>,
            NldBthIndicationAccepted))"

definition NldBthIndicationRemoteDisconnect ::
  "NLD_BTH_INDICATION_OWNER \<Rightarrow> u32 \<Rightarrow> NLD_BTH_INDICATION_OWNER \<times> NLD_BTH_INDICATION_RESULT" where
  "NldBthIndicationRemoteDisconnect owner generation =
     (if generation \<noteq> no_Generation owner \<or> \<not> no_Armed owner \<or> no_TeardownRequested owner
      then (owner, NldBthIndicationIgnored)
      else (owner\<lparr>no_RemoteDisconnected := True, no_Armed := False\<rparr>, NldBthIndicationAccepted))"

definition NldBthIndicationBeginTeardown ::
  "NLD_BTH_INDICATION_OWNER \<Rightarrow> u32 \<Rightarrow> NLD_BTH_INDICATION_OWNER \<times> NLD_BTH_INDICATION_RESULT" where
  "NldBthIndicationBeginTeardown owner generation =
     (if generation \<noteq> no_Generation owner \<or> \<not> no_OwnerReferenceHeld owner
      then (owner, NldBthIndicationIgnored)
      else
        let owner1 = owner\<lparr>no_Armed := False, no_TeardownRequested := True,
                           no_OwnerReferenceHeld := False\<rparr>
        in (owner1, if no_BthReferenceCount owner1 = 0 then NldBthIndicationFreeContext
                    else NldBthIndicationReleaseOwner))"

definition NldBthIndicationReleaseReference ::
  "NLD_BTH_INDICATION_OWNER \<Rightarrow> u32 \<Rightarrow> NLD_BTH_INDICATION_OWNER \<times> NLD_BTH_INDICATION_RESULT" where
  "NldBthIndicationReleaseReference owner generation =
     (if generation \<noteq> no_Generation owner \<or> no_BthReferenceCount owner = 0
      then (owner, NldBthIndicationIgnored)
      else
        let owner1 = owner\<lparr>no_BthReferenceCount := no_BthReferenceCount owner - 1\<rparr>
        in (owner1, NldBthIndicationMaybeFree owner1))"

definition NldBthIndicationIsConsistent :: "NLD_BTH_INDICATION_OWNER \<Rightarrow> bool" where
  "NldBthIndicationIsConsistent owner \<longleftrightarrow>
     \<not> (no_Armed owner \<and> (\<not> no_OwnerReferenceHeld owner \<or> no_TeardownRequested owner \<or>
                           no_RemoteDisconnected owner)) \<and>
     \<not> (no_TeardownRequested owner \<and> no_OwnerReferenceHeld owner) \<and>
     \<not> (no_Generation owner = 0 \<and>
        (no_OwnerReferenceHeld owner \<or> no_Armed owner \<or> no_BthReferenceCount owner \<noteq> 0))"

section \<open>Histories\<close>

datatype owner_event =
  Owner_Start | Owner_QueryComplete u32 bool bool | Owner_Stop | Owner_Retry

fun owner_step ::
  "NLD_BTH_INTERFACE_OWNER \<Rightarrow> owner_event \<Rightarrow> NLD_BTH_INTERFACE_OWNER \<times> NLD_BTH_OWNER_ACTION" where
  "owner_step owner Owner_Start = NldBthOwnerOnPnpStart owner"
| "owner_step owner (Owner_QueryComplete generation succeeded referenced) =
     NldBthOwnerOnQueryComplete owner generation succeeded referenced"
| "owner_step owner Owner_Stop = NldBthOwnerOnPnpStop owner"
| "owner_step owner Owner_Retry = NldBthOwnerRetry owner"

text \<open>
  The only caller of \<open>OnOpenComplete\<close>, the open worker of \<open>nativeldac_bth_signaling.c\<close>, reports an
  acquired channel only with a successful open; the event carries the success and whether a handle
  came with it.
\<close>

datatype channel_event =
  Channel_Start | Channel_Open | Channel_Close bool | Channel_Disconnect u32
| Channel_OpenComplete u32 bool bool | Channel_CloseComplete bool

fun channel_step ::
  "NLD_BTH_SIGNALING_OWNER \<Rightarrow> channel_event \<Rightarrow>
   NLD_BTH_SIGNALING_OWNER \<times> NLD_BTH_SIGNALING_ACTION \<times> bool" where
  "channel_step owner Channel_Start =
     (let (o1, a) = NldBthSignalingOwnerOnPnpStart owner in (o1, a, False))"
| "channel_step owner Channel_Open =
     (let (o1, a) = NldBthSignalingOwnerRequestOpen owner in (o1, a, False))"
| "channel_step owner (Channel_Close target_offline) =
     (let (o1, a) = NldBthSignalingOwnerRequestClose owner target_offline in (o1, a, False))"
| "channel_step owner (Channel_Disconnect generation) =
     (let (o1, lost) = NldBthSignalingOwnerOnRemoteDisconnect owner generation
      in (o1, NldBthSignalingActionNone, lost))"
| "channel_step owner (Channel_OpenComplete generation succeeded handle) =
     (let (o1, a) = NldBthSignalingOwnerOnOpenComplete owner generation succeeded
                      (succeeded \<and> handle) in (o1, a, False))"
| "channel_step owner (Channel_CloseComplete succeeded) =
     (NldBthSignalingOwnerOnCloseComplete owner succeeded, NldBthSignalingActionNone, False)"

datatype transfer_event =
  Transfer_Open | Transfer_Begin NLD_BTH_TRANSFER_DIRECTION | Transfer_Close bool
| Transfer_Complete NLD_BTH_TRANSFER_DIRECTION u32 u32 | Transfer_FinishClose

fun transfer_step ::
  "NLD_BTH_TRANSFER_OWNER \<Rightarrow> transfer_event \<Rightarrow>
   NLD_BTH_TRANSFER_OWNER \<times> NLD_BTH_TRANSFER_RESULT option" where
  "transfer_step owner Transfer_Open = (fst (NldBthTransferOpenChannel owner), None)"
| "transfer_step owner (Transfer_Begin direction) =
     (let (o1, r, cg, rg) = NldBthTransferBegin owner direction in (o1, Some r))"
| "transfer_step owner (Transfer_Close remote) =
     (fst (NldBthTransferRequestClose owner remote), None)"
| "transfer_step owner (Transfer_Complete direction channel request) =
     (let (o1, r) = NldBthTransferComplete owner direction channel request in (o1, Some r))"
| "transfer_step owner Transfer_FinishClose =
     (let (o1, r) = NldBthTransferFinishClose owner in (o1, Some r))"

datatype indication_event =
  Indication_Arm | Indication_AddReference u32 | Indication_Disconnect u32
| Indication_Teardown u32 | Indication_ReleaseReference u32

fun indication_step ::
  "NLD_BTH_INDICATION_OWNER \<Rightarrow> indication_event \<Rightarrow>
   NLD_BTH_INDICATION_OWNER \<times> NLD_BTH_INDICATION_RESULT" where
  "indication_step owner Indication_Arm =
     (let (o1, generation) = NldBthIndicationArm owner
      in (o1, if generation = 0 then NldBthIndicationIgnored else NldBthIndicationAccepted))"
| "indication_step owner (Indication_AddReference generation) =
     NldBthIndicationAddReference owner generation"
| "indication_step owner (Indication_Disconnect generation) =
     NldBthIndicationRemoteDisconnect owner generation"
| "indication_step owner (Indication_Teardown generation) =
     NldBthIndicationBeginTeardown owner generation"
| "indication_step owner (Indication_ReleaseReference generation) =
     NldBthIndicationReleaseReference owner generation"

section \<open>The ledgers of the four contracts\<close>

definition references_brought :: "NLD_BTH_INTERFACE_OWNER \<Rightarrow> owner_event \<Rightarrow> nat" where
  "references_brought owner e =
     (case e of Owner_QueryComplete generation succeeded referenced \<Rightarrow> of_bool referenced | _ \<Rightarrow> 0)"

definition references_dropped :: "NLD_BTH_INTERFACE_OWNER \<Rightarrow> owner_event \<Rightarrow> nat" where
  "references_dropped owner e = of_bool (snd (owner_step owner e) = NldBthOwnerActionDereference)"

lemma owner_step_sound:
  "NldBthOwnerIsConsistent owner \<Longrightarrow> NldBthOwnerIsConsistent (fst (owner_step owner e))"
  by (cases e; cases "io_PnpStarted owner"; cases "io_QueryPending owner"; cases "io_ReferenceHeld owner")
    (simp_all add: NldBthOwnerIsConsistent_def NldBthOwnerOnPnpStart_def NldBthOwnerOnPnpStop_def
      NldBthOwnerOnQueryComplete_def NldBthOwnerRetry_def Let_def)

lemma owner_step_balance:
  "NldBthOwnerIsConsistent owner \<Longrightarrow>
   of_bool (io_ReferenceHeld owner) + references_brought owner e =
   references_dropped owner e + of_bool (io_ReferenceHeld (fst (owner_step owner e)))"
  by (cases e)
    (auto simp: NldBthOwnerIsConsistent_def NldBthOwnerOnPnpStart_def NldBthOwnerOnPnpStop_def
      NldBthOwnerOnQueryComplete_def NldBthOwnerRetry_def references_brought_def
      references_dropped_def Let_def)

interpretation reference_ledger: resource_ledger "\<lambda>x e. fst (owner_step x e)" references_brought
    references_dropped "\<lambda>x. of_bool (io_ReferenceHeld x)" NldBthOwnerIsConsistent
  by unfold_locales (simp_all add: owner_step_sound owner_step_balance)

definition channels_acquired :: "NLD_BTH_SIGNALING_OWNER \<Rightarrow> channel_event \<Rightarrow> nat" where
  "channels_acquired owner e =
     (case e of Channel_OpenComplete generation succeeded handle \<Rightarrow> of_bool (succeeded \<and> handle)
      | _ \<Rightarrow> 0)"

definition channels_ended :: "NLD_BTH_SIGNALING_OWNER \<Rightarrow> channel_event \<Rightarrow> nat" where
  "channels_ended owner e =
     (let (owner1, action, lost) = channel_step owner e
      in of_bool (action = NldBthSignalingActionSubmitClose) + of_bool lost)"

definition channel_flags :: "NLD_BTH_SIGNALING_OWNER \<Rightarrow> bool" where
  "channel_flags owner \<longleftrightarrow>
     so_OpenPending owner = (so_State owner = NldBthSignalingOpening) \<and>
     so_ChannelHeld owner = (so_State owner = NldBthSignalingChannelOpen \<or>
                             so_State owner = NldBthSignalingClosing)"

lemmas channel_step_defs = NldBthSignalingOwnerOnPnpStart_def NldBthSignalingOwnerRequestOpen_def
  NldBthSignalingOwnerRequestClose_def NldBthSignalingOwnerOnRemoteDisconnect_def
  NldBthSignalingOwnerOnOpenComplete_def NldBthSignalingOwnerOnCloseComplete_def
  NldBthSignalingOwnerResetRequestFlags_def Let_def case_prod_beta

lemma channel_step_sound: "channel_flags owner \<Longrightarrow> channel_flags (fst (channel_step owner e))"
  by (cases e; cases "so_State owner") (simp_all add: channel_flags_def channel_step_defs)

lemma channel_step_balance:
  "channel_flags owner \<Longrightarrow>
   of_bool (so_State owner = NldBthSignalingChannelOpen) + channels_acquired owner e =
   channels_ended owner e +
   of_bool (so_State (fst (channel_step owner e)) = NldBthSignalingChannelOpen)"
  by (cases e; cases "so_State owner")
    (simp_all add: channel_flags_def channels_acquired_def channels_ended_def channel_step_defs)

interpretation channel_ledger: resource_ledger "\<lambda>x e. fst (channel_step x e)" channels_acquired
    channels_ended "\<lambda>x. of_bool (so_State x = NldBthSignalingChannelOpen)" channel_flags
  by unfold_locales (simp_all add: channel_step_sound channel_step_balance)

definition transfers_begun :: "NLD_BTH_TRANSFER_OWNER \<Rightarrow> transfer_event \<Rightarrow> nat" where
  "transfers_begun owner e =
     (case e of Transfer_Begin direction \<Rightarrow>
        of_bool (snd (transfer_step owner e) = Some NldBthTransferOk) | _ \<Rightarrow> 0)"

definition transfers_completed :: "NLD_BTH_TRANSFER_OWNER \<Rightarrow> transfer_event \<Rightarrow> nat" where
  "transfers_completed owner e =
     (case e of Transfer_Complete direction channel request \<Rightarrow>
        of_bool (snd (transfer_step owner e) \<in> {Some NldBthTransferOk, Some NldBthTransferDrained})
      | _ \<Rightarrow> 0)"

definition transfers_pending :: "NLD_BTH_TRANSFER_OWNER \<Rightarrow> nat" where
  "transfers_pending owner = of_bool (to_ReadPending owner) + of_bool (to_WritePending owner)"

definition transfer_sound :: "NLD_BTH_TRANSFER_OWNER \<Rightarrow> bool" where
  "transfer_sound owner \<longleftrightarrow> NldBthTransferIsConsistent owner \<and>
     (to_ChannelOpen owner \<longrightarrow> to_ChannelGeneration owner \<noteq> 0)"

lemmas transfer_step_defs = NldBthTransferOpenChannel_def NldBthTransferBegin_def
  NldBthTransferRequestClose_def NldBthTransferComplete_def NldBthTransferFinishClose_def
  transfer_pending_def transfer_generation_def clear_transfer_def Let_def case_prod_beta

lemma transfer_step_sound: "transfer_sound owner \<Longrightarrow> transfer_sound (fst (transfer_step owner e))"
  by (cases e)
    (auto simp: transfer_sound_def NldBthTransferIsConsistent_def transfer_step_defs
      split: NLD_BTH_TRANSFER_DIRECTION.splits)

lemma transfer_step_balance:
  "transfers_pending owner + transfers_begun owner e =
   transfers_completed owner e + transfers_pending (fst (transfer_step owner e))"
  by (cases e)
    (auto simp: transfers_pending_def transfers_begun_def transfers_completed_def transfer_step_defs
      split: NLD_BTH_TRANSFER_DIRECTION.splits intro: NLD_BTH_TRANSFER_DIRECTION.exhaust)

interpretation transfer_ledger: resource_ledger "\<lambda>x e. fst (transfer_step x e)" transfers_begun
    transfers_completed transfers_pending transfer_sound
  by unfold_locales (simp_all add: transfer_step_sound transfer_step_balance)

definition contexts_armed :: "NLD_BTH_INDICATION_OWNER \<Rightarrow> indication_event \<Rightarrow> nat" where
  "contexts_armed owner e =
     of_bool (e = Indication_Arm \<and> snd (indication_step owner e) = NldBthIndicationAccepted)"

definition contexts_freed :: "NLD_BTH_INDICATION_OWNER \<Rightarrow> indication_event \<Rightarrow> nat" where
  "contexts_freed owner e = of_bool (snd (indication_step owner e) = NldBthIndicationFreeContext)"

definition context_alive :: "NLD_BTH_INDICATION_OWNER \<Rightarrow> bool" where
  "context_alive owner \<longleftrightarrow> no_OwnerReferenceHeld owner \<or> no_BthReferenceCount owner \<noteq> 0"

lemmas indication_step_defs = NldBthIndicationArm_def NldBthIndicationAddReference_def
  NldBthIndicationRemoteDisconnect_def NldBthIndicationBeginTeardown_def
  NldBthIndicationReleaseReference_def NldBthIndicationMaybeFree_def Let_def case_prod_beta

lemma indication_step_sound:
  "NldBthIndicationIsConsistent owner \<Longrightarrow>
   NldBthIndicationIsConsistent (fst (indication_step owner e))"
  by (cases e) (auto simp: NldBthIndicationIsConsistent_def indication_step_defs)

lemma indication_step_balance:
  "of_bool (context_alive owner) + contexts_armed owner e =
   contexts_freed owner e + of_bool (context_alive (fst (indication_step owner e)))"
  by (cases e)
    (auto simp: context_alive_def contexts_armed_def contexts_freed_def indication_step_defs)

interpretation context_ledger: resource_ledger "\<lambda>x e. fst (indication_step x e)" contexts_armed
    contexts_freed "\<lambda>x. of_bool (context_alive x)" NldBthIndicationIsConsistent
  by unfold_locales (simp_all add: indication_step_sound indication_step_balance)

section \<open>Properties\<close>

lemma initial_sound:
  "NldBthOwnerIsConsistent NldBthOwnerInitialize" "channel_flags NldBthSignalingOwnerInitialize"
  "transfer_sound NldBthTransferInitialize" "NldBthIndicationIsConsistent NldBthIndicationInitialize"
  by (simp_all add: NldBthOwnerIsConsistent_def NldBthOwnerInitialize_def channel_flags_def
      NldBthSignalingOwnerInitialize_def transfer_sound_def NldBthTransferIsConsistent_def
      NldBthTransferInitialize_def NldBthIndicationIsConsistent_def NldBthIndicationInitialize_def)

text \<open>References to the profile interface are balanced.  Over every history of starts, stops,
  retries and query completions, late ones of an old generation included, every reference a query
  brought has been given back exactly once, or is the one the owner holds; and the owner's own
  consistency predicate holds.\<close>

theorem interface_references_balanced:
  "let owner = foldl (\<lambda>x e. fst (owner_step x e)) NldBthOwnerInitialize es
   in total (\<lambda>x e. fst (owner_step x e)) references_brought NldBthOwnerInitialize es =
      total (\<lambda>x e. fst (owner_step x e)) references_dropped NldBthOwnerInitialize es +
        of_bool (io_ReferenceHeld owner) \<and>
      NldBthOwnerIsConsistent owner"
  using reference_ledger.run_balance [OF initial_sound(1), of es]
    reference_ledger.sound_run [OF initial_sound(1), of es]
  by (simp add: Let_def NldBthOwnerInitialize_def)

text \<open>C17: no L2CAP channel is leaked or closed twice.  Over every history, every channel an open
  brought, also one that was cancelled or belongs to an old generation, was handed to a close
  exactly once or lost to a disconnection of the peer, or it is the one that is open.\<close>

theorem channels_balanced:
  "let owner = foldl (\<lambda>x e. fst (channel_step x e)) NldBthSignalingOwnerInitialize es
   in total (\<lambda>x e. fst (channel_step x e)) channels_acquired NldBthSignalingOwnerInitialize es =
      total (\<lambda>x e. fst (channel_step x e)) channels_ended NldBthSignalingOwnerInitialize es +
        of_bool (so_State owner = NldBthSignalingChannelOpen)"
  using channel_ledger.run_balance [OF initial_sound(2), of es]
  by (simp add: Let_def NldBthSignalingOwnerInitialize_def)

text \<open>Every transfer completes once.  Over every history of channels and transfers, the
  transfers begun are those completed and those pending, of which there is at most one read and
  one write; and a completion is accepted only for the pending transfer of its direction on the
  current channel.\<close>

theorem transfers_balanced:
  "let owner = foldl (\<lambda>x e. fst (transfer_step x e)) NldBthTransferInitialize es;
       (owner1, result) = NldBthTransferComplete owner direction channel request
   in total (\<lambda>x e. fst (transfer_step x e)) transfers_begun NldBthTransferInitialize es =
      total (\<lambda>x e. fst (transfer_step x e)) transfers_completed NldBthTransferInitialize es +
        transfers_pending owner \<and>
      NldBthTransferIsConsistent owner \<and>
      (result \<in> {NldBthTransferOk, NldBthTransferDrained}) =
        (request \<noteq> 0 \<and> channel = to_ChannelGeneration owner \<and>
         request = transfer_generation direction owner)"
proof -
  let ?o = "foldl (\<lambda>x e. fst (transfer_step x e)) NldBthTransferInitialize es"
  have "NldBthTransferIsConsistent ?o"
    using transfer_ledger.sound_run [OF initial_sound(3), of es] by (simp add: transfer_sound_def)
  then show ?thesis
    using transfer_ledger.run_balance [OF initial_sound(3), of es]
    by (cases direction)
      (auto simp: Let_def case_prod_beta NldBthTransferInitialize_def transfers_pending_def
        NldBthTransferComplete_def transfer_pending_def transfer_generation_def
        NldBthTransferIsConsistent_def)
qed

text \<open>The context of the indication callback is freed exactly once.  Over every history, also
  with callbacks of old generations, every armed context has been freed once, or it is alive:
  referenced by the owner or by the port driver.\<close>

theorem contexts_balanced:
  "let owner = foldl (\<lambda>x e. fst (indication_step x e)) NldBthIndicationInitialize es
   in total (\<lambda>x e. fst (indication_step x e)) contexts_armed NldBthIndicationInitialize es =
      total (\<lambda>x e. fst (indication_step x e)) contexts_freed NldBthIndicationInitialize es +
        of_bool (no_OwnerReferenceHeld owner \<or> no_BthReferenceCount owner \<noteq> 0) \<and>
      NldBthIndicationIsConsistent owner"
  using context_ledger.run_balance [OF initial_sound(4), of es]
    context_ledger.sound_run [OF initial_sound(4), of es]
  by (simp add: Let_def NldBthIndicationInitialize_def context_alive_def)

text \<open>The states an owner can be left in by a close that comes before its start.\<close>

definition stranded :: "NLD_BTH_SIGNALING_OWNER \<Rightarrow> bool" where
  "stranded owner \<longleftrightarrow> so_State owner = NldBthSignalingClosed \<and> \<not> so_PnpStarted owner \<and>
     \<not> so_OpenPending owner \<and> \<not> so_ChannelHeld owner \<and> \<not> so_TargetOffline owner"

lemma stranded_owner_step:
  assumes "stranded owner" "e \<noteq> Channel_Close True"
  shows "stranded (fst (channel_step owner e))"
    "fst (snd (channel_step owner e)) \<noteq> NldBthSignalingActionSubmitOpen"
  using assms by (cases e; simp add: stranded_def channel_step_defs)+

text \<open>A close before the start strands the channel.  If an owner that was never started is asked
  to close without going offline, the start that follows is ignored: as long as it is not asked to
  go offline, whatever happens, it never starts, never submits an open, and its consistency
  predicate is false.\<close>

theorem offline_close_strands:
  assumes "Channel_Close True \<notin> set es"
  shows "let owner0 = fst (channel_step NldBthSignalingOwnerInitialize (Channel_Close False));
             owner = foldl (\<lambda>x e. fst (channel_step x e)) owner0 (Channel_Start # es);
             (owner1, action) = NldBthSignalingOwnerRequestOpen owner
         in \<not> so_PnpStarted owner \<and> action = NldBthSignalingActionNone \<and>
            \<not> NldBthSignalingOwnerIsConsistent owner"
proof -
  let ?o0 = "fst (channel_step NldBthSignalingOwnerInitialize (Channel_Close False))"
  have run: "stranded (foldl (\<lambda>x e. fst (channel_step x e)) o1 xs)"
    if "stranded o1" "Channel_Close True \<notin> set xs" for o1 xs
    using that by (induction xs arbitrary: o1) (auto simp: stranded_owner_step(1))
  have "stranded ?o0"
    by (simp add: stranded_def channel_step_defs NldBthSignalingOwnerInitialize_def)
  then have "stranded (foldl (\<lambda>x e. fst (channel_step x e)) ?o0 (Channel_Start # es))"
    using assms by (intro run) auto
  then show ?thesis
    by (simp add: Let_def stranded_def NldBthSignalingOwnerRequestOpen_def
        NldBthSignalingOwnerIsConsistent_def)
qed

theorem offline_close_strands_witness:
  "\<not> so_PnpStarted (foldl (\<lambda>x e. fst (channel_step x e))
      (fst (channel_step NldBthSignalingOwnerInitialize (Channel_Close False)))
      [Channel_Start, Channel_Open, Channel_Start])"
  using offline_close_strands [of "[Channel_Open, Channel_Start]"] by (simp add: Let_def case_prod_beta)

end
