(* ===== verification/Pdo_Arbitration.thy ===== *)
theory Pdo_Arbitration
  imports Bth_Contracts
begin

text \<open>
  Who may use the signalling channel of the direct-PDO driver:
  \<open>direct-pdo/src/nativeldac_direct_pdo_arbiter_contract.c\<close> (render or diagnostic owns the channel),
  \<open>nativeldac_direct_pdo_preemption_contract.c\<close> (rendering makes a diagnostic give way) and
  \<open>nativeldac_direct_pdo_diagnostic_contract.c\<close> (a diagnostic opens the channel, discovers the
  endpoints and closes it again); and \<open>nativeldac_media_watchdog_contract.c\<close>, the watchdog over the
  media writes.  The step of the generation counters, a function of its own in each source, is
  \<^const>\<open>NextGeneration\<close>.
\<close>

section \<open>The arbiter\<close>

datatype NLD_DIRECT_PDO_ARBITER_STATE =
  NldDirectPdoArbiterOffline | NldDirectPdoArbiterIdle | NldDirectPdoArbiterRenderOwned
| NldDirectPdoArbiterDiagnosticOwned | NldDirectPdoArbiterStopping

datatype NLD_DIRECT_PDO_ARBITER_CLIENT =
  NldDirectPdoArbiterClientNone | NldDirectPdoArbiterClientRender
| NldDirectPdoArbiterClientDiagnostic

datatype NLD_DIRECT_PDO_ARBITER_ACQUIRE_RESULT =
  NldDirectPdoArbiterAcquireRejected | NldDirectPdoArbiterAcquireGranted
| NldDirectPdoArbiterAcquireAlreadyOwned

datatype NLD_DIRECT_PDO_ARBITER_DEMAND_RESULT =
  NldDirectPdoArbiterDemandRejected | NldDirectPdoArbiterDemandAccepted
| NldDirectPdoArbiterDemandPreemptDiagnostic

record NLD_DIRECT_PDO_ARBITER_OWNER =
  ao_State :: NLD_DIRECT_PDO_ARBITER_STATE
  ao_Client :: NLD_DIRECT_PDO_ARBITER_CLIENT
  ao_Generation :: u32
  ao_ActiveGeneration :: u32
  ao_PnpStarted :: bool
  ao_StopRequested :: bool
  ao_RenderDemand :: bool

definition NldDirectPdoArbiterInitialize :: NLD_DIRECT_PDO_ARBITER_OWNER where
  "NldDirectPdoArbiterInitialize =
     \<lparr>ao_State = NldDirectPdoArbiterOffline, ao_Client = NldDirectPdoArbiterClientNone,
      ao_Generation = 0, ao_ActiveGeneration = 0, ao_PnpStarted = False,
      ao_StopRequested = False, ao_RenderDemand = False\<rparr>"

definition NldDirectPdoArbiterOnPnpStart ::
  "NLD_DIRECT_PDO_ARBITER_OWNER \<Rightarrow> NLD_DIRECT_PDO_ARBITER_OWNER \<times> bool" where
  "NldDirectPdoArbiterOnPnpStart owner =
     (if ao_PnpStarted owner \<or> ao_StopRequested owner \<or>
         ao_State owner \<noteq> NldDirectPdoArbiterOffline \<or>
         ao_Client owner \<noteq> NldDirectPdoArbiterClientNone \<or> ao_ActiveGeneration owner \<noteq> 0
      then (owner, False)
      else (owner\<lparr>ao_Generation := NextGeneration (ao_Generation owner),
                  ao_State := NldDirectPdoArbiterIdle, ao_PnpStarted := True,
                  ao_RenderDemand := False\<rparr>, True))"

definition NldDirectPdoArbiterOnPnpStop ::
  "NLD_DIRECT_PDO_ARBITER_OWNER \<Rightarrow> NLD_DIRECT_PDO_ARBITER_OWNER \<times> bool" where
  "NldDirectPdoArbiterOnPnpStop owner =
     (if \<not> ao_PnpStarted owner \<or> ao_StopRequested owner then (owner, False)
      else
        let owner1 = owner\<lparr>ao_PnpStarted := False, ao_StopRequested := True,
                           ao_RenderDemand := False\<rparr>
        in if ao_Client owner1 = NldDirectPdoArbiterClientNone
           then (owner1\<lparr>ao_State := NldDirectPdoArbiterOffline, ao_StopRequested := False\<rparr>, True)
           else (owner1\<lparr>ao_State := NldDirectPdoArbiterStopping\<rparr>, True))"

definition NldDirectPdoArbiterSetRenderDemand ::
  "NLD_DIRECT_PDO_ARBITER_OWNER \<Rightarrow> bool \<Rightarrow>
   NLD_DIRECT_PDO_ARBITER_OWNER \<times> NLD_DIRECT_PDO_ARBITER_DEMAND_RESULT" where
  "NldDirectPdoArbiterSetRenderDemand owner active =
     (if \<not> ao_PnpStarted owner \<or> ao_StopRequested owner
      then (owner, NldDirectPdoArbiterDemandRejected)
      else
        let owner1 = owner\<lparr>ao_RenderDemand := active\<rparr>
        in (owner1,
            if ao_RenderDemand owner1 \<and> ao_Client owner1 = NldDirectPdoArbiterClientDiagnostic
            then NldDirectPdoArbiterDemandPreemptDiagnostic
            else NldDirectPdoArbiterDemandAccepted))"

definition NldDirectPdoArbiterTryAcquire ::
  "NLD_DIRECT_PDO_ARBITER_OWNER \<Rightarrow> NLD_DIRECT_PDO_ARBITER_CLIENT \<Rightarrow>
   NLD_DIRECT_PDO_ARBITER_OWNER \<times> NLD_DIRECT_PDO_ARBITER_ACQUIRE_RESULT \<times> u32" where
  "NldDirectPdoArbiterTryAcquire owner client =
     (if \<not> ao_PnpStarted owner \<or> ao_StopRequested owner \<or>
         client = NldDirectPdoArbiterClientNone
      then (owner, NldDirectPdoArbiterAcquireRejected, 0)
      else if client = NldDirectPdoArbiterClientDiagnostic \<and> ao_RenderDemand owner
      then (owner, NldDirectPdoArbiterAcquireRejected, 0)
      else if ao_Client owner = client
      then (owner, NldDirectPdoArbiterAcquireAlreadyOwned, ao_ActiveGeneration owner)
      else if ao_Client owner \<noteq> NldDirectPdoArbiterClientNone \<or>
              ao_State owner \<noteq> NldDirectPdoArbiterIdle
      then (owner, NldDirectPdoArbiterAcquireRejected, 0)
      else
        let generation = NextGeneration (ao_Generation owner);
            owner1 = owner\<lparr>ao_Generation := generation, ao_ActiveGeneration := generation,
                           ao_Client := client,
                           ao_State := (if client = NldDirectPdoArbiterClientRender
                                        then NldDirectPdoArbiterRenderOwned
                                        else NldDirectPdoArbiterDiagnosticOwned)\<rparr>
        in (owner1, NldDirectPdoArbiterAcquireGranted, ao_ActiveGeneration owner1))"

definition NldDirectPdoArbiterRelease ::
  "NLD_DIRECT_PDO_ARBITER_OWNER \<Rightarrow> NLD_DIRECT_PDO_ARBITER_CLIENT \<Rightarrow> u32 \<Rightarrow>
   NLD_DIRECT_PDO_ARBITER_OWNER \<times> bool" where
  "NldDirectPdoArbiterRelease owner client generation =
     (if client = NldDirectPdoArbiterClientNone \<or> ao_Client owner \<noteq> client \<or> generation = 0 \<or>
         ao_ActiveGeneration owner \<noteq> generation
      then (owner, False)
      else
        let owner1 = owner\<lparr>ao_Client := NldDirectPdoArbiterClientNone, ao_ActiveGeneration := 0\<rparr>
        in if ao_StopRequested owner1
           then (owner1\<lparr>ao_State := NldDirectPdoArbiterOffline, ao_StopRequested := False\<rparr>, True)
           else (owner1\<lparr>ao_State := NldDirectPdoArbiterIdle\<rparr>, True))"

definition NldDirectPdoArbiterForceOffline ::
  "NLD_DIRECT_PDO_ARBITER_OWNER \<Rightarrow> NLD_DIRECT_PDO_ARBITER_OWNER" where
  "NldDirectPdoArbiterForceOffline owner =
     owner\<lparr>ao_State := NldDirectPdoArbiterOffline, ao_Client := NldDirectPdoArbiterClientNone,
           ao_ActiveGeneration := 0, ao_PnpStarted := False, ao_StopRequested := False,
           ao_RenderDemand := False\<rparr>"

definition NldDirectPdoArbiterIsConsistent :: "NLD_DIRECT_PDO_ARBITER_OWNER \<Rightarrow> bool" where
  "NldDirectPdoArbiterIsConsistent owner \<longleftrightarrow>
     (ao_Client owner = NldDirectPdoArbiterClientNone) = (ao_ActiveGeneration owner = 0) \<and>
     \<not> (ao_State owner = NldDirectPdoArbiterRenderOwned \<and>
        ao_Client owner \<noteq> NldDirectPdoArbiterClientRender) \<and>
     \<not> (ao_State owner = NldDirectPdoArbiterDiagnosticOwned \<and>
        ao_Client owner \<noteq> NldDirectPdoArbiterClientDiagnostic) \<and>
     \<not> (ao_State owner = NldDirectPdoArbiterIdle \<and>
        (\<not> ao_PnpStarted owner \<or> ao_StopRequested owner \<or>
         ao_Client owner \<noteq> NldDirectPdoArbiterClientNone)) \<and>
     \<not> (ao_State owner = NldDirectPdoArbiterOffline \<and>
        (ao_PnpStarted owner \<or> ao_StopRequested owner \<or>
         ao_Client owner \<noteq> NldDirectPdoArbiterClientNone)) \<and>
     \<not> (ao_State owner = NldDirectPdoArbiterStopping \<and>
        (ao_PnpStarted owner \<or> \<not> ao_StopRequested owner \<or>
         ao_Client owner = NldDirectPdoArbiterClientNone)) \<and>
     ao_StopRequested owner = (ao_State owner = NldDirectPdoArbiterStopping)"

section \<open>Preemption\<close>

datatype NLD_DIRECT_PDO_PREEMPTION_STATE =
  NldDirectPdoPreemptionOffline | NldDirectPdoPreemptionIdle
| NldDirectPdoPreemptionCancelingDiagnostic | NldDirectPdoPreemptionRetryingRender
| NldDirectPdoPreemptionComplete | NldDirectPdoPreemptionFaulted | NldDirectPdoPreemptionStopping

datatype NLD_DIRECT_PDO_PREEMPTION_ACTION =
  NldDirectPdoPreemptionActionNone | NldDirectPdoPreemptionActionCancelDiagnostic
| NldDirectPdoPreemptionActionRetryRender

record NLD_DIRECT_PDO_PREEMPTION_OWNER =
  po_State :: NLD_DIRECT_PDO_PREEMPTION_STATE
  po_PendingAction :: NLD_DIRECT_PDO_PREEMPTION_ACTION
  po_ActiveAction :: NLD_DIRECT_PDO_PREEMPTION_ACTION
  po_Generation :: u32
  po_ActiveGeneration :: u32
  po_PnpStarted :: bool
  po_StopRequested :: bool

definition NldDirectPdoPreemptionInitialize :: NLD_DIRECT_PDO_PREEMPTION_OWNER where
  "NldDirectPdoPreemptionInitialize =
     \<lparr>po_State = NldDirectPdoPreemptionOffline,
      po_PendingAction = NldDirectPdoPreemptionActionNone,
      po_ActiveAction = NldDirectPdoPreemptionActionNone, po_Generation = 0,
      po_ActiveGeneration = 0, po_PnpStarted = False, po_StopRequested = False\<rparr>"

definition NldDirectPdoPreemptionOnPnpStart ::
  "NLD_DIRECT_PDO_PREEMPTION_OWNER \<Rightarrow> NLD_DIRECT_PDO_PREEMPTION_OWNER \<times> bool" where
  "NldDirectPdoPreemptionOnPnpStart owner =
     (if po_PnpStarted owner \<or> po_StopRequested owner \<or>
         po_State owner \<noteq> NldDirectPdoPreemptionOffline \<or>
         po_PendingAction owner \<noteq> NldDirectPdoPreemptionActionNone \<or>
         po_ActiveAction owner \<noteq> NldDirectPdoPreemptionActionNone
      then (owner, False)
      else (owner\<lparr>po_Generation := NextGeneration (po_Generation owner),
                  po_State := NldDirectPdoPreemptionIdle, po_PnpStarted := True\<rparr>, True))"

definition NldDirectPdoPreemptionOnPnpStop ::
  "NLD_DIRECT_PDO_PREEMPTION_OWNER \<Rightarrow> NLD_DIRECT_PDO_PREEMPTION_OWNER \<times> bool" where
  "NldDirectPdoPreemptionOnPnpStop owner =
     (if \<not> po_PnpStarted owner \<or> po_StopRequested owner then (owner, False)
      else
        let owner1 = owner\<lparr>po_PnpStarted := False,
                           po_PendingAction := NldDirectPdoPreemptionActionNone\<rparr>
        in if po_ActiveAction owner1 = NldDirectPdoPreemptionActionNone
           then (owner1\<lparr>po_State := NldDirectPdoPreemptionOffline\<rparr>, True)
           else (owner1\<lparr>po_State := NldDirectPdoPreemptionStopping, po_StopRequested := True\<rparr>,
                 True))"

definition NldDirectPdoPreemptionRequestRender ::
  "NLD_DIRECT_PDO_PREEMPTION_OWNER \<Rightarrow> NLD_DIRECT_PDO_PREEMPTION_OWNER \<times> bool" where
  "NldDirectPdoPreemptionRequestRender owner =
     (if \<not> po_PnpStarted owner \<or> po_StopRequested owner \<or>
         po_PendingAction owner \<noteq> NldDirectPdoPreemptionActionNone \<or>
         po_ActiveAction owner \<noteq> NldDirectPdoPreemptionActionNone \<or>
         (po_State owner \<noteq> NldDirectPdoPreemptionIdle \<and>
          po_State owner \<noteq> NldDirectPdoPreemptionComplete \<and>
          po_State owner \<noteq> NldDirectPdoPreemptionFaulted)
      then (owner, False)
      else (owner\<lparr>po_Generation := NextGeneration (po_Generation owner),
                  po_State := NldDirectPdoPreemptionCancelingDiagnostic,
                  po_PendingAction := NldDirectPdoPreemptionActionCancelDiagnostic\<rparr>, True))"

definition NldDirectPdoPreemptionTakeAction ::
  "NLD_DIRECT_PDO_PREEMPTION_OWNER \<Rightarrow>
   NLD_DIRECT_PDO_PREEMPTION_OWNER \<times> NLD_DIRECT_PDO_PREEMPTION_ACTION \<times> u32" where
  "NldDirectPdoPreemptionTakeAction owner =
     (if po_StopRequested owner \<or> po_ActiveAction owner \<noteq> NldDirectPdoPreemptionActionNone
      then (owner, NldDirectPdoPreemptionActionNone, 0)
      else
        let action = po_PendingAction owner
        in if action = NldDirectPdoPreemptionActionNone
           then (owner, NldDirectPdoPreemptionActionNone, 0)
           else
             let owner1 = owner\<lparr>po_PendingAction := NldDirectPdoPreemptionActionNone,
                                po_ActiveAction := action,
                                po_ActiveGeneration := po_Generation owner\<rparr>
             in (owner1, action, po_ActiveGeneration owner1))"

definition NldDirectPdoPreemptionCompleteAction ::
  "NLD_DIRECT_PDO_PREEMPTION_OWNER \<Rightarrow> u32 \<Rightarrow> NLD_DIRECT_PDO_PREEMPTION_ACTION \<Rightarrow> bool \<Rightarrow>
   NLD_DIRECT_PDO_PREEMPTION_OWNER \<times> bool" where
  "NldDirectPdoPreemptionCompleteAction owner generation action succeeded =
     (if action = NldDirectPdoPreemptionActionNone \<or> action \<noteq> po_ActiveAction owner \<or>
         generation = 0 \<or> generation \<noteq> po_ActiveGeneration owner
      then (owner, False)
      else
        let owner1 = owner\<lparr>po_ActiveAction := NldDirectPdoPreemptionActionNone,
                           po_ActiveGeneration := 0\<rparr>
        in if po_StopRequested owner1
           then (owner1\<lparr>po_State := NldDirectPdoPreemptionOffline,
                        po_PendingAction := NldDirectPdoPreemptionActionNone,
                        po_StopRequested := False\<rparr>, True)
           else case action of
                  NldDirectPdoPreemptionActionCancelDiagnostic \<Rightarrow>
                    (if succeeded
                     then owner1\<lparr>po_State := NldDirectPdoPreemptionRetryingRender,
                                 po_PendingAction := NldDirectPdoPreemptionActionRetryRender\<rparr>
                     else owner1\<lparr>po_State := NldDirectPdoPreemptionFaulted\<rparr>, True)
                | NldDirectPdoPreemptionActionRetryRender \<Rightarrow>
                    (owner1\<lparr>po_State := (if succeeded then NldDirectPdoPreemptionComplete
                                         else NldDirectPdoPreemptionFaulted)\<rparr>, True)
                | NldDirectPdoPreemptionActionNone \<Rightarrow> (owner1, False))"

definition NldDirectPdoPreemptionIsConsistent :: "NLD_DIRECT_PDO_PREEMPTION_OWNER \<Rightarrow> bool" where
  "NldDirectPdoPreemptionIsConsistent owner \<longleftrightarrow>
     (po_ActiveAction owner = NldDirectPdoPreemptionActionNone) =
       (po_ActiveGeneration owner = 0) \<and>
     \<not> (po_PendingAction owner \<noteq> NldDirectPdoPreemptionActionNone \<and>
        po_ActiveAction owner \<noteq> NldDirectPdoPreemptionActionNone) \<and>
     \<not> (po_State owner = NldDirectPdoPreemptionOffline \<and>
        (po_PnpStarted owner \<or> po_StopRequested owner \<or>
         po_PendingAction owner \<noteq> NldDirectPdoPreemptionActionNone \<or>
         po_ActiveAction owner \<noteq> NldDirectPdoPreemptionActionNone)) \<and>
     \<not> (po_State owner = NldDirectPdoPreemptionStopping \<and>
        (po_PnpStarted owner \<or> \<not> po_StopRequested owner \<or>
         po_ActiveAction owner = NldDirectPdoPreemptionActionNone)) \<and>
     po_StopRequested owner = (po_State owner = NldDirectPdoPreemptionStopping) \<and>
     \<not> ((po_State owner = NldDirectPdoPreemptionIdle \<or>
         po_State owner = NldDirectPdoPreemptionComplete \<or>
         po_State owner = NldDirectPdoPreemptionFaulted) \<and>
        (po_PendingAction owner \<noteq> NldDirectPdoPreemptionActionNone \<or>
         po_ActiveAction owner \<noteq> NldDirectPdoPreemptionActionNone)) \<and>
     \<not> (po_State owner = NldDirectPdoPreemptionCancelingDiagnostic \<and>
        po_PendingAction owner \<noteq> NldDirectPdoPreemptionActionCancelDiagnostic \<and>
        po_ActiveAction owner \<noteq> NldDirectPdoPreemptionActionCancelDiagnostic) \<and>
     \<not> (po_State owner = NldDirectPdoPreemptionRetryingRender \<and>
        po_PendingAction owner \<noteq> NldDirectPdoPreemptionActionRetryRender \<and>
        po_ActiveAction owner \<noteq> NldDirectPdoPreemptionActionRetryRender)"

section \<open>The diagnostic\<close>

datatype NLD_DIRECT_PDO_DIAGNOSTIC_STATE =
  NldDirectPdoDiagnosticOffline | NldDirectPdoDiagnosticIdle | NldDirectPdoDiagnosticOpening
| NldDirectPdoDiagnosticDiscovering | NldDirectPdoDiagnosticClosing
| NldDirectPdoDiagnosticComplete | NldDirectPdoDiagnosticFaulted | NldDirectPdoDiagnosticStopping

datatype NLD_DIRECT_PDO_DIAGNOSTIC_ACTION =
  NldDirectPdoDiagnosticActionNone | NldDirectPdoDiagnosticActionOpen
| NldDirectPdoDiagnosticActionDiscover | NldDirectPdoDiagnosticActionClose
| NldDirectPdoDiagnosticActionCancelAndClose

datatype NLD_DIRECT_PDO_DIAGNOSTIC_COMMAND =
  NldDirectPdoDiagnosticCommandNone | NldDirectPdoDiagnosticCommandQueueWorker
| NldDirectPdoDiagnosticCommandCancelActive

record NLD_DIRECT_PDO_DIAGNOSTIC_OWNER =
  go_State :: NLD_DIRECT_PDO_DIAGNOSTIC_STATE
  go_PendingAction :: NLD_DIRECT_PDO_DIAGNOSTIC_ACTION
  go_ActiveAction :: NLD_DIRECT_PDO_DIAGNOSTIC_ACTION
  go_Generation :: u32
  go_ActiveGeneration :: u32
  go_PnpStarted :: bool
  go_WorkerOwned :: bool
  go_StopRequested :: bool
  go_CancelRequested :: bool
  go_DiscoverSucceeded :: bool
  go_LastCloseSucceeded :: bool

definition NldDirectPdoDiagnosticOwnWorker ::
  "NLD_DIRECT_PDO_DIAGNOSTIC_OWNER \<Rightarrow>
   NLD_DIRECT_PDO_DIAGNOSTIC_OWNER \<times> NLD_DIRECT_PDO_DIAGNOSTIC_COMMAND" where
  "NldDirectPdoDiagnosticOwnWorker owner =
     (if go_PendingAction owner = NldDirectPdoDiagnosticActionNone \<or> go_WorkerOwned owner
      then (owner, NldDirectPdoDiagnosticCommandNone)
      else (owner\<lparr>go_WorkerOwned := True\<rparr>, NldDirectPdoDiagnosticCommandQueueWorker))"

definition NldDirectPdoDiagnosticInitialize :: NLD_DIRECT_PDO_DIAGNOSTIC_OWNER where
  "NldDirectPdoDiagnosticInitialize =
     \<lparr>go_State = NldDirectPdoDiagnosticOffline,
      go_PendingAction = NldDirectPdoDiagnosticActionNone,
      go_ActiveAction = NldDirectPdoDiagnosticActionNone, go_Generation = 0,
      go_ActiveGeneration = 0, go_PnpStarted = False, go_WorkerOwned = False,
      go_StopRequested = False, go_CancelRequested = False, go_DiscoverSucceeded = False,
      go_LastCloseSucceeded = False\<rparr>"

definition NldDirectPdoDiagnosticOnPnpStart ::
  "NLD_DIRECT_PDO_DIAGNOSTIC_OWNER \<Rightarrow>
   NLD_DIRECT_PDO_DIAGNOSTIC_OWNER \<times> NLD_DIRECT_PDO_DIAGNOSTIC_COMMAND" where
  "NldDirectPdoDiagnosticOnPnpStart owner =
     (if go_PnpStarted owner \<or> go_State owner \<noteq> NldDirectPdoDiagnosticOffline \<or>
         go_WorkerOwned owner \<or> go_ActiveAction owner \<noteq> NldDirectPdoDiagnosticActionNone
      then (owner, NldDirectPdoDiagnosticCommandNone)
      else (owner\<lparr>go_State := NldDirectPdoDiagnosticIdle,
                  go_Generation := NextGeneration (go_Generation owner), go_PnpStarted := True,
                  go_StopRequested := False, go_CancelRequested := False,
                  go_DiscoverSucceeded := False, go_LastCloseSucceeded := False\<rparr>,
            NldDirectPdoDiagnosticCommandNone))"

definition NldDirectPdoDiagnosticOnPnpStop ::
  "NLD_DIRECT_PDO_DIAGNOSTIC_OWNER \<Rightarrow>
   NLD_DIRECT_PDO_DIAGNOSTIC_OWNER \<times> NLD_DIRECT_PDO_DIAGNOSTIC_COMMAND" where
  "NldDirectPdoDiagnosticOnPnpStop owner =
     (if go_State owner = NldDirectPdoDiagnosticOffline \<or> go_StopRequested owner
      then (owner, NldDirectPdoDiagnosticCommandNone)
      else
        let owner1 = owner\<lparr>go_PnpStarted := False, go_StopRequested := True,
                           go_CancelRequested := False, go_State := NldDirectPdoDiagnosticStopping,
                           go_PendingAction := NldDirectPdoDiagnosticActionCancelAndClose\<rparr>
        in if go_ActiveAction owner1 \<noteq> NldDirectPdoDiagnosticActionNone
           then (owner1, NldDirectPdoDiagnosticCommandCancelActive)
           else NldDirectPdoDiagnosticOwnWorker owner1)"

definition NldDirectPdoDiagnosticRequestDiscover ::
  "NLD_DIRECT_PDO_DIAGNOSTIC_OWNER \<Rightarrow>
   NLD_DIRECT_PDO_DIAGNOSTIC_OWNER \<times> NLD_DIRECT_PDO_DIAGNOSTIC_COMMAND" where
  "NldDirectPdoDiagnosticRequestDiscover owner =
     (if \<not> go_PnpStarted owner \<or> go_StopRequested owner \<or> go_CancelRequested owner \<or>
         go_WorkerOwned owner \<or> go_ActiveAction owner \<noteq> NldDirectPdoDiagnosticActionNone \<or>
         (go_State owner \<noteq> NldDirectPdoDiagnosticIdle \<and>
          go_State owner \<noteq> NldDirectPdoDiagnosticComplete \<and>
          go_State owner \<noteq> NldDirectPdoDiagnosticFaulted)
      then (owner, NldDirectPdoDiagnosticCommandNone)
      else NldDirectPdoDiagnosticOwnWorker
             (owner\<lparr>go_Generation := NextGeneration (go_Generation owner),
                    go_State := NldDirectPdoDiagnosticOpening,
                    go_PendingAction := NldDirectPdoDiagnosticActionOpen,
                    go_DiscoverSucceeded := False, go_LastCloseSucceeded := False\<rparr>))"

definition NldDirectPdoDiagnosticRequestCancel ::
  "NLD_DIRECT_PDO_DIAGNOSTIC_OWNER \<Rightarrow>
   NLD_DIRECT_PDO_DIAGNOSTIC_OWNER \<times> NLD_DIRECT_PDO_DIAGNOSTIC_COMMAND" where
  "NldDirectPdoDiagnosticRequestCancel owner =
     (if \<not> go_PnpStarted owner \<or> go_StopRequested owner \<or> go_CancelRequested owner \<or>
         \<not> go_WorkerOwned owner
      then (owner, NldDirectPdoDiagnosticCommandNone)
      else
        let owner1 = owner\<lparr>go_CancelRequested := True, go_State := NldDirectPdoDiagnosticClosing,
                           go_PendingAction := NldDirectPdoDiagnosticActionCancelAndClose\<rparr>
        in (owner1, if go_ActiveAction owner1 \<noteq> NldDirectPdoDiagnosticActionNone
                    then NldDirectPdoDiagnosticCommandCancelActive
                    else NldDirectPdoDiagnosticCommandNone))"

definition NldDirectPdoDiagnosticTakeAction ::
  "NLD_DIRECT_PDO_DIAGNOSTIC_OWNER \<Rightarrow>
   NLD_DIRECT_PDO_DIAGNOSTIC_OWNER \<times> NLD_DIRECT_PDO_DIAGNOSTIC_ACTION \<times> u32" where
  "NldDirectPdoDiagnosticTakeAction owner =
     (if \<not> go_WorkerOwned owner \<or> go_ActiveAction owner \<noteq> NldDirectPdoDiagnosticActionNone
      then (owner, NldDirectPdoDiagnosticActionNone, 0)
      else
        let action = go_PendingAction owner
        in if action = NldDirectPdoDiagnosticActionNone
           then (owner\<lparr>go_WorkerOwned := False\<rparr>, NldDirectPdoDiagnosticActionNone, 0)
           else
             let owner1 = owner\<lparr>go_PendingAction := NldDirectPdoDiagnosticActionNone,
                                go_ActiveAction := action,
                                go_ActiveGeneration := go_Generation owner\<rparr>
             in (owner1, action, go_ActiveGeneration owner1))"

text \<open>The switch of \<open>CompleteAction\<close>: what a completed action leads to when nobody stopped or cancelled.\<close>

fun diagnostic_completed ::
  "NLD_DIRECT_PDO_DIAGNOSTIC_OWNER \<Rightarrow> NLD_DIRECT_PDO_DIAGNOSTIC_ACTION \<Rightarrow> bool \<Rightarrow>
   NLD_DIRECT_PDO_DIAGNOSTIC_OWNER" where
  "diagnostic_completed owner NldDirectPdoDiagnosticActionOpen succeeded =
     (if succeeded
      then owner\<lparr>go_State := NldDirectPdoDiagnosticDiscovering,
                 go_PendingAction := NldDirectPdoDiagnosticActionDiscover\<rparr>
      else owner\<lparr>go_State := NldDirectPdoDiagnosticFaulted\<rparr>)"
| "diagnostic_completed owner NldDirectPdoDiagnosticActionDiscover succeeded =
     owner\<lparr>go_DiscoverSucceeded := succeeded, go_State := NldDirectPdoDiagnosticClosing,
           go_PendingAction := NldDirectPdoDiagnosticActionClose\<rparr>"
| "diagnostic_completed owner NldDirectPdoDiagnosticActionClose succeeded =
     owner\<lparr>go_LastCloseSucceeded := succeeded,
           go_State := (if succeeded \<and> go_DiscoverSucceeded owner
                        then NldDirectPdoDiagnosticComplete
                        else NldDirectPdoDiagnosticFaulted)\<rparr>"
| "diagnostic_completed owner NldDirectPdoDiagnosticActionCancelAndClose succeeded =
     (let owner1 = owner\<lparr>go_LastCloseSucceeded := succeeded\<rparr>
      in if go_CancelRequested owner1
         then owner1\<lparr>go_State := (if succeeded then NldDirectPdoDiagnosticIdle
                                  else NldDirectPdoDiagnosticFaulted),
                     go_CancelRequested := False,
                     go_PendingAction := NldDirectPdoDiagnosticActionNone\<rparr>
         else owner1\<lparr>go_State := NldDirectPdoDiagnosticOffline,
                     go_PendingAction := NldDirectPdoDiagnosticActionNone,
                     go_PnpStarted := False, go_StopRequested := False\<rparr>)"
| "diagnostic_completed owner NldDirectPdoDiagnosticActionNone succeeded = owner"

definition NldDirectPdoDiagnosticCompleteAction ::
  "NLD_DIRECT_PDO_DIAGNOSTIC_OWNER \<Rightarrow> u32 \<Rightarrow> NLD_DIRECT_PDO_DIAGNOSTIC_ACTION \<Rightarrow> bool \<Rightarrow>
   NLD_DIRECT_PDO_DIAGNOSTIC_OWNER \<times> bool" where
  "NldDirectPdoDiagnosticCompleteAction owner generation action succeeded =
     (if action = NldDirectPdoDiagnosticActionNone \<or> action \<noteq> go_ActiveAction owner \<or>
         generation \<noteq> go_ActiveGeneration owner
      then (owner, False)
      else
        let owner1 = owner\<lparr>go_ActiveAction := NldDirectPdoDiagnosticActionNone,
                           go_ActiveGeneration := 0\<rparr>
        in if go_StopRequested owner1 \<and> action \<noteq> NldDirectPdoDiagnosticActionCancelAndClose
           then (owner1\<lparr>go_State := NldDirectPdoDiagnosticStopping,
                        go_PendingAction := NldDirectPdoDiagnosticActionCancelAndClose\<rparr>, True)
           else if go_CancelRequested owner1 \<and>
                   action \<noteq> NldDirectPdoDiagnosticActionCancelAndClose
           then (owner1\<lparr>go_State := NldDirectPdoDiagnosticClosing,
                        go_PendingAction := NldDirectPdoDiagnosticActionCancelAndClose\<rparr>, True)
           else (diagnostic_completed owner1 action succeeded, True))"

definition NldDirectPdoDiagnosticIsConsistent :: "NLD_DIRECT_PDO_DIAGNOSTIC_OWNER \<Rightarrow> bool" where
  "NldDirectPdoDiagnosticIsConsistent owner \<longleftrightarrow>
     (go_ActiveAction owner = NldDirectPdoDiagnosticActionNone) =
       (go_ActiveGeneration owner = 0) \<and>
     \<not> (go_ActiveAction owner \<noteq> NldDirectPdoDiagnosticActionNone \<and> \<not> go_WorkerOwned owner) \<and>
     \<not> (go_PendingAction owner \<noteq> NldDirectPdoDiagnosticActionNone \<and> \<not> go_WorkerOwned owner) \<and>
     \<not> (\<not> go_PnpStarted owner \<and> go_State owner \<noteq> NldDirectPdoDiagnosticOffline \<and>
        go_State owner \<noteq> NldDirectPdoDiagnosticStopping) \<and>
     go_StopRequested owner = (go_State owner = NldDirectPdoDiagnosticStopping) \<and>
     \<not> (go_CancelRequested owner \<and>
        (\<not> go_PnpStarted owner \<or> go_StopRequested owner \<or> \<not> go_WorkerOwned owner \<or>
         go_State owner \<noteq> NldDirectPdoDiagnosticClosing))"

section \<open>The media watchdog\<close>

datatype NLD_MEDIA_WATCHDOG_RESULT =
  NldMediaWatchdogIdle | NldMediaWatchdogWaiting | NldMediaWatchdogExpired

record NLD_MEDIA_WATCHDOG_OWNER =
  wo_Generation :: u32
  wo_LastWriteTime100ns :: u64
  wo_Armed :: bool

definition NldMediaWatchdogInitialize :: NLD_MEDIA_WATCHDOG_OWNER where
  "NldMediaWatchdogInitialize =
     \<lparr>wo_Generation = 0, wo_LastWriteTime100ns = 0, wo_Armed = False\<rparr>"

definition NldMediaWatchdogArm ::
  "NLD_MEDIA_WATCHDOG_OWNER \<Rightarrow> u32 \<Rightarrow> u64 \<Rightarrow> NLD_MEDIA_WATCHDOG_OWNER \<times> bool" where
  "NldMediaWatchdogArm owner generation now100ns =
     (if generation = 0 \<or> now100ns = 0 then (owner, False)
      else (owner\<lparr>wo_Generation := generation, wo_LastWriteTime100ns := now100ns,
                  wo_Armed := True\<rparr>, True))"

definition NldMediaWatchdogRecordWrite ::
  "NLD_MEDIA_WATCHDOG_OWNER \<Rightarrow> u32 \<Rightarrow> u64 \<Rightarrow> NLD_MEDIA_WATCHDOG_OWNER \<times> bool" where
  "NldMediaWatchdogRecordWrite owner generation now100ns =
     (if \<not> wo_Armed owner \<or> generation = 0 \<or> generation \<noteq> wo_Generation owner \<or>
         now100ns = 0 \<or> now100ns < wo_LastWriteTime100ns owner
      then (owner, False)
      else (owner\<lparr>wo_LastWriteTime100ns := now100ns\<rparr>, True))"

definition NldMediaWatchdogStop :: "NLD_MEDIA_WATCHDOG_OWNER \<Rightarrow> NLD_MEDIA_WATCHDOG_OWNER" where
  "NldMediaWatchdogStop owner =
     owner\<lparr>wo_Generation := 0, wo_LastWriteTime100ns := 0, wo_Armed := False\<rparr>"

text \<open>The last component is the remaining time.\<close>

definition NldMediaWatchdogCheck ::
  "NLD_MEDIA_WATCHDOG_OWNER \<Rightarrow> u32 \<Rightarrow> u64 \<Rightarrow> u64 \<Rightarrow>
   NLD_MEDIA_WATCHDOG_OWNER \<times> NLD_MEDIA_WATCHDOG_RESULT \<times> u64" where
  "NldMediaWatchdogCheck owner generation now100ns timeout100ns =
     (if \<not> wo_Armed owner \<or> generation = 0 \<or> generation \<noteq> wo_Generation owner
      then (owner, NldMediaWatchdogIdle, 0)
      else if now100ns = 0 \<or> timeout100ns = 0 \<or> now100ns < wo_LastWriteTime100ns owner
      then (NldMediaWatchdogStop owner, NldMediaWatchdogExpired, 0)
      else
        let elapsed = now100ns - wo_LastWriteTime100ns owner
        in if elapsed \<ge> timeout100ns
           then (NldMediaWatchdogStop owner, NldMediaWatchdogExpired, 0)
           else (owner, NldMediaWatchdogWaiting, timeout100ns - elapsed))"

section \<open>The arbiter's ledger\<close>

datatype arbiter_event =
  Arbiter_Start | Arbiter_Stop | Arbiter_Demand bool
| Arbiter_Acquire NLD_DIRECT_PDO_ARBITER_CLIENT
| Arbiter_Release NLD_DIRECT_PDO_ARBITER_CLIENT u32 | Arbiter_ForceOffline

text \<open>The state after an event and whether the event granted or released the channel.\<close>

fun arbiter_step ::
  "NLD_DIRECT_PDO_ARBITER_OWNER \<Rightarrow> arbiter_event \<Rightarrow>
   NLD_DIRECT_PDO_ARBITER_OWNER \<times> bool \<times> bool" where
  "arbiter_step owner Arbiter_Start = (fst (NldDirectPdoArbiterOnPnpStart owner), False, False)"
| "arbiter_step owner Arbiter_Stop = (fst (NldDirectPdoArbiterOnPnpStop owner), False, False)"
| "arbiter_step owner (Arbiter_Demand active) =
     (fst (NldDirectPdoArbiterSetRenderDemand owner active), False, False)"
| "arbiter_step owner (Arbiter_Acquire client) =
     (let (owner1, result, generation) = NldDirectPdoArbiterTryAcquire owner client
      in (owner1, result = NldDirectPdoArbiterAcquireGranted, False))"
| "arbiter_step owner (Arbiter_Release client generation) =
     (let (owner1, released) = NldDirectPdoArbiterRelease owner client generation
      in (owner1, False, released))"
| "arbiter_step owner Arbiter_ForceOffline =
     (NldDirectPdoArbiterForceOffline owner, False,
      ao_Client owner \<noteq> NldDirectPdoArbiterClientNone)"

definition channel_grants :: "NLD_DIRECT_PDO_ARBITER_OWNER \<Rightarrow> arbiter_event \<Rightarrow> nat" where
  "channel_grants owner e = of_bool (fst (snd (arbiter_step owner e)))"

definition channel_returns :: "NLD_DIRECT_PDO_ARBITER_OWNER \<Rightarrow> arbiter_event \<Rightarrow> nat" where
  "channel_returns owner e = of_bool (snd (snd (arbiter_step owner e)))"

lemmas arbiter_step_defs = NldDirectPdoArbiterOnPnpStart_def NldDirectPdoArbiterOnPnpStop_def
  NldDirectPdoArbiterSetRenderDemand_def NldDirectPdoArbiterTryAcquire_def
  NldDirectPdoArbiterRelease_def NldDirectPdoArbiterForceOffline_def Let_def case_prod_beta

definition arbiter_sound :: "NLD_DIRECT_PDO_ARBITER_OWNER \<Rightarrow> bool" where
  "arbiter_sound owner \<longleftrightarrow> NldDirectPdoArbiterIsConsistent owner \<and>
     (ao_State owner = NldDirectPdoArbiterRenderOwned \<or>
      ao_State owner = NldDirectPdoArbiterDiagnosticOwned \<longrightarrow> ao_PnpStarted owner)"

lemma arbiter_client_cases:
  "client \<noteq> NldDirectPdoArbiterClientNone \<Longrightarrow> client \<noteq> NldDirectPdoArbiterClientRender \<Longrightarrow>
   client = NldDirectPdoArbiterClientDiagnostic"
  by (cases client) simp_all

lemma arbiter_step_sound: "arbiter_sound owner \<Longrightarrow> arbiter_sound (fst (arbiter_step owner e))"
  by (cases e; cases "ao_State owner"; cases "ao_Client owner")
    (simp_all add: arbiter_sound_def NldDirectPdoArbiterIsConsistent_def arbiter_step_defs
      arbiter_client_cases)

lemma arbiter_step_balance:
  "of_bool (ao_Client owner \<noteq> NldDirectPdoArbiterClientNone) + channel_grants owner e =
   channel_returns owner e +
   of_bool (ao_Client (fst (arbiter_step owner e)) \<noteq> NldDirectPdoArbiterClientNone)"
  by (cases e) (auto simp: channel_grants_def channel_returns_def arbiter_step_defs)

interpretation arbiter_ledger: resource_ledger "\<lambda>x e. fst (arbiter_step x e)" channel_grants
    channel_returns "\<lambda>x. of_bool (ao_Client x \<noteq> NldDirectPdoArbiterClientNone)"
    arbiter_sound
  by unfold_locales (simp_all add: arbiter_step_sound arbiter_step_balance)

lemma arbiter_initial_sound: "arbiter_sound NldDirectPdoArbiterInitialize"
  by (simp add: arbiter_sound_def NldDirectPdoArbiterIsConsistent_def NldDirectPdoArbiterInitialize_def)


section \<open>The diagnostic's worker\<close>

text \<open>The loop of the diagnostic worker, with the outcome of every action it executed.\<close>

definition diagnostic_left :: "NLD_DIRECT_PDO_DIAGNOSTIC_OWNER \<Rightarrow> nat" where
  "diagnostic_left owner =
     (case go_PendingAction owner of
        NldDirectPdoDiagnosticActionNone \<Rightarrow> 0 | NldDirectPdoDiagnosticActionCancelAndClose \<Rightarrow> 1
      | NldDirectPdoDiagnosticActionClose \<Rightarrow> 2 | NldDirectPdoDiagnosticActionDiscover \<Rightarrow> 3
      | NldDirectPdoDiagnosticActionOpen \<Rightarrow> 4)"

lemma diagnostic_left_decreases:
  assumes "NldDirectPdoDiagnosticTakeAction owner = (owner1, action, generation)"
    and "action \<noteq> NldDirectPdoDiagnosticActionNone"
  shows "diagnostic_left (fst (NldDirectPdoDiagnosticCompleteAction owner1 generation action ok)) <
    diagnostic_left owner"
  using assms
  by (cases action)
    (auto simp: NldDirectPdoDiagnosticTakeAction_def NldDirectPdoDiagnosticCompleteAction_def
      diagnostic_left_def Let_def split: if_splits)

function diagnostic_worker ::
  "(NLD_DIRECT_PDO_DIAGNOSTIC_ACTION \<Rightarrow> 'w \<Rightarrow> bool \<times> 'w) \<Rightarrow>
   NLD_DIRECT_PDO_DIAGNOSTIC_OWNER \<Rightarrow> 'w \<Rightarrow>
   NLD_DIRECT_PDO_DIAGNOSTIC_OWNER \<times> 'w \<times> (NLD_DIRECT_PDO_DIAGNOSTIC_ACTION \<times> bool) list" where
  "diagnostic_worker exec owner w =
     (let (owner1, action, generation) = NldDirectPdoDiagnosticTakeAction owner
      in if action = NldDirectPdoDiagnosticActionNone then (owner1, w, [])
         else
           let (succeeded, w1) = exec action w;
               (owner2, accepted) =
                 NldDirectPdoDiagnosticCompleteAction owner1 generation action succeeded;
               (owner3, w2, outcomes) = diagnostic_worker exec owner2 w1
           in (owner3, w2, (action, succeeded) # outcomes))"
  by pat_completeness auto

termination
proof (relation "measure (\<lambda>(exec, owner, w). diagnostic_left owner)", goal_cases)
  case (2 exec owner w r owner1 q action generation e succeeded w1 c owner2 accepted)
  then have "NldDirectPdoDiagnosticTakeAction owner = (owner1, action, generation)"
    "action \<noteq> NldDirectPdoDiagnosticActionNone"
    "owner2 = fst (NldDirectPdoDiagnosticCompleteAction owner1 generation action succeeded)"
    by (auto simp: prod_eq_iff)
  then show ?case using diagnostic_left_decreases by simp
qed simp

declare diagnostic_worker.simps [simp del]

lemma diagnostic_worker_idle:
  "go_PendingAction owner = NldDirectPdoDiagnosticActionNone \<Longrightarrow>
   go_ActiveAction owner = NldDirectPdoDiagnosticActionNone \<Longrightarrow>
   diagnostic_worker exec owner w = (owner\<lparr>go_WorkerOwned := False\<rparr>, w, [])"
  by (subst diagnostic_worker.simps)
    (cases owner; auto simp: NldDirectPdoDiagnosticTakeAction_def Let_def)

text \<open>The state in which the worker completes the pending action it has just taken.\<close>

definition between_actions :: "NLD_DIRECT_PDO_DIAGNOSTIC_OWNER \<Rightarrow> NLD_DIRECT_PDO_DIAGNOSTIC_OWNER" where
  "between_actions owner =
     owner\<lparr>go_PendingAction := NldDirectPdoDiagnosticActionNone,
           go_ActiveAction := NldDirectPdoDiagnosticActionNone, go_ActiveGeneration := 0\<rparr>"

lemma between_actions_simps [simp]:
  "go_PendingAction (between_actions owner) = NldDirectPdoDiagnosticActionNone"
  "go_ActiveAction (between_actions owner) = NldDirectPdoDiagnosticActionNone"
  "go_ActiveGeneration (between_actions owner) = 0"
  "go_State (between_actions owner) = go_State owner"
  "go_WorkerOwned (between_actions owner) = go_WorkerOwned owner"
  "go_PnpStarted (between_actions owner) = go_PnpStarted owner"
  "go_StopRequested (between_actions owner) = go_StopRequested owner"
  "go_CancelRequested (between_actions owner) = go_CancelRequested owner"
  "go_DiscoverSucceeded (between_actions owner) = go_DiscoverSucceeded owner"
  by (simp_all add: between_actions_def)

lemma diagnostic_worker_action:
  assumes "go_WorkerOwned owner" "go_ActiveAction owner = NldDirectPdoDiagnosticActionNone"
    and "go_PendingAction owner = action" "action \<noteq> NldDirectPdoDiagnosticActionNone"
    and "action = NldDirectPdoDiagnosticActionCancelAndClose \<or>
      \<not> go_StopRequested owner \<and> \<not> go_CancelRequested owner"
  shows "diagnostic_worker exec owner w =
    (let (owner3, w2, outcomes) =
       diagnostic_worker exec
         (diagnostic_completed (between_actions owner) action (fst (exec action w)))
         (snd (exec action w))
     in (owner3, w2, (action, fst (exec action w)) # outcomes))"
proof -
  let ?taken = "owner\<lparr>go_PendingAction := NldDirectPdoDiagnosticActionNone,
    go_ActiveAction := action, go_ActiveGeneration := go_Generation owner\<rparr>"
  have "NldDirectPdoDiagnosticTakeAction owner = (?taken, action, go_Generation owner)"
    using assms(1-4) by (simp add: NldDirectPdoDiagnosticTakeAction_def Let_def)
  moreover have "NldDirectPdoDiagnosticCompleteAction ?taken (go_Generation owner) action ok =
      (diagnostic_completed (between_actions owner) action ok, True)" for ok
    using assms(4,5) by (auto simp: NldDirectPdoDiagnosticCompleteAction_def between_actions_def Let_def)
  ultimately show ?thesis
    using assms(4) by (subst diagnostic_worker.simps) (simp add: Let_def case_prod_beta)
qed

text \<open>A diagnostic closes what it opens.  When a discovery is accepted, the worker, undisturbed and
  however its actions end, opens the channel and, if that succeeds, discovers and closes it again;
  the diagnostic is then complete if all three succeeded and faulted otherwise, and the worker is
  gone.  A request that is not accepted changes nothing.\<close>

theorem diagnostic_closes_what_it_opens:
  "let (owner1, command) = NldDirectPdoDiagnosticRequestDiscover owner;
       (owner2, w', outcomes) = diagnostic_worker exec owner1 w
   in if command = NldDirectPdoDiagnosticCommandQueueWorker
      then \<not> go_WorkerOwned owner2 \<and>
           (\<exists>found closed. outcomes \<in> {[(NldDirectPdoDiagnosticActionOpen, False)],
              [(NldDirectPdoDiagnosticActionOpen, True),
               (NldDirectPdoDiagnosticActionDiscover, found),
               (NldDirectPdoDiagnosticActionClose, closed)]}) \<and>
           go_State owner2 =
             (if outcomes = [(NldDirectPdoDiagnosticActionOpen, True),
                 (NldDirectPdoDiagnosticActionDiscover, True),
                 (NldDirectPdoDiagnosticActionClose, True)]
              then NldDirectPdoDiagnosticComplete else NldDirectPdoDiagnosticFaulted)
      else owner1 = owner"
proof (cases "snd (NldDirectPdoDiagnosticRequestDiscover owner) =
    NldDirectPdoDiagnosticCommandQueueWorker")
  case False
  then show ?thesis
    by (auto simp: NldDirectPdoDiagnosticRequestDiscover_def NldDirectPdoDiagnosticOwnWorker_def
        case_prod_beta Let_def split: if_splits)
next
  case True
  let ?o = "fst (NldDirectPdoDiagnosticRequestDiscover owner)"
  have o: "go_WorkerOwned ?o" "go_ActiveAction ?o = NldDirectPdoDiagnosticActionNone"
    "go_PendingAction ?o = NldDirectPdoDiagnosticActionOpen"
    "\<not> go_StopRequested ?o" "\<not> go_CancelRequested ?o"
    using True by (auto simp: NldDirectPdoDiagnosticRequestDiscover_def
        NldDirectPdoDiagnosticOwnWorker_def split: if_splits)
  then show ?thesis
    using True
    by (auto simp: diagnostic_worker_action diagnostic_worker_idle Let_def case_prod_beta)
qed

section \<open>A stopped diagnostic\<close>

datatype diagnostic_event =
  Diagnostic_Start | Diagnostic_Stop | Diagnostic_Discover | Diagnostic_Cancel | Diagnostic_Take
| Diagnostic_Complete u32 NLD_DIRECT_PDO_DIAGNOSTIC_ACTION bool

fun diagnostic_step ::
  "NLD_DIRECT_PDO_DIAGNOSTIC_OWNER \<Rightarrow> diagnostic_event \<Rightarrow> NLD_DIRECT_PDO_DIAGNOSTIC_OWNER" where
  "diagnostic_step owner Diagnostic_Start = fst (NldDirectPdoDiagnosticOnPnpStart owner)"
| "diagnostic_step owner Diagnostic_Stop = fst (NldDirectPdoDiagnosticOnPnpStop owner)"
| "diagnostic_step owner Diagnostic_Discover = fst (NldDirectPdoDiagnosticRequestDiscover owner)"
| "diagnostic_step owner Diagnostic_Cancel = fst (NldDirectPdoDiagnosticRequestCancel owner)"
| "diagnostic_step owner Diagnostic_Take = fst (NldDirectPdoDiagnosticTakeAction owner)"
| "diagnostic_step owner (Diagnostic_Complete generation action succeeded) =
     fst (NldDirectPdoDiagnosticCompleteAction owner generation action succeeded)"

definition diagnostic_inv :: "NLD_DIRECT_PDO_DIAGNOSTIC_OWNER \<Rightarrow> bool" where
  "diagnostic_inv owner \<longleftrightarrow> NldDirectPdoDiagnosticIsConsistent owner \<and>
     (go_State owner \<noteq> NldDirectPdoDiagnosticOffline \<longrightarrow> go_Generation owner \<noteq> 0) \<and>
     (go_State owner = NldDirectPdoDiagnosticOffline \<longrightarrow> \<not> go_PnpStarted owner \<and>
        go_PendingAction owner = NldDirectPdoDiagnosticActionNone \<and>
        go_ActiveAction owner = NldDirectPdoDiagnosticActionNone) \<and>
     (go_State owner = NldDirectPdoDiagnosticStopping \<longrightarrow> \<not> go_PnpStarted owner) \<and>
     (go_StopRequested owner \<or> go_CancelRequested owner \<longrightarrow>
        go_PendingAction owner = NldDirectPdoDiagnosticActionCancelAndClose \<or>
        go_ActiveAction owner = NldDirectPdoDiagnosticActionCancelAndClose)"

lemma diagnostic_completed_inv:
  assumes "diagnostic_inv owner" "go_ActiveAction owner = action"
    and "action \<noteq> NldDirectPdoDiagnosticActionNone"
    and "action = NldDirectPdoDiagnosticActionCancelAndClose \<or>
      \<not> go_StopRequested owner \<and> \<not> go_CancelRequested owner"
  shows "diagnostic_inv (diagnostic_completed
    (owner\<lparr>go_ActiveAction := NldDirectPdoDiagnosticActionNone, go_ActiveGeneration := 0\<rparr>) action ok)"
  using assms
  by (cases action; cases "go_State owner")
    (simp_all add: diagnostic_inv_def NldDirectPdoDiagnosticIsConsistent_def Let_def)

lemma complete_action_inv:
  assumes inv: "diagnostic_inv owner"
  shows "diagnostic_inv (fst (NldDirectPdoDiagnosticCompleteAction owner generation action ok))"
proof (cases "action = NldDirectPdoDiagnosticActionNone \<or> action \<noteq> go_ActiveAction owner \<or>
    generation \<noteq> go_ActiveGeneration owner")
  case True
  then show ?thesis using inv by (simp add: NldDirectPdoDiagnosticCompleteAction_def)
next
  case False
  then have a: "go_ActiveAction owner = action" "action \<noteq> NldDirectPdoDiagnosticActionNone"
    "generation = go_ActiveGeneration owner" by auto
  show ?thesis
  proof (cases "action = NldDirectPdoDiagnosticActionCancelAndClose \<or>
      \<not> go_StopRequested owner \<and> \<not> go_CancelRequested owner")
    case True
    then show ?thesis
      using diagnostic_completed_inv [OF inv a(1,2) True, of ok] a
      by (auto simp: NldDirectPdoDiagnosticCompleteAction_def Let_def)
  next
    case False
    then show ?thesis
      using inv a
      by (cases "go_State owner"; cases "go_StopRequested owner")
        (simp_all add: NldDirectPdoDiagnosticCompleteAction_def diagnostic_inv_def
          NldDirectPdoDiagnosticIsConsistent_def Let_def)
  qed
qed

lemmas diagnostic_step_defs = NldDirectPdoDiagnosticOnPnpStart_def NldDirectPdoDiagnosticOnPnpStop_def
  NldDirectPdoDiagnosticRequestDiscover_def NldDirectPdoDiagnosticRequestCancel_def
  NldDirectPdoDiagnosticTakeAction_def NldDirectPdoDiagnosticOwnWorker_def Let_def

lemma diagnostic_step_inv: "diagnostic_inv owner \<Longrightarrow> diagnostic_inv (diagnostic_step owner e)"
proof (cases "\<exists>generation action ok. e = Diagnostic_Complete generation action ok")
  case True
  then show "diagnostic_inv owner \<Longrightarrow> ?thesis" by (auto simp: complete_action_inv)
next
  case False
  then show "diagnostic_inv owner \<Longrightarrow> ?thesis"
    by (cases e; cases "go_State owner"; cases "go_StopRequested owner";
        cases "go_ActiveAction owner = NldDirectPdoDiagnosticActionNone";
        cases "go_PendingAction owner = NldDirectPdoDiagnosticActionNone")
      (simp_all add: diagnostic_step_defs diagnostic_inv_def NldDirectPdoDiagnosticIsConsistent_def)
qed

lemma diagnostic_initial_inv: "diagnostic_inv NldDirectPdoDiagnosticInitialize"
  by (simp add: diagnostic_inv_def NldDirectPdoDiagnosticIsConsistent_def
      NldDirectPdoDiagnosticInitialize_def)

lemma diagnostic_run_inv:
  "diagnostic_inv owner \<Longrightarrow> diagnostic_inv (foldl diagnostic_step owner es)"
  by (induction es arbitrary: owner) (simp_all add: diagnostic_step_inv)

text \<open>Once its active action has completed, a stopped diagnostic is offline or has the closing
  action pending and a worker to run it.\<close>

definition diagnostic_stopped :: "NLD_DIRECT_PDO_DIAGNOSTIC_OWNER \<Rightarrow> bool \<Rightarrow> NLD_DIRECT_PDO_DIAGNOSTIC_OWNER" where
  "diagnostic_stopped owner ok =
     (let owner1 = fst (NldDirectPdoDiagnosticOnPnpStop owner)
      in fst (NldDirectPdoDiagnosticCompleteAction owner1 (go_ActiveGeneration owner1)
                (go_ActiveAction owner1) ok))"

lemma diagnostic_stopped_inv: "diagnostic_inv owner \<Longrightarrow> diagnostic_inv (diagnostic_stopped owner ok)"
  using diagnostic_step_inv [of owner Diagnostic_Stop]
  by (simp add: diagnostic_stopped_def complete_action_inv Let_def)

lemma diagnostic_stopped_cases:
  assumes "diagnostic_inv owner"
  shows "go_ActiveAction (diagnostic_stopped owner ok) = NldDirectPdoDiagnosticActionNone"
    and "if go_State owner = NldDirectPdoDiagnosticOffline \<or>
            go_ActiveAction owner = NldDirectPdoDiagnosticActionCancelAndClose
         then go_State (diagnostic_stopped owner ok) = NldDirectPdoDiagnosticOffline
         else go_State (diagnostic_stopped owner ok) = NldDirectPdoDiagnosticStopping"
  using assms
  by (cases "go_ActiveAction owner"; cases "go_StopRequested owner";
      simp add: diagnostic_stopped_def diagnostic_inv_def NldDirectPdoDiagnosticIsConsistent_def
      diagnostic_step_defs NldDirectPdoDiagnosticCompleteAction_def)+

text \<open>A stopped diagnostic shuts down.  Whatever happened before, after \<open>OnPnpStop\<close> and the
  completion of the action it interrupts, the worker leaves the diagnostic offline with nothing
  pending, nothing active and no worker; and if the diagnostic was not offline, \<open>CancelAndClose\<close>
  has run exactly once since, as the interrupted action or as the only action of the worker.\<close>

theorem diagnostic_stop_drains:
  "let owner = foldl diagnostic_step NldDirectPdoDiagnosticInitialize es;
       owner1 = fst (NldDirectPdoDiagnosticOnPnpStop owner);
       owner2 = fst (NldDirectPdoDiagnosticCompleteAction owner1 (go_ActiveGeneration owner1)
                       (go_ActiveAction owner1) ok);
       (owner3, w', outcomes) = diagnostic_worker exec owner2 w
   in go_State owner3 = NldDirectPdoDiagnosticOffline \<and> \<not> go_PnpStarted owner3 \<and>
      go_PendingAction owner3 = NldDirectPdoDiagnosticActionNone \<and>
      go_ActiveAction owner3 = NldDirectPdoDiagnosticActionNone \<and> \<not> go_WorkerOwned owner3 \<and>
      map fst outcomes =
        (if go_State owner = NldDirectPdoDiagnosticOffline \<or>
            go_ActiveAction owner = NldDirectPdoDiagnosticActionCancelAndClose
         then [] else [NldDirectPdoDiagnosticActionCancelAndClose])"
proof -
  let ?o = "foldl diagnostic_step NldDirectPdoDiagnosticInitialize es"
  let ?s = "diagnostic_stopped ?o ok"
  have inv: "diagnostic_inv ?o" "diagnostic_inv ?s"
    by (simp_all add: diagnostic_run_inv diagnostic_initial_inv diagnostic_stopped_inv)
  note st = diagnostic_stopped_cases [OF inv(1), of ok]
  have fold: "fst (NldDirectPdoDiagnosticCompleteAction (fst (NldDirectPdoDiagnosticOnPnpStop ?o))
      (go_ActiveGeneration (fst (NldDirectPdoDiagnosticOnPnpStop ?o)))
      (go_ActiveAction (fst (NldDirectPdoDiagnosticOnPnpStop ?o))) ok) = ?s"
    by (simp add: diagnostic_stopped_def Let_def)
  show ?thesis
  proof (cases "go_State ?s = NldDirectPdoDiagnosticOffline")
    case True
    then have "go_PendingAction ?s = NldDirectPdoDiagnosticActionNone" "\<not> go_PnpStarted ?s"
      using inv(2) by (simp_all add: diagnostic_inv_def)
    then show ?thesis
      using st True unfolding Let_def fold by (auto simp: diagnostic_worker_idle split: if_splits)
  next
    case False
    then have stopping: "go_State ?s = NldDirectPdoDiagnosticStopping" using st(2) by (meson)
    then have "go_PendingAction ?s = NldDirectPdoDiagnosticActionCancelAndClose"
      "go_WorkerOwned ?s" "\<not> go_CancelRequested ?s"
      using inv(2) st(1) by (auto simp: diagnostic_inv_def NldDirectPdoDiagnosticIsConsistent_def)
    then show ?thesis
      using st stopping unfolding Let_def fold
      by (auto simp: diagnostic_worker_action diagnostic_worker_idle Let_def case_prod_beta
          split: if_splits)
  qed
qed

section \<open>Preemption is consistent\<close>

datatype preemption_event =
  Preemption_Start | Preemption_Stop | Preemption_Request | Preemption_Take
| Preemption_Complete u32 NLD_DIRECT_PDO_PREEMPTION_ACTION bool

fun preemption_step ::
  "NLD_DIRECT_PDO_PREEMPTION_OWNER \<Rightarrow> preemption_event \<Rightarrow> NLD_DIRECT_PDO_PREEMPTION_OWNER" where
  "preemption_step owner Preemption_Start = fst (NldDirectPdoPreemptionOnPnpStart owner)"
| "preemption_step owner Preemption_Stop = fst (NldDirectPdoPreemptionOnPnpStop owner)"
| "preemption_step owner Preemption_Request = fst (NldDirectPdoPreemptionRequestRender owner)"
| "preemption_step owner Preemption_Take = fst (NldDirectPdoPreemptionTakeAction owner)"
| "preemption_step owner (Preemption_Complete generation action succeeded) =
     fst (NldDirectPdoPreemptionCompleteAction owner generation action succeeded)"

text \<open>Work is in progress only in a started preemption, and never with generation 0.\<close>

definition preemption_inv :: "NLD_DIRECT_PDO_PREEMPTION_OWNER \<Rightarrow> bool" where
  "preemption_inv owner \<longleftrightarrow> NldDirectPdoPreemptionIsConsistent owner \<and>
     (po_State owner = NldDirectPdoPreemptionOffline \<or> po_Generation owner \<noteq> 0)"

lemma preemption_step_inv: "preemption_inv owner \<Longrightarrow> preemption_inv (preemption_step owner e)"
  by (cases e; cases "po_State owner"; cases "po_PendingAction owner"; cases "po_ActiveAction owner")
    (simp_all add: preemption_inv_def NldDirectPdoPreemptionIsConsistent_def
      NldDirectPdoPreemptionOnPnpStart_def NldDirectPdoPreemptionOnPnpStop_def
      NldDirectPdoPreemptionRequestRender_def NldDirectPdoPreemptionTakeAction_def
      NldDirectPdoPreemptionCompleteAction_def Let_def)

lemma preemption_run_inv:
  "preemption_inv owner \<Longrightarrow> preemption_inv (foldl preemption_step owner es)"
  by (induction es arbitrary: owner) (simp_all add: preemption_step_inv)

lemma preemption_initial_inv: "preemption_inv NldDirectPdoPreemptionInitialize"
  by (simp add: preemption_inv_def NldDirectPdoPreemptionIsConsistent_def
      NldDirectPdoPreemptionInitialize_def)

text \<open>Rendering is retried only after the diagnostic was cancelled.  Over every history the
  preemption is consistent, and the action that its next \<open>TakeAction\<close> hands out is \<open>RetryRender\<close>
  exactly if it waits in the state that only a successful \<open>CancelDiagnostic\<close> leads to; the
  completion of an action leads there only as a success of \<open>CancelDiagnostic\<close>.\<close>

theorem retry_follows_cancel:
  "let owner = foldl preemption_step NldDirectPdoPreemptionInitialize es;
       (owner1, action, generation) = NldDirectPdoPreemptionTakeAction owner;
       (owner2, accepted) = NldDirectPdoPreemptionCompleteAction owner generation' action' succeeded
   in NldDirectPdoPreemptionIsConsistent owner \<and>
      (action = NldDirectPdoPreemptionActionRetryRender) =
        (po_State owner = NldDirectPdoPreemptionRetryingRender \<and>
         po_ActiveAction owner = NldDirectPdoPreemptionActionNone) \<and>
      (if accepted
       then (po_State owner2 = NldDirectPdoPreemptionRetryingRender) =
              (action' = NldDirectPdoPreemptionActionCancelDiagnostic \<and> succeeded \<and>
               po_State owner = NldDirectPdoPreemptionCancelingDiagnostic)
       else owner2 = owner)"
proof -
  let ?o = "foldl preemption_step NldDirectPdoPreemptionInitialize es"
  have "preemption_inv ?o" by (simp add: preemption_run_inv preemption_initial_inv)
  then show ?thesis
    by (cases "po_State ?o"; cases "po_PendingAction ?o"; cases "po_ActiveAction ?o"; cases action')
      (simp_all add: preemption_inv_def NldDirectPdoPreemptionIsConsistent_def
        NldDirectPdoPreemptionTakeAction_def NldDirectPdoPreemptionCompleteAction_def Let_def)
qed

section \<open>The watchdog measures silence\<close>

definition watchdog_after ::
  "NLD_MEDIA_WATCHDOG_OWNER \<Rightarrow> (u32 \<times> u64) list \<Rightarrow> NLD_MEDIA_WATCHDOG_OWNER" where
  "watchdog_after owner writes =
     foldl (\<lambda>x (generation, now). fst (NldMediaWatchdogRecordWrite x generation now)) owner writes"

lemma watchdog_after_armed:
  "generation \<noteq> 0 \<Longrightarrow> latest \<noteq> 0 \<Longrightarrow>
   watchdog_after \<lparr>wo_Generation = generation, wo_LastWriteTime100ns = latest, wo_Armed = True\<rparr> writes =
   \<lparr>wo_Generation = generation,
    wo_LastWriteTime100ns =
      foldl max latest (map snd (filter (\<lambda>entry. fst entry = generation) writes)),
    wo_Armed = True\<rparr>"
proof (induction writes arbitrary: latest)
  case (Cons entry writes)
  have "max latest (snd entry) \<noteq> 0" using Cons.prems(2) by (auto simp: max_def)
  then show ?case
    using Cons.prems Cons.IH [of latest] Cons.IH [of "snd entry"]
    by (cases entry)
      (auto simp: watchdog_after_def NldMediaWatchdogRecordWrite_def max_def not_less)
qed (simp add: watchdog_after_def)

lemma foldl_max_ge: "(latest::u64) \<le> foldl max latest xs"
proof (induction xs arbitrary: latest)
  case (Cons x xs)
  have "latest \<le> max latest x" by simp
  also have "max latest x \<le> foldl max (max latest x) xs" by (rule Cons.IH)
  finally show ?case by simp
qed simp

lemma word_gap:
  fixes latest :: u64
  assumes "latest \<le> now"
  shows "(timeout \<le> now - latest) = (unat latest + unat timeout \<le> unat now)"
    and "now - latest < timeout \<Longrightarrow>
      unat (timeout - (now - latest)) = unat latest + unat timeout - unat now"
  using assms by (auto simp: word_le_nat_alt word_less_nat_alt unat_sub)

lemma watchdog_check_armed:
  assumes "generation \<noteq> 0" "latest \<noteq> 0"
    and armed: "armed = \<lparr>wo_Generation = generation, wo_LastWriteTime100ns = latest, wo_Armed = True\<rparr>"
  shows "NldMediaWatchdogCheck armed generation now timeout =
    (if latest \<le> now \<and> unat now < unat latest + unat timeout
     then (armed, NldMediaWatchdogWaiting, timeout - (now - latest))
     else (NldMediaWatchdogStop armed, NldMediaWatchdogExpired, 0))"
proof (cases "latest \<le> now")
  case True
  then have "now \<noteq> 0" using assms(2) by (auto simp: word_le_0_iff)
  moreover have "(unat now < unat latest + unat timeout) = (\<not> timeout \<le> now - latest)"
    using word_gap(1) [OF True, of timeout] by linarith
  ultimately show ?thesis
    using True assms by (auto simp: NldMediaWatchdogCheck_def Let_def not_less word_le_0_iff)
next
  case False
  then show ?thesis using assms by (simp add: NldMediaWatchdogCheck_def not_le)
qed

text \<open>C19: the watchdog measures silence.  A watchdog armed with a generation and followed by any
  writes, of this generation or of others and in any order, waits exactly while less than the
  timeout has passed since the latest time at which it was armed or a write of its generation was
  recorded, and reports the exact rest of the time; otherwise, and when the clock reads earlier
  than that, it expires, and having expired it is idle.  Generation 0 or time 0 do not arm it.\<close>

theorem watchdog_measures_silence:
  "let (armed, accepted) = NldMediaWatchdogArm owner generation start;
       latest = foldl max start (map snd (filter (\<lambda>entry. fst entry = generation) writes));
       (owner1, result, remaining) =
         NldMediaWatchdogCheck (watchdog_after armed writes) generation now timeout
   in if generation = 0 \<or> start = 0 then \<not> accepted \<and> armed = owner
      else if latest \<le> now \<and> unat now < unat latest + unat timeout
      then accepted \<and> result = NldMediaWatchdogWaiting \<and>
           unat remaining = unat latest + unat timeout - unat now \<and>
           owner1 = watchdog_after armed writes
      else accepted \<and> result = NldMediaWatchdogExpired \<and> remaining = 0 \<and>
           NldMediaWatchdogCheck owner1 generation now' timeout' = (owner1, NldMediaWatchdogIdle, 0)"
proof (cases "generation = 0 \<or> start = 0")
  case True
  then show ?thesis by (auto simp: NldMediaWatchdogArm_def case_prod_beta)
next
  case False
  let ?latest = "foldl max start (map snd (filter (\<lambda>entry. fst entry = generation) writes))"
  have run: "NldMediaWatchdogArm owner generation start =
      (\<lparr>wo_Generation = generation, wo_LastWriteTime100ns = start, wo_Armed = True\<rparr>, True)"
    using False by (cases owner) (simp add: NldMediaWatchdogArm_def)
  have "start \<le> ?latest" by (rule foldl_max_ge)
  then have latest: "?latest \<noteq> 0" using False by (auto simp: word_le_0_iff)
  have gen: "generation \<noteq> 0" using False by simp
  have after: "watchdog_after
      \<lparr>wo_Generation = generation, wo_LastWriteTime100ns = start, wo_Armed = True\<rparr> writes =
      \<lparr>wo_Generation = generation, wo_LastWriteTime100ns = ?latest, wo_Armed = True\<rparr>"
    using False by (simp add: watchdog_after_armed)
  have idle: "NldMediaWatchdogCheck (NldMediaWatchdogStop x) generation now' timeout' =
      (NldMediaWatchdogStop x, NldMediaWatchdogIdle, 0)" for x
    by (simp add: NldMediaWatchdogCheck_def NldMediaWatchdogStop_def)
  have gap: "unat (timeout - (now - ?latest)) = unat ?latest + unat timeout - unat now"
    if "?latest \<le> now" "unat now < unat ?latest + unat timeout"
    using word_gap [OF that(1), of timeout] that by (simp add: not_le [symmetric])
  show ?thesis
    using False by (simp add: run after watchdog_check_armed [OF gen latest refl] idle gap)
qed

end
