(* ===== verification/Avrcp.thy ===== *)
theory Avrcp
  imports Ledger
begin

text \<open>
  The AVRCP control channel, \<open>protocol/src/avrcp.c\<close>: the AVCTP and AV/C frames, the writers of vendor
  dependent commands and responses, and the state machine \<open>avrcp_observer\<close> that asks the headset for
  its capabilities, follows its volume, answers its commands and sends it the volume and the
  playback status of the computer.

  A fixed buffer with its size is the list of its valid bytes, so that a size of zero is the empty
  list; an \<open>uint8_t\<close> or \<open>int\<close> that only holds 0 and 1 is a bool; \<open>size_t\<close> is \<open>nat\<close>.
\<close>

section \<open>Frames\<close>

abbreviation (input) "AVRCP_PROFILE_ID \<equiv> (0x110E :: u32)"
abbreviation (input) "AVRCP_COMPANY_ID_BLUETOOTH_SIG \<equiv> (0x001958 :: u32)"
abbreviation (input) "AVRCP_OPCODE_VENDOR_DEPENDENT \<equiv> (0x00 :: u8)"
abbreviation (input) "AVRCP_OPCODE_PASS_THROUGH \<equiv> (0x7C :: u8)"
abbreviation (input) "AVRCP_CTYPE_CONTROL \<equiv> (0x00 :: u8)"
abbreviation (input) "AVRCP_CTYPE_STATUS \<equiv> (0x01 :: u8)"
abbreviation (input) "AVRCP_CTYPE_NOTIFY \<equiv> (0x03 :: u8)"
abbreviation (input) "AVRCP_RESPONSE_NOT_IMPLEMENTED \<equiv> (0x08 :: u8)"
abbreviation (input) "AVRCP_RESPONSE_ACCEPTED \<equiv> (0x09 :: u8)"
abbreviation (input) "AVRCP_RESPONSE_REJECTED \<equiv> (0x0A :: u8)"
abbreviation (input) "AVRCP_RESPONSE_STABLE \<equiv> (0x0C :: u8)"
abbreviation (input) "AVRCP_RESPONSE_CHANGED \<equiv> (0x0D :: u8)"
abbreviation (input) "AVRCP_RESPONSE_INTERIM \<equiv> (0x0F :: u8)"
abbreviation (input) "AVRCP_PDU_GET_CAPABILITIES \<equiv> (0x10 :: u8)"
abbreviation (input) "AVRCP_PDU_GET_PLAY_STATUS \<equiv> (0x20 :: u8)"
abbreviation (input) "AVRCP_PDU_REGISTER_NOTIFICATION \<equiv> (0x31 :: u8)"
abbreviation (input) "AVRCP_PDU_SET_ABSOLUTE_VOLUME \<equiv> (0x50 :: u8)"
abbreviation (input) "AVRCP_CAPABILITY_EVENTS_SUPPORTED \<equiv> (0x03 :: u8)"
abbreviation (input) "AVRCP_EVENT_PLAYBACK_STATUS_CHANGED \<equiv> (0x01 :: u8)"
abbreviation (input) "AVRCP_EVENT_TRACK_CHANGED \<equiv> (0x02 :: u8)"
abbreviation (input) "AVRCP_EVENT_VOLUME_CHANGED \<equiv> (0x0D :: u8)"
abbreviation (input) "AVRCP_PLAYBACK_STATUS_STOPPED \<equiv> (0x00 :: u8)"
abbreviation (input) "AVRCP_PLAYBACK_STATUS_PLAYING \<equiv> (0x01 :: u8)"
abbreviation (input) "AVRCP_PLAYBACK_STATUS_PAUSED \<equiv> (0x02 :: u8)"
abbreviation (input) "AVRCP_OPERATION_VOLUME_UP \<equiv> (0x41 :: u8)"
abbreviation (input) "AVRCP_OPERATION_VOLUME_DOWN \<equiv> (0x42 :: u8)"
abbreviation (input) "AVRCP_OPERATION_MUTE \<equiv> (0x43 :: u8)"
abbreviation (input) "AVRCP_OPERATION_PLAY \<equiv> (0x44 :: u8)"
abbreviation (input) "AVRCP_OPERATION_STOP \<equiv> (0x45 :: u8)"
abbreviation (input) "AVRCP_OPERATION_PAUSE \<equiv> (0x46 :: u8)"
abbreviation (input) "AVRCP_OPERATION_FORWARD \<equiv> (0x4B :: u8)"
abbreviation (input) "AVRCP_OPERATION_BACKWARD \<equiv> (0x4C :: u8)"
abbreviation (input) "AVRCP_MAX_CONTROL_PACKET \<equiv> (64 :: nat)"
abbreviation (input) "AVRCP_PANEL_SUBUNIT_TYPE \<equiv> (0x09 :: u8)"
abbreviation (input) "AVRCP_PANEL_SUBUNIT_ID \<equiv> (0x00 :: u8)"

datatype avrcp_status =
  AVRCP_OK | AVRCP_INVALID_ARGUMENT | AVRCP_TRUNCATED | AVRCP_UNSUPPORTED_FRAGMENT
| AVRCP_PROTOCOL_ERROR | AVRCP_NO_SPACE | AVRCP_UNEXPECTED_RESPONSE

fun avrcp_status_code :: "avrcp_status \<Rightarrow> int" where
  "avrcp_status_code AVRCP_OK = 0"
| "avrcp_status_code AVRCP_INVALID_ARGUMENT = - 1"
| "avrcp_status_code AVRCP_TRUNCATED = - 2"
| "avrcp_status_code AVRCP_UNSUPPORTED_FRAGMENT = - 3"
| "avrcp_status_code AVRCP_PROTOCOL_ERROR = - 4"
| "avrcp_status_code AVRCP_NO_SPACE = - 5"
| "avrcp_status_code AVRCP_UNEXPECTED_RESPONSE = - 6"

datatype avctp_packet_type =
  AVCTP_PACKET_SINGLE | AVCTP_PACKET_START | AVCTP_PACKET_CONTINUE | AVCTP_PACKET_END

definition avctp_packet_type_of :: "u8 \<Rightarrow> avctp_packet_type" where
  "avctp_packet_type_of c =
     (if c = 0 then AVCTP_PACKET_SINGLE else if c = 1 then AVCTP_PACKET_START
      else if c = 2 then AVCTP_PACKET_CONTINUE else AVCTP_PACKET_END)"

record avrcp_frame =
  af_transaction_label :: u8
  af_packet_type :: avctp_packet_type
  af_command_response :: u8
  af_invalid_profile_id :: u8
  af_profile_id :: u32
  af_ctype_or_response :: u8
  af_subunit_type :: u8
  af_subunit_id :: u8
  af_opcode :: u8
  af_operands_offset :: nat
  af_operands_size :: nat

definition avrcp_frame_zero :: avrcp_frame where
  "avrcp_frame_zero =
     \<lparr>af_transaction_label = 0, af_packet_type = AVCTP_PACKET_SINGLE, af_command_response = 0,
      af_invalid_profile_id = 0, af_profile_id = 0, af_ctype_or_response = 0, af_subunit_type = 0,
      af_subunit_id = 0, af_opcode = 0, af_operands_offset = 0, af_operands_size = 0\<rparr>"

record avrcp_vendor_frame =
  av_frame :: avrcp_frame
  av_company_id :: u32
  av_pdu_id :: u8
  av_pdu_packet_type :: u8
  av_parameters_offset :: nat
  av_parameters_size :: nat

record avrcp_pass_through =
  ap_frame :: avrcp_frame
  ap_operation_id :: u8
  ap_released :: bool
  ap_operation_data_offset :: nat
  ap_operation_data_size :: nat

text \<open>The frame is filled in as far as the packet was read, also when the status is an error.\<close>

definition avrcp_parse_frame :: "bytes \<Rightarrow> avrcp_frame \<Rightarrow> avrcp_status \<times> avrcp_frame" where
  "avrcp_parse_frame packet out =
     (if length packet < 6 then (AVRCP_TRUNCATED, out)
      else
        let first = packet ! 0;
            f = avrcp_frame_zero
              \<lparr>af_transaction_label := drop_bit 4 first,
               af_packet_type := avctp_packet_type_of (drop_bit 2 first AND 0x03),
               af_command_response := drop_bit 1 first AND 0x01,
               af_invalid_profile_id := first AND 0x01,
               af_profile_id := push_bit 8 (ucast (packet ! 1)) OR ucast (packet ! 2)\<rparr>
        in if af_packet_type f \<noteq> AVCTP_PACKET_SINGLE then (AVRCP_UNSUPPORTED_FRAGMENT, f)
           else if af_invalid_profile_id f \<noteq> 0 \<or> af_profile_id f \<noteq> AVRCP_PROFILE_ID \<or>
                   packet ! 3 AND 0xF0 \<noteq> 0
           then (AVRCP_PROTOCOL_ERROR, f)
           else
             let f1 = f\<lparr>af_ctype_or_response := packet ! 3 AND 0x0F,
                        af_subunit_type := drop_bit 3 (packet ! 4),
                        af_subunit_id := packet ! 4 AND 0x07, af_opcode := packet ! 5,
                        af_operands_offset := 6, af_operands_size := length packet - 6\<rparr>
             in if af_subunit_type f1 \<noteq> AVRCP_PANEL_SUBUNIT_TYPE \<or>
                   af_subunit_id f1 \<noteq> AVRCP_PANEL_SUBUNIT_ID
                then (AVRCP_PROTOCOL_ERROR, f1)
                else (AVRCP_OK, f1))"

text \<open>The loops over the bytes behind the parameters: they must all be zero.\<close>

definition padding_is_zero :: "bytes \<Rightarrow> nat \<Rightarrow> bool" where
  "padding_is_zero packet index = list_all (\<lambda>b. b = 0) (drop index packet)"

definition avrcp_parse_vendor_frame :: "bytes \<Rightarrow> avrcp_status \<times> avrcp_vendor_frame" where
  "avrcp_parse_vendor_frame packet =
     (let (status, frame) = avrcp_parse_frame packet avrcp_frame_zero;
          out = \<lparr>av_frame = frame, av_company_id = 0, av_pdu_id = 0, av_pdu_packet_type = 0,
                 av_parameters_offset = 0, av_parameters_size = 0\<rparr>
      in if status \<noteq> AVRCP_OK then (status, out)
         else if af_opcode frame \<noteq> AVRCP_OPCODE_VENDOR_DEPENDENT then (AVRCP_PROTOCOL_ERROR, out)
         else if af_operands_size frame < 7 then (AVRCP_TRUNCATED, out)
         else
           let parameters_size =
                 unat (push_bit 8 (ucast (packet ! 11)) OR ucast (packet ! 12) :: u64);
               v = out\<lparr>av_company_id := push_bit 16 (ucast (packet ! 6)) OR
                         push_bit 8 (ucast (packet ! 7)) OR ucast (packet ! 8),
                       av_pdu_id := packet ! 9, av_pdu_packet_type := packet ! 10 AND 0x03,
                       av_parameters_offset := 13, av_parameters_size := parameters_size\<rparr>
           in if av_company_id v \<noteq> AVRCP_COMPANY_ID_BLUETOOTH_SIG \<or>
                 packet ! 10 AND 0xFC \<noteq> 0 \<or> av_pdu_packet_type v \<noteq> 0
              then (AVRCP_PROTOCOL_ERROR, v)
              else if parameters_size > length packet - 13 then (AVRCP_TRUNCATED, v)
              else if \<not> padding_is_zero packet (13 + parameters_size)
              then (AVRCP_PROTOCOL_ERROR, v)
              else (AVRCP_OK, v))"

definition avrcp_parse_pass_through :: "bytes \<Rightarrow> avrcp_status \<times> avrcp_pass_through" where
  "avrcp_parse_pass_through packet =
     (let (status, frame) = avrcp_parse_frame packet avrcp_frame_zero;
          out = \<lparr>ap_frame = frame, ap_operation_id = 0, ap_released = False,
                 ap_operation_data_offset = 0, ap_operation_data_size = 0\<rparr>
      in if status \<noteq> AVRCP_OK then (status, out)
         else if af_opcode frame \<noteq> AVRCP_OPCODE_PASS_THROUGH \<or> af_operands_size frame < 2
         then (if af_operands_size frame < 2 then AVRCP_TRUNCATED else AVRCP_PROTOCOL_ERROR, out)
         else
           let operation_data_size = unat (packet ! 7);
               p = out\<lparr>ap_operation_id := packet ! 6 AND 0x7F,
                       ap_released := packet ! 6 AND 0x80 \<noteq> 0,
                       ap_operation_data_offset := 8,
                       ap_operation_data_size := operation_data_size\<rparr>
           in if operation_data_size > length packet - 8 then (AVRCP_TRUNCATED, p)
              else if \<not> padding_is_zero packet (8 + operation_data_size)
              then (AVRCP_PROTOCOL_ERROR, p)
              else (AVRCP_OK, p))"

section \<open>Writers\<close>

definition avrcp_write_vendor_frame :: "nat \<Rightarrow> u8 \<Rightarrow> u8 \<Rightarrow> u8 \<Rightarrow> bytes \<Rightarrow> bytes" where
  "avrcp_write_vendor_frame out_size header0 ctype pdu_id parameters =
     (let parameters_size = length parameters; required = 13 + parameters_size
      in if header0 AND 0x0D \<noteq> 0 \<or> parameters_size > 0xFFFF \<or> out_size < required then []
         else [header0, ucast (drop_bit 8 AVRCP_PROFILE_ID), ucast (AVRCP_PROFILE_ID AND 0xFF),
               ctype, push_bit 3 AVRCP_PANEL_SUBUNIT_TYPE OR AVRCP_PANEL_SUBUNIT_ID,
               AVRCP_OPCODE_VENDOR_DEPENDENT, ucast (drop_bit 16 AVRCP_COMPANY_ID_BLUETOOTH_SIG),
               ucast (drop_bit 8 AVRCP_COMPANY_ID_BLUETOOTH_SIG),
               ucast (AVRCP_COMPANY_ID_BLUETOOTH_SIG AND 0xFF), pdu_id, 0,
               ucast (drop_bit 8 (of_nat parameters_size :: u64)),
               ucast (of_nat parameters_size :: u64)] @ parameters)"

definition avrcp_write_vendor_command :: "nat \<Rightarrow> u8 \<Rightarrow> u8 \<Rightarrow> u8 \<Rightarrow> bytes \<Rightarrow> bytes" where
  "avrcp_write_vendor_command out_size transaction_label ctype pdu_id parameters =
     (if transaction_label > 0x0F then []
      else avrcp_write_vendor_frame out_size (push_bit 4 transaction_label) ctype pdu_id parameters)"

definition avrcp_write_vendor_response :: "nat \<Rightarrow> u8 \<Rightarrow> u8 \<Rightarrow> u8 \<Rightarrow> bytes \<Rightarrow> bytes" where
  "avrcp_write_vendor_response out_size transaction_label response pdu_id parameters =
     (if transaction_label > 0x0F then []
      else avrcp_write_vendor_frame out_size (push_bit 4 transaction_label OR 0x02) response pdu_id
             parameters)"

definition avrcp_write_get_capabilities_events :: "nat \<Rightarrow> u8 \<Rightarrow> bytes" where
  "avrcp_write_get_capabilities_events out_size transaction_label =
     avrcp_write_vendor_command out_size transaction_label AVRCP_CTYPE_STATUS
       AVRCP_PDU_GET_CAPABILITIES [AVRCP_CAPABILITY_EVENTS_SUPPORTED]"

definition avrcp_write_set_absolute_volume :: "nat \<Rightarrow> u8 \<Rightarrow> u8 \<Rightarrow> bytes" where
  "avrcp_write_set_absolute_volume out_size transaction_label volume =
     (if volume > 0x7F then []
      else avrcp_write_vendor_command out_size transaction_label AVRCP_CTYPE_CONTROL
             AVRCP_PDU_SET_ABSOLUTE_VOLUME [volume])"

definition avrcp_write_notification_changed :: "nat \<Rightarrow> u8 \<Rightarrow> u8 \<Rightarrow> bytes \<Rightarrow> bytes" where
  "avrcp_write_notification_changed out_size transaction_label event_id payload =
     (if length payload > 8 then []
      else avrcp_write_vendor_response out_size transaction_label AVRCP_RESPONSE_CHANGED
             AVRCP_PDU_REGISTER_NOTIFICATION (event_id # payload))"

definition avrcp_write_register_notification :: "nat \<Rightarrow> u8 \<Rightarrow> u8 \<Rightarrow> u32 \<Rightarrow> bytes" where
  "avrcp_write_register_notification out_size transaction_label event_id playback_interval_seconds =
     avrcp_write_vendor_command out_size transaction_label AVRCP_CTYPE_NOTIFY
       AVRCP_PDU_REGISTER_NOTIFICATION
       [event_id, ucast (drop_bit 24 playback_interval_seconds),
        ucast (drop_bit 16 playback_interval_seconds),
        ucast (drop_bit 8 playback_interval_seconds), ucast playback_interval_seconds]"

definition avrcp_write_pass_through_response :: "nat \<Rightarrow> bytes \<Rightarrow> u8 \<Rightarrow> bytes" where
  "avrcp_write_pass_through_response out_size command response_code =
     (if response_code \<noteq> AVRCP_RESPONSE_ACCEPTED \<and> response_code \<noteq> AVRCP_RESPONSE_REJECTED \<and>
         response_code \<noteq> AVRCP_RESPONSE_NOT_IMPLEMENTED
      then []
      else
        let (status, parsed) = avrcp_parse_pass_through command
        in if status \<noteq> AVRCP_OK \<or> af_command_response (ap_frame parsed) \<noteq> 0 then []
           else
             let frame_size = min (length command) 8; out = take frame_size command
             in if out_size < frame_size then []
                else out[0 := out ! 0 OR 0x02, 3 := response_code])"

section \<open>The observer\<close>

datatype avrcp_observer_state =
  AVRCP_OBSERVER_IDLE | AVRCP_OBSERVER_WAIT_CAPABILITIES | AVRCP_OBSERVER_WAIT_VOLUME_INTERIM
| AVRCP_OBSERVER_OBSERVING | AVRCP_OBSERVER_UNSUPPORTED | AVRCP_OBSERVER_FAILED

datatype avrcp_observer_event_kind =
  AVRCP_OBSERVER_EVENT_NONE | AVRCP_OBSERVER_EVENT_VOLUME_CAPABILITY
| AVRCP_OBSERVER_EVENT_VOLUME_CHANGED | AVRCP_OBSERVER_EVENT_PASS_THROUGH
| AVRCP_OBSERVER_EVENT_VENDOR_COMMAND | AVRCP_OBSERVER_EVENT_WRITE_RESPONSE
| AVRCP_OBSERVER_EVENT_PROTOCOL_ERROR

record avrcp_observer_event =
  ae_kind :: avrcp_observer_event_kind
  ae_volume_supported :: bool
  ae_absolute_volume :: u8
  ae_operation_id :: u8
  ae_released :: bool
  ae_response_code :: u8
  ae_pdu_id :: u8
  ae_parameter_bytes :: bytes
  ae_error_stage :: u8
  ae_error_code :: int
  ae_raw_prefix :: bytes
  ae_raw_total_size :: u16

definition avrcp_observer_event_zero :: avrcp_observer_event where
  "avrcp_observer_event_zero =
     \<lparr>ae_kind = AVRCP_OBSERVER_EVENT_NONE, ae_volume_supported = False, ae_absolute_volume = 0,
      ae_operation_id = 0, ae_released = False, ae_response_code = 0, ae_pdu_id = 0,
      ae_parameter_bytes = [], ae_error_stage = 0, ae_error_code = 0, ae_raw_prefix = [],
      ae_raw_total_size = 0\<rparr>"

record avrcp_observer_result =
  ar_packet :: bytes
  ar_event :: avrcp_observer_event

record avrcp_observer =
  ob_state :: avrcp_observer_state
  ob_next_transaction_label :: u8
  ob_pending_transaction_label :: u8
  ob_pending_pdu_id :: u8
  ob_write_label :: u8
  ob_write_pdu_id :: u8
  ob_write_active :: bool
  ob_volume_supported :: bool
  ob_last_absolute_volume :: u8
  ob_last_absolute_volume_valid :: bool
  ob_playback_status :: u8
  ob_playback_status_valid :: bool
  ob_playback_notification_label :: u8
  ob_playback_notification_active :: bool
  ob_playback_notification_pending :: bool

definition avrcp_make_result :: avrcp_observer_result where
  "avrcp_make_result = \<lparr>ar_packet = [], ar_event = avrcp_observer_event_zero\<rparr>"

definition avrcp_next_label :: "avrcp_observer \<Rightarrow> avrcp_observer \<times> u8" where
  "avrcp_next_label observer =
     (let label = ob_next_transaction_label observer
      in (observer\<lparr>ob_next_transaction_label := (label + 1) AND 0x0F\<rparr>, label))"

definition avrcp_is_valid_playback_status :: "u8 \<Rightarrow> bool" where
  "avrcp_is_valid_playback_status status \<longleftrightarrow>
     status = AVRCP_PLAYBACK_STATUS_STOPPED \<or> status = AVRCP_PLAYBACK_STATUS_PLAYING \<or>
     status = AVRCP_PLAYBACK_STATUS_PAUSED"

definition avrcp_current_playback_status :: "avrcp_observer \<Rightarrow> u8" where
  "avrcp_current_playback_status observer =
     (if ob_playback_status_valid observer \<and>
         avrcp_is_valid_playback_status (ob_playback_status observer)
      then ob_playback_status observer else AVRCP_PLAYBACK_STATUS_STOPPED)"

definition avrcp_observer_init :: avrcp_observer where
  "avrcp_observer_init =
     \<lparr>ob_state = AVRCP_OBSERVER_IDLE, ob_next_transaction_label = 0,
      ob_pending_transaction_label = 0, ob_pending_pdu_id = 0, ob_write_label = 0,
      ob_write_pdu_id = 0, ob_write_active = False, ob_volume_supported = False,
      ob_last_absolute_volume = 0, ob_last_absolute_volume_valid = False, ob_playback_status = 0,
      ob_playback_status_valid = False, ob_playback_notification_label = 0,
      ob_playback_notification_active = False, ob_playback_notification_pending = False\<rparr>"

definition avrcp_observer_fail_stage ::
  "avrcp_observer \<Rightarrow> int \<Rightarrow> u8 \<Rightarrow> bytes \<Rightarrow> avrcp_observer \<times> avrcp_observer_result" where
  "avrcp_observer_fail_stage observer error_code error_stage packet =
     (observer\<lparr>ob_state := AVRCP_OBSERVER_FAILED\<rparr>,
      avrcp_make_result\<lparr>ar_event := avrcp_observer_event_zero
        \<lparr>ae_kind := AVRCP_OBSERVER_EVENT_PROTOCOL_ERROR, ae_error_stage := error_stage,
         ae_error_code := error_code,
         ae_raw_total_size := (if length packet > 0xFFFF then 0xFFFF else of_nat (length packet)),
         ae_raw_prefix := take 64 packet\<rparr>\<rparr>)"

definition avrcp_observer_fail ::
  "avrcp_observer \<Rightarrow> int \<Rightarrow> avrcp_observer \<times> avrcp_observer_result" where
  "avrcp_observer_fail observer error_code = avrcp_observer_fail_stage observer error_code 0 []"

definition avrcp_observer_register_volume ::
  "avrcp_observer \<Rightarrow> avrcp_observer_event \<Rightarrow> avrcp_observer \<times> avrcp_observer_result" where
  "avrcp_observer_register_volume observer event =
     (let (observer1, label) = avrcp_next_label observer;
          observer2 = observer1\<lparr>ob_pending_transaction_label := label,
                                ob_pending_pdu_id := AVRCP_PDU_REGISTER_NOTIFICATION,
                                ob_state := AVRCP_OBSERVER_WAIT_VOLUME_INTERIM\<rparr>;
          packet = avrcp_write_register_notification AVRCP_MAX_CONTROL_PACKET label
                     AVRCP_EVENT_VOLUME_CHANGED 0
      in if packet = [] then avrcp_observer_fail observer2 (avrcp_status_code AVRCP_NO_SPACE)
         else (observer2, \<lparr>ar_packet = packet, ar_event = event\<rparr>))"

definition avrcp_observer_begin :: "avrcp_observer \<Rightarrow> avrcp_observer \<times> avrcp_observer_result" where
  "avrcp_observer_begin observer =
     (if ob_state observer \<noteq> AVRCP_OBSERVER_IDLE
      then avrcp_observer_fail observer (avrcp_status_code AVRCP_UNEXPECTED_RESPONSE)
      else
        let (observer1, label) = avrcp_next_label observer;
            observer2 = observer1\<lparr>ob_pending_transaction_label := label,
                                  ob_pending_pdu_id := AVRCP_PDU_GET_CAPABILITIES,
                                  ob_state := AVRCP_OBSERVER_WAIT_CAPABILITIES\<rparr>;
            packet = avrcp_write_get_capabilities_events AVRCP_MAX_CONTROL_PACKET label
        in if packet = [] then avrcp_observer_fail observer2 (avrcp_status_code AVRCP_NO_SPACE)
           else (observer2, avrcp_make_result\<lparr>ar_packet := packet\<rparr>))"

definition known_operation :: "u8 \<Rightarrow> bool" where
  "known_operation operation_id \<longleftrightarrow>
     operation_id = AVRCP_OPERATION_VOLUME_UP \<or> operation_id = AVRCP_OPERATION_VOLUME_DOWN \<or>
     operation_id = AVRCP_OPERATION_MUTE \<or> operation_id = AVRCP_OPERATION_PLAY \<or>
     operation_id = AVRCP_OPERATION_STOP \<or> operation_id = AVRCP_OPERATION_PAUSE \<or>
     operation_id = AVRCP_OPERATION_FORWARD \<or> operation_id = AVRCP_OPERATION_BACKWARD"

definition avrcp_observer_handle_pass_through ::
  "avrcp_observer \<Rightarrow> bytes \<Rightarrow> avrcp_observer \<times> avrcp_observer_result" where
  "avrcp_observer_handle_pass_through observer packet =
     (let (status, parsed) = avrcp_parse_pass_through packet
      in if status \<noteq> AVRCP_OK \<or> af_command_response (ap_frame parsed) \<noteq> 0 \<or>
            af_ctype_or_response (ap_frame parsed) \<noteq> AVRCP_CTYPE_CONTROL
         then avrcp_observer_fail_stage observer (avrcp_status_code AVRCP_PROTOCOL_ERROR) 5 packet
         else
           let response = if known_operation (ap_operation_id parsed)
                          then AVRCP_RESPONSE_ACCEPTED else AVRCP_RESPONSE_NOT_IMPLEMENTED;
               reply = avrcp_write_pass_through_response AVRCP_MAX_CONTROL_PACKET packet response
           in if reply = [] then avrcp_observer_fail observer (avrcp_status_code AVRCP_NO_SPACE)
              else (observer,
                    \<lparr>ar_packet = reply,
                     ar_event = avrcp_observer_event_zero
                       \<lparr>ae_kind := AVRCP_OBSERVER_EVENT_PASS_THROUGH,
                        ae_operation_id := ap_operation_id parsed,
                        ae_released := ap_released parsed\<rparr>\<rparr>))"

definition avrcp_capabilities_include_volume :: "bytes \<Rightarrow> bool" where
  "avrcp_capabilities_include_volume parameters =
     (if length parameters < 2 \<or> parameters ! 0 \<noteq> AVRCP_CAPABILITY_EVENTS_SUPPORTED then False
      else if length parameters \<noteq> unat (parameters ! 1) + 2 then False
      else list_ex (\<lambda>event. event = AVRCP_EVENT_VOLUME_CHANGED) (drop 2 parameters))"

text \<open>
  The response to a vendor dependent command of the headset, with its parameters: the chain of
  conditions of \<open>avrcp_observer_handle_vendor_command\<close>.
\<close>

definition vendor_command_response ::
  "avrcp_observer \<Rightarrow> u8 \<Rightarrow> u8 \<Rightarrow> bytes \<Rightarrow> avrcp_observer \<times> u8 \<times> bytes" where
  "vendor_command_response observer transaction_label pdu_id parameters =
     (if pdu_id = AVRCP_PDU_GET_CAPABILITIES \<and> length parameters \<ge> 1 \<and>
         parameters ! 0 = AVRCP_CAPABILITY_EVENTS_SUPPORTED
      then (observer, AVRCP_RESPONSE_STABLE,
            [AVRCP_CAPABILITY_EVENTS_SUPPORTED, 3, AVRCP_EVENT_PLAYBACK_STATUS_CHANGED,
             AVRCP_EVENT_TRACK_CHANGED, AVRCP_EVENT_VOLUME_CHANGED])
      else if pdu_id = AVRCP_PDU_REGISTER_NOTIFICATION \<and> length parameters \<ge> 1
      then
        (let event_id = parameters ! 0
         in if event_id = AVRCP_EVENT_PLAYBACK_STATUS_CHANGED
            then (observer\<lparr>ob_playback_notification_label := transaction_label,
                           ob_playback_notification_active := True,
                           ob_playback_notification_pending := False\<rparr>,
                  AVRCP_RESPONSE_INTERIM,
                  [AVRCP_EVENT_PLAYBACK_STATUS_CHANGED, avrcp_current_playback_status observer])
            else if event_id = AVRCP_EVENT_TRACK_CHANGED
            then (observer, AVRCP_RESPONSE_INTERIM, AVRCP_EVENT_TRACK_CHANGED # replicate 8 0)
            else if event_id = AVRCP_EVENT_VOLUME_CHANGED
            then (observer, AVRCP_RESPONSE_INTERIM,
                  [AVRCP_EVENT_VOLUME_CHANGED,
                   if ob_last_absolute_volume_valid observer
                   then ob_last_absolute_volume observer else 0])
            else (observer, AVRCP_RESPONSE_NOT_IMPLEMENTED, []))
      else if pdu_id = AVRCP_PDU_GET_PLAY_STATUS
      then (observer, AVRCP_RESPONSE_STABLE,
            avrcp_current_playback_status observer # replicate 8 0)
      else (observer, AVRCP_RESPONSE_NOT_IMPLEMENTED, []))"

definition vendor_parameters :: "bytes \<Rightarrow> avrcp_vendor_frame \<Rightarrow> bytes" where
  "vendor_parameters packet vendor =
     take (av_parameters_size vendor) (drop (av_parameters_offset vendor) packet)"

definition avrcp_observer_handle_vendor_command ::
  "avrcp_observer \<Rightarrow> bytes \<Rightarrow> avrcp_vendor_frame \<Rightarrow> avrcp_observer \<times> avrcp_observer_result" where
  "avrcp_observer_handle_vendor_command observer packet vendor =
     (let parameters = vendor_parameters packet vendor;
          label = af_transaction_label (av_frame vendor);
          (observer1, response, response_parameters) =
            vendor_command_response observer label (av_pdu_id vendor) parameters;
          reply = avrcp_write_vendor_response AVRCP_MAX_CONTROL_PACKET label response
                    (av_pdu_id vendor) response_parameters
      in if reply = [] then avrcp_observer_fail observer1 (avrcp_status_code AVRCP_NO_SPACE)
         else (observer1,
               \<lparr>ar_packet = reply,
                ar_event = avrcp_observer_event_zero
                  \<lparr>ae_kind := AVRCP_OBSERVER_EVENT_VENDOR_COMMAND, ae_pdu_id := av_pdu_id vendor,
                   ae_parameter_bytes := take 8 parameters\<rparr>\<rparr>))"

definition avrcp_observer_submit_playback_status ::
  "avrcp_observer \<Rightarrow> u8 \<Rightarrow> avrcp_observer \<times> avrcp_observer_result" where
  "avrcp_observer_submit_playback_status observer playback_status =
     (if \<not> avrcp_is_valid_playback_status playback_status \<or>
         ob_state observer = AVRCP_OBSERVER_IDLE \<or> ob_state observer = AVRCP_OBSERVER_FAILED
      then (observer, avrcp_make_result)
      else
        let observer1 = observer\<lparr>ob_playback_status := playback_status,
                                 ob_playback_status_valid := True\<rparr>
        in if \<not> ob_playback_notification_active observer1
           then (observer1\<lparr>ob_playback_notification_pending := False\<rparr>, avrcp_make_result)
           else
             let observer2 = observer1\<lparr>ob_playback_notification_pending := True\<rparr>
             in if ob_write_active observer2 then (observer2, avrcp_make_result)
                else
                  let packet = avrcp_write_vendor_response AVRCP_MAX_CONTROL_PACKET
                        (ob_playback_notification_label observer2) AVRCP_RESPONSE_CHANGED
                        AVRCP_PDU_REGISTER_NOTIFICATION
                        [AVRCP_EVENT_PLAYBACK_STATUS_CHANGED, playback_status]
                  in (if packet \<noteq> []
                      then observer2\<lparr>ob_playback_notification_active := False,
                                     ob_playback_notification_pending := False\<rparr>
                      else observer2,
                      avrcp_make_result\<lparr>ar_packet := packet\<rparr>))"

definition avrcp_observer_submit_write ::
  "avrcp_observer \<Rightarrow> u8 \<Rightarrow> u8 \<Rightarrow> bytes \<Rightarrow> avrcp_observer \<times> avrcp_observer_result" where
  "avrcp_observer_submit_write observer pdu_id response_code parameters =
     (if pdu_id = 0 \<or> length parameters > 8 then (observer, avrcp_make_result)
      else if pdu_id = AVRCP_PDU_REGISTER_NOTIFICATION \<and> response_code = AVRCP_RESPONSE_CHANGED \<and>
              length parameters = 2 \<and> parameters ! 0 = AVRCP_EVENT_PLAYBACK_STATUS_CHANGED
      then avrcp_observer_submit_playback_status observer (parameters ! 1)
      else if ob_state observer = AVRCP_OBSERVER_IDLE \<or>
              ob_state observer = AVRCP_OBSERVER_FAILED \<or> ob_write_active observer
      then (observer, avrcp_make_result)
      else
        let (observer1, label) = avrcp_next_label observer;
            packet = (if response_code = 0
                      then avrcp_write_vendor_command AVRCP_MAX_CONTROL_PACKET label
                             AVRCP_CTYPE_CONTROL pdu_id parameters
                      else avrcp_write_vendor_response AVRCP_MAX_CONTROL_PACKET label
                             response_code pdu_id parameters);
            result = avrcp_make_result\<lparr>ar_packet := packet\<rparr>
        in if packet = [] then (observer1, result)
           else (observer1\<lparr>ob_write_label := label, ob_write_pdu_id := pdu_id,
                           ob_write_active := True\<rparr>, result))"

text \<open>The response to an outstanding write, and the notification that may go out behind it.\<close>

definition write_response ::
  "avrcp_observer \<Rightarrow> bytes \<Rightarrow> avrcp_vendor_frame \<Rightarrow> avrcp_observer \<times> avrcp_observer_result" where
  "write_response observer packet vendor =
     (let observer1 = observer\<lparr>ob_write_active := False\<rparr>;
          event = avrcp_observer_event_zero
            \<lparr>ae_kind := AVRCP_OBSERVER_EVENT_WRITE_RESPONSE,
             ae_response_code := af_ctype_or_response (av_frame vendor),
             ae_pdu_id := av_pdu_id vendor,
             ae_parameter_bytes := take 8 (vendor_parameters packet vendor)\<rparr>;
          (observer2, notification) =
            avrcp_observer_submit_playback_status observer1 (ob_playback_status observer1)
      in (observer2, \<lparr>ar_packet = ar_packet notification, ar_event = event\<rparr>))"

text \<open>The response to the observer's own pending command, by its state.\<close>

definition pending_response ::
  "avrcp_observer \<Rightarrow> bytes \<Rightarrow> avrcp_vendor_frame \<Rightarrow> avrcp_observer \<times> avrcp_observer_result" where
  "pending_response observer packet vendor =
     (let parameters = vendor_parameters packet vendor;
          response = af_ctype_or_response (av_frame vendor);
          unexpected = avrcp_status_code AVRCP_UNEXPECTED_RESPONSE
      in if ob_state observer = AVRCP_OBSERVER_WAIT_CAPABILITIES
         then
           if response \<noteq> AVRCP_RESPONSE_STABLE
           then avrcp_observer_fail_stage observer unexpected 4 packet
           else
             let supported = avrcp_capabilities_include_volume parameters;
                 observer1 = observer\<lparr>ob_volume_supported := supported\<rparr>;
                 event = avrcp_observer_event_zero
                   \<lparr>ae_kind := AVRCP_OBSERVER_EVENT_VOLUME_CAPABILITY,
                    ae_volume_supported := supported\<rparr>
             in if \<not> supported
                then (observer1\<lparr>ob_state := AVRCP_OBSERVER_UNSUPPORTED\<rparr>,
                      avrcp_make_result\<lparr>ar_event := event\<rparr>)
                else avrcp_observer_register_volume observer1 event
         else if (ob_state observer = AVRCP_OBSERVER_WAIT_VOLUME_INTERIM \<or>
                  ob_state observer = AVRCP_OBSERVER_OBSERVING) \<and>
                 length parameters = 2 \<and> parameters ! 0 = AVRCP_EVENT_VOLUME_CHANGED \<and>
                 parameters ! 1 \<le> 0x7F
         then
           let observer1 = observer\<lparr>ob_last_absolute_volume := parameters ! 1,
                                    ob_last_absolute_volume_valid := True\<rparr>;
               event = avrcp_observer_event_zero
                 \<lparr>ae_kind := AVRCP_OBSERVER_EVENT_VOLUME_CHANGED, ae_volume_supported := True,
                  ae_absolute_volume := parameters ! 1, ae_response_code := response\<rparr>
           in if response = AVRCP_RESPONSE_INTERIM \<and>
                 ob_state observer1 = AVRCP_OBSERVER_WAIT_VOLUME_INTERIM
              then (observer1\<lparr>ob_state := AVRCP_OBSERVER_OBSERVING\<rparr>,
                    avrcp_make_result\<lparr>ar_event := event\<rparr>)
              else if response = AVRCP_RESPONSE_CHANGED \<and>
                      ob_state observer1 = AVRCP_OBSERVER_OBSERVING
              then avrcp_observer_register_volume observer1 event
              else avrcp_observer_fail_stage observer1 unexpected 4 packet
         else avrcp_observer_fail_stage observer unexpected 4 packet)"

definition avrcp_observer_handle_packet ::
  "avrcp_observer \<Rightarrow> bytes \<Rightarrow> avrcp_observer \<times> avrcp_observer_result" where
  "avrcp_observer_handle_packet observer packet =
     (if ob_state observer = AVRCP_OBSERVER_IDLE \<or> ob_state observer = AVRCP_OBSERVER_FAILED
      then avrcp_observer_fail observer (avrcp_status_code AVRCP_UNEXPECTED_RESPONSE)
      else
        let (status, frame) = avrcp_parse_frame packet avrcp_frame_zero
        in if status \<noteq> AVRCP_OK
           then avrcp_observer_fail_stage observer (avrcp_status_code status) 1 packet
           else if af_opcode frame = AVRCP_OPCODE_PASS_THROUGH \<and> af_command_response frame = 0
           then avrcp_observer_handle_pass_through observer packet
           else
             let (vendor_status, vendor) = avrcp_parse_vendor_frame packet
             in if vendor_status \<noteq> AVRCP_OK
                then avrcp_observer_fail_stage observer (avrcp_status_code vendor_status) 2 packet
                else if ob_write_active observer \<and>
                        af_command_response (av_frame vendor) \<noteq> 0 \<and>
                        af_transaction_label (av_frame vendor) = ob_write_label observer \<and>
                        av_pdu_id vendor = ob_write_pdu_id observer
                then write_response observer packet vendor
                else if af_command_response (av_frame vendor) = 0
                then avrcp_observer_handle_vendor_command observer packet vendor
                else if af_transaction_label (av_frame vendor) \<noteq>
                          ob_pending_transaction_label observer \<or>
                        av_pdu_id vendor \<noteq> ob_pending_pdu_id observer
                then avrcp_observer_fail_stage observer
                       (avrcp_status_code AVRCP_UNEXPECTED_RESPONSE) 3 packet
                else pending_response observer packet vendor)"

section \<open>Bits and bytes of a header\<close>

lemma label_cases:
  assumes "l \<le> (0x0F :: u8)"
  shows "l \<in> {0, 1, 2, 3, 4, 5, 6, 7, 8, 9, 10, 11, 12, 13, 14, 15}"
proof -
  have "unat l \<le> 15" using assms by (simp add: word_le_nat_alt)
  then have "unat l \<in> {0, 1, 2, 3, 4, 5, 6, 7, 8, 9, 10, 11, 12, 13, 14, 15}" by (simp, arith)
  then have "of_nat (unat l) \<in> (of_nat ` {0, 1, 2, 3, 4, 5, 6, 7, 8, 9, 10, 11, 12, 13, 14, 15} :: u8 set)"
    by (rule imageI)
  then show ?thesis by simp
qed

lemma header_bits:
  assumes "l \<le> (0x0F :: u8)" "r = 0 \<or> r = 2"
  shows "drop_bit 4 (push_bit 4 l OR r) = l"
    "drop_bit 2 (push_bit 4 l OR r) AND 3 = 0"
    "drop_bit 1 (push_bit 4 l OR r) AND 1 = drop_bit 1 r"
    "(push_bit 4 l OR r) AND 1 = 0" "(push_bit 4 l OR r) AND 0x0D = 0"
  using label_cases [OF assms(1)] assms(2) by auto
lemma two_bytes:
  fixes w :: u64
  assumes "w \<le> 0xFFFF"
  shows "push_bit 8 (ucast (ucast (drop_bit 8 w) :: u8)) OR ucast (ucast w :: u8) = w"
proof -
  have "take_bit 16 w = w"
    using assms by (simp add: take_bit_eq_mod word_unat_eq_iff unat_mod word_le_nat_alt)
  then have "bit w m \<Longrightarrow> m < 16" for m by (metis bit_take_bit_iff)
  then show ?thesis by (intro bit_word_eqI) (fastforce simp: bit_simps)
qed

lemma size_bytes:
  assumes "n \<le> 0xFFFF"
  shows "unat (push_bit 8 (ucast (ucast (drop_bit 8 (of_nat n :: u64)) :: u8)) OR
    ucast (ucast (of_nat n :: u64) :: u8) :: u64) = n"
proof -
  have "unat (of_nat n :: u64) = n" using assms by (simp add: unat_of_nat)
  then show ?thesis using assms two_bytes [of "of_nat n"] by (simp only: word_le_nat_alt) simp
qed

section \<open>Written frames are read back\<close>

text \<open>The packet reads as the vendor dependent frame with these fields.\<close>

definition vendor_reads :: "bytes \<Rightarrow> bool \<Rightarrow> u8 \<Rightarrow> u8 \<Rightarrow> u8 \<Rightarrow> bytes \<Rightarrow> bool" where
  "vendor_reads packet response label ctype pdu_id parameters \<longleftrightarrow>
     (let (status, vendor) = avrcp_parse_vendor_frame packet
      in status = AVRCP_OK \<and>
         af_command_response (av_frame vendor) = (if response then 1 else 0) \<and>
         af_transaction_label (av_frame vendor) = label \<and>
         af_ctype_or_response (av_frame vendor) = ctype \<and> av_pdu_id vendor = pdu_id \<and>
         vendor_parameters packet vendor = parameters)"

lemma written_vendor_frame:
  assumes "label \<le> 0x0F" and "r = 0 \<or> r = 2" and "length parameters \<le> 0xFFFF"
    and "13 + length parameters \<le> out_size"
  shows "avrcp_write_vendor_frame out_size (push_bit 4 label OR r) ctype pdu_id parameters =
    [push_bit 4 label OR r, 0x11, 0x0E, ctype, 0x48, 0, 0, 0x19, 0x58, pdu_id, 0,
     ucast (drop_bit 8 (of_nat (length parameters) :: u64)),
     ucast (of_nat (length parameters) :: u64)] @ parameters"
  using assms header_bits(5) [OF assms(1,2)] by (simp add: avrcp_write_vendor_frame_def Let_def)

lemma parse_written_frame:
  assumes "label \<le> 0x0F" and "r = 0 \<or> r = 2" and "ctype AND 0xF0 = 0"
  shows "avrcp_parse_frame ((push_bit 4 label OR r) # 0x11 # 0x0E # ctype # 0x48 # opcode # rest) f =
    (AVRCP_OK,
     \<lparr>af_transaction_label = label, af_packet_type = AVCTP_PACKET_SINGLE,
      af_command_response = drop_bit 1 r, af_invalid_profile_id = 0,
      af_profile_id = AVRCP_PROFILE_ID, af_ctype_or_response = ctype AND 0x0F,
      af_subunit_type = AVRCP_PANEL_SUBUNIT_TYPE, af_subunit_id = AVRCP_PANEL_SUBUNIT_ID,
      af_opcode = opcode, af_operands_offset = 6, af_operands_size = length rest\<rparr>)"
  using assms(3) header_bits [OF assms(1,2)]
  by (simp add: avrcp_parse_frame_def avctp_packet_type_of_def avrcp_frame_zero_def Let_def)

lemma nibble: "ctype AND 0xF0 = 0 \<Longrightarrow> ctype AND 0x0F = (ctype :: u8)"
proof -
  assume "ctype AND 0xF0 = 0"
  moreover have "0xF0 OR 0x0F = (- 1 :: u8)" by simp
  then have "ctype = ctype AND 0xF0 OR ctype AND 0x0F"
    by (metis bit.conj_disj_distrib bit.conj_one_right)
  ultimately show ?thesis by simp
qed

lemma parse_written_vendor:
  assumes "label \<le> 0x0F" and "r = 0 \<or> r = 2" and "ctype AND 0xF0 = 0"
    and "length parameters \<le> 0xFFFF" and "13 + length parameters \<le> out_size"
    and packet_def: "packet =
      avrcp_write_vendor_frame out_size (push_bit 4 label OR r) ctype pdu_id parameters @ padding"
  shows "avrcp_parse_vendor_frame packet =
    (if list_all (\<lambda>b. b = 0) padding then AVRCP_OK else AVRCP_PROTOCOL_ERROR,
     \<lparr>av_frame = \<lparr>af_transaction_label = label, af_packet_type = AVCTP_PACKET_SINGLE,
        af_command_response = drop_bit 1 r, af_invalid_profile_id = 0,
        af_profile_id = AVRCP_PROFILE_ID, af_ctype_or_response = ctype,
        af_subunit_type = AVRCP_PANEL_SUBUNIT_TYPE, af_subunit_id = AVRCP_PANEL_SUBUNIT_ID,
        af_opcode = AVRCP_OPCODE_VENDOR_DEPENDENT, af_operands_offset = 6,
        af_operands_size = length packet - 6\<rparr>,
      av_company_id = AVRCP_COMPANY_ID_BLUETOOTH_SIG, av_pdu_id = pdu_id, av_pdu_packet_type = 0,
      av_parameters_offset = 13, av_parameters_size = length parameters\<rparr>)"
    (is "_ = ?result")
    and "length packet = 13 + length parameters + length padding"
    and "take (length parameters) (drop 13 packet) = parameters"
proof -
  let ?n = "of_nat (length parameters) :: u64"
  have packet: "packet = (push_bit 4 label OR r) # 0x11 # 0x0E # ctype # 0x48 # 0 #
      ([0, 0x19, 0x58, pdu_id, 0, ucast (drop_bit 8 ?n), ucast ?n] @ parameters @ padding)"
    using written_vendor_frame [OF assms(1,2,4,5), of ctype pdu_id] by (simp add: packet_def)
  have size: "unat (push_bit 8 (ucast (packet ! 11)) OR ucast (packet ! 12) :: u64) = length parameters"
    using size_bytes [OF assms(4)] by (simp add: packet)
  show "length packet = 13 + length parameters + length padding" by (simp add: packet)
  show "take (length parameters) (drop 13 packet) = parameters" by (simp add: packet)
  have frame: "avrcp_parse_frame packet avrcp_frame_zero =
      (AVRCP_OK,
       \<lparr>af_transaction_label = label, af_packet_type = AVCTP_PACKET_SINGLE,
        af_command_response = drop_bit 1 r, af_invalid_profile_id = 0,
        af_profile_id = AVRCP_PROFILE_ID, af_ctype_or_response = ctype,
        af_subunit_type = AVRCP_PANEL_SUBUNIT_TYPE, af_subunit_id = AVRCP_PANEL_SUBUNIT_ID,
        af_opcode = AVRCP_OPCODE_VENDOR_DEPENDENT, af_operands_offset = 6,
        af_operands_size = length packet - 6\<rparr>)"
    unfolding packet parse_written_frame [OF assms(1-3)] by (simp add: nibble [OF assms(3)])
  have bytes: "packet ! 6 = 0" "packet ! 7 = 0x19" "packet ! 8 = 0x58" "packet ! 9 = pdu_id"
    "packet ! 10 = 0" by (simp_all add: packet)
  have pad: "padding_is_zero packet (13 + length parameters) = list_all (\<lambda>b. b = 0) padding"
    by (simp add: padding_is_zero_def add.commute [of 13] packet flip: drop_drop)
  show "avrcp_parse_vendor_frame packet = ?result"
    using pad unfolding avrcp_parse_vendor_frame_def frame
    by (simp add: size bytes Let_def) (simp add: packet)
qed

lemma vendor_writers:
  "label \<le> 0x0F \<Longrightarrow> avrcp_write_vendor_command out_size label ctype pdu_id parameters =
     avrcp_write_vendor_frame out_size (push_bit 4 label OR 0) ctype pdu_id parameters"
  "label \<le> 0x0F \<Longrightarrow> avrcp_write_vendor_response out_size label ctype pdu_id parameters =
     avrcp_write_vendor_frame out_size (push_bit 4 label OR 2) ctype pdu_id parameters"
  by (simp_all add: avrcp_write_vendor_command_def avrcp_write_vendor_response_def leD)

lemma written_command_reads:
  assumes "label \<le> 0x0F" "ctype AND 0xF0 = 0" "length parameters \<le> 0xFFFF"
    "13 + length parameters \<le> out_size"
  shows "vendor_reads (avrcp_write_vendor_command out_size label ctype pdu_id parameters)
      False label ctype pdu_id parameters"
  using parse_written_vendor [OF assms(1) _ assms(2-4) refl, where r = 0 and padding = "[]" and pdu_id = pdu_id] assms(1)
  by (simp add: vendor_reads_def vendor_writers vendor_parameters_def)

lemma written_response_reads:
  assumes "label \<le> 0x0F" "ctype AND 0xF0 = 0" "length parameters \<le> 0xFFFF"
    "13 + length parameters \<le> out_size"
  shows "vendor_reads (avrcp_write_vendor_response out_size label ctype pdu_id parameters)
      True label ctype pdu_id parameters"
  using parse_written_vendor [OF assms(1) _ assms(2-4) refl, where r = 2 and padding = "[]" and pdu_id = pdu_id] assms(1)
  by (simp add: vendor_reads_def vendor_writers vendor_parameters_def)

lemma reads_nonempty: "vendor_reads packet response label ctype pdu_id parameters \<Longrightarrow> packet \<noteq> []"
  by (auto simp: vendor_reads_def avrcp_parse_vendor_frame_def avrcp_parse_frame_def)

lemmas parse_eval = avrcp_parse_frame_def avrcp_parse_vendor_frame_def avrcp_parse_pass_through_def
  avrcp_frame_zero_def avctp_packet_type_of_def padding_is_zero_def vendor_parameters_def Let_def

text \<open>C27: A written frame is read back.  A vendor dependent command or response that fits its buffer
  reads as the frame it was written from, with any number of zero bytes behind it, as the driver
  pads its transfers; anything else behind it is a protocol error.  A frame that does not fit, or
  whose label is no label, is not written.\<close>

theorem vendor_frame_round_trip:
  assumes "ctype AND 0xF0 = 0"
  shows "let packet = (if response then avrcp_write_vendor_response else avrcp_write_vendor_command)
               out_size label ctype pdu_id parameters
         in if label \<le> 0x0F \<and> length parameters \<le> 0xFFFF \<and> 13 + length parameters \<le> out_size
            then vendor_reads (packet @ replicate n 0) response label ctype pdu_id parameters \<and>
                 length packet = 13 + length parameters \<and>
                 (\<forall>b rest. b = 0 \<or>
                    fst (avrcp_parse_vendor_frame (packet @ replicate n 0 @ b # rest)) =
                      AVRCP_PROTOCOL_ERROR)
            else packet = []"
proof (cases "label \<le> 0x0F \<and> length parameters \<le> 0xFFFF \<and> 13 + length parameters \<le> out_size")
  case True
  note fits = conjunct1 [OF True] assms conjunct1 [OF conjunct2 [OF True]] conjunct2 [OF conjunct2 [OF True]]
  show ?thesis
    using True parse_written_vendor [OF fits(1) _ fits(2-4) refl, where r = 0 and padding = "replicate n 0" and pdu_id = pdu_id]
      parse_written_vendor [OF fits(1) _ fits(2-4) refl, where r = 2 and padding = "replicate n 0" and pdu_id = pdu_id]
      parse_written_vendor(1) [OF fits(1) _ fits(2-4) refl, where r = 0 and padding = "replicate n 0 @ _ # _" and pdu_id = pdu_id]
      parse_written_vendor(1) [OF fits(1) _ fits(2-4) refl, where r = 2 and padding = "replicate n 0 @ _ # _" and pdu_id = pdu_id]
      parse_written_vendor(2) [OF fits(1) _ fits(2-4) refl, where r = 0 and padding = "[]" and pdu_id = pdu_id]
      parse_written_vendor(2) [OF fits(1) _ fits(2-4) refl, where r = 2 and padding = "[]" and pdu_id = pdu_id]
    by (simp add: vendor_reads_def vendor_parameters_def vendor_writers Let_def list_all_iff)
next
  case False
  then show ?thesis
    by (auto simp: avrcp_write_vendor_command_def avrcp_write_vendor_response_def
        avrcp_write_vendor_frame_def Let_def)
qed

theorem vendor_frame_round_trip_witness:
  "vendor_reads (avrcp_write_vendor_response 64 7 AVRCP_RESPONSE_CHANGED
       AVRCP_PDU_REGISTER_NOTIFICATION [1, 2] @ replicate 3 0) True 7 AVRCP_RESPONSE_CHANGED
     AVRCP_PDU_REGISTER_NOTIFICATION [1, 2]"
  using vendor_frame_round_trip [of AVRCP_RESPONSE_CHANGED True 64 7 AVRCP_PDU_REGISTER_NOTIFICATION
      "[1, 2]" 3]
  by (simp add: Let_def del: replicate_Suc)

lemmas observer_eval = avrcp_observer_begin_def avrcp_observer_submit_write_def
  avrcp_observer_submit_playback_status_def avrcp_next_label_def avrcp_make_result_def
  avrcp_write_get_capabilities_events_def avrcp_write_vendor_command_def
  avrcp_write_vendor_response_def avrcp_write_vendor_frame_def avrcp_observer_init_def
  avrcp_observer_event_zero_def avrcp_is_valid_playback_status_def

section \<open>Every command is answered\<close>

lemma low_masks:
  "(x :: u8) AND 1 = take_bit 1 x" "x AND 3 = take_bit 2 x" "x AND 7 = take_bit 3 x" "x AND 0x0F = take_bit 4 x"
  by (simp_all add: take_bit_eq_mask mask_eq_exp_minus_1)

lemma header_from_bits:
  fixes h :: u8
  assumes "drop_bit 2 h AND 3 = 0" "drop_bit 1 h AND 1 = 0" "h AND 1 = 0"
  shows "h = push_bit 4 (drop_bit 4 h)"
proof -
  have "bit (take_bit 2 (drop_bit 2 h)) n = False" "bit (take_bit 1 (drop_bit 1 h)) n = False"
    "bit (take_bit 1 h) n = False" for n
    using assms by (simp_all add: low_masks del: take_bit_drop_bit)
  from this(1) [of 0] this(1) [of 1] this(2) [of 0] this(3) [of 0]
  have "\<not> bit h 0" "\<not> bit h 1" "\<not> bit h 2" "\<not> bit h 3"
    unfolding bit_take_bit_iff bit_drop_bit_eq by (simp_all del: bit_0)
  then have "\<not> bit h n" if "n < 4" for n
    using that by (auto simp: less_Suc_eq numeral_eq_Suc)
  then have "4 \<le> n" if "bit h n" for n using that by (meson not_le)
  then show ?thesis by (intro bit_word_eqI) (fastforce simp: bit_simps)
qed

lemma profile_bytes:
  fixes a b :: u8
  assumes "push_bit 8 (ucast a) OR ucast b = (0x110E :: u32)"
  shows "a = 0x11" "b = 0x0E"
proof -
  have "a = ucast (drop_bit 8 (push_bit 8 (ucast a) OR ucast b :: u32))"
    by (rule bit_word_eqI) (auto simp: bit_simps dest: bit_imp_le_length)
  then show "a = 0x11" by (simp add: assms)
  have "b = ucast (push_bit 8 (ucast a) OR ucast b :: u32)"
    by (rule bit_word_eqI) (auto simp: bit_simps dest: bit_imp_le_length)
  then show "b = 0x0E" by (simp add: assms)
qed

lemma panel_byte:
  fixes x :: u8
  assumes "drop_bit 3 x = 9" "x AND 7 = 0"
  shows "x = 0x48"
  using bits_ident [of 3 x] assms by (simp add: low_masks)

lemma label_bits: "drop_bit 4 (x :: u8) \<le> 0x0F"
proof -
  have "unat x < 256" using unsigned_less [of x] by simp
  then show ?thesis by (simp add: word_le_nat_alt drop_bit_eq_div unat_div)
qed

lemma parse_frame_ok:
  assumes "avrcp_parse_frame packet f0 = (AVRCP_OK, f)"
  shows "6 \<le> length packet" "af_transaction_label f \<le> 0x0F"
    "af_operands_size f = length packet - 6" "af_opcode f = packet ! 5"
    "af_command_response f = 0 \<Longrightarrow> take 6 packet =
       [push_bit 4 (af_transaction_label f), 0x11, 0x0E, af_ctype_or_response f, 0x48, af_opcode f]"
proof -
  have long: "6 \<le> length packet" and
    single: "drop_bit 2 (packet ! 0) AND 3 = 0" "packet ! 0 AND 1 = 0" and
    cr: "af_command_response f = drop_bit 1 (packet ! 0) AND 1" and
    label: "af_transaction_label f = drop_bit 4 (packet ! 0)" and
    profile: "push_bit 8 (ucast (packet ! 1)) OR ucast (packet ! 2) = (0x110E :: u32)" and
    ctype: "packet ! 3 AND 0xF0 = 0" "af_ctype_or_response f = packet ! 3 AND 0x0F" and
    panel: "drop_bit 3 (packet ! 4) = 9" "packet ! 4 AND 7 = 0" and
    opcode: "af_opcode f = packet ! 5" and operands: "af_operands_size f = length packet - 6"
    using assms by (auto simp: avrcp_parse_frame_def avctp_packet_type_of_def Let_def avrcp_frame_zero_def
        split: if_splits)
  show "6 \<le> length packet" "af_transaction_label f \<le> 0x0F" "af_operands_size f = length packet - 6"
    "af_opcode f = packet ! 5"
    using long label operands opcode label_bits by simp_all
  have "take 6 packet = [packet ! 0, packet ! 1, packet ! 2, packet ! 3, packet ! 4, packet ! 5]"
    using long by (intro nth_equalityI) (auto simp: less_Suc_eq numeral_eq_Suc)
  then show "take 6 packet =
       [push_bit 4 (af_transaction_label f), 0x11, 0x0E, af_ctype_or_response f, 0x48, af_opcode f]"
    if "af_command_response f = 0"
    using header_from_bits [OF single(1) _ single(2)] that cr label profile_bytes [OF profile]
      panel_byte [OF panel] nibble [OF ctype(1)] ctype(2) opcode by simp
qed

lemma parse_vendor_ok:
  assumes "avrcp_parse_vendor_frame packet = (AVRCP_OK, v)"
  shows "avrcp_parse_frame packet avrcp_frame_zero = (AVRCP_OK, av_frame v)" "af_opcode (av_frame v) = 0"
  using assms
  by (auto simp: avrcp_parse_vendor_frame_def Let_def case_prod_beta prod_eq_iff split: if_splits)

lemma parse_pass_through_ok:
  assumes "avrcp_parse_pass_through packet = (AVRCP_OK, p)"
  shows "avrcp_parse_frame packet avrcp_frame_zero = (AVRCP_OK, ap_frame p)"
    "af_opcode (ap_frame p) = AVRCP_OPCODE_PASS_THROUGH" "8 \<le> length packet"
    "ap_operation_id p = packet ! 6 AND 0x7F" "ap_released p = (packet ! 6 AND 0x80 \<noteq> 0)"
    "ap_operation_data_size p = unat (packet ! 7)"
proof -
  have *: "avrcp_parse_frame packet avrcp_frame_zero = (AVRCP_OK, ap_frame p)"
    "af_opcode (ap_frame p) = AVRCP_OPCODE_PASS_THROUGH" "2 \<le> af_operands_size (ap_frame p)"
    "ap_operation_id p = packet ! 6 AND 0x7F" "ap_released p = (packet ! 6 AND 0x80 \<noteq> 0)"
    "ap_operation_data_size p = unat (packet ! 7)"
    using assms by (auto simp: avrcp_parse_pass_through_def Let_def case_prod_beta prod_eq_iff
        split: if_splits)
  then show "avrcp_parse_frame packet avrcp_frame_zero = (AVRCP_OK, ap_frame p)"
    "af_opcode (ap_frame p) = AVRCP_OPCODE_PASS_THROUGH"
    "ap_operation_id p = packet ! 6 AND 0x7F" "ap_released p = (packet ! 6 AND 0x80 \<noteq> 0)"
    "ap_operation_data_size p = unat (packet ! 7)" by simp_all
  show "8 \<le> length packet" using parse_frame_ok(3) [OF *(1)] *(3) by simp
qed

lemma vendor_response_writable:
  "fst (snd (vendor_command_response observer label pdu_id parameters)) AND 0xF0 = 0"
  "length (snd (snd (vendor_command_response observer label pdu_id parameters))) \<le> 9"
  "ob_state (fst (vendor_command_response observer label pdu_id parameters)) = ob_state observer"
  by (simp_all add: vendor_command_response_def Let_def)

text \<open>The observer is neither idle nor failed.\<close>

definition observer_live :: "avrcp_observer \<Rightarrow> bool" where
  "observer_live observer \<longleftrightarrow>
     ob_state observer \<noteq> AVRCP_OBSERVER_IDLE \<and> ob_state observer \<noteq> AVRCP_OBSERVER_FAILED"

lemma vendor_command_handled:
  assumes "observer_live observer"
    and "avrcp_parse_vendor_frame packet = (AVRCP_OK, vendor)"
    and "af_command_response (av_frame vendor) = 0"
  defines "label \<equiv> af_transaction_label (av_frame vendor)"
  defines "r \<equiv> vendor_command_response observer label (av_pdu_id vendor) (vendor_parameters packet vendor)"
  shows "avrcp_observer_handle_packet observer packet =
    (fst r, \<lparr>ar_packet = avrcp_write_vendor_response AVRCP_MAX_CONTROL_PACKET label (fst (snd r))
               (av_pdu_id vendor) (snd (snd r)),
             ar_event = avrcp_observer_event_zero
               \<lparr>ae_kind := AVRCP_OBSERVER_EVENT_VENDOR_COMMAND, ae_pdu_id := av_pdu_id vendor,
                ae_parameter_bytes := take 8 (vendor_parameters packet vendor)\<rparr>\<rparr>)"
    and "vendor_reads (avrcp_write_vendor_response AVRCP_MAX_CONTROL_PACKET label (fst (snd r))
           (av_pdu_id vendor) (snd (snd r))) True label (fst (snd r)) (av_pdu_id vendor) (snd (snd r))"
proof -
  note frame = parse_vendor_ok(1,2) [OF assms(2)]
  have "label \<le> 0x0F" using parse_frame_ok(2) [OF frame(1)] by (simp add: label_def)
  then show reads: "vendor_reads (avrcp_write_vendor_response AVRCP_MAX_CONTROL_PACKET label
      (fst (snd r)) (av_pdu_id vendor) (snd (snd r))) True label (fst (snd r)) (av_pdu_id vendor)
      (snd (snd r))"
    using vendor_response_writable(1,2) [of observer label "av_pdu_id vendor" "vendor_parameters packet vendor"]
    by (intro written_response_reads) (simp_all add: r_def)
  show "avrcp_observer_handle_packet observer packet =
    (fst r, \<lparr>ar_packet = avrcp_write_vendor_response AVRCP_MAX_CONTROL_PACKET label (fst (snd r))
               (av_pdu_id vendor) (snd (snd r)),
             ar_event = avrcp_observer_event_zero
               \<lparr>ae_kind := AVRCP_OBSERVER_EVENT_VENDOR_COMMAND, ae_pdu_id := av_pdu_id vendor,
                ae_parameter_bytes := take 8 (vendor_parameters packet vendor)\<rparr>\<rparr>)"
    using assms frame reads_nonempty [OF reads]
    by (simp add: avrcp_observer_handle_packet_def avrcp_observer_handle_vendor_command_def
        observer_live_def r_def label_def Let_def case_prod_beta)
qed



text \<open>Every key of the headset is answered.  A live observer answers a well-formed PASS THROUGH
  command with the first eight bytes of the command as a response, accepted for the eight keys the
  program knows and not implemented for the others, and reports the key.  The response reads as a
  PASS THROUGH frame exactly if the command carried no operation data: the length byte is copied
  and the data is not.\<close>

theorem pass_through_answered:
  assumes "observer_live observer"
    and "avrcp_parse_pass_through packet = (AVRCP_OK, parsed)"
    and "af_command_response (ap_frame parsed) = 0"
    and "af_ctype_or_response (ap_frame parsed) = AVRCP_CTYPE_CONTROL"
  shows "let (observer', result) = avrcp_observer_handle_packet observer packet;
             (status, reply) = avrcp_parse_pass_through (ar_packet result)
         in observer' = observer \<and>
            ae_kind (ar_event result) = AVRCP_OBSERVER_EVENT_PASS_THROUGH \<and>
            ae_operation_id (ar_event result) = ap_operation_id parsed \<and>
            ae_released (ar_event result) = ap_released parsed \<and>
            status = (if ap_operation_data_size parsed = 0 then AVRCP_OK else AVRCP_TRUNCATED) \<and>
            af_command_response (ap_frame reply) = 1 \<and>
            af_transaction_label (ap_frame reply) = af_transaction_label (ap_frame parsed) \<and>
            af_ctype_or_response (ap_frame reply) =
              (if known_operation (ap_operation_id parsed) then AVRCP_RESPONSE_ACCEPTED
               else AVRCP_RESPONSE_NOT_IMPLEMENTED) \<and>
            ap_operation_id reply = ap_operation_id parsed \<and> ap_released reply = ap_released parsed"
proof -
  define frame where "frame = ap_frame parsed"
  define response where "response = (if known_operation (ap_operation_id parsed)
    then AVRCP_RESPONSE_ACCEPTED else AVRCP_RESPONSE_NOT_IMPLEMENTED)"
  note ok = parse_pass_through_ok [OF assms(2), folded frame_def]
  note parse = ok(1) and opcode = ok(2) and long = ok(3) and parsed = ok(4-6)
  have "take 8 packet = take 6 packet @ [packet ! 6, packet ! 7]"
    using long take_Suc_conv_app_nth [of 7 packet] take_Suc_conv_app_nth [of 6 packet] by simp
  then have first: "take 8 packet = [push_bit 4 (af_transaction_label frame), 0x11, 0x0E,
      AVRCP_CTYPE_CONTROL, 0x48, AVRCP_OPCODE_PASS_THROUGH, packet ! 6, packet ! 7]"
    using parse_frame_ok(5) [OF parse] assms(3,4) opcode by (simp add: frame_def)
  have header: "packet ! 0 = push_bit 4 (af_transaction_label frame)"
    using arg_cong [OF first, of "\<lambda>p. p ! 0"] long by simp
  have written: "avrcp_write_pass_through_response AVRCP_MAX_CONTROL_PACKET packet response =
      (push_bit 4 (af_transaction_label frame) OR 2) # 0x11 # 0x0E # response # 0x48 #
        AVRCP_OPCODE_PASS_THROUGH # [packet ! 6, packet ! 7]"
    using assms(2,3) first long header
    by (simp add: avrcp_write_pass_through_response_def response_def frame_def Let_def min_def)
  have "avrcp_parse_frame ((push_bit 4 (af_transaction_label frame) OR 2) # 0x11 # 0x0E # response #
        0x48 # AVRCP_OPCODE_PASS_THROUGH # [packet ! 6, packet ! 7]) avrcp_frame_zero =
      (AVRCP_OK,
       \<lparr>af_transaction_label = af_transaction_label frame, af_packet_type = AVCTP_PACKET_SINGLE,
        af_command_response = 1, af_invalid_profile_id = 0, af_profile_id = AVRCP_PROFILE_ID,
        af_ctype_or_response = response, af_subunit_type = AVRCP_PANEL_SUBUNIT_TYPE,
        af_subunit_id = AVRCP_PANEL_SUBUNIT_ID, af_opcode = AVRCP_OPCODE_PASS_THROUGH,
        af_operands_offset = 6, af_operands_size = 2\<rparr>)"
    using parse_frame_ok(2) [OF parse]
    by (subst parse_written_frame) (simp_all add: response_def)
  then have reply: "avrcp_parse_pass_through
      (avrcp_write_pass_through_response AVRCP_MAX_CONTROL_PACKET packet response) =
      (if unat (packet ! 7) = 0 then AVRCP_OK else AVRCP_TRUNCATED,
       \<lparr>ap_frame = \<lparr>af_transaction_label = af_transaction_label frame,
          af_packet_type = AVCTP_PACKET_SINGLE, af_command_response = 1, af_invalid_profile_id = 0,
          af_profile_id = AVRCP_PROFILE_ID, af_ctype_or_response = response,
          af_subunit_type = AVRCP_PANEL_SUBUNIT_TYPE, af_subunit_id = AVRCP_PANEL_SUBUNIT_ID,
          af_opcode = AVRCP_OPCODE_PASS_THROUGH, af_operands_offset = 6, af_operands_size = 2\<rparr>,
        ap_operation_id = ap_operation_id parsed, ap_released = ap_released parsed,
        ap_operation_data_offset = 8, ap_operation_data_size = unat (packet ! 7)\<rparr>)"
    by (simp add: written avrcp_parse_pass_through_def padding_is_zero_def parsed Let_def)
  have "avrcp_observer_handle_packet observer packet = avrcp_observer_handle_pass_through observer packet"
    using assms parse opcode by (simp add: avrcp_observer_handle_packet_def observer_live_def frame_def)
  moreover have "avrcp_write_pass_through_response AVRCP_MAX_CONTROL_PACKET packet response \<noteq> []"
    by (simp add: written)
  ultimately show ?thesis
    using assms(2-4) reply
    by (simp add: avrcp_observer_handle_pass_through_def Let_def parsed(3) frame_def
        flip: response_def)
qed

theorem pass_through_answered_witness:
  "ae_kind (ar_event (snd (avrcp_observer_handle_packet (fst (avrcp_observer_begin avrcp_observer_init))
     [0x70, 0x11, 0x0E, 0x00, 0x48, 0x7C, 0x46, 0x00]))) = AVRCP_OBSERVER_EVENT_PASS_THROUGH"
  using pass_through_answered [of "fst (avrcp_observer_begin avrcp_observer_init)"
      "[0x70, 0x11, 0x0E, 0x00, 0x48, 0x7C, 0x46, 0x00]"
      "snd (avrcp_parse_pass_through [0x70, 0x11, 0x0E, 0x00, 0x48, 0x7C, 0x46, 0x00])"]
  by (simp add: observer_eval observer_live_def prod_eq_iff case_prod_beta parse_eval)

section \<open>The observer over a history\<close>

datatype observer_input =
  Input_Begin | Input_Packet bytes | Input_Write u8 u8 bytes | Input_Status u8

fun observer_step ::
  "avrcp_observer \<Rightarrow> observer_input \<Rightarrow> avrcp_observer \<times> avrcp_observer_result" where
  "observer_step observer Input_Begin = avrcp_observer_begin observer"
| "observer_step observer (Input_Packet packet) = avrcp_observer_handle_packet observer packet"
| "observer_step observer (Input_Write pdu_id response_code parameters) =
     avrcp_observer_submit_write observer pdu_id response_code parameters"
| "observer_step observer (Input_Status status) =
     avrcp_observer_submit_playback_status observer status"

text \<open>The labels are labels, and the playback status is one the code accepted.\<close>

definition observer_inv :: "avrcp_observer \<Rightarrow> bool" where
  "observer_inv observer \<longleftrightarrow>
     ob_next_transaction_label observer \<le> 0x0F \<and> ob_pending_transaction_label observer \<le> 0x0F \<and>
     ob_write_label observer \<le> 0x0F \<and> ob_playback_notification_label observer \<le> 0x0F \<and>
     avrcp_is_valid_playback_status (ob_playback_status observer) \<and>
     (ob_playback_status_valid observer \<or> ob_playback_status observer = 0)"

lemma observer_inv_init: "observer_inv avrcp_observer_init"
  by (simp add: observer_inv_def avrcp_observer_init_def avrcp_is_valid_playback_status_def)

lemma current_playback_status:
  "observer_inv observer \<Longrightarrow> avrcp_current_playback_status observer = ob_playback_status observer"
  by (auto simp: observer_inv_def avrcp_current_playback_status_def)

lemma next_label_le [simp]: "(label + 1 :: u8) AND 0x0F \<le> 0x0F"
  by (simp add: word_and_le1)

lemma writers_write:
  assumes "label \<le> 0x0F" "length parameters \<le> 8"
  shows "avrcp_write_vendor_response AVRCP_MAX_CONTROL_PACKET label c pdu_id parameters \<noteq> []"
    "avrcp_write_vendor_command AVRCP_MAX_CONTROL_PACKET label c pdu_id parameters \<noteq> []"
    "avrcp_write_register_notification AVRCP_MAX_CONTROL_PACKET label event_id interval \<noteq> []"
    "avrcp_write_get_capabilities_events AVRCP_MAX_CONTROL_PACKET label \<noteq> []"
  using assms written_vendor_frame [OF assms(1), of 0] written_vendor_frame [OF assms(1), of 2]
  by (simp_all add: vendor_writers avrcp_write_register_notification_def
      avrcp_write_get_capabilities_events_def)

lemma fail_stage_step:
  "observer_inv observer \<Longrightarrow> observer_inv (fst (avrcp_observer_fail_stage observer code stage packet))"
  "ob_write_active (fst (avrcp_observer_fail_stage observer code stage packet)) = ob_write_active observer"
  "ae_kind (ar_event (snd (avrcp_observer_fail_stage observer code stage packet))) =
     AVRCP_OBSERVER_EVENT_PROTOCOL_ERROR"
  by (simp_all add: avrcp_observer_fail_stage_def observer_inv_def)

lemma register_volume_step:
  assumes "observer_inv observer"
  shows "observer_inv (fst (avrcp_observer_register_volume observer event))"
    "ob_write_active (fst (avrcp_observer_register_volume observer event)) = ob_write_active observer"
    "ar_event (snd (avrcp_observer_register_volume observer event)) = event"
  using assms writers_write(3) [of "ob_next_transaction_label observer" "[]"]
  by (auto simp: avrcp_observer_register_volume_def avrcp_next_label_def observer_inv_def Let_def)

lemma playback_status_step:
  assumes "observer_inv observer"
  shows "observer_inv (fst (avrcp_observer_submit_playback_status observer status))"
    "ob_write_active (fst (avrcp_observer_submit_playback_status observer status)) =
       ob_write_active observer"
    "ar_event (snd (avrcp_observer_submit_playback_status observer status)) =
       avrcp_observer_event_zero"
  using assms
  by (simp_all add: avrcp_observer_submit_playback_status_def observer_inv_def avrcp_make_result_def
      Let_def)

definition notification_write :: "u8 \<Rightarrow> u8 \<Rightarrow> bytes \<Rightarrow> bool" where
  "notification_write pdu_id response_code parameters \<longleftrightarrow>
     pdu_id = AVRCP_PDU_REGISTER_NOTIFICATION \<and> response_code = AVRCP_RESPONSE_CHANGED \<and>
     length parameters = 2 \<and> parameters ! 0 = AVRCP_EVENT_PLAYBACK_STATUS_CHANGED"

text \<open>An ordinary write goes out exactly if none is outstanding, and is then outstanding itself.\<close>

lemma submit_write_step:
  assumes "observer_inv observer"
  shows "observer_inv (fst (avrcp_observer_submit_write observer pdu_id response_code parameters))"
    "ae_kind (ar_event (snd (avrcp_observer_submit_write observer pdu_id response_code parameters))) =
       AVRCP_OBSERVER_EVENT_NONE"
    "(\<not> notification_write pdu_id response_code parameters \<and>
      ar_packet (snd (avrcp_observer_submit_write observer pdu_id response_code parameters)) \<noteq> []) =
       (\<not> notification_write pdu_id response_code parameters \<and> observer_live observer \<and>
        \<not> ob_write_active observer \<and> pdu_id \<noteq> 0 \<and> length parameters \<le> 8)"
    "ob_write_active (fst (avrcp_observer_submit_write observer pdu_id response_code parameters)) =
       (ob_write_active observer \<or> \<not> notification_write pdu_id response_code parameters \<and>
        observer_live observer \<and> pdu_id \<noteq> 0 \<and> length parameters \<le> 8)"
  using assms writers_write [of "ob_next_transaction_label observer" parameters]
    playback_status_step [OF assms, of "parameters ! 1"]
  by (auto simp: avrcp_observer_submit_write_def avrcp_next_label_def observer_inv_def Let_def
      avrcp_make_result_def avrcp_observer_event_zero_def notification_write_def observer_live_def)

lemma vendor_label: "avrcp_parse_vendor_frame packet = (AVRCP_OK, v) \<Longrightarrow>
    af_transaction_label (av_frame v) \<le> 0x0F"
  using parse_vendor_ok(1) parse_frame_ok(2) by blast

lemma pass_through_step:
  "observer_inv observer \<Longrightarrow> observer_inv (fst (avrcp_observer_handle_pass_through observer packet))"
  "ob_write_active (fst (avrcp_observer_handle_pass_through observer packet)) = ob_write_active observer"
  "ae_kind (ar_event (snd (avrcp_observer_handle_pass_through observer packet))) \<noteq>
     AVRCP_OBSERVER_EVENT_WRITE_RESPONSE"
  by (simp_all add: avrcp_observer_handle_pass_through_def avrcp_observer_fail_def fail_stage_step
      Let_def case_prod_beta)

lemma vendor_command_step:
  assumes "observer_inv observer" "af_transaction_label (av_frame v) \<le> 0x0F"
  shows "observer_inv (fst (avrcp_observer_handle_vendor_command observer packet v))"
    "ob_write_active (fst (avrcp_observer_handle_vendor_command observer packet v)) =
       ob_write_active observer"
    "ae_kind (ar_event (snd (avrcp_observer_handle_vendor_command observer packet v))) \<noteq>
       AVRCP_OBSERVER_EVENT_WRITE_RESPONSE"
proof -
  let ?r = "vendor_command_response observer (af_transaction_label (av_frame v)) (av_pdu_id v)
    (vendor_parameters packet v)"
  have "observer_inv (fst ?r)" "ob_write_active (fst ?r) = ob_write_active observer"
    using assms by (simp_all add: vendor_command_response_def observer_inv_def Let_def)
  then show "observer_inv (fst (avrcp_observer_handle_vendor_command observer packet v))"
    "ob_write_active (fst (avrcp_observer_handle_vendor_command observer packet v)) =
       ob_write_active observer"
    "ae_kind (ar_event (snd (avrcp_observer_handle_vendor_command observer packet v))) \<noteq>
       AVRCP_OBSERVER_EVENT_WRITE_RESPONSE"
    by (simp_all add: avrcp_observer_handle_vendor_command_def avrcp_observer_fail_def
        fail_stage_step Let_def case_prod_beta)
qed

lemma pending_response_step:
  assumes "observer_inv observer"
  shows "observer_inv (fst (pending_response observer packet v))"
    "ob_write_active (fst (pending_response observer packet v)) = ob_write_active observer"
    "ae_kind (ar_event (snd (pending_response observer packet v))) \<noteq>
       AVRCP_OBSERVER_EVENT_WRITE_RESPONSE"
proof -
  have "observer_inv (observer\<lparr>ob_volume_supported := s\<rparr>)"
    "observer_inv (observer\<lparr>ob_last_absolute_volume := x, ob_last_absolute_volume_valid := True\<rparr>)"
    "observer_inv (observer\<lparr>ob_volume_supported := s, ob_state := st\<rparr>)"
    "observer_inv (observer\<lparr>ob_last_absolute_volume := x, ob_last_absolute_volume_valid := True,
       ob_state := st\<rparr>)" for s x st
    using assms by (simp_all add: observer_inv_def)
  then show "observer_inv (fst (pending_response observer packet v))"
    "ob_write_active (fst (pending_response observer packet v)) = ob_write_active observer"
    "ae_kind (ar_event (snd (pending_response observer packet v))) \<noteq>
       AVRCP_OBSERVER_EVENT_WRITE_RESPONSE"
    using assms
    by (simp_all add: pending_response_def Let_def register_volume_step fail_stage_step
        avrcp_make_result_def)
qed

lemma write_response_step:
  assumes "observer_inv observer"
  shows "observer_inv (fst (write_response observer packet v))"
    "\<not> ob_write_active (fst (write_response observer packet v))"
    "ae_kind (ar_event (snd (write_response observer packet v))) = AVRCP_OBSERVER_EVENT_WRITE_RESPONSE"
proof -
  have "observer_inv (observer\<lparr>ob_write_active := False\<rparr>)"
    using assms by (simp add: observer_inv_def)
  note s = playback_status_step [OF this, of "ob_playback_status observer"]
  then show "observer_inv (fst (write_response observer packet v))"
    "\<not> ob_write_active (fst (write_response observer packet v))"
    "ae_kind (ar_event (snd (write_response observer packet v))) = AVRCP_OBSERVER_EVENT_WRITE_RESPONSE"
    by (simp_all add: write_response_def Let_def case_prod_beta)
qed

lemma handle_packet_step:
  assumes "observer_inv observer"
  shows "observer_inv (fst (avrcp_observer_handle_packet observer packet))"
    "of_bool (ob_write_active observer) =
       of_bool (ae_kind (ar_event (snd (avrcp_observer_handle_packet observer packet))) =
                AVRCP_OBSERVER_EVENT_WRITE_RESPONSE) +
       (of_bool (ob_write_active (fst (avrcp_observer_handle_packet observer packet))) :: nat)"
proof -
  obtain status frame where frame: "avrcp_parse_frame packet avrcp_frame_zero = (status, frame)"
    by fastforce
  obtain vs v where v: "avrcp_parse_vendor_frame packet = (vs, v)" by fastforce
  show "observer_inv (fst (avrcp_observer_handle_packet observer packet))"
    using assms vendor_label [of packet v] frame v
    by (simp add: avrcp_observer_handle_packet_def avrcp_observer_fail_def fail_stage_step
        pass_through_step vendor_command_step pending_response_step write_response_step)
  show "of_bool (ob_write_active observer) =
       of_bool (ae_kind (ar_event (snd (avrcp_observer_handle_packet observer packet))) =
                AVRCP_OBSERVER_EVENT_WRITE_RESPONSE) +
       (of_bool (ob_write_active (fst (avrcp_observer_handle_packet observer packet))) :: nat)"
    using assms vendor_label [of packet v] frame v
    by (simp add: avrcp_observer_handle_packet_def avrcp_observer_fail_def fail_stage_step
        pass_through_step vendor_command_step pending_response_step write_response_step)
qed

lemma begin_step:
  assumes "observer_inv observer"
  shows "observer_inv (fst (avrcp_observer_begin observer))"
    "ob_write_active (fst (avrcp_observer_begin observer)) = ob_write_active observer"
    "ae_kind (ar_event (snd (avrcp_observer_begin observer))) \<noteq> AVRCP_OBSERVER_EVENT_WRITE_RESPONSE"
  using assms writers_write(4) [of "ob_next_transaction_label observer" "[]"]
  by (auto simp: avrcp_observer_begin_def avrcp_observer_fail_def avrcp_observer_fail_stage_def
      avrcp_next_label_def
      observer_inv_def avrcp_make_result_def avrcp_observer_event_zero_def Let_def)

text \<open>A write that went out, other than a notification, and the response to one.\<close>

fun writes_sent :: "avrcp_observer \<Rightarrow> observer_input \<Rightarrow> nat" where
  "writes_sent observer (Input_Write pdu_id response_code parameters) =
     of_bool (\<not> notification_write pdu_id response_code parameters \<and>
       ar_packet (snd (observer_step observer (Input_Write pdu_id response_code parameters))) \<noteq> [])"
| "writes_sent observer _ = 0"

definition writes_answered :: "avrcp_observer \<Rightarrow> observer_input \<Rightarrow> nat" where
  "writes_answered observer input =
     of_bool (ae_kind (ar_event (snd (observer_step observer input))) =
       AVRCP_OBSERVER_EVENT_WRITE_RESPONSE)"

lemma observer_step_inv: "observer_inv observer \<Longrightarrow> observer_inv (fst (observer_step observer input))"
  by (cases input) (simp_all add: begin_step handle_packet_step submit_write_step playback_status_step)

lemma observer_step_balance:
  assumes "observer_inv observer"
  shows "of_bool (ob_write_active observer) + writes_sent observer input =
    writes_answered observer input + of_bool (ob_write_active (fst (observer_step observer input)))"
proof (cases input)
  case (Input_Write pdu_id response_code parameters)
  then show ?thesis
    using submit_write_step(2-4) [OF assms, of pdu_id response_code parameters]
    by (auto simp: writes_answered_def)
qed (use assms handle_packet_step(2) [OF assms] in
    \<open>auto simp: writes_answered_def begin_step playback_status_step avrcp_observer_event_zero_def\<close>)

interpretation write_ledger: resource_ledger "\<lambda>x i. fst (observer_step x i)" writes_sent
    writes_answered "\<lambda>x. of_bool (ob_write_active x)" observer_inv
  by unfold_locales (simp_all add: observer_step_inv observer_step_balance)

lemma reachable_observer_inv:
  "observer_inv (foldl (\<lambda>x i. fst (observer_step x i)) avrcp_observer_init inputs)"
  by (rule write_ledger.sound_run) (rule observer_inv_init)

text \<open>Writes go out one at a time.  Over every history of packets, writes and status changes the
  writes sent are the responses reported and the one write outstanding; and in the state reached a
  write, unless it is a playback notification, goes out exactly if none is outstanding and the
  observer is live.\<close>

theorem writes_serialised:
  "let observer = foldl (\<lambda>x i. fst (observer_step x i)) avrcp_observer_init inputs
   in total (\<lambda>x i. fst (observer_step x i)) writes_sent avrcp_observer_init inputs =
        total (\<lambda>x i. fst (observer_step x i)) writes_answered avrcp_observer_init inputs +
        of_bool (ob_write_active observer) \<and>
      (if notification_write pdu_id response_code parameters then True
       else (ar_packet (snd (avrcp_observer_submit_write observer pdu_id response_code parameters)) \<noteq> []) =
         (observer_live observer \<and> \<not> ob_write_active observer \<and> pdu_id \<noteq> 0 \<and> length parameters \<le> 8))"
  using write_ledger.run_balance [OF observer_inv_init, of inputs]
    submit_write_step(3) [OF reachable_observer_inv, of pdu_id response_code parameters inputs]
  by (auto simp: Let_def avrcp_observer_init_def)

text \<open>C29: A response blocks the writes.  Once \<open>submit_write\<close> has sent a response rather than a command,
  the observer waits for an answer to it, which no peer sends to a response: until a packet
  is taken for that answer, no write goes out any more, whatever else arrives.\<close>

theorem response_write_blocks:
  assumes "observer = foldl (\<lambda>x i. fst (observer_step x i)) avrcp_observer_init before"
    and "avrcp_observer_submit_write observer pdu_id response_code parameters = (observer1, result)"
    and "response_code \<noteq> 0" and "\<not> notification_write pdu_id response_code parameters"
    and "ar_packet result \<noteq> []"
    and "total (\<lambda>x i. fst (observer_step x i)) writes_answered observer1 inputs = 0"
    and "\<not> notification_write pdu_id' response_code' parameters'"
  shows "ar_packet (snd (avrcp_observer_submit_write
      (foldl (\<lambda>x i. fst (observer_step x i)) observer1 inputs)
      pdu_id' response_code' parameters')) = []"
proof -
  have "observer_inv observer" unfolding assms(1) by (rule reachable_observer_inv)
  note s = submit_write_step [OF this, of pdu_id response_code parameters, unfolded assms(2) fst_conv snd_conv]
  have "ob_write_active observer1" using s(3,4) assms(4,5) by auto
  then have "Suc (total (\<lambda>x i. fst (observer_step x i)) writes_sent observer1 inputs) =
      of_bool (ob_write_active (foldl (\<lambda>x i. fst (observer_step x i)) observer1 inputs))"
    using write_ledger.run_balance [OF s(1), of inputs] assms(6) by simp
  then have "ob_write_active (foldl (\<lambda>x i. fst (observer_step x i)) observer1 inputs)"
    by (simp add: of_bool_def split: if_splits)
  then show ?thesis
    using submit_write_step(3) [OF write_ledger.sound_run [OF s(1)], of pdu_id' response_code' parameters' inputs]
      assms(7) by auto
qed

theorem response_write_blocks_witness:
  "ar_packet (snd (avrcp_observer_submit_write
      (foldl (\<lambda>x i. fst (observer_step x i))
        (fst (avrcp_observer_submit_write
          (foldl (\<lambda>x i. fst (observer_step x i)) avrcp_observer_init [Input_Begin])
          AVRCP_PDU_REGISTER_NOTIFICATION AVRCP_RESPONSE_CHANGED [AVRCP_EVENT_VOLUME_CHANGED, 5]))
        [Input_Status AVRCP_PLAYBACK_STATUS_PLAYING])
      AVRCP_PDU_SET_ABSOLUTE_VOLUME 0 [64])) = []"
  by (rule response_write_blocks [where before = "[Input_Begin]"
        and response_code = AVRCP_RESPONSE_CHANGED and pdu_id = AVRCP_PDU_REGISTER_NOTIFICATION
        and parameters = "[AVRCP_EVENT_VOLUME_CHANGED, 5]", OF refl surjective_pairing])
    (simp_all add: observer_eval notification_write_def writes_answered_def Let_def)

lemma reads_vendor:
  assumes "vendor_reads packet response label ctype pdu_id parameters"
  shows "\<exists>vendor. avrcp_parse_vendor_frame packet = (AVRCP_OK, vendor) \<and>
    af_command_response (av_frame vendor) = (if response then 1 else 0) \<and>
    af_transaction_label (av_frame vendor) = label \<and> av_pdu_id vendor = pdu_id"
  using assms by (auto simp: vendor_reads_def split: prod.splits)

lemma write_answered:
  assumes "observer_live observer" "ob_write_active observer"
    and "vendor_reads packet True (ob_write_label observer) ctype (ob_write_pdu_id observer) parameters"
  shows "\<exists>vendor. avrcp_observer_handle_packet observer packet = write_response observer packet vendor"
proof -
  obtain vendor where v: "avrcp_parse_vendor_frame packet = (AVRCP_OK, vendor)"
    "af_command_response (av_frame vendor) = 1"
    "af_transaction_label (av_frame vendor) = ob_write_label observer"
    "av_pdu_id vendor = ob_write_pdu_id observer"
    using reads_vendor [OF assms(3)] by auto
  then show ?thesis
    using assms(1,2) parse_vendor_ok [OF v(1)]
    by (auto simp: avrcp_observer_handle_packet_def observer_live_def)
qed

text \<open>The headset is told of changes that did not happen.  When the headset has registered for the
  playback status and has been told it in the interim response, the response to the next volume
  command makes the observer send the final \<open>CHANGED\<close> response, with the same status.\<close>

theorem unchanged_status_notified:
  assumes "observer = foldl (\<lambda>x i. fst (observer_step x i)) avrcp_observer_init inputs"
    and "observer_live observer" and "\<not> ob_write_active observer"
    and "avrcp_parse_vendor_frame registration = (AVRCP_OK, vendor)"
    and "af_command_response (av_frame vendor) = 0"
    and "av_pdu_id vendor = AVRCP_PDU_REGISTER_NOTIFICATION"
    and "vendor_parameters registration vendor = AVRCP_EVENT_PLAYBACK_STATUS_CHANGED # rest"
    and "vendor_reads answer True (ob_next_transaction_label observer) response
      AVRCP_PDU_SET_ABSOLUTE_VOLUME parameters"
  shows "let label = af_transaction_label (av_frame vendor); status = ob_playback_status observer;
             (observer1, interim) = avrcp_observer_handle_packet observer registration;
             (observer2, command) = avrcp_observer_submit_write observer1
               AVRCP_PDU_SET_ABSOLUTE_VOLUME 0 [volume];
             (observer3, final) = avrcp_observer_handle_packet observer2 answer
         in vendor_reads (ar_packet interim) True label AVRCP_RESPONSE_INTERIM
              AVRCP_PDU_REGISTER_NOTIFICATION [AVRCP_EVENT_PLAYBACK_STATUS_CHANGED, status] \<and>
            vendor_reads (ar_packet command) False (ob_next_transaction_label observer)
              AVRCP_CTYPE_CONTROL AVRCP_PDU_SET_ABSOLUTE_VOLUME [volume] \<and>
            vendor_reads (ar_packet final) True label AVRCP_RESPONSE_CHANGED
              AVRCP_PDU_REGISTER_NOTIFICATION [AVRCP_EVENT_PLAYBACK_STATUS_CHANGED, status]"
proof -
  let ?label = "af_transaction_label (av_frame vendor)"
  let ?status = "ob_playback_status observer"
  have inv: "observer_inv observer" unfolding assms(1) by (rule reachable_observer_inv)
  have labels: "?label \<le> 0x0F" "ob_next_transaction_label observer \<le> 0x0F"
    using vendor_label [OF assms(4)] inv by (simp_all add: observer_inv_def)
  define observer1 where "observer1 = observer\<lparr>ob_playback_notification_label := ?label,
    ob_playback_notification_active := True, ob_playback_notification_pending := False\<rparr>"
  have response: "vendor_command_response observer ?label (av_pdu_id vendor)
      (vendor_parameters registration vendor) =
      (observer1, AVRCP_RESPONSE_INTERIM, [AVRCP_EVENT_PLAYBACK_STATUS_CHANGED, ?status])"
    using assms(6,7) current_playback_status [OF inv]
    by (simp add: vendor_command_response_def observer1_def)
  have interim: "fst (avrcp_observer_handle_packet observer registration) = observer1"
    "ar_packet (snd (avrcp_observer_handle_packet observer registration)) =
       avrcp_write_vendor_response AVRCP_MAX_CONTROL_PACKET ?label AVRCP_RESPONSE_INTERIM
         AVRCP_PDU_REGISTER_NOTIFICATION [AVRCP_EVENT_PLAYBACK_STATUS_CHANGED, ?status]"
    using vendor_command_handled [OF assms(2,4,5)] response assms(6) by simp_all
  define observer2 where "observer2 = observer1
    \<lparr>ob_next_transaction_label := (ob_next_transaction_label observer + 1) AND 0x0F,
     ob_write_label := ob_next_transaction_label observer,
     ob_write_pdu_id := AVRCP_PDU_SET_ABSOLUTE_VOLUME, ob_write_active := True\<rparr>"
  have command: "avrcp_observer_submit_write observer1 AVRCP_PDU_SET_ABSOLUTE_VOLUME 0 [volume] =
      (observer2, avrcp_make_result\<lparr>ar_packet := avrcp_write_vendor_command AVRCP_MAX_CONTROL_PACKET
        (ob_next_transaction_label observer) AVRCP_CTYPE_CONTROL AVRCP_PDU_SET_ABSOLUTE_VOLUME
        [volume]\<rparr>)"
    using assms(2,3) writers_write(2) [OF labels(2), of "[volume]"]
    by (simp add: avrcp_observer_submit_write_def observer1_def observer2_def observer_live_def
        avrcp_next_label_def Let_def)
  have live: "observer_live observer2" using assms(2) by (simp add: observer_live_def observer2_def observer1_def)
  obtain v where answered: "avrcp_observer_handle_packet observer2 answer = write_response observer2 answer v"
    using write_answered [OF live] assms(8) by (force simp: observer2_def)
  have final: "ar_packet (snd (avrcp_observer_handle_packet observer2 answer)) =
      avrcp_write_vendor_response AVRCP_MAX_CONTROL_PACKET ?label AVRCP_RESPONSE_CHANGED
        AVRCP_PDU_REGISTER_NOTIFICATION [AVRCP_EVENT_PLAYBACK_STATUS_CHANGED, ?status]"
    unfolding answered write_response_def using live inv
    by (simp add: avrcp_observer_submit_playback_status_def observer2_def
        observer1_def observer_live_def observer_inv_def avrcp_make_result_def case_prod_beta Let_def)
  show ?thesis
    using labels
    by (simp add: Let_def case_prod_beta interim command final avrcp_make_result_def
        written_response_reads written_command_reads)
qed

theorem unchanged_status_notified_witness:
  "let observer = fst (avrcp_observer_begin avrcp_observer_init);
       registration = avrcp_write_register_notification AVRCP_MAX_CONTROL_PACKET 5
         AVRCP_EVENT_PLAYBACK_STATUS_CHANGED 0;
       answer = avrcp_write_vendor_response AVRCP_MAX_CONTROL_PACKET 1 AVRCP_RESPONSE_ACCEPTED
         AVRCP_PDU_SET_ABSOLUTE_VOLUME [64];
       (observer1, interim) = avrcp_observer_handle_packet observer registration;
       (observer2, command) = avrcp_observer_submit_write observer1
         AVRCP_PDU_SET_ABSOLUTE_VOLUME 0 [64];
       (observer3, final) = avrcp_observer_handle_packet observer2 answer
   in vendor_reads (ar_packet final) True 5 AVRCP_RESPONSE_CHANGED
        AVRCP_PDU_REGISTER_NOTIFICATION [AVRCP_EVENT_PLAYBACK_STATUS_CHANGED, 0]"
proof -
  have "vendor_reads (avrcp_write_vendor_response AVRCP_MAX_CONTROL_PACKET 1 AVRCP_RESPONSE_ACCEPTED
      AVRCP_PDU_SET_ABSOLUTE_VOLUME [64]) True 1 AVRCP_RESPONSE_ACCEPTED
      AVRCP_PDU_SET_ABSOLUTE_VOLUME [64]"
    by (rule written_response_reads) simp_all
  then show ?thesis
    using unchanged_status_notified [where inputs = "[Input_Begin]" and volume = 64 and rest = "[0, 0, 0, 0]"
        and observer = "fst (avrcp_observer_begin avrcp_observer_init)"
        and registration = "avrcp_write_register_notification AVRCP_MAX_CONTROL_PACKET 5
          AVRCP_EVENT_PLAYBACK_STATUS_CHANGED 0"
        and vendor = "snd (avrcp_parse_vendor_frame (avrcp_write_register_notification
          AVRCP_MAX_CONTROL_PACKET 5 AVRCP_EVENT_PLAYBACK_STATUS_CHANGED 0))"
        and answer = "avrcp_write_vendor_response AVRCP_MAX_CONTROL_PACKET 1 AVRCP_RESPONSE_ACCEPTED
          AVRCP_PDU_SET_ABSOLUTE_VOLUME [64]"
        and response = AVRCP_RESPONSE_ACCEPTED and parameters = "[64]"]
    by (simp add: avrcp_write_register_notification_def observer_eval observer_live_def prod_eq_iff
        case_prod_beta parse_eval)
qed

end
