(* ===== verification/Avrcp_Control.thy ===== *)
theory Avrcp_Control
  imports Avrcp Absolute_Volume
begin

text \<open>
  The volume control of the direct-PDO driver, \<open>direct-pdo/src/nativeldac_avrcp_control.c\<close>: a context
  that runs the AVRCP observer of the theory \<open>Avrcp\<close> on a channel, keeps the headset's volume and
  sends it the Windows volume.  An operation returns the updated context, the success flag and the
  bytes it wrote to the caller's buffer of the given capacity.
\<close>

section \<open>Operations\<close>

datatype NLD_AVRCP_CONTROL_STATE =
  NldAvrcpControlOffline | NldAvrcpControlOpening | NldAvrcpControlObserving | NldAvrcpControlFailed

record NLD_AVRCP_CONTROL_CONTEXT =
  co_Observer :: avrcp_observer
  co_State :: NLD_AVRCP_CONTROL_STATE
  co_Generation :: u32
  co_WindowsPercent :: u8
  co_Xm5Volume :: u8
  co_Xm5VolumeValid :: bool
  co_WindowsVolumePending :: bool
  co_PendingWindowsPercent :: u8
  co_WriteInFlight :: bool

definition clamp_percent_u8 :: "u8 \<Rightarrow> u8" where
  "clamp_percent_u8 percent = (if percent > 100 then 100 else percent)"

definition NldAvrcpControlPercentToXm5 :: "u8 \<Rightarrow> u8" where
  "NldAvrcpControlPercentToXm5 percent =
     (let clamped = ucast (clamp_percent_u8 percent) :: u32 in ucast ((clamped * 127 + 50) div 100))"

definition NldAvrcpControlXm5ToPercent :: "u8 \<Rightarrow> u8" where
  "NldAvrcpControlXm5ToPercent volume =
     (let clamped = ucast (if volume > 127 then 127 else volume) :: u32
      in ucast ((clamped * 100 + 63) div 127))"

definition NldAvrcpControlInitialize :: NLD_AVRCP_CONTROL_CONTEXT where
  "NldAvrcpControlInitialize =
     \<lparr>co_Observer = avrcp_observer_init, co_State = NldAvrcpControlOffline, co_Generation = 0,
      co_WindowsPercent = 0, co_Xm5Volume = 0, co_Xm5VolumeValid = False,
      co_WindowsVolumePending = False, co_PendingWindowsPercent = 0, co_WriteInFlight = False\<rparr>"

definition NldAvrcpControlBegin ::
  "NLD_AVRCP_CONTROL_CONTEXT \<Rightarrow> u32 \<Rightarrow> nat \<Rightarrow> NLD_AVRCP_CONTROL_CONTEXT \<times> bool \<times> bytes" where
  "NldAvrcpControlBegin context0 generation packet_capacity =
     (if generation = 0 \<or> co_State context0 \<noteq> NldAvrcpControlOffline then (context0, False, [])
      else
        let (observer, result) = avrcp_observer_begin avrcp_observer_init;
            context1 = context0\<lparr>co_Observer := observer\<rparr>
        in if ar_packet result = [] \<or> length (ar_packet result) > packet_capacity
           then (context1\<lparr>co_State := NldAvrcpControlFailed\<rparr>, False, [])
           else (context1\<lparr>co_Generation := generation, co_State := NldAvrcpControlOpening\<rparr>, True,
                 ar_packet result))"

definition NldAvrcpControlHandlePacket ::
  "NLD_AVRCP_CONTROL_CONTEXT \<Rightarrow> bytes \<Rightarrow> nat \<Rightarrow> NLD_AVRCP_CONTROL_CONTEXT \<times> bool \<times> bytes" where
  "NldAvrcpControlHandlePacket context0 packet response_capacity =
     (if packet = [] \<or> co_State context0 = NldAvrcpControlOffline \<or>
         co_State context0 = NldAvrcpControlFailed
      then (context0, False, [])
      else
        let (observer, result) = avrcp_observer_handle_packet (co_Observer context0) packet;
            event = ar_event result;
            context1 = context0\<lparr>co_Observer := observer\<rparr>
        in if ae_kind event = AVRCP_OBSERVER_EVENT_PROTOCOL_ERROR
           then (context1\<lparr>co_State := NldAvrcpControlFailed\<rparr>, False, [])
           else
             let context2 = (if ae_kind event = AVRCP_OBSERVER_EVENT_VOLUME_CHANGED
                  then context1\<lparr>co_Xm5Volume := ae_absolute_volume event, co_Xm5VolumeValid := True,
                         co_WindowsPercent := NldAvrcpControlXm5ToPercent (ae_absolute_volume event)\<rparr>
                  else context1);
                 context3 = (if ob_state (co_Observer context2) = AVRCP_OBSERVER_OBSERVING
                  then context2\<lparr>co_State := NldAvrcpControlObserving\<rparr> else context2)
             in if ar_packet result \<noteq> [] \<and> length (ar_packet result) > response_capacity
                then (context3\<lparr>co_State := NldAvrcpControlFailed\<rparr>, False, [])
                else (context3\<lparr>co_WriteInFlight := ob_write_active (co_Observer context3)\<rparr>, True,
                      ar_packet result))"

definition NldAvrcpControlSetWindowsPercent ::
  "NLD_AVRCP_CONTROL_CONTEXT \<Rightarrow> u8 \<Rightarrow> nat \<Rightarrow> NLD_AVRCP_CONTROL_CONTEXT \<times> bool \<times> bytes" where
  "NldAvrcpControlSetWindowsPercent context0 percent packet_capacity =
     (let volume = NldAvrcpControlPercentToXm5 percent
      in if co_State context0 \<noteq> NldAvrcpControlObserving then (context0, False, [])
         else
           let context1 = context0\<lparr>co_WindowsPercent := clamp_percent_u8 percent,
                                   co_PendingWindowsPercent := clamp_percent_u8 percent,
                                   co_WindowsVolumePending := True\<rparr>;
               (observer, result) = avrcp_observer_submit_write (co_Observer context1)
                 AVRCP_PDU_SET_ABSOLUTE_VOLUME 0 [volume];
               context2 = context1\<lparr>co_Observer := observer\<rparr>
           in if ar_packet result = []
              then (context2\<lparr>co_WriteInFlight := ob_write_active (co_Observer context2)\<rparr>, True, [])
              else if length (ar_packet result) > packet_capacity then (context2, False, [])
              else (context2\<lparr>co_WindowsVolumePending := False, co_WriteInFlight := True\<rparr>, True,
                    ar_packet result))"

definition NldAvrcpControlIsReady :: "NLD_AVRCP_CONTROL_CONTEXT \<Rightarrow> bool" where
  "NldAvrcpControlIsReady context0 \<longleftrightarrow>
     co_State context0 = NldAvrcpControlObserving \<and> ob_volume_supported (co_Observer context0) \<and>
     co_Xm5VolumeValid context0"

section \<open>The two volume scales\<close>

lemma unat_ucast_u8: "unat (ucast (v :: u8) :: u32) = unat v"
  by (simp add: unsigned_ucast_eq take_bit_nat_eq_self less_trans [OF unsigned_less])

lemma u8_min:
  "ucast (if (v :: u8) > m then m else v) = min (ucast v) (ucast m :: u32)"
proof (cases "v > m")
  case True
  then have "\<not> (ucast v :: u32) \<le> ucast m"
    by (simp add: word_le_nat_alt word_less_nat_alt unat_ucast_u8)
  then show ?thesis using True by (simp add: min_def)
qed (simp add: min_def word_le_nat_alt word_less_nat_alt unat_ucast_u8)

text \<open>Driver and agent convert volumes alike.\<close>

theorem volume_scales_agree:
  "NldAvrcpControlPercentToXm5 percent = WindowsPercentToXm5AbsoluteVolume (ucast percent) \<and>
   NldAvrcpControlXm5ToPercent volume = Xm5AbsoluteVolumeToWindowsPercent (ucast volume)"
  by (simp add: NldAvrcpControlPercentToXm5_def NldAvrcpControlXm5ToPercent_def u8_min
      clamp_percent_u8_def WindowsPercentToXm5AbsoluteVolume_def Xm5AbsoluteVolumeToWindowsPercent_def)

section \<open>A volume that is never sent\<close>

text \<open>The packet is a command that sets the absolute volume.\<close>

definition is_volume_command :: "bytes \<Rightarrow> bool" where
  "is_volume_command packet \<longleftrightarrow>
     (let (status, vendor) = avrcp_parse_vendor_frame packet
      in status = AVRCP_OK \<and> af_command_response (av_frame vendor) = 0 \<and>
         av_pdu_id vendor = AVRCP_PDU_SET_ABSOLUTE_VOLUME)"

lemma reads_no_volume:
  "vendor_reads packet response label ctype pdu_id parameters \<Longrightarrow>
   response \<or> pdu_id \<noteq> AVRCP_PDU_SET_ABSOLUTE_VOLUME \<Longrightarrow> \<not> is_volume_command packet"
  by (auto simp: vendor_reads_def is_volume_command_def case_prod_beta split: if_splits)

lemma empty_no_volume [simp]: "\<not> is_volume_command []"
  by (simp add: is_volume_command_def avrcp_parse_vendor_frame_def avrcp_parse_frame_def)

lemma pass_through_no_volume:
  "\<not> is_volume_command (avrcp_write_pass_through_response n command response)"
proof (cases "avrcp_write_pass_through_response n command response = []")
  case False
  let ?reply = "avrcp_write_pass_through_response n command response"
  obtain p where p: "avrcp_parse_pass_through command = (AVRCP_OK, p)"
    "?reply = (take (min (length command) 8) command)
       [0 := take (min (length command) 8) command ! 0 OR 0x02, 3 := response]"
    using False by (auto simp: avrcp_write_pass_through_response_def Let_def case_prod_beta
        prod_eq_iff split: if_splits)
  have "?reply ! 5 = AVRCP_OPCODE_PASS_THROUGH"
    using parse_pass_through_ok [OF p(1)] parse_frame_ok(4) [OF parse_pass_through_ok(1) [OF p(1)]]
    by (simp add: p(2) min_def)
  then have "avrcp_parse_vendor_frame ?reply \<noteq> (AVRCP_OK, v)" for v
    using parse_vendor_ok [of ?reply v] parse_frame_ok(4) by auto
  then show ?thesis by (auto simp: is_volume_command_def split: prod.split)
qed simp

lemma written_no_volume:
  assumes "label \<le> 0x0F" "ctype AND 0xF0 = 0" "length parameters \<le> 9"
  shows "\<not> is_volume_command (avrcp_write_vendor_response AVRCP_MAX_CONTROL_PACKET label ctype pdu_id
      parameters)"
    "pdu_id \<noteq> AVRCP_PDU_SET_ABSOLUTE_VOLUME \<Longrightarrow>
     \<not> is_volume_command (avrcp_write_vendor_command AVRCP_MAX_CONTROL_PACKET label ctype pdu_id
      parameters)"
  using assms reads_no_volume [OF written_response_reads [of label ctype parameters 64 pdu_id]]
    reads_no_volume [OF written_command_reads [of label ctype parameters 64 pdu_id]]
  by simp_all

lemma playback_status_no_volume:
  "observer_inv observer \<Longrightarrow>
   \<not> is_volume_command (ar_packet (snd (avrcp_observer_submit_playback_status observer status)))"
  by (simp add: avrcp_observer_submit_playback_status_def observer_inv_def avrcp_make_result_def
      written_no_volume Let_def)

lemma fail_no_volume:
  "ar_packet (snd (avrcp_observer_fail_stage observer code stage packet)) = []"
  by (simp add: avrcp_observer_fail_stage_def avrcp_make_result_def)

lemma register_no_volume:
  "observer_inv observer \<Longrightarrow>
   \<not> is_volume_command (ar_packet (snd (avrcp_observer_register_volume observer event)))"
  by (simp add: avrcp_observer_register_volume_def avrcp_next_label_def observer_inv_def
      avrcp_write_register_notification_def written_no_volume fail_no_volume avrcp_observer_fail_def
      Let_def)

lemma pending_response_no_volume:
  assumes "observer_inv observer"
  shows "\<not> is_volume_command (ar_packet (snd (pending_response observer packet v)))"
proof -
  have "observer_inv (observer\<lparr>ob_volume_supported := s\<rparr>)"
    "observer_inv (observer\<lparr>ob_last_absolute_volume := x, ob_last_absolute_volume_valid := True\<rparr>)"
    for s x using assms by (simp_all add: observer_inv_def)
  then show ?thesis
    by (simp add: pending_response_def Let_def fail_no_volume register_no_volume avrcp_make_result_def)
qed

lemma write_response_no_volume:
  assumes "observer_inv observer"
  shows "\<not> is_volume_command (ar_packet (snd (write_response observer packet v)))"
proof -
  have "observer_inv (observer\<lparr>ob_write_active := False\<rparr>)"
    using assms by (simp add: observer_inv_def)
  then show ?thesis
    by (simp add: write_response_def Let_def case_prod_beta playback_status_no_volume)
qed

lemma vendor_command_no_volume:
  assumes "af_transaction_label (av_frame v) \<le> 0x0F"
  shows "\<not> is_volume_command (ar_packet (snd (avrcp_observer_handle_vendor_command observer packet v)))"
  using assms vendor_response_writable(1,2)
  by (simp add: avrcp_observer_handle_vendor_command_def avrcp_observer_fail_def fail_no_volume
      written_no_volume Let_def case_prod_beta)

lemma handle_packet_no_volume:
  assumes "observer_inv observer"
  shows "\<not> is_volume_command (ar_packet (snd (avrcp_observer_handle_packet observer packet)))"
proof -
  obtain status frame where frame: "avrcp_parse_frame packet avrcp_frame_zero = (status, frame)"
    by fastforce
  obtain vs v where v: "avrcp_parse_vendor_frame packet = (vs, v)" by fastforce
  have "\<not> is_volume_command (ar_packet (snd (avrcp_observer_handle_pass_through observer packet)))"
    by (simp add: avrcp_observer_handle_pass_through_def avrcp_observer_fail_def fail_no_volume
        pass_through_no_volume Let_def case_prod_beta)
  then show ?thesis
    using assms vendor_label [of packet v] frame v
    by (simp add: avrcp_observer_handle_packet_def avrcp_observer_fail_def fail_no_volume
        vendor_command_no_volume pending_response_no_volume write_response_no_volume)
qed

datatype control_event =
  Control_Begin u32 nat | Control_Packet bytes nat | Control_Percent u8 nat

fun control_step ::
  "NLD_AVRCP_CONTROL_CONTEXT \<Rightarrow> control_event \<Rightarrow> NLD_AVRCP_CONTROL_CONTEXT \<times> bool \<times> bytes" where
  "control_step context0 (Control_Begin generation capacity) =
     NldAvrcpControlBegin context0 generation capacity"
| "control_step context0 (Control_Packet packet capacity) =
     NldAvrcpControlHandlePacket context0 packet capacity"
| "control_step context0 (Control_Percent percent capacity) =
     NldAvrcpControlSetWindowsPercent context0 percent capacity"

lemma control_step_inv:
  assumes "observer_inv (co_Observer c)"
  shows "observer_inv (co_Observer (fst (control_step c e)))"
  using assms
  by (cases e)
    (simp_all add: NldAvrcpControlBegin_def NldAvrcpControlHandlePacket_def
      NldAvrcpControlSetWindowsPercent_def begin_step observer_inv_init handle_packet_step
      submit_write_step Let_def case_prod_beta)

lemma control_run_inv:
  "observer_inv (co_Observer c) \<Longrightarrow>
   observer_inv (co_Observer (foldl (\<lambda>c e. fst (control_step c e)) c es))"
  by (induction es arbitrary: c) (simp_all add: control_step_inv)

lemma control_reachable_inv:
  "observer_inv (co_Observer (foldl (\<lambda>c e. fst (control_step c e)) NldAvrcpControlInitialize es))"
  by (rule control_run_inv) (simp add: NldAvrcpControlInitialize_def observer_inv_init)

definition packet_run ::
  "NLD_AVRCP_CONTROL_CONTEXT \<Rightarrow> (bytes \<times> nat) list \<Rightarrow> NLD_AVRCP_CONTROL_CONTEXT" where
  "packet_run c packets =
     foldl (\<lambda>c (packet, capacity). fst (NldAvrcpControlHandlePacket c packet capacity)) c packets"

lemma handle_keeps_pending:
  "co_WindowsVolumePending (fst (NldAvrcpControlHandlePacket c packet capacity)) =
     co_WindowsVolumePending c"
  "co_PendingWindowsPercent (fst (NldAvrcpControlHandlePacket c packet capacity)) =
     co_PendingWindowsPercent c"
  by (simp_all add: NldAvrcpControlHandlePacket_def Let_def case_prod_beta)

lemma packet_run_keeps:
  "observer_inv (co_Observer c) \<Longrightarrow> observer_inv (co_Observer (packet_run c packets)) \<and>
   co_WindowsVolumePending (packet_run c packets) = co_WindowsVolumePending c \<and>
   co_PendingWindowsPercent (packet_run c packets) = co_PendingWindowsPercent c"
proof (induction packets arbitrary: c)
  case (Cons p packets)
  have "observer_inv (co_Observer (fst (NldAvrcpControlHandlePacket c (fst p) (snd p))))"
    using control_step_inv [OF Cons.prems, of "Control_Packet (fst p) (snd p)"] by simp
  then show ?case
    using Cons.IH [of "fst (NldAvrcpControlHandlePacket c (fst p) (snd p))"]
    by (simp add: packet_run_def handle_keeps_pending case_prod_beta)
qed (simp add: packet_run_def)

text \<open>C30: A volume set while another is on its way is never sent.  When \<open>SetWindowsPercent\<close> succeeds
  without a packet, it only records the percentage as pending; whatever packets the headset then
  sends, the pending mark stays and no answer of the context is a command that sets a volume.\<close>

theorem pending_volume_lost:
  assumes "context0 = foldl (\<lambda>c e. fst (control_step c e)) NldAvrcpControlInitialize before"
    and "co_State context0 = NldAvrcpControlObserving"
    and "NldAvrcpControlSetWindowsPercent context0 percent capacity = (context1, True, [])"
  shows "co_WindowsVolumePending (packet_run context1 packets) \<and>
         co_PendingWindowsPercent (packet_run context1 packets) = clamp_percent_u8 percent \<and>
         \<not> is_volume_command
            (snd (snd (NldAvrcpControlHandlePacket (packet_run context1 packets) packet capacity')))"
proof -
  have inv: "observer_inv (co_Observer context0)" unfolding assms(1) by (rule control_reachable_inv)
  have "observer_inv (co_Observer context1)"
    using control_step_inv [OF inv, of "Control_Percent percent capacity"] assms(3) by simp
  note run = packet_run_keeps [OF this, of packets]
  have "co_WindowsVolumePending context1 \<and> co_PendingWindowsPercent context1 = clamp_percent_u8 percent"
    using assms(2,3)
    by (auto simp: NldAvrcpControlSetWindowsPercent_def Let_def case_prod_beta split: if_splits)
  moreover have "\<not> is_volume_command
      (snd (snd (NldAvrcpControlHandlePacket (packet_run context1 packets) packet capacity')))"
    using handle_packet_no_volume [OF conjunct1 [OF run], of packet]
    by (simp add: NldAvrcpControlHandlePacket_def Let_def case_prod_beta)
  ultimately show ?thesis using run by simp
qed

text \<open>A context that observes the headset and has just sent a volume.\<close>

definition observing_context :: NLD_AVRCP_CONTROL_CONTEXT where
  "observing_context = foldl (\<lambda>c e. fst (control_step c e)) NldAvrcpControlInitialize
     [Control_Begin 1 64,
      Control_Packet [0x02, 0x11, 0x0E, 0x0C, 0x48, 0x00, 0x00, 0x19, 0x58, 0x10, 0x00, 0x00, 0x03,
        0x03, 0x01, 0x0D] 64,
      Control_Packet [0x12, 0x11, 0x0E, 0x0F, 0x48, 0x00, 0x00, 0x19, 0x58, 0x31, 0x00, 0x00, 0x02,
        0x0D, 0x40] 64,
      Control_Percent 50 64]"

lemma observing_context_eval:
  "co_State observing_context = NldAvrcpControlObserving \<and>
   ob_write_active (co_Observer observing_context) \<and>
   ob_state (co_Observer observing_context) = AVRCP_OBSERVER_OBSERVING"
  by (simp add: observing_context_def NldAvrcpControlInitialize_def NldAvrcpControlBegin_def
      NldAvrcpControlHandlePacket_def NldAvrcpControlSetWindowsPercent_def observer_eval parse_eval
      avrcp_observer_handle_packet_def pending_response_def avrcp_capabilities_include_volume_def
      avrcp_observer_register_volume_def avrcp_write_register_notification_def)

theorem pending_volume_lost_witness:
  "co_WindowsVolumePending
     (packet_run (fst (NldAvrcpControlSetWindowsPercent observing_context 60 64)) [])"
proof -
  have "NldAvrcpControlSetWindowsPercent observing_context 60 64 =
      (fst (NldAvrcpControlSetWindowsPercent observing_context 60 64), True, [])"
    using observing_context_eval
    by (simp add: NldAvrcpControlSetWindowsPercent_def avrcp_observer_submit_write_def
        avrcp_make_result_def)
  then show ?thesis
    using pending_volume_lost [OF observing_context_def, of 60 64 _ "[]"] observing_context_eval
    by blast
qed

end
