(* ===== verification/Ring_Buffers.thy ===== *)
theory Ring_Buffers
  imports Prelude
begin

text \<open>
  Ring buffers, as the event queues of the AVRCP drivers and the PCM ring of the audio endpoint use
  them: what a ring holds, what an append, a removal and a block transfer in two copies do to it.

  The locale \<open>bounded_log\<close> is what a reader of an event queue relies on: a push appends and keeps the
  last events that fit, a pop takes the oldest.
\<close>

section \<open>Ring buffers\<close>

definition ring_contents :: "'e list \<Rightarrow> nat \<Rightarrow> nat \<Rightarrow> 'e list" where
  "ring_contents events head count =
     map (\<lambda>i. events ! ((head + i) mod length events)) [0..<count]"

lemma length_ring_contents [simp]: "length (ring_contents events head count) = count"
  by (simp add: ring_contents_def)

lemma ring_contents_empty [simp]: "ring_contents events head count = [] \<longleftrightarrow> count = 0"
  by (simp add: ring_contents_def)

lemma ring_contents_0 [simp]: "ring_contents events head 0 = []"
  by (simp add: ring_contents_def)

lemma ring_slot:
  "head < n \<Longrightarrow> i \<le> n \<Longrightarrow>
   (head + i) mod n = (if head + i < n then head + i else head + i - n)" for n :: nat
  by (auto simp: not_less le_mod_geq)

lemma ring_append:
  assumes "head < length events" "count < length events"
  shows "ring_contents (events[(head + count) mod length events := e]) head (Suc count) =
    ring_contents events head count @ [e]"
  using assms
  by (auto simp: ring_contents_def ring_slot nth_list_update intro!: nth_equalityI)

lemma ring_drop:
  assumes "head < length events" "0 < count" "count \<le> length events"
  shows "ring_contents events ((head + 1) mod length events) (count - 1) =
      tl (ring_contents events head count)"
    "hd (ring_contents events head count) = events ! head"
proof -
  have "((head + 1) mod length events + i) mod length events = (head + Suc i) mod length events" for i
    by (simp add: mod_simps)
  then show "ring_contents events ((head + 1) mod length events) (count - 1) =
      tl (ring_contents events head count)"
    using assms(2) by (auto simp: ring_contents_def nth_tl intro!: nth_equalityI)
  show "hd (ring_contents events head count) = events ! head"
    using assms by (simp add: ring_contents_def hd_map hd_conv_nth)
qed

lemma ring_clear:
  assumes "head < length events" "0 < count" "count \<le> length events"
  shows "ring_contents (events[head := z]) ((head + 1) mod length events) (count - 1) =
      tl (ring_contents events head count)"
proof -
  have "head \<noteq> ((head + 1) mod length events + i) mod length events" if "i < count - 1" for i
    using assms that ring_slot [of head "length events" "Suc i"] by (auto simp: mod_simps)
  then show ?thesis
    unfolding ring_drop(1) [OF assms, symmetric] by (simp add: ring_contents_def)
qed

section \<open>Logs that keep the last events\<close>

definition keep :: "nat \<Rightarrow> 'e list \<Rightarrow> 'e list" where
  "keep n xs = drop (length xs - n) xs"

lemma keep_short: "length xs \<le> n \<Longrightarrow> keep n xs = xs"
  by (simp add: keep_def)

lemma length_keep [simp]: "length (keep n xs) = min n (length xs)"
  by (simp add: keep_def)

lemma keep_keep_append: "keep n (keep n xs @ ys) = keep n (xs @ ys)"
  by (cases "length xs \<le> n") (auto simp: keep_def drop_append add.commute)

lemma keep_append_keep: "keep n (xs @ keep n ys) = keep n (xs @ ys)"
  by (cases "length ys \<le> n") (simp_all add: keep_def)

fun drain :: "('s \<Rightarrow> 's \<times> 'e option) \<Rightarrow> nat \<Rightarrow> 's \<Rightarrow> 'e list" where
  "drain pop 0 s = []"
| "drain pop (Suc n) s =
     (let (s', result) = pop s in (case result of None \<Rightarrow> [] | Some e \<Rightarrow> e # drain pop n s'))"

fun log_entries :: "('x \<Rightarrow> 's \<Rightarrow> bool) \<Rightarrow> ('x \<Rightarrow> 's \<Rightarrow> 'e) \<Rightarrow> ('x \<Rightarrow> 's \<Rightarrow> 's) \<Rightarrow> 'x list \<Rightarrow> 's \<Rightarrow> 'e list" where
  "log_entries accepts entry push [] s = []"
| "log_entries accepts entry push (x # xs) s =
     (if accepts x s then [entry x s] else []) @ log_entries accepts entry push xs (push x s)"

locale bounded_log =
  fixes contents :: "'s \<Rightarrow> 'e list"
    and push :: "'x \<Rightarrow> 's \<Rightarrow> 's"
    and accepts :: "'x \<Rightarrow> 's \<Rightarrow> bool"
    and entry :: "'x \<Rightarrow> 's \<Rightarrow> 'e"
    and pop :: "'s \<Rightarrow> 's \<times> 'e option"
    and capacity :: nat
    and well_formed :: "'s \<Rightarrow> bool"
  assumes push_well_formed: "well_formed s \<Longrightarrow> well_formed (push x s)"
    and pop_well_formed: "well_formed s \<Longrightarrow> well_formed (fst (pop s))"
    and push_contents: "well_formed s \<Longrightarrow> contents (push x s) =
      (if accepts x s then keep capacity (contents s @ [entry x s]) else contents s)"
    and pop_empty: "well_formed s \<Longrightarrow> contents s = [] \<Longrightarrow> pop s = (s, None)"
    and pop_contents: "well_formed s \<Longrightarrow> contents s = e # es \<Longrightarrow>
      snd (pop s) = Some e \<and> contents (fst (pop s)) = es"
    and within_capacity: "well_formed s \<Longrightarrow> length (contents s) \<le> capacity"
begin

abbreviation entries where "entries \<equiv> log_entries accepts entry push"

lemma run_well_formed: "well_formed s \<Longrightarrow> well_formed (fold push xs s)"
  by (induction xs arbitrary: s) (simp_all add: push_well_formed)

lemma run_contents:
  "well_formed s \<Longrightarrow> contents (fold push xs s) = keep capacity (contents s @ entries xs s)"
proof (induction xs arbitrary: s)
  case Nil
  then show ?case by (simp add: keep_short within_capacity)
next
  case (Cons x xs)
  then show ?case
    using Cons.IH [OF push_well_formed [OF Cons.prems, of x]] push_contents [OF Cons.prems, of x]
      keep_keep_append [of capacity "contents s @ [entry x s]" "entries xs (push x s)"]
    by simp
qed

lemma drain_contents:
  "well_formed s \<Longrightarrow> drain pop (length (contents s)) s = contents s"
proof (induction "contents s" arbitrary: s)
  case Nil
  then show ?case by (simp flip: Nil.hyps)
next
  case (Cons e es)
  then have "snd (pop s) = Some e" "contents (fst (pop s)) = es"
    using pop_contents [of s e es] by simp_all
  then show ?case
    using Cons.hyps(1) [of "fst (pop s)"] pop_well_formed [OF Cons.prems] Cons.hyps(2)
    by (simp flip: Cons.hyps(2) add: case_prod_beta)
qed

lemma delivers_last:
  "well_formed s \<Longrightarrow> drain pop (length (contents (fold push xs s))) (fold push xs s) =
   keep capacity (contents s @ entries xs s)"
  using drain_contents [OF run_well_formed, of s xs] run_contents [of s xs] by simp

end

text \<open>Transfers of a block, in the two copies a ring needs when the block wraps around its end.\<close>

definition copy_into :: "'e list \<Rightarrow> nat \<Rightarrow> 'e list \<Rightarrow> 'e list" where
  "copy_into buffer offset xs =
     take offset buffer @ xs @ drop (offset + length xs) buffer"

definition ring_write :: "'e list \<Rightarrow> nat \<Rightarrow> 'e list \<Rightarrow> 'e list" where
  "ring_write buffer offset xs =
     (let first = min (length xs) (length buffer - offset)
      in copy_into (copy_into buffer offset (take first xs)) 0 (drop first xs))"

definition ring_read :: "'e list \<Rightarrow> nat \<Rightarrow> nat \<Rightarrow> 'e list" where
  "ring_read buffer offset n =
     (let first = min n (length buffer - offset)
      in take first (drop offset buffer) @ take (n - first) buffer)"

lemma length_copy_into [simp]:
  "offset + length xs \<le> length buffer \<Longrightarrow> length (copy_into buffer offset xs) = length buffer"
  by (simp add: copy_into_def)

lemma copy_into_nth:
  "offset + length xs \<le> length buffer \<Longrightarrow> i < length buffer \<Longrightarrow>
   copy_into buffer offset xs ! i =
     (if offset \<le> i \<and> i < offset + length xs then xs ! (i - offset) else buffer ! i)"
  by (auto simp: copy_into_def nth_append min_absorb2)

lemma copy_into_Nil [simp]: "copy_into buffer offset [] = buffer"
  by (simp add: copy_into_def)

lemma length_ring_write [simp]:
  "length xs \<le> length buffer \<Longrightarrow> offset < length buffer \<Longrightarrow>
   length (ring_write buffer offset xs) = length buffer"
  by (simp add: ring_write_def Let_def min_def)

lemma ring_write_nth:
  assumes "length xs \<le> length buffer" "offset < length buffer" "i < length buffer"
  shows "ring_write buffer offset xs ! i =
    (if offset \<le> i then if i < offset + length xs then xs ! (i - offset) else buffer ! i
     else if i + length buffer < offset + length xs then xs ! (i + length buffer - offset)
     else buffer ! i)"
proof (cases "length xs \<le> length buffer - offset")
  case True
  then show ?thesis
    using assms by (auto simp: ring_write_def copy_into_nth min_absorb1)
next
  case False
  then show ?thesis
    using assms by (auto simp: ring_write_def Let_def copy_into_nth min_absorb2 nth_append add.commute)
qed

lemma ring_append_many:
  assumes "head < length events" "count + length xs \<le> length events"
  shows "ring_contents (ring_write events ((head + count) mod length events) xs) head (count + length xs) =
    ring_contents events head count @ xs"
proof (rule nth_equalityI)
  fix i
  assume "i < length (ring_contents (ring_write events ((head + count) mod length events) xs) head
    (count + length xs))"
  then have i: "i < count + length xs" by simp
  define offset where "offset = (head + count) mod length events"
  have offset: "offset < length events" "offset = (if head + count < length events then head + count
      else head + count - length events)"
    using assms by (auto simp: offset_def ring_slot)
  have slot: "(head + i) mod length events = (if head + i < length events then head + i
      else head + i - length events)"
    using assms i by (auto simp: ring_slot)
  show "ring_contents (ring_write events ((head + count) mod length events) xs) head
      (count + length xs) ! i = (ring_contents events head count @ xs) ! i"
    using assms i offset
    by (simp add: ring_contents_def nth_append slot ring_write_nth flip: offset_def)
      (auto split: if_splits)
qed simp

lemma ring_drop_many:
  assumes "k \<le> count"
  shows "ring_contents events ((head + k) mod length events) (count - k) =
    drop k (ring_contents events head count)"
proof -
  have "((head + k) mod length events + i) mod length events = (head + (k + i)) mod length events" for i
    by (simp add: mod_simps add.assoc)
  then show ?thesis
    using assms by (auto simp: ring_contents_def intro!: nth_equalityI)
qed

lemma ring_read_contents:
  assumes "head < length events" "n \<le> length events"
  shows "ring_read events head n = ring_contents events head n"
proof (cases "n \<le> length events - head")
  case True
  then show ?thesis
    using assms
    by (auto simp: ring_read_def ring_contents_def min_absorb1 intro!: nth_equalityI)
next
  case False
  then have "length (ring_read events head n) = n"
    using assms by (simp add: ring_read_def Let_def)
  then show ?thesis
    using False assms
    by (auto simp: ring_read_def ring_contents_def Let_def nth_append ring_slot min_absorb2 add.commute
        intro!: nth_equalityI)
qed

lemma take_ring_contents: "n \<le> count \<Longrightarrow> take n (ring_contents events head count) = ring_contents events head n"
  by (auto simp: ring_contents_def intro!: nth_equalityI)

text \<open>A block pushed into a ring gives up as much of the oldest as does not fit.\<close>

lemma ring_push_block:
  assumes "head < length events" "count \<le> length events" "length xs \<le> length events"
  defines "k \<equiv> length xs - (length events - count)"
  shows "ring_contents (ring_write events ((head + count) mod length events) xs)
      ((head + k) mod length events) (count - k + length xs) =
    keep (length events) (ring_contents events head count @ xs)"
proof -
  have k: "k \<le> count" "count - k + length xs \<le> length events"
    using assms(2,3) by (auto simp: k_def)
  have "((head + k) mod length events + (count - k)) mod length events =
      (head + k + (count - k)) mod length events"
    by (rule mod_add_left_eq)
  then have "((head + k) mod length events + (count - k)) mod length events =
      (head + count) mod length events"
    using k(1) by simp
  moreover have "(head + k) mod length events < length events"
    using assms(1) by (metis gr_implies_not0 mod_less_divisor neq0_conv)
  ultimately have "ring_contents (ring_write events ((head + count) mod length events) xs)
      ((head + k) mod length events) (count - k + length xs) =
    drop k (ring_contents events head count) @ xs"
    using ring_append_many [of "(head + k) mod length events" events "count - k" xs]
      ring_drop_many [OF k(1)] k assms(1) by simp
  then show ?thesis
    using k assms(2) by (simp add: keep_def k_def add.commute)
qed

text \<open>The same over the 32-bit indices of the queues: a push into a full ring gives up the oldest.\<close>

lemma ring_full:
  assumes "head < length events" "0 < length events"
  shows "ring_contents (events[head := e]) ((head + 1) mod length events) (length events) =
    tl (ring_contents events head (length events)) @ [e]"
proof -
  have "((head + 1) mod length events + (length events - 1)) mod length events = head"
  proof (cases "head + 1 = length events")
    case True
    then show ?thesis by (auto simp flip: True)
  next
    case False
    then show ?thesis using assms by (simp add: ring_slot)
  qed
  then show ?thesis
    using ring_append [of "(head + 1) mod length events" events "length events - 1" e]
      ring_drop(1) [of head events "length events"] assms by simp
qed

lemma keep_push:
  "length xs < n \<Longrightarrow> keep n (xs @ [e]) = xs @ [e]"
  "length xs = n \<Longrightarrow> 0 < n \<Longrightarrow> keep n (xs @ [e]) = tl xs @ [e]"
  by (cases xs; simp add: keep_def)+

lemma next_slot:
  "(head :: u32) < cap \<Longrightarrow> cap < 0x80000000 \<Longrightarrow> unat ((head + 1) mod cap) = (unat head + 1) mod unat cap"
  by (simp add: unat_mod word_less_nat_alt unat_word_ariths)

lemma ring_index:
  "(head :: u32) < cap \<Longrightarrow> count \<le> cap \<Longrightarrow> cap < 0x80000000 \<Longrightarrow>
   unat ((head + count) mod cap) = (unat head + unat count) mod unat cap"
  by (simp add: unat_mod word_less_nat_alt word_le_nat_alt unat_word_ariths)

lemma ring_push_full:
  fixes head cap :: u32
  assumes "length events = unat cap" "head < cap" "cap < 0x80000000"
  shows "(head + 1) mod cap < cap"
    "ring_contents (events[unat (((head + 1) mod cap + (cap - 1)) mod cap) := e])
       (unat ((head + 1) mod cap)) (unat cap) =
     keep (unat cap) (ring_contents events (unat head) (unat cap) @ [e])"
proof -
  have pos: "unat head < unat cap" and less: "(head + 1) mod cap < cap"
    using assms(2) by (simp_all add: word_less_nat_alt unat_mod)
  then have slot: "((unat head + 1) mod unat cap + (unat cap - 1)) mod unat cap = unat head"
    by (cases "unat head + 1 = unat cap") (simp_all add: ring_slot)
  have "unat (cap - 1) = unat cap - 1" "cap - 1 \<le> cap"
    using pos unat_minus_one [of cap] by (cases "cap = 0"; simp add: word_le_nat_alt)+
  then have "unat (((head + 1) mod cap + (cap - 1)) mod cap) = unat head"
    using ring_index [OF less, of "cap - 1"] slot assms by (simp add: next_slot)
  then show "ring_contents (events[unat (((head + 1) mod cap + (cap - 1)) mod cap) := e])
      (unat ((head + 1) mod cap)) (unat cap) =
    keep (unat cap) (ring_contents events (unat head) (unat cap) @ [e])"
    using ring_full [of "unat head" events e] pos assms by (simp add: next_slot keep_push)
  show "(head + 1) mod cap < cap"
    by (rule less)
qed

lemma ring_push_room:
  fixes head count cap :: u32
  assumes "length events = unat cap" "head < cap" "count < cap" "cap < 0x80000000"
  shows "count + 1 \<le> cap"
    "ring_contents (events[unat ((head + count) mod cap) := e]) (unat head) (unat (count + 1)) =
     keep (unat cap) (ring_contents events (unat head) (unat count) @ [e])"
proof -
  have "unat (count + 1) = Suc (unat count)"
    using assms(3,4) by (simp add: word_less_nat_alt unat_word_ariths)
  then show "count + 1 \<le> cap"
    "ring_contents (events[unat ((head + count) mod cap) := e]) (unat head) (unat (count + 1)) =
     keep (unat cap) (ring_contents events (unat head) (unat count) @ [e])"
    using assms ring_append [of "unat head" events "unat count" e] ring_index [of head cap count]
    by (simp_all add: word_less_nat_alt word_le_nat_alt keep_push(1))
qed

lemma ring_pop:
  fixes head count cap :: u32
  assumes "length events = unat cap" "head < cap" "count \<le> cap" "cap < 0x80000000"
  shows "(head + 1) mod cap < cap"
    "count \<noteq> 0 \<Longrightarrow> count - 1 \<le> cap"
    "count \<noteq> 0 \<Longrightarrow> ring_contents (events[unat head := z]) (unat ((head + 1) mod cap)) (unat (count - 1)) =
       tl (ring_contents events (unat head) (unat count))"
    "count \<noteq> 0 \<Longrightarrow> events ! unat head = hd (ring_contents events (unat head) (unat count))"
proof -
  have count: "unat (count - 1) = unat count - 1" "0 < unat count" if "count \<noteq> 0"
    using that by (simp_all add: unat_minus_one unat_gt_0)
  show "(head + 1) mod cap < cap"
    by (rule ring_push_full(1) [OF assms(1, 2, 4)])
  show "count - 1 \<le> cap" if "count \<noteq> 0"
    using assms(3) count [OF that] by (simp add: word_le_nat_alt)
  show "ring_contents (events[unat head := z]) (unat ((head + 1) mod cap)) (unat (count - 1)) =
      tl (ring_contents events (unat head) (unat count))" if "count \<noteq> 0"
    using ring_clear [of "unat head" events "unat count" z] count [OF that] assms
    by (simp add: next_slot word_less_nat_alt word_le_nat_alt)
  show "events ! unat head = hd (ring_contents events (unat head) (unat count))" if "count \<noteq> 0"
    using ring_drop(2) [of "unat head" events "unat count"] count [OF that] assms
    by (simp add: word_less_nat_alt word_le_nat_alt)
qed

end
