(* ===== verification/Event_Queues.thy ===== *)
theory Event_Queues
  imports Generation Ring_Buffers
begin

text \<open>
  The event queues of the two kernel drivers that watch AVRCP: the observer's queue,
  \<open>avrcp-sideband/src/nativeldac_avrcp_event_queue_contract.c\<close>, and the filter's trace,
  \<open>avrcp-filter/src/nativeldac_avrcp_filter_trace_contract.c\<close>.  Both are ring buffers that drop their
  oldest event when they are full and number the events they take.

  Both are interpretations of the locale \<open>bounded_log\<close> of the theory \<open>Ring_Buffers\<close>.  An
  enumeration type is a datatype with its codes; a \<open>LONG\<close> is the word of its bits; the fields
  \<open>RawPrefixHigh\<close> to \<open>RawPrefixHigh15\<close> of an observer event are a list of 15 words.  The guards against null pointers are not modelled.
\<close>

section \<open>The observer's queue\<close>

abbreviation (input) "NLD_AVRCP_EVENT_QUEUE_CAPACITY \<equiv> (64 :: u32)"
abbreviation (input) "NLD_AVRCP_EVENT_FLAG_RAW_PREFIX \<equiv> (0x20 :: u32)"
abbreviation (input) "NLD_AVRCP_EVENT_RAW_LENGTH_SHIFT \<equiv> (8 :: nat)"
abbreviation (input) "NLD_AVRCP_OBSERVER_STATUS_QUEUE_OVERFLOW \<equiv> (0x40 :: u32)"

datatype NLD_AVRCP_OBSERVER_EVENT_TYPE =
  NldAvrcpObserverEventNone | NldAvrcpObserverEventAclConnected
| NldAvrcpObserverEventAclDisconnected | NldAvrcpObserverEventVolumeCapability
| NldAvrcpObserverEventAbsoluteVolume | NldAvrcpObserverEventPassThrough
| NldAvrcpObserverEventProtocolError | NldAvrcpObserverEventVendorCommand
| NldAvrcpObserverEventWriteResponse

fun observer_event_code :: "NLD_AVRCP_OBSERVER_EVENT_TYPE \<Rightarrow> u32" where
  "observer_event_code NldAvrcpObserverEventNone = 0"
| "observer_event_code NldAvrcpObserverEventAclConnected = 1"
| "observer_event_code NldAvrcpObserverEventAclDisconnected = 2"
| "observer_event_code NldAvrcpObserverEventVolumeCapability = 3"
| "observer_event_code NldAvrcpObserverEventAbsoluteVolume = 4"
| "observer_event_code NldAvrcpObserverEventPassThrough = 5"
| "observer_event_code NldAvrcpObserverEventProtocolError = 6"
| "observer_event_code NldAvrcpObserverEventVendorCommand = 7"
| "observer_event_code NldAvrcpObserverEventWriteResponse = 8"

record NLD_AVRCP_OBSERVER_EVENT =
  oe_Size :: u32
  oe_Type :: u32
  oe_AclGeneration :: u64
  oe_Sequence :: u64
  oe_Timestamp100ns :: u64
  oe_Flags :: u32
  oe_Value0 :: u32
  oe_ProtocolStatus :: u32
  oe_RawPrefixHigh :: "u32 list"

definition observer_event_zero :: NLD_AVRCP_OBSERVER_EVENT where
  "observer_event_zero =
     \<lparr>oe_Size = 0, oe_Type = 0, oe_AclGeneration = 0, oe_Sequence = 0, oe_Timestamp100ns = 0,
      oe_Flags = 0, oe_Value0 = 0, oe_ProtocolStatus = 0, oe_RawPrefixHigh = replicate 15 0\<rparr>"

record NLD_AVRCP_OBSERVER_STATUS =
  os_Size :: u32
  os_Flags :: u32
  os_AclGeneration :: u64
  os_QueueDepth :: u32
  os_DroppedEvents :: u32
  os_LastProtocolStatus :: u32
  os_LastOpenStatus :: u32
  os_LastCloseStatus :: u32
  os_Reserved :: "u32 list"

record NLD_AVRCP_EVENT_QUEUE =
  eq_Events :: "NLD_AVRCP_OBSERVER_EVENT list"
  eq_AclGeneration :: u64
  eq_NextSequence :: u64
  eq_Head :: u32
  eq_Count :: u32
  eq_DroppedEvents :: u32
  eq_GenerationCurrent :: bool

definition NldAvrcpGenerationIsNewer :: "u64 \<Rightarrow> u64 \<Rightarrow> bool" where
  "NldAvrcpGenerationIsNewer candidate current =
     (if candidate = 0 then False
      else if current = 0 then True
      else let distance = candidate - current in distance \<noteq> 0 \<and> distance < push_bit 63 1)"

definition NldAvrcpNextNonzero :: "u64 \<Rightarrow> u64" where
  "NldAvrcpNextNonzero value = (if value = NOT 0 then 1 else value + 1)"

definition appended_event ::
  "NLD_AVRCP_EVENT_QUEUE \<Rightarrow> NLD_AVRCP_OBSERVER_EVENT_TYPE \<Rightarrow> u32 \<Rightarrow> u32 \<Rightarrow> u32 \<Rightarrow> u32 \<Rightarrow>
   u32 list option \<Rightarrow> u64 \<Rightarrow> NLD_AVRCP_OBSERVER_EVENT" where
  "appended_event queue type0 flags value0 protocol_status raw_prefix_size
     raw_prefix_high_words timestamp_100ns =
     (let event = observer_event_zero
            \<lparr>oe_Size := 104, oe_Type := observer_event_code type0,
             oe_AclGeneration := eq_AclGeneration queue, oe_Sequence := eq_NextSequence queue,
             oe_Timestamp100ns := timestamp_100ns, oe_Flags := flags, oe_Value0 := value0,
             oe_ProtocolStatus := protocol_status\<rparr>;
          event1 = (case raw_prefix_high_words of None \<Rightarrow> event
                    | Some words \<Rightarrow> event\<lparr>oe_RawPrefixHigh := take 15 words\<rparr>)
      in if raw_prefix_size \<noteq> 0 \<and> raw_prefix_size \<le> 64
         then event1\<lparr>oe_Flags := oe_Flags event1 OR
                (NLD_AVRCP_EVENT_FLAG_RAW_PREFIX OR
                 push_bit NLD_AVRCP_EVENT_RAW_LENGTH_SHIFT raw_prefix_size)\<rparr>
         else event1)"

definition NldAvrcpEventQueueAppend ::
  "NLD_AVRCP_EVENT_QUEUE \<Rightarrow> NLD_AVRCP_OBSERVER_EVENT_TYPE \<Rightarrow> u32 \<Rightarrow> u32 \<Rightarrow> u32 \<Rightarrow> u32 \<Rightarrow>
   u32 list option \<Rightarrow> u64 \<Rightarrow> NLD_AVRCP_EVENT_QUEUE" where
  "NldAvrcpEventQueueAppend queue type0 flags value0 protocol_status raw_prefix_size
     raw_prefix_high_words timestamp_100ns =
     (let queue1 =
            (if eq_Count queue = NLD_AVRCP_EVENT_QUEUE_CAPACITY
             then queue\<lparr>eq_Head := (eq_Head queue + 1) mod NLD_AVRCP_EVENT_QUEUE_CAPACITY,
                        eq_Count := eq_Count queue - 1,
                        eq_DroppedEvents := eq_DroppedEvents queue + 1\<rparr>
             else queue);
          index = (eq_Head queue1 + eq_Count queue1) mod NLD_AVRCP_EVENT_QUEUE_CAPACITY;
          event = appended_event queue1 type0 flags value0 protocol_status raw_prefix_size
                    raw_prefix_high_words timestamp_100ns
      in queue1\<lparr>eq_Events := (eq_Events queue1)[unat index := event],
                eq_NextSequence := NldAvrcpNextNonzero (eq_NextSequence queue1),
                eq_Count := eq_Count queue1 + 1\<rparr>)"

definition NldAvrcpEventQueueInitialize :: NLD_AVRCP_EVENT_QUEUE where
  "NldAvrcpEventQueueInitialize =
     \<lparr>eq_Events = replicate 64 observer_event_zero, eq_AclGeneration = 0, eq_NextSequence = 1,
      eq_Head = 0, eq_Count = 0, eq_DroppedEvents = 0, eq_GenerationCurrent = False\<rparr>"

definition NldAvrcpEventQueueBeginGeneration ::
  "NLD_AVRCP_EVENT_QUEUE \<Rightarrow> u64 \<Rightarrow> u64 \<Rightarrow> NLD_AVRCP_EVENT_QUEUE \<times> bool" where
  "NldAvrcpEventQueueBeginGeneration queue acl_generation timestamp_100ns =
     (if \<not> NldAvrcpGenerationIsNewer acl_generation (eq_AclGeneration queue) then (queue, False)
      else
        (NldAvrcpEventQueueAppend
           (queue\<lparr>eq_AclGeneration := acl_generation, eq_NextSequence := 1, eq_Head := 0,
                  eq_Count := 0, eq_DroppedEvents := 0, eq_GenerationCurrent := True\<rparr>)
           NldAvrcpObserverEventAclConnected 0 0 0 0 None timestamp_100ns, True))"

definition NldAvrcpEventQueueEndGeneration ::
  "NLD_AVRCP_EVENT_QUEUE \<Rightarrow> u64 \<Rightarrow> u64 \<Rightarrow> NLD_AVRCP_EVENT_QUEUE \<times> bool" where
  "NldAvrcpEventQueueEndGeneration queue acl_generation timestamp_100ns =
     (if \<not> eq_GenerationCurrent queue \<or> eq_AclGeneration queue \<noteq> acl_generation
      then (queue, False)
      else
        ((NldAvrcpEventQueueAppend queue NldAvrcpObserverEventAclDisconnected 0 0 0 0 None
            timestamp_100ns)\<lparr>eq_GenerationCurrent := False\<rparr>, True))"

definition NldAvrcpEventQueuePush ::
  "NLD_AVRCP_EVENT_QUEUE \<Rightarrow> u64 \<Rightarrow> NLD_AVRCP_OBSERVER_EVENT_TYPE \<Rightarrow> u32 \<Rightarrow> u32 \<Rightarrow> u32 \<Rightarrow> u32 \<Rightarrow>
   u32 list option \<Rightarrow> u64 \<Rightarrow> NLD_AVRCP_EVENT_QUEUE \<times> bool" where
  "NldAvrcpEventQueuePush queue acl_generation type0 flags value0 protocol_status raw_prefix_size
     raw_prefix_high_words timestamp_100ns =
     (if \<not> eq_GenerationCurrent queue \<or> eq_AclGeneration queue \<noteq> acl_generation \<or>
         observer_event_code type0 < observer_event_code NldAvrcpObserverEventVolumeCapability \<or>
         observer_event_code type0 > observer_event_code NldAvrcpObserverEventWriteResponse
      then (queue, False)
      else (NldAvrcpEventQueueAppend queue type0 flags value0 protocol_status raw_prefix_size
              raw_prefix_high_words timestamp_100ns, True))"

definition NldAvrcpEventQueuePop ::
  "NLD_AVRCP_EVENT_QUEUE \<Rightarrow> NLD_AVRCP_EVENT_QUEUE \<times> NLD_AVRCP_OBSERVER_EVENT option" where
  "NldAvrcpEventQueuePop queue =
     (if eq_Count queue = 0 then (queue, None)
      else
        (queue\<lparr>eq_Events := (eq_Events queue)[unat (eq_Head queue) := observer_event_zero],
               eq_Head := (eq_Head queue + 1) mod NLD_AVRCP_EVENT_QUEUE_CAPACITY,
               eq_Count := eq_Count queue - 1\<rparr>,
         Some (eq_Events queue ! unat (eq_Head queue))))"

definition NldAvrcpEventQueueGetStatus :: "NLD_AVRCP_EVENT_QUEUE \<Rightarrow> NLD_AVRCP_OBSERVER_STATUS" where
  "NldAvrcpEventQueueGetStatus queue =
     (let status =
        \<lparr>os_Size = 56, os_Flags = 0, os_AclGeneration = eq_AclGeneration queue,
         os_QueueDepth = eq_Count queue, os_DroppedEvents = eq_DroppedEvents queue,
         os_LastProtocolStatus = 0, os_LastOpenStatus = 0, os_LastCloseStatus = 0,
         os_Reserved = replicate 5 0\<rparr>
      in if eq_DroppedEvents queue \<noteq> 0
         then status\<lparr>os_Flags := os_Flags status OR NLD_AVRCP_OBSERVER_STATUS_QUEUE_OVERFLOW\<rparr>
         else status)"

definition observer_contents :: "NLD_AVRCP_EVENT_QUEUE \<Rightarrow> NLD_AVRCP_OBSERVER_EVENT list" where
  "observer_contents queue =
     ring_contents (eq_Events queue) (unat (eq_Head queue)) (unat (eq_Count queue))"

definition observer_queue_ok :: "NLD_AVRCP_EVENT_QUEUE \<Rightarrow> bool" where
  "observer_queue_ok queue \<longleftrightarrow>
     length (eq_Events queue) = 64 \<and> eq_Head queue < 64 \<and> eq_Count queue \<le> 64"

lemma appended_event_frame [simp]:
  "appended_event (queue\<lparr>eq_Head := h, eq_Count := n, eq_DroppedEvents := d\<rparr>) = appended_event queue"
  by (simp add: fun_eq_iff appended_event_def)

lemma observer_append:
  assumes "observer_queue_ok queue"
  shows "observer_queue_ok (NldAvrcpEventQueueAppend queue t f v p r w ts)"
    "observer_contents (NldAvrcpEventQueueAppend queue t f v p r w ts) =
       keep 64 (observer_contents queue @ [appended_event queue t f v p r w ts])"
proof -
  have ok: "length (eq_Events queue) = unat (64 :: u32)" "eq_Head queue < 64" "eq_Count queue \<le> 64"
    using assms by (simp_all add: observer_queue_ok_def)
  let ?queue = "NldAvrcpEventQueueAppend queue t f v p r w ts"
  have "observer_queue_ok ?queue \<and> observer_contents ?queue =
    keep 64 (observer_contents queue @ [appended_event queue t f v p r w ts])"
  proof (cases "eq_Count queue = 64")
    case True
    then show ?thesis
      using ring_push_full [OF ok(1,2)] ok
      by (simp add: observer_queue_ok_def observer_contents_def NldAvrcpEventQueueAppend_def Let_def)
  next
    case False
    then show ?thesis
      using ring_push_room [OF ok(1,2), of "eq_Count queue"] ok
      by (simp add: observer_queue_ok_def observer_contents_def NldAvrcpEventQueueAppend_def Let_def le_less)
  qed
  then show "observer_queue_ok ?queue" "observer_contents ?queue =
    keep 64 (observer_contents queue @ [appended_event queue t f v p r w ts])"
    by simp_all
qed

lemma observer_pop:
  assumes "observer_queue_ok queue"
  shows "observer_queue_ok (fst (NldAvrcpEventQueuePop queue))"
    "observer_contents queue = [] \<Longrightarrow> NldAvrcpEventQueuePop queue = (queue, None)"
    "observer_contents queue = e # es \<Longrightarrow> snd (NldAvrcpEventQueuePop queue) = Some e \<and>
       observer_contents (fst (NldAvrcpEventQueuePop queue)) = es"
proof -
  have ok: "length (eq_Events queue) = 64" "eq_Head queue < 64" "eq_Count queue \<le> 64"
    using assms by (simp_all add: observer_queue_ok_def)
  show "observer_contents queue = [] \<Longrightarrow> NldAvrcpEventQueuePop queue = (queue, None)"
    by (simp add: observer_contents_def NldAvrcpEventQueuePop_def unat_eq_zero)
  show "observer_queue_ok (fst (NldAvrcpEventQueuePop queue))"
    using ok ring_pop(1, 2) [of "eq_Events queue" 64 "eq_Head queue" "eq_Count queue"]
    by (simp add: observer_queue_ok_def NldAvrcpEventQueuePop_def)
  show "snd (NldAvrcpEventQueuePop queue) = Some e \<and>
      observer_contents (fst (NldAvrcpEventQueuePop queue)) = es" if "observer_contents queue = e # es"
  proof -
    have "eq_Count queue \<noteq> 0"
      using arg_cong [OF that, of length] by (auto simp: observer_contents_def)
    then show ?thesis
      using that ok ring_pop(3, 4) [of "eq_Events queue" 64 "eq_Head queue" "eq_Count queue"]
      by (simp add: observer_contents_def NldAvrcpEventQueuePop_def)
  qed
qed

fun observer_push ::
  "u64 \<times> NLD_AVRCP_OBSERVER_EVENT_TYPE \<times> u32 \<times> u32 \<times> u32 \<times> u32 \<times> u32 list option \<times> u64 \<Rightarrow>
   NLD_AVRCP_EVENT_QUEUE \<Rightarrow> NLD_AVRCP_EVENT_QUEUE" where
  "observer_push (g, t, f, v, p, r, w, ts) queue = fst (NldAvrcpEventQueuePush queue g t f v p r w ts)"

fun observer_accepts ::
  "u64 \<times> NLD_AVRCP_OBSERVER_EVENT_TYPE \<times> u32 \<times> u32 \<times> u32 \<times> u32 \<times> u32 list option \<times> u64 \<Rightarrow>
   NLD_AVRCP_EVENT_QUEUE \<Rightarrow> bool" where
  "observer_accepts (g, t, f, v, p, r, w, ts) queue \<longleftrightarrow>
     eq_GenerationCurrent queue \<and> eq_AclGeneration queue = g \<and>
     t \<notin> {NldAvrcpObserverEventNone, NldAvrcpObserverEventAclConnected,
          NldAvrcpObserverEventAclDisconnected}"

fun observer_entry ::
  "u64 \<times> NLD_AVRCP_OBSERVER_EVENT_TYPE \<times> u32 \<times> u32 \<times> u32 \<times> u32 \<times> u32 list option \<times> u64 \<Rightarrow>
   NLD_AVRCP_EVENT_QUEUE \<Rightarrow> NLD_AVRCP_OBSERVER_EVENT" where
  "observer_entry (g, t, f, v, p, r, w, ts) queue = appended_event queue t f v p r w ts"

lemma observer_push_accepts:
  "observer_push (g, t, f, v, p, r, w, ts) queue =
    (if observer_accepts (g, t, f, v, p, r, w, ts) queue
     then NldAvrcpEventQueueAppend queue t f v p r w ts else queue)"
  by (cases t) (simp_all add: NldAvrcpEventQueuePush_def)

interpretation observer_log: bounded_log observer_contents observer_push observer_accepts
    observer_entry NldAvrcpEventQueuePop 64 observer_queue_ok
proof unfold_locales
  fix queue e es and x :: "u64 \<times> NLD_AVRCP_OBSERVER_EVENT_TYPE \<times> u32 \<times> u32 \<times> u32 \<times> u32 \<times> u32 list option \<times> u64"
  assume ok: "observer_queue_ok queue"
  obtain g t f v p r w ts where x: "x = (g, t, f, v, p, r, w, ts)"
    by (metis prod.exhaust)
  show "observer_queue_ok (observer_push x queue)"
    using ok unfolding x observer_push_accepts by (simp add: observer_append)
  show "observer_contents (observer_push x queue) =
      (if observer_accepts x queue then keep 64 (observer_contents queue @ [observer_entry x queue])
       else observer_contents queue)"
    using ok unfolding x observer_push_accepts by (simp add: observer_append)
  show "observer_queue_ok (fst (NldAvrcpEventQueuePop queue))"
    "observer_contents queue = [] \<Longrightarrow> NldAvrcpEventQueuePop queue = (queue, None)"
    "observer_contents queue = e # es \<Longrightarrow> snd (NldAvrcpEventQueuePop queue) = Some e \<and>
       observer_contents (fst (NldAvrcpEventQueuePop queue)) = es"
    using observer_pop [OF ok] by simp_all
  show "length (observer_contents queue) \<le> 64"
    using ok by (simp add: observer_queue_ok_def observer_contents_def word_le_nat_alt)
qed

text \<open>The driver's calls on the queue, in any order.\<close>

datatype queue_call =
  BeginGeneration u64 u64
| EndGeneration u64 u64
| PushEvent "u64 \<times> NLD_AVRCP_OBSERVER_EVENT_TYPE \<times> u32 \<times> u32 \<times> u32 \<times> u32 \<times> u32 list option \<times> u64"
| PopEvent

fun queue_step :: "queue_call \<Rightarrow> NLD_AVRCP_EVENT_QUEUE \<Rightarrow> NLD_AVRCP_EVENT_QUEUE" where
  "queue_step (BeginGeneration g ts) queue = fst (NldAvrcpEventQueueBeginGeneration queue g ts)"
| "queue_step (EndGeneration g ts) queue = fst (NldAvrcpEventQueueEndGeneration queue g ts)"
| "queue_step (PushEvent x) queue = observer_push x queue"
| "queue_step PopEvent queue = fst (NldAvrcpEventQueuePop queue)"

lemma fold_invariant_step:
  "P s \<Longrightarrow> (\<And>x s. P s \<Longrightarrow> P (f x s)) \<Longrightarrow> P (fold f xs s)"
  by (induction xs arbitrary: s) simp_all

lemma fresh_queue_ok:
  "observer_queue_ok queue \<Longrightarrow>
   observer_queue_ok (queue\<lparr>eq_AclGeneration := g, eq_NextSequence := 1, eq_Head := 0, eq_Count := 0,
     eq_DroppedEvents := 0\<rparr>)"
  by (simp add: observer_queue_ok_def)

lemma ended_queue_ok [simp]:
  "observer_queue_ok (queue\<lparr>eq_GenerationCurrent := b\<rparr>) = observer_queue_ok queue"
  by (simp add: observer_queue_ok_def)

lemma queue_step_ok: "observer_queue_ok queue \<Longrightarrow> observer_queue_ok (queue_step call queue)"
  by (cases call)
    (simp_all add: observer_log.push_well_formed observer_pop NldAvrcpEventQueueBeginGeneration_def
      NldAvrcpEventQueueEndGeneration_def fresh_queue_ok observer_append)

lemma queue_history_ok: "observer_queue_ok (fold queue_step history NldAvrcpEventQueueInitialize)"
  by (rule fold_invariant_step [where P = observer_queue_ok])
    (simp_all add: queue_step_ok,
     simp add: observer_queue_ok_def NldAvrcpEventQueueInitialize_def)

text \<open>C31: The observer's queue delivers the last 64 events: after any history of generations, pushes
  and pops, a client that pops until the queue is empty receives what the queue held and the events
  pushed since, in the order of their arrival and without a change, cut to the last 64.\<close>

lemma observer_delivers_last_events:
  "let queue = fold queue_step history NldAvrcpEventQueueInitialize;
       queue' = fold observer_push events queue
   in drain NldAvrcpEventQueuePop (unat (eq_Count queue')) queue' =
      keep 64 (observer_contents queue @
        log_entries observer_accepts observer_entry observer_push events queue)"
  using observer_log.delivers_last [OF queue_history_ok, of events history]
  by (simp add: Let_def observer_contents_def)

lemma NldAvrcpGenerationIsNewer_eq: "NldAvrcpGenerationIsNewer = IsNewerGeneration"
  by (simp add: fun_eq_iff NldAvrcpGenerationIsNewer_def IsNewerGeneration_def)

interpretation observer_acl: generation_order NldAvrcpGenerationIsNewer 0
  unfolding NldAvrcpGenerationIsNewer_eq by (rule acl.generation_order_axioms)

text \<open>The events of the queue are numbered: each follows its predecessor, the next number follows
  the last, and all of them carry the queue's generation.\<close>

definition numbered :: "NLD_AVRCP_EVENT_QUEUE \<Rightarrow> bool" where
  "numbered queue \<longleftrightarrow>
     successively (\<lambda>s s'. s' = NldAvrcpNextNonzero s)
       (map oe_Sequence (observer_contents queue) @ [eq_NextSequence queue]) \<and>
     list_all (\<lambda>e. oe_AclGeneration e = eq_AclGeneration queue) (observer_contents queue)"

lemma successively_drop: "successively P xs \<Longrightarrow> successively P (drop n xs)"
  by (induction xs arbitrary: n) (auto simp: successively_Cons drop_Cons split: nat.splits)

lemma list_all_keep: "list_all P xs \<Longrightarrow> list_all P (keep n xs)"
  by (auto simp: keep_def list_all_iff dest: in_set_dropD)

lemma successively_keep:
  "successively P (map f xs @ ys) \<Longrightarrow> successively P (map f (keep n xs) @ ys)"
  using successively_drop [of P "map f xs @ ys" "length xs - n"]
  by (simp add: keep_def drop_map)

lemma appended_event_fields:
  "oe_Sequence (appended_event queue t f v p r w ts) = eq_NextSequence queue"
  "oe_AclGeneration (appended_event queue t f v p r w ts) = eq_AclGeneration queue"
  by (simp_all add: appended_event_def Let_def observer_event_zero_def split: option.splits)

lemma append_counters:
  "eq_NextSequence (NldAvrcpEventQueueAppend queue t f v p r w ts) =
     NldAvrcpNextNonzero (eq_NextSequence queue)"
  "eq_AclGeneration (NldAvrcpEventQueueAppend queue t f v p r w ts) = eq_AclGeneration queue"
  by (simp_all add: NldAvrcpEventQueueAppend_def Let_def)

lemma append_numbered:
  "observer_queue_ok queue \<Longrightarrow> numbered queue \<Longrightarrow>
   numbered (NldAvrcpEventQueueAppend queue t f v p r w ts)"
  unfolding numbered_def observer_append append_counters
  by (intro conjI successively_keep list_all_keep)
    (simp_all add: appended_event_fields successively_append_iff)

lemma fresh_queue_numbered:
  "numbered (queue\<lparr>eq_AclGeneration := g, eq_NextSequence := 1, eq_Head := 0, eq_Count := 0,
     eq_DroppedEvents := 0\<rparr>)"
  by (simp add: numbered_def observer_contents_def ring_contents_def)

lemma pop_numbered:
  assumes "observer_queue_ok queue" "numbered queue"
  shows "numbered (fst (NldAvrcpEventQueuePop queue))"
proof (cases "observer_contents queue")
  case Nil
  then show ?thesis using assms observer_pop(2) [OF assms(1)] by simp
next
  case (Cons e es)
  moreover have "eq_NextSequence (fst (NldAvrcpEventQueuePop queue)) = eq_NextSequence queue"
    "eq_AclGeneration (fst (NldAvrcpEventQueuePop queue)) = eq_AclGeneration queue"
    by (simp_all add: NldAvrcpEventQueuePop_def)
  ultimately show ?thesis
    using assms observer_pop(3) [OF assms(1) Cons] by (simp add: numbered_def successively_Cons)
qed

lemma ended_queue_numbered [simp]:
  "numbered (queue\<lparr>eq_GenerationCurrent := b\<rparr>) = numbered queue"
  by (simp add: numbered_def observer_contents_def)

lemma queue_step_numbered:
  "observer_queue_ok queue \<and> numbered queue \<Longrightarrow>
   observer_queue_ok (queue_step call queue) \<and> numbered (queue_step call queue)"
  using queue_step_ok [of queue call]
  by (cases call)
    (auto simp: pop_numbered NldAvrcpEventQueueBeginGeneration_def observer_push_accepts
      NldAvrcpEventQueueEndGeneration_def fresh_queue_ok fresh_queue_numbered append_numbered
      simp del: observer_push.simps)

text \<open>The sequence numbers of the observer's queue show every loss: after any history the queued
  events are numbered without a gap up to the next number to be given, all of them carry the
  current ACL generation, and no event of an earlier generation is left.\<close>

lemma observer_sequence_contiguous:
  "let queue = fold queue_step history NldAvrcpEventQueueInitialize
   in successively (\<lambda>s s'. s' = NldAvrcpNextNonzero s)
        (map oe_Sequence (observer_contents queue) @ [eq_NextSequence queue]) \<and>
      list_all (\<lambda>e. oe_AclGeneration e = eq_AclGeneration queue) (observer_contents queue)"
proof -
  have "observer_queue_ok NldAvrcpEventQueueInitialize \<and> numbered NldAvrcpEventQueueInitialize"
    using queue_history_ok [of "[]"]
    by (simp add: numbered_def observer_contents_def ring_contents_def NldAvrcpEventQueueInitialize_def)
  then have "observer_queue_ok (fold queue_step history NldAvrcpEventQueueInitialize) \<and>
      numbered (fold queue_step history NldAvrcpEventQueueInitialize)"
    using queue_step_numbered
    by (rule fold_invariant_step [where P = "\<lambda>queue. observer_queue_ok queue \<and> numbered queue"])
  then show ?thesis by (simp add: numbered_def Let_def)
qed

section \<open>The filter's trace\<close>

abbreviation (input) "NLD_AVRCP_FILTER_TRACE_CAPACITY \<equiv> (128 :: u32)"
abbreviation (input) "NLD_AVRCP_FILTER_RAW_PREFIX_CAPACITY \<equiv> (32 :: u32)"
abbreviation (input) "NLD_AVRCP_FILTER_STATUS_QUEUE_OVERFLOW \<equiv> (0x4 :: u32)"

datatype NLD_AVRCP_FILTER_EVENT_TYPE =
  NldAvrcpFilterEventNone | NldAvrcpFilterEventLifecycle | NldAvrcpFilterEventRequest
| NldAvrcpFilterEventCompletion | NldAvrcpFilterEventCaptureFailure

fun filter_event_code :: "NLD_AVRCP_FILTER_EVENT_TYPE \<Rightarrow> u32" where
  "filter_event_code NldAvrcpFilterEventNone = 0"
| "filter_event_code NldAvrcpFilterEventLifecycle = 1"
| "filter_event_code NldAvrcpFilterEventRequest = 2"
| "filter_event_code NldAvrcpFilterEventCompletion = 3"
| "filter_event_code NldAvrcpFilterEventCaptureFailure = 4"

record NLD_AVRCP_FILTER_EVENT =
  fe_Size :: u32
  fe_Type :: u32
  fe_Sequence :: u64
  fe_RequestId :: u64
  fe_Timestamp100ns :: u64
  fe_Flags :: u32
  fe_ControlCode :: u32
  fe_InputSize :: u32
  fe_OutputSize :: u32
  fe_Status :: u32
  fe_RawSize :: u32
  fe_Information :: u64
  fe_RawPrefix :: bytes

definition filter_event_zero :: NLD_AVRCP_FILTER_EVENT where
  "filter_event_zero =
     \<lparr>fe_Size = 0, fe_Type = 0, fe_Sequence = 0, fe_RequestId = 0, fe_Timestamp100ns = 0,
      fe_Flags = 0, fe_ControlCode = 0, fe_InputSize = 0, fe_OutputSize = 0, fe_Status = 0,
      fe_RawSize = 0, fe_Information = 0, fe_RawPrefix = replicate 32 0\<rparr>"

record NLD_AVRCP_FILTER_STATUS =
  fs_Size :: u32
  fs_Flags :: u32
  fs_QueueDepth :: u32
  fs_DroppedEvents :: u32
  fs_NextSequence :: u64
  fs_NextRequestId :: u64
  fs_RequestsObserved :: u64
  fs_CompletionsObserved :: u64
  fs_CaptureFailures :: u64
  fs_LastCompletionStatus :: u32
  fs_Reserved :: u32

record NLD_AVRCP_FILTER_TRACE_QUEUE =
  tq_Events :: "NLD_AVRCP_FILTER_EVENT list"
  tq_NextSequence :: u64
  tq_NextRequestId :: u64
  tq_RequestsObserved :: u64
  tq_CompletionsObserved :: u64
  tq_CaptureFailures :: u64
  tq_Head :: u32
  tq_Count :: u32
  tq_DroppedEvents :: u32
  tq_LastCompletionStatus :: u32

definition NldAvrcpFilterNextNonzero :: "u64 \<Rightarrow> u64" where
  "NldAvrcpFilterNextNonzero value = (if value = NOT 0 then 1 else value + 1)"

definition NldAvrcpFilterTraceInitialize :: NLD_AVRCP_FILTER_TRACE_QUEUE where
  "NldAvrcpFilterTraceInitialize =
     \<lparr>tq_Events = replicate 128 filter_event_zero, tq_NextSequence = 1, tq_NextRequestId = 1,
      tq_RequestsObserved = 0, tq_CompletionsObserved = 0, tq_CaptureFailures = 0, tq_Head = 0,
      tq_Count = 0, tq_DroppedEvents = 0, tq_LastCompletionStatus = 0\<rparr>"

definition NldAvrcpFilterTraceAllocateRequestId ::
  "NLD_AVRCP_FILTER_TRACE_QUEUE \<Rightarrow> NLD_AVRCP_FILTER_TRACE_QUEUE \<times> u64" where
  "NldAvrcpFilterTraceAllocateRequestId queue =
     (queue\<lparr>tq_NextRequestId := NldAvrcpFilterNextNonzero (tq_NextRequestId queue)\<rparr>,
      tq_NextRequestId queue)"

text \<open>The arguments of a push, and the event it writes.  The prefix is the caller's buffer, of at
  least the captured length where it is given.\<close>

record trace_push =
  tp_type :: NLD_AVRCP_FILTER_EVENT_TYPE
  tp_request_id :: u64
  tp_flags :: u32
  tp_control_code :: u32
  tp_input_size :: u32
  tp_output_size :: u32
  tp_status :: u32
  tp_information :: u64
  tp_raw_prefix :: "bytes option"
  tp_raw_size :: u32
  tp_timestamp_100ns :: u64

definition trace_event :: "trace_push \<Rightarrow> u64 \<Rightarrow> NLD_AVRCP_FILTER_EVENT" where
  "trace_event push sequence =
     (let event = filter_event_zero
            \<lparr>fe_Size := 96, fe_Type := filter_event_code (tp_type push), fe_Sequence := sequence,
             fe_RequestId := tp_request_id push, fe_Timestamp100ns := tp_timestamp_100ns push,
             fe_Flags := tp_flags push, fe_ControlCode := tp_control_code push,
             fe_InputSize := tp_input_size push, fe_OutputSize := tp_output_size push,
             fe_Status := tp_status push, fe_Information := tp_information push\<rparr>;
          bounded_raw_size =
            (if tp_raw_size push > NLD_AVRCP_FILTER_RAW_PREFIX_CAPACITY
             then NLD_AVRCP_FILTER_RAW_PREFIX_CAPACITY else tp_raw_size push)
      in case tp_raw_prefix push of
           None \<Rightarrow> event
         | Some raw \<Rightarrow>
             if bounded_raw_size \<noteq> 0
             then event\<lparr>fe_RawPrefix := take (unat bounded_raw_size) raw @
                          drop (unat bounded_raw_size) (fe_RawPrefix event),
                        fe_RawSize := bounded_raw_size\<rparr>
             else event)"

definition NldAvrcpFilterTracePush ::
  "trace_push \<Rightarrow> NLD_AVRCP_FILTER_TRACE_QUEUE \<Rightarrow> NLD_AVRCP_FILTER_TRACE_QUEUE" where
  "NldAvrcpFilterTracePush push queue =
     (if filter_event_code (tp_type push) < filter_event_code NldAvrcpFilterEventLifecycle \<or>
         filter_event_code (tp_type push) > filter_event_code NldAvrcpFilterEventCaptureFailure
      then queue
      else
        let queue1 =
              (if tq_Count queue = NLD_AVRCP_FILTER_TRACE_CAPACITY
               then queue\<lparr>tq_Head := (tq_Head queue + 1) mod NLD_AVRCP_FILTER_TRACE_CAPACITY,
                          tq_Count := tq_Count queue - 1,
                          tq_DroppedEvents := tq_DroppedEvents queue + 1\<rparr>
               else queue);
            index = (tq_Head queue1 + tq_Count queue1) mod NLD_AVRCP_FILTER_TRACE_CAPACITY;
            queue2 = queue1\<lparr>
              tq_Events := (tq_Events queue1)[unat index :=
                trace_event push (tq_NextSequence queue1)],
              tq_NextSequence := NldAvrcpFilterNextNonzero (tq_NextSequence queue1)\<rparr>;
            queue3 =
              (if tp_type push = NldAvrcpFilterEventRequest
               then queue2\<lparr>tq_RequestsObserved := tq_RequestsObserved queue2 + 1\<rparr>
               else if tp_type push = NldAvrcpFilterEventCompletion
               then queue2\<lparr>tq_CompletionsObserved := tq_CompletionsObserved queue2 + 1,
                           tq_LastCompletionStatus := tp_status push\<rparr>
               else if tp_type push = NldAvrcpFilterEventCaptureFailure
               then queue2\<lparr>tq_CaptureFailures := tq_CaptureFailures queue2 + 1\<rparr>
               else queue2)
        in queue3\<lparr>tq_Count := tq_Count queue3 + 1\<rparr>)"

definition NldAvrcpFilterTracePop ::
  "NLD_AVRCP_FILTER_TRACE_QUEUE \<Rightarrow> NLD_AVRCP_FILTER_TRACE_QUEUE \<times> NLD_AVRCP_FILTER_EVENT option" where
  "NldAvrcpFilterTracePop queue =
     (if tq_Count queue = 0 then (queue, None)
      else
        (queue\<lparr>tq_Events := (tq_Events queue)[unat (tq_Head queue) := filter_event_zero],
               tq_Head := (tq_Head queue + 1) mod NLD_AVRCP_FILTER_TRACE_CAPACITY,
               tq_Count := tq_Count queue - 1\<rparr>,
         Some (tq_Events queue ! unat (tq_Head queue))))"

definition NldAvrcpFilterTraceGetStatus ::
  "NLD_AVRCP_FILTER_TRACE_QUEUE \<Rightarrow> u32 \<Rightarrow> NLD_AVRCP_FILTER_STATUS" where
  "NldAvrcpFilterTraceGetStatus queue runtime_flags =
     (let status =
        \<lparr>fs_Size = 64, fs_Flags = runtime_flags, fs_QueueDepth = tq_Count queue,
         fs_DroppedEvents = tq_DroppedEvents queue, fs_NextSequence = tq_NextSequence queue,
         fs_NextRequestId = tq_NextRequestId queue,
         fs_RequestsObserved = tq_RequestsObserved queue,
         fs_CompletionsObserved = tq_CompletionsObserved queue,
         fs_CaptureFailures = tq_CaptureFailures queue,
         fs_LastCompletionStatus = tq_LastCompletionStatus queue, fs_Reserved = 0\<rparr>
      in if tq_DroppedEvents queue \<noteq> 0
         then status\<lparr>fs_Flags := fs_Flags status OR NLD_AVRCP_FILTER_STATUS_QUEUE_OVERFLOW\<rparr>
         else status)"

definition trace_contents :: "NLD_AVRCP_FILTER_TRACE_QUEUE \<Rightarrow> NLD_AVRCP_FILTER_EVENT list" where
  "trace_contents queue =
     ring_contents (tq_Events queue) (unat (tq_Head queue)) (unat (tq_Count queue))"

definition trace_ok :: "NLD_AVRCP_FILTER_TRACE_QUEUE \<Rightarrow> bool" where
  "trace_ok queue \<longleftrightarrow> length (tq_Events queue) = 128 \<and> tq_Head queue < 128 \<and> tq_Count queue \<le> 128"

definition trace_accepts :: "trace_push \<Rightarrow> NLD_AVRCP_FILTER_TRACE_QUEUE \<Rightarrow> bool" where
  "trace_accepts push queue \<longleftrightarrow> tp_type push \<noteq> NldAvrcpFilterEventNone"

definition trace_entry :: "trace_push \<Rightarrow> NLD_AVRCP_FILTER_TRACE_QUEUE \<Rightarrow> NLD_AVRCP_FILTER_EVENT" where
  "trace_entry push queue = trace_event push (tq_NextSequence queue)"

text \<open>What a push does to the ring, whatever it counts.\<close>

lemma push_refused:
  "tp_type push = NldAvrcpFilterEventNone \<Longrightarrow> NldAvrcpFilterTracePush push queue = queue"
  by (simp add: NldAvrcpFilterTracePush_def)

lemma push_ring:
  assumes "tp_type push \<noteq> NldAvrcpFilterEventNone"
  shows "tq_Head (NldAvrcpFilterTracePush push queue) =
      (if tq_Count queue = 128 then (tq_Head queue + 1) mod 128 else tq_Head queue)"
    "tq_Count (NldAvrcpFilterTracePush push queue) =
      (if tq_Count queue = 128 then 128 else tq_Count queue + 1)"
    "tq_DroppedEvents (NldAvrcpFilterTracePush push queue) =
      (if tq_Count queue = 128 then tq_DroppedEvents queue + 1 else tq_DroppedEvents queue)"
    "tq_Events (NldAvrcpFilterTracePush push queue) = (tq_Events queue)
      [unat (((if tq_Count queue = 128 then (tq_Head queue + 1) mod 128 else tq_Head queue) +
        (if tq_Count queue = 128 then 127 else tq_Count queue)) mod 128) :=
       trace_event push (tq_NextSequence queue)]"
  using assms by (cases "tp_type push"; simp add: NldAvrcpFilterTracePush_def Let_def)+

lemma trace_push:
  assumes "trace_ok queue"
  shows "trace_ok (NldAvrcpFilterTracePush push queue)"
    "trace_contents (NldAvrcpFilterTracePush push queue) =
       (if trace_accepts push queue then keep 128 (trace_contents queue @ [trace_entry push queue])
        else trace_contents queue)"
proof -
  have ok: "length (tq_Events queue) = unat (128 :: u32)" "tq_Head queue < 128" "tq_Count queue \<le> 128"
    using assms by (simp_all add: trace_ok_def)
  let ?queue = "NldAvrcpFilterTracePush push queue"
  have "trace_ok ?queue \<and> trace_contents ?queue =
    (if trace_accepts push queue then keep 128 (trace_contents queue @ [trace_entry push queue])
     else trace_contents queue)"
  proof (cases "tp_type push = NldAvrcpFilterEventNone")
    case True
    then show ?thesis using assms by (simp add: push_refused trace_accepts_def)
  next
    case False
    then show ?thesis
      using ring_push_full [OF ok(1,2)] ring_push_room [OF ok(1,2), of "tq_Count queue"] ok
      by (cases "tq_Count queue = 128")
        (simp_all add: trace_ok_def trace_contents_def push_ring trace_accepts_def trace_entry_def
          le_less)
  qed
  then show "trace_ok ?queue" "trace_contents ?queue =
    (if trace_accepts push queue then keep 128 (trace_contents queue @ [trace_entry push queue])
     else trace_contents queue)"
    by simp_all
qed

lemma trace_pop:
  assumes "trace_ok queue"
  shows "trace_ok (fst (NldAvrcpFilterTracePop queue))"
    "trace_contents queue = [] \<Longrightarrow> NldAvrcpFilterTracePop queue = (queue, None)"
    "trace_contents queue = e # es \<Longrightarrow> snd (NldAvrcpFilterTracePop queue) = Some e \<and>
       trace_contents (fst (NldAvrcpFilterTracePop queue)) = es"
proof -
  have ok: "length (tq_Events queue) = 128" "tq_Head queue < 128" "tq_Count queue \<le> 128"
    using assms by (simp_all add: trace_ok_def)
  show "trace_contents queue = [] \<Longrightarrow> NldAvrcpFilterTracePop queue = (queue, None)"
    by (simp add: trace_contents_def NldAvrcpFilterTracePop_def unat_eq_zero)
  show "trace_ok (fst (NldAvrcpFilterTracePop queue))"
    using ok ring_pop(1, 2) [of "tq_Events queue" 128 "tq_Head queue" "tq_Count queue"]
    by (simp add: trace_ok_def NldAvrcpFilterTracePop_def)
  show "snd (NldAvrcpFilterTracePop queue) = Some e \<and>
      trace_contents (fst (NldAvrcpFilterTracePop queue)) = es" if "trace_contents queue = e # es"
  proof -
    have "tq_Count queue \<noteq> 0"
      using arg_cong [OF that, of length] by (auto simp: trace_contents_def)
    then show ?thesis
      using that ok ring_pop(3, 4) [of "tq_Events queue" 128 "tq_Head queue" "tq_Count queue"]
      by (simp add: trace_contents_def NldAvrcpFilterTracePop_def)
  qed
qed

interpretation trace_log: bounded_log trace_contents NldAvrcpFilterTracePush trace_accepts
    trace_entry NldAvrcpFilterTracePop 128 trace_ok
  by unfold_locales
    (simp_all add: trace_push trace_pop, simp add: trace_ok_def trace_contents_def word_le_nat_alt)

text \<open>The counters of the trace: one per event type it counts, and the dropped events.\<close>

definition counted :: "NLD_AVRCP_FILTER_EVENT_TYPE \<Rightarrow> trace_push list \<Rightarrow> u64" where
  "counted t pushes = of_nat (length (filter (\<lambda>p. tp_type p = t) pushes))"

lemma trace_counters:
  "tq_RequestsObserved (fold NldAvrcpFilterTracePush pushes queue) =
     tq_RequestsObserved queue + counted NldAvrcpFilterEventRequest pushes"
  "tq_CompletionsObserved (fold NldAvrcpFilterTracePush pushes queue) =
     tq_CompletionsObserved queue + counted NldAvrcpFilterEventCompletion pushes"
  "tq_CaptureFailures (fold NldAvrcpFilterTracePush pushes queue) =
     tq_CaptureFailures queue + counted NldAvrcpFilterEventCaptureFailure pushes"
proof (induction pushes arbitrary: queue)
  case (Cons push pushes)
  {
    case 1
    then show ?case using Cons.IH by (cases "tp_type push"; simp add: counted_def NldAvrcpFilterTracePush_def Let_def)
  next
    case 2
    then show ?case using Cons.IH by (cases "tp_type push"; simp add: counted_def NldAvrcpFilterTracePush_def Let_def)
  next
    case 3
    then show ?case using Cons.IH by (cases "tp_type push"; simp add: counted_def NldAvrcpFilterTracePush_def Let_def)
  }
qed (simp_all add: counted_def)

lemma push_drops:
  "tq_DroppedEvents (NldAvrcpFilterTracePush push queue) + tq_Count (NldAvrcpFilterTracePush push queue) =
   tq_DroppedEvents queue + tq_Count queue + (if tp_type push = NldAvrcpFilterEventNone then 0 else 1)"
  by (cases "tp_type push = NldAvrcpFilterEventNone") (simp_all add: push_refused push_ring)

lemma trace_drops:
  "tq_DroppedEvents (fold NldAvrcpFilterTracePush pushes queue) +
     tq_Count (fold NldAvrcpFilterTracePush pushes queue) =
   tq_DroppedEvents queue + tq_Count queue +
     of_nat (length (filter (\<lambda>p. tp_type p \<noteq> NldAvrcpFilterEventNone) pushes))"
  by (induction pushes arbitrary: queue) (simp_all add: push_drops)

lemma fresh_trace: "trace_ok NldAvrcpFilterTraceInitialize"
  "trace_contents NldAvrcpFilterTraceInitialize = []"
  by (simp_all add: trace_ok_def trace_contents_def NldAvrcpFilterTraceInitialize_def)

lemma status_fields:
  "fs_QueueDepth (NldAvrcpFilterTraceGetStatus queue flags) = tq_Count queue"
  "fs_DroppedEvents (NldAvrcpFilterTraceGetStatus queue flags) = tq_DroppedEvents queue"
  "fs_RequestsObserved (NldAvrcpFilterTraceGetStatus queue flags) = tq_RequestsObserved queue"
  "fs_CompletionsObserved (NldAvrcpFilterTraceGetStatus queue flags) = tq_CompletionsObserved queue"
  "fs_CaptureFailures (NldAvrcpFilterTraceGetStatus queue flags) = tq_CaptureFailures queue"
  by (simp_all add: NldAvrcpFilterTraceGetStatus_def Let_def)

lemma fresh_counters:
  "tq_RequestsObserved NldAvrcpFilterTraceInitialize = 0"
  "tq_CompletionsObserved NldAvrcpFilterTraceInitialize = 0"
  "tq_CaptureFailures NldAvrcpFilterTraceInitialize = 0"
  "tq_DroppedEvents NldAvrcpFilterTraceInitialize = 0" "tq_Count NldAvrcpFilterTraceInitialize = 0"
  by (simp_all add: NldAvrcpFilterTraceInitialize_def)

text \<open>The filter's trace keeps the last 128 events and still counts all of them: after any pushes
  on a fresh trace a client that drains it receives the last 128 accepted events in order, the
  counters of requests, completions and capture failures count the dropped events too, and
  the dropped events and the queued ones together are the accepted ones (modulo the counters'
  widths).\<close>

lemma trace_counts_every_event:
  "let queue = fold NldAvrcpFilterTracePush pushes NldAvrcpFilterTraceInitialize;
       status = NldAvrcpFilterTraceGetStatus queue flags
   in drain NldAvrcpFilterTracePop (unat (fs_QueueDepth status)) queue =
        keep 128 (log_entries trace_accepts trace_entry NldAvrcpFilterTracePush pushes
          NldAvrcpFilterTraceInitialize) \<and>
      fs_RequestsObserved status = counted NldAvrcpFilterEventRequest pushes \<and>
      fs_CompletionsObserved status = counted NldAvrcpFilterEventCompletion pushes \<and>
      fs_CaptureFailures status = counted NldAvrcpFilterEventCaptureFailure pushes \<and>
      fs_DroppedEvents status + fs_QueueDepth status =
        of_nat (length (filter (\<lambda>p. tp_type p \<noteq> NldAvrcpFilterEventNone) pushes))"
  using trace_log.delivers_last [OF fresh_trace(1), of pushes] fresh_trace
    trace_drops [of pushes NldAvrcpFilterTraceInitialize]
    trace_counters [of pushes NldAvrcpFilterTraceInitialize]
  by (simp add: Let_def trace_contents_def status_fields fresh_counters)

end
