(* ===== verification/Pcm_Ring.thy ===== *)
theory Pcm_Ring
  imports Ring_Buffers
begin

text \<open>
  The PCM ring of the audio endpoint, in \<open>audio-endpoint/Source/Main/minwavert.cpp\<close>: the render stream
  pushes what Windows plays, and the client that owns the endpoint reads it.  The ring keeps the
  last 48000 bytes in whole frames and counts what it wrote, gave and dropped.

  The state is the ring's part of \<open>CMiniportWaveRT\<close>, with the member names of the class; the
  allocated buffer is a list of 48000 bytes.  Each operation runs under the ring's spin lock, so
  it is one step.  \<open>RtlCopyMemory\<close> into a buffer is \<open>copy_into\<close>; a block that is pushed is a list,
  its byte count the length of the list at 32 bits.
\<close>

abbreviation (input) "NATIVE_LDAC_PCM_RING_CAPACITY_BYTES \<equiv> (48000 :: u32)"
abbreviation (input) "NATIVE_LDAC_PCM_MAX_READ_BYTES \<equiv> (4096 :: u32)"
abbreviation (input) "NATIVE_LDAC_PCM_ABI_VERSION \<equiv> (2 :: u32)"
abbreviation (input) "NATIVE_LDAC_PCM_FLAG_STREAM_ACTIVE \<equiv> (0x1 :: u32)"
abbreviation (input) "NATIVE_LDAC_PCM_FLAG_DISCONTINUITY \<equiv> (0x2 :: u32)"

record pcm_ring =
  m_PcmRingBuffer :: bytes
  m_PcmRingReadOffset :: u32
  m_PcmRingWriteOffset :: u32
  m_PcmRingAvailableBytes :: u32
  m_PcmStreamEpoch :: u64
  m_PcmTotalBytesWritten :: u64
  m_PcmTotalBytesRead :: u64
  m_PcmTotalBytesDropped :: u64
  m_PcmSampleRate :: u32
  m_PcmChannels :: u16
  m_PcmBitsPerSample :: u16
  m_PcmBlockAlign :: u32
  m_PcmStreamActive :: bool

record NATIVE_LDAC_PCM_INFO =
  pi_Size :: u32
  pi_AbiVersion :: u32
  pi_SampleRate :: u32
  pi_Channels :: u16
  pi_BitsPerSample :: u16
  pi_BlockAlign :: u32
  pi_CapacityBytes :: u32
  pi_AvailableBytes :: u32
  pi_Flags :: u32
  pi_StreamEpoch :: u64
  pi_TotalBytesWritten :: u64
  pi_TotalBytesRead :: u64
  pi_TotalBytesDropped :: u64

record NATIVE_LDAC_PCM_READ_HEADER =
  rh_InfoBeforeRead :: NATIVE_LDAC_PCM_INFO
  rh_BytesReturned :: u32
  rh_AvailableBytesAfterRead :: u32

text \<open>The ring of a miniport after \<open>Init\<close>, whose buffer \<open>ExAllocatePool2\<close> has cleared.\<close>

definition pcm_ring_init :: pcm_ring where
  "pcm_ring_init =
     \<lparr>m_PcmRingBuffer = replicate 48000 0, m_PcmRingReadOffset = 0, m_PcmRingWriteOffset = 0,
      m_PcmRingAvailableBytes = 0, m_PcmStreamEpoch = 0, m_PcmTotalBytesWritten = 0,
      m_PcmTotalBytesRead = 0, m_PcmTotalBytesDropped = 0, m_PcmSampleRate = 48000,
      m_PcmChannels = 2, m_PcmBitsPerSample = 16, m_PcmBlockAlign = 4, m_PcmStreamActive = False\<rparr>"

definition BeginPcmStream ::
  "u32 \<Rightarrow> u16 \<Rightarrow> u16 \<Rightarrow> u32 \<Rightarrow> 'a pcm_ring_scheme \<Rightarrow> 'a pcm_ring_scheme" where
  "BeginPcmStream SampleRate Channels BitsPerSample BlockAlign m =
     m\<lparr>m_PcmRingReadOffset := 0, m_PcmRingWriteOffset := 0, m_PcmRingAvailableBytes := 0,
       m_PcmTotalBytesWritten := 0, m_PcmTotalBytesRead := 0, m_PcmTotalBytesDropped := 0,
       m_PcmSampleRate := SampleRate, m_PcmChannels := Channels,
       m_PcmBitsPerSample := BitsPerSample, m_PcmBlockAlign := BlockAlign,
       m_PcmStreamEpoch := m_PcmStreamEpoch m + 1, m_PcmStreamActive := True\<rparr>"

definition EndPcmStream :: "'a pcm_ring_scheme \<Rightarrow> 'a pcm_ring_scheme" where
  "EndPcmStream m =
     m\<lparr>m_PcmTotalBytesDropped := m_PcmTotalBytesDropped m + ucast (m_PcmRingAvailableBytes m),
       m_PcmRingReadOffset := 0, m_PcmRingWriteOffset := 0, m_PcmRingAvailableBytes := 0,
       m_PcmStreamActive := False\<rparr>"

text \<open>The two copies of \<open>PushPcm\<close>, and its part that follows the alignment of the block.\<close>

definition copy_block :: "bytes \<Rightarrow> u32 \<Rightarrow> bytes \<Rightarrow> u32 \<Rightarrow> bytes" where
  "copy_block buffer offset Data ByteCount =
     (let firstCopy = min ByteCount (NATIVE_LDAC_PCM_RING_CAPACITY_BYTES - offset);
          buffer1 = copy_into buffer (unat offset) (take (unat firstCopy) Data)
      in if ByteCount > firstCopy
         then copy_into buffer1 0 (take (unat (ByteCount - firstCopy)) (drop (unat firstCopy) Data))
         else buffer1)"

definition push_block :: "bytes \<Rightarrow> u32 \<Rightarrow> 'a pcm_ring_scheme \<Rightarrow> 'a pcm_ring_scheme" where
  "push_block Data ByteCount m =
     (let originalByteCount = ByteCount;
          (Data1, ByteCount1, m1) =
            (if ByteCount > NATIVE_LDAC_PCM_RING_CAPACITY_BYTES
             then let bytesToDrop = ByteCount - NATIVE_LDAC_PCM_RING_CAPACITY_BYTES
                  in (drop (unat bytesToDrop) Data, NATIVE_LDAC_PCM_RING_CAPACITY_BYTES,
                      m\<lparr>m_PcmTotalBytesDropped := m_PcmTotalBytesDropped m + ucast bytesToDrop\<rparr>)
             else (Data, ByteCount, m));
          freeBytes = NATIVE_LDAC_PCM_RING_CAPACITY_BYTES - m_PcmRingAvailableBytes m1;
          m2 =
            (if ByteCount1 > freeBytes
             then let bytesToDrop = ByteCount1 - freeBytes
                  in m1\<lparr>
                    m_PcmRingReadOffset :=
                      (m_PcmRingReadOffset m1 + bytesToDrop) mod NATIVE_LDAC_PCM_RING_CAPACITY_BYTES,
                    m_PcmRingAvailableBytes := m_PcmRingAvailableBytes m1 - bytesToDrop,
                    m_PcmTotalBytesDropped := m_PcmTotalBytesDropped m1 + ucast bytesToDrop\<rparr>
             else m1);
          buffer = copy_block (m_PcmRingBuffer m2) (m_PcmRingWriteOffset m2) Data1 ByteCount1
      in m2\<lparr>m_PcmRingBuffer := buffer,
            m_PcmRingWriteOffset :=
              (m_PcmRingWriteOffset m2 + ByteCount1) mod NATIVE_LDAC_PCM_RING_CAPACITY_BYTES,
            m_PcmRingAvailableBytes := m_PcmRingAvailableBytes m2 + ByteCount1,
            m_PcmTotalBytesWritten := m_PcmTotalBytesWritten m2 + ucast originalByteCount\<rparr>)"

definition PushPcm :: "bytes \<Rightarrow> 'a pcm_ring_scheme \<Rightarrow> 'a pcm_ring_scheme" where
  "PushPcm Data m =
     (let ByteCount = of_nat (length Data); blockAlign = m_PcmBlockAlign m
      in if \<not> m_PcmStreamActive m then m
         else if blockAlign = 0 then m
         else let ByteCount1 = ByteCount - ByteCount mod blockAlign
              in if ByteCount1 = 0 then m else push_block Data ByteCount1 m)"

definition pcm_info :: "'a pcm_ring_scheme \<Rightarrow> NATIVE_LDAC_PCM_INFO" where
  "pcm_info m =
     \<lparr>pi_Size = 64, pi_AbiVersion = NATIVE_LDAC_PCM_ABI_VERSION,
      pi_SampleRate = m_PcmSampleRate m, pi_Channels = m_PcmChannels m,
      pi_BitsPerSample = m_PcmBitsPerSample m, pi_BlockAlign = m_PcmBlockAlign m,
      pi_CapacityBytes = NATIVE_LDAC_PCM_RING_CAPACITY_BYTES,
      pi_AvailableBytes = m_PcmRingAvailableBytes m,
      pi_Flags =
        (if m_PcmStreamActive m then NATIVE_LDAC_PCM_FLAG_STREAM_ACTIVE else 0) OR
        (if m_PcmTotalBytesDropped m \<noteq> 0 then NATIVE_LDAC_PCM_FLAG_DISCONTINUITY else 0),
      pi_StreamEpoch = m_PcmStreamEpoch m, pi_TotalBytesWritten = m_PcmTotalBytesWritten m,
      pi_TotalBytesRead = m_PcmTotalBytesRead m, pi_TotalBytesDropped = m_PcmTotalBytesDropped m\<rparr>"

text \<open>The part of \<open>PropertyHandlerPcmRead\<close> under the ring's lock, for a request whose value has room for
  \<open>capacity\<close> bytes behind the header: \<open>None\<close> stands for the returns of \<open>STATUS_DATA_ERROR\<close>, and
  otherwise the header and the bytes are the value of the request.\<close>

definition pcm_read ::
  "u32 \<Rightarrow> 'a pcm_ring_scheme \<Rightarrow> 'a pcm_ring_scheme \<times> (NATIVE_LDAC_PCM_READ_HEADER \<times> bytes) option" where
  "pcm_read capacity m =
     (let blockAlign = m_PcmBlockAlign m
      in if blockAlign = 0 then (m, None)
         else
           let pcmCapacity = min capacity NATIVE_LDAC_PCM_MAX_READ_BYTES;
               pcmCapacity1 = pcmCapacity - pcmCapacity mod blockAlign;
               bytesToRead = min pcmCapacity1 (m_PcmRingAvailableBytes m);
               firstCopy = min bytesToRead
                 (NATIVE_LDAC_PCM_RING_CAPACITY_BYTES - m_PcmRingReadOffset m);
               secondCopy = bytesToRead - firstCopy
           in if firstCopy > NATIVE_LDAC_PCM_MAX_READ_BYTES \<or>
                 secondCopy > NATIVE_LDAC_PCM_MAX_READ_BYTES - firstCopy
              then (m, None)
              else
                let scratch1 = take (unat firstCopy)
                      (drop (unat (m_PcmRingReadOffset m)) (m_PcmRingBuffer m));
                    scratch2 = take (unat secondCopy) (m_PcmRingBuffer m);
                    m' = m\<lparr>
                      m_PcmRingReadOffset :=
                        (m_PcmRingReadOffset m + bytesToRead) mod NATIVE_LDAC_PCM_RING_CAPACITY_BYTES,
                      m_PcmRingAvailableBytes := m_PcmRingAvailableBytes m - bytesToRead,
                      m_PcmTotalBytesRead := m_PcmTotalBytesRead m + ucast bytesToRead\<rparr>
                in (m', Some (\<lparr>rh_InfoBeforeRead = pcm_info m, rh_BytesReturned = bytesToRead,
                              rh_AvailableBytesAfterRead = m_PcmRingAvailableBytes m'\<rparr>,
                            scratch1 @ scratch2)))"

section \<open>What the ring holds\<close>

definition pcm_contents :: "'a pcm_ring_scheme \<Rightarrow> bytes" where
  "pcm_contents m = ring_contents (m_PcmRingBuffer m) (unat (m_PcmRingReadOffset m))
     (unat (m_PcmRingAvailableBytes m))"

definition pcm_ring_ok :: "'a pcm_ring_scheme \<Rightarrow> bool" where
  "pcm_ring_ok m \<longleftrightarrow>
     length (m_PcmRingBuffer m) = 48000 \<and> unat (m_PcmRingReadOffset m) < 48000 \<and>
     unat (m_PcmRingAvailableBytes m) \<le> 48000 \<and>
     unat (m_PcmRingWriteOffset m) =
       (unat (m_PcmRingReadOffset m) + unat (m_PcmRingAvailableBytes m)) mod 48000"

text \<open>The two copies of a push, over the offsets of the ring.\<close>

lemma two_copies:
  fixes offset count :: u32
  assumes "length buffer = 48000" "unat offset < 48000" "unat count \<le> length Data" "count \<le> 48000"
  shows "copy_block buffer offset Data count = ring_write buffer (unat offset) (take (unat count) Data)"
proof -
  have room: "unat (48000 - offset) = 48000 - unat offset"
    using assms(2) by (simp add: unat_sub word_le_nat_alt)
  show ?thesis
  proof (cases "count \<le> 48000 - offset")
    case True
    then have "unat count \<le> 48000 - unat offset"
      using room by (simp add: word_le_nat_alt)
    then show ?thesis
      using True assms by (simp add: copy_block_def ring_write_def min_absorb1 min_absorb2)
  next
    case False
    then have "48000 - unat offset < unat count" "unat (count - (48000 - offset)) = unat count - (48000 - unat offset)"
      using room by (simp_all add: word_le_nat_alt unat_sub not_le)
    then show ?thesis
      using False room assms
      by (simp add: copy_block_def ring_write_def min_absorb1 min_absorb2 Let_def not_le min_def drop_take)
  qed
qed

text \<open>A push of a block that fits the ring, after the clamp to its capacity.\<close>

definition store_block :: "bytes \<Rightarrow> 'a pcm_ring_scheme \<Rightarrow> 'a pcm_ring_scheme" where
  "store_block xs m =
     (let excess = length xs - (48000 - unat (m_PcmRingAvailableBytes m))
      in m\<lparr>m_PcmRingBuffer := ring_write (m_PcmRingBuffer m) (unat (m_PcmRingWriteOffset m)) xs,
            m_PcmRingReadOffset := of_nat ((unat (m_PcmRingReadOffset m) + excess) mod 48000),
            m_PcmRingWriteOffset := of_nat ((unat (m_PcmRingWriteOffset m) + length xs) mod 48000),
            m_PcmRingAvailableBytes := of_nat (unat (m_PcmRingAvailableBytes m) - excess + length xs),
            m_PcmTotalBytesDropped := m_PcmTotalBytesDropped m + of_nat excess\<rparr>)"

lemma unat_u32: "n < 4294967296 \<Longrightarrow> unat (of_nat n :: u32) = n"
  by (simp add: unat_of_nat)

lemma ucast_of_nat_u32: "n < 4294967296 \<Longrightarrow> (ucast (of_nat n :: u32) :: u64) = of_nat n"
  by (simp add: unat_of_nat word_unat_eq_iff unsigned_ucast_eq take_bit_nat_eq_self)

lemma store_block_ok:
  assumes "pcm_ring_ok m" "length xs \<le> 48000"
  shows "pcm_ring_ok (store_block xs m)" "pcm_contents (store_block xs m) = keep 48000 (pcm_contents m @ xs)"
proof -
  let ?R = "unat (m_PcmRingReadOffset m)" and ?A = "unat (m_PcmRingAvailableBytes m)"
  let ?W = "unat (m_PcmRingWriteOffset m)"
  define k where "k = length xs - (48000 - ?A)"
  have ok: "length (m_PcmRingBuffer m) = 48000" "?R < 48000" "?A \<le> 48000" "?W = (?R + ?A) mod 48000"
    using assms(1) by (simp_all add: pcm_ring_ok_def)
  have W: "?W < 48000"
    unfolding ok(4) by (rule mod_less_divisor) simp
  have fields: "unat (m_PcmRingReadOffset (store_block xs m)) = (?R + k) mod 48000"
    "unat (m_PcmRingAvailableBytes (store_block xs m)) = ?A - k + length xs"
    "unat (m_PcmRingWriteOffset (store_block xs m)) = (?W + length xs) mod 48000"
    "m_PcmRingBuffer (store_block xs m) = ring_write (m_PcmRingBuffer m) ?W xs"
    using ok assms(2)
    by (simp_all add: store_block_def Let_def k_def unat_u32 del: of_nat_add of_nat_diff)
  have k: "?A - k + length xs \<le> 48000" "k \<le> ?A"
    using ok assms(2) by (auto simp: k_def)
  have "(?W + length xs) mod 48000 = (?R + ?A + length xs) mod 48000"
    unfolding ok(4) by (rule mod_add_left_eq)
  also have "?R + ?A + length xs = ?R + k + (?A - k + length xs)"
    using k(2) by simp
  also have "\<dots> mod 48000 = ((?R + k) mod 48000 + (?A - k + length xs)) mod 48000"
    by (rule mod_add_left_eq [symmetric])
  finally have "(?W + length xs) mod 48000 = ((?R + k) mod 48000 + (?A - k + length xs)) mod 48000" .
  moreover have "length (ring_write (m_PcmRingBuffer m) ?W xs) = 48000"
    using W ok(1) assms(2) by simp
  ultimately show "pcm_ring_ok (store_block xs m)"
    using k(1) by (simp add: pcm_ring_ok_def fields)
  show "pcm_contents (store_block xs m) = keep 48000 (pcm_contents m @ xs)"
    using ring_push_block [of ?R "m_PcmRingBuffer m" ?A xs] ok assms(2)
    by (simp add: pcm_contents_def fields k_def)
qed

text \<open>The code's push is this one, for the last 48000 bytes of the block.\<close>

lemma push_block_fits:
  assumes "pcm_ring_ok m" "ByteCount \<le> 48000" "unat ByteCount \<le> length Data"
  shows "push_block Data ByteCount m =
    (store_block (take (unat ByteCount) Data) m)\<lparr>m_PcmTotalBytesWritten :=
       m_PcmTotalBytesWritten m + ucast ByteCount\<rparr>"
proof -
  let ?R = "unat (m_PcmRingReadOffset m)" and ?A = "unat (m_PcmRingAvailableBytes m)"
  let ?W = "unat (m_PcmRingWriteOffset m)"
  have ok: "length (m_PcmRingBuffer m) = 48000" "?R < 48000" "?A \<le> 48000" "?W = (?R + ?A) mod 48000"
    using assms(1) by (simp_all add: pcm_ring_ok_def)
  have W: "?W < 48000"
    unfolding ok(4) by (rule mod_less_divisor) simp
  have n: "unat ByteCount \<le> 48000"
    using assms(2) by (simp add: word_le_nat_alt)
  have free: "unat (48000 - m_PcmRingAvailableBytes m) = 48000 - ?A"
    using ok(3) by (simp add: unat_sub word_le_nat_alt)
  have data: "length (take (unat ByteCount) Data) = unat ByteCount"
    using assms(3) by simp
  have position: "(m_PcmRingWriteOffset m + ByteCount) mod 48000 =
      of_nat ((?W + unat ByteCount) mod 48000)"
    using W n by (simp add: word_unat_eq_iff unat_mod unat_of_nat unat_word_ariths)
  show ?thesis
  proof (cases "ByteCount > 48000 - m_PcmRingAvailableBytes m")
    case True
    then have excess: "48000 - ?A < unat ByteCount" by (simp add: word_less_nat_alt free)
    then have drop: "unat (ByteCount - (48000 - m_PcmRingAvailableBytes m)) =
        unat ByteCount - (48000 - ?A)"
      using free by (simp add: unat_sub word_le_nat_alt)
    have "(m_PcmRingReadOffset m + (ByteCount - (48000 - m_PcmRingAvailableBytes m))) mod 48000 =
        of_nat ((?R + (unat ByteCount - (48000 - ?A))) mod 48000)"
      using drop ok n by (simp add: word_unat_eq_iff unat_mod unat_of_nat unat_word_ariths)
    moreover have "m_PcmRingAvailableBytes m - (ByteCount - (48000 - m_PcmRingAvailableBytes m)) + ByteCount =
        of_nat (?A - (unat ByteCount - (48000 - ?A)) + unat ByteCount)"
      using excess ok n by simp
    moreover have "ucast (ByteCount - (48000 - m_PcmRingAvailableBytes m)) =
        (of_nat (unat ByteCount - (48000 - ?A)) :: u64)"
      by (simp flip: drop)
    ultimately show ?thesis
      using True assms(2,3) ok(1) W data position
      by (simp add: push_block_def store_block_def Let_def not_less two_copies
          del: of_nat_add of_nat_diff of_nat_mod)
  next
    case False
    then have fits: "unat ByteCount \<le> 48000 - ?A" by (simp add: word_less_nat_alt free)
    moreover have "m_PcmRingReadOffset m = of_nat (?R mod 48000)"
      "m_PcmRingAvailableBytes m + ByteCount = of_nat (?A + unat ByteCount)"
      using ok(2) by simp_all
    ultimately show ?thesis
      using False assms(2,3) ok(1) W data position
      by (simp add: push_block_def store_block_def Let_def not_less two_copies
          del: of_nat_add of_nat_diff of_nat_mod)
  qed
qed

lemma push_block_clamped:
  "ByteCount > 48000 \<Longrightarrow>
   push_block Data ByteCount m =
     (push_block (drop (unat (ByteCount - 48000)) Data) 48000
        (m\<lparr>m_PcmTotalBytesDropped := m_PcmTotalBytesDropped m + ucast (ByteCount - 48000)\<rparr>))
     \<lparr>m_PcmTotalBytesWritten := m_PcmTotalBytesWritten m + ucast ByteCount\<rparr>"
  by (simp add: push_block_def Let_def)

text \<open>The accounts of a stream: what was written was read, dropped or is there to be read.\<close>

definition balanced :: "'a pcm_ring_scheme \<Rightarrow> bool" where
  "balanced m \<longleftrightarrow>
     m_PcmTotalBytesWritten m =
       m_PcmTotalBytesRead m + m_PcmTotalBytesDropped m + ucast (m_PcmRingAvailableBytes m)"

lemma ring_ok_frame [simp]:
  "pcm_ring_ok (m\<lparr>m_PcmTotalBytesDropped := d\<rparr>) = pcm_ring_ok m"
  "pcm_ring_ok (m\<lparr>m_PcmTotalBytesWritten := w\<rparr>) = pcm_ring_ok m"
  "pcm_contents (m\<lparr>m_PcmTotalBytesDropped := d\<rparr>) = pcm_contents m"
  "pcm_contents (m\<lparr>m_PcmTotalBytesWritten := w\<rparr>) = pcm_contents m"
  by (simp_all add: pcm_ring_ok_def pcm_contents_def)

lemma length_pcm_contents [simp]: "length (pcm_contents m) = unat (m_PcmRingAvailableBytes m)"
  by (simp add: pcm_contents_def)

lemma store_block_frame:
  "m_PcmTotalBytesWritten (store_block xs m) = m_PcmTotalBytesWritten m"
  "m_PcmTotalBytesRead (store_block xs m) = m_PcmTotalBytesRead m"
  "m_PcmStreamActive (store_block xs m) = m_PcmStreamActive m"
  "m_PcmBlockAlign (store_block xs m) = m_PcmBlockAlign m"
  by (simp_all add: store_block_def Let_def)

lemma ucast_u32: "(ucast (x :: u32) :: u64) = of_nat (unat x)"
  by simp

lemma store_block_accounts:
  assumes "pcm_ring_ok m" "length xs \<le> 48000"
  shows "m_PcmTotalBytesDropped (store_block xs m) + ucast (m_PcmRingAvailableBytes (store_block xs m)) =
    m_PcmTotalBytesDropped m + ucast (m_PcmRingAvailableBytes m) + of_nat (length xs)"
proof -
  let ?A = "unat (m_PcmRingAvailableBytes m)"
  define k where "k = length xs - (48000 - ?A)"
  have k: "k \<le> ?A" "?A - k + length xs < 4294967296"
    using assms by (auto simp: k_def pcm_ring_ok_def)
  have "m_PcmTotalBytesDropped (store_block xs m) + ucast (m_PcmRingAvailableBytes (store_block xs m)) =
      m_PcmTotalBytesDropped m + of_nat k + of_nat (?A - k + length xs)"
    using k(2)
    by (simp add: store_block_def Let_def ucast_of_nat_u32 flip: k_def del: of_nat_add of_nat_diff)
  also have "\<dots> = m_PcmTotalBytesDropped m + of_nat (k + (?A - k + length xs))"
    by (simp add: add.assoc)
  also have "k + (?A - k + length xs) = ?A + length xs"
    using k(1) by simp
  finally show ?thesis by (simp add: add.assoc)
qed

lemma push_block_correct:
  assumes "pcm_ring_ok m" "unat ByteCount \<le> length Data"
  shows "pcm_ring_ok (push_block Data ByteCount m)"
    "pcm_contents (push_block Data ByteCount m) =
      keep 48000 (pcm_contents m @ take (unat ByteCount) Data)"
    "balanced m \<Longrightarrow> balanced (push_block Data ByteCount m)"
    "m_PcmStreamActive (push_block Data ByteCount m) = m_PcmStreamActive m"
    "m_PcmBlockAlign (push_block Data ByteCount m) = m_PcmBlockAlign m"
proof -
  have "pcm_ring_ok (push_block Data ByteCount m) \<and>
    pcm_contents (push_block Data ByteCount m) =
      keep 48000 (pcm_contents m @ take (unat ByteCount) Data) \<and>
    (balanced m \<longrightarrow> balanced (push_block Data ByteCount m)) \<and>
    m_PcmStreamActive (push_block Data ByteCount m) = m_PcmStreamActive m \<and>
    m_PcmBlockAlign (push_block Data ByteCount m) = m_PcmBlockAlign m"
  proof (cases "ByteCount \<le> 48000")
    case True
    then have "length (take (unat ByteCount) Data) \<le> 48000"
      using assms(2) by (simp add: word_le_nat_alt)
    from store_block_ok [OF assms(1) this] store_block_accounts [OF assms(1) this] show ?thesis
      using assms(2) by (simp add: push_block_fits [OF assms(1) True assms(2)] store_block_frame
          balanced_def add.assoc)
  next
    case False
    define k where "k = unat ByteCount - 48000"
    have k: "unat (ByteCount - 48000) = k" "k + 48000 = unat ByteCount"
      using False by (simp_all add: k_def unat_sub word_le_nat_alt not_le)
    let ?m = "m\<lparr>m_PcmTotalBytesDropped := m_PcmTotalBytesDropped m + ucast (ByteCount - 48000)\<rparr>"
    let ?xs = "take 48000 (drop k Data)"
    have xs: "length ?xs = 48000" "?xs = keep 48000 (take (unat ByteCount) Data)"
      using assms(2) k(2) by (simp_all add: keep_def drop_take k_def)
    have push: "push_block Data ByteCount m = (store_block ?xs ?m)\<lparr>m_PcmTotalBytesWritten :=
        m_PcmTotalBytesWritten m + ucast ByteCount\<rparr>"
      using False assms k by (simp add: push_block_clamped not_le push_block_fits)
    have "(ucast (ByteCount - 48000) :: u64) + 48000 = ucast ByteCount"
      unfolding ucast_u32 k(1) k(2) [symmetric] by simp
    then show ?thesis
      using store_block_ok [of ?m ?xs] store_block_accounts [of ?m ?xs] assms(1) xs
      by (simp add: push store_block_frame balanced_def keep_append_keep ac_simps)
  qed
  then show "pcm_ring_ok (push_block Data ByteCount m)"
    "pcm_contents (push_block Data ByteCount m) =
      keep 48000 (pcm_contents m @ take (unat ByteCount) Data)"
    "balanced m \<Longrightarrow> balanced (push_block Data ByteCount m)"
    "m_PcmStreamActive (push_block Data ByteCount m) = m_PcmStreamActive m"
    "m_PcmBlockAlign (push_block Data ByteCount m) = m_PcmBlockAlign m"
    by blast+
qed

section \<open>The abstract stream\<close>

text \<open>What the ring implements: a queue of bytes that keeps the last 48000 of what is pushed while a
  stream runs, cut to whole frames.\<close>

record pcm_fifo =
  ff_active :: bool
  ff_align :: u32
  ff_queue :: bytes

definition whole_frames :: "u32 \<Rightarrow> bytes \<Rightarrow> bytes" where
  "whole_frames align Data =
     (let n = unat (of_nat (length Data) :: u32) in take (n - n mod unat align) Data)"

definition readable :: "u32 \<Rightarrow> u32 \<Rightarrow> nat \<Rightarrow> nat" where
  "readable align capacity queued =
     (let room = min (unat capacity) 4096 in min (room - room mod unat align) queued)"

datatype pcm_call =
  BeginStream u32 u16 u16 u32
| EndStream
| Push bytes
| Read u32

fun fifo_step :: "pcm_call \<Rightarrow> pcm_fifo \<Rightarrow> pcm_fifo \<times> bytes option" where
  "fifo_step (BeginStream rate channels bits align) f =
     (\<lparr>ff_active = True, ff_align = align, ff_queue = []\<rparr>, None)"
| "fifo_step EndStream f = (f\<lparr>ff_active := False, ff_queue := []\<rparr>, None)"
| "fifo_step (Push Data) f =
     (if ff_active f \<and> ff_align f \<noteq> 0
      then f\<lparr>ff_queue := keep 48000 (ff_queue f @ whole_frames (ff_align f) Data)\<rparr> else f, None)"
| "fifo_step (Read capacity) f =
     (if ff_align f = 0 then (f, None)
      else let n = readable (ff_align f) capacity (length (ff_queue f))
           in (f\<lparr>ff_queue := drop n (ff_queue f)\<rparr>, Some (take n (ff_queue f))))"

fun ring_step :: "pcm_call \<Rightarrow> 'a pcm_ring_scheme \<Rightarrow> 'a pcm_ring_scheme \<times> bytes option" where
  "ring_step (BeginStream rate channels bits align) m = (BeginPcmStream rate channels bits align m, None)"
| "ring_step EndStream m = (EndPcmStream m, None)"
| "ring_step (Push Data) m = (PushPcm Data m, None)"
| "ring_step (Read capacity) m = (let (m', result) = pcm_read capacity m in (m', map_option snd result))"

text \<open>A run collects the answers of its calls.\<close>

fun answers :: "('c \<Rightarrow> 's \<Rightarrow> 's \<times> 'a) \<Rightarrow> 'c list \<Rightarrow> 's \<Rightarrow> 'a list" where
  "answers step [] s = []"
| "answers step (c # cs) s = (let (s', a) = step c s in a # answers step cs s')"

definition fifo_of :: "'a pcm_ring_scheme \<Rightarrow> pcm_fifo" where
  "fifo_of m = \<lparr>ff_active = m_PcmStreamActive m, ff_align = m_PcmBlockAlign m, ff_queue = pcm_contents m\<rparr>"

lemma push_aligned:
  fixes Data :: bytes
  assumes "blockAlign \<noteq> 0"
  defines "n \<equiv> (of_nat (length Data) :: u32)"
  shows "unat (n - n mod blockAlign) = unat n - unat n mod unat blockAlign"
    "unat (n - n mod blockAlign) \<le> length Data"
proof -
  have "n mod blockAlign \<le> n"
    by (simp add: word_le_nat_alt unat_mod)
  then show aligned: "unat (n - n mod blockAlign) = unat n - unat n mod unat blockAlign"
    by (simp add: unat_sub unat_mod)
  have "unat n \<le> length Data"
    by (simp add: n_def unat_of_nat)
  then show "unat (n - n mod blockAlign) \<le> length Data"
    unfolding aligned by simp
qed

lemma PushPcm_correct:
  assumes "pcm_ring_ok m"
  shows "pcm_ring_ok (PushPcm Data m)" "fifo_of (PushPcm Data m) = fst (fifo_step (Push Data) (fifo_of m))"
    "balanced m \<Longrightarrow> balanced (PushPcm Data m)"
proof -
  let ?n = "of_nat (length Data) :: u32" and ?a = "m_PcmBlockAlign m"
  have "pcm_ring_ok (PushPcm Data m) \<and> fifo_of (PushPcm Data m) = fst (fifo_step (Push Data) (fifo_of m)) \<and>
    (balanced m \<longrightarrow> balanced (PushPcm Data m))"
  proof (cases "m_PcmStreamActive m \<and> ?a \<noteq> 0 \<and> ?n - ?n mod ?a \<noteq> 0")
    case True
    then have "PushPcm Data m = push_block Data (?n - ?n mod ?a) m"
      by (simp add: PushPcm_def Let_def)
    then show ?thesis
      using push_block_correct [OF assms push_aligned(2)] push_aligned(1) [of ?a Data] True
      by (simp add: fifo_of_def whole_frames_def Let_def)
  next
    case False
    have empty: "whole_frames ?a Data = []" if "?a \<noteq> 0" "?n - ?n mod ?a = 0"
    proof -
      have "unat ?n - unat ?n mod unat ?a = 0"
        using push_aligned(1) [OF that(1), of Data] that(2) by (metis unat_0)
      then show ?thesis
        unfolding whole_frames_def Let_def by (simp only: take_0)
    qed
    have same: "PushPcm Data m = m"
      using False by (auto simp: PushPcm_def Let_def)
    have "keep 48000 (pcm_contents m) = pcm_contents m"
      using assms by (simp add: keep_short pcm_ring_ok_def)
    then show ?thesis
      using False empty assms by (auto simp: same fifo_of_def)
  qed
  then show "pcm_ring_ok (PushPcm Data m)" "fifo_of (PushPcm Data m) = fst (fifo_step (Push Data) (fifo_of m))"
    "balanced m \<Longrightarrow> balanced (PushPcm Data m)"
    by blast+
qed

lemma unat_min: "unat (min a b) = min (unat a) (unat b)"
  by (simp add: min_def word_le_nat_alt)

lemma bytes_to_read:
  assumes "blockAlign \<noteq> 0"
  shows "unat (min (min capacity 4096 - min capacity 4096 mod blockAlign) available) =
    readable blockAlign capacity (unat available)"
proof -
  have "min capacity 4096 mod blockAlign \<le> min capacity 4096"
    by (simp add: word_le_nat_alt unat_mod)
  then show ?thesis
    by (simp add: unat_min readable_def Let_def unat_sub unat_mod)
qed

lemma read_copies:
  fixes offset n :: u32
  assumes "length buffer = 48000" "unat offset < 48000" "unat n \<le> 4096"
  defines "firstCopy \<equiv> min n (48000 - offset)"
  shows "\<not> firstCopy > 4096" "\<not> n - firstCopy > 4096 - firstCopy"
    "take (unat firstCopy) (drop (unat offset) buffer) @ take (unat (n - firstCopy)) buffer =
      ring_read buffer (unat offset) (unat n)"
proof -
  have room: "unat (48000 - offset) = 48000 - unat offset"
    using assms(2) by (simp add: unat_sub word_le_nat_alt)
  have first: "unat firstCopy = min (unat n) (48000 - unat offset)"
    by (simp add: firstCopy_def unat_min room)
  then have second: "unat (n - firstCopy) = unat n - min (unat n) (48000 - unat offset)"
    "unat (4096 - firstCopy) = 4096 - min (unat n) (48000 - unat offset)"
    using assms(3) by (simp_all add: unat_sub word_le_nat_alt)
  show "\<not> firstCopy > 4096" "\<not> n - firstCopy > 4096 - firstCopy"
    using assms(3) by (simp_all add: word_less_nat_alt first second not_less diff_le_mono)
  show "take (unat firstCopy) (drop (unat offset) buffer) @ take (unat (n - firstCopy)) buffer =
      ring_read buffer (unat offset) (unat n)"
    unfolding first second ring_read_def Let_def assms(1) by simp
qed

lemma pcm_read_correct:
  assumes "pcm_ring_ok m"
  shows "pcm_ring_ok (fst (pcm_read capacity m))"
    "(fifo_of (fst (pcm_read capacity m)), map_option snd (snd (pcm_read capacity m))) =
      fifo_step (Read capacity) (fifo_of m)"
    "balanced m \<Longrightarrow> balanced (fst (pcm_read capacity m))"
proof -
  let ?R = "unat (m_PcmRingReadOffset m)" and ?A = "unat (m_PcmRingAvailableBytes m)"
  let ?a = "m_PcmBlockAlign m"
  define n where "n = min (min capacity 4096 - min capacity 4096 mod ?a) (m_PcmRingAvailableBytes m)"
  have ok: "length (m_PcmRingBuffer m) = 48000" "?R < 48000" "?A \<le> 48000"
    "unat (m_PcmRingWriteOffset m) = (?R + ?A) mod 48000"
    using assms by (simp_all add: pcm_ring_ok_def)
  have "pcm_ring_ok (fst (pcm_read capacity m)) \<and>
    (fifo_of (fst (pcm_read capacity m)), map_option snd (snd (pcm_read capacity m))) =
      fifo_step (Read capacity) (fifo_of m) \<and>
    (balanced m \<longrightarrow> balanced (fst (pcm_read capacity m)))"
  proof (cases "?a = 0")
    case True
    then show ?thesis using assms by (simp add: pcm_read_def fifo_of_def)
  next
    case False
    have n: "unat n = readable ?a capacity ?A"
      unfolding n_def by (rule bytes_to_read [OF False])
    then have bounds: "unat n \<le> 4096" "unat n \<le> ?A"
      by (simp_all add: readable_def Let_def)
    note copies = read_copies [OF ok(1,2) bounds(1)]
    have bytes: "ring_read (m_PcmRingBuffer m) ?R (unat n) = take (unat n) (pcm_contents m)"
      using ring_read_contents [of ?R "m_PcmRingBuffer m" "unat n"] ok bounds
      by (simp add: pcm_contents_def take_ring_contents)
    have result: "pcm_read capacity m =
      (m\<lparr>m_PcmRingReadOffset := (m_PcmRingReadOffset m + n) mod 48000,
         m_PcmRingAvailableBytes := m_PcmRingAvailableBytes m - n,
         m_PcmTotalBytesRead := m_PcmTotalBytesRead m + ucast n\<rparr>,
       Some (\<lparr>rh_InfoBeforeRead = pcm_info m, rh_BytesReturned = n,
              rh_AvailableBytesAfterRead = m_PcmRingAvailableBytes m - n\<rparr>,
             take (unat n) (pcm_contents m)))"
      using False copies bytes unfolding pcm_read_def Let_def n_def [symmetric] by simp
    have avail: "unat (m_PcmRingAvailableBytes m - n) = ?A - unat n"
      using bounds(2) by (simp add: unat_sub word_le_nat_alt)
    have offset: "unat ((m_PcmRingReadOffset m + n) mod 48000) = (?R + unat n) mod 48000"
      using ok(2) bounds(1) by (simp add: unat_mod unat_word_ariths)
    have "(?R + ?A) mod 48000 = (?R + unat n + (?A - unat n)) mod 48000"
      using bounds(2) by simp
    also have "\<dots> = ((?R + unat n) mod 48000 + (?A - unat n)) mod 48000"
      by (rule mod_add_left_eq [symmetric])
    finally have position: "(?R + ?A) mod 48000 = ((?R + unat n) mod 48000 + (?A - unat n)) mod 48000" .
    have accounts: "(ucast n :: u64) + ucast (m_PcmRingAvailableBytes m - n) = ucast (m_PcmRingAvailableBytes m)"
      unfolding ucast_u32 avail of_nat_add [symmetric] using bounds(2) by simp
    have "pcm_ring_ok (fst (pcm_read capacity m))"
      using ok position by (simp add: result pcm_ring_ok_def offset avail)
    moreover have "pcm_contents (fst (pcm_read capacity m)) = drop (unat n) (pcm_contents m)"
      using ring_drop_many [OF bounds(2), of "m_PcmRingBuffer m" ?R] ok(1)
      by (simp add: result pcm_contents_def offset avail)
    moreover have "balanced (fst (pcm_read capacity m))" if "balanced m"
      using that accounts by (simp add: result balanced_def ac_simps)
    ultimately show ?thesis
      using False n by (simp add: fifo_of_def Let_def) (simp add: result)
  qed
  then show "pcm_ring_ok (fst (pcm_read capacity m))"
    "(fifo_of (fst (pcm_read capacity m)), map_option snd (snd (pcm_read capacity m))) =
      fifo_step (Read capacity) (fifo_of m)"
    "balanced m \<Longrightarrow> balanced (fst (pcm_read capacity m))"
    by blast+
qed

section \<open>Runs of the ring\<close>

lemma begin_stream:
  assumes "pcm_ring_ok m"
  shows "pcm_ring_ok (BeginPcmStream r c b a m)"
    "fifo_of (BeginPcmStream r c b a m) = \<lparr>ff_active = True, ff_align = a, ff_queue = []\<rparr>"
    "balanced (BeginPcmStream r c b a m)"
  using assms by (simp_all add: pcm_ring_ok_def BeginPcmStream_def fifo_of_def pcm_contents_def balanced_def)

lemma end_stream:
  assumes "pcm_ring_ok m"
  shows "pcm_ring_ok (EndPcmStream m)"
    "fifo_of (EndPcmStream m) = (fifo_of m)\<lparr>ff_active := False, ff_queue := []\<rparr>"
    "balanced m \<Longrightarrow> balanced (EndPcmStream m)"
  using assms by (simp_all add: pcm_ring_ok_def EndPcmStream_def fifo_of_def pcm_contents_def balanced_def)

lemma ring_step_correct:
  assumes "pcm_ring_ok m"
  shows "pcm_ring_ok (fst (ring_step call m))"
    "(fifo_of (fst (ring_step call m)), snd (ring_step call m)) = fifo_step call (fifo_of m)"
    "balanced m \<Longrightarrow> balanced (fst (ring_step call m))"
proof -
  have "pcm_ring_ok (fst (ring_step call m)) \<and>
    (fifo_of (fst (ring_step call m)), snd (ring_step call m)) = fifo_step call (fifo_of m) \<and>
    (balanced m \<longrightarrow> balanced (fst (ring_step call m)))"
  proof (cases call)
    case (Push Data)
    then show ?thesis
      using PushPcm_correct [OF assms, of Data] by (simp add: prod_eq_iff)
  next
    case (Read capacity)
    then show ?thesis
      using pcm_read_correct [OF assms, of capacity] by (simp add: case_prod_beta)
  qed (simp_all add: begin_stream end_stream assms)
  then show "pcm_ring_ok (fst (ring_step call m))"
    "(fifo_of (fst (ring_step call m)), snd (ring_step call m)) = fifo_step call (fifo_of m)"
    "balanced m \<Longrightarrow> balanced (fst (ring_step call m))"
    by blast+
qed

lemma ring_answers:
  "pcm_ring_ok m \<Longrightarrow> answers ring_step calls m = answers fifo_step calls (fifo_of m)"
proof (induction calls arbitrary: m)
  case (Cons call calls)
  have "fifo_step call (fifo_of m) = (fifo_of (fst (ring_step call m)), snd (ring_step call m))"
    using ring_step_correct(2) [OF Cons.prems] by simp
  then show ?case
    using Cons.IH [OF ring_step_correct(1) [OF Cons.prems]] by (simp add: case_prod_beta)
qed simp

definition run_ring :: "pcm_call list \<Rightarrow> 'a pcm_ring_scheme \<Rightarrow> 'a pcm_ring_scheme" where
  "run_ring calls m = fold (\<lambda>call m. fst (ring_step call m)) calls m"

lemma run_ring_correct:
  "pcm_ring_ok m \<and> balanced m \<Longrightarrow> pcm_ring_ok (run_ring calls m) \<and> balanced (run_ring calls m)"
  unfolding run_ring_def by (induction calls arbitrary: m) (simp_all add: ring_step_correct)

lemma init_ok: "pcm_ring_ok pcm_ring_init" "balanced pcm_ring_init"
  by (simp_all add: pcm_ring_ok_def balanced_def pcm_ring_init_def)

text \<open>C20: The PCM ring is a queue of the last 48000 bytes: for every order of stream starts, stream
  ends, pushes and reads, each read returns exactly the bytes the abstract queue gives - the oldest
  ones that are still held, in order, at most 4096 and in whole frames - whatever wraps around the
  end of the buffer.\<close>

lemma pcm_ring_is_queue:
  "answers ring_step calls pcm_ring_init =
   answers fifo_step calls \<lparr>ff_active = False, ff_align = 4, ff_queue = []\<rparr>"
  using ring_answers [OF init_ok(1), of calls]
  by (simp add: fifo_of_def pcm_contents_def pcm_ring_init_def)

text \<open>C24: No byte of a stream is lost silently: at every moment the bytes the info property reports as
  written are the bytes read, the bytes dropped and the bytes still available (modulo the width of
  the counters).\<close>

lemma pcm_accounts_balance:
  "let info = pcm_info (run_ring calls pcm_ring_init)
   in pi_TotalBytesWritten info =
      pi_TotalBytesRead info + pi_TotalBytesDropped info + ucast (pi_AvailableBytes info)"
  using run_ring_correct [of pcm_ring_init calls] init_ok
  by (simp add: pcm_info_def balanced_def Let_def)

text \<open>Frames: a stream whose frame size divides the capacity is cut at frames only.\<close>

definition starts_stream :: "pcm_call \<Rightarrow> bool" where
  "starts_stream call = (case call of BeginStream _ _ _ _ \<Rightarrow> True | _ \<Rightarrow> False)"

definition whole :: "u32 \<Rightarrow> bytes option \<Rightarrow> bool" where
  "whole align answer = (case answer of None \<Rightarrow> True | Some bytes \<Rightarrow> unat align dvd length bytes)"

lemma whole_frames_dvd: "unat align dvd length (whole_frames align Data)"
proof -
  have "unat (of_nat (length Data) :: u32) \<le> length Data"
    by (simp add: unat_of_nat)
  then show ?thesis
    by (simp add: whole_frames_def Let_def min_absorb2 le_trans dvd_minus_mod)
qed

lemma fifo_frames:
  "unat align dvd 48000 \<Longrightarrow> ff_align f = align \<Longrightarrow> unat align dvd length (ff_queue f) \<Longrightarrow>
   \<not> starts_stream call \<Longrightarrow>
   ff_align (fst (fifo_step call f)) = align \<and> unat align dvd length (ff_queue (fst (fifo_step call f))) \<and>
   whole align (snd (fifo_step call f))"
proof (cases call)
  case (Read capacity)
  assume "unat align dvd 48000" "ff_align f = align" "unat align dvd length (ff_queue f)"
  moreover have "unat align dvd readable align capacity (length (ff_queue f))"
    using calculation(3) by (simp add: readable_def Let_def min_def dvd_minus_mod)
  moreover have "readable align capacity (length (ff_queue f)) \<le> length (ff_queue f)"
    by (simp add: readable_def Let_def)
  ultimately show ?thesis
    using Read by (cases "align = 0") (simp_all add: whole_def Let_def min_absorb2 dvd_diff_nat)
qed (simp_all add: whole_def starts_stream_def whole_frames_dvd min_def)

lemma fifo_answers_whole:
  "unat align dvd 48000 \<Longrightarrow> ff_align f = align \<Longrightarrow> unat align dvd length (ff_queue f) \<Longrightarrow>
   list_all (\<lambda>call. \<not> starts_stream call) calls \<Longrightarrow> list_all (whole align) (answers fifo_step calls f)"
  by (induction calls arbitrary: f) (simp_all add: case_prod_beta fifo_frames)

text \<open>While a stream runs whose frame size divides the capacity of the ring, every read returns a whole
  number of frames, whatever a push or an overrun dropped.\<close>

lemma reads_whole_frames:
  assumes "unat align dvd 48000" "list_all (\<lambda>call. \<not> starts_stream call) calls"
  shows "list_all (whole align) (answers ring_step calls
    (BeginPcmStream rate channels bits align (run_ring earlier pcm_ring_init)))"
proof -
  have "pcm_ring_ok (run_ring earlier pcm_ring_init)"
    using run_ring_correct [of pcm_ring_init earlier] init_ok by simp
  note stream = begin_stream [OF this]
  show ?thesis
    unfolding ring_answers [OF stream(1)] stream(2)
    by (rule fifo_answers_whole) (simp_all add: assms)
qed

end
