(* ===== verification/Audio_Owner.thy ===== *)
theory Audio_Owner
  imports Ledger
begin

text \<open>
  Who may use the audio endpoint: the lease on its PCM
  (\<open>audio-endpoint/Source/Main/nativeldac_pcm_owner_contract.c\<close>), the lease on the presence it
  publishes (\<open>nativeldac_presence_owner_contract.c\<close>), and the expiry of the published link and
  presence (\<open>Inc/nativeldac_link_state_logic.h\<close>, \<open>Inc/nativeldac_presence_state_logic.h\<close>).

  A lease belongs to a process and a session; a time is a count of 100 ns, so that 30 seconds are
  300000000.  Every operation runs under the lease's lock and is one step; the guards against null
  pointers are not modelled.
\<close>

section \<open>The lease on the PCM\<close>

abbreviation (input) "NATIVE_LDAC_LINK_DISCONNECTED \<equiv> (0 :: u32)"
abbreviation (input) "NATIVE_LDAC_LINK_CONNECTING \<equiv> (1 :: u32)"
abbreviation (input) "NATIVE_LDAC_LINK_CONNECTED \<equiv> (2 :: u32)"
abbreviation (input) "NATIVE_LDAC_LINK_STOPPING \<equiv> (3 :: u32)"
abbreviation (input) "NATIVE_LDAC_PCM_OWNER_LEASE_TIMEOUT_100NS \<equiv> (300000000 :: u64)"
abbreviation (input) "NATIVE_LDAC_PCM_OWNER_SOURCE_LINK \<equiv> (1 :: u32)"
abbreviation (input) "NATIVE_LDAC_PCM_OWNER_SOURCE_CONSUMER \<equiv> (2 :: u32)"

datatype NATIVE_LDAC_PCM_OWNER_RESULT =
  NativeLdacPcmOwnerAccepted | NativeLdacPcmOwnerReleased | NativeLdacPcmOwnerBusy
| NativeLdacPcmOwnerNotReady | NativeLdacPcmOwnerInvalid

record NATIVE_LDAC_PCM_OWNER =
  po_OwnerId :: u64
  po_SessionId :: u64
  po_LastUpdateTime100ns :: u64
  po_Sources :: u32
  po_ReadActive :: bool

definition NativeLdacPcmOwnerClear :: NATIVE_LDAC_PCM_OWNER where
  "NativeLdacPcmOwnerClear =
     \<lparr>po_OwnerId = 0, po_SessionId = 0, po_LastUpdateTime100ns = 0, po_Sources = 0,
      po_ReadActive = False\<rparr>"

definition NativeLdacPcmOwnerIsExpired :: "NATIVE_LDAC_PCM_OWNER \<Rightarrow> u64 \<Rightarrow> bool" where
  "NativeLdacPcmOwnerIsExpired owner now_100ns =
     (if po_OwnerId owner = 0 \<or> po_ReadActive owner then False
      else let age = (if now_100ns \<ge> po_LastUpdateTime100ns owner
                      then now_100ns - po_LastUpdateTime100ns owner else 0)
           in age \<ge> NATIVE_LDAC_PCM_OWNER_LEASE_TIMEOUT_100NS)"

definition NativeLdacPcmOwnerInitialize :: NATIVE_LDAC_PCM_OWNER where
  "NativeLdacPcmOwnerInitialize = NativeLdacPcmOwnerClear"

text \<open>The first statements of every operation that is given the time.\<close>

definition clear_expired :: "NATIVE_LDAC_PCM_OWNER \<Rightarrow> u64 \<Rightarrow> NATIVE_LDAC_PCM_OWNER" where
  "clear_expired owner now_100ns =
     (if NativeLdacPcmOwnerIsExpired owner now_100ns then NativeLdacPcmOwnerClear else owner)"

definition drop_source :: "u32 \<Rightarrow> NATIVE_LDAC_PCM_OWNER \<Rightarrow> NATIVE_LDAC_PCM_OWNER" where
  "drop_source source owner =
     (let owner1 = owner\<lparr>po_Sources := po_Sources owner AND NOT source\<rparr>
      in if po_Sources owner1 = 0 then NativeLdacPcmOwnerClear else owner1)"

definition NativeLdacPcmOwnerSetLinkState ::
  "NATIVE_LDAC_PCM_OWNER \<Rightarrow> u64 \<Rightarrow> u64 \<Rightarrow> u32 \<Rightarrow> u32 \<Rightarrow> u64 \<Rightarrow>
   NATIVE_LDAC_PCM_OWNER \<times> NATIVE_LDAC_PCM_OWNER_RESULT" where
  "NativeLdacPcmOwnerSetLinkState owner0 client_id session_id requested_state observed_state now_100ns =
     (if client_id = 0 \<or> session_id = 0 \<or> requested_state > NATIVE_LDAC_LINK_STOPPING \<or>
         observed_state > NATIVE_LDAC_LINK_STOPPING \<or> now_100ns = 0
      then (owner0, NativeLdacPcmOwnerInvalid)
      else
        let owner1 = clear_expired owner0 now_100ns;
            owner =
              (if observed_state = NATIVE_LDAC_LINK_DISCONNECTED \<and>
                  po_Sources owner1 AND NATIVE_LDAC_PCM_OWNER_SOURCE_LINK \<noteq> 0 \<and>
                  \<not> po_ReadActive owner1
               then drop_source NATIVE_LDAC_PCM_OWNER_SOURCE_LINK owner1 else owner1)
        in if requested_state = NATIVE_LDAC_LINK_CONNECTING
           then
             if po_OwnerId owner \<noteq> 0 \<and>
                (po_OwnerId owner \<noteq> client_id \<or> po_SessionId owner \<noteq> session_id)
             then (owner, NativeLdacPcmOwnerBusy)
             else
               let claimed =
                     (if po_OwnerId owner = 0
                      then owner\<lparr>po_OwnerId := client_id, po_SessionId := session_id\<rparr> else owner)
               in (claimed\<lparr>po_Sources := po_Sources claimed OR NATIVE_LDAC_PCM_OWNER_SOURCE_LINK,
                           po_LastUpdateTime100ns := now_100ns\<rparr>,
                   NativeLdacPcmOwnerAccepted)
           else if po_OwnerId owner \<noteq> client_id \<or> po_SessionId owner \<noteq> session_id \<or>
                   po_Sources owner AND NATIVE_LDAC_PCM_OWNER_SOURCE_LINK = 0
           then (owner, NativeLdacPcmOwnerBusy)
           else if requested_state = NATIVE_LDAC_LINK_DISCONNECTED
           then
             if po_ReadActive owner \<and> po_Sources owner = NATIVE_LDAC_PCM_OWNER_SOURCE_LINK
             then (owner, NativeLdacPcmOwnerBusy)
             else (drop_source NATIVE_LDAC_PCM_OWNER_SOURCE_LINK owner, NativeLdacPcmOwnerReleased)
           else (owner\<lparr>po_LastUpdateTime100ns := now_100ns\<rparr>, NativeLdacPcmOwnerAccepted))"

definition NativeLdacPcmOwnerAcquireConsumer ::
  "NATIVE_LDAC_PCM_OWNER \<Rightarrow> u64 \<Rightarrow> u64 \<Rightarrow> u64 \<Rightarrow>
   NATIVE_LDAC_PCM_OWNER \<times> NATIVE_LDAC_PCM_OWNER_RESULT" where
  "NativeLdacPcmOwnerAcquireConsumer owner0 client_id generation now_100ns =
     (if client_id = 0 \<or> generation = 0 \<or> now_100ns = 0 then (owner0, NativeLdacPcmOwnerInvalid)
      else
        let owner = clear_expired owner0 now_100ns
        in if po_OwnerId owner \<noteq> 0 \<and>
              (po_OwnerId owner \<noteq> client_id \<or> po_SessionId owner \<noteq> generation)
           then (owner, NativeLdacPcmOwnerBusy)
           else
             let claimed =
                   (if po_OwnerId owner = 0
                    then owner\<lparr>po_OwnerId := client_id, po_SessionId := generation\<rparr> else owner)
             in (claimed\<lparr>po_Sources := po_Sources claimed OR NATIVE_LDAC_PCM_OWNER_SOURCE_CONSUMER,
                         po_LastUpdateTime100ns := now_100ns\<rparr>,
                 NativeLdacPcmOwnerAccepted))"

definition NativeLdacPcmOwnerReleaseConsumer ::
  "NATIVE_LDAC_PCM_OWNER \<Rightarrow> u64 \<Rightarrow> u64 \<Rightarrow>
   NATIVE_LDAC_PCM_OWNER \<times> NATIVE_LDAC_PCM_OWNER_RESULT" where
  "NativeLdacPcmOwnerReleaseConsumer owner client_id generation =
     (if client_id = 0 \<or> generation = 0 then (owner, NativeLdacPcmOwnerInvalid)
      else if po_OwnerId owner = 0 then (owner, NativeLdacPcmOwnerReleased)
      else if po_OwnerId owner \<noteq> client_id \<or> po_SessionId owner \<noteq> generation \<or>
              po_Sources owner AND NATIVE_LDAC_PCM_OWNER_SOURCE_CONSUMER = 0
      then (owner, NativeLdacPcmOwnerBusy)
      else if po_ReadActive owner \<and> po_Sources owner = NATIVE_LDAC_PCM_OWNER_SOURCE_CONSUMER
      then (owner, NativeLdacPcmOwnerBusy)
      else (drop_source NATIVE_LDAC_PCM_OWNER_SOURCE_CONSUMER owner, NativeLdacPcmOwnerReleased))"

definition NativeLdacPcmOwnerBeginRead ::
  "NATIVE_LDAC_PCM_OWNER \<Rightarrow> u64 \<Rightarrow> u32 \<Rightarrow> u64 \<Rightarrow>
   NATIVE_LDAC_PCM_OWNER \<times> NATIVE_LDAC_PCM_OWNER_RESULT" where
  "NativeLdacPcmOwnerBeginRead owner0 client_id observed_state now_100ns =
     (if client_id = 0 \<or> observed_state > NATIVE_LDAC_LINK_STOPPING \<or> now_100ns = 0
      then (owner0, NativeLdacPcmOwnerInvalid)
      else
        let owner = clear_expired owner0 now_100ns
        in if po_OwnerId owner = 0 \<or> po_Sources owner = 0 then (owner, NativeLdacPcmOwnerNotReady)
           else if po_Sources owner AND NATIVE_LDAC_PCM_OWNER_SOURCE_CONSUMER = 0 \<and>
                   observed_state \<noteq> NATIVE_LDAC_LINK_CONNECTED
           then (owner, NativeLdacPcmOwnerNotReady)
           else if po_OwnerId owner \<noteq> client_id \<or> po_ReadActive owner
           then (owner, NativeLdacPcmOwnerBusy)
           else (owner\<lparr>po_ReadActive := True, po_LastUpdateTime100ns := now_100ns\<rparr>,
                 NativeLdacPcmOwnerAccepted))"

definition NativeLdacPcmOwnerEndRead ::
  "NATIVE_LDAC_PCM_OWNER \<Rightarrow> u64 \<Rightarrow> NATIVE_LDAC_PCM_OWNER \<times> NATIVE_LDAC_PCM_OWNER_RESULT" where
  "NativeLdacPcmOwnerEndRead owner client_id =
     (if client_id = 0 then (owner, NativeLdacPcmOwnerInvalid)
      else if po_OwnerId owner \<noteq> client_id \<or> \<not> po_ReadActive owner
      then (owner, NativeLdacPcmOwnerBusy)
      else (owner\<lparr>po_ReadActive := False\<rparr>, NativeLdacPcmOwnerAccepted))"

section \<open>The lease on the presence\<close>

abbreviation (input) "NATIVE_LDAC_PRESENCE_ABSENT \<equiv> (0 :: u32)"
abbreviation (input) "NATIVE_LDAC_PRESENCE_PRESENT \<equiv> (1 :: u32)"
abbreviation (input) "NATIVE_LDAC_PRESENCE_OWNER_LEASE_TIMEOUT_100NS \<equiv> (150000000 :: u64)"

datatype NATIVE_LDAC_PRESENCE_OWNER_RESULT =
  NativeLdacPresenceOwnerAccepted | NativeLdacPresenceOwnerReleased
| NativeLdacPresenceOwnerBusy | NativeLdacPresenceOwnerInvalid

record NATIVE_LDAC_PRESENCE_OWNER =
  pr_OwnerId :: u64
  pr_PresenceGeneration :: u64
  pr_LastUpdateTime100ns :: u64

definition NativeLdacPresenceOwnerClear :: NATIVE_LDAC_PRESENCE_OWNER where
  "NativeLdacPresenceOwnerClear =
     \<lparr>pr_OwnerId = 0, pr_PresenceGeneration = 0, pr_LastUpdateTime100ns = 0\<rparr>"

definition NativeLdacPresenceOwnerIsExpired :: "NATIVE_LDAC_PRESENCE_OWNER \<Rightarrow> u64 \<Rightarrow> bool" where
  "NativeLdacPresenceOwnerIsExpired owner now_100ns =
     (if pr_OwnerId owner = 0 then False
      else let age = (if now_100ns \<ge> pr_LastUpdateTime100ns owner
                      then now_100ns - pr_LastUpdateTime100ns owner else 0)
           in age \<ge> NATIVE_LDAC_PRESENCE_OWNER_LEASE_TIMEOUT_100NS)"

definition NativeLdacPresenceOwnerInitialize :: NATIVE_LDAC_PRESENCE_OWNER where
  "NativeLdacPresenceOwnerInitialize = NativeLdacPresenceOwnerClear"

definition NativeLdacPresenceOwnerSetState ::
  "NATIVE_LDAC_PRESENCE_OWNER \<Rightarrow> u64 \<Rightarrow> u64 \<Rightarrow> u32 \<Rightarrow> u32 \<Rightarrow> u64 \<Rightarrow>
   NATIVE_LDAC_PRESENCE_OWNER \<times> NATIVE_LDAC_PRESENCE_OWNER_RESULT" where
  "NativeLdacPresenceOwnerSetState owner0 client_id presence_generation requested_state
     observed_state now_100ns =
     (if client_id = 0 \<or> presence_generation = 0 \<or> requested_state > NATIVE_LDAC_PRESENCE_PRESENT \<or>
         observed_state > NATIVE_LDAC_PRESENCE_PRESENT \<or> now_100ns = 0
      then (owner0, NativeLdacPresenceOwnerInvalid)
      else
        let owner = (if NativeLdacPresenceOwnerIsExpired owner0 now_100ns
                     then NativeLdacPresenceOwnerClear else owner0)
        in if requested_state = NATIVE_LDAC_PRESENCE_PRESENT
           then
             if pr_OwnerId owner \<noteq> 0 \<and>
                (pr_OwnerId owner \<noteq> client_id \<or> pr_PresenceGeneration owner \<noteq> presence_generation)
             then (owner, NativeLdacPresenceOwnerBusy)
             else
               let claimed =
                     (if pr_OwnerId owner = 0
                      then owner\<lparr>pr_OwnerId := client_id,
                                 pr_PresenceGeneration := presence_generation\<rparr> else owner)
               in (claimed\<lparr>pr_LastUpdateTime100ns := now_100ns\<rparr>, NativeLdacPresenceOwnerAccepted)
           else if pr_OwnerId owner = 0 then (owner, NativeLdacPresenceOwnerReleased)
           else if pr_OwnerId owner \<noteq> client_id \<or> pr_PresenceGeneration owner \<noteq> presence_generation
           then (owner, NativeLdacPresenceOwnerBusy)
           else (NativeLdacPresenceOwnerClear, NativeLdacPresenceOwnerReleased))"

section \<open>The published states\<close>

abbreviation (input) "NATIVE_LDAC_LINK_HEARTBEAT_TIMEOUT_100NS \<equiv> (50000000 :: u64)"
abbreviation (input) "NATIVE_LDAC_PRESENCE_LEASE_TIMEOUT_100NS \<equiv> (150000000 :: u64)"
abbreviation (input) "NativeLdacLinkStateDisconnected \<equiv> (0 :: u32)"
abbreviation (input) "NativeLdacLinkStateConnecting \<equiv> (1 :: u32)"
abbreviation (input) "NativeLdacLinkStateConnected \<equiv> (2 :: u32)"
abbreviation (input) "NativeLdacLinkStateStopping \<equiv> (3 :: u32)"
abbreviation (input) "NativeLdacPresenceAbsent \<equiv> (0 :: u32)"
abbreviation (input) "NativeLdacPresencePresent \<equiv> (1 :: u32)"

record NATIVE_LDAC_LINK_STATE =
  ls_Size :: u32
  ls_AbiVersion :: u32
  ls_State :: u32
  ls_Flags :: u32
  ls_SessionId :: u64
  ls_UpdateSequence :: u64
  ls_UpdatedInterruptTime100ns :: u64

record NATIVE_LDAC_PRESENCE_STATE =
  ps_Size :: u32
  ps_AbiVersion :: u32
  ps_State :: u32
  ps_Flags :: u32
  ps_PresenceGeneration :: u64
  ps_UpdateSequence :: u64
  ps_UpdatedInterruptTime100ns :: u64

definition NativeLdacLinkStateIsFreshConnected :: "NATIVE_LDAC_LINK_STATE \<Rightarrow> u64 \<Rightarrow> bool" where
  "NativeLdacLinkStateIsFreshConnected State now =
     (if ls_State State \<noteq> NativeLdacLinkStateConnected \<or> ls_UpdatedInterruptTime100ns State = 0
      then False
      else let age = (if now \<ge> ls_UpdatedInterruptTime100ns State
                      then now - ls_UpdatedInterruptTime100ns State else 0)
           in age < NATIVE_LDAC_LINK_HEARTBEAT_TIMEOUT_100NS)"

definition NativeLdacLinkStateRemainingFreshTime100ns :: "NATIVE_LDAC_LINK_STATE \<Rightarrow> u64 \<Rightarrow> u64" where
  "NativeLdacLinkStateRemainingFreshTime100ns State now =
     (if ls_State State \<noteq> NativeLdacLinkStateConnected \<or> ls_UpdatedInterruptTime100ns State = 0
      then 0
      else let age = (if now \<ge> ls_UpdatedInterruptTime100ns State
                      then now - ls_UpdatedInterruptTime100ns State else 0)
           in if age < NATIVE_LDAC_LINK_HEARTBEAT_TIMEOUT_100NS
              then NATIVE_LDAC_LINK_HEARTBEAT_TIMEOUT_100NS - age else 0)"

definition NativeLdacExpireConnectedLinkState ::
  "NATIVE_LDAC_LINK_STATE \<Rightarrow> u64 \<Rightarrow> NATIVE_LDAC_LINK_STATE \<times> bool" where
  "NativeLdacExpireConnectedLinkState State now =
     (if ls_State State \<noteq> NativeLdacLinkStateConnected \<or>
         NativeLdacLinkStateRemainingFreshTime100ns State now \<noteq> 0
      then (State, False)
      else (State\<lparr>ls_State := NativeLdacLinkStateDisconnected,
                  ls_UpdateSequence := ls_UpdateSequence State + 1,
                  ls_UpdatedInterruptTime100ns := now\<rparr>, True))"

definition NativeLdacPresenceStateIsFreshPresent :: "NATIVE_LDAC_PRESENCE_STATE \<Rightarrow> u64 \<Rightarrow> bool" where
  "NativeLdacPresenceStateIsFreshPresent State now =
     (if ps_State State \<noteq> NativeLdacPresencePresent \<or> ps_PresenceGeneration State = 0 \<or>
         ps_UpdatedInterruptTime100ns State = 0
      then False
      else let age = (if now \<ge> ps_UpdatedInterruptTime100ns State
                      then now - ps_UpdatedInterruptTime100ns State else 0)
           in age < NATIVE_LDAC_PRESENCE_LEASE_TIMEOUT_100NS)"

definition NativeLdacPresenceStateRemainingTime100ns :: "NATIVE_LDAC_PRESENCE_STATE \<Rightarrow> u64 \<Rightarrow> u64" where
  "NativeLdacPresenceStateRemainingTime100ns State now =
     (if ps_State State \<noteq> NativeLdacPresencePresent \<or> ps_PresenceGeneration State = 0 \<or>
         ps_UpdatedInterruptTime100ns State = 0
      then 0
      else let age = (if now \<ge> ps_UpdatedInterruptTime100ns State
                      then now - ps_UpdatedInterruptTime100ns State else 0)
           in if age < NATIVE_LDAC_PRESENCE_LEASE_TIMEOUT_100NS
              then NATIVE_LDAC_PRESENCE_LEASE_TIMEOUT_100NS - age else 0)"

definition NativeLdacExpirePresenceState ::
  "NATIVE_LDAC_PRESENCE_STATE \<Rightarrow> u64 \<Rightarrow> NATIVE_LDAC_PRESENCE_STATE \<times> bool" where
  "NativeLdacExpirePresenceState State now =
     (if ps_State State \<noteq> NativeLdacPresencePresent \<or>
         NativeLdacPresenceStateRemainingTime100ns State now \<noteq> 0
      then (State, False)
      else (State\<lparr>ps_State := NativeLdacPresenceAbsent,
                  ps_UpdateSequence := ps_UpdateSequence State + 1,
                  ps_UpdatedInterruptTime100ns := now\<rparr>, True))"

section \<open>Histories of the PCM lease\<close>

datatype lease_call =
  SetLink u64 u64 u32 u32 u64
| AcquireConsumer u64 u64 u64
| ReleaseConsumer u64 u64
| BeginRead u64 u32 u64
| EndRead u64

fun lease_step ::
  "NATIVE_LDAC_PCM_OWNER \<Rightarrow> lease_call \<Rightarrow> NATIVE_LDAC_PCM_OWNER \<times> NATIVE_LDAC_PCM_OWNER_RESULT" where
  "lease_step owner (SetLink client session requested observed now) =
     NativeLdacPcmOwnerSetLinkState owner client session requested observed now"
| "lease_step owner (AcquireConsumer client generation now) =
     NativeLdacPcmOwnerAcquireConsumer owner client generation now"
| "lease_step owner (ReleaseConsumer client generation) =
     NativeLdacPcmOwnerReleaseConsumer owner client generation"
| "lease_step owner (BeginRead client observed now) =
     NativeLdacPcmOwnerBeginRead owner client observed now"
| "lease_step owner (EndRead client) = NativeLdacPcmOwnerEndRead owner client"

definition lease_ok :: "NATIVE_LDAC_PCM_OWNER \<Rightarrow> bool" where
  "lease_ok owner =
     (if po_OwnerId owner = 0 then owner = NativeLdacPcmOwnerClear
      else po_SessionId owner \<noteq> 0 \<and> po_LastUpdateTime100ns owner \<noteq> 0 \<and>
           (po_Sources owner = 1 \<or> po_Sources owner = 2 \<or> po_Sources owner = 3))"

definition reads_begun :: "NATIVE_LDAC_PCM_OWNER \<Rightarrow> lease_call \<Rightarrow> nat" where
  "reads_begun owner call =
     (case call of BeginRead _ _ _ \<Rightarrow>
        if snd (lease_step owner call) = NativeLdacPcmOwnerAccepted then 1 else 0 | _ \<Rightarrow> 0)"

definition reads_ended :: "NATIVE_LDAC_PCM_OWNER \<Rightarrow> lease_call \<Rightarrow> nat" where
  "reads_ended owner call =
     (case call of EndRead _ \<Rightarrow>
        if snd (lease_step owner call) = NativeLdacPcmOwnerAccepted then 1 else 0 | _ \<Rightarrow> 0)"

lemma cleared [simp]:
  "po_OwnerId NativeLdacPcmOwnerClear = 0" "po_SessionId NativeLdacPcmOwnerClear = 0"
  "po_LastUpdateTime100ns NativeLdacPcmOwnerClear = 0" "po_Sources NativeLdacPcmOwnerClear = 0"
  "\<not> po_ReadActive NativeLdacPcmOwnerClear" "lease_ok NativeLdacPcmOwnerClear"
  by (simp_all add: NativeLdacPcmOwnerClear_def lease_ok_def)

lemma lease_owned:
  "lease_ok owner \<Longrightarrow> po_OwnerId owner \<noteq> 0 \<Longrightarrow>
   po_SessionId owner \<noteq> 0 \<and> po_LastUpdateTime100ns owner \<noteq> 0 \<and>
   (po_Sources owner = 1 \<or> po_Sources owner = 2 \<or> po_Sources owner = 3)"
  by (simp add: lease_ok_def)

lemma lease_free: "lease_ok owner \<Longrightarrow> po_OwnerId owner = 0 \<Longrightarrow> owner = NativeLdacPcmOwnerClear"
  by (simp add: lease_ok_def)

lemma clear_expired_ok:
  assumes "lease_ok owner"
  shows "lease_ok (clear_expired owner now)"
    "po_ReadActive (clear_expired owner now) = po_ReadActive owner"
  using assms by (auto simp: clear_expired_def NativeLdacPcmOwnerIsExpired_def)

lemma drop_source_ok:
  assumes "lease_ok owner" "source = 1 \<or> source = 2" "po_ReadActive owner \<longrightarrow> po_Sources owner \<noteq> source"
    "po_Sources owner AND source \<noteq> 0"
  shows "lease_ok (drop_source source owner)"
    "po_ReadActive (drop_source source owner) = po_ReadActive owner"
proof -
  have "po_OwnerId owner \<noteq> 0"
    using assms(4) lease_free [OF assms(1)] by (cases "po_OwnerId owner = 0") auto
  with lease_owned [OF assms(1)] have owned: "po_SessionId owner \<noteq> 0"
    "po_LastUpdateTime100ns owner \<noteq> 0" "po_OwnerId owner \<noteq> 0"
    "po_Sources owner = 1 \<or> po_Sources owner = 2 \<or> po_Sources owner = 3"
    by blast+
  then show "lease_ok (drop_source source owner)"
    "po_ReadActive (drop_source source owner) = po_ReadActive owner"
    using assms(2-4) by (auto simp: drop_source_def lease_ok_def)
qed

lemma set_link_ok:
  assumes "lease_ok owner"
  shows "lease_ok (fst (NativeLdacPcmOwnerSetLinkState owner c s r ob now))"
    "po_ReadActive (fst (NativeLdacPcmOwnerSetLinkState owner c s r ob now)) = po_ReadActive owner"
proof -
  define owner1 where "owner1 = clear_expired owner now"
  define owner2 where "owner2 = (if ob = 0 \<and> po_Sources owner1 AND 1 \<noteq> 0 \<and> \<not> po_ReadActive owner1
    then drop_source 1 owner1 else owner1)"
  have one: "lease_ok owner1" "po_ReadActive owner1 = po_ReadActive owner"
    using clear_expired_ok [OF assms] by (simp_all add: owner1_def)
  then have two: "lease_ok owner2" "po_ReadActive owner2 = po_ReadActive owner"
    using drop_source_ok [OF one(1), of 1] by (simp_all add: owner2_def)
  have owned: "owner2 = NativeLdacPcmOwnerClear \<or> po_OwnerId owner2 \<noteq> 0 \<and> po_SessionId owner2 \<noteq> 0 \<and>
      po_LastUpdateTime100ns owner2 \<noteq> 0 \<and>
      (po_Sources owner2 = 1 \<or> po_Sources owner2 = 2 \<or> po_Sources owner2 = 3)"
    using lease_owned [OF two(1)] lease_free [OF two(1)] by blast
  show "lease_ok (fst (NativeLdacPcmOwnerSetLinkState owner c s r ob now))"
    "po_ReadActive (fst (NativeLdacPcmOwnerSetLinkState owner c s r ob now)) = po_ReadActive owner"
    using two owned drop_source_ok [OF two(1), of 1] assms
    unfolding NativeLdacPcmOwnerSetLinkState_def Let_def owner1_def [symmetric] owner2_def [symmetric]
    by (auto simp: lease_ok_def [of "_\<lparr>po_LastUpdateTime100ns := _\<rparr>"])
qed

lemma acquire_ok:
  assumes "lease_ok owner"
  shows "lease_ok (fst (NativeLdacPcmOwnerAcquireConsumer owner c g now))"
    "po_ReadActive (fst (NativeLdacPcmOwnerAcquireConsumer owner c g now)) = po_ReadActive owner"
proof -
  define owner1 where "owner1 = clear_expired owner now"
  have one: "lease_ok owner1" "po_ReadActive owner1 = po_ReadActive owner"
    using clear_expired_ok [OF assms] by (simp_all add: owner1_def)
  have owned: "owner1 = NativeLdacPcmOwnerClear \<or> po_OwnerId owner1 \<noteq> 0 \<and> po_SessionId owner1 \<noteq> 0 \<and>
      (po_Sources owner1 = 1 \<or> po_Sources owner1 = 2 \<or> po_Sources owner1 = 3)"
    using lease_owned [OF one(1)] lease_free [OF one(1)] by blast
  show "lease_ok (fst (NativeLdacPcmOwnerAcquireConsumer owner c g now))"
    "po_ReadActive (fst (NativeLdacPcmOwnerAcquireConsumer owner c g now)) = po_ReadActive owner"
    using one owned assms
    unfolding NativeLdacPcmOwnerAcquireConsumer_def Let_def owner1_def [symmetric]
    by (auto simp: lease_ok_def [of "_\<lparr>po_LastUpdateTime100ns := _\<rparr>"])
qed

lemma release_ok:
  assumes "lease_ok owner"
  shows "lease_ok (fst (NativeLdacPcmOwnerReleaseConsumer owner c g))"
    "po_ReadActive (fst (NativeLdacPcmOwnerReleaseConsumer owner c g)) = po_ReadActive owner"
  using assms drop_source_ok [OF assms, of 2] by (auto simp: NativeLdacPcmOwnerReleaseConsumer_def)

lemma begin_read_ok:
  assumes "lease_ok owner"
  shows "lease_ok (fst (NativeLdacPcmOwnerBeginRead owner c ob now))"
    "po_ReadActive (fst (NativeLdacPcmOwnerBeginRead owner c ob now)) =
      (po_ReadActive owner \<or> snd (NativeLdacPcmOwnerBeginRead owner c ob now) = NativeLdacPcmOwnerAccepted)"
    "snd (NativeLdacPcmOwnerBeginRead owner c ob now) = NativeLdacPcmOwnerAccepted \<Longrightarrow> \<not> po_ReadActive owner"
proof -
  define owner1 where "owner1 = clear_expired owner now"
  have one: "lease_ok owner1" "po_ReadActive owner1 = po_ReadActive owner"
    using clear_expired_ok [OF assms] by (simp_all add: owner1_def)
  have touched: "lease_ok (owner1\<lparr>po_ReadActive := True, po_LastUpdateTime100ns := now\<rparr>)"
    if "now \<noteq> 0" "po_OwnerId owner1 \<noteq> 0"
    using lease_owned [OF one(1) that(2)] that by (simp add: lease_ok_def)
  show "lease_ok (fst (NativeLdacPcmOwnerBeginRead owner c ob now))"
    "po_ReadActive (fst (NativeLdacPcmOwnerBeginRead owner c ob now)) =
      (po_ReadActive owner \<or> snd (NativeLdacPcmOwnerBeginRead owner c ob now) = NativeLdacPcmOwnerAccepted)"
    "snd (NativeLdacPcmOwnerBeginRead owner c ob now) = NativeLdacPcmOwnerAccepted \<Longrightarrow> \<not> po_ReadActive owner"
    using one touched assms
    unfolding NativeLdacPcmOwnerBeginRead_def Let_def owner1_def [symmetric]
    by (auto split: if_splits)
qed

lemma end_read_ok:
  assumes "lease_ok owner"
  shows "lease_ok (fst (NativeLdacPcmOwnerEndRead owner c))"
    "po_ReadActive owner = (po_ReadActive (fst (NativeLdacPcmOwnerEndRead owner c)) \<or>
      snd (NativeLdacPcmOwnerEndRead owner c) = NativeLdacPcmOwnerAccepted)"
    "snd (NativeLdacPcmOwnerEndRead owner c) = NativeLdacPcmOwnerAccepted \<Longrightarrow>
      \<not> po_ReadActive (fst (NativeLdacPcmOwnerEndRead owner c))"
  using assms
  by (auto simp: NativeLdacPcmOwnerEndRead_def lease_ok_def NativeLdacPcmOwnerClear_def split: if_splits)

lemma lease_step_ok: "lease_ok owner \<Longrightarrow> lease_ok (fst (lease_step owner call))"
  by (cases call) (simp_all add: set_link_ok acquire_ok release_ok begin_read_ok end_read_ok)

lemma lease_step_balance:
  "lease_ok owner \<Longrightarrow>
   (if po_ReadActive owner then 1 else 0) + reads_begun owner call =
   reads_ended owner call + (if po_ReadActive (fst (lease_step owner call)) then 1 else 0)"
proof (cases call)
  case (BeginRead c ob now)
  assume "lease_ok owner"
  with begin_read_ok(2,3) [of owner c ob now] show ?thesis
    by (auto simp: BeginRead reads_begun_def reads_ended_def)
next
  case (EndRead c)
  assume "lease_ok owner"
  with end_read_ok(2,3) [of owner c] show ?thesis
    by (auto simp: EndRead reads_begun_def reads_ended_def)
qed (simp_all add: reads_begun_def reads_ended_def set_link_ok acquire_ok release_ok)

interpretation read_ledger: resource_ledger "\<lambda>owner call. fst (lease_step owner call)" reads_begun
    reads_ended "\<lambda>owner. if po_ReadActive owner then 1 else 0" lease_ok
  by unfold_locales (simp_all add: lease_step_ok lease_step_balance)

definition run_lease :: "lease_call list \<Rightarrow> NATIVE_LDAC_PCM_OWNER" where
  "run_lease calls =
     foldl (\<lambda>owner call. fst (lease_step owner call)) NativeLdacPcmOwnerInitialize calls"

lemma run_lease_ok: "lease_ok (run_lease calls)"
  unfolding run_lease_def
  by (rule read_ledger.sound_run) (simp add: NativeLdacPcmOwnerInitialize_def)

text \<open>C23: The state of the PCM lease is well formed after every order of calls: without an owner it is
  the cleared state, and an owned lease has a session, a time and at least one of its two sources,
  and no other bit.\<close>

lemma pcm_lease_well_formed:
  "let owner = run_lease calls
   in if po_OwnerId owner = 0 then owner = NativeLdacPcmOwnerClear
      else po_SessionId owner \<noteq> 0 \<and> po_LastUpdateTime100ns owner \<noteq> 0 \<and>
           po_Sources owner \<in> {NATIVE_LDAC_PCM_OWNER_SOURCE_LINK, NATIVE_LDAC_PCM_OWNER_SOURCE_CONSUMER,
             NATIVE_LDAC_PCM_OWNER_SOURCE_LINK OR NATIVE_LDAC_PCM_OWNER_SOURCE_CONSUMER}"
  using run_lease_ok [of calls] lease_owned by (auto simp: Let_def lease_free)

text \<open>Reads are bracketed: over every history the reads that were begun are the reads that were ended
  and the one that is running, so there is never a second reader, and no release, expiry or takeover
  ends a lease under a running read.\<close>

lemma pcm_reads_bracketed:
  "total (\<lambda>owner call. fst (lease_step owner call)) reads_begun NativeLdacPcmOwnerInitialize calls =
   total (\<lambda>owner call. fst (lease_step owner call)) reads_ended NativeLdacPcmOwnerInitialize calls +
   (if po_ReadActive (run_lease calls) then 1 else 0)"
  using read_ledger.run_balance [of NativeLdacPcmOwnerInitialize calls]
  by (simp add: run_lease_def NativeLdacPcmOwnerInitialize_def)

section \<open>Exclusive leases\<close>

text \<open>What a lease owes its holder: the calls of others, made before it expires, are refused and leave
  it with its holder.\<close>

fun results :: "('s \<Rightarrow> 'c \<Rightarrow> 's \<times> 'r) \<Rightarrow> 's \<Rightarrow> 'c list \<Rightarrow> 'r list" where
  "results step s [] = []"
| "results step s (c # cs) = snd (step s c) # results step (fst (step s c)) cs"

locale exclusive_lease =
  fixes step :: "'s \<Rightarrow> 'c \<Rightarrow> 's \<times> 'r"
    and held :: "'s \<Rightarrow> bool"
    and holder :: "'s \<Rightarrow> 'h"
    and foreign :: "'h \<Rightarrow> 'c \<Rightarrow> bool"
    and refused :: "'r \<Rightarrow> bool"
  assumes refuses: "held s \<Longrightarrow> foreign (holder s) c \<Longrightarrow>
    held (fst (step s c)) \<and> holder (fst (step s c)) = holder s \<and> refused (snd (step s c))"
begin

lemma keeps_holder:
  "held s \<Longrightarrow> list_all (foreign (holder s)) cs \<Longrightarrow>
   held (foldl (\<lambda>s c. fst (step s c)) s cs) \<and>
   holder (foldl (\<lambda>s c. fst (step s c)) s cs) = holder s \<and>
   list_all refused (results step s cs)"
proof (induction cs arbitrary: s)
  case (Cons c cs)
  then have "held (fst (step s c))" "holder (fst (step s c)) = holder s" "refused (snd (step s c))"
    using refuses [of s c] by simp_all
  then show ?case
    using Cons.IH [of "fst (step s c)"] Cons.prems(2) by simp
qed simp

end

definition before_timeout :: "u64 \<Rightarrow> u64 \<Rightarrow> u64 \<Rightarrow> bool" where
  "before_timeout timeout updated now \<longleftrightarrow> now < updated \<or> now - updated < timeout"

fun lease_caller :: "lease_call \<Rightarrow> u64" where
  "lease_caller (SetLink client session requested observed now) = client"
| "lease_caller (AcquireConsumer client generation now) = client"
| "lease_caller (ReleaseConsumer client generation) = client"
| "lease_caller (BeginRead client observed now) = client"
| "lease_caller (EndRead client) = client"

fun lease_call_time :: "lease_call \<Rightarrow> u64 option" where
  "lease_call_time (SetLink client session requested observed now) = Some now"
| "lease_call_time (AcquireConsumer client generation now) = Some now"
| "lease_call_time (BeginRead client observed now) = Some now"
| "lease_call_time _ = None"

definition lease_holder :: "NATIVE_LDAC_PCM_OWNER \<Rightarrow> u64 \<times> u64 \<times> u64" where
  "lease_holder owner = (po_OwnerId owner, po_SessionId owner, po_LastUpdateTime100ns owner)"

definition consumer_held :: "NATIVE_LDAC_PCM_OWNER \<Rightarrow> bool" where
  "consumer_held owner \<longleftrightarrow>
     lease_ok owner \<and> po_Sources owner AND NATIVE_LDAC_PCM_OWNER_SOURCE_CONSUMER \<noteq> 0"

definition foreign_call :: "u64 \<times> u64 \<times> u64 \<Rightarrow> lease_call \<Rightarrow> bool" where
  "foreign_call holder call = (case holder of (client, session, updated) \<Rightarrow>
     lease_caller call \<noteq> client \<and>
     (case lease_call_time call of None \<Rightarrow> True
      | Some now \<Rightarrow> before_timeout NATIVE_LDAC_PCM_OWNER_LEASE_TIMEOUT_100NS updated now))"

definition lease_refused :: "NATIVE_LDAC_PCM_OWNER_RESULT \<Rightarrow> bool" where
  "lease_refused result \<longleftrightarrow> result \<noteq> NativeLdacPcmOwnerAccepted \<and> result \<noteq> NativeLdacPcmOwnerReleased"

lemma not_expired:
  "before_timeout 300000000 (po_LastUpdateTime100ns owner) now \<Longrightarrow> clear_expired owner now = owner"
  by (auto simp: before_timeout_def clear_expired_def NativeLdacPcmOwnerIsExpired_def Let_def not_le)

lemma consumer_owned:
  "consumer_held owner \<Longrightarrow> po_OwnerId owner \<noteq> 0 \<and> (po_Sources owner = 2 \<or> po_Sources owner = 3)"
  by (auto simp: consumer_held_def lease_ok_def split: if_splits)

lemma consumer_refuses:
  assumes "consumer_held owner" "foreign_call (lease_holder owner) call"
  shows "lease_holder (fst (lease_step owner call)) = lease_holder owner \<and>
    po_Sources (fst (lease_step owner call)) AND 2 \<noteq> 0 \<and> lease_refused (snd (lease_step owner call))"
proof -
  have owned: "po_OwnerId owner \<noteq> 0" "po_Sources owner = 2 \<or> po_Sources owner = 3"
    and other: "lease_caller call \<noteq> po_OwnerId owner"
    and fresh: "\<And>now. lease_call_time call = Some now \<Longrightarrow> clear_expired owner now = owner"
    using consumer_owned [OF assms(1)] assms(2)
    by (auto simp: foreign_call_def lease_holder_def intro: not_expired)
  show ?thesis
  proof (cases call)
    case (SetLink c s r ob now)
    then have "clear_expired owner now = owner" "po_OwnerId owner \<noteq> c"
      using fresh other by simp_all
    then show ?thesis
      using owned unfolding SetLink
      by (auto simp: lease_holder_def lease_refused_def drop_source_def NativeLdacPcmOwnerSetLinkState_def)
  next
    case (AcquireConsumer c g now)
    then show ?thesis
      using fresh other owned
      by (auto simp: lease_holder_def lease_refused_def NativeLdacPcmOwnerAcquireConsumer_def)
  next
    case (BeginRead c ob now)
    then show ?thesis
      using fresh other owned
      by (auto simp: lease_holder_def lease_refused_def NativeLdacPcmOwnerBeginRead_def)
  qed (use other owned in \<open>auto simp: lease_holder_def lease_refused_def
    NativeLdacPcmOwnerReleaseConsumer_def NativeLdacPcmOwnerEndRead_def\<close>)
qed

interpretation consumer_lease: exclusive_lease lease_step consumer_held lease_holder foreign_call
    lease_refused
proof unfold_locales
  fix owner call
  assume "consumer_held owner" "foreign_call (lease_holder owner) call"
  with consumer_refuses [OF this] show "consumer_held (fst (lease_step owner call)) \<and>
      lease_holder (fst (lease_step owner call)) = lease_holder owner \<and>
      lease_refused (snd (lease_step owner call))"
    by (simp add: consumer_held_def lease_step_ok)
qed



text \<open>A lease is not kept by a client that is gone: from 30 seconds after the holder's last call on,
  and unless its read is still running, the next process that asks for the consumer lease gets
  it.\<close>

lemma expired_lease_granted:
  assumes "\<not> po_ReadActive (run_lease calls)"
    and "po_LastUpdateTime100ns (run_lease calls) \<le> now"
    and "NATIVE_LDAC_PCM_OWNER_LEASE_TIMEOUT_100NS \<le> now - po_LastUpdateTime100ns (run_lease calls)"
    and "client \<noteq> 0" "generation \<noteq> 0"
  shows "NativeLdacPcmOwnerAcquireConsumer (run_lease calls) client generation now =
    (\<lparr>po_OwnerId = client, po_SessionId = generation, po_LastUpdateTime100ns = now,
      po_Sources = NATIVE_LDAC_PCM_OWNER_SOURCE_CONSUMER, po_ReadActive = False\<rparr>,
     NativeLdacPcmOwnerAccepted)"
proof -
  have "now \<noteq> 0"
    using assms(2,3) by (cases "now = 0") simp_all
  moreover have "clear_expired (run_lease calls) now = NativeLdacPcmOwnerClear"
    using assms(1-3) lease_free [OF run_lease_ok, of calls]
    by (auto simp: clear_expired_def NativeLdacPcmOwnerIsExpired_def)
  ultimately show ?thesis
    using assms(4,5) by (simp add: NativeLdacPcmOwnerAcquireConsumer_def NativeLdacPcmOwnerClear_def)
qed

lemma expired_lease_granted_witness:
  "NativeLdacPcmOwnerAcquireConsumer (run_lease [AcquireConsumer 60 600 100]) 61 601 300000100 =
    (\<lparr>po_OwnerId = 61, po_SessionId = 601, po_LastUpdateTime100ns = 300000100,
      po_Sources = 2, po_ReadActive = False\<rparr>, NativeLdacPcmOwnerAccepted)"
  by (rule expired_lease_granted)
    (simp_all add: run_lease_def NativeLdacPcmOwnerInitialize_def clear_expired_def
      NativeLdacPcmOwnerAcquireConsumer_def NativeLdacPcmOwnerIsExpired_def)

section \<open>Histories of the presence lease\<close>

fun presence_step ::
  "NATIVE_LDAC_PRESENCE_OWNER \<Rightarrow> u64 \<times> u64 \<times> u32 \<times> u32 \<times> u64 \<Rightarrow>
   NATIVE_LDAC_PRESENCE_OWNER \<times> NATIVE_LDAC_PRESENCE_OWNER_RESULT" where
  "presence_step owner (client, generation, requested, observed, now) =
     NativeLdacPresenceOwnerSetState owner client generation requested observed now"

definition presence_holder :: "NATIVE_LDAC_PRESENCE_OWNER \<Rightarrow> u64 \<times> u64 \<times> u64" where
  "presence_holder owner = (pr_OwnerId owner, pr_PresenceGeneration owner, pr_LastUpdateTime100ns owner)"

definition foreign_presence :: "u64 \<times> u64 \<times> u64 \<Rightarrow> u64 \<times> u64 \<times> u32 \<times> u32 \<times> u64 \<Rightarrow> bool" where
  "foreign_presence = (\<lambda>(holder, session, updated) (client, generation, requested, observed, now).
     client \<noteq> holder \<and> before_timeout NATIVE_LDAC_PRESENCE_OWNER_LEASE_TIMEOUT_100NS updated now)"

definition presence_refused :: "NATIVE_LDAC_PRESENCE_OWNER_RESULT \<Rightarrow> bool" where
  "presence_refused result \<longleftrightarrow>
     result \<noteq> NativeLdacPresenceOwnerAccepted \<and> result \<noteq> NativeLdacPresenceOwnerReleased"

interpretation presence_lease: exclusive_lease presence_step "\<lambda>owner. pr_OwnerId owner \<noteq> 0"
    presence_holder foreign_presence presence_refused
proof unfold_locales
  fix owner and call :: "u64 \<times> u64 \<times> u32 \<times> u32 \<times> u64"
  assume owned: "pr_OwnerId owner \<noteq> 0" and foreign: "foreign_presence (presence_holder owner) call"
  obtain client generation requested observed now
    where call: "call = (client, generation, requested, observed, now)" by (cases call)
  have "client \<noteq> pr_OwnerId owner" "\<not> NativeLdacPresenceOwnerIsExpired owner now"
    using foreign
    by (auto simp: call foreign_presence_def presence_holder_def before_timeout_def not_le
        NativeLdacPresenceOwnerIsExpired_def Let_def)
  then show "pr_OwnerId (fst (presence_step owner call)) \<noteq> 0 \<and>
      presence_holder (fst (presence_step owner call)) = presence_holder owner \<and>
      presence_refused (snd (presence_step owner call))"
    using owned by (simp add: call NativeLdacPresenceOwnerSetState_def presence_refused_def)
qed

definition run_presence ::
  "(u64 \<times> u64 \<times> u32 \<times> u32 \<times> u64) list \<Rightarrow> NATIVE_LDAC_PRESENCE_OWNER" where
  "run_presence calls =
     foldl (\<lambda>owner call. fst (presence_step owner call)) NativeLdacPresenceOwnerInitialize calls"

text \<open>The presence of the headset is published by one process at a time: while a process holds the
  presence lease, any calls of other processes made less than 15 seconds after its last one are
  refused, and the lease stays with it.\<close>

lemma presence_lease_exclusive:
  assumes "pr_OwnerId (run_presence calls) \<noteq> 0"
    and "list_all (foreign_presence (presence_holder (run_presence calls))) others"
  shows "presence_holder (run_presence (calls @ others)) = presence_holder (run_presence calls) \<and>
    list_all presence_refused (results presence_step (run_presence calls) others)"
  using presence_lease.keeps_holder [OF assms] by (simp add: run_presence_def)

lemma presence_lease_exclusive_witness:
  "presence_holder (run_presence ([(7, 70, 1, 0, 100)] @ [(8, 80, 1, 1, 150000099), (8, 70, 0, 1, 50)])) =
     presence_holder (run_presence [(7, 70, 1, 0, 100)]) \<and>
   list_all presence_refused (results presence_step (run_presence [(7, 70, 1, 0, 100)])
     [(8, 80, 1, 1, 150000099), (8, 70, 0, 1, 50)])"
  by (rule presence_lease_exclusive)
    (simp_all add: run_presence_def NativeLdacPresenceOwnerInitialize_def
      NativeLdacPresenceOwnerClear_def NativeLdacPresenceOwnerSetState_def
      NativeLdacPresenceOwnerIsExpired_def presence_holder_def foreign_presence_def before_timeout_def)

end
