(* ===== verification/Audio_Endpoint.thy ===== *)
theory Audio_Endpoint
  imports Pcm_Ring Audio_Owner
begin

text \<open>
  The property interface of the audio endpoint driver: the adapter's published link and presence with
  their common expiry timer (\<open>audio-endpoint/Source/Main/common.cpp\<close>, \<open>CAdapterCommon\<close>), and the
  handlers of \<open>KSPROPSETID_NativeLdacPcm\<close> (\<open>minwavert.cpp\<close>, \<open>CMiniportWaveRT\<close>), which check a request,
  ask the lease of the theory \<open>Audio_Owner\<close> and act on the ring of the theory \<open>Pcm_Ring\<close>.  Modelled is
  the build without \<open>NATIVE_LDAC_DIRECT_PDO_PROTOTYPE\<close>.

  The WDF timer is the time at which it fires, if it runs; starting it again moves that time, as
  \<open>WdfTimerStart\<close> documents.  The interrupt time of a call is a parameter, one for each query.  The
  allocations of \<open>Init\<close> have succeeded.  A property request is its verb, the size of its value, and
  the process that sent it; the value of a set request is its structure.  The answer to a
  basic-support query is the sample framework's (\<open>Delegated\<close>).
\<close>

datatype ntstatus =
  STATUS_SUCCESS | STATUS_REVISION_MISMATCH | STATUS_INVALID_PARAMETER | STATUS_BUFFER_OVERFLOW
| STATUS_BUFFER_TOO_SMALL | STATUS_INVALID_DEVICE_REQUEST | STATUS_ACCESS_DENIED
| STATUS_SHARING_VIOLATION | STATUS_DEVICE_NOT_READY | STATUS_DATA_ERROR | STATUS_NO_MATCH

section \<open>The adapter\<close>

abbreviation (input) "NATIVE_LDAC_LINK_STATE_ABI_VERSION \<equiv> (1 :: u32)"
abbreviation (input) "NATIVE_LDAC_LINK_STATE_FLAG_NONE \<equiv> (0 :: u32)"
abbreviation (input) "NATIVE_LDAC_PRESENCE_STATE_ABI_VERSION \<equiv> (1 :: u32)"
abbreviation (input) "NATIVE_LDAC_PRESENCE_STATE_FLAG_NONE \<equiv> (0 :: u32)"
abbreviation (input) "sizeof_NATIVE_LDAC_LINK_STATE \<equiv> (40 :: u32)"
abbreviation (input) "sizeof_NATIVE_LDAC_PRESENCE_STATE \<equiv> (40 :: u32)"

record CAdapterCommon =
  m_NativeLdacLinkState :: NATIVE_LDAC_LINK_STATE
  m_NativeLdacPresenceState :: NATIVE_LDAC_PRESENCE_STATE
  m_NativeLdacJackConnected :: bool
  m_NativeLdacJackEventSink :: "nat option"
  m_NativeLdacJackPinId :: u32
  m_NativeLdacLinkTimer :: "nat option"

type_synonym jack_events = "(nat \<times> u32) list"

definition adapter_init :: "u64 \<Rightarrow> u64 \<Rightarrow> CAdapterCommon" where
  "adapter_init now1 now2 =
     \<lparr>m_NativeLdacLinkState =
        \<lparr>ls_Size = sizeof_NATIVE_LDAC_LINK_STATE, ls_AbiVersion = NATIVE_LDAC_LINK_STATE_ABI_VERSION,
         ls_State = NativeLdacLinkStateDisconnected, ls_Flags = NATIVE_LDAC_LINK_STATE_FLAG_NONE,
         ls_SessionId = 0, ls_UpdateSequence = 0, ls_UpdatedInterruptTime100ns = now1\<rparr>,
      m_NativeLdacPresenceState =
        \<lparr>ps_Size = sizeof_NATIVE_LDAC_PRESENCE_STATE,
         ps_AbiVersion = NATIVE_LDAC_PRESENCE_STATE_ABI_VERSION,
         ps_State = NativeLdacPresenceAbsent, ps_Flags = NATIVE_LDAC_PRESENCE_STATE_FLAG_NONE,
         ps_PresenceGeneration = 0, ps_UpdateSequence = 0, ps_UpdatedInterruptTime100ns = now2\<rparr>,
      m_NativeLdacJackConnected = False, m_NativeLdacJackEventSink = None,
      m_NativeLdacJackPinId = - 1, m_NativeLdacLinkTimer = None\<rparr>"

text \<open>Start the timer \<open>ms\<close> milliseconds after \<open>now\<close>.\<close>

definition start_timer :: "u32 \<Rightarrow> u64 \<Rightarrow> CAdapterCommon \<Rightarrow> CAdapterCommon" where
  "start_timer ms now a = a\<lparr>m_NativeLdacLinkTimer := Some (unat now + 10000 * unat ms)\<rparr>"

definition jack_info_change :: "bool \<Rightarrow> CAdapterCommon \<Rightarrow> jack_events" where
  "jack_info_change notify a =
     (case m_NativeLdacJackEventSink a of
        None \<Rightarrow> []
      | Some sink \<Rightarrow> if notify then [(sink, m_NativeLdacJackPinId a)] else [])"

definition NativeLdacSetLinkState ::
  "NATIVE_LDAC_LINK_STATE \<Rightarrow> u64 \<Rightarrow> CAdapterCommon \<Rightarrow> CAdapterCommon \<times> ntstatus" where
  "NativeLdacSetLinkState State now a =
     (if ls_Size State \<noteq> sizeof_NATIVE_LDAC_LINK_STATE \<or>
         ls_AbiVersion State \<noteq> NATIVE_LDAC_LINK_STATE_ABI_VERSION
      then (a, STATUS_REVISION_MISMATCH)
      else if ls_Flags State \<noteq> NATIVE_LDAC_LINK_STATE_FLAG_NONE \<or>
              ls_State State > NativeLdacLinkStateStopping \<or>
              ls_State State \<noteq> NativeLdacLinkStateDisconnected \<and> ls_SessionId State = 0
      then (a, STATUS_INVALID_PARAMETER)
      else
        let link = m_NativeLdacLinkState a
        in (start_timer 5000 now
             (a\<lparr>m_NativeLdacLinkState :=
                link\<lparr>ls_Size := sizeof_NATIVE_LDAC_LINK_STATE,
                     ls_AbiVersion := NATIVE_LDAC_LINK_STATE_ABI_VERSION,
                     ls_State := ls_State State, ls_Flags := NATIVE_LDAC_LINK_STATE_FLAG_NONE,
                     ls_SessionId := ls_SessionId State,
                     ls_UpdateSequence := ls_UpdateSequence link + 1,
                     ls_UpdatedInterruptTime100ns := now\<rparr>\<rparr>),
            STATUS_SUCCESS))"

definition NativeLdacSetPhysicalPresence ::
  "NATIVE_LDAC_PRESENCE_STATE \<Rightarrow> u64 \<Rightarrow> CAdapterCommon \<Rightarrow> CAdapterCommon \<times> ntstatus \<times> jack_events" where
  "NativeLdacSetPhysicalPresence State now a =
     (if ps_Size State \<noteq> sizeof_NATIVE_LDAC_PRESENCE_STATE \<or>
         ps_AbiVersion State \<noteq> NATIVE_LDAC_PRESENCE_STATE_ABI_VERSION
      then (a, STATUS_REVISION_MISMATCH, [])
      else if ps_Flags State \<noteq> NATIVE_LDAC_PRESENCE_STATE_FLAG_NONE \<or>
              ps_State State > NativeLdacPresencePresent \<or> ps_PresenceGeneration State = 0
      then (a, STATUS_INVALID_PARAMETER, [])
      else
        let connected = (ps_State State = NativeLdacPresencePresent);
            presence = m_NativeLdacPresenceState a;
            notify = (connected \<noteq> m_NativeLdacJackConnected a)
        in (start_timer 5000 now
             (a\<lparr>m_NativeLdacPresenceState :=
                presence\<lparr>ps_Size := sizeof_NATIVE_LDAC_PRESENCE_STATE,
                         ps_AbiVersion := NATIVE_LDAC_PRESENCE_STATE_ABI_VERSION,
                         ps_State := ps_State State,
                         ps_Flags := NATIVE_LDAC_PRESENCE_STATE_FLAG_NONE,
                         ps_PresenceGeneration := ps_PresenceGeneration State,
                         ps_UpdateSequence := ps_UpdateSequence presence + 1,
                         ps_UpdatedInterruptTime100ns := now\<rparr>,
                m_NativeLdacJackConnected := connected\<rparr>),
            STATUS_SUCCESS, jack_info_change notify a))"

definition NativeLdacIsJackConnected :: "u64 \<Rightarrow> CAdapterCommon \<Rightarrow> bool" where
  "NativeLdacIsJackConnected now a =
     NativeLdacPresenceStateIsFreshPresent (m_NativeLdacPresenceState a) now"

definition NativeLdacRegisterJackEventSink :: "nat \<Rightarrow> u32 \<Rightarrow> CAdapterCommon \<Rightarrow> CAdapterCommon" where
  "NativeLdacRegisterJackEventSink PortEvents PinId a =
     (if m_NativeLdacJackEventSink a = None \<or> m_NativeLdacJackEventSink a = Some PortEvents
      then a\<lparr>m_NativeLdacJackEventSink := Some PortEvents, m_NativeLdacJackPinId := PinId\<rparr>
      else a)"

definition NativeLdacUnregisterJackEventSink :: "nat \<Rightarrow> CAdapterCommon \<Rightarrow> CAdapterCommon" where
  "NativeLdacUnregisterJackEventSink PortEvents a =
     (if m_NativeLdacJackEventSink a = Some PortEvents
      then a\<lparr>m_NativeLdacJackEventSink := None, m_NativeLdacJackPinId := - 1\<rparr> else a)"

text \<open>The timer's callback.  It has fired, so it no longer runs.\<close>

definition NativeLdacLinkTimerExpired ::
  "u64 \<Rightarrow> CAdapterCommon \<Rightarrow> CAdapterCommon \<times> jack_events" where
  "NativeLdacLinkTimerExpired now a0 =
     (let a = a0\<lparr>m_NativeLdacLinkTimer := None\<rparr>;
          link = m_NativeLdacLinkState a;
          (a1, linkRemaining) =
            (if ls_State link = NativeLdacLinkStateConnected
             then let remaining = NativeLdacLinkStateRemainingFreshTime100ns link now
                  in (if remaining = 0
                      then a\<lparr>m_NativeLdacLinkState := fst (NativeLdacExpireConnectedLinkState link now)\<rparr>
                      else a, remaining)
             else (a, 0));
          presence = m_NativeLdacPresenceState a1;
          (a2, presenceRemaining, events) =
            (if ps_State presence = NativeLdacPresencePresent
             then let remaining = NativeLdacPresenceStateRemainingTime100ns presence now
                  in if remaining = 0
                     then (a1\<lparr>m_NativeLdacPresenceState := fst (NativeLdacExpirePresenceState presence now),
                              m_NativeLdacJackConnected := False\<rparr>,
                           remaining, jack_info_change (m_NativeLdacJackConnected a1) a1)
                     else (a1, remaining, [])
             else (a1, 0, []));
          nextRemaining0 = (if linkRemaining \<noteq> 0 then linkRemaining else 0);
          nextRemaining =
            (if presenceRemaining \<noteq> 0 \<and> (nextRemaining0 = 0 \<or> presenceRemaining < nextRemaining0)
             then presenceRemaining else nextRemaining0)
      in (if nextRemaining \<noteq> 0
          then let delayMs = (ucast ((nextRemaining + 9999) div 10000) :: u32)
               in start_timer (max delayMs 1) now a2
          else a2, events))"

section \<open>The miniport\<close>

abbreviation (input) "KSPROPERTY_TYPE_GET \<equiv> (0x1 :: u32)"
abbreviation (input) "KSPROPERTY_TYPE_SET \<equiv> (0x2 :: u32)"
abbreviation (input) "KSPROPERTY_TYPE_BASICSUPPORT \<equiv> (0x200 :: u32)"
abbreviation (input) "NATIVE_LDAC_PCM_CONSUMER_LEASE_ABI_VERSION \<equiv> (1 :: u32)"
abbreviation (input) "NATIVE_LDAC_PCM_CONSUMER_LEASE_FLAG_NONE \<equiv> (0 :: u32)"
abbreviation (input) "NativeLdacPcmConsumerReleased \<equiv> (0 :: u32)"
abbreviation (input) "NativeLdacPcmConsumerAcquired \<equiv> (1 :: u32)"
abbreviation (input) "NATIVE_LDAC_FORMAT_ABI_VERSION \<equiv> (1 :: u32)"
abbreviation (input) "NATIVE_LDAC_FORMAT_FLAG_NONE \<equiv> (0 :: u32)"

record NATIVE_LDAC_PCM_CONSUMER_LEASE =
  cl_Size :: u32
  cl_AbiVersion :: u32
  cl_State :: u32
  cl_Flags :: u32
  cl_ConsumerGeneration :: u64

record NATIVE_LDAC_PREFERRED_FORMAT =
  pf_Size :: u32
  pf_AbiVersion :: u32
  pf_SampleRate :: u32
  pf_BitsPerSample :: u32
  pf_Flags :: u32
  pf_SupportedSampleRates :: u32
  pf_SupportedBitsPerSample :: u32
  pf_Revision :: u32

text \<open>The formats of the render pin: sample rate, valid bits, container bits and frame size.\<close>

definition SPEAKER_PCM_CONTAINER_BITS :: "u16 \<Rightarrow> u16" where
  "SPEAKER_PCM_CONTAINER_BITS bits = (if bits = 24 then 32 else bits)"

definition SPEAKER_PCM_FORMAT :: "u32 \<Rightarrow> u16 \<Rightarrow> u32 \<times> u16 \<times> u16 \<times> u32" where
  "SPEAKER_PCM_FORMAT rate bits =
     (rate, bits, SPEAKER_PCM_CONTAINER_BITS bits, 2 * (ucast (SPEAKER_PCM_CONTAINER_BITS bits) div 8))"

definition SpeakerHostPinSupportedDeviceFormats :: "(u32 \<times> u16 \<times> u16 \<times> u32) list" where
  "SpeakerHostPinSupportedDeviceFormats =
     [SPEAKER_PCM_FORMAT 48000 16, SPEAKER_PCM_FORMAT 48000 24, SPEAKER_PCM_FORMAT 44100 16,
      SPEAKER_PCM_FORMAT 44100 24, SPEAKER_PCM_FORMAT 88200 16, SPEAKER_PCM_FORMAT 88200 24,
      SPEAKER_PCM_FORMAT 96000 16, SPEAKER_PCM_FORMAT 96000 24]"

record CMiniportWaveRT = pcm_ring +
  m_PcmOwner :: NATIVE_LDAC_PCM_OWNER
  m_PresenceOwner :: NATIVE_LDAC_PRESENCE_OWNER
  m_pAdapterCommon :: CAdapterCommon
  m_PreferredSampleRate :: u32
  m_PreferredBitsPerSample :: u32
  m_PreferredFormatRevision :: u32
  m_DefaultFormat :: nat

record property_request =
  rq_Verb :: u32
  rq_ValueSize :: u32
  rq_Requestor :: "u64 option"

datatype 'v property_answer = Delegated | Answer ntstatus (answer_size: u32) "'v option"

definition refuse :: "property_request \<Rightarrow> ntstatus \<Rightarrow> 'v property_answer" where
  "refuse request status = Answer status (rq_ValueSize request) None"

text \<open>The size checks every handler starts with, for a value of \<open>min_size\<close> bytes.\<close>

definition size_checked ::
  "property_request \<Rightarrow> u32 \<Rightarrow> 's \<Rightarrow> 's \<times> 'v property_answer \<Rightarrow> 's \<times> 'v property_answer" where
  "size_checked request min_size m continuation =
     (if rq_ValueSize request = 0 then (m, Answer STATUS_BUFFER_OVERFLOW min_size None)
      else if rq_ValueSize request < min_size then (m, refuse request STATUS_BUFFER_TOO_SMALL)
      else continuation)"

definition PropertyHandlerPcmInfo ::
  "property_request \<Rightarrow> CMiniportWaveRT \<Rightarrow> CMiniportWaveRT \<times> NATIVE_LDAC_PCM_INFO property_answer" where
  "PropertyHandlerPcmInfo request m =
     (if rq_Verb request AND KSPROPERTY_TYPE_BASICSUPPORT \<noteq> 0 then (m, Delegated)
      else if rq_Verb request AND KSPROPERTY_TYPE_GET = 0
      then (m, refuse request STATUS_INVALID_DEVICE_REQUEST)
      else size_checked request 64 m (m, Answer STATUS_SUCCESS 64 (Some (pcm_info m))))"

definition end_read :: "u64 \<Rightarrow> CMiniportWaveRT \<Rightarrow> CMiniportWaveRT" where
  "end_read clientId m = m\<lparr>m_PcmOwner := fst (NativeLdacPcmOwnerEndRead (m_PcmOwner m) clientId)\<rparr>"

text \<open>The part of the read handler behind its checks, for the process it found.\<close>

definition leased_read ::
  "property_request \<Rightarrow> u64 \<Rightarrow> u64 \<Rightarrow> CMiniportWaveRT \<Rightarrow>
   CMiniportWaveRT \<times> (NATIVE_LDAC_PCM_READ_HEADER \<times> bytes) property_answer" where
  "leased_read request clientId now m =
     (let (owner, ownerResult) =
            NativeLdacPcmOwnerBeginRead (m_PcmOwner m) clientId
              (ls_State (m_NativeLdacLinkState (m_pAdapterCommon m))) now;
          m1 = m\<lparr>m_PcmOwner := owner\<rparr>
      in if ownerResult = NativeLdacPcmOwnerNotReady
         then (m1, refuse request STATUS_DEVICE_NOT_READY)
         else if ownerResult \<noteq> NativeLdacPcmOwnerAccepted
         then (m1, refuse request STATUS_SHARING_VIOLATION)
         else
           (case pcm_read (rq_ValueSize request - 72) m1 of
              (m2, None) \<Rightarrow> (end_read clientId m2, refuse request STATUS_DATA_ERROR)
            | (m2, Some (header, bytes)) \<Rightarrow>
                (end_read clientId m2,
                 Answer STATUS_SUCCESS (72 + rh_BytesReturned header) (Some (header, bytes)))))"

definition PropertyHandlerPcmRead ::
  "property_request \<Rightarrow> u64 \<Rightarrow> CMiniportWaveRT \<Rightarrow>
   CMiniportWaveRT \<times> (NATIVE_LDAC_PCM_READ_HEADER \<times> bytes) property_answer" where
  "PropertyHandlerPcmRead request now m =
     (if rq_Verb request AND KSPROPERTY_TYPE_BASICSUPPORT \<noteq> 0 then (m, Delegated)
      else if rq_Verb request AND KSPROPERTY_TYPE_GET = 0
      then (m, refuse request STATUS_INVALID_DEVICE_REQUEST)
      else size_checked request 72 m
        (case rq_Requestor request of
           None \<Rightarrow> (m, refuse request STATUS_ACCESS_DENIED)
         | Some clientId \<Rightarrow>
             if clientId = 0 then (m, refuse request STATUS_ACCESS_DENIED)
             else leased_read request clientId now m))"

text \<open>A get request has no value of its own; a set request carries the structure it sets.\<close>

definition PropertyHandlerLinkState ::
  "property_request \<Rightarrow> NATIVE_LDAC_LINK_STATE \<Rightarrow> u64 \<Rightarrow> u64 \<Rightarrow> CMiniportWaveRT \<Rightarrow>
   CMiniportWaveRT \<times> NATIVE_LDAC_LINK_STATE property_answer" where
  "PropertyHandlerLinkState request requested now1 now2 m =
     (if rq_Verb request AND KSPROPERTY_TYPE_BASICSUPPORT \<noteq> 0 then (m, Delegated)
      else size_checked request sizeof_NATIVE_LDAC_LINK_STATE m
        (if rq_Verb request AND KSPROPERTY_TYPE_GET \<noteq> 0
         then (m, Answer STATUS_SUCCESS sizeof_NATIVE_LDAC_LINK_STATE
                    (Some (m_NativeLdacLinkState (m_pAdapterCommon m))))
         else if rq_Verb request AND KSPROPERTY_TYPE_SET \<noteq> 0
         then
           if ls_Size requested \<noteq> sizeof_NATIVE_LDAC_LINK_STATE \<or>
              ls_AbiVersion requested \<noteq> NATIVE_LDAC_LINK_STATE_ABI_VERSION
           then (m, refuse request STATUS_REVISION_MISMATCH)
           else if ls_Flags requested \<noteq> NATIVE_LDAC_LINK_STATE_FLAG_NONE \<or>
                   ls_State requested > NativeLdacLinkStateStopping
           then (m, refuse request STATUS_INVALID_PARAMETER)
           else if ls_State requested \<noteq> NativeLdacLinkStateDisconnected \<and> ls_SessionId requested = 0
           then (m, refuse request STATUS_INVALID_PARAMETER)
           else case rq_Requestor request of
                  None \<Rightarrow> (m, refuse request STATUS_ACCESS_DENIED)
                | Some clientId \<Rightarrow>
                    if clientId = 0 then (m, refuse request STATUS_ACCESS_DENIED)
                    else
                      let (owner, ownerResult) =
                            NativeLdacPcmOwnerSetLinkState (m_PcmOwner m) clientId
                              (ls_SessionId requested) (ls_State requested)
                              (ls_State (m_NativeLdacLinkState (m_pAdapterCommon m))) now1;
                          m1 = m\<lparr>m_PcmOwner := owner\<rparr>
                      in if ownerResult = NativeLdacPcmOwnerBusy
                         then (m1, refuse request STATUS_SHARING_VIOLATION)
                         else if ownerResult \<noteq> NativeLdacPcmOwnerAccepted \<and>
                                 ownerResult \<noteq> NativeLdacPcmOwnerReleased
                         then (m1, refuse request STATUS_ACCESS_DENIED)
                         else
                           let (adapter, status) =
                                 NativeLdacSetLinkState requested now2 (m_pAdapterCommon m1)
                           in (m1\<lparr>m_pAdapterCommon := adapter\<rparr>, refuse request status)
         else (m, refuse request STATUS_INVALID_DEVICE_REQUEST)))"

definition PropertyHandlerPhysicalPresence ::
  "property_request \<Rightarrow> NATIVE_LDAC_PRESENCE_STATE \<Rightarrow> u64 \<Rightarrow> u64 \<Rightarrow> CMiniportWaveRT \<Rightarrow>
   CMiniportWaveRT \<times> NATIVE_LDAC_PRESENCE_STATE property_answer \<times> jack_events" where
  "PropertyHandlerPhysicalPresence request requested now1 now2 m =
     (if rq_Verb request AND KSPROPERTY_TYPE_BASICSUPPORT \<noteq> 0 then (m, Delegated, [])
      else if rq_ValueSize request = 0
      then (m, Answer STATUS_BUFFER_OVERFLOW sizeof_NATIVE_LDAC_PRESENCE_STATE None, [])
      else if rq_ValueSize request < sizeof_NATIVE_LDAC_PRESENCE_STATE
      then (m, refuse request STATUS_BUFFER_TOO_SMALL, [])
      else if rq_Verb request AND KSPROPERTY_TYPE_GET \<noteq> 0
      then (m, Answer STATUS_SUCCESS sizeof_NATIVE_LDAC_PRESENCE_STATE
                 (Some (m_NativeLdacPresenceState (m_pAdapterCommon m))), [])
      else if rq_Verb request AND KSPROPERTY_TYPE_SET \<noteq> 0
      then
        if ps_Size requested \<noteq> sizeof_NATIVE_LDAC_PRESENCE_STATE \<or>
           ps_AbiVersion requested \<noteq> NATIVE_LDAC_PRESENCE_STATE_ABI_VERSION
        then (m, refuse request STATUS_REVISION_MISMATCH, [])
        else if ps_Flags requested \<noteq> NATIVE_LDAC_PRESENCE_STATE_FLAG_NONE \<or>
                ps_State requested > NativeLdacPresencePresent \<or>
                ps_PresenceGeneration requested = 0
        then (m, refuse request STATUS_INVALID_PARAMETER, [])
        else case rq_Requestor request of
               None \<Rightarrow> (m, refuse request STATUS_ACCESS_DENIED, [])
             | Some clientId \<Rightarrow>
                 if clientId = 0 then (m, refuse request STATUS_ACCESS_DENIED, [])
                 else
                   let (owner, ownerResult) =
                         NativeLdacPresenceOwnerSetState (m_PresenceOwner m) clientId
                           (ps_PresenceGeneration requested) (ps_State requested)
                           (ps_State (m_NativeLdacPresenceState (m_pAdapterCommon m))) now1;
                       m1 = m\<lparr>m_PresenceOwner := owner\<rparr>
                   in if ownerResult = NativeLdacPresenceOwnerBusy
                      then (m1, refuse request STATUS_SHARING_VIOLATION, [])
                      else if ownerResult \<noteq> NativeLdacPresenceOwnerAccepted \<and>
                              ownerResult \<noteq> NativeLdacPresenceOwnerReleased
                      then (m1, refuse request STATUS_ACCESS_DENIED, [])
                      else
                        let (adapter, status, events) =
                              NativeLdacSetPhysicalPresence requested now2 (m_pAdapterCommon m1)
                        in (m1\<lparr>m_pAdapterCommon := adapter\<rparr>, refuse request status, events)
      else (m, refuse request STATUS_INVALID_DEVICE_REQUEST, []))"

definition PropertyHandlerPcmConsumerLease ::
  "property_request \<Rightarrow> NATIVE_LDAC_PCM_CONSUMER_LEASE \<Rightarrow> u64 \<Rightarrow> CMiniportWaveRT \<Rightarrow>
   CMiniportWaveRT \<times> NATIVE_LDAC_PCM_CONSUMER_LEASE property_answer" where
  "PropertyHandlerPcmConsumerLease request requested now m =
     (if rq_Verb request AND KSPROPERTY_TYPE_BASICSUPPORT \<noteq> 0 then (m, Delegated)
      else size_checked request 24 m
        (if rq_Verb request AND KSPROPERTY_TYPE_GET \<noteq> 0
         then
           let acquired = (po_Sources (m_PcmOwner m) AND NATIVE_LDAC_PCM_OWNER_SOURCE_CONSUMER \<noteq> 0)
           in (m, Answer STATUS_SUCCESS 24 (Some
                \<lparr>cl_Size = 24, cl_AbiVersion = NATIVE_LDAC_PCM_CONSUMER_LEASE_ABI_VERSION,
                 cl_State = (if acquired then NativeLdacPcmConsumerAcquired
                             else NativeLdacPcmConsumerReleased),
                 cl_Flags = NATIVE_LDAC_PCM_CONSUMER_LEASE_FLAG_NONE,
                 cl_ConsumerGeneration = (if acquired then po_SessionId (m_PcmOwner m) else 0)\<rparr>))
         else if rq_Verb request AND KSPROPERTY_TYPE_SET = 0
         then (m, refuse request STATUS_INVALID_DEVICE_REQUEST)
         else if cl_Size requested \<noteq> 24 \<or>
                 cl_AbiVersion requested \<noteq> NATIVE_LDAC_PCM_CONSUMER_LEASE_ABI_VERSION
         then (m, refuse request STATUS_REVISION_MISMATCH)
         else if cl_Flags requested \<noteq> NATIVE_LDAC_PCM_CONSUMER_LEASE_FLAG_NONE \<or>
                 cl_State requested > NativeLdacPcmConsumerAcquired \<or>
                 cl_ConsumerGeneration requested = 0
         then (m, refuse request STATUS_INVALID_PARAMETER)
         else case rq_Requestor request of
                None \<Rightarrow> (m, refuse request STATUS_ACCESS_DENIED)
              | Some clientId \<Rightarrow>
                  if clientId = 0 then (m, refuse request STATUS_ACCESS_DENIED)
                  else
                    let (owner, ownerResult) =
                          (if cl_State requested = NativeLdacPcmConsumerAcquired
                           then NativeLdacPcmOwnerAcquireConsumer (m_PcmOwner m) clientId
                                  (cl_ConsumerGeneration requested) now
                           else NativeLdacPcmOwnerReleaseConsumer (m_PcmOwner m) clientId
                                  (cl_ConsumerGeneration requested));
                        m1 = m\<lparr>m_PcmOwner := owner\<rparr>
                    in if ownerResult = NativeLdacPcmOwnerBusy
                       then (m1, refuse request STATUS_SHARING_VIOLATION)
                       else if ownerResult \<noteq> NativeLdacPcmOwnerAccepted \<and>
                               ownerResult \<noteq> NativeLdacPcmOwnerReleased
                       then (m1, refuse request STATUS_ACCESS_DENIED)
                       else (m1, Answer STATUS_SUCCESS 0 None)))"

text \<open>The search of the format table, and the preferred format; the flag tells whether a format-change
  event is generated.\<close>

fun find_format ::
  "(u32 \<times> u16 \<times> u16 \<times> u32) list \<Rightarrow> nat \<Rightarrow> u32 \<Rightarrow> u32 \<Rightarrow> nat option" where
  "find_format [] index rate bits = None"
| "find_format ((r, b, container, align) # formats) index rate bits =
     (if r = rate \<and> ucast b = bits then Some index else find_format formats (Suc index) rate bits)"

definition preferred_format :: "CMiniportWaveRT \<Rightarrow> NATIVE_LDAC_PREFERRED_FORMAT" where
  "preferred_format m =
     \<lparr>pf_Size = 32, pf_AbiVersion = NATIVE_LDAC_FORMAT_ABI_VERSION,
      pf_SampleRate = m_PreferredSampleRate m, pf_BitsPerSample = m_PreferredBitsPerSample m,
      pf_Flags = NATIVE_LDAC_FORMAT_FLAG_NONE, pf_SupportedSampleRates = 0x1 OR 0x2 OR 0x4 OR 0x8,
      pf_SupportedBitsPerSample = 0x1 OR 0x2, pf_Revision = m_PreferredFormatRevision m\<rparr>"

definition PropertyHandlerPreferredFormat ::
  "property_request \<Rightarrow> NATIVE_LDAC_PREFERRED_FORMAT \<Rightarrow> CMiniportWaveRT \<Rightarrow>
   CMiniportWaveRT \<times> NATIVE_LDAC_PREFERRED_FORMAT property_answer \<times> bool" where
  "PropertyHandlerPreferredFormat request requested m =
     (if rq_Verb request AND KSPROPERTY_TYPE_BASICSUPPORT \<noteq> 0 then (m, Delegated, False)
      else if rq_ValueSize request = 0 then (m, Answer STATUS_BUFFER_OVERFLOW 32 None, False)
      else if rq_ValueSize request < 32 then (m, refuse request STATUS_BUFFER_TOO_SMALL, False)
      else if rq_Verb request AND KSPROPERTY_TYPE_SET \<noteq> 0
      then
        if pf_Size requested \<noteq> 32 \<or> pf_AbiVersion requested \<noteq> NATIVE_LDAC_FORMAT_ABI_VERSION
        then (m, refuse request STATUS_REVISION_MISMATCH, False)
        else if pf_Flags requested \<noteq> NATIVE_LDAC_FORMAT_FLAG_NONE \<or>
                (pf_SampleRate requested \<noteq> 44100 \<and> pf_SampleRate requested \<noteq> 48000 \<and>
                 pf_SampleRate requested \<noteq> 88200 \<and> pf_SampleRate requested \<noteq> 96000) \<or>
                (pf_BitsPerSample requested \<noteq> 16 \<and> pf_BitsPerSample requested \<noteq> 24)
        then (m, refuse request STATUS_INVALID_PARAMETER, False)
        else case find_format SpeakerHostPinSupportedDeviceFormats 0 (pf_SampleRate requested)
                    (pf_BitsPerSample requested) of
               None \<Rightarrow> (m, refuse request STATUS_NO_MATCH, False)
             | Some selectedIndex \<Rightarrow>
                 let changed = (m_PreferredSampleRate m \<noteq> pf_SampleRate requested \<or>
                       m_PreferredBitsPerSample m \<noteq> pf_BitsPerSample requested);
                     m' = (if changed
                           then m\<lparr>m_PreferredSampleRate := pf_SampleRate requested,
                                  m_PreferredBitsPerSample := pf_BitsPerSample requested,
                                  m_PreferredFormatRevision := m_PreferredFormatRevision m + 1,
                                  m_DefaultFormat := selectedIndex\<rparr>
                           else m)
                 in (m', Answer STATUS_SUCCESS 32 (Some (preferred_format m')), changed)
      else if rq_Verb request AND KSPROPERTY_TYPE_GET = 0
      then (m, refuse request STATUS_INVALID_DEVICE_REQUEST, False)
      else (m, Answer STATUS_SUCCESS 32 (Some (preferred_format m)), False))"

section \<open>Reads\<close>

definition answered :: "'v property_answer \<Rightarrow> bool" where
  "answered answer = (case answer of Delegated \<Rightarrow> False | Answer status size0 v \<Rightarrow> status = STATUS_SUCCESS)"

lemma refuse_status [simp]: "answered (refuse request status) = (status = STATUS_SUCCESS)"
  by (simp add: answered_def refuse_def)

lemma answered_Answer [simp]: "answered (Answer status n v) = (status = STATUS_SUCCESS)"
  by (simp add: answered_def)

lemma begin_read_accepted:
  assumes "NativeLdacPcmOwnerBeginRead owner client observed now = (owner', NativeLdacPcmOwnerAccepted)"
  shows "po_OwnerId owner = client" "client \<noteq> 0" "\<not> NativeLdacPcmOwnerIsExpired owner now"
    "\<not> po_ReadActive owner" "po_Sources owner AND 2 \<noteq> 0 \<or> observed = 2"
    "owner' = owner\<lparr>po_ReadActive := True, po_LastUpdateTime100ns := now\<rparr>"
  using assms
  by (auto simp: NativeLdacPcmOwnerBeginRead_def Let_def clear_expired_def split: if_splits)

lemma end_of_own_read:
  "po_OwnerId owner = client \<Longrightarrow> client \<noteq> 0 \<Longrightarrow>
   fst (NativeLdacPcmOwnerEndRead (owner\<lparr>po_ReadActive := True, po_LastUpdateTime100ns := now\<rparr>) client) =
   owner\<lparr>po_ReadActive := False, po_LastUpdateTime100ns := now\<rparr>"
  by (simp add: NativeLdacPcmOwnerEndRead_def)

lemma pcm_read_frame:
  "m_PcmOwner (fst (pcm_read n m)) = m_PcmOwner m"
  "pcm_read n (m\<lparr>m_PcmOwner := owner\<rparr>) =
     (let (m', result) = pcm_read n m in (m'\<lparr>m_PcmOwner := owner\<rparr>, result))" for m :: CMiniportWaveRT
  by (simp_all add: pcm_read_def Let_def pcm_info_def)

lemma pcm_read_none: "snd (pcm_read n m) = None \<Longrightarrow> fst (pcm_read n m) = m"
  by (auto simp: pcm_read_def Let_def split: if_splits)

lemma leased_read_reads:
  "let (m', answer) = leased_read request client now m;
       owner = m_PcmOwner m
   in if answered answer
      then client = po_OwnerId owner \<and> po_OwnerId owner \<noteq> 0 \<and>
           \<not> NativeLdacPcmOwnerIsExpired owner now \<and> \<not> po_ReadActive owner \<and>
           (po_Sources owner AND 2 \<noteq> 0 \<or> ls_State (m_NativeLdacLinkState (m_pAdapterCommon m)) = 2) \<and>
           (\<exists>header bytes. snd (pcm_read (rq_ValueSize request - 72) m) = Some (header, bytes) \<and>
              answer = Answer STATUS_SUCCESS (72 + rh_BytesReturned header) (Some (header, bytes))) \<and>
           m_PcmOwner m' = owner\<lparr>po_ReadActive := False, po_LastUpdateTime100ns := now\<rparr>
      else pcm_ring.truncate m' = pcm_ring.truncate m"
proof -
  let ?n = "rq_ValueSize request - 72"
  obtain owner result where begun: "NativeLdacPcmOwnerBeginRead (m_PcmOwner m) client
      (ls_State (m_NativeLdacLinkState (m_pAdapterCommon m))) now = (owner, result)"
    by (cases "NativeLdacPcmOwnerBeginRead (m_PcmOwner m) client
      (ls_State (m_NativeLdacLinkState (m_pAdapterCommon m))) now")
  obtain m2 answer where read: "pcm_read ?n m = (m2, answer)"
    by (cases "pcm_read ?n m")
  show ?thesis
  proof (cases "result = NativeLdacPcmOwnerAccepted")
    case False
    then show ?thesis
      by (simp add: leased_read_def begun Let_def pcm_ring.truncate_def)
  next
    case True
    note held = begin_read_accepted [OF begun [unfolded True]]
    have frame: "m_PcmOwner m2 = m_PcmOwner m"
      using pcm_read_frame(1) [of ?n m] by (simp add: read)
    show ?thesis
    proof (cases answer)
      case None
      then have "m2 = m"
        using pcm_read_none [of ?n m] by (simp add: read)
      then show ?thesis
        using True None
        by (simp add: leased_read_def begun Let_def pcm_read_frame(2) read end_read_def pcm_ring.truncate_def)
    next
      case (Some value0)
      obtain header bytes where "value0 = (header, bytes)" by (cases value0)
      then show ?thesis
        using True Some held end_of_own_read [OF held(1,2)]
        by (simp add: leased_read_def begun Let_def pcm_read_frame(2) read end_read_def)
    qed
  qed
qed

lemma read_handler_checks:
  "PropertyHandlerPcmRead request now m = leased_read request client now m \<and>
     rq_Requestor request = Some client \<or>
   \<not> answered (snd (PropertyHandlerPcmRead request now m)) \<and> fst (PropertyHandlerPcmRead request now m) = m"
  if "rq_Requestor request = Some client"
  using that
  by (auto simp: PropertyHandlerPcmRead_def size_checked_def answered_def refuse_def)

lemma read_handler_anonymous:
  "rq_Requestor request = None \<Longrightarrow> \<not> answered (snd (PropertyHandlerPcmRead request now m)) \<and>
     fst (PropertyHandlerPcmRead request now m) = m"
  by (auto simp: PropertyHandlerPcmRead_def size_checked_def answered_def refuse_def)

text \<open>C21: PCM is read by the holder of the lease only: a read request that succeeds comes from the process
  that holds an unexpired lease with no read running, for a consumer or over a connected link; it
  gets what the ring gives for its room, and it leaves the lease as it was but for the time and
  without a running read.  Any other answer leaves the ring alone.\<close>

lemma reads_only_for_the_holder:
  "let (m', answer) = PropertyHandlerPcmRead request now m;
       owner = m_PcmOwner m
   in if answered answer
      then rq_Requestor request = Some (po_OwnerId owner) \<and> po_OwnerId owner \<noteq> 0 \<and>
           \<not> NativeLdacPcmOwnerIsExpired owner now \<and> \<not> po_ReadActive owner \<and>
           (if po_Sources owner AND NATIVE_LDAC_PCM_OWNER_SOURCE_CONSUMER = 0
            then ls_State (m_NativeLdacLinkState (m_pAdapterCommon m)) = NativeLdacLinkStateConnected
            else True) \<and>
           (\<exists>header bytes. snd (pcm_read (rq_ValueSize request - 72) m) = Some (header, bytes) \<and>
              answer = Answer STATUS_SUCCESS (72 + rh_BytesReturned header) (Some (header, bytes))) \<and>
           m_PcmOwner m' = owner\<lparr>po_ReadActive := False, po_LastUpdateTime100ns := now\<rparr>
      else pcm_ring.truncate m' = pcm_ring.truncate m"
proof (cases "rq_Requestor request")
  case None
  then show ?thesis
    using read_handler_anonymous [OF None] by (simp add: case_prod_beta)
next
  case (Some client)
  then show ?thesis
    using read_handler_checks [OF Some, of now m] leased_read_reads [of request client now m]
    by (auto simp: case_prod_beta Let_def split: if_splits)
qed

section \<open>Formats\<close>

lemma format_frames:
  "(rate, bits, container, align) \<in> set SpeakerHostPinSupportedDeviceFormats \<Longrightarrow> unat align dvd 48000"
  by (auto simp: SpeakerHostPinSupportedDeviceFormats_def SPEAKER_PCM_FORMAT_def
      SPEAKER_PCM_CONTAINER_BITS_def)

text \<open>Whatever format of the pin Windows plays, the reader gets whole frames: in a stream of any
  format of the table, every read returns a whole number of frames of that format, whatever was
  pushed, dropped by an overrun, or read before.\<close>

lemma formats_read_whole_frames:
  assumes "(rate, bits, container, align) \<in> set SpeakerHostPinSupportedDeviceFormats"
    and "list_all (\<lambda>call. \<not> starts_stream call) calls"
  shows "list_all (whole align) (answers ring_step calls
    (BeginPcmStream rate 2 bits align (run_ring earlier pcm_ring_init)))"
  using reads_whole_frames [OF format_frames [OF assms(1)] assms(2)] .

lemma formats_read_whole_frames_witness:
  "list_all (whole 8) (answers ring_step [Push [1, 2, 3, 4, 5, 6, 7, 8, 9], Read 9, EndStream, Read 4096]
    (BeginPcmStream 96000 2 24 8 (run_ring [EndStream] pcm_ring_init)))"
  by (rule formats_read_whole_frames [where container = 32])
    (simp_all add: starts_stream_def SpeakerHostPinSupportedDeviceFormats_def SPEAKER_PCM_FORMAT_def
      SPEAKER_PCM_CONTAINER_BITS_def)

text \<open>The preferred format is the default format of the pin.\<close>

definition miniport_init :: "u64 \<Rightarrow> u64 \<Rightarrow> CMiniportWaveRT" where
  "miniport_init now1 now2 =
     pcm_ring.extend pcm_ring_init
       (CMiniportWaveRT.fields NativeLdacPcmOwnerInitialize NativeLdacPresenceOwnerInitialize
          (adapter_init now1 now2) 48000 16 0 0)"

definition default_is_preferred :: "CMiniportWaveRT \<Rightarrow> bool" where
  "default_is_preferred m \<longleftrightarrow>
     m_DefaultFormat m < length SpeakerHostPinSupportedDeviceFormats \<and>
     (case SpeakerHostPinSupportedDeviceFormats ! m_DefaultFormat m of
        (rate, bits, container, align) \<Rightarrow>
          rate = m_PreferredSampleRate m \<and> ucast bits = m_PreferredBitsPerSample m)"

lemma find_format_found:
  "find_format formats n rate bits = Some i \<Longrightarrow>
   n \<le> i \<and> i < n + length formats \<and>
   (case formats ! (i - n) of (r, b, container, align) \<Rightarrow> r = rate \<and> ucast b = bits)"
proof (induction formats n rate bits rule: find_format.induct)
  case (2 r b container align formats n rate bits)
  then show ?case
    by (cases "r = rate \<and> ucast b = bits") (auto simp: nth_Cons' Suc_diff_Suc split: if_splits)
qed simp

lemma preferred_format_step:
  "default_is_preferred m \<Longrightarrow>
   default_is_preferred (fst (PropertyHandlerPreferredFormat request requested m))"
  by (auto simp: PropertyHandlerPreferredFormat_def Let_def default_is_preferred_def
      split: option.splits dest!: find_format_found)

text \<open>The format the pin offers by default is always the preferred one: after any requests on the
  preferred format, valid or not, the default format of the table has exactly the rate and the bits
  that the property reports, and the property reports a format the driver supports.\<close>

lemma default_format_is_preferred:
  "let m = fold (\<lambda>(request, requested) m. fst (PropertyHandlerPreferredFormat request requested m))
             requests (miniport_init now1 now2)
   in m_DefaultFormat m < length SpeakerHostPinSupportedDeviceFormats \<and>
      (case SpeakerHostPinSupportedDeviceFormats ! m_DefaultFormat m of
         (rate, bits, container, align) \<Rightarrow>
           rate = pf_SampleRate (preferred_format m) \<and> ucast bits = pf_BitsPerSample (preferred_format m))"
proof -
  have "default_is_preferred (fold (\<lambda>(request, requested) m.
      fst (PropertyHandlerPreferredFormat request requested m)) requests m)"
    if "default_is_preferred m" for m
    using that by (induction requests arbitrary: m) (auto simp: preferred_format_step)
  moreover have "default_is_preferred (miniport_init now1 now2)"
    by (simp add: default_is_preferred_def miniport_init_def pcm_ring.extend_def
        CMiniportWaveRT.fields_def SpeakerHostPinSupportedDeviceFormats_def SPEAKER_PCM_FORMAT_def)
  ultimately show ?thesis
    by (simp add: default_is_preferred_def preferred_format_def Let_def)
qed

section \<open>The expiry of the link\<close>

text \<open>Time passes: the timer fires if it is due before the next request.\<close>

definition fire_if_due :: "u64 \<Rightarrow> CAdapterCommon \<Rightarrow> CAdapterCommon" where
  "fire_if_due now a =
     (case m_NativeLdacLinkTimer a of
        None \<Rightarrow> a
      | Some due \<Rightarrow> if due \<le> unat now then fst (NativeLdacLinkTimerExpired now a) else a)"

definition valid_link :: "NATIVE_LDAC_LINK_STATE \<Rightarrow> bool" where
  "valid_link State \<longleftrightarrow> ls_Size State = 40 \<and> ls_AbiVersion State = 1 \<and> ls_Flags State = 0 \<and>
     \<not> ls_State State > 3 \<and> ls_SessionId State \<noteq> 0"

definition valid_presence :: "NATIVE_LDAC_PRESENCE_STATE \<Rightarrow> bool" where
  "valid_presence State \<longleftrightarrow> ps_Size State = 40 \<and> ps_AbiVersion State = 1 \<and> ps_Flags State = 0 \<and>
     \<not> ps_State State > 1 \<and> ps_PresenceGeneration State \<noteq> 0"

lemma link_expires_at:
  assumes "ls_State (m_NativeLdacLinkState a) = 2"
    "ls_UpdatedInterruptTime100ns (m_NativeLdacLinkState a) \<le> now"
    "50000000 \<le> now - ls_UpdatedInterruptTime100ns (m_NativeLdacLinkState a)"
  shows "m_NativeLdacLinkState (fst (NativeLdacLinkTimerExpired now a)) =
    (m_NativeLdacLinkState a)\<lparr>ls_State := 0,
       ls_UpdateSequence := ls_UpdateSequence (m_NativeLdacLinkState a) + 1,
       ls_UpdatedInterruptTime100ns := now\<rparr>"
  using assms
  by (auto simp: NativeLdacLinkTimerExpired_def Let_def start_timer_def
      NativeLdacLinkStateRemainingFreshTime100ns_def NativeLdacExpireConnectedLinkState_def not_less)

lemma timer_of_link:
  "valid_link State \<Longrightarrow> m_NativeLdacLinkTimer (fst (NativeLdacSetLinkState State now a)) =
     Some (unat now + 50000000) \<and>
   ls_State (m_NativeLdacLinkState (fst (NativeLdacSetLinkState State now a))) = ls_State State \<and>
   ls_UpdatedInterruptTime100ns (m_NativeLdacLinkState (fst (NativeLdacSetLinkState State now a))) = now"
  by (auto simp: NativeLdacSetLinkState_def valid_link_def start_timer_def Let_def)

lemma timer_of_presence:
  "valid_presence State \<Longrightarrow> m_NativeLdacLinkTimer (fst (NativeLdacSetPhysicalPresence State now a)) =
     Some (unat now + 50000000) \<and>
   m_NativeLdacLinkState (fst (NativeLdacSetPhysicalPresence State now a)) = m_NativeLdacLinkState a"
  by (auto simp: NativeLdacSetPhysicalPresence_def valid_presence_def start_timer_def Let_def)

text \<open>A client that stops reporting is disconnected: when a connected link was published and nothing
  is requested any more, the timer runs out 5 seconds later and the link is disconnected then, with
  a new update sequence number.\<close>

lemma silent_link_disconnected:
  assumes "valid_link State" "ls_State State = NativeLdacLinkStateConnected"
    "unat published + 50000000 \<le> unat now"
  shows "let a' = fire_if_due now (fst (NativeLdacSetLinkState State published a))
    in ls_State (m_NativeLdacLinkState a') = NativeLdacLinkStateDisconnected \<and>
       ls_UpdateSequence (m_NativeLdacLinkState a') = ls_UpdateSequence (m_NativeLdacLinkState a) + 2"
proof -
  let ?a = "fst (NativeLdacSetLinkState State published a)"
  have order: "published \<le> now" "50000000 \<le> now - published"
    using assms(3) by (simp_all add: word_le_nat_alt unat_sub)
  have "ls_UpdateSequence (m_NativeLdacLinkState ?a) = ls_UpdateSequence (m_NativeLdacLinkState a) + 1"
    using assms(1) by (simp add: NativeLdacSetLinkState_def valid_link_def start_timer_def Let_def not_less)
  then show ?thesis
    using timer_of_link [OF assms(1), of published a] link_expires_at [of ?a now] assms(2,3) order
    by (simp add: fire_if_due_def Let_def)
qed

lemma silent_link_disconnected_witness:
  "let a' = fire_if_due 60000000 (fst (NativeLdacSetLinkState
       \<lparr>ls_Size = 40, ls_AbiVersion = 1, ls_State = 2, ls_Flags = 0, ls_SessionId = 9,
        ls_UpdateSequence = 0, ls_UpdatedInterruptTime100ns = 0\<rparr> 10000000 (adapter_init 1 1)))
   in ls_State (m_NativeLdacLinkState a') = 0 \<and>
      ls_UpdateSequence (m_NativeLdacLinkState a') =
        ls_UpdateSequence (m_NativeLdacLinkState (adapter_init 1 1)) + 2"
  by (rule silent_link_disconnected) (simp_all add: valid_link_def)

text \<open>Presence reports at the given times.\<close>

fun presence_reports :: "NATIVE_LDAC_PRESENCE_STATE \<Rightarrow> u64 list \<Rightarrow> CAdapterCommon \<Rightarrow> CAdapterCommon" where
  "presence_reports report [] a = a"
| "presence_reports report (now # later) a =
     presence_reports report later
       (fst (NativeLdacSetPhysicalPresence report now (fire_if_due now a)))"

definition soon_after :: "u64 \<Rightarrow> u64 \<Rightarrow> bool" where
  "soon_after s t \<longleftrightarrow> unat t < unat s + 50000000"

lemma reports_postpone:
  "valid_presence report \<Longrightarrow> successively soon_after (t # later) \<Longrightarrow>
   m_NativeLdacLinkTimer a = Some (unat t + 50000000) \<Longrightarrow>
   m_NativeLdacLinkState (presence_reports report later a) = m_NativeLdacLinkState a"
proof (induction later arbitrary: t a)
  case (Cons now later)
  have "fire_if_due now a = a"
    using Cons.prems by (simp add: fire_if_due_def soon_after_def)
  then show ?case
    using Cons.IH [of now "fst (NativeLdacSetPhysicalPresence report now a)"] Cons.prems
      timer_of_presence [OF Cons.prems(1), of now a]
    by simp
qed simp

text \<open>C25: The heartbeat of the link is not enforced while presence is reported: link and presence share
  one timer, and a presence report restarts it for 5 seconds whatever is left of the link's time.
  So after any number of presence reports that are less than 5 seconds apart, a link whose client
  has gone silent is still published as connected, although the state no longer counts as fresh.\<close>

lemma silent_link_stays_connected:
  assumes "valid_link State" "ls_State State = NativeLdacLinkStateConnected" "valid_presence report"
    "successively soon_after (published # later)"
    "unat published + 50000000 \<le> unat now"
  shows "let link = m_NativeLdacLinkState
           (presence_reports report later (fst (NativeLdacSetLinkState State published a)))
    in ls_State link = NativeLdacLinkStateConnected \<and>
       \<not> NativeLdacLinkStateIsFreshConnected link now"
proof -
  let ?a = "fst (NativeLdacSetLinkState State published a)"
  note timer = timer_of_link [OF assms(1), of published a]
  have "m_NativeLdacLinkState (presence_reports report later ?a) = m_NativeLdacLinkState ?a"
    using reports_postpone [OF assms(3,4), of ?a] timer by simp
  moreover have "published \<le> now" "50000000 \<le> now - published"
    using assms(5) by (simp_all add: word_le_nat_alt unat_sub)
  ultimately show ?thesis
    using timer assms(2) by (auto simp: NativeLdacLinkStateIsFreshConnected_def Let_def not_less)
qed

lemma silent_link_stays_connected_witness:
  "let link = m_NativeLdacLinkState (presence_reports
       \<lparr>ps_Size = 40, ps_AbiVersion = 1, ps_State = 1, ps_Flags = 0, ps_PresenceGeneration = 3,
        ps_UpdateSequence = 0, ps_UpdatedInterruptTime100ns = 0\<rparr> [50000000, 90000000, 130000000]
       (fst (NativeLdacSetLinkState
          \<lparr>ls_Size = 40, ls_AbiVersion = 1, ls_State = 2, ls_Flags = 0, ls_SessionId = 9,
           ls_UpdateSequence = 0, ls_UpdatedInterruptTime100ns = 0\<rparr> 10000000 (adapter_init 1 1))))
   in ls_State link = 2 \<and> \<not> NativeLdacLinkStateIsFreshConnected link 130000000"
  by (rule silent_link_stays_connected) (simp_all add: valid_link_def valid_presence_def soon_after_def)

section \<open>Requests of several processes\<close>

text \<open>The handler of the link state reads the published state, asks the lease, and publishes, each under
  its own lock; between two of them another process's request can run.\<close>

definition link_observed :: "CMiniportWaveRT \<Rightarrow> u32" where
  "link_observed m = ls_State (m_NativeLdacLinkState (m_pAdapterCommon m))"

definition link_claim ::
  "u64 \<Rightarrow> NATIVE_LDAC_LINK_STATE \<Rightarrow> u32 \<Rightarrow> u64 \<Rightarrow> CMiniportWaveRT \<Rightarrow>
   CMiniportWaveRT \<times> NATIVE_LDAC_PCM_OWNER_RESULT" where
  "link_claim client requested observed now m =
     (let (owner, result) = NativeLdacPcmOwnerSetLinkState (m_PcmOwner m) client
            (ls_SessionId requested) (ls_State requested) observed now
      in (m\<lparr>m_PcmOwner := owner\<rparr>, result))"

definition link_publish ::
  "NATIVE_LDAC_LINK_STATE \<Rightarrow> u64 \<Rightarrow> CMiniportWaveRT \<Rightarrow> CMiniportWaveRT \<times> ntstatus" where
  "link_publish requested now m =
     (let (adapter, status) = NativeLdacSetLinkState requested now (m_pAdapterCommon m)
      in (m\<lparr>m_pAdapterCommon := adapter\<rparr>, status))"

definition link_request :: "u64 \<Rightarrow> property_request" where
  "link_request client = \<lparr>rq_Verb = KSPROPERTY_TYPE_SET, rq_ValueSize = 40, rq_Requestor = Some client\<rparr>"

text \<open>A valid set request is these three parts one after the other.\<close>

lemma link_handler_parts:
  assumes "valid_link requested" "client \<noteq> 0"
  shows "PropertyHandlerLinkState (link_request client) requested now1 now2 m =
    (let (m1, result) = link_claim client requested (link_observed m) now1 m
     in if result = NativeLdacPcmOwnerBusy then (m1, refuse (link_request client) STATUS_SHARING_VIOLATION)
        else if result \<noteq> NativeLdacPcmOwnerAccepted \<and> result \<noteq> NativeLdacPcmOwnerReleased
        then (m1, refuse (link_request client) STATUS_ACCESS_DENIED)
        else let (m2, status) = link_publish requested now2 m1
             in (m2, refuse (link_request client) status))"
  using assms
  by (simp add: PropertyHandlerLinkState_def link_request_def valid_link_def size_checked_def
      link_claim_def link_observed_def link_publish_def case_prod_beta Let_def)

text \<open>C26: Two processes can both be told that they have the link: if a second process's request to
  connect reads the state before the first one's is published, its claim takes the lease that the
  first one was just granted - the state is still disconnected, which drops the first link - and
  both requests succeed.\<close>

lemma interleaved_connects_both_succeed:
  assumes "valid_link first" "ls_State first = NativeLdacLinkStateConnecting"
    and "valid_link second" "ls_State second = NativeLdacLinkStateConnecting"
    and "client1 \<noteq> 0" "client2 \<noteq> 0" "now1 \<noteq> 0" "now2 \<noteq> 0"
    and "link_observed m = NativeLdacLinkStateDisconnected"
    and "m_PcmOwner m = NativeLdacPcmOwnerInitialize" "now1 \<le> now2" "now2 - now1 < 300000000"
  shows "let observed1 = link_observed m; observed2 = link_observed m;
             (m1, result1) = link_claim client1 first observed1 now1 m;
             (m2, result2) = link_claim client2 second observed2 now2 m1;
             (m3, status1) = link_publish first now3 m2;
             (m4, status2) = link_publish second now4 m3
         in result1 = NativeLdacPcmOwnerAccepted \<and> result2 = NativeLdacPcmOwnerAccepted \<and>
            status1 = STATUS_SUCCESS \<and> status2 = STATUS_SUCCESS \<and>
            po_OwnerId (m_PcmOwner m1) = client1 \<and> po_OwnerId (m_PcmOwner m4) = client2"
proof -
  have first: "ls_SessionId first \<noteq> 0" and second: "ls_SessionId second \<noteq> 0"
    using assms(1,3) by (simp_all add: valid_link_def)
  define owner1 where "owner1 = \<lparr>po_OwnerId = client1, po_SessionId = ls_SessionId first,
    po_LastUpdateTime100ns = now1, po_Sources = 1, po_ReadActive = False\<rparr>"
  have one: "NativeLdacPcmOwnerSetLinkState NativeLdacPcmOwnerInitialize client1 (ls_SessionId first) 1 0 now1 =
      (owner1, NativeLdacPcmOwnerAccepted)"
    using assms(5,7) first
    by (simp add: owner1_def NativeLdacPcmOwnerSetLinkState_def NativeLdacPcmOwnerInitialize_def
        clear_expired_def NativeLdacPcmOwnerIsExpired_def NativeLdacPcmOwnerClear_def)
  have "clear_expired owner1 now2 = owner1"
    using assms(12) by (intro not_expired) (simp add: before_timeout_def owner1_def)
  then have two: "NativeLdacPcmOwnerSetLinkState owner1 client2 (ls_SessionId second) 1 0 now2 =
      (\<lparr>po_OwnerId = client2, po_SessionId = ls_SessionId second, po_LastUpdateTime100ns = now2,
        po_Sources = 1, po_ReadActive = False\<rparr>, NativeLdacPcmOwnerAccepted)"
    using assms(6,8) second
    by (simp add: NativeLdacPcmOwnerSetLinkState_def drop_source_def NativeLdacPcmOwnerClear_def)
      (simp add: owner1_def)
  have "po_OwnerId owner1 = client1"
    by (simp add: owner1_def)
  then show ?thesis
    using assms(1-4,9,10)
    by (simp add: link_claim_def one two link_publish_def Let_def case_prod_beta
        NativeLdacSetLinkState_def valid_link_def)
qed

lemma interleaved_connects_both_succeed_witness:
  "let m = miniport_init 1 1;
       first = \<lparr>ls_Size = 40, ls_AbiVersion = 1, ls_State = 1, ls_Flags = 0, ls_SessionId = 9,
         ls_UpdateSequence = 0, ls_UpdatedInterruptTime100ns = 0\<rparr>;
       second = \<lparr>ls_Size = 40, ls_AbiVersion = 1, ls_State = 1, ls_Flags = 0, ls_SessionId = 10,
         ls_UpdateSequence = 0, ls_UpdatedInterruptTime100ns = 0\<rparr>
   in let observed1 = link_observed m; observed2 = link_observed m;
          (m1, result1) = link_claim 7 first observed1 100 m;
          (m2, result2) = link_claim 8 second observed2 101 m1;
          (m3, status1) = link_publish first 102 m2;
          (m4, status2) = link_publish second 103 m3
      in result1 = NativeLdacPcmOwnerAccepted \<and> result2 = NativeLdacPcmOwnerAccepted \<and>
         status1 = STATUS_SUCCESS \<and> status2 = STATUS_SUCCESS \<and>
         po_OwnerId (m_PcmOwner m1) = 7 \<and> po_OwnerId (m_PcmOwner m4) = 8"
  unfolding Let_def [of "miniport_init 1 1"] Let_def [of "_\<lparr>ls_State := _\<rparr>"]
  using interleaved_connects_both_succeed [of
      "\<lparr>ls_Size = 40, ls_AbiVersion = 1, ls_State = 1, ls_Flags = 0, ls_SessionId = 9,
        ls_UpdateSequence = 0, ls_UpdatedInterruptTime100ns = 0\<rparr>"
      "\<lparr>ls_Size = 40, ls_AbiVersion = 1, ls_State = 1, ls_Flags = 0, ls_SessionId = 10,
        ls_UpdateSequence = 0, ls_UpdatedInterruptTime100ns = 0\<rparr>" 7 8 100 101 "miniport_init 1 1" 102 103]
  by (simp add: Let_def valid_link_def link_observed_def miniport_init_def pcm_ring.extend_def
      CMiniportWaveRT.fields_def adapter_init_def)

text \<open>A process cannot report the end of a link that has timed out: once the published link has
  expired, the owner's own request to disconnect first loses its lease and is then refused as
  another's, with a sharing violation; nothing is published.\<close>

lemma late_disconnect_refused:
  assumes "valid_link requested" "ls_State requested = NativeLdacLinkStateDisconnected"
    and "link_observed m = NativeLdacLinkStateDisconnected"
    and "m_PcmOwner m = \<lparr>po_OwnerId = client, po_SessionId = ls_SessionId requested,
      po_LastUpdateTime100ns = updated, po_Sources = NATIVE_LDAC_PCM_OWNER_SOURCE_LINK,
      po_ReadActive = False\<rparr>"
    and "client \<noteq> 0" "now1 \<noteq> 0"
    and "before_timeout NATIVE_LDAC_PCM_OWNER_LEASE_TIMEOUT_100NS updated now1"
  shows "PropertyHandlerLinkState (link_request client) requested now1 now2 m =
    (m\<lparr>m_PcmOwner := NativeLdacPcmOwnerClear\<rparr>, Answer STATUS_SHARING_VIOLATION 40 None)"
proof -
  have "clear_expired (m_PcmOwner m) now1 = m_PcmOwner m"
    using assms(4,7) by (intro not_expired) simp
  then have "NativeLdacPcmOwnerSetLinkState (m_PcmOwner m) client (ls_SessionId requested) 0 0 now1 =
      (NativeLdacPcmOwnerClear, NativeLdacPcmOwnerBusy)"
    using assms(1,4-6)
    by (simp add: NativeLdacPcmOwnerSetLinkState_def drop_source_def valid_link_def)
  then show ?thesis
    using assms(2,3) link_handler_parts [OF assms(1,5), of now1 now2 m]
    by (simp add: link_claim_def refuse_def link_request_def)
qed

lemma late_disconnect_refused_witness:
  "let m = (miniport_init 1 1)\<lparr>m_PcmOwner := \<lparr>po_OwnerId = 7, po_SessionId = 9,
       po_LastUpdateTime100ns = 100, po_Sources = 1, po_ReadActive = False\<rparr>\<rparr>
   in PropertyHandlerLinkState (link_request 7)
        \<lparr>ls_Size = 40, ls_AbiVersion = 1, ls_State = 0, ls_Flags = 0, ls_SessionId = 9,
         ls_UpdateSequence = 0, ls_UpdatedInterruptTime100ns = 0\<rparr> 60000000 60000001 m =
      (m\<lparr>m_PcmOwner := NativeLdacPcmOwnerClear\<rparr>, Answer STATUS_SHARING_VIOLATION 40 None)"
  unfolding Let_def
  by (rule late_disconnect_refused [where updated = 100])
    (simp_all add: valid_link_def link_observed_def before_timeout_def miniport_init_def
      pcm_ring.extend_def CMiniportWaveRT.fields_def adapter_init_def)

end
