(* ===== verification/Ieee_Float.thy ===== *)
theory Ieee_Float
  imports Prelude Complex_Main "HOL-Library.Log_Nat"
begin

text \<open>
  The floating-point arithmetic of the C++ sources: \<open>float\<close> and \<open>double\<close> of IEEE 754 with rounding to
  the nearest, ties to even.  A finite value is the rational number it stands for; the two zeros are one
  value, which no operation of the sources tells apart (none divides by a zero).  An operation computes
  the exact result and rounds it; the comparisons are false on a value that is not a number.
\<close>

datatype ieee = Fin rat | PlusInf | MinusInf | NotANumber

datatype ieee_format = Single | Double

fun precision :: "ieee_format \<Rightarrow> int" where
  "precision Single = 24" | "precision Double = 53"

text \<open>The exponent of the smallest positive value, and the largest finite value.\<close>

fun least_exponent :: "ieee_format \<Rightarrow> int" where
  "least_exponent Single = -149" | "least_exponent Double = -1074"

fun largest_finite :: "ieee_format \<Rightarrow> rat" where
  "largest_finite Single = (2 ^ 24 - 1) * 2 ^ 104"
| "largest_finite Double = (2 ^ 53 - 1) * 2 ^ 971"

section \<open>Rounding\<close>

text \<open>The exponent of the leading binary digit of a positive number.\<close>

definition ilog2 :: "rat \<Rightarrow> int" where
  "ilog2 q =
     (let (n, d) = quotient_of q;
          k = int (floorlog 2 (nat n)) - int (floorlog 2 (nat d))
      in if 2 powi k \<le> q then k else k - 1)"

definition round_even :: "rat \<Rightarrow> int" where
  "round_even q =
     (let f = \<lfloor>q\<rfloor>; r = q - of_int f
      in if r < 1 / 2 then f else if r > 1 / 2 then f + 1 else if even f then f else f + 1)"

text \<open>The exponent of the last digit that the format keeps of a number.\<close>

definition last_exponent :: "ieee_format \<Rightarrow> rat \<Rightarrow> int" where
  "last_exponent fmt q = max (least_exponent fmt) (ilog2 \<bar>q\<bar> - (precision fmt - 1))"

definition rounded :: "ieee_format \<Rightarrow> rat \<Rightarrow> rat" where
  "rounded fmt q =
     (if q = 0 then 0
      else let unit = 2 powi last_exponent fmt q in of_int (round_even (q / unit)) * unit)"

definition fround :: "ieee_format \<Rightarrow> rat \<Rightarrow> ieee" where
  "fround fmt q =
     (let v = rounded fmt q
      in if v > largest_finite fmt then PlusInf
         else if v < - largest_finite fmt then MinusInf else Fin v)"

section \<open>Operations\<close>

fun isfinite :: "ieee \<Rightarrow> bool" where
  "isfinite (Fin q) = True" | "isfinite _ = False"

fun fl_less :: "ieee \<Rightarrow> ieee \<Rightarrow> bool" where
  "fl_less (Fin a) (Fin b) = (a < b)"
| "fl_less (Fin a) PlusInf = True"
| "fl_less MinusInf (Fin b) = True"
| "fl_less MinusInf PlusInf = True"
| "fl_less _ _ = False"

fun fl_equal :: "ieee \<Rightarrow> ieee \<Rightarrow> bool" where
  "fl_equal (Fin a) (Fin b) = (a = b)"
| "fl_equal PlusInf PlusInf = True"
| "fl_equal MinusInf MinusInf = True"
| "fl_equal _ _ = False"

definition fl_le :: "ieee \<Rightarrow> ieee \<Rightarrow> bool" where
  "fl_le a b \<longleftrightarrow> fl_less a b \<or> fl_equal a b"

fun fl_abs :: "ieee \<Rightarrow> ieee" where
  "fl_abs (Fin a) = Fin \<bar>a\<bar>"
| "fl_abs MinusInf = PlusInf"
| "fl_abs a = a"

fun fl_neg :: "ieee \<Rightarrow> ieee" where
  "fl_neg (Fin a) = Fin (- a)"
| "fl_neg PlusInf = MinusInf"
| "fl_neg MinusInf = PlusInf"
| "fl_neg NotANumber = NotANumber"

text \<open>\<open>std::max\<close>, \<open>std::min\<close> and \<open>std::clamp\<close>, which keep their first argument when a comparison fails.\<close>

definition fl_max :: "ieee \<Rightarrow> ieee \<Rightarrow> ieee" where
  "fl_max a b = (if fl_less a b then b else a)"

definition fl_min :: "ieee \<Rightarrow> ieee \<Rightarrow> ieee" where
  "fl_min a b = (if fl_less b a then b else a)"

definition fl_clamp :: "ieee \<Rightarrow> ieee \<Rightarrow> ieee \<Rightarrow> ieee" where
  "fl_clamp v lo hi = (if fl_less v lo then lo else if fl_less hi v then hi else v)"

fun infinite :: "bool \<Rightarrow> ieee" where
  "infinite positive = (if positive then PlusInf else MinusInf)"

fun fl_mult :: "ieee_format \<Rightarrow> ieee \<Rightarrow> ieee \<Rightarrow> ieee" where
  "fl_mult fmt (Fin a) (Fin b) = fround fmt (a * b)"
| "fl_mult fmt NotANumber b = NotANumber"
| "fl_mult fmt a NotANumber = NotANumber"
| "fl_mult fmt a b =
     (if fl_equal a (Fin 0) \<or> fl_equal b (Fin 0) then NotANumber
      else infinite (fl_less (Fin 0) a = fl_less (Fin 0) b))"

fun fl_add :: "ieee_format \<Rightarrow> ieee \<Rightarrow> ieee \<Rightarrow> ieee" where
  "fl_add fmt (Fin a) (Fin b) = fround fmt (a + b)"
| "fl_add fmt NotANumber b = NotANumber"
| "fl_add fmt a NotANumber = NotANumber"
| "fl_add fmt (Fin a) b = b"
| "fl_add fmt a (Fin b) = a"
| "fl_add fmt a b = (if a = b then a else NotANumber)"

definition fl_sub :: "ieee_format \<Rightarrow> ieee \<Rightarrow> ieee \<Rightarrow> ieee" where
  "fl_sub fmt a b = fl_add fmt a (fl_neg b)"

text \<open>A quotient by zero is not a number for zero and infinite otherwise, with the sign of the dividend.\<close>

fun fl_div :: "ieee_format \<Rightarrow> ieee \<Rightarrow> ieee \<Rightarrow> ieee" where
  "fl_div fmt NotANumber b = NotANumber"
| "fl_div fmt a NotANumber = NotANumber"
| "fl_div fmt (Fin a) (Fin b) =
     (if b \<noteq> 0 then fround fmt (a / b) else if a = 0 then NotANumber else infinite (0 < a))"
| "fl_div fmt (Fin a) b = Fin 0"
| "fl_div fmt a (Fin b) = infinite (fl_less (Fin 0) a = (0 \<le> b))"
| "fl_div fmt a b = NotANumber"

fun fl_ceil :: "ieee \<Rightarrow> ieee" where
  "fl_ceil (Fin a) = Fin (of_int \<lceil>a\<rceil>)" | "fl_ceil a = a"

text \<open>
  Conversions: between the formats, from an unsigned integer, and to one (in range, where it drops
  the fraction; out of range it is undefined, and 0 here).
\<close>

fun fl_convert :: "ieee_format \<Rightarrow> ieee \<Rightarrow> ieee" where
  "fl_convert fmt (Fin a) = fround fmt a" | "fl_convert fmt a = a"

definition fl_of_nat :: "ieee_format \<Rightarrow> nat \<Rightarrow> ieee" where
  "fl_of_nat fmt n = fround fmt (of_nat n)"

fun fl_to_u64 :: "ieee \<Rightarrow> u64" where
  "fl_to_u64 (Fin a) = (if 0 \<le> a \<and> a < 2 ^ 64 then of_int \<lfloor>a\<rfloor> else 0)" | "fl_to_u64 _ = 0"

text \<open>\<open>std::nextafter(x, 0)\<close> for a finite positive value of the format.\<close>

fun fl_towards_zero :: "ieee_format \<Rightarrow> ieee \<Rightarrow> ieee" where
  "fl_towards_zero fmt (Fin a) =
     (let e = last_exponent fmt a
      in if a = 2 powi ilog2 a \<and> e > least_exponent fmt then Fin (a - 2 powi (e - 1))
         else Fin (a - 2 powi e))"
| "fl_towards_zero fmt a = a"

section \<open>Lemmas\<close>

lemma powi_pos [simp]: "0 < (2 :: rat) powi e"
  by (simp add: zero_less_power_int)

lemma powi_le: "(2 :: rat) powi a \<le> 2 powi b \<longleftrightarrow> a \<le> b"
  by (metis linorder_not_le one_less_numeral_iff power_int_increasing power_int_strict_increasing
      order.strict_implies_order semiring_norm(76))

lemma round_even_of_int [simp]: "round_even (of_int n) = n"
  by (simp add: round_even_def)

lemma round_even_mono: "x \<le> y \<Longrightarrow> round_even x \<le> round_even y"
proof -
  assume xy: "x \<le> y"
  then have f: "\<lfloor>x\<rfloor> \<le> \<lfloor>y\<rfloor>" by (rule floor_mono)
  show ?thesis
  proof (cases "\<lfloor>x\<rfloor> = \<lfloor>y\<rfloor>")
    case True
    then show ?thesis using xy by (auto simp: round_even_def Let_def)
  next
    case False
    then have "\<lfloor>x\<rfloor> + 1 \<le> \<lfloor>y\<rfloor>" using f by simp
    then show ?thesis by (auto simp: round_even_def Let_def)
  qed
qed

lemma ilog2_bounds:
  assumes "0 < q"
  shows "2 powi ilog2 q \<le> q" "q < 2 powi (ilog2 q + 1)"
proof -
  obtain n d where nd: "quotient_of q = (n, d)" by (cases "quotient_of q")
  have d: "0 < d" and q: "q = of_int n / of_int d"
    using quotient_of_denom_pos [OF nd] quotient_of_div [OF nd] by simp_all
  then have n: "0 < n" using assms by (simp add: zero_less_divide_iff)
  have bits: "2 powi (int (floorlog 2 (nat k)) - 1) \<le> (of_int k :: rat) \<and>
      (of_int k :: rat) < 2 powi int (floorlog 2 (nat k))" if "0 < k" for k
  proof -
    have b: "2 ^ (floorlog 2 (nat k) - 1) \<le> nat k" "nat k < 2 ^ floorlog 2 (nat k)"
      using floorlog_bounds [of "nat k" 2] that by auto
    have "0 < floorlog 2 (nat k)" using that by (simp add: floorlog_def)
    then have e: "int (floorlog 2 (nat k)) - 1 = int (floorlog 2 (nat k) - 1)" by simp
    have r: "(of_int k :: rat) = of_nat (nat k)" using that by simp
    have "(2 :: rat) ^ (floorlog 2 (nat k) - 1) \<le> of_nat (nat k)"
      using b(1) by (metis of_nat_le_iff of_nat_numeral of_nat_power)
    moreover have "of_nat (nat k) < (2 :: rat) ^ floorlog 2 (nat k)"
      using b(2) by (metis of_nat_less_iff of_nat_numeral of_nat_power)
    ultimately show ?thesis unfolding e r power_int_of_nat by blast
  qed
  define k where "k = int (floorlog 2 (nat n)) - int (floorlog 2 (nat d))"
  have "of_int n / of_int d < (2 powi int (floorlog 2 (nat n)) / 2 powi (int (floorlog 2 (nat d)) - 1) :: rat)"
    using bits [OF n] bits [OF d] n by (intro frac_less) (auto simp: less_imp_le)
  then have above: "q < 2 powi (k + 1)"
    by (simp add: q k_def power_int_diff power_int_add field_simps)
  have "(2 powi (int (floorlog 2 (nat n)) - 1) / 2 powi int (floorlog 2 (nat d)) :: rat) \<le> of_int n / of_int d"
    using bits [OF n] bits [OF d] n d by (intro frac_le) (auto simp: less_imp_le)
  then have below: "2 powi (k - 1) \<le> q"
    by (simp add: q k_def power_int_diff power_int_add field_simps)
  have "ilog2 q = (if 2 powi k \<le> q then k else k - 1)"
    by (simp add: ilog2_def nd k_def Let_def)
  then show "2 powi ilog2 q \<le> q" "q < 2 powi (ilog2 q + 1)"
    using above below by auto
qed

lemma ilog2_mono: "0 < x \<Longrightarrow> x \<le> y \<Longrightarrow> ilog2 x \<le> ilog2 y"
proof -
  assume "0 < x" "x \<le> y"
  then have "(2 :: rat) powi ilog2 x < 2 powi (ilog2 y + 1)"
    using ilog2_bounds [of x] ilog2_bounds [of y] by linarith
  then show ?thesis using powi_le [of "ilog2 y + 1" "ilog2 x"] by linarith
qed

lemma power_gap:
  assumes "e \<le> m"
  shows "(2 :: rat) powi m / 2 powi e = of_int (2 ^ nat (m - e))"
proof -
  have "(2 :: rat) powi m / 2 powi e = 2 powi (m - e)" by (simp add: power_int_diff)
  also have "\<dots> = 2 ^ nat (m - e)" using assms by (simp add: power_int_def)
  finally show ?thesis by simp
qed

text \<open>A power of two that is not below the last digit kept bounds the rounded value.\<close>

lemma rounded_le_power:
  assumes "0 < q" "q \<le> 2 powi m" "last_exponent fmt q \<le> m"
  shows "rounded fmt q \<le> 2 powi m"
proof -
  let ?e = "last_exponent fmt q"
  note unit = power_gap [OF assms(3)]
  have "q / 2 powi ?e \<le> of_int (2 ^ nat (m - ?e))"
    using divide_right_mono [OF assms(2), of "2 powi ?e"] unit by simp
  then have "round_even (q / 2 powi ?e) \<le> 2 ^ nat (m - ?e)"
    by (metis round_even_mono round_even_of_int)
  then have "(of_int (round_even (q / 2 powi ?e)) :: rat) \<le> 2 powi m / 2 powi ?e"
    unfolding unit by (simp only: of_int_le_iff)
  then show ?thesis
    using assms(1) by (simp add: rounded_def Let_def le_divide_eq)
qed

lemma power_le_rounded:
  assumes "2 powi m \<le> q" "last_exponent fmt q \<le> m"
  shows "2 powi m \<le> rounded fmt q"
proof -
  let ?e = "last_exponent fmt q"
  have pos: "0 < q" using assms(1) powi_pos [of m] by linarith
  note unit = power_gap [OF assms(2)]
  have "of_int (2 ^ nat (m - ?e)) \<le> q / 2 powi ?e"
    using divide_right_mono [OF assms(1), of "2 powi ?e"] unit by simp
  then have "2 ^ nat (m - ?e) \<le> round_even (q / 2 powi ?e)"
    by (metis round_even_mono round_even_of_int)
  then have "2 powi m / 2 powi ?e \<le> (of_int (round_even (q / 2 powi ?e)) :: rat)"
    unfolding unit by (simp only: of_int_le_iff)
  then show ?thesis
    using pos by (simp add: rounded_def Let_def divide_le_eq)
qed

lemma rounded_nonneg: "0 \<le> q \<Longrightarrow> 0 \<le> rounded fmt q"
  using round_even_mono [of 0 "q / 2 powi last_exponent fmt q"] round_even_of_int [of 0]
  by (simp add: rounded_def Let_def)

lemma precision_pos: "1 \<le> precision fmt" "least_exponent fmt \<le> 0"
  by (cases fmt; simp)+

text \<open>Rounding keeps the order of what is not negative.\<close>

lemma rounded_mono:
  assumes "0 \<le> x" "x \<le> y"
  shows "rounded fmt x \<le> rounded fmt y"
proof (cases "x = 0")
  case True
  then show ?thesis using rounded_nonneg [of y] assms by (simp add: rounded_def)
next
  case False
  then have pos: "0 < x" "0 < y" using assms by simp_all
  let ?ex = "last_exponent fmt x" and ?ey = "last_exponent fmt y"
  have le: "?ex \<le> ?ey" using ilog2_mono [OF pos(1) assms(2)] pos by (simp add: last_exponent_def)
  show ?thesis
  proof (cases "?ex = ?ey")
    case True
    have "x / 2 powi ?ey \<le> y / 2 powi ?ey" using assms(2) by (simp add: divide_right_mono)
    then have "round_even (x / 2 powi ?ey) \<le> round_even (y / 2 powi ?ey)" by (rule round_even_mono)
    then show ?thesis using pos True by (simp add: rounded_def Let_def)
  next
    case False
    then have less: "?ex < ?ey" using le by simp
    then have ey: "?ey = ilog2 y - (precision fmt - 1)" "ilog2 x < ilog2 y"
      using pos by (auto simp: last_exponent_def max_def split: if_splits)
    have "x \<le> 2 powi ilog2 y"
      using ilog2_bounds(2) [OF pos(1)] powi_le [of "ilog2 x + 1" "ilog2 y"] ey(2) by linarith
    then have "rounded fmt x \<le> 2 powi ilog2 y"
      using less ey(1) precision_pos [of fmt] pos by (intro rounded_le_power) auto
    also have "\<dots> \<le> rounded fmt y"
      using ilog2_bounds(1) [OF pos(2)] ey(1) precision_pos [of fmt] by (intro power_le_rounded) auto
    finally show ?thesis .
  qed
qed

lemma rounded_1 [simp]: "rounded fmt 1 = 1"
proof -
  have "ilog2 1 = 0" by (simp add: ilog2_def floorlog_def)
  then have e: "last_exponent fmt 1 \<le> 0" using precision_pos [of fmt] by (simp add: last_exponent_def)
  show ?thesis
    using rounded_le_power [of 1 0 fmt] power_le_rounded [of 0 1 fmt] e by simp
qed

lemma largest_ge_1: "1 \<le> largest_finite fmt"
  by (cases fmt) simp_all

lemma rounded_0 [simp]: "rounded fmt 0 = 0" "fround fmt 0 = Fin 0"
  using largest_ge_1 [of fmt] by (simp_all add: rounded_def fround_def)

text \<open>A quotient of a smaller by a larger value is between 0 and 1.\<close>

lemma fround_unit:
  assumes "0 \<le> q" "q \<le> 1"
  shows "fround fmt q = Fin (rounded fmt q)" "0 \<le> rounded fmt q" "rounded fmt q \<le> 1"
proof -
  show b: "0 \<le> rounded fmt q" "rounded fmt q \<le> 1"
    using rounded_nonneg [OF assms(1)] rounded_mono [OF assms, of fmt] by simp_all
  show "fround fmt q = Fin (rounded fmt q)"
    using b largest_ge_1 [of fmt] by (simp add: fround_def Let_def)
qed

text \<open>Rounding is symmetric.\<close>

lemma round_even_minus: "round_even (- q) = - round_even q"
proof (cases "q = of_int \<lfloor>q\<rfloor>")
  case True
  then obtain n where "q = of_int n" by blast
  then show ?thesis
    using round_even_of_int [of n] round_even_of_int [of "- n"] by simp
next
  case False
  have below: "of_int \<lfloor>q\<rfloor> < q" "q < of_int \<lfloor>q\<rfloor> + 1"
    using False floor_correct [of q] by linarith+
  have f: "\<lfloor>- q\<rfloor> = - \<lfloor>q\<rfloor> - 1"
    using below by (intro floor_unique) auto
  show ?thesis
    using below by (auto simp: round_even_def f Let_def)
qed

lemma rounded_minus: "rounded fmt (- q) = - rounded fmt q"
  using round_even_minus [of "q / 2 powi last_exponent fmt q"]
  by (simp add: rounded_def last_exponent_def Let_def)

lemma rounded_abs: "\<bar>rounded fmt q\<bar> = rounded fmt \<bar>q\<bar>"
  using rounded_nonneg [of q fmt] rounded_nonneg [of "- q" fmt] rounded_minus [of fmt q]
  by (cases "0 \<le> q") auto

text \<open>The values of a format.\<close>

fun fl_value :: "ieee_format \<Rightarrow> ieee \<Rightarrow> bool" where
  "fl_value fmt (Fin q) \<longleftrightarrow> rounded fmt q = q \<and> \<bar>q\<bar> \<le> largest_finite fmt"
| "fl_value fmt _ = True"

lemma fround_value: "fl_value fmt (Fin q) \<Longrightarrow> fround fmt q = Fin q"
  by (auto simp: fround_def Let_def)

text \<open>A product with a factor of at most one does not grow.\<close>

lemma fl_mult_shrinks:
  assumes "fl_value fmt (Fin s)" "0 \<le> g" "g \<le> 1"
  shows "\<exists>v. fl_mult fmt (Fin s) (Fin g) = Fin v \<and> \<bar>v\<bar> \<le> \<bar>s\<bar>"
proof -
  have "\<bar>s * g\<bar> \<le> \<bar>s\<bar>" using assms(2,3) by (simp add: abs_mult mult_left_le)
  then have "rounded fmt \<bar>s * g\<bar> \<le> rounded fmt \<bar>s\<bar>" by (simp add: rounded_mono)
  also have "\<dots> = \<bar>s\<bar>" using assms(1) rounded_abs [of fmt s] by simp
  finally have le: "\<bar>rounded fmt (s * g)\<bar> \<le> \<bar>s\<bar>" by (simp add: rounded_abs)
  then have "\<bar>rounded fmt (s * g)\<bar> \<le> largest_finite fmt" using assms(1) by simp
  then have "fround fmt (s * g) = Fin (rounded fmt (s * g))" by (auto simp: fround_def Let_def)
  then show ?thesis using le by simp
qed

lemma ilog2_power [simp]: "ilog2 (2 powi m) = m"
proof -
  have "(2 :: rat) powi ilog2 (2 powi m) \<le> 2 powi m" "(2 :: rat) powi m < 2 powi (ilog2 (2 powi m) + 1)"
    using ilog2_bounds [of "2 powi m"] by simp_all
  then have "ilog2 (2 powi m) \<le> m" "\<not> ilog2 (2 powi m) + 1 \<le> m"
    using powi_le by (metis, metis not_le powi_le)
  then show ?thesis by simp
qed

lemma rounded_power:
  assumes "least_exponent fmt \<le> m"
  shows "rounded fmt (2 powi m) = 2 powi m"
proof -
  have "last_exponent fmt (2 powi m) \<le> m"
    using assms precision_pos [of fmt] by (simp add: last_exponent_def)
  then show ?thesis
    using rounded_le_power [of "2 powi m" m fmt] power_le_rounded [of m "2 powi m" fmt]
    by (intro antisym) simp_all
qed

text \<open>Integers that fit the precision are exact.\<close>

lemma rounded_int:
  assumes "\<bar>n\<bar> < 2 ^ nat (precision fmt)"
  shows "rounded fmt (of_int n) = of_int n"
proof (cases "n = 0")
  case False
  let ?e = "last_exponent fmt (of_int n)"
  have "(2 :: rat) powi ilog2 \<bar>of_int n\<bar> \<le> of_int \<bar>n\<bar>"
    using ilog2_bounds(1) [of "\<bar>of_int n\<bar>"] False by simp
  also have "\<dots> < of_int (2 ^ nat (precision fmt))" using assms by (simp only: of_int_less_iff)
  also have "\<dots> = 2 powi precision fmt" using precision_pos [of fmt] by (simp add: power_int_def)
  finally have "ilog2 \<bar>of_int n\<bar> < precision fmt"
    using powi_le [of "precision fmt" "ilog2 \<bar>of_int n\<bar>"] by linarith
  then have e: "?e \<le> 0" using precision_pos [of fmt] by (simp add: last_exponent_def)
  then have unit: "(of_int n :: rat) / 2 powi ?e = of_int (n * 2 ^ nat (- ?e))"
    using power_gap [OF e] by (simp add: divide_inverse power_int_def)
  have "rounded fmt (of_int n) = of_int (n * 2 ^ nat (- ?e)) * 2 powi ?e"
    using False by (simp add: rounded_def Let_def unit del: of_int_mult)
  also have "\<dots> = of_int n" unfolding unit [symmetric] by simp
  finally show ?thesis .
qed (simp add: rounded_def)

lemma fround_int:
  assumes "\<bar>n\<bar> < 2 ^ nat (precision fmt)"
  shows "fround fmt (of_int n) = Fin (of_int n)"
proof -
  have "\<bar>n\<bar> \<le> 2 ^ nat (precision fmt) - 1" using assms by simp
  then have "\<bar>of_int n\<bar> \<le> (of_int (2 ^ nat (precision fmt) - 1) :: rat)" by (simp only: of_int_le_iff of_int_abs [symmetric])
  also have "\<dots> \<le> largest_finite fmt" by (cases fmt) simp_all
  finally show ?thesis using rounded_int [OF assms] by (auto simp: fround_def Let_def)
qed

text \<open>Rounded values are multiples of the smallest positive value.\<close>

definition smallest_positive :: "ieee_format \<Rightarrow> rat" where
  "smallest_positive fmt = 2 powi least_exponent fmt"

lemma smallest_positive_pos [simp]: "0 < smallest_positive fmt"
  by (simp add: smallest_positive_def)

lemma unit_multiple:
  assumes "least_exponent fmt \<le> e"
  shows "2 powi e = of_nat (2 ^ nat (e - least_exponent fmt)) * smallest_positive fmt"
  using power_gap [OF assms] powi_pos [of "least_exponent fmt"]
  by (simp add: smallest_positive_def divide_eq_eq)

lemma last_exponent_ge: "least_exponent fmt \<le> last_exponent fmt q"
  by (simp add: last_exponent_def)

lemma rounded_multiple:
  assumes "0 \<le> q"
  shows "\<exists>k. rounded fmt q = of_nat k * smallest_positive fmt"
proof (cases "q = 0")
  case True
  then show ?thesis by (intro exI [of _ 0]) (simp add: rounded_def)
next
  case False
  let ?e = "last_exponent fmt q" and ?n = "round_even (q / 2 powi last_exponent fmt q)"
  have "0 \<le> ?n"
    using round_even_mono [of 0 "q / 2 powi ?e"] round_even_of_int [of 0] assms by simp
  then have "rounded fmt q = of_nat (nat ?n) * 2 powi ?e"
    using False by (simp add: rounded_def Let_def)
  also have "\<dots> = of_nat (nat ?n * 2 ^ nat (?e - least_exponent fmt)) * smallest_positive fmt"
    unfolding unit_multiple [OF last_exponent_ge] by simp
  finally show ?thesis by blast
qed

lemma towards_zero_multiple:
  assumes "0 < k"
  shows "\<exists>k'<k. fl_towards_zero fmt (Fin (of_nat k * smallest_positive fmt)) =
    Fin (of_nat k' * smallest_positive fmt)"
proof -
  let ?a = "of_nat k * smallest_positive fmt" and ?l = "least_exponent fmt"
  let ?e = "last_exponent fmt ?a"
  have pos: "0 < ?a" using assms by simp
  have step: "\<exists>k'<k. Fin (?a - 2 powi e) = Fin (of_nat k' * smallest_positive fmt)"
    if e: "?l \<le> e" "2 powi e \<le> ?a" for e
  proof -
    let ?d = "2 ^ nat (e - ?l) :: nat"
    have unit: "2 powi e = of_nat ?d * smallest_positive fmt" using unit_multiple [OF e(1)] .
    have "(of_nat ?d :: rat) \<le> of_nat k"
      using e(2) unfolding unit by (simp only: mult_le_cancel_right_pos smallest_positive_pos)
    then have "?d \<le> k" by (simp only: of_nat_le_iff)
    then have "?a - 2 powi e = of_nat (k - ?d) * smallest_positive fmt"
      unfolding unit by (simp only: of_nat_diff left_diff_distrib)
    moreover have "k - ?d < k" using assms by simp
    ultimately show ?thesis by metis
  qed
  have "1 * smallest_positive fmt \<le> ?a" using assms by (intro mult_right_mono) (auto simp: less_imp_le)
  then have least: "2 powi ?l \<le> ?a" by (simp add: smallest_positive_def)
  have low: "2 powi ?e \<le> ?a"
  proof (cases "?e = ?l")
    case False
    then have "?e \<le> ilog2 ?a" using pos precision_pos [of fmt] by (auto simp: last_exponent_def max_def split: if_splits)
    then show ?thesis
      using powi_le [of ?e "ilog2 ?a"] ilog2_bounds(1) [OF pos] by (blast intro: order_trans)
  qed (simp add: least)
  have half: "2 powi (?e - 1) \<le> ?a" using low powi_le [of "?e - 1" ?e] by (metis diff_le_eq less_add_one less_imp_le order_trans)
  show ?thesis
    using step [OF last_exponent_ge low] step [of "?e - 1"] half by (auto simp: Let_def)
qed

text \<open>A multiple of a unit with no more digits than the precision is a value.\<close>

lemma rounded_scaled:
  assumes "\<bar>n\<bar> < 2 ^ nat (precision fmt)" "least_exponent fmt \<le> f"
  shows "rounded fmt (of_int n * 2 powi f) = of_int n * 2 powi f"
proof (cases "n = 0")
  case False
  let ?q = "of_int n * 2 powi f :: rat"
  let ?e = "last_exponent fmt ?q"
  have abs_q: "\<bar>?q\<bar> = of_int \<bar>n\<bar> * 2 powi f" by (simp add: abs_mult)
  have pos: "0 < \<bar>?q\<bar>" using False by simp
  have "(of_int \<bar>n\<bar> :: rat) < of_int (2 ^ nat (precision fmt))" using assms(1) by (simp only: of_int_less_iff)
  also have "\<dots> = 2 powi precision fmt" using precision_pos [of fmt] by (simp add: power_int_def)
  finally have "\<bar>?q\<bar> < 2 powi precision fmt * 2 powi f" unfolding abs_q by simp
  then have "2 powi ilog2 \<bar>?q\<bar> < (2 :: rat) powi (precision fmt + f)"
    using ilog2_bounds(1) [OF pos] by (simp add: power_int_add)
  then have "ilog2 \<bar>?q\<bar> < precision fmt + f"
    using powi_le [of "precision fmt + f" "ilog2 \<bar>?q\<bar>"] by linarith
  then have e: "?e \<le> f" using assms(2) by (simp add: last_exponent_def)
  have "?q / 2 powi ?e = of_int n * (2 powi f / 2 powi ?e)" by simp
  then have unit: "?q / 2 powi ?e = of_int (n * 2 ^ nat (f - ?e))"
    unfolding power_gap [OF e] by simp
  then have "rounded fmt ?q = of_int (n * 2 ^ nat (f - ?e)) * 2 powi ?e"
    using False by (simp add: rounded_def Let_def del: of_int_mult)
  also have "\<dots> = ?q" unfolding unit [symmetric] by simp
  finally show ?thesis .
qed (simp add: rounded_def)

lemma value_scaled:
  assumes "rounded fmt a = a" "0 < a"
  shows "\<exists>n. a = of_int n * 2 powi last_exponent fmt a \<and> 0 < n \<and> n < 2 ^ nat (precision fmt)"
proof -
  let ?e = "last_exponent fmt a"
  define n where "n = round_even (a / 2 powi ?e)"
  have a: "a = of_int n * 2 powi ?e"
    using assms by (simp add: rounded_def Let_def n_def)
  have "ilog2 a + 1 \<le> ?e + precision fmt" using assms(2) by (simp add: last_exponent_def)
  then have "a < 2 powi (?e + precision fmt)"
    using ilog2_bounds(2) [OF assms(2)] powi_le [of "ilog2 a + 1" "?e + precision fmt"]
    by linarith
  then have "of_int n * 2 powi ?e < 2 powi precision fmt * (2 powi ?e :: rat)"
    using a by (simp add: power_int_add mult.commute)
  then have "(of_int n :: rat) < 2 powi precision fmt" by simp
  also have "\<dots> = of_int (2 ^ nat (precision fmt))"
    using precision_pos [of fmt] by (simp add: power_int_def)
  finally have "n < 2 ^ nat (precision fmt)" by (simp only: of_int_less_iff)
  moreover have "0 < n" using a assms(2) by (metis of_int_0_less_iff powi_pos zero_less_mult_pos2)
  ultimately show ?thesis using a by blast
qed

text \<open>A value that is below another one is at most its predecessor.\<close>

lemma scaled_below:
  fixes u :: rat
  assumes "of_int m * u < of_int n * u" "0 < u"
  shows "of_int m * u \<le> of_int n * u - u"
proof -
  have "m + 1 \<le> n" using assms by simp
  then have "of_int (m + 1) * u \<le> of_int n * u"
    using assms(2) by (intro mult_right_mono) simp_all
  then show ?thesis by (simp add: algebra_simps)
qed

lemma predecessor:
  assumes "rounded fmt a = a" "0 < a"
  shows "\<exists>v. fl_towards_zero fmt (Fin a) = Fin v \<and> rounded fmt v = v \<and> 0 \<le> v \<and> v < a \<and>
    (\<forall>b. 0 \<le> b \<longrightarrow> b < a \<longrightarrow> rounded fmt b = b \<longrightarrow> b \<le> v)"
proof -
  let ?e = "last_exponent fmt a" and ?i = "ilog2 a"
  obtain n where n: "a = of_int n * 2 powi ?e" "0 < n" "n < 2 ^ nat (precision fmt)"
    using value_scaled [OF assms] by blast
  have log_a: "2 powi ?i \<le> a" "a < 2 powi (?i + 1)" using ilog2_bounds [OF assms(2)] by simp_all
  have below: "b < 2 powi ?i" if "0 < b" "ilog2 b < ?i" for b
    using ilog2_bounds(2) [OF that(1)] powi_le [of "ilog2 b + 1" ?i] that(2) by linarith
  have scaled: "\<exists>m. b = of_int m * 2 powi last_exponent fmt b" if "0 < b" "rounded fmt b = b" for b
    using value_scaled [OF that(2,1)] by blast
  show ?thesis
  proof (cases "a = 2 powi ?i \<and> ?e > least_exponent fmt")
    case True
    let ?v = "a - 2 powi (?e - 1)"
    have e: "?e = ?i - (precision fmt - 1)"
      using True assms(2) by (simp add: last_exponent_def max_def split: if_splits)
    have "a = 2 powi (precision fmt + (?e - 1))" using True e by simp
    then have "a = 2 powi precision fmt * 2 powi (?e - 1)" by (simp add: power_int_add)
    then have scaled_a: "a = of_int (2 ^ nat (precision fmt)) * 2 powi (?e - 1)"
      using precision_pos [of fmt] by (simp add: power_int_def)
    then have v: "?v = of_int (2 ^ nat (precision fmt) - 1) * 2 powi (?e - 1)"
      by (simp add: left_diff_distrib)
    have "rounded fmt ?v = ?v"
      unfolding v using True by (intro rounded_scaled) simp_all
    moreover have "0 \<le> ?v" unfolding v by simp
    moreover have "b \<le> ?v" if b: "0 \<le> b" "b < a" "rounded fmt b = b" for b
    proof (cases "0 < b \<and> ilog2 b = ?i - 1")
      case True
      then have "last_exponent fmt b = ?e - 1"
        using e \<open>a = 2 powi ?i \<and> ?e > least_exponent fmt\<close> by (simp add: last_exponent_def)
      then obtain m where m: "b = of_int m * 2 powi (?e - 1)" using scaled True b(3) by metis
      have "of_int m * 2 powi (?e - 1) \<le> of_int (2 ^ nat (precision fmt)) * 2 powi (?e - 1) - (2 powi (?e - 1) :: rat)"
        using b(2) m scaled_a by (intro scaled_below) simp_all
      then show ?thesis using m scaled_a by simp
    next
      case False
      have half: "2 powi (?e - 1) \<le> (2 :: rat) powi (?i - 1)"
        using e precision_pos [of fmt] by (simp only: powi_le)
      have twice: "2 powi ?i = (2 :: rat) * 2 powi (?i - 1)"
        using power_int_add [of "2 :: rat" 1 "?i - 1"] by simp
      have "b \<le> 2 powi (?i - 1)"
      proof (cases "b = 0")
        case True
        then show ?thesis by (simp add: less_imp_le)
      next
        case False
        then have pos: "0 < b" using b(1) by simp
        have "ilog2 b \<le> ?i" using ilog2_mono [OF pos, of a] b(2) by simp
        moreover have "ilog2 b \<noteq> ?i"
        proof
          assume "ilog2 b = ?i"
          then have "2 powi ?i \<le> b" using ilog2_bounds(1) [OF pos] by simp
          then show False using b(2) \<open>a = 2 powi ?i \<and> ?e > least_exponent fmt\<close> by linarith
        qed
        ultimately have "ilog2 b + 1 \<le> ?i - 1" using \<open>\<not> (0 < b \<and> ilog2 b = ?i - 1)\<close> pos by simp
        then show ?thesis
          using ilog2_bounds(2) [OF pos] powi_le [of "ilog2 b + 1" "?i - 1"] by linarith
      qed
      then show ?thesis using half twice \<open>a = 2 powi ?i \<and> ?e > least_exponent fmt\<close> by linarith
    qed
    moreover have "fl_towards_zero fmt (Fin a) = Fin ?v"
      using True by (simp add: Let_def)
    ultimately show ?thesis by (intro exI [of _ ?v]) simp
  next
    case False
    let ?v = "a - 2 powi ?e"
    have v: "?v = of_int (n - 1) * 2 powi ?e"
      by (subst n(1)) (simp add: left_diff_distrib)
    have "rounded fmt ?v = ?v"
      unfolding v using n(2,3) last_exponent_ge by (intro rounded_scaled) simp_all
    moreover have "0 \<le> ?v" unfolding v using n(2) by simp
    moreover have "b \<le> ?v" if b: "0 \<le> b" "b < a" "rounded fmt b = b" for b
    proof (cases "b = 0")
      case True
      then show ?thesis using \<open>0 \<le> ?v\<close> by simp
    next
      case b0: False
      then have pos: "0 < b" using b(1) by simp
      show ?thesis
      proof (cases "last_exponent fmt b = ?e")
        case True
        then obtain m where m: "b = of_int m * 2 powi ?e" using scaled [OF pos b(3)] by metis
        have "of_int m * 2 powi ?e \<le> of_int n * 2 powi ?e - (2 powi ?e :: rat)"
          using b(2) m n(1) by (intro scaled_below) simp_all
        then show ?thesis using m n(1) by simp
      next
        case other: False
        have le: "ilog2 b \<le> ?i" using ilog2_mono [OF pos, of a] b(2) by simp
        have logs: "ilog2 b < ?i" "?e = ?i - (precision fmt - 1)" "least_exponent fmt < ?e"
          using other le pos assms(2) by (auto simp: last_exponent_def max_def split: if_splits)
        then have "a \<noteq> 2 powi ?i" using False by blast
        then have strict: "2 powi ?i < a" using log_a(1) by simp
        have "?e \<le> ?i" using logs(2) precision_pos [of fmt] by simp
        then have unit: "(2 :: rat) powi ?i = of_int (2 ^ nat (?i - ?e)) * 2 powi ?e"
          using power_gap [of ?e ?i] by (simp add: divide_eq_eq)
        have "of_int (2 ^ nat (?i - ?e)) * 2 powi ?e \<le> of_int n * 2 powi ?e - (2 powi ?e :: rat)"
          using strict n(1) unit by (intro scaled_below) simp_all
        then show ?thesis using below [OF pos logs(1)] unit n(1) by linarith
      qed
    qed
    moreover have "fl_towards_zero fmt (Fin a) = Fin ?v"
      using False by (auto simp: Let_def)
    ultimately show ?thesis by (intro exI [of _ ?v]) simp
  qed
qed

text \<open>Rounding twice is rounding once.\<close>

lemma rounded_digits:
  assumes "0 < q"
  shows "\<exists>n. rounded fmt q = of_int n * 2 powi last_exponent fmt q \<and> 0 \<le> n \<and> n \<le> 2 ^ nat (precision fmt)"
proof -
  let ?e = "last_exponent fmt q" and ?n = "round_even (q / 2 powi last_exponent fmt q)"
  have "ilog2 q + 1 \<le> precision fmt + ?e" using assms by (simp add: last_exponent_def)
  then have "q < 2 powi (precision fmt + ?e)"
    using ilog2_bounds(2) [OF assms] powi_le [of "ilog2 q + 1" "precision fmt + ?e"] by linarith
  then have "q / 2 powi ?e \<le> 2 powi precision fmt"
    by (simp add: power_int_add divide_le_eq less_imp_le)
  also have "\<dots> = of_int (2 ^ nat (precision fmt))"
    using precision_pos [of fmt] by (simp add: power_int_def)
  finally have "?n \<le> 2 ^ nat (precision fmt)" using round_even_mono round_even_of_int by metis
  moreover have "0 \<le> ?n"
    using round_even_mono [of 0 "q / 2 powi ?e"] round_even_of_int [of 0] assms by simp
  moreover have "rounded fmt q = of_int ?n * 2 powi ?e" using assms by (simp add: rounded_def Let_def)
  ultimately show ?thesis by blast
qed

lemma rounded_twice:
  assumes "0 \<le> q"
  shows "rounded fmt (rounded fmt q) = rounded fmt q"
proof (cases "q = 0")
  case False
  let ?e = "last_exponent fmt q"
  obtain n where n: "rounded fmt q = of_int n * 2 powi ?e" "0 \<le> n" "n \<le> 2 ^ nat (precision fmt)"
    using rounded_digits [of q fmt] False assms by auto
  show ?thesis
  proof (cases "n = 2 ^ nat (precision fmt)")
    case True
    moreover have "(2 :: rat) powi precision fmt = of_int (2 ^ nat (precision fmt))"
      using precision_pos [of fmt] by (simp add: power_int_def)
    ultimately have "rounded fmt q = 2 powi (precision fmt + ?e)"
      using n(1) by (simp add: power_int_add)
    moreover have "least_exponent fmt \<le> precision fmt + ?e"
      using last_exponent_ge [of fmt q] precision_pos [of fmt] by linarith
    ultimately show ?thesis by (simp add: rounded_power)
  next
    case False
    then show ?thesis unfolding n(1) using n(2,3) last_exponent_ge by (intro rounded_scaled) simp_all
  qed
qed simp

end
