(* ===== verification/Native_Pcm_Source.thy ===== *)
theory Native_Pcm_Source
  imports Audio_Endpoint Ieee_Float "HOL-Library.Monad_Syntax"
begin

text \<open>
  The client of the audio endpoint's property interface, \<open>engine/windows/native_pcm_source.cpp\<close>, with the
  endpoint volume of \<open>native_pcm_volume_logic.h\<close>.  The device, the enumeration of interfaces, the volume
  of the Windows endpoint, the allocator, the clock and \<open>pow\<close> are a record of functions over a world.  A
  query of a property gives the error of \<open>DeviceIoControl\<close>, or the structure, \<^const>\<open>None\<close> if fewer bytes came
  back than the structure has.
\<close>

datatype native_pcm_source_status =
  NATIVE_PCM_SOURCE_OK | NATIVE_PCM_SOURCE_INVALID_ARGUMENT | NATIVE_PCM_SOURCE_NO_MEMORY
| NATIVE_PCM_SOURCE_NOT_FOUND | NATIVE_PCM_SOURCE_IO_ERROR | NATIVE_PCM_SOURCE_UNSUPPORTED_FORMAT
| NATIVE_PCM_SOURCE_TIMEOUT | NATIVE_PCM_SOURCE_UNSUPPORTED_PROPERTY

abbreviation (input) "ERROR_INVALID_FUNCTION \<equiv> (1 :: u32)"
abbreviation (input) "ERROR_INVALID_DATA \<equiv> (13 :: u32)"
abbreviation (input) "ERROR_OUTOFMEMORY \<equiv> (14 :: u32)"
abbreviation (input) "ERROR_NOT_SUPPORTED \<equiv> (50 :: u32)"
abbreviation (input) "WAIT_TIMEOUT_ERROR \<equiv> (258 :: u32)"
abbreviation (input) "ERROR_NOT_FOUND \<equiv> (1168 :: u32)"
abbreviation (input) "ERROR_SET_NOT_FOUND \<equiv> (1170 :: u32)"
abbreviation (input) "NATIVE_PCM_LINK_DISCONNECTED \<equiv> (0 :: u32)"
abbreviation (input) "NATIVE_PCM_LINK_STOPPING \<equiv> (3 :: u32)"

section \<open>The volume of the endpoint\<close>

record native_pcm_volume_state =
  nv_available :: bool
  nv_muted :: bool
  nv_scalar :: ieee
  nv_decibels :: ieee
  nv_gain :: ieee

definition native_pcm_volume_fail_muted :: native_pcm_volume_state where
  "native_pcm_volume_fail_muted =
     \<lparr>nv_available = False, nv_muted = True, nv_scalar = Fin 0, nv_decibels = Fin (- 96), nv_gain = Fin 0\<rparr>"

text \<open>\<open>pow10 x\<close> stands for \<open>std::pow(10.0, x)\<close>.\<close>

definition native_pcm_volume_set_endpoint ::
  "(ieee \<Rightarrow> ieee) \<Rightarrow> bool \<Rightarrow> ieee \<Rightarrow> ieee \<Rightarrow> native_pcm_volume_state" where
  "native_pcm_volume_set_endpoint pow10 muted scalar decibels =
     \<lparr>nv_available = True, nv_muted = muted, nv_scalar = fl_clamp scalar (Fin 0) (Fin 1),
      nv_decibels = decibels,
      nv_gain = fl_clamp
        (if muted then Fin 0
         else fl_convert Single (pow10 (fl_div Double (fl_convert Double decibels) (Fin 20))))
        (Fin 0) (Fin 1)\<rparr>"

definition native_pcm_volume_apply :: "ieee list \<Rightarrow> native_pcm_volume_state \<Rightarrow> ieee list" where
  "native_pcm_volume_apply samples state =
     (if fl_equal (nv_gain state) (Fin 1) then samples
      else map (\<lambda>sample. fl_mult Single sample (nv_gain state)) samples)"

section \<open>The source and its device\<close>

record native_pcm_source =
  np_info :: NATIVE_LDAC_PCM_INFO
  np_fifo :: "ieee list"
  np_last_error :: u32
  np_fifo_epoch :: u64
  np_endpoint_volume :: bool
  np_volume :: native_pcm_volume_state
  np_next_volume_bind_tick :: u64
  np_next_volume_refresh_tick :: u64
  np_preferred_format :: NATIVE_LDAC_PREFERRED_FORMAT
  np_consumer_generation :: u64
  np_apply_endpoint_volume :: bool
  np_consumer_lease_acquired :: bool

text \<open>One device interface of the enumeration: its detail cannot be had, or it has a path.\<close>

datatype interface_detail = Detail_Skipped | Detail_NoMemory | Detail_Path nat

type_synonym ('v, 'w) property_query = "'w \<Rightarrow> ('v option + u32) \<times> 'w"

record 'w native_device =
  nd_enumerate :: "'w \<Rightarrow> (interface_detail list + u32) \<times> 'w"
  nd_create_file :: "nat \<Rightarrow> 'w \<Rightarrow> u32 option \<times> 'w"
  nd_close_handle :: "'w \<Rightarrow> 'w"
  nd_new :: "'w \<Rightarrow> bool \<times> 'w"
  nd_reserve :: "nat \<Rightarrow> 'w \<Rightarrow> bool \<times> 'w"
  nd_query_info :: "(NATIVE_LDAC_PCM_INFO, 'w) property_query"
  nd_query_read :: "(NATIVE_LDAC_PCM_READ_HEADER \<times> bytes, 'w) property_query"
  nd_query_link :: "(NATIVE_LDAC_LINK_STATE, 'w) property_query"
  nd_query_preferred :: "(NATIVE_LDAC_PREFERRED_FORMAT, 'w) property_query"
  nd_set_lease :: "NATIVE_LDAC_PCM_CONSUMER_LEASE \<Rightarrow> 'w \<Rightarrow> u32 option \<times> 'w"
  nd_set_link :: "NATIVE_LDAC_LINK_STATE \<Rightarrow> 'w \<Rightarrow> u32 option \<times> 'w"
  nd_set_preferred :: "NATIVE_LDAC_PREFERRED_FORMAT \<Rightarrow> 'w \<Rightarrow> u32 option \<times> 'w"
  nd_bind_volume :: "'w \<Rightarrow> bool \<times> 'w"
  nd_query_volume :: "'w \<Rightarrow> (bool \<times> ieee \<times> ieee) option \<times> 'w"
  nd_release_volume :: "'w \<Rightarrow> 'w"
  nd_co_initialize :: "'w \<Rightarrow> (bool \<times> bool) \<times> 'w"
  nd_tick :: "'w \<Rightarrow> u64 \<times> 'w"
  nd_sleep :: "nat \<Rightarrow> 'w \<Rightarrow> 'w"
  nd_pow10 :: "ieee \<Rightarrow> ieee"

type_synonym 'w native_state = "native_pcm_source \<times> 'w"

definition PCM_INFO_zero :: NATIVE_LDAC_PCM_INFO where
  "PCM_INFO_zero =
     \<lparr>pi_Size = 0, pi_AbiVersion = 0, pi_SampleRate = 0, pi_Channels = 0, pi_BitsPerSample = 0,
      pi_BlockAlign = 0, pi_CapacityBytes = 0, pi_AvailableBytes = 0, pi_Flags = 0, pi_StreamEpoch = 0,
      pi_TotalBytesWritten = 0, pi_TotalBytesRead = 0, pi_TotalBytesDropped = 0\<rparr>"

definition PREFERRED_FORMAT_zero :: NATIVE_LDAC_PREFERRED_FORMAT where
  "PREFERRED_FORMAT_zero =
     \<lparr>pf_Size = 0, pf_AbiVersion = 0, pf_SampleRate = 0, pf_BitsPerSample = 0, pf_Flags = 0,
      pf_SupportedSampleRates = 0, pf_SupportedBitsPerSample = 0, pf_Revision = 0\<rparr>"

definition native_pcm_source_new :: native_pcm_source where
  "native_pcm_source_new =
     \<lparr>np_info = PCM_INFO_zero, np_fifo = [], np_last_error = 0, np_fifo_epoch = 0,
      np_endpoint_volume = False, np_volume = native_pcm_volume_fail_muted,
      np_next_volume_bind_tick = 0, np_next_volume_refresh_tick = 0,
      np_preferred_format = PREFERRED_FORMAT_zero, np_consumer_generation = 0,
      np_apply_endpoint_volume = True, np_consumer_lease_acquired = False\<rparr>"

text \<open>The two calls of the property interface; the answer of a query is \<^const>\<open>None\<close> if it fails.\<close>

definition query_property ::
  "('v, 'w) property_query \<Rightarrow> 'w native_state \<Rightarrow> 'v option option \<times> 'w native_state" where
  "query_property query = (\<lambda>(s, w).
     case query w of
       (Inl value', w1) \<Rightarrow> (Some value', s\<lparr>np_last_error := 0\<rparr>, w1)
     | (Inr error, w1) \<Rightarrow> (None, s\<lparr>np_last_error := error\<rparr>, w1))"

definition set_property ::
  "('w \<Rightarrow> u32 option \<times> 'w) \<Rightarrow> 'w native_state \<Rightarrow> bool \<times> 'w native_state" where
  "set_property set' = (\<lambda>(s, w).
     case set' w of
       (None, w1) \<Rightarrow> (True, s\<lparr>np_last_error := 0\<rparr>, w1)
     | (Some error, w1) \<Rightarrow> (False, s\<lparr>np_last_error := error\<rparr>, w1))"

definition property_error_status :: "native_pcm_source \<Rightarrow> native_pcm_source_status" where
  "property_error_status s =
     (if np_last_error s = ERROR_SET_NOT_FOUND \<or> np_last_error s = ERROR_NOT_FOUND \<or>
         np_last_error s = ERROR_NOT_SUPPORTED \<or> np_last_error s = ERROR_INVALID_FUNCTION
      then NATIVE_PCM_SOURCE_UNSUPPORTED_PROPERTY else NATIVE_PCM_SOURCE_IO_ERROR)"

definition fail_with :: "u32 \<Rightarrow> 'w native_state \<Rightarrow> 'w native_state" where
  "fail_with error = (\<lambda>(s, w). (s\<lparr>np_last_error := error\<rparr>, w))"

definition supported_preferred_format :: "NATIVE_LDAC_PREFERRED_FORMAT \<Rightarrow> bool" where
  "supported_preferred_format format \<longleftrightarrow>
     pf_Size format = 32 \<and> pf_AbiVersion format = 1 \<and> pf_Flags format = NATIVE_LDAC_FORMAT_FLAG_NONE \<and>
     (pf_SampleRate format = 44100 \<or> pf_SampleRate format = 48000 \<or> pf_SampleRate format = 88200 \<or>
      pf_SampleRate format = 96000) \<and>
     (pf_BitsPerSample format = 16 \<or> pf_BitsPerSample format = 24) \<and>
     pf_SupportedSampleRates format AND (1 OR 2 OR 4 OR 8) \<noteq> 0 \<and>
     pf_SupportedBitsPerSample format AND (1 OR 2) \<noteq> 0"

definition supported_format :: "NATIVE_LDAC_PCM_INFO \<Rightarrow> bool" where
  "supported_format info \<longleftrightarrow>
     (let expected_block_align =
            (if pi_BitsPerSample info = 24 then ucast (pi_Channels info) * 4
             else ucast (pi_Channels info) * 2)
      in pi_Size info \<ge> 64 \<and> pi_AbiVersion info = NATIVE_LDAC_PCM_ABI_VERSION \<and>
         (pi_SampleRate info = 44100 \<or> pi_SampleRate info = 48000 \<or> pi_SampleRate info = 88200 \<or>
          pi_SampleRate info = 96000) \<and>
         pi_Channels info = 2 \<and> (pi_BitsPerSample info = 16 \<or> pi_BitsPerSample info = 24) \<and>
         pi_BlockAlign info = expected_block_align)"

section \<open>The endpoint volume\<close>

text \<open>The refresh of a bound volume, and the binding, which refreshes at once.\<close>

definition refresh_bound_volume :: "'w native_device \<Rightarrow> bool \<Rightarrow> 'w native_state \<Rightarrow> 'w native_state" where
  "refresh_bound_volume dev force = (\<lambda>(s, w).
     let (now, w1) = nd_tick dev w
     in if \<not> force \<and> now < np_next_volume_refresh_tick s then (s, w1)
        else
          let s1 = s\<lparr>np_next_volume_refresh_tick := now + 20\<rparr>
          in case nd_query_volume dev w1 of
               (None, w2) \<Rightarrow>
                 (s1\<lparr>np_endpoint_volume := False, np_volume := native_pcm_volume_fail_muted,
                     np_next_volume_bind_tick := now + 1000\<rparr>, nd_release_volume dev w2)
             | (Some (muted, scalar, decibels), w2) \<Rightarrow>
                 (s1\<lparr>np_volume :=
                       native_pcm_volume_set_endpoint (nd_pow10 dev) muted scalar decibels\<rparr>, w2))"

definition try_bind_endpoint_volume ::
  "'w native_device \<Rightarrow> bool \<Rightarrow> 'w native_state \<Rightarrow> 'w native_state" where
  "try_bind_endpoint_volume dev force = (\<lambda>(s, w).
     let (now, w1) = nd_tick dev w
     in if np_endpoint_volume s \<or> (\<not> force \<and> now < np_next_volume_bind_tick s) then (s, w1)
        else
          let s1 = s\<lparr>np_next_volume_bind_tick := now + 1000\<rparr>;
              (bound, w2) = nd_bind_volume dev w1
          in if bound then refresh_bound_volume dev True (s1\<lparr>np_endpoint_volume := True\<rparr>, w2)
             else (s1, w2))"

definition refresh_endpoint_volume ::
  "'w native_device \<Rightarrow> bool \<Rightarrow> 'w native_state \<Rightarrow> 'w native_state" where
  "refresh_endpoint_volume dev force = (\<lambda>(s, w).
     if np_endpoint_volume s then refresh_bound_volume dev force (s, w)
     else let (now, w1) = nd_tick dev w in try_bind_endpoint_volume dev force (s, w1))"

definition initialize_endpoint_volume :: "'w native_device \<Rightarrow> 'w native_state \<Rightarrow> 'w native_state" where
  "initialize_endpoint_volume dev = (\<lambda>(s, w).
     let ((succeeded, changed_mode), w1) = nd_co_initialize dev w
     in if \<not> succeeded \<and> \<not> changed_mode then (s, w1)
        else try_bind_endpoint_volume dev True (s, w1))"

section \<open>Creation and destruction\<close>

definition fallback_preferred :: "NATIVE_LDAC_PCM_INFO \<Rightarrow> NATIVE_LDAC_PREFERRED_FORMAT" where
  "fallback_preferred info =
     PREFERRED_FORMAT_zero\<lparr>pf_Size := 32, pf_AbiVersion := 1, pf_SampleRate := pi_SampleRate info,
       pf_BitsPerSample := ucast (pi_BitsPerSample info)\<rparr>"

text \<open>The part after a device has answered with its information.\<close>

definition adopt_device ::
  "'w native_device \<Rightarrow> NATIVE_LDAC_PCM_INFO \<Rightarrow> 'w native_state \<Rightarrow> 'w native_state" where
  "adopt_device dev info = (\<lambda>(s, w).
     let s1 = s\<lparr>np_info := info, np_fifo_epoch := pi_StreamEpoch info\<rparr>;
         (answer, s2, w2) = query_property (nd_query_preferred dev) (s1, w);
         preferred =
           (case answer of
              Some (Some format) \<Rightarrow>
                if supported_preferred_format format then format else fallback_preferred info
            | _ \<Rightarrow> fallback_preferred info)
     in (s2\<lparr>np_preferred_format := preferred, np_last_error := 0\<rparr>, w2))"

text \<open>The information of an opened device, if it has this interface.\<close>

definition probe_device ::
  "'w native_device \<Rightarrow> 'w native_state \<Rightarrow> NATIVE_LDAC_PCM_INFO option \<times> 'w native_state" where
  "probe_device dev s =
     (case query_property (nd_query_info dev) s of
        (Some (Some info), s1) \<Rightarrow>
          (if pi_AbiVersion info = NATIVE_LDAC_PCM_ABI_VERSION then Some info else None, s1)
      | (_, s1) \<Rightarrow> (None, s1))"

fun open_candidates ::
  "'w native_device \<Rightarrow> interface_detail list \<Rightarrow> 'w native_state \<Rightarrow>
   native_pcm_source_status \<times> 'w native_state" where
  "open_candidates dev [] s = (NATIVE_PCM_SOURCE_NOT_FOUND, s)"
| "open_candidates dev (Detail_Skipped # rest) s = open_candidates dev rest s"
| "open_candidates dev (Detail_NoMemory # rest) s =
     (NATIVE_PCM_SOURCE_NO_MEMORY, fail_with ERROR_OUTOFMEMORY s)"
| "open_candidates dev (Detail_Path path # rest) (s, w) =
     (case nd_create_file dev path w of
        (Some error, w1) \<Rightarrow> open_candidates dev rest (s, w1)
      | (None, w1) \<Rightarrow>
          (case probe_device dev (s, w1) of
             (None, s2, w2) \<Rightarrow> open_candidates dev rest (s2, nd_close_handle dev w2)
           | (Some info, s2, w2) \<Rightarrow>
               if \<not> supported_format info
               then (NATIVE_PCM_SOURCE_UNSUPPORTED_FORMAT,
                     fail_with ERROR_NOT_SUPPORTED (s2, nd_close_handle dev w2))
               else (NATIVE_PCM_SOURCE_OK, adopt_device dev info (s2, w2))))"

definition open_interface ::
  "'w native_device \<Rightarrow> 'w native_state \<Rightarrow> native_pcm_source_status \<times> 'w native_state" where
  "open_interface dev = (\<lambda>(s, w).
     case nd_enumerate dev w of
       (Inr error, w1) \<Rightarrow> (NATIVE_PCM_SOURCE_IO_ERROR, fail_with error (s, w1))
     | (Inl details, w1) \<Rightarrow> open_candidates dev details (fail_with ERROR_NOT_FOUND (s, w1)))"

definition native_pcm_source_create ::
  "'w native_device \<Rightarrow> 'w \<Rightarrow> native_pcm_source_status \<times> native_pcm_source option \<times> 'w" where
  "native_pcm_source_create dev w =
     (let (allocated, w1) = nd_new dev w
      in if \<not> allocated then (NATIVE_PCM_SOURCE_NO_MEMORY, None, w1)
         else
           let (status, s2, w2) = open_interface dev (native_pcm_source_new, w1)
           in if status \<noteq> NATIVE_PCM_SOURCE_OK then (status, None, w2)
              else
                let (s3, w3) = initialize_endpoint_volume dev (s2, w2)
                in (NATIVE_PCM_SOURCE_OK, Some s3, w3))"

text \<open>The creation on a given path; \<open>path\<close> is its index, \<^const>\<open>None\<close> an empty string.\<close>

definition native_pcm_source_create_for_interface ::
  "'w native_device \<Rightarrow> nat option \<Rightarrow> 'w \<Rightarrow> native_pcm_source_status \<times> native_pcm_source option \<times> 'w" where
  "native_pcm_source_create_for_interface dev interface_path w =
     (case interface_path of
        None \<Rightarrow> (NATIVE_PCM_SOURCE_INVALID_ARGUMENT, None, w)
      | Some path \<Rightarrow>
          let (allocated, w1) = nd_new dev w
          in if \<not> allocated then (NATIVE_PCM_SOURCE_NO_MEMORY, None, w1)
             else
               case nd_create_file dev path w1 of
                 (Some error, w2) \<Rightarrow> (NATIVE_PCM_SOURCE_NOT_FOUND, None, w2)
               | (None, w2) \<Rightarrow>
                   (case probe_device dev (native_pcm_source_new, w2) of
                      (None, s3, w3) \<Rightarrow> (NATIVE_PCM_SOURCE_NOT_FOUND, None, nd_close_handle dev w3)
                    | (Some info, s3, w3) \<Rightarrow>
                        if \<not> supported_format info
                        then (NATIVE_PCM_SOURCE_UNSUPPORTED_FORMAT, None, nd_close_handle dev w3)
                        else
                          let (s4, w4) =
                                initialize_endpoint_volume dev (adopt_device dev info (s3, w3))
                          in (NATIVE_PCM_SOURCE_OK, Some s4, w4)))"

section \<open>The lease and the state of the link\<close>

definition consumer_lease :: "u32 \<Rightarrow> u64 \<Rightarrow> NATIVE_LDAC_PCM_CONSUMER_LEASE" where
  "consumer_lease state generation =
     \<lparr>cl_Size = 24, cl_AbiVersion = 1, cl_State = state, cl_Flags = 0,
      cl_ConsumerGeneration = generation\<rparr>"

definition native_pcm_source_acquire_consumer ::
  "'w native_device \<Rightarrow> u64 \<Rightarrow> 'w native_state \<Rightarrow> native_pcm_source_status \<times> 'w native_state" where
  "native_pcm_source_acquire_consumer dev consumer_generation = (\<lambda>(s, w).
     if consumer_generation = 0 then (NATIVE_PCM_SOURCE_INVALID_ARGUMENT, s, w)
     else if np_consumer_lease_acquired s
     then (if np_consumer_generation s = consumer_generation then NATIVE_PCM_SOURCE_OK
           else NATIVE_PCM_SOURCE_INVALID_ARGUMENT, s, w)
     else
       let (ok, s1, w1) =
             set_property (nd_set_lease dev (consumer_lease 1 consumer_generation)) (s, w)
       in if \<not> ok then (property_error_status s1, s1, w1)
          else (NATIVE_PCM_SOURCE_OK,
                s1\<lparr>np_consumer_generation := consumer_generation, np_consumer_lease_acquired := True\<rparr>,
                w1))"

definition native_pcm_source_release_consumer ::
  "'w native_device \<Rightarrow> 'w native_state \<Rightarrow> native_pcm_source_status \<times> 'w native_state" where
  "native_pcm_source_release_consumer dev = (\<lambda>(s, w).
     if \<not> np_consumer_lease_acquired s then (NATIVE_PCM_SOURCE_OK, s, w)
     else
       let (ok, s1, w1) =
             set_property (nd_set_lease dev (consumer_lease 0 (np_consumer_generation s))) (s, w)
       in if \<not> ok then (property_error_status s1, s1, w1)
          else (NATIVE_PCM_SOURCE_OK,
                s1\<lparr>np_consumer_generation := 0, np_consumer_lease_acquired := False\<rparr>, w1))"

text \<open>\<open>CoUninitialize\<close> is not modelled.\<close>

definition native_pcm_source_destroy :: "'w native_device \<Rightarrow> 'w native_state \<Rightarrow> 'w" where
  "native_pcm_source_destroy dev s =
     (let (status, s1, w1) = native_pcm_source_release_consumer dev s;
          w2 = (if np_endpoint_volume s1 then nd_release_volume dev w1 else w1)
      in nd_close_handle dev w2)"

definition native_pcm_source_report_link_state ::
  "'w native_device \<Rightarrow> u32 \<Rightarrow> u64 \<Rightarrow> 'w native_state \<Rightarrow> native_pcm_source_status \<times> 'w native_state" where
  "native_pcm_source_report_link_state dev state session_id = (\<lambda>(s, w).
     if state > NATIVE_PCM_LINK_STOPPING \<or>
        (state \<noteq> NATIVE_PCM_LINK_DISCONNECTED \<and> session_id = 0)
     then (NATIVE_PCM_SOURCE_INVALID_ARGUMENT, s, w)
     else
       let (ok, s1, w1) =
             set_property
               (nd_set_link dev
                 \<lparr>ls_Size = sizeof_NATIVE_LDAC_LINK_STATE,
                  ls_AbiVersion = NATIVE_LDAC_LINK_STATE_ABI_VERSION, ls_State = state,
                  ls_Flags = NATIVE_LDAC_LINK_STATE_FLAG_NONE, ls_SessionId = session_id,
                  ls_UpdateSequence = 0, ls_UpdatedInterruptTime100ns = 0\<rparr>) (s, w)
       in (if ok then NATIVE_PCM_SOURCE_OK else property_error_status s1, s1, w1))"

record native_pcm_link_snapshot =
  nl_state :: u32
  nl_session_id :: u64
  nl_update_sequence :: u64
  nl_updated_interrupt_time_100ns :: u64

definition native_pcm_source_get_link_state ::
  "'w native_device \<Rightarrow> 'w native_state \<Rightarrow>
   (native_pcm_source_status + native_pcm_link_snapshot) \<times> 'w native_state" where
  "native_pcm_source_get_link_state dev s =
     (case query_property (nd_query_link dev) s of
        (None, s1) \<Rightarrow> (Inl (property_error_status (fst s1)), s1)
      | (Some None, s1) \<Rightarrow> (Inl NATIVE_PCM_SOURCE_IO_ERROR, fail_with ERROR_INVALID_DATA s1)
      | (Some (Some state), s1) \<Rightarrow>
          if ls_Size state \<noteq> sizeof_NATIVE_LDAC_LINK_STATE \<or>
             ls_AbiVersion state \<noteq> NATIVE_LDAC_LINK_STATE_ABI_VERSION \<or>
             ls_Flags state \<noteq> NATIVE_LDAC_LINK_STATE_FLAG_NONE \<or>
             ls_State state > NativeLdacLinkStateStopping
          then (Inl NATIVE_PCM_SOURCE_IO_ERROR, fail_with ERROR_INVALID_DATA s1)
          else (Inr \<lparr>nl_state = ls_State state, nl_session_id = ls_SessionId state,
                     nl_update_sequence = ls_UpdateSequence state,
                     nl_updated_interrupt_time_100ns = ls_UpdatedInterruptTime100ns state\<rparr>, s1))"

section \<open>The samples\<close>

text \<open>One sample of 16 bits, of 24 bits, and of 24 bits on the left of a container of 32.\<close>

definition sample_16 :: "u8 \<Rightarrow> u8 \<Rightarrow> ieee" where
  "sample_16 lo hi =
     (let bits = (ucast lo :: u16) OR push_bit 8 (ucast hi)
      in fl_convert Single (fl_div Double (Fin (of_int (sint bits))) (Fin 32768)))"

definition sample_24 :: "u8 \<Rightarrow> u8 \<Rightarrow> u8 \<Rightarrow> ieee" where
  "sample_24 lo mid hi =
     (let value' = (ucast lo :: u32) OR push_bit 8 (ucast mid) OR push_bit 16 (ucast hi);
          extended = (if value' AND 0x00800000 \<noteq> 0 then value' OR 0xFF000000 else value')
      in fl_convert Single (fl_div Double (Fin (of_int (sint extended))) (Fin 8388608)))"

definition sample_32 :: "u8 \<Rightarrow> u8 \<Rightarrow> u8 \<Rightarrow> u8 \<Rightarrow> ieee" where
  "sample_32 b0 b1 b2 b3 =
     (let value' = (ucast b0 :: u32) OR push_bit 8 (ucast b1) OR push_bit 16 (ucast b2) OR
            push_bit 24 (ucast b3)
      in fl_convert Single (fl_div Double (Fin (of_int (sint value' div 256))) (Fin 8388608)))"

fun samples_16 :: "bytes \<Rightarrow> ieee list" where
  "samples_16 (a # b # rest) = sample_16 a b # samples_16 rest"
| "samples_16 _ = []"

fun samples_24 :: "bytes \<Rightarrow> ieee list" where
  "samples_24 (a # b # c # rest) = sample_24 a b c # samples_24 rest"
| "samples_24 _ = []"

fun samples_32 :: "bytes \<Rightarrow> ieee list" where
  "samples_32 (a # b # c # d # rest) = sample_32 a b c d # samples_32 rest"
| "samples_32 _ = []"

text \<open>The samples of a read, if their size is one the code knows.\<close>

definition decode_payload :: "NATIVE_LDAC_PCM_INFO \<Rightarrow> bytes \<Rightarrow> ieee list option" where
  "decode_payload info data =
     (let bytes_per_sample = pi_BlockAlign info div ucast (pi_Channels info)
      in if bytes_per_sample = 2 then Some (samples_16 data)
         else if bytes_per_sample = 3 then Some (samples_24 data)
         else if bytes_per_sample = 4 \<and> pi_BitsPerSample info = 24 then Some (samples_32 data)
         else None)"

section \<open>Reading\<close>

definition drain_driver ::
  "'w native_device \<Rightarrow> 'w native_state \<Rightarrow> native_pcm_source_status \<times> 'w native_state" where
  "drain_driver dev s =
     (case query_property (nd_query_read dev) s of
        (None, s1) \<Rightarrow> (NATIVE_PCM_SOURCE_IO_ERROR, s1)
      | (Some None, s1) \<Rightarrow> (NATIVE_PCM_SOURCE_IO_ERROR, fail_with ERROR_INVALID_DATA s1)
      | (Some (Some (result, payload)), s1, w1) \<Rightarrow>
          let info = rh_InfoBeforeRead result
          in if \<not> supported_format info \<or> unat (rh_BytesReturned result) > length payload \<or>
                rh_BytesReturned result mod pi_BlockAlign info \<noteq> 0
             then (NATIVE_PCM_SOURCE_IO_ERROR, fail_with ERROR_INVALID_DATA (s1, w1))
             else
               let s2 = (if np_fifo_epoch s1 \<noteq> pi_StreamEpoch info
                         then s1\<lparr>np_fifo := [], np_fifo_epoch := pi_StreamEpoch info\<rparr> else s1);
                   s3 = s2\<lparr>np_info := info\<lparr>pi_AvailableBytes := rh_AvailableBytesAfterRead result\<rparr>\<rparr>;
                   data = take (unat (rh_BytesReturned result)) payload;
                   sample_count = unat (rh_BytesReturned result) div
                     unat (pi_BlockAlign info div ucast (pi_Channels info));
                   (reserved, w2) = nd_reserve dev (length (np_fifo s3) + sample_count) w1
               in if \<not> reserved then (NATIVE_PCM_SOURCE_NO_MEMORY, fail_with ERROR_OUTOFMEMORY (s3, w2))
                  else
                    case decode_payload info data of
                      None \<Rightarrow> (NATIVE_PCM_SOURCE_IO_ERROR, fail_with ERROR_INVALID_DATA (s3, w2))
                    | Some samples \<Rightarrow>
                        (NATIVE_PCM_SOURCE_OK, s3\<lparr>np_fifo := np_fifo s3 @ samples\<rparr>, w2))"

text \<open>The delivery of samples from the queue.\<close>

definition deliver_samples ::
  "'w native_device \<Rightarrow> nat \<Rightarrow> 'w native_state \<Rightarrow> ieee list \<times> 'w native_state" where
  "deliver_samples dev requested_samples s =
     (let (s1, w1) = refresh_endpoint_volume dev False s;
          samples = take requested_samples (np_fifo s1)
      in (if np_apply_endpoint_volume s1 then native_pcm_volume_apply samples (np_volume s1) else samples,
          s1\<lparr>np_fifo := drop requested_samples (np_fifo s1)\<rparr>, w1))"

partial_function (option) read_loop ::
  "'w native_device \<Rightarrow> nat \<Rightarrow> u64 \<Rightarrow> 'w native_state \<Rightarrow>
   (native_pcm_source_status \<times> ieee list \<times> 'w native_state) option" where
  "read_loop dev requested_samples deadline s =
     (if length (np_fifo (fst s)) \<ge> requested_samples
      then Some (NATIVE_PCM_SOURCE_OK, deliver_samples dev requested_samples s)
      else
        let (status, s1) = drain_driver dev s
        in if status \<noteq> NATIVE_PCM_SOURCE_OK then Some (status, [], s1)
           else if length (np_fifo (fst s1)) \<ge> requested_samples
           then read_loop dev requested_samples deadline s1
           else
             let (time, w2) = nd_tick dev (snd s1)
             in if time \<ge> deadline
                then Some (NATIVE_PCM_SOURCE_TIMEOUT, [], fail_with WAIT_TIMEOUT_ERROR (fst s1, w2))
                else read_loop dev requested_samples deadline (fst s1, nd_sleep dev 1 w2))"

text \<open>The number of frames is returned as the length of the samples, two for each.\<close>

definition native_pcm_source_read_f32_stereo ::
  "'w native_device \<Rightarrow> nat \<Rightarrow> u32 \<Rightarrow> 'w native_state \<Rightarrow>
   (native_pcm_source_status \<times> ieee list \<times> 'w native_state) option" where
  "native_pcm_source_read_f32_stereo dev requested_frames timeout_ms = (\<lambda>(s, w).
     if requested_frames = 0 \<or> requested_frames > (2 ^ 64 - 1) div 2
     then Some (NATIVE_PCM_SOURCE_INVALID_ARGUMENT, [], s, w)
     else
       let (time, w1) = nd_tick dev w
       in read_loop dev (requested_frames * 2) (time + ucast timeout_ms) (s, w1))"

record native_pcm_source_snapshot =
  nn_sample_rate_hz :: u32
  nn_channels :: u32
  nn_bits_per_sample :: u32
  nn_available_bytes :: u32
  nn_capacity_bytes :: u32
  nn_stream_active :: bool
  nn_discontinuity :: bool
  nn_stream_epoch :: u64
  nn_total_bytes_written :: u64
  nn_total_bytes_read :: u64
  nn_total_bytes_dropped :: u64
  nn_volume_control_available :: bool
  nn_muted :: bool
  nn_volume_scalar :: ieee
  nn_volume_db :: ieee

definition native_pcm_source_get_snapshot ::
  "'w native_device \<Rightarrow> 'w native_state \<Rightarrow>
   (native_pcm_source_status + native_pcm_source_snapshot) \<times> 'w native_state" where
  "native_pcm_source_get_snapshot dev s =
     (case query_property (nd_query_info dev) s of
        (None, s1) \<Rightarrow> (Inl NATIVE_PCM_SOURCE_IO_ERROR, s1)
      | (Some None, s1) \<Rightarrow> (Inl NATIVE_PCM_SOURCE_IO_ERROR, fail_with ERROR_INVALID_DATA s1)
      | (Some (Some info), s1, w1) \<Rightarrow>
          if \<not> supported_format info
          then (Inl NATIVE_PCM_SOURCE_IO_ERROR, fail_with ERROR_INVALID_DATA (s1, w1))
          else
            let (s2, w2) = refresh_endpoint_volume dev False (s1\<lparr>np_info := info\<rparr>, w1);
                volume = np_volume s2
            in (Inr \<lparr>nn_sample_rate_hz = pi_SampleRate info, nn_channels = ucast (pi_Channels info),
                     nn_bits_per_sample = ucast (pi_BitsPerSample info),
                     nn_available_bytes = pi_AvailableBytes info,
                     nn_capacity_bytes = pi_CapacityBytes info,
                     nn_stream_active = (pi_Flags info AND NATIVE_LDAC_PCM_FLAG_STREAM_ACTIVE \<noteq> 0),
                     nn_discontinuity = (pi_Flags info AND NATIVE_LDAC_PCM_FLAG_DISCONTINUITY \<noteq> 0),
                     nn_stream_epoch = pi_StreamEpoch info,
                     nn_total_bytes_written = pi_TotalBytesWritten info,
                     nn_total_bytes_read = pi_TotalBytesRead info,
                     nn_total_bytes_dropped = pi_TotalBytesDropped info,
                     nn_volume_control_available = nv_available volume, nn_muted = nv_muted volume,
                     nn_volume_scalar = nv_scalar volume, nn_volume_db = nv_decibels volume\<rparr>,
                s2, w2))"

section \<open>The preferred format\<close>

record native_pcm_preferred_format =
  nf_sample_rate_hz :: u32
  nf_bits_per_sample :: u32
  nf_supported_sample_rates :: u32
  nf_supported_bits_per_sample :: u32
  nf_revision :: u32

definition native_pcm_source_get_preferred_format ::
  "'w native_device \<Rightarrow> 'w native_state \<Rightarrow>
   (native_pcm_source_status + native_pcm_preferred_format) \<times> 'w native_state" where
  "native_pcm_source_get_preferred_format dev s =
     (case query_property (nd_query_preferred dev) s of
        (None, s1) \<Rightarrow> (Inl (property_error_status (fst s1)), s1)
      | (Some None, s1) \<Rightarrow> (Inl NATIVE_PCM_SOURCE_IO_ERROR, fail_with ERROR_INVALID_DATA s1)
      | (Some (Some queried), s1, w1) \<Rightarrow>
          if \<not> supported_preferred_format queried
          then (Inl NATIVE_PCM_SOURCE_IO_ERROR, fail_with ERROR_INVALID_DATA (s1, w1))
          else (Inr \<lparr>nf_sample_rate_hz = pf_SampleRate queried,
                     nf_bits_per_sample = pf_BitsPerSample queried,
                     nf_supported_sample_rates = pf_SupportedSampleRates queried,
                     nf_supported_bits_per_sample = pf_SupportedBitsPerSample queried,
                     nf_revision = pf_Revision queried\<rparr>,
                s1\<lparr>np_preferred_format := queried\<rparr>, w1))"

definition native_pcm_source_set_preferred_format ::
  "'w native_device \<Rightarrow> u32 \<Rightarrow> u32 \<Rightarrow> 'w native_state \<Rightarrow>
   (native_pcm_source_status + native_pcm_preferred_format) \<times> 'w native_state" where
  "native_pcm_source_set_preferred_format dev sample_rate_hz bits_per_sample s =
     (if (sample_rate_hz \<noteq> 44100 \<and> sample_rate_hz \<noteq> 48000 \<and> sample_rate_hz \<noteq> 88200 \<and>
          sample_rate_hz \<noteq> 96000) \<or> (bits_per_sample \<noteq> 16 \<and> bits_per_sample \<noteq> 24)
      then (Inl NATIVE_PCM_SOURCE_INVALID_ARGUMENT, s)
      else
        let (ok, s1) =
              set_property
                (nd_set_preferred dev
                  (PREFERRED_FORMAT_zero\<lparr>pf_Size := 32, pf_AbiVersion := 1,
                     pf_SampleRate := sample_rate_hz, pf_BitsPerSample := bits_per_sample\<rparr>)) s
        in if \<not> ok then (Inl (property_error_status (fst s1)), s1)
           else
             case native_pcm_source_get_preferred_format dev s1 of
               (Inl status, s2) \<Rightarrow> (Inl status, s2)
             | (Inr queried, s2, w2) \<Rightarrow>
                 if nf_sample_rate_hz queried \<noteq> sample_rate_hz \<or>
                    nf_bits_per_sample queried \<noteq> bits_per_sample
                 then (Inl NATIVE_PCM_SOURCE_IO_ERROR, fail_with ERROR_INVALID_DATA (s2, w2))
                 else (Inr queried, s2\<lparr>np_fifo := []\<rparr>, w2))"

definition native_pcm_source_set_apply_endpoint_volume :: "bool \<Rightarrow> native_pcm_source \<Rightarrow> native_pcm_source" where
  "native_pcm_source_set_apply_endpoint_volume apply' s = s\<lparr>np_apply_endpoint_volume := apply'\<rparr>"

end
