(* ===== verification/Abr_Controller.thy ===== *)
theory Abr_Controller
  imports Ldac_Encoder
begin

text \<open>
  The adaptive bit rate controller, \<open>engine/src/abr_controller.c\<close>: once per window of the media writes
  it lowers the quality of the encoder when too many writes were slow and raises it again when the
  link has been clean for long enough.  \<open>ldac_encoder_quality\<close> counts down: HQ is 0, MQ is 2.
\<close>

abbreviation (input) "LDAC_ABR_WARMUP_WINDOWS \<equiv> (2 :: u32)"
abbreviation (input) "LDAC_ABR_DOWNGRADE_SLOW_PERCENT \<equiv> (20 :: u32)"
abbreviation (input) "LDAC_ABR_SEVERE_SLOW_PERCENT \<equiv> (60 :: u32)"
abbreviation (input) "LDAC_ABR_CLEAN_PACKET_PERCENT \<equiv> (3 :: u32)"
abbreviation (input) "LDAC_ABR_SWITCH_COOLDOWN_WINDOWS \<equiv> (5 :: u32)"
abbreviation (input) "LDAC_ABR_UPGRADE_CLEAN_WINDOWS \<equiv> (20 :: u32)"

record ldac_abr_window =
  aw_total_packets :: u32
  aw_late_packets :: u32
  aw_slow_write_packets :: u32
  aw_max_schedule_lag_us :: u64
  aw_max_write_us :: u64

datatype ldac_abr_reason =
  LDAC_ABR_REASON_NONE | LDAC_ABR_REASON_CONGESTION | LDAC_ABR_REASON_CLEAN_LINK

record ldac_abr_decision =
  ad_quality :: ldac_encoder_quality
  ad_reason :: ldac_abr_reason
  ad_changed :: bool

record ldac_abr_controller =
  ac_quality :: ldac_encoder_quality
  ac_warmup_windows :: u32
  ac_clean_windows :: u32
  ac_cooldown_windows :: u32

definition valid_quality :: "ldac_encoder_quality \<Rightarrow> bool" where
  "valid_quality quality \<longleftrightarrow>
     quality = LDAC_ENCODER_QUALITY_HQ \<or> quality = LDAC_ENCODER_QUALITY_SQ \<or>
     quality = LDAC_ENCODER_QUALITY_MQ"

definition percentage_at_least :: "u32 \<Rightarrow> u32 \<Rightarrow> u32 \<Rightarrow> bool" where
  "percentage_at_least count total_count percentage \<longleftrightarrow>
     (if total_count = 0 then False
      else (ucast count :: u64) * 100 \<ge> (ucast total_count :: u64) * ucast percentage)"

definition ldac_abr_init :: "ldac_encoder_quality \<Rightarrow> ldac_abr_controller" where
  "ldac_abr_init initial_quality =
     \<lparr>ac_quality =
        (if valid_quality initial_quality then initial_quality else LDAC_ENCODER_QUALITY_HQ),
      ac_warmup_windows = LDAC_ABR_WARMUP_WINDOWS, ac_clean_windows = 0, ac_cooldown_windows = 0\<rparr>"

definition ldac_abr_update ::
  "ldac_abr_controller \<Rightarrow> ldac_abr_window \<Rightarrow> ldac_abr_controller \<times> ldac_abr_decision" where
  "ldac_abr_update controller window =
     (let decision =
            \<lparr>ad_quality = ac_quality controller, ad_reason = LDAC_ABR_REASON_NONE, ad_changed = False\<rparr>
      in if aw_total_packets window = 0 then (controller, decision)
         else if ac_warmup_windows controller > 0
         then (controller\<lparr>ac_warmup_windows := ac_warmup_windows controller - 1,
                          ac_clean_windows := 0\<rparr>, decision)
         else
           let congested = percentage_at_least (aw_slow_write_packets window)
                 (aw_total_packets window) LDAC_ABR_DOWNGRADE_SLOW_PERCENT;
               severe = percentage_at_least (aw_slow_write_packets window)
                 (aw_total_packets window) LDAC_ABR_SEVERE_SLOW_PERCENT;
               clean = (\<not> percentage_at_least (aw_slow_write_packets window)
                 (aw_total_packets window) LDAC_ABR_CLEAN_PACKET_PERCENT);
               wasCoolingDown = (ac_cooldown_windows controller > 0);
               c1 = (if wasCoolingDown
                     then controller\<lparr>ac_cooldown_windows := ac_cooldown_windows controller - 1\<rparr>
                     else controller)
           in if congested \<and> ac_quality c1 < LDAC_ENCODER_QUALITY_MQ \<and>
                 (\<not> wasCoolingDown \<or> severe)
              then (c1\<lparr>ac_quality := ac_quality c1 + 1, ac_clean_windows := 0,
                       ac_cooldown_windows := LDAC_ABR_SWITCH_COOLDOWN_WINDOWS\<rparr>,
                    \<lparr>ad_quality = ac_quality c1 + 1, ad_reason = LDAC_ABR_REASON_CONGESTION,
                     ad_changed = True\<rparr>)
              else if wasCoolingDown then (c1\<lparr>ac_clean_windows := 0\<rparr>, decision)
              else if \<not> clean \<or> ac_quality c1 = LDAC_ENCODER_QUALITY_HQ
              then (c1\<lparr>ac_clean_windows := 0\<rparr>, decision)
              else
                let c2 = c1\<lparr>ac_clean_windows := ac_clean_windows c1 + 1\<rparr>
                in if ac_clean_windows c2 \<ge> LDAC_ABR_UPGRADE_CLEAN_WINDOWS
                   then (c2\<lparr>ac_quality := ac_quality c2 - 1, ac_clean_windows := 0,
                            ac_cooldown_windows := LDAC_ABR_SWITCH_COOLDOWN_WINDOWS\<rparr>,
                         \<lparr>ad_quality = ac_quality c2 - 1, ad_reason = LDAC_ABR_REASON_CLEAN_LINK,
                          ad_changed = True\<rparr>)
                   else (c2, decision))"

section \<open>The shares\<close>

text \<open>The percentages are exact: the products do not overflow their 64 bits.\<close>

lemma percentage_exact:
  "percentage_at_least count total_count percentage \<longleftrightarrow>
     total_count \<noteq> 0 \<and> unat total_count * unat percentage \<le> 100 * unat count"
proof -
  have "unat (ucast a * ucast b :: u64) = unat a * unat b" for a b :: u32
  proof -
    have bounds: "unat a < 2 ^ 32" "unat b < 2 ^ 32"
      using unsigned_less [of a] unsigned_less [of b] by simp_all
    then have "unat a * unat b < 2 ^ 32 * 2 ^ 32"
      by (intro mult_strict_mono) auto
    then show ?thesis
      using bounds
      by (simp add: unat_word_ariths unsigned_ucast_eq take_bit_eq_mod)
  qed
  from this [of total_count percentage] this [of count 100] show ?thesis
    by (simp add: percentage_at_least_def word_le_nat_alt mult.commute)
qed

definition congested_window :: "ldac_abr_window \<Rightarrow> bool" where
  "congested_window w \<longleftrightarrow> aw_total_packets w \<noteq> 0 \<and>
     20 * unat (aw_total_packets w) \<le> 100 * unat (aw_slow_write_packets w)"

definition severe_window :: "ldac_abr_window \<Rightarrow> bool" where
  "severe_window w \<longleftrightarrow> aw_total_packets w \<noteq> 0 \<and>
     60 * unat (aw_total_packets w) \<le> 100 * unat (aw_slow_write_packets w)"

definition clean_window :: "ldac_abr_window \<Rightarrow> bool" where
  "clean_window w \<longleftrightarrow> aw_total_packets w \<noteq> 0 \<and>
     100 * unat (aw_slow_write_packets w) < 3 * unat (aw_total_packets w)"

lemma window_kinds:
  "aw_total_packets w \<noteq> 0 \<Longrightarrow>
     percentage_at_least (aw_slow_write_packets w) (aw_total_packets w) 20 = congested_window w"
  "aw_total_packets w \<noteq> 0 \<Longrightarrow>
     percentage_at_least (aw_slow_write_packets w) (aw_total_packets w) 60 = severe_window w"
  "aw_total_packets w \<noteq> 0 \<Longrightarrow>
     percentage_at_least (aw_slow_write_packets w) (aw_total_packets w) 3 = (\<not> clean_window w)"
  by (auto simp: percentage_exact congested_window_def severe_window_def clean_window_def mult.commute)

lemma clean_not_congested: "clean_window w \<Longrightarrow> \<not> congested_window w"
  by (auto simp: clean_window_def congested_window_def)

section \<open>The controller and its history\<close>

text \<open>
  The history of a controller: the windows that carried packets, newest first, each with whether the
  quality changed at it.
\<close>

type_synonym abr_history = "(ldac_abr_window \<times> bool) list"

definition abr_note :: "ldac_abr_controller \<times> abr_history \<Rightarrow> ldac_abr_window \<Rightarrow> ldac_abr_controller \<times> abr_history" where
  "abr_note = (\<lambda>(c, history) w. let (c', d) = ldac_abr_update c w
     in (c', if aw_total_packets w = 0 then history else (w, ad_changed d) # history))"

definition abr_run :: "ldac_encoder_quality \<Rightarrow> ldac_abr_window list \<Rightarrow> ldac_abr_controller \<times> abr_history" where
  "abr_run q ws = foldl abr_note (ldac_abr_init q, []) ws"

text \<open>
  What the counters mean: no change in the windows of the cool-down that have passed and of the clean
  windows that were counted since, and those all clean.
\<close>

definition abr_inv :: "ldac_abr_controller \<Rightarrow> abr_history \<Rightarrow> bool" where
  "abr_inv c history \<longleftrightarrow>
     valid_quality (ac_quality c) \<and> ac_cooldown_windows c \<le> 5 \<and> ac_clean_windows c < 20 \<and>
     ac_warmup_windows c \<le> 2 \<and>
     (ac_cooldown_windows c > 0 \<longrightarrow> ac_clean_windows c = 0) \<and>
     (ac_warmup_windows c > 0 \<longrightarrow> ac_clean_windows c = 0 \<and> ac_cooldown_windows c = 0) \<and>
     unat (ac_clean_windows c) \<le> length history \<and>
     list_all (\<lambda>e. clean_window (fst e)) (take (unat (ac_clean_windows c)) history) \<and>
     list_all (\<lambda>e. \<not> snd e)
       (take (5 - unat (ac_cooldown_windows c) + unat (ac_clean_windows c)) history)"

lemma u32_pred: "0 < (x :: u32) \<Longrightarrow> unat (x - 1) = unat x - 1"
  by (simp add: unat_minus_one word_greater_zero_iff)

lemma take_fewer: "list_all P (take n xs) \<Longrightarrow> m \<le> n \<Longrightarrow> list_all P (take m xs)"
  by (metis list_all_append append_take_drop_id min.absorb1 take_take)

lemma abr_inv_init: "abr_inv (ldac_abr_init q) []"
  by (simp add: abr_inv_def ldac_abr_init_def valid_quality_def)

lemma valid_quality_cases:
  "valid_quality q \<Longrightarrow> q < 2 \<Longrightarrow> valid_quality (q + 1)"
  "valid_quality q \<Longrightarrow> q \<noteq> 0 \<Longrightarrow> valid_quality (q - 1)"
  by (auto simp: valid_quality_def)

text \<open>The branches of an update, over the kinds of the window.\<close>

lemma update_branches:
  assumes "aw_total_packets w \<noteq> 0"
  shows "0 < ac_warmup_windows c \<Longrightarrow> ldac_abr_update c w =
      (c\<lparr>ac_warmup_windows := ac_warmup_windows c - 1, ac_clean_windows := 0\<rparr>,
       \<lparr>ad_quality = ac_quality c, ad_reason = LDAC_ABR_REASON_NONE, ad_changed = False\<rparr>)"
    and "ac_warmup_windows c = 0 \<Longrightarrow> congested_window w \<Longrightarrow> ac_quality c < 2 \<Longrightarrow>
      ac_cooldown_windows c = 0 \<or> severe_window w \<Longrightarrow> ldac_abr_update c w =
      (c\<lparr>ac_quality := ac_quality c + 1, ac_clean_windows := 0, ac_cooldown_windows := 5\<rparr>,
       \<lparr>ad_quality = ac_quality c + 1, ad_reason = LDAC_ABR_REASON_CONGESTION, ad_changed = True\<rparr>)"
    and "ac_warmup_windows c = 0 \<Longrightarrow> 0 < ac_cooldown_windows c \<Longrightarrow>
      \<not> (congested_window w \<and> ac_quality c < 2 \<and> severe_window w) \<Longrightarrow> ldac_abr_update c w =
      (c\<lparr>ac_clean_windows := 0, ac_cooldown_windows := ac_cooldown_windows c - 1\<rparr>,
       \<lparr>ad_quality = ac_quality c, ad_reason = LDAC_ABR_REASON_NONE, ad_changed = False\<rparr>)"
    and "ac_warmup_windows c = 0 \<Longrightarrow> ac_cooldown_windows c = 0 \<Longrightarrow>
      \<not> (congested_window w \<and> ac_quality c < 2) \<Longrightarrow> \<not> clean_window w \<or> ac_quality c = 0 \<Longrightarrow>
      ldac_abr_update c w =
      (c\<lparr>ac_clean_windows := 0\<rparr>,
       \<lparr>ad_quality = ac_quality c, ad_reason = LDAC_ABR_REASON_NONE, ad_changed = False\<rparr>)"
    and "ac_warmup_windows c = 0 \<Longrightarrow> ac_cooldown_windows c = 0 \<Longrightarrow> clean_window w \<Longrightarrow>
      ac_quality c \<noteq> 0 \<Longrightarrow> ac_clean_windows c + 1 < 20 \<Longrightarrow> ldac_abr_update c w =
      (c\<lparr>ac_clean_windows := ac_clean_windows c + 1\<rparr>,
       \<lparr>ad_quality = ac_quality c, ad_reason = LDAC_ABR_REASON_NONE, ad_changed = False\<rparr>)"
    and "ac_warmup_windows c = 0 \<Longrightarrow> ac_cooldown_windows c = 0 \<Longrightarrow> clean_window w \<Longrightarrow>
      ac_quality c \<noteq> 0 \<Longrightarrow> ac_clean_windows c + 1 \<ge> 20 \<Longrightarrow> ldac_abr_update c w =
      (c\<lparr>ac_quality := ac_quality c - 1, ac_clean_windows := 0, ac_cooldown_windows := 5\<rparr>,
       \<lparr>ad_quality = ac_quality c - 1, ad_reason = LDAC_ABR_REASON_CLEAN_LINK, ad_changed = True\<rparr>)"
  using assms
  by (auto simp: ldac_abr_update_def Let_def window_kinds word_greater_zero_iff
      dest: clean_not_congested)

lemma update_inv:
  assumes inv: "abr_inv c history" and packets: "aw_total_packets w \<noteq> 0"
  shows "abr_inv (fst (ldac_abr_update c w)) ((w, ad_changed (snd (ldac_abr_update c w))) # history)"
proof -
  note branches = update_branches [OF packets, of c]
  have unats: "unat (ac_cooldown_windows c) \<le> 5" "unat (ac_clean_windows c) < 20"
    using inv by (simp_all add: abr_inv_def word_le_nat_alt word_less_nat_alt)
  have next_clean: "unat (ac_clean_windows c + 1) = Suc (unat (ac_clean_windows c))"
    using inv by (intro less_imp_unat_Suc [of _ 20]) (simp add: abr_inv_def)
  consider "0 < ac_warmup_windows c"
    | "ac_warmup_windows c = 0" "congested_window w" "ac_quality c < 2"
        "ac_cooldown_windows c = 0 \<or> severe_window w"
    | "ac_warmup_windows c = 0" "0 < ac_cooldown_windows c"
        "\<not> (congested_window w \<and> ac_quality c < 2 \<and> severe_window w)"
    | "ac_warmup_windows c = 0" "ac_cooldown_windows c = 0"
        "\<not> (congested_window w \<and> ac_quality c < 2)" "\<not> clean_window w \<or> ac_quality c = 0"
    | "ac_warmup_windows c = 0" "ac_cooldown_windows c = 0" "clean_window w" "ac_quality c \<noteq> 0"
    using clean_not_congested word_greater_zero_iff by blast
  then show ?thesis
  proof cases
    case 1
    then show ?thesis
      using inv unats take_fewer [of _ 5 history 4] unfolding branches(1) [OF 1]
      by (auto simp: abr_inv_def word_greater_zero_iff word_le_nat_alt u32_pred)
  next
    case 2
    then show ?thesis
      using inv unfolding branches(2) [OF 2]
      by (simp add: abr_inv_def valid_quality_cases)
  next
    case 3
    then show ?thesis
      using inv unats u32_pred [OF 3(2)] unfolding branches(3) [OF 3]
      by (auto simp: abr_inv_def word_le_nat_alt take_Cons' Suc_diff_le word_less_nat_alt
          elim: take_fewer)
  next
    case 4
    then show ?thesis
      using inv unats unfolding branches(4) [OF 4]
      by (auto simp: abr_inv_def take_Cons' elim: take_fewer)
  next
    case 5
    then show ?thesis
    proof (cases "ac_clean_windows c + 1 < 20")
      case True
      then show ?thesis
        using inv unats next_clean 5 unfolding branches(5) [OF 5 True]
        by (simp add: abr_inv_def take_Cons')
    next
      case False
      then show ?thesis
        using inv 5 unfolding branches(6) [OF 5 False [unfolded not_less]]
        by (simp add: abr_inv_def valid_quality_cases)
    qed
  qed
qed

lemma abr_note_inv:
  "abr_inv (fst s) (snd s) \<Longrightarrow> abr_inv (fst (abr_note s w)) (snd (abr_note s w))"
  using update_inv [of "fst s" "snd s" w]
  by (auto simp: abr_note_def case_prod_beta Let_def ldac_abr_update_def)

lemma abr_run_inv: "abr_inv (fst (abr_run q ws)) (snd (abr_run q ws))"
proof -
  have "abr_inv (fst s) (snd s) \<Longrightarrow> abr_inv (fst (foldl abr_note s ws)) (snd (foldl abr_note s ws))" for s
    by (induction ws arbitrary: s) (simp_all add: abr_note_inv)
  then show ?thesis by (simp add: abr_run_def abr_inv_init)
qed

text \<open>How many clean windows a controller still needs to be back at the high quality.\<close>

definition clean_windows_needed :: "ldac_abr_controller \<Rightarrow> nat" where
  "clean_windows_needed c =
     (if ac_quality c = 0 then 0
      else unat (ac_warmup_windows c) + unat (ac_cooldown_windows c) + (20 - unat (ac_clean_windows c)) +
        25 * nat (ac_quality c - 1))"

lemma clean_windows_needed_le:
  assumes "abr_inv c history"
  shows "clean_windows_needed c \<le> 50"
proof -
  have "ac_quality c = 0 \<or> ac_quality c = 1 \<or> ac_quality c = 2" "unat (ac_cooldown_windows c) \<le> 5"
    "unat (ac_warmup_windows c) \<le> 2" "ac_warmup_windows c > 0 \<longrightarrow> ac_cooldown_windows c = 0"
    using assms by (auto simp: abr_inv_def valid_quality_def word_le_nat_alt)
  then show ?thesis
    by (cases "ac_warmup_windows c = 0") (auto simp: clean_windows_needed_def word_greater_zero_iff)
qed

lemma clean_update:
  assumes inv: "abr_inv c history" and clean: "clean_window w"
  shows "clean_windows_needed (fst (ldac_abr_update c w)) = clean_windows_needed c - 1"
proof -
  have packets: "aw_total_packets w \<noteq> 0" using clean by (simp add: clean_window_def)
  note branches = update_branches [OF packets, of c] and calm = clean_not_congested [OF clean]
  have quality: "ac_quality c = 0 \<or> ac_quality c = 1 \<or> ac_quality c = 2"
    using inv by (auto simp: abr_inv_def valid_quality_def)
  have next_clean: "unat (ac_clean_windows c + 1) = Suc (unat (ac_clean_windows c))"
    "unat (ac_clean_windows c) < 20"
    using inv less_imp_unat_Suc [of "ac_clean_windows c" 20]
    by (simp_all add: abr_inv_def word_less_nat_alt)
  show ?thesis
  proof (cases "0 < ac_warmup_windows c")
    case True
    then show ?thesis
      using inv branches(1) u32_pred [OF True]
      by (auto simp: clean_windows_needed_def abr_inv_def word_less_nat_alt)
  next
    case False
    then have warm: "ac_warmup_windows c = 0" by (simp add: word_greater_zero_iff)
    show ?thesis
    proof (cases "0 < ac_cooldown_windows c")
      case True
      then show ?thesis
        using inv calm u32_pred [OF True] warm
        by (auto simp: branches(3) [OF warm True] clean_windows_needed_def abr_inv_def word_less_nat_alt)
    next
      case False
      then have cool: "ac_cooldown_windows c = 0" by (simp add: word_greater_zero_iff)
      consider "ac_quality c = 0" | "ac_quality c \<noteq> 0" "ac_clean_windows c + 1 < 20"
        | "ac_quality c \<noteq> 0" "ac_clean_windows c + 1 \<ge> 20"
        using not_less by blast
      then show ?thesis
      proof cases
        case 1
        then show ?thesis
          using calm by (simp add: branches(4) [OF warm cool] clean_windows_needed_def)
      next
        case 2
        then show ?thesis
          using next_clean by (simp add: branches(5) [OF warm cool clean] clean_windows_needed_def)
      next
        case 3
        then show ?thesis
          using next_clean quality warm cool
          by (auto simp: branches(6) [OF warm cool clean] clean_windows_needed_def word_le_nat_alt)
      qed
    qed
  qed
qed

lemma clean_run:
  "list_all clean_window ws \<Longrightarrow> abr_inv (fst s) (snd s) \<Longrightarrow>
     clean_windows_needed (fst (foldl abr_note s ws)) = clean_windows_needed (fst s) - length ws"
proof (induction ws arbitrary: s)
  case (Cons w ws)
  have "clean_windows_needed (fst (abr_note s w)) = clean_windows_needed (fst s) - 1"
    using clean_update [of "fst s" "snd s" w] Cons.prems
    by (simp add: abr_note_def case_prod_beta Let_def)
  then show ?case
    using Cons abr_note_inv [of s w] by simp
qed simp

lemma nothing_needed:
  assumes "abr_inv c history" "clean_windows_needed c = 0"
  shows "ac_quality c = LDAC_ENCODER_QUALITY_HQ"
  using assms by (auto simp: abr_inv_def clean_windows_needed_def word_less_nat_alt split: if_splits)

text \<open>What an update answers, over the history its controller has.\<close>

definition justified ::
  "ldac_abr_controller \<Rightarrow> abr_history \<Rightarrow> ldac_abr_window \<Rightarrow> ldac_abr_controller \<Rightarrow> ldac_abr_decision \<Rightarrow> bool" where
  "justified c history w c' d \<longleftrightarrow>
     ad_quality d = ac_quality c' \<and> ad_changed d = (ac_quality c' \<noteq> ac_quality c) \<and>
     (case ad_reason d of
        LDAC_ABR_REASON_NONE \<Rightarrow> \<not> ad_changed d
      | LDAC_ABR_REASON_CONGESTION \<Rightarrow>
          ac_quality c' = ac_quality c + 1 \<and> congested_window w \<and>
          (severe_window w \<or> list_all (\<lambda>e. \<not> snd e) (take 5 history))
      | LDAC_ABR_REASON_CLEAN_LINK \<Rightarrow>
          ac_quality c' = ac_quality c - 1 \<and> 19 \<le> length history \<and>
          list_all clean_window (w # map fst (take 19 history)) \<and>
          list_all (\<lambda>e. \<not> snd e) (take 24 history))"

lemma update_justified:
  assumes inv: "abr_inv c history"
  shows "justified c history w (fst (ldac_abr_update c w)) (snd (ldac_abr_update c w))"
proof (cases "aw_total_packets w = 0")
  case True
  then show ?thesis by (simp add: ldac_abr_update_def justified_def)
next
  case packets: False
  note branches = update_branches [OF packets, of c]
  consider "0 < ac_warmup_windows c"
    | "ac_warmup_windows c = 0" "congested_window w" "ac_quality c < 2"
        "ac_cooldown_windows c = 0 \<or> severe_window w"
    | "ac_warmup_windows c = 0" "0 < ac_cooldown_windows c"
        "\<not> (congested_window w \<and> ac_quality c < 2 \<and> severe_window w)"
    | "ac_warmup_windows c = 0" "ac_cooldown_windows c = 0"
        "\<not> (congested_window w \<and> ac_quality c < 2)" "\<not> clean_window w \<or> ac_quality c = 0"
    | "ac_warmup_windows c = 0" "ac_cooldown_windows c = 0" "clean_window w" "ac_quality c \<noteq> 0"
        "ac_clean_windows c + 1 < 20"
    | "ac_warmup_windows c = 0" "ac_cooldown_windows c = 0" "clean_window w" "ac_quality c \<noteq> 0"
        "ac_clean_windows c + 1 \<ge> 20"
    using clean_not_congested word_greater_zero_iff not_less by blast
  then show ?thesis
  proof cases
    case 1
    then show ?thesis by (simp add: branches(1) justified_def)
  next
    case 2
    have "list_all (\<lambda>e. \<not> snd e) (take 5 history)" if "ac_cooldown_windows c = 0"
      using inv that by (auto simp: abr_inv_def elim: take_fewer)
    then show ?thesis
      using 2 unfolding branches(2) [OF 2] by (auto simp: justified_def)
  next
    case 3
    show ?thesis unfolding branches(3) [OF 3] by (simp add: justified_def)
  next
    case 4
    show ?thesis unfolding branches(4) [OF 4] by (simp add: justified_def)
  next
    case 5
    show ?thesis unfolding branches(5) [OF 5] by (simp add: justified_def)
  next
    case 6
    have "unat (ac_clean_windows c + 1) = Suc (unat (ac_clean_windows c))"
      using inv less_imp_unat_Suc [of "ac_clean_windows c" 20] by (simp add: abr_inv_def)
    then have "unat (ac_clean_windows c) = 19"
      using inv 6(5) by (simp add: abr_inv_def word_less_nat_alt word_le_nat_alt)
    then show ?thesis
      using inv 6 unfolding branches(6) [OF 6] by (simp add: justified_def abr_inv_def list.pred_map comp_def)
  qed
qed

section \<open>Properties\<close>

text \<open>C12: Every change of the bit rate is justified and none follows another too soon: after any history,
  the quality is lowered only by a window in which at least a fifth of the writes were slow, and within
  the five windows after a change only if it was three fifths; it is raised only by the twentieth
  clean window in a row (less than 3 percent slow writes), and never within 24 windows of a change.  A
  change moves one step and stays in the range of the qualities.\<close>

lemma quality_changes_justified:
  "let (c, history) = abr_run q ws; (c', d) = ldac_abr_update c w
   in supported_quality (ac_quality c') \<and> ad_quality d = ac_quality c' \<and>
      ad_changed d = (ac_quality c' \<noteq> ac_quality c) \<and>
      (case ad_reason d of
         LDAC_ABR_REASON_NONE \<Rightarrow> \<not> ad_changed d
       | LDAC_ABR_REASON_CONGESTION \<Rightarrow>
           ac_quality c' = ac_quality c + 1 \<and> congested_window w \<and>
           (severe_window w \<or> list_all (\<lambda>e. \<not> snd e) (take 5 history))
       | LDAC_ABR_REASON_CLEAN_LINK \<Rightarrow>
           ac_quality c' = ac_quality c - 1 \<and> 19 \<le> length history \<and>
           list_all clean_window (w # map fst (take 19 history)) \<and>
           list_all (\<lambda>e. \<not> snd e) (take 24 history))"
  using update_justified [OF abr_run_inv, of q ws w] abr_note_inv [OF abr_run_inv, of q ws w]
  by (auto simp: justified_def abr_note_def case_prod_beta Let_def abr_inv_def valid_quality_def
      supported_quality_def)

text \<open>A link that recovers is used at the full rate again: after any history, fifty clean windows
  bring the encoder back to the high quality.\<close>

lemma clean_link_restores_quality:
  assumes "list_all clean_window recovery" and "50 \<le> length recovery"
  shows "ac_quality (fst (abr_run q (history @ recovery))) = LDAC_ENCODER_QUALITY_HQ"
proof (rule nothing_needed [OF abr_run_inv])
  show "clean_windows_needed (fst (abr_run q (history @ recovery))) = 0"
    using clean_run [OF assms(1) abr_run_inv [of q history]]
      clean_windows_needed_le [OF abr_run_inv [of q history]] assms(2)
    by (simp add: abr_run_def)
qed

lemma clean_link_restores_quality_witness:
  "ac_quality (fst (abr_run LDAC_ENCODER_QUALITY_MQ (replicate 3 \<lparr>aw_total_packets = 100,
     aw_late_packets = 0, aw_slow_write_packets = 70, aw_max_schedule_lag_us = 0, aw_max_write_us = 0\<rparr> @
   replicate 50 \<lparr>aw_total_packets = 100, aw_late_packets = 5, aw_slow_write_packets = 2,
     aw_max_schedule_lag_us = 0, aw_max_write_us = 0\<rparr>))) = LDAC_ENCODER_QUALITY_HQ"
  by (rule clean_link_restores_quality) (simp_all add: list.pred_set clean_window_def)

end
