(* ===== verification/Sent_Frame_Fade.thy ===== *)
theory Sent_Frame_Fade
  imports Ieee_Float
begin

text \<open>
  The fade-in over the frames that were really sent: \<open>agent/v1_sent_frame_fade_envelope.cpp\<close>.  A block
  is prepared with the gains of the frames that would follow the committed ones, and it is committed when
  it has been sent; only then the envelope advances.

  A buffer is the list of its samples; the addresses of the two buffers, which the code compares, are
  arguments of their own.
\<close>

abbreviation (input) "kV1SentFrameFadeMaximumFrames \<equiv> (128 :: nat)"
abbreviation (input) "kV1SentFrameFadeMaximumDurationMs \<equiv> Fin 1000"

record V1SentFrameFadeState =
  fs_session_generation :: u64
  fs_committed_sent_frames :: u64
  fs_revision :: u64
  fs_active :: bool

definition V1SentFrameFadeState_default :: V1SentFrameFadeState where
  "V1SentFrameFadeState_default =
     \<lparr>fs_session_generation = 0, fs_committed_sent_frames = 0, fs_revision = 0, fs_active = False\<rparr>"

record V1SentFrameFadeBlock =
  fb_session_generation :: u64
  fb_starting_sent_frame :: u64
  fb_revision :: u64
  fb_frame_count :: u32

record V1SentFrameFadeTelemetry =
  ft_starting_sent_frame :: u64
  ft_fade_duration_frames :: u64
  ft_minimum_gain :: ieee
  ft_last_gain :: ieee
  ft_frames_below_unity :: u64
  ft_sanitized_sample_count :: u64

section \<open>The operations\<close>

definition NextRevision :: "u64 \<Rightarrow> u64" where
  "NextRevision revision = (if revision = - 1 then 1 else revision + 1)"

definition BuffersOverlap :: "u64 \<Rightarrow> u64 \<Rightarrow> u64 \<Rightarrow> bool" where
  "BuffersOverlap source_begin destination_begin sample_count =
     (let byte_count = sample_count * 4;
          source_end = source_begin + byte_count;
          destination_end = destination_begin + byte_count
      in if source_end < source_begin \<or> destination_end < destination_begin then True
         else source_begin < destination_end \<and> destination_begin < source_end)"

definition BeginV1SentFrameFadeSession ::
  "V1SentFrameFadeState \<Rightarrow> u64 \<Rightarrow> V1SentFrameFadeState \<times> bool" where
  "BeginV1SentFrameFadeSession state session_generation =
     (if session_generation = 0 then (state, False)
      else (state\<lparr>fs_session_generation := session_generation, fs_committed_sent_frames := 0,
                  fs_revision := NextRevision (fs_revision state), fs_active := True\<rparr>, True))"

definition EndV1SentFrameFadeSession :: "V1SentFrameFadeState \<Rightarrow> V1SentFrameFadeState" where
  "EndV1SentFrameFadeSession state =
     state\<lparr>fs_revision := NextRevision (fs_revision state), fs_active := False\<rparr>"

text \<open>The gain of a frame, and the duration of the fade in frames, before its conversion.\<close>

definition frame_gain :: "u64 \<Rightarrow> u64 \<Rightarrow> ieee" where
  "frame_gain duration_frames absolute_frame =
     (if absolute_frame \<ge> duration_frames then Fin 1
      else fl_convert Single
        (fl_div Double (fl_of_nat Double (unat (absolute_frame + 1)))
          (fl_of_nat Double (unat duration_frames))))"

definition duration_frames_value :: "u32 \<Rightarrow> ieee \<Rightarrow> ieee" where
  "duration_frames_value sample_rate_hz duration_ms =
     fl_ceil (fl_div Double
       (fl_mult Double (fl_of_nat Double (unat sample_rate_hz)) (fl_convert Double duration_ms))
       (Fin 1000))"

text \<open>One sample and one frame of the loop.\<close>

definition fade_sample ::
  "ieee \<Rightarrow> ieee \<Rightarrow> V1SentFrameFadeTelemetry \<Rightarrow> V1SentFrameFadeTelemetry \<times> ieee" where
  "fade_sample gain source next =
     (if isfinite source then (next, fl_mult Single source gain)
      else (next\<lparr>ft_sanitized_sample_count := ft_sanitized_sample_count next + 1\<rparr>,
            fl_mult Single (Fin 0) gain))"

fun fade_frames ::
  "u64 \<Rightarrow> u64 \<Rightarrow> nat \<Rightarrow> ieee list \<Rightarrow> V1SentFrameFadeTelemetry \<Rightarrow> V1SentFrameFadeTelemetry \<times> ieee list" where
  "fade_frames duration_frames absolute_frame 0 source next = (next, [])"
| "fade_frames duration_frames absolute_frame (Suc frames) source next =
     (let gain = frame_gain duration_frames absolute_frame;
          next1 = next\<lparr>ft_minimum_gain := fl_min (ft_minimum_gain next) gain, ft_last_gain := gain\<rparr>;
          next2 = (if fl_less gain (Fin 1)
                   then next1\<lparr>ft_frames_below_unity := ft_frames_below_unity next1 + 1\<rparr> else next1);
          (next3, left) = fade_sample gain (source ! 0) next2;
          (next4, right) = fade_sample gain (source ! 1) next3;
          (next5, rest) = fade_frames duration_frames (absolute_frame + 1) frames (drop 2 source) next4
      in (next5, left # right # rest))"

definition PrepareV1SentFrameFadeBlock ::
  "ieee list \<Rightarrow> u64 \<Rightarrow> u64 \<Rightarrow> nat \<Rightarrow> u32 \<Rightarrow> ieee \<Rightarrow> V1SentFrameFadeState \<Rightarrow>
   (ieee list \<times> V1SentFrameFadeBlock \<times> V1SentFrameFadeTelemetry) option" where
  "PrepareV1SentFrameFadeBlock source_interleaved_stereo source_address destination_address
     frame_count sample_rate_hz fade_duration_ms state =
     (if \<not> fs_active state \<or> fs_session_generation state = 0 \<or> frame_count = 0 \<or>
         frame_count > kV1SentFrameFadeMaximumFrames \<or> sample_rate_hz = 0 \<or>
         \<not> isfinite fade_duration_ms \<or> fl_le fade_duration_ms (Fin 0) \<or>
         fl_less kV1SentFrameFadeMaximumDurationMs fade_duration_ms \<or>
         fs_committed_sent_frames state > - 1 - of_nat frame_count \<or>
         BuffersOverlap source_address destination_address (of_nat frame_count * 2)
      then None
      else
        let value = duration_frames_value sample_rate_hz fade_duration_ms
        in if \<not> isfinite value \<or> fl_less value (Fin 1) \<or>
              fl_less (fl_of_nat Double (unat (- 1 :: u64))) value
           then None
           else
             let duration_frames = fl_to_u64 value;
                 block = \<lparr>fb_session_generation = fs_session_generation state,
                          fb_starting_sent_frame = fs_committed_sent_frames state,
                          fb_revision = fs_revision state, fb_frame_count = of_nat frame_count\<rparr>;
                 (telemetry, destination) =
                   fade_frames duration_frames (fs_committed_sent_frames state) frame_count
                     source_interleaved_stereo
                     \<lparr>ft_starting_sent_frame = fs_committed_sent_frames state,
                      ft_fade_duration_frames = duration_frames, ft_minimum_gain = Fin 1,
                      ft_last_gain = Fin 1, ft_frames_below_unity = 0,
                      ft_sanitized_sample_count = 0\<rparr>
             in Some (destination, block, telemetry))"

definition CommitV1SentFrameFadeBlock ::
  "V1SentFrameFadeState \<Rightarrow> V1SentFrameFadeBlock \<Rightarrow> u64 \<Rightarrow> V1SentFrameFadeState \<times> bool" where
  "CommitV1SentFrameFadeBlock state block actual_sent_frames =
     (if \<not> fs_active state \<or> fb_session_generation block \<noteq> fs_session_generation state \<or>
         fb_revision block \<noteq> fs_revision state \<or>
         fb_starting_sent_frame block \<noteq> fs_committed_sent_frames state \<or>
         fb_frame_count block = 0 \<or> unat (fb_frame_count block) > kV1SentFrameFadeMaximumFrames \<or>
         actual_sent_frames \<noteq> ucast (fb_frame_count block) \<or>
         fs_committed_sent_frames state > - 1 - actual_sent_frames
      then (state, False)
      else (state\<lparr>fs_committed_sent_frames := fs_committed_sent_frames state + actual_sent_frames\<rparr>, True))"

section \<open>The gains\<close>

definition double_of :: "u64 \<Rightarrow> rat" where
  "double_of n = rounded Double (of_nat (unat n))"

lemma fl_of_u64: "fl_of_nat Double (unat (n :: u64)) = Fin (double_of n)" "0 \<le> double_of n"
proof -
  have exact: "rounded Double (2 ^ 64) = 2 ^ 64"
    using rounded_power [of Double 64] by simp
  have "unat n < 2 ^ 64" using unsigned_less [of n] by simp
  then have "(of_nat (unat n) :: rat) \<le> of_nat (2 ^ 64)"
    using of_nat_le_iff less_imp_le by blast
  then have "double_of n \<le> rounded Double (2 ^ 64)"
    unfolding double_of_def by (intro rounded_mono [OF of_nat_0_le_iff]) (simp only: of_nat_power of_nat_numeral)
  then have "double_of n \<le> largest_finite Double"
    unfolding exact by (rule order_trans) simp
  moreover show pos: "0 \<le> double_of n"
    unfolding double_of_def by (rule rounded_nonneg) (rule of_nat_0_le_iff)
  moreover have "0 \<le> largest_finite Double" by simp
  ultimately have "\<not> double_of n > largest_finite Double" "\<not> double_of n < - largest_finite Double"
    by linarith+
  then show "fl_of_nat Double (unat n) = Fin (double_of n)"
    unfolding fl_of_nat_def fround_def Let_def double_of_def by (simp only: if_False)
qed

lemma double_of_mono: "a \<le> b \<Longrightarrow> double_of a \<le> double_of b"
  unfolding double_of_def word_le_nat_alt
  by (intro rounded_mono [OF of_nat_0_le_iff]) (simp only: of_nat_le_iff)

lemma double_of_pos: "n \<noteq> 0 \<Longrightarrow> 1 \<le> double_of n"
proof -
  assume "n \<noteq> 0"
  then have "1 \<le> n" by (simp add: word_le_nat_alt Suc_le_eq unat_gt_0)
  from double_of_mono [OF this] show ?thesis by (simp add: double_of_def)
qed

text \<open>The gain as a number.\<close>

definition gain_value :: "u64 \<Rightarrow> u64 \<Rightarrow> rat" where
  "gain_value duration frame =
     (if frame \<ge> duration then 1
      else rounded Single (rounded Double (double_of (frame + 1) / double_of duration)))"

lemma gain_quotient:
  assumes "frame < duration"
  shows "0 \<le> double_of (frame + 1) / double_of duration"
    "double_of (frame + 1) / double_of duration \<le> 1" "0 < double_of duration"
proof -
  have "frame + 1 \<le> duration" using less_imp_succ_le [OF assms] .
  moreover have d: "1 \<le> double_of duration"
    using assms by (intro double_of_pos) auto
  ultimately show "0 \<le> double_of (frame + 1) / double_of duration"
    "double_of (frame + 1) / double_of duration \<le> 1" "0 < double_of duration"
    using double_of_mono fl_of_u64(2) [of "frame + 1"] by (simp_all add: divide_le_eq)
qed

lemma frame_gain_value:
  "frame_gain duration frame = Fin (gain_value duration frame)"
  "0 \<le> gain_value duration frame" "gain_value duration frame \<le> 1"
proof -
  show "frame_gain duration frame = Fin (gain_value duration frame)"
  proof (cases "frame \<ge> duration")
    case False
    then have less: "frame < duration" by simp
    note q = gain_quotient [OF less]
    note d = fround_unit [OF q(1,2), of Double]
    have "fl_div Double (fl_of_nat Double (unat (frame + 1))) (fl_of_nat Double (unat duration)) =
        Fin (rounded Double (double_of (frame + 1) / double_of duration))"
      using q(3) d(1) by (simp add: fl_of_u64)
    then show ?thesis
      using False fround_unit(1) [OF d(2,3), of Single] by (simp add: frame_gain_def gain_value_def)
  qed (simp add: frame_gain_def gain_value_def)
  show "0 \<le> gain_value duration frame" "gain_value duration frame \<le> 1"
    using fround_unit(2,3) [OF fround_unit(2,3) [OF gain_quotient(1,2)], of frame duration Single]
    by (auto simp: gain_value_def not_le)
qed

lemma gain_value_mono: "a \<le> b \<Longrightarrow> gain_value duration a \<le> gain_value duration b"
proof (cases "b \<ge> duration")
  case True
  then show ?thesis using frame_gain_value(3) by (simp add: gain_value_def)
next
  case False
  assume ab: "a \<le> b"
  then have less: "a < duration" "b < duration" using False by auto
  have "a + 1 \<le> b + 1"
    using ab less_imp_unat_Suc [OF less(1)] less_imp_unat_Suc [OF less(2)]
    by (simp add: word_le_nat_alt)
  then have "double_of (a + 1) / double_of duration \<le> double_of (b + 1) / double_of duration"
    using double_of_mono gain_quotient(3) [OF less(1)] by (simp add: divide_right_mono less_imp_le)
  then have "rounded Single (rounded Double (double_of (a + 1) / double_of duration)) \<le>
      rounded Single (rounded Double (double_of (b + 1) / double_of duration))"
    using gain_quotient(1) [OF less(1)] by (intro rounded_mono) (simp_all add: rounded_nonneg rounded_mono)
  then show ?thesis using less by (simp add: gain_value_def linorder_not_le [symmetric])
qed

section \<open>The samples\<close>

text \<open>What the loop makes of a sample.\<close>

definition sanitized :: "ieee \<Rightarrow> ieee" where
  "sanitized s = (if isfinite s then s else Fin 0)"

lemma fade_sample_value: "snd (fade_sample gain s next) = fl_mult Single (sanitized s) gain"
  by (simp add: fade_sample_def sanitized_def)

lemma fade_frames_length: "length (snd (fade_frames d a n src next)) = 2 * n"
  by (induction n arbitrary: a src "next") (simp_all add: case_prod_beta Let_def)

lemma fade_frames_nth:
  "length src = 2 * n \<Longrightarrow> i < 2 * n \<Longrightarrow>
     snd (fade_frames d a n src next) ! i =
       fl_mult Single (sanitized (src ! i)) (frame_gain d (a + of_nat (i div 2)))"
proof (induction n arbitrary: a src "next" i)
  case (Suc n)
  consider "i = 0" | "i = 1" | j where "i = Suc (Suc j)"
    by (metis One_nat_def not0_implies_Suc)
  then show ?case
  proof cases
    case 3
    then have "j < 2 * n" "length (drop 2 src) = 2 * n" using Suc.prems by simp_all
    from Suc.IH [OF this(2,1)] show ?thesis
      using 3 Suc.prems by (simp add: case_prod_beta Let_def fade_sample_value add.assoc)
  qed (simp_all add: case_prod_beta Let_def fade_sample_value)
qed simp

text \<open>A fade does not amplify.\<close>

fun shrunk :: "ieee \<Rightarrow> ieee \<Rightarrow> bool" where
  "shrunk (Fin s) d \<longleftrightarrow> (\<exists>v. d = Fin v \<and> \<bar>v\<bar> \<le> \<bar>s\<bar>)"
| "shrunk _ d \<longleftrightarrow> d = Fin 0"

lemma gained_sample:
  assumes "fl_value Single s" "0 \<le> g" "g \<le> 1"
  shows "shrunk s (fl_mult Single (sanitized s) (Fin g))"
  using fl_mult_shrinks [OF _ assms(2,3), of Single] assms(1)
  by (cases s) (auto simp: sanitized_def)

lemma prepared_block:
  assumes "PrepareV1SentFrameFadeBlock source sa da n rate ms state = Some (dest, block, telemetry)"
  shows "fs_active state" "fs_session_generation state \<noteq> 0" "0 < n" "n \<le> 128"
    "fs_committed_sent_frames state \<le> - 1 - of_nat n"
    "block = \<lparr>fb_session_generation = fs_session_generation state,
       fb_starting_sent_frame = fs_committed_sent_frames state, fb_revision = fs_revision state,
       fb_frame_count = of_nat n\<rparr>"
    "\<exists>next. (telemetry, dest) = fade_frames (fl_to_u64 (duration_frames_value rate ms))
       (fs_committed_sent_frames state) n source next"
    "ft_fade_duration_frames telemetry = fl_to_u64 (duration_frames_value rate ms)"
proof -
  have frames_tel: "ft_fade_duration_frames (fst (fade_frames d a n src next)) = ft_fade_duration_frames next"
    for d a n src "next"
    by (induction n arbitrary: a src "next") (auto simp: case_prod_beta Let_def fade_sample_def)
  show "fs_active state" "fs_session_generation state \<noteq> 0" "0 < n" "n \<le> 128"
    "fs_committed_sent_frames state \<le> - 1 - of_nat n"
    "block = \<lparr>fb_session_generation = fs_session_generation state,
       fb_starting_sent_frame = fs_committed_sent_frames state, fb_revision = fs_revision state,
       fb_frame_count = of_nat n\<rparr>"
    "\<exists>next. (telemetry, dest) = fade_frames (fl_to_u64 (duration_frames_value rate ms))
       (fs_committed_sent_frames state) n source next"
    "ft_fade_duration_frames telemetry = fl_to_u64 (duration_frames_value rate ms)"
    using assms frames_tel
    by (auto simp: PrepareV1SentFrameFadeBlock_def Let_def not_less case_prod_beta split: if_splits)
qed

lemma NextRevision_neq: "NextRevision r \<noteq> r"
  by (auto simp: NextRevision_def)

lemma block_length:
  assumes "0 < n" "n \<le> 128"
  shows "unat (of_nat n :: u32) = n" "unat (of_nat n :: u64) = n" "(of_nat n :: u32) \<noteq> 0"
    "ucast (of_nat n :: u32) = (of_nat n :: u64)"
proof -
  show u: "unat (of_nat n :: u32) = n" "unat (of_nat n :: u64) = n"
    using assms by (simp_all add: unat_of_nat)
  show "(of_nat n :: u32) \<noteq> 0" using u(1) assms(1) by (metis unat_0 less_numeral_extra(3))
  show "ucast (of_nat n :: u32) = (of_nat n :: u64)"
    using assms by (simp add: word_unat_eq_iff unsigned_ucast_eq unsigned_of_nat take_bit_nat_eq_self_iff
        take_bit_nat_eq_self)
qed

lemma room_left:
  assumes "(c :: u64) \<le> - 1 - of_nat n" "0 < n" "n \<le> 128"
  shows "unat (c + of_nat n) = unat c + n" "c + of_nat n \<noteq> c"
proof -
  have n: "unat (of_nat n :: u64) = n" using block_length(2) [OF assms(2,3)] .
  have "unat (- 1 - of_nat n :: u64) = 2 ^ 64 - 1 - n"
    using unat_sub [of "of_nat n :: u64" "- 1"] n unat_max_u64 by (simp del: unsigned_minus_1_eq_mask)
  then have "unat c + n < 2 ^ 64" using assms(1,3) by (simp add: word_le_nat_alt)
  then show "unat (c + of_nat n) = unat c + n"
    using n by (simp add: unat_add_no_wrap)
  show "c + of_nat n \<noteq> c" using n assms(2) by auto
qed

section \<open>Properties\<close>

text \<open>C11: A prepared block advances the envelope once, and only if all of it was sent: committing it to the
  state it was prepared from succeeds exactly with its number of frames and counts them; committing it
  again, after the end of the session or in the next one is refused, so no gain is used twice.\<close>

lemma prepared_block_commits_once:
  "case PrepareV1SentFrameFadeBlock source sa da n rate ms state of
     None \<Rightarrow> True
   | Some (dest, block, telemetry) \<Rightarrow>
       let committed = fst (CommitV1SentFrameFadeBlock state block (of_nat n))
       in snd (CommitV1SentFrameFadeBlock state block sent) = (sent = of_nat n) \<and>
          unat (fs_committed_sent_frames committed) = unat (fs_committed_sent_frames state) + n \<and>
          \<not> snd (CommitV1SentFrameFadeBlock committed block sent) \<and>
          \<not> snd (CommitV1SentFrameFadeBlock (EndV1SentFrameFadeSession state) block sent) \<and>
          (if generation = 0 then True
           else \<not> snd (CommitV1SentFrameFadeBlock
             (fst (BeginV1SentFrameFadeSession state generation)) block sent))"
proof (cases "PrepareV1SentFrameFadeBlock source sa da n rate ms state")
  case (Some prepared)
  obtain dest block telemetry where p: "prepared = (dest, block, telemetry)" by (rule prod_cases3)
  note prep = prepared_block [OF Some [unfolded p]]
  note n = block_length [OF prep(3,4)] and room = room_left [OF prep(5,3,4)]
  show ?thesis
    using prep(1-5) n room NextRevision_neq [of "fs_revision state"]
    by (auto simp: Some p prep(6) CommitV1SentFrameFadeBlock_def EndV1SentFrameFadeSession_def
        BeginV1SentFrameFadeSession_def Let_def)
qed simp

text \<open>The fade-in only fades: the gain of every frame is between 0 and 1, never decreases from a frame
  to a later one and is exactly 1 from the end of the fade on; so a prepared block holds as many samples
  as its source, none louder than the one it came from, and a value that is not a number comes out as
  silence.\<close>

lemma fade_never_amplifies:
  assumes "PrepareV1SentFrameFadeBlock source sa da n rate ms state = Some (dest, block, telemetry)"
    and "length source = 2 * n" and "list_all (fl_value Single) source" and "earlier \<le> later"
  shows "list_all2 shrunk source dest \<and>
    (\<exists>g g'. frame_gain duration earlier = Fin g \<and> frame_gain duration later = Fin g' \<and>
      0 \<le> g \<and> g \<le> g' \<and> g' \<le> 1 \<and> (later \<ge> duration \<longrightarrow> g' = 1))"
proof -
  obtain tel where f: "(telemetry, dest) = fade_frames (fl_to_u64 (duration_frames_value rate ms))
      (fs_committed_sent_frames state) n source tel"
    using prepared_block(7) [OF assms(1)] by blast
  then have dest: "dest = snd (fade_frames (fl_to_u64 (duration_frames_value rate ms))
      (fs_committed_sent_frames state) n source tel)"
    by (metis snd_conv)
  have "list_all2 shrunk source dest"
    unfolding list_all2_conv_all_nth
  proof (intro conjI allI impI)
    show "length source = length dest" by (simp add: dest fade_frames_length assms(2))
    fix i assume i: "i < length source"
    then show "shrunk (source ! i) (dest ! i)"
      using assms(2,3) frame_gain_value gained_sample
      by (simp add: dest fade_frames_nth list_all_length)
  qed
  then show ?thesis
    using frame_gain_value gain_value_mono [OF assms(4), of duration]
    by (auto simp: gain_value_def)
qed

text \<open>A block of two frames of a fade of one millisecond at 1000 frames per second.\<close>

lemma fade_never_amplifies_witness:
  "\<exists>dest block telemetry.
     PrepareV1SentFrameFadeBlock [Fin 1, Fin (- 1), NotANumber, Fin 0] 0 1024 2 1000 (Fin 1)
       \<lparr>fs_session_generation = 1, fs_committed_sent_frames = 0, fs_revision = 1, fs_active = True\<rparr> =
         Some (dest, block, telemetry) \<and>
     list_all2 shrunk [Fin 1, Fin (- 1), NotANumber, Fin 0] dest"
proof -
  have duration: "duration_frames_value 1000 (Fin 1) = Fin 1"
    using fround_int [of 1000 Double] fround_int [of 1 Double]
    by (simp add: duration_frames_value_def fl_of_nat_def)
  have "\<not> double_of (- 1) < 1" using double_of_pos [of "- 1"] by simp
  then have longest: "\<not> fl_less (fl_of_nat Double (unat (- 1 :: u64))) (Fin 1)"
    unfolding fl_of_u64(1) by simp
  have samples: "list_all (fl_value Single) [Fin 1, Fin (- 1), NotANumber, Fin 0]"
    using rounded_minus [of Single 1] by simp
  have "\<exists>dest block telemetry.
     PrepareV1SentFrameFadeBlock [Fin 1, Fin (- 1), NotANumber, Fin 0] 0 1024 2 1000 (Fin 1)
       \<lparr>fs_session_generation = 1, fs_committed_sent_frames = 0, fs_revision = 1, fs_active = True\<rparr> =
         Some (dest, block, telemetry)"
    using longest
    by (simp add: PrepareV1SentFrameFadeBlock_def duration BuffersOverlap_def fl_le_def Let_def
        case_prod_beta del: unsigned_minus_1_eq_mask)
  then show ?thesis
    using fade_never_amplifies [OF _ _ samples, of 0 1024 2 1000 "Fin 1"] by fastforce
qed

end
