(* ===== verification/Linked_Limiter.thy ===== *)
theory Linked_Limiter
  imports Ieee_Float "HOL-Library.Monad_Syntax"
begin

text \<open>
  The linked stereo limiter: \<open>agent/v1_linked_stereo_block_limiter.cpp\<close>.  It looks ahead over one block,
  lowers one gain for both channels before a peak, and releases it linearly.

  A buffer is the list of its interleaved samples, two per frame.  The loop of \<open>SafeGainForPeak\<close> has
  no bound in the code; a call that would not return is \<^const>\<open>None\<close>, and the theory proves that none is.
\<close>

abbreviation (input) "kV1LinkedStereoLimiterMaximumFrames \<equiv> (128 :: nat)"
abbreviation (input) "kV1LinkedStereoLimiterHardMaximumCeiling \<equiv> Fin 1"

record V1LinkedStereoBlockLimiterState =
  ll_gain :: ieee
  ll_release_step :: ieee

definition V1LinkedStereoBlockLimiterState_default :: V1LinkedStereoBlockLimiterState where
  "V1LinkedStereoBlockLimiterState_default = \<lparr>ll_gain = Fin 1, ll_release_step = Fin 0\<rparr>"

record V1LinkedStereoBlockLimiterTelemetry =
  lt_block_peak :: ieee
  lt_output_peak :: ieee
  lt_minimum_gain :: ieee
  lt_last_gain :: ieee
  lt_maximum_gain_step :: ieee
  lt_attack_count :: u32
  lt_reduced_frame_count :: u64
  lt_reduced_sample_count :: u64
  lt_fallback_clamp_count :: u64
  lt_sanitized_sample_count :: u64
  lt_pre_over_ceiling_frame_count :: u64
  lt_pre_over_ceiling_sample_count :: u64

definition V1LinkedStereoBlockLimiterTelemetry_default :: V1LinkedStereoBlockLimiterTelemetry where
  "V1LinkedStereoBlockLimiterTelemetry_default =
     \<lparr>lt_block_peak = Fin 0, lt_output_peak = Fin 0, lt_minimum_gain = Fin 1, lt_last_gain = Fin 1,
      lt_maximum_gain_step = Fin 0, lt_attack_count = 0, lt_reduced_frame_count = 0,
      lt_reduced_sample_count = 0, lt_fallback_clamp_count = 0, lt_sanitized_sample_count = 0,
      lt_pre_over_ceiling_frame_count = 0, lt_pre_over_ceiling_sample_count = 0\<rparr>"

section \<open>Gains\<close>

definition IsUnitScalar :: "ieee \<Rightarrow> bool" where
  "IsUnitScalar v \<longleftrightarrow> isfinite v \<and> fl_le (Fin 0) v \<and> fl_le v (Fin 1)"

partial_function (option) reduce_gain :: "ieee \<Rightarrow> ieee \<Rightarrow> ieee \<Rightarrow> ieee option" where
  "reduce_gain peak ceiling' gain =
     (if fl_less ceiling' (fl_mult Single peak gain)
      then reduce_gain peak ceiling' (fl_towards_zero Single gain)
      else Some gain)"

definition SafeGainForPeak :: "ieee \<Rightarrow> ieee \<Rightarrow> ieee option" where
  "SafeGainForPeak peak ceiling' =
     (if fl_le peak ceiling' then Some (Fin 1)
      else reduce_gain peak ceiling' (fl_div Single ceiling' peak))"

definition Sanitized :: "ieee \<Rightarrow> ieee" where
  "Sanitized sample = (if isfinite sample then sample else Fin 0)"

definition ComputeReleaseStep :: "ieee \<Rightarrow> u32 \<Rightarrow> ieee \<Rightarrow> ieee option" where
  "ComputeReleaseStep attacked_gain sample_rate_hz release_ms =
     (let release_frames =
            fl_div Double
              (fl_mult Double (fl_of_nat Double (unat sample_rate_hz)) (fl_convert Double release_ms))
              (Fin 1000);
          step = fl_div Double (fl_sub Double (Fin 1) (fl_convert Double attacked_gain)) release_frames;
          stored = fl_convert Single step
      in if \<not> isfinite stored \<or> fl_le stored (Fin 0) \<or> fl_less (Fin 1) stored then None
         else Some stored)"

section \<open>A block\<close>

text \<open>The first pass: the peaks of the frames and the counts over the ceiling.\<close>

definition scan_frame ::
  "ieee \<Rightarrow> ieee \<Rightarrow> ieee \<Rightarrow> V1LinkedStereoBlockLimiterTelemetry \<Rightarrow>
   V1LinkedStereoBlockLimiterTelemetry \<times> ieee" where
  "scan_frame ceiling' l r next =
     (let left = Sanitized l; right = Sanitized r;
          next1 = next\<lparr>lt_sanitized_sample_count := lt_sanitized_sample_count next +
                        (if \<not> isfinite l then 1 else 0) + (if \<not> isfinite r then 1 else 0)\<rparr>;
          left_peak = fl_abs left; right_peak = fl_abs right;
          peak = fl_max left_peak right_peak;
          next2 = next1\<lparr>lt_block_peak := fl_max (lt_block_peak next1) peak\<rparr>;
          left_over = fl_less ceiling' left_peak; right_over = fl_less ceiling' right_peak;
          next3 = next2\<lparr>lt_pre_over_ceiling_sample_count := lt_pre_over_ceiling_sample_count next2 +
                        (if left_over then 1 else 0) + (if right_over then 1 else 0)\<rparr>
      in (if left_over \<or> right_over
          then next3\<lparr>lt_pre_over_ceiling_frame_count := lt_pre_over_ceiling_frame_count next3 + 1\<rparr>
          else next3, peak))"

fun scan_frames ::
  "ieee \<Rightarrow> ieee list \<Rightarrow> V1LinkedStereoBlockLimiterTelemetry \<Rightarrow>
   V1LinkedStereoBlockLimiterTelemetry \<times> ieee list" where
  "scan_frames ceiling' (l # r # rest) next =
     (let (next1, peak) = scan_frame ceiling' l r next;
          (next2, peaks) = scan_frames ceiling' rest next1
      in (next2, peak # peaks))"
| "scan_frames ceiling' _ next = (next, [])"

text \<open>The peak of every frame and those after it.\<close>

definition suffix_peaks :: "ieee list \<Rightarrow> ieee list" where
  "suffix_peaks peaks =
     snd (foldr (\<lambda>p (future_peak, suffix). let f = fl_max future_peak p in (f, f # suffix)) peaks (Fin 0, []))"

text \<open>One sample of the second pass: the output, and whether it was reduced.\<close>

definition limit_sample ::
  "ieee \<Rightarrow> ieee \<Rightarrow> ieee \<Rightarrow> V1LinkedStereoBlockLimiterTelemetry \<Rightarrow>
   V1LinkedStereoBlockLimiterTelemetry \<times> ieee \<times> bool" where
  "limit_sample ceiling' gain sample next =
     (let input = Sanitized sample;
          scaled = fl_mult Single input gain;
          output = fl_clamp scaled (fl_neg ceiling') ceiling';
          next1 = (if \<not> fl_equal output scaled
                   then next\<lparr>lt_fallback_clamp_count := lt_fallback_clamp_count next + 1\<rparr> else next);
          next2 = next1\<lparr>lt_output_peak := fl_max (lt_output_peak next1) (fl_abs output)\<rparr>;
          reduced = (\<not> fl_equal input (Fin 0) \<and> fl_less (fl_abs output) (fl_abs input))
      in (if reduced
          then next2\<lparr>lt_reduced_sample_count := lt_reduced_sample_count next2 + 1\<rparr> else next2,
          output, reduced))"

definition limit_samples ::
  "ieee \<Rightarrow> ieee \<Rightarrow> ieee \<Rightarrow> ieee \<Rightarrow> V1LinkedStereoBlockLimiterTelemetry \<Rightarrow>
   V1LinkedStereoBlockLimiterTelemetry \<times> ieee \<times> ieee" where
  "limit_samples ceiling' gain l r next =
     (let (next1, left, left_reduced) = limit_sample ceiling' gain l next;
          (next2, right, right_reduced) = limit_sample ceiling' gain r next1
      in (if left_reduced \<or> right_reduced
          then next2\<lparr>lt_reduced_frame_count := lt_reduced_frame_count next2 + 1\<rparr> else next2,
          left, right))"

text \<open>The gain of the next frame.\<close>

definition next_frame_gain :: "ieee \<Rightarrow> ieee \<Rightarrow> ieee \<Rightarrow> ieee \<Rightarrow> ieee option" where
  "next_frame_gain ceiling' gain release_step next_suffix_peak =
     (if \<not> fl_less gain (Fin 1) then Some gain
      else do {
        suffix_limit \<leftarrow> SafeGainForPeak next_suffix_peak ceiling';
        let sum = fl_add Single gain release_step;
        let released =
          (if fl_le (fl_sub Single (Fin 1) release_step) sum then Fin 1 else sum);
        Some (fl_max gain (fl_min suffix_limit (fl_min (Fin 1) released)))
      })"

text \<open>
  An attack, if the limit is below the gain; \<open>seen\<close> is the largest step seen so far.  The first
  component is false if there is no release step for it.
\<close>

definition attack ::
  "u32 \<Rightarrow> ieee \<Rightarrow> ieee \<Rightarrow> ieee \<Rightarrow> ieee \<Rightarrow> (ieee \<Rightarrow> ieee) \<Rightarrow> V1LinkedStereoBlockLimiterTelemetry \<Rightarrow>
   bool \<times> ieee \<times> ieee \<times> V1LinkedStereoBlockLimiterTelemetry" where
  "attack sample_rate_hz release_ms limit gain release_step seen next =
     (if \<not> fl_less limit gain then (True, gain, release_step, next)
      else
        let next1 = next\<lparr>lt_maximum_gain_step := seen (fl_sub Single gain limit)\<rparr>
        in case ComputeReleaseStep limit sample_rate_hz release_ms of
             None \<Rightarrow> (False, limit, release_step, next1)
           | Some step \<Rightarrow>
               (True, limit, step, next1\<lparr>lt_attack_count := lt_attack_count next1 + 1\<rparr>))"

text \<open>
  The second pass over the frames left, with the suffix peaks of the frames after the current one.
  The answer is false if a frame had no release step; the buffer is rewritten up to that frame.
\<close>

fun limit_frames ::
  "ieee \<Rightarrow> u32 \<Rightarrow> ieee \<Rightarrow> ieee list \<Rightarrow> ieee list \<Rightarrow> ieee \<Rightarrow> ieee \<Rightarrow>
   V1LinkedStereoBlockLimiterTelemetry \<Rightarrow>
   (bool \<times> ieee list \<times> ieee \<times> ieee \<times> V1LinkedStereoBlockLimiterTelemetry) option" where
  "limit_frames ceiling' sample_rate_hz release_ms suffix (l # r # rest) gain release_step next =
     do {
       let frame_peak = fl_max (fl_abs (Sanitized l)) (fl_abs (Sanitized r));
       frame_limit \<leftarrow> SafeGainForPeak frame_peak ceiling';
       let (attacked, gain1, release_step1, next1) =
         attack sample_rate_hz release_ms frame_limit gain release_step
           (fl_max (lt_maximum_gain_step next)) next;
       if \<not> attacked then Some (False, l # r # rest, gain1, release_step1, next1)
       else do {
         let next2 = next1\<lparr>lt_minimum_gain := fl_min (lt_minimum_gain next1) gain1,
                           lt_last_gain := gain1\<rparr>;
         let (next3, left, right) = limit_samples ceiling' gain1 l r next2;
         next_gain \<leftarrow> next_frame_gain ceiling' gain1 release_step1
           (case suffix of [] \<Rightarrow> Fin 0 | p # ps \<Rightarrow> p);
         let next4 = next3\<lparr>lt_maximum_gain_step := fl_max (lt_maximum_gain_step next3)
                             (fl_abs (fl_sub Single next_gain gain1))\<rparr>;
         let release_step2 = (if fl_equal next_gain (Fin 1) then Fin 0 else release_step1);
         (ok, out, gain', release_step', next') \<leftarrow>
           limit_frames ceiling' sample_rate_hz release_ms (drop 1 suffix) rest next_gain release_step2
             next4;
         Some (ok, left # right # out, gain', release_step', next')
       }
     }"
| "limit_frames ceiling' sample_rate_hz release_ms suffix rest gain release_step next =
     Some (True, rest, gain, release_step, next)"

definition limiter_state_ok :: "V1LinkedStereoBlockLimiterState \<Rightarrow> bool" where
  "limiter_state_ok state \<longleftrightarrow>
     \<not> (\<not> IsUnitScalar (ll_gain state) \<or> \<not> IsUnitScalar (ll_release_step state) \<or>
        (fl_less (ll_gain state) (Fin 1) \<and> fl_le (ll_release_step state) (Fin 0)) \<or>
        (fl_equal (ll_gain state) (Fin 1) \<and> \<not> fl_equal (ll_release_step state) (Fin 0)))"

definition ProcessV1LinkedStereoBlock ::
  "ieee list \<Rightarrow> ieee \<Rightarrow> u32 \<Rightarrow> ieee \<Rightarrow> V1LinkedStereoBlockLimiterState \<Rightarrow>
   V1LinkedStereoBlockLimiterTelemetry \<Rightarrow>
   (bool \<times> ieee list \<times> V1LinkedStereoBlockLimiterState \<times> V1LinkedStereoBlockLimiterTelemetry) option" where
  "ProcessV1LinkedStereoBlock interleaved_stereo ceiling' sample_rate_hz release_ms state telemetry =
     (let frame_count = length interleaved_stereo div 2
      in if frame_count > kV1LinkedStereoLimiterMaximumFrames \<or> \<not> isfinite ceiling' \<or>
            fl_le ceiling' (Fin 0) \<or> fl_less kV1LinkedStereoLimiterHardMaximumCeiling ceiling' \<or>
            sample_rate_hz = 0 \<or> \<not> isfinite release_ms \<or> fl_le release_ms (Fin 0) \<or>
            \<not> limiter_state_ok state
         then Some (False, interleaved_stereo, state, telemetry)
         else do {
           let (next0, peaks) = scan_frames ceiling' interleaved_stereo
             V1LinkedStereoBlockLimiterTelemetry_default;
           let suffix = suffix_peaks peaks;
           block_limit \<leftarrow> SafeGainForPeak (lt_block_peak next0) ceiling';
           let (attacked, gain, release_step, next1) =
             attack sample_rate_hz release_ms block_limit (ll_gain state) (ll_release_step state)
               (\<lambda>s. s) next0;
           if \<not> attacked then Some (False, interleaved_stereo, state, telemetry)
           else do {
             let next2 = next1\<lparr>lt_minimum_gain := (if frame_count = 0 then gain else Fin 1),
                               lt_last_gain := gain\<rparr>;
             (ok, out, gain', release_step', next') \<leftarrow>
               limit_frames ceiling' sample_rate_hz release_ms (drop 1 suffix) interleaved_stereo gain
                 release_step next2;
             if ok then Some (True, out, \<lparr>ll_gain = gain', ll_release_step = release_step'\<rparr>, next')
             else Some (False, out, state, telemetry)
           }
         })"

section \<open>Safe gains\<close>

text \<open>The loop returns: every turn lowers the gain by a multiple of the smallest positive value.\<close>

lemma reduce_gain_returns:
  assumes "0 < c"
  shows "\<exists>g. reduce_gain (Fin p) (Fin c) (Fin (of_nat k * smallest_positive Single)) = Some (Fin g) \<and>
    0 \<le> g \<and> g \<le> of_nat k * smallest_positive Single"
proof (induction k rule: less_induct)
  case (less k)
  let ?a = "of_nat k * smallest_positive Single"
  show ?case
  proof (cases "fl_less (Fin c) (fl_mult Single (Fin p) (Fin ?a))")
    case True
    have "0 < k"
    proof (rule ccontr)
      assume "\<not> 0 < k"
      then show False using True assms by (simp add: fround_def rounded_def)
    qed
    then obtain k' where k': "k' < k"
      "fl_towards_zero Single (Fin ?a) = Fin (of_nat k' * smallest_positive Single)"
      using towards_zero_multiple by blast
    have "of_nat k' * smallest_positive Single \<le> ?a"
      using k'(1) by (intro mult_right_mono) (simp_all add: less_imp_le)
    moreover obtain g where "reduce_gain (Fin p) (Fin c) (Fin (of_nat k' * smallest_positive Single)) = Some (Fin g)"
      "0 \<le> g" "g \<le> of_nat k' * smallest_positive Single"
      using less.IH [OF k'(1)] by blast
    moreover have "reduce_gain (Fin p) (Fin c) (Fin ?a) =
        reduce_gain (Fin p) (Fin c) (Fin (of_nat k' * smallest_positive Single))"
      using True k'(2) by (simp only: reduce_gain.simps [of "Fin p" "Fin c" "Fin ?a"] if_True)
    ultimately show ?thesis by (metis order_trans)
  next
    case False
    then show ?thesis by (subst reduce_gain.simps) (simp add: mult_nonneg_nonneg less_imp_le)
  qed
qed

lemma safe_gain:
  assumes "0 \<le> p" "0 < c"
  shows "\<exists>g. SafeGainForPeak (Fin p) (Fin c) = Some (Fin g) \<and> 0 \<le> g \<and> g \<le> 1 \<and> (p \<le> c \<longrightarrow> g = 1)"
proof (cases "p \<le> c")
  case True
  then show ?thesis by (auto simp: SafeGainForPeak_def fl_le_def)
next
  case False
  then have q: "0 \<le> c / p" "c / p \<le> 1" "p \<noteq> 0" using assms by auto
  note r = fround_unit [OF q(1,2), of Single]
  obtain k where k: "rounded Single (c / p) = of_nat k * smallest_positive Single"
    using rounded_multiple [OF q(1)] by blast
  obtain g where "reduce_gain (Fin p) (Fin c) (Fin (rounded Single (c / p))) = Some (Fin g)"
    "0 \<le> g" "g \<le> rounded Single (c / p)"
    using reduce_gain_returns [OF assms(2), of p k] unfolding k by blast
  then show ?thesis
    using False q(3) r by (auto simp: SafeGainForPeak_def fl_le_def)
qed

section \<open>Louder peaks have smaller gains\<close>

definition over_ceiling :: "rat \<Rightarrow> rat \<Rightarrow> rat \<Rightarrow> bool" where
  "over_ceiling c p a \<longleftrightarrow> fl_less (Fin c) (fl_mult Single (Fin p) (Fin a))"

lemma over_ceiling_mono:
  assumes "over_ceiling c p a" "0 \<le> p" "p \<le> p'" "0 \<le> a"
  shows "over_ceiling c p' a"
proof -
  have "0 \<le> p * a" "p * a \<le> p' * a" using assms by (simp_all add: mult_right_mono)
  then have "rounded Single (p * a) \<le> rounded Single (p' * a)" "0 \<le> rounded Single (p * a)"
    by (simp_all add: rounded_mono rounded_nonneg)
  then show ?thesis
    using assms(1) largest_ge_1 [of Single]
    by (auto simp: over_ceiling_def fround_def Let_def split: if_splits)
qed

lemma reduce_gain_step:
  "reduce_gain (Fin p) (Fin c) (Fin a) =
    (if over_ceiling c p a then reduce_gain (Fin p) (Fin c) (fl_towards_zero Single (Fin a)) else Some (Fin a))"
  by (subst reduce_gain.simps) (simp add: over_ceiling_def)

text \<open>The loop stops at a value that keeps the peak below the ceiling, and at no smaller one than
  another such value below its start.\<close>

lemma reduce_gain_stops:
  assumes "reduce_gain (Fin p) (Fin c) (Fin a) = Some (Fin g)" "0 < c" "rounded Single a = a" "0 \<le> a"
  shows "0 \<le> g \<and> g \<le> a \<and> rounded Single g = g \<and> \<not> over_ceiling c p g \<and>
    (0 \<le> h \<longrightarrow> h \<le> a \<longrightarrow> rounded Single h = h \<longrightarrow> \<not> over_ceiling c p h \<longrightarrow> h \<le> g)"
proof -
  have "x = Fin p \<Longrightarrow> y = Fin c \<Longrightarrow> z = Fin a \<Longrightarrow> r = Fin g \<Longrightarrow> rounded Single a = a \<Longrightarrow> 0 \<le> a \<Longrightarrow>
      0 \<le> g \<and> g \<le> a \<and> rounded Single g = g \<and> \<not> over_ceiling c p g \<and>
      (0 \<le> h \<longrightarrow> h \<le> a \<longrightarrow> rounded Single h = h \<longrightarrow> \<not> over_ceiling c p h \<longrightarrow> h \<le> g)"
    if "reduce_gain x y z = Some r" for x y z r a
    using that
  proof (induction arbitrary: a rule: reduce_gain.raw_induct [rotated, consumes 1, case_names step])
    case (step loop x y z r)
    show ?case
    proof (cases "over_ceiling c p a")
      case False
      then show ?thesis using step(2-8) by (auto simp: over_ceiling_def)
    next
      case True
      have "a \<noteq> 0" using True assms(2) by (auto simp: over_ceiling_def)
      then obtain v where v: "fl_towards_zero Single (Fin a) = Fin v" "rounded Single v = v" "0 \<le> v" "v < a"
        "\<forall>b. 0 \<le> b \<longrightarrow> b < a \<longrightarrow> rounded Single b = b \<longrightarrow> b \<le> v"
        using predecessor [of Single a] step(7,8) by auto
      have run: "loop (Fin p) (Fin c) (Fin v) = Some (Fin g)"
        using step(2-6) True v(1) by (simp add: over_ceiling_def del: fl_towards_zero.simps)
      have "h \<le> v" if "0 \<le> h" "h \<le> a" "rounded Single h = h" "\<not> over_ceiling c p h"
        using v(5) that True by (cases "h = a") auto
      then show ?thesis
        using step(1) [OF run refl refl refl refl v(2,3)] v(4) by auto
    qed
  qed
  then show ?thesis using assms by blast
qed

text \<open>The gain that the limiter may apply to a peak.\<close>

definition safe :: "rat \<Rightarrow> rat \<Rightarrow> rat" where
  "safe c p = (case SafeGainForPeak (Fin p) (Fin c) of Some (Fin g) \<Rightarrow> g | _ \<Rightarrow> 0)"

lemma safe_gain_is:
  assumes "0 \<le> p" "0 < c"
  shows "SafeGainForPeak (Fin p) (Fin c) = Some (Fin (safe c p))" "0 \<le> safe c p" "safe c p \<le> 1"
    "p \<le> c \<Longrightarrow> safe c p = 1"
  using safe_gain [OF assms] by (auto simp: safe_def)

lemma safe_loud:
  assumes "c < p" "0 < c"
  shows "reduce_gain (Fin p) (Fin c) (Fin (rounded Single (c / p))) = Some (Fin (safe c p))"
proof -
  have q: "0 \<le> c / p" "c / p \<le> 1" "p \<noteq> 0" using assms by auto
  then show ?thesis
    using safe_gain_is(1) [of p c] assms fround_unit(1) [OF q(1,2), of Single]
    by (simp add: SafeGainForPeak_def fl_le_def)
qed

lemma safe_antimono:
  assumes "0 \<le> p" "p \<le> p'" "0 < c"
  shows "safe c p' \<le> safe c p"
proof (cases "p \<le> c")
  case True
  then show ?thesis using safe_gain_is [of p c] safe_gain_is [of p' c] assms by simp
next
  case False
  let ?a = "rounded Single (c / p)" and ?a' = "rounded Single (c / p')"
  have pos: "0 < p" "c < p" "c < p'" using False assms by simp_all
  have quotients: "0 \<le> c / p'" "c / p' \<le> c / p" using pos assms by (simp_all add: frac_le)
  then have order: "?a' \<le> ?a" "0 \<le> ?a'" "0 \<le> ?a" by (simp_all add: rounded_mono rounded_nonneg)
  have exact: "rounded Single ?a = ?a" "rounded Single ?a' = ?a'"
    using rounded_twice quotients by (metis order_trans)+
  have g': "0 \<le> safe c p' \<and> safe c p' \<le> ?a' \<and> rounded Single (safe c p') = safe c p' \<and>
      \<not> over_ceiling c p' (safe c p')"
    using reduce_gain_stops [OF safe_loud [OF pos(3) assms(3)] assms(3) exact(2) order(2)]
    by blast
  then have "\<not> over_ceiling c p (safe c p')" using over_ceiling_mono assms by blast
  then show ?thesis
    using reduce_gain_stops [OF safe_loud [OF pos(2) assms(3)] assms(3) exact(1) order(3), of "safe c p'"]
      g' order(1) by linarith
qed

text \<open>The gain and the release step between two frames.\<close>

definition gains_ok :: "rat \<Rightarrow> rat \<Rightarrow> bool" where
  "gains_ok g s \<longleftrightarrow> 0 \<le> g \<and> g \<le> 1 \<and> 0 \<le> s \<and> s \<le> 1 \<and> (if g = 1 then s = 0 else 0 < s)"

lemma state_gains:
  "limiter_state_ok state \<longleftrightarrow> (\<exists>g s. state = \<lparr>ll_gain = Fin g, ll_release_step = Fin s\<rparr> \<and> gains_ok g s)"
proof -
  obtain a b where "state = \<lparr>ll_gain = a, ll_release_step = b\<rparr>" by (cases state)
  then show ?thesis
    by (cases a; cases b) (auto simp: limiter_state_ok_def gains_ok_def IsUnitScalar_def fl_le_def)
qed

lemma release_step: "ComputeReleaseStep g rate ms = Some v \<Longrightarrow> \<exists>s. v = Fin s \<and> 0 < s \<and> s \<le> 1"
  by (cases v) (auto simp: ComputeReleaseStep_def Let_def fl_le_def split: if_splits)

lemma attack_gains:
  assumes "gains_ok g s" "0 \<le> m" "m \<le> 1"
  shows "\<exists>ok g' s' t'. attack rate ms (Fin m) (Fin g) (Fin s) seen t = (ok, Fin g', Fin s', t') \<and>
    g' \<le> m \<and> (ok \<longrightarrow> gains_ok g' s')"
proof (cases "m < g")
  case False
  then show ?thesis using assms(1) by (auto simp: attack_def)
next
  case True
  show ?thesis
  proof (cases "ComputeReleaseStep (Fin m) rate ms")
    case None
    then show ?thesis using True by (auto simp: attack_def Let_def)
  next
    case (Some v)
    obtain r where r: "v = Fin r" "0 < r" "r \<le> 1" using release_step [OF Some] by blast
    have "gains_ok m r" using True assms r by (auto simp: gains_ok_def)
    then show ?thesis using True Some r(1) by (auto simp: attack_def Let_def)
  qed
qed

lemma next_gain:
  assumes "gains_ok g s" "0 \<le> p" "0 < c"
  shows "\<exists>n. next_frame_gain (Fin c) (Fin g) (Fin s) (Fin p) = Some (Fin n) \<and>
    gains_ok n (if n = 1 then 0 else s) \<and> n \<le> max g (safe c p)"
proof (cases "g < 1")
  case False
  then show ?thesis using assms(1) by (auto simp: next_frame_gain_def gains_ok_def)
next
  case True
  note m = safe_gain_is(1-3) [OF assms(2,3)]
  have two: "rounded Single 2 = 2" using rounded_int [of 2 Single] by simp
  have "rounded Single (g + s) \<le> 2" "0 \<le> rounded Single (g + s)"
    using assms(1) rounded_mono [of "g + s" 2 Single] two
    by (auto simp: gains_ok_def intro!: rounded_nonneg)
  moreover have "2 \<le> largest_finite Single" by simp
  ultimately have sum: "fround Single (g + s) = Fin (rounded Single (g + s))"
    by (simp add: fround_def Let_def)
  show ?thesis
    using True m assms(1) unfolding next_frame_gain_def
    by (auto simp: sum Let_def fl_max_def fl_min_def gains_ok_def)
qed

section \<open>The passes\<close>

text \<open>The level of a sample, and of the loudest one of a buffer.\<close>

definition level :: "ieee \<Rightarrow> rat" where
  "level x = (case x of Fin q \<Rightarrow> \<bar>q\<bar> | _ \<Rightarrow> 0)"

fun loudest :: "ieee list \<Rightarrow> rat" where
  "loudest (l # r # rest) = max (max (level l) (level r)) (loudest rest)"
| "loudest _ = 0"

fun loudest_suffixes :: "ieee list \<Rightarrow> ieee list" where
  "loudest_suffixes (l # r # rest) = Fin (loudest (l # r # rest)) # loudest_suffixes rest"
| "loudest_suffixes _ = []"

lemma level_simps [simp]: "fl_abs (Sanitized x) = Fin (level x)" "0 \<le> level x"
  by (cases x; simp add: Sanitized_def level_def)+

lemma fl_max_Fin [simp]: "fl_max (Fin a) (Fin b) = Fin (max a b)"
  by (simp add: fl_max_def max_def)

lemma loudest_nonneg [simp]: "0 \<le> loudest xs"
  by (induction xs rule: induct_list012) (simp_all add: le_max_iff_disj)

lemma scan_frame_level:
  "lt_block_peak next = Fin b \<Longrightarrow>
     lt_block_peak (fst (scan_frame c l r next)) = Fin (max b (max (level l) (level r)))"
  "snd (scan_frame c l r next) = Fin (max (level l) (level r))"
  by (simp_all add: scan_frame_def Let_def)

lemma scan_frames_level:
  "lt_block_peak next = Fin b \<Longrightarrow> 0 \<le> b \<Longrightarrow>
     lt_block_peak (fst (scan_frames c xs next)) = Fin (max b (loudest xs))"
proof (induction xs arbitrary: "next" b rule: induct_list012)
  case (3 l r rest)
  have "0 \<le> max b (max (level l) (level r))" using 3(4) by simp
  from 3(1) [OF scan_frame_level(1) [OF 3(3)] this]
  show ?case by (simp add: case_prod_beta Let_def max.assoc)
qed simp_all

lemma suffix_peaks_scan:
  "suffix_peaks (snd (scan_frames c xs next)) = loudest_suffixes xs"
proof -
  let ?f = "\<lambda>p (future_peak, suffix). let f = fl_max future_peak p in (f, f # suffix)"
  have "foldr ?f (snd (scan_frames c xs next)) (Fin 0, []) = (Fin (loudest xs), loudest_suffixes xs)"
    by (induction xs arbitrary: "next" rule: induct_list012)
      (simp_all add: case_prod_beta Let_def scan_frame_level max.commute)
  then show ?thesis by (simp add: suffix_peaks_def)
qed

text \<open>An output sample is finite and within the ceiling.\<close>

definition bounded_by :: "rat \<Rightarrow> ieee \<Rightarrow> bool" where
  "bounded_by c x \<longleftrightarrow> (\<exists>v. x = Fin v \<and> \<bar>v\<bar> \<le> c)"

lemma fround_not_nan: "fround fmt q \<noteq> NotANumber"
  by (simp add: fround_def Let_def)

lemma clamped:
  assumes "0 < c" "x \<noteq> NotANumber"
  shows "bounded_by c (fl_clamp x (Fin (- c)) (Fin c))"
  using assms by (cases x) (auto simp: fl_clamp_def bounded_by_def)

lemma limit_sample_within:
  assumes "0 < c"
  shows "bounded_by c (fst (snd (limit_sample (Fin c) (Fin g) x next)))"
proof -
  obtain v where v: "Sanitized x = Fin v" by (cases x) (auto simp: Sanitized_def)
  show ?thesis
    using clamped [OF assms fround_not_nan, of Single "v * g"]
    by (simp add: limit_sample_def Let_def v)
qed

lemma limit_samples_within:
  assumes "0 < c"
  shows "\<exists>t l' r'. limit_samples (Fin c) (Fin g) l r next = (t, l', r') \<and> bounded_by c l' \<and> bounded_by c r'"
  using limit_sample_within [OF assms, of g l "next"]
    limit_sample_within [OF assms, of g r "fst (limit_sample (Fin c) (Fin g) l next)"]
  by (simp add: limit_samples_def case_prod_beta Let_def)

text \<open>While the gain is safe for the loudest sample left, no frame attacks again, so no frame is without
  a release step: a peak that is not louder has no smaller gain.\<close>

lemma limit_frames_correct:
  assumes "0 < c"
  shows "gains_ok g s \<Longrightarrow> g \<le> safe c (loudest xs) \<Longrightarrow>
    \<exists>out g' s' t'. limit_frames (Fin c) rate ms (drop 1 (loudest_suffixes xs)) xs (Fin g) (Fin s) next =
        Some (True, out, Fin g', Fin s', t') \<and> length out = length xs \<and>
      (even (length xs) \<longrightarrow> list_all (bounded_by c) out) \<and> gains_ok g' s'"
proof (induction xs arbitrary: g s "next" rule: induct_list012)
  case (3 l r rest)
  let ?p = "max (level l) (level r)" and ?loudest = "loudest (l # r # rest)"
  have p: "0 \<le> ?p" "?p \<le> ?loudest" by (simp_all add: le_max_iff_disj)
  note m = safe_gain_is(1) [OF p(1) assms]
  have "g \<le> safe c ?p" using safe_antimono [OF p assms] 3(4) by linarith
  then have a: "attack rate ms (Fin (safe c ?p)) (Fin g) (Fin s) (fl_max (lt_maximum_gain_step next)) next =
      (True, Fin g, Fin s, next)" by (simp add: attack_def)
  define t2 where "t2 = next\<lparr>lt_minimum_gain := fl_min (lt_minimum_gain next) (Fin g), lt_last_gain := Fin g\<rparr>"
  obtain t3 l' r' where ls: "limit_samples (Fin c) (Fin g) l r t2 = (t3, l', r')" "bounded_by c l'" "bounded_by c r'"
    using limit_samples_within [OF assms] by metis
  have suffix: "(case loudest_suffixes rest of [] \<Rightarrow> Fin 0 | p # ps \<Rightarrow> p) = Fin (loudest rest)"
    by (cases rest rule: loudest_suffixes.cases) simp_all
  obtain n where n: "next_frame_gain (Fin c) (Fin g) (Fin s) (Fin (loudest rest)) = Some (Fin n)"
    "gains_ok n (if n = 1 then 0 else s)" "n \<le> max g (safe c (loudest rest))"
    using next_gain [OF 3(3) loudest_nonneg assms] by blast
  have "safe c ?loudest \<le> safe c (loudest rest)" using assms by (intro safe_antimono) simp_all
  then have "n \<le> safe c (loudest rest)" using n(3) 3(4) by linarith
  then obtain out g2 s2 t4 where r: "limit_frames (Fin c) rate ms (drop 1 (loudest_suffixes rest)) rest (Fin n)
      (Fin (if n = 1 then 0 else s))
      (t3\<lparr>lt_maximum_gain_step := fl_max (lt_maximum_gain_step t3)
        (fl_abs (fl_sub Single (Fin n) (Fin g)))\<rparr>) = Some (True, out, Fin g2, Fin s2, t4)"
    "length out = length rest" "even (length rest) \<longrightarrow> list_all (bounded_by c) out" "gains_ok g2 s2"
    using 3(1) [OF n(2)] by blast
  have "limit_frames (Fin c) rate ms (drop 1 (loudest_suffixes (l # r # rest))) (l # r # rest) (Fin g) (Fin s) next =
      Some (True, l' # r' # out, Fin g2, Fin s2, t4)"
    using m n(1) a r(1) ls(1) by (simp add: Let_def suffix t2_def if_distrib [of Fin])
  then show ?case using r(2-4) ls(2,3) by auto
qed auto

text \<open>A block of samples of the format that stay within the ceiling.\<close>

definition quiet_sample :: "rat \<Rightarrow> ieee \<Rightarrow> bool" where
  "quiet_sample c x \<longleftrightarrow> bounded_by c x \<and> fl_value Single x"

lemma quiet_frame:
  assumes "quiet_sample c l" "quiet_sample c r" "0 < c"
  shows "SafeGainForPeak (fl_max (fl_abs (Sanitized l)) (fl_abs (Sanitized r))) (Fin c) = Some (Fin 1)"
    "\<exists>t. limit_samples (Fin c) (Fin 1) l r next = (t, l, r)"
proof -
  obtain a b where ab: "l = Fin a" "r = Fin b" "\<bar>a\<bar> \<le> c" "\<bar>b\<bar> \<le> c" "fround Single a = Fin a"
    "fround Single b = Fin b"
    using assms fround_value by (auto simp: quiet_sample_def bounded_by_def)
  show "SafeGainForPeak (fl_max (fl_abs (Sanitized l)) (fl_abs (Sanitized r))) (Fin c) = Some (Fin 1)"
    using ab by (auto simp: SafeGainForPeak_def Sanitized_def fl_max_def fl_le_def)
  show "\<exists>t. limit_samples (Fin c) (Fin 1) l r next = (t, l, r)"
    using ab by (auto simp: limit_samples_def limit_sample_def Sanitized_def fl_clamp_def Let_def)
qed

lemma limit_frames_quiet:
  "list_all (quiet_sample c) xs \<Longrightarrow> 0 < c \<Longrightarrow>
     \<exists>t. limit_frames (Fin c) rate ms suffix xs (Fin 1) (Fin 0) next = Some (True, xs, Fin 1, Fin 0, t)"
proof (induction xs arbitrary: suffix "next" rule: induct_list012)
  case (3 l r rest)
  then have q: "quiet_sample c l" "quiet_sample c r" "list_all (quiet_sample c) rest" by simp_all
  note f = quiet_frame [OF q(1,2) 3(4)]
  define t2 where "t2 = next\<lparr>lt_minimum_gain := fl_min (lt_minimum_gain next) (Fin 1), lt_last_gain := Fin 1\<rparr>"
  obtain t3 where t3: "limit_samples (Fin c) (Fin 1) l r t2 = (t3, l, r)" using f(2) by blast
  obtain t where "limit_frames (Fin c) rate ms (drop 1 suffix) rest (Fin 1) (Fin 0)
      (t3\<lparr>lt_maximum_gain_step := fl_max (lt_maximum_gain_step t3) (fl_abs (fl_sub Single (Fin 1) (Fin 1)))\<rparr>)
      = Some (True, rest, Fin 1, Fin 0, t)"
    using 3(1) [OF q(3) 3(4)] by blast
  then show ?case
    using f(1) t3 by (simp add: attack_def next_frame_gain_def t2_def Let_def)
qed simp_all

lemma scan_quiet:
  "list_all (quiet_sample c) xs \<Longrightarrow> lt_block_peak next = Fin p \<Longrightarrow> p \<le> c \<Longrightarrow>
     \<exists>q. lt_block_peak (fst (scan_frames (Fin c) xs next)) = Fin q \<and> q \<le> c"
proof (induction xs arbitrary: "next" p rule: induct_list012)
  case (3 l r rest)
  then obtain a b where ab: "l = Fin a" "r = Fin b" "\<bar>a\<bar> \<le> c" "\<bar>b\<bar> \<le> c"
    by (auto simp: quiet_sample_def bounded_by_def)
  then have "\<exists>p'. lt_block_peak (fst (scan_frame (Fin c) l r next)) = Fin p' \<and> p' \<le> c"
    using 3(4,5) by (auto simp: scan_frame_def Sanitized_def fl_max_def Let_def)
  then obtain p' where "lt_block_peak (fst (scan_frame (Fin c) l r next)) = Fin p'" "p' \<le> c"
    by blast
  then show ?case
    using 3(1) [of "fst (scan_frame (Fin c) l r next)" p'] 3(3) by (simp add: case_prod_beta Let_def)
qed auto

section \<open>Properties\<close>

text \<open>C10: The limiter always returns, and an accepted block never exceeds the ceiling: for every buffer of
  whole frames, whatever the samples are, every output sample is a number of at most the ceiling, the
  buffer keeps its length, and the state left behind is one the next block is accepted with.  A refused
  block changes nothing: the samples, the state and the telemetry are those of before.  (The second pass
  has a refusal after it has rewritten part of the buffer, but no block takes it: the gain of the first
  pass is safe for the loudest sample, and a quieter frame has no smaller safe gain.)\<close>

lemma limiter_respects_ceiling:
  "case ProcessV1LinkedStereoBlock samples (Fin c) rate ms state telemetry of
     None \<Rightarrow> False
   | Some (accepted, out, state', telemetry') \<Rightarrow>
       if \<not> accepted then out = samples \<and> state' = state \<and> telemetry' = telemetry
       else 0 < c \<and> c \<le> 1 \<and> limiter_state_ok state' \<and>
            (if even (length samples)
             then length out = length samples \<and> list_all (bounded_by c) out else True)"
proof -
  let ?result = "ProcessV1LinkedStereoBlock samples (Fin c) rate ms state telemetry"
  define refused where "refused \<longleftrightarrow> length samples div 2 > 128 \<or> c \<le> 0 \<or> 1 < c \<or> rate = 0 \<or>
    \<not> isfinite ms \<or> fl_le ms (Fin 0) \<or> \<not> limiter_state_ok state"
  show ?thesis
  proof (cases refused)
    case True
    then have "?result = Some (False, samples, state, telemetry)"
      unfolding ProcessV1LinkedStereoBlock_def Let_def refused_def fl_le_def by (auto simp del: split_paired_Ex)
    then show ?thesis by simp
  next
    case False
    then have c: "0 < c" "c \<le> 1" and "limiter_state_ok state" by (simp_all add: refused_def)
    then obtain g s where state: "state = \<lparr>ll_gain = Fin g, ll_release_step = Fin s\<rparr>" "gains_ok g s"
      using state_gains by blast
    obtain next0 peaks where scan: "scan_frames (Fin c) samples V1LinkedStereoBlockLimiterTelemetry_default
        = (next0, peaks)" by (rule prod.exhaust)
    have peaks: "lt_block_peak next0 = Fin (loudest samples)" "suffix_peaks peaks = loudest_suffixes samples"
      using scan_frames_level [of V1LinkedStereoBlockLimiterTelemetry_default 0 "Fin c" samples] scan
        suffix_peaks_scan [of "Fin c" samples V1LinkedStereoBlockLimiterTelemetry_default]
      by (simp_all add: V1LinkedStereoBlockLimiterTelemetry_default_def max_def)
    note m = safe_gain_is(1-3) [OF loudest_nonneg c(1), of samples]
    obtain ok1 g1 s1 t1 where a: "attack rate ms (Fin (safe c (loudest samples))) (Fin g) (Fin s) (\<lambda>s. s) next0 =
        (ok1, Fin g1, Fin s1, t1)" "g1 \<le> safe c (loudest samples)" "ok1 \<longrightarrow> gains_ok g1 s1"
      using attack_gains [OF state(2) m(2,3)] by metis
    show ?thesis
    proof (cases ok1)
      case False
      then have "?result = Some (False, samples, state, telemetry)"
        using \<open>\<not> refused\<close> scan peaks m a
        by (simp add: ProcessV1LinkedStereoBlock_def refused_def fl_le_def Let_def state)
      then show ?thesis by simp
    next
      case True
      then have gains: "gains_ok g1 s1" using a(3) by simp
      let ?t2 = "t1\<lparr>lt_minimum_gain := (if length samples div 2 = 0 then Fin g1 else Fin 1),
        lt_last_gain := Fin g1\<rparr>"
      obtain out g' s' t' where f: "limit_frames (Fin c) rate ms (drop 1 (loudest_suffixes samples)) samples
          (Fin g1) (Fin s1) ?t2 = Some (True, out, Fin g', Fin s', t')" "length out = length samples"
        "even (length samples) \<longrightarrow> list_all (bounded_by c) out" "gains_ok g' s'"
        using limit_frames_correct [OF c(1) gains a(2)] by blast
      have "?result = Some (True, out, \<lparr>ll_gain = Fin g', ll_release_step = Fin s'\<rparr>, t')"
        using \<open>\<not> refused\<close> scan peaks m a f(1) True
        by (simp add: ProcessV1LinkedStereoBlock_def refused_def fl_le_def Let_def state)
      then show ?thesis
        using f(2-4) c state_gains by auto
    qed
  qed
qed

text \<open>Below the ceiling the limiter is transparent: with the gain at 1, a block of single-precision
  samples that stay within the ceiling comes out bit for bit as it went in, and the gain stays at 1.\<close>

lemma limiter_transparent:
  assumes "list_all (quiet_sample c) samples" and "length samples \<le> 256"
    and "0 < c" and "c \<le> 1" and "rate \<noteq> 0" and "0 < ms"
  shows "\<exists>telemetry'. ProcessV1LinkedStereoBlock samples (Fin c) rate (Fin ms)
      V1LinkedStereoBlockLimiterState_default telemetry =
    Some (True, samples, V1LinkedStereoBlockLimiterState_default, telemetry')"
proof -
  let ?t0 = "V1LinkedStereoBlockLimiterTelemetry_default"
  obtain next0 peaks where scan: "scan_frames (Fin c) samples ?t0 = (next0, peaks)" by (rule prod.exhaust)
  obtain q where q: "lt_block_peak next0 = Fin q" "q \<le> c"
    using scan_quiet [OF assms(1), of ?t0 0] assms(3) scan
    by (auto simp: V1LinkedStereoBlockLimiterTelemetry_default_def)
  have limit: "SafeGainForPeak (Fin q) (Fin c) = Some (Fin 1)"
    using q(2) by (auto simp: SafeGainForPeak_def fl_le_def)
  let ?t2 = "next0\<lparr>lt_minimum_gain := (if length samples div 2 = 0 then Fin 1 else Fin 1), lt_last_gain := Fin 1\<rparr>"
  obtain t where "limit_frames (Fin c) rate (Fin ms) (drop 1 (suffix_peaks peaks)) samples (Fin 1) (Fin 0) ?t2 =
      Some (True, samples, Fin 1, Fin 0, t)"
    using limit_frames_quiet [OF assms(1,3)] by blast
  moreover have "limiter_state_ok V1LinkedStereoBlockLimiterState_default"
    by (simp add: state_gains V1LinkedStereoBlockLimiterState_default_def gains_ok_def)
  ultimately show ?thesis
    using assms scan q limit
    by (simp add: ProcessV1LinkedStereoBlock_def V1LinkedStereoBlockLimiterState_default_def Let_def
        attack_def fl_le_def)
qed

lemma limiter_transparent_witness:
  "\<exists>telemetry'. ProcessV1LinkedStereoBlock [Fin 1, Fin (- 1), Fin 0, Fin 1] (Fin 1) 48000 (Fin 50)
      V1LinkedStereoBlockLimiterState_default V1LinkedStereoBlockLimiterTelemetry_default =
    Some (True, [Fin 1, Fin (- 1), Fin 0, Fin 1], V1LinkedStereoBlockLimiterState_default, telemetry')"
  using rounded_minus [of Single 1]
  by (intro limiter_transparent) (simp_all add: quiet_sample_def bounded_by_def)

end
