(* ===== verification/Pcm_Data.thy ===== *)
theory Pcm_Data
  imports Transport_Silence Sent_Frame_Fade Linked_Limiter
begin

text \<open>
  The data of a PCM session, \<open>agent/v1_transport_pcm_session.h\<close>: the formats, the options, the result,
  whose base is the result of a silence session, and the interface of the PCM source.

  The two interfaces of a session (the backend and the source), its stop probe, its notifier, the LDAC
  library, the clock and the sleep are one environment over a world of any type.  Times of the clock are
  in nanoseconds.  The LDAC library works on single-precision samples.
\<close>

section \<open>Formats, options and result\<close>

datatype V1TransportPcmReadDisposition =
  PcmRead_Data | PcmRead_Timeout | PcmRead_StreamStopped | PcmRead_Failure

datatype V1TransportPcmStopDisposition = Stop_None | Stop_Graceful | Stop_Cancel

datatype V1TransportPcmLimiterMode =
  LimiterMode_HardClip | LimiterMode_LinkedStereoBlock | LimiterMode_LinkedStereoSamplePeakFidelity

record V1TransportPcmFormat =
  xf_sample_rate_hz :: u32
  xf_bits_per_sample :: u32
  xf_stream_epoch :: u64
  xf_volume_control_available :: bool
  xf_muted :: bool
  xf_volume_scalar :: ieee
  xf_volume_db :: ieee

definition V1TransportPcmFormat_default :: V1TransportPcmFormat where
  "V1TransportPcmFormat_default =
     \<lparr>xf_sample_rate_hz = 0, xf_bits_per_sample = 0, xf_stream_epoch = 0,
      xf_volume_control_available = False, xf_muted = False, xf_volume_scalar = Fin 0,
      xf_volume_db = Fin 0\<rparr>"

record V1TransportPcmSnapshot =
  xs_format :: V1TransportPcmFormat
  xs_available_bytes :: u32
  xs_capacity_bytes :: u32
  xs_stream_active :: bool
  xs_discontinuity :: bool
  xs_total_bytes_written :: u64
  xs_total_bytes_read :: u64
  xs_total_bytes_dropped :: u64

definition V1TransportPcmSnapshot_default :: V1TransportPcmSnapshot where
  "V1TransportPcmSnapshot_default =
     \<lparr>xs_format = V1TransportPcmFormat_default, xs_available_bytes = 0, xs_capacity_bytes = 0,
      xs_stream_active = False, xs_discontinuity = False, xs_total_bytes_written = 0,
      xs_total_bytes_read = 0, xs_total_bytes_dropped = 0\<rparr>"

record V1TransportPcmOptions =
  xo_open_timeout_ms :: u32
  xo_exchange_timeout_ms :: u32
  xo_media_timeout_ms :: u32
  xo_pcm_read_timeout_ms :: u32
  xo_pcm_timeout_tolerance_ms :: u32
  xo_post_start_stop_classification_timeout_ms :: u32
  xo_audible_preflight_timeout_ms :: u32
  xo_duration_ms :: u32
  xo_maximum_packets :: u32
  xo_preferred_media_mtu :: u16
  xo_maximum_gain_scalar :: ieee
  xo_maximum_output_peak :: ieee
  xo_audible_peak_threshold :: ieee
  xo_limiter_mode :: V1TransportPcmLimiterMode
  xo_limiter_release_ms :: ieee
  xo_session_generation :: u64
  xo_continuous_until_stop :: bool
  xo_pause_suspend :: bool
  xo_single_gain_mode :: bool
  xo_require_stable_volume :: bool
  xo_allow_dynamic_volume :: bool
  xo_allow_post_start_pcm_rebind :: bool
  xo_observe_peer_close_while_streaming :: bool
  xo_startup_silence_ms :: ieee
  xo_fade_in_ms :: ieee
  xo_ceiling_ramp_start :: ieee
  xo_ceiling_ramp_ms :: ieee
  xo_quality :: ldac_encoder_quality
  xo_channel_mode :: ldac_encoder_channel_mode

definition V1TransportPcmOptions_default :: V1TransportPcmOptions where
  "V1TransportPcmOptions_default =
     \<lparr>xo_open_timeout_ms = 10000, xo_exchange_timeout_ms = 5000, xo_media_timeout_ms = 5000,
      xo_pcm_read_timeout_ms = 250, xo_pcm_timeout_tolerance_ms = 0,
      xo_post_start_stop_classification_timeout_ms = 0, xo_audible_preflight_timeout_ms = 3000,
      xo_duration_ms = 10000, xo_maximum_packets = 4096, xo_preferred_media_mtu = 1000,
      xo_maximum_gain_scalar = Fin (5368709 / 536870912), xo_maximum_output_peak = Fin (1 / 4),
      xo_audible_peak_threshold = Fin (13743895 / 137438953472),
      xo_limiter_mode = LimiterMode_HardClip, xo_limiter_release_ms = Fin 50,
      xo_session_generation = 0, xo_continuous_until_stop = False, xo_pause_suspend = False,
      xo_single_gain_mode = False, xo_require_stable_volume = False,
      xo_allow_dynamic_volume = False, xo_allow_post_start_pcm_rebind = False,
      xo_observe_peer_close_while_streaming = False, xo_startup_silence_ms = Fin 0,
      xo_fade_in_ms = Fin 0, xo_ceiling_ramp_start = Fin (1 / 4), xo_ceiling_ramp_ms = Fin 0,
      xo_quality = LDAC_ENCODER_QUALITY_HQ, xo_channel_mode = LDAC_ENCODER_CHANNEL_STEREO\<rparr>"

record V1TransportPcmResult =
  xr_base :: V1TransportSilenceResult
  xr_encoder_quality :: ldac_encoder_quality
  xr_nominal_ldac_bitrate_kbps :: u32
  xr_pcm_format :: V1TransportPcmFormat
  xr_pcm_frames_read :: u64
  xr_pcm_frames_sent :: u64
  xr_transport_frames_sent :: u64
  xr_pre_start_pcm_frames_discarded :: u64
  xr_pcm_prepare_attempts :: u32
  xr_pcm_epoch_restarts :: u32
  xr_pcm_stream_stop_count :: u32
  xr_pcm_stream_stop_detected :: bool
  xr_pcm_stream_stop_error :: u32
  xr_pcm_stream_stop_snapshot_valid :: bool
  xr_pcm_stream_stop_snapshot_error :: u32
  xr_pcm_stream_stop_elapsed_ms :: u64
  xr_pcm_stream_stop_snapshot :: V1TransportPcmSnapshot
  xr_pcm_rebind_attempts :: u32
  xr_pcm_rebind_successes :: u32
  xr_pcm_rebind_failures :: u32
  xr_pcm_rebind_last_error :: u32
  xr_pcm_rebind_last_timeout_ms :: u32
  xr_pcm_rebind_last_elapsed_ms :: u64
  xr_consumer_lease_acquire_count :: u32
  xr_consumer_lease_release_count :: u32
  xr_target_duration_ms :: u32
  xr_actual_duration_ms :: u32
  xr_pacing_waits :: u32
  xr_pcm_transient_timeout_count :: u32
  xr_pcm_transient_timeout_recovery_count :: u32
  xr_pcm_transient_timeout_exhausted_count :: u32
  xr_pcm_transient_timeout_max_streak_ms :: u64
  xr_media_write_not_ready_retries :: u32
  xr_media_write_not_ready_exhaustions :: u32
  xr_maximum_gain_scalar :: ieee
  xr_maximum_output_peak_ceiling :: ieee
  xr_maximum_pre_gain_peak :: ieee
  xr_maximum_unlimited_post_gain_peak :: ieee
  xr_maximum_post_gain_peak :: ieee
  xr_limited_output_samples :: u64
  xr_limiter_mode :: V1TransportPcmLimiterMode
  xr_limiter_release_ms :: ieee
  xr_limiter_minimum_gain :: ieee
  xr_limiter_last_gain :: ieee
  xr_limiter_maximum_gain_step :: ieee
  xr_limiter_blocks_processed :: u64
  xr_limiter_attack_count :: u64
  xr_limiter_gain_reduced_frames :: u64
  xr_limiter_gain_reduced_samples :: u64
  xr_limiter_fallback_clamp_count :: u64
  xr_limiter_sanitized_sample_count :: u64
  xr_limiter_pre_over_ceiling_frames :: u64
  xr_limiter_pre_over_ceiling_samples :: u64
  xr_session_generation :: u64
  xr_volume_query_count :: u64
  xr_volume_change_count :: u64
  xr_volume_scalar_minimum :: ieee
  xr_volume_scalar_maximum :: ieee
  xr_volume_scalar_last :: ieee
  xr_volume_db_minimum :: ieee
  xr_volume_db_maximum :: ieee
  xr_volume_db_last :: ieee
  xr_startup_silence_ms :: ieee
  xr_startup_silence_frames_sent :: u64
  xr_startup_silence_packets_written :: u32
  xr_fade_in_ms :: ieee
  xr_fade_duration_frames :: u64
  xr_fade_committed_sent_frames :: u64
  xr_fade_frames_below_unity :: u64
  xr_fade_blocks_prepared :: u64
  xr_fade_blocks_committed :: u64
  xr_fade_commit_failures :: u64
  xr_fade_sanitized_sample_count :: u64
  xr_fade_minimum_gain :: ieee
  xr_fade_last_gain :: ieee
  xr_boundary_resume_count :: u32
  xr_boundary_resume_fade_frames :: u64
  xr_pause_suspend_count :: u32
  xr_pause_resume_start_count :: u32
  xr_pause_wait_prepare_attempts :: u32
  xr_ceiling_ramp_start :: ieee
  xr_ceiling_ramp_ms :: ieee
  xr_ceiling_ramp_last :: ieee
  xr_volume_stable :: bool
  xr_fade_session_started :: bool
  xr_pcm_prepared :: bool
  xr_consumer_lease_acquired :: bool
  xr_consumer_lease_released :: bool
  xr_consumer_lease_held :: bool
  xr_audible_pcm_confirmed_before_open :: bool
  xr_media_started_notified :: bool
  xr_completed_full_duration :: bool
  xr_ended_by_graceful_stop :: bool

definition V1TransportPcmResult_default :: V1TransportPcmResult where
  "V1TransportPcmResult_default =
     \<lparr>xr_base = V1TransportSilenceResult_default,
      xr_encoder_quality = LDAC_ENCODER_QUALITY_HQ, xr_nominal_ldac_bitrate_kbps = 0,
      xr_pcm_format = V1TransportPcmFormat_default, xr_pcm_frames_read = 0, xr_pcm_frames_sent = 0,
      xr_transport_frames_sent = 0, xr_pre_start_pcm_frames_discarded = 0,
      xr_pcm_prepare_attempts = 0, xr_pcm_epoch_restarts = 0, xr_pcm_stream_stop_count = 0,
      xr_pcm_stream_stop_detected = False, xr_pcm_stream_stop_error = 0,
      xr_pcm_stream_stop_snapshot_valid = False, xr_pcm_stream_stop_snapshot_error = 0,
      xr_pcm_stream_stop_elapsed_ms = 0,
      xr_pcm_stream_stop_snapshot = V1TransportPcmSnapshot_default, xr_pcm_rebind_attempts = 0,
      xr_pcm_rebind_successes = 0, xr_pcm_rebind_failures = 0, xr_pcm_rebind_last_error = 0,
      xr_pcm_rebind_last_timeout_ms = 0, xr_pcm_rebind_last_elapsed_ms = 0,
      xr_consumer_lease_acquire_count = 0, xr_consumer_lease_release_count = 0,
      xr_target_duration_ms = 0, xr_actual_duration_ms = 0, xr_pacing_waits = 0,
      xr_pcm_transient_timeout_count = 0, xr_pcm_transient_timeout_recovery_count = 0,
      xr_pcm_transient_timeout_exhausted_count = 0, xr_pcm_transient_timeout_max_streak_ms = 0,
      xr_media_write_not_ready_retries = 0, xr_media_write_not_ready_exhaustions = 0,
      xr_maximum_gain_scalar = Fin 0, xr_maximum_output_peak_ceiling = Fin 0,
      xr_maximum_pre_gain_peak = Fin 0, xr_maximum_unlimited_post_gain_peak = Fin 0,
      xr_maximum_post_gain_peak = Fin 0, xr_limited_output_samples = 0,
      xr_limiter_mode = LimiterMode_HardClip, xr_limiter_release_ms = Fin 0,
      xr_limiter_minimum_gain = Fin 1, xr_limiter_last_gain = Fin 1,
      xr_limiter_maximum_gain_step = Fin 0, xr_limiter_blocks_processed = 0,
      xr_limiter_attack_count = 0, xr_limiter_gain_reduced_frames = 0,
      xr_limiter_gain_reduced_samples = 0, xr_limiter_fallback_clamp_count = 0,
      xr_limiter_sanitized_sample_count = 0, xr_limiter_pre_over_ceiling_frames = 0,
      xr_limiter_pre_over_ceiling_samples = 0, xr_session_generation = 0,
      xr_volume_query_count = 0, xr_volume_change_count = 0, xr_volume_scalar_minimum = Fin 0,
      xr_volume_scalar_maximum = Fin 0, xr_volume_scalar_last = Fin 0,
      xr_volume_db_minimum = Fin 0, xr_volume_db_maximum = Fin 0, xr_volume_db_last = Fin 0,
      xr_startup_silence_ms = Fin 0, xr_startup_silence_frames_sent = 0,
      xr_startup_silence_packets_written = 0, xr_fade_in_ms = Fin 0, xr_fade_duration_frames = 0,
      xr_fade_committed_sent_frames = 0, xr_fade_frames_below_unity = 0,
      xr_fade_blocks_prepared = 0, xr_fade_blocks_committed = 0, xr_fade_commit_failures = 0,
      xr_fade_sanitized_sample_count = 0, xr_fade_minimum_gain = Fin 1, xr_fade_last_gain = Fin 1,
      xr_boundary_resume_count = 0, xr_boundary_resume_fade_frames = 0, xr_pause_suspend_count = 0,
      xr_pause_resume_start_count = 0, xr_pause_wait_prepare_attempts = 0,
      xr_ceiling_ramp_start = Fin 0, xr_ceiling_ramp_ms = Fin 0, xr_ceiling_ramp_last = Fin 0,
      xr_volume_stable = False, xr_fade_session_started = False, xr_pcm_prepared = False,
      xr_consumer_lease_acquired = False, xr_consumer_lease_released = False,
      xr_consumer_lease_held = False, xr_audible_pcm_confirmed_before_open = False,
      xr_media_started_notified = False, xr_completed_full_duration = False,
      xr_ended_by_graceful_stop = False\<rparr>"

section \<open>The environment of a session\<close>

record 'w V1TransportPcmSource =
  sc_Prepare :: "u32 \<Rightarrow> 'w \<Rightarrow> (bool \<times> V1TransportPcmFormat \<times> u32) \<times> 'w"
  sc_ReadFrames ::
    "nat \<Rightarrow> u32 \<Rightarrow> 'w \<Rightarrow> (V1TransportPcmReadDisposition \<times> ieee list \<times> nat \<times> u32) \<times> 'w"
  sc_QueryFormat :: "'w \<Rightarrow> (bool \<times> V1TransportPcmFormat \<times> u32) \<times> 'w"
  sc_QuerySnapshot :: "'w \<Rightarrow> (bool \<times> V1TransportPcmSnapshot \<times> u32) \<times> 'w"
  sc_WaitUntilSample :: "u64 \<Rightarrow> u32 \<Rightarrow> 'w \<Rightarrow> (bool \<times> u32) \<times> 'w"
  sc_ResetPacing :: "'w \<Rightarrow> (bool \<times> u32) \<times> 'w"
  sc_Release :: "'w \<Rightarrow> (bool \<times> u32) \<times> 'w"

type_synonym 'w V1TransportPcmStopProbe = "('w \<Rightarrow> V1TransportPcmStopDisposition \<times> 'w) option"
type_synonym 'w V1TransportPcmStartedNotifier = "('w \<Rightarrow> (bool \<times> u32) \<times> 'w) option"

record ('h, 'w) pcm_environment =
  pe_backend :: "'w V1TransportSilenceBackend"
  pe_source :: "'w V1TransportPcmSource"
  pe_stop_probe :: "'w V1TransportPcmStopProbe"
  pe_started_notifier :: "'w V1TransportPcmStartedNotifier"
  pe_library :: "('h, ieee, 'w) ldacBT"
  pe_now :: "'w \<Rightarrow> int \<times> 'w"
  pe_sleep_ms :: "nat \<Rightarrow> 'w \<Rightarrow> 'w"
  pe_pcm_address :: u64
  pe_faded_pcm_address :: u64

text \<open>
  The variables of a running session: the locals of \<open>RunV1TransportPcmBurstOnce\<close> that outlive one
  step, with the world.  The three arrays of pending fade blocks and their count are one list.
\<close>

record ('h, 'w) pcm_session =
  ps_result :: V1TransportPcmResult
  ps_error :: u32
  ps_avdtp :: avdtp_source
  ps_encoder :: "'h ldac_encoder option"
  ps_pcm :: "ieee list"
  ps_locked_format :: V1TransportPcmFormat
  ps_observed_format :: V1TransportPcmFormat
  ps_sequence :: u16
  ps_timestamp :: u32
  ps_transport_frames_sent :: u64
  ps_use_preflight_block :: bool
  ps_graceful_stop :: bool
  ps_suspended_for_pause :: bool
  ps_force_rebind :: bool
  ps_resume_fade_active :: bool
  ps_resume_fade_processed :: u64
  ps_resume_fade_target :: u64
  ps_timeout_streak_ms :: u64
  ps_limiter :: V1LinkedStereoBlockLimiterState
  ps_fade :: V1SentFrameFadeState
  ps_pending :: "(V1SentFrameFadeBlock \<times> V1SentFrameFadeTelemetry \<times> ieee) list"
  ps_pending_frames :: u64
  ps_world :: 'w

text \<open>A call into the world, a change of the result or of its base, and the recording of a failure.\<close>

definition ask :: "('w \<Rightarrow> 'a \<times> 'w) \<Rightarrow> ('h, 'w) pcm_session \<Rightarrow> 'a \<times> ('h, 'w) pcm_session" where
  "ask call s = (let (answer, w) = call (ps_world s) in (answer, s\<lparr>ps_world := w\<rparr>))"

definition on_result ::
  "(V1TransportPcmResult \<Rightarrow> V1TransportPcmResult) \<Rightarrow> ('h, 'w) pcm_session \<Rightarrow> ('h, 'w) pcm_session" where
  "on_result f s = s\<lparr>ps_result := f (ps_result s)\<rparr>"

definition PcmSetFailure ::
  "V1TransportConfigurationDisposition \<Rightarrow> V1TransportSilenceStage \<Rightarrow> V1TransportPcmResult \<Rightarrow>
   V1TransportPcmResult" where
  "PcmSetFailure disposition stage result =
     result\<lparr>xr_base := (xr_base result)\<lparr>sr_primary_disposition := disposition,
       sr_disposition := disposition, sr_stage := stage\<rparr>\<rparr>"

definition on_base ::
  "(V1TransportSilenceResult \<Rightarrow> V1TransportSilenceResult) \<Rightarrow> ('h, 'w) pcm_session \<Rightarrow>
   ('h, 'w) pcm_session" where
  "on_base f = on_result (\<lambda>r. r\<lparr>xr_base := f (xr_base r)\<rparr>)"

definition ProbeStop ::
  "('h, 'w) pcm_environment \<Rightarrow> ('h, 'w) pcm_session \<Rightarrow>
   V1TransportPcmStopDisposition \<times> ('h, 'w) pcm_session" where
  "ProbeStop env s =
     (case pe_stop_probe env of None \<Rightarrow> (Stop_None, s) | Some probe \<Rightarrow> ask probe s)"

definition StopIsCancel ::
  "('h, 'w) pcm_environment \<Rightarrow> ('h, 'w) pcm_session \<Rightarrow> bool \<times> ('h, 'w) pcm_session" where
  "StopIsCancel env s = (let (stop, s1) = ProbeStop env s in (stop = Stop_Cancel, s1))"

definition now :: "('h, 'w) pcm_environment \<Rightarrow> ('h, 'w) pcm_session \<Rightarrow> int \<times> ('h, 'w) pcm_session" where
  "now env s = ask (pe_now env) s"

text \<open>\<open>duration_cast\<close> to milliseconds, which rounds towards zero.\<close>

definition milliseconds :: "int \<Rightarrow> int" where
  "milliseconds t = (if t < 0 then - (- t div 1000000) else t div 1000000)"

text \<open>The buffer a call writes into keeps its length.\<close>

definition filled :: "'a list \<Rightarrow> 'a list \<Rightarrow> 'a list" where
  "filled buffer written = take (length buffer) (written @ drop (length written) buffer)"


end
