(* ===== verification/Pcm_Signaling.thy ===== *)
theory Pcm_Signaling
  imports Pcm_Data
begin

text \<open>
  The signalling of a PCM session, \<open>agent/v1_transport_pcm_session.cpp\<close>: the replies to the commands the
  headset sends during the negotiation, the exchange of one command, and the watch for a close of the
  headset's while media flow.  The replies are lists of bytes; the size 0, for which the code reports
  failure, is the empty list.
\<close>

abbreviation (input) "kMaximumPeerSignalingCommands \<equiv> (3 :: u32)"
abbreviation (input) "kTimeoutError \<equiv> (1460 :: u32)"
abbreviation (input) "kAvdtpErrorSepInUse \<equiv> (0x13 :: u8)"

section \<open>The replies to the peer\<close>

definition legal_local_seid :: "avdtp_source \<Rightarrow> bool" where
  "legal_local_seid state \<longleftrightarrow> as_local_seid state \<noteq> 0 \<and> as_local_seid state \<le> 0x3F"

definition single_command :: "avdtp_header \<Rightarrow> bool" where
  "single_command command \<longleftrightarrow>
     ah_packet_type command = AVDTP_PACKET_SINGLE \<and> ah_message_type command = AVDTP_MESSAGE_COMMAND"

definition BuildPeerDiscoverAccept :: "avdtp_source \<Rightarrow> avdtp_header \<Rightarrow> bytes \<Rightarrow> bytes" where
  "BuildPeerDiscoverAccept state command packet =
     (if \<not> single_command command \<or> ah_signal_id command \<noteq> AVDTP_SIGNAL_DISCOVER \<or>
         ah_payload_offset command \<noteq> length packet \<or>
         as_state state \<noteq> AVDTP_SOURCE_DISCOVER_SENT \<or>
         as_pending_signal_id state \<noteq> AVDTP_SIGNAL_DISCOVER \<or> \<not> legal_local_seid state
      then []
      else avdtp_write_single AVDTP_MAX_SIGNALING_PACKET (ah_transaction_label command)
             AVDTP_MESSAGE_ACCEPT AVDTP_SIGNAL_DISCOVER
             [push_bit 2 (as_local_seid state) OR 0x02, 0x00])"

definition single_bit :: "u8 \<Rightarrow> bool" where
  "single_bit flags \<longleftrightarrow> flags AND (flags - 1) = 0"

definition BuildPeerSetConfigurationReject :: "avdtp_source \<Rightarrow> avdtp_header \<Rightarrow> bytes \<Rightarrow> bytes" where
  "BuildPeerSetConfigurationReject state command packet =
     (if \<not> single_command command \<or> ah_signal_id command \<noteq> AVDTP_SIGNAL_SET_CONFIGURATION \<or>
         ah_payload_offset command + 16 \<noteq> length packet \<or>
         as_state state \<noteq> AVDTP_SOURCE_CAPABILITIES_SENT \<or>
         (as_pending_signal_id state \<noteq> AVDTP_SIGNAL_GET_CAPABILITIES \<and>
          as_pending_signal_id state \<noteq> AVDTP_SIGNAL_GET_ALL_CAPABILITIES) \<or>
         \<not> legal_local_seid state
      then []
      else
        let payload = drop (ah_payload_offset command) packet;
            initiator_seid = drop_bit 2 (payload ! 1)
        in if payload ! 0 AND 0x03 \<noteq> 0 \<or> drop_bit 2 (payload ! 0) \<noteq> as_local_seid state \<or>
              payload ! 1 AND 0x03 \<noteq> 0 \<or> initiator_seid = 0 \<or>
              payload ! 2 \<noteq> AVDTP_SERVICE_MEDIA_TRANSPORT \<or> payload ! 3 \<noteq> 0
           then []
           else
             let (status, requested) =
                   ldac_find_in_service_capabilities (take 14 (drop 2 payload)) ldac_capabilities_zero
             in if status \<noteq> LDAC_CODEC_OK \<or> \<not> single_bit (lc_sample_rates requested) \<or>
                   \<not> single_bit (lc_channel_modes requested) \<or>
                   lc_sample_rates requested AND lc_sample_rates (as_local_capabilities state) \<noteq>
                     lc_sample_rates requested \<or>
                   lc_channel_modes requested AND lc_channel_modes (as_local_capabilities state) \<noteq>
                     lc_channel_modes requested
                then []
                else avdtp_write_single AVDTP_MAX_SIGNALING_PACKET (ah_transaction_label command)
                       AVDTP_MESSAGE_REJECT AVDTP_SIGNAL_SET_CONFIGURATION
                       [0x00, kAvdtpErrorSepInUse])"

definition BuildPeerCloseAccept :: "avdtp_source \<Rightarrow> avdtp_header \<Rightarrow> bytes \<Rightarrow> bytes" where
  "BuildPeerCloseAccept state command packet =
     (if \<not> single_command command \<or> ah_signal_id command \<noteq> AVDTP_SIGNAL_CLOSE \<or>
         ah_payload_offset command + 1 \<noteq> length packet \<or>
         (as_state state \<noteq> AVDTP_SOURCE_STREAMING \<and> as_state state \<noteq> AVDTP_SOURCE_OPEN) \<or>
         \<not> legal_local_seid state \<or>
         packet ! ah_payload_offset command AND 0x03 \<noteq> 0 \<or>
         drop_bit 2 (packet ! ah_payload_offset command) \<noteq> as_local_seid state
      then []
      else avdtp_write_single AVDTP_MAX_SIGNALING_PACKET (ah_transaction_label command)
             AVDTP_MESSAGE_ACCEPT AVDTP_SIGNAL_CLOSE [])"

definition BuildPeerCapabilitiesAccept :: "avdtp_source \<Rightarrow> avdtp_header \<Rightarrow> bytes \<Rightarrow> bytes" where
  "BuildPeerCapabilitiesAccept state command packet =
     (if \<not> single_command command \<or>
         (ah_signal_id command \<noteq> AVDTP_SIGNAL_GET_CAPABILITIES \<and>
          ah_signal_id command \<noteq> AVDTP_SIGNAL_GET_ALL_CAPABILITIES) \<or>
         ah_payload_offset command + 1 \<noteq> length packet \<or>
         drop_bit 2 (packet ! ah_payload_offset command) \<noteq> as_local_seid state \<or>
         as_state state \<noteq> AVDTP_SOURCE_CAPABILITIES_SENT \<or> \<not> legal_local_seid state \<or>
         lc_sample_rates (as_local_capabilities state) = 0 \<or>
         lc_channel_modes (as_local_capabilities state) = 0
      then []
      else avdtp_write_single AVDTP_MAX_SIGNALING_PACKET (ah_transaction_label command)
             AVDTP_MESSAGE_ACCEPT (ah_signal_id command)
             ([AVDTP_SERVICE_MEDIA_TRANSPORT, 0x00, AVDTP_SERVICE_MEDIA_CODEC, 0x0A,
               push_bit 4 AVDTP_MEDIA_TYPE_AUDIO, AVDTP_CODEC_VENDOR] @
              ldac_build_codec_info (lc_sample_rates (as_local_capabilities state))
                (lc_channel_modes (as_local_capabilities state))))"

section \<open>The exchange of a command\<close>

text \<open>The headers of the last packet sent and of the last packet received, as the result keeps them.\<close>

definition tx_header :: "avdtp_header \<Rightarrow> V1TransportSilenceResult \<Rightarrow> V1TransportSilenceResult" where
  "tx_header header r =
     r\<lparr>sr_last_signaling_tx_header_available := True,
       sr_last_signaling_tx_transaction_label := ah_transaction_label header,
       sr_last_signaling_tx_message_type := message_code (ah_message_type header),
       sr_last_signaling_tx_signal_id := ah_signal_id header\<rparr>"

definition rx_header ::
  "bool \<Rightarrow> avdtp_header \<Rightarrow> bytes \<Rightarrow> V1TransportSilenceResult \<Rightarrow> V1TransportSilenceResult" where
  "rx_header available header packet r =
     (let r1 = r\<lparr>sr_last_signaling_response_size := of_nat (length packet),
                 sr_last_signaling_rx_header_available := available\<rparr>
      in if \<not> available then r1
         else r1\<lparr>sr_last_signaling_rx_transaction_label := ah_transaction_label header,
                 sr_last_signaling_rx_message_type := message_code (ah_message_type header),
                 sr_last_signaling_rx_signal_id := ah_signal_id header\<rparr>)"

definition clear_headers :: "V1TransportSilenceResult \<Rightarrow> V1TransportSilenceResult" where
  "clear_headers r =
     r\<lparr>sr_last_signaling_response_size := 0, sr_last_signaling_tx_header_available := False,
       sr_last_signaling_tx_transaction_label := 0, sr_last_signaling_tx_message_type := 0,
       sr_last_signaling_tx_signal_id := 0, sr_last_signaling_rx_header_available := False,
       sr_last_signaling_rx_transaction_label := 0, sr_last_signaling_rx_message_type := 0,
       sr_last_signaling_rx_signal_id := 0\<rparr>"

text \<open>
  The reply to a command of the peer's, with the counter of its kind; the command has been counted.
\<close>

definition answer_peer ::
  "avdtp_source \<Rightarrow> avdtp_header \<Rightarrow> bytes \<Rightarrow> V1TransportSilenceResult \<Rightarrow>
   bytes \<times> V1TransportSilenceResult" where
  "answer_peer state header response r =
     (if sr_peer_signaling_commands_received r \<le> kMaximumPeerSignalingCommands \<and>
         ah_signal_id header = AVDTP_SIGNAL_DISCOVER \<and> sr_peer_discover_commands_accepted r = 0
      then
        let reply = BuildPeerDiscoverAccept state header response
        in (reply,
            if reply = [] then r
            else r\<lparr>sr_peer_discover_commands_accepted := sr_peer_discover_commands_accepted r + 1\<rparr>)
      else if sr_peer_signaling_commands_received r \<le> kMaximumPeerSignalingCommands \<and>
              sr_peer_discover_commands_accepted r = 1 \<and> sr_peer_capability_commands_accepted r = 0
      then
        let reply = BuildPeerCapabilitiesAccept state header response
        in (reply,
            if reply = [] then r
            else r\<lparr>sr_peer_capability_commands_accepted := sr_peer_capability_commands_accepted r + 1\<rparr>)
      else if sr_peer_signaling_commands_received r \<le> kMaximumPeerSignalingCommands \<and>
              sr_peer_discover_commands_accepted r = 1 \<and>
              sr_peer_capability_commands_accepted r = 1 \<and>
              sr_peer_configuration_commands_rejected r = 0
      then
        let reply = BuildPeerSetConfigurationReject state header response
        in (reply,
            if reply = [] then r
            else r\<lparr>sr_peer_configuration_commands_rejected :=
                     sr_peer_configuration_commands_rejected r + 1\<rparr>)
      else ([], r))"

text \<open>Which kinds of command have not been answered yet.\<close>

definition unanswered :: "V1TransportSilenceResult \<Rightarrow> nat" where
  "unanswered r =
     (if sr_peer_discover_commands_accepted r = 0 then 1 else 0) +
     (if sr_peer_capability_commands_accepted r = 0 then 1 else 0) +
     (if sr_peer_configuration_commands_rejected r = 0 then 1 else 0)"

lemma answered:
  assumes "answer_peer state header response r = (reply, r')" and "reply \<noteq> []"
  shows "unanswered r' < unanswered r"
  using assms
  by (auto simp: answer_peer_def unanswered_def Let_def split: if_splits)

text \<open>The recording of a failure with its error.\<close>

definition backend_failure ::
  "u32 \<Rightarrow> V1TransportSilenceStage \<Rightarrow> ('h, 'w) pcm_session \<Rightarrow> ('h, 'w) pcm_session" where
  "backend_failure error stage s =
     on_result (PcmSetFailure Configuration_BackendFailure stage)
       (on_base (\<lambda>r. r\<lparr>sr_backend_error := error\<rparr>) s)"

definition protocol_failure ::
  "int \<Rightarrow> V1TransportSilenceStage \<Rightarrow> ('h, 'w) pcm_session \<Rightarrow> ('h, 'w) pcm_session" where
  "protocol_failure error stage s =
     on_result (PcmSetFailure Configuration_ProtocolFailure stage)
       (on_base (\<lambda>r. r\<lparr>sr_protocol_error := error\<rparr>) s)"

text \<open>
  The transfers of one exchange: a command and then the replies to the commands that arrive in place of
  its response.  The last response is the answer, \<^const>\<open>None\<close> if the exchange has failed.
\<close>

definition transfer ::
  "('h, 'w) pcm_environment \<Rightarrow> V1TransportPcmOptions \<Rightarrow> V1TransportSilenceStage \<Rightarrow> bool \<Rightarrow> int \<Rightarrow> bytes \<Rightarrow>
   bool \<Rightarrow> ('h, 'w) pcm_session \<Rightarrow> bytes option \<times> ('h, 'w) pcm_session" where
  "transfer env options stage cancel_only deadline outbound first_transfer s =
     (let (current_stop, s1) = ProbeStop env s
      in if (if cancel_only then current_stop = Stop_Cancel else current_stop \<noteq> Stop_None)
         then (None, on_result (PcmSetFailure Configuration_Cancelled stage) s1)
         else
           let (time, s2) = now env s1
           in if time \<ge> deadline
              then (None, backend_failure kTimeoutError stage s2)
              else
                let remaining = milliseconds (deadline - time);
                    timeout_ms =
                      (if first_transfer then xo_exchange_timeout_ms options
                       else of_int (max 1 remaining));
                    s3 = on_base (\<lambda>r. r\<lparr>sr_signaling_exchanges := sr_signaling_exchanges r + 1\<rparr>) s2;
                    ((ok, response, error), s4) =
                      ask (be_ExchangeSignaling (pe_backend env) outbound kMaximumSignalingResponse
                        timeout_ms) s3
                in if \<not> ok
                   then
                     let (cancelled, s5) =
                           StopIsCancel env (on_base (\<lambda>r. r\<lparr>sr_backend_error := error\<rparr>) s4)
                     in (None,
                         on_result
                           (PcmSetFailure
                             (if cancelled then Configuration_Cancelled
                              else Configuration_BackendFailure) stage) s5)
                   else (Some response, s4))"

lemma ask_result [simp]: "ps_result (snd (ask f s)) = ps_result s"
  by (simp add: ask_def case_prod_beta)

lemma probe_result [simp]:
  "ps_result (snd (ProbeStop env s)) = ps_result s" "ps_result (snd (StopIsCancel env s)) = ps_result s"
  "ps_result (snd (now env s)) = ps_result s"
  by (simp_all add: ProbeStop_def StopIsCancel_def now_def Let_def case_prod_beta split: option.splits)

lemma on_base_result [simp]: "xr_base (ps_result (on_base f s)) = f (xr_base (ps_result s))"
  by (simp add: on_base_def on_result_def)

lemma unanswered_transfer:
  "transfer env options stage cancel_only deadline outbound first s = (Some response, s') \<Longrightarrow>
     unanswered (xr_base (ps_result s')) = unanswered (xr_base (ps_result s))"
  using probe_result(1) [of env s] probe_result(3) [of env "snd (ProbeStop env s)"]
  by (auto simp: transfer_def unanswered_def case_prod_beta Let_def split: if_splits)

lemma unanswered_rx [simp]: "unanswered (rx_header available header packet r) = unanswered r"
  by (simp add: rx_header_def unanswered_def Let_def)

lemma unanswered_counted [simp]:
  "unanswered (r\<lparr>sr_peer_signaling_commands_received := n\<rparr>) = unanswered r"
  by (simp add: unanswered_def)

function exchange_loop ::
  "('h, 'w) pcm_environment \<Rightarrow> V1TransportPcmOptions \<Rightarrow> V1TransportSilenceStage \<Rightarrow> bool \<Rightarrow> int \<Rightarrow> bytes \<Rightarrow>
   bool \<Rightarrow> ('h, 'w) pcm_session \<Rightarrow> bytes option \<times> ('h, 'w) pcm_session" where
  "exchange_loop env options stage cancel_only deadline outbound first_transfer s =
     (case transfer env options stage cancel_only deadline outbound first_transfer s of
        (None, s1) \<Rightarrow> (None, s1)
      | (Some response, s1) \<Rightarrow>
          let (status, header) = avdtp_parse_header response avdtp_header_zero;
              header_available = (status = AVDTP_OK);
              s2 = on_base (rx_header header_available header response) s1
          in if \<not> header_available \<or> ah_message_type header \<noteq> AVDTP_MESSAGE_COMMAND
             then (Some response, s2)
             else
               let counted = (xr_base (ps_result s2))
                     \<lparr>sr_peer_signaling_commands_received :=
                        sr_peer_signaling_commands_received (xr_base (ps_result s2)) + 1\<rparr>;
                   (reply, r) = answer_peer (ps_avdtp s2) header response counted;
                   s3 = on_base (\<lambda>_. r) s2
               in if reply = []
                  then (None, protocol_failure AVDTP_SOURCE_ERROR_UNEXPECTED_RESPONSE stage s3)
                  else exchange_loop env options stage cancel_only deadline reply False s3)"
  by pat_completeness auto

termination
proof (relation "measure (\<lambda>(env, options, stage, cancel_only, deadline, outbound, first, s).
    unanswered (xr_base (ps_result s)))")
qed (auto dest!: unanswered_transfer [OF sym] answered [OF sym])

declare exchange_loop.simps [simp del]

text \<open>
  What a transfer leaves alone the whole exchange leaves alone, if it does not depend on the telemetry
  of the signalling.
\<close>

definition settled :: "(V1TransportSilenceResult \<Rightarrow> V1TransportSilenceResult) \<Rightarrow> bool" where
  "settled f \<longleftrightarrow> (\<forall>r. sr_outgoing_mtu (f r) = sr_outgoing_mtu r \<and>
     sr_signaling_opened (f r) = sr_signaling_opened r)"

lemma answer_peer_settled:
  "sr_outgoing_mtu (snd (answer_peer state header response r)) = sr_outgoing_mtu r"
  "sr_signaling_opened (snd (answer_peer state header response r)) = sr_signaling_opened r"
  by (simp_all add: answer_peer_def Let_def)

lemma rx_header_settled [simp]:
  "sr_outgoing_mtu (rx_header available header packet r) = sr_outgoing_mtu r"
  "sr_signaling_opened (rx_header available header packet r) = sr_signaling_opened r"
  by (simp_all add: rx_header_def Let_def)

lemma exchange_loop_view:
  assumes transfer: "\<And>q f s. view (snd (transfer env options stage c deadline q f s)) = view s"
    and base: "\<And>f s. settled f \<Longrightarrow> view (on_base f s) = view s"
    and failure: "\<And>d st s. view (on_result (PcmSetFailure d st) s) = view s"
  shows "view (snd (exchange_loop env options stage c deadline q first s)) = view s"
proof (induction "unanswered (xr_base (ps_result s))" arbitrary: q first s rule: less_induct)
  case less
  obtain response s1 where t: "transfer env options stage c deadline q first s = (response, s1)"
    by (rule prod.exhaust)
  have s1: "view s1 = view s" using transfer [of q first s] t by simp
  show ?case
  proof (cases response)
    case None
    then show ?thesis using t s1 by (simp add: exchange_loop.simps [of env])
  next
    case (Some packet)
    obtain status header where h: "avdtp_parse_header packet avdtp_header_zero = (status, header)"
      by (rule prod.exhaust)
    define s2 where "s2 = on_base (rx_header (status = AVDTP_OK) header packet) s1"
    have s2: "view s2 = view s"
      using base [of "rx_header (status = AVDTP_OK) header packet" s1] s1
      by (simp add: s2_def settled_def)
    let ?count = "\<lambda>r. r\<lparr>sr_peer_signaling_commands_received := sr_peer_signaling_commands_received r + 1\<rparr>"
    define f where "f = (\<lambda>r. snd (answer_peer (ps_avdtp s2) header packet (?count r)))"
    obtain reply r where a: "answer_peer (ps_avdtp s2) header packet (?count (xr_base (ps_result s2))) =
        (reply, r)" by (rule prod.exhaust)
    define s3 where "s3 = on_base (\<lambda>_. r) s2"
    have "s3 = on_base f s2"
      using a by (simp add: s3_def f_def on_base_def on_result_def)
    then have s3: "view s3 = view s"
      using base [of f s2] s2 by (simp add: settled_def f_def answer_peer_settled)
    show ?thesis
    proof (cases "status = AVDTP_OK \<and> ah_message_type header = AVDTP_MESSAGE_COMMAND \<and> reply \<noteq> []")
      case True
      have "unanswered r < unanswered (?count (xr_base (ps_result s2)))"
        using answered [OF a] True by blast
      then have "unanswered (xr_base (ps_result s3)) < unanswered (xr_base (ps_result s))"
        using unanswered_transfer [OF t [unfolded Some]] by (simp add: s3_def s2_def)
      from less [OF this] s3 show ?thesis
        using t Some h a True by (simp add: exchange_loop.simps [of env options] s2_def s3_def Let_def)
    next
      case False
      then show ?thesis
        using t Some h a s2 s3 failure base
        by (auto simp: exchange_loop.simps [of env options stage c deadline q] s2_def s3_def Let_def
            protocol_failure_def settled_def)
    qed
  qed
qed

definition Exchange ::
  "('h, 'w) pcm_environment \<Rightarrow> V1TransportPcmOptions \<Rightarrow> avdtp_action \<Rightarrow> V1TransportSilenceStage \<Rightarrow> bool \<Rightarrow>
   ('h, 'w) pcm_session \<Rightarrow> avdtp_action option \<times> ('h, 'w) pcm_session" where
  "Exchange env options action stage cancel_only s =
     (let (stop, s1) = ProbeStop env s
      in if aa_kind action \<noteq> AVDTP_ACTION_SEND_SIGNALING \<or>
            (if cancel_only then stop = Stop_Cancel else stop \<noteq> Stop_None)
         then (None,
               on_result
                 (PcmSetFailure
                   (if stop \<noteq> Stop_None then Configuration_Cancelled
                    else Configuration_ProtocolFailure) stage) s1)
         else
           let (status, header) = avdtp_parse_header (aa_packet action) avdtp_header_zero;
               s2 = on_base
                 (\<lambda>r. (if status = AVDTP_OK then tx_header header (clear_headers r)
                       else clear_headers r)\<lparr>sr_stage := stage\<rparr>) s1;
               (started, s3) = now env s2
           in case exchange_loop env options stage cancel_only
                     (started + 1000000 * int (unat (xo_exchange_timeout_ms options)))
                     (aa_packet action) True s3 of
                (None, s4) \<Rightarrow> (None, s4)
              | (Some response, s4) \<Rightarrow>
                  let (source1, next_action) = avdtp_source_handle_signaling (ps_avdtp s4) response;
                      s5 = s4\<lparr>ps_avdtp := source1\<rparr>
                  in if aa_kind next_action = AVDTP_ACTION_ERROR
                     then (None, protocol_failure (aa_error_code next_action) stage s5)
                     else (Some next_action, s5))"

section \<open>The peer's close while media flow\<close>

datatype PeerStreamControlDisposition = Peer_Continue | Peer_PeerClosed | Peer_Failure

definition accept_peer_close ::
  "('h, 'w) pcm_environment \<Rightarrow> V1TransportPcmOptions \<Rightarrow> bytes \<Rightarrow> ('h, 'w) pcm_session \<Rightarrow>
   PeerStreamControlDisposition \<times> ('h, 'w) pcm_session" where
  "accept_peer_close env options reply s =
     (let (status, header) = avdtp_parse_header reply avdtp_header_zero
      in if status \<noteq> AVDTP_OK
         then (Peer_Failure, protocol_failure AVDTP_SOURCE_ERROR_BAD_PACKET SilenceStage_WritePcm s)
         else
           let ((ok, error), s1) =
                 ask (be_SendPeerSignalingResponse (pe_backend env) reply
                   (xo_exchange_timeout_ms options)) (on_base (tx_header header) s)
           in if \<not> ok then (Peer_Failure, backend_failure error SilenceStage_WritePcm s1)
              else (Peer_PeerClosed,
                    on_result (PcmSetFailure Configuration_Cancelled SilenceStage_WritePcm)
                      (on_base (\<lambda>r. r\<lparr>sr_peer_close_commands_accepted :=
                                        sr_peer_close_commands_accepted r + 1,
                                      sr_ended_by_peer_close := True,
                                      sr_remote_stream_cleanup_required := False\<rparr>) s1)))"

definition ObservePeerStreamControl ::
  "('h, 'w) pcm_environment \<Rightarrow> V1TransportPcmOptions \<Rightarrow> ('h, 'w) pcm_session \<Rightarrow>
   PeerStreamControlDisposition \<times> ('h, 'w) pcm_session" where
  "ObservePeerStreamControl env options s =
     (if \<not> xo_observe_peer_close_while_streaming options then (Peer_Continue, s)
      else
        let ((disposition, packet, error), s1) =
              ask (be_PollPeerSignalingRead (pe_backend env) AVDTP_MAX_SIGNALING_PACKET) s
        in case disposition of
             Read_NoPacket \<Rightarrow> (Peer_Continue, s1)
           | Read_TimedOut \<Rightarrow>
               let ((ok, error1), s2) =
                     ask (be_BeginPeerSignalingRead (pe_backend env) kMaximumTimeoutMs)
                       (on_base (\<lambda>r. r\<lparr>sr_peer_signaling_read_timeouts :=
                                        sr_peer_signaling_read_timeouts r + 1\<rparr>) s1)
               in if ok then (Peer_Continue, s2)
                  else (Peer_Failure, backend_failure error1 SilenceStage_WritePcm s2)
           | Read_Failure \<Rightarrow> (Peer_Failure, backend_failure error SilenceStage_WritePcm s1)
           | Read_Packet \<Rightarrow>
               let (status, header) = avdtp_parse_header packet avdtp_header_zero;
                   available = (status = AVDTP_OK);
                   s2 = on_base (rx_header available header packet) s1;
                   s3 = (if available \<and> ah_message_type header = AVDTP_MESSAGE_COMMAND
                         then on_base (\<lambda>r. r\<lparr>sr_peer_signaling_commands_received :=
                                              sr_peer_signaling_commands_received r + 1\<rparr>) s2
                         else s2);
                   base = xr_base (ps_result s3);
                   reply = BuildPeerCloseAccept (ps_avdtp s3) header packet
               in if \<not> available \<or>
                     sr_peer_signaling_commands_received base > kMaximumPeerSignalingCommands + 1 \<or>
                     sr_peer_close_commands_accepted base \<noteq> 0 \<or> reply = []
                  then (Peer_Failure,
                        protocol_failure AVDTP_SOURCE_ERROR_UNEXPECTED_RESPONSE
                          SilenceStage_WritePcm s3)
                  else accept_peer_close env options reply s3)"

end
