(* ===== verification/Pcm_Output.thy ===== *)
theory Pcm_Output
  imports Pcm_Data
begin

text \<open>
  What a PCM session does to a block of samples and to its telemetry, \<open>agent/v1_transport_pcm_session.cpp\<close>:
  the gain and the limiter, the ceiling of the ramp, the fade after a resume, the check of the volume,
  the record of a stopped stream and the accounts of the lease and of the duration.
\<close>

abbreviation (input) "kHardMaximumGainScalar \<equiv> Fin 1"
abbreviation (input) "kHardMaximumOutputPeak \<equiv> Fin (1 / 4)"
abbreviation (input) "kLegacyFidelitySamplePeakCeiling \<equiv> Fin (7476355 / 8388608)"
abbreviation (input) "kTransparentSamplePeakCeiling \<equiv> Fin 1"
abbreviation (input) "kMillionth \<equiv> Fin (8796093 / 8796093022208)"
abbreviation (input) "kThousandth \<equiv> Fin (8589935 / 8589934592)"

section \<open>The samples\<close>

definition SanitizeSample :: "ieee \<Rightarrow> ieee" where
  "SanitizeSample sample =
     (if \<not> isfinite sample then Fin 0 else fl_clamp sample (Fin (- 1)) (Fin 1))"

fun gain_samples ::
  "V1TransportPcmOptions \<Rightarrow> bool \<Rightarrow> ieee list \<Rightarrow> V1TransportPcmResult \<Rightarrow> V1TransportPcmResult \<times> ieee list" where
  "gain_samples options record_pre_gain_peak [] r = (r, [])"
| "gain_samples options record_pre_gain_peak (sample # rest) r =
     (let sanitized = SanitizeSample sample;
          r1 = (if record_pre_gain_peak
                then r\<lparr>xr_maximum_pre_gain_peak :=
                         fl_max (xr_maximum_pre_gain_peak r) (fl_abs sanitized)\<rparr>
                else r);
          unlimited = fl_mult Single sanitized (xo_maximum_gain_scalar options);
          r2 = r1\<lparr>xr_maximum_unlimited_post_gain_peak :=
                    fl_max (xr_maximum_unlimited_post_gain_peak r1) (fl_abs unlimited)\<rparr>;
          (r3, out) = gain_samples options record_pre_gain_peak rest r2
      in (r3, unlimited # out))"

fun clip_samples ::
  "ieee \<Rightarrow> ieee list \<Rightarrow> V1TransportPcmResult \<Rightarrow> V1TransportPcmResult \<times> ieee list" where
  "clip_samples output_peak_ceiling [] r = (r, [])"
| "clip_samples output_peak_ceiling (sample # rest) r =
     (let r1 = (if fl_less output_peak_ceiling (fl_abs sample)
                then r\<lparr>xr_limited_output_samples := xr_limited_output_samples r + 1\<rparr> else r);
          clipped = fl_clamp sample (fl_neg output_peak_ceiling) output_peak_ceiling;
          r2 = r1\<lparr>xr_maximum_post_gain_peak :=
                    fl_max (xr_maximum_post_gain_peak r1) (fl_abs clipped)\<rparr>;
          (r3, out) = clip_samples output_peak_ceiling rest r2
      in (r3, clipped # out))"

definition limiter_accounts ::
  "V1LinkedStereoBlockLimiterTelemetry \<Rightarrow> V1TransportPcmResult \<Rightarrow> V1TransportPcmResult" where
  "limiter_accounts t r =
     r\<lparr>xr_limiter_blocks_processed := xr_limiter_blocks_processed r + 1,
       xr_limiter_minimum_gain := fl_min (xr_limiter_minimum_gain r) (lt_minimum_gain t),
       xr_limiter_last_gain := lt_last_gain t,
       xr_limiter_maximum_gain_step :=
         fl_max (xr_limiter_maximum_gain_step r) (lt_maximum_gain_step t),
       xr_limiter_attack_count := xr_limiter_attack_count r + ucast (lt_attack_count t),
       xr_limiter_gain_reduced_frames := xr_limiter_gain_reduced_frames r + lt_reduced_frame_count t,
       xr_limiter_gain_reduced_samples :=
         xr_limiter_gain_reduced_samples r + lt_reduced_sample_count t,
       xr_limiter_fallback_clamp_count := xr_limiter_fallback_clamp_count r + lt_fallback_clamp_count t,
       xr_limiter_sanitized_sample_count :=
         xr_limiter_sanitized_sample_count r + lt_sanitized_sample_count t,
       xr_limiter_pre_over_ceiling_frames :=
         xr_limiter_pre_over_ceiling_frames r + lt_pre_over_ceiling_frame_count t,
       xr_limiter_pre_over_ceiling_samples :=
         xr_limiter_pre_over_ceiling_samples r + lt_pre_over_ceiling_sample_count t,
       xr_limited_output_samples :=
         xr_limited_output_samples r + lt_pre_over_ceiling_sample_count t,
       xr_maximum_post_gain_peak := fl_max (xr_maximum_post_gain_peak r) (lt_output_peak t)\<rparr>"

text \<open>
  The answer is false if the limiter refuses the block; not returning is the limiter's.
\<close>

definition ApplyOutputPolicy ::
  "V1TransportPcmOptions \<Rightarrow> u32 \<Rightarrow> ieee \<Rightarrow> bool \<Rightarrow> ieee list \<Rightarrow> V1LinkedStereoBlockLimiterState \<Rightarrow>
   V1TransportPcmResult \<Rightarrow>
   (bool \<times> ieee list \<times> V1LinkedStereoBlockLimiterState \<times> V1TransportPcmResult) option" where
  "ApplyOutputPolicy options sample_rate_hz output_peak_ceiling record_pre_gain_peak pcm limiter r =
     (let (r1, gained) = gain_samples options record_pre_gain_peak pcm r
      in if xo_limiter_mode options = LimiterMode_HardClip
         then
           let (r2, clipped) = clip_samples output_peak_ceiling gained r1
           in Some (True, clipped, limiter, r2)
         else
           do {
             (ok, limited, limiter1, telemetry) \<leftarrow>
               ProcessV1LinkedStereoBlock gained output_peak_ceiling sample_rate_hz
                 (xo_limiter_release_ms options) limiter V1LinkedStereoBlockLimiterTelemetry_default;
             Some (ok, limited, limiter1, if ok then limiter_accounts telemetry r1 else r1)
           })"

text \<open>The number of frames that last so many milliseconds.\<close>

definition frames_of :: "u32 \<Rightarrow> ieee \<Rightarrow> u64" where
  "frames_of sample_rate_hz duration_ms = fl_to_u64 (duration_frames_value sample_rate_hz duration_ms)"

definition CeilingForSentFrame :: "V1TransportPcmOptions \<Rightarrow> u32 \<Rightarrow> u64 \<Rightarrow> ieee" where
  "CeilingForSentFrame options sample_rate_hz committed_sent_frames =
     (if fl_le (xo_ceiling_ramp_ms options) (Fin 0) then xo_maximum_output_peak options
      else
        let ramp_frames =
              fl_ceil (fl_div Double
                (fl_mult Double (fl_of_nat Double (unat sample_rate_hz))
                  (fl_convert Double (xo_ceiling_ramp_ms options))) (Fin 1000));
            next_frame = fl_of_nat Double (unat committed_sent_frames);
            progress = fl_clamp (fl_div Double next_frame ramp_frames) (Fin 0) (Fin 1);
            start = fl_convert Double (xo_ceiling_ramp_start options);
            peak = fl_convert Double (xo_maximum_output_peak options)
        in fl_convert Single
             (fl_add Double start (fl_mult Double (fl_sub Double peak start) progress)))"

text \<open>The fade over the frames that follow a resume.\<close>

definition resume_gain :: "u64 \<Rightarrow> u64 \<Rightarrow> u64 \<Rightarrow> nat \<Rightarrow> ieee" where
  "resume_gain processed target faded_frames position =
     (if of_nat position < faded_frames
      then fl_min (Fin 1)
        (fl_div Single (fl_of_nat Single (unat (processed + of_nat position + 1)))
          (fl_of_nat Single (unat target)))
      else Fin 1)"

definition resume_faded :: "u64 \<Rightarrow> u64 \<Rightarrow> u64 \<Rightarrow> ieee list \<Rightarrow> ieee list" where
  "resume_faded processed target faded_frames pcm =
     map (\<lambda>i. fl_mult Single (pcm ! i) (resume_gain processed target faded_frames (i div 2)))
       [0..<LDAC_ENCODER_PCM_FRAMES_PER_CALL * LDAC_ENCODER_STEREO_CHANNELS]"

section \<open>Formats and volume\<close>

definition SupportedSampleRate :: "u32 \<Rightarrow> bool" where
  "SupportedSampleRate rate \<longleftrightarrow> rate = 44100 \<or> rate = 48000 \<or> rate = 88200 \<or> rate = 96000"

definition ChannelModeCapability :: "ldac_encoder_channel_mode \<Rightarrow> u8" where
  "ChannelModeCapability mode =
     (if mode = LDAC_ENCODER_CHANNEL_STEREO then LDAC_CM_STEREO
      else if mode = LDAC_ENCODER_CHANNEL_DUAL then LDAC_CM_DUAL
      else if mode = LDAC_ENCODER_CHANNEL_MONO then LDAC_CM_MONO else 0)"

definition IsPauseResumeWaitError :: "u32 \<Rightarrow> bool" where
  "IsPauseResumeWaitError error \<longleftrightarrow>
     error = 258 \<or> error = 1460 \<or> error = 21 \<or> error = 1167 \<or> error = 2 \<or> error = 3 \<or> error = 6 \<or>
     error = 995 \<or> error = 1223"

definition SameLockedPcmFormat :: "V1TransportPcmFormat \<Rightarrow> V1TransportPcmFormat \<Rightarrow> bool" where
  "SameLockedPcmFormat locked current \<longleftrightarrow>
     xf_sample_rate_hz current = xf_sample_rate_hz locked \<and>
     xf_bits_per_sample current = xf_bits_per_sample locked \<and>
     xf_volume_control_available current = xf_volume_control_available locked"

definition SameVolume :: "V1TransportPcmFormat \<Rightarrow> V1TransportPcmFormat \<Rightarrow> bool" where
  "SameVolume previous current \<longleftrightarrow>
     xf_muted current = xf_muted previous \<and>
     fl_le (fl_abs (fl_sub Single (xf_volume_scalar current) (xf_volume_scalar previous))) kMillionth \<and>
     fl_le (fl_abs (fl_sub Single (xf_volume_db current) (xf_volume_db previous))) kThousandth"

text \<open>The volume seen, in the extremes and the last value; and a format whose volume is finite.\<close>

definition volume_seen :: "V1TransportPcmFormat \<Rightarrow> V1TransportPcmResult \<Rightarrow> V1TransportPcmResult" where
  "volume_seen current r =
     r\<lparr>xr_volume_scalar_minimum := fl_min (xr_volume_scalar_minimum r) (xf_volume_scalar current),
       xr_volume_scalar_maximum := fl_max (xr_volume_scalar_maximum r) (xf_volume_scalar current),
       xr_volume_scalar_last := xf_volume_scalar current,
       xr_volume_db_minimum := fl_min (xr_volume_db_minimum r) (xf_volume_db current),
       xr_volume_db_maximum := fl_max (xr_volume_db_maximum r) (xf_volume_db current),
       xr_volume_db_last := xf_volume_db current\<rparr>"

definition bound_format :: "V1TransportPcmFormat \<Rightarrow> V1TransportPcmFormat \<Rightarrow> bool" where
  "bound_format locked current \<longleftrightarrow>
     SameLockedPcmFormat locked current \<and> isfinite (xf_volume_scalar current) \<and>
     isfinite (xf_volume_db current)"

datatype StableVolumeCheck =
  Volume_Stable | Volume_QueryFailure | Volume_StreamEpochChanged | Volume_FormatChanged | Volume_Changed

definition CheckStableVolume ::
  "('h, 'w) pcm_environment \<Rightarrow> bool \<Rightarrow> ('h, 'w) pcm_session \<Rightarrow>
   StableVolumeCheck \<times> ('h, 'w) pcm_session" where
  "CheckStableVolume env allow_dynamic_volume s =
     (let ((ok, current, error), s1) =
            ask (sc_QueryFormat (pe_source env))
              (on_result (\<lambda>r. r\<lparr>xr_volume_query_count := xr_volume_query_count r + 1\<rparr>) s);
          s2 = s1\<lparr>ps_error := error\<rparr>
      in if \<not> ok
         then (Volume_QueryFailure, on_result (\<lambda>r. r\<lparr>xr_volume_stable := False\<rparr>) s2)
         else
           let s3 = on_result (volume_seen current) s2;
               observed = ps_observed_format s3
           in if \<not> bound_format (ps_locked_format s3) current
              then (Volume_FormatChanged, on_result (\<lambda>r. r\<lparr>xr_volume_stable := False\<rparr>) s3)
              else
                let epoch_changed = xf_stream_epoch current \<noteq> xf_stream_epoch observed;
                    same = SameVolume observed current;
                    s4 = (if same then s3
                          else (on_result (\<lambda>r. r\<lparr>xr_volume_change_count := xr_volume_change_count r + 1,
                                                xr_volume_stable := False\<rparr>) s3)
                            \<lparr>ps_observed_format := observed\<lparr>xf_muted := xf_muted current,
                               xf_volume_scalar := xf_volume_scalar current,
                               xf_volume_db := xf_volume_db current\<rparr>\<rparr>)
                in (if \<not> same \<and> \<not> allow_dynamic_volume then Volume_Changed
                    else if epoch_changed then Volume_StreamEpochChanged else Volume_Stable, s4))"

section \<open>Accounts\<close>

definition UpdateDurationTelemetry :: "V1TransportPcmResult \<Rightarrow> V1TransportPcmResult" where
  "UpdateDurationTelemetry r =
     (let rate = xf_sample_rate_hz (xr_pcm_format r)
      in if rate = 0 then r
         else
           let actual_duration_ms = xr_pcm_frames_sent r * 1000 div ucast rate;
               target_frames = (ucast rate :: u64) * ucast (xr_target_duration_ms r) div 1000
           in r\<lparr>xr_actual_duration_ms := ucast (min actual_duration_ms 0xFFFFFFFF),
                xr_completed_full_duration :=
                  (xr_target_duration_ms r \<noteq> 0 \<and> xr_pcm_frames_sent r \<ge> target_frames)\<rparr>)"

definition lease_acquired :: "V1TransportPcmResult \<Rightarrow> V1TransportPcmResult" where
  "lease_acquired r =
     r\<lparr>xr_consumer_lease_acquired := True, xr_consumer_lease_released := False,
       xr_consumer_lease_held := True,
       xr_consumer_lease_acquire_count := xr_consumer_lease_acquire_count r + 1\<rparr>"

definition lease_returned :: "V1TransportPcmResult \<Rightarrow> V1TransportPcmResult" where
  "lease_returned r =
     (let releases = xr_consumer_lease_release_count r + 1
      in r\<lparr>xr_consumer_lease_release_count := releases,
           xr_consumer_lease_released := (xr_consumer_lease_acquire_count r = releases)\<rparr>)"

definition PcmElapsedMilliseconds ::
  "('h, 'w) pcm_environment \<Rightarrow> int \<Rightarrow> ('h, 'w) pcm_session \<Rightarrow> u64 \<times> ('h, 'w) pcm_session" where
  "PcmElapsedMilliseconds env session_start s =
     (let (time, s1) = now env s; elapsed = milliseconds (time - session_start)
      in (if elapsed < 0 then 0 else of_int elapsed, s1))"

definition RecordPcmStreamStop ::
  "('h, 'w) pcm_environment \<Rightarrow> u32 \<Rightarrow> int \<Rightarrow> ('h, 'w) pcm_session \<Rightarrow> ('h, 'w) pcm_session" where
  "RecordPcmStreamStop env read_error session_start s =
     (let (elapsed, s1) =
            PcmElapsedMilliseconds env session_start
              (on_result (\<lambda>r. r\<lparr>xr_pcm_stream_stop_count := xr_pcm_stream_stop_count r + 1,
                               xr_pcm_stream_stop_detected := True,
                               xr_pcm_stream_stop_error := read_error\<rparr>) s);
          ((ok, snapshot, error), s2) =
            ask (sc_QuerySnapshot (pe_source env))
              (on_result (\<lambda>r. r\<lparr>xr_pcm_stream_stop_elapsed_ms := elapsed\<rparr>) s1)
      in on_result
           (\<lambda>r. if ok
                then r\<lparr>xr_pcm_stream_stop_snapshot := snapshot,
                       xr_pcm_stream_stop_snapshot_valid := True,
                       xr_pcm_stream_stop_snapshot_error := 0\<rparr>
                else r\<lparr>xr_pcm_stream_stop_snapshot_valid := False,
                       xr_pcm_stream_stop_snapshot_error := error\<rparr>) s2)"

end
