(* ===== verification/Pcm_Session.thy ===== *)
theory Pcm_Session
  imports Pcm_Signaling Pcm_Output "HOL-Library.Monad_Syntax"
begin

text \<open>
  The PCM session, \<open>RunV1TransportPcmBurstOnce\<close> of \<open>agent/v1_transport_pcm_session.cpp\<close>: it waits for audible
  PCM, negotiates, starts the stream and sends the encoded blocks of the source as RTP packets until the
  duration is over or a stop is asked for; a source that stops is paused or bound anew, and the end
  suspends and closes the stream.

  Every operation takes the variables of the session and returns them.  A loop that the environment may
  keep going for ever is a \<^theory_text>\<open>partial_function\<close>, whose \<^const>\<open>None\<close> is not returning.
\<close>

abbreviation (input) "kMaximumPreflightEpochRestarts \<equiv> (32 :: u32)"
abbreviation (input) "kTransientMediaWriteRetries \<equiv> (50 :: nat)"
abbreviation (input) "kNotReadyError \<equiv> (21 :: u32)"
abbreviation (input) "kPauseResumePrepareWindowMs \<equiv> (1000 :: u32)"
abbreviation (input) "kMaximumPendingFadeBlocks \<equiv> (64 :: nat)"
abbreviation (input) "kPcmSsrc \<equiv> (0x56315043 :: u32)"

section \<open>The end of a session\<close>

definition close_signaling ::
  "('h, 'w) pcm_environment \<Rightarrow> ('h, 'w) pcm_session \<Rightarrow> ('h, 'w) pcm_session" where
  "close_signaling env s =
     (if \<not> sr_signaling_opened (xr_base (ps_result s)) then s
      else
        let ((ok, error), s1) = ask (be_CloseSignaling (pe_backend env)) s
        in on_base
             (\<lambda>r. let r1 = r\<lparr>sr_close_attempted := True, sr_close_succeeded := ok,
                             sr_cleanup_error := error\<rparr>
                   in if ok then r1
                      else r1\<lparr>sr_disposition := Configuration_CleanupFailure,
                              sr_stage := SilenceStage_CloseChannels\<rparr>) s1)"

definition release_lease ::
  "('h, 'w) pcm_environment \<Rightarrow> ('h, 'w) pcm_session \<Rightarrow> ('h, 'w) pcm_session" where
  "release_lease env s =
     (if \<not> xr_consumer_lease_held (ps_result s) then s
      else
        let ((released, error), s1) = ask (sc_Release (pe_source env)) s;
            s2 = on_result (\<lambda>r. r\<lparr>xr_consumer_lease_held := False\<rparr>) s1
        in if released
           then on_result (\<lambda>r. r\<lparr>xr_consumer_lease_release_count :=
                                  xr_consumer_lease_release_count r + 1\<rparr>) s2
           else on_base
             (\<lambda>r. r\<lparr>sr_cleanup_error := (if sr_cleanup_error r = 0 then error else sr_cleanup_error r),
                    sr_disposition := Configuration_CleanupFailure,
                    sr_stage := SilenceStage_ReleasePcm\<rparr>) s2)"

definition PcmFinish ::
  "('h, 'w) pcm_environment \<Rightarrow> ('h, 'w) pcm_session \<Rightarrow> ('h, 'w) pcm_session" where
  "PcmFinish env s =
     on_result
       (\<lambda>r. r\<lparr>xr_consumer_lease_released :=
                (xr_consumer_lease_acquired r \<and> \<not> xr_consumer_lease_held r \<and>
                 xr_consumer_lease_acquire_count r = xr_consumer_lease_release_count r)\<rparr>)
       (release_lease env (close_signaling env (on_result UpdateDurationTelemetry s)))"

section \<open>Audible PCM before the open\<close>

text \<open>The lease, when it is not held: the answer is false if the session has failed.\<close>

definition remaining_ms ::
  "('h, 'w) pcm_environment \<Rightarrow> int \<Rightarrow> ('h, 'w) pcm_session \<Rightarrow> int \<times> ('h, 'w) pcm_session" where
  "remaining_ms env deadline s = (let (time, s1) = now env s in (milliseconds (deadline - time), s1))"

definition prepare_lease ::
  "('h, 'w) pcm_environment \<Rightarrow> int \<Rightarrow> ('h, 'w) pcm_session \<Rightarrow> bool \<times> ('h, 'w) pcm_session" where
  "prepare_lease env deadline s =
     (if xr_consumer_lease_held (ps_result s) then (True, s)
      else
        let (remaining, s1) = remaining_ms env deadline s;
            s2 = on_result (\<lambda>r. r\<lparr>xr_pcm_prepare_attempts := xr_pcm_prepare_attempts r + 1\<rparr>)
              (on_base (\<lambda>r. r\<lparr>sr_stage := SilenceStage_PreparePcm\<rparr>) s1);
            ((ok, format, error), s3) =
              ask (sc_Prepare (pe_source env) (of_int (max 1 remaining))) s2;
            s4 = on_result (\<lambda>r. r\<lparr>xr_pcm_format := format\<rparr>) s3
        in if \<not> ok
           then
             let (stop, s5) = ProbeStop env (on_base (\<lambda>r. r\<lparr>sr_backend_error := error\<rparr>) s4)
             in (False,
                 on_result
                   (PcmSetFailure
                     (if stop \<noteq> Stop_None then Configuration_Cancelled
                      else Configuration_BackendFailure) (sr_stage (xr_base (ps_result s5)))) s5)
           else
             let s5 = on_result (\<lambda>r. lease_acquired (r\<lparr>xr_pcm_prepared := True\<rparr>)) s4
             in if \<not> SupportedSampleRate (xf_sample_rate_hz format) \<or>
                   (xf_bits_per_sample format \<noteq> 16 \<and> xf_bits_per_sample format \<noteq> 24)
                then (False,
                      protocol_failure LDAC_ENCODER_CONFIGURATION_FAILED
                        (sr_stage (xr_base (ps_result s5))) s5)
                else (True, s5))"

text \<open>The release after a stream that stopped before the open; true if the loop goes on.\<close>

definition restart_epoch ::
  "('h, 'w) pcm_environment \<Rightarrow> ('h, 'w) pcm_session \<Rightarrow> bool \<times> ('h, 'w) pcm_session" where
  "restart_epoch env s =
     (let ((released, error), s1) =
            ask (sc_Release (pe_source env))
              (on_base (\<lambda>r. r\<lparr>sr_stage := SilenceStage_ReleasePcm\<rparr>) s);
          s2 = on_result (\<lambda>r. r\<lparr>xr_consumer_lease_held := False\<rparr>) s1
      in if \<not> released
         then (False,
               on_result (PcmSetFailure Configuration_CleanupFailure SilenceStage_ReleasePcm)
                 (on_base (\<lambda>r. r\<lparr>sr_cleanup_error := error\<rparr>) s2))
         else
           let s3 = on_result lease_returned s2
           in if xr_pcm_epoch_restarts (ps_result s3) \<ge> kMaximumPreflightEpochRestarts
              then (False,
                    protocol_failure LDAC_ENCODER_INVALID_OUTPUT SilenceStage_PreparePcm s3)
              else (True,
                    on_result (\<lambda>r. r\<lparr>xr_pcm_epoch_restarts := xr_pcm_epoch_restarts r + 1\<rparr>) s3))"

definition sanitized_peak :: "ieee list \<Rightarrow> ieee" where
  "sanitized_peak samples = foldl (\<lambda>peak sample. fl_max peak (fl_abs sample)) (Fin 0) samples"

text \<open>
  The block that was read: \<^const>\<open>Some\<close> with the result of the function, \<^const>\<open>None\<close> if the loop goes on.
\<close>

definition preflight_block ::
  "V1TransportPcmOptions \<Rightarrow> V1TransportPcmReadDisposition \<Rightarrow> nat \<Rightarrow> u32 \<Rightarrow> ('h, 'w) pcm_session \<Rightarrow>
   bool option \<times> ('h, 'w) pcm_session" where
  "preflight_block options disposition frames_read error s =
     (if disposition \<noteq> PcmRead_Data \<or> frames_read \<noteq> LDAC_ENCODER_PCM_FRAMES_PER_CALL
      then (Some False, backend_failure error (sr_stage (xr_base (ps_result s))) s)
      else
        let pcm = map SanitizeSample (ps_pcm s);
            peak = sanitized_peak pcm;
            s1 = on_result
              (\<lambda>r. r\<lparr>xr_pcm_frames_read := xr_pcm_frames_read r + of_nat frames_read,
                     xr_maximum_pre_gain_peak := fl_max (xr_maximum_pre_gain_peak r) peak\<rparr>)
              (s\<lparr>ps_pcm := pcm\<rparr>)
        in if fl_le (xo_audible_peak_threshold options) peak
           then (Some True,
                 on_result (\<lambda>r. r\<lparr>xr_audible_pcm_confirmed_before_open := True\<rparr>) s1)
           else (None,
                 on_result (\<lambda>r. r\<lparr>xr_pre_start_pcm_frames_discarded :=
                                   xr_pre_start_pcm_frames_discarded r + of_nat frames_read\<rparr>) s1))"

definition preflight_read ::
  "('h, 'w) pcm_environment \<Rightarrow> V1TransportPcmOptions \<Rightarrow> int \<Rightarrow> int \<Rightarrow> ('h, 'w) pcm_session \<Rightarrow>
   bool option \<times> ('h, 'w) pcm_session" where
  "preflight_read env options session_start deadline s =
     (let (remaining, s1) = remaining_ms env deadline s;
          read_timeout_ms =
            of_int (max 1 (min (int (unat (xo_pcm_read_timeout_ms options))) remaining));
          ((disposition, samples, frames_read, error), s2) =
            ask (sc_ReadFrames (pe_source env) LDAC_ENCODER_PCM_FRAMES_PER_CALL read_timeout_ms) s1;
          s3 = s2\<lparr>ps_pcm := filled (ps_pcm s2) samples\<rparr>
      in if disposition = PcmRead_Timeout then (None, s3)
         else if disposition = PcmRead_StreamStopped
         then
           let (stop, s4) = ProbeStop env s3
           in if stop \<noteq> Stop_None
              then (Some False,
                    on_result
                      (PcmSetFailure Configuration_Cancelled (sr_stage (xr_base (ps_result s4))))
                      (on_base (\<lambda>r. r\<lparr>sr_backend_error := error\<rparr>) s4))
              else
                let (goes_on, s5) =
                      restart_epoch env (RecordPcmStreamStop env error session_start s4)
                in (if goes_on then None else Some False, s5)
         else preflight_block options disposition frames_read error s3)"

partial_function (option) preflight_loop ::
  "('h, 'w) pcm_environment \<Rightarrow> V1TransportPcmOptions \<Rightarrow> int \<Rightarrow> int \<Rightarrow> ('h, 'w) pcm_session \<Rightarrow>
   (bool \<times> ('h, 'w) pcm_session) option" where
  "preflight_loop env options session_start deadline s =
     (let (time, s1) = now env s
      in if time \<ge> deadline
         then Some (False, protocol_failure LDAC_ENCODER_INVALID_OUTPUT SilenceStage_PreparePcm s1)
         else
           let (stop, s2) = ProbeStop env s1
           in if stop \<noteq> Stop_None
              then Some (False,
                on_result (PcmSetFailure Configuration_Cancelled (sr_stage (xr_base (ps_result s2)))) s2)
              else
                let (prepared, s3) = prepare_lease env deadline s2
                in if \<not> prepared then Some (False, s3)
                   else
                     let (answer, s4) = preflight_read env options session_start deadline s3
                     in case answer of
                          Some audible \<Rightarrow> Some (audible, s4)
                        | None \<Rightarrow> preflight_loop env options session_start deadline s4)"

definition PrepareAudiblePcm ::
  "('h, 'w) pcm_environment \<Rightarrow> V1TransportPcmOptions \<Rightarrow> int \<Rightarrow> ('h, 'w) pcm_session \<Rightarrow>
   (bool \<times> ('h, 'w) pcm_session) option" where
  "PrepareAudiblePcm env options session_start s =
     (let (time, s1) = now env s
      in preflight_loop env options session_start
           (time + 1000000 * int (unat (xo_audible_preflight_timeout_ms options))) s1)"

section \<open>Media packets\<close>

text \<open>
  One write with its retries: \<open>retries\<close> is how many are left.  Only \<open>ERROR_NOT_READY\<close> is retried, and
  not when a stop is asked for.
\<close>

fun write_attempts ::
  "('h, 'w) pcm_environment \<Rightarrow> bytes \<Rightarrow> u32 \<Rightarrow> bool \<Rightarrow> nat \<Rightarrow> ('h, 'w) pcm_session \<Rightarrow>
   (bool \<times> u32) \<times> ('h, 'w) pcm_session" where
  "write_attempts env packet timeout_ms allow_graceful_stop retries s =
     (let ((ok, error), s1) = ask (be_WriteMedia (pe_backend env) packet timeout_ms) s
      in if ok then ((True, error), s1)
         else
           let (stop, s2) = ProbeStop env s1;
               stop_requested =
                 (stop = Stop_Cancel \<or> (\<not> allow_graceful_stop \<and> stop = Stop_Graceful))
           in if error \<noteq> kNotReadyError \<or> retries = 0 \<or> stop_requested
              then
                let s3 = (if error = kNotReadyError \<and> retries = 0
                          then on_result (\<lambda>r. r\<lparr>xr_media_write_not_ready_exhaustions :=
                                 xr_media_write_not_ready_exhaustions r + 1\<rparr>) s2
                          else s2);
                    ((available, diagnostics), s4) =
                      ask (be_GetLastMediaWriteDiagnostics (pe_backend env)) s3
                in ((False, error),
                    on_base (\<lambda>r. r\<lparr>sr_media_write_diagnostics := diagnostics\<rparr>) s4)
              else
                let s3 = on_result (\<lambda>r. r\<lparr>xr_media_write_not_ready_retries :=
                           xr_media_write_not_ready_retries r + 1\<rparr>) s2;
                    s4 = s3\<lparr>ps_world := pe_sleep_ms env 20 (ps_world s3)\<rparr>
                in write_attempts env packet timeout_ms allow_graceful_stop (retries - 1) s4)"

declare write_attempts.simps [simp del]

definition WriteMediaWithTransientNotReadyRetry ::
  "('h, 'w) pcm_environment \<Rightarrow> bytes \<Rightarrow> u32 \<Rightarrow> bool \<Rightarrow> ('h, 'w) pcm_session \<Rightarrow>
   (bool \<times> u32) \<times> ('h, 'w) pcm_session" where
  "WriteMediaWithTransientNotReadyRetry env packet timeout_ms allow_graceful_stop s =
     write_attempts env packet timeout_ms allow_graceful_stop kTransientMediaWriteRetries s"

text \<open>A call of the encoder of the session, and the samples in one of its frames.\<close>

definition encode ::
  "('h, 'w) pcm_environment \<Rightarrow> ieee list \<Rightarrow> ('h, 'w) pcm_session \<Rightarrow>
   (ldac_encoder_status \<times> bytes \<times> u8) \<times> ('h, 'w) pcm_session" where
  "encode env pcm s =
     (case ps_encoder s of
        None \<Rightarrow> ((LDAC_ENCODER_INVALID_ARGUMENT, [], 0), s)
      | Some encoder \<Rightarrow>
          let (status, (encoded, frame_count), encoder1, w) =
                ldac_encoder_encode_f32 (pe_library env) encoder pcm LDAC_ENCODER_PCM_FRAMES_PER_CALL
                  LDAC_ENCODER_MAX_OUTPUT_BYTES (ps_world s)
          in ((status, encoded, frame_count),
              s\<lparr>ps_encoder := Some encoder1, ps_world := w\<rparr>))"

definition samples_per_frame :: "('h, 'w) pcm_session \<Rightarrow> u32" where
  "samples_per_frame s =
     (case ps_encoder s of
        None \<Rightarrow> 0 | Some encoder \<Rightarrow> of_nat (ldac_encoder_samples_per_transport_frame encoder))"

text \<open>The packet is full when the limit of packets is reached.\<close>

definition packets_exhausted :: "V1TransportPcmOptions \<Rightarrow> ('h, 'w) pcm_session \<Rightarrow> bool" where
  "packets_exhausted options s \<longleftrightarrow>
     xo_maximum_packets options \<noteq> 0 \<and>
     sr_media_packets_written (xr_base (ps_result s)) \<ge> xo_maximum_packets options"

text \<open>The accounts of a packet that was written.\<close>

definition packet_sent :: "bytes \<Rightarrow> u32 \<Rightarrow> ('h, 'w) pcm_session \<Rightarrow> ('h, 'w) pcm_session" where
  "packet_sent packet packet_samples s =
     (let frames = ps_transport_frames_sent s + ucast packet_samples
      in on_result (\<lambda>r. r\<lparr>xr_transport_frames_sent := frames\<rparr>)
           (on_base
             (\<lambda>r. r\<lparr>sr_media_packets_written := sr_media_packets_written r + 1,
                    sr_media_bytes_written := sr_media_bytes_written r + of_nat (length packet)\<rparr>)
             (s\<lparr>ps_transport_frames_sent := frames, ps_timestamp := ps_timestamp s + packet_samples,
                ps_sequence := ps_sequence s + 1\<rparr>)))"

section \<open>Silence at a boundary\<close>

definition cancelled_or_failed :: "V1TransportPcmStopDisposition \<Rightarrow> V1TransportConfigurationDisposition" where
  "cancelled_or_failed stop =
     (if stop = Stop_Cancel then Configuration_Cancelled else Configuration_BackendFailure)"

text \<open>The delivery of one packet of silence; true if it was written.\<close>

definition send_boundary_packet ::
  "('h, 'w) pcm_environment \<Rightarrow> V1TransportPcmOptions \<Rightarrow> bool \<Rightarrow> bytes \<Rightarrow> u32 \<Rightarrow> ('h, 'w) pcm_session \<Rightarrow>
   bool \<times> ('h, 'w) pcm_session" where
  "send_boundary_packet env options allow_graceful_stop packet packet_samples s =
     (let ((waited, error), s1) =
            ask (sc_WaitUntilSample (pe_source env) (ps_transport_frames_sent s)
              (xf_sample_rate_hz (xr_pcm_format (ps_result s)))) s
      in if \<not> waited
         then
           let (stop, s2) = ProbeStop env s1
           in (False,
               on_result (PcmSetFailure (cancelled_or_failed stop) SilenceStage_WritePcm)
                 (on_base (\<lambda>r. r\<lparr>sr_backend_error := error\<rparr>) s2))
         else
           let s2 = on_result (\<lambda>r. r\<lparr>xr_pacing_waits := xr_pacing_waits r + 1\<rparr>) s1;
               (stop, s3) = ProbeStop env s2
           in if stop = Stop_Cancel \<or> (\<not> allow_graceful_stop \<and> stop = Stop_Graceful)
              then (False, on_result (PcmSetFailure Configuration_Cancelled SilenceStage_WritePcm) s3)
              else
                let ((written, error1), s4) =
                      WriteMediaWithTransientNotReadyRetry env packet (xo_media_timeout_ms options)
                        allow_graceful_stop s3
                in if \<not> written
                   then
                     let (stop1, s5) =
                           ProbeStop env (on_base (\<lambda>r. r\<lparr>sr_backend_error := error1\<rparr>) s4)
                     in (False,
                         on_result (PcmSetFailure (cancelled_or_failed stop1) SilenceStage_WritePcm) s5)
                   else
                     (True,
                      on_result
                        (\<lambda>r. r\<lparr>xr_startup_silence_frames_sent :=
                                 xr_startup_silence_frames_sent r + ucast packet_samples,
                               xr_startup_silence_packets_written :=
                                 xr_startup_silence_packets_written r + 1\<rparr>)
                        (packet_sent packet packet_samples s4)))"

text \<open>One block of silence through the encoder: \<open>pending\<close> counts the frames not yet in a packet.\<close>

definition boundary_block ::
  "('h, 'w) pcm_environment \<Rightarrow> V1TransportPcmOptions \<Rightarrow> bool \<Rightarrow> u32 \<Rightarrow> u64 \<Rightarrow> ('h, 'w) pcm_session \<Rightarrow>
   bool \<times> u64 \<times> ('h, 'w) pcm_session" where
  "boundary_block env options allow_graceful_stop samples pending s =
     (let ((status, encoded, frame_count), s1) =
            encode env
              (replicate (LDAC_ENCODER_PCM_FRAMES_PER_CALL * LDAC_ENCODER_STEREO_CHANNELS) (Fin 0)) s
      in if status \<noteq> LDAC_ENCODER_OK
         then (False, pending, protocol_failure status SilenceStage_WritePcm s1)
         else if encoded = [] then (True, pending, s1)
         else
           let packet_samples = ucast frame_count * samples
           in if ucast packet_samples \<noteq> pending
              then (False, pending,
                    protocol_failure LDAC_ENCODER_INVALID_OUTPUT SilenceStage_WritePcm s1)
              else
                let (built, packet) =
                      ldac_rtp_build_unfragmented 4096
                        (unat (sr_outgoing_mtu (xr_base (ps_result s1)))) (ps_sequence s1)
                        (ps_timestamp s1) kPcmSsrc frame_count encoded
                in if built \<noteq> LDAC_RTP_OK
                   then (False, pending,
                         protocol_failure AVDTP_SOURCE_ERROR_BAD_PACKET SilenceStage_WritePcm s1)
                   else if packets_exhausted options s1
                   then (False, pending,
                         protocol_failure LDAC_ENCODER_INVALID_OUTPUT SilenceStage_WritePcm s1)
                   else
                     let (sent, s2) =
                           send_boundary_packet env options allow_graceful_stop packet packet_samples s1
                     in (sent, 0, s2))"

partial_function (option) boundary_loop ::
  "('h, 'w) pcm_environment \<Rightarrow> V1TransportPcmOptions \<Rightarrow> bool \<Rightarrow> u32 \<Rightarrow> u64 \<Rightarrow> u64 \<Rightarrow> u64 \<Rightarrow> u32 \<Rightarrow>
   ('h, 'w) pcm_session \<Rightarrow> (bool \<times> ('h, 'w) pcm_session) option" where
  "boundary_loop env options allow_graceful_stop samples target_frames generated pending flush s =
     (if \<not> (generated < target_frames \<or> pending \<noteq> 0) then Some (True, s)
      else
        let padding = (generated \<ge> target_frames);
            flush1 = (if padding then flush + 1 else flush)
        in if padding \<and> flush1 > 64
           then Some (False, protocol_failure LDAC_ENCODER_INVALID_OUTPUT SilenceStage_WritePcm s)
           else
             let (ok, pending1, s1) =
                   boundary_block env options allow_graceful_stop samples (pending + 128) s
             in if \<not> ok then Some (False, s1)
                else boundary_loop env options allow_graceful_stop samples target_frames
                       (generated + 128) pending1 flush1 s1)"

definition SendBoundarySilence ::
  "('h, 'w) pcm_environment \<Rightarrow> V1TransportPcmOptions \<Rightarrow> ieee \<Rightarrow> bool \<Rightarrow> ('h, 'w) pcm_session \<Rightarrow>
   (bool \<times> ('h, 'w) pcm_session) option" where
  "SendBoundarySilence env options duration_ms allow_graceful_stop s =
     (if fl_equal duration_ms (Fin 0) then Some (True, s)
      else if ps_encoder s = None \<or> xf_sample_rate_hz (xr_pcm_format (ps_result s)) = 0
      then Some (False, s)
      else
        let requested_frames = frames_of (xf_sample_rate_hz (xr_pcm_format (ps_result s))) duration_ms;
            target_frames = ((requested_frames + 128 - 1) div 128) * 128
        in if target_frames = 0 then Some (True, s)
           else boundary_loop env options allow_graceful_stop (samples_per_frame s) target_frames 0 0 0 s)"

end
