(* ===== verification/Pcm_Streaming.thy ===== *)
theory Pcm_Streaming
  imports Pcm_Session
begin

text \<open>
  The media loop of a PCM session, \<open>RunV1TransportPcmBurstOnce\<close> of
  \<open>agent/v1_transport_pcm_session.cpp\<close>: the pause and the rebinding of the source, one turn of the loop, the
  end of the stream and the whole session.

  A part of a turn says how the turn goes on: with the next part, with the next turn (\<open>continue\<close>), after
  the loop (\<open>break\<close>), or with the return of the function.
\<close>

datatype flow = Flow_Go | Flow_Again | Flow_Leave | Flow_Return

type_synonym ('h, 'w) turn = "flow \<times> ('h, 'w) pcm_session"

definition go_on :: "(flow \<times> 's) option \<Rightarrow> ('s \<Rightarrow> (flow \<times> 's) option) \<Rightarrow> (flow \<times> 's) option" where
  "go_on part rest =
     do { (verdict, s) \<leftarrow> part; if verdict = Flow_Go then rest s else Some (verdict, s) }"

definition leave_gracefully :: "('h, 'w) pcm_session \<Rightarrow> ('h, 'w) turn" where
  "leave_gracefully s = (Flow_Leave, s\<lparr>ps_graceful_stop := True\<rparr>)"

definition fidelity_mode :: "V1TransportPcmOptions \<Rightarrow> bool" where
  "fidelity_mode options \<longleftrightarrow> xo_limiter_mode options = LimiterMode_LinkedStereoSamplePeakFidelity"

section \<open>Restarting the output\<close>

definition create_encoder ::
  "('h, 'w) pcm_environment \<Rightarrow> V1TransportPcmOptions \<Rightarrow> ('h, 'w) pcm_session \<Rightarrow>
   (ldac_encoder_status \<times> 'h ldac_encoder option) \<times> ('h, 'w) pcm_session" where
  "create_encoder env options s =
     (let (status, created, w) =
            ldac_encoder_create_with_channel_mode (pe_library env)
              (unat (sr_outgoing_mtu (xr_base (ps_result s))) - LDAC_RTP_OVERHEAD)
              (xo_quality options) (unat (xf_sample_rate_hz (xr_pcm_format (ps_result s))))
              (xo_channel_mode options) (ps_world s)
      in ((status, created), s\<lparr>ps_world := w\<rparr>))"

definition destroy_encoder ::
  "('h, 'w) pcm_environment \<Rightarrow> ('h, 'w) pcm_session \<Rightarrow> ('h, 'w) pcm_session" where
  "destroy_encoder env s =
     (case ps_encoder s of
        None \<Rightarrow> s
      | Some encoder \<Rightarrow> s\<lparr>ps_world := ldac_encoder_destroy (pe_library env) encoder (ps_world s)\<rparr>)"

definition reset_transport_encoder ::
  "('h, 'w) pcm_environment \<Rightarrow> V1TransportPcmOptions \<Rightarrow> ('h, 'w) pcm_session \<Rightarrow>
   bool \<times> ('h, 'w) pcm_session" where
  "reset_transport_encoder env options s =
     (let ((status, created), s1) = create_encoder env options s
      in if status \<noteq> LDAC_ENCODER_OK \<or> created = None
         then (False, protocol_failure status SilenceStage_WritePcm s1)
         else (True, (destroy_encoder env s1)\<lparr>ps_encoder := created\<rparr>))"

definition startup_silence ::
  "('h, 'w) pcm_environment \<Rightarrow> V1TransportPcmOptions \<Rightarrow> ('h, 'w) pcm_session \<Rightarrow>
   (bool \<times> ('h, 'w) pcm_session) option" where
  "startup_silence env options s =
     (if fidelity_mode options \<and> fl_less (Fin 0) (xo_startup_silence_ms options)
      then SendBoundarySilence env options (xo_startup_silence_ms options) True s
      else Some (True, s))"

text \<open>A new encoder, the silence and the start of the fade, as after every interruption.\<close>

definition restart_output ::
  "('h, 'w) pcm_environment \<Rightarrow> V1TransportPcmOptions \<Rightarrow> ('h, 'w) pcm_session \<Rightarrow>
   (bool \<times> ('h, 'w) pcm_session) option" where
  "restart_output env options s =
     (let (reset, s1) = reset_transport_encoder env options s
      in if \<not> reset then Some (False, s1)
         else do {
           (sent, s2) \<leftarrow> startup_silence env options s1;
           if \<not> sent then Some (False, s2)
           else
             let target = frames_of (xf_sample_rate_hz (xr_pcm_format (ps_result s2)))
                   (xo_fade_in_ms options)
             in Some (True,
                  (on_result (\<lambda>r. r\<lparr>xr_boundary_resume_count := xr_boundary_resume_count r + 1\<rparr>) s2)
                  \<lparr>ps_resume_fade_processed := 0, ps_resume_fade_target := target,
                   ps_resume_fade_active := (fidelity_mode options \<and> target \<noteq> 0)\<rparr>)
         })"

section \<open>The pause\<close>

datatype PauseTransitionResult = Pause_Resumed | Pause_GracefulStop | Pause_Ended

type_synonym ('h, 'w) pause = "PauseTransitionResult \<times> ('h, 'w) pcm_session"

definition begin_peer_read ::
  "('h, 'w) pcm_environment \<Rightarrow> V1TransportPcmOptions \<Rightarrow> V1TransportSilenceStage \<Rightarrow>
   ('h, 'w) pcm_session \<Rightarrow> bool \<times> ('h, 'w) pcm_session" where
  "begin_peer_read env options stage s =
     (if \<not> xo_observe_peer_close_while_streaming options then (True, s)
      else
        let ((ok, error), s1) =
              ask (be_BeginPeerSignalingRead (pe_backend env) kMaximumTimeoutMs) s;
            s2 = s1\<lparr>ps_error := error\<rparr>
        in if ok then (True, s2) else (False, backend_failure error stage s2))"

definition cancel_peer_read ::
  "('h, 'w) pcm_environment \<Rightarrow> V1TransportPcmOptions \<Rightarrow> V1TransportSilenceStage \<Rightarrow>
   ('h, 'w) pcm_session \<Rightarrow> bool \<times> ('h, 'w) pcm_session" where
  "cancel_peer_read env options stage s =
     (if \<not> xo_observe_peer_close_while_streaming options then (True, s)
      else
        let ((ok, error), s1) = ask (be_CancelPeerSignalingRead (pe_backend env)) s;
            s2 = s1\<lparr>ps_error := error\<rparr>
        in if ok then (True, s2) else (False, backend_failure error stage s2))"

text \<open>A command of the stream and the action its acceptance has to bring.\<close>

definition pcm_command ::
  "('h, 'w) pcm_environment \<Rightarrow> V1TransportPcmOptions \<Rightarrow> (avdtp_source \<Rightarrow> avdtp_source \<times> avdtp_action) \<Rightarrow>
   V1TransportSilenceStage \<Rightarrow> bool \<Rightarrow> avdtp_action_kind \<Rightarrow>
   (V1TransportSilenceResult \<Rightarrow> V1TransportSilenceResult) \<Rightarrow> ('h, 'w) pcm_session \<Rightarrow>
   bool \<times> ('h, 'w) pcm_session" where
  "pcm_command env options command stage cancel_only expected accepted s =
     (let (source, action) = command (ps_avdtp s)
      in case Exchange env options action stage cancel_only (s\<lparr>ps_avdtp := source\<rparr>) of
           (None, s1) \<Rightarrow> (False, s1)
         | (Some next_action, s1) \<Rightarrow>
             let s2 = on_base accepted s1
             in if aa_kind next_action \<noteq> expected
                then (False, protocol_failure AVDTP_SOURCE_ERROR_UNEXPECTED_RESPONSE stage s2)
                else (True, s2))"

definition suspend_accepted :: "V1TransportSilenceResult \<Rightarrow> V1TransportSilenceResult" where
  "suspend_accepted r =
     r\<lparr>sr_avdtp_suspend_accepted := True, sr_remote_stream_cleanup_required := False\<rparr>"

text \<open>The suspension of the stream and the release of the source; false if the session has ended.\<close>

definition suspend_for_pause ::
  "('h, 'w) pcm_environment \<Rightarrow> V1TransportPcmOptions \<Rightarrow> ('h, 'w) pcm_session \<Rightarrow>
   bool \<times> ('h, 'w) pcm_session" where
  "suspend_for_pause env options s =
     (let (cancelled, s1) = cancel_peer_read env options SilenceStage_Suspend s
      in if \<not> cancelled then (False, s1)
         else
           let (suspended, s2) =
                 pcm_command env options avdtp_source_suspend SilenceStage_Suspend True
                   AVDTP_ACTION_STREAM_SUSPENDED (\<lambda>r. r) s1
           in if \<not> suspended then (False, s2)
              else
                let s3 = (on_result (\<lambda>r. r\<lparr>xr_pause_suspend_count := xr_pause_suspend_count r + 1\<rparr>)
                      (on_base (\<lambda>r. (suspend_accepted r)\<lparr>sr_stage := SilenceStage_ReleasePcm\<rparr>) s2))
                      \<lparr>ps_suspended_for_pause := True, ps_pending := [], ps_pending_frames := 0\<rparr>;
                    ((released, error), s4) = ask (sc_Release (pe_source env)) s3;
                    s5 = s4\<lparr>ps_error := error\<rparr>
                in if \<not> released
                   then (False,
                         on_result (PcmSetFailure Configuration_CleanupFailure SilenceStage_ReleasePcm)
                           (on_base (\<lambda>r. r\<lparr>sr_cleanup_error := error\<rparr>) s5))
                   else
                     begin_peer_read env options SilenceStage_Suspend
                       (on_result (\<lambda>r. lease_returned (r\<lparr>xr_consumer_lease_held := False\<rparr>)) s5))"

text \<open>What a stop means while the stream is paused.\<close>

definition paused_stop ::
  "V1TransportPcmStopDisposition \<Rightarrow> V1TransportSilenceStage \<Rightarrow> ('h, 'w) pcm_session \<Rightarrow>
   ('h, 'w) pause option" where
  "paused_stop stop stage s =
     (if stop = Stop_Cancel
      then Some (Pause_Ended, on_result (PcmSetFailure Configuration_Cancelled stage) s)
      else if stop = Stop_Graceful
      then Some (Pause_GracefulStop, s\<lparr>ps_graceful_stop := True\<rparr>) else None)"

text \<open>
  One turn of the wait for the source: \<^const>\<open>Inl\<close> with the end of the pause or with the format of the
  source, \<^const>\<open>None\<close> if the wait goes on.
\<close>

definition paused_prepare ::
  "('h, 'w) pcm_environment \<Rightarrow> ('h, 'w) pcm_session \<Rightarrow>
   (PauseTransitionResult + V1TransportPcmFormat) option \<times> ('h, 'w) pcm_session" where
  "paused_prepare env s =
     (let s1 = on_result
            (\<lambda>r. r\<lparr>xr_pcm_prepare_attempts := xr_pcm_prepare_attempts r + 1,
                   xr_pause_wait_prepare_attempts := xr_pause_wait_prepare_attempts r + 1\<rparr>)
            (on_base (\<lambda>r. r\<lparr>sr_stage := SilenceStage_PreparePcm\<rparr>) s);
          ((ok, format, error), s2) =
            ask (sc_Prepare (pe_source env) kPauseResumePrepareWindowMs) s1;
          s3 = s2\<lparr>ps_error := error\<rparr>
      in if ok then (Some (Inr format), on_result lease_acquired s3)
         else
           let (stop, s4) = ProbeStop env s3
           in case paused_stop stop SilenceStage_PreparePcm s4 of
                Some (verdict, s5) \<Rightarrow> (Some (Inl verdict), s5)
              | None \<Rightarrow>
                  if \<not> IsPauseResumeWaitError error
                  then (Some (Inl Pause_Ended), backend_failure error SilenceStage_PreparePcm s4)
                  else (None, s4))"

partial_function (option) paused_loop ::
  "('h, 'w) pcm_environment \<Rightarrow> V1TransportPcmOptions \<Rightarrow> ('h, 'w) pcm_session \<Rightarrow>
   ((PauseTransitionResult + V1TransportPcmFormat) \<times> ('h, 'w) pcm_session) option" where
  "paused_loop env options s =
     (let (stop, s1) = ProbeStop env s
      in case paused_stop stop SilenceStage_Suspend s1 of
           Some (verdict, s2) \<Rightarrow> Some (Inl verdict, s2)
         | None \<Rightarrow>
             let (peer_control, s2) = ObservePeerStreamControl env options s1
             in if peer_control \<noteq> Peer_Continue then Some (Inl Pause_Ended, s2)
                else
                  let (answer, s3) = paused_prepare env s2
                  in case answer of
                       Some verdict \<Rightarrow> Some (verdict, s3)
                     | None \<Rightarrow> paused_loop env options s3)"

text \<open>The start of the paused stream with the format the source has come back with.\<close>

definition resume_stream ::
  "('h, 'w) pcm_environment \<Rightarrow> V1TransportPcmOptions \<Rightarrow> V1TransportPcmFormat \<Rightarrow> ('h, 'w) pcm_session \<Rightarrow>
   ('h, 'w) pause option" where
  "resume_stream env options resumed_format s =
     (if \<not> bound_format (ps_locked_format s) resumed_format
      then Some (Pause_Ended, protocol_failure LDAC_ENCODER_INVALID_OUTPUT SilenceStage_PreparePcm s)
      else
        let s1 = (on_result
              (\<lambda>r. r\<lparr>xr_pcm_format := (xr_pcm_format r)
                       \<lparr>xf_stream_epoch := xf_stream_epoch resumed_format\<rparr>\<rparr>) s)
              \<lparr>ps_observed_format := resumed_format\<rparr>;
            (cancelled, s2) = cancel_peer_read env options SilenceStage_Start s1
        in if \<not> cancelled then Some (Pause_Ended, s2)
           else
             let (started, s3) =
                   pcm_command env options avdtp_source_start SilenceStage_Start False
                     AVDTP_ACTION_STREAM_READY (\<lambda>r. r) s2
             in if \<not> started then Some (Pause_Ended, s3)
                else
                  let s4 = (on_result (\<lambda>r. r\<lparr>xr_pause_resume_start_count :=
                             xr_pause_resume_start_count r + 1\<rparr>)
                        (on_base (\<lambda>r. r\<lparr>sr_remote_stream_cleanup_required := True\<rparr>) s3))
                        \<lparr>ps_suspended_for_pause := False\<rparr>;
                      (reading, s5) = begin_peer_read env options SilenceStage_WritePcm s4
                  in if \<not> reading then Some (Pause_Ended, s5)
                     else do {
                       (restarted, s6) \<leftarrow> restart_output env options s5;
                       Some (if restarted
                             then (Pause_Resumed,
                                   on_base (\<lambda>r. r\<lparr>sr_stage := SilenceStage_WritePcm\<rparr>) s6)
                             else (Pause_Ended, s6))
                     })"

definition suspend_and_wait_for_render ::
  "('h, 'w) pcm_environment \<Rightarrow> V1TransportPcmOptions \<Rightarrow> ('h, 'w) pcm_session \<Rightarrow> ('h, 'w) pause option" where
  "suspend_and_wait_for_render env options s =
     (let (suspended, s1) = suspend_for_pause env options s
      in if \<not> suspended then Some (Pause_Ended, s1)
         else do {
           (verdict, s2) \<leftarrow> paused_loop env options s1;
           case verdict of
             Inl ended \<Rightarrow> Some (ended, s2)
           | Inr resumed_format \<Rightarrow> resume_stream env options resumed_format s2
         })"

section \<open>Reading a block\<close>

definition sleep_and_probe ::
  "('h, 'w) pcm_environment \<Rightarrow> ('h, 'w) pcm_session \<Rightarrow>
   V1TransportPcmStopDisposition \<times> ('h, 'w) pcm_session" where
  "sleep_and_probe env s =
     ProbeStop env (s\<lparr>ps_world := pe_sleep_ms env 10 (ps_world s)\<rparr>)"

partial_function (option) explicit_stop_loop ::
  "('h, 'w) pcm_environment \<Rightarrow> int \<Rightarrow> ('h, 'w) pcm_session \<Rightarrow>
   (V1TransportPcmStopDisposition \<times> ('h, 'w) pcm_session) option" where
  "explicit_stop_loop env deadline s =
     (let (stop, s1) = sleep_and_probe env s
      in if stop \<noteq> Stop_None then Some (stop, s1)
         else
           let (time, s2) = now env s1
           in if time < deadline then explicit_stop_loop env deadline s2 else Some (Stop_None, s2))"

definition WaitForExplicitStop ::
  "('h, 'w) pcm_environment \<Rightarrow> u32 \<Rightarrow> ('h, 'w) pcm_session \<Rightarrow>
   (V1TransportPcmStopDisposition \<times> ('h, 'w) pcm_session) option" where
  "WaitForExplicitStop env timeout_ms s =
     (let (stop, s1) = ProbeStop env s
      in if stop \<noteq> Stop_None \<or> timeout_ms = 0 then Some (stop, s1)
         else
           let (time, s2) = now env s1
           in explicit_stop_loop env (time + 1000000 * int (unat timeout_ms)) s2)"

text \<open>The volume of a source that was bound anew; true if the output may be restarted.\<close>

definition rebound_volume ::
  "V1TransportPcmOptions \<Rightarrow> V1TransportPcmFormat \<Rightarrow> ('h, 'w) pcm_session \<Rightarrow> bool \<times> ('h, 'w) pcm_session" where
  "rebound_volume options rebound_format s =
     (let s1 = on_result (volume_seen rebound_format) s;
          same = SameVolume (ps_observed_format s1) rebound_format;
          s2 = (if same then s1
                else on_result (\<lambda>r. r\<lparr>xr_volume_change_count := xr_volume_change_count r + 1,
                                     xr_volume_stable := False\<rparr>) s1)
      in if \<not> same \<and> \<not> xo_allow_dynamic_volume options
         then (False, on_base (\<lambda>r. r\<lparr>sr_protocol_error := LDAC_ENCODER_INVALID_OUTPUT\<rparr>) s2)
         else
           (True,
            (on_result (\<lambda>r. r\<lparr>xr_pcm_format := (xr_pcm_format r)
                               \<lparr>xf_stream_epoch := xf_stream_epoch rebound_format\<rparr>\<rparr>) s2)
            \<lparr>ps_observed_format := rebound_format\<rparr>))"

text \<open>The part of a rebinding after a successful \<open>Prepare\<close>.\<close>

definition rebound ::
  "('h, 'w) pcm_environment \<Rightarrow> V1TransportPcmOptions \<Rightarrow> V1TransportPcmFormat \<Rightarrow> ('h, 'w) pcm_session \<Rightarrow>
   ('h, 'w) turn option" where
  "rebound env options rebound_format s =
     (let (stop, s1) = ProbeStop env s
      in if stop = Stop_Cancel
         then Some (Flow_Return,
                    on_result (PcmSetFailure Configuration_Cancelled SilenceStage_WritePcm) s1)
         else if stop = Stop_Graceful then Some (leave_gracefully s1)
         else if \<not> bound_format (ps_locked_format s1) rebound_format
         then Some (leave_gracefully
                (on_base (\<lambda>r. r\<lparr>sr_protocol_error := LDAC_ENCODER_INVALID_OUTPUT\<rparr>)
                  (on_result (\<lambda>r. r\<lparr>xr_volume_stable := False\<rparr>) s1)))
         else
           let (accepted, s2) = rebound_volume options rebound_format s1
           in if \<not> accepted then Some (leave_gracefully s2)
              else do {
                (restarted, s3) \<leftarrow> restart_output env options s2;
                Some (if restarted then (Flow_Again, s3) else (Flow_Return, s3))
              })"

definition rebind_prepare ::
  "('h, 'w) pcm_environment \<Rightarrow> V1TransportPcmOptions \<Rightarrow> int \<Rightarrow> ('h, 'w) pcm_session \<Rightarrow>
   ('h, 'w) turn option" where
  "rebind_prepare env options session_start s =
     (let timeout_ms = xo_post_start_stop_classification_timeout_ms options;
          s1 = on_result
            (\<lambda>r. r\<lparr>xr_pcm_epoch_restarts := xr_pcm_epoch_restarts r + 1,
                   xr_pcm_prepare_attempts := xr_pcm_prepare_attempts r + 1,
                   xr_pcm_rebind_attempts := xr_pcm_rebind_attempts r + 1,
                   xr_pcm_rebind_last_timeout_ms := timeout_ms\<rparr>)
            (on_base (\<lambda>r. r\<lparr>sr_stage := SilenceStage_PreparePcm\<rparr>) s);
          (elapsed, s2) = PcmElapsedMilliseconds env session_start s1;
          s3 = on_result (\<lambda>r. r\<lparr>xr_pcm_rebind_last_elapsed_ms := elapsed\<rparr>) s2;
          ((ok, rebound_format, error), s4) = ask (sc_Prepare (pe_source env) timeout_ms) s3;
          s5 = s4\<lparr>ps_error := error\<rparr>
      in if \<not> ok
         then
           let (elapsed1, s6) =
                 PcmElapsedMilliseconds env session_start
                   (on_result (\<lambda>r. r\<lparr>xr_pcm_rebind_failures := xr_pcm_rebind_failures r + 1,
                                    xr_pcm_rebind_last_error := error\<rparr>) s5);
               (stop, s7) =
                 ProbeStop env (on_result (\<lambda>r. r\<lparr>xr_pcm_rebind_last_elapsed_ms := elapsed1\<rparr>) s6)
           in if stop = Stop_Graceful then Some (leave_gracefully s7)
              else Some (Flow_Return,
                     on_result (PcmSetFailure (cancelled_or_failed stop) SilenceStage_PreparePcm)
                       (on_base (\<lambda>r. r\<lparr>sr_backend_error := error\<rparr>) s7))
         else
           let (elapsed1, s6) =
                 PcmElapsedMilliseconds env session_start
                   (on_result (\<lambda>r. r\<lparr>xr_pcm_rebind_successes := xr_pcm_rebind_successes r + 1,
                                    xr_pcm_rebind_last_error := 0\<rparr>) s5)
           in rebound env options rebound_format
                (on_result (\<lambda>r. lease_acquired (r\<lparr>xr_pcm_rebind_last_elapsed_ms := elapsed1\<rparr>)) s6))"

definition rebind ::
  "('h, 'w) pcm_environment \<Rightarrow> V1TransportPcmOptions \<Rightarrow> int \<Rightarrow> ('h, 'w) pcm_session \<Rightarrow>
   ('h, 'w) turn option" where
  "rebind env options session_start s =
     (let s1 = (on_base (\<lambda>r. r\<lparr>sr_stage := SilenceStage_ReleasePcm\<rparr>) s)
            \<lparr>ps_timeout_streak_ms := 0, ps_pending := [], ps_pending_frames := 0\<rparr>;
          ((released, error), s2) = ask (sc_Release (pe_source env)) s1;
          s3 = on_result (\<lambda>r. r\<lparr>xr_consumer_lease_held := False\<rparr>) (s2\<lparr>ps_error := error\<rparr>)
      in if \<not> released
         then Some (Flow_Return,
                on_result (PcmSetFailure Configuration_CleanupFailure SilenceStage_ReleasePcm)
                  (on_base (\<lambda>r. r\<lparr>sr_cleanup_error := error\<rparr>) s3))
         else
           let s4 = on_result lease_returned s3
           in if xr_pcm_epoch_restarts (ps_result s4) \<ge> kMaximumPreflightEpochRestarts
              then Some (leave_gracefully
                     (on_base (\<lambda>r. r\<lparr>sr_protocol_error := LDAC_ENCODER_INVALID_OUTPUT\<rparr>) s4))
              else rebind_prepare env options session_start s4)"

text \<open>A block that did not come, with the stop the probe has reported.\<close>

definition classify_loss ::
  "('h, 'w) pcm_environment \<Rightarrow> V1TransportPcmOptions \<Rightarrow> V1TransportPcmReadDisposition \<Rightarrow>
   V1TransportPcmStopDisposition \<Rightarrow> ('h, 'w) pcm_session \<Rightarrow> ('h, 'w) turn option" where
  "classify_loss env options disposition read_stop s =
     do {
       let timeout_ms = xo_post_start_stop_classification_timeout_ms options;
       (stop, s1) \<leftarrow>
         (if read_stop = Stop_None \<and> disposition = PcmRead_StreamStopped \<and> timeout_ms \<noteq> 0
          then WaitForExplicitStop env timeout_ms s else Some (read_stop, s));
       if stop = Stop_Graceful \<or>
          (stop \<noteq> Stop_Cancel \<and> disposition = PcmRead_StreamStopped \<and> timeout_ms = 0)
       then Some (leave_gracefully s1)
       else Some (Flow_Return,
              on_result (PcmSetFailure (cancelled_or_failed stop) SilenceStage_WritePcm)
                (on_base (\<lambda>r. r\<lparr>sr_backend_error := ps_error s1\<rparr>) s1))
     }"

definition lost_block ::
  "('h, 'w) pcm_environment \<Rightarrow> V1TransportPcmOptions \<Rightarrow> int \<Rightarrow> bool \<Rightarrow> V1TransportPcmReadDisposition \<Rightarrow>
   ('h, 'w) pcm_session \<Rightarrow> ('h, 'w) turn option" where
  "lost_block env options session_start forced_rebind disposition s =
     (let (read_stop, s1) = ProbeStop env s;
          stopped = (read_stop = Stop_None \<and> disposition = PcmRead_StreamStopped)
      in if stopped \<and> xo_pause_suspend options \<and> \<not> forced_rebind
         then do {
           (verdict, s2) \<leftarrow> suspend_and_wait_for_render env options (s1\<lparr>ps_timeout_streak_ms := 0\<rparr>);
           Some (case verdict of
                   Pause_Ended \<Rightarrow> (Flow_Return, s2)
                 | Pause_GracefulStop \<Rightarrow> (Flow_Leave, s2)
                 | Pause_Resumed \<Rightarrow> (Flow_Again, s2\<lparr>ps_use_preflight_block := False\<rparr>))
         }
         else
           let s2 = (if stopped \<and> \<not> forced_rebind
                     then RecordPcmStreamStop env (ps_error s1) session_start s1 else s1)
           in if stopped \<and> xo_allow_post_start_pcm_rebind options
              then rebind env options session_start s2
              else classify_loss env options disposition read_stop s2)"

text \<open>A block that came, after timeouts or not.\<close>

definition recover_timeouts ::
  "('h, 'w) pcm_environment \<Rightarrow> V1TransportPcmOptions \<Rightarrow> ('h, 'w) pcm_session \<Rightarrow> ('h, 'w) turn option" where
  "recover_timeouts env options s =
     (if ps_timeout_streak_ms s = 0 then Some (Flow_Go, s)
      else
        let s1 = (on_result (\<lambda>r. r\<lparr>xr_pcm_transient_timeout_recovery_count :=
                     xr_pcm_transient_timeout_recovery_count r + 1\<rparr>) s)
              \<lparr>ps_timeout_streak_ms := 0, ps_pending := [], ps_pending_frames := 0\<rparr>;
            ((ok, error), s2) = ask (sc_ResetPacing (pe_source env)) s1;
            s3 = s2\<lparr>ps_error := error\<rparr>
        in if \<not> ok then Some (Flow_Return, backend_failure error SilenceStage_WritePcm s3)
           else do {
             (restarted, s4) \<leftarrow> restart_output env options s3;
             Some (if restarted then Flow_Go else Flow_Return, s4)
           })"

definition note_timeout :: "V1TransportPcmOptions \<Rightarrow> ('h, 'w) pcm_session \<Rightarrow> ('h, 'w) pcm_session" where
  "note_timeout options s =
     (let streak = ps_timeout_streak_ms s + ucast (xo_pcm_read_timeout_ms options)
      in (on_result
            (\<lambda>r. r\<lparr>xr_pcm_transient_timeout_count := xr_pcm_transient_timeout_count r + 1,
                   xr_pcm_transient_timeout_max_streak_ms :=
                     max (xr_pcm_transient_timeout_max_streak_ms r) streak\<rparr>) s)
         \<lparr>ps_timeout_streak_ms := streak\<rparr>)"

definition read_block ::
  "('h, 'w) pcm_environment \<Rightarrow> V1TransportPcmOptions \<Rightarrow> int \<Rightarrow> ('h, 'w) pcm_session \<Rightarrow>
   ('h, 'w) turn option" where
  "read_block env options session_start s =
     (if ps_use_preflight_block s then Some (Flow_Go, s)
      else
        let forced_rebind = ps_force_rebind s;
            (disposition, frames_read, s1) =
              (if forced_rebind then (PcmRead_StreamStopped, 0, s)
               else
                 let ((disposition, samples, frames_read, error), s1) =
                       ask (sc_ReadFrames (pe_source env) LDAC_ENCODER_PCM_FRAMES_PER_CALL
                         (xo_pcm_read_timeout_ms options)) s
                 in (disposition, frames_read,
                     s1\<lparr>ps_pcm := filled (ps_pcm s1) samples, ps_error := error\<rparr>));
            s2 = s1\<lparr>ps_force_rebind := False\<rparr>;
            s3 = (if disposition = PcmRead_Timeout then note_timeout options s2 else s2)
        in if disposition = PcmRead_Timeout \<and> xo_pcm_timeout_tolerance_ms options \<noteq> 0 \<and>
              ps_timeout_streak_ms s3 \<le> ucast (xo_pcm_timeout_tolerance_ms options)
           then Some (Flow_Again, s3)
           else
             let s4 = (if disposition = PcmRead_Timeout
                       then on_result (\<lambda>r. r\<lparr>xr_pcm_transient_timeout_exhausted_count :=
                              xr_pcm_transient_timeout_exhausted_count r + 1\<rparr>) s3
                       else s3)
             in if disposition \<noteq> PcmRead_Data \<or> frames_read \<noteq> LDAC_ENCODER_PCM_FRAMES_PER_CALL
                then lost_block env options session_start forced_rebind disposition s4
                else go_on (recover_timeouts env options s4)
                       (\<lambda>s. Some (Flow_Go,
                          on_result (\<lambda>r. r\<lparr>xr_pcm_frames_read :=
                                            xr_pcm_frames_read r + of_nat frames_read\<rparr>) s)))"

section \<open>Sending a block\<close>

text \<open>The check of the volume, before the block is processed and again before it is written.\<close>

definition check_volume ::
  "('h, 'w) pcm_environment \<Rightarrow> V1TransportPcmOptions \<Rightarrow> ('h, 'w) pcm_session \<Rightarrow> ('h, 'w) turn" where
  "check_volume env options s =
     (if \<not> xo_require_stable_volume options then (Flow_Go, s)
      else
        let (volume, s1) = CheckStableVolume env (xo_allow_dynamic_volume options) s
        in case volume of
             Volume_Stable \<Rightarrow> (Flow_Go, s1)
           | Volume_StreamEpochChanged \<Rightarrow>
               if xo_allow_post_start_pcm_rebind options then (Flow_Again, s1\<lparr>ps_force_rebind := True\<rparr>)
               else leave_gracefully s1
           | Volume_QueryFailure \<Rightarrow>
               leave_gracefully (on_base (\<lambda>r. r\<lparr>sr_backend_error := ps_error s1\<rparr>) s1)
           | _ \<Rightarrow>
               leave_gracefully
                 (on_base (\<lambda>r. r\<lparr>sr_protocol_error := LDAC_ENCODER_INVALID_OUTPUT\<rparr>) s1))"

text \<open>The fade over the frames sent: the block joins the pending ones.\<close>

definition fade_block ::
  "('h, 'w) pcm_environment \<Rightarrow> V1TransportPcmOptions \<Rightarrow> ('h, 'w) pcm_session \<Rightarrow>
   (ieee list \<times> V1SentFrameFadeBlock \<times> V1SentFrameFadeTelemetry) option \<times> ('h, 'w) pcm_session" where
  "fade_block env options s =
     (if length (ps_pending s) \<ge> kMaximumPendingFadeBlocks then (None, s)
      else
        let peak = (\<lambda>r. r\<lparr>xr_maximum_pre_gain_peak :=
                foldl (\<lambda>peak sample. fl_max peak (fl_abs (SanitizeSample sample)))
                  (xr_maximum_pre_gain_peak r) (ps_pcm s)\<rparr>);
            prepare_state = (ps_fade s)
              \<lparr>fs_committed_sent_frames := fs_committed_sent_frames (ps_fade s) + ps_pending_frames s\<rparr>
        in (PrepareV1SentFrameFadeBlock (ps_pcm s) (pe_pcm_address env) (pe_faded_pcm_address env)
              LDAC_ENCODER_PCM_FRAMES_PER_CALL (xf_sample_rate_hz (xr_pcm_format (ps_result s)))
              (xo_fade_in_ms options) prepare_state,
            on_result peak s))"

text \<open>The fade after a resume, if it is active.\<close>

definition resume_fade ::
  "ieee list \<Rightarrow> ('h, 'w) pcm_session \<Rightarrow> ieee list \<times> ('h, 'w) pcm_session" where
  "resume_fade pcm s =
     (if \<not> ps_resume_fade_active s then (pcm, s)
      else
        let target = ps_resume_fade_target s; processed = ps_resume_fade_processed s;
            faded_frames = min 128 (target - processed);
            processed1 = processed + faded_frames
        in (resume_faded processed target faded_frames pcm,
            (on_result (\<lambda>r. r\<lparr>xr_boundary_resume_fade_frames :=
                              xr_boundary_resume_fade_frames r + faded_frames\<rparr>) s)
            \<lparr>ps_resume_fade_processed := processed1,
             ps_resume_fade_active := (processed1 < target)\<rparr>))"

text \<open>
  The gain, the limiter and the ceiling on a block; true with the samples for the encoder.  Without the
  fidelity mode the block is processed in place.
\<close>

definition apply_policy ::
  "V1TransportPcmOptions \<Rightarrow> ieee \<Rightarrow> bool \<Rightarrow> ieee list \<Rightarrow> ('h, 'w) pcm_session \<Rightarrow>
   (bool \<times> ieee list \<times> ('h, 'w) pcm_session) option" where
  "apply_policy options ceiling' record_pre_gain_peak pcm s =
     do {
       (ok, out, limiter, r) \<leftarrow>
         ApplyOutputPolicy options (xf_sample_rate_hz (xr_pcm_format (ps_result s))) ceiling'
           record_pre_gain_peak pcm (ps_limiter s) (ps_result s);
       let s1 = s\<lparr>ps_limiter := limiter, ps_result := r\<rparr>;
       Some (ok, out,
         if ok then s1 else protocol_failure LDAC_ENCODER_INVALID_OUTPUT SilenceStage_WritePcm s1)
     }"

definition output_block ::
  "('h, 'w) pcm_environment \<Rightarrow> V1TransportPcmOptions \<Rightarrow> ('h, 'w) pcm_session \<Rightarrow>
   (bool \<times> ieee list \<times> ('h, 'w) pcm_session) option" where
  "output_block env options s =
     (if fidelity_mode options
      then
        case fade_block env options s of
          (None, s1) \<Rightarrow>
            Some (False, [], protocol_failure LDAC_ENCODER_INVALID_OUTPUT SilenceStage_WritePcm s1)
        | (Some (faded, block, telemetry), s1) \<Rightarrow>
            let pending_frames = ps_pending_frames s1 + 128;
                (pcm, s2) = resume_fade faded
                  (on_result (\<lambda>r. r\<lparr>xr_fade_blocks_prepared := xr_fade_blocks_prepared r + 1\<rparr>) s1);
                current_ceiling =
                  CeilingForSentFrame options (xf_sample_rate_hz (xr_pcm_format (ps_result s2)))
                    (fs_committed_sent_frames (ps_fade s2) + pending_frames - 128)
            in apply_policy options current_ceiling False pcm
                 (s2\<lparr>ps_pending := ps_pending s2 @ [(block, telemetry, current_ceiling)],
                     ps_pending_frames := pending_frames\<rparr>)
      else
        let (pcm, s1) = resume_fade (ps_pcm s) s;
            current_ceiling =
              CeilingForSentFrame options (xf_sample_rate_hz (xr_pcm_format (ps_result s1)))
                (xr_pcm_frames_sent (ps_result s1))
        in do {
             (ok, out, s2) \<leftarrow> apply_policy options current_ceiling True pcm s1;
             Some (ok, out, if ps_resume_fade_active s then s2 else s2\<lparr>ps_pcm := out\<rparr>)
           })"

text \<open>The fade state with the pending blocks committed, if all of them can be.\<close>

fun commit_blocks ::
  "(V1SentFrameFadeBlock \<times> V1SentFrameFadeTelemetry \<times> ieee) list \<Rightarrow> V1SentFrameFadeState \<Rightarrow>
   V1SentFrameFadeState option" where
  "commit_blocks [] state = Some state"
| "commit_blocks ((block, telemetry, ceiling') # pending) state =
     (let (state1, ok) = CommitV1SentFrameFadeBlock state block (ucast (fb_frame_count block))
      in if ok then commit_blocks pending state1 else None)"

definition commit_failure :: "('h, 'w) pcm_session \<Rightarrow> ('h, 'w) turn" where
  "commit_failure s =
     (Flow_Return,
      protocol_failure LDAC_ENCODER_INVALID_OUTPUT SilenceStage_WritePcm
        (on_result (\<lambda>r. r\<lparr>xr_fade_commit_failures := xr_fade_commit_failures r + 1\<rparr>) s))"

text \<open>The accounts of the blocks a packet has sent.\<close>

fun fade_accounts ::
  "(V1SentFrameFadeBlock \<times> V1SentFrameFadeTelemetry \<times> ieee) list \<Rightarrow> V1TransportPcmResult \<Rightarrow>
   V1TransportPcmResult" where
  "fade_accounts [] r = r"
| "fade_accounts ((block, telemetry, ceiling') # pending) r =
     fade_accounts pending
       (r\<lparr>xr_fade_blocks_committed := xr_fade_blocks_committed r + 1,
          xr_fade_duration_frames := ft_fade_duration_frames telemetry,
          xr_fade_frames_below_unity :=
            xr_fade_frames_below_unity r + ft_frames_below_unity telemetry,
          xr_fade_sanitized_sample_count :=
            xr_fade_sanitized_sample_count r + ft_sanitized_sample_count telemetry,
          xr_fade_minimum_gain := fl_min (xr_fade_minimum_gain r) (ft_minimum_gain telemetry),
          xr_fade_last_gain := ft_last_gain telemetry\<rparr>)"

definition fade_sent ::
  "V1TransportPcmOptions \<Rightarrow> V1SentFrameFadeState \<Rightarrow> ('h, 'w) pcm_session \<Rightarrow> ('h, 'w) pcm_session" where
  "fade_sent options committed s =
     (if \<not> fidelity_mode options then s
      else
        (on_result
          (\<lambda>r. (fade_accounts (ps_pending s) r)
             \<lparr>xr_fade_committed_sent_frames := fs_committed_sent_frames committed,
              xr_ceiling_ramp_last := snd (snd (last (ps_pending s)))\<rparr>) s)
        \<lparr>ps_fade := committed, ps_pending := [], ps_pending_frames := 0\<rparr>)"

text \<open>The delivery of a packet.\<close>

definition write_block ::
  "('h, 'w) pcm_environment \<Rightarrow> V1TransportPcmOptions \<Rightarrow> bytes \<Rightarrow> u32 \<Rightarrow> V1SentFrameFadeState \<Rightarrow>
   ('h, 'w) pcm_session \<Rightarrow> ('h, 'w) turn" where
  "write_block env options packet packet_samples committed s =
     (let ((written, error), s1) =
            WriteMediaWithTransientNotReadyRetry env packet (xo_media_timeout_ms options) False s;
          s2 = s1\<lparr>ps_error := error\<rparr>
      in if \<not> written
         then
           let (cancelled, s3) = StopIsCancel env (on_base (\<lambda>r. r\<lparr>sr_backend_error := error\<rparr>) s2)
           in (Flow_Return,
               on_result
                 (PcmSetFailure
                   (if cancelled then Configuration_Cancelled else Configuration_BackendFailure)
                   SilenceStage_WritePcm) s3)
         else
           (Flow_Again,
            on_result (\<lambda>r. r\<lparr>xr_pcm_frames_sent := xr_pcm_frames_sent r + ucast packet_samples\<rparr>)
              (packet_sent packet packet_samples (fade_sent options committed s2))))"

definition deliver_block ::
  "('h, 'w) pcm_environment \<Rightarrow> V1TransportPcmOptions \<Rightarrow> bytes \<Rightarrow> u32 \<Rightarrow> V1SentFrameFadeState \<Rightarrow>
   ('h, 'w) pcm_session \<Rightarrow> ('h, 'w) turn" where
  "deliver_block env options packet packet_samples committed s =
     (let ((waited, error), s1) =
            ask (sc_WaitUntilSample (pe_source env) (ps_transport_frames_sent s)
              (xf_sample_rate_hz (xr_pcm_format (ps_result s)))) s;
          s2 = s1\<lparr>ps_error := error\<rparr>
      in if \<not> waited
         then
           let (stop, s3) = ProbeStop env s2
           in if stop = Stop_Graceful then leave_gracefully s3
              else (Flow_Return,
                    on_result (PcmSetFailure (cancelled_or_failed stop) SilenceStage_WritePcm)
                      (on_base (\<lambda>r. r\<lparr>sr_backend_error := error\<rparr>) s3))
         else
           let (stop, s3) =
                 ProbeStop env (on_result (\<lambda>r. r\<lparr>xr_pacing_waits := xr_pacing_waits r + 1\<rparr>) s2)
           in if stop = Stop_Cancel
              then (Flow_Return,
                    on_result (PcmSetFailure Configuration_Cancelled SilenceStage_WritePcm) s3)
              else if stop = Stop_Graceful then leave_gracefully s3
              else
                let (verdict, s4) = check_volume env options s3
                in if verdict = Flow_Go
                   then write_block env options packet packet_samples committed s4
                   else (verdict, s4))"

definition send_block ::
  "('h, 'w) pcm_environment \<Rightarrow> V1TransportPcmOptions \<Rightarrow> u32 \<Rightarrow> ieee list \<Rightarrow> ('h, 'w) pcm_session \<Rightarrow>
   ('h, 'w) turn" where
  "send_block env options samples pcm s =
     (let ((status, encoded, frame_count), s1) = encode env pcm s
      in if status \<noteq> LDAC_ENCODER_OK
         then (Flow_Return, protocol_failure status SilenceStage_WritePcm s1)
         else if encoded = [] then (Flow_Again, s1)
         else
           let (built, packet) =
                 ldac_rtp_build_unfragmented 4096
                   (unat (sr_outgoing_mtu (xr_base (ps_result s1)))) (ps_sequence s1)
                   (ps_timestamp s1) kPcmSsrc frame_count encoded
           in if built \<noteq> LDAC_RTP_OK
              then (Flow_Return,
                    protocol_failure AVDTP_SOURCE_ERROR_BAD_PACKET SilenceStage_WritePcm s1)
              else if packets_exhausted options s1
              then (Flow_Return,
                    protocol_failure LDAC_ENCODER_INVALID_OUTPUT SilenceStage_WritePcm s1)
              else
                let packet_samples = ucast frame_count * samples
                in if \<not> fidelity_mode options
                   then deliver_block env options packet packet_samples (ps_fade s1) s1
                   else if ucast packet_samples \<noteq> ps_pending_frames s1 then commit_failure s1
                   else
                     case commit_blocks (ps_pending s1) (ps_fade s1) of
                       None \<Rightarrow> commit_failure s1
                     | Some committed \<Rightarrow> deliver_block env options packet packet_samples committed s1)"

section \<open>The media loop\<close>

definition control_turn ::
  "('h, 'w) pcm_environment \<Rightarrow> V1TransportPcmOptions \<Rightarrow> ('h, 'w) pcm_session \<Rightarrow> ('h, 'w) turn" where
  "control_turn env options s =
     (let (peer_control, s1) = ObservePeerStreamControl env options s
      in if peer_control \<noteq> Peer_Continue then (Flow_Return, s1)
         else
           let (stop, s2) = ProbeStop env s1
           in if stop = Stop_Cancel
              then (Flow_Return,
                    on_result (PcmSetFailure Configuration_Cancelled SilenceStage_WritePcm) s2)
              else if stop = Stop_Graceful then leave_gracefully s2 else (Flow_Go, s2))"

definition media_turn ::
  "('h, 'w) pcm_environment \<Rightarrow> V1TransportPcmOptions \<Rightarrow> int \<Rightarrow> u32 \<Rightarrow> ('h, 'w) pcm_session \<Rightarrow>
   ('h, 'w) turn option" where
  "media_turn env options session_start samples s =
     go_on (Some (control_turn env options s)) (\<lambda>s.
     go_on (read_block env options session_start s) (\<lambda>s.
     go_on (Some (check_volume env options (s\<lparr>ps_use_preflight_block := False\<rparr>))) (\<lambda>s.
       do {
         (ok, pcm, s1) \<leftarrow> output_block env options s;
         Some (if ok then send_block env options samples pcm s1 else (Flow_Return, s1))
       })))"

text \<open>The loop; true if the stream is to be ended in order, false if the function returns.\<close>

partial_function (option) media_loop ::
  "('h, 'w) pcm_environment \<Rightarrow> V1TransportPcmOptions \<Rightarrow> int \<Rightarrow> u32 \<Rightarrow> u64 \<Rightarrow> ('h, 'w) pcm_session \<Rightarrow>
   (bool \<times> ('h, 'w) pcm_session) option" where
  "media_loop env options session_start samples target_samples s =
     (if \<not> xr_pcm_frames_sent (ps_result s) < target_samples then Some (True, s)
      else do {
        (verdict, s1) \<leftarrow> media_turn env options session_start samples s;
        if verdict = Flow_Return then Some (False, s1)
        else if verdict = Flow_Leave then Some (True, s1)
        else media_loop env options session_start samples target_samples s1
      })"

section \<open>The session\<close>

text \<open>The end of the stream after the loop: the suspension, unless it is paused, and the close.\<close>

definition close_pcm_stream ::
  "('h, 'w) pcm_environment \<Rightarrow> V1TransportPcmOptions \<Rightarrow> ('h, 'w) pcm_session \<Rightarrow> ('h, 'w) pcm_session" where
  "close_pcm_stream env options s =
     (let (suspended, s1) =
            (if ps_suspended_for_pause s then (True, s)
             else
               let (ok, s1) =
                     pcm_command env options avdtp_source_suspend SilenceStage_Suspend True
                       AVDTP_ACTION_STREAM_SUSPENDED (\<lambda>r. r) s
               in (ok, if ok then on_base suspend_accepted s1 else s1))
      in if \<not> suspended then s1
         else
           let (closed, s2) =
                 pcm_command env options avdtp_source_close SilenceStage_Close True
                   AVDTP_ACTION_SESSION_CLOSED (\<lambda>r. r) s1
           in if \<not> closed then s2
              else
                let disposition = (if xr_completed_full_duration (ps_result s2)
                      then Configuration_Succeeded else Configuration_Cancelled)
                in on_base (\<lambda>r. r\<lparr>sr_avdtp_close_accepted := True,
                                  sr_primary_disposition := disposition,
                                  sr_disposition := disposition\<rparr>) s2)"

definition end_stream ::
  "('h, 'w) pcm_environment \<Rightarrow> V1TransportPcmOptions \<Rightarrow> ('h, 'w) pcm_session \<Rightarrow> ('h, 'w) pcm_session" where
  "end_stream env options s =
     (let s1 = (if fidelity_mode options \<and> ps_graceful_stop s
                then s\<lparr>ps_pending := [], ps_pending_frames := 0\<rparr> else s)
      in if fidelity_mode options \<and>
            (xr_fade_committed_sent_frames (ps_result s1) \<noteq> xr_pcm_frames_sent (ps_result s1) \<or>
             ps_pending s1 \<noteq> [] \<or> ps_pending_frames s1 \<noteq> 0)
         then snd (commit_failure s1)
         else
           let s2 = on_result (\<lambda>r. (UpdateDurationTelemetry r)
                 \<lparr>xr_ended_by_graceful_stop := ps_graceful_stop s1\<rparr>) s1;
               (peer_control, s3) = ObservePeerStreamControl env options s2
           in if peer_control \<noteq> Peer_Continue then s3
              else
                let (cancelled, s4) = cancel_peer_read env options SilenceStage_Suspend s3
                in if \<not> cancelled then s4
                   else
                     let (stop, s5) = StopIsCancel env s4
                     in if stop
                        then on_result (PcmSetFailure Configuration_Cancelled SilenceStage_Suspend) s5
                        else close_pcm_stream env options s5)"

text \<open>The media of a started stream.\<close>

definition target_samples_of :: "V1TransportPcmOptions \<Rightarrow> ('h, 'w) pcm_session \<Rightarrow> u64" where
  "target_samples_of options s =
     (if xo_continuous_until_stop options then - 1
      else ucast (xf_sample_rate_hz (xr_pcm_format (ps_result s))) * ucast (xo_duration_ms options) div 1000)"

definition stream_media ::
  "('h, 'w) pcm_environment \<Rightarrow> V1TransportPcmOptions \<Rightarrow> int \<Rightarrow> ('h, 'w) pcm_session \<Rightarrow>
   ('h, 'w) pcm_session option" where
  "stream_media env options session_start s =
     (let samples = samples_per_frame s; target = target_samples_of options s;
          (begun, s1) =
            (if \<not> fidelity_mode options then (True, s)
             else
               let (fade, begun) =
                     BeginV1SentFrameFadeSession (ps_fade s) (xo_session_generation options)
               in (begun, s\<lparr>ps_fade := fade\<rparr>))
      in if \<not> begun
         then Some (protocol_failure LDAC_ENCODER_INVALID_OUTPUT SilenceStage_WritePcm s1)
         else do {
           (silent, s2) \<leftarrow>
             startup_silence env options
               (on_result (\<lambda>r. r\<lparr>xr_fade_session_started := fidelity_mode options\<rparr>) s1);
           if \<not> silent then Some s2
           else do {
             (ended, s3) \<leftarrow> media_loop env options session_start samples target s2;
             Some (if ended then end_stream env options s3 else s3)
           }
         })"

text \<open>The notification that media have started.\<close>

definition notify_started ::
  "('h, 'w) pcm_environment \<Rightarrow> ('h, 'w) pcm_session \<Rightarrow> bool \<times> ('h, 'w) pcm_session" where
  "notify_started env s =
     (case pe_started_notifier env of
        None \<Rightarrow> (True, on_result (\<lambda>r. r\<lparr>xr_media_started_notified := True\<rparr>) s)
      | Some notifier \<Rightarrow>
          let ((ok, error), s1) = ask notifier s; s2 = s1\<lparr>ps_error := error\<rparr>
          in if ok then (True, on_result (\<lambda>r. r\<lparr>xr_media_started_notified := True\<rparr>) s2)
             else (False, backend_failure error SilenceStage_Start s2))"

definition start_stream ::
  "('h, 'w) pcm_environment \<Rightarrow> V1TransportPcmOptions \<Rightarrow> int \<Rightarrow> ('h, 'w) pcm_session \<Rightarrow>
   ('h, 'w) pcm_session option" where
  "start_stream env options session_start s =
     (let ((status, created), s1) = create_encoder env options s
      in case created of
           None \<Rightarrow> Some (protocol_failure status SilenceStage_Start s1)
         | Some encoder \<Rightarrow>
             if status \<noteq> LDAC_ENCODER_OK then Some (protocol_failure status SilenceStage_Start s1)
             else
               let s2 = (on_result
                     (\<lambda>r. r\<lparr>xr_encoder_quality := xo_quality options,
                            xr_nominal_ldac_bitrate_kbps :=
                              of_nat (ldac_encoder_nominal_bitrate_kbps encoder)\<rparr>) s1)
                     \<lparr>ps_encoder := Some encoder\<rparr>;
                   (started, s3) =
                     pcm_command env options avdtp_source_start SilenceStage_Start False
                       AVDTP_ACTION_STREAM_READY
                       (\<lambda>r. r\<lparr>sr_remote_stream_cleanup_required := True\<rparr>) s2
               in if \<not> started then Some s3
                  else
                    let (notified, s4) =
                          notify_started env (on_base (\<lambda>r. r\<lparr>sr_avdtp_start_accepted := True\<rparr>) s3)
                    in if \<not> notified then Some s4
                       else
                         let (reading, s5) = begin_peer_read env options SilenceStage_WritePcm s4
                         in if \<not> reading then Some s5
                            else stream_media env options session_start s5)"

text \<open>The media channel of a negotiated stream.\<close>

definition open_pcm_media ::
  "('h, 'w) pcm_environment \<Rightarrow> V1TransportPcmOptions \<Rightarrow> int \<Rightarrow> ('h, 'w) pcm_session \<Rightarrow>
   ('h, 'w) pcm_session option" where
  "open_pcm_media env options session_start s =
     (let ((ok, incoming, outgoing, error), s1) =
            ask (be_OpenMedia (pe_backend env) (xo_media_timeout_ms options)
                  (xo_preferred_media_mtu options))
              (on_base (\<lambda>r. r\<lparr>sr_stage := SilenceStage_OpenMedia\<rparr>) s);
          s2 = (on_base (\<lambda>r. r\<lparr>sr_incoming_mtu := incoming, sr_outgoing_mtu := outgoing\<rparr>) s1)
            \<lparr>ps_error := error\<rparr>
      in if \<not> ok then Some (backend_failure error SilenceStage_OpenMedia s2)
         else
           let s3 = on_base (\<lambda>r. r\<lparr>sr_media_opened := True\<rparr>) s2
           in if incoming = 0 \<or> unat outgoing \<le> LDAC_RTP_OVERHEAD \<or>
                 unat outgoing - LDAC_RTP_OVERHEAD < LDAC_ENCODER_MIN_PAYLOAD_MTU
              then Some (protocol_failure AVDTP_SOURCE_ERROR_BAD_PACKET SilenceStage_OpenMedia s3)
              else
                let (source, opened) = avdtp_source_media_channel_opened (ps_avdtp s3);
                    s4 = s3\<lparr>ps_avdtp := source\<rparr>
                in if aa_kind opened \<noteq> AVDTP_ACTION_SESSION_OPEN
                   then Some (protocol_failure AVDTP_SOURCE_ERROR_BAD_PACKET SilenceStage_OpenMedia s4)
                   else start_stream env options session_start s4)"

text \<open>The negotiation loop; it ends for the reason the one of the configuration session ends.\<close>

lemma probe_avdtp [simp]:
  "ps_avdtp (snd (ask f s)) = ps_avdtp s" "ps_avdtp (snd (ProbeStop env s)) = ps_avdtp s"
  "ps_avdtp (snd (StopIsCancel env s)) = ps_avdtp s" "ps_avdtp (snd (now env s)) = ps_avdtp s"
  by (simp_all add: ask_def ProbeStop_def StopIsCancel_def now_def Let_def case_prod_beta
      split: option.splits)

lemma on_avdtp [simp]:
  "ps_avdtp (on_result f s) = ps_avdtp s" "ps_avdtp (on_base g s) = ps_avdtp s"
  "ps_avdtp (protocol_failure e st s) = ps_avdtp s" "ps_avdtp (backend_failure n st s) = ps_avdtp s"
  by (simp_all add: on_base_def on_result_def protocol_failure_def backend_failure_def)

lemma transfer_avdtp [simp]:
  "ps_avdtp (snd (transfer env options stage c deadline outbound first s)) = ps_avdtp s"
  by (simp add: transfer_def Let_def case_prod_beta)

lemma exchange_loop_avdtp [simp]:
  "ps_avdtp (snd (exchange_loop env options stage c deadline outbound first s)) = ps_avdtp s"
  by (rule exchange_loop_view) simp_all

lemma exchange_handles:
  assumes "Exchange env options action stage c s = (Some next_action, s')"
  shows "\<exists>response. avdtp_source_handle_signaling (ps_avdtp s) response = (ps_avdtp s', next_action)"
proof -
  let ?tx = "\<lambda>r. (if fst (avdtp_parse_header (aa_packet action) avdtp_header_zero) = AVDTP_OK
      then tx_header (snd (avdtp_parse_header (aa_packet action) avdtp_header_zero)) (clear_headers r)
      else clear_headers r)\<lparr>sr_stage := stage\<rparr>"
  define s1 where "s1 = snd (now env (on_base ?tx (snd (ProbeStop env s))))"
  obtain response s2 where l: "exchange_loop env options stage c
      (fst (now env (on_base ?tx (snd (ProbeStop env s)))) +
        1000000 * int (unat (xo_exchange_timeout_ms options))) (aa_packet action) True s1 =
      (Some response, s2)"
    and a: "avdtp_source_handle_signaling (ps_avdtp s2) response = (ps_avdtp s', next_action)"
    using assms
    by (auto simp: Exchange_def Let_def case_prod_beta s1_def prod_eq_iff split: if_splits option.splits)
  have "ps_avdtp s2 = ps_avdtp s"
    using exchange_loop_avdtp [of env options stage c _ "aa_packet action" True s1] l
    by (metis (no_types, lifting) on_avdtp(2) probe_avdtp(2,4) s1_def snd_conv)
  then show ?thesis using a by auto
qed

function negotiate_pcm ::
  "('h, 'w) pcm_environment \<Rightarrow> V1TransportPcmOptions \<Rightarrow> avdtp_action \<Rightarrow> ('h, 'w) pcm_session \<Rightarrow>
   avdtp_action option \<times> ('h, 'w) pcm_session" where
  "negotiate_pcm env options action s =
     (if aa_kind action \<noteq> AVDTP_ACTION_SEND_SIGNALING then (Some action, s)
      else
        let (status, header) = avdtp_parse_header (aa_packet action) avdtp_header_zero
        in if status \<noteq> AVDTP_OK
           then (None,
                 on_result (PcmSetFailure Configuration_ProtocolFailure SilenceStage_Negotiate) s)
           else
             case Exchange env options action SilenceStage_Negotiate False s of
               (None, s1) \<Rightarrow> (None, s1)
             | (Some next_action, s1) \<Rightarrow>
                 negotiate_pcm env options next_action
                   (on_base (note_negotiated (ah_signal_id header)) s1))"
  by pat_completeness auto

termination
  by (relation "measure (\<lambda>(env, options, action, s). loop_measure (ps_avdtp s) action)")
    (auto dest!: exchange_handles [OF sym] intro: loop_measure_decreases)

declare negotiate_pcm.simps [simp del]

text \<open>The part after the open of the signalling channel.\<close>

definition pcm_body ::
  "('h, 'w) pcm_environment \<Rightarrow> V1TransportPcmOptions \<Rightarrow> int \<Rightarrow> ('h, 'w) pcm_session \<Rightarrow>
   ('h, 'w) pcm_session option" where
  "pcm_body env options session_start s =
     (let mode = ChannelModeCapability (xo_channel_mode options);
          rate = xf_sample_rate_hz (xr_pcm_format (ps_result s));
          (source, action) = avdtp_source_begin
            (avdtp_source_init \<lparr>lc_sample_rates = LDAC_SF_ALL, lc_channel_modes = mode\<rparr> 1 rate);
          (negotiated_action, s1) = negotiate_pcm env options action (s\<lparr>ps_avdtp := source\<rparr>)
      in case negotiated_action of
           None \<Rightarrow> Some s1
         | Some a \<Rightarrow>
             if aa_kind a \<noteq> AVDTP_ACTION_OPEN_MEDIA_CHANNEL
             then Some (on_result
                    (PcmSetFailure Configuration_ProtocolFailure SilenceStage_Negotiate) s1)
             else
               let configuration = as_configuration (ps_avdtp s1);
                   s2 = on_base (\<lambda>r. r\<lparr>sr_remote_seid := as_remote_seid (ps_avdtp s1),
                                     sr_configuration := configuration\<rparr>) s1
               in if ldac_sample_rate_to_hz (lf_sample_rate configuration) \<noteq>
                       xf_sample_rate_hz (xr_pcm_format (ps_result s2)) \<or>
                     lf_channel_mode configuration \<noteq> mode
                  then Some (protocol_failure LDAC_ENCODER_CONFIGURATION_FAILED
                         SilenceStage_Negotiate s2)
                  else open_pcm_media env options session_start s2)"

text \<open>The volume of the source before the open, and the open.\<close>

definition lock_volume ::
  "V1TransportPcmOptions \<Rightarrow> ('h, 'w) pcm_session \<Rightarrow> bool \<times> ('h, 'w) pcm_session" where
  "lock_volume options s =
     (let locked = ps_locked_format s
      in if \<not> xo_require_stable_volume options then (True, s)
         else if \<not> xf_volume_control_available locked \<or> xf_muted locked \<or>
                 \<not> isfinite (xf_volume_scalar locked) \<or> \<not> isfinite (xf_volume_db locked)
         then (False, protocol_failure LDAC_ENCODER_INVALID_OUTPUT SilenceStage_PreparePcm s)
         else (True, on_result
                (\<lambda>r. r\<lparr>xr_volume_scalar_minimum := xf_volume_scalar locked,
                       xr_volume_scalar_maximum := xf_volume_scalar locked,
                       xr_volume_scalar_last := xf_volume_scalar locked,
                       xr_volume_db_minimum := xf_volume_db locked,
                       xr_volume_db_maximum := xf_volume_db locked,
                       xr_volume_db_last := xf_volume_db locked, xr_volume_stable := True\<rparr>) s))"

definition open_signaling ::
  "('h, 'w) pcm_environment \<Rightarrow> V1TransportPcmOptions \<Rightarrow> ('h, 'w) pcm_session \<Rightarrow>
   bool \<times> ('h, 'w) pcm_session" where
  "open_signaling env options s =
     (let (stop, s1) = ProbeStop env s
      in if stop \<noteq> Stop_None
         then (False,
               on_result (PcmSetFailure Configuration_Cancelled SilenceStage_OpenSignaling) s1)
         else
           let ((ok, error), s2) =
                 ask (be_OpenSignaling (pe_backend env) (xo_open_timeout_ms options))
                   (on_base (\<lambda>r. r\<lparr>sr_stage := SilenceStage_OpenSignaling, sr_open_attempts := 1\<rparr>) s1);
               diagnostics = be_GetLastOpenDiagnostics (pe_backend env) (ps_world s2);
               s3 = on_base (\<lambda>r. r\<lparr>sr_open_diagnostics := diagnostics\<rparr>) (s2\<lparr>ps_error := error\<rparr>)
           in if \<not> ok
              then
                let (stop1, s4) = ProbeStop env (on_base (\<lambda>r. r\<lparr>sr_backend_error := error\<rparr>) s3)
                in (False,
                    on_result
                      (PcmSetFailure (cancelled_or_failed stop1) SilenceStage_OpenSignaling) s4)
              else (True, on_base (\<lambda>r. r\<lparr>sr_signaling_opened := True\<rparr>) s3))"

definition pcm_session_body ::
  "('h, 'w) pcm_environment \<Rightarrow> V1TransportPcmOptions \<Rightarrow> int \<Rightarrow> ('h, 'w) pcm_session \<Rightarrow>
   ('h, 'w) pcm_session option" where
  "pcm_session_body env options session_start s =
     do {
       (audible, s1) \<leftarrow> PrepareAudiblePcm env options session_start s;
       if \<not> audible then Some s1
       else
         let format = xr_pcm_format (ps_result s1);
             (locked, s2) = lock_volume options
               (s1\<lparr>ps_locked_format := format, ps_observed_format := format\<rparr>)
         in if \<not> locked then Some s2
            else
              let (opened, s3) = open_signaling env options s2
              in if \<not> opened then Some s3 else pcm_body env options session_start s3
     }"

section \<open>The whole session\<close>

definition valid_timeout :: "u32 \<Rightarrow> u32 \<Rightarrow> bool" where
  "valid_timeout limit timeout_ms \<longleftrightarrow> timeout_ms \<noteq> 0 \<and> timeout_ms \<le> limit"

definition positive_up_to :: "ieee \<Rightarrow> ieee \<Rightarrow> bool" where
  "positive_up_to limit value' \<longleftrightarrow>
     isfinite value' \<and> \<not> fl_le value' (Fin 0) \<and> \<not> fl_less limit value'"

definition fidelity_options_valid :: "V1TransportPcmOptions \<Rightarrow> bool" where
  "fidelity_options_valid options \<longleftrightarrow>
     (fl_le (fl_abs (fl_sub Single (xo_maximum_output_peak options) kLegacyFidelitySamplePeakCeiling))
        kMillionth \<or>
      fl_le (fl_abs (fl_sub Single (xo_maximum_output_peak options) kTransparentSamplePeakCeiling))
        kMillionth) \<and>
     xo_session_generation options \<noteq> 0 \<and>
     xo_require_stable_volume options \<noteq> xo_single_gain_mode options \<and>
     \<not> (xo_allow_post_start_pcm_rebind options \<and>
        xo_post_start_stop_classification_timeout_ms options = 0) \<and>
     positive_up_to kV1SentFrameFadeMaximumDurationMs (xo_fade_in_ms options) \<and>
     positive_up_to (xo_maximum_output_peak options) (xo_ceiling_ramp_start options) \<and>
     isfinite (xo_ceiling_ramp_ms options) \<and> \<not> fl_less (xo_ceiling_ramp_ms options) (Fin 0) \<and>
     \<not> fl_less (Fin 5000) (xo_ceiling_ramp_ms options) \<and>
     \<not> (fl_equal (xo_ceiling_ramp_ms options) (Fin 0) \<and>
        fl_less kMillionth (fl_abs (fl_sub Single (xo_ceiling_ramp_start options)
          (xo_maximum_output_peak options)))) \<and>
     \<not> (fl_less (Fin 0) (xo_ceiling_ramp_ms options) \<and>
        fl_less kHardMaximumOutputPeak (xo_ceiling_ramp_start options))"

definition plain_options_valid :: "V1TransportPcmOptions \<Rightarrow> bool" where
  "plain_options_valid options \<longleftrightarrow>
     fl_equal (xo_startup_silence_ms options) (Fin 0) \<and> fl_equal (xo_fade_in_ms options) (Fin 0) \<and>
     fl_equal (xo_ceiling_ramp_ms options) (Fin 0) \<and> \<not> xo_single_gain_mode options \<and>
     \<not> xo_require_stable_volume options \<and> \<not> xo_allow_dynamic_volume options \<and>
     \<not> xo_allow_post_start_pcm_rebind options"

definition profile_valid :: "V1TransportPcmOptions \<Rightarrow> bool \<Rightarrow> bool" where
  "profile_valid options has_probe \<longleftrightarrow>
     (if xo_continuous_until_stop options
      then xo_duration_ms options = 0 \<and> xo_maximum_packets options = 0 \<and> has_probe
      else xo_duration_ms options \<noteq> 0 \<and> xo_duration_ms options \<le> 60000 \<and>
           xo_maximum_packets options \<noteq> 0 \<and> xo_maximum_packets options \<le> 32768)"

definition pcm_options_valid :: "V1TransportPcmOptions \<Rightarrow> bool \<Rightarrow> bool" where
  "pcm_options_valid options has_probe \<longleftrightarrow>
     valid_timeout kMaximumTimeoutMs (xo_open_timeout_ms options) \<and>
     valid_timeout kMaximumTimeoutMs (xo_exchange_timeout_ms options) \<and>
     valid_timeout kMaximumTimeoutMs (xo_media_timeout_ms options) \<and>
     valid_timeout kMaximumTimeoutMs (xo_pcm_read_timeout_ms options) \<and>
     xo_pcm_timeout_tolerance_ms options \<le> 5000 \<and>
     xo_post_start_stop_classification_timeout_ms options \<le> kMaximumTimeoutMs \<and>
     valid_timeout 120000 (xo_audible_preflight_timeout_ms options) \<and>
     profile_valid options has_probe \<and> xo_preferred_media_mtu options \<noteq> 0 \<and>
     positive_up_to kHardMaximumGainScalar (xo_maximum_gain_scalar options) \<and>
     positive_up_to
       (if fidelity_mode options then kTransparentSamplePeakCeiling else kHardMaximumOutputPeak)
       (xo_maximum_output_peak options) \<and>
     isfinite (xo_audible_peak_threshold options) \<and>
     \<not> fl_le (xo_audible_peak_threshold options) (Fin 0) \<and>
     isfinite (xo_startup_silence_ms options) \<and>
     \<not> fl_less (xo_startup_silence_ms options) (Fin 0) \<and>
     \<not> fl_less (Fin 1000) (xo_startup_silence_ms options) \<and>
     (xo_limiter_mode options \<noteq> LimiterMode_HardClip \<longrightarrow>
        positive_up_to (Fin 1000) (xo_limiter_release_ms options)) \<and>
     (if fidelity_mode options then fidelity_options_valid options else plain_options_valid options)"

definition initial_pcm_result :: "V1TransportPcmOptions \<Rightarrow> V1TransportPcmResult" where
  "initial_pcm_result options =
     V1TransportPcmResult_default
       \<lparr>xr_target_duration_ms := xo_duration_ms options,
        xr_maximum_gain_scalar := xo_maximum_gain_scalar options,
        xr_maximum_output_peak_ceiling := xo_maximum_output_peak options,
        xr_limiter_mode := xo_limiter_mode options,
        xr_limiter_release_ms := xo_limiter_release_ms options,
        xr_session_generation := xo_session_generation options,
        xr_startup_silence_ms := xo_startup_silence_ms options,
        xr_fade_in_ms := xo_fade_in_ms options,
        xr_ceiling_ramp_start := xo_ceiling_ramp_start options,
        xr_ceiling_ramp_ms := xo_ceiling_ramp_ms options,
        xr_ceiling_ramp_last := xo_ceiling_ramp_start options\<rparr>"

definition initial_session :: "V1TransportPcmResult \<Rightarrow> 'w \<Rightarrow> ('h, 'w) pcm_session" where
  "initial_session result w =
     \<lparr>ps_result = result, ps_error = 0, ps_avdtp = avdtp_source_init ldac_capabilities_zero 0 0,
      ps_encoder = None, ps_pcm = replicate 256 (Fin 0),
      ps_locked_format = V1TransportPcmFormat_default,
      ps_observed_format = V1TransportPcmFormat_default, ps_sequence = 0, ps_timestamp = 0,
      ps_transport_frames_sent = 0, ps_use_preflight_block = True, ps_graceful_stop = False,
      ps_suspended_for_pause = False, ps_force_rebind = False, ps_resume_fade_active = False,
      ps_resume_fade_processed = 0, ps_resume_fade_target = 0, ps_timeout_streak_ms = 0,
      ps_limiter = V1LinkedStereoBlockLimiterState_default, ps_fade = V1SentFrameFadeState_default,
      ps_pending = [], ps_pending_frames = 0, ps_world = w\<rparr>"

text \<open>The encoder is destroyed after \<open>Finish\<close>, when its owner goes out of scope.\<close>

definition RunV1TransportPcmBurstOnce ::
  "('h, 'w) pcm_environment \<Rightarrow> V1TransportPcmOptions \<Rightarrow> 'w \<Rightarrow> (V1TransportPcmResult \<times> 'w) option" where
  "RunV1TransportPcmBurstOnce env options w =
     (let (session_start, s) = now env (initial_session (initial_pcm_result options) w)
      in if \<not> pcm_options_valid options (pe_stop_probe env \<noteq> None) \<or>
            ChannelModeCapability (xo_channel_mode options) = 0
         then Some (ps_result s, ps_world s)
         else do {
           s1 \<leftarrow> pcm_session_body env options session_start s;
           let s2 = PcmFinish env s1;
           let s3 = destroy_encoder env s2;
           Some (ps_result s3, ps_world s3)
         })"

end
