(* ===== verification/Pcm_Facts.thy ===== *)
theory Pcm_Facts
  imports Pcm_Streaming
begin

text \<open>
  What a PCM session does to its environment.  The environment is wrapped so that its world records the
  calls that acquire and release (the lease of the source and the signalling channel), the packets of
  media the backend has accepted and the packets of signalling.  The facts about a session are stated on
  its view: the calls so far and the variables that have to agree with them.
\<close>

section \<open>Automata over the calls\<close>

text \<open>A run of an automaton; \<^const>\<open>None\<close> if it gets stuck.\<close>

fun run :: "('q \<Rightarrow> 'e \<Rightarrow> 'q option) \<Rightarrow> 'q \<Rightarrow> 'e list \<Rightarrow> 'q option" where
  "run step q [] = Some q"
| "run step q (e # es) = (case step q e of None \<Rightarrow> None | Some q' \<Rightarrow> run step q' es)"

lemma run_append:
  "run step q (es @ fs) = (case run step q es of None \<Rightarrow> None | Some q' \<Rightarrow> run step q' fs)"
  by (induction es arbitrary: q) (auto split: option.splits)

section \<open>The recording environment\<close>

datatype pcm_event =
  Ev_Prepare bool | Ev_Release bool | Ev_Open bool | Ev_Close | Ev_Media bytes | Ev_Signal bytes

text \<open>
  The lease of the source: it is acquired by a successful \<open>Prepare\<close> and returned by a successful \<open>Release\<close>;
  a \<open>Release\<close> the source refuses may be tried again, but nothing may be prepared after it.
\<close>

datatype lease_state = Lease_Free | Lease_Held | Lease_Refused

fun source_lease_step :: "lease_state \<Rightarrow> pcm_event \<Rightarrow> lease_state option" where
  "source_lease_step q (Ev_Prepare ok) = (if q \<noteq> Lease_Free then None else Some (if ok then Lease_Held else Lease_Free))"
| "source_lease_step q (Ev_Release ok) = (if q = Lease_Free then None else Some (if ok then Lease_Free else Lease_Refused))"
| "source_lease_step q e = Some q"

text \<open>The signalling channel: it is opened at most once at a time, and closed only when it is open.\<close>

fun signaling_step :: "bool \<Rightarrow> pcm_event \<Rightarrow> bool option" where
  "signaling_step q (Ev_Open ok) = (if q then None else Some ok)"
| "signaling_step q Ev_Close = (if q then Some False else None)"
| "signaling_step q e = Some q"

text \<open>
  The media packets: each has the header of the next sequence number and of the number of samples
  sent before it, at most 31 transport frames, and it fits the MTU of the channel.
\<close>

definition media_packet :: "u16 \<Rightarrow> u32 \<Rightarrow> u8 \<Rightarrow> bytes \<Rightarrow> bytes" where
  "media_packet sequence timestamp frame_count frames =
     [0x80, 96] @ write_u16_be sequence @ write_u32_be timestamp @ write_u32_be kPcmSsrc @
     [frame_count] @ frames"

fun media_step :: "u32 \<Rightarrow> u16 \<Rightarrow> u16 \<times> u32 \<Rightarrow> pcm_event \<Rightarrow> (u16 \<times> u32) option" where
  "media_step samples mtu (sequence, timestamp) (Ev_Media packet) =
     (let frame_count = packet ! 12
      in if packet = media_packet sequence timestamp frame_count (drop 13 packet) \<and>
            1 \<le> frame_count \<and> frame_count \<le> 31 \<and> length packet \<le> unat mtu
         then Some (sequence + 1, timestamp + ucast frame_count * samples) else None)"
| "media_step samples mtu q e = Some q"

definition unlogged :: "('w \<Rightarrow> 'a \<times> 'w) \<Rightarrow> 'w \<times> 'e list \<Rightarrow> 'a \<times> 'w \<times> 'e list" where
  "unlogged call = (\<lambda>(w, log). let (answer, w1) = call w in (answer, w1, log))"

definition logged :: "('a \<Rightarrow> 'e list) \<Rightarrow> ('w \<Rightarrow> 'a \<times> 'w) \<Rightarrow> 'w \<times> 'e list \<Rightarrow> 'a \<times> 'w \<times> 'e list" where
  "logged events call = (\<lambda>(w, log). let (answer, w1) = call w in (answer, w1, log @ events answer))"

definition logged_pcm_backend ::
  "'w V1TransportSilenceBackend \<Rightarrow> ('w \<times> pcm_event list) V1TransportSilenceBackend" where
  "logged_pcm_backend b =
     \<lparr>be_OpenSignaling = (\<lambda>t. logged (\<lambda>(ok, e). [Ev_Open ok]) (be_OpenSignaling b t)),
      be_GetLastOpenDiagnostics = (\<lambda>(w, log). be_GetLastOpenDiagnostics b w),
      be_ExchangeSignaling =
        (\<lambda>q n t. logged (\<lambda>_. [Ev_Signal q]) (be_ExchangeSignaling b q n t)),
      be_CloseSignaling = logged (\<lambda>_. [Ev_Close]) (be_CloseSignaling b),
      be_OpenMedia = (\<lambda>t mtu. unlogged (be_OpenMedia b t mtu)),
      be_WriteMedia =
        (\<lambda>p t. logged (\<lambda>(ok, e). if ok then [Ev_Media p] else []) (be_WriteMedia b p t)),
      be_GetLastMediaWriteDiagnostics = unlogged (be_GetLastMediaWriteDiagnostics b),
      be_BeginPeerSignalingRead = (\<lambda>t. unlogged (be_BeginPeerSignalingRead b t)),
      be_PollPeerSignalingRead = (\<lambda>n. unlogged (be_PollPeerSignalingRead b n)),
      be_SendPeerSignalingResponse = (\<lambda>p t. unlogged (be_SendPeerSignalingResponse b p t)),
      be_CancelPeerSignalingRead = unlogged (be_CancelPeerSignalingRead b)\<rparr>"

definition logged_source ::
  "'w V1TransportPcmSource \<Rightarrow> ('w \<times> pcm_event list) V1TransportPcmSource" where
  "logged_source source =
     \<lparr>sc_Prepare = (\<lambda>t. logged (\<lambda>(ok, x). [Ev_Prepare ok]) (sc_Prepare source t)),
      sc_ReadFrames = (\<lambda>n t. unlogged (sc_ReadFrames source n t)),
      sc_QueryFormat = unlogged (sc_QueryFormat source),
      sc_QuerySnapshot = unlogged (sc_QuerySnapshot source),
      sc_WaitUntilSample = (\<lambda>n rate. unlogged (sc_WaitUntilSample source n rate)),
      sc_ResetPacing = unlogged (sc_ResetPacing source),
      sc_Release = logged (\<lambda>(ok, e). [Ev_Release ok]) (sc_Release source)\<rparr>"

definition unlogged_library ::
  "('h, 'f, 'w) ldacBT \<Rightarrow> ('h, 'f, 'w \<times> 'e list) ldacBT" where
  "unlogged_library bt =
     \<lparr>bt_calloc = unlogged (bt_calloc bt), bt_get_handle = unlogged (bt_get_handle bt),
      bt_init_handle_encode = (\<lambda>h mtu q mode rate. unlogged (bt_init_handle_encode bt h mtu q mode rate)),
      bt_get_error_code = (\<lambda>h. unlogged (bt_get_error_code bt h)),
      bt_free_handle = (\<lambda>h (w, log). (bt_free_handle bt h w, log)),
      bt_set_eqmid = (\<lambda>h q. unlogged (bt_set_eqmid bt h q)),
      bt_encode = (\<lambda>h pcm. unlogged (bt_encode bt h pcm)), bt_mean = bt_mean bt\<rparr>"

definition logged_pcm ::
  "('h, 'w) pcm_environment \<Rightarrow> ('h, 'w \<times> pcm_event list) pcm_environment" where
  "logged_pcm env =
     \<lparr>pe_backend = logged_pcm_backend (pe_backend env), pe_source = logged_source (pe_source env),
      pe_stop_probe = map_option unlogged (pe_stop_probe env),
      pe_started_notifier = map_option unlogged (pe_started_notifier env),
      pe_library = unlogged_library (pe_library env), pe_now = unlogged (pe_now env),
      pe_sleep_ms = (\<lambda>n (w, log). (pe_sleep_ms env n w, log)),
      pe_pcm_address = pe_pcm_address env, pe_faded_pcm_address = pe_faded_pcm_address env\<rparr>"

section \<open>The view of a session\<close>

fun counted_event :: "pcm_event \<Rightarrow> bool" where
  "counted_event (Ev_Signal q) = False" | "counted_event _ = True"

type_synonym pcm_view = "pcm_event list \<times> bool \<times> u32 \<times> u16 \<times> bool \<times> u16 \<times> u32 \<times> nat option"

definition result_view :: "V1TransportPcmResult \<Rightarrow> bool \<times> u32 \<times> u16 \<times> bool" where
  "result_view r =
     (xr_consumer_lease_held r, xf_sample_rate_hz (xr_pcm_format r),
      sr_outgoing_mtu (xr_base r), sr_signaling_opened (xr_base r))"

definition world_log :: "'w \<times> pcm_event list \<Rightarrow> pcm_event list" where
  "world_log w = filter counted_event (snd w)"

definition view :: "('h, 'w \<times> pcm_event list) pcm_session \<Rightarrow> pcm_view" where
  "view s =
     (let (held, rate, mtu, opened) = result_view (ps_result s)
      in (world_log (ps_world s), held, rate, mtu, opened, ps_sequence s, ps_timestamp s,
          map_option en_sample_rate_hz (ps_encoder s)))"

lemma unlogged_log [simp]:
  "snd (snd (unlogged call w)) = snd w" "fst (unlogged call w) = fst (call (fst w))"
  by (simp_all add: unlogged_def case_prod_beta Let_def)

lemma logged_log [simp]:
  "snd (snd (logged events call w)) = snd w @ events (fst (call (fst w)))"
  "fst (logged events call w) = fst (call (fst w))"
  by (simp_all add: logged_def case_prod_beta Let_def)

lemma world_log_calls [simp]: "world_log (snd (unlogged call w)) = world_log w"
  by (simp add: world_log_def)

lemma pcm_logged_calls [simp]:
  "be_OpenMedia (pe_backend (logged_pcm env)) t m = unlogged (be_OpenMedia (pe_backend env) t m)"
  "be_GetLastMediaWriteDiagnostics (pe_backend (logged_pcm env)) =
     unlogged (be_GetLastMediaWriteDiagnostics (pe_backend env))"
  "be_BeginPeerSignalingRead (pe_backend (logged_pcm env)) t =
     unlogged (be_BeginPeerSignalingRead (pe_backend env) t)"
  "be_PollPeerSignalingRead (pe_backend (logged_pcm env)) n =
     unlogged (be_PollPeerSignalingRead (pe_backend env) n)"
  "be_SendPeerSignalingResponse (pe_backend (logged_pcm env)) p t =
     unlogged (be_SendPeerSignalingResponse (pe_backend env) p t)"
  "be_CancelPeerSignalingRead (pe_backend (logged_pcm env)) =
     unlogged (be_CancelPeerSignalingRead (pe_backend env))"
  "sc_ReadFrames (pe_source (logged_pcm env)) n t = unlogged (sc_ReadFrames (pe_source env) n t)"
  "sc_QueryFormat (pe_source (logged_pcm env)) = unlogged (sc_QueryFormat (pe_source env))"
  "sc_QuerySnapshot (pe_source (logged_pcm env)) = unlogged (sc_QuerySnapshot (pe_source env))"
  "sc_WaitUntilSample (pe_source (logged_pcm env)) k rate =
     unlogged (sc_WaitUntilSample (pe_source env) k rate)"
  "sc_ResetPacing (pe_source (logged_pcm env)) = unlogged (sc_ResetPacing (pe_source env))"
  "pe_now (logged_pcm env) = unlogged (pe_now env)"
  "pe_stop_probe (logged_pcm env) = map_option unlogged (pe_stop_probe env)"
  "pe_started_notifier (logged_pcm env) = map_option unlogged (pe_started_notifier env)"
  "pe_library (logged_pcm env) = unlogged_library (pe_library env)"
  by (simp_all add: logged_pcm_def logged_pcm_backend_def logged_source_def)

lemma recorded_calls [simp]:
  "be_OpenSignaling (pe_backend (logged_pcm env)) t =
     logged (\<lambda>(ok, e). [Ev_Open ok]) (be_OpenSignaling (pe_backend env) t)"
  "be_ExchangeSignaling (pe_backend (logged_pcm env)) q n t =
     logged (\<lambda>_. [Ev_Signal q]) (be_ExchangeSignaling (pe_backend env) q n t)"
  "be_CloseSignaling (pe_backend (logged_pcm env)) =
     logged (\<lambda>_. [Ev_Close]) (be_CloseSignaling (pe_backend env))"
  "be_WriteMedia (pe_backend (logged_pcm env)) p t =
     logged (\<lambda>(ok, e). if ok then [Ev_Media p] else []) (be_WriteMedia (pe_backend env) p t)"
  "sc_Prepare (pe_source (logged_pcm env)) t =
     logged (\<lambda>(ok, x). [Ev_Prepare ok]) (sc_Prepare (pe_source env) t)"
  "sc_Release (pe_source (logged_pcm env)) =
     logged (\<lambda>(ok, e). [Ev_Release ok]) (sc_Release (pe_source env))"
  by (simp_all add: logged_pcm_def logged_pcm_backend_def logged_source_def)

text \<open>What leaves the view alone: updates of the other variables and calls that are not recorded.\<close>

lemma view_updates [simp]:
  "view (s\<lparr>ps_error := e\<rparr>) = view s" "view (s\<lparr>ps_avdtp := a\<rparr>) = view s"
  "view (s\<lparr>ps_pcm := p\<rparr>) = view s" "view (s\<lparr>ps_locked_format := f\<rparr>) = view s"
  "view (s\<lparr>ps_observed_format := f\<rparr>) = view s" "view (s\<lparr>ps_transport_frames_sent := n\<rparr>) = view s"
  "view (s\<lparr>ps_use_preflight_block := b\<rparr>) = view s" "view (s\<lparr>ps_graceful_stop := b\<rparr>) = view s"
  "view (s\<lparr>ps_suspended_for_pause := b\<rparr>) = view s" "view (s\<lparr>ps_force_rebind := b\<rparr>) = view s"
  "view (s\<lparr>ps_resume_fade_active := b\<rparr>) = view s" "view (s\<lparr>ps_resume_fade_processed := n\<rparr>) = view s"
  "view (s\<lparr>ps_resume_fade_target := n\<rparr>) = view s" "view (s\<lparr>ps_timeout_streak_ms := n\<rparr>) = view s"
  "view (s\<lparr>ps_limiter := l\<rparr>) = view s" "view (s\<lparr>ps_fade := d\<rparr>) = view s"
  "view (s\<lparr>ps_pending := q\<rparr>) = view s" "view (s\<lparr>ps_pending_frames := n\<rparr>) = view s"
  by (simp_all add: view_def Let_def)

lemma view_on_result [simp]:
  "(\<And>r. result_view (f r) = result_view r) \<Longrightarrow> view (on_result f s) = view s"
  by (simp add: view_def on_result_def)

lemma view_on_base:
  "settled f \<Longrightarrow> view (on_base f s) = view s"
  by (simp add: view_def on_base_def on_result_def result_view_def settled_def)

lemma result_view_simps [simp]:
  "result_view (PcmSetFailure d st r) = result_view r"
  by (simp add: result_view_def PcmSetFailure_def)

lemma failure_fields [simp]:
  "xr_consumer_lease_held (PcmSetFailure d st r) = xr_consumer_lease_held r"
  "xr_pcm_format (PcmSetFailure d st r) = xr_pcm_format r"
  "sr_outgoing_mtu (xr_base (PcmSetFailure d st r)) = sr_outgoing_mtu (xr_base r)"
  "sr_signaling_opened (xr_base (PcmSetFailure d st r)) = sr_signaling_opened (xr_base r)"
  by (simp_all add: PcmSetFailure_def)

lemma view_ask_unlogged [simp]: "view (snd (ask (unlogged call) s)) = view s"
  by (simp add: view_def ask_def case_prod_beta Let_def)

lemma view_probe [simp]:
  "view (snd (ProbeStop (logged_pcm env) s)) = view s"
  "view (snd (StopIsCancel (logged_pcm env) s)) = view s"
  "view (snd (now (logged_pcm env) s)) = view s"
  by (simp_all add: ProbeStop_def StopIsCancel_def now_def case_prod_beta Let_def split: option.splits)

text \<open>The operations that leave the view alone.\<close>

lemma view_base [simp]:
  "(\<And>b. (sr_outgoing_mtu (f b), sr_signaling_opened (f b)) = (sr_outgoing_mtu b, sr_signaling_opened b)) \<Longrightarrow>
     view (on_base f s) = view s"
  by (rule view_on_base) (simp add: settled_def)

lemma view_failure [simp]:
  "view (protocol_failure e st s) = view s" "view (backend_failure n st s) = view s"
  by (simp_all add: protocol_failure_def backend_failure_def)

lemma view_sleep [simp]:
  "view (s\<lparr>ps_world := pe_sleep_ms (logged_pcm env) n (ps_world s)\<rparr>) = view s"
  by (simp add: view_def world_log_def logged_pcm_def case_prod_beta Let_def)

lemma view_elapsed [simp]: "view (snd (PcmElapsedMilliseconds (logged_pcm env) start s)) = view s"
  by (simp add: PcmElapsedMilliseconds_def Let_def case_prod_beta)

lemma view_remaining [simp]: "view (snd (remaining_ms (logged_pcm env) deadline s)) = view s"
  by (simp add: remaining_ms_def Let_def case_prod_beta)

lemma view_stable_volume [simp]: "view (snd (CheckStableVolume (logged_pcm env) dynamic s)) = view s"
  by (simp add: CheckStableVolume_def volume_seen_def result_view_def Let_def case_prod_beta)

lemma view_stream_stop [simp]:
  "view (RecordPcmStreamStop (logged_pcm env) e start s) = view s"
  by (simp add: RecordPcmStreamStop_def result_view_def Let_def case_prod_beta)

lemma view_transfer [simp]:
  "view (snd (transfer (logged_pcm env) options stage c deadline q first s)) = view s"
proof -
  have ask: "view (snd (ask (logged (\<lambda>_. [Ev_Signal q]) call) s)) = view s" for call s
    by (simp add: view_def ask_def world_log_def Let_def case_prod_beta)
  show ?thesis
    by (simp add: transfer_def ask Let_def case_prod_beta)
qed

lemma view_exchange_loop [simp]:
  "view (snd (exchange_loop (logged_pcm env) options stage c deadline q first s)) = view s"
  by (rule exchange_loop_view) (simp_all add: settled_def)

lemma headers_settled [simp]:
  "sr_outgoing_mtu (tx_header h r) = sr_outgoing_mtu r"
  "sr_signaling_opened (tx_header h r) = sr_signaling_opened r"
  "sr_outgoing_mtu (clear_headers r) = sr_outgoing_mtu r"
  "sr_signaling_opened (clear_headers r) = sr_signaling_opened r"
  by (simp_all add: tx_header_def clear_headers_def)

lemma view_exchange [simp]:
  "view (snd (Exchange (logged_pcm env) options action stage c s)) = view s"
  by (simp add: Exchange_def Let_def case_prod_beta split: option.splits) 

lemma view_peer_control [simp]:
  "view (snd (ObservePeerStreamControl (logged_pcm env) options s)) = view s"
  by (simp add: ObservePeerStreamControl_def accept_peer_close_def Let_def case_prod_beta
      split: V1TransportSignalingReadDisposition.splits)

lemma view_preflight_block [simp]:
  "view (snd (preflight_block options disposition n e s)) = view s"
  by (simp add: preflight_block_def result_view_def Let_def)

lemma view_pcm_command [simp]:
  assumes "settled accepted"
  shows "view (snd (pcm_command (logged_pcm env) options command stage c expected accepted s)) = view s"
  using assms view_exchange [of env options _ stage c]
  by (simp add: pcm_command_def view_on_base Let_def case_prod_beta split: option.splits prod.splits)

lemma view_peer_reads [simp]:
  "view (snd (begin_peer_read (logged_pcm env) options stage s)) = view s"
  "view (snd (cancel_peer_read (logged_pcm env) options stage s)) = view s"
  by (simp_all add: begin_peer_read_def cancel_peer_read_def Let_def case_prod_beta)

lemma gain_samples_view: "result_view (fst (gain_samples options keep pcm r)) = result_view r"
  by (induction options keep pcm r rule: gain_samples.induct)
    (simp_all add: Let_def case_prod_beta result_view_def)

lemma clip_samples_view: "result_view (fst (clip_samples c pcm r)) = result_view r"
  by (induction c pcm r rule: clip_samples.induct)
    (simp_all add: Let_def case_prod_beta result_view_def)

lemma output_policy_view:
  "ApplyOutputPolicy options rate c keep pcm limiter r = Some (ok, out, limiter', r') \<Longrightarrow>
     result_view r' = result_view r"
  using gain_samples_view [of options keep pcm r]
    clip_samples_view [of c "snd (gain_samples options keep pcm r)" "fst (gain_samples options keep pcm r)"]
  by (auto simp: ApplyOutputPolicy_def Let_def case_prod_beta limiter_accounts_def result_view_def
      bind_eq_Some_conv split: if_splits)

lemma view_result: "result_view r = result_view (ps_result s) \<Longrightarrow> view (s\<lparr>ps_result := r\<rparr>) = view s"
  by (simp add: view_def)

lemma view_apply_policy:
  "apply_policy options c keep pcm s = Some (ok, out, s') \<Longrightarrow> view s' = view s"
  by (auto simp: apply_policy_def Let_def case_prod_beta bind_eq_Some_conv view_result
      dest!: output_policy_view)

lemma view_fade_block [simp]: "view (snd (fade_block env options s)) = view s"
  by (simp add: fade_block_def result_view_def Let_def)

lemma view_resume_fade [simp]: "view (snd (resume_fade pcm s)) = view s"
  by (simp add: resume_fade_def result_view_def Let_def)

lemma view_output_block:
  assumes "output_block env options s = Some (ok, out, s')" shows "view s' = view s"
proof (cases "fidelity_mode options")
  case False
  then obtain s2 where "apply_policy options (CeilingForSentFrame options
        (xf_sample_rate_hz (xr_pcm_format (ps_result (snd (resume_fade (ps_pcm s) s)))))
        (xr_pcm_frames_sent (ps_result (snd (resume_fade (ps_pcm s) s))))) True
      (fst (resume_fade (ps_pcm s) s)) (snd (resume_fade (ps_pcm s) s)) = Some (ok, out, s2)"
    and "view s' = view s2"
    using assms
    by (auto simp: output_block_def Let_def case_prod_beta bind_eq_Some_conv split: if_splits)
  then show ?thesis by (auto dest: view_apply_policy)
next
  case True
  then show ?thesis
    using assms view_fade_block [of env options s]
    by (auto simp: output_block_def Let_def result_view_def split_def view_on_result
        split: option.splits dest!: view_apply_policy)
qed

lemma fade_accounts_view [simp]: "result_view (fade_accounts pending r) = result_view r"
  by (induction pending r rule: fade_accounts.induct) (simp_all add: result_view_def)

lemma view_fade_sent [simp]: "view (fade_sent options committed s) = view s"
  using fade_accounts_view [of "ps_pending s"]
  by (simp add: fade_sent_def result_view_def)

lemma view_commit_failure [simp]: "view (snd (commit_failure s)) = view s"
  by (simp add: commit_failure_def result_view_def)

lemma view_leave [simp]: "view (snd (leave_gracefully s)) = view s"
  by (simp add: leave_gracefully_def)

lemma view_check_volume [simp]: "view (snd (check_volume (logged_pcm env) options s)) = view s"
  by (simp add: check_volume_def Let_def case_prod_beta split: StableVolumeCheck.splits)

lemma view_control_turn [simp]: "view (snd (control_turn (logged_pcm env) options s)) = view s"
  by (simp add: control_turn_def Let_def case_prod_beta)

lemma view_note_timeout [simp]: "view (note_timeout options s) = view s"
  by (simp add: note_timeout_def result_view_def Let_def)

lemma view_rebound_volume [simp]: "view (snd (rebound_volume options format s)) = view s"
  by (simp add: rebound_volume_def volume_seen_def result_view_def Let_def)

lemma view_duration [simp]: "result_view (UpdateDurationTelemetry r) = result_view r"
  by (simp add: UpdateDurationTelemetry_def result_view_def Let_def)

lemma suspend_accepted_settled [simp]: "settled suspend_accepted"
  by (simp add: settled_def suspend_accepted_def)

lemma identity_settled [simp]: "settled (\<lambda>r. r)"
  by (simp add: settled_def)

lemma view_close_pcm_stream [simp]: "view (close_pcm_stream (logged_pcm env) options s) = view s"
  by (simp add: close_pcm_stream_def view_on_base Let_def case_prod_beta)

lemma view_end_stream [simp]: "view (end_stream (logged_pcm env) options s) = view s"
proof -
  have "result_view ((UpdateDurationTelemetry r)\<lparr>xr_ended_by_graceful_stop := b\<rparr>) = result_view r" for r b
    using view_duration [of r] by (simp add: result_view_def)
  then show ?thesis by (simp add: end_stream_def Let_def case_prod_beta)
qed

lemma view_notify [simp]: "view (snd (notify_started (logged_pcm env) s)) = view s"
  by (simp add: notify_started_def result_view_def Let_def case_prod_beta split: option.splits)

section \<open>What changes the view\<close>

definition v_log :: "pcm_event list \<Rightarrow> pcm_view \<Rightarrow> pcm_view" where
  "v_log es = (\<lambda>(log, rest). (log @ es, rest))"

definition v_held :: "bool \<Rightarrow> pcm_view \<Rightarrow> pcm_view" where
  "v_held b = (\<lambda>(log, held, rest). (log, b, rest))"

lemma view_ask_logged [simp]:
  "view (snd (ask (logged events call) s)) =
     v_log (filter counted_event (events (fst (call (fst (ps_world s)))))) (view s)"
  "fst (ask (logged events call) s) = fst (call (fst (ps_world s)))"
  by (simp_all add: view_def ask_def v_log_def world_log_def Let_def case_prod_beta)

lemma view_held [simp]:
  "view (on_result lease_acquired s) = v_held True (view s)"
  "view (on_result (\<lambda>r. lease_acquired (r\<lparr>xr_pcm_prepared := b\<rparr>)) s) = v_held True (view s)"
  "view (on_result (\<lambda>r. lease_acquired (r\<lparr>xr_pcm_rebind_last_elapsed_ms := n\<rparr>)) s) = v_held True (view s)"
  "view (on_result (\<lambda>r. r\<lparr>xr_consumer_lease_held := h\<rparr>) s) = v_held h (view s)"
  "view (on_result (\<lambda>r. lease_returned (r\<lparr>xr_consumer_lease_held := h\<rparr>)) s) = v_held h (view s)"
  "view (on_result lease_returned s) = view s"
  by (simp_all add: view_def on_result_def result_view_def lease_acquired_def lease_returned_def
      v_held_def Let_def)

lemma library_log:
  "snd (snd (snd (snd (ldac_encoder_encode_f32 (unlogged_library bt) e pcm n c w)))) = snd w"
  "snd (snd (snd (ldac_encoder_create_with_channel_mode (unlogged_library bt) m q r mode w))) = snd w"
  "snd (ldac_encoder_destroy (unlogged_library bt) e w) = snd w"
  by (auto simp: ldac_encoder_encode_f32_def ldac_encoder_create_with_channel_mode_def
      ldac_encoder_destroy_def unlogged_library_def unlogged_def Let_def split_def
      split: if_splits prod.splits bool.splits option.splits)

lemma view_world: "snd w = snd (ps_world s) \<Longrightarrow> view (s\<lparr>ps_world := w\<rparr>) = view s"
  by (simp add: view_def world_log_def)

lemma view_encoder:
  "view (s\<lparr>ps_encoder := e\<rparr>) = (let (log, held, rate, mtu, opened, sequence, timestamp, _) = view s
     in (log, held, rate, mtu, opened, sequence, timestamp, map_option en_sample_rate_hz e))"
  by (simp add: view_def Let_def case_prod_beta)

lemma view_encode [simp]: "view (snd (encode (logged_pcm env) pcm s)) = view s"
proof (cases "ps_encoder s")
  case (Some e)
  obtain status frames e' w where c: "ldac_encoder_encode_f32 (unlogged_library (pe_library env)) e pcm
      LDAC_ENCODER_PCM_FRAMES_PER_CALL LDAC_ENCODER_MAX_OUTPUT_BYTES (ps_world s) = (status, frames, e', w)"
    by (metis prod.exhaust)
  have "en_sample_rate_hz e' = en_sample_rate_hz e"
    using encode_keeps_settings [of "unlogged_library (pe_library env)"] c
    by (metis (no_types, lifting) ldac_encoder.select_convs(5) ldac_encoder.surjective ldac_encoder.update_convs(6) prod.exhaust)
  moreover have "snd w = snd (ps_world s)" using library_log(1) c by (metis snd_conv)
  ultimately show ?thesis
    using c Some by (simp add: encode_def view_def world_log_def Let_def case_prod_beta)
qed (simp add: encode_def)

lemma view_create_encoder [simp]:
  "view (snd (create_encoder (logged_pcm env) options s)) = view s"
  by (simp add: create_encoder_def view_world library_log Let_def case_prod_beta)

lemma view_destroy_encoder [simp]: "view (destroy_encoder (logged_pcm env) s) = view s"
  by (simp add: destroy_encoder_def view_world library_log split: option.splits)

lemma created_rate:
  "fst (create_encoder env options s) = (status, Some e) \<Longrightarrow>
     en_sample_rate_hz e = unat (xf_sample_rate_hz (xr_pcm_format (ps_result s)))"
  by (auto simp: create_encoder_def ldac_encoder_create_with_channel_mode_def Let_def
      split: if_splits prod.splits bool.splits option.splits)

lemma view_write_attempts:
  "view (snd (write_attempts (logged_pcm env) packet t graceful n s)) =
     v_log (if fst (fst (write_attempts (logged_pcm env) packet t graceful n s)) then [Ev_Media packet] else [])
       (view s)"
proof (induction n arbitrary: s)
  case (Suc n)
  then show ?case
    by (subst (1 2) write_attempts.simps) (simp add: Let_def case_prod_beta result_view_def v_log_def)
next
  case 0
  show ?case
    by (subst (1 2) write_attempts.simps) (simp add: Let_def case_prod_beta result_view_def v_log_def)
qed

section \<open>The states of a session\<close>

text \<open>
  A view is sound if the channel is as open as the result says and the media packets are in sequence up
  to the variables of the session.  In a stream the rate does not change, the encoder has it, and the
  lease is held or, in a pause, free.  Before the start there are no media.  At the end the lease can be
  refused as well.
\<close>

definition frame_samples :: "u32 \<Rightarrow> u32" where
  "frame_samples rate = (if rate \<ge> 88200 then 256 else 128)"

definition sound_view :: "pcm_view \<Rightarrow> bool" where
  "sound_view = (\<lambda>(log, held, rate, mtu, opened, sequence, timestamp, _).
     run signaling_step False log = Some opened \<and>
     run (media_step (frame_samples rate) mtu) (0, 0) log = Some (sequence, timestamp))"

definition over_view :: "pcm_view \<Rightarrow> bool" where
  "over_view v \<longleftrightarrow> sound_view v \<and>
     (\<exists>q. run source_lease_step Lease_Free (fst v) = Some q \<and>
        (if fst (snd v) then q \<noteq> Lease_Free else q \<noteq> Lease_Held))"

definition stream_view :: "lease_state \<Rightarrow> u32 \<Rightarrow> pcm_view \<Rightarrow> bool" where
  "stream_view q r v \<longleftrightarrow> sound_view v \<and> run source_lease_step Lease_Free (fst v) = Some q \<and>
     fst (snd v) = (q = Lease_Held) \<and> q \<noteq> Lease_Refused \<and> fst (snd (snd v)) = r \<and>
     snd (snd (snd (snd (snd (snd (snd v)))))) = Some (unat r)"

definition pre_view :: "lease_state \<Rightarrow> bool \<Rightarrow> pcm_view \<Rightarrow> bool" where
  "pre_view q b = (\<lambda>(log, held, rate, mtu, opened, sequence, timestamp, _).
     run source_lease_step Lease_Free log = Some q \<and> held = (q = Lease_Held) \<and> q \<noteq> Lease_Refused \<and>
     run signaling_step False log = Some opened \<and> opened = b \<and> (\<forall>p. Ev_Media p \<notin> set log) \<and>
     sequence = 0 \<and> timestamp = 0)"

lemma no_media: "(\<And>p. Ev_Media p \<notin> set es) \<Longrightarrow> run (media_step samples mtu) q es = Some q"
proof (induction es)
  case (Cons e es)
  have "media_step samples mtu q e = Some q"
    by (cases q; cases e) (use Cons.prems in auto)
  then show ?case using Cons by simp
qed simp

lemma pre_over: "pre_view q b v \<Longrightarrow> over_view v"
  by (cases v) (auto simp: pre_view_def over_view_def sound_view_def no_media)

lemma stream_over: "stream_view q r v \<Longrightarrow> over_view v"
  by (auto simp: stream_view_def over_view_def)

lemma lease_views:
  "pre_view Lease_Free b v \<Longrightarrow> pre_view Lease_Held b (v_held True (v_log [Ev_Prepare True] v))"
  "pre_view Lease_Free b v \<Longrightarrow> pre_view Lease_Free b (v_log [Ev_Prepare False] v)"
  "pre_view Lease_Held b v \<Longrightarrow> pre_view Lease_Free b (v_held False (v_log [Ev_Release True] v))"
  "pre_view Lease_Held b v \<Longrightarrow> over_view (v_held False (v_log [Ev_Release False] v))"
  "stream_view Lease_Free r v \<Longrightarrow> stream_view Lease_Held r (v_held True (v_log [Ev_Prepare True] v))"
  "stream_view Lease_Free r v \<Longrightarrow> stream_view Lease_Free r (v_log [Ev_Prepare False] v)"
  "stream_view Lease_Held r v \<Longrightarrow> stream_view Lease_Free r (v_held False (v_log [Ev_Release True] v))"
  "stream_view Lease_Held r v \<Longrightarrow> over_view (v_held False (v_log [Ev_Release False] v))"
  "stream_view Lease_Held r v \<Longrightarrow> over_view (v_log [Ev_Release False] v)"
  by (cases v; auto simp: pre_view_def over_view_def stream_view_def sound_view_def v_log_def v_held_def
      run_append no_media)+

lemma over_released:
  "over_view v \<Longrightarrow> fst (snd v) \<Longrightarrow> over_view (v_held False (v_log [Ev_Release b] v))"
  by (cases v) (auto simp: over_view_def sound_view_def v_log_def v_held_def run_append)

text \<open>A packet that was written, with its accounts.\<close>

lemma built_media_packet:
  assumes "ldac_rtp_build_unfragmented n mtu sequence timestamp kPcmSsrc frame_count encoded =
      (LDAC_RTP_OK, packet)"
  shows "packet = media_packet sequence timestamp frame_count encoded \<and>
    1 \<le> frame_count \<and> frame_count \<le> 31 \<and> length packet \<le> mtu"
  using assms
  by (auto simp: ldac_rtp_build_unfragmented_def media_packet_def Let_def write_u16_be_def
      write_u32_be_def unat_arith_simps split: if_splits)

lemma media_packet_parts [simp]:
  "media_packet sequence timestamp frame_count encoded ! 12 = frame_count"
  "drop 13 (media_packet sequence timestamp frame_count encoded) = encoded"
  by (simp_all add: media_packet_def write_u16_be_def write_u32_be_def)

lemma media_step_packet:
  "1 \<le> frame_count \<Longrightarrow> frame_count \<le> 31 \<Longrightarrow>
     length (media_packet sequence timestamp frame_count encoded) \<le> unat mtu \<Longrightarrow>
     media_step samples mtu (sequence, timestamp)
       (Ev_Media (media_packet sequence timestamp frame_count encoded)) =
     Some (sequence + 1, timestamp + ucast frame_count * samples)"
  by simp

lemma view_packet_sent:
  "view (packet_sent packet samples s) =
     (let (log, held, rate, mtu, opened, sequence, timestamp, e) = view s
      in (log, held, rate, mtu, opened, sequence + 1, timestamp + samples, e))"
  by (simp add: view_def packet_sent_def on_base_def on_result_def result_view_def Let_def)

lemma stream_packet_sent:
  assumes "stream_view q r (view s)"
    and "ldac_rtp_build_unfragmented n (unat (sr_outgoing_mtu (xr_base (ps_result s)))) (ps_sequence s)
      (ps_timestamp s) kPcmSsrc frame_count encoded = (LDAC_RTP_OK, packet)"
    and "view s' = v_log [Ev_Media packet] (view s)"
  shows "stream_view q r (view (packet_sent packet (ucast frame_count * frame_samples r) s'))"
  using assms(1) built_media_packet [OF assms(2)] assms(3)
  by (cases "view s'") (simp add: stream_view_def sound_view_def view_packet_sent v_log_def
      run_append media_step_packet case_prod_beta Let_def,
      auto simp: view_def result_view_def media_step_packet)

lemma v_log_Nil [simp]: "v_log [] v = v"
  by (simp add: v_log_def split_def)

lemma view_write:
  "view (snd (WriteMediaWithTransientNotReadyRetry (logged_pcm env) packet t graceful s)) =
     v_log (if fst (fst (WriteMediaWithTransientNotReadyRetry (logged_pcm env) packet t graceful s))
            then [Ev_Media packet] else []) (view s)"
  unfolding WriteMediaWithTransientNotReadyRetry_def by (rule view_write_attempts)

section \<open>Silence and the restart of the output\<close>

lemma stream_boundary_packet:
  assumes "stream_view q r (view s)"
    and "ldac_rtp_build_unfragmented n (unat (sr_outgoing_mtu (xr_base (ps_result s)))) (ps_sequence s)
      (ps_timestamp s) kPcmSsrc frame_count encoded = (LDAC_RTP_OK, packet)"
  shows "stream_view q r (view (snd (send_boundary_packet (logged_pcm env) options graceful packet
      (ucast frame_count * frame_samples r) s)))"
  using assms(1)
  by (auto simp: send_boundary_packet_def view_write result_view_def Let_def case_prod_beta
      intro!: stream_packet_sent [OF assms])

lemma stream_boundary_block:
  assumes "stream_view q r (view s)"
  shows "stream_view q r (view (snd (snd (boundary_block (logged_pcm env) options graceful
      (frame_samples r) pending s))))"
proof -
  have v: "stream_view q r (view (snd (encode (logged_pcm env) pcm s)))" for pcm
    using assms by simp
  show ?thesis
    using assms
    by (auto simp: boundary_block_def Let_def case_prod_beta prod_eq_iff
        intro!: stream_boundary_packet [OF v])
qed

lemma stream_boundary_loop:
  assumes "boundary_loop env' options graceful samples target generated pending flush s = Some y"
  shows "env' = logged_pcm env \<longrightarrow> samples = frame_samples r \<longrightarrow> stream_view q r (view s) \<longrightarrow>
    stream_view q r (view (snd y))"
  using assms
proof (induction rule: boundary_loop.raw_induct [rotated, consumes 1, case_names step])
  case (step loop env' options graceful samples target generated pending flush s y)
  show ?case
    using step stream_boundary_block [of q r s env options graceful "pending + 128"]
    by (auto simp: Let_def case_prod_beta split: if_splits)
qed

lemma stream_boundary_silence:
  assumes "SendBoundarySilence (logged_pcm env) options d graceful s = Some y"
    and "stream_view q r (view s)"
  shows "stream_view q r (view (snd y))"
proof -
  have "samples_per_frame s = frame_samples r" if "ps_encoder s \<noteq> None"
    using assms(2) that
    by (auto simp: stream_view_def view_def Let_def case_prod_beta samples_per_frame_def
        frame_samples_def ldac_encoder_samples_per_transport_frame_def word_le_nat_alt)
  then show ?thesis
    using assms
    by (auto simp: SendBoundarySilence_def Let_def split: if_splits dest!: stream_boundary_loop)
qed

lemma stream_reset_encoder:
  assumes "stream_view q r (view s)"
  shows "stream_view q r (view (snd (reset_transport_encoder (logged_pcm env) options s)))"
proof -
  have "unat (xf_sample_rate_hz (xr_pcm_format (ps_result s))) = unat r"
    using assms by (simp add: stream_view_def view_def result_view_def Let_def)
  then show ?thesis
    using assms created_rate [of "logged_pcm env" options s]
    by (auto simp: reset_transport_encoder_def view_encoder Let_def case_prod_beta stream_view_def
        sound_view_def prod_eq_iff)
qed

lemma stream_startup_silence:
  "startup_silence (logged_pcm env) options s = Some y \<Longrightarrow> stream_view q r (view s) \<Longrightarrow>
     stream_view q r (view (snd y))"
  by (auto simp: startup_silence_def split: if_splits intro: stream_boundary_silence)

lemma stream_restart_output:
  assumes "restart_output (logged_pcm env) options s = Some y" and "stream_view q r (view s)"
  shows "stream_view q r (view (snd y))"
  using assms stream_reset_encoder [OF assms(2), of env options]
    stream_startup_silence [of env options "snd (reset_transport_encoder (logged_pcm env) options s)"]
  by (fastforce simp: restart_output_def Let_def case_prod_beta bind_eq_Some_conv result_view_def
      split: if_splits)

section \<open>The pause\<close>

lemma stream_suspend_for_pause:
  assumes "stream_view Lease_Held r (view s)"
  shows "case suspend_for_pause (logged_pcm env) options s of (suspended, s') \<Rightarrow>
    if suspended then stream_view Lease_Free r (view s') else over_view (view s')"
proof -
  have keep: "result_view (ps_result s) = result_view (ps_result s)" by simp
  show ?thesis
    using assms lease_views(7,9) [OF assms] stream_over [OF assms]
    by (auto simp: suspend_for_pause_def suspend_accepted_def result_view_def Let_def case_prod_beta
        stream_over split: if_splits)
qed

lemma paused_stop_view: "paused_stop stop stage s = Some (verdict, s') \<Longrightarrow> view s' = view s"
  by (auto simp: paused_stop_def split: if_splits)

definition awaited ::
  "u32 \<Rightarrow> (PauseTransitionResult + V1TransportPcmFormat) \<times> ('h, 'w \<times> pcm_event list) pcm_session \<Rightarrow>
   bool" where
  "awaited r = (\<lambda>(answer, s).
     stream_view (case answer of Inl _ \<Rightarrow> Lease_Free | Inr _ \<Rightarrow> Lease_Held) r (view s))"

lemma stream_paused_prepare:
  assumes "stream_view Lease_Free r (view s)"
  shows "case paused_prepare (logged_pcm env) s of
      (None, s') \<Rightarrow> stream_view Lease_Free r (view s') | (Some answer, s') \<Rightarrow> awaited r (answer, s')"
  using assms lease_views(5,6) [OF assms]
  by (auto simp: paused_prepare_def result_view_def awaited_def Let_def split_def split: option.splits
      dest!: paused_stop_view)

lemma stream_paused_loop:
  assumes "paused_loop env' options s = Some y"
  shows "env' = logged_pcm env \<longrightarrow> stream_view Lease_Free r (view s) \<longrightarrow> awaited r y"
  using assms
proof (induction rule: paused_loop.raw_induct [rotated, consumes 1, case_names step])
  case (step loop env' options s y)
  show ?case
  proof (intro impI)
    assume e: "env' = logged_pcm env" and v: "stream_view Lease_Free r (view s)"
    define s1 where "s1 = snd (ProbeStop env' s)"
    define s2 where "s2 = snd (ObservePeerStreamControl env' options s1)"
    have views: "view s1 = view s" "view s2 = view s" by (simp_all add: s1_def s2_def e)
    show "awaited r y"
    proof (cases "paused_stop (fst (ProbeStop env' s)) SilenceStage_Suspend s1")
      case None
      moreover have "loop env' options s3 = Some y \<Longrightarrow> stream_view Lease_Free r (view s3) \<Longrightarrow> awaited r y" for s3
        using step.IH [of env' options s3 y] e by blast
      ultimately show ?thesis
        using step.hyps e v views stream_paused_prepare [of r s2 env]
        by (auto simp: Let_def split_def s1_def s2_def awaited_def
            split: option.splits if_splits prod.splits)
    next
      case (Some ended)
      then show ?thesis
        using step.hyps e v views
        by (cases ended) (auto simp: Let_def split_def s1_def awaited_def dest: paused_stop_view)
    qed
  qed
qed

lemma paused_loop_not_resumed:
  "paused_loop env options s = Some (Inl ended, s') \<Longrightarrow> ended \<noteq> Pause_Resumed"
proof -
  assume "paused_loop env options s = Some (Inl ended, s')"
  then have "case fst (Inl ended :: _ + V1TransportPcmFormat, s') of
      Inl ended \<Rightarrow> ended \<noteq> Pause_Resumed | Inr _ \<Rightarrow> True"
  proof (induction rule: paused_loop.raw_induct [rotated, consumes 1, case_names step])
    case (step loop env options s y)
    then show ?case
      by (fastforce simp: Let_def split_def paused_prepare_def paused_stop_def
          split: option.splits if_splits)
  qed
  then show ?thesis by simp
qed

lemma stream_resume_stream:
  assumes "resume_stream (logged_pcm env) options format s = Some y"
    and "stream_view Lease_Held r (view s)"
  shows "stream_view Lease_Held r (view (snd y))"
  using assms
  by (auto simp: resume_stream_def result_view_def Let_def split_def bind_eq_Some_conv split: if_splits
      dest!: stream_restart_output)

text \<open>A turn that goes on keeps the stream; one that ends it leaves a sound view.\<close>

definition turn_sound :: "u32 \<Rightarrow> ('h, 'w \<times> pcm_event list) turn \<Rightarrow> bool" where
  "turn_sound r = (\<lambda>(verdict, s).
     if verdict = Flow_Go \<or> verdict = Flow_Again then stream_view Lease_Held r (view s)
     else over_view (view s))"

lemma turn_stream: "stream_view Lease_Held r (view s) \<Longrightarrow> turn_sound r (verdict, s)"
  by (auto simp: turn_sound_def stream_over)

lemma turn_leave: "over_view (view s) \<Longrightarrow> turn_sound r (leave_gracefully s)"
  by (simp add: turn_sound_def leave_gracefully_def)

lemma turn_return: "over_view (view s) \<Longrightarrow> turn_sound r (Flow_Return, s)"
  by (simp add: turn_sound_def)

lemma over_suspend_and_wait:
  assumes "suspend_and_wait_for_render (logged_pcm env) options s = Some y"
    and "stream_view Lease_Held r (view s)"
  shows "over_view (view (snd y))"
    and "fst y = Pause_Resumed \<Longrightarrow> stream_view Lease_Held r (view (snd y))"
proof -
  obtain suspended s1 where s1: "suspend_for_pause (logged_pcm env) options s = (suspended, s1)"
    by (rule prod.exhaust)
  have start: "if suspended then stream_view Lease_Free r (view s1) else over_view (view s1)"
    using stream_suspend_for_pause [OF assms(2), of env options] s1 by simp
  have "over_view (view (snd y)) \<and> (fst y = Pause_Resumed \<longrightarrow> stream_view Lease_Held r (view (snd y)))"
  proof (cases suspended)
    case False
    then show ?thesis
      using assms(1) start s1 by (auto simp: suspend_and_wait_for_render_def)
  next
    case True
    then obtain answer s2 where l: "paused_loop (logged_pcm env) options s1 = Some (answer, s2)"
      and y: "(case answer of Inl ended \<Rightarrow> Some (ended, s2)
        | Inr format \<Rightarrow> resume_stream (logged_pcm env) options format s2) = Some y"
      using assms(1) s1 by (auto simp: suspend_and_wait_for_render_def bind_eq_Some_conv)
    have a: "awaited r (answer, s2)" using stream_paused_loop [OF l, of env r] start True by simp
    show ?thesis
    proof (cases answer)
      case (Inl ended)
      then have "ended \<noteq> Pause_Resumed"
        using paused_loop_not_resumed l by blast
      then show ?thesis using Inl a y by (auto simp: awaited_def intro: stream_over)
    next
      case (Inr format)
      then have "stream_view Lease_Held r (view (snd y))"
        using a y stream_resume_stream [of env options format s2 y r] by (simp add: awaited_def)
      then show ?thesis by (simp add: stream_over)
    qed
  qed
  then show "over_view (view (snd y))"
    and "fst y = Pause_Resumed \<Longrightarrow> stream_view Lease_Held r (view (snd y))" by simp_all
qed

section \<open>A turn of the media loop\<close>

lemma stop_wait_view:
  assumes "explicit_stop_loop env' deadline s = Some y"
  shows "env' = logged_pcm env \<longrightarrow> view (snd y) = view s"
  using assms
proof (induction rule: explicit_stop_loop.raw_induct [rotated, consumes 1, case_names step])
  case (step loop env' deadline s y)
  have "env' = logged_pcm env \<Longrightarrow> view (snd (sleep_and_probe env' s)) = view s"
    by (simp add: sleep_and_probe_def)
  moreover have "loop env' deadline s2 = Some y \<Longrightarrow> env' = logged_pcm env \<longrightarrow> view (snd y) = view s2" for s2
    by (rule step.IH)
  ultimately show ?case
    using step.hyps by (auto simp: Let_def split_def split: if_splits)
qed

lemma explicit_stop_view:
  "WaitForExplicitStop (logged_pcm env) t s = Some y \<Longrightarrow> view (snd y) = view s"
  by (auto simp: WaitForExplicitStop_def Let_def split_def split: if_splits dest!: stop_wait_view)

lemma sound_rebound:
  assumes "rebound (logged_pcm env) options format s = Some y"
    and "stream_view Lease_Held r (view s)"
  shows "turn_sound r y"
proof -
  define s1 where "s1 = snd (ProbeStop (logged_pcm env) s)"
  define s2 where "s2 = snd (rebound_volume options format s1)"
  have v: "view s1 = view s" "view s2 = view s" by (simp_all add: s1_def s2_def)
  have leave: "view s' = view s \<Longrightarrow> turn_sound r (leave_gracefully s')" for s' :: "('a, 'b \<times> pcm_event list) pcm_session"
    using assms(2) by (simp add: turn_leave stream_over)
  show ?thesis
    using assms v
    by (auto simp: rebound_def Let_def split_def bind_eq_Some_conv s1_def [symmetric] s2_def [symmetric]
        result_view_def split: if_splits
        intro!: leave turn_stream stream_over dest!: stream_restart_output)
qed

lemma sound_rebind_prepare:
  assumes "rebind_prepare (logged_pcm env) options start s = Some y"
    and "stream_view Lease_Free r (view s)"
  shows "turn_sound r y"
  using assms(1) lease_views(5,6) [OF assms(2)]
  by (auto simp: rebind_prepare_def result_view_def Let_def split_def
      split: if_splits intro!: turn_leave turn_return stream_over sound_rebound)

lemma sound_rebind:
  assumes "rebind (logged_pcm env) options start s = Some y"
    and "stream_view Lease_Held r (view s)"
  shows "turn_sound r y"
  using assms(1) lease_views(7,8) [OF assms(2)]
  by (auto simp: rebind_def result_view_def Let_def split_def
      split: if_splits intro!: turn_leave turn_return sound_rebind_prepare intro: stream_over)

lemma sound_classify_loss:
  assumes "classify_loss (logged_pcm env) options disposition stop s = Some y"
    and "stream_view Lease_Held r (view s)"
  shows "turn_sound r y"
  using assms stream_over [OF assms(2)]
  by (auto simp: classify_loss_def result_view_def Let_def split_def bind_eq_Some_conv
      split: if_splits intro!: turn_leave turn_return dest!: explicit_stop_view)

lemma sound_lost_block:
  assumes "lost_block (logged_pcm env) options start forced disposition s = Some y"
    and "stream_view Lease_Held r (view s)"
  shows "turn_sound r y"
proof -
  let ?s = "\<lambda>s :: ('a, 'b \<times> pcm_event list) pcm_session. s\<lparr>ps_timeout_streak_ms := 0\<rparr>"
  have pause: "turn_sound r (case z of (verdict, s2) \<Rightarrow> (case verdict of
        Pause_Ended \<Rightarrow> (Flow_Return, s2) | Pause_GracefulStop \<Rightarrow> (Flow_Leave, s2)
      | Pause_Resumed \<Rightarrow> (Flow_Again, s2\<lparr>ps_use_preflight_block := False\<rparr>)))"
    if "suspend_and_wait_for_render (logged_pcm env) options s1 = Some z"
      and "view s1 = view s" for z s1
    using over_suspend_and_wait [OF that(1), of r] that(2) assms(2)
    by (cases z) (auto simp: turn_sound_def split: PauseTransitionResult.splits)
  show ?thesis
    using assms pause
    by (auto simp: lost_block_def Let_def split_def bind_eq_Some_conv
        split: if_splits intro: sound_rebind sound_classify_loss)
qed

lemma sound_recover_timeouts:
  assumes "recover_timeouts (logged_pcm env) options s = Some y"
    and "stream_view Lease_Held r (view s)"
  shows "turn_sound r y"
  using assms
  by (auto simp: recover_timeouts_def result_view_def Let_def split_def bind_eq_Some_conv
      split: if_splits intro!: turn_stream dest!: stream_restart_output)

lemma sound_go_on:
  assumes "go_on part rest = Some y"
    and "\<And>t. part = Some t \<Longrightarrow> turn_sound r t"
    and "\<And>s t. rest s = Some t \<Longrightarrow> stream_view Lease_Held r (view s) \<Longrightarrow> turn_sound r t"
  shows "turn_sound r y"
  using assms
  by (auto simp: go_on_def bind_eq_Some_conv turn_sound_def split: if_splits)

lemma sound_read_block:
  assumes "read_block (logged_pcm env) options start s = Some y"
    and "stream_view Lease_Held r (view s)"
  shows "turn_sound r y"
proof -
  have counted: "turn_sound r y'" if "go_on (recover_timeouts (logged_pcm env) options s1)
      (\<lambda>s. Some (Flow_Go, on_result (\<lambda>r. r\<lparr>xr_pcm_frames_read := xr_pcm_frames_read r + n\<rparr>) s)) = Some y'"
    and "view s1 = view s" for s1 n y'
    using that(1)
    by (rule sound_go_on)
      (use that(2) assms(2) in \<open>auto simp: result_view_def intro: sound_recover_timeouts turn_stream\<close>)
  have lost: "turn_sound r y'"
    if "lost_block (logged_pcm env) options start forced disposition s1 = Some y'" and "view s1 = view s"
    for forced disposition s1 y'
    using that assms(2) by (auto intro: sound_lost_block)
  show ?thesis
    using assms
    by (auto simp: read_block_def result_view_def Let_def split_def
        split: if_splits intro!: turn_stream dest!: lost counted)
qed

section \<open>The delivery of a block\<close>

lemma sound_write_block:
  assumes "stream_view Lease_Held r (view s)" and "view s' = view s"
    and "ldac_rtp_build_unfragmented n (unat (sr_outgoing_mtu (xr_base (ps_result s)))) (ps_sequence s)
      (ps_timestamp s) kPcmSsrc frame_count encoded = (LDAC_RTP_OK, packet)"
  shows "turn_sound r (write_block (logged_pcm env) options packet
    (ucast frame_count * frame_samples r) committed s')"
  using assms(1,2)
  by (auto simp: write_block_def view_write result_view_def Let_def split_def
      intro!: turn_stream stream_packet_sent [OF assms(1,3)])

lemma sound_check_volume:
  assumes "stream_view Lease_Held r (view s)"
  shows "turn_sound r (check_volume (logged_pcm env) options s)"
  using turn_stream [of r "snd (check_volume (logged_pcm env) options s)"
      "fst (check_volume (logged_pcm env) options s)"] assms by simp

lemma sound_deliver_block:
  assumes "stream_view Lease_Held r (view s)"
    and "ldac_rtp_build_unfragmented n (unat (sr_outgoing_mtu (xr_base (ps_result s)))) (ps_sequence s)
      (ps_timestamp s) kPcmSsrc frame_count encoded = (LDAC_RTP_OK, packet)"
  shows "turn_sound r (deliver_block (logged_pcm env) options packet
    (ucast frame_count * frame_samples r) committed s)"
  using assms(1)
  by (auto simp: deliver_block_def result_view_def Let_def split_def leave_gracefully_def
      intro!: turn_stream sound_check_volume sound_write_block [OF assms(1) _ assms(2)])

lemma sound_send_block:
  assumes "stream_view Lease_Held r (view s)"
  shows "turn_sound r (send_block (logged_pcm env) options (frame_samples r) pcm s)"
proof -
  have v: "stream_view Lease_Held r (view (snd (encode (logged_pcm env) pcm s)))"
    using assms by simp
  have commit: "turn_sound r (commit_failure s1)"
    if "view s1 = view s" for s1 :: "('a, 'b \<times> pcm_event list) pcm_session"
    using that assms turn_stream [of r "snd (commit_failure s1)" "fst (commit_failure s1)"] by simp
  show ?thesis
    using assms
    by (auto simp: send_block_def Let_def split_def prod_eq_iff split: option.splits
        intro!: turn_stream commit sound_deliver_block [OF v])
qed

section \<open>The whole session\<close>

lemma sound_media_turn:
  assumes "media_turn (logged_pcm env) options start (frame_samples r) s = Some y"
    and "stream_view Lease_Held r (view s)"
  shows "turn_sound r y"
proof -
  have send: "turn_sound r t"
    if d: "do { (ok, pcm, s1) \<leftarrow> output_block (logged_pcm env) options s2;
             Some (if ok then send_block (logged_pcm env) options (frame_samples r) pcm s1
                   else (Flow_Return, s1)) } = Some t"
      and v: "stream_view Lease_Held r (view s2)" for s2 t
  proof -
    obtain ok pcm s1 where o: "output_block (logged_pcm env) options s2 = Some (ok, pcm, s1)"
      and t: "t = (if ok then send_block (logged_pcm env) options (frame_samples r) pcm s1
        else (Flow_Return, s1))"
      using d by (auto simp: bind_eq_Some_conv)
    show ?thesis
      using v view_output_block [OF o] by (auto simp: t intro: sound_send_block turn_stream)
  qed
  have control: "turn_sound r (control_turn (logged_pcm env) options s)"
    using assms(2) turn_stream [of r "snd (control_turn (logged_pcm env) options s)"
        "fst (control_turn (logged_pcm env) options s)"] by simp
  have volume: "turn_sound r t"
    if "check_volume (logged_pcm env) options (s2\<lparr>ps_use_preflight_block := False\<rparr>) = t"
      and "stream_view Lease_Held r (view s2)" for s2 t
    using sound_check_volume [of r "s2\<lparr>ps_use_preflight_block := False\<rparr>" env options] that by simp
  show ?thesis
  proof (rule sound_go_on [OF assms(1) [unfolded media_turn_def]])
    fix t assume "Some (control_turn (logged_pcm env) options s) = Some t"
    then show "turn_sound r t" using control by simp
  next
    fix s t
    assume "go_on (read_block (logged_pcm env) options start s) (\<lambda>s.
        go_on (Some (check_volume (logged_pcm env) options (s\<lparr>ps_use_preflight_block := False\<rparr>))) (\<lambda>s.
          do { (ok, pcm, s1) \<leftarrow> output_block (logged_pcm env) options s;
               Some (if ok then send_block (logged_pcm env) options (frame_samples r) pcm s1
                     else (Flow_Return, s1)) })) = Some t"
      and v: "stream_view Lease_Held r (view s)"
    then show "turn_sound r t"
      by (elim sound_go_on)
        (auto intro: sound_read_block [OF _ v] volume send)
  qed
qed

lemma over_media_loop:
  assumes "media_loop env' options start samples target s = Some y"
  shows "env' = logged_pcm env \<longrightarrow> samples = frame_samples r \<longrightarrow> stream_view Lease_Held r (view s) \<longrightarrow>
    over_view (view (snd y))"
  using assms
proof (induction rule: media_loop.raw_induct [rotated, consumes 1, case_names step])
  case (step loop env' options start samples target s y)
  show ?case
  proof (intro impI)
    assume e: "env' = logged_pcm env" "samples = frame_samples r" and v: "stream_view Lease_Held r (view s)"
    show "over_view (view (snd y))"
    proof (cases "xr_pcm_frames_sent (ps_result s) < target")
      case False
      then show ?thesis using step.hyps v by (auto intro: stream_over)
    next
      case True
      then obtain verdict s1 where t: "media_turn env' options start samples s = Some (verdict, s1)"
        and y: "(if verdict = Flow_Return then Some (False, s1)
          else if verdict = Flow_Leave then Some (True, s1)
          else loop env' options start samples target s1) = Some y"
        using step.hyps by (auto simp: bind_eq_Some_conv)
      have s1: "turn_sound r (verdict, s1)"
        using sound_media_turn [of env options start r s] t e v by simp
      show ?thesis
        using y s1 step.IH [of env' options start samples target s1 y] e
        by (cases verdict) (auto simp: turn_sound_def intro: stream_over)
    qed
  qed
qed

lemma over_stream_media:
  assumes "stream_media (logged_pcm env) options start s = Some s'"
    and v: "stream_view Lease_Held r (view s)"
  shows "over_view (view s')"
proof -
  have samples: "samples_per_frame s = frame_samples r"
    using v
    by (auto simp: stream_view_def view_def Let_def case_prod_beta samples_per_frame_def
        frame_samples_def ldac_encoder_samples_per_transport_frame_def word_le_nat_alt)
  have loop: "media_loop (logged_pcm env) options start (frame_samples r) target s2 = Some y \<Longrightarrow>
      stream_view Lease_Held r (view s2) \<Longrightarrow> over_view (view (snd y))" for target s2 y
    using over_media_loop by blast
  show ?thesis
    using assms(1) v stream_over [OF v]
    by (auto simp: stream_media_def samples result_view_def Let_def split_def bind_eq_Some_conv
        split: if_splits dest!: stream_startup_silence [where q = Lease_Held and r = r]
        dest: stream_over loop)
qed

definition v_rate :: "u32 \<Rightarrow> pcm_view \<Rightarrow> pcm_view" where
  "v_rate n = (\<lambda>(log, held, rate, rest). (log, held, n, rest))"

definition v_mtu :: "u16 \<Rightarrow> pcm_view \<Rightarrow> pcm_view" where
  "v_mtu n = (\<lambda>(log, held, rate, mtu, rest). (log, held, rate, n, rest))"

lemma view_rate [simp]:
  "view (on_result (\<lambda>r. r\<lparr>xr_pcm_format := f\<rparr>) s) = v_rate (xf_sample_rate_hz f) (view s)"
  "view (on_base (\<lambda>r. r\<lparr>sr_incoming_mtu := i, sr_outgoing_mtu := n\<rparr>) s) = v_mtu n (view s)"
  by (simp_all add: view_def on_base_def on_result_def result_view_def v_rate_def v_mtu_def Let_def)

lemma pre_rate [simp]:
  "pre_view q b (v_rate n v) = pre_view q b v" "pre_view q b (v_mtu m v) = pre_view q b v"
  "v_rate n (v_log es v) = v_log es (v_rate n v)"
  by (simp_all add: pre_view_def v_rate_def v_mtu_def v_log_def split_def)

lemma pre_stream:
  assumes "pre_view Lease_Held b (view s)"
    and "en_sample_rate_hz e = unat (xf_sample_rate_hz (xr_pcm_format (ps_result s)))"
  shows "stream_view Lease_Held (xf_sample_rate_hz (xr_pcm_format (ps_result s)))
    (view (s\<lparr>ps_encoder := Some e\<rparr>))"
  using assms
  by (auto simp: stream_view_def sound_view_def pre_view_def view_def result_view_def Let_def no_media)

lemma over_start_stream:
  assumes "start_stream (logged_pcm env) options start s = Some s'"
    and pre: "pre_view Lease_Held b (view s)"
  shows "over_view (view s')"
proof -
  define s1 where "s1 = snd (create_encoder (logged_pcm env) options s)"
  have v: "view s1 = view s" by (simp add: s1_def)
  then have over: "over_view (view s1)" using pre by (simp add: pre_over)
  have rate: "xf_sample_rate_hz (xr_pcm_format (ps_result s1)) = xf_sample_rate_hz (xr_pcm_format (ps_result s))"
    using v by (simp add: view_def result_view_def Let_def)
  have stream: "stream_view Lease_Held (xf_sample_rate_hz (xr_pcm_format (ps_result s1)))
      (view (s1\<lparr>ps_encoder := Some e\<rparr>))"
    if "snd (fst (create_encoder (logged_pcm env) options s)) = Some e" for e
    using pre_stream [of b s1 e] created_rate [of "logged_pcm env" options s _ e] that v rate pre
    by (simp add: prod_eq_iff)
  have encoder: "view ((on_result f s1)\<lparr>ps_encoder := e\<rparr>) = view (s1\<lparr>ps_encoder := e\<rparr>)"
    if "\<And>r. result_view (f r) = result_view r" for f e
    using that by (simp add: view_encoder)
  show ?thesis
    using assms(1) over stream
    by (auto simp: start_stream_def result_view_def encoder s1_def [symmetric] settled_def Let_def split_def
        split: if_splits option.splits intro: over_stream_media stream_over)
qed

lemma over_open_pcm_media:
  assumes "open_pcm_media (logged_pcm env) options start s = Some s'"
    and "pre_view Lease_Held b (view s)"
  shows "over_view (view s')"
  using assms
  by (auto simp: open_pcm_media_def Let_def split_def split: if_splits
      intro: pre_over [where q = Lease_Held and b = b] dest!: over_start_stream [where b = b])

lemma note_negotiated_settled [simp]:
  "sr_outgoing_mtu (note_negotiated signal r) = sr_outgoing_mtu r"
  "sr_signaling_opened (note_negotiated signal r) = sr_signaling_opened r"
  by (simp_all add: note_negotiated_def Let_def)

lemma view_negotiate:
  "env' = logged_pcm env \<Longrightarrow> view (snd (negotiate_pcm env' options action s)) = view s"
proof (induction env' options action s rule: negotiate_pcm.induct)
  case (1 env' options action s)
  note [simp] = \<open>env' = logged_pcm env\<close>
  show ?case
  proof (cases "aa_kind action = AVDTP_ACTION_SEND_SIGNALING \<and>
      fst (avdtp_parse_header (aa_packet action) avdtp_header_zero) = AVDTP_OK")
    case False
    then show ?thesis by (subst negotiate_pcm.simps) (simp add: Let_def split_def)
  next
    case True
    define x where "x = Exchange env' options action SilenceStage_Negotiate False s"
    have x: "view (snd x) = view s" by (simp add: x_def)
    show ?thesis
      using True x 1
      by (subst negotiate_pcm.simps)
        (auto simp: Let_def split_def prod_eq_iff x_def split: option.splits)
  qed
qed

lemma over_pcm_body:
  assumes "pcm_body (logged_pcm env) options start s = Some s'"
    and "pre_view Lease_Held b (view s)"
  shows "over_view (view s')"
  using assms view_negotiate [of "logged_pcm env" env options]
  by (auto simp: pcm_body_def Let_def split_def split: if_splits option.splits
      intro: pre_over [where q = Lease_Held and b = b] dest!: over_open_pcm_media [where b = b])

text \<open>The part before the open of the channel.\<close>

lemma pre_prepare_lease:
  assumes "pre_view q False (view s)"
  shows "case prepare_lease (logged_pcm env) deadline s of (ok, s') \<Rightarrow>
    if ok then pre_view Lease_Held False (view s') else over_view (view s')"
proof (cases "xr_consumer_lease_held (ps_result s)")
  case True
  then show ?thesis
    using assms by (auto simp: prepare_lease_def pre_view_def view_def result_view_def Let_def)
next
  case False
  then have "q = Lease_Free"
    using assms by (cases q) (auto simp: pre_view_def view_def result_view_def Let_def)
  then have v: "pre_view Lease_Free False (view s)" using assms by simp
  have held: "pre_view Lease_Held False (v_held True (v_log [Ev_Prepare True] (v_rate n (view s))))"
    and free: "pre_view Lease_Free False (v_log [Ev_Prepare False] (v_rate n (view s)))" for n
    using lease_views(1,2) [of False "v_rate n (view s)"] v by simp_all
  show ?thesis
    using False held free pre_over [OF held] pre_over [OF free]
    by (auto simp: prepare_lease_def result_view_def Let_def split_def)
qed

lemma pre_restart_epoch:
  assumes "pre_view Lease_Held False (view s)"
  shows "case restart_epoch (logged_pcm env) s of (goes_on, s') \<Rightarrow>
    if goes_on then pre_view Lease_Free False (view s') else over_view (view s')"
  using lease_views(3,4) [OF assms] pre_over
  by (auto simp: restart_epoch_def result_view_def Let_def split_def)

lemma pre_preflight_read:
  assumes "pre_view Lease_Held False (view s)"
  shows "case preflight_read (logged_pcm env) options start deadline s of (answer, s') \<Rightarrow>
    (case answer of None \<Rightarrow> pre_view Lease_Held False (view s') \<or> pre_view Lease_Free False (view s')
     | Some audible \<Rightarrow>
         if audible then pre_view Lease_Held False (view s') else over_view (view s'))"
proof -
  have restart: "case restart_epoch (logged_pcm env) s1 of (goes_on, s') \<Rightarrow>
      if goes_on then pre_view Lease_Free False (view s') else over_view (view s')"
    if "view s1 = view s" for s1
    using pre_restart_epoch [of s1 env] that assms by simp
  show ?thesis
    using assms pre_over [OF assms]
      restart [of "RecordPcmStreamStop (logged_pcm env) e start s1" for e s1]
    by (auto simp: preflight_read_def Let_def split_def split: option.splits)
qed

lemma pre_preflight_loop:
  assumes "preflight_loop env' options start deadline s = Some y"
  shows "env' = logged_pcm env \<longrightarrow> pre_view Lease_Held False (view s) \<or> pre_view Lease_Free False (view s) \<longrightarrow>
    (if fst y then pre_view Lease_Held False (view (snd y)) else over_view (view (snd y)))"
  using assms
proof (induction rule: preflight_loop.raw_induct [rotated, consumes 1, case_names step])
  case (step loop env' options start deadline s y)
  show ?case
  proof (intro impI)
    assume e: "env' = logged_pcm env"
      and v: "pre_view Lease_Held False (view s) \<or> pre_view Lease_Free False (view s)"
    define s2 where "s2 = snd (ProbeStop env' (snd (now env' s)))"
    define p where "p = prepare_lease env' deadline s2"
    define x where "x = preflight_read env' options start deadline (snd p)"
    have s2: "view s2 = view s" by (simp add: s2_def e)
    have p: "if fst p then pre_view Lease_Held False (view (snd p)) else over_view (view (snd p))"
      using v pre_prepare_lease [of _ s2 env deadline] s2 by (auto simp: p_def e split_def)
    have x: "case fst x of None \<Rightarrow> pre_view Lease_Held False (view (snd x)) \<or> pre_view Lease_Free False (view (snd x))
        | Some audible \<Rightarrow>
            if audible then pre_view Lease_Held False (view (snd x)) else over_view (view (snd x))"
      if "fst p"
      using pre_preflight_read [of "snd p" env options start deadline] p that
      by (auto simp: x_def e split_def split: option.splits)
    have over: "over_view (view s)" using v by (auto intro: pre_over)
    have again: "loop env' options start deadline (snd x) = Some y \<Longrightarrow>
        pre_view Lease_Held False (view (snd x)) \<or> pre_view Lease_Free False (view (snd x)) \<Longrightarrow>
        if fst y then pre_view Lease_Held False (view (snd y)) else over_view (view (snd y))"
      using step.IH [of env' options start deadline "snd x" y] e by blast
    have "(if fst (now env' s) \<ge> deadline
         then Some (False, protocol_failure LDAC_ENCODER_INVALID_OUTPUT SilenceStage_PreparePcm (snd (now env' s)))
         else if fst (ProbeStop env' (snd (now env' s))) \<noteq> Stop_None
         then Some (False, on_result (PcmSetFailure Configuration_Cancelled (sr_stage (xr_base (ps_result s2)))) s2)
         else if \<not> fst p then Some (False, snd p)
         else (case fst x of Some audible \<Rightarrow> Some (audible, snd x)
           | None \<Rightarrow> loop env' options start deadline (snd x))) = Some y"
      using step.hyps unfolding Let_def split_def s2_def p_def x_def .
    then show "if fst y then pre_view Lease_Held False (view (snd y)) else over_view (view (snd y))"
      using over s2 p x again by (auto simp: e split: if_splits option.splits)
  qed
qed

lemma pre_audible:
  assumes "PrepareAudiblePcm (logged_pcm env) options start s = Some y"
    and "pre_view Lease_Free False (view s)"
  shows "if fst y then pre_view Lease_Held False (view (snd y)) else over_view (view (snd y))"
  using assms pre_preflight_loop [of "logged_pcm env" options start _ "snd (now (logged_pcm env) s)" y env]
  by (auto simp: PrepareAudiblePcm_def Let_def split_def)

lemma view_lock_volume [simp]: "view (snd (lock_volume options s)) = view s"
  by (simp add: lock_volume_def result_view_def Let_def)

lemma pre_open_signaling:
  assumes "pre_view Lease_Held False (view s)"
  shows "case open_signaling (logged_pcm env) options s of (opened, s') \<Rightarrow>
    if opened then pre_view Lease_Held True (view s') else over_view (view s')"
proof -
  define v_opened :: "pcm_view \<Rightarrow> pcm_view" where
    "v_opened = (\<lambda>(log, held, rate, mtu, _, rest). (log, held, rate, mtu, True, rest))"
  have opened: "view (on_base (\<lambda>r. r\<lparr>sr_signaling_opened := True\<rparr>) s1) = v_opened (view s1)"
    for s1 :: "('a, 'b \<times> pcm_event list) pcm_session"
    by (simp add: view_def on_base_def on_result_def result_view_def v_opened_def Let_def)
  have ok: "pre_view Lease_Held True (v_opened (v_log [Ev_Open True] (view s)))"
    and failed: "pre_view Lease_Held False (v_log [Ev_Open False] (view s))"
    using assms by (auto simp: pre_view_def v_opened_def v_log_def run_append split_def)
  show ?thesis
    using assms ok pre_over [OF assms] pre_over [OF failed]
    by (auto simp: open_signaling_def opened Let_def split_def)
qed

lemma over_session_body:
  assumes "pcm_session_body (logged_pcm env) options start s = Some s'"
    and "pre_view Lease_Free False (view s)"
  shows "over_view (view s')"
proof -
  obtain audible s1 where a: "PrepareAudiblePcm (logged_pcm env) options start s = Some (audible, s1)"
    using assms(1) by (auto simp: pcm_session_body_def bind_eq_Some_conv)
  have s1: "if audible then pre_view Lease_Held False (view s1) else over_view (view s1)"
    using pre_audible [OF a assms(2)] by (cases audible) simp_all
  define s2 where "s2 = lock_volume options
    (s1\<lparr>ps_locked_format := xr_pcm_format (ps_result s1), ps_observed_format := xr_pcm_format (ps_result s1)\<rparr>)"
  have s2: "view (snd s2) = view s1" by (simp add: s2_def)
  show ?thesis
    using assms(1) a s1 s2 pre_open_signaling [of "snd s2" env options]
    by (auto simp: pcm_session_body_def Let_def split_def s2_def split: if_splits
        intro: pre_over dest: over_pcm_body)
qed

text \<open>After \<open>Finish\<close>: the channel is closed and the lease is free or refused.\<close>

lemma view_close_signaling:
  "view (close_signaling (logged_pcm env) s) =
     v_log (if sr_signaling_opened (xr_base (ps_result s)) then [Ev_Close] else []) (view s)"
  by (simp add: close_signaling_def result_view_def Let_def split_def)

lemma view_release_lease:
  "view (release_lease (logged_pcm env) s) =
     (if xr_consumer_lease_held (ps_result s)
      then v_held False (v_log [Ev_Release (fst (fst (sc_Release (pe_source env) (fst (ps_world s)))))] (view s))
      else view s)"
  by (simp add: release_lease_def result_view_def Let_def split_def)

definition finished_view :: "pcm_view \<Rightarrow> bool" where
  "finished_view = (\<lambda>(log, held, rate, mtu, opened, sequence, timestamp, _).
     \<not> held \<and> run source_lease_step Lease_Free log \<in> {Some Lease_Free, Some Lease_Refused} \<and>
     run signaling_step False log = Some False \<and>
     run (media_step (frame_samples rate) mtu) (0, 0) log = Some (sequence, timestamp))"

lemma over_finished:
  assumes "over_view v" and "v' = v_log (if fst (snd (snd (snd (snd v)))) then [Ev_Close] else []) v"
  shows "finished_view (if fst (snd v) then v_held False (v_log [Ev_Release b] v') else v')"
proof -
  obtain q where "run source_lease_step Lease_Free (fst v) = Some q"
    and "if fst (snd v) then q \<noteq> Lease_Free else q \<noteq> Lease_Held" and "sound_view v"
    using assms(1) by (auto simp: over_view_def)
  then show ?thesis
    using assms(2)
    by (cases v; cases q)
      (auto simp: finished_view_def sound_view_def v_log_def v_held_def run_append split: if_splits)
qed

lemma finished_session:
  assumes "over_view (view s)"
  shows "finished_view (view (PcmFinish (logged_pcm env) s))"
proof -
  define s1 where "s1 = close_signaling (logged_pcm env) (on_result UpdateDurationTelemetry s)"
  have v: "view s1 = v_log (if sr_signaling_opened (xr_base (ps_result s)) then [Ev_Close] else []) (view s)"
  proof -
    have "view (on_result UpdateDurationTelemetry s) = view s" by simp
    moreover have "sr_signaling_opened (xr_base (ps_result (on_result UpdateDurationTelemetry s))) =
        sr_signaling_opened (xr_base (ps_result s))"
      by (simp add: on_result_def UpdateDurationTelemetry_def Let_def)
    ultimately show ?thesis by (simp only: s1_def view_close_signaling)
  qed
  have "view (PcmFinish (logged_pcm env) s) = view (release_lease (logged_pcm env) s1)"
    by (simp add: PcmFinish_def s1_def result_view_def)
  moreover have "sr_signaling_opened (xr_base (ps_result s)) = fst (snd (snd (snd (snd (view s)))))"
    and "xr_consumer_lease_held (ps_result s1) = fst (snd (view s1))"
    by (simp_all add: view_def result_view_def Let_def)
  moreover have "fst (snd (view s1)) = fst (snd (view s))" by (simp add: v v_log_def split_def)
  ultimately show ?thesis
    using over_finished [OF assms, of "view s1"
        "fst (fst (sc_Release (pe_source env) (fst (ps_world s1))))"] v
    by (simp add: view_release_lease)
qed

lemma run_counted:
  "run source_lease_step q (filter counted_event es) = run source_lease_step q es"
  "run signaling_step b (filter counted_event es) = run signaling_step b es"
  "run (media_step n m) p (filter counted_event es) = run (media_step n m) p es"
proof -
  have skip: "run step q (filter counted_event es) = run step q es"
    if "\<And>q e. \<not> counted_event e \<Longrightarrow> step q e = Some q" for step :: "'q \<Rightarrow> pcm_event \<Rightarrow> 'q option" and q
    using that by (induction es arbitrary: q) (auto split: option.splits)
  have signal: "\<not> counted_event e \<Longrightarrow> \<exists>s. e = Ev_Signal s" for e
    by (cases e) simp_all
  show "run source_lease_step q (filter counted_event es) = run source_lease_step q es"
    by (rule skip) (auto dest: signal)
  show "run signaling_step b (filter counted_event es) = run signaling_step b es"
    by (rule skip) (auto dest: signal)
  show "run (media_step n m) p (filter counted_event es) = run (media_step n m) p es"
    by (rule skip) (auto dest!: signal)
qed

lemma finished_run:
  fixes env :: "('h, 'w) pcm_environment"
  assumes "RunV1TransportPcmBurstOnce (logged_pcm env) options (w, []) = Some (r, w', calls)"
  shows "\<not> xr_consumer_lease_held r" (is ?lease)
    and "run source_lease_step Lease_Free calls \<in> {Some Lease_Free, Some Lease_Refused}" (is ?free)
    and "run signaling_step False calls = Some False" (is ?closed)
    and "run (media_step (frame_samples (xf_sample_rate_hz (xr_pcm_format r)))
      (sr_outgoing_mtu (xr_base r))) (0, 0) calls \<noteq> None" (is ?media)
proof -
  define begun where "begun = now (logged_pcm env) (initial_session (initial_pcm_result options) (w, []))"
  define s where "s = snd begun"
  define start where "start = fst begun"
  have s: "view s = ([], False, 0, 0, False, 0, 0, None)"
    by (simp add: s_def begun_def) (simp add: view_def world_log_def initial_session_def initial_pcm_result_def
        V1TransportPcmResult_default_def V1TransportPcmFormat_default_def
        V1TransportSilenceResult_default_def result_view_def)
  have pre: "pre_view Lease_Free False (view s)" and fresh: "finished_view (view s)"
    by (simp_all add: s pre_view_def finished_view_def)
  have "\<exists>s' :: ('h, 'w \<times> pcm_event list) pcm_session. finished_view (view s') \<and> r = ps_result s' \<and> (w', calls) = ps_world s'"
  proof (cases "\<not> pcm_options_valid options (pe_stop_probe (logged_pcm env) \<noteq> None) \<or>
      ChannelModeCapability (xo_channel_mode options) = 0")
    case True
    then show ?thesis
      using assms fresh
      by (auto simp: RunV1TransportPcmBurstOnce_def begun_def [symmetric] s_def [symmetric] split_def intro!: exI [of _ s])
  next
    case False
    then obtain s1 where b: "pcm_session_body (logged_pcm env) options start s = Some s1"
      and "(r, w', calls) = (let s3 = destroy_encoder (logged_pcm env) (PcmFinish (logged_pcm env) s1)
        in (ps_result s3, ps_world s3))"
      using assms
      by (auto simp: RunV1TransportPcmBurstOnce_def begun_def [symmetric] s_def [symmetric]
          start_def [symmetric] split_def
          Let_def bind_eq_Some_conv)
    moreover have "finished_view (view (destroy_encoder (logged_pcm env) (PcmFinish (logged_pcm env) s1)))"
      using finished_session [OF over_session_body [OF b pre]] by simp
    ultimately show ?thesis
      by (intro exI [of _ "destroy_encoder (logged_pcm env) (PcmFinish (logged_pcm env) s1)"])
        (simp add: Let_def)
  qed
  then obtain s' :: "('h, 'w \<times> pcm_event list) pcm_session" where "finished_view (view s')" "r = ps_result s'" "(w', calls) = ps_world s'" by blast
  then have "finished_view (filter counted_event calls, xr_consumer_lease_held r,
      xf_sample_rate_hz (xr_pcm_format r), sr_outgoing_mtu (xr_base r), sr_signaling_opened (xr_base r),
      ps_sequence s', ps_timestamp s', map_option en_sample_rate_hz (ps_encoder s'))"
    by (cases "ps_world s'") (simp add: view_def result_view_def world_log_def Let_def)
  then show ?lease and ?free and ?closed and ?media
    by (auto simp: finished_view_def run_counted)
qed

section \<open>The silence ends\<close>

lemma boundary_loop_returns:
  assumes "flush \<le> 64" and "128 dvd unat target" and "128 dvd unat generated"
  shows "\<exists>y. boundary_loop env options graceful samples target generated pending flush s = Some y"
  using assms
proof (induction "(65 - unat flush) * 2 ^ 64 + (unat target - unat generated)"
    arbitrary: generated pending flush s rule: less_induct)
  case less
  define padding where "padding \<longleftrightarrow> generated \<ge> target"
  define flush1 where "flush1 = (if padding then flush + 1 else flush)"
  have flush: "unat flush \<le> 64" using less.prems(1) by (simp add: word_le_nat_alt)
  have flush1: "unat flush1 = (if padding then unat flush + 1 else unat flush)"
    using flush by (simp add: flush1_def unat_word_ariths)
  have "(128 :: nat) dvd 2 ^ 64" by simp
  then have aligned: "128 dvd unat (generated + 128)"
    using less.prems(3) by (simp add: unat_word_ariths dvd_mod)
  have next_turn: "\<exists>y. boundary_loop env options graceful samples target (generated + 128) pending' flush1 s' =
      Some y" if "flush1 \<le> 64" for pending' s'
  proof (rule less.hyps [OF _ that less.prems(2) aligned])
    show "(65 - unat flush1) * 2 ^ 64 + (unat target - unat (generated + 128))
        < (65 - unat flush) * 2 ^ 64 + (unat target - unat generated)"
    proof (cases padding)
      case True
      have "(65 - unat flush1) * 2 ^ 64 + 2 ^ 64 = (65 - unat flush) * (2 :: nat) ^ 64"
        using flush1 True flush by (simp add: Suc_diff_le algebra_simps flip: mult_Suc)
      moreover have "unat target - unat (generated + 128) < 2 ^ 64"
        using unat_lt_u64 [of target] by simp
      ultimately show ?thesis by linarith
    next
      case False
      then have less: "unat generated < unat target" by (simp add: padding_def word_less_nat_alt not_le)
      obtain a b where ab: "unat target = 128 * a" "unat generated = 128 * b"
        using less.prems(2,3) by (elim dvdE)
      have "b + 1 \<le> a" using less ab by simp
      moreover have "128 * a < 2 ^ 64" using unat_lt_u64 [of target] ab by simp
      ultimately have "unat (generated + 128) = unat generated + 128"
        using ab by (simp add: unat_word_ariths)
      then show ?thesis using False less flush1 by simp
    qed
  qed
  moreover have "\<not> padding \<Longrightarrow> flush1 \<le> 64" using less.prems(1) by (simp add: flush1_def)
  ultimately show ?case
    by (subst boundary_loop.simps)
      (auto simp: Let_def split_def padding_def [symmetric] flush1_def [symmetric] not_less)
qed

section \<open>The transfers of an exchange\<close>

definition transfers :: "('h, 'w \<times> pcm_event list) pcm_session \<Rightarrow> nat" where
  "transfers s = length (filter (\<lambda>e. \<not> counted_event e) (snd (ps_world s)))"

lemma transfers_kept [simp]:
  "transfers (on_result f s) = transfers s" "transfers (on_base g s) = transfers s"
  "transfers (protocol_failure e st s) = transfers s" "transfers (backend_failure n st s) = transfers s"
  "transfers (s\<lparr>ps_avdtp := a\<rparr>) = transfers s"
  "transfers (snd (ask (unlogged call) s)) = transfers s"
  by (simp_all add: transfers_def on_base_def on_result_def protocol_failure_def backend_failure_def
      ask_def Let_def split_def)

lemma transfers_probe [simp]:
  "transfers (snd (ProbeStop (logged_pcm env) s)) = transfers s"
  "transfers (snd (StopIsCancel (logged_pcm env) s)) = transfers s"
  "transfers (snd (now (logged_pcm env) s)) = transfers s"
  by (simp_all add: ProbeStop_def StopIsCancel_def now_def split_def Let_def split: option.splits)

lemma transfers_one:
  "transfers (snd (transfer (logged_pcm env) options stage c deadline q first s)) \<le> transfers s + 1"
proof -
  have ask: "transfers (snd (ask (logged (\<lambda>_. [Ev_Signal q]) call) s)) = transfers s + 1" for call s
    by (simp add: transfers_def ask_def Let_def split_def)
  show ?thesis by (simp add: transfer_def ask Let_def split_def)
qed

lemma transfers_loop:
  "env' = logged_pcm env \<Longrightarrow>
     transfers (snd (exchange_loop env' options stage c deadline q first s)) \<le>
       transfers s + 1 + unanswered (xr_base (ps_result s))"
proof (induction env' options stage c deadline q first s rule: exchange_loop.induct)
  case (1 env' options stage c deadline q first s)
  obtain response s1 where t: "transfer env' options stage c deadline q first s = (response, s1)"
    by (rule prod.exhaust)
  have one: "transfers s1 \<le> transfers s + 1"
    using transfers_one [of env options stage c deadline q first s] t 1(2) by simp
  show ?case
  proof (cases response)
    case None
    then show ?thesis using t one by (subst exchange_loop.simps) simp
  next
    case (Some packet)
    obtain status header where h: "avdtp_parse_header packet avdtp_header_zero = (status, header)"
      by (rule prod.exhaust)
    define s2 where "s2 = on_base (rx_header (status = AVDTP_OK) header packet) s1"
    define counted where "counted = (xr_base (ps_result s2))
      \<lparr>sr_peer_signaling_commands_received :=
         sr_peer_signaling_commands_received (xr_base (ps_result s2)) + 1\<rparr>"
    obtain reply r where a: "answer_peer (ps_avdtp s2) header packet counted = (reply, r)"
      by (rule prod.exhaust)
    define s3 where "s3 = on_base (\<lambda>_. r) s2"
    have kept: "transfers s3 = transfers s1" "transfers s2 = transfers s1"
      by (simp_all add: s3_def s2_def)
    show ?thesis
    proof (cases "status = AVDTP_OK \<and> ah_message_type header = AVDTP_MESSAGE_COMMAND \<and> reply \<noteq> []")
      case True
      have "unanswered r < unanswered counted" using answered [OF a] True by blast
      also have "\<dots> = unanswered (xr_base (ps_result s))"
        using unanswered_transfer [OF t [unfolded Some]] by (simp add: counted_def s2_def)
      finally have "unanswered (xr_base (ps_result s3)) < unanswered (xr_base (ps_result s))"
        by (simp add: s3_def)
      moreover have "transfers (snd (exchange_loop env' options stage c deadline reply False s3)) \<le>
          transfers s3 + 1 + unanswered (xr_base (ps_result s3))"
        using 1(1) [OF t [symmetric] Some refl h [symmetric] refl s2_def _ counted_def refl a [symmetric] s3_def] 1(2) True
        by simp
      ultimately show ?thesis
        using True t Some h a one kept
        by (subst exchange_loop.simps) (simp add: s2_def counted_def s3_def Let_def)
    next
      case False
      then show ?thesis
        using t Some h a one kept
        by (subst exchange_loop.simps)
          (auto simp: s2_def counted_def s3_def Let_def)
    qed
  qed
qed

section \<open>Properties\<close>

text \<open>C8: What a PCM session acquires it gives back.  Whatever the backend, the source, the LDAC library and
  the probe answer, and whichever of its ways out it takes, a session that returns has prepared the source
  only while it had no lease and none was refused, and released it only when it had one; at the end the
  lease is free, or its release has been tried and the source has refused it.  The signalling channel is
  opened at most once at a time, closed only when it is open, and closed at the end.\<close>

lemma pcm_session_gives_back:
  "case RunV1TransportPcmBurstOnce (logged_pcm env) options (w, []) of
     None \<Rightarrow> True
   | Some (r, w', calls) \<Rightarrow> \<not> xr_consumer_lease_held r \<and>
       run source_lease_step Lease_Free calls \<in> {Some Lease_Free, Some Lease_Refused} \<and>
       run signaling_step False calls = Some False"
  by (auto split: option.split dest: finished_run)

text \<open>C7: The media packets the backend has accepted during a session form one RTP stream, through all the
  pauses, rebindings, timeouts and retries: each has the payload type and the SSRC, the sequence number
  after the one of its predecessor and the timestamp of the samples sent before it, where a transport
  frame is 256 samples from 88.2 kHz on and 128 below; it holds between 1 and 31 transport frames and fits
  the MTU of the channel.\<close>

lemma pcm_media_in_sequence:
  "case RunV1TransportPcmBurstOnce (logged_pcm env) options (w, []) of
     None \<Rightarrow> True
   | Some (r, w', calls) \<Rightarrow>
       run (media_step (frame_samples (xf_sample_rate_hz (xr_pcm_format r))) (sr_outgoing_mtu (xr_base r)))
         (0, 0) calls \<noteq> None"
  by (auto split: option.split dest: finished_run(4))

text \<open>C9: The silence at a boundary always comes to its end: whatever duration is asked for, whatever the
  encoder, the source and the backend answer, \<open>SendBoundarySilence\<close> returns; the blocks of silence are
  as many as the duration needs, and at most 64 more flush the encoder.\<close>

lemma boundary_silence_returns:
  "SendBoundarySilence env options duration_ms graceful s \<noteq> None"
proof -
  have aligned: "128 dvd unat (x div 128 * 128)" for x :: u64
  proof -
    have "unat (x div 128) * 128 \<le> unat x" by (simp add: unat_div)
    then have "unat (x div 128 * 128) = unat (x div 128) * 128"
      using unat_lt_u64 [of x] by (simp add: unat_word_ariths)
    then show ?thesis by simp
  qed
  have "boundary_loop env options graceful samples (x div 128 * 128) 0 0 0 s \<noteq> None" for samples x
    using boundary_loop_returns [OF _ aligned, of 0 0 env options graceful samples x 0 s] by auto
  then show ?thesis by (simp add: SendBoundarySilence_def Let_def del: not_None_eq)
qed

text \<open>One exchange of signalling is bounded whatever the headset sends in place of its response: it
  makes at most four transfers, the command and one reply to each of the three commands of the headset
  the program answers.\<close>

lemma exchange_bounded:
  "transfers (snd (Exchange (logged_pcm env) options action stage cancel_only s)) \<le> transfers s + 4"
proof -
  define stopped where "stopped = ProbeStop (logged_pcm env) s"
  define sent where "sent = on_base (\<lambda>r. (if fst (avdtp_parse_header (aa_packet action) avdtp_header_zero) = AVDTP_OK
      then tx_header (snd (avdtp_parse_header (aa_packet action) avdtp_header_zero)) (clear_headers r)
      else clear_headers r)\<lparr>sr_stage := stage\<rparr>) (snd stopped)"
  define begun where "begun = now (logged_pcm env) sent"
  define x where "x = exchange_loop (logged_pcm env) options stage cancel_only
    (fst begun + 1000000 * int (unat (xo_exchange_timeout_ms options))) (aa_packet action) True (snd begun)"
  have "transfers (snd begun) = transfers s"
    by (simp add: begun_def sent_def stopped_def)
  moreover have "unanswered (xr_base (ps_result (snd begun))) \<le> 3" by (simp add: unanswered_def)
  moreover have "transfers (snd x) \<le> transfers (snd begun) + 1 + unanswered (xr_base (ps_result (snd begun)))"
    unfolding x_def by (rule transfers_loop) simp
  ultimately have x: "transfers (snd x) \<le> transfers s + 4" by linarith
  have "Exchange (logged_pcm env) options action stage cancel_only s =
    (if aa_kind action \<noteq> AVDTP_ACTION_SEND_SIGNALING \<or>
        (if cancel_only then fst stopped = Stop_Cancel else fst stopped \<noteq> Stop_None)
     then (None, on_result (PcmSetFailure (if fst stopped \<noteq> Stop_None then Configuration_Cancelled
       else Configuration_ProtocolFailure) stage) (snd stopped))
     else case x of (None, s4) \<Rightarrow> (None, s4)
       | (Some response, s4) \<Rightarrow>
         let (source1, next_action) = avdtp_source_handle_signaling (ps_avdtp s4) response;
             s5 = s4\<lparr>ps_avdtp := source1\<rparr>
         in if aa_kind next_action = AVDTP_ACTION_ERROR
            then (None, protocol_failure (aa_error_code next_action) stage s5)
            else (Some next_action, s5))"
    unfolding Exchange_def stopped_def x_def begun_def sent_def Let_def split_def ..
  then show ?thesis
    using x by (simp add: stopped_def split_def Let_def split: option.splits)
qed

end
