(* ===== verification/Pcm_Source_Adapter.thy ===== *)
theory Pcm_Source_Adapter
  imports Native_Pcm_Source Pcm_Data
begin

text \<open>
  The PCM source of a session over the client of the audio endpoint,
  \<open>agent/v1_transport_pcm_source_adapter.cpp\<close>.  The events, the performance counter and the identity of
  the process are a record of functions beside the device; a wait reports its outcome.
\<close>

abbreviation (input) "ERROR_SUCCESS \<equiv> (0 :: u32)"
abbreviation (input) "ERROR_NO_DATA \<equiv> (232 :: u32)"
abbreviation (input) "ERROR_CANCELLED \<equiv> (1223 :: u32)"
abbreviation (input) "ERROR_INVALID_STATE \<equiv> (5023 :: u32)"

datatype wait_outcome = Wait_Signaled | Wait_TimedOut | Wait_Failed u32

record 'w source_environment =
  se_device :: "'w native_device"
  se_gain_ready :: "('w \<Rightarrow> bool \<times> 'w) option"
  se_wait_stop :: "u32 \<Rightarrow> 'w \<Rightarrow> wait_outcome \<times> 'w"
  se_wait_cancel :: "(u32 \<Rightarrow> 'w \<Rightarrow> wait_outcome \<times> 'w) option"
  se_performance_frequency :: "'w \<Rightarrow> (int + u32) \<times> 'w"
  se_performance_counter :: "'w \<Rightarrow> (int + u32) \<times> 'w"
  se_process_id :: u32
  se_switch_to_thread :: "'w \<Rightarrow> 'w"

record V1TransportNativePcmSource =
  na_source :: "native_pcm_source option"
  na_pacing_start :: int
  na_pacing_frequency :: int
  na_pacing_frame_base :: u64
  na_pacing_started :: bool
  na_lease_acquired :: bool
  na_apply_endpoint_volume :: bool
  na_requested_sample_rate_hz :: u32
  na_requested_bits_per_sample :: u32

definition V1TransportNativePcmSource_new :: "bool \<Rightarrow> u32 \<Rightarrow> u32 \<Rightarrow> V1TransportNativePcmSource" where
  "V1TransportNativePcmSource_new apply_endpoint_volume sample_rate_hz bits_per_sample =
     \<lparr>na_source = None, na_pacing_start = 0, na_pacing_frequency = 0, na_pacing_frame_base = 0,
      na_pacing_started = False, na_lease_acquired = False,
      na_apply_endpoint_volume = apply_endpoint_volume,
      na_requested_sample_rate_hz = sample_rate_hz, na_requested_bits_per_sample = bits_per_sample\<rparr>"

type_synonym 'w adapter = "V1TransportNativePcmSource \<times> 'w"

text \<open>A call of the client on the source that is held, and its last error.\<close>

definition on_source ::
  "('w native_state \<Rightarrow> 'a \<times> 'w native_state) \<Rightarrow> native_pcm_source \<Rightarrow> 'w adapter \<Rightarrow> 'a \<times> 'w adapter" where
  "on_source call source = (\<lambda>(s, w).
     let (answer, source1, w1) = call (source, w) in (answer, s\<lparr>na_source := Some source1\<rparr>, w1))"

definition source_error :: "'w adapter \<Rightarrow> u32" where
  "source_error a = (case na_source (fst a) of None \<Rightarrow> 87 | Some source \<Rightarrow> np_last_error source)"

definition format_of_snapshot :: "native_pcm_source_snapshot \<Rightarrow> V1TransportPcmFormat" where
  "format_of_snapshot snapshot =
     \<lparr>xf_sample_rate_hz = nn_sample_rate_hz snapshot, xf_bits_per_sample = nn_bits_per_sample snapshot,
      xf_stream_epoch = nn_stream_epoch snapshot,
      xf_volume_control_available = nn_volume_control_available snapshot,
      xf_muted = nn_muted snapshot, xf_volume_scalar = nn_volume_scalar snapshot,
      xf_volume_db = nn_volume_db snapshot\<rparr>"

definition CopyNativeSnapshot :: "native_pcm_source_snapshot \<Rightarrow> V1TransportPcmSnapshot" where
  "CopyNativeSnapshot snapshot =
     \<lparr>xs_format = format_of_snapshot snapshot, xs_available_bytes = nn_available_bytes snapshot,
      xs_capacity_bytes = nn_capacity_bytes snapshot, xs_stream_active = nn_stream_active snapshot,
      xs_discontinuity = nn_discontinuity snapshot,
      xs_total_bytes_written = nn_total_bytes_written snapshot,
      xs_total_bytes_read = nn_total_bytes_read snapshot,
      xs_total_bytes_dropped = nn_total_bytes_dropped snapshot\<rparr>"

definition RefreshEndpointVolumePolicy :: "'w source_environment \<Rightarrow> 'w adapter \<Rightarrow> 'w adapter" where
  "RefreshEndpointVolumePolicy env = (\<lambda>(s, w).
     case se_gain_ready env of
       None \<Rightarrow> (s, w)
     | Some ready \<Rightarrow>
         let (signaled, w1) = ready w
         in (s\<lparr>na_apply_endpoint_volume := \<not> signaled,
               na_source := map_option
                 (native_pcm_source_set_apply_endpoint_volume (\<not> signaled)) (na_source s)\<rparr>, w1))"

section \<open>Release and the queries\<close>

definition destroy_source :: "'w source_environment \<Rightarrow> 'w adapter \<Rightarrow> 'w adapter" where
  "destroy_source env = (\<lambda>(s, w).
     case na_source s of
       None \<Rightarrow> (s, w)
     | Some source \<Rightarrow>
         (s\<lparr>na_source := None\<rparr>, native_pcm_source_destroy (se_device env) (source, w)))"

text \<open>The name of the method of the class; \<open>Release\<close> of a session calls it through the interface.\<close>

definition AdapterRelease :: "'w source_environment \<Rightarrow> 'w adapter \<Rightarrow> (bool \<times> u32) \<times> 'w adapter" where
  "AdapterRelease env a =
     (case na_source (fst a) of
        None \<Rightarrow> ((True, ERROR_SUCCESS), a)
      | Some source \<Rightarrow>
          let (status, a1) =
                (if na_lease_acquired (fst a)
                 then on_source (native_pcm_source_release_consumer (se_device env)) source a
                 else (NATIVE_PCM_SOURCE_OK, a));
              released = (status = NATIVE_PCM_SOURCE_OK);
              error = (if released then ERROR_SUCCESS else source_error a1);
              (s2, w2) = destroy_source env (fst a1\<lparr>na_lease_acquired := False\<rparr>, snd a1)
          in ((released, error), s2\<lparr>na_pacing_started := False, na_pacing_frame_base := 0\<rparr>, w2))"

definition AdapterQuerySnapshot ::
  "'w source_environment \<Rightarrow> 'w adapter \<Rightarrow> (V1TransportPcmSnapshot option \<times> u32) \<times> 'w adapter" where
  "AdapterQuerySnapshot env a =
     (case na_source (fst a) of
        None \<Rightarrow> ((None, ERROR_INVALID_STATE), a)
      | Some source \<Rightarrow>
          if \<not> na_lease_acquired (fst a) then ((None, ERROR_INVALID_STATE), a)
          else
            case on_source (native_pcm_source_get_snapshot (se_device env)) source a of
              (Inl status, a1) \<Rightarrow> ((None, source_error a1), a1)
            | (Inr snapshot, a1) \<Rightarrow> ((Some (CopyNativeSnapshot snapshot), ERROR_SUCCESS), a1))"

definition AdapterQueryFormat ::
  "'w source_environment \<Rightarrow> 'w adapter \<Rightarrow> (V1TransportPcmFormat option \<times> u32) \<times> 'w adapter" where
  "AdapterQueryFormat env a =
     (let ((snapshot, error), a1) = AdapterQuerySnapshot env a
      in ((map_option xs_format snapshot, error), a1))"

section \<open>Preparation\<close>

text \<open>A failure of \<open>Prepare\<close> destroys the source; the error is taken before.\<close>

definition give_up :: "'w source_environment \<Rightarrow> u32 \<Rightarrow> 'w adapter \<Rightarrow> (V1TransportPcmFormat + u32) \<times> 'w adapter" where
  "give_up env error a = (Inr error, destroy_source env a)"

text \<open>The request of the format; \<^const>\<open>None\<close> if it succeeded.\<close>

definition request_format :: "'w source_environment \<Rightarrow> 'w adapter \<Rightarrow> u32 option \<times> 'w adapter" where
  "request_format env a =
     (let dev = se_device env; rate = na_requested_sample_rate_hz (fst a);
          bits = na_requested_bits_per_sample (fst a)
      in case na_source (fst a) of
           None \<Rightarrow> (None, a)
         | Some source \<Rightarrow>
             case on_source (native_pcm_source_get_snapshot dev) source a of
               (Inl status, a1) \<Rightarrow> (Some (source_error a1), a1)
             | (Inr snapshot, a1) \<Rightarrow>
                 (case on_source (native_pcm_source_get_preferred_format dev) (the (na_source (fst a1))) a1 of
                    (Inl status, a2) \<Rightarrow> (Some (source_error a2), a2)
                  | (Inr before, a2) \<Rightarrow>
                      let (reset, a3) =
                            (if nn_stream_active snapshot \<and>
                                (nn_sample_rate_hz snapshot \<noteq> rate \<or> nn_bits_per_sample snapshot \<noteq> bits) \<and>
                                nf_sample_rate_hz before = rate \<and> nf_bits_per_sample before = bits
                             then
                               let (answer, a3) =
                                     on_source
                                       (native_pcm_source_set_preferred_format dev
                                         (nn_sample_rate_hz snapshot) (nn_bits_per_sample snapshot))
                                       (the (na_source (fst a2))) a2
                               in (\<not> isl answer, a3)
                             else (True, a2))
                      in if \<not> reset then (Some (source_error a3), a3)
                         else
                           case on_source (native_pcm_source_set_preferred_format dev rate bits)
                                  (the (na_source (fst a3))) a3 of
                             (Inl status, a4) \<Rightarrow> (Some (source_error a4), a4)
                           | (Inr applied, a4) \<Rightarrow>
                               (if nf_sample_rate_hz applied \<noteq> rate \<or> nf_bits_per_sample applied \<noteq> bits
                                then Some (source_error a4) else None, a4)))"

text \<open>The wait for an active stream: the snapshot of the stream or the error.\<close>

partial_function (option) await_stream ::
  "'w source_environment \<Rightarrow> u64 \<Rightarrow> 'w adapter \<Rightarrow>
   ((native_pcm_source_snapshot + u32) \<times> 'w adapter) option" where
  "await_stream env deadline a =
     (case na_source (fst a) of
        None \<Rightarrow> Some (Inr ERROR_NOT_FOUND, a)
      | Some source \<Rightarrow>
          case on_source (native_pcm_source_get_snapshot (se_device env)) source a of
            (Inl status, a1) \<Rightarrow> Some (Inr (source_error a1), a1)
          | (Inr snapshot, a1) \<Rightarrow>
              if nn_stream_active snapshot \<and>
                 (na_requested_sample_rate_hz (fst a1) = 0 \<or>
                  (nn_sample_rate_hz snapshot = na_requested_sample_rate_hz (fst a1) \<and>
                   nn_bits_per_sample snapshot = na_requested_bits_per_sample (fst a1)))
              then Some (Inl snapshot, a1)
              else
                let (time, w2) = nd_tick (se_device env) (snd a1)
                in if time \<ge> deadline then Some (Inr WAIT_TIMEOUT_ERROR, fst a1, w2)
                   else
                     case se_wait_stop env (ucast (min (deadline - time) 25)) w2 of
                       (Wait_Signaled, w3) \<Rightarrow> Some (Inr ERROR_CANCELLED, fst a1, w3)
                     | (Wait_Failed error, w3) \<Rightarrow> Some (Inr error, fst a1, w3)
                     | (Wait_TimedOut, w3) \<Rightarrow> await_stream env deadline (fst a1, w3))"

text \<open>The lease and the frequency of the performance counter, after the stream is active.\<close>

definition acquire_lease ::
  "'w source_environment \<Rightarrow> native_pcm_source_snapshot \<Rightarrow> 'w adapter \<Rightarrow>
   (V1TransportPcmFormat + u32) \<times> 'w adapter" where
  "acquire_lease env snapshot a =
     (let (time, w1) = nd_tick (se_device env) (snd a);
          generation = push_bit 32 (ucast (se_process_id env)) OR (time AND 0xFFFFFFFF);
          (status, a2) =
            (case na_source (fst a) of
               None \<Rightarrow> (NATIVE_PCM_SOURCE_INVALID_ARGUMENT, fst a, w1)
             | Some source \<Rightarrow>
                 on_source (native_pcm_source_acquire_consumer (se_device env) generation) source
                   (fst a, w1))
      in if status \<noteq> NATIVE_PCM_SOURCE_OK then give_up env (source_error a2) a2
         else
           let s3 = (fst a2)\<lparr>na_lease_acquired := True\<rparr>
           in case se_performance_frequency env (snd a2) of
                (Inr error, w3) \<Rightarrow> (Inr error, snd (AdapterRelease env (s3, w3)))
              | (Inl frequency, w3) \<Rightarrow>
                  (Inl (format_of_snapshot snapshot), s3\<lparr>na_pacing_frequency := frequency\<rparr>, w3))"

definition AdapterPrepare ::
  "'w source_environment \<Rightarrow> u32 \<Rightarrow> 'w adapter \<Rightarrow> ((V1TransportPcmFormat + u32) \<times> 'w adapter) option" where
  "AdapterPrepare env timeout_ms a =
     (if timeout_ms = 0 \<or> na_source (fst a) \<noteq> None then Some (Inr ERROR_INVALID_STATE, a)
      else
        let (status, created, w1) = native_pcm_source_create (se_device env) (snd a)
        in case created of
             None \<Rightarrow> Some (Inr ERROR_NOT_FOUND, fst a, w1)
           | Some source \<Rightarrow>
               let (s2, w2) = RefreshEndpointVolumePolicy env ((fst a)\<lparr>na_source := Some source\<rparr>, w1);
                   s3 = s2\<lparr>na_source := map_option
                          (native_pcm_source_set_apply_endpoint_volume (na_apply_endpoint_volume s2))
                          (na_source s2)\<rparr>;
                   (error, a4) =
                     (if na_requested_sample_rate_hz s3 \<noteq> 0 \<and> na_requested_bits_per_sample s3 \<noteq> 0
                      then request_format env (s3, w2) else (None, s3, w2))
               in case error of
                    Some error \<Rightarrow> Some (give_up env error a4)
                  | None \<Rightarrow>
                      let (time, w5) = nd_tick (se_device env) (snd a4)
                      in do {
                           (answer, a6) \<leftarrow> await_stream env (time + ucast timeout_ms) (fst a4, w5);
                           Some (case answer of
                                   Inr error \<Rightarrow> give_up env error a6
                                 | Inl snapshot \<Rightarrow> acquire_lease env snapshot a6)
                         })"

section \<open>Reading and pacing\<close>

definition AdapterReadFrames ::
  "'w source_environment \<Rightarrow> nat \<Rightarrow> u32 \<Rightarrow> 'w adapter \<Rightarrow>
   ((V1TransportPcmReadDisposition \<times> ieee list \<times> u32) \<times> 'w adapter) option" where
  "AdapterReadFrames env requested_frames timeout_ms a =
     (if na_source (fst a) = None \<or> \<not> na_lease_acquired (fst a)
      then Some ((PcmRead_Failure, [], ERROR_INVALID_STATE), a)
      else
        let a1 = RefreshEndpointVolumePolicy env a
        in do {
             (status, samples, source, w2) \<leftarrow>
               native_pcm_source_read_f32_stereo (se_device env) requested_frames timeout_ms
                 (the (na_source (fst a1)), snd a1);
             let a2 = ((fst a1)\<lparr>na_source := Some source\<rparr>, w2);
             Some
               (if status = NATIVE_PCM_SOURCE_OK then ((PcmRead_Data, samples, ERROR_SUCCESS), a2)
                else if status = NATIVE_PCM_SOURCE_TIMEOUT
                then
                  let ((snapshot, error), a3) = AdapterQuerySnapshot env a2
                  in if (case snapshot of None \<Rightarrow> False | Some s \<Rightarrow> \<not> xs_stream_active s)
                     then ((PcmRead_StreamStopped, [], ERROR_NO_DATA), a3)
                     else ((PcmRead_Timeout, [], WAIT_TIMEOUT_ERROR), a3)
                else ((PcmRead_Failure, [], source_error a2), a2))
           })"

text \<open>The wait until the counter has reached the target; a wait of at most 1 ms yields the thread.\<close>

partial_function (option) pacing_loop ::
  "'w source_environment \<Rightarrow> int \<Rightarrow> int \<Rightarrow> 'w \<Rightarrow> ((bool \<times> u32) \<times> 'w) option" where
  "pacing_loop env frequency target w =
     (let (cancelled, w1) =
            (case se_wait_cancel env of
               None \<Rightarrow> (False, w)
             | Some wait \<Rightarrow> (case wait 0 w of (outcome, w1) \<Rightarrow> (outcome = Wait_Signaled, w1)))
      in if cancelled then Some ((False, ERROR_CANCELLED), w1)
         else
           case se_performance_counter env w1 of
             (Inr error, w2) \<Rightarrow> Some ((False, error), w2)
           | (Inl counter, w2) \<Rightarrow>
               let remaining = target - counter;
                   wait_ms = (of_int (remaining * 1000 div frequency) :: u32)
               in if remaining \<le> 0 then Some ((True, ERROR_SUCCESS), w2)
                  else
                    case se_wait_cancel env of
                      None \<Rightarrow> pacing_loop env frequency target (se_switch_to_thread env w2)
                    | Some wait \<Rightarrow>
                        if wait_ms > 1
                        then
                          case wait (wait_ms - 1) w2 of
                            (Wait_Signaled, w3) \<Rightarrow> Some ((False, ERROR_CANCELLED), w3)
                          | (Wait_Failed error, w3) \<Rightarrow> Some ((False, error), w3)
                          | (Wait_TimedOut, w3) \<Rightarrow> pacing_loop env frequency target w3
                        else pacing_loop env frequency target (se_switch_to_thread env w2))"

definition AdapterWaitUntilSample ::
  "'w source_environment \<Rightarrow> u64 \<Rightarrow> u32 \<Rightarrow> 'w adapter \<Rightarrow> ((bool \<times> u32) \<times> 'w adapter) option" where
  "AdapterWaitUntilSample env sample_offset sample_rate_hz = (\<lambda>(s, w).
     if na_source s = None \<or> sample_rate_hz = 0 \<or> na_pacing_frequency s \<le> 0
     then Some ((False, ERROR_INVALID_STATE), s, w)
     else
       let (error, s1, w1) =
             (if na_pacing_started s then (None, s, w)
              else
                case se_performance_counter env w of
                  (Inr error, w1) \<Rightarrow> (Some error, s, w1)
                | (Inl counter, w1) \<Rightarrow>
                    (None, s\<lparr>na_pacing_start := counter, na_pacing_frame_base := sample_offset,
                            na_pacing_started := True\<rparr>, w1))
       in case error of
            Some error \<Rightarrow> Some ((False, error), s1, w1)
          | None \<Rightarrow>
              if sample_offset < na_pacing_frame_base s1 then Some ((False, ERROR_INVALID_DATA), s1, w1)
              else
                let ticks = (sample_offset - na_pacing_frame_base s1) *
                      of_int (na_pacing_frequency s1) div ucast sample_rate_hz;
                    target = na_pacing_start s1 + sint ticks
                in do {
                     (answer, w2) \<leftarrow> pacing_loop env (na_pacing_frequency s1) target w1;
                     Some (answer, s1, w2)
                   })"

definition AdapterResetPacing :: "'w adapter \<Rightarrow> (bool \<times> u32) \<times> 'w adapter" where
  "AdapterResetPacing = (\<lambda>(s, w).
     if na_source s = None \<or> \<not> na_lease_acquired s then ((False, ERROR_INVALID_STATE), s, w)
     else ((True, ERROR_SUCCESS),
           s\<lparr>na_pacing_started := False, na_pacing_start := 0, na_pacing_frame_base := 0\<rparr>, w))"

end
