(* ===== verification/Pcm_Delivery.thy ===== *)
theory Pcm_Delivery
  imports Pcm_Source_Adapter
begin

text \<open>
  The client of the property interface together with the driver: a device whose queries run the handlers
  of \<^theory_text>\<open>Audio_Endpoint\<close> for one process, while the render stream pushes what it plays at every
  millisecond of sleep.  What the client delivers is then compared with what the stream played.  The
  bookkeeping of the adapter follows: the lease it believes to hold is the lease of its source.
\<close>

section \<open>The driver as a device\<close>

record driver_world =
  dw_miniport :: CMiniportWaveRT
  dw_tick :: u64

text \<open>The time of an interrupt is counted in units of 100 ns, the tick in milliseconds.\<close>

definition interrupt_time :: "driver_world \<Rightarrow> u64" where
  "interrupt_time w = dw_tick w * 10000"

definition get_request :: "u64 \<Rightarrow> u32 \<Rightarrow> property_request" where
  "get_request client value_size =
     \<lparr>rq_Verb = KSPROPERTY_TYPE_GET, rq_ValueSize = value_size, rq_Requestor = Some client\<rparr>"

definition set_request :: "u64 \<Rightarrow> u32 \<Rightarrow> property_request" where
  "set_request client value_size =
     \<lparr>rq_Verb = KSPROPERTY_TYPE_SET, rq_ValueSize = value_size, rq_Requestor = Some client\<rparr>"

text \<open>The answer of a handler as \<open>DeviceIoControl\<close> gives it; \<open>win32\<close> is the translation of a status.\<close>

fun query_answer :: "(ntstatus \<Rightarrow> u32) \<Rightarrow> 'v property_answer \<Rightarrow> 'v option + u32" where
  "query_answer win32 Delegated = Inr (win32 STATUS_INVALID_DEVICE_REQUEST)"
| "query_answer win32 (Answer status n v) = (if status = STATUS_SUCCESS then Inl v else Inr (win32 status))"

fun set_answer :: "(ntstatus \<Rightarrow> u32) \<Rightarrow> 'v property_answer \<Rightarrow> u32 option" where
  "set_answer win32 Delegated = Some (win32 STATUS_INVALID_DEVICE_REQUEST)"
| "set_answer win32 (Answer status n v) = (if status = STATUS_SUCCESS then None else Some (win32 status))"

text \<open>One millisecond: the stream pushes what it plays in it.\<close>

definition play_ms :: "(nat \<Rightarrow> bytes) \<Rightarrow> driver_world \<Rightarrow> driver_world" where
  "play_ms played w =
     w\<lparr>dw_miniport := PushPcm (played (unat (dw_tick w))) (dw_miniport w), dw_tick := dw_tick w + 1\<rparr>"

definition driver_device ::
  "u64 \<Rightarrow> (ntstatus \<Rightarrow> u32) \<Rightarrow> (ieee \<Rightarrow> ieee) \<Rightarrow> (bool \<times> ieee \<times> ieee) option \<Rightarrow> (nat \<Rightarrow> bytes) \<Rightarrow>
   driver_world native_device" where
  "driver_device client win32 pow10 volume played =
     \<lparr>nd_enumerate = (\<lambda>w. (Inl [Detail_Path 0], w)),
      nd_create_file = (\<lambda>path w. (None, w)),
      nd_close_handle = (\<lambda>w. w),
      nd_new = (\<lambda>w. (True, w)),
      nd_reserve = (\<lambda>n w. (True, w)),
      nd_query_info = (\<lambda>w.
        let (m, answer) = PropertyHandlerPcmInfo (get_request client 64) (dw_miniport w)
        in (query_answer win32 answer, w\<lparr>dw_miniport := m\<rparr>)),
      nd_query_read = (\<lambda>w.
        let (m, answer) =
              PropertyHandlerPcmRead (get_request client (72 + 4096)) (interrupt_time w) (dw_miniport w)
        in (query_answer win32 answer, w\<lparr>dw_miniport := m\<rparr>)),
      nd_query_link = (\<lambda>w.
        let (m, answer) =
              PropertyHandlerLinkState (get_request client sizeof_NATIVE_LDAC_LINK_STATE)
                (m_NativeLdacLinkState (m_pAdapterCommon (dw_miniport w)))
                (interrupt_time w) (interrupt_time w) (dw_miniport w)
        in (query_answer win32 answer, w\<lparr>dw_miniport := m\<rparr>)),
      nd_query_preferred = (\<lambda>w.
        let (m, answer, changed) =
              PropertyHandlerPreferredFormat (get_request client 32) PREFERRED_FORMAT_zero (dw_miniport w)
        in (query_answer win32 answer, w\<lparr>dw_miniport := m\<rparr>)),
      nd_set_lease = (\<lambda>lease w.
        let (m, answer) =
              PropertyHandlerPcmConsumerLease (set_request client 24) lease (interrupt_time w) (dw_miniport w)
        in (set_answer win32 answer, w\<lparr>dw_miniport := m\<rparr>)),
      nd_set_link = (\<lambda>state w.
        let (m, answer) =
              PropertyHandlerLinkState (set_request client sizeof_NATIVE_LDAC_LINK_STATE) state
                (interrupt_time w) (interrupt_time w) (dw_miniport w)
        in (set_answer win32 answer, w\<lparr>dw_miniport := m\<rparr>)),
      nd_set_preferred = (\<lambda>format w.
        let (m, answer, changed) =
              PropertyHandlerPreferredFormat (set_request client 32) format (dw_miniport w)
        in (set_answer win32 answer, w\<lparr>dw_miniport := m\<rparr>)),
      nd_bind_volume = (\<lambda>w. (volume \<noteq> None, w)),
      nd_query_volume = (\<lambda>w. (volume, w)),
      nd_release_volume = (\<lambda>w. w),
      nd_co_initialize = (\<lambda>w. ((True, False), w)),
      nd_tick = (\<lambda>w. (dw_tick w, w)),
      nd_sleep = (\<lambda>n w. (play_ms played ^^ n) w),
      nd_pow10 = pow10\<rparr>"

section \<open>Samples\<close>

text \<open>The samples of a stream of 16 or of 24 bits.\<close>

definition stream_samples :: "u16 \<Rightarrow> bytes \<Rightarrow> ieee list" where
  "stream_samples bits data = (if bits = 24 then samples_32 data else samples_16 data)"

definition sample_bytes :: "u16 \<Rightarrow> nat" where
  "sample_bytes bits = (if bits = 24 then 4 else 2)"

lemma samples_16_append: "even (length xs) \<Longrightarrow> samples_16 (xs @ ys) = samples_16 xs @ samples_16 ys"
  by (induction xs rule: samples_16.induct) auto

lemma samples_32_append:
  "length xs mod 4 = 0 \<Longrightarrow> samples_32 (xs @ ys) = samples_32 xs @ samples_32 ys"
proof (induction xs rule: samples_32.induct)
  case (1 a b c d rest)
  then have "length rest mod 4 = 0"
    by simp
  then show ?case using 1 by simp
qed simp_all

lemma stream_samples_append:
  "sample_bytes bits dvd length xs \<Longrightarrow>
   stream_samples bits (xs @ ys) = stream_samples bits xs @ stream_samples bits ys"
  by (simp add: stream_samples_def sample_bytes_def samples_16_append samples_32_append dvd_eq_mod_eq_0 [of 4]
      split: if_splits)

lemma stream_samples_Nil [simp]: "stream_samples bits [] = []"
  by (simp add: stream_samples_def)

lemma supported_fields:
  assumes "supported_format info"
  shows "pi_BitsPerSample info = 16 \<and> pi_BlockAlign info = 4 \<or>
         pi_BitsPerSample info = 24 \<and> pi_BlockAlign info = 8" "pi_Channels info = 2"
  using assms by (auto simp: supported_format_def Let_def)

lemma supported_payload:
  assumes "supported_format info"
  shows "decode_payload info data = Some (stream_samples (pi_BitsPerSample info) data)"
    "unat (pi_BlockAlign info) = 2 * sample_bytes (pi_BitsPerSample info)"
    "4096 mod unat (pi_BlockAlign info) = 0" "48000 mod unat (pi_BlockAlign info) = 0"
  using supported_fields [OF assms]
  by (auto simp: decode_payload_def stream_samples_def sample_bytes_def Let_def)

section \<open>The ring under the client\<close>

text \<open>The ring of the driver without what a lease changes, and what stays the same during a stream.\<close>

abbreviation dw_ring :: "driver_world \<Rightarrow> pcm_ring" where
  "dw_ring w \<equiv> pcm_ring.truncate (dw_miniport w)"

definition ring_format :: "'a pcm_ring_scheme \<Rightarrow> u32 \<times> u16 \<times> u16 \<times> u32 \<times> u64 \<times> bool" where
  "ring_format r =
     (m_PcmSampleRate r, m_PcmChannels r, m_PcmBitsPerSample r, m_PcmBlockAlign r, m_PcmStreamEpoch r,
      m_PcmStreamActive r)"

lemma truncated:
  "pcm_contents (pcm_ring.truncate m) = pcm_contents m" "ring_format (pcm_ring.truncate m) = ring_format m"
  "pcm_ring_ok (pcm_ring.truncate m) = pcm_ring_ok m" "pcm_info (pcm_ring.truncate m) = pcm_info m"
  by (simp_all add: pcm_contents_def ring_format_def pcm_ring_ok_def pcm_info_def pcm_ring.truncate_def)

lemma pcm_read_truncate:
  "pcm_read capacity (pcm_ring.truncate m) =
     (let (m', result) = pcm_read capacity m in (pcm_ring.truncate m', result))"
  by (simp add: pcm_read_def Let_def pcm_info_def pcm_ring.truncate_def)

lemma pcm_read_format: "ring_format (fst (pcm_read capacity m)) = ring_format m"
  by (simp add: pcm_read_def Let_def ring_format_def)

lemma pcm_read_header:
  assumes "snd (pcm_read capacity m) = Some (header, bytes)"
  shows "rh_InfoBeforeRead header = pcm_info m"
    "unat (rh_BytesReturned header) =
       readable (m_PcmBlockAlign m) capacity (unat (m_PcmRingAvailableBytes m))" "m_PcmBlockAlign m \<noteq> 0"
  using assms by (auto simp: pcm_read_def Let_def bytes_to_read split: if_splits)

text \<open>A read takes whole frames off the front of the ring, at most 4096 bytes.\<close>

lemma pcm_read_takes:
  assumes "pcm_ring_ok m" "snd (pcm_read capacity m) = Some (header, bytes)"
  defines "n \<equiv> readable (m_PcmBlockAlign m) capacity (length (pcm_contents m))"
  shows "bytes = take n (pcm_contents m)" "pcm_contents (fst (pcm_read capacity m)) = drop n (pcm_contents m)"
    "length bytes = n" "unat (rh_BytesReturned header) = n" "pcm_ring_ok (fst (pcm_read capacity m))"
proof -
  note header = pcm_read_header [OF assms(2)]
  have "(fifo_of (fst (pcm_read capacity m)), Some bytes) = fifo_step (Read capacity) (fifo_of m)"
    using pcm_read_correct(2) [OF assms(1), of capacity] assms(2) by simp
  then show "bytes = take n (pcm_contents m)"
    "pcm_contents (fst (pcm_read capacity m)) = drop n (pcm_contents m)"
    using header(3) by (simp_all add: n_def Let_def fifo_of_def)
  moreover have "n \<le> length (pcm_contents m)"
    by (simp add: n_def readable_def Let_def)
  ultimately show "length bytes = n"
    by (simp add: min_absorb2)
  show "unat (rh_BytesReturned header) = n" "pcm_ring_ok (fst (pcm_read capacity m))"
    using header(2) pcm_read_correct(1) [OF assms(1)] by (simp_all add: n_def)
qed

text \<open>The answer of the read handler: what the ring gives, or an error with the ring as it was.\<close>

lemma read_handler_ring:
  "case PropertyHandlerPcmRead request time m of (m', answer) \<Rightarrow>
     (\<exists>header bytes. answer = Answer STATUS_SUCCESS (72 + rh_BytesReturned header) (Some (header, bytes)) \<and>
        snd (pcm_read (rq_ValueSize request - 72) m) = Some (header, bytes) \<and>
        pcm_ring.truncate m' = pcm_ring.truncate (fst (pcm_read (rq_ValueSize request - 72) m))) \<or>
     \<not> answered answer \<and> pcm_ring.truncate m' = pcm_ring.truncate m"
proof -
  let ?n = "rq_ValueSize request - 72"
  have leased:
    "case leased_read request client time m of (m', answer) \<Rightarrow>
       (\<exists>header bytes. answer = Answer STATUS_SUCCESS (72 + rh_BytesReturned header) (Some (header, bytes)) \<and>
          snd (pcm_read ?n m) = Some (header, bytes) \<and>
          pcm_ring.truncate m' = pcm_ring.truncate (fst (pcm_read ?n m))) \<or>
       \<not> answered answer \<and> pcm_ring.truncate m' = pcm_ring.truncate m" for client
  proof -
    obtain m2 answer where read: "pcm_read ?n m = (m2, answer)"
      by (cases "pcm_read ?n m")
    have refused: "pcm_ring.truncate m2 = pcm_ring.truncate m" if "answer = None"
      using pcm_read_none [of ?n m] that by (simp add: read)
    show ?thesis
      using refused
      by (auto simp: leased_read_def Let_def pcm_read_frame(2) read end_read_def
          pcm_ring.truncate_def split: prod.splits option.splits)
  qed
  show ?thesis
  proof (cases "rq_Requestor request")
    case None
    then show ?thesis
      using read_handler_anonymous [OF None] by (simp add: case_prod_beta)
  next
    case (Some client)
    then show ?thesis
      using read_handler_checks [OF Some, of time m] leased [of client]
      by (auto simp: case_prod_beta)
  qed
qed

section \<open>One drain, and one millisecond of play\<close>

text \<open>
  The state of a client that reads a running stream: a format it supports, the samples in its queue of
  the stream's epoch, whole frames in the ring, and room for two more reads of what may be played.
\<close>

definition polls :: "nat \<Rightarrow> driver_world native_state \<Rightarrow> bool" where
  "polls room = (\<lambda>(s, w).
     pcm_ring_ok (dw_ring w) \<and> m_PcmStreamActive (dw_ring w) \<and> supported_format (pcm_info (dw_ring w)) \<and>
     unat (m_PcmBlockAlign (dw_ring w)) dvd length (pcm_contents (dw_ring w)) \<and>
     length (pcm_contents (dw_ring w)) + room \<le> 48000 \<and>
     np_fifo_epoch s = m_PcmStreamEpoch (dw_ring w) \<and> \<not> np_apply_endpoint_volume s)"

text \<open>What the client has still to deliver.\<close>

definition pending :: "driver_world native_state \<Rightarrow> ieee list" where
  "pending = (\<lambda>(s, w).
     np_fifo s @ stream_samples (m_PcmBitsPerSample (dw_ring w)) (pcm_contents (dw_ring w)))"

lemma supported_ring:
  assumes "supported_format (pcm_info r)"
  shows "unat (m_PcmBlockAlign r) = 2 * sample_bytes (m_PcmBitsPerSample r)"
    "4096 mod unat (m_PcmBlockAlign r) = 0" "48000 mod unat (m_PcmBlockAlign r) = 0"
    "m_PcmBlockAlign r \<noteq> 0"
  using supported_payload(2-4) [OF assms] supported_fields [OF assms] by (auto simp: pcm_info_def)

lemma supported_same_format:
  "ring_format r' = ring_format r \<Longrightarrow> supported_format (pcm_info r') = supported_format (pcm_info r)"
  by (simp add: ring_format_def supported_format_def pcm_info_def)

lemma driver_read:
  obtains (refused) error w1 where
    "nd_query_read (driver_device client win32 pow10 volume played) w = (Inr error, w1)"
    "dw_ring w1 = dw_ring w" "dw_tick w1 = dw_tick w"
  | (given) header bytes w1 where
    "nd_query_read (driver_device client win32 pow10 volume played) w = (Inl (Some (header, bytes)), w1)"
    "snd (pcm_read 4096 (dw_ring w)) = Some (header, bytes)" "dw_ring w1 = fst (pcm_read 4096 (dw_ring w))"
    "dw_tick w1 = dw_tick w"
proof -
  let ?request = "get_request client (72 + 4096)"
  obtain m answer where handled:
    "PropertyHandlerPcmRead ?request (interrupt_time w) (dw_miniport w) = (m, answer)"
    by (cases "PropertyHandlerPcmRead ?request (interrupt_time w) (dw_miniport w)")
  have query: "nd_query_read (driver_device client win32 pow10 volume played) w =
      (query_answer win32 answer, w\<lparr>dw_miniport := m\<rparr>)"
    using handled by (simp add: driver_device_def)
  have room: "rq_ValueSize ?request - 72 = 4096"
    by (simp add: get_request_def)
  have ring: "pcm_read 4096 (dw_ring w) =
      (case pcm_read 4096 (dw_miniport w) of (m', result) \<Rightarrow> (pcm_ring.truncate m', result))"
    by (simp add: pcm_read_truncate)
  show thesis
    using read_handler_ring [of ?request "dw_miniport w" "interrupt_time w"]
    unfolding handled room prod.case
  proof (elim disjE exE conjE)
    fix header bytes
    assume "answer = Answer STATUS_SUCCESS (72 + rh_BytesReturned header) (Some (header, bytes))"
      "snd (pcm_read 4096 (dw_miniport w)) = Some (header, bytes)"
      "pcm_ring.truncate m = pcm_ring.truncate (fst (pcm_read 4096 (dw_miniport w)))"
    then show thesis
      by (intro given [of header bytes "w\<lparr>dw_miniport := m\<rparr>"])
        (simp_all add: query ring case_prod_beta)
  next
    assume "\<not> answered answer" "pcm_ring.truncate m = dw_ring w"
    moreover from this(1) obtain error where "query_answer win32 answer = Inr error"
      by (cases answer) (auto simp: answered_def)
    ultimately show thesis
      by (intro refused [of error "w\<lparr>dw_miniport := m\<rparr>"]) (simp_all add: query)
  qed
qed

lemma pcm_info_fields:
  "pi_BlockAlign (pcm_info r) = m_PcmBlockAlign r" "pi_BitsPerSample (pcm_info r) = m_PcmBitsPerSample r"
  "pi_StreamEpoch (pcm_info r) = m_PcmStreamEpoch r"
  by (simp_all add: pcm_info_def)

lemma driver_reserves: "nd_reserve (driver_device client win32 pow10 volume played) n w = (True, w)"
  by (simp add: driver_device_def)

text \<open>A drain moves samples from the ring to the queue, in order; a read that takes less than 4096 bytes
  has emptied the ring.\<close>

lemma drain_moves:
  assumes "polls 4096 (s, w)" "drain_driver (driver_device client win32 pow10 volume played) (s, w) = (status, s1, w1)"
  shows "polls (if status = NATIVE_PCM_SOURCE_OK then 8192 else 4096) (s1, w1)" "pending (s1, w1) = pending (s, w)"
    "ring_format (dw_ring w1) = ring_format (dw_ring w)" "dw_tick w1 = dw_tick w"
proof -
  let ?dev = "driver_device client win32 pow10 volume played"
  let ?r = "dw_ring w"
  let ?goal = "polls (if status = NATIVE_PCM_SOURCE_OK then 8192 else 4096) (s1, w1) \<and>
    pending (s1, w1) = pending (s, w) \<and>
    ring_format (dw_ring w1) = ring_format (dw_ring w) \<and> dw_tick w1 = dw_tick w"
  have ok: "pcm_ring_ok ?r" "supported_format (pcm_info ?r)" "length (pcm_contents ?r) \<le> 43904"
    "unat (m_PcmBlockAlign ?r) dvd length (pcm_contents ?r)" "np_fifo_epoch s = m_PcmStreamEpoch ?r"
    using assms(1) by (simp_all add: polls_def)
  note align = supported_ring [OF ok(2)]
  have ?goal
  proof (rule driver_read [of client win32 pow10 volume played w])
    fix error w2
    assume "nd_query_read ?dev w = (Inr error, w2)" "dw_ring w2 = ?r" "dw_tick w2 = dw_tick w"
    then show ?goal
      using assms by (auto simp: drain_driver_def query_property_def polls_def pending_def)
  next
    fix header bytes w2
    assume read: "nd_query_read ?dev w = (Inl (Some (header, bytes)), w2)"
      "snd (pcm_read 4096 ?r) = Some (header, bytes)" "dw_ring w2 = fst (pcm_read 4096 ?r)"
      "dw_tick w2 = dw_tick w"
    define n where "n = readable (m_PcmBlockAlign ?r) 4096 (length (pcm_contents ?r))"
    note takes = pcm_read_takes [OF ok(1) read(2), folded n_def]
    have n: "n = min 4096 (length (pcm_contents ?r))"
      using align(2) by (simp add: n_def readable_def Let_def)
    have frames: "unat (m_PcmBlockAlign ?r) dvd n"
      using align(2) ok(4) by (simp add: n min_def dvd_eq_mod_eq_0)
    have format: "ring_format (dw_ring w2) = ring_format ?r"
      by (simp only: read(3) pcm_read_format)
    have whole: "rh_BytesReturned header mod m_PcmBlockAlign ?r = 0"
      using frames takes(4) by (metis dvd_eq_mod_eq_0 unat_eq_zero unat_mod)
    have halves: "sample_bytes (m_PcmBitsPerSample ?r) dvd n"
      using frames align(1) by (metis dvd_mult_right)
    have drained: "drain_driver ?dev (s, w) =
      (NATIVE_PCM_SOURCE_OK,
       s\<lparr>np_last_error := 0, np_info := (pcm_info ?r)\<lparr>pi_AvailableBytes := rh_AvailableBytesAfterRead header\<rparr>,
         np_fifo := np_fifo s @ stream_samples (m_PcmBitsPerSample ?r) bytes\<rparr>, w2)"
      using ok(2,5) pcm_read_header(1) [OF read(2)] takes(3,4) whole
      by (simp add: drain_driver_def query_property_def read(1) Let_def supported_payload(1) [OF ok(2)]
          pcm_info_fields driver_reserves)
    have "stream_samples (m_PcmBitsPerSample ?r) (pcm_contents ?r) =
        stream_samples (m_PcmBitsPerSample ?r) (take n (pcm_contents ?r) @ drop n (pcm_contents ?r))"
      by (simp only: append_take_drop_id)
    also have "\<dots> = stream_samples (m_PcmBitsPerSample ?r) bytes @
        stream_samples (m_PcmBitsPerSample ?r) (drop n (pcm_contents ?r))"
      using halves by (subst stream_samples_append) (simp_all add: takes(1) n)
    finally show ?goal
      using assms format takes(2,5) ok frames read(3,4) drained n supported_same_format [OF format]
      by (auto simp: polls_def pending_def ring_format_def dvd_diff_nat simp del: length_pcm_contents)
  qed
  then show "polls (if status = NATIVE_PCM_SOURCE_OK then 8192 else 4096) (s1, w1)"
    "pending (s1, w1) = pending (s, w)"
    "ring_format (dw_ring w1) = ring_format (dw_ring w)" "dw_tick w1 = dw_tick w"
    by blast+
qed

lemma PushPcm_truncate: "pcm_ring.truncate (PushPcm Data m) = PushPcm Data (pcm_ring.truncate m)"
  by (simp add: PushPcm_def push_block_def Let_def pcm_ring.truncate_def)

lemma PushPcm_format: "ring_format (PushPcm Data m) = ring_format m"
  by (simp add: PushPcm_def push_block_def Let_def ring_format_def)

text \<open>The samples of what is played in the millisecond \<open>k\<close>.\<close>

definition played_samples :: "(nat \<Rightarrow> bytes) \<Rightarrow> 'a pcm_ring_scheme \<Rightarrow> nat \<Rightarrow> ieee list" where
  "played_samples played r k =
     stream_samples (m_PcmBitsPerSample r) (whole_frames (m_PcmBlockAlign r) (played k))"

lemma length_whole_frames: "length (whole_frames align Data) \<le> length Data"
  by (simp add: whole_frames_def Let_def)

lemma play_appends:
  assumes "polls 8192 (s, w)" "length (played (unat (dw_tick w))) \<le> 4096"
  shows "polls 4096 (s, play_ms played w)"
    "pending (s, play_ms played w) = pending (s, w) @ played_samples played (dw_ring w) (unat (dw_tick w))"
    "ring_format (dw_ring (play_ms played w)) = ring_format (dw_ring w)"
proof -
  let ?r = "dw_ring w" and ?D = "played (unat (dw_tick w))"
  let ?W = "whole_frames (m_PcmBlockAlign (dw_ring w)) ?D"
  have ok: "pcm_ring_ok ?r" "supported_format (pcm_info ?r)" "m_PcmStreamActive ?r"
    "unat (m_PcmBlockAlign ?r) dvd length (pcm_contents ?r)" "length (pcm_contents ?r) \<le> 39808"
    using assms(1) by (simp_all add: polls_def)
  note align = supported_ring [OF ok(2)]
  have ring: "dw_ring (play_ms played w) = PushPcm ?D ?r"
    by (simp add: play_ms_def PushPcm_truncate)
  have len: "length ?W \<le> 4096"
    using length_whole_frames [of "m_PcmBlockAlign ?r" ?D] assms(2) by simp
  have pushed: "pcm_ring_ok (PushPcm ?D ?r)" "pcm_contents (PushPcm ?D ?r) = pcm_contents ?r @ ?W"
    using PushPcm_correct(1,2) [OF ok(1), of ?D] ok(3,5) align(4) len
    by (simp_all add: fifo_of_def keep_short del: length_pcm_contents)
  have format: "ring_format (PushPcm ?D ?r) = ring_format ?r"
    by (rule PushPcm_format)
  have whole: "unat (m_PcmBlockAlign ?r) dvd length ?W"
    by (rule whole_frames_dvd)
  have samples: "sample_bytes (m_PcmBitsPerSample ?r) dvd length (pcm_contents ?r)"
    using ok(4) align(1) by (metis dvd_mult_right)
  show "polls 4096 (s, play_ms played w)"
    using assms(1) pushed whole len format supported_same_format [OF format]
    by (auto simp: polls_def ring ring_format_def simp del: length_pcm_contents)
  show "pending (s, play_ms played w) = pending (s, w) @ played_samples played ?r (unat (dw_tick w))"
    using pushed(2) format samples
    by (simp add: pending_def ring played_samples_def stream_samples_append ring_format_def
        del: length_pcm_contents)
  show "ring_format (dw_ring (play_ms played w)) = ring_format ?r"
    by (simp only: ring format)
qed

section \<open>A whole read\<close>

text \<open>The refresh of the volume does not touch what is read.\<close>

lemma refresh_frame:
  assumes "refresh_endpoint_volume (driver_device client win32 pow10 volume played) force (s, w) = (s1, w1)"
  shows "np_fifo s1 = np_fifo s" "np_fifo_epoch s1 = np_fifo_epoch s"
    "np_apply_endpoint_volume s1 = np_apply_endpoint_volume s" "w1 = w"
  using assms
  by (auto simp: refresh_endpoint_volume_def refresh_bound_volume_def try_bind_endpoint_volume_def
      driver_device_def Let_def split: if_splits option.splits)

definition heard :: "(nat \<Rightarrow> bytes) \<Rightarrow> 'a pcm_ring_scheme \<Rightarrow> u64 \<Rightarrow> u64 \<Rightarrow> ieee list" where
  "heard played r from until = concat (map (played_samples played r) [unat from..<unat until])"

lemma heard_same_format:
  "ring_format r' = ring_format r \<Longrightarrow> heard played r' t u = heard played r t u"
proof -
  assume "ring_format r' = ring_format r"
  then have "played_samples played r' = played_samples played r"
    by (simp add: fun_eq_iff played_samples_def ring_format_def)
  then show ?thesis by (simp add: heard_def)
qed

lemma heard_step:
  assumes "Suc (unat t) \<le> unat u" "unat (t + 1) = unat t + 1"
  shows "heard played r t u = played_samples played r (unat t) @ heard played r (t + 1) u"
  using assms by (simp add: heard_def upt_conv_Cons)

text \<open>The outcome of a read: it returns, what it delivers is the next of what was pending and played.\<close>

definition delivers ::
  "(nat \<Rightarrow> bytes) \<Rightarrow> nat \<Rightarrow> driver_world native_state \<Rightarrow>
   (native_pcm_source_status \<times> ieee list \<times> driver_world native_state) option \<Rightarrow> bool" where
  "delivers played requested_samples before outcome =
     (case outcome of
        None \<Rightarrow> False
      | Some (status, samples, after) \<Rightarrow>
          length samples = (if status = NATIVE_PCM_SOURCE_OK then requested_samples else 0) \<and>
          samples @ pending after =
            pending before @ heard played (dw_ring (snd before)) (dw_tick (snd before)) (dw_tick (snd after)) \<and>
          dw_tick (snd before) \<le> dw_tick (snd after) \<and> polls 4096 after)"

lemma delivers_enough:
  assumes "polls 4096 (s, w)" "length (np_fifo s) \<ge> requested_samples"
  shows "delivers played requested_samples (s, w)
    (read_loop (driver_device client win32 pow10 volume played) requested_samples deadline (s, w))"
proof -
  obtain s1 w1 where refreshed:
    "refresh_endpoint_volume (driver_device client win32 pow10 volume played) False (s, w) = (s1, w1)"
    by (cases "refresh_endpoint_volume (driver_device client win32 pow10 volume played) False (s, w)")
  note frame = refresh_frame [OF refreshed]
  show ?thesis
    using assms frame
    by (subst read_loop.simps)
      (simp add: deliver_samples_def refreshed delivers_def pending_def polls_def heard_def)
qed

lemma driver_clock:
  "nd_tick (driver_device client win32 pow10 volume played) w = (dw_tick w, w)"
  "nd_sleep (driver_device client win32 pow10 volume played) 1 w = play_ms played w"
  by (simp_all add: driver_device_def)

lemma unat_before: "t < u \<Longrightarrow> unat (t + 1) = unat t + 1" for t u :: u64
proof -
  have "unat u < 2 ^ LENGTH(64)" by (rule unsigned_less)
  then show "t < u \<Longrightarrow> unat (t + 1) = unat t + 1"
    by (simp add: word_less_nat_alt unat_word_ariths)
qed

lemma read_loop_delivers:
  assumes "\<And>k. length (played k) \<le> 4096" "polls 4096 (s, w)"
  shows "delivers played requested_samples (s, w)
    (read_loop (driver_device client win32 pow10 volume played) requested_samples deadline (s, w))"
  using assms(2)
proof (induction "unat deadline - unat (dw_tick w)" arbitrary: s w rule: less_induct)
  case less
  let ?dev = "driver_device client win32 pow10 volume played"
  show ?case
  proof (cases "length (np_fifo s) \<ge> requested_samples")
    case True
    then show ?thesis by (rule delivers_enough [OF less.prems])
  next
    case False
    obtain status s1 w1 where drained: "drain_driver ?dev (s, w) = (status, s1, w1)"
      by (cases "drain_driver ?dev (s, w)")
    note moved = drain_moves [OF less.prems drained]
    have polls1: "polls 4096 (s1, w1)"
      using moved(1) by (auto simp: polls_def split: if_splits)
    have unfold: "read_loop ?dev requested_samples deadline (s, w) =
      (if status \<noteq> NATIVE_PCM_SOURCE_OK then Some (status, [], s1, w1)
       else if length (np_fifo s1) \<ge> requested_samples
       then read_loop ?dev requested_samples deadline (s1, w1)
       else if dw_tick w1 \<ge> deadline
       then Some (NATIVE_PCM_SOURCE_TIMEOUT, [], fail_with WAIT_TIMEOUT_ERROR (s1, w1))
       else read_loop ?dev requested_samples deadline (s1, play_ms played w1))"
      using False by (subst read_loop.simps) (simp add: drained driver_clock [unfolded One_nat_def])
    have same: "delivers played requested_samples (s1, w1) outcome \<Longrightarrow>
        delivers played requested_samples (s, w) outcome" for outcome
      using moved heard_same_format [OF moved(3)]
      by (cases outcome) (simp_all add: delivers_def case_prod_beta)
    have stopped: "delivers played requested_samples (s1, w1) (Some (status', [], s2, w1))"
      if "status' \<noteq> NATIVE_PCM_SOURCE_OK" "polls 4096 (s2, w1)" "np_fifo s2 = np_fifo s1" for status' s2
      using that by (simp add: delivers_def heard_def pending_def)
    have slept: "delivers played requested_samples (s1, w1)
        (read_loop ?dev requested_samples deadline (s1, play_ms played w1))"
      if "status = NATIVE_PCM_SOURCE_OK" "dw_tick w1 < deadline"
    proof -
      note step = play_appends [OF moved(1) [unfolded if_P [OF that(1)]] assms(1)]
      have tick: "unat (dw_tick w1 + 1) = unat (dw_tick w1) + 1" "unat (dw_tick w1) < unat deadline"
        using unat_before [OF that(2)] that(2) by (simp_all add: word_less_nat_alt)
      have later: "dw_tick (play_ms played w1) = dw_tick w1 + 1"
        by (simp add: play_ms_def)
      have "delivers played requested_samples (s1, play_ms played w1)
          (read_loop ?dev requested_samples deadline (s1, play_ms played w1))"
        using less.hyps [OF _ step(1)] tick moved(4) by (simp add: later)
      then obtain status' samples after where result:
        "read_loop ?dev requested_samples deadline (s1, play_ms played w1) = Some (status', samples, after)"
        "length samples = (if status' = NATIVE_PCM_SOURCE_OK then requested_samples else 0)"
        "samples @ pending after = pending (s1, play_ms played w1) @
          heard played (dw_ring w1) (dw_tick w1 + 1) (dw_tick (snd after))"
        "dw_tick w1 + 1 \<le> dw_tick (snd after)" "polls 4096 after"
        using heard_same_format [OF step(3)]
        by (auto simp: delivers_def later split: option.splits prod.splits)
      then have after: "Suc (unat (dw_tick w1)) \<le> unat (dw_tick (snd after))"
        using tick(1) by (simp add: word_le_nat_alt)
      show ?thesis
        using result step(2) heard_step [OF after tick(1), of played "dw_ring w1"] after
        by (simp add: delivers_def word_le_nat_alt)
    qed
    show ?thesis
      unfolding unfold
      using same [OF stopped] same [OF slept] same [OF delivers_enough [OF polls1]] polls1
      by (auto simp: fail_with_def not_le polls_def)
  qed
qed

section \<open>A client with the lease\<close>

text \<open>The lease of the client on the ring, as a consumer, and not expired.\<close>

definition leased :: "u64 \<Rightarrow> driver_world \<Rightarrow> bool" where
  "leased client w =
     (let owner = m_PcmOwner (dw_miniport w)
      in client \<noteq> 0 \<and> po_OwnerId owner = client \<and> \<not> po_ReadActive owner \<and>
         po_Sources owner AND NATIVE_LDAC_PCM_OWNER_SOURCE_CONSUMER \<noteq> 0 \<and>
         \<not> NativeLdacPcmOwnerIsExpired owner (interrupt_time w) \<and>
         ls_State (m_NativeLdacLinkState (m_pAdapterCommon (dw_miniport w))) \<le> NativeLdacLinkStateStopping)"

lemma pcm_read_adapter:
  "m_pAdapterCommon (fst (pcm_read n m)) = m_pAdapterCommon m" for m :: CMiniportWaveRT
  by (simp add: pcm_read_def Let_def)

lemma leased_begin:
  assumes "leased client w" "interrupt_time w \<noteq> 0"
  shows "NativeLdacPcmOwnerBeginRead (m_PcmOwner (dw_miniport w)) client
      (ls_State (m_NativeLdacLinkState (m_pAdapterCommon (dw_miniport w)))) (interrupt_time w) =
    ((m_PcmOwner (dw_miniport w))\<lparr>po_ReadActive := True, po_LastUpdateTime100ns := interrupt_time w\<rparr>,
     NativeLdacPcmOwnerAccepted)"
  using assms
  by (auto simp: leased_def NativeLdacPcmOwnerBeginRead_def clear_expired_def Let_def not_less)

text \<open>Its reads are answered, and renew the lease.\<close>

lemma leased_query:
  assumes "leased client w" "interrupt_time w \<noteq> 0" "polls 4096 (s, w)"
  obtains header bytes w1 where
    "nd_query_read (driver_device client win32 pow10 volume played) w = (Inl (Some (header, bytes)), w1)"
    "leased client w1" "po_LastUpdateTime100ns (m_PcmOwner (dw_miniport w1)) = interrupt_time w1"
proof -
  let ?m = "dw_miniport w"
  have ring: "pcm_ring_ok ?m" "m_PcmBlockAlign ?m \<noteq> 0"
    using assms(3) supported_ring(4) [of ?m] by (simp_all add: polls_def truncated)
  then obtain header bytes where read: "snd (pcm_read 4096 ?m) = Some (header, bytes)"
    using pcm_read_correct(2) [OF ring(1), of 4096] by (auto simp: fifo_of_def Let_def)
  obtain m2 where m2: "pcm_read 4096 ?m = (m2, Some (header, bytes))"
    using read by (cases "pcm_read 4096 ?m") simp
  have frame: "m_PcmOwner m2 = m_PcmOwner ?m" "m_pAdapterCommon m2 = m_pAdapterCommon ?m"
    using pcm_read_frame(1) [of 4096 ?m] pcm_read_adapter [of 4096 ?m] by (simp_all add: m2)
  let ?owner = "(m_PcmOwner ?m)\<lparr>po_ReadActive := False, po_LastUpdateTime100ns := interrupt_time w\<rparr>"
  have held: "po_OwnerId (m_PcmOwner ?m) = client" "client \<noteq> 0" "\<not> po_ReadActive (m_PcmOwner ?m)"
    using assms(1) by (simp_all add: leased_def Let_def)
  have "nd_query_read (driver_device client win32 pow10 volume played) w =
      (Inl (Some (header, bytes)), w\<lparr>dw_miniport := m2\<lparr>m_PcmOwner := ?owner\<rparr>\<rparr>)"
    using held end_of_own_read [OF held(1,2)]
    by (simp add: driver_device_def PropertyHandlerPcmRead_def get_request_def size_checked_def
        leased_read_def leased_begin [OF assms(1,2)] Let_def pcm_read_frame(2) m2 end_read_def)
  moreover have "leased client (w\<lparr>dw_miniport := m2\<lparr>m_PcmOwner := ?owner\<rparr>\<rparr>)"
    using assms(1)
    by (simp add: leased_def Let_def frame NativeLdacPcmOwnerIsExpired_def interrupt_time_def)
  ultimately show thesis by (rule that) (simp add: interrupt_time_def)
qed

lemma leased_drain:
  assumes "leased client w" "interrupt_time w \<noteq> 0" "polls 4096 (s, w)"
    "drain_driver (driver_device client win32 pow10 volume played) (s, w) = (status, s1, w1)"
  shows "status = NATIVE_PCM_SOURCE_OK \<and> leased client w1 \<and>
    po_LastUpdateTime100ns (m_PcmOwner (dw_miniport w1)) = interrupt_time w1"
proof -
  let ?dev = "driver_device client win32 pow10 volume played"
  obtain header bytes w2 where query: "nd_query_read ?dev w = (Inl (Some (header, bytes)), w2)" "leased client w2"
    "po_LastUpdateTime100ns (m_PcmOwner (dw_miniport w2)) = interrupt_time w2"
    by (rule leased_query [OF assms(1-3)])
  have read: "snd (pcm_read 4096 (dw_ring w)) = Some (header, bytes)"
    by (rule driver_read [of client win32 pow10 volume played w]) (simp_all add: query(1))
  have ok: "pcm_ring_ok (dw_ring w)" "supported_format (pcm_info (dw_ring w))"
    "unat (m_PcmBlockAlign (dw_ring w)) dvd length (pcm_contents (dw_ring w))"
    "np_fifo_epoch s = m_PcmStreamEpoch (dw_ring w)"
    using assms(3) by (simp_all add: polls_def)
  note takes = pcm_read_takes [OF ok(1) read]
  have "unat (m_PcmBlockAlign (dw_ring w)) dvd
      readable (m_PcmBlockAlign (dw_ring w)) 4096 (length (pcm_contents (dw_ring w)))"
    using supported_ring(2) [OF ok(2)] ok(3) by (simp add: readable_def Let_def min_def dvd_eq_mod_eq_0)
  then have "rh_BytesReturned header mod m_PcmBlockAlign (dw_ring w) = 0"
    using takes(4) by (metis dvd_eq_mod_eq_0 unat_eq_zero unat_mod)
  then show ?thesis
    using assms(4) query(2,3) ok(2,4) pcm_read_header(1) [OF read] takes(3,4)
    by (auto simp: drain_driver_def query_property_def query(1) Let_def supported_payload(1) [OF ok(2)]
        pcm_info_fields driver_reserves)
qed

lemma PushPcm_owner:
  "m_PcmOwner (PushPcm Data m) = m_PcmOwner m" "m_pAdapterCommon (PushPcm Data m) = m_pAdapterCommon m"
  for m :: CMiniportWaveRT
  by (simp_all add: PushPcm_def push_block_def Let_def)

lemma leased_play:
  assumes "leased client w" "po_LastUpdateTime100ns (m_PcmOwner (dw_miniport w)) = interrupt_time w"
  shows "leased client (play_ms played w)"
  using assms
  by (simp add: leased_def play_ms_def PushPcm_owner NativeLdacPcmOwnerIsExpired_def interrupt_time_def Let_def
      distrib_right)

lemma refresh_world: "snd (deliver_samples (driver_device client win32 pow10 volume played) n (s, w)) = (s1, w1) \<Longrightarrow> w1 = w"
  using refresh_frame(4) [of client win32 pow10 volume played False s w]
  by (auto simp: deliver_samples_def Let_def split: prod.splits)

text \<open>Its read ends with the samples, or after the deadline.\<close>

definition on_time :: "u64 \<Rightarrow> u64 \<Rightarrow> (native_pcm_source_status \<times> ieee list \<times> driver_world native_state) option \<Rightarrow> bool" where
  "on_time client deadline outcome =
     (case outcome of
        None \<Rightarrow> False
      | Some (status, samples, s, w) \<Rightarrow>
          (status = NATIVE_PCM_SOURCE_OK \<or> status = NATIVE_PCM_SOURCE_TIMEOUT \<and> deadline \<le> dw_tick w) \<and>
          leased client w)"

lemma interrupt_time_positive:
  assumes "0 < dw_tick w" "unat (dw_tick w) < 2 ^ 50"
  shows "interrupt_time w \<noteq> 0"
proof -
  have "unat (interrupt_time w) = unat (dw_tick w) * 10000"
    using assms(2) by (simp add: interrupt_time_def unat_word_ariths)
  then show ?thesis
    using assms(1) by (auto simp: word_less_nat_alt)
qed

lemma read_loop_on_time:
  assumes "\<And>k. length (played k) \<le> 4096" "unat deadline < 2 ^ 50"
    "polls 4096 (s, w)" "leased client w" "0 < dw_tick w" "dw_tick w \<le> deadline"
  shows "on_time client deadline
    (read_loop (driver_device client win32 pow10 volume played) requested_samples deadline (s, w))"
  using assms(3-)
proof (induction "unat deadline - unat (dw_tick w)" arbitrary: s w rule: less_induct)
  case less
  let ?dev = "driver_device client win32 pow10 volume played"
  have enough: "on_time client deadline (read_loop ?dev requested_samples deadline (s', w'))"
    if "leased client w'" "length (np_fifo s') \<ge> requested_samples" for s' w'
    using that refresh_world [of client win32 pow10 volume played requested_samples s' w']
    by (subst read_loop.simps) (auto simp: on_time_def split: prod.splits)
  show ?case
  proof (cases "length (np_fifo s) \<ge> requested_samples")
    case True
    then show ?thesis by (rule enough [OF less.prems(2)])
  next
    case False
    have "unat (dw_tick w) < 2 ^ 50"
      using assms(2) less.prems(4) by (simp add: word_le_nat_alt)
    note time = interrupt_time_positive [OF less.prems(3) this]
    obtain status s1 w1 where drained: "drain_driver ?dev (s, w) = (status, s1, w1)"
      by (cases "drain_driver ?dev (s, w)")
    note moved = drain_moves [OF less.prems(1) drained]
    note leased = leased_drain [OF less.prems(2) time less.prems(1) drained]
    have "on_time client deadline (read_loop ?dev requested_samples deadline (s1, play_ms played w1))"
      if "dw_tick w1 < deadline"
    proof -
      have polls: "polls 8192 (s1, w1)"
        using moved(1) leased by simp
      have later: "unat (dw_tick (play_ms played w1)) = unat (dw_tick w1) + 1"
        using unat_before [OF that] by (simp add: play_ms_def)
      show ?thesis
        using less.hyps [OF _ play_appends(1) [OF polls assms(1)] leased_play] leased later that moved(4)
        by (simp add: word_less_nat_alt word_le_nat_alt)
    qed
    then show ?thesis
      using leased enough [of w1 s1] False
      by (subst read_loop.simps)
        (auto simp: drained driver_clock [unfolded One_nat_def] on_time_def fail_with_def not_le)
  qed
qed

section \<open>The guarantee\<close>

text \<open>A client that holds the lease gets every sample of the stream, once and in order.  With the
  handlers of the driver behind its property interface, and a stream that plays at most 4096 bytes per
  millisecond, a read of any number of frames returns: either with the samples it was asked for, or with none
  after its deadline.  In both cases what it delivers, followed by what is then pending in the queue and
  the ring, is what was pending before followed by what was played in the meantime, the lease is still
  held, and the state allows the next read.\<close>

lemma client_delivers_the_stream:
  assumes "\<And>k. length (played k) \<le> 4096" "polls 4096 (s, w)" "leased client w"
    "0 < frames" "frames \<le> (2 ^ 64 - 1) div 2" "0 < dw_tick w" "unat (dw_tick w) + unat timeout_ms < 2 ^ 50"
  shows "let outcome = native_pcm_source_read_f32_stereo
                (driver_device client win32 pow10 volume played) frames timeout_ms (s, w)
    in delivers played (2 * frames) (s, w) outcome \<and>
       on_time client (dw_tick w + ucast timeout_ms) outcome"
proof -
  let ?deadline = "dw_tick w + ucast timeout_ms"
  have "unat ?deadline = unat (dw_tick w) + unat timeout_ms"
  proof -
    have "unat (ucast timeout_ms :: u64) = unat timeout_ms"
      by (simp add: unsigned_ucast_eq take_bit_nat_eq_self order_less_le_trans [OF unsigned_less])
    then show ?thesis
      using assms(7) by (simp add: unat_word_ariths)
  qed
  then have "unat ?deadline < 2 ^ 50" "dw_tick w \<le> ?deadline"
    using assms(7) by (simp_all add: word_le_nat_alt)
  then show ?thesis
    using read_loop_delivers [OF assms(1,2), where requested_samples = "2 * frames"]
      read_loop_on_time [OF assms(1) _ assms(2,3,6), where requested_samples = "2 * frames"] assms(4,5)
    by (simp add: native_pcm_source_read_f32_stereo_def driver_clock mult.commute not_less)
qed

text \<open>A client of a stream of 48 kHz and 16 bits that has just begun.\<close>

definition example_owner :: NATIVE_LDAC_PCM_OWNER where
  "example_owner = fst (NativeLdacPcmOwnerAcquireConsumer NativeLdacPcmOwnerInitialize 7 1 10000)"

definition example_world :: driver_world where
  "example_world =
     \<lparr>dw_miniport = BeginPcmStream 48000 2 16 4 ((miniport_init 0 0)\<lparr>m_PcmOwner := example_owner\<rparr>),
      dw_tick = 1\<rparr>"

definition example_source :: native_pcm_source where
  "example_source = native_pcm_source_new\<lparr>np_fifo_epoch := 1, np_apply_endpoint_volume := False\<rparr>"

lemma example_polls: "polls 4096 (example_source, example_world)"
proof -
  have "dw_ring example_world = BeginPcmStream 48000 2 16 4 pcm_ring_init"
    by (simp add: example_world_def miniport_init_def BeginPcmStream_def pcm_ring_init_def pcm_ring.defs
        CMiniportWaveRT.defs)
  then show ?thesis
    using begin_stream [OF init_ok(1), of 48000 2 16 4]
    by (simp add: polls_def example_source_def native_pcm_source_new_def fifo_of_def pcm_info_def
        supported_format_def BeginPcmStream_def pcm_ring_init_def)
qed

lemma example_leased: "leased 7 example_world"
  by (simp add: leased_def example_world_def example_owner_def BeginPcmStream_def interrupt_time_def
      NativeLdacPcmOwnerAcquireConsumer_def NativeLdacPcmOwnerInitialize_def NativeLdacPcmOwnerClear_def
      clear_expired_def NativeLdacPcmOwnerIsExpired_def miniport_init_def pcm_ring.defs
      CMiniportWaveRT.defs pcm_ring_init_def adapter_init_def)

lemma client_delivers_the_stream_witness:
  "let outcome = native_pcm_source_read_f32_stereo
         (driver_device 7 (\<lambda>status. 5) (\<lambda>x. x) None (\<lambda>k. replicate 192 7)) 128 20
         (example_source, example_world)
   in delivers (\<lambda>k. replicate 192 7) 256 (example_source, example_world) outcome \<and>
      on_time 7 (dw_tick example_world + ucast (20 :: u32)) outcome"
  using client_delivers_the_stream [OF _ example_polls example_leased,
      of "\<lambda>k. replicate 192 7" 128 "20 :: u32" "\<lambda>status. 5" "\<lambda>x. x" None]
  by (simp add: example_world_def)

section \<open>The lease of the adapter\<close>

text \<open>The adapter believes to hold the lease exactly when its source does; without a source it holds none.\<close>

definition adapter_ok :: "V1TransportNativePcmSource \<Rightarrow> bool" where
  "adapter_ok s =
     (case na_source s of
        None \<Rightarrow> \<not> na_lease_acquired s
      | Some source \<Rightarrow> na_lease_acquired s = np_consumer_lease_acquired source)"

text \<open>No call but the two of the lease changes it.\<close>

lemma query_keeps_lease:
  "np_consumer_lease_acquired (fst (snd (query_property query a))) = np_consumer_lease_acquired (fst a)"
  by (cases a) (auto simp: query_property_def split: prod.splits sum.splits)

lemma set_keeps_lease:
  "np_consumer_lease_acquired (fst (snd (set_property set' a))) = np_consumer_lease_acquired (fst a)"
  by (cases a) (auto simp: set_property_def split: prod.splits option.splits)

lemma refresh_keeps_lease:
  "np_consumer_lease_acquired (fst (refresh_endpoint_volume dev force a)) = np_consumer_lease_acquired (fst a)"
  by (cases a) (auto simp: refresh_endpoint_volume_def refresh_bound_volume_def try_bind_endpoint_volume_def Let_def
      split: prod.splits option.splits)

lemma fail_keeps_lease [simp]:
  "np_consumer_lease_acquired (fst (fail_with error a)) = np_consumer_lease_acquired (fst a)"
  by (cases a) (simp add: fail_with_def)

lemma snapshot_keeps_lease:
  "np_consumer_lease_acquired (fst (snd (native_pcm_source_get_snapshot dev a))) = np_consumer_lease_acquired (fst a)"
proof -
  obtain answer s1 w1 where query: "query_property (nd_query_info dev) a = (answer, s1, w1)"
    by (cases "query_property (nd_query_info dev) a")
  then have "np_consumer_lease_acquired s1 = np_consumer_lease_acquired (fst a)"
    using query_keeps_lease [of "nd_query_info dev" a] by simp
  moreover have "np_consumer_lease_acquired (fst (refresh_endpoint_volume dev False (s1\<lparr>np_info := info\<rparr>, w1))) =
      np_consumer_lease_acquired s1" for info
    by (simp add: refresh_keeps_lease)
  ultimately show ?thesis
    by (simp add: native_pcm_source_get_snapshot_def query Let_def case_prod_beta split: option.split)
qed

lemma preferred_keeps_lease:
  "np_consumer_lease_acquired (fst (snd (native_pcm_source_get_preferred_format dev a))) =
     np_consumer_lease_acquired (fst a)"
  using query_keeps_lease [of "nd_query_preferred dev" a]
  by (auto simp: native_pcm_source_get_preferred_format_def fail_with_def split: prod.splits option.splits)

lemma set_preferred_keeps_lease:
  "np_consumer_lease_acquired (fst (snd (native_pcm_source_set_preferred_format dev rate bits a))) =
     np_consumer_lease_acquired (fst a)"
proof -
  obtain ok a1 where set': "set_property (nd_set_preferred dev (PREFERRED_FORMAT_zero\<lparr>pf_Size := 32,
      pf_AbiVersion := 1, pf_SampleRate := rate, pf_BitsPerSample := bits\<rparr>)) a = (ok, a1)"
    by (cases "set_property (nd_set_preferred dev (PREFERRED_FORMAT_zero\<lparr>pf_Size := 32,
      pf_AbiVersion := 1, pf_SampleRate := rate, pf_BitsPerSample := bits\<rparr>)) a")
  then have "np_consumer_lease_acquired (fst a1) = np_consumer_lease_acquired (fst a)"
    using set_keeps_lease [of _ a] by (metis fst_conv snd_conv)
  moreover have "np_consumer_lease_acquired (fst (snd (native_pcm_source_get_preferred_format dev a1))) =
      np_consumer_lease_acquired (fst a1)"
    by (rule preferred_keeps_lease)
  ultimately show ?thesis
    by (auto simp: native_pcm_source_set_preferred_format_def set' fail_with_def Let_def
        split: prod.splits sum.splits)
qed

lemma on_source_ok:
  assumes "adapter_ok s" "na_source s = Some source"
    "np_consumer_lease_acquired (fst (snd (call (source, w)))) = np_consumer_lease_acquired source"
  shows "adapter_ok (fst (snd (on_source call source (s, w))))"
    "na_source (fst (snd (on_source call source (s, w)))) \<noteq> None"
  using assms by (auto simp: adapter_ok_def on_source_def case_prod_beta)

lemma destroyed: "fst (destroy_source env a) = (fst a)\<lparr>na_source := None\<rparr>"
  by (cases a) (auto simp: destroy_source_def split: option.splits)

text \<open>A release leaves no source and no lease, whatever the driver answers, and a second one does nothing.\<close>

lemma adapter_release_final:
  "na_source (fst (snd (AdapterRelease env a))) = None"
  "adapter_ok (fst a) \<Longrightarrow> adapter_ok (fst (snd (AdapterRelease env a)))"
  "AdapterRelease env (snd (AdapterRelease env a)) = ((True, ERROR_SUCCESS), snd (AdapterRelease env a))"
  by (auto simp: AdapterRelease_def adapter_ok_def destroyed Let_def case_prod_beta split: option.splits)

lemma adapter_snapshot_ok:
  assumes "adapter_ok (fst a)"
  shows "adapter_ok (fst (snd (AdapterQuerySnapshot env a)))"
proof (cases "na_source (fst a)")
  case (Some source)
  have "adapter_ok (fst (snd (on_source (native_pcm_source_get_snapshot (se_device env)) source a)))"
    using on_source_ok(1) [of "fst a" source "native_pcm_source_get_snapshot (se_device env)" "snd a"]
      assms Some by (simp add: snapshot_keeps_lease)
  then show ?thesis
    using assms Some
    by (auto simp: AdapterQuerySnapshot_def split: prod.splits sum.splits)
qed (simp add: AdapterQuerySnapshot_def assms)

lemma adapter_format_ok:
  "adapter_ok (fst a) \<Longrightarrow> adapter_ok (fst (snd (AdapterQueryFormat env a)))"
  using adapter_snapshot_ok [of a env] by (simp add: AdapterQueryFormat_def case_prod_beta)

lemma drain_keeps_lease:
  "np_consumer_lease_acquired (fst (snd (drain_driver dev a))) = np_consumer_lease_acquired (fst a)"
  using query_keeps_lease [of "nd_query_read dev" a]
  by (auto simp: drain_driver_def Let_def fail_with_def split: prod.splits option.splits)

lemma deliver_keeps_lease:
  "np_consumer_lease_acquired (fst (snd (deliver_samples dev n a))) = np_consumer_lease_acquired (fst a)"
  using refresh_keeps_lease [of dev False a] by (simp add: deliver_samples_def Let_def case_prod_beta)

lemma read_loop_keeps_lease:
  "read_loop dev n deadline a = Some outcome \<Longrightarrow>
   np_consumer_lease_acquired (fst (snd (snd outcome))) = np_consumer_lease_acquired (fst a)"
proof (induction rule: read_loop.raw_induct [rotated, consumes 1, case_names step])
  case (step rec dev n deadline a outcome)
  obtain status1 s1 w1 where drained: "drain_driver dev a = (status1, s1, w1)"
    by (cases "drain_driver dev a")
  then have "np_consumer_lease_acquired s1 = np_consumer_lease_acquired (fst a)"
    using drain_keeps_lease [of dev a] by simp
  then show ?case
    using step deliver_keeps_lease [of dev n a]
    by (auto simp: drained fail_with_def split: if_splits prod.splits)
qed

lemma policy_ok:
  assumes "adapter_ok s"
  shows "adapter_ok (fst (RefreshEndpointVolumePolicy env (s, w)))"
    "na_source (fst (RefreshEndpointVolumePolicy env (s, w))) = None \<longleftrightarrow> na_source s = None"
  using assms
  by (auto simp: RefreshEndpointVolumePolicy_def adapter_ok_def native_pcm_source_set_apply_endpoint_volume_def
      split: option.splits prod.splits)

lemma adapter_read_ok:
  assumes "adapter_ok (fst a)" "AdapterReadFrames env n timeout_ms a = Some (answer, a')"
  shows "adapter_ok (fst a')"
proof (cases "na_source (fst a) = None \<or> \<not> na_lease_acquired (fst a)")
  case True
  then show ?thesis using assms by (simp add: AdapterReadFrames_def)
next
  case False
  define a1 where "a1 = RefreshEndpointVolumePolicy env a"
  have ok: "adapter_ok (fst a1)" "na_source (fst a1) \<noteq> None"
    using policy_ok [OF assms(1), of env "snd a"] False by (simp_all add: a1_def)
  then obtain source where source: "na_source (fst a1) = Some source" by blast
  obtain status samples source2 w2 where read:
    "native_pcm_source_read_f32_stereo (se_device env) n timeout_ms (source, snd a1) =
       Some (status, samples, source2, w2)"
    using assms(2) False source
    by (auto simp: AdapterReadFrames_def a1_def [symmetric] bind_eq_Some_conv)
  then have "np_consumer_lease_acquired source2 = np_consumer_lease_acquired source"
    by (auto simp: native_pcm_source_read_f32_stereo_def split: if_splits prod.splits
        dest!: read_loop_keeps_lease)
  then have ok2: "adapter_ok ((fst a1)\<lparr>na_source := Some source2\<rparr>)"
    using ok(1) by (simp add: adapter_ok_def source)
  show ?thesis
    using assms(2) False ok2 adapter_snapshot_ok [of "((fst a1)\<lparr>na_source := Some source2\<rparr>, w2)" env]
    by (auto simp: AdapterReadFrames_def a1_def [symmetric] source read case_prod_beta Let_def
        split: if_splits)
qed

text \<open>A call of the client that keeps the lease keeps the adapter well, and its source.\<close>

definition lease_neutral :: "('w native_state \<Rightarrow> 'a \<times> 'w native_state) \<Rightarrow> bool" where
  "lease_neutral call =
     (\<forall>a. np_consumer_lease_acquired (fst (snd (call a))) = np_consumer_lease_acquired (fst a))"

lemma lease_neutral_calls:
  "lease_neutral (native_pcm_source_get_snapshot dev)" "lease_neutral (native_pcm_source_get_preferred_format dev)"
  "lease_neutral (native_pcm_source_set_preferred_format dev rate bits)"
  by (simp_all add: lease_neutral_def snapshot_keeps_lease preferred_keeps_lease set_preferred_keeps_lease)

definition has_source :: "'w adapter \<Rightarrow> bool" where
  "has_source a = (adapter_ok (fst a) \<and> na_source (fst a) \<noteq> None \<and> \<not> na_lease_acquired (fst a))"

lemma on_source_flag [simp]:
  "na_lease_acquired (fst (snd (on_source call source a))) = na_lease_acquired (fst a)"
  by (cases a) (simp add: on_source_def case_prod_beta)

lemma neutral_call:
  assumes "has_source a" "lease_neutral call"
  shows "has_source (snd (on_source call (the (na_source (fst a))) a))"
proof -
  obtain s w where a: "a = (s, w)" by (cases a)
  from assms(1) obtain source where "na_source s = Some source"
    by (auto simp: has_source_def a)
  moreover have "np_consumer_lease_acquired (fst (snd (call (source, w)))) = np_consumer_lease_acquired source"
    using assms(2) by (simp add: lease_neutral_def)
  ultimately show ?thesis
    using assms(1) on_source_ok [of s source call w] by (simp add: has_source_def a)
qed

lemma request_keeps_source:
  assumes "has_source a"
  shows "has_source (snd (request_format env a))"
proof -
  let ?dev = "se_device env"
  obtain source where source: "na_source (fst a) = Some source"
    using assms by (auto simp: has_source_def)
  obtain x1 a1 where c1: "on_source (native_pcm_source_get_snapshot ?dev) source a = (x1, a1)"
    by (cases "on_source (native_pcm_source_get_snapshot ?dev) source a")
  have s1: "has_source a1"
    using neutral_call [OF assms lease_neutral_calls(1) [of ?dev]] by (simp add: source c1)
  obtain x2 a2 where c2:
    "on_source (native_pcm_source_get_preferred_format ?dev) (the (na_source (fst a1))) a1 = (x2, a2)"
    by (cases "on_source (native_pcm_source_get_preferred_format ?dev) (the (na_source (fst a1))) a1")
  have s2: "has_source a2"
    using neutral_call [OF s1 lease_neutral_calls(2) [of ?dev]] by (simp add: c2)
  have set_ok: "has_source (snd (on_source (native_pcm_source_set_preferred_format ?dev rate bits)
      (the (na_source (fst a'))) a'))" if "has_source a'" for rate bits a'
    by (rule neutral_call [OF that lease_neutral_calls(3)])
  show ?thesis
    using s1 s2 set_ok [OF s2] set_ok [OF set_ok [OF s2]]
    by (auto simp: request_format_def source c1 c2 Let_def case_prod_beta split: sum.splits)
qed

lemma await_keeps_source:
  "await_stream env deadline a = Some outcome \<Longrightarrow> has_source a \<Longrightarrow> has_source (snd outcome)"
proof (induction rule: await_stream.raw_induct [rotated, consumes 1, case_names step])
  case (step loop env deadline a outcome)
  obtain source where source: "na_source (fst a) = Some source"
    using step.prems by (auto simp: has_source_def)
  have "has_source (snd (on_source (native_pcm_source_get_snapshot (se_device env)) source a))"
    using neutral_call [OF step.prems lease_neutral_calls(1) [of "se_device env"]] by (simp add: source)
  then have "has_source (fst (snd (on_source (native_pcm_source_get_snapshot (se_device env)) source a)), w)" for w
    by (simp add: has_source_def)
  then show ?case
    using step.hyps step.IH
    by (auto simp: source Let_def case_prod_beta has_source_def
        split: sum.splits if_splits wait_outcome.splits)
qed

text \<open>A source is created without the lease.\<close>

lemma adopt_keeps_lease:
  "np_consumer_lease_acquired (fst (adopt_device dev info a)) = np_consumer_lease_acquired (fst a)"
  using query_keeps_lease [of "nd_query_preferred dev" "((fst a)\<lparr>np_info := info, np_fifo_epoch := pi_StreamEpoch info\<rparr>, snd a)"]
  by (simp add: adopt_device_def Let_def case_prod_beta)

lemma probe_keeps_lease:
  "np_consumer_lease_acquired (fst (snd (probe_device dev a))) = np_consumer_lease_acquired (fst a)"
  using query_keeps_lease [of "nd_query_info dev" a]
  by (auto simp: probe_device_def split: prod.splits option.splits)

lemma candidates_keep_lease:
  "np_consumer_lease_acquired (fst (snd (open_candidates dev details a))) = np_consumer_lease_acquired (fst a)"
proof (induction dev details a rule: open_candidates.induct)
  case (4 dev path rest s w)
  obtain error w1 where opened: "nd_create_file dev path w = (error, w1)" by (cases "nd_create_file dev path w")
  obtain info s2 w2 where probe: "probe_device dev (s, w1) = (info, s2, w2)" by (cases "probe_device dev (s, w1)")
  then have "np_consumer_lease_acquired s2 = np_consumer_lease_acquired s"
    using probe_keeps_lease [of dev "(s, w1)"] by simp
  then show ?case
    using 4 by (cases error; cases info) (simp_all add: opened probe adopt_keeps_lease)
qed simp_all

lemma initialize_keeps_lease:
  "np_consumer_lease_acquired (fst (initialize_endpoint_volume dev a)) = np_consumer_lease_acquired (fst a)"
  by (cases a) (auto simp: initialize_endpoint_volume_def try_bind_endpoint_volume_def
      refresh_bound_volume_def Let_def split: prod.splits option.splits)

lemma open_keeps_lease:
  "np_consumer_lease_acquired (fst (snd (open_interface dev a))) = np_consumer_lease_acquired (fst a)"
proof -
  obtain s w where a: "a = (s, w)" by (cases a)
  obtain details w1 where list: "nd_enumerate dev w = (details, w1)" by (cases "nd_enumerate dev w")
  show ?thesis
    by (cases details) (simp_all add: a list open_interface_def candidates_keep_lease)
qed

lemma created_without_lease:
  assumes "native_pcm_source_create dev w = (status, Some source, w1)"
  shows "\<not> np_consumer_lease_acquired source"
proof -
  obtain allocated w2 where new: "nd_new dev w = (allocated, w2)" by (cases "nd_new dev w")
  obtain opened s3 w3 where open': "open_interface dev (native_pcm_source_new, w2) = (opened, s3, w3)"
    by (cases "open_interface dev (native_pcm_source_new, w2)")
  have "\<not> np_consumer_lease_acquired s3"
    using open_keeps_lease [of dev "(native_pcm_source_new, w2)"] open'
    by (simp add: native_pcm_source_new_def)
  moreover have "source = fst (initialize_endpoint_volume dev (s3, w3))"
    using assms by (auto simp: native_pcm_source_create_def new open' case_prod_beta split: if_splits)
  ultimately show ?thesis using initialize_keeps_lease [of dev "(s3, w3)"] by simp
qed

lemma given_up: "has_source a \<Longrightarrow> adapter_ok (fst (snd (give_up env error a))) \<and> \<not> na_lease_acquired (fst (snd (give_up env error a)))"
  by (simp add: give_up_def destroyed has_source_def adapter_ok_def)

lemma acquired:
  assumes "has_source a" "acquire_lease env snapshot a = (answer, a')"
  shows "adapter_ok (fst a') \<and> na_lease_acquired (fst a') = isl answer"
proof -
  obtain source where source: "na_source (fst a) = Some source" "\<not> np_consumer_lease_acquired source"
    "\<not> na_lease_acquired (fst a)"
    using assms(1) by (auto simp: has_source_def adapter_ok_def)
  obtain time w1 where tick: "nd_tick (se_device env) (snd a) = (time, w1)"
    by (cases "nd_tick (se_device env) (snd a)")
  define generation :: u64 where "generation = push_bit 32 (ucast (se_process_id env)) OR (time AND 0xFFFFFFFF)"
  obtain status source2 w2 where acquire:
    "native_pcm_source_acquire_consumer (se_device env) generation (source, w1) = (status, source2, w2)"
    by (cases "native_pcm_source_acquire_consumer (se_device env) generation (source, w1)")
  have lease: "np_consumer_lease_acquired source2 = (status = NATIVE_PCM_SOURCE_OK)"
    using acquire source(2) set_keeps_lease [of "nd_set_lease (se_device env) (consumer_lease 1 generation)" "(source, w1)"]
    by (auto simp: native_pcm_source_acquire_consumer_def property_error_status_def split: if_splits prod.splits)
  let ?s2 = "(fst a)\<lparr>na_source := Some source2\<rparr>"
  have run: "acquire_lease env snapshot a =
      (if status \<noteq> NATIVE_PCM_SOURCE_OK then give_up env (source_error (?s2, w2)) (?s2, w2)
       else case se_performance_frequency env w2 of
              (Inr error, w3) \<Rightarrow> (Inr error, snd (AdapterRelease env (?s2\<lparr>na_lease_acquired := True\<rparr>, w3)))
            | (Inl frequency, w3) \<Rightarrow>
                (Inl (format_of_snapshot snapshot),
                 ?s2\<lparr>na_lease_acquired := True, na_pacing_frequency := frequency\<rparr>, w3))"
    using tick source(1) acquire
    by (simp add: acquire_lease_def on_source_def generation_def Let_def)
  show ?thesis
  proof (cases "status = NATIVE_PCM_SOURCE_OK")
    case False
    then show ?thesis
      using assms(2) source(3) unfolding run by (auto simp: give_up_def destroyed adapter_ok_def)
  next
    case True
    then have ok: "adapter_ok (?s2\<lparr>na_lease_acquired := True\<rparr>)" using lease by (simp add: adapter_ok_def)
    have "adapter_ok (fst (snd (AdapterRelease env (?s2\<lparr>na_lease_acquired := True\<rparr>, w3)))) \<and>
        \<not> na_lease_acquired (fst (snd (AdapterRelease env (?s2\<lparr>na_lease_acquired := True\<rparr>, w3))))" for w3
      using adapter_release_final(1) [of env "(?s2\<lparr>na_lease_acquired := True\<rparr>, w3)"]
        adapter_release_final(2) [of "(?s2\<lparr>na_lease_acquired := True\<rparr>, w3)" env] ok
      by (simp add: adapter_ok_def)
    then show ?thesis
      using assms(2) True lease unfolding run by (auto simp: adapter_ok_def split: prod.splits sum.splits)
  qed
qed

text \<open>A preparation that succeeds holds the lease, and one that fails leaves the adapter without it.\<close>

lemma adapter_prepare_ok:
  assumes "adapter_ok (fst a)" "na_source (fst a) = None" "AdapterPrepare env timeout_ms a = Some (answer, a')"
  shows "adapter_ok (fst a') \<and> na_lease_acquired (fst a') = isl answer"
proof -
  have free: "\<not> na_lease_acquired (fst a)" using assms(1,2) by (simp add: adapter_ok_def)
  obtain status created w1 where create: "native_pcm_source_create (se_device env) (snd a) = (status, created, w1)"
    by (cases "native_pcm_source_create (se_device env) (snd a)")
  show ?thesis
  proof (cases "timeout_ms = 0 \<or> created = None")
    case True
    then show ?thesis
      using assms free create by (cases "timeout_ms = 0") (auto simp: AdapterPrepare_def adapter_ok_def Let_def)
  next
    case False
    then obtain source where created: "created = Some source" by blast
    obtain s2 w2 where policy:
      "RefreshEndpointVolumePolicy env ((fst a)\<lparr>na_source := Some source\<rparr>, w1) = (s2, w2)"
      by (cases "RefreshEndpointVolumePolicy env ((fst a)\<lparr>na_source := Some source\<rparr>, w1)")
    let ?s3 = "s2\<lparr>na_source := map_option
      (native_pcm_source_set_apply_endpoint_volume (na_apply_endpoint_volume s2)) (na_source s2)\<rparr>"
    obtain error a4 where request:
      "(if na_requested_sample_rate_hz s2 \<noteq> 0 \<and> na_requested_bits_per_sample s2 \<noteq> 0
        then request_format env (?s3, w2) else (None, ?s3, w2)) = (error, a4)"
      by (meson prod.exhaust)
    obtain time w5 where tick: "nd_tick (se_device env) (snd a4) = (time, w5)"
      by (cases "nd_tick (se_device env) (snd a4)")
    have run: "AdapterPrepare env timeout_ms a =
        (case error of
           Some error \<Rightarrow> Some (give_up env error a4)
         | None \<Rightarrow>
             do {
               (reply, a6) \<leftarrow> await_stream env (time + ucast timeout_ms) (fst a4, w5);
               Some (case reply of Inr error \<Rightarrow> give_up env error a6
                     | Inl snapshot \<Rightarrow> acquire_lease env snapshot a6)
             })"
      using False assms(2) create created
      by (cases error) (simp_all add: AdapterPrepare_def policy request tick Let_def)
    have "has_source (?s3, w2)"
      using created_without_lease [of "se_device env" "snd a" status source w1] create created free policy
      by (auto simp: has_source_def adapter_ok_def RefreshEndpointVolumePolicy_def
          native_pcm_source_set_apply_endpoint_volume_def split: option.splits prod.splits)
    then have requested: "has_source a4"
      using request request_keeps_source [of "(?s3, w2)" env] by (auto split: if_splits)
    show ?thesis
    proof (cases error)
      case (Some error)
      then show ?thesis
        using assms(3) given_up [OF requested, of env error] by (auto simp: run give_up_def)
    next
      case None
      then obtain reply a6 where wait: "await_stream env (time + ucast timeout_ms) (fst a4, w5) = Some (reply, a6)"
        "(answer, a') = (case reply of Inr error \<Rightarrow> give_up env error a6 | Inl snapshot \<Rightarrow> acquire_lease env snapshot a6)"
        using assms(3) by (auto simp: run bind_eq_Some_conv)
      have "has_source (fst a4, w5)" using requested by (simp add: has_source_def)
      then have kept: "has_source a6" using await_keeps_source [OF wait(1)] by simp
      show ?thesis
      proof (cases reply)
        case (Inl snapshot)
        then show ?thesis using acquired [of a6 env snapshot answer a'] kept wait(2) by simp
      next
        case (Inr error)
        then show ?thesis
          using given_up [of a6 env error] kept wait(2) by (auto simp: give_up_def)
      qed
    qed
  qed
qed

end
