(* ===== verification/Spec2Isabelle.thy ===== *)
theory Spec2Isabelle
  imports Prelude Generation Lifecycle Hfp_Switch Endpoint_Selectors Hfp_Coordination
    Absolute_Volume Pass_Through Action_Mapper Text_Matching Action_Executor Trackers Handoff
    Ldac_Codec Avdtp Transport_Discovery Transport_Configuration Transport_Silence
    Pdo_Session Ledger Bth_Contracts Pdo_Arbitration Avrcp Avrcp_Control Ring_Buffers
    Event_Queues Pcm_Ring Audio_Owner Audio_Endpoint Native_Pcm_Source
    Ldac_Encoder Abr_Controller Ieee_Float Sent_Frame_Fade Linked_Limiter
    Pcm_Data Pcm_Signaling Pcm_Output Pcm_Session Pcm_Streaming Pcm_Facts
    Pcm_Source_Adapter Pcm_Delivery
begin

text \<open>
  \<^bold>\<open>A verification library for native LDAC streaming to a headset on Windows.\<close>

  \<^bold>\<open>The program.\<close>  A presence agent (\<open>src/agent\<close>) watches the headset's ACL connection, the demand
  for rendering, the microphone and the media sessions.  Its reducers decide when to start an engine
  process, when to open the LDAC transport and when to leave the link to the hands-free profile.  The
  transport sessions discover, configure and run a stream over AVDTP, either for one burst of silence
  or for the PCM a virtual audio endpoint (\<open>src/audio-endpoint\<close>) offers in a ring; the codec and
  packet formats are in \<open>src/protocol\<close>, the encoder and its bit-rate control in \<open>src/engine\<close>.  In a
  later design a kernel driver (\<open>src/direct-pdo\<close>) owns the channels; its contracts are pure state
  machines.  AVRCP runs beside the stream: the observer (\<open>src/protocol/src/avrcp.c\<close>), the kernel event
  queues (\<open>src/avrcp-sideband\<close>, \<open>src/avrcp-filter\<close>), and in the agent the reducers for absolute
  volume and pass-through commands, the mapper that turns them into actions, and the executor.

  \<^bold>\<open>Theories and code.\<close>
  \<^item> \<open>Prelude\<close>: machine integers, bytes and flag lemmas; \<open>Generation\<close>: the wrap-around order of ACL
    generations (locale \<open>generation_order\<close>); \<open>Ledger\<close> (\<open>resource_ledger\<close>, \<open>exclusive_lease\<close>) and
    \<open>Ring_Buffers\<close> (\<open>bounded_log\<close>): contracts that several components share and instantiate.
  \<^item> \<open>Lifecycle\<close>: \<open>v1_lifecycle.cpp\<close>; \<open>Hfp_Switch\<close>: \<open>v1_hfp_switch_state.cpp\<close>, the shadow state and
    the adapter; \<open>Hfp_Coordination\<close>: the poll of \<open>v1_presence_agent.cpp\<close> that composes both;
    \<open>Endpoint_Selectors\<close>: the three identity decisions; \<open>Trackers\<close>: render demand, open stability,
    bootstrap play, media control codes and the ACL event parser.
  \<^item> \<open>Absolute_Volume\<close>: \<open>avrcp_absolute_volume_state.cpp\<close>; \<open>Pass_Through\<close>:
    \<open>avrcp_passthrough_state.cpp\<close>; \<open>Action_Mapper\<close>, \<open>Text_Matching\<close>, \<open>Action_Executor\<close>: the mapper,
    the trace parsers and the executor with its replays; \<open>Handoff\<close>: the driver hand-off.
  \<^item> \<open>Ldac_Codec\<close>: \<open>ldac_codec.c\<close> and \<open>rtp_ldac.c\<close>; \<open>Avdtp\<close>: \<open>avdtp.c\<close>; \<open>Transport_Discovery\<close>,
    \<open>Transport_Configuration\<close>, \<open>Transport_Silence\<close>: the sessions of the same names over an abstract
    backend, the first of which also holds the interface of the backend.
  \<^item> \<open>Ldac_Encoder\<close>: \<open>ldac_encoder.c\<close>; \<open>Abr_Controller\<close>: \<open>abr_controller.c\<close>; \<open>Ieee_Float\<close>: single and
    double precision on exact rationals; \<open>Sent_Frame_Fade\<close> and \<open>Linked_Limiter\<close>: the envelope and the
    limiter of the PCM session.
  \<^item> \<open>Pcm_Data\<close>, \<open>Pcm_Signaling\<close>, \<open>Pcm_Output\<close>, \<open>Pcm_Session\<close>, \<open>Pcm_Streaming\<close>:
    \<open>v1_transport_pcm_session.cpp\<close>, from its records to \<open>RunV1TransportPcmBurstOnce\<close>, over an abstract
    backend, source, clock and LDAC library; \<open>Pcm_Facts\<close>: what a session does to them.
  \<^item> \<open>Pdo_Session\<close>, \<open>Bth_Contracts\<close>, \<open>Pdo_Arbitration\<close>: the contracts of \<open>src/direct-pdo/src\<close>.
  \<^item> \<open>Avrcp\<close>, \<open>Avrcp_Control\<close>, \<open>Event_Queues\<close>: \<open>avrcp.c\<close>, \<open>nativeldac_avrcp_control.c\<close> and the two
    queues.  \<open>Pcm_Ring\<close>, \<open>Audio_Owner\<close>, \<open>Audio_Endpoint\<close>: the PCM ring, the leases and the property
    handlers of the audio endpoint.  \<open>Native_Pcm_Source\<close>: \<open>native_pcm_source.cpp\<close>, the client of these
    handlers, with \<open>native_pcm_volume_logic.h\<close>; \<open>Pcm_Source_Adapter\<close>:
    \<open>v1_transport_pcm_source_adapter.cpp\<close>, the source of a PCM session; \<open>Pcm_Delivery\<close>: both run on the
    modelled driver.

  \<^bold>\<open>How the state corresponds.\<close>  A struct is a record with the fields of the source, an enumeration a
  datatype, \<open>uintN_t\<close> an N-bit word whose arithmetic wraps, a fixed buffer with its size the list of its
  valid bytes.  An operation takes the state and returns the new one with its answer; null checks of
  pointers that a caller always passes are dropped.  Interfaces whose code is not in the repository or
  is I/O are records of functions over a world of any type, so that a theorem holds whatever the
  other side answers: the transport backend, the LDAC library, the sinks, the device manager and the
  clock.  The worker loops of the kernel contracts are driven with the executed action as an argument.
  Where a session's calls matter, the interface is wrapped so that its world records them.

  \<^bold>\<open>What the lemmas show.\<close>  The reducers keep their invariants over every history; they open the transport
  at most as often as the events that grant attempts (a connection, and an HFP resume) allow.  From the
  start of an agent whose hands-free switch is enabled, over any number of connections, an open
  microphone silences LDAC, a stable release is needed to resume, and a call that ends without render
  demand strands the transport.  An observer that sees only the operations and the decisions finds
  the headset at the projection of the Windows volume.
  The kernel contracts stay consistent, drain on stop, reach the intent, balance channels, references
  and leases.  The PCM ring refines a queue and the event queues a bounded log.  Parsers and writers are
  inverse to each other.  Negotiations and sessions end and bracket every open with one close.  The
  limiter and the fade bound the samples, and a block the limiter refuses is left untouched, since no
  quieter peak has a smaller safe gain.  A client of the audio endpoint with the lease gets every sample
  of the stream once and in order; its adapter believes to hold the lease exactly when it does.  A PCM session sends one RTP stream through every pause and
  rebinding, and gives back the lease and the channel on every way out.  Where the code deviates from
  what it means to do, a theorem shows the behaviour and the manifest lists the finding.

  \<^bold>\<open>Bounds and termination.\<close>  A discovery makes at most 127 exchanges and a negotiation 129, by a measure
  on the state of the source; silence is at most 32 encoder calls for 4 packets; a dispatcher's worker
  runs at most three actions for an intent.  The consistency of the dispatcher is for fewer than
  \<open>2 ^ 32\<close> events, after which its generation wraps to 0.  Rings hold 48000 bytes, 64 and 128
  entries; leases expire after 30 and 15 seconds, a published link after 5; 50 clean windows restore the
  bit rate.  The limiter's search for a gain goes down by multiples of \<open>2 powi (-149)\<close> and so ends.  In a
  PCM session an exchange makes at most 4 transfers, a packet is tried 51 times, the source restarts 32
  times and at most 64 blocks flush the encoder; its waits for the source and its media loop go on as
  long as the environment keeps them going.  A loop without such a bound is a \<^theory_text>\<open>partial_function\<close> whose \<^const>\<open>None\<close> is not returning.

  \<^bold>\<open>Not modelled.\<close>  Processes, pipes, JSON and status files, COM and WinRT enumeration, command lines and the
  user interface; KMDF and PortCls glue, BRBs and work items, whose behaviour is the framework's; the
  sysvad sample code; probes and tools; the LDAC library.  Interleavings of threads are modelled only
  where the code splits an operation over several critical sections (\<open>Audio_Endpoint\<close>); elsewhere every
  operation runs under one lock or on one thread.
\<close>

end
